(* ===== verification/Prelude.thy ===== *)
theory Prelude imports Main "HOL-Library.Multiset" "HOL-Library.List_Lexorder" "HOL-Library.Char_ord" begin

text \<open>
  Shared vocabulary of the development: the error values that stand for the exceptions of
  server/core/errors.py and of pydantic, the result monad in which every fallible operation of
  the program is written, the string classes of the contracts package (packages/contracts) and
  small facts about lists, maps and results that the component theories use.
\<close>

section \<open>Errors and results\<close>

text \<open>
  One constructor per exception class the modelled code raises, carrying the message of the
  raise. \<open>ValidationError\<close> is pydantic's error for a model validator's
  \<open>raise ValueError(message)\<close>; \<open>FieldError\<close> is pydantic's error for a violated
  field constraint, carrying the name of the contract. \<open>PolicyViolationError\<close> is the gate's
  error (packages/policy/src/policy/engine.py).
\<close>

datatype error =
    FieldError string
  | ValidationError string
  | ValueError string
  | PolicyViolationError string "string list"
  | RevisionConflictError string
  | LeaseConflictError string
  | TransitionRejectedError string
  | RunNotFoundError string
  | ActiveRunConflictError string
  | IdempotencyConflictError string
  | StorageIntegrityError string
  | OutboxLeaseError string
  | AuthenticationError string
  | AuthorizationError string
  | ResourceNotFoundError string
  | ResourceConflictError string
  | ResourceSetupRequiredError string
  | ApprovalError string
  | PlaybookError string
  | CapabilityError string
  | RuntimeError string
  | TypeError string

type_synonym 'a result = "error + 'a"

text \<open>Sequencing: an error stops the computation, as an uncaught exception does.\<close>

definition bindr :: "'a result \<Rightarrow> ('a \<Rightarrow> 'b result) \<Rightarrow> 'b result" where
  "bindr r f = (case r of Inl e \<Rightarrow> Inl e | Inr x \<Rightarrow> f x)"

definition require :: "bool \<Rightarrow> error \<Rightarrow> unit result" where
  "require ok e = (if ok then Inr () else Inl e)"

definition is_ok :: "'a result \<Rightarrow> bool" where
  "is_ok r = (case r of Inl _ \<Rightarrow> False | Inr _ \<Rightarrow> True)"

named_theorems result_iff "inversion of results: when a computation returned a value or an error"

lemma bindr_simps [simp]:
  "bindr (Inl e) f = Inl e"
  "bindr (Inr x) f = f x"
  by (simp_all add: bindr_def)

lemma bindr_eq_Inr [result_iff]: "bindr r f = Inr y \<longleftrightarrow> (\<exists>x. r = Inr x \<and> f x = Inr y)"
  by (cases r) auto

lemma bindr_eq_Inl: "bindr r f = Inl e \<longleftrightarrow> r = Inl e \<or> (\<exists>x. r = Inr x \<and> f x = Inl e)"
  by (cases r) auto

lemma require_simps [simp]:
  "require True e = Inr ()"
  "require False e = Inl e"
  by (simp_all add: require_def)

lemma require_eq_Inr [result_iff]: "require b e = Inr u \<longleftrightarrow> b"
  by (simp add: require_def)

lemma require_eq_Inl [result_iff]: "require b e = Inl e' \<longleftrightarrow> \<not> b \<and> e' = e"
  by (auto simp: require_def)

lemma is_ok_simps [simp]:
  "is_ok (Inr x)" "\<not> is_ok (Inl e)"
  by (simp_all add: is_ok_def)

lemma is_ok_iff: "is_ok r \<longleftrightarrow> (\<exists>x. r = Inr x)"
  by (cases r) simp_all

lemma if_error_eq_Inr [result_iff]:
  "(if b then Inl e else r) = Inr y \<longleftrightarrow> \<not> b \<and> r = Inr y"
  by simp

lemma if_value_eq_Inr [result_iff]:
  "(if b then r else Inl e) = Inr y \<longleftrightarrow> b \<and> r = Inr y"
  by simp

lemma bindr_assoc: "bindr (bindr r f) g = bindr r (\<lambda>x. bindr (f x) g)"
  by (cases r) simp_all

section \<open>Loops over lists that may raise\<close>

fun mapr :: "('a \<Rightarrow> 'b result) \<Rightarrow> 'a list \<Rightarrow> 'b list result" where
  "mapr f [] = Inr []"
| "mapr f (x # xs) = bindr (f x) (\<lambda>y. bindr (mapr f xs) (\<lambda>ys. Inr (y # ys)))"

lemma mapr_cong [fundef_cong]:
  "xs = ys \<Longrightarrow> (\<And>x. x \<in> set ys \<Longrightarrow> f x = g x) \<Longrightarrow> mapr f xs = mapr g ys"
  by (induction xs arbitrary: ys) (auto simp: bindr_def split: sum.splits)

lemma mapr_eq_Inr: "mapr f xs = Inr ys \<longleftrightarrow> list_all2 (\<lambda>x y. f x = Inr y) xs ys"
  by (induction xs arbitrary: ys) (auto simp: bindr_eq_Inr list_all2_Cons1)

lemma mapr_total: "(\<And>x. x \<in> set xs \<Longrightarrow> f x = Inr (g x)) \<Longrightarrow> mapr f xs = Inr (map g xs)"
  by (induction xs) auto

section \<open>Strings\<close>

text \<open>
  The string classes of packages/contracts/src/contracts/base.py. Contracts strip surrounding
  white space before they check, so the strings of the model are the stripped ones.
\<close>

definition char_code :: "char \<Rightarrow> nat" where
  "char_code c = of_char c"

definition is_lower :: "char \<Rightarrow> bool" where
  "is_lower c \<longleftrightarrow> 97 \<le> char_code c \<and> char_code c \<le> 122"

definition is_digit :: "char \<Rightarrow> bool" where
  "is_digit c \<longleftrightarrow> 48 \<le> char_code c \<and> char_code c \<le> 57"

definition is_upper :: "char \<Rightarrow> bool" where
  "is_upper c \<longleftrightarrow> 65 \<le> char_code c \<and> char_code c \<le> 90"

definition identifier_ok :: "string \<Rightarrow> bool" where
  "identifier_ok s \<longleftrightarrow>
     (case s of [] \<Rightarrow> False
      | c # cs \<Rightarrow> 3 \<le> length s \<and> length s \<le> 128 \<and> is_lower c
                 \<and> list_all (\<lambda>d. is_lower d \<or> is_digit d \<or> d = CHR ''_'' \<or> d = CHR ''-'') cs)"

definition hex64 :: "string \<Rightarrow> bool" where
  "hex64 s \<longleftrightarrow> length s = 64
     \<and> list_all (\<lambda>d. is_digit d \<or> (97 \<le> char_code d \<and> char_code d \<le> 102)) s"

definition text_between :: "nat \<Rightarrow> nat \<Rightarrow> string \<Rightarrow> bool" where
  "text_between lo hi s \<longleftrightarrow> lo \<le> length s \<and> length s \<le> hi"

definition opt_ok :: "('a \<Rightarrow> bool) \<Rightarrow> 'a option \<Rightarrow> bool" where
  "opt_ok P x \<longleftrightarrow> (case x of None \<Rightarrow> True | Some y \<Rightarrow> P y)"

lemma opt_ok_simps [simp]:
  "opt_ok P None" "opt_ok P (Some y) = P y"
  by (simp_all add: opt_ok_def)

lemma char_classes_no_slash [simp]:
  "\<not> is_lower (CHR ''/'')" "\<not> is_digit (CHR ''/'')"
  by (simp_all add: is_lower_def is_digit_def char_code_def)

lemma identifier_no_slash: "identifier_ok s \<Longrightarrow> CHR ''/'' \<notin> set s"
  by (cases s) (auto simp: identifier_ok_def list_all_iff)

lemma identifier_nonempty: "identifier_ok s \<Longrightarrow> s \<noteq> []"
  by (auto simp: identifier_ok_def)

text \<open>Decimal text of an integer, as an f-string renders it.\<close>

definition digit_char :: "nat \<Rightarrow> char" where
  "digit_char n = char_of (48 + n)"

fun nat_text :: "nat \<Rightarrow> string" where
  "nat_text n = (if n < 10 then [digit_char n] else nat_text (n div 10) @ [digit_char (n mod 10)])"

declare nat_text.simps [simp del]

definition int_text :: "int \<Rightarrow> string" where
  "int_text i = (if i < 0 then CHR ''-'' # nat_text (nat (- i)) else nat_text (nat i))"

section \<open>Lists\<close>

lemma sort_key_map_sort: "map f (sort_key f xs) = sort (map f xs)"
  by (rule sym, rule properties_for_sort) simp_all

end
