(* ===== verification/Digest.thy ===== *)
theory Digest imports Prelude begin

text \<open>
  packages/policy/src/policy/digest.py: the canonical form of a contract and its digest, which
  bind plans, controls, commands and protected actions by value. Python values are the datatype
  \<open>pyval\<close>, the canonical form is \<open>json\<close>, and \<open>digest_text\<close> is the exact text that
  the program hashes. Two functions stay arguments: \<open>sha\<close>, SHA-256 in lower-case
  hexadecimal, and \<open>fmt\<close>, pydantic's rendering of a time stamp. The lemmas show that the
  text depends only on the value: not on the order in which a frozenset is enumerated, and not on
  the order in which the fields of a mapping were written. Floats are left out: no contract that
  is digested declares one.
\<close>

section \<open>Python values and JSON\<close>

datatype pykey = KeyStr string | KeyEnum string | KeyInt int

datatype pyval =
    PyNone
  | PyBool bool
  | PyInt int
  | PyStr string
  | PyEnum string
  | PyBytes string
  | PyTime int
  | PySet "pyval list"
  | PyList "pyval list"
  | PyDict "(pykey \<times> pyval) list"

datatype json =
    JNull
  | JBool bool
  | JInt int
  | JStr string
  | JList "json list"
  | JDict "(string \<times> json) list"

text \<open>\<open>str(raw_key.value if isinstance(raw_key, Enum) else raw_key)\<close>.\<close>

fun key_text :: "pykey \<Rightarrow> string" where
  "key_text (KeyStr s) = s"
| "key_text (KeyEnum s) = s"
| "key_text (KeyInt i) = int_text i"

section \<open>Rendering\<close>

text \<open>
  \<open>json.dumps\<close> with \<open>ensure_ascii=False\<close>, \<open>separators=(",", ":")\<close> and
  \<open>sort_keys=True\<close>: the escapes of the string encoder, then the structure.
\<close>

definition hex_digit :: "nat \<Rightarrow> char" where
  "hex_digit n = (if n < 10 then char_of (48 + n) else char_of (87 + n))"

definition escape_char :: "char \<Rightarrow> string" where
  "escape_char c =
     (if char_code c = 34 then [char_of (92::nat), c]
      else if char_code c = 92 then [c, c]
      else if char_code c = 10 then [char_of (92::nat), CHR ''n'']
      else if char_code c = 13 then [char_of (92::nat), CHR ''r'']
      else if char_code c = 9 then [char_of (92::nat), CHR ''t'']
      else if char_code c = 12 then [char_of (92::nat), CHR ''f'']
      else if char_code c = 8 then [char_of (92::nat), CHR ''b'']
      else if char_code c < 32
      then char_of (92::nat) # ''u00'' @ [hex_digit (char_code c div 16), hex_digit (char_code c mod 16)]
      else [c])"

definition quote_text :: "string \<Rightarrow> string" where
  "quote_text s = char_of (34::nat) # concat (map escape_char s) @ [char_of (34::nat)]"

fun join :: "string \<Rightarrow> string list \<Rightarrow> string" where
  "join sep [] = []"
| "join sep [x] = x"
| "join sep (x # y # ys) = x @ sep @ join sep (y # ys)"

fun json_text :: "json \<Rightarrow> string" where
  "json_text JNull = ''null''"
| "json_text (JBool b) = (if b then ''true'' else ''false'')"
| "json_text (JInt i) = int_text i"
| "json_text (JStr s) = quote_text s"
| "json_text (JList xs) = ''['' @ join '','' (map json_text xs) @ '']''"
| "json_text (JDict kvs) =
     ''{'' @ join '',''
       (map (\<lambda>(k, t). quote_text k @ '':'' @ t)
          (sort_key fst (map (\<lambda>(k, v). (k, json_text v)) kvs))) @ ''}''"

section \<open>Base64\<close>

text \<open>\<open>base64.b64encode\<close>, used for byte strings.\<close>

definition b64_char :: "nat \<Rightarrow> char" where
  "b64_char n =
     (if n < 26 then char_of (65 + n)
      else if n < 52 then char_of (71 + n)
      else if n < 62 then char_of (n - 4)
      else if n = 62 then CHR ''+''
      else CHR ''/'')"

fun b64_encode :: "string \<Rightarrow> string" where
  "b64_encode [] = []"
| "b64_encode [a] =
     [b64_char (char_code a div 4), b64_char (char_code a mod 4 * 16), CHR ''='', CHR ''='']"
| "b64_encode [a, b] =
     [b64_char (char_code a div 4),
      b64_char (char_code a mod 4 * 16 + char_code b div 16),
      b64_char (char_code b mod 16 * 4), CHR ''='']"
| "b64_encode (a # b # c # rest) =
     [b64_char (char_code a div 4),
      b64_char (char_code a mod 4 * 16 + char_code b div 16),
      b64_char (char_code b mod 16 * 4 + char_code c div 64),
      b64_char (char_code c mod 64)] @ b64_encode rest"

section \<open>Canonical form and digest\<close>

text \<open>The mapping loop of \<open>_canonical\<close>: a key that is already in the output is an error.\<close>

fun canonical_items :: "(pykey \<times> json) list \<Rightarrow> (string \<times> json) list \<Rightarrow> (string \<times> json) list result" where
  "canonical_items [] out = Inr out"
| "canonical_items ((k, v) # items) out =
     (if key_text k \<in> fst ` set out
      then Inl (ValueError ''canonical digest contains duplicate key'')
      else canonical_items items (out @ [(key_text k, v)]))"

fun canonical :: "(int \<Rightarrow> string) \<Rightarrow> pyval \<Rightarrow> json result" where
  "canonical fmt (PyEnum s) = Inr (JStr s)"
| "canonical fmt (PyDict kvs) =
     bindr (mapr (\<lambda>kv. bindr (canonical fmt (snd kv)) (\<lambda>j. Inr (fst kv, j))) kvs)
       (\<lambda>items. bindr (canonical_items items []) (\<lambda>out. Inr (JDict out)))"
| "canonical fmt (PySet xs) =
     bindr (mapr (canonical fmt) xs) (\<lambda>ys. Inr (JList (sort_key json_text ys)))"
| "canonical fmt (PyList xs) = bindr (mapr (canonical fmt) xs) (\<lambda>ys. Inr (JList ys))"
| "canonical fmt (PyBytes b) = Inr (JDict [(CHR 0x24 # ''bytes'', JStr (b64_encode b))])"
| "canonical fmt PyNone = Inr JNull"
| "canonical fmt (PyBool b) = Inr (JBool b)"
| "canonical fmt (PyInt i) = Inr (JInt i)"
| "canonical fmt (PyStr s) = Inr (JStr s)"
| "canonical fmt (PyTime t) = Inr (JStr (fmt t))"

definition digest_text :: "(int \<Rightarrow> string) \<Rightarrow> pyval \<Rightarrow> string result" where
  "digest_text fmt v = bindr (canonical fmt v) (\<lambda>j. Inr (json_text j))"

definition digest :: "(string \<Rightarrow> string) \<Rightarrow> (int \<Rightarrow> string) \<Rightarrow> pyval \<Rightarrow> string result" where
  "digest sha fmt v = bindr (digest_text fmt v) (\<lambda>t. Inr (sha t))"

text \<open>
  \<open>model_dump(exclude_none=True)\<close> of a contract: its fields by name, those that are None left
  out.
\<close>

definition dump_fields :: "(string \<times> pyval option) list \<Rightarrow> pyval" where
  "dump_fields fs = PyDict (map (\<lambda>(k, v). (KeyStr k, the v)) (filter (\<lambda>(k, v). v \<noteq> None) fs))"

section \<open>The digest depends on the value only\<close>

lemma mapr_mset:
  assumes "mset xs = mset ys" "mapr f xs = Inr us"
  shows "\<exists>vs. mapr f ys = Inr vs \<and> mset us = mset vs"
proof -
  define g where "g x = (case f x of Inr y \<Rightarrow> y | Inl _ \<Rightarrow> undefined)" for x
  have all: "f x = Inr (g x)" if "x \<in> set xs" for x
    using assms(2) that by (auto simp: mapr_eq_Inr g_def list_all2_conv_all_nth in_set_conv_nth)
  have "us = map g xs" using mapr_total [of xs f g] all assms(2) by simp
  moreover have "set ys = set xs" using assms(1) by (metis set_mset_mset)
  then have "mapr f ys = Inr (map g ys)" using all by (intro mapr_total) simp
  ultimately show ?thesis using assms(1) by (simp add: mset_map)
qed

lemma json_list_text: "json_text (JList (sort_key json_text ys)) = ''['' @ join '','' (sort (map json_text ys)) @ '']''"
  by (simp add: sort_key_map_sort)

lemma sort_key_fst_unique:
  assumes "mset xs = mset ys" "distinct (map fst xs)"
  shows "sort_key fst xs = sort_key fst ys"
  using assms by (intro sort_key_eq_sort_key) (auto simp: distinct_map)

lemma canonical_items_eq:
  "distinct (map fst out) \<Longrightarrow>
   canonical_items items out = Inr res \<longleftrightarrow>
     res = out @ map (\<lambda>(k, v). (key_text k, v)) items \<and> distinct (map fst res)"
proof (induction items arbitrary: out)
  case Nil
  then show ?case by auto
next
  case (Cons kv items)
  obtain k v where kv: "kv = (k, v)" by fastforce
  show ?case
  proof (cases "key_text k \<in> fst ` set out")
    case True
    then show ?thesis by (auto simp: kv)
  next
    case False
    then show ?thesis using Cons.prems Cons.IH [of "out @ [(key_text k, v)]"] by (auto simp: kv)
  qed
qed

text \<open>The text of a mapping is a function of the multiset of its (key, rendered value) pairs.\<close>

definition text_pairs :: "(string \<times> json) list \<Rightarrow> (string \<times> string) list" where
  "text_pairs xs = map (\<lambda>(k, v). (k, json_text v)) xs"

lemma map_fst_text_pairs [simp]: "map fst (text_pairs xs) = map fst xs"
  by (simp add: text_pairs_def case_prod_beta comp_def)

lemma json_dict_text_perm:
  assumes "mset (text_pairs xs) = mset (text_pairs ys)" "distinct (map fst xs)"
  shows "json_text (JDict xs) = json_text (JDict ys)"
proof -
  have "sort_key fst (text_pairs xs) = sort_key fst (text_pairs ys)"
    using assms by (intro sort_key_fst_unique) simp_all
  then show ?thesis by (simp add: text_pairs_def)
qed

section \<open>Values that differ only in enumeration order\<close>

text \<open>
  \<open>same_value v w\<close>: \<open>w\<close> is \<open>v\<close> with the elements of its sets and the entries of
  its mappings enumerated in another order, at any depth.
\<close>

inductive same_value :: "pyval \<Rightarrow> pyval \<Rightarrow> bool" where
  sv_refl: "same_value v v"
| sv_list: "list_all2 same_value xs ys \<Longrightarrow> same_value (PyList xs) (PyList ys)"
| sv_set: "list_all2 same_value xs zs \<Longrightarrow> mset zs = mset ys \<Longrightarrow> same_value (PySet xs) (PySet ys)"
| sv_dict: "list_all2 (\<lambda>a b. fst a = fst b \<and> same_value (snd a) (snd b)) kvs zs \<Longrightarrow>
     mset zs = mset kvs' \<Longrightarrow> same_value (PyDict kvs) (PyDict kvs')"

definition same_text :: "json \<Rightarrow> json \<Rightarrow> bool" where
  "same_text j j' \<longleftrightarrow> json_text j = json_text j'"

lemma mapr_related:
  assumes "list_all2 R xs ys" "mapr f xs = Inr us"
    and "\<And>x y u. R x y \<Longrightarrow> f x = Inr u \<Longrightarrow> \<exists>v. f y = Inr v \<and> S u v"
  shows "\<exists>vs. mapr f ys = Inr vs \<and> list_all2 S us vs"
  using assms(1,2)
proof (induction arbitrary: us rule: list_all2_induct)
  case Nil
  then show ?case by simp
next
  case (Cons x xs y ys)
  then obtain u us' where "f x = Inr u" "mapr f xs = Inr us'" "us = u # us'"
    by (auto simp: bindr_eq_Inr)
  with Cons.IH assms(3) [OF Cons.hyps(1)] show ?case by (fastforce simp: bindr_eq_Inr)
qed

lemma same_text_map: "list_all2 same_text us vs \<Longrightarrow> map json_text us = map json_text vs"
  by (induction rule: list_all2_induct) (simp_all add: same_text_def)

lemma same_text_set:
  assumes "list_all2 same_text us ws" "mset ws = mset vs"
  shows "json_text (JList (sort_key json_text us)) = json_text (JList (sort_key json_text vs))"
proof -
  have "mset (map json_text us) = mset (map json_text vs)"
    using same_text_map [OF assms(1)] assms(2) by (metis mset_map)
  then have "sort (map json_text us) = sort (map json_text vs)"
    by (metis mset_sort properties_for_sort sorted_sort)
  then show ?thesis using json_list_text by metis
qed

definition keyed_text :: "(pykey \<times> json) list \<Rightarrow> (string \<times> json) list" where
  "keyed_text items = map (\<lambda>(k, v). (key_text k, v)) items"

lemma canonical_items_Nil:
  "canonical_items items [] = Inr out \<longleftrightarrow> out = keyed_text items \<and> distinct (map fst out)"
  using canonical_items_eq [of "[]" items out] unfolding keyed_text_def by auto

lemma text_pairs_related:
  assumes "list_all2 (\<lambda>a b. fst a = fst b \<and> same_text (snd a) (snd b)) us ws"
  shows "text_pairs (keyed_text us) = text_pairs (keyed_text ws)"
  using assms
  by (induction rule: list_all2_induct)
    (auto simp: text_pairs_def keyed_text_def same_text_def split: prod.splits)

lemma canonical_dict_related:
  assumes "list_all2 (\<lambda>a b. fst a = fst b \<and> same_text (snd a) (snd b)) us ws" "mset ws = mset vs"
    and out: "canonical_items us [] = Inr out"
  shows "\<exists>out'. canonical_items vs [] = Inr out' \<and> same_text (JDict out) (JDict out')"
proof -
  have o: "out = keyed_text us" "distinct (map fst out)"
    using out by (auto simp: canonical_items_Nil)
  have "mset (text_pairs (keyed_text ws)) = mset (text_pairs (keyed_text vs))"
    using assms(2) by (simp add: keyed_text_def text_pairs_def)
  then have m: "mset (text_pairs out) = mset (text_pairs (keyed_text vs))"
    using text_pairs_related [OF assms(1)] o(1) by metis
  then have "mset (map fst out) = mset (map fst (keyed_text vs))"
    by (metis map_fst_text_pairs mset_map)
  then have "distinct (map fst (keyed_text vs))" using o(2) by (metis mset_eq_imp_distinct_iff)
  then have "canonical_items vs [] = Inr (keyed_text vs)"
    by (simp add: canonical_items_Nil)
  moreover have "same_text (JDict out) (JDict (keyed_text vs))"
    using json_dict_text_perm [OF m o(2)] by (simp add: same_text_def)
  ultimately show ?thesis by blast
qed

lemma canonical_dict_same:
  assumes rel: "list_all2 (\<lambda>a b. fst a = fst b \<and>
      (\<forall>j. canonical fmt (snd a) = Inr j \<longrightarrow> (\<exists>j'. canonical fmt (snd b) = Inr j' \<and> same_text j j'))) kvs zs"
    and perm: "mset zs = mset kvs'" and ok: "canonical fmt (PyDict kvs) = Inr j"
  shows "\<exists>j'. canonical fmt (PyDict kvs') = Inr j' \<and> same_text j j'"
proof -
  let ?f = "\<lambda>kv. bindr (canonical fmt (snd kv)) (\<lambda>j. Inr (fst kv, j))"
  from ok obtain us out where u: "mapr ?f kvs = Inr us"
    and o: "canonical_items us [] = Inr out" and j: "j = JDict out"
    by (auto simp: bindr_eq_Inr)
  have "\<exists>ws. mapr ?f zs = Inr ws \<and> list_all2 (\<lambda>a b. fst a = fst b \<and> same_text (snd a) (snd b)) us ws"
    by (rule mapr_related [OF rel u]) (fastforce simp: bindr_eq_Inr)
  then obtain ws where w: "mapr ?f zs = Inr ws"
    "list_all2 (\<lambda>a b. fst a = fst b \<and> same_text (snd a) (snd b)) us ws" by auto
  from mapr_mset [OF perm w(1)] obtain vs where v: "mapr ?f kvs' = Inr vs" "mset ws = mset vs"
    by auto
  from canonical_dict_related [OF w(2) v(2) o] v(1) j show ?thesis by auto
qed

lemma canonical_set_same:
  assumes rel: "list_all2 (\<lambda>a b. \<forall>j. canonical fmt a = Inr j \<longrightarrow> (\<exists>j'. canonical fmt b = Inr j' \<and> same_text j j')) xs zs"
    and perm: "mset zs = mset ys" and ok: "canonical fmt (PySet xs) = Inr j"
  shows "\<exists>j'. canonical fmt (PySet ys) = Inr j' \<and> same_text j j'"
proof -
  from ok obtain us where u: "mapr (canonical fmt) xs = Inr us"
    and j: "j = JList (sort_key json_text us)" by (auto simp: bindr_eq_Inr)
  have "\<exists>ws. mapr (canonical fmt) zs = Inr ws \<and> list_all2 same_text us ws"
    by (rule mapr_related [OF rel u]) auto
  then obtain ws where w: "mapr (canonical fmt) zs = Inr ws" "list_all2 same_text us ws" by auto
  from mapr_mset [OF perm w(1)] obtain vs where "mapr (canonical fmt) ys = Inr vs" "mset ws = mset vs"
    by auto
  with same_text_set [OF w(2)] j show ?thesis by (auto simp: same_text_def)
qed

lemma canonical_same:
  "same_value v w \<Longrightarrow> canonical fmt v = Inr j \<Longrightarrow>
     \<exists>j'. canonical fmt w = Inr j' \<and> same_text j j'"
proof (induction arbitrary: j rule: same_value.induct)
  case (sv_refl v)
  then show ?case by (auto simp: same_text_def)
next
  case (sv_list xs ys)
  then obtain us where u: "mapr (canonical fmt) xs = Inr us" "j = JList us"
    by (auto simp: bindr_eq_Inr)
  have "\<exists>ws. mapr (canonical fmt) ys = Inr ws \<and> list_all2 same_text us ws"
    by (rule mapr_related [OF sv_list.IH u(1)]) auto
  then obtain ws where "mapr (canonical fmt) ys = Inr ws" "map json_text us = map json_text ws"
    using same_text_map by auto
  then show ?case using u(2) by (auto simp: same_text_def)
next
  case (sv_set xs zs ys)
  have "list_all2 (\<lambda>a b. \<forall>j. canonical fmt a = Inr j \<longrightarrow> (\<exists>j'. canonical fmt b = Inr j' \<and> same_text j j')) xs zs"
    using sv_set.IH by (rule list_all2_mono) auto
  then show ?case by (rule canonical_set_same [OF _ sv_set.hyps(1) sv_set.prems])
next
  case (sv_dict kvs zs kvs')
  have "list_all2 (\<lambda>a b. fst a = fst b \<and>
      (\<forall>j. canonical fmt (snd a) = Inr j \<longrightarrow> (\<exists>j'. canonical fmt (snd b) = Inr j' \<and> same_text j j'))) kvs zs"
    using sv_dict.IH by (rule list_all2_mono) auto
  then show ?case by (rule canonical_dict_same [OF _ sv_dict.hyps(1) sv_dict.prems])
qed

lemma digest_same:
  assumes "same_value v w" "digest sha fmt v = Inr h"
  shows "digest sha fmt w = Inr h"
  using canonical_same [OF assms(1)] assms(2)
  by (fastforce simp: digest_def digest_text_def bindr_eq_Inr same_text_def)

end
