(* ===== verification/Runs.thy ===== *)
theory Runs imports Digest begin

text \<open>
  The run contracts of packages/contracts: state.py (stages, run and generation states),
  evidence.py (\<open>StageProof\<close>), plan.py, recovery.py and run.py. Every class is a record with the
  fields of the source, prefixed by a short name of the class; \<open>X_fields_ok\<close> states the
  field constraints and \<open>validate_X\<close> is the class's \<open>model_validator\<close>, which returns the
  value or the error it raises. Time stamps are integers (microseconds since the epoch); frozensets
  and tuples are lists, compared as sets where the source has a frozenset.
\<close>

section \<open>Stages and states (state.py)\<close>

datatype stage =
    TRIGGER | PREFLIGHT | PLAN | CREATE | STORE | DEPLOY | VERIFY | ROLLOUT | OBSERVE | APPROVAL
  | REVOKE | COMPLETE

text \<open>\<open>STAGES = tuple(Stage)\<close>: the members in declaration order.\<close>

definition STAGES :: "stage list" where
  "STAGES = [TRIGGER, PREFLIGHT, PLAN, CREATE, STORE, DEPLOY, VERIFY, ROLLOUT, OBSERVE, APPROVAL,
             REVOKE, COMPLETE]"

fun stage_value :: "stage \<Rightarrow> string" where
  "stage_value TRIGGER = ''trigger''"
| "stage_value PREFLIGHT = ''preflight''"
| "stage_value PLAN = ''plan''"
| "stage_value CREATE = ''create''"
| "stage_value STORE = ''store''"
| "stage_value DEPLOY = ''deploy''"
| "stage_value VERIFY = ''verify''"
| "stage_value ROLLOUT = ''rollout''"
| "stage_value OBSERVE = ''observe''"
| "stage_value APPROVAL = ''approval''"
| "stage_value REVOKE = ''revoke''"
| "stage_value COMPLETE = ''complete''"

text \<open>\<open>Stage(value)\<close>: lookup by value, then \<open>_missing_\<close>, which still reads the old name.\<close>

definition stage_of_text :: "string \<Rightarrow> stage result" where
  "stage_of_text s =
     (case find (\<lambda>st. stage_value st = s) STAGES of
        Some st \<Rightarrow> Inr st
      | None \<Rightarrow> if s = ''playbook'' then Inr PLAN else Inl (ValueError (s @ '' is not a valid Stage'')))"

datatype run_status =
    PENDING | RUNNING | PAUSED | RECOVERING | CLEANUP | FAILED | CANCELLED | COMPENSATED | COMPLETED

fun run_status_value :: "run_status \<Rightarrow> string" where
  "run_status_value PENDING = ''pending''"
| "run_status_value RUNNING = ''running''"
| "run_status_value PAUSED = ''paused''"
| "run_status_value RECOVERING = ''recovering''"
| "run_status_value CLEANUP = ''cleanup-required''"
| "run_status_value FAILED = ''failed''"
| "run_status_value CANCELLED = ''cancelled''"
| "run_status_value COMPENSATED = ''compensated''"
| "run_status_value COMPLETED = ''completed''"

datatype generation_state = GenCreating | GenActive | GenSuperseded | GenRevoked | GenOrphaned | GenUnknown

text \<open>\<open>STAGES.index(stage)\<close>.\<close>

fun index_of :: "'a \<Rightarrow> 'a list \<Rightarrow> nat" where
  "index_of x [] = 0"
| "index_of x (y # ys) = (if x = y then 0 else Suc (index_of x ys))"

definition stage_index :: "stage \<Rightarrow> nat" where
  "stage_index st = index_of st STAGES"

definition next_stage :: "stage \<Rightarrow> stage" where
  "next_stage st = STAGES ! (stage_index st + 1)"

lemma stage_in_STAGES: "st \<in> set STAGES"
  by (cases st) (simp_all add: STAGES_def)

lemma STAGES_nth_index [simp]: "STAGES ! stage_index st = st"
  by (cases st) (simp_all add: STAGES_def stage_index_def)

lemma stage_index_less: "stage_index st < 12"
  by (cases st) (simp_all add: STAGES_def stage_index_def)

lemma stage_index_inject [simp]: "stage_index a = stage_index b \<longleftrightarrow> a = b"
  by (metis STAGES_nth_index)

lemma stage_index_next: "st \<noteq> COMPLETE \<Longrightarrow> stage_index (next_stage st) = Suc (stage_index st)"
  by (cases st) (simp_all add: STAGES_def stage_index_def next_stage_def)

lemma stage_index_values [simp]: "stage_index TRIGGER = 0" "stage_index COMPLETE = 11"
  by (simp_all add: STAGES_def stage_index_def)

lemma stage_index_le_complete: "stage_index st \<le> 11"
  using stage_index_less [of st] by simp

lemma stage_value_inject: "stage_value a = stage_value b \<Longrightarrow> a = b"
  by (cases a; cases b) simp_all

section \<open>Proofs, plans and recovery (evidence.py, plan.py, recovery.py)\<close>

record stage_proof =
  proof_run_id :: string
  proof_organisation_id :: string
  proof_stage :: stage
  proof_checks :: "string list"
  proof_evidence_ids :: "string list"
  proof_actor_id :: string
  proof_recorded_at :: int

definition stage_proof_fields_ok :: "stage_proof \<Rightarrow> bool" where
  "stage_proof_fields_ok p \<longleftrightarrow>
     identifier_ok (proof_run_id p) \<and> identifier_ok (proof_organisation_id p)
     \<and> proof_checks p \<noteq> []
     \<and> proof_evidence_ids p \<noteq> [] \<and> list_all identifier_ok (proof_evidence_ids p)
     \<and> identifier_ok (proof_actor_id p)"

record runtime_deployment =
  dep_binding_id :: string
  dep_connection_id :: string
  dep_service :: string
  dep_candidate_revision :: string
  dep_rollback_revision :: string

definition runtime_deployment_fields_ok :: "runtime_deployment \<Rightarrow> bool" where
  "runtime_deployment_fields_ok d \<longleftrightarrow>
     identifier_ok (dep_binding_id d) \<and> identifier_ok (dep_connection_id d)
     \<and> text_between 1 512 (dep_service d) \<and> text_between 1 512 (dep_candidate_revision d)
     \<and> text_between 1 512 (dep_rollback_revision d)"

datatype rotation_strategy = PARALLEL | DUAL | IMMEDIATE | MULTI

record operation_step =
  op_id :: string
  op_stage :: stage
  op_tool :: string
  op_operation :: string
  op_objective :: string
  op_parameters :: "(string \<times> pyval) list"
  op_protected :: bool
  op_evidence_checks :: "string list"

definition operation_step_fields_ok :: "('a operation_step_scheme) \<Rightarrow> bool" where
  "operation_step_fields_ok s \<longleftrightarrow>
     identifier_ok (op_id s) \<and> text_between 3 128 (op_tool s) \<and> text_between 1 96 (op_operation s)
     \<and> text_between 1 1024 (op_objective s) \<and> op_evidence_checks s \<noteq> []"

record rotation_plan =
  plan_id :: string
  plan_organisation_id :: string
  plan_run_id :: string
  plan_credential_id :: string
  plan_control_version :: string
  plan_browser_playbook_version :: "string option"
  plan_strategy :: rotation_strategy
  plan_target_scopes :: "string list"
  plan_consumer_ids :: "string list"
  plan_rollout :: "int list"
  plan_observation_seconds :: int
  plan_recovery_ids :: "(stage \<times> string) list"

definition rotation_plan_fields_ok :: "rotation_plan \<Rightarrow> bool" where
  "rotation_plan_fields_ok p \<longleftrightarrow>
     identifier_ok (plan_id p) \<and> identifier_ok (plan_organisation_id p) \<and> identifier_ok (plan_run_id p)
     \<and> identifier_ok (plan_credential_id p) \<and> identifier_ok (plan_control_version p)
     \<and> opt_ok identifier_ok (plan_browser_playbook_version p)
     \<and> plan_consumer_ids p \<noteq> [] \<and> list_all identifier_ok (plan_consumer_ids p)
     \<and> 0 < plan_observation_seconds p \<and> plan_observation_seconds p \<le> 604800
     \<and> plan_recovery_ids p \<noteq> [] \<and> list_all (\<lambda>kv. identifier_ok (snd kv)) (plan_recovery_ids p)"

text \<open>\<open>RotationPlan.validate_rollout\<close>.\<close>

definition validate_rollout :: "rotation_plan \<Rightarrow> rotation_plan result" where
  "validate_rollout p =
     bindr (require (sort (remdups (plan_rollout p)) = plan_rollout p)
       (ValidationError ''rollout percentages must be unique and increasing'')) (\<lambda>_.
     bindr (require (plan_rollout p \<noteq> [] \<and> last (plan_rollout p) = 100)
       (ValidationError ''rollout must end at 100 percent'')) (\<lambda>_.
     bindr (require (list_all (\<lambda>x. 0 < x \<and> x \<le> 100) (plan_rollout p))
       (ValidationError ''rollout percentages must be between 1 and 100'')) (\<lambda>_.
     Inr p)))"

datatype recovery_mode = RETRY | ROLLBACK | ROLLFORWARD | MODE_CLEANUP | ESCALATE

fun recovery_mode_value :: "recovery_mode \<Rightarrow> string" where
  "recovery_mode_value RETRY = ''retry''"
| "recovery_mode_value ROLLBACK = ''rollback''"
| "recovery_mode_value ROLLFORWARD = ''rollforward''"
| "recovery_mode_value MODE_CLEANUP = ''cleanup''"
| "recovery_mode_value ESCALATE = ''escalate''"

record recovery_action =
  ra_tool :: string
  ra_operation :: string
  ra_parameters :: "(string \<times> pyval) list"
  ra_protected :: bool

definition recovery_action_fields_ok :: "recovery_action \<Rightarrow> bool" where
  "recovery_action_fields_ok a \<longleftrightarrow>
     text_between 3 128 (ra_tool a) \<and> text_between 1 96 (ra_operation a)"

record recovery_branch =
  rb_mode :: recovery_mode
  rb_actions :: "recovery_action list"
  rb_preserves_old_generation :: bool

definition validate_retry :: "recovery_branch \<Rightarrow> recovery_branch result" where
  "validate_retry b =
     (if rb_mode b = RETRY \<and> list_ex ra_protected (rb_actions b)
      then Inl (ValidationError ''retry recovery cannot introduce protected mutations'')
      else Inr b)"

record recovery_plan =
  rp_id :: string
  rp_organisation_id :: string
  rp_run_id :: string
  rp_failed_stage :: stage
  rp_mode :: recovery_mode
  rp_steps :: "recovery_action list"
  rp_preserves_old_generation :: bool
  rp_requires_approval :: bool

record recovery_outcome =
  ro_id :: string
  ro_organisation_id :: string
  ro_run_id :: string
  ro_recovery_id :: string
  ro_failed_stage :: stage
  ro_mode :: recovery_mode
  ro_checks :: "string list"
  ro_evidence_ids :: "string list"

section \<open>Rotation runs (run.py)\<close>

record trigger =
  trigger_source :: string
  trigger_kind :: string
  trigger_event_id :: string
  trigger_actor_id :: string
  trigger_reason :: string
  trigger_urgency :: string
  trigger_received_at :: int

definition trigger_fields_ok :: "trigger \<Rightarrow> bool" where
  "trigger_fields_ok t \<longleftrightarrow>
     text_between 1 64 (trigger_source t) \<and> text_between 1 96 (trigger_kind t)
     \<and> text_between 1 256 (trigger_event_id t) \<and> identifier_ok (trigger_actor_id t)
     \<and> text_between 1 1024 (trigger_reason t) \<and> text_between 1 32 (trigger_urgency t)"

record lease =
  lease_owner_id :: string
  lease_fencing_token :: int
  lease_expires_at :: int

definition lease_fields_ok :: "lease \<Rightarrow> bool" where
  "lease_fields_ok l \<longleftrightarrow> identifier_ok (lease_owner_id l) \<and> 0 < lease_fencing_token l"

text \<open>\<open>Lease(owner_id=..., fencing_token=..., expires_at=...)\<close>.\<close>

definition make_lease :: "string \<Rightarrow> int \<Rightarrow> int \<Rightarrow> lease result" where
  "make_lease owner token expires =
     (let l = \<lparr>lease_owner_id = owner, lease_fencing_token = token, lease_expires_at = expires\<rparr>
      in if lease_fields_ok l then Inr l else Inl (FieldError ''Lease''))"

record failure =
  failure_code :: string
  failure_message :: string
  failure_retryable :: bool
  failure_evidence_ids :: "string list"

definition failure_fields_ok :: "failure \<Rightarrow> bool" where
  "failure_fields_ok f \<longleftrightarrow>
     text_between 1 96 (failure_code f) \<and> text_between 1 1024 (failure_message f)
     \<and> list_all identifier_ok (failure_evidence_ids f)"

record run_step =
  step_id :: string
  step_organisation_id :: string
  step_run_id :: string
  step_operation :: string
  step_command_hash :: string
  step_actor_id :: string
  step_before_stage :: "stage option"
  step_after_stage :: stage
  step_before_status :: "run_status option"
  step_after_status :: run_status
  step_revision :: int
  step_proof :: "stage_proof option"
  step_recorded_at :: int

record rotation_run =
  run_id :: string
  run_organisation_id :: string
  run_credential_id :: string
  run_trigger :: trigger
  run_control_version :: string
  run_stage :: stage
  run_status :: run_status
  run_lease :: "lease option"
  run_fencing_token :: int
  run_browser_playbook_version :: "string option"
  run_plan_id :: "string option"
  run_plan_hash :: "string option"
  run_current_generation_id :: "string option"
  run_target_generation_id :: "string option"
  run_deployments :: "runtime_deployment list"
  run_failure :: "failure option"
  run_recovery_id :: "string option"
  run_recovery_stage :: "stage option"
  run_recovery_mode :: "recovery_mode option"
  run_recovery_failure :: "failure option"
  run_recovery_evidence_ids :: "string list"
  run_created_at :: int
  run_updated_at :: int
  run_revision :: int

definition rotation_run_fields_ok :: "rotation_run \<Rightarrow> bool" where
  "rotation_run_fields_ok r \<longleftrightarrow>
     identifier_ok (run_id r) \<and> identifier_ok (run_organisation_id r)
     \<and> identifier_ok (run_credential_id r) \<and> trigger_fields_ok (run_trigger r)
     \<and> identifier_ok (run_control_version r) \<and> opt_ok lease_fields_ok (run_lease r)
     \<and> 0 \<le> run_fencing_token r \<and> opt_ok identifier_ok (run_browser_playbook_version r)
     \<and> opt_ok identifier_ok (run_plan_id r) \<and> opt_ok hex64 (run_plan_hash r)
     \<and> opt_ok identifier_ok (run_current_generation_id r)
     \<and> opt_ok identifier_ok (run_target_generation_id r)
     \<and> list_all runtime_deployment_fields_ok (run_deployments r)
     \<and> opt_ok failure_fields_ok (run_failure r) \<and> opt_ok identifier_ok (run_recovery_id r)
     \<and> opt_ok failure_fields_ok (run_recovery_failure r)
     \<and> list_all identifier_ok (run_recovery_evidence_ids r) \<and> 0 \<le> run_revision r"

text \<open>\<open>RotationRun.validate_terminal_state\<close>, check by check.\<close>

definition validate_terminal_state :: "rotation_run \<Rightarrow> rotation_run result" where
  "validate_terminal_state r =
     bindr (require (\<not> (run_status r = COMPLETED \<and> run_stage r \<noteq> COMPLETE))
       (ValidationError ''a completed run must be in the complete stage'')) (\<lambda>_.
     bindr (require (opt_ok (\<lambda>l. lease_fencing_token l = run_fencing_token r) (run_lease r))
       (ValidationError ''the active lease must use the run fencing token'')) (\<lambda>_.
     let problem = run_status r \<in> {FAILED, CLEANUP} in
     bindr (require (\<not> (problem \<and> run_failure r = None))
       (ValidationError ''failed and cleanup-required runs require failure details'')) (\<lambda>_.
     bindr (require (\<not> (\<not> problem \<and> run_failure r \<noteq> None))
       (ValidationError ''failure details require a failed or cleanup-required run'')) (\<lambda>_.
     let recovery_bound = run_status r \<in> {RECOVERING, COMPENSATED} in
     bindr (require (recovery_bound = (run_recovery_stage r \<noteq> None))
       (ValidationError ''recovery states require the failed stage binding'')) (\<lambda>_.
     bindr (require (\<not> (run_status r = COMPENSATED
         \<and> (run_recovery_stage r = None \<or> run_recovery_mode r = None \<or> run_recovery_evidence_ids r = [])))
       (ValidationError ''compensated runs require a complete recovery outcome'')) (\<lambda>_.
     Inr r))))))"

text \<open>\<open>RotationRun.model_validate(payload)\<close>: field constraints first, then the validator.\<close>

definition validate_run :: "rotation_run \<Rightarrow> rotation_run result" where
  "validate_run r =
     (if rotation_run_fields_ok r then validate_terminal_state r else Inl (FieldError ''RotationRun''))"

text \<open>What the validator accepts, as a predicate.\<close>

definition run_valid :: "rotation_run \<Rightarrow> bool" where
  "run_valid r \<longleftrightarrow> validate_run r = Inr r"

definition terminal_state_ok :: "rotation_run \<Rightarrow> bool" where
  "terminal_state_ok r \<longleftrightarrow>
     (run_status r = COMPLETED \<longrightarrow> run_stage r = COMPLETE)
     \<and> opt_ok (\<lambda>l. lease_fencing_token l = run_fencing_token r) (run_lease r)
     \<and> (run_failure r \<noteq> None \<longleftrightarrow> run_status r = FAILED \<or> run_status r = CLEANUP)
     \<and> (run_recovery_stage r \<noteq> None \<longleftrightarrow> run_status r = RECOVERING \<or> run_status r = COMPENSATED)
     \<and> (run_status r = COMPENSATED \<longrightarrow> run_recovery_mode r \<noteq> None \<and> run_recovery_evidence_ids r \<noteq> [])"

lemma validate_terminal_state_iff:
  "validate_terminal_state r = Inr r' \<longleftrightarrow> r' = r \<and> terminal_state_ok r"
  by (auto simp: validate_terminal_state_def terminal_state_ok_def result_iff Let_def)

lemma validate_run_iff [result_iff]:
  "validate_run r = Inr r' \<longleftrightarrow> r' = r \<and> rotation_run_fields_ok r \<and> terminal_state_ok r"
  by (auto simp: validate_run_def validate_terminal_state_iff)

lemma run_valid_iff: "run_valid r \<longleftrightarrow> rotation_run_fields_ok r \<and> terminal_state_ok r"
  by (simp add: run_valid_def validate_run_iff)

end
