(* ===== verification/Policy.thy ===== *)
theory Policy imports Runs begin

text \<open>
  packages/policy/src/policy: the deterministic gate. \<open>REQUIRED_CHECKS\<close> is rules.py,
  \<open>gate_policy\<close> and its operations are \<open>GatePolicy\<close> of engine.py. A policy is the
  dictionary it was built with; a stage that is no key of it is a KeyError of the source, which
  the constructor rules out.
\<close>

section \<open>Required checks (rules.py)\<close>

fun REQUIRED_CHECKS :: "stage \<Rightarrow> string list" where
  "REQUIRED_CHECKS TRIGGER = [''request-authenticated'', ''source-deduplicated'', ''lease-held'']"
| "REQUIRED_CHECKS PREFLIGHT =
     [''provider-ready'', ''credential-known'', ''scopes-known'', ''playbook-eligible'',
      ''management-authenticated'', ''store-ready'', ''consumers-known'', ''runtime-ready'',
      ''verifier-ready'', ''approvers-known'', ''overlap-supported'', ''mutation-declared'',
      ''no-conflict'']"
| "REQUIRED_CHECKS PLAN = [''plan-bound'', ''controls-pinned'', ''plan-hashed'', ''recovery-ready'']"
| "REQUIRED_CHECKS CREATE = [''replacement-created'', ''mutation-resolved'', ''generation-recorded'']"
| "REQUIRED_CHECKS STORE = [''secret-stored'', ''consumer-accessible'', ''plaintext-isolated'']"
| "REQUIRED_CHECKS DEPLOY =
     [''candidate-deployed'', ''version-bound'', ''generation-tagged'', ''rollback-ready'']"
| "REQUIRED_CHECKS VERIFY =
     [''provider-valid'', ''store-valid'', ''deployment-valid'', ''telemetry-healthy'',
      ''coverage-complete'', ''rollback-ready'']"
| "REQUIRED_CHECKS ROLLOUT = [''production-promoted'', ''rollout-healthy'']"
| "REQUIRED_CHECKS OBSERVE = [''telemetry-healthy'', ''old-use-clear'', ''consumers-current'']"
| "REQUIRED_CHECKS APPROVAL = [''approval-valid'', ''action-digest-valid'', ''evidence-current'']"
| "REQUIRED_CHECKS REVOKE =
     [''old-revoked'', ''replacement-valid'', ''old-rejected'', ''old-secret-disabled'']"
| "REQUIRED_CHECKS COMPLETE =
     [''consumers-current'', ''replacement-valid'', ''old-rejected'', ''audit-complete'']"

section \<open>The gate (engine.py)\<close>

type_synonym gate_policy = "(stage \<times> string list) list"

definition default_policy :: gate_policy where
  "default_policy = map (\<lambda>st. (st, REQUIRED_CHECKS st)) STAGES"

text \<open>
  \<open>GatePolicy(required)\<close>: \<open>required or REQUIRED_CHECKS\<close>, so None and the empty dictionary
  both select the defaults, and every stage must be a key.
\<close>

definition make_gate_policy :: "(stage \<times> string list) list option \<Rightarrow> gate_policy result" where
  "make_gate_policy required =
     (let table = (case required of None \<Rightarrow> default_policy
                   | Some r \<Rightarrow> if r = [] then default_policy else r);
          undefined_stages = filter (\<lambda>st. map_of table st = None) STAGES
      in if undefined_stages \<noteq> [] then Inl (ValueError (''controls do not define every stage: ''
           @ join '', '' (sort (map stage_value undefined_stages))))
         else Inr table)"

definition policy_checks :: "gate_policy \<Rightarrow> stage \<Rightarrow> string list" where
  "policy_checks p st = (case map_of p st of None \<Rightarrow> [] | Some cs \<Rightarrow> cs)"

definition policy_missing :: "gate_policy \<Rightarrow> stage_proof \<Rightarrow> string list" where
  "policy_missing p proof =
     filter (\<lambda>c. c \<notin> set (proof_checks proof)) (policy_checks p (proof_stage proof))"

definition policy_validate :: "gate_policy \<Rightarrow> stage_proof \<Rightarrow> unit result" where
  "policy_validate p proof =
     (let missing = policy_missing p proof
      in if missing \<noteq> [] then Inl (PolicyViolationError (stage_value (proof_stage proof)) missing)
         else Inr ())"

lemma policy_missing_Nil:
  "policy_missing p proof = [] \<longleftrightarrow> set (policy_checks p (proof_stage proof)) \<subseteq> set (proof_checks proof)"
  by (auto simp: policy_missing_def filter_empty_conv)

lemma policy_validate_ok [result_iff]:
  "policy_validate p proof = Inr u \<longleftrightarrow>
     set (policy_checks p (proof_stage proof)) \<subseteq> set (proof_checks proof)"
  by (simp add: policy_validate_def policy_missing_Nil Let_def)

lemma policy_checks_default [simp]: "policy_checks default_policy st = REQUIRED_CHECKS st"
  by (cases st) (simp_all add: policy_checks_def default_policy_def STAGES_def)

lemma make_gate_policy_total:
  "make_gate_policy required = Inr table \<Longrightarrow> \<exists>cs. map_of table st = Some cs"
  using stage_in_STAGES [of st]
  by (auto simp: make_gate_policy_def Let_def filter_empty_conv split: if_splits)

lemma make_gate_policy_default: "make_gate_policy None = Inr default_policy"
  by (simp add: make_gate_policy_def default_policy_def STAGES_def)

text \<open>
  More evidence never turns an accepted proof into a rejected one, and a stricter table accepts
  fewer proofs.
\<close>

lemma policy_validate_mono:
  assumes "policy_validate p proof = Inr ()"
    and "proof_stage proof' = proof_stage proof" "set (proof_checks proof) \<subseteq> set (proof_checks proof')"
  shows "policy_validate p proof' = Inr ()"
  using assms by (auto simp: policy_validate_ok)

end
