(* ===== verification/Commands.thy ===== *)
theory Commands imports Policy begin

text \<open>
  packages/contracts/src/contracts/command.py and event.py: the commands the workflow accepts,
  the fields a completed stage may bind, the run events and their outbox documents. \<open>RunCommand\<close>
  and its subclasses are one record, whose body is a datatype with one constructor per subclass;
  \<open>cmd_operation\<close> is the literal of the subclass. The \<open>dump_\<close> functions are the
  \<open>model_dump\<close> of the contracts a command is made of, which the command hash digests.
\<close>

section \<open>Stage bindings\<close>

record stage_bindings =
  bind_browser_playbook_version :: "string option"
  bind_plan_id :: "string option"
  bind_plan_hash :: "string option"
  bind_current_generation_id :: "string option"
  bind_target_generation_id :: "string option"
  bind_deployments :: "runtime_deployment list"

definition empty_bindings :: stage_bindings where
  "empty_bindings =
     \<lparr>bind_browser_playbook_version = None, bind_plan_id = None, bind_plan_hash = None,
      bind_current_generation_id = None, bind_target_generation_id = None, bind_deployments = []\<rparr>"

definition stage_bindings_fields_ok :: "stage_bindings \<Rightarrow> bool" where
  "stage_bindings_fields_ok b \<longleftrightarrow>
     opt_ok identifier_ok (bind_browser_playbook_version b) \<and> opt_ok identifier_ok (bind_plan_id b)
     \<and> opt_ok hex64 (bind_plan_hash b) \<and> opt_ok identifier_ok (bind_current_generation_id b)
     \<and> opt_ok identifier_ok (bind_target_generation_id b)
     \<and> list_all runtime_deployment_fields_ok (bind_deployments b)"

section \<open>Commands\<close>

record create_command =
  create_id :: string
  create_organisation_id :: string
  create_credential_id :: string
  create_control_version :: string
  create_trigger :: trigger
  create_run_id :: "string option"

definition create_command_fields_ok :: "create_command \<Rightarrow> bool" where
  "create_command_fields_ok c \<longleftrightarrow>
     identifier_ok (create_id c) \<and> identifier_ok (create_organisation_id c)
     \<and> identifier_ok (create_credential_id c) \<and> identifier_ok (create_control_version c)
     \<and> trigger_fields_ok (create_trigger c) \<and> opt_ok identifier_ok (create_run_id c)"

text \<open>The fields each subclass adds, in the order of the source.\<close>

datatype command_body =
    StartRun (body_owner: string) (body_expires: int)
  | RenewLease (body_owner: string) (body_expires: int) (body_token: int)
  | CompleteStage (body_token: int) (body_proof: stage_proof) (body_bindings: stage_bindings)
  | PauseRun (body_token: int)
  | ResumeRun (body_owner: string) (body_expires: int)
  | FailRun (body_token: int) (body_failure: failure)
  | CancelRun
  | CleanupRun (body_token: int) (body_failure: failure)
  | RecoverRun (body_owner: string) (body_expires: int)
  | CompleteRecovery (body_token: int) (body_recovery_id: string) (body_mode: recovery_mode)
      (body_evidence_ids: "string list")

record run_command =
  cmd_id :: string
  cmd_organisation_id :: string
  cmd_run_id :: string
  cmd_actor_id :: string
  cmd_expected_revision :: int
  cmd_body :: command_body

fun body_operation :: "command_body \<Rightarrow> string" where
  "body_operation (StartRun _ _) = ''start''"
| "body_operation (RenewLease _ _ _) = ''renew''"
| "body_operation (CompleteStage _ _ _) = ''complete-stage''"
| "body_operation (PauseRun _) = ''pause''"
| "body_operation (ResumeRun _ _) = ''resume''"
| "body_operation (FailRun _ _) = ''fail''"
| "body_operation CancelRun = ''cancel''"
| "body_operation (CleanupRun _ _) = ''cleanup''"
| "body_operation (RecoverRun _ _) = ''recover''"
| "body_operation (CompleteRecovery _ _ _ _) = ''complete-recovery''"

definition cmd_operation :: "run_command \<Rightarrow> string" where
  "cmd_operation c = body_operation (cmd_body c)"

fun body_fields_ok :: "command_body \<Rightarrow> bool" where
  "body_fields_ok (StartRun owner _) \<longleftrightarrow> identifier_ok owner"
| "body_fields_ok (RenewLease owner _ token) \<longleftrightarrow> identifier_ok owner \<and> 0 < token"
| "body_fields_ok (CompleteStage token proof bindings) \<longleftrightarrow>
     0 < token \<and> stage_proof_fields_ok proof \<and> stage_bindings_fields_ok bindings"
| "body_fields_ok (PauseRun token) \<longleftrightarrow> 0 < token"
| "body_fields_ok (ResumeRun owner _) \<longleftrightarrow> identifier_ok owner"
| "body_fields_ok (FailRun token f) \<longleftrightarrow> 0 < token \<and> failure_fields_ok f"
| "body_fields_ok CancelRun \<longleftrightarrow> True"
| "body_fields_ok (CleanupRun token f) \<longleftrightarrow> 0 < token \<and> failure_fields_ok f"
| "body_fields_ok (RecoverRun owner _) \<longleftrightarrow> identifier_ok owner"
| "body_fields_ok (CompleteRecovery token rid _ ev) \<longleftrightarrow>
     0 < token \<and> identifier_ok rid \<and> ev \<noteq> [] \<and> list_all identifier_ok ev"

definition run_command_fields_ok :: "run_command \<Rightarrow> bool" where
  "run_command_fields_ok c \<longleftrightarrow>
     identifier_ok (cmd_id c) \<and> identifier_ok (cmd_organisation_id c) \<and> identifier_ok (cmd_run_id c)
     \<and> identifier_ok (cmd_actor_id c) \<and> 0 \<le> cmd_expected_revision c \<and> body_fields_ok (cmd_body c)"

lemma body_operation_cancel [simp]: "body_operation b = ''cancel'' \<longleftrightarrow> b = CancelRun"
  by (cases b) simp_all

section \<open>Dumps\<close>

definition dump_str :: "string \<Rightarrow> pyval option" where
  "dump_str s = Some (PyStr s)"

definition dump_opt :: "string option \<Rightarrow> pyval option" where
  "dump_opt s = map_option PyStr s"

definition dump_trigger :: "trigger \<Rightarrow> pyval" where
  "dump_trigger t = dump_fields
     [(''source'', dump_str (trigger_source t)), (''kind'', dump_str (trigger_kind t)),
      (''event_id'', dump_str (trigger_event_id t)), (''actor_id'', dump_str (trigger_actor_id t)),
      (''reason'', dump_str (trigger_reason t)), (''urgency'', dump_str (trigger_urgency t)),
      (''received_at'', Some (PyTime (trigger_received_at t)))]"

definition dump_failure :: "failure \<Rightarrow> pyval" where
  "dump_failure f = dump_fields
     [(''code'', dump_str (failure_code f)), (''message'', dump_str (failure_message f)),
      (''retryable'', Some (PyBool (failure_retryable f))),
      (''evidence_ids'', Some (PyList (map PyStr (failure_evidence_ids f))))]"

definition dump_proof :: "stage_proof \<Rightarrow> pyval" where
  "dump_proof p = dump_fields
     [(''run_id'', dump_str (proof_run_id p)),
      (''organisation_id'', dump_str (proof_organisation_id p)),
      (''stage'', Some (PyEnum (stage_value (proof_stage p)))),
      (''checks'', Some (PySet (map PyStr (proof_checks p)))),
      (''evidence_ids'', Some (PyList (map PyStr (proof_evidence_ids p)))),
      (''actor_id'', dump_str (proof_actor_id p)),
      (''recorded_at'', Some (PyTime (proof_recorded_at p)))]"

definition dump_deployment :: "runtime_deployment \<Rightarrow> pyval" where
  "dump_deployment d = dump_fields
     [(''binding_id'', dump_str (dep_binding_id d)), (''connection_id'', dump_str (dep_connection_id d)),
      (''service'', dump_str (dep_service d)),
      (''candidate_revision'', dump_str (dep_candidate_revision d)),
      (''rollback_revision'', dump_str (dep_rollback_revision d))]"

definition dump_bindings :: "stage_bindings \<Rightarrow> pyval" where
  "dump_bindings b = dump_fields
     [(''browser_playbook_version'', dump_opt (bind_browser_playbook_version b)),
      (''plan_id'', dump_opt (bind_plan_id b)), (''plan_hash'', dump_opt (bind_plan_hash b)),
      (''current_generation_id'', dump_opt (bind_current_generation_id b)),
      (''target_generation_id'', dump_opt (bind_target_generation_id b)),
      (''deployments'', Some (PyList (map dump_deployment (bind_deployments b))))]"

fun dump_body :: "command_body \<Rightarrow> (string \<times> pyval option) list" where
  "dump_body (StartRun owner t) = [(''owner_id'', dump_str owner), (''expires_at'', Some (PyTime t))]"
| "dump_body (RenewLease owner t token) =
     [(''owner_id'', dump_str owner), (''expires_at'', Some (PyTime t)),
      (''fencing_token'', Some (PyInt token))]"
| "dump_body (CompleteStage token proof bindings) =
     [(''fencing_token'', Some (PyInt token)), (''proof'', Some (dump_proof proof)),
      (''bindings'', Some (dump_bindings bindings))]"
| "dump_body (PauseRun token) = [(''fencing_token'', Some (PyInt token))]"
| "dump_body (ResumeRun owner t) = [(''owner_id'', dump_str owner), (''expires_at'', Some (PyTime t))]"
| "dump_body (FailRun token f) =
     [(''fencing_token'', Some (PyInt token)), (''failure'', Some (dump_failure f))]"
| "dump_body CancelRun = []"
| "dump_body (CleanupRun token f) =
     [(''fencing_token'', Some (PyInt token)), (''failure'', Some (dump_failure f))]"
| "dump_body (RecoverRun owner t) = [(''owner_id'', dump_str owner), (''expires_at'', Some (PyTime t))]"
| "dump_body (CompleteRecovery token rid mode ev) =
     [(''fencing_token'', Some (PyInt token)), (''recovery_id'', dump_str rid),
      (''mode'', Some (PyEnum (recovery_mode_value mode))),
      (''evidence_ids'', Some (PyList (map PyStr ev)))]"

definition dump_run_command :: "run_command \<Rightarrow> pyval" where
  "dump_run_command c = dump_fields
     ([(''operation'', dump_str (cmd_operation c)), (''id'', dump_str (cmd_id c)),
       (''organisation_id'', dump_str (cmd_organisation_id c)), (''run_id'', dump_str (cmd_run_id c)),
       (''actor_id'', dump_str (cmd_actor_id c)),
       (''expected_revision'', Some (PyInt (cmd_expected_revision c)))] @ dump_body (cmd_body c))"

text \<open>
  \<open>creation_hash\<close> dumps in JSON mode without the command id and keeps a missing \<open>run_id\<close> as
  null.
\<close>

definition dump_create_command :: "create_command \<Rightarrow> pyval" where
  "dump_create_command c = dump_fields
     [(''operation'', dump_str ''create''),
      (''organisation_id'', dump_str (create_organisation_id c)),
      (''credential_id'', dump_str (create_credential_id c)),
      (''control_version'', dump_str (create_control_version c)),
      (''trigger'', Some (dump_trigger (create_trigger c))),
      (''run_id'', Some (case create_run_id c of None \<Rightarrow> PyNone | Some r \<Rightarrow> PyStr r))]"

section \<open>Events (event.py)\<close>

datatype event_kind =
    RUN_CREATED | RUN_STARTED | LEASE_RENEWED | STAGE_COMPLETED | RUN_PAUSED | RUN_RESUMED
  | CLEANUP_REQUIRED | RUN_FAILED | RUN_CANCELLED | RECOVERY_STARTED | RECOVERY_COMPLETED
  | RUN_COMPLETED

record run_event =
  event_id :: string
  event_organisation_id :: string
  event_run_id :: string
  event_credential_id :: string
  event_kind_of :: event_kind
  event_revision :: int
  event_stage :: stage
  event_status :: run_status
  event_actor_id :: string
  event_occurred_at :: int
  event_payload :: "(string \<times> pyval) list"

definition run_event_fields_ok :: "run_event \<Rightarrow> bool" where
  "run_event_fields_ok e \<longleftrightarrow>
     identifier_ok (event_id e) \<and> identifier_ok (event_organisation_id e)
     \<and> identifier_ok (event_run_id e) \<and> identifier_ok (event_credential_id e)
     \<and> 0 \<le> event_revision e \<and> identifier_ok (event_actor_id e)"

record outbox_event =
  ob_event :: run_event
  ob_available_at :: int
  ob_attempts :: int
  ob_lease_owner :: "string option"
  ob_lease_expires_at :: "int option"
  ob_published_at :: "int option"
  ob_publisher_message_id :: "string option"
  ob_dead_lettered_at :: "int option"
  ob_dead_letter_reason :: "string option"
  ob_last_error :: "string option"

definition outbox_event_fields_ok :: "outbox_event \<Rightarrow> bool" where
  "outbox_event_fields_ok o1 \<longleftrightarrow>
     run_event_fields_ok (ob_event o1) \<and> 0 \<le> ob_attempts o1
     \<and> opt_ok identifier_ok (ob_lease_owner o1)
     \<and> opt_ok (text_between 1 256) (ob_publisher_message_id o1)
     \<and> opt_ok (text_between 1 1024) (ob_dead_letter_reason o1)
     \<and> opt_ok (text_between 0 1024) (ob_last_error o1)"

text \<open>\<open>OutboxEvent.validate_delivery\<close>.\<close>

definition validate_delivery :: "outbox_event \<Rightarrow> outbox_event result" where
  "validate_delivery o1 =
     bindr (require ((ob_lease_owner o1 = None) = (ob_lease_expires_at o1 = None))
       (ValidationError ''outbox lease owner and expiry must be set together'')) (\<lambda>_.
     bindr (require (\<not> (ob_published_at o1 \<noteq> None \<and> ob_lease_owner o1 \<noteq> None))
       (ValidationError ''a published event cannot remain leased'')) (\<lambda>_.
     bindr (require ((ob_published_at o1 = None) = (ob_publisher_message_id o1 = None))
       (ValidationError ''published time and publisher message ID must be set together'')) (\<lambda>_.
     bindr (require ((ob_dead_lettered_at o1 = None) = (ob_dead_letter_reason o1 = None))
       (ValidationError ''dead-letter time and reason must be set together'')) (\<lambda>_.
     bindr (require (\<not> (ob_published_at o1 \<noteq> None \<and> ob_dead_lettered_at o1 \<noteq> None))
       (ValidationError ''an outbox event cannot be published and dead-lettered'')) (\<lambda>_.
     bindr (require (\<not> (ob_dead_lettered_at o1 \<noteq> None \<and> ob_lease_owner o1 \<noteq> None))
       (ValidationError ''a dead-lettered event cannot remain leased'')) (\<lambda>_.
     Inr o1))))))"

definition validate_outbox_event :: "outbox_event \<Rightarrow> outbox_event result" where
  "validate_outbox_event o1 =
     (if outbox_event_fields_ok o1 then validate_delivery o1 else Inl (FieldError ''OutboxEvent''))"

definition delivery_ok :: "outbox_event \<Rightarrow> bool" where
  "delivery_ok o1 \<longleftrightarrow>
     (ob_lease_owner o1 = None \<longleftrightarrow> ob_lease_expires_at o1 = None)
     \<and> (ob_published_at o1 = None \<longleftrightarrow> ob_publisher_message_id o1 = None)
     \<and> (ob_dead_lettered_at o1 = None \<longleftrightarrow> ob_dead_letter_reason o1 = None)
     \<and> (ob_lease_owner o1 \<noteq> None \<longrightarrow> ob_published_at o1 = None \<and> ob_dead_lettered_at o1 = None)
     \<and> (ob_published_at o1 = None \<or> ob_dead_lettered_at o1 = None)"

lemma validate_delivery_iff: "validate_delivery o1 = Inr o2 \<longleftrightarrow> o2 = o1 \<and> delivery_ok o1"
  by (auto simp: validate_delivery_def delivery_ok_def result_iff)

lemma validate_outbox_event_iff [result_iff]:
  "validate_outbox_event o1 = Inr o2 \<longleftrightarrow> o2 = o1 \<and> outbox_event_fields_ok o1 \<and> delivery_ok o1"
  by (auto simp: validate_outbox_event_def validate_delivery_iff)

end
