(* ===== verification/Machine.thy ===== *)
theory Machine imports Commands begin

text \<open>
  server/core/state/machine.py: \<open>RotationMachine\<close>, the state machine of a rotation run. Each
  method is one function from a run (and the arguments of the method) to the updated run or to
  the exception it raises; \<open>machine_step\<close> collects them. The lemmas give the contract every
  method keeps (identity, revision, fence), the legal changes of status and stage, and what a
  completed run has gone through.
\<close>

section \<open>Guards\<close>

definition check_revision :: "rotation_run \<Rightarrow> int \<Rightarrow> unit result" where
  "check_revision r expected =
     require (run_revision r = expected)
       (RevisionConflictError (''expected revision '' @ int_text expected @ '', found ''
          @ int_text (run_revision r)))"

definition check_control :: "rotation_run \<Rightarrow> int \<Rightarrow> int \<Rightarrow> int \<Rightarrow> unit result" where
  "check_control r token expected now =
     bindr (check_revision r expected) (\<lambda>_.
     case run_lease r of
       None \<Rightarrow> Inl (LeaseConflictError ''run has no active lease'')
     | Some l \<Rightarrow>
         bindr (require (lease_fencing_token l = token) (LeaseConflictError ''stale fencing token'')) (\<lambda>_.
         require (now < lease_expires_at l) (LeaseConflictError ''lease has expired'')))"

definition check_interrupt_control :: "rotation_run \<Rightarrow> int \<Rightarrow> int \<Rightarrow> int \<Rightarrow> unit result" where
  "check_interrupt_control r token expected now =
     bindr (check_revision r expected) (\<lambda>_.
     case run_lease r of
       None \<Rightarrow> Inl (LeaseConflictError ''run has no active lease'')
     | Some l \<Rightarrow>
         if lease_expires_at l \<le> now then Inr ()
         else require (lease_fencing_token l = token) (LeaseConflictError ''stale fencing token''))"

definition check_future :: "int \<Rightarrow> int \<Rightarrow> unit result" where
  "check_future expires now =
     require (now < expires) (LeaseConflictError ''lease expiry must be in the future'')"

text \<open>\<open>_update\<close>: the changed payload with its time and revision, validated again.\<close>

definition update_run :: "rotation_run \<Rightarrow> int \<Rightarrow> (rotation_run \<Rightarrow> rotation_run) \<Rightarrow> rotation_run result" where
  "update_run r now changes =
     validate_run ((changes r)\<lparr>run_updated_at := now, run_revision := run_revision r + 1\<rparr>)"

text \<open>The foreign-lease guard that \<open>resume\<close> and \<open>recover\<close> repeat.\<close>

definition check_foreign_lease :: "rotation_run \<Rightarrow> string \<Rightarrow> int \<Rightarrow> unit result" where
  "check_foreign_lease r owner now =
     require (opt_ok (\<lambda>l. \<not> (now < lease_expires_at l \<and> lease_owner_id l \<noteq> owner)) (run_lease r))
       (LeaseConflictError ''an active lease belongs to another worker'')"

section \<open>Operations\<close>

definition machine_start :: "rotation_run \<Rightarrow> string \<Rightarrow> int \<Rightarrow> int \<Rightarrow> int \<Rightarrow> rotation_run result" where
  "machine_start r owner expected expires now =
     bindr (check_revision r expected) (\<lambda>_.
     bindr (require (run_status r = PENDING)
       (TransitionRejectedError ''only a pending run can start'')) (\<lambda>_.
     bindr (check_future expires now) (\<lambda>_.
     let token = run_fencing_token r + 1 in
     bindr (make_lease owner token expires) (\<lambda>l.
     update_run r now (\<lambda>r. r\<lparr>run_status := RUNNING, run_lease := Some l, run_fencing_token := token\<rparr>)))))"

definition machine_renew ::
  "rotation_run \<Rightarrow> string \<Rightarrow> int \<Rightarrow> int \<Rightarrow> int \<Rightarrow> int \<Rightarrow> rotation_run result" where
  "machine_renew r owner token expected expires now =
     bindr (check_control r token expected now) (\<lambda>_.
     case run_lease r of
       None \<Rightarrow> Inl (LeaseConflictError ''only the lease owner can renew it'')
     | Some l \<Rightarrow>
         bindr (require (lease_owner_id l = owner)
           (LeaseConflictError ''only the lease owner can renew it'')) (\<lambda>_.
         bindr (check_future expires now) (\<lambda>_.
         update_run r now (\<lambda>r. r\<lparr>run_lease := Some (l\<lparr>lease_expires_at := expires\<rparr>)\<rparr>))))"

text \<open>
  \<open>_bindings\<close>. The dumped values are the fields that are neither None nor the empty tuple. The
  comparison with the run's own value is by Python equality, and the dump turns a deployment into
  a dictionary, which never equals the \<open>RuntimeDeployment\<close> the run holds: deployments can be
  bound once and not even repeated.
\<close>

datatype bound_field =
    F_browser_playbook_version | F_plan_id | F_plan_hash | F_current_generation_id
  | F_target_generation_id | F_deployments

fun binding_present :: "stage_bindings \<Rightarrow> bound_field \<Rightarrow> bool" where
  "binding_present b F_browser_playbook_version = (bind_browser_playbook_version b \<noteq> None)"
| "binding_present b F_plan_id = (bind_plan_id b \<noteq> None)"
| "binding_present b F_plan_hash = (bind_plan_hash b \<noteq> None)"
| "binding_present b F_current_generation_id = (bind_current_generation_id b \<noteq> None)"
| "binding_present b F_target_generation_id = (bind_target_generation_id b \<noteq> None)"
| "binding_present b F_deployments = (bind_deployments b \<noteq> [])"

fun bound_field_name :: "bound_field \<Rightarrow> string" where
  "bound_field_name F_browser_playbook_version = ''browser_playbook_version''"
| "bound_field_name F_plan_id = ''plan_id''"
| "bound_field_name F_plan_hash = ''plan_hash''"
| "bound_field_name F_current_generation_id = ''current_generation_id''"
| "bound_field_name F_target_generation_id = ''target_generation_id''"
| "bound_field_name F_deployments = ''deployments''"

definition bound_fields :: "bound_field list" where
  "bound_fields = [F_browser_playbook_version, F_plan_id, F_plan_hash, F_current_generation_id,
                   F_target_generation_id, F_deployments]"

definition binding_values :: "stage_bindings \<Rightarrow> bound_field list" where
  "binding_values b = filter (binding_present b) bound_fields"

fun allowed_fields :: "stage \<Rightarrow> bound_field list" where
  "allowed_fields PREFLIGHT = [F_browser_playbook_version, F_current_generation_id]"
| "allowed_fields PLAN = [F_plan_id, F_plan_hash]"
| "allowed_fields CREATE = [F_target_generation_id]"
| "allowed_fields DEPLOY = [F_deployments]"
| "allowed_fields _ = []"

fun binding_conflict :: "rotation_run \<Rightarrow> stage_bindings \<Rightarrow> bound_field \<Rightarrow> bool" where
  "binding_conflict r b F_browser_playbook_version =
     (run_browser_playbook_version r \<noteq> None
      \<and> run_browser_playbook_version r \<noteq> bind_browser_playbook_version b)"
| "binding_conflict r b F_plan_id = (run_plan_id r \<noteq> None \<and> run_plan_id r \<noteq> bind_plan_id b)"
| "binding_conflict r b F_plan_hash = (run_plan_hash r \<noteq> None \<and> run_plan_hash r \<noteq> bind_plan_hash b)"
| "binding_conflict r b F_current_generation_id =
     (run_current_generation_id r \<noteq> None \<and> run_current_generation_id r \<noteq> bind_current_generation_id b)"
| "binding_conflict r b F_target_generation_id =
     (run_target_generation_id r \<noteq> None \<and> run_target_generation_id r \<noteq> bind_target_generation_id b)"
| "binding_conflict r b F_deployments = (run_deployments r \<noteq> [])"

definition check_bindings :: "rotation_run \<Rightarrow> stage_bindings \<Rightarrow> unit result" where
  "check_bindings r b =
     (let values = binding_values b; allowed = allowed_fields (run_stage r) in
     bindr (require (set values \<subseteq> set allowed)
       (TransitionRejectedError (''stage '' @ stage_value (run_stage r) @ '' cannot bind run fields: ''
          @ join '', '' (sort (map bound_field_name (filter (\<lambda>f. f \<notin> set allowed) values)))))) (\<lambda>_.
     bindr (require (\<not> (run_stage r = PREFLIGHT \<and> F_current_generation_id \<notin> set values))
       (TransitionRejectedError ''preflight must bind the current generation'')) (\<lambda>_.
     bindr (require (\<not> (run_stage r = PLAN \<and> set values \<noteq> set allowed))
       (TransitionRejectedError ''plan stage must bind plan identity and digest'')) (\<lambda>_.
     bindr (require (\<not> (run_stage r = CREATE \<and> set values \<noteq> set allowed))
       (TransitionRejectedError ''create stage must bind the target generation'')) (\<lambda>_.
     bindr (require (\<not> (run_stage r = DEPLOY \<and> set values \<noteq> set allowed))
       (TransitionRejectedError ''deploy stage must bind runtime deployment identities'')) (\<lambda>_.
     require (filter (binding_conflict r b) values = [])
       (TransitionRejectedError ''run bindings cannot change after they are set'')))))))"

text \<open>\<open>payload.update(values)\<close>: only the dumped fields are written.\<close>

definition apply_bindings :: "stage_bindings \<Rightarrow> rotation_run \<Rightarrow> rotation_run" where
  "apply_bindings b r =
     r\<lparr>run_browser_playbook_version :=
         (case bind_browser_playbook_version b of None \<Rightarrow> run_browser_playbook_version r | Some v \<Rightarrow> Some v),
       run_plan_id := (case bind_plan_id b of None \<Rightarrow> run_plan_id r | Some v \<Rightarrow> Some v),
       run_plan_hash := (case bind_plan_hash b of None \<Rightarrow> run_plan_hash r | Some v \<Rightarrow> Some v),
       run_current_generation_id :=
         (case bind_current_generation_id b of None \<Rightarrow> run_current_generation_id r | Some v \<Rightarrow> Some v),
       run_target_generation_id :=
         (case bind_target_generation_id b of None \<Rightarrow> run_target_generation_id r | Some v \<Rightarrow> Some v),
       run_deployments := (if bind_deployments b = [] then run_deployments r else bind_deployments b)\<rparr>"

text \<open>
  \<open>complete\<close>. The machine holds the policy and the flag \<open>validate_policy\<close> it was built with;
  \<open>None\<close> stands for a machine built with \<open>validate_policy=False\<close>.
\<close>

definition machine_complete ::
  "gate_policy option \<Rightarrow> rotation_run \<Rightarrow> stage_proof \<Rightarrow> int \<Rightarrow> int \<Rightarrow> int \<Rightarrow> stage_bindings \<Rightarrow> rotation_run result"
where
  "machine_complete policy r proof token expected now bindings =
     bindr (check_control r token expected now) (\<lambda>_.
     bindr (require (run_status r = RUNNING)
       (TransitionRejectedError ''only normally running work can advance'')) (\<lambda>_.
     bindr (require (proof_run_id proof = run_id r \<and> proof_organisation_id proof = run_organisation_id r)
       (TransitionRejectedError ''proof belongs to a different run'')) (\<lambda>_.
     bindr (require (proof_stage proof = run_stage r)
       (TransitionRejectedError ''proof does not match the current stage'')) (\<lambda>_.
     bindr (case policy of None \<Rightarrow> Inr () | Some p \<Rightarrow> policy_validate p proof) (\<lambda>_.
     bindr (check_bindings r bindings) (\<lambda>_.
     if run_stage r = COMPLETE
     then update_run r now (\<lambda>r. (apply_bindings bindings r)\<lparr>run_status := COMPLETED, run_lease := None\<rparr>)
     else update_run r now (\<lambda>r. (apply_bindings bindings r)
            \<lparr>run_stage := next_stage (run_stage r), run_status := RUNNING\<rparr>)))))))"

definition machine_pause :: "rotation_run \<Rightarrow> int \<Rightarrow> int \<Rightarrow> int \<Rightarrow> rotation_run result" where
  "machine_pause r token expected now =
     bindr (check_control r token expected now) (\<lambda>_.
     bindr (require (run_status r \<in> {RUNNING, RECOVERING})
       (TransitionRejectedError ''only active work can pause'')) (\<lambda>_.
     update_run r now (\<lambda>r. r\<lparr>run_status := PAUSED\<rparr>)))"

definition machine_resume :: "rotation_run \<Rightarrow> string \<Rightarrow> int \<Rightarrow> int \<Rightarrow> int \<Rightarrow> rotation_run result" where
  "machine_resume r owner expected expires now =
     bindr (check_revision r expected) (\<lambda>_.
     bindr (require (run_status r = PAUSED)
       (TransitionRejectedError ''only a paused run can resume'')) (\<lambda>_.
     bindr (check_foreign_lease r owner now) (\<lambda>_.
     bindr (check_future expires now) (\<lambda>_.
     let token = run_fencing_token r + 1 in
     bindr (make_lease owner token expires) (\<lambda>l.
     update_run r now
       (\<lambda>r. r\<lparr>run_status := RUNNING, run_lease := Some l, run_fencing_token := token\<rparr>))))))"

definition machine_cleanup :: "rotation_run \<Rightarrow> failure \<Rightarrow> int \<Rightarrow> int \<Rightarrow> int \<Rightarrow> rotation_run result" where
  "machine_cleanup r f token expected now =
     bindr (check_interrupt_control r token expected now) (\<lambda>_.
     bindr (require (run_status r \<in> {RUNNING, RECOVERING, PAUSED})
       (TransitionRejectedError ''terminal work cannot enter cleanup'')) (\<lambda>_.
     update_run r now (\<lambda>r. r\<lparr>run_status := CLEANUP, run_failure := Some f\<rparr>)))"

text \<open>The recovery fields that \<open>fail\<close>, \<open>cancel\<close> and a retried recovery reset.\<close>

definition clear_recovery :: "rotation_run \<Rightarrow> rotation_run" where
  "clear_recovery r =
     r\<lparr>run_recovery_id := None, run_recovery_stage := None, run_recovery_mode := None,
       run_recovery_failure := None, run_recovery_evidence_ids := []\<rparr>"

definition machine_fail :: "rotation_run \<Rightarrow> failure \<Rightarrow> int \<Rightarrow> int \<Rightarrow> int \<Rightarrow> rotation_run result" where
  "machine_fail r f token expected now =
     bindr (require (run_status r \<notin> {COMPLETED, FAILED, COMPENSATED})
       (TransitionRejectedError ''terminal work cannot fail again'')) (\<lambda>_.
     bindr (check_interrupt_control r token expected now) (\<lambda>_.
     update_run r now
       (\<lambda>r. (if run_status r = RECOVERING then clear_recovery r else r)
              \<lparr>run_status := FAILED, run_failure := Some f, run_lease := None\<rparr>)))"

definition machine_cancel :: "rotation_run \<Rightarrow> int \<Rightarrow> int \<Rightarrow> rotation_run result" where
  "machine_cancel r expected now =
     bindr (check_revision r expected) (\<lambda>_.
     bindr (require (run_status r \<notin> {CANCELLED, COMPLETED, COMPENSATED})
       (TransitionRejectedError ''terminal work cannot be cancelled'')) (\<lambda>_.
     update_run r now
       (\<lambda>r. (clear_recovery r)\<lparr>run_status := CANCELLED, run_lease := None,
              run_fencing_token := run_fencing_token r + 1, run_failure := None\<rparr>)))"

definition machine_recover :: "rotation_run \<Rightarrow> string \<Rightarrow> int \<Rightarrow> int \<Rightarrow> int \<Rightarrow> rotation_run result" where
  "machine_recover r owner expected expires now =
     bindr (check_revision r expected) (\<lambda>_.
     bindr (require (run_status r \<in> {FAILED, CLEANUP})
       (TransitionRejectedError ''only interrupted work can recover'')) (\<lambda>_.
     bindr (check_foreign_lease r owner now) (\<lambda>_.
     bindr (check_future expires now) (\<lambda>_.
     let token = run_fencing_token r + 1 in
     bindr (make_lease owner token expires) (\<lambda>l.
     update_run r now
       (\<lambda>r. r\<lparr>run_status := RECOVERING, run_failure := None, run_recovery_stage := Some (run_stage r),
              run_recovery_failure := run_failure r, run_lease := Some l,
              run_fencing_token := token\<rparr>))))))"

definition machine_complete_recovery ::
  "rotation_run \<Rightarrow> string \<Rightarrow> recovery_mode \<Rightarrow> string list \<Rightarrow> int \<Rightarrow> int \<Rightarrow> int \<Rightarrow> rotation_run result" where
  "machine_complete_recovery r rid mode evidence token expected now =
     bindr (check_control r token expected now) (\<lambda>_.
     bindr (require (run_status r = RECOVERING \<and> run_recovery_stage r = Some (run_stage r))
       (TransitionRejectedError ''only an active bound recovery can complete'')) (\<lambda>_.
     bindr (require (evidence \<noteq> [])
       (TransitionRejectedError ''recovery completion requires evidence'')) (\<lambda>_.
     if mode = RETRY
     then bindr (require (run_recovery_failure r \<noteq> None \<and> failure_retryable (the (run_recovery_failure r)))
            (TransitionRejectedError ''a non-retryable failure cannot re-enter its stage'')) (\<lambda>_.
          update_run r now (\<lambda>r. (clear_recovery r)\<lparr>run_status := RUNNING\<rparr>))
     else update_run r now
            (\<lambda>r. r\<lparr>run_status := COMPENSATED, run_lease := None, run_recovery_id := Some rid,
                   run_recovery_mode := Some mode, run_recovery_evidence_ids := evidence\<rparr>))))"

section \<open>The transition of a command\<close>

text \<open>
  server/core/workflow/steps.py: every method of \<open>RunWorkflow\<close> reads the clock and hands the
  repository one transition, the machine's method with the arguments of the command.
\<close>

fun command_transition :: "gate_policy option \<Rightarrow> int \<Rightarrow> int \<Rightarrow> command_body \<Rightarrow> rotation_run \<Rightarrow> rotation_run result"
where
  "command_transition policy now expected (StartRun owner expires) r =
     machine_start r owner expected expires now"
| "command_transition policy now expected (RenewLease owner expires token) r =
     machine_renew r owner token expected expires now"
| "command_transition policy now expected (CompleteStage token proof bindings) r =
     machine_complete policy r proof token expected now bindings"
| "command_transition policy now expected (PauseRun token) r = machine_pause r token expected now"
| "command_transition policy now expected (ResumeRun owner expires) r =
     machine_resume r owner expected expires now"
| "command_transition policy now expected (FailRun token f) r = machine_fail r f token expected now"
| "command_transition policy now expected CancelRun r = machine_cancel r expected now"
| "command_transition policy now expected (CleanupRun token f) r =
     machine_cleanup r f token expected now"
| "command_transition policy now expected (RecoverRun owner expires) r =
     machine_recover r owner expected expires now"
| "command_transition policy now expected (CompleteRecovery token rid mode evidence) r =
     machine_complete_recovery r rid mode evidence token expected now"

section \<open>Creation\<close>

text \<open>server/core/workflow/trigger.py: \<open>build_run\<close>, the run a create command asks for.\<close>

definition build_run :: "create_command \<Rightarrow> string \<Rightarrow> int \<Rightarrow> rotation_run result" where
  "build_run c rid now = validate_run
     \<lparr>run_id = rid, run_organisation_id = create_organisation_id c,
      run_credential_id = create_credential_id c, run_trigger = create_trigger c,
      run_control_version = create_control_version c, run_stage = TRIGGER, run_status = PENDING,
      run_lease = None, run_fencing_token = 0, run_browser_playbook_version = None,
      run_plan_id = None, run_plan_hash = None, run_current_generation_id = None,
      run_target_generation_id = None, run_deployments = [], run_failure = None,
      run_recovery_id = None, run_recovery_stage = None, run_recovery_mode = None,
      run_recovery_failure = None, run_recovery_evidence_ids = [], run_created_at = now,
      run_updated_at = now, run_revision = 0\<rparr>"

end
