(* ===== verification/Machine_Facts.thy ===== *)
theory Machine_Facts imports Machine begin

text \<open>
  What the rotation machine guarantees. First the inversion of every operation (when it succeeds
  and what it returns), collected in \<open>machine_ok\<close>; then the contract all of them share, the
  legal changes of status, stage, fence and bindings, and the histories of whole runs.
\<close>

section \<open>Inversion of the guards and operations\<close>

lemma check_revision_ok [result_iff]: "check_revision r e = Inr u \<longleftrightarrow> run_revision r = e"
  by (simp add: check_revision_def require_eq_Inr)

lemma check_future_ok [result_iff]: "check_future e n = Inr u \<longleftrightarrow> n < e"
  by (simp add: check_future_def require_eq_Inr)

lemma check_foreign_lease_ok [result_iff]:
  "check_foreign_lease r owner now = Inr u \<longleftrightarrow>
     opt_ok (\<lambda>l. now < lease_expires_at l \<longrightarrow> lease_owner_id l = owner) (run_lease r)"
  by (cases "run_lease r") (auto simp: check_foreign_lease_def require_eq_Inr)

definition holds_fence :: "rotation_run \<Rightarrow> int \<Rightarrow> int \<Rightarrow> bool" where
  "holds_fence r token now \<longleftrightarrow>
     (case run_lease r of None \<Rightarrow> False
      | Some l \<Rightarrow> lease_fencing_token l = token \<and> now < lease_expires_at l)"

definition may_interrupt :: "rotation_run \<Rightarrow> int \<Rightarrow> int \<Rightarrow> bool" where
  "may_interrupt r token now \<longleftrightarrow>
     (case run_lease r of None \<Rightarrow> False
      | Some l \<Rightarrow> lease_expires_at l \<le> now \<or> lease_fencing_token l = token)"

lemma check_control_ok [result_iff]:
  "check_control r token e now = Inr u \<longleftrightarrow> run_revision r = e \<and> holds_fence r token now"
  by (cases "run_lease r") (auto simp: check_control_def holds_fence_def bindr_eq_Inr result_iff)

lemma check_interrupt_control_ok [result_iff]:
  "check_interrupt_control r token e now = Inr u \<longleftrightarrow> run_revision r = e \<and> may_interrupt r token now"
  by (cases "run_lease r")
    (auto simp: check_interrupt_control_def may_interrupt_def bindr_eq_Inr result_iff)

lemma make_lease_ok [result_iff]:
  "make_lease owner token e = Inr l \<longleftrightarrow>
     l = \<lparr>lease_owner_id = owner, lease_fencing_token = token, lease_expires_at = e\<rparr>
     \<and> lease_fields_ok l"
  by (auto simp: make_lease_def Let_def)

lemma update_run_ok [result_iff]:
  "update_run r now ch = Inr r' \<longleftrightarrow>
     r' = (ch r)\<lparr>run_updated_at := now, run_revision := run_revision r + 1\<rparr> \<and> run_valid r'"
  by (auto simp: update_run_def validate_run_iff run_valid_iff)

named_theorems machine_ok "when an operation of the machine succeeds, and with which run"

lemma machine_start_ok [machine_ok]:
  "machine_start r owner e ex now = Inr r' \<longleftrightarrow>
     run_revision r = e \<and> run_status r = PENDING \<and> now < ex \<and> identifier_ok owner
     \<and> 0 < run_fencing_token r + 1 \<and> run_valid r'
     \<and> r' = r\<lparr>run_status := RUNNING,
        run_lease := Some \<lparr>lease_owner_id = owner, lease_fencing_token = run_fencing_token r + 1,
                            lease_expires_at = ex\<rparr>,
        run_fencing_token := run_fencing_token r + 1, run_updated_at := now,
        run_revision := run_revision r + 1\<rparr>"
  by (auto simp: machine_start_def result_iff Let_def lease_fields_ok_def)

lemma machine_renew_ok [machine_ok]:
  "machine_renew r owner token e ex now = Inr r' \<longleftrightarrow>
     run_revision r = e \<and> holds_fence r token now \<and> now < ex \<and> run_valid r'
     \<and> (\<exists>l. run_lease r = Some l \<and> lease_owner_id l = owner
        \<and> r' = r\<lparr>run_lease := Some (l\<lparr>lease_expires_at := ex\<rparr>), run_updated_at := now,
                  run_revision := run_revision r + 1\<rparr>)"
  by (cases "run_lease r") (auto simp: machine_renew_def result_iff)

lemma machine_pause_ok [machine_ok]:
  "machine_pause r token e now = Inr r' \<longleftrightarrow>
     run_revision r = e \<and> holds_fence r token now \<and> (run_status r = RUNNING \<or> run_status r = RECOVERING)
     \<and> run_valid r' \<and> r' = r\<lparr>run_status := PAUSED, run_updated_at := now, run_revision := run_revision r + 1\<rparr>"
  by (auto simp: machine_pause_def result_iff)

lemma machine_resume_ok [machine_ok]:
  "machine_resume r owner e ex now = Inr r' \<longleftrightarrow>
     run_revision r = e \<and> run_status r = PAUSED \<and> now < ex \<and> identifier_ok owner
     \<and> opt_ok (\<lambda>l. now < lease_expires_at l \<longrightarrow> lease_owner_id l = owner) (run_lease r)
     \<and> 0 < run_fencing_token r + 1 \<and> run_valid r'
     \<and> r' = r\<lparr>run_status := RUNNING,
        run_lease := Some \<lparr>lease_owner_id = owner, lease_fencing_token = run_fencing_token r + 1,
                            lease_expires_at = ex\<rparr>,
        run_fencing_token := run_fencing_token r + 1, run_updated_at := now,
        run_revision := run_revision r + 1\<rparr>"
  by (auto simp: machine_resume_def result_iff Let_def lease_fields_ok_def)

lemma machine_cleanup_ok [machine_ok]:
  "machine_cleanup r f token e now = Inr r' \<longleftrightarrow>
     run_revision r = e \<and> may_interrupt r token now
     \<and> (run_status r = RUNNING \<or> run_status r = RECOVERING \<or> run_status r = PAUSED) \<and> run_valid r'
     \<and> r' = r\<lparr>run_status := CLEANUP, run_failure := Some f, run_updated_at := now,
               run_revision := run_revision r + 1\<rparr>"
  by (auto simp: machine_cleanup_def result_iff)

lemma machine_fail_ok [machine_ok]:
  "machine_fail r f token e now = Inr r' \<longleftrightarrow>
     run_revision r = e \<and> may_interrupt r token now
     \<and> run_status r \<noteq> COMPLETED \<and> run_status r \<noteq> FAILED \<and> run_status r \<noteq> COMPENSATED \<and> run_valid r'
     \<and> r' = (if run_status r = RECOVERING then clear_recovery r else r)
              \<lparr>run_status := FAILED, run_failure := Some f, run_lease := None, run_updated_at := now,
               run_revision := run_revision r + 1\<rparr>"
  by (auto simp: machine_fail_def result_iff)

lemma machine_cancel_ok [machine_ok]:
  "machine_cancel r e now = Inr r' \<longleftrightarrow>
     run_revision r = e
     \<and> run_status r \<noteq> CANCELLED \<and> run_status r \<noteq> COMPLETED \<and> run_status r \<noteq> COMPENSATED \<and> run_valid r'
     \<and> r' = (clear_recovery r)
              \<lparr>run_status := CANCELLED, run_lease := None, run_fencing_token := run_fencing_token r + 1,
               run_failure := None, run_updated_at := now, run_revision := run_revision r + 1\<rparr>"
  by (auto simp: machine_cancel_def result_iff)

lemma machine_recover_ok [machine_ok]:
  "machine_recover r owner e ex now = Inr r' \<longleftrightarrow>
     run_revision r = e \<and> (run_status r = FAILED \<or> run_status r = CLEANUP) \<and> now < ex
     \<and> identifier_ok owner
     \<and> opt_ok (\<lambda>l. now < lease_expires_at l \<longrightarrow> lease_owner_id l = owner) (run_lease r)
     \<and> 0 < run_fencing_token r + 1 \<and> run_valid r'
     \<and> r' = r\<lparr>run_status := RECOVERING, run_failure := None, run_recovery_stage := Some (run_stage r),
        run_recovery_failure := run_failure r,
        run_lease := Some \<lparr>lease_owner_id = owner, lease_fencing_token = run_fencing_token r + 1,
                            lease_expires_at = ex\<rparr>,
        run_fencing_token := run_fencing_token r + 1, run_updated_at := now,
        run_revision := run_revision r + 1\<rparr>"
  by (auto simp: machine_recover_def result_iff Let_def lease_fields_ok_def)

lemma machine_complete_recovery_ok [machine_ok]:
  "machine_complete_recovery r rid mode ev token e now = Inr r' \<longleftrightarrow>
     run_revision r = e \<and> holds_fence r token now \<and> run_status r = RECOVERING
     \<and> run_recovery_stage r = Some (run_stage r) \<and> ev \<noteq> [] \<and> run_valid r'
     \<and> (if mode = RETRY
        then run_recovery_failure r \<noteq> None \<and> failure_retryable (the (run_recovery_failure r))
             \<and> r' = (clear_recovery r)\<lparr>run_status := RUNNING, run_updated_at := now,
                                        run_revision := run_revision r + 1\<rparr>
        else r' = r\<lparr>run_status := COMPENSATED, run_lease := None, run_recovery_id := Some rid,
                     run_recovery_mode := Some mode, run_recovery_evidence_ids := ev,
                     run_updated_at := now, run_revision := run_revision r + 1\<rparr>)"
  by (auto simp: machine_complete_recovery_def result_iff)

definition bindings_ok :: "rotation_run \<Rightarrow> stage_bindings \<Rightarrow> bool" where
  "bindings_ok r b \<longleftrightarrow>
     set (binding_values b) \<subseteq> set (allowed_fields (run_stage r))
     \<and> (run_stage r = PREFLIGHT \<longrightarrow> bind_current_generation_id b \<noteq> None)
     \<and> (run_stage r \<in> {PLAN, CREATE, DEPLOY} \<longrightarrow>
          set (binding_values b) = set (allowed_fields (run_stage r)))
     \<and> (\<forall>f \<in> set (binding_values b). \<not> binding_conflict r b f)"

lemma mem_binding_values: "f \<in> set (binding_values b) \<longleftrightarrow> binding_present b f"
  by (cases f) (auto simp: binding_values_def bound_fields_def)

lemma check_bindings_ok [result_iff]: "check_bindings r b = Inr u \<longleftrightarrow> bindings_ok r b"
  by (cases "run_stage r")
    (auto simp: check_bindings_def bindings_ok_def result_iff Let_def filter_empty_conv mem_binding_values)

lemma machine_complete_ok [machine_ok]:
  "machine_complete policy r proof token e now b = Inr r' \<longleftrightarrow>
     run_revision r = e \<and> holds_fence r token now \<and> run_status r = RUNNING
     \<and> proof_run_id proof = run_id r \<and> proof_organisation_id proof = run_organisation_id r
     \<and> proof_stage proof = run_stage r
     \<and> (\<forall>p. policy = Some p \<longrightarrow> policy_validate p proof = Inr ()) \<and> bindings_ok r b \<and> run_valid r'
     \<and> r' = (if run_stage r = COMPLETE
             then (apply_bindings b r)\<lparr>run_status := COMPLETED, run_lease := None,
                    run_updated_at := now, run_revision := run_revision r + 1\<rparr>
             else (apply_bindings b r)\<lparr>run_stage := next_stage (run_stage r), run_status := RUNNING,
                    run_updated_at := now, run_revision := run_revision r + 1\<rparr>)"
  by (cases policy) (auto simp: machine_complete_def result_iff)

lemma record_frames [simp]:
  "run_id (clear_recovery r) = run_id r"
  "run_organisation_id (clear_recovery r) = run_organisation_id r"
  "run_credential_id (clear_recovery r) = run_credential_id r"
  "run_trigger (clear_recovery r) = run_trigger r"
  "run_control_version (clear_recovery r) = run_control_version r"
  "run_created_at (clear_recovery r) = run_created_at r"
  "run_stage (clear_recovery r) = run_stage r"
  "run_status (clear_recovery r) = run_status r"
  "run_lease (clear_recovery r) = run_lease r"
  "run_fencing_token (clear_recovery r) = run_fencing_token r"
  "run_revision (clear_recovery r) = run_revision r"
  "run_failure (clear_recovery r) = run_failure r"
  "run_browser_playbook_version (clear_recovery r) = run_browser_playbook_version r"
  "run_plan_id (clear_recovery r) = run_plan_id r"
  "run_plan_hash (clear_recovery r) = run_plan_hash r"
  "run_current_generation_id (clear_recovery r) = run_current_generation_id r"
  "run_target_generation_id (clear_recovery r) = run_target_generation_id r"
  "run_deployments (clear_recovery r) = run_deployments r"
  "run_recovery_stage (clear_recovery r) = None"
  "run_id (apply_bindings b r) = run_id r"
  "run_organisation_id (apply_bindings b r) = run_organisation_id r"
  "run_credential_id (apply_bindings b r) = run_credential_id r"
  "run_trigger (apply_bindings b r) = run_trigger r"
  "run_control_version (apply_bindings b r) = run_control_version r"
  "run_created_at (apply_bindings b r) = run_created_at r"
  "run_stage (apply_bindings b r) = run_stage r"
  "run_status (apply_bindings b r) = run_status r"
  "run_lease (apply_bindings b r) = run_lease r"
  "run_fencing_token (apply_bindings b r) = run_fencing_token r"
  "run_revision (apply_bindings b r) = run_revision r"
  "run_failure (apply_bindings b r) = run_failure r"
  "run_recovery_stage (apply_bindings b r) = run_recovery_stage r"
  by (simp_all add: clear_recovery_def apply_bindings_def)

section \<open>The specification of a transition\<close>

text \<open>
  \<open>enabled\<close> is the guard of a command and \<open>effect\<close> its effect, with no error in sight;
  \<open>transition_iff\<close> says that the machine implements exactly these, provided the result is a
  valid run.
\<close>

fun enabled :: "gate_policy option \<Rightarrow> int \<Rightarrow> command_body \<Rightarrow> rotation_run \<Rightarrow> bool" where
  "enabled policy now (StartRun owner ex) r \<longleftrightarrow>
     run_status r = PENDING \<and> now < ex \<and> identifier_ok owner \<and> 0 < run_fencing_token r + 1"
| "enabled policy now (RenewLease owner ex token) r \<longleftrightarrow>
     holds_fence r token now \<and> now < ex \<and> lease_owner_id (the (run_lease r)) = owner"
| "enabled policy now (CompleteStage token proof b) r \<longleftrightarrow>
     holds_fence r token now \<and> run_status r = RUNNING
     \<and> proof_run_id proof = run_id r \<and> proof_organisation_id proof = run_organisation_id r
     \<and> proof_stage proof = run_stage r
     \<and> opt_ok (\<lambda>p. policy_validate p proof = Inr ()) policy \<and> bindings_ok r b"
| "enabled policy now (PauseRun token) r \<longleftrightarrow>
     holds_fence r token now \<and> (run_status r = RUNNING \<or> run_status r = RECOVERING)"
| "enabled policy now (ResumeRun owner ex) r \<longleftrightarrow>
     run_status r = PAUSED \<and> now < ex \<and> identifier_ok owner
     \<and> opt_ok (\<lambda>l. now < lease_expires_at l \<longrightarrow> lease_owner_id l = owner) (run_lease r)
     \<and> 0 < run_fencing_token r + 1"
| "enabled policy now (FailRun token f) r \<longleftrightarrow>
     may_interrupt r token now
     \<and> run_status r \<noteq> COMPLETED \<and> run_status r \<noteq> FAILED \<and> run_status r \<noteq> COMPENSATED"
| "enabled policy now CancelRun r \<longleftrightarrow>
     run_status r \<noteq> CANCELLED \<and> run_status r \<noteq> COMPLETED \<and> run_status r \<noteq> COMPENSATED"
| "enabled policy now (CleanupRun token f) r \<longleftrightarrow>
     may_interrupt r token now
     \<and> (run_status r = RUNNING \<or> run_status r = RECOVERING \<or> run_status r = PAUSED)"
| "enabled policy now (RecoverRun owner ex) r \<longleftrightarrow>
     (run_status r = FAILED \<or> run_status r = CLEANUP) \<and> now < ex \<and> identifier_ok owner
     \<and> opt_ok (\<lambda>l. now < lease_expires_at l \<longrightarrow> lease_owner_id l = owner) (run_lease r)
     \<and> 0 < run_fencing_token r + 1"
| "enabled policy now (CompleteRecovery token rid mode ev) r \<longleftrightarrow>
     holds_fence r token now \<and> run_status r = RECOVERING
     \<and> run_recovery_stage r = Some (run_stage r) \<and> ev \<noteq> []
     \<and> (mode = RETRY \<longrightarrow>
          run_recovery_failure r \<noteq> None \<and> failure_retryable (the (run_recovery_failure r)))"

definition take_lease :: "string \<Rightarrow> int \<Rightarrow> rotation_run \<Rightarrow> rotation_run" where
  "take_lease owner ex r =
     r\<lparr>run_lease := Some \<lparr>lease_owner_id = owner, lease_fencing_token = run_fencing_token r + 1,
                           lease_expires_at = ex\<rparr>,
       run_fencing_token := run_fencing_token r + 1\<rparr>"

definition touch :: "int \<Rightarrow> rotation_run \<Rightarrow> rotation_run \<Rightarrow> rotation_run" where
  "touch now r r' = r'\<lparr>run_updated_at := now, run_revision := run_revision r + 1\<rparr>"

fun effect :: "int \<Rightarrow> command_body \<Rightarrow> rotation_run \<Rightarrow> rotation_run" where
  "effect now (StartRun owner ex) r = touch now r ((take_lease owner ex r)\<lparr>run_status := RUNNING\<rparr>)"
| "effect now (RenewLease owner ex token) r =
     touch now r (r\<lparr>run_lease := Some ((the (run_lease r))\<lparr>lease_expires_at := ex\<rparr>)\<rparr>)"
| "effect now (CompleteStage token proof b) r = touch now r
     (if run_stage r = COMPLETE
      then (apply_bindings b r)\<lparr>run_status := COMPLETED, run_lease := None\<rparr>
      else (apply_bindings b r)\<lparr>run_stage := next_stage (run_stage r), run_status := RUNNING\<rparr>)"
| "effect now (PauseRun token) r = touch now r (r\<lparr>run_status := PAUSED\<rparr>)"
| "effect now (ResumeRun owner ex) r = touch now r ((take_lease owner ex r)\<lparr>run_status := RUNNING\<rparr>)"
| "effect now (FailRun token f) r = touch now r
     ((if run_status r = RECOVERING then clear_recovery r else r)
        \<lparr>run_status := FAILED, run_failure := Some f, run_lease := None\<rparr>)"
| "effect now CancelRun r = touch now r
     ((clear_recovery r)\<lparr>run_status := CANCELLED, run_lease := None,
        run_fencing_token := run_fencing_token r + 1, run_failure := None\<rparr>)"
| "effect now (CleanupRun token f) r = touch now r (r\<lparr>run_status := CLEANUP, run_failure := Some f\<rparr>)"
| "effect now (RecoverRun owner ex) r = touch now r
     ((take_lease owner ex r)\<lparr>run_status := RECOVERING, run_failure := None,
        run_recovery_stage := Some (run_stage r), run_recovery_failure := run_failure r\<rparr>)"
| "effect now (CompleteRecovery token rid mode ev) r = touch now r
     (if mode = RETRY then (clear_recovery r)\<lparr>run_status := RUNNING\<rparr>
      else r\<lparr>run_status := COMPENSATED, run_lease := None, run_recovery_id := Some rid,
             run_recovery_mode := Some mode, run_recovery_evidence_ids := ev\<rparr>)"

lemma transition_iff:
  "command_transition policy now e body r = Inr r' \<longleftrightarrow>
     run_revision r = e \<and> enabled policy now body r \<and> r' = effect now body r \<and> run_valid r'"
proof (cases body)
  case (RenewLease owner ex token)
  then show ?thesis
    by (cases "run_lease r") (auto simp: machine_ok holds_fence_def touch_def)
next
  case (CompleteStage token pr b)
  then show ?thesis by (cases policy) (auto simp: machine_ok touch_def)
next
  case (CompleteRecovery token rid mode ev)
  then show ?thesis by (cases "mode = RETRY") (auto simp: machine_ok touch_def)
qed (auto simp: machine_ok touch_def take_lease_def)

declare command_transition.simps [simp del]

lemma touch_fields [simp]:
  "run_updated_at (touch now r r') = now" "run_revision (touch now r r') = run_revision r + 1"
  "run_id (touch now r r') = run_id r'" "run_organisation_id (touch now r r') = run_organisation_id r'"
  "run_credential_id (touch now r r') = run_credential_id r'"
  "run_trigger (touch now r r') = run_trigger r'"
  "run_control_version (touch now r r') = run_control_version r'"
  "run_created_at (touch now r r') = run_created_at r'"
  "run_stage (touch now r r') = run_stage r'" "run_status (touch now r r') = run_status r'"
  "run_lease (touch now r r') = run_lease r'"
  "run_fencing_token (touch now r r') = run_fencing_token r'"
  "run_failure (touch now r r') = run_failure r'"
  "run_recovery_stage (touch now r r') = run_recovery_stage r'"
  "run_browser_playbook_version (touch now r r') = run_browser_playbook_version r'"
  "run_plan_id (touch now r r') = run_plan_id r'" "run_plan_hash (touch now r r') = run_plan_hash r'"
  "run_current_generation_id (touch now r r') = run_current_generation_id r'"
  "run_target_generation_id (touch now r r') = run_target_generation_id r'"
  "run_deployments (touch now r r') = run_deployments r'"
  by (simp_all add: touch_def)

lemma take_lease_fields [simp]:
  "run_id (take_lease owner ex r) = run_id r"
  "run_organisation_id (take_lease owner ex r) = run_organisation_id r"
  "run_credential_id (take_lease owner ex r) = run_credential_id r"
  "run_trigger (take_lease owner ex r) = run_trigger r"
  "run_control_version (take_lease owner ex r) = run_control_version r"
  "run_created_at (take_lease owner ex r) = run_created_at r"
  "run_stage (take_lease owner ex r) = run_stage r" "run_status (take_lease owner ex r) = run_status r"
  "run_fencing_token (take_lease owner ex r) = run_fencing_token r + 1"
  "run_browser_playbook_version (take_lease owner ex r) = run_browser_playbook_version r"
  "run_plan_id (take_lease owner ex r) = run_plan_id r"
  "run_plan_hash (take_lease owner ex r) = run_plan_hash r"
  "run_current_generation_id (take_lease owner ex r) = run_current_generation_id r"
  "run_target_generation_id (take_lease owner ex r) = run_target_generation_id r"
  "run_deployments (take_lease owner ex r) = run_deployments r"
  by (simp_all add: take_lease_def)

section \<open>The contract of a transition\<close>

definition same_identity :: "rotation_run \<Rightarrow> rotation_run \<Rightarrow> bool" where
  "same_identity r r' \<longleftrightarrow>
     run_id r' = run_id r \<and> run_organisation_id r' = run_organisation_id r
     \<and> run_credential_id r' = run_credential_id r \<and> run_trigger r' = run_trigger r
     \<and> run_control_version r' = run_control_version r \<and> run_created_at r' = run_created_at r"

lemma effect_identity: "same_identity r (effect now body r)"
  by (cases body) (simp_all add: same_identity_def)

lemma effect_counters [simp]:
  "run_revision (effect now body r) = run_revision r + 1"
  "run_updated_at (effect now body r) = now"
  by (cases body; simp)+

lemma transition_contract:
  assumes "command_transition policy now e body r = Inr r'"
  shows "run_revision r = e" "run_revision r' = e + 1" "run_updated_at r' = now"
    "run_valid r'" "same_identity r r'"
  using assms effect_identity by (auto simp: transition_iff)

text \<open>The fencing token: a takeover or a cancellation increases it, nothing else changes it.\<close>

fun takes_fence :: "command_body \<Rightarrow> bool" where
  "takes_fence (StartRun _ _) = True"
| "takes_fence (ResumeRun _ _) = True"
| "takes_fence (RecoverRun _ _) = True"
| "takes_fence CancelRun = True"
| "takes_fence _ = False"

lemma transition_fence:
  "command_transition policy now e body r = Inr r' \<Longrightarrow>
     run_fencing_token r' = run_fencing_token r + (if takes_fence body then 1 else 0)"
  by (cases body) (auto simp: transition_iff)

text \<open>Commands that act under a lease carry the token of the lease they were given.\<close>

fun fenced :: "command_body \<Rightarrow> bool" where
  "fenced (RenewLease _ _ _) = True"
| "fenced (CompleteStage _ _ _) = True"
| "fenced (PauseRun _) = True"
| "fenced (CompleteRecovery _ _ _ _) = True"
| "fenced _ = False"

fun interrupts :: "command_body \<Rightarrow> bool" where
  "interrupts (FailRun _ _) = True"
| "interrupts (CleanupRun _ _) = True"
| "interrupts _ = False"

lemma fenced_holds_fence:
  "fenced body \<Longrightarrow> command_transition policy now e body r = Inr r' \<Longrightarrow>
     holds_fence r (body_token body) now"
  by (cases body) (auto simp: transition_iff)

lemma interrupts_may_interrupt:
  "interrupts body \<Longrightarrow> command_transition policy now e body r = Inr r' \<Longrightarrow>
     may_interrupt r (body_token body) now"
  by (cases body) (auto simp: transition_iff)

lemma run_valid_lease:
  "run_valid r \<Longrightarrow> run_lease r = Some l \<Longrightarrow> lease_fencing_token l = run_fencing_token r"
  by (simp add: run_valid_iff terminal_state_ok_def)

lemma holds_fence_token: "run_valid r \<Longrightarrow> holds_fence r token now \<Longrightarrow> token = run_fencing_token r"
  by (auto simp: holds_fence_def dest: run_valid_lease split: option.splits)

section \<open>Status and stage\<close>

text \<open>The legal changes of status, read off the methods of the machine.\<close>

definition status_steps :: "(run_status \<times> run_status) list" where
  "status_steps =
     [(PENDING, RUNNING), (PENDING, CANCELLED),
      (RUNNING, RUNNING), (RUNNING, COMPLETED), (RUNNING, PAUSED), (RUNNING, CLEANUP),
      (RUNNING, FAILED), (RUNNING, CANCELLED),
      (PAUSED, PAUSED), (PAUSED, RUNNING), (PAUSED, CLEANUP), (PAUSED, FAILED), (PAUSED, CANCELLED),
      (RECOVERING, RECOVERING), (RECOVERING, RUNNING), (RECOVERING, COMPENSATED),
      (RECOVERING, FAILED), (RECOVERING, CANCELLED),
      (CLEANUP, CLEANUP), (CLEANUP, RECOVERING), (CLEANUP, FAILED), (CLEANUP, CANCELLED),
      (FAILED, FAILED), (FAILED, RECOVERING), (FAILED, CANCELLED)]"

lemma run_valid_recovery:
  "run_valid r \<Longrightarrow> (run_recovery_stage r \<noteq> None) = (run_status r = RECOVERING \<or> run_status r = COMPENSATED)"
  by (simp add: run_valid_iff terminal_state_ok_def)

lemma run_valid_completed: "run_valid r \<Longrightarrow> run_status r = COMPLETED \<Longrightarrow> run_stage r = COMPLETE"
  by (simp add: run_valid_iff terminal_state_ok_def)

text \<open>
  A recovering run is bound to its failed stage, and only \<open>fail\<close>, \<open>cancel\<close> and a finished
  recovery release that binding; so the validator rejects what \<open>pause\<close> and \<open>cleanup\<close> make
  of a recovering run, although their guards let it through.
\<close>

lemma pause_recovering_invalid:
  "run_valid r \<Longrightarrow> run_status r = RECOVERING \<Longrightarrow> \<not> run_valid (effect now (PauseRun token) r)"
  using run_valid_recovery [of r] run_valid_recovery [of "effect now (PauseRun token) r"] by auto

lemma cleanup_recovering_invalid:
  "run_valid r \<Longrightarrow> run_status r = RECOVERING \<Longrightarrow> \<not> run_valid (effect now (CleanupRun token f) r)"
  using run_valid_recovery [of r] run_valid_recovery [of "effect now (CleanupRun token f) r"] by auto

section \<open>The invariant of a run\<close>

text \<open>
  Beyond what the validator checks: exactly the live states hold a lease, a recovery is bound to
  the stage the run is in, and the fields a stage binds are set exactly when that stage is past.
\<close>

definition holds_lease_status :: "run_status \<Rightarrow> bool" where
  "holds_lease_status st \<longleftrightarrow> st = RUNNING \<or> st = PAUSED \<or> st = RECOVERING \<or> st = CLEANUP"

definition bound_after :: "rotation_run \<Rightarrow> bool" where
  "bound_after r \<longleftrightarrow>
     (run_current_generation_id r \<noteq> None \<longleftrightarrow> stage_index PREFLIGHT < stage_index (run_stage r))
     \<and> (run_plan_id r \<noteq> None \<longleftrightarrow> stage_index PLAN < stage_index (run_stage r))
     \<and> (run_plan_hash r \<noteq> None \<longleftrightarrow> stage_index PLAN < stage_index (run_stage r))
     \<and> (run_target_generation_id r \<noteq> None \<longleftrightarrow> stage_index CREATE < stage_index (run_stage r))
     \<and> (run_deployments r \<noteq> [] \<longleftrightarrow> stage_index DEPLOY < stage_index (run_stage r))"

definition machine_inv :: "rotation_run \<Rightarrow> bool" where
  "machine_inv r \<longleftrightarrow>
     run_valid r
     \<and> (run_lease r \<noteq> None \<longleftrightarrow> holds_lease_status (run_status r))
     \<and> (run_status r = RECOVERING \<longrightarrow> run_recovery_stage r = Some (run_stage r))
     \<and> (run_status r = PENDING \<longrightarrow> run_stage r = TRIGGER)
     \<and> bound_after r"

lemma holds_fence_lease: "holds_fence r token now \<Longrightarrow> run_lease r \<noteq> None"
  by (auto simp: holds_fence_def split: option.splits)

lemma may_interrupt_lease: "may_interrupt r token now \<Longrightarrow> run_lease r \<noteq> None"
  by (auto simp: may_interrupt_def split: option.splits)

lemma transition_status:
  assumes inv: "machine_inv r" and step: "command_transition policy now e body r = Inr r'"
  shows "(run_status r, run_status r') \<in> set status_steps"
proof -
  from step have en: "enabled policy now body r" and eff: "r' = effect now body r"
    and v: "run_valid r'" by (auto simp: transition_iff)
  have "run_valid r" and lease: "run_lease r \<noteq> None \<longrightarrow> holds_lease_status (run_status r)"
    using inv by (simp_all add: machine_inv_def)
  then have "body = PauseRun t \<longrightarrow> run_status r \<noteq> RECOVERING"
    and "body = CleanupRun t f \<longrightarrow> run_status r \<noteq> RECOVERING" for t f
    using v eff pause_recovering_invalid cleanup_recovering_invalid by blast+
  then show ?thesis
    using en lease unfolding eff holds_lease_status_def
    by (cases body; cases "run_status r")
      (auto simp: status_steps_def dest: holds_fence_lease may_interrupt_lease)
qed

lemma bindings_ok_stage:
  assumes "bindings_ok r b"
  shows "bind_plan_id b \<noteq> None \<longleftrightarrow> run_stage r = PLAN"
    "bind_plan_hash b \<noteq> None \<longleftrightarrow> run_stage r = PLAN"
    "bind_current_generation_id b \<noteq> None \<longleftrightarrow> run_stage r = PREFLIGHT"
    "bind_target_generation_id b \<noteq> None \<longleftrightarrow> run_stage r = CREATE"
    "bind_deployments b \<noteq> [] \<longleftrightarrow> run_stage r = DEPLOY"
    "bind_browser_playbook_version b \<noteq> None \<Longrightarrow> run_stage r = PREFLIGHT"
proof -
  have sub: "binding_present b f \<Longrightarrow> f \<in> set (allowed_fields (run_stage r))" for f
    using assms mem_binding_values [of f b] by (auto simp: bindings_ok_def)
  have eq: "run_stage r \<in> {PLAN, CREATE, DEPLOY} \<Longrightarrow> f \<in> set (allowed_fields (run_stage r)) \<Longrightarrow> binding_present b f" for f
    using assms mem_binding_values [of f b] by (auto simp: bindings_ok_def)
  have cur: "run_stage r = PREFLIGHT \<Longrightarrow> bind_current_generation_id b \<noteq> None"
    using assms by (simp add: bindings_ok_def)
  show "bind_plan_id b \<noteq> None \<longleftrightarrow> run_stage r = PLAN"
    using sub [of F_plan_id] eq [of F_plan_id] by (cases "bind_plan_id b"; cases "run_stage r") auto
  show "bind_plan_hash b \<noteq> None \<longleftrightarrow> run_stage r = PLAN"
    using sub [of F_plan_hash] eq [of F_plan_hash] by (cases "bind_plan_hash b"; cases "run_stage r") auto
  show "bind_current_generation_id b \<noteq> None \<longleftrightarrow> run_stage r = PREFLIGHT"
    using sub [of F_current_generation_id] cur by (cases "bind_current_generation_id b"; cases "run_stage r") auto
  show "bind_target_generation_id b \<noteq> None \<longleftrightarrow> run_stage r = CREATE"
    using sub [of F_target_generation_id] eq [of F_target_generation_id] by (cases "bind_target_generation_id b"; cases "run_stage r") auto
  show "bind_deployments b \<noteq> [] \<longleftrightarrow> run_stage r = DEPLOY"
    using sub [of F_deployments] eq [of F_deployments] by (cases "run_stage r") auto
  show "bind_browser_playbook_version b \<noteq> None \<Longrightarrow> run_stage r = PREFLIGHT"
    using sub [of F_browser_playbook_version] by (cases "bind_browser_playbook_version b"; cases "run_stage r") auto
qed

lemma apply_bindings_fields:
  "run_plan_id (apply_bindings b r) = (case bind_plan_id b of None \<Rightarrow> run_plan_id r | Some v \<Rightarrow> Some v)"
  "run_plan_hash (apply_bindings b r) = (case bind_plan_hash b of None \<Rightarrow> run_plan_hash r | Some v \<Rightarrow> Some v)"
  "run_current_generation_id (apply_bindings b r) =
     (case bind_current_generation_id b of None \<Rightarrow> run_current_generation_id r | Some v \<Rightarrow> Some v)"
  "run_target_generation_id (apply_bindings b r) =
     (case bind_target_generation_id b of None \<Rightarrow> run_target_generation_id r | Some v \<Rightarrow> Some v)"
  "run_browser_playbook_version (apply_bindings b r) =
     (case bind_browser_playbook_version b of None \<Rightarrow> run_browser_playbook_version r | Some v \<Rightarrow> Some v)"
  "run_deployments (apply_bindings b r) = (if bind_deployments b = [] then run_deployments r else bind_deployments b)"
  by (simp_all add: apply_bindings_def)

lemma bound_after_complete:
  assumes "bindings_ok r b" "bound_after r" "run_stage r' = next_stage (run_stage r)" "run_stage r \<noteq> COMPLETE"
    "run_plan_id r' = run_plan_id (apply_bindings b r)" "run_plan_hash r' = run_plan_hash (apply_bindings b r)"
    "run_current_generation_id r' = run_current_generation_id (apply_bindings b r)"
    "run_target_generation_id r' = run_target_generation_id (apply_bindings b r)"
    "run_deployments r' = run_deployments (apply_bindings b r)"
  shows "bound_after r'"
proof -
  note st = bindings_ok_stage [OF assms(1)]
  have idx: "stage_index (run_stage r') = Suc (stage_index (run_stage r))"
    using assms(3,4) by (simp add: stage_index_next)
  have less: "stage_index s < Suc (stage_index (run_stage r)) \<longleftrightarrow>
      run_stage r = s \<or> stage_index s < stage_index (run_stage r)" for s
    by (auto simp: less_Suc_eq)
  show ?thesis
    using assms(2) st(1-5) unfolding bound_after_def idx less assms(5-9) apply_bindings_fields
    by (auto split: option.splits)
qed

lemma machine_inv_step:
  assumes inv: "machine_inv r" and step: "command_transition policy now e body r = Inr r'"
  shows "machine_inv r'"
proof -
  from step have en: "enabled policy now body r" and eff: "r' = effect now body r"
    and v: "run_valid r'" by (auto simp: transition_iff)
  have rv: "run_valid r" and ba: "bound_after r"
    and lease: "run_lease r \<noteq> None \<longleftrightarrow> holds_lease_status (run_status r)"
    using inv by (simp_all add: machine_inv_def)
  have "body = PauseRun t \<longrightarrow> run_status r \<noteq> RECOVERING" for t
    using v eff rv pause_recovering_invalid by blast
  moreover have "bound_after r'"
  proof (cases "\<exists>t p b. body = CompleteStage t p b \<and> run_stage r \<noteq> COMPLETE")
    case True
    then show ?thesis using bound_after_complete [OF _ ba] en eff by auto
  next
    case False
    then show ?thesis using ba bindings_ok_stage [of r] en unfolding eff
      by (cases body) (auto simp: bound_after_def apply_bindings_fields split: option.splits)
  qed
  ultimately show ?thesis
    using en v inv lease unfolding eff machine_inv_def holds_lease_status_def
    by (cases body) (auto simp: take_lease_def dest: holds_fence_lease may_interrupt_lease)
qed

end
