(* ===== verification/Machine_Properties.thy ===== *)
theory Machine_Properties imports Machine_Facts begin
text \<open>
  Whole lives of a run: \<open>run_commands\<close> applies a list of commands, each with the time it is
  executed at and the revision it expects, and stops at the first error. The theorems are the
  promises of the machine over such histories.
\<close>

section \<open>Histories\<close>

type_synonym timed_command = "int \<times> int \<times> command_body"

fun run_commands :: "gate_policy option \<Rightarrow> rotation_run \<Rightarrow> timed_command list \<Rightarrow> rotation_run result" where
  "run_commands policy r [] = Inr r"
| "run_commands policy r ((now, expected, body) # cmds) =
     bindr (command_transition policy now expected body r) (\<lambda>r'. run_commands policy r' cmds)"

fun stage_proofs :: "timed_command list \<Rightarrow> stage_proof list" where
  "stage_proofs [] = []"
| "stage_proofs ((_, _, CompleteStage _ p _) # cmds) = p # stage_proofs cmds"
| "stage_proofs (_ # cmds) = stage_proofs cmds"

text \<open>The number of stages a run has behind it.\<close>

definition progress :: "rotation_run \<Rightarrow> nat" where
  "progress r = stage_index (run_stage r) + (if run_status r = COMPLETED then 1 else 0)"

lemma run_commands_append:
  "run_commands policy r (xs @ ys) = bindr (run_commands policy r xs) (\<lambda>r'. run_commands policy r' ys)"
  by (induction xs arbitrary: r) (auto simp: bindr_assoc)

lemma run_commands_invariant:
  assumes "run_commands policy r cmds = Inr r'" "I r"
    and "\<And>now e body r r'. I r \<Longrightarrow> command_transition policy now e body r = Inr r' \<Longrightarrow> I r'"
  shows "I r'"
  using assms(1,2)
proof (induction cmds arbitrary: r)
  case Nil
  then show ?case by simp
next
  case (Cons c cmds)
  obtain now e body where c: "c = (now, e, body)" by (cases c)
  from Cons.prems(1) obtain r1 where "command_transition policy now e body r = Inr r1"
    "run_commands policy r1 cmds = Inr r'" by (auto simp: c bindr_eq_Inr)
  with Cons.IH Cons.prems(2) assms(3) show ?case by blast
qed

lemma machine_inv_commands:
  "run_commands policy r cmds = Inr r' \<Longrightarrow> machine_inv r \<Longrightarrow> machine_inv r'"
  by (rule run_commands_invariant) (auto dest: machine_inv_step)

lemma same_identity_trans: "same_identity a b \<Longrightarrow> same_identity b c \<Longrightarrow> same_identity a c"
  by (simp add: same_identity_def)

lemma same_identity_refl: "same_identity r r"
  by (simp add: same_identity_def)

lemma same_identity_commands: "run_commands policy r cmds = Inr r' \<Longrightarrow> same_identity r r'"
  by (rule run_commands_invariant [where I = "same_identity r"])
    (auto intro: same_identity_trans transition_contract(5) same_identity_refl)

lemma machine_inv_build:
  assumes "build_run c rid now = Inr r"
  shows "machine_inv r" "progress r = 0" "run_status r = PENDING" "run_revision r = 0"
    "run_fencing_token r = 0"
proof -
  from assms have v: "run_valid r" by (auto simp: build_run_def validate_run_iff run_valid_iff)
  from assms have "r = (case build_run c rid now of Inr x \<Rightarrow> x | Inl _ \<Rightarrow> undefined)" by simp
  with assms have "run_stage r = TRIGGER" "run_status r = PENDING" "run_lease r = None"
    "run_current_generation_id r = None" "run_plan_id r = None" "run_plan_hash r = None"
    "run_target_generation_id r = None" "run_deployments r = []" "run_revision r = 0"
    "run_fencing_token r = 0"
    by (auto simp: build_run_def validate_run_iff)
  with v show "machine_inv r" "progress r = 0" "run_status r = PENDING" "run_revision r = 0"
    "run_fencing_token r = 0"
    by (simp_all add: machine_inv_def bound_after_def holds_lease_status_def progress_def)
qed

section \<open>Stages complete in order, each with its evidence\<close>

lemma transition_progress:
  assumes inv: "machine_inv r" and step: "command_transition (Some p) now e body r = Inr r'"
  shows "(case body of
            CompleteStage t pr b \<Rightarrow> proof_stage pr = STAGES ! progress r \<and> progress r < 12
              \<and> progress r' = Suc (progress r) \<and> policy_validate p pr = Inr ()
          | _ \<Rightarrow> progress r' = progress r)"
proof -
  from step have en: "enabled (Some p) now body r" and eff: "r' = effect now body r"
    by (auto simp: transition_iff)
  have st: "(run_status r, run_status r') \<in> set status_steps"
    using transition_status [OF inv step] .
  show ?thesis
  proof (cases body)
    case (CompleteStage t pr b)
    then show ?thesis
      using en stage_index_less [of "run_stage r"] unfolding eff
      by (auto simp: progress_def stage_index_next opt_ok_def)
  qed (use en st in \<open>auto simp: eff progress_def status_steps_def\<close>)
qed

lemma stage_proofs_Cons:
  "stage_proofs ((now, e, body) # cmds) =
     (case body of CompleteStage t p b \<Rightarrow> p # stage_proofs cmds | _ \<Rightarrow> stage_proofs cmds)"
  by (cases body) simp_all

lemma history_progress:
  assumes "run_commands (Some p) r cmds = Inr r'" "machine_inv r"
  shows "map proof_stage (stage_proofs cmds) = take (progress r' - progress r) (drop (progress r) STAGES)
         \<and> progress r \<le> progress r' \<and> progress r' \<le> 12
         \<and> list_all (\<lambda>pr. policy_validate p pr = Inr ()) (stage_proofs cmds)"
  using assms
proof (induction cmds arbitrary: r)
  case Nil
  then show ?case using stage_index_le_complete [of "run_stage r"] by (simp add: progress_def)
next
  case (Cons c cmds)
  obtain now e body where c: "c = (now, e, body)" by (cases c)
  from Cons.prems(1) obtain r1 where step: "command_transition (Some p) now e body r = Inr r1"
    and rest: "run_commands (Some p) r1 cmds = Inr r'" by (auto simp: c bindr_eq_Inr)
  have inv1: "machine_inv r1" by (rule machine_inv_step [OF Cons.prems(2) step])
  note IH = Cons.IH [OF rest inv1] and tp = transition_progress [OF Cons.prems(2) step]
  have drop: "n < 12 \<Longrightarrow> drop n STAGES = STAGES ! n # drop (Suc n) STAGES" for n
    by (rule Cons_nth_drop_Suc [symmetric]) (simp add: STAGES_def)
  show ?case
  proof (cases "\<exists>t pr b. body = CompleteStage t pr b")
    case True
    then obtain t pr b where b: "body = CompleteStage t pr b" by blast
    then have "progress r1 = Suc (progress r)" "progress r < 12" "proof_stage pr = STAGES ! progress r"
      "policy_validate p pr = Inr ()" using tp by auto
    then show ?thesis using IH drop [of "progress r"] Suc_diff_le [of "Suc (progress r)" "progress r'"]
      by (auto simp: c b stage_proofs_Cons take_Suc_conv_app_nth Suc_diff_Suc simp flip: Suc_diff_Suc)
  next
    case False
    then show ?thesis using IH tp by (cases body) (auto simp: c stage_proofs_Cons)
  qed
qed

lemma stage_proofs_of_run:
  "run_commands policy r cmds = Inr r' \<Longrightarrow> list_all (\<lambda>pr. proof_run_id pr = run_id r) (stage_proofs cmds)"
proof (induction cmds arbitrary: r)
  case Nil
  then show ?case by simp
next
  case (Cons c cmds)
  obtain now e body where c: "c = (now, e, body)" by (cases c)
  from Cons.prems obtain r1 where step: "command_transition policy now e body r = Inr r1"
    and rest: "run_commands policy r1 cmds = Inr r'" by (auto simp: c bindr_eq_Inr)
  have "run_id r1 = run_id r" using transition_contract(5) [OF step] by (simp add: same_identity_def)
  then show ?case using Cons.IH [OF rest] step
    by (cases body) (auto simp: c transition_iff stage_proofs_Cons)
qed


text \<open>
  The properties of the rotation machine: refinement of its specification, progress, fencing,
  write-once bindings, absorbing terminal states and the evidence behind a completed run; with two
  defects of \<open>pause\<close> and \<open>cleanup\<close> on a recovering run stated as what the code does.
\<close>

section \<open>Enabled commands succeed\<close>

fun stops_recovery :: "command_body \<Rightarrow> bool" where
  "stops_recovery (PauseRun _) = True"
| "stops_recovery (CleanupRun _ _) = True"
| "stops_recovery _ = False"

lemma fields_ok_update:
  assumes "rotation_run_fields_ok r"
    and "run_id r' = run_id r" "run_organisation_id r' = run_organisation_id r"
    "run_credential_id r' = run_credential_id r" "run_trigger r' = run_trigger r"
    "run_control_version r' = run_control_version r"
    and "opt_ok lease_fields_ok (run_lease r')" "0 \<le> run_fencing_token r'"
    "opt_ok identifier_ok (run_browser_playbook_version r')" "opt_ok identifier_ok (run_plan_id r')"
    "opt_ok hex64 (run_plan_hash r')" "opt_ok identifier_ok (run_current_generation_id r')"
    "opt_ok identifier_ok (run_target_generation_id r')"
    "list_all runtime_deployment_fields_ok (run_deployments r')"
    "opt_ok failure_fields_ok (run_failure r')" "opt_ok identifier_ok (run_recovery_id r')"
    "opt_ok failure_fields_ok (run_recovery_failure r')"
    "list_all identifier_ok (run_recovery_evidence_ids r')" "0 \<le> run_revision r'"
  shows "rotation_run_fields_ok r'"
  using assms by (simp add: rotation_run_fields_ok_def)

lemma fields_okD:
  assumes "rotation_run_fields_ok r"
  shows "opt_ok lease_fields_ok (run_lease r)" "0 \<le> run_fencing_token r"
    "opt_ok identifier_ok (run_browser_playbook_version r)" "opt_ok identifier_ok (run_plan_id r)"
    "opt_ok hex64 (run_plan_hash r)" "opt_ok identifier_ok (run_current_generation_id r)"
    "opt_ok identifier_ok (run_target_generation_id r)"
    "list_all runtime_deployment_fields_ok (run_deployments r)"
    "opt_ok failure_fields_ok (run_failure r)" "opt_ok identifier_ok (run_recovery_id r)"
    "opt_ok failure_fields_ok (run_recovery_failure r)"
    "list_all identifier_ok (run_recovery_evidence_ids r)" "0 \<le> run_revision r"
  using assms by (simp_all add: rotation_run_fields_ok_def)

lemma effect_same:
  "run_id (effect now body r) = run_id r"
  "run_organisation_id (effect now body r) = run_organisation_id r"
  "run_credential_id (effect now body r) = run_credential_id r"
  "run_trigger (effect now body r) = run_trigger r"
  "run_control_version (effect now body r) = run_control_version r"
  using effect_identity [of r now body] by (simp_all add: same_identity_def)

lemma touch_more [simp]:
  "run_recovery_id (touch now r r') = run_recovery_id r'"
  "run_recovery_mode (touch now r r') = run_recovery_mode r'"
  "run_recovery_failure (touch now r r') = run_recovery_failure r'"
  "run_recovery_evidence_ids (touch now r r') = run_recovery_evidence_ids r'"
  by (simp_all add: touch_def)

lemma clear_recovery_values [simp]:
  "run_recovery_id (clear_recovery r) = None" "run_recovery_mode (clear_recovery r) = None"
  "run_recovery_failure (clear_recovery r) = None" "run_recovery_evidence_ids (clear_recovery r) = []"
  by (simp_all add: clear_recovery_def)

lemma bind_recovery_frame [simp]:
  "run_recovery_id (apply_bindings b r) = run_recovery_id r"
  "run_recovery_mode (apply_bindings b r) = run_recovery_mode r"
  "run_recovery_failure (apply_bindings b r) = run_recovery_failure r"
  "run_recovery_evidence_ids (apply_bindings b r) = run_recovery_evidence_ids r"
  by (simp_all add: apply_bindings_def)

lemma take_lease_more [simp]:
  "run_recovery_id (take_lease owner ex r) = run_recovery_id r"
  "run_recovery_mode (take_lease owner ex r) = run_recovery_mode r"
  "run_recovery_failure (take_lease owner ex r) = run_recovery_failure r"
  "run_recovery_evidence_ids (take_lease owner ex r) = run_recovery_evidence_ids r"
  "run_recovery_stage (take_lease owner ex r) = run_recovery_stage r"
  "run_failure (take_lease owner ex r) = run_failure r"
  "run_revision (take_lease owner ex r) = run_revision r"
  "run_lease (take_lease owner ex r) =
     Some \<lparr>lease_owner_id = owner, lease_fencing_token = run_fencing_token r + 1, lease_expires_at = ex\<rparr>"
  by (simp_all add: take_lease_def)

lemma effect_fields_ok:
  assumes ok: "rotation_run_fields_ok r" and en: "enabled policy now body r" and body: "body_fields_ok body"
  shows "rotation_run_fields_ok (effect now body r)"
proof (rule fields_ok_update [OF ok effect_same])
  note r = fields_okD [OF ok]
  have b: "body = CompleteStage t p b \<Longrightarrow> stage_bindings_fields_ok b" for t p b
    using body by simp
  show "opt_ok lease_fields_ok (run_lease (effect now body r))"
    using r(1,2) en by (cases body) (auto simp: lease_fields_ok_def opt_ok_def holds_fence_def split: option.splits)
  show "0 \<le> run_fencing_token (effect now body r)"
    using r(2) by (cases body) auto
  show "opt_ok identifier_ok (run_browser_playbook_version (effect now body r))"
    "opt_ok identifier_ok (run_plan_id (effect now body r))" "opt_ok hex64 (run_plan_hash (effect now body r))"
    "opt_ok identifier_ok (run_current_generation_id (effect now body r))"
    "opt_ok identifier_ok (run_target_generation_id (effect now body r))"
    "list_all runtime_deployment_fields_ok (run_deployments (effect now body r))"
    using r(3-8) b
    by (cases body; auto simp: apply_bindings_fields stage_bindings_fields_ok_def split: option.splits)+
  show "opt_ok failure_fields_ok (run_failure (effect now body r))"
    "opt_ok identifier_ok (run_recovery_id (effect now body r))"
    "opt_ok failure_fields_ok (run_recovery_failure (effect now body r))"
    "list_all identifier_ok (run_recovery_evidence_ids (effect now body r))"
    using r(9-12) body by (cases body; auto)+
  show "0 \<le> run_revision (effect now body r)" using r(13) by simp
qed

lemma effect_terminal_ok:
  assumes inv: "machine_inv r" and en: "enabled policy now body r"
    and "run_status r = RECOVERING \<longrightarrow> \<not> stops_recovery body"
  shows "terminal_state_ok (effect now body r)"
proof -
  have t: "terminal_state_ok r" and lease: "run_lease r \<noteq> None \<longleftrightarrow> holds_lease_status (run_status r)"
    using inv by (simp_all add: machine_inv_def run_valid_iff)
  show ?thesis
    using t en assms(3) lease unfolding terminal_state_ok_def
    by (cases body) (auto simp: holds_lease_status_def opt_ok_def dest: holds_fence_lease may_interrupt_lease
        split: option.splits)
qed

lemma enabled_succeeds:
  assumes "machine_inv r" "body_fields_ok body" "enabled policy now body r"
    "run_status r = RECOVERING \<longrightarrow> \<not> stops_recovery body"
  shows "command_transition policy now (run_revision r) body r = Inr (effect now body r)"
  using assms effect_fields_ok effect_terminal_ok
  by (auto simp: transition_iff run_valid_iff machine_inv_def)

lemma transition_result_cases:
  assumes "machine_inv r" "body_fields_ok body"
    and "run_status r = RECOVERING \<longrightarrow> \<not> stops_recovery body"
  shows "is_ok (command_transition policy now e body r) \<longleftrightarrow> run_revision r = e \<and> enabled policy now body r"
  using assms enabled_succeeds [OF assms(1,2) _ assms(3)] by (auto simp: is_ok_iff transition_iff)

section \<open>The defect of pause and cleanup during a recovery\<close>

lemma recovery_binding_error:
  assumes "run_valid r" "run_status r = RECOVERING" "rotation_run_fields_ok r'"
    and "run_lease r' = run_lease r" "run_fencing_token r' = run_fencing_token r"
    "run_recovery_stage r' = run_recovery_stage r"
    and "run_status r' = PAUSED \<and> run_failure r' = run_failure r \<or> run_status r' = CLEANUP \<and> run_failure r' \<noteq> None"
  shows "validate_run r' = Inl (ValidationError ''recovery states require the failed stage binding'')"
  using assms by (auto simp: validate_run_def validate_terminal_state_def run_valid_iff
      terminal_state_ok_def Let_def)

lemma pause_recovering:
  assumes "machine_inv r" "run_status r = RECOVERING" "holds_fence r token now"
  shows "machine_pause r token (run_revision r) now
           = Inl (ValidationError ''recovery states require the failed stage binding'')"
proof -
  have v: "run_valid r" using assms(1) by (simp add: machine_inv_def)
  have "0 < token" using v assms(3)
    by (auto simp: run_valid_iff rotation_run_fields_ok_def holds_fence_def lease_fields_ok_def split: option.splits)
  then have f: "rotation_run_fields_ok (effect now (PauseRun token) r)"
    using v assms by (intro effect_fields_ok [where policy = None]) (simp_all add: run_valid_iff)
  have c: "check_control r token (run_revision r) now = Inr ()"
    using assms(3) by (simp add: check_control_ok)
  have "validate_run (effect now (PauseRun token) r)
      = Inl (ValidationError ''recovery states require the failed stage binding'')"
    by (rule recovery_binding_error [OF v assms(2) f]) simp_all
  then show ?thesis using c assms(2) by (simp add: machine_pause_def update_run_def touch_def)
qed

lemma cleanup_recovering:
  assumes "machine_inv r" "run_status r = RECOVERING" "may_interrupt r token now" "failure_fields_ok f"
    "0 < token"
  shows "machine_cleanup r f token (run_revision r) now
           = Inl (ValidationError ''recovery states require the failed stage binding'')"
proof -
  have v: "run_valid r" using assms(1) by (simp add: machine_inv_def)
  have g: "rotation_run_fields_ok (effect now (CleanupRun token f) r)"
    using v assms by (intro effect_fields_ok [where policy = None]) (simp_all add: run_valid_iff)
  have c: "check_interrupt_control r token (run_revision r) now = Inr ()"
    using assms(3) by (simp add: check_interrupt_control_ok)
  have "validate_run (effect now (CleanupRun token f) r)
      = Inl (ValidationError ''recovery states require the failed stage binding'')"
    by (rule recovery_binding_error [OF v assms(2) g]) simp_all
  then show ?thesis using c assms(2) by (simp add: machine_cleanup_def update_run_def touch_def)
qed

section \<open>Fences and leases\<close>

lemma fence_monotone_commands:
  "run_commands policy r cmds = Inr r' \<Longrightarrow> run_fencing_token r \<le> run_fencing_token r'"
  by (rule run_commands_invariant [where I = "\<lambda>x. run_fencing_token r \<le> run_fencing_token x"])
    (auto dest!: transition_fence split: if_splits)

lemma fence_grows:
  assumes "run_commands policy r cmds = Inr r'" "(now, e, body) \<in> set cmds" "takes_fence body"
  shows "run_fencing_token r < run_fencing_token r'"
proof -
  from assms(2) obtain xs ys where c: "cmds = xs @ (now, e, body) # ys" by (auto dest: split_list)
  from assms(1) obtain r1 r2 where 1: "run_commands policy r xs = Inr r1"
    and 2: "command_transition policy now e body r1 = Inr r2" and 3: "run_commands policy r2 ys = Inr r'"
    by (auto simp: c run_commands_append bindr_eq_Inr)
  from fence_monotone_commands [OF 1] transition_fence [OF 2] fence_monotone_commands [OF 3] assms(3)
  show ?thesis by simp
qed

lemma lease_owner_step:
  assumes "machine_inv r" "command_transition policy now e body r = Inr r'"
    and "run_lease r = Some l" "now < lease_expires_at l" "run_lease r' = Some l'"
  shows "lease_owner_id l' = lease_owner_id l"
proof -
  have "run_status r \<noteq> PENDING" using assms(1,3) by (auto simp: machine_inv_def holds_lease_status_def)
  then show ?thesis using assms(2-) by (cases body) (auto simp: transition_iff split: if_splits)
qed

section \<open>Bindings and terminal states\<close>

definition keeps :: "'a option \<Rightarrow> 'a option \<Rightarrow> bool" where
  "keeps a b \<longleftrightarrow> (a = None \<or> a = b)"

definition bindings_kept :: "rotation_run \<Rightarrow> rotation_run \<Rightarrow> bool" where
  "bindings_kept r r' \<longleftrightarrow>
     keeps (run_browser_playbook_version r) (run_browser_playbook_version r')
     \<and> keeps (run_plan_id r) (run_plan_id r') \<and> keeps (run_plan_hash r) (run_plan_hash r')
     \<and> keeps (run_current_generation_id r) (run_current_generation_id r')
     \<and> keeps (run_target_generation_id r) (run_target_generation_id r')
     \<and> (run_deployments r = [] \<or> run_deployments r' = run_deployments r)"

lemma bindings_kept_apply:
  assumes "bindings_ok r b"
  shows "bindings_kept r (apply_bindings b r)"
proof -
  have nc: "binding_present b f \<Longrightarrow> \<not> binding_conflict r b f" for f
    using assms mem_binding_values [of f b] by (auto simp: bindings_ok_def)
  show ?thesis
    using nc [of F_browser_playbook_version] nc [of F_plan_id] nc [of F_plan_hash]
      nc [of F_current_generation_id] nc [of F_target_generation_id] nc [of F_deployments]
    by (auto simp: bindings_kept_def keeps_def apply_bindings_fields split: option.splits)
qed

lemma effect_bindings:
  "enabled policy now body r \<Longrightarrow> bindings_kept r (effect now body r)"
proof (cases body)
  case (CompleteStage t pr b)
  assume "enabled policy now body r"
  then have "bindings_kept r (apply_bindings b r)" by (simp add: CompleteStage bindings_kept_apply)
  then show ?thesis by (simp add: CompleteStage bindings_kept_def)
qed (simp_all add: bindings_kept_def keeps_def)

lemma bindings_kept_step:
  "command_transition policy now e body r = Inr r' \<Longrightarrow> bindings_kept r r'"
  by (auto simp: transition_iff intro: effect_bindings)

lemma bindings_kept_refl: "bindings_kept r r"
  by (simp add: bindings_kept_def keeps_def)

lemma keeps_trans: "keeps a b \<Longrightarrow> keeps b c \<Longrightarrow> keeps a c"
  by (auto simp: keeps_def)

lemma bindings_kept_trans:
  assumes "bindings_kept a b" "bindings_kept b c"
  shows "bindings_kept a c"
  using assms unfolding bindings_kept_def by (metis keeps_trans)

lemma bindings_kept_commands: "run_commands policy r cmds = Inr r' \<Longrightarrow> bindings_kept r r'"
  by (rule run_commands_invariant [where I = "bindings_kept r"])
    (assumption, rule bindings_kept_refl, erule bindings_kept_trans, erule bindings_kept_step)

lemma terminal_rejects:
  assumes "machine_inv r" "run_status r \<in> {COMPLETED, CANCELLED, COMPENSATED}"
  shows "\<not> is_ok (command_transition policy now e body r)"
  using transition_status [OF assms(1), of policy now e body] assms(2)
  by (auto simp: is_ok_iff status_steps_def)

end
