(* ===== verification/Controls.thy ===== *)
theory Controls imports Machine_Properties begin
text \<open>
  packages/contracts/src/contracts/control.py: the credential controls a run is pinned to, with
  the validators of \<open>ControlPreferences\<close> and \<open>ControlDefinition\<close>, and the dump of a definition
  that its digest is computed from. Dictionaries over stages are association lists.
\<close>

section \<open>Contracts\<close>

datatype confidence = ConfLow | ConfMedium | ConfHigh | ConfVerified

fun confidence_value :: "confidence \<Rightarrow> string" where
  "confidence_value ConfLow = ''low''"
| "confidence_value ConfMedium = ''medium''"
| "confidence_value ConfHigh = ''high''"
| "confidence_value ConfVerified = ''verified''"

record exposure_source =
  exp_connection_id :: string
  exp_resource :: string

definition exposure_source_fields_ok :: "exposure_source \<Rightarrow> bool" where
  "exposure_source_fields_ok e \<longleftrightarrow>
     identifier_ok (exp_connection_id e) \<and> text_between 1 512 (exp_resource e)"

record control_preferences =
  pref_automatic_triggers :: "string list"
  pref_rotate_before_expiry_seconds :: int
  pref_maximum_observation_seconds :: int
  pref_require_revoke_approval :: bool
  pref_exposure_sources :: "exposure_source list"

definition control_preferences_fields_ok :: "control_preferences \<Rightarrow> bool" where
  "control_preferences_fields_ok p \<longleftrightarrow>
     pref_automatic_triggers p \<noteq> []
     \<and> 300 \<le> pref_rotate_before_expiry_seconds p \<and> pref_rotate_before_expiry_seconds p \<le> 7776000
     \<and> 60 \<le> pref_maximum_observation_seconds p \<and> pref_maximum_observation_seconds p \<le> 604800
     \<and> list_all exposure_source_fields_ok (pref_exposure_sources p)"

definition validate_triggers :: "control_preferences \<Rightarrow> control_preferences result" where
  "validate_triggers p =
     bindr (require (set (pref_automatic_triggers p) \<subseteq> {''expiry'', ''drift'', ''verified-exposure''})
       (ValidationError ''controls contain an unsupported automatic trigger'')) (\<lambda>_.
     bindr (require (distinct (pref_exposure_sources p))
       (ValidationError ''controls contain duplicate exposure sources'')) (\<lambda>_.
     bindr (require ((''verified-exposure'' \<in> set (pref_automatic_triggers p)) = (pref_exposure_sources p \<noteq> []))
       (ValidationError ''verified exposure controls require at least one exposure source'')) (\<lambda>_.
     Inr p)))"

record control_definition =
  cd_required_checks :: "(stage \<times> string list) list"
  cd_allowed_tools :: "string list"
  cd_protected_tools :: "string list"
  cd_allowed_recovery_modes :: "recovery_mode list"
  cd_maximum_observation_seconds :: int
  cd_require_revoke_approval :: bool
  cd_preserve_old_generation :: bool
  cd_require_generation_telemetry :: bool
  cd_rotate_before_expiry_seconds :: int
  cd_maximum_metadata_age_seconds :: int
  cd_require_runtime_alignment :: bool
  cd_automatic_triggers :: "string list"
  cd_emergency_triggers :: "string list"
  cd_exposure_sources :: "exposure_source list"
  cd_minimum_automatic_confidence :: confidence
  cd_probe_versions :: "(stage \<times> string list) list"
  cd_recovery :: "(stage \<times> recovery_branch) list"

definition control_definition_fields_ok :: "control_definition \<Rightarrow> bool" where
  "control_definition_fields_ok d \<longleftrightarrow>
     12 \<le> length (cd_required_checks d) \<and> cd_allowed_tools d \<noteq> [] \<and> cd_allowed_recovery_modes d \<noteq> []
     \<and> 60 \<le> cd_maximum_observation_seconds d \<and> cd_maximum_observation_seconds d \<le> 604800
     \<and> 300 \<le> cd_rotate_before_expiry_seconds d \<and> cd_rotate_before_expiry_seconds d \<le> 7776000
     \<and> 300 \<le> cd_maximum_metadata_age_seconds d \<and> cd_maximum_metadata_age_seconds d \<le> 2592000
     \<and> list_all exposure_source_fields_ok (cd_exposure_sources d)
     \<and> list_all (\<lambda>kv. list_all identifier_ok (snd kv)) (cd_probe_versions d)
     \<and> list_all (\<lambda>kv. rb_actions (snd kv) \<noteq> [] \<and> is_ok (validate_retry (snd kv))) (cd_recovery d)"

text \<open>
  The \<open>mandatory\<close> table of \<open>validate_coverage\<close>: the default checks, relaxed by the two
  switches of the definition.
\<close>

definition mandatory_checks :: "control_definition \<Rightarrow> stage \<Rightarrow> string list" where
  "mandatory_checks d st =
     (let base = REQUIRED_CHECKS st;
          approval = (if cd_require_revoke_approval d then base
                      else if st = PREFLIGHT then filter (\<lambda>c. c \<noteq> ''approvers-known'') base
                      else if st = APPROVAL then [''approval-not-required'', ''evidence-current'']
                      else base)
      in if cd_require_generation_telemetry d then approval
         else if st = VERIFY then filter (\<lambda>c. c \<noteq> ''telemetry-healthy'') approval
         else if st = OBSERVE then filter (\<lambda>c. c \<noteq> ''telemetry-healthy'' \<and> c \<noteq> ''old-use-clear'') approval
         else approval)"

definition missing_mandatory :: "control_definition \<Rightarrow> stage \<Rightarrow> string list" where
  "missing_mandatory d st =
     filter (\<lambda>c. c \<notin> set (policy_checks (cd_required_checks d) st)) (mandatory_checks d st)"

definition validate_coverage :: "control_definition \<Rightarrow> control_definition result" where
  "validate_coverage d =
     bindr (require (set (map fst (cd_required_checks d)) = set STAGES)
       (ValidationError ''controls must define checks for all twelve stages'')) (\<lambda>_.
     bindr (case find (\<lambda>st. missing_mandatory d st \<noteq> []) STAGES of
              None \<Rightarrow> Inr ()
            | Some st \<Rightarrow> Inl (ValidationError (''controls omit mandatory '' @ stage_value st
                @ '' checks: '' @ join '', '' (sort (missing_mandatory d st))))) (\<lambda>_.
     bindr (require (set (cd_protected_tools d) \<subseteq> set (cd_allowed_tools d))
       (ValidationError ''protected tools must also be allowed'')) (\<lambda>_.
     bindr (require (\<not> (cd_require_generation_telemetry d \<and> ''verification.run'' \<notin> set (cd_allowed_tools d)))
       (ValidationError ''generation telemetry controls require verification.run'')) (\<lambda>_.
     bindr (require (set (cd_emergency_triggers d) \<subseteq> set (cd_automatic_triggers d))
       (ValidationError ''emergency triggers must also be automatic triggers'')) (\<lambda>_.
     Inr d)))))"

definition validate_control_definition :: "control_definition \<Rightarrow> control_definition result" where
  "validate_control_definition d =
     (if control_definition_fields_ok d then validate_coverage d else Inl (FieldError ''ControlDefinition''))"

record control_version =
  cv_id :: string
  cv_organisation_id :: string
  cv_credential_id :: string
  cv_number :: int
  cv_definition :: control_definition
  cv_digest :: string
  cv_created_by :: string
  cv_created_at :: int

definition control_version_fields_ok :: "control_version \<Rightarrow> bool" where
  "control_version_fields_ok v \<longleftrightarrow>
     identifier_ok (cv_id v) \<and> identifier_ok (cv_organisation_id v) \<and> identifier_ok (cv_credential_id v)
     \<and> 0 < cv_number v \<and> hex64 (cv_digest v) \<and> identifier_ok (cv_created_by v)"

text \<open>\<open>ControlVersion.model_validate\<close>: its own fields and the nested definition.\<close>

definition validate_control_version :: "control_version \<Rightarrow> control_version result" where
  "validate_control_version v =
     (if control_version_fields_ok v
      then bindr (validate_control_definition (cv_definition v)) (\<lambda>_. Inr v)
      else Inl (FieldError ''ControlVersion''))"

section \<open>Dump\<close>

definition dump_strings :: "string list \<Rightarrow> pyval option" where
  "dump_strings xs = Some (PySet (map PyStr xs))"

definition dump_stage_dict :: "('a \<Rightarrow> pyval) \<Rightarrow> (stage \<times> 'a) list \<Rightarrow> pyval option" where
  "dump_stage_dict f kvs = Some (PyDict (map (\<lambda>(st, v). (KeyEnum (stage_value st), f v)) kvs))"

definition dump_exposure_source :: "exposure_source \<Rightarrow> pyval" where
  "dump_exposure_source e = dump_fields
     [(''connection_id'', dump_str (exp_connection_id e)), (''resource'', dump_str (exp_resource e))]"

definition dump_recovery_action :: "recovery_action \<Rightarrow> pyval" where
  "dump_recovery_action a = dump_fields
     [(''tool'', dump_str (ra_tool a)), (''operation'', dump_str (ra_operation a)),
      (''parameters'', Some (PyDict (map (\<lambda>(k, v). (KeyStr k, v)) (ra_parameters a)))),
      (''protected'', Some (PyBool (ra_protected a)))]"

definition dump_recovery_branch :: "recovery_branch \<Rightarrow> pyval" where
  "dump_recovery_branch b = dump_fields
     [(''mode'', Some (PyEnum (recovery_mode_value (rb_mode b)))),
      (''actions'', Some (PyList (map dump_recovery_action (rb_actions b)))),
      (''preserves_old_generation'', Some (PyBool (rb_preserves_old_generation b)))]"

definition dump_control_definition :: "control_definition \<Rightarrow> pyval" where
  "dump_control_definition d = dump_fields
     [(''required_checks'', dump_stage_dict (\<lambda>cs. PySet (map PyStr cs)) (cd_required_checks d)),
      (''allowed_tools'', dump_strings (cd_allowed_tools d)),
      (''protected_tools'', dump_strings (cd_protected_tools d)),
      (''allowed_recovery_modes'',
        Some (PySet (map (\<lambda>m. PyEnum (recovery_mode_value m)) (cd_allowed_recovery_modes d)))),
      (''maximum_observation_seconds'', Some (PyInt (cd_maximum_observation_seconds d))),
      (''require_revoke_approval'', Some (PyBool (cd_require_revoke_approval d))),
      (''preserve_old_generation'', Some (PyBool (cd_preserve_old_generation d))),
      (''require_generation_telemetry'', Some (PyBool (cd_require_generation_telemetry d))),
      (''rotate_before_expiry_seconds'', Some (PyInt (cd_rotate_before_expiry_seconds d))),
      (''maximum_metadata_age_seconds'', Some (PyInt (cd_maximum_metadata_age_seconds d))),
      (''require_runtime_alignment'', Some (PyBool (cd_require_runtime_alignment d))),
      (''automatic_triggers'', dump_strings (cd_automatic_triggers d)),
      (''emergency_triggers'', dump_strings (cd_emergency_triggers d)),
      (''exposure_sources'', Some (PyList (map dump_exposure_source (cd_exposure_sources d)))),
      (''minimum_automatic_confidence'',
        Some (PyEnum (confidence_value (cd_minimum_automatic_confidence d)))),
      (''probe_versions'', dump_stage_dict (\<lambda>ids. PyList (map PyStr ids)) (cd_probe_versions d)),
      (''recovery'', dump_stage_dict dump_recovery_branch (cd_recovery d))]"

section \<open>Valid controls cover the mandatory checks\<close>

lemma validate_coverage_ok:
  "validate_coverage d = Inr d' \<longleftrightarrow> d' = d
     \<and> set (map fst (cd_required_checks d)) = set STAGES
     \<and> (\<forall>st. set (mandatory_checks d st) \<subseteq> set (policy_checks (cd_required_checks d) st))
     \<and> set (cd_protected_tools d) \<subseteq> set (cd_allowed_tools d)
     \<and> (cd_require_generation_telemetry d \<longrightarrow> ''verification.run'' \<in> set (cd_allowed_tools d))
     \<and> set (cd_emergency_triggers d) \<subseteq> set (cd_automatic_triggers d)"
proof -
  have "missing_mandatory d st = [] \<longleftrightarrow> set (mandatory_checks d st) \<subseteq> set (policy_checks (cd_required_checks d) st)" for st
    by (auto simp: missing_mandatory_def filter_empty_conv)
  then have "find (\<lambda>st. missing_mandatory d st \<noteq> []) STAGES = None \<longleftrightarrow>
      (\<forall>st. set (mandatory_checks d st) \<subseteq> set (policy_checks (cd_required_checks d) st))"
    using stage_in_STAGES by (auto simp: find_None_iff)
  then show ?thesis by (auto simp: validate_coverage_def result_iff split: option.splits)
qed

lemma validate_control_version_ok [result_iff]:
  "validate_control_version v = Inr v' \<longleftrightarrow>
     v' = v \<and> control_version_fields_ok v \<and> control_definition_fields_ok (cv_definition v)
     \<and> validate_coverage (cv_definition v) = Inr (cv_definition v)"
  by (auto simp: validate_control_version_def validate_control_definition_def result_iff
      validate_coverage_ok)

lemma make_gate_policy_controls:
  assumes "validate_control_version v = Inr v"
  shows "make_gate_policy (Some (cd_required_checks (cv_definition v))) = Inr (cd_required_checks (cv_definition v))"
proof -
  let ?t = "cd_required_checks (cv_definition v)"
  have "?t \<noteq> []" using assms by (auto simp: result_iff control_definition_fields_ok_def)
  moreover have "map_of ?t st \<noteq> None" for st
  proof -
    have "st \<in> set (map fst ?t)" using assms stage_in_STAGES [of st]
      by (auto simp: validate_control_version_ok validate_coverage_ok)
    then show ?thesis by (simp add: map_of_eq_None_iff)
  qed
  ultimately show ?thesis by (simp add: make_gate_policy_def)
qed

lemma valid_controls_mandatory:
  assumes "validate_control_version v = Inr v"
  shows "set (mandatory_checks (cv_definition v) st) \<subseteq> set (policy_checks (cd_required_checks (cv_definition v)) st)"
proof -
  have "\<forall>st. set (mandatory_checks (cv_definition v) st)
        \<subseteq> set (policy_checks (cd_required_checks (cv_definition v)) st)"
    using assms by (simp add: validate_control_version_ok validate_coverage_ok)
  then show ?thesis by blast
qed

end
