(* ===== verification/Run_Store.thy ===== *)
theory Run_Store imports Machine_Properties Controls begin
text \<open>
  server/core/storage/repository.py and firestore.py: the durable store of runs. A Firestore
  transaction is atomic, so \<open>create\<close> and \<open>mutate\<close> are functions from the store to the result
  and the new store, or to the exception, after which the store is unchanged. Each collection is a
  map from the identifiers of a document path to its document (theory Paths shows that the paths
  are injective in them); a read validates the document as the source does.
\<close>

section \<open>State\<close>

record lock_doc =
  lock_organisation_id :: string
  lock_credential_id :: string
  lock_run_id :: string
  lock_created_at :: int

record dedupe_doc =
  dd_organisation_id :: string
  dd_run_id :: string
  dd_step_id :: string
  dd_request_hash :: string
  dd_created_at :: int

text \<open>The delivery cursor of a run, written by the outbox (theory Outbox).\<close>

record cursor_doc =
  cur_organisation_id :: string
  cur_run_id :: string
  cur_published_revision :: int
  cur_event_id :: string
  cur_message_id :: "string option"
  cur_published_at :: "int option"
  cur_dead_lettered_at :: "int option"
  cur_last_error :: "string option"

record run_store =
  st_runs :: "string \<times> string \<rightharpoonup> rotation_run"
  st_steps :: "string \<times> string \<times> string \<rightharpoonup> run_step"
  st_outbox :: "string \<times> string \<rightharpoonup> outbox_event"
  st_locks :: "string \<times> string \<rightharpoonup> lock_doc"
  st_dedupe :: "string \<times> string \<rightharpoonup> dedupe_doc"
  st_controls :: "string \<times> string \<times> string \<rightharpoonup> control_version"
  st_cursors :: "string \<times> string \<rightharpoonup> cursor_doc"

record mutation_result =
  mr_run :: rotation_run
  mr_step :: run_step
  mr_applied :: bool

section \<open>Helpers (repository.py)\<close>

text \<open>\<open>FirestorePaths\<close> validates every segment it is given.\<close>

definition segments :: "string list \<Rightarrow> unit result" where
  "segments xs = require (list_all identifier_ok xs) (FieldError ''Identifier'')"

definition creation_hash :: "(string \<Rightarrow> string) \<Rightarrow> (int \<Rightarrow> string) \<Rightarrow> create_command \<Rightarrow> string result" where
  "creation_hash sha fmt c = digest sha fmt (dump_create_command c)"

definition mutation_hash :: "(string \<Rightarrow> string) \<Rightarrow> (int \<Rightarrow> string) \<Rightarrow> run_command \<Rightarrow> string result" where
  "mutation_hash sha fmt c = digest sha fmt (dump_run_command c)"

definition validate_create :: "rotation_run \<Rightarrow> create_command \<Rightarrow> unit result" where
  "validate_create r c =
     require (\<not> (run_organisation_id r \<noteq> create_organisation_id c
         \<or> run_credential_id r \<noteq> create_credential_id c
         \<or> run_control_version r \<noteq> create_control_version c
         \<or> run_trigger r \<noteq> create_trigger c
         \<or> run_id r \<noteq> (case create_run_id c of None \<Rightarrow> run_id r
                        | Some i \<Rightarrow> if i = [] then run_id r else i)))
       (StorageIntegrityError ''created run does not match its command'')"

definition validate_transition :: "rotation_run \<Rightarrow> rotation_run \<Rightarrow> string \<Rightarrow> unit result" where
  "validate_transition previous updated org =
     bindr (require (\<not> (run_organisation_id updated \<noteq> org \<or> run_id updated \<noteq> run_id previous))
       (StorageIntegrityError ''a transition cannot change run identity'')) (\<lambda>_.
     require (run_revision updated = run_revision previous + 1)
       (StorageIntegrityError ''a transition must increment the revision exactly once''))"

definition build_outbox ::
  "string \<Rightarrow> rotation_run \<Rightarrow> event_kind \<Rightarrow> string \<Rightarrow> int \<Rightarrow> (string \<times> pyval) list \<Rightarrow> outbox_event result" where
  "build_outbox eid r kind actor occurred payload =
     (let event = \<lparr>event_id = eid, event_organisation_id = run_organisation_id r, event_run_id = run_id r,
                    event_credential_id = run_credential_id r, event_kind_of = kind,
                    event_revision = run_revision r, event_stage = run_stage r,
                    event_status = run_status r, event_actor_id = actor, event_occurred_at = occurred,
                    event_payload = payload\<rparr>
      in if run_event_fields_ok event
         then validate_outbox_event
           \<lparr>ob_event = event, ob_available_at = occurred, ob_attempts = 0, ob_lease_owner = None,
            ob_lease_expires_at = None, ob_published_at = None, ob_publisher_message_id = None,
            ob_dead_lettered_at = None, ob_dead_letter_reason = None, ob_last_error = None\<rparr>
         else Inl (FieldError ''RunEvent''))"

definition resolved_event :: "event_kind \<Rightarrow> rotation_run \<Rightarrow> event_kind" where
  "resolved_event kind r = (if run_status r = COMPLETED then RUN_COMPLETED else kind)"

text \<open>\<open>RunStep(...)\<close>: a step with its field constraints.\<close>

definition make_step :: "run_step \<Rightarrow> run_step result" where
  "make_step s =
     (if identifier_ok (step_id s) \<and> identifier_ok (step_organisation_id s) \<and> identifier_ok (step_run_id s)
         \<and> text_between 1 96 (step_operation s) \<and> hex64 (step_command_hash s)
         \<and> identifier_ok (step_actor_id s) \<and> 0 \<le> step_revision s
         \<and> opt_ok stage_proof_fields_ok (step_proof s)
      then Inr s else Inl (FieldError ''RunStep''))"

section \<open>Reads (firestore.py)\<close>

definition tenant :: "rotation_run \<Rightarrow> string \<Rightarrow> unit result" where
  "tenant r org =
     require (run_organisation_id r = org)
       (StorageIntegrityError ''run organisation does not match its document path'')"

definition decode_run :: "rotation_run \<Rightarrow> string \<Rightarrow> rotation_run result" where
  "decode_run doc org = bindr (validate_run doc) (\<lambda>r. bindr (tenant r org) (\<lambda>_. Inr r))"

definition store_get :: "run_store \<Rightarrow> string \<Rightarrow> string \<Rightarrow> rotation_run result" where
  "store_get s org rid =
     bindr (segments [org, rid]) (\<lambda>_.
     case st_runs s (org, rid) of
       None \<Rightarrow> Inl (RunNotFoundError (''run '' @ rid @ '' was not found''))
     | Some doc \<Rightarrow> decode_run doc org)"

text \<open>
  The pinned control version of a run, read inside a transaction; the two operations differ only
  in their messages.
\<close>

definition pinned_controls ::
  "(string \<Rightarrow> string) \<Rightarrow> (int \<Rightarrow> string) \<Rightarrow> run_store \<Rightarrow> rotation_run \<Rightarrow> string \<Rightarrow> string \<Rightarrow> control_version result"
where
  "pinned_controls sha fmt s r missing changed =
     bindr (segments [run_organisation_id r, run_credential_id r, run_control_version r]) (\<lambda>_.
     case st_controls s (run_organisation_id r, run_credential_id r, run_control_version r) of
       None \<Rightarrow> Inl (StorageIntegrityError missing)
     | Some doc \<Rightarrow>
         bindr (validate_control_version doc) (\<lambda>controls.
         bindr (require (\<not> (cv_organisation_id controls \<noteq> run_organisation_id r
             \<or> cv_credential_id controls \<noteq> run_credential_id r
             \<or> cv_id controls \<noteq> run_control_version r)) (StorageIntegrityError changed)) (\<lambda>_.
         bindr (digest sha fmt (dump_control_definition (cv_definition controls))) (\<lambda>d.
         bindr (require (cv_digest controls = d) (StorageIntegrityError changed)) (\<lambda>_.
         Inr controls)))))"

section \<open>Create\<close>

text \<open>The key of a dedupe document: a digest of the source event.\<close>

definition dedupe_key :: "(string \<Rightarrow> string) \<Rightarrow> string \<Rightarrow> string \<Rightarrow> string" where
  "dedupe_key sha source event = sha (source @ CHR 0x00 # event)"

definition existing_create :: "run_store \<Rightarrow> dedupe_doc \<Rightarrow> string \<Rightarrow> string \<Rightarrow> mutation_result result" where
  "existing_create s dd org request_hash =
     (if dd_request_hash dd \<noteq> request_hash
      then Inl (IdempotencyConflictError ''source event was already bound to another request'')
      else bindr (segments [org, dd_run_id dd, dd_step_id dd]) (\<lambda>_.
        case (st_runs s (org, dd_run_id dd), st_steps s (org, dd_run_id dd, dd_step_id dd)) of
          (Some run_doc, Some step_doc) \<Rightarrow>
            bindr (validate_run run_doc) (\<lambda>r.
            bindr (make_step step_doc) (\<lambda>step.
            bindr (tenant r org) (\<lambda>_.
            Inr \<lparr>mr_run = r, mr_step = step, mr_applied = False\<rparr>)))
        | _ \<Rightarrow> Inl (StorageIntegrityError ''deduplicated run is incomplete'')))"

definition created_step :: "rotation_run \<Rightarrow> create_command \<Rightarrow> string \<Rightarrow> run_step" where
  "created_step r c request_hash =
     \<lparr>step_id = create_id c, step_organisation_id = run_organisation_id r, step_run_id = run_id r,
      step_operation = ''create'', step_command_hash = request_hash,
      step_actor_id = trigger_actor_id (create_trigger c), step_before_stage = None,
      step_after_stage = run_stage r, step_before_status = None, step_after_status = run_status r,
      step_revision = run_revision r, step_proof = None, step_recorded_at = run_created_at r\<rparr>"

definition created_store ::
  "(string \<Rightarrow> string) \<Rightarrow> run_store \<Rightarrow> rotation_run \<Rightarrow> create_command \<Rightarrow> string \<Rightarrow> run_step \<Rightarrow> outbox_event \<Rightarrow> run_store"
where
  "created_store sha s r c request_hash step event =
     (let org = run_organisation_id r in
      s\<lparr>st_runs := (st_runs s)((org, run_id r) \<mapsto> r),
        st_steps := (st_steps s)((org, run_id r, create_id c) \<mapsto> step),
        st_outbox := (st_outbox s)((org, create_id c) \<mapsto> event),
        st_locks := (st_locks s)((org, run_credential_id r) \<mapsto>
          \<lparr>lock_organisation_id = org, lock_credential_id = run_credential_id r, lock_run_id = run_id r,
           lock_created_at = run_created_at r\<rparr>),
        st_dedupe := (st_dedupe s)
          ((org, dedupe_key sha (trigger_source (run_trigger r)) (trigger_event_id (run_trigger r))) \<mapsto>
          \<lparr>dd_organisation_id = org, dd_run_id = run_id r, dd_step_id = create_id c,
           dd_request_hash = request_hash, dd_created_at = run_created_at r\<rparr>)\<rparr>)"

definition store_create ::
  "(string \<Rightarrow> string) \<Rightarrow> (int \<Rightarrow> string) \<Rightarrow> run_store \<Rightarrow> rotation_run \<Rightarrow> create_command
     \<Rightarrow> (mutation_result \<times> run_store) result"
where
  "store_create sha fmt s r c =
     (let org = run_organisation_id r in
     bindr (validate_create r c) (\<lambda>_.
     bindr (segments [org, run_id r, create_id c, run_credential_id r, run_control_version r]) (\<lambda>_.
     bindr (creation_hash sha fmt c) (\<lambda>request_hash.
     case st_dedupe s (org, dedupe_key sha (trigger_source (run_trigger r)) (trigger_event_id (run_trigger r))) of
       Some dd \<Rightarrow> bindr (existing_create s dd org request_hash) (\<lambda>m. Inr (m, s))
     | None \<Rightarrow>
         (case st_locks s (org, run_credential_id r) of
            Some l \<Rightarrow> Inl (ActiveRunConflictError (''credential '' @ run_credential_id r
                        @ '' is already owned by run '' @ lock_run_id l))
          | None \<Rightarrow>
              bindr (require (st_runs s (org, run_id r) = None)
                (IdempotencyConflictError (''run id '' @ run_id r @ '' already exists''))) (\<lambda>_.
              bindr (require (st_outbox s (org, create_id c) = None)
                (IdempotencyConflictError (''command '' @ create_id c @ '' already belongs to another run''))) (\<lambda>_.
              bindr (pinned_controls sha fmt s r ''run control version is missing''
                ''run control version is not immutable'') (\<lambda>_.
              bindr (make_step (created_step r c request_hash)) (\<lambda>step.
              bindr (build_outbox (create_id c) r RUN_CREATED (trigger_actor_id (create_trigger c))
                (run_created_at r)
                [(''source'', PyStr (trigger_source (run_trigger r))),
                 (''urgency'', PyStr (trigger_urgency (run_trigger r)))]) (\<lambda>event.
              Inr (\<lparr>mr_run = r, mr_step = step, mr_applied = True\<rparr>,
                   created_store sha s r c request_hash step event))))))))))) "

section \<open>Mutate\<close>

definition active_status :: "run_status \<Rightarrow> bool" where
  "active_status st \<longleftrightarrow> st \<notin> {CANCELLED, COMPLETED, COMPENSATED, FAILED}"

text \<open>A command whose step is already recorded: the run as it is now, and the recorded step.\<close>

definition replayed_mutation ::
  "run_store \<Rightarrow> run_command \<Rightarrow> run_step \<Rightarrow> string \<Rightarrow> mutation_result result" where
  "replayed_mutation s c step_doc request_hash =
     bindr (make_step step_doc) (\<lambda>step.
     bindr (require (step_command_hash step = request_hash)
       (IdempotencyConflictError (''command '' @ cmd_id c @ '' was already used for another mutation''))) (\<lambda>_.
     case st_runs s (cmd_organisation_id c, cmd_run_id c) of
       None \<Rightarrow> Inl (StorageIntegrityError (''run '' @ cmd_run_id c @ '' disappeared after command execution''))
     | Some doc \<Rightarrow>
         bindr (decode_run doc (cmd_organisation_id c)) (\<lambda>r.
         Inr \<lparr>mr_run = r, mr_step = step, mr_applied = False\<rparr>)))"

text \<open>The gate of a stage proof: the required checks of the pinned controls.\<close>

definition check_proof ::
  "(string \<Rightarrow> string) \<Rightarrow> (int \<Rightarrow> string) \<Rightarrow> run_store \<Rightarrow> rotation_run \<Rightarrow> stage_proof option \<Rightarrow> unit result" where
  "check_proof sha fmt s r proof =
     (case proof of
        None \<Rightarrow> Inr ()
      | Some p \<Rightarrow>
          bindr (pinned_controls sha fmt s r ''run control version disappeared''
            ''run control version lost immutable authority'') (\<lambda>controls.
          bindr (make_gate_policy (Some (cd_required_checks (cv_definition controls)))) (\<lambda>policy.
          policy_validate policy p)))"

definition mutated_step ::
  "run_command \<Rightarrow> rotation_run \<Rightarrow> rotation_run \<Rightarrow> string \<Rightarrow> stage_proof option \<Rightarrow> run_step" where
  "mutated_step c r updated request_hash proof =
     \<lparr>step_id = cmd_id c, step_organisation_id = cmd_organisation_id c, step_run_id = run_id r,
      step_operation = cmd_operation c, step_command_hash = request_hash, step_actor_id = cmd_actor_id c,
      step_before_stage = Some (run_stage r), step_after_stage = run_stage updated,
      step_before_status = Some (run_status r), step_after_status = run_status updated,
      step_revision = run_revision updated, step_proof = proof,
      step_recorded_at = run_updated_at updated\<rparr>"

definition mutated_store ::
  "run_store \<Rightarrow> run_command \<Rightarrow> rotation_run \<Rightarrow> rotation_run \<Rightarrow> run_step \<Rightarrow> outbox_event \<Rightarrow> bool \<Rightarrow> run_store"
where
  "mutated_store s c r updated step event holds_lock =
     (let org = cmd_organisation_id c in
      s\<lparr>st_runs := (st_runs s)((org, cmd_run_id c) \<mapsto> updated),
        st_steps := (st_steps s)((org, cmd_run_id c, cmd_id c) \<mapsto> step),
        st_outbox := (st_outbox s)((org, cmd_id c) \<mapsto> event),
        st_locks := (if holds_lock \<and> \<not> active_status (run_status updated)
                     then (st_locks s)((org, run_credential_id r) := None) else st_locks s)\<rparr>)"

definition holds_run_lock :: "run_store \<Rightarrow> string \<Rightarrow> rotation_run \<Rightarrow> bool" where
  "holds_run_lock s org r =
     (case st_locks s (org, run_credential_id r) of None \<Rightarrow> False | Some l \<Rightarrow> lock_run_id l = run_id r)"

definition apply_mutation ::
  "(string \<Rightarrow> string) \<Rightarrow> (int \<Rightarrow> string) \<Rightarrow> run_store \<Rightarrow> run_command \<Rightarrow> event_kind
     \<Rightarrow> (rotation_run \<Rightarrow> rotation_run result) \<Rightarrow> stage_proof option \<Rightarrow> string \<Rightarrow> rotation_run
     \<Rightarrow> (mutation_result \<times> run_store) result"
where
  "apply_mutation sha fmt s c kind step_run proof request_hash r =
     (let org = cmd_organisation_id c; holds_lock = holds_run_lock s org r in
     bindr (require (run_revision r = cmd_expected_revision c)
       (RevisionConflictError (''expected revision '' @ int_text (cmd_expected_revision c) @ '', found ''
          @ int_text (run_revision r)))) (\<lambda>_.
     bindr (segments [org, run_credential_id r]) (\<lambda>_.
     bindr (require (holds_lock \<or> (cmd_operation c = ''cancel'' \<and> run_status r = FAILED))
       (StorageIntegrityError (''run '' @ run_id r @ '' does not hold its credential lock''))) (\<lambda>_.
     bindr (check_proof sha fmt s r proof) (\<lambda>_.
     bindr (step_run r) (\<lambda>updated.
     bindr (validate_transition r updated org) (\<lambda>_.
     bindr (make_step (mutated_step c r updated request_hash proof)) (\<lambda>step.
     bindr (build_outbox (cmd_id c) updated (resolved_event kind updated) (cmd_actor_id c)
       (run_updated_at updated)
       [(''operation'', PyStr (cmd_operation c)), (''previous_revision'', PyInt (run_revision r))]) (\<lambda>event.
     Inr (\<lparr>mr_run = updated, mr_step = step, mr_applied = True\<rparr>,
          mutated_store s c r updated step event holds_lock))))))))))"

definition store_mutate ::
  "(string \<Rightarrow> string) \<Rightarrow> (int \<Rightarrow> string) \<Rightarrow> run_store \<Rightarrow> run_command \<Rightarrow> event_kind
     \<Rightarrow> (rotation_run \<Rightarrow> rotation_run result) \<Rightarrow> stage_proof option \<Rightarrow> (mutation_result \<times> run_store) result"
where
  "store_mutate sha fmt s c kind step_run proof =
     (let org = cmd_organisation_id c in
     bindr (segments [org, cmd_run_id c, cmd_id c]) (\<lambda>_.
     bindr (mutation_hash sha fmt c) (\<lambda>request_hash.
     case st_steps s (org, cmd_run_id c, cmd_id c) of
       Some step_doc \<Rightarrow> bindr (replayed_mutation s c step_doc request_hash) (\<lambda>m. Inr (m, s))
     | None \<Rightarrow>
         bindr (require (st_outbox s (org, cmd_id c) = None)
           (IdempotencyConflictError (''command '' @ cmd_id c @ '' already belongs to another run''))) (\<lambda>_.
         case st_runs s (org, cmd_run_id c) of
           None \<Rightarrow> Inl (RunNotFoundError (''run '' @ cmd_run_id c @ '' was not found''))
         | Some doc \<Rightarrow>
             bindr (decode_run doc org) (\<lambda>r.
             apply_mutation sha fmt s c kind step_run proof request_hash r)))))"

end
