(* ===== verification/Run_Store_Facts.thy ===== *)
theory Run_Store_Facts imports Run_Store begin

text \<open>
  The invariant of the run store and its preservation. The store relies on the transitions it is
  given only through the contract \<open>transition_contract\<close>: they keep the invariant and the
  identity of a run, and the operation named cancel ends in the cancelled state. The lemmas inside
  the locale hold for any such transition; theory Workflow interprets it with the machine.
\<close>

section \<open>The invariant\<close>

text \<open>
  Documents sit at the path of their identifiers; a credential lock names an active run of that
  credential and every active run holds the lock of its credential; the outbox holds exactly one
  event per revision of every run, and a step document for each of them.
\<close>

definition runs_ok :: "run_store \<Rightarrow> bool" where
  "runs_ok s \<longleftrightarrow>
     (\<forall>org i r. st_runs s (org, i) = Some r \<longrightarrow>
        run_organisation_id r = org \<and> run_id r = i \<and> machine_inv r)"

definition locks_ok :: "run_store \<Rightarrow> bool" where
  "locks_ok s \<longleftrightarrow>
     (\<forall>org c l. st_locks s (org, c) = Some l \<longrightarrow>
        (\<exists>r. st_runs s (org, lock_run_id l) = Some r \<and> run_credential_id r = c \<and> active_status (run_status r)))
     \<and> (\<forall>org i r. st_runs s (org, i) = Some r \<longrightarrow> active_status (run_status r) \<longrightarrow>
        (\<exists>l. st_locks s (org, run_credential_id r) = Some l \<and> lock_run_id l = i))"

definition log_event :: "run_store \<Rightarrow> string \<Rightarrow> string \<Rightarrow> int \<Rightarrow> string \<Rightarrow> bool" where
  "log_event s org i n e \<longleftrightarrow>
     (\<exists>ob. st_outbox s (org, e) = Some ob \<and> event_run_id (ob_event ob) = i \<and> event_revision (ob_event ob) = n)"

definition log_ok :: "run_store \<Rightarrow> bool" where
  "log_ok s \<longleftrightarrow>
     (\<forall>org i n e. log_event s org i n e \<longrightarrow> (\<exists>r. st_runs s (org, i) = Some r \<and> 0 \<le> n \<and> n \<le> run_revision r))
     \<and> (\<forall>org i r n. st_runs s (org, i) = Some r \<longrightarrow> 0 \<le> n \<longrightarrow> n \<le> run_revision r \<longrightarrow>
          (\<exists>e. log_event s org i n e))
     \<and> (\<forall>org i n e e'. log_event s org i n e \<longrightarrow> log_event s org i n e' \<longrightarrow> e = e')"

definition steps_ok :: "run_store \<Rightarrow> bool" where
  "steps_ok s \<longleftrightarrow>
     (\<forall>org i e. st_steps s (org, i, e) \<noteq> None \<longleftrightarrow> (\<exists>n. log_event s org i n e))"

definition store_inv :: "run_store \<Rightarrow> bool" where
  "store_inv s \<longleftrightarrow> runs_ok s \<and> locks_ok s \<and> log_ok s \<and> steps_ok s"

definition empty_store :: "(string \<times> string \<times> string \<rightharpoonup> control_version) \<Rightarrow> run_store" where
  "empty_store controls =
     \<lparr>st_runs = Map.empty, st_steps = Map.empty, st_outbox = Map.empty, st_locks = Map.empty,
      st_dedupe = Map.empty, st_controls = controls, st_cursors = Map.empty\<rparr>"

lemma store_inv_empty: "store_inv (empty_store controls)"
  by (simp add: store_inv_def runs_ok_def locks_ok_def log_ok_def steps_ok_def log_event_def empty_store_def)

section \<open>Inversion\<close>

lemma tenant_ok [result_iff]: "tenant r org = Inr u \<longleftrightarrow> run_organisation_id r = org"
  by (simp add: tenant_def require_eq_Inr)

lemma segments_ok [result_iff]: "segments xs = Inr u \<longleftrightarrow> list_all identifier_ok xs"
  by (simp add: segments_def require_eq_Inr)

lemma decode_run_ok [result_iff]:
  "decode_run doc org = Inr r \<longleftrightarrow> r = doc \<and> run_valid doc \<and> run_organisation_id doc = org"
  by (auto simp: decode_run_def bindr_eq_Inr validate_run_iff tenant_ok run_valid_iff)

lemma validate_transition_ok [result_iff]:
  "validate_transition r r' org = Inr u \<longleftrightarrow>
     run_organisation_id r' = org \<and> run_id r' = run_id r \<and> run_revision r' = run_revision r + 1"
  by (auto simp: validate_transition_def result_iff)

lemma build_outbox_ok:
  "build_outbox eid r kind actor occurred payload = Inr ob \<Longrightarrow>
     event_id (ob_event ob) = eid \<and> event_organisation_id (ob_event ob) = run_organisation_id r
     \<and> event_run_id (ob_event ob) = run_id r \<and> event_revision (ob_event ob) = run_revision r
     \<and> event_stage (ob_event ob) = run_stage r \<and> event_status (ob_event ob) = run_status r
     \<and> event_kind_of (ob_event ob) = kind \<and> ob_published_at ob = None \<and> ob_dead_lettered_at ob = None
     \<and> ob_lease_owner ob = None \<and> ob_attempts ob = 0 \<and> outbox_event_fields_ok ob \<and> delivery_ok ob"
  by (auto simp: build_outbox_def Let_def result_iff split: if_splits)

lemma make_step_ok: "make_step s = Inr s' \<Longrightarrow> s' = s"
  by (simp add: make_step_def split: if_splits)

text \<open>When \<open>mutate\<close> applied a command, what it read and what it wrote.\<close>

definition applied_mutation ::
  "run_store \<Rightarrow> run_command \<Rightarrow> (rotation_run \<Rightarrow> rotation_run result) \<Rightarrow> mutation_result \<Rightarrow> run_store
     \<Rightarrow> rotation_run \<Rightarrow> rotation_run \<Rightarrow> outbox_event \<Rightarrow> bool" where
  "applied_mutation s c step_run m s' r updated ob \<longleftrightarrow>
     (let org = cmd_organisation_id c in
      st_steps s (org, cmd_run_id c, cmd_id c) = None \<and> st_outbox s (org, cmd_id c) = None
      \<and> st_runs s (org, cmd_run_id c) = Some r \<and> run_organisation_id r = org
      \<and> run_revision r = cmd_expected_revision c
      \<and> (holds_run_lock s org r \<or> (cmd_operation c = ''cancel'' \<and> run_status r = FAILED))
      \<and> step_run r = Inr updated \<and> run_organisation_id updated = org \<and> run_id updated = run_id r
      \<and> run_revision updated = run_revision r + 1
      \<and> event_run_id (ob_event ob) = run_id r \<and> event_revision (ob_event ob) = run_revision updated
      \<and> event_id (ob_event ob) = cmd_id c \<and> event_organisation_id (ob_event ob) = org
      \<and> ob_published_at ob = None \<and> ob_dead_lettered_at ob = None
      \<and> mr_applied m \<and> mr_run m = updated \<and> mr_step m = mutated_step c r updated (step_command_hash (mr_step m)) (step_proof (mr_step m))
      \<and> s' = mutated_store s c r updated (mr_step m) ob (holds_run_lock s org r)
      \<and> outbox_event_fields_ok ob \<and> delivery_ok ob)"

lemma apply_mutation_applied:
  assumes "apply_mutation sha fmt s c kind step_run pr h r = Inr (m, s')"
    and "st_steps s (cmd_organisation_id c, cmd_run_id c, cmd_id c) = None"
    "st_outbox s (cmd_organisation_id c, cmd_id c) = None"
    "st_runs s (cmd_organisation_id c, cmd_run_id c) = Some r" "run_organisation_id r = cmd_organisation_id c"
  shows "\<exists>updated ob. applied_mutation s c step_run m s' r updated ob"
proof -
  from assms(1) obtain updated step ob where
    a: "run_revision r = cmd_expected_revision c"
    "holds_run_lock s (cmd_organisation_id c) r \<or> (cmd_operation c = ''cancel'' \<and> run_status r = FAILED)"
    "step_run r = Inr updated" "validate_transition r updated (cmd_organisation_id c) = Inr ()"
    and st: "make_step (mutated_step c r updated h pr) = Inr step"
    and ob: "build_outbox (cmd_id c) updated (resolved_event kind updated) (cmd_actor_id c)
       (run_updated_at updated)
       [(''operation'', PyStr (cmd_operation c)), (''previous_revision'', PyInt (run_revision r))] = Inr ob"
    and m: "m = \<lparr>mr_run = updated, mr_step = step, mr_applied = True\<rparr>"
    "s' = mutated_store s c r updated step ob (holds_run_lock s (cmd_organisation_id c) r)"
    by (auto simp: apply_mutation_def Let_def bindr_eq_Inr require_eq_Inr)
  have "step = mutated_step c r updated h pr" using make_step_ok [OF st] .
  then show ?thesis
    using assms(2-5) a m build_outbox_ok [OF ob]
    unfolding applied_mutation_def Let_def
    by (intro exI [of _ updated] exI [of _ ob]) (simp add: validate_transition_ok mutated_step_def)
qed

lemma store_mutate_cases:
  assumes "store_mutate sha fmt s c kind step_run pr = Inr (m, s')"
  obtains (replayed) h step_doc where "s' = s" "\<not> mr_applied m" "mutation_hash sha fmt c = Inr h"
      "st_steps s (cmd_organisation_id c, cmd_run_id c, cmd_id c) = Some step_doc"
      "mr_step m = step_doc" "step_command_hash step_doc = h"
      "st_runs s (cmd_organisation_id c, cmd_run_id c) = Some (mr_run m)"
    | (applied) r updated ob where "applied_mutation s c step_run m s' r updated ob"
proof (cases "st_steps s (cmd_organisation_id c, cmd_run_id c, cmd_id c)")
  case None
  then obtain h doc r where *: "st_outbox s (cmd_organisation_id c, cmd_id c) = None"
    "st_runs s (cmd_organisation_id c, cmd_run_id c) = Some doc"
    "decode_run doc (cmd_organisation_id c) = Inr r"
    "apply_mutation sha fmt s c kind step_run pr h r = Inr (m, s')"
    using assms
    by (auto simp: store_mutate_def Let_def bindr_eq_Inr require_eq_Inr split: option.splits)
  then have "\<exists>updated ob. applied_mutation s c step_run m s' r updated ob"
    using None by (intro apply_mutation_applied [where h = h]) (auto simp: decode_run_ok)
  then show thesis using applied by blast
next
  case (Some step_doc)
  then obtain h where h: "mutation_hash sha fmt c = Inr h"
    and rep: "replayed_mutation s c step_doc h = Inr m" and s: "s' = s"
    using assms by (auto simp: store_mutate_def Let_def bindr_eq_Inr)
  from rep have "\<not> mr_applied m" "mr_step m = step_doc" "step_command_hash step_doc = h"
    "st_runs s (cmd_organisation_id c, cmd_run_id c) = Some (mr_run m)"
    by (auto simp: replayed_mutation_def bindr_eq_Inr require_eq_Inr decode_run_ok
        dest!: make_step_ok split: option.splits)
  then show thesis using replayed Some h s by blast
qed

section \<open>Preservation by mutate\<close>

locale transition_contract =
  fixes step_run :: "rotation_run \<Rightarrow> rotation_run result"
    and operation :: string
  assumes contract_inv: "machine_inv r \<Longrightarrow> step_run r = Inr r' \<Longrightarrow> machine_inv r'"
    and contract_identity: "step_run r = Inr r' \<Longrightarrow> same_identity r r'"
    and contract_cancel: "operation = ''cancel'' \<Longrightarrow> step_run r = Inr r' \<Longrightarrow> run_status r' = CANCELLED"

context transition_contract begin

lemma applied_facts:
  assumes inv: "store_inv s" and op: "cmd_operation c = operation"
    and app: "applied_mutation s c step_run m s' r updated ob"
  shows "run_id r = cmd_run_id c" "machine_inv r" "machine_inv updated" "same_identity r updated"
    "active_status (run_status updated) \<Longrightarrow> holds_run_lock s (cmd_organisation_id c) r"
proof -
  show id: "run_id r = cmd_run_id c" and mi: "machine_inv r"
    using inv app by (auto simp: store_inv_def runs_ok_def applied_mutation_def Let_def)
  have step: "step_run r = Inr updated" using app by (simp add: applied_mutation_def Let_def)
  show "machine_inv updated" "same_identity r updated"
    using contract_inv [OF mi step] contract_identity [OF step] .
  assume "active_status (run_status updated)"
  then have "run_status updated \<noteq> CANCELLED" by (auto simp: active_status_def)
  then have "cmd_operation c \<noteq> ''cancel''" using contract_cancel [OF _ step] op by auto
  then show "holds_run_lock s (cmd_organisation_id c) r"
    using app by (auto simp: applied_mutation_def Let_def)
qed

lemma applied_runs_ok:
  assumes inv: "store_inv s" and op: "cmd_operation c = operation"
    and app: "applied_mutation s c step_run m s' r updated ob"
  shows "runs_ok s'"
  using inv app applied_facts(1,3) [OF assms]
  by (auto simp: store_inv_def runs_ok_def applied_mutation_def mutated_store_def Let_def)

lemma applied_locks_ok:
  assumes inv: "store_inv s" and op: "cmd_operation c = operation"
    and app: "applied_mutation s c step_run m s' r updated ob"
  shows "locks_ok s'"
proof -
  let ?org = "cmd_organisation_id c" and ?i = "cmd_run_id c" and ?cred = "run_credential_id r"
  note f = applied_facts [OF assms]
  have runs: "st_runs s (?org, ?i) = Some r" and cred: "run_credential_id updated = ?cred"
    using app f(4) by (auto simp: applied_mutation_def Let_def same_identity_def)
  have s': "st_runs s' = (st_runs s)((?org, ?i) \<mapsto> updated)"
    "st_locks s' = (if holds_run_lock s ?org r \<and> \<not> active_status (run_status updated)
                    then (st_locks s)((?org, ?cred) := None) else st_locks s)"
    using app by (auto simp: applied_mutation_def Let_def mutated_store_def)
  have held: "holds_run_lock s ?org r \<longleftrightarrow> (\<exists>l. st_locks s (?org, ?cred) = Some l \<and> lock_run_id l = ?i)"
    using f(1) by (auto simp: holds_run_lock_def split: option.splits)
  have lk: "st_locks s (org, d) = Some l \<Longrightarrow> \<exists>q. st_runs s (org, lock_run_id l) = Some q
      \<and> run_credential_id q = d \<and> active_status (run_status q)" for org d l
    using inv by (auto simp: store_inv_def locks_ok_def)
  have ac: "st_runs s (org, i) = Some q \<Longrightarrow> active_status (run_status q) \<Longrightarrow>
      \<exists>l. st_locks s (org, run_credential_id q) = Some l \<and> lock_run_id l = i" for org i q
    using inv by (auto simp: store_inv_def locks_ok_def)
  have "\<exists>q. st_runs s' (org, lock_run_id l) = Some q \<and> run_credential_id q = d \<and> active_status (run_status q)"
    if "st_locks s' (org, d) = Some l" for org d l
  proof -
    have l: "st_locks s (org, d) = Some l"
      and free: "holds_run_lock s ?org r \<and> \<not> active_status (run_status updated) \<longrightarrow> (org, d) \<noteq> (?org, ?cred)"
      using that s'(2) by (auto split: if_splits)
    from lk [OF l] obtain q where q: "st_runs s (org, lock_run_id l) = Some q" "run_credential_id q = d"
      "active_status (run_status q)" by blast
    show ?thesis
    proof (cases "(org, lock_run_id l) = (?org, ?i)")
      case True
      then have "q = r" using q(1) runs by simp
      then have "holds_run_lock s ?org r" using True l q(2) held by auto
      then have "active_status (run_status updated)" using free True \<open>q = r\<close> q(2) by auto
      then show ?thesis using True s'(1) cred q(2) \<open>q = r\<close> by simp
    next
      case False
      then show ?thesis using s'(1) q by auto
    qed
  qed
  moreover have "\<exists>l. st_locks s' (org, run_credential_id q) = Some l \<and> lock_run_id l = i"
    if "st_runs s' (org, i) = Some q" "active_status (run_status q)" for org i q
  proof (cases "(org, i) = (?org, ?i)")
    case True
    then have "q = updated" using that(1) s'(1) by simp
    then have "holds_run_lock s ?org r" using f(5) that(2) by simp
    then show ?thesis using True held s'(2) that(2) \<open>q = updated\<close> cred by auto
  next
    case False
    then have q: "st_runs s (org, i) = Some q" using that(1) s'(1) by (auto split: if_splits)
    from ac [OF q that(2)] obtain l where l: "st_locks s (org, run_credential_id q) = Some l" "lock_run_id l = i"
      by blast
    have "\<not> (holds_run_lock s ?org r \<and> (org, run_credential_id q) = (?org, ?cred))"
      using held l False by auto
    then show ?thesis using l s'(2) by auto
  qed
  ultimately show ?thesis by (auto simp: locks_ok_def)
qed

lemma applied_log_event:
  assumes app: "applied_mutation s c step_run m s' r updated ob" and id: "run_id r = cmd_run_id c"
  shows "log_event s' org i n e \<longleftrightarrow>
     (if (org, e) = (cmd_organisation_id c, cmd_id c) then i = cmd_run_id c \<and> n = run_revision r + 1
      else log_event s org i n e)"
  using app id by (auto simp: log_event_def applied_mutation_def mutated_store_def Let_def)

lemma applied_log_ok:
  assumes inv: "store_inv s" and op: "cmd_operation c = operation"
    and app: "applied_mutation s c step_run m s' r updated ob"
  shows "log_ok s'" "steps_ok s'"
proof -
  let ?org = "cmd_organisation_id c" and ?i = "cmd_run_id c"
  have id: "run_id r = ?i" by (rule applied_facts(1) [OF assms])
  have a: "st_runs s (?org, ?i) = Some r" "run_revision updated = run_revision r + 1"
    "st_outbox s (?org, cmd_id c) = None" "st_steps s (?org, ?i, cmd_id c) = None"
    and s': "st_runs s' = (st_runs s)((?org, ?i) \<mapsto> updated)"
    "st_steps s' = (st_steps s)((?org, ?i, cmd_id c) \<mapsto> mr_step m)"
    using app by (auto simp: applied_mutation_def mutated_store_def Let_def)
  note log = applied_log_event [OF app id]
  have fresh: "\<not> log_event s ?org i n (cmd_id c)" for i n
    using a(3) by (simp add: log_event_def)
  have rev: "0 \<le> run_revision r"
    using applied_facts(2) [OF assms] by (simp add: machine_inv_def run_valid_iff rotation_run_fields_ok_def)
  have L: "log_ok s" "steps_ok s" using inv by (simp_all add: store_inv_def)
  have bound: "log_event s org i n e \<Longrightarrow> \<exists>q. st_runs s (org, i) = Some q \<and> 0 \<le> n \<and> n \<le> run_revision q" for org i n e
    using L(1) unfolding log_ok_def by blast
  have ex: "st_runs s (org, i) = Some q \<Longrightarrow> 0 \<le> n \<Longrightarrow> n \<le> run_revision q \<Longrightarrow> \<exists>e. log_event s org i n e" for org i q n
    using L(1) unfolding log_ok_def by blast
  have uniq: "log_event s org i n e \<Longrightarrow> log_event s org i n e' \<Longrightarrow> e = e'" for org i n e e'
    using L(1) unfolding log_ok_def by blast
  have new_rev: "\<not> log_event s ?org ?i (run_revision r + 1) e" for e
    using bound [of ?org ?i "run_revision r + 1" e] a(1) by auto
  have "\<exists>q. st_runs s' (org, i) = Some q \<and> 0 \<le> n \<and> n \<le> run_revision q" if "log_event s' org i n e" for org i n e
    using that bound [of org i n e] a rev s'(1) by (auto simp: log split: if_splits)
  moreover have "\<exists>e. log_event s' org i n e"
    if q: "st_runs s' (org, i) = Some q" and n: "0 \<le> n" "n \<le> run_revision q" for org i q n
  proof (cases "(org, i) = (?org, ?i) \<and> n = run_revision r + 1")
    case True
    then show ?thesis by (auto simp: log)
  next
    case False
    then have "\<exists>q. st_runs s (org, i) = Some q \<and> n \<le> run_revision q"
      using q n a(1,2) s'(1) by (auto split: if_splits)
    then obtain e where e: "log_event s org i n e" using ex n(1) by blast
    then have "(org, e) \<noteq> (?org, cmd_id c)" using fresh by auto
    then show ?thesis using e by (auto simp: log)
  qed
  moreover have "e = e'" if "log_event s' org i n e" "log_event s' org i n e'" for org i n e e'
    using that uniq [of org i n e e'] new_rev by (auto simp: log split: if_splits)
  ultimately show "log_ok s'" unfolding log_ok_def by blast
  have "st_steps s (org, i, e) \<noteq> None \<longleftrightarrow> (\<exists>n. log_event s org i n e)" for org i e
    using L(2) by (auto simp: steps_ok_def)
  then show "steps_ok s'"
    using fresh by (auto simp: steps_ok_def log s'(2))
qed

lemma mutate_keeps_inv:
  assumes "store_inv s" "cmd_operation c = operation"
    and "store_mutate sha fmt s c kind step_run pr = Inr (m, s')"
  shows "store_inv s'"
  using assms(3)
proof (cases rule: store_mutate_cases)
  case replayed
  then show ?thesis using assms(1) by simp
next
  case (applied r updated ob)
  then show ?thesis
    unfolding store_inv_def
    using applied_runs_ok [OF assms(1,2) applied] applied_locks_ok [OF assms(1,2) applied]
      applied_log_ok [OF assms(1,2) applied] by blast
qed

end

section \<open>Preservation by create\<close>

lemma store_create_cases:
  assumes "store_create sha fmt s r c = Inr (m, s')"
  obtains (replayed) dd where "s' = s" "\<not> mr_applied m"
      "st_dedupe s (run_organisation_id r, dedupe_key sha (trigger_source (run_trigger r))
         (trigger_event_id (run_trigger r))) = Some dd"
      "st_runs s (run_organisation_id r, dd_run_id dd) = Some (mr_run m)"
      "creation_hash sha fmt c = Inr (dd_request_hash dd)"
    | (created) h ob where "creation_hash sha fmt c = Inr h"
      "st_dedupe s (run_organisation_id r, dedupe_key sha (trigger_source (run_trigger r))
         (trigger_event_id (run_trigger r))) = None"
      "st_locks s (run_organisation_id r, run_credential_id r) = None"
      "st_runs s (run_organisation_id r, run_id r) = None"
      "st_outbox s (run_organisation_id r, create_id c) = None"
      "event_run_id (ob_event ob) = run_id r" "event_revision (ob_event ob) = run_revision r"
      "event_id (ob_event ob) = create_id c"
      "event_organisation_id (ob_event ob) = run_organisation_id r"
      "ob_published_at ob = None" "ob_dead_lettered_at ob = None"
      "mr_applied m" "mr_run m = r" "mr_step m = created_step r c h"
      "s' = created_store sha s r c h (created_step r c h) ob"
      "outbox_event_fields_ok ob" "delivery_ok ob"
proof (cases "st_dedupe s (run_organisation_id r, dedupe_key sha (trigger_source (run_trigger r))
         (trigger_event_id (run_trigger r)))")
  case None
  note dd = None
  show thesis
  proof (cases "st_locks s (run_organisation_id r, run_credential_id r)")
    case None
    from assms dd None obtain h step ob where
      a: "creation_hash sha fmt c = Inr h" "st_runs s (run_organisation_id r, run_id r) = None"
      "st_outbox s (run_organisation_id r, create_id c) = None"
      and st: "make_step (created_step r c h) = Inr step"
      and ob: "build_outbox (create_id c) r RUN_CREATED (trigger_actor_id (create_trigger c))
                (run_created_at r)
                [(''source'', PyStr (trigger_source (run_trigger r))),
                 (''urgency'', PyStr (trigger_urgency (run_trigger r)))] = Inr ob"
      and m: "m = \<lparr>mr_run = r, mr_step = step, mr_applied = True\<rparr>" "s' = created_store sha s r c h step ob"
      by (auto simp: store_create_def Let_def bindr_eq_Inr require_eq_Inr)
    then show thesis using make_step_ok [OF st] build_outbox_ok [OF ob] dd None a
      by (intro created [of h ob]) simp_all
  next
    case (Some l)
    then show thesis using assms dd by (auto simp: store_create_def Let_def bindr_eq_Inr)
  qed
next
  case (Some dd)
  then show thesis using assms
    by (intro replayed [of dd])
      (auto simp: store_create_def Let_def bindr_eq_Inr existing_create_def result_iff
        split: if_splits option.splits)
qed

lemma created_log_event:
  assumes "event_run_id (ob_event ob) = run_id r" "event_revision (ob_event ob) = run_revision r"
  shows "log_event (created_store sha s r c h step ob) org i n e \<longleftrightarrow>
     (if (org, e) = (run_organisation_id r, create_id c) then i = run_id r \<and> n = run_revision r
      else log_event s org i n e)"
  using assms by (auto simp: log_event_def created_store_def Let_def)

lemma create_keeps_inv:
  assumes inv: "store_inv s" and r: "machine_inv r" "run_revision r = 0" "active_status (run_status r)"
    and ok: "store_create sha fmt s r c = Inr (m, s')"
  shows "store_inv s'"
  using ok
proof (cases rule: store_create_cases)
  case replayed
  then show ?thesis using inv by simp
next
  case (created h ob)
  let ?org = "run_organisation_id r" and ?i = "run_id r" and ?cred = "run_credential_id r"
  have s': "st_runs s' = (st_runs s)((?org, ?i) \<mapsto> r)"
    "\<And>k. st_locks s' k = (if k = (?org, ?cred) then st_locks s' (?org, ?cred) else st_locks s k)"
    "\<exists>l. st_locks s' (?org, ?cred) = Some l \<and> lock_run_id l = ?i"
    "st_steps s' = (st_steps s)((?org, ?i, create_id c) \<mapsto> created_step r c h)"
    by (auto simp: created(15) created_store_def Let_def)
  have log: "log_event s' org i n e \<longleftrightarrow>
     (if (org, e) = (?org, create_id c) then i = ?i \<and> n = 0 else log_event s org i n e)" for org i n e
    unfolding created(15) using created_log_event [OF created(6,7)] r(2) by auto
  have fresh: "\<not> log_event s ?org i n (create_id c)" for i n
    using created(5) by (simp add: log_event_def)
  have I: "runs_ok s" "locks_ok s" "log_ok s" "steps_ok s" using inv by (simp_all add: store_inv_def)
  have bound: "log_event s org i n e \<Longrightarrow> \<exists>q. st_runs s (org, i) = Some q \<and> 0 \<le> n \<and> n \<le> run_revision q" for org i n e
    using I(3) unfolding log_ok_def by blast
  have none: "\<not> log_event s ?org ?i n e" for n e using bound created(4) by force
  have "runs_ok s'" using I(1) s'(1) r(1) by (auto simp: runs_ok_def)
  moreover have "locks_ok s'"
  proof -
    have lk: "st_locks s (org, d) = Some l \<Longrightarrow> \<exists>q. st_runs s (org, lock_run_id l) = Some q
        \<and> run_credential_id q = d \<and> active_status (run_status q)" for org d l
      using I(2) by (auto simp: locks_ok_def)
    have ac: "st_runs s (org, i) = Some q \<Longrightarrow> active_status (run_status q) \<Longrightarrow>
        \<exists>l. st_locks s (org, run_credential_id q) = Some l \<and> lock_run_id l = i" for org i q
      using I(2) by (auto simp: locks_ok_def)
    have "\<exists>q. st_runs s' (org, lock_run_id l) = Some q \<and> run_credential_id q = d \<and> active_status (run_status q)"
      if "st_locks s' (org, d) = Some l" for org d l
    proof (cases "(org, d) = (?org, ?cred)")
      case True
      then show ?thesis using that s'(1,3) r(3) by auto
    next
      case False
      then have "st_locks s (org, d) = Some l" using that s'(2) [of "(org, d)"] by (simp only: if_False)
      then show ?thesis using lk [of org d l] s'(1) created(4) by auto
    qed
    moreover have "\<exists>l. st_locks s' (org, run_credential_id q) = Some l \<and> lock_run_id l = i"
      if q: "st_runs s' (org, i) = Some q" and act: "active_status (run_status q)" for org i q
    proof (cases "(org, i) = (?org, ?i)")
      case True
      then show ?thesis using q s'(1,3) by auto
    next
      case False
      then have q': "st_runs s (org, i) = Some q" using q s'(1) by (auto split: if_splits)
      from ac [OF q' act] show ?thesis
        using s'(2) [of "(org, run_credential_id q)"] created(3) by (metis option.distinct(1))
    qed
    ultimately show ?thesis by (auto simp: locks_ok_def)
  qed
  moreover have "log_ok s'"
  proof -
    have "\<exists>q. st_runs s' (org, i) = Some q \<and> 0 \<le> n \<and> n \<le> run_revision q" if "log_event s' org i n e" for org i n e
      using that bound [of org i n e] r(2) s'(1) created(4) by (auto simp: log split: if_splits)
    moreover have "\<exists>e. log_event s' org i n e"
      if q: "st_runs s' (org, i) = Some q" and n: "0 \<le> n" "n \<le> run_revision q" for org i q n
    proof (cases "(org, i) = (?org, ?i)")
      case True
      then show ?thesis using q n r(2) s'(1) by (auto simp: log)
    next
      case False
      then have "st_runs s (org, i) = Some q" using q s'(1) by (auto split: if_splits)
      then obtain e where e: "log_event s org i n e" using I(3) n unfolding log_ok_def by blast
      then have "(org, e) \<noteq> (?org, create_id c)" using fresh by auto
      then show ?thesis using e by (auto simp: log)
    qed
    moreover have "e = e'" if "log_event s' org i n e" "log_event s' org i n e'" for org i n e e'
    proof -
      have u: "log_event s org i n e \<Longrightarrow> log_event s org i n e' \<Longrightarrow> e = e'"
        using I(3) unfolding log_ok_def by blast
      show ?thesis using that u none by (auto simp: log split: if_splits)
    qed
    ultimately show ?thesis unfolding log_ok_def by blast
  qed
  moreover have "steps_ok s'"
    using I(4) fresh by (auto simp: steps_ok_def log s'(4))
  ultimately show ?thesis by (simp add: store_inv_def)
qed

end
