(* ===== verification/Workflow.thy ===== *)
theory Workflow imports Run_Store_Facts "HOL-Library.Product_Lexorder" begin

text \<open>
  server/core/workflow/steps.py: \<open>RunWorkflow\<close>, which turns commands into mutations of the run
  store, lists runs and reaps runs whose worker disappeared. \<open>execute_command\<close> is the method of a
  command: the event kind, the machine's transition and, for a completed stage, the proof that the
  repository gates. The random identifier of a new run and the readings of the clock are arguments.
\<close>

section \<open>Commands\<close>

fun command_event :: "command_body \<Rightarrow> event_kind" where
  "command_event (StartRun _ _) = RUN_STARTED"
| "command_event (RenewLease _ _ _) = LEASE_RENEWED"
| "command_event (CompleteStage _ _ _) = STAGE_COMPLETED"
| "command_event (PauseRun _) = RUN_PAUSED"
| "command_event (ResumeRun _ _) = RUN_RESUMED"
| "command_event (CleanupRun _ _) = CLEANUP_REQUIRED"
| "command_event (FailRun _ _) = RUN_FAILED"
| "command_event CancelRun = RUN_CANCELLED"
| "command_event (RecoverRun _ _) = RECOVERY_STARTED"
| "command_event (CompleteRecovery _ _ _ _) = RECOVERY_COMPLETED"

fun command_proof :: "command_body \<Rightarrow> stage_proof option" where
  "command_proof (CompleteStage _ p _) = Some p"
| "command_proof _ = None"

definition execute_command ::
  "(string \<Rightarrow> string) \<Rightarrow> (int \<Rightarrow> string) \<Rightarrow> gate_policy option \<Rightarrow> run_store \<Rightarrow> int \<Rightarrow> run_command
     \<Rightarrow> (mutation_result \<times> run_store) result" where
  "execute_command sha fmt policy s now c =
     store_mutate sha fmt s c (command_event (cmd_body c))
       (command_transition policy now (cmd_expected_revision c) (cmd_body c))
       (command_proof (cmd_body c))"

text \<open>\<open>create\<close>: \<open>command.run_id or self._id_factory("run")\<close>.\<close>

definition workflow_create ::
  "(string \<Rightarrow> string) \<Rightarrow> (int \<Rightarrow> string) \<Rightarrow> run_store \<Rightarrow> int \<Rightarrow> string \<Rightarrow> create_command
     \<Rightarrow> (mutation_result \<times> run_store) result" where
  "workflow_create sha fmt s now fresh_id c =
     bindr (build_run c (case create_run_id c of None \<Rightarrow> fresh_id | Some i \<Rightarrow> if i = [] then fresh_id else i) now)
       (\<lambda>r. store_create sha fmt s r c)"

section \<open>Listing\<close>

text \<open>
  The repository streams the collection up to a limit and checks every document; \<open>docs\<close> is the
  stream. \<open>sorted(..., reverse=True)\<close> keeps the order of equal keys.
\<close>

definition store_list_runs :: "rotation_run list \<Rightarrow> string \<Rightarrow> nat \<Rightarrow> rotation_run list result" where
  "store_list_runs docs org limit =
     bindr (segments [org]) (\<lambda>_. mapr (\<lambda>d. decode_run d org) (take limit docs))"

definition sorted_newest :: "rotation_run list \<Rightarrow> rotation_run list" where
  "sorted_newest rs = rev (sort_key (\<lambda>r. (run_created_at r, run_id r)) (rev rs))"

definition workflow_list_runs ::
  "rotation_run list \<Rightarrow> string \<Rightarrow> run_status list option \<Rightarrow> nat \<Rightarrow> rotation_run list result" where
  "workflow_list_runs docs org statuses limit =
     bindr (store_list_runs docs org 500) (\<lambda>rs.
     let chosen = (case statuses of None \<Rightarrow> rs | Some ss \<Rightarrow> filter (\<lambda>r. run_status r \<in> set ss) rs)
     in Inr (take limit (sorted_newest chosen)))"

section \<open>Reaping\<close>

definition RECOVERY_STAGES :: "stage list" where
  "RECOVERY_STAGES = [DEPLOY, VERIFY, ROLLOUT, OBSERVE]"

definition reap_candidate :: "int \<Rightarrow> rotation_run \<Rightarrow> bool" where
  "reap_candidate now r \<longleftrightarrow>
     run_status r = CLEANUP
     \<or> ((run_status r = RUNNING \<or> run_status r = RECOVERING)
        \<and> (case run_lease r of None \<Rightarrow> False | Some l \<Rightarrow> lease_expires_at l \<le> now))"

definition reap_id :: "(string \<Rightarrow> string) \<Rightarrow> rotation_run \<Rightarrow> string \<Rightarrow> string" where
  "reap_id sha r operation =
     ''reap_'' @ take 40 (sha (run_organisation_id r @ CHR 0x00 # run_id r @ CHR 0x00 #
       int_text (run_revision r) @ CHR 0x00 # operation))"

definition thirty_minutes :: int where
  "thirty_minutes = 1800000000"

definition recovery_lease_expired :: failure where
  "recovery_lease_expired =
     \<lparr>failure_code = ''recovery-lease-expired'',
      failure_message = ''Recovery worker lease expired before recovery completed.'',
      failure_retryable = False, failure_evidence_ids = []\<rparr>"

definition stage_lease_expired :: "stage \<Rightarrow> failure" where
  "stage_lease_expired st =
     \<lparr>failure_code = ''stage-lease-expired'',
      failure_message = ''Worker lease expired while executing '' @ stage_value st @ ''.'',
      failure_retryable = True, failure_evidence_ids = []\<rparr>"

definition reap_command ::
  "(string \<Rightarrow> string) \<Rightarrow> rotation_run \<Rightarrow> string \<Rightarrow> string \<Rightarrow> string \<Rightarrow> command_body \<Rightarrow> run_command" where
  "reap_command sha r org actor operation body =
     \<lparr>cmd_id = reap_id sha r operation, cmd_organisation_id = org, cmd_run_id = run_id r,
      cmd_actor_id = actor, cmd_expected_revision = run_revision r, cmd_body = body\<rparr>"

text \<open>A command contract is validated when it is built.\<close>

definition submit ::
  "(string \<Rightarrow> string) \<Rightarrow> (int \<Rightarrow> string) \<Rightarrow> gate_policy option \<Rightarrow> run_store \<Rightarrow> int \<Rightarrow> run_command
     \<Rightarrow> (mutation_result \<times> run_store) result" where
  "submit sha fmt policy s now c =
     (if run_command_fields_ok c then execute_command sha fmt policy s now c
      else Inl (FieldError ''RunCommand''))"

text \<open>\<open>_restart_recovery\<close>: \<open>now\<close> is the reaper's time, \<open>tick\<close> the clock of the command.\<close>

definition restart_recovery ::
  "(string \<Rightarrow> string) \<Rightarrow> (int \<Rightarrow> string) \<Rightarrow> gate_policy option \<Rightarrow> run_store \<Rightarrow> rotation_run \<Rightarrow> string \<Rightarrow> int \<Rightarrow> int
     \<Rightarrow> (mutation_result \<times> run_store) result" where
  "restart_recovery sha fmt policy s r actor now tick =
     submit sha fmt policy s tick
       (reap_command sha r (run_organisation_id r) actor ''recover''
          (RecoverRun actor (now + thirty_minutes)))"

datatype reap_outcome = Restarted | Failed_by_reaper

text \<open>
  The loop body for one candidate. It may write and then raise (a cleanup whose recovery is
  rejected), so the store is returned with errors too. \<open>tick1\<close> and \<open>tick2\<close> are the clock
  readings of its one or two commands.
\<close>

definition reap_one ::
  "(string \<Rightarrow> string) \<Rightarrow> (int \<Rightarrow> string) \<Rightarrow> gate_policy option \<Rightarrow> string \<Rightarrow> string \<Rightarrow> int \<Rightarrow> int \<Rightarrow> int
     \<Rightarrow> run_store \<Rightarrow> rotation_run \<Rightarrow> (rotation_run \<times> reap_outcome) result \<times> run_store" where
  "reap_one sha fmt policy org actor now tick1 tick2 s r =
     (let finish = (\<lambda>out s0 res. case res of Inl e \<Rightarrow> (Inl e, s0) | Inr (m, s1) \<Rightarrow> (Inr (mr_run m, out), s1)) in
      if run_status r = CLEANUP
      then finish Restarted s (restart_recovery sha fmt policy s r actor now tick1)
      else if run_status r = RECOVERING
      then finish Failed_by_reaper s (submit sha fmt policy s tick1
             (reap_command sha r org actor ''fail-recovery''
                (FailRun (run_fencing_token r) recovery_lease_expired)))
      else if run_stage r \<in> set RECOVERY_STAGES \<and> run_plan_id r \<noteq> None
      then (case submit sha fmt policy s tick1
                   (reap_command sha r org actor ''cleanup''
                      (CleanupRun (run_fencing_token r) (stage_lease_expired (run_stage r)))) of
              Inl e \<Rightarrow> (Inl e, s)
            | Inr (m, s1) \<Rightarrow>
                finish Restarted s1 (restart_recovery sha fmt policy s1 (mr_run m) actor now tick2))
      else finish Failed_by_reaper s (submit sha fmt policy s tick1
             (reap_command sha r org actor ''fail''
                (FailRun (run_fencing_token r) (stage_lease_expired (run_stage r))))))"

text \<open>The whole loop: the first error ends it, what was written before stays.\<close>

fun reap_loop ::
  "(string \<Rightarrow> string) \<Rightarrow> (int \<Rightarrow> string) \<Rightarrow> gate_policy option \<Rightarrow> string \<Rightarrow> string \<Rightarrow> int \<Rightarrow> (nat \<Rightarrow> int) \<Rightarrow> nat
     \<Rightarrow> run_store \<Rightarrow> rotation_run list \<Rightarrow> (rotation_run \<times> reap_outcome) list result \<times> run_store" where
  "reap_loop sha fmt policy org actor now clock k s [] = (Inr [], s)"
| "reap_loop sha fmt policy org actor now clock k s (r # rs) =
     (case reap_one sha fmt policy org actor now (clock k) (clock (k + 1)) s r of
        (Inl e, s1) \<Rightarrow> (Inl e, s1)
      | (Inr x, s1) \<Rightarrow>
          (case reap_loop sha fmt policy org actor now clock (k + 2) s1 rs of
             (Inl e, s2) \<Rightarrow> (Inl e, s2)
           | (Inr xs, s2) \<Rightarrow> (Inr (x # xs), s2)))"

record reap_result =
  reap_scanned :: nat
  reap_restarted :: nat
  reap_failed :: nat
  reap_runs :: "rotation_run list"

definition reap_expired ::
  "(string \<Rightarrow> string) \<Rightarrow> (int \<Rightarrow> string) \<Rightarrow> gate_policy option \<Rightarrow> rotation_run list \<Rightarrow> string \<Rightarrow> string
     \<Rightarrow> (nat \<Rightarrow> int) \<Rightarrow> run_store \<Rightarrow> reap_result result \<times> run_store" where
  "reap_expired sha fmt policy docs org actor clock s =
     (let now = clock 0 in
      case store_list_runs docs org 500 of
        Inl e \<Rightarrow> (Inl e, s)
      | Inr rs \<Rightarrow>
          (let candidates = filter (reap_candidate now) rs in
           case reap_loop sha fmt policy org actor now clock 1 s candidates of
             (Inl e, s1) \<Rightarrow> (Inl e, s1)
           | (Inr xs, s1) \<Rightarrow>
               (Inr \<lparr>reap_scanned = length candidates,
                     reap_restarted = length (filter (\<lambda>x. snd x = Restarted) xs),
                     reap_failed = length (filter (\<lambda>x. snd x = Failed_by_reaper) xs),
                     reap_runs = map fst xs\<rparr>, s1)))"

end
