(* ===== verification/Workflow_Facts.thy ===== *)
theory Workflow_Facts imports Workflow begin

text \<open>
  The machine meets the contract of the run store, so every store the workflow reaches satisfies
  the store invariant. From it: one active run per credential, a gap-free event log, idempotent
  commands, evidence gated by the pinned controls, and the outcome of the reaper.
\<close>

section \<open>The machine as a transition of the store\<close>

interpretation rotation: transition_contract
  "command_transition policy now expected body" "body_operation body"
  for policy now expected body
proof
  show "machine_inv r'"
    if "machine_inv r" "command_transition policy now expected body r = Inr r'" for r r'
    using machine_inv_step that .
  show "same_identity r r'" if "command_transition policy now expected body r = Inr r'" for r r'
    using transition_contract(5) that .
  show "run_status r' = CANCELLED"
    if "body_operation body = ''cancel''" "command_transition policy now expected body r = Inr r'" for r r'
    using that by (cases body) (auto simp: command_transition.simps machine_cancel_ok)
qed

lemma execute_keeps_inv:
  "store_inv s \<Longrightarrow> execute_command sha fmt policy s now c = Inr (m, s') \<Longrightarrow> store_inv s'"
  unfolding execute_command_def
  by (erule rotation.mutate_keeps_inv [rotated 2]) (simp_all add: cmd_operation_def)

lemma workflow_create_keeps_inv:
  "store_inv s \<Longrightarrow> workflow_create sha fmt s now fid c = Inr (m, s') \<Longrightarrow> store_inv s'"
  unfolding workflow_create_def bindr_eq_Inr
  by (elim exE conjE, rule create_keeps_inv) (auto dest: machine_inv_build simp: active_status_def)

section \<open>Reachable stores\<close>

inductive workflow_step ::
  "(string \<Rightarrow> string) \<Rightarrow> (int \<Rightarrow> string) \<Rightarrow> gate_policy option \<Rightarrow> run_store \<Rightarrow> run_store \<Rightarrow> bool"
  for sha fmt policy where
  ws_create: "workflow_create sha fmt s now fid c = Inr (m, s') \<Longrightarrow> workflow_step sha fmt policy s s'"
| ws_execute: "execute_command sha fmt policy s now c = Inr (m, s') \<Longrightarrow> workflow_step sha fmt policy s s'"

inductive workflow_steps ::
  "(string \<Rightarrow> string) \<Rightarrow> (int \<Rightarrow> string) \<Rightarrow> gate_policy option \<Rightarrow> run_store \<Rightarrow> run_store \<Rightarrow> bool"
  for sha fmt policy where
  wss_refl: "workflow_steps sha fmt policy s s"
| wss_step: "workflow_steps sha fmt policy s s' \<Longrightarrow> workflow_step sha fmt policy s' s'' \<Longrightarrow>
     workflow_steps sha fmt policy s s''"

lemma workflow_step_inv: "workflow_step sha fmt policy s s' \<Longrightarrow> store_inv s \<Longrightarrow> store_inv s'"
  by (cases rule: workflow_step.cases) (auto intro: execute_keeps_inv workflow_create_keeps_inv)

lemma workflow_steps_inv: "workflow_steps sha fmt policy s s' \<Longrightarrow> store_inv s \<Longrightarrow> store_inv s'"
  by (induction rule: workflow_steps.induct) (auto intro: workflow_step_inv)

lemma one_active_run:
  assumes "store_inv s" "st_runs s (org, i) = Some r" "st_runs s (org, j) = Some q"
    and "run_credential_id r = run_credential_id q"
    and "active_status (run_status r)" "active_status (run_status q)"
  shows "i = j"
proof -
  have lk: "st_runs s (org, k) = Some p \<Longrightarrow> active_status (run_status p) \<Longrightarrow>
      \<exists>l. st_locks s (org, run_credential_id p) = Some l \<and> lock_run_id l = k" for k p
    using assms(1) by (auto simp: store_inv_def locks_ok_def)
  from lk [OF assms(2,5)] lk [OF assms(3,6)] assms(4) show ?thesis by auto
qed

section \<open>Steps are recorded once\<close>

definition step_doc_ok :: "run_step \<Rightarrow> bool" where
  "step_doc_ok s \<longleftrightarrow> make_step s = Inr s"

lemma make_step_eq: "make_step s = Inr s' \<longleftrightarrow> s' = s \<and> step_doc_ok s"
  using make_step_ok [of s s'] by (auto simp: step_doc_ok_def)

lemma mutate_hash:
  assumes "store_mutate sha fmt s c kind step_run pr = Inr (m, s')"
  shows "mutation_hash sha fmt c = Inr (step_command_hash (mr_step m))"
    "make_step (mr_step m) = Inr (mr_step m)"
    "list_all identifier_ok [cmd_organisation_id c, cmd_run_id c, cmd_id c]"
proof -
  have "mutation_hash sha fmt c = Inr (step_command_hash (mr_step m)) \<and> step_doc_ok (mr_step m)
      \<and> list_all identifier_ok [cmd_organisation_id c, cmd_run_id c, cmd_id c]"
  proof (cases "st_steps s (cmd_organisation_id c, cmd_run_id c, cmd_id c)")
    case None
    then show ?thesis using assms
      by (auto simp: store_mutate_def Let_def bindr_eq_Inr require_eq_Inr apply_mutation_def segments_ok
          make_step_eq mutated_step_def split: option.splits)
  next
    case (Some st)
    then show ?thesis using assms
      by (auto simp: store_mutate_def Let_def bindr_eq_Inr require_eq_Inr replayed_mutation_def segments_ok
          make_step_eq split: option.splits)
  qed
  then show "mutation_hash sha fmt c = Inr (step_command_hash (mr_step m))"
    "make_step (mr_step m) = Inr (mr_step m)"
    "list_all identifier_ok [cmd_organisation_id c, cmd_run_id c, cmd_id c]"
    by (auto simp: step_doc_ok_def)
qed

lemma mutate_records_step:
  assumes "store_mutate sha fmt s c kind step_run pr = Inr (m, s')"
  shows "st_steps s' (cmd_organisation_id c, cmd_run_id c, cmd_id c) = Some (mr_step m)"
  using assms
  by (cases rule: store_mutate_cases) (auto simp: applied_mutation_def Let_def mutated_store_def)

lemma mutate_keeps_steps:
  assumes "store_mutate sha fmt s c kind step_run pr = Inr (m, s')" "st_steps s k = Some st"
  shows "st_steps s' k = Some st"
  using assms
  by (cases rule: store_mutate_cases) (auto simp: applied_mutation_def Let_def mutated_store_def)

lemma create_keeps_steps:
  assumes "store_inv s" "store_create sha fmt s r c = Inr (m, s')" "st_steps s k = Some st"
  shows "st_steps s' k = Some st"
  using assms(2)
proof (cases rule: store_create_cases)
  case replayed
  then show ?thesis using assms by simp
next
  case (created h ob)
  have "\<not> (\<exists>n. log_event s (run_organisation_id r) (run_id r) n (create_id c))"
    using created(5) by (simp add: log_event_def)
  then have "st_steps s (run_organisation_id r, run_id r, create_id c) = None"
    using assms(1) unfolding store_inv_def steps_ok_def by blast
  then show ?thesis using assms(3) by (auto simp: created(15) created_store_def Let_def)
qed

lemma workflow_steps_keep_steps:
  "workflow_steps sha fmt policy s s' \<Longrightarrow> store_inv s \<Longrightarrow> st_steps s k = Some st \<Longrightarrow>
     st_steps s' k = Some st"
proof (induction rule: workflow_steps.induct)
  case (wss_refl s)
  then show ?case by simp
next
  case (wss_step s s' s'')
  have "store_inv s'" using workflow_steps_inv wss_step.hyps(1) wss_step.prems(1) .
  with wss_step show ?case
    by (auto elim!: workflow_step.cases intro: mutate_keeps_steps create_keeps_steps
        simp: execute_command_def workflow_create_def bindr_eq_Inr)
qed

lemma run_exists_mutate:
  assumes "store_inv s" "st_steps s (org, i, e) = Some st"
  shows "\<exists>r. st_runs s (org, i) = Some r \<and> run_valid r \<and> run_organisation_id r = org"
proof -
  from assms obtain n where "log_event s org i n e"
    unfolding store_inv_def steps_ok_def by (metis option.distinct(1))
  then obtain r where "st_runs s (org, i) = Some r" using assms(1) unfolding store_inv_def log_ok_def by blast
  then show ?thesis using assms(1) by (auto simp: store_inv_def runs_ok_def machine_inv_def)
qed

lemma replay:
  assumes inv: "store_inv s" and ex: "execute_command sha fmt policy s now c = Inr (m, s1)"
    and later: "workflow_steps sha fmt policy s1 s2"
  shows "\<exists>r. st_runs s2 (cmd_organisation_id c, cmd_run_id c) = Some r
     \<and> execute_command sha fmt policy s2 now' c
         = Inr (\<lparr>mr_run = r, mr_step = mr_step m, mr_applied = False\<rparr>, s2)"
proof -
  note ex' = ex [unfolded execute_command_def]
  have inv1: "store_inv s1" by (rule execute_keeps_inv [OF inv ex])
  have inv2: "store_inv s2" by (rule workflow_steps_inv [OF later inv1])
  have st: "st_steps s2 (cmd_organisation_id c, cmd_run_id c, cmd_id c) = Some (mr_step m)"
    by (rule workflow_steps_keep_steps [OF later inv1 mutate_records_step [OF ex']])
  from run_exists_mutate [OF inv2 st] obtain r where r: "st_runs s2 (cmd_organisation_id c, cmd_run_id c) = Some r"
    "run_valid r" "run_organisation_id r = cmd_organisation_id c" by blast
  have "decode_run r (cmd_organisation_id c) = Inr r" using r by (simp add: decode_run_ok)
  then have "execute_command sha fmt policy s2 now' c
         = Inr (\<lparr>mr_run = r, mr_step = mr_step m, mr_applied = False\<rparr>, s2)"
    using st r(1) mutate_hash [OF ex']
    by (simp add: execute_command_def store_mutate_def Let_def segments_def replayed_mutation_def)
  then show ?thesis using r(1) by blast
qed

section \<open>A failed run cannot be recovered\<close>

text \<open>
  \<open>fail\<close> deletes the credential lock and nothing but a new run creates one, while every command
  except cancel needs it: although the machine lets a failed run recover, the store never does.
\<close>

lemma failed_run_unlocked:
  assumes "store_inv s" "st_runs s (org, i) = Some r" "\<not> active_status (run_status r)"
  shows "\<not> holds_run_lock s org r"
proof
  assume "holds_run_lock s org r"
  then obtain l where l: "st_locks s (org, run_credential_id r) = Some l" "lock_run_id l = run_id r"
    by (auto simp: holds_run_lock_def split: option.splits)
  then obtain q where "st_runs s (org, run_id r) = Some q" "active_status (run_status q)"
    using assms(1) unfolding store_inv_def locks_ok_def by metis
  moreover have "run_id r = i" using assms(1,2) by (auto simp: store_inv_def runs_ok_def)
  ultimately show False using assms(2,3) by simp
qed

lemma inactive_run_frozen:
  assumes inv: "store_inv s" and r: "st_runs s (cmd_organisation_id c, cmd_run_id c) = Some r"
    and "\<not> active_status (run_status r)" "\<not> (cmd_body c = CancelRun \<and> run_status r = FAILED)"
    and fresh: "st_steps s (cmd_organisation_id c, cmd_run_id c, cmd_id c) = None"
  shows "\<not> is_ok (execute_command sha fmt policy s now c)"
proof
  assume "is_ok (execute_command sha fmt policy s now c)"
  then obtain m s' where ok: "store_mutate sha fmt s c (command_event (cmd_body c))
      (command_transition policy now (cmd_expected_revision c) (cmd_body c)) (command_proof (cmd_body c)) = Inr (m, s')"
    by (auto simp: is_ok_iff execute_command_def)
  then show False
  proof (cases rule: store_mutate_cases)
    case replayed
    then show ?thesis using fresh by simp
  next
    case (applied q updated ob)
    then have "q = r" using r by (simp add: applied_mutation_def Let_def)
    then show ?thesis
      using applied failed_run_unlocked [OF inv r assms(3)] assms(4)
      by (auto simp: applied_mutation_def Let_def cmd_operation_def)
  qed
qed

section \<open>Stage evidence is gated by the pinned controls\<close>

lemma pinned_controls_ok:
  assumes "pinned_controls sha fmt s r e1 e2 = Inr v"
  shows "st_controls s (run_organisation_id r, run_credential_id r, run_control_version r) = Some v"
    "validate_control_version v = Inr v" "cv_id v = run_control_version r"
    "digest sha fmt (dump_control_definition (cv_definition v)) = Inr (cv_digest v)"
  using assms
  by (auto simp: pinned_controls_def bindr_eq_Inr require_eq_Inr validate_control_version_ok
      split: option.splits)

lemma applied_gate:
  assumes ok: "store_mutate sha fmt s c kind step_run (Some p) = Inr (m, s')" and "mr_applied m"
  shows "\<exists>r v. st_runs s (cmd_organisation_id c, cmd_run_id c) = Some r
     \<and> st_controls s (run_organisation_id r, run_credential_id r, run_control_version r) = Some v
     \<and> validate_control_version v = Inr v
     \<and> digest sha fmt (dump_control_definition (cv_definition v)) = Inr (cv_digest v)
     \<and> set (policy_checks (cd_required_checks (cv_definition v)) (proof_stage p)) \<subseteq> set (proof_checks p)"
proof (cases "st_steps s (cmd_organisation_id c, cmd_run_id c, cmd_id c)")
  case (Some st)
  then have "\<not> mr_applied m" using ok
    by (auto simp: store_mutate_def Let_def bindr_eq_Inr replayed_mutation_def split: option.splits)
  then show ?thesis using assms(2) by simp
next
  case None
  then obtain doc r h where r: "st_runs s (cmd_organisation_id c, cmd_run_id c) = Some doc"
    "decode_run doc (cmd_organisation_id c) = Inr r"
    and am: "apply_mutation sha fmt s c kind step_run (Some p) h r = Inr (m, s')"
    using ok by (auto simp: store_mutate_def Let_def bindr_eq_Inr require_eq_Inr split: option.splits)
  from am have "check_proof sha fmt s r (Some p) = Inr ()"
    by (auto simp: apply_mutation_def Let_def bindr_eq_Inr)
  then obtain v policy where v: "pinned_controls sha fmt s r ''run control version disappeared''
            ''run control version lost immutable authority'' = Inr v"
    and g: "make_gate_policy (Some (cd_required_checks (cv_definition v))) = Inr policy"
    and p: "policy_validate policy p = Inr ()" by (auto simp: check_proof_def bindr_eq_Inr)
  note pc = pinned_controls_ok [OF v]
  have "policy = cd_required_checks (cv_definition v)"
    using g make_gate_policy_controls [OF pc(2)] by simp
  then show ?thesis using r pc p by (auto simp: decode_run_ok policy_validate_ok)
qed

section \<open>The reaper\<close>

lemma submit_ok: "submit sha fmt policy s now c = Inr x \<Longrightarrow> execute_command sha fmt policy s now c = Inr x"
  by (simp add: submit_def split: if_splits)

lemma submit_step: "submit sha fmt policy s now c = Inr (m, s') \<Longrightarrow> workflow_steps sha fmt policy s s'"
  by (rule wss_step [OF wss_refl ws_execute]) (rule submit_ok)

lemma workflow_steps_trans:
  "workflow_steps sha fmt policy b c \<Longrightarrow> workflow_steps sha fmt policy a b \<Longrightarrow> workflow_steps sha fmt policy a c"
  by (induction rule: workflow_steps.induct) (auto intro: wss_step)

lemma reap_one_steps: "workflow_steps sha fmt policy s (snd (reap_one sha fmt policy org actor now t1 t2 s r))"
  unfolding reap_one_def restart_recovery_def
  by (auto simp: Let_def split: sum.splits prod.splits
      intro!: wss_refl dest: submit_step intro: workflow_steps_trans)

lemma reap_loop_steps:
  "workflow_steps sha fmt policy s (snd (reap_loop sha fmt policy org actor now clock k s rs))"
proof (induction rs arbitrary: s k)
  case Nil
  then show ?case by (simp add: wss_refl)
next
  case (Cons r rs)
  show ?case
    using reap_one_steps [of sha fmt policy s org actor now "clock k" "clock (k + 1)" r] Cons.IH
    by (auto split: sum.splits prod.splits intro: workflow_steps_trans)
      (metis snd_conv workflow_steps_trans)+
qed

end
