(* ===== verification/Store_Progress.thy ===== *)
theory Store_Progress imports Workflow_Facts begin

text \<open>
  Progress of the store: the digests of commands are always defined, so a command whose run is
  stored, active and at the expected revision, whose guard holds and whose identifier is fresh is
  applied by \<open>mutate\<close>; and a create command whose credential is free is applied by \<open>create\<close>.
\<close>

section \<open>The digests of commands are defined\<close>

definition canonical_ok :: "pyval \<Rightarrow> bool" where
  "canonical_ok v \<longleftrightarrow> (\<forall>fmt. is_ok (canonical fmt v))"

lemma canonical_ok_atoms [simp]:
  "canonical_ok PyNone" "canonical_ok (PyBool b)" "canonical_ok (PyInt i)" "canonical_ok (PyStr s)"
  "canonical_ok (PyEnum s)" "canonical_ok (PyTime t)" "canonical_ok (PyBytes s)"
  by (simp_all add: canonical_ok_def)

lemma is_ok_bindr: "is_ok (bindr r f) \<longleftrightarrow> (\<exists>x. r = Inr x \<and> is_ok (f x))"
  by (cases r) simp_all

lemma mapr_is_ok: "(\<And>x. x \<in> set xs \<Longrightarrow> is_ok (f x)) \<Longrightarrow> is_ok (mapr f xs)"
proof (induction xs)
  case (Cons x xs)
  then have "is_ok (f x)" "is_ok (mapr f xs)" by simp_all
  then show ?case by (auto simp: is_ok_iff)
qed simp

lemma canonical_ok_list [simp]: "list_all canonical_ok xs \<Longrightarrow> canonical_ok (PyList xs)"
  using mapr_is_ok [of xs "canonical fmt" for fmt]
  by (simp add: canonical_ok_def list_all_iff is_ok_bindr) (simp add: is_ok_iff)

lemma canonical_ok_set [simp]: "list_all canonical_ok xs \<Longrightarrow> canonical_ok (PySet xs)"
  using mapr_is_ok [of xs "canonical fmt" for fmt]
  by (simp add: canonical_ok_def list_all_iff is_ok_bindr) (simp add: is_ok_iff)

lemma canonical_ok_dict:
  assumes "distinct (map (key_text \<circ> fst) kvs)" "list_all (\<lambda>kv. canonical_ok (snd kv)) kvs"
  shows "canonical_ok (PyDict kvs)"
proof -
  have "is_ok (canonical fmt (PyDict kvs))" for fmt
  proof -
    let ?f = "\<lambda>kv. bindr (canonical fmt (snd kv)) (\<lambda>j. Inr (fst kv, j))"
    have "is_ok (mapr ?f kvs)"
      using assms(2) by (intro mapr_is_ok) (auto simp: list_all_iff canonical_ok_def is_ok_bindr is_ok_iff [of "canonical _ _"])
    then obtain us where u: "mapr ?f kvs = Inr us" by (auto simp: is_ok_iff)
    then have "list_all2 (\<lambda>kv u. fst u = fst kv) kvs us"
      unfolding mapr_eq_Inr by (rule list_all2_mono) (auto simp: bindr_eq_Inr)
    then have "map fst us = map fst kvs"
      by (induction rule: list_all2_induct) simp_all
    then have "map (key_text \<circ> fst) us = map (key_text \<circ> fst) kvs"
      by (metis list.map_comp)
    moreover have "map fst (keyed_text us) = map (key_text \<circ> fst) us"
      by (induction us) (auto simp: keyed_text_def)
    ultimately have "map fst (keyed_text us) = map (key_text \<circ> fst) kvs" by simp
    then have "canonical_items us [] = Inr (keyed_text us)"
      using assms(1) by (simp add: canonical_items_Nil)
    then show ?thesis using u by simp
  qed
  then show ?thesis by (simp add: canonical_ok_def)
qed

lemma canonical_ok_fields:
  assumes "distinct (map fst fs)" "list_all (\<lambda>kv. opt_ok canonical_ok (snd kv)) fs"
  shows "canonical_ok (dump_fields fs)"
  unfolding dump_fields_def
proof (rule canonical_ok_dict)
  have eq: "map (key_text \<circ> fst) (map (\<lambda>(k, v). (KeyStr k, the v)) (filter (\<lambda>(k, v). v \<noteq> None) fs))
      = map fst (filter (\<lambda>(k, v). v \<noteq> None) fs)" by auto
  show "distinct (map (key_text \<circ> fst) (map (\<lambda>(k, v). (KeyStr k, the v)) (filter (\<lambda>(k, v). v \<noteq> None) fs)))"
    unfolding eq by (rule distinct_map_filter [OF assms(1)])
qed (use assms(2) in \<open>auto simp: list_all_iff opt_ok_def split: option.splits\<close>)

lemma canonical_ok_opt [simp]: "opt_ok canonical_ok (dump_opt x)" "opt_ok canonical_ok (dump_str s)"
  by (simp_all add: dump_opt_def dump_str_def opt_ok_def split: option.splits)

lemma canonical_ok_strings [simp]: "list_all canonical_ok (map PyStr xs)"
  by (simp add: list_all_iff)

lemma canonical_ok_parts [simp]:
  "canonical_ok (dump_trigger t)" "canonical_ok (dump_failure f)" "canonical_ok (dump_proof p)"
  "canonical_ok (dump_deployment d)"
  unfolding dump_trigger_def dump_failure_def dump_proof_def dump_deployment_def
  by (rule canonical_ok_fields; simp)+

lemma canonical_ok_bindings [simp]: "canonical_ok (dump_bindings b)"
  unfolding dump_bindings_def
  by (rule canonical_ok_fields) (simp_all add: list_all_iff)

lemma canonical_ok_body: "list_all (\<lambda>kv. opt_ok canonical_ok (snd kv)) (dump_body b)"
  by (cases b) simp_all

lemma dump_body_keys:
  "distinct (map fst (dump_body b)) \<and>
   set (map fst (dump_body b)) \<inter> {''operation'', ''id'', ''organisation_id'', ''run_id'', ''actor_id'', ''expected_revision''} = {}"
  by (cases b) simp_all

lemma canonical_ok_command: "canonical_ok (dump_run_command c)"
  unfolding dump_run_command_def
  by (rule canonical_ok_fields) (use dump_body_keys [of "cmd_body c"] canonical_ok_body [of "cmd_body c"] in auto)

lemma canonical_ok_create: "canonical_ok (dump_create_command c)"
  unfolding dump_create_command_def
  by (rule canonical_ok_fields) (auto split: option.splits)

lemma digest_ok: "canonical_ok v \<Longrightarrow> \<exists>t. digest sha fmt v = Inr (sha t)"
  by (auto simp: canonical_ok_def is_ok_iff digest_def digest_text_def bindr_eq_Inr)
    (metis bindr_simps(2))

section \<open>Mutate applies enabled commands\<close>

lemma build_outbox_total:
  assumes "run_valid r" "identifier_ok eid" "identifier_ok actor"
  shows "\<exists>ob. build_outbox eid r kind actor t payload = Inr ob"
  using assms
  by (auto simp: build_outbox_def Let_def result_iff run_event_fields_ok_def outbox_event_fields_ok_def
      delivery_ok_def run_valid_iff rotation_run_fields_ok_def)

lemma mutate_applies:
  assumes fresh: "st_steps s (cmd_organisation_id c, cmd_run_id c, cmd_id c) = None"
    "st_outbox s (cmd_organisation_id c, cmd_id c) = None"
    and run: "st_runs s (cmd_organisation_id c, cmd_run_id c) = Some r" "run_valid r"
    "run_organisation_id r = cmd_organisation_id c" "run_id r = cmd_run_id c"
    and cmd: "run_command_fields_ok c" "run_revision r = cmd_expected_revision c"
    and lock: "holds_run_lock s (cmd_organisation_id c) r"
    and sha: "\<And>t. hex64 (sha t)"
    and gate: "check_proof sha fmt s r pr = Inr ()" "opt_ok stage_proof_fields_ok pr"
    and step: "step_run r = Inr r'" "run_valid r'" "same_identity r r'" "run_revision r' = run_revision r + 1"
  shows "\<exists>m ob. store_mutate sha fmt s c kind step_run pr
      = Inr (m, mutated_store s c r r' (mr_step m) ob True) \<and> mr_applied m \<and> mr_run m = r'"
proof -
  obtain t where h: "mutation_hash sha fmt c = Inr (sha t)"
    using digest_ok [OF canonical_ok_command, of sha fmt c] by (auto simp: mutation_hash_def)
  have ids: "identifier_ok (cmd_id c)" "identifier_ok (cmd_actor_id c)" "identifier_ok (cmd_organisation_id c)"
    "identifier_ok (cmd_run_id c)" "identifier_ok (run_credential_id r)" "0 \<le> run_revision r"
    using cmd(1) run(2) by (auto simp: run_command_fields_ok_def run_valid_iff rotation_run_fields_ok_def)
  have dec: "decode_run r (cmd_organisation_id c) = Inr r" using run by (simp add: decode_run_ok)
  have vt: "validate_transition r r' (cmd_organisation_id c) = Inr ()"
    using step run by (simp add: validate_transition_ok same_identity_def)
  have op: "text_between 1 96 (cmd_operation c)"
    by (cases "cmd_body c") (simp_all add: cmd_operation_def text_between_def)
  have mk: "make_step (mutated_step c r r' (sha t) pr) = Inr (mutated_step c r r' (sha t) pr)"
    using ids run(4) op sha gate(2) step(4) by (simp add: make_step_def mutated_step_def)
  obtain ob where ob: "build_outbox (cmd_id c) r' (resolved_event kind r') (cmd_actor_id c)
       (run_updated_at r') [(''operation'', PyStr (cmd_operation c)), (''previous_revision'', PyInt (run_revision r))] = Inr ob"
    using build_outbox_total [OF step(2) ids(1,2)] by blast
  have "store_mutate sha fmt s c kind step_run pr
      = Inr (\<lparr>mr_run = r', mr_step = mutated_step c r r' (sha t) pr, mr_applied = True\<rparr>,
          mutated_store s c r r' (mutated_step c r r' (sha t) pr) ob True)"
    using fresh run(1) cmd(2) lock gate(1) step(1) h dec vt mk ob ids
    by (simp add: store_mutate_def apply_mutation_def Let_def segments_def)
  then show ?thesis by auto
qed

lemma execute_applies:
  assumes inv: "store_inv s" and sha: "\<And>t. hex64 (sha t)"
    and run: "st_runs s (cmd_organisation_id c, cmd_run_id c) = Some r" "active_status (run_status r)"
    and cmd: "run_command_fields_ok c" "run_revision r = cmd_expected_revision c"
    and fresh: "st_outbox s (cmd_organisation_id c, cmd_id c) = None"
    and en: "enabled policy now (cmd_body c) r" "run_status r = RECOVERING \<longrightarrow> \<not> stops_recovery (cmd_body c)"
    and gate: "check_proof sha fmt s r (command_proof (cmd_body c)) = Inr ()"
  shows "\<exists>m s'. execute_command sha fmt policy s now c = Inr (m, s') \<and> mr_applied m
     \<and> mr_run m = effect now (cmd_body c) r
     \<and> st_runs s' (cmd_organisation_id c, cmd_run_id c) = Some (effect now (cmd_body c) r)"
proof -
  have r: "machine_inv r" "run_organisation_id r = cmd_organisation_id c" "run_id r = cmd_run_id c"
    using inv run(1) by (auto simp: store_inv_def runs_ok_def)
  have lock: "holds_run_lock s (cmd_organisation_id c) r"
  proof -
    from inv run obtain l where "st_locks s (cmd_organisation_id c, run_credential_id r) = Some l"
      "lock_run_id l = cmd_run_id c" unfolding store_inv_def locks_ok_def by blast
    then show ?thesis using r(3) by (simp add: holds_run_lock_def)
  qed
  have body: "body_fields_ok (cmd_body c)" using cmd(1) by (simp add: run_command_fields_ok_def)
  have step: "command_transition policy now (cmd_expected_revision c) (cmd_body c) r = Inr (effect now (cmd_body c) r)"
    using enabled_succeeds [OF r(1) body en] cmd(2) by simp
  have pr: "opt_ok stage_proof_fields_ok (command_proof (cmd_body c))"
    using body by (cases "cmd_body c") simp_all
  have "\<not> (\<exists>n. log_event s (cmd_organisation_id c) (cmd_run_id c) n (cmd_id c))"
    using fresh by (simp add: log_event_def)
  then have steps: "st_steps s (cmd_organisation_id c, cmd_run_id c, cmd_id c) = None"
    using inv unfolding store_inv_def steps_ok_def by blast
  have v: "run_valid r" using r(1) by (simp add: machine_inv_def)
  note tc = transition_contract [OF step]
  have rev: "run_revision (effect now (cmd_body c) r) = run_revision r + 1" by simp
  have "\<exists>m ob. store_mutate sha fmt s c (command_event (cmd_body c))
        (command_transition policy now (cmd_expected_revision c) (cmd_body c)) (command_proof (cmd_body c))
      = Inr (m, mutated_store s c r (effect now (cmd_body c) r) (mr_step m) ob True) \<and> mr_applied m
        \<and> mr_run m = effect now (cmd_body c) r"
    by (rule mutate_applies) (fact steps fresh run(1) v r cmd lock sha gate pr step tc(4,5) rev)+
  then show ?thesis by (auto simp: execute_command_def mutated_store_def Let_def)
qed

section \<open>Create applies when the credential is free\<close>

lemma build_run_total:
  assumes "create_command_fields_ok c" "identifier_ok rid"
  shows "is_ok (build_run c rid now)"
  using assms
  by (simp add: build_run_def validate_run_def rotation_run_fields_ok_def create_command_fields_ok_def
      validate_terminal_state_def)

lemma build_run_fields:
  assumes "build_run c rid now = Inr r"
  shows "run_id r = rid" "run_organisation_id r = create_organisation_id c"
    "run_credential_id r = create_credential_id c" "run_control_version r = create_control_version c"
    "run_trigger r = create_trigger c" "run_created_at r = now" "run_status r = PENDING" "run_revision r = 0"
  using assms by (auto simp: build_run_def validate_run_iff)

lemma create_applies:
  assumes cmd: "create_command_fields_ok c" "identifier_ok rid" "create_run_id c = None \<or> create_run_id c = Some rid"
    and sha: "\<And>t. hex64 (sha t)"
    and free: "st_locks s (create_organisation_id c, create_credential_id c) = None"
    "st_dedupe s (create_organisation_id c, dedupe_key sha (trigger_source (create_trigger c))
        (trigger_event_id (create_trigger c))) = None"
    "st_runs s (create_organisation_id c, rid) = None" "st_outbox s (create_organisation_id c, create_id c) = None"
    and pinned: "\<And>r e1 e2. run_organisation_id r = create_organisation_id c \<Longrightarrow>
       run_credential_id r = create_credential_id c \<Longrightarrow> run_control_version r = create_control_version c \<Longrightarrow>
       is_ok (pinned_controls sha fmt s r e1 e2)"
  shows "\<exists>m s'. workflow_create sha fmt s now rid c = Inr (m, s') \<and> mr_applied m \<and> build_run c rid now = Inr (mr_run m)"
proof -
  obtain r where r: "build_run c rid now = Inr r" using build_run_total [OF cmd(1,2)] by (auto simp: is_ok_iff)
  note f = build_run_fields [OF r]
  have v: "run_valid r" using machine_inv_build(1) [OF r] by (simp add: machine_inv_def)
  have ids: "identifier_ok (create_id c)" "identifier_ok (create_organisation_id c)"
    "identifier_ok (create_credential_id c)" "identifier_ok (create_control_version c)"
    "identifier_ok (trigger_actor_id (create_trigger c))"
    using cmd(1) by (auto simp: create_command_fields_ok_def trigger_fields_ok_def)
  obtain t where h: "creation_hash sha fmt c = Inr (sha t)"
    using digest_ok [OF canonical_ok_create, of sha fmt c] by (auto simp: creation_hash_def)
  have vc: "validate_create r c = Inr ()" using f cmd(3) by (auto simp: validate_create_def)
  obtain pv where pc: "pinned_controls sha fmt s r ''run control version is missing''
                ''run control version is not immutable'' = Inr pv"
    using pinned f by (force simp: is_ok_iff)
  have mk: "make_step (created_step r c (sha t)) = Inr (created_step r c (sha t))"
    using ids cmd(2) f sha by (simp add: make_step_def created_step_def text_between_def)
  obtain ob where ob: "build_outbox (create_id c) r RUN_CREATED (trigger_actor_id (create_trigger c))
                (run_created_at r)
                [(''source'', PyStr (trigger_source (run_trigger r))),
                 (''urgency'', PyStr (trigger_urgency (run_trigger r)))] = Inr ob"
    using build_outbox_total [OF v ids(1,5)] by blast
  have "store_create sha fmt s r c = Inr (\<lparr>mr_run = r, mr_step = created_step r c (sha t), mr_applied = True\<rparr>,
      created_store sha s r c (sha t) (created_step r c (sha t)) ob)"
    using vc h pc mk ob free ids f cmd(2)
    by (simp add: store_create_def Let_def segments_def)
  moreover have "(case create_run_id c of None \<Rightarrow> rid | Some i \<Rightarrow> if i = [] then rid else i) = rid"
    using cmd(3) by auto
  ultimately show ?thesis using r by (simp add: workflow_create_def)
qed

section \<open>The reaper\<close>

lemma hex64_reap_id:
  assumes "\<And>t. hex64 (sha t)"
  shows "identifier_ok (reap_id sha r op)"
proof -
  let ?h = "sha (run_organisation_id r @ CHR 0x00 # run_id r @ CHR 0x00 # int_text (run_revision r) @ CHR 0x00 # op)"
  have "list_all (\<lambda>d. is_digit d \<or> (97 \<le> char_code d \<and> char_code d \<le> 102)) ?h" "length ?h = 64"
    using assms by (auto simp: hex64_def)
  then have "list_all (\<lambda>d. is_lower d \<or> is_digit d) (take 40 ?h)" "length (take 40 ?h) = 40"
    by (auto simp: list_all_iff is_lower_def dest: in_set_takeD)
  then show ?thesis
    by (auto simp: reap_id_def identifier_ok_def list_all_iff is_lower_def char_code_def)
qed

lemma submit_applies:
  assumes inv: "store_inv s" and sha: "\<And>t. hex64 (sha t)" and ids: "identifier_ok actor"
    and run: "st_runs s (org, run_id r) = Some r" "active_status (run_status r)"
    and body: "body_fields_ok body" and fresh: "st_outbox s (org, reap_id sha r op) = None"
    and en: "enabled policy now body r" "run_status r = RECOVERING \<longrightarrow> \<not> stops_recovery body"
    and nopr: "command_proof body = None"
  shows "\<exists>m s'. submit sha fmt policy s now (reap_command sha r org actor op body) = Inr (m, s')
     \<and> mr_run m = effect now body r \<and> st_runs s' (org, run_id r) = Some (effect now body r)
     \<and> (\<forall>e. e \<noteq> reap_id sha r op \<longrightarrow> st_outbox s' (org, e) = st_outbox s (org, e)) \<and> store_inv s'"
proof -
  let ?c = "reap_command sha r org actor op body"
  have r: "machine_inv r" "run_organisation_id r = org"
    using inv run(1) by (auto simp: store_inv_def runs_ok_def)
  have f: "run_command_fields_ok ?c"
    using r body ids hex64_reap_id [of sha, OF sha]
    by (simp add: run_command_fields_ok_def reap_command_def machine_inv_def run_valid_iff rotation_run_fields_ok_def)
  have "\<exists>m s'. execute_command sha fmt policy s now ?c = Inr (m, s') \<and> mr_applied m
     \<and> mr_run m = effect now (cmd_body ?c) r
     \<and> st_runs s' (cmd_organisation_id ?c, cmd_run_id ?c) = Some (effect now (cmd_body ?c) r)"
    by (rule execute_applies [OF inv sha])
      (use run f fresh en nopr in \<open>simp_all add: reap_command_def check_proof_def\<close>)
  then obtain m s' where ms: "execute_command sha fmt policy s now ?c = Inr (m, s')" "mr_applied m"
    "mr_run m = effect now body r" "st_runs s' (org, run_id r) = Some (effect now body r)"
    by (auto simp: reap_command_def)
  have "st_outbox s' (org, e) = st_outbox s (org, e)" if "e \<noteq> reap_id sha r op" for e
    using ms(1) that unfolding execute_command_def
    by (cases rule: store_mutate_cases) (auto simp: applied_mutation_def mutated_store_def reap_command_def Let_def)
  moreover have "store_inv s'" by (rule execute_keeps_inv [OF inv ms(1)])
  ultimately show ?thesis using ms f by (auto simp: submit_def)
qed

text \<open>
  A candidate whose worker is gone is recovered or failed: the reaper's own command is always
  enabled, because it carries the run's token and the lease has expired.
\<close>

lemma may_interrupt_own_token:
  "run_valid r \<Longrightarrow> run_lease r \<noteq> None \<Longrightarrow> may_interrupt r (run_fencing_token r) now"
  by (auto simp: may_interrupt_def dest: run_valid_lease)

lemma reap_failures_ok [simp]: "failure_fields_ok recovery_lease_expired" "failure_fields_ok (stage_lease_expired st)"
  by (simp add: failure_fields_ok_def recovery_lease_expired_def text_between_def)
    (cases st; simp add: failure_fields_ok_def stage_lease_expired_def text_between_def)

lemma candidate_facts:
  assumes "machine_inv r" "reap_candidate now r"
  shows "active_status (run_status r)" "run_lease r \<noteq> None" "0 < run_fencing_token r" "run_valid r"
proof -
  show v: "run_valid r" using assms(1) by (simp add: machine_inv_def)
  show "active_status (run_status r)" using assms(2) by (auto simp: reap_candidate_def active_status_def)
  show l: "run_lease r \<noteq> None"
    using assms by (auto simp: reap_candidate_def machine_inv_def holds_lease_status_def)
  then obtain l where "run_lease r = Some l" by blast
  then show "0 < run_fencing_token r"
    using v run_valid_lease by (fastforce simp: run_valid_iff rotation_run_fields_ok_def lease_fields_ok_def)
qed

lemma recover_enabled:
  assumes "machine_inv r" "run_status r = FAILED \<or> run_status r = CLEANUP" "identifier_ok actor"
    and "now < ex" "opt_ok (\<lambda>l. now < lease_expires_at l \<longrightarrow> lease_owner_id l = actor) (run_lease r)"
  shows "enabled policy now (RecoverRun actor ex) r"
  using assms by (auto simp: machine_inv_def run_valid_iff rotation_run_fields_ok_def)

lemma restart_recovery_applies:
  assumes inv: "store_inv s" and sha: "\<And>t. hex64 (sha t)" and ids: "identifier_ok actor"
    and run: "st_runs s (org, run_id r) = Some r" "run_status r = CLEANUP"
    and fresh: "st_outbox s (org, reap_id sha r ''recover'') = None"
    and lease: "opt_ok (\<lambda>l. tick < lease_expires_at l \<longrightarrow> lease_owner_id l = actor) (run_lease r)"
    and t: "tick < now + thirty_minutes"
  shows "\<exists>m s'. restart_recovery sha fmt policy s r actor now tick = Inr (m, s')
     \<and> mr_run m = effect tick (RecoverRun actor (now + thirty_minutes)) r \<and> store_inv s'"
proof -
  have r: "machine_inv r" "run_organisation_id r = org"
    using inv run(1) by (auto simp: store_inv_def runs_ok_def)
  have en: "enabled policy tick (RecoverRun actor (now + thirty_minutes)) r"
    using recover_enabled [OF r(1) _ ids t lease] run(2) by simp
  have "\<exists>m s'. submit sha fmt policy s tick (reap_command sha r org actor ''recover'' (RecoverRun actor (now + thirty_minutes)))
     = Inr (m, s') \<and> mr_run m = effect tick (RecoverRun actor (now + thirty_minutes)) r
     \<and> st_runs s' (org, run_id r) = Some (effect tick (RecoverRun actor (now + thirty_minutes)) r)
     \<and> (\<forall>e. e \<noteq> reap_id sha r ''recover'' \<longrightarrow> st_outbox s' (org, e) = st_outbox s (org, e)) \<and> store_inv s'"
    by (rule submit_applies [OF inv sha ids run(1) _ _ fresh en])
      (use run(2) ids in \<open>simp_all add: active_status_def\<close>)
  then show ?thesis using r(2) by (auto simp: restart_recovery_def)
qed

lemma fail_applies:
  assumes inv: "store_inv s" and sha: "\<And>t. hex64 (sha t)" and ids: "identifier_ok actor"
    and run: "st_runs s (org, run_id r) = Some r" "reap_candidate now r"
    and fresh: "st_outbox s (org, reap_id sha r op) = None" and f: "failure_fields_ok f"
  shows "\<exists>m s'. submit sha fmt policy s tick (reap_command sha r org actor op (FailRun (run_fencing_token r) f))
     = Inr (m, s') \<and> mr_run m = effect tick (FailRun (run_fencing_token r) f) r \<and> store_inv s'"
proof -
  have r: "machine_inv r" using inv run(1) by (auto simp: store_inv_def runs_ok_def)
  note c = candidate_facts [OF r run(2)]
  have en: "enabled policy tick (FailRun (run_fencing_token r) f) r"
    using may_interrupt_own_token [OF c(4,2)] c(1) by (auto simp: active_status_def)
  have "\<exists>m s'. submit sha fmt policy s tick (reap_command sha r org actor op (FailRun (run_fencing_token r) f))
     = Inr (m, s') \<and> mr_run m = effect tick (FailRun (run_fencing_token r) f) r
     \<and> st_runs s' (org, run_id r) = Some (effect tick (FailRun (run_fencing_token r) f) r)
     \<and> (\<forall>e. e \<noteq> reap_id sha r op \<longrightarrow> st_outbox s' (org, e) = st_outbox s (org, e)) \<and> store_inv s'"
    by (rule submit_applies [OF inv sha ids run(1) c(1) _ fresh en]) (use c f in simp_all)
  then show ?thesis by blast
qed

lemma reap_one_progress:
  assumes inv: "store_inv s" and sha: "\<And>t. hex64 (sha t)" and ids: "identifier_ok actor"
    and run: "st_runs s (org, run_id r) = Some r" "reap_candidate now r"
    and fresh: "\<And>op. st_outbox s (org, reap_id sha r op) = None"
      "st_outbox s (org, reap_id sha (r\<lparr>run_revision := run_revision r + 1\<rparr>) ''recover'') = None"
      "run_plan_id r \<noteq> None \<longrightarrow>
         reap_id sha (r\<lparr>run_revision := run_revision r + 1\<rparr>) ''recover'' \<noteq> reap_id sha r ''cleanup''"
    and time: "now \<le> t2" "t1 < now + thirty_minutes" "t2 < now + thirty_minutes"
    and lease: "run_status r = CLEANUP \<longrightarrow>
       opt_ok (\<lambda>l. t1 < lease_expires_at l \<longrightarrow> lease_owner_id l = actor) (run_lease r)"
  shows "\<exists>r' out s'. reap_one sha fmt policy org actor now t1 t2 s r = (Inr (r', out), s') \<and> store_inv s'
     \<and> (out = Restarted \<longrightarrow> run_status r' = RECOVERING \<and> run_recovery_stage r' = Some (run_stage r)
          \<and> run_fencing_token r' = run_fencing_token r + 1)
     \<and> (out = Failed_by_reaper \<longrightarrow> run_status r' = FAILED \<and> run_lease r' = None)"
proof -
  have r: "machine_inv r" "run_organisation_id r = org" using inv run(1) by (auto simp: store_inv_def runs_ok_def)
  note c = candidate_facts [OF r(1) run(2)]
  consider (cleanup) "run_status r = CLEANUP" | (recovering) "run_status r = RECOVERING"
    | (staged) "run_status r = RUNNING" "run_stage r \<in> set RECOVERY_STAGES \<and> run_plan_id r \<noteq> None"
    | (other) "run_status r = RUNNING" "\<not> (run_stage r \<in> set RECOVERY_STAGES \<and> run_plan_id r \<noteq> None)"
    using run(2) unfolding reap_candidate_def by blast
  then show ?thesis
  proof cases
    case cleanup
    from restart_recovery_applies [OF inv sha ids run(1) cleanup fresh(1) _ time(2)] lease cleanup
    obtain m s' where "restart_recovery sha fmt policy s r actor now t1 = Inr (m, s')"
      "mr_run m = effect t1 (RecoverRun actor (now + thirty_minutes)) r" "store_inv s'" by metis
    then show ?thesis using cleanup by (auto simp: reap_one_def Let_def)
  next
    case recovering
    from fail_applies [where op = "''fail-recovery''" and f = recovery_lease_expired and fmt = fmt and policy = policy and tick = t1,
        OF inv sha ids run fresh(1) reap_failures_ok(1)]
    obtain m s' where "submit sha fmt policy s t1 (reap_command sha r org actor ''fail-recovery''
        (FailRun (run_fencing_token r) recovery_lease_expired)) = Inr (m, s')"
      "mr_run m = effect t1 (FailRun (run_fencing_token r) recovery_lease_expired) r" "store_inv s'" by blast
    then show ?thesis using recovering by (auto simp: reap_one_def Let_def)
  next
    case other
    from fail_applies [where op = "''fail''" and f = "stage_lease_expired (run_stage r)" and fmt = fmt and policy = policy and tick = t1,
        OF inv sha ids run fresh(1) reap_failures_ok(2)]
    obtain m s' where "submit sha fmt policy s t1 (reap_command sha r org actor ''fail''
        (FailRun (run_fencing_token r) (stage_lease_expired (run_stage r)))) = Inr (m, s')"
      "mr_run m = effect t1 (FailRun (run_fencing_token r) (stage_lease_expired (run_stage r))) r" "store_inv s'" by blast
    then show ?thesis using other by (auto simp: reap_one_def Let_def)
  next
    case staged
    let ?b = "CleanupRun (run_fencing_token r) (stage_lease_expired (run_stage r))"
    have en: "enabled policy t1 ?b r" using may_interrupt_own_token [OF c(4,2)] staged(1) by simp
    from submit_applies [where op = "''cleanup''" and fmt = fmt, OF inv sha ids run(1) c(1) _ fresh(1) en] c(3) staged(1)
    obtain m1 s1 where 1: "submit sha fmt policy s t1 (reap_command sha r org actor ''cleanup'' ?b) = Inr (m1, s1)"
      "mr_run m1 = effect t1 ?b r" "st_runs s1 (org, run_id r) = Some (effect t1 ?b r)"
      "\<forall>e. e \<noteq> reap_id sha r ''cleanup'' \<longrightarrow> st_outbox s1 (org, e) = st_outbox s (org, e)" "store_inv s1"
      by auto
    let ?r1 = "effect t1 ?b r"
    have id: "reap_id sha ?r1 op = reap_id sha (r\<lparr>run_revision := run_revision r + 1\<rparr>) op" for op
      by (simp add: reap_id_def touch_def)
    have lse: "run_lease ?r1 = run_lease r" by simp
    have l: "opt_ok (\<lambda>l. t2 < lease_expires_at l \<longrightarrow> lease_owner_id l = actor) (run_lease ?r1)"
      unfolding lse using run(2) staged(1) time(1) by (auto simp: reap_candidate_def opt_ok_def split: option.splits)
    have "st_runs s1 (org, run_id ?r1) = Some ?r1" "run_status ?r1 = CLEANUP" using 1(3) by simp_all
    moreover have "st_outbox s1 (org, reap_id sha ?r1 ''recover'') = None"
      unfolding id using 1(4) fresh(2,3) staged(2) by metis
    ultimately obtain m2 s2 where "restart_recovery sha fmt policy s1 ?r1 actor now t2 = Inr (m2, s2)"
      "mr_run m2 = effect t2 (RecoverRun actor (now + thirty_minutes)) ?r1" "store_inv s2"
      using restart_recovery_applies [where sha = sha and org = org and fmt = fmt and policy = policy, OF 1(5) sha ids _ _ _ l time(3)] by blast
    moreover have "reap_one sha fmt policy org actor now t1 t2 s r = (Inr (mr_run m2, Restarted), s2)"
      using staged 1(1,2) calculation(1) by (simp add: reap_one_def Let_def del: effect.simps)
    ultimately show ?thesis by auto
  qed
qed

text \<open>
  A cleanup-required run is a candidate even while another worker holds its lease; then the
  recovery is refused, and the error ends the whole loop.
\<close>

lemma reap_blocked:
  assumes inv: "store_inv s" and sha: "\<And>t. hex64 (sha t)" and ids: "identifier_ok actor"
    and run: "st_runs s (org, run_id r) = Some r" "run_status r = CLEANUP"
    and lease: "run_lease r = Some l" "t1 < lease_expires_at l" "lease_owner_id l \<noteq> actor"
    and fresh: "st_steps s (org, run_id r, reap_id sha r ''recover'') = None"
  shows "\<not> is_ok (restart_recovery sha fmt policy s r actor now t1)"
proof
  assume "is_ok (restart_recovery sha fmt policy s r actor now t1)"
  then obtain m s' where "store_mutate sha fmt s (reap_command sha r (run_organisation_id r) actor ''recover''
      (RecoverRun actor (now + thirty_minutes))) RECOVERY_STARTED
      (command_transition policy t1 (run_revision r) (RecoverRun actor (now + thirty_minutes))) None = Inr (m, s')"
    by (auto simp: is_ok_iff restart_recovery_def submit_def execute_command_def reap_command_def split: if_splits)
  moreover have "run_organisation_id r = org" using inv run(1) by (auto simp: store_inv_def runs_ok_def)
  ultimately show False
    using fresh run lease
    by (cases rule: store_mutate_cases)
      (auto simp: reap_command_def applied_mutation_def Let_def transition_iff)
qed

end
