(* ===== verification/Store_History.thy ===== *)
theory Store_History imports Store_Progress begin

text \<open>
  Reachable stores: what every later state of the store keeps of an earlier one (runs with their
  identity and a revision that only grows, steps, deduplication records), and from that the
  behaviour of repeated and of competing commands.
\<close>

definition reachable ::
  "(string \<Rightarrow> string) \<Rightarrow> (int \<Rightarrow> string) \<Rightarrow> gate_policy option
     \<Rightarrow> (string \<times> string \<times> string \<rightharpoonup> control_version) \<Rightarrow> run_store \<Rightarrow> bool" where
  "reachable sha fmt policy controls s \<longleftrightarrow> workflow_steps sha fmt policy (empty_store controls) s"

lemma reachable_inv: "reachable sha fmt policy controls s \<Longrightarrow> store_inv s"
  unfolding reachable_def by (rule workflow_steps_inv [OF _ store_inv_empty])

text \<open>The order of stores: what is recorded stays recorded.\<close>

definition store_le :: "run_store \<Rightarrow> run_store \<Rightarrow> bool" where
  "store_le s s' \<longleftrightarrow>
     (\<forall>k r. st_runs s k = Some r \<longrightarrow>
        (\<exists>r'. st_runs s' k = Some r' \<and> run_revision r \<le> run_revision r' \<and> same_identity r r'))
     \<and> (\<forall>k st. st_steps s k = Some st \<longrightarrow> st_steps s' k = Some st)
     \<and> (\<forall>k dd. st_dedupe s k = Some dd \<longrightarrow> st_dedupe s' k = Some dd)
     \<and> st_controls s' = st_controls s"

lemma store_le_refl: "store_le s s"
  by (simp add: store_le_def same_identity_refl)

lemma store_le_trans: "store_le a b \<Longrightarrow> store_le b c \<Longrightarrow> store_le a c"
proof -
  assume ab: "store_le a b" and bc: "store_le b c"
  have "\<exists>r''. st_runs c k = Some r'' \<and> run_revision r \<le> run_revision r'' \<and> same_identity r r''"
    if r: "st_runs a k = Some r" for k r
  proof -
    from ab r obtain r' where r': "st_runs b k = Some r'" "run_revision r \<le> run_revision r'" "same_identity r r'"
      unfolding store_le_def by blast
    from bc r'(1) obtain r'' where r'': "st_runs c k = Some r''" "run_revision r' \<le> run_revision r''"
      "same_identity r' r''" unfolding store_le_def by blast
    show ?thesis using r' r'' same_identity_trans [OF r'(3) r''(3)] by auto
  qed
  with ab bc show ?thesis by (auto simp: store_le_def)
qed

lemma mutate_store_le:
  assumes inv: "store_inv s" and ex: "execute_command sha fmt policy s now c = Inr (m, s')"
  shows "store_le s s'"
  using ex unfolding execute_command_def
proof (cases rule: store_mutate_cases)
  case replayed
  then show ?thesis by (simp add: store_le_refl)
next
  case (applied r updated ob)
  have step: "command_transition policy now (cmd_expected_revision c) (cmd_body c) r = Inr updated"
    using applied by (simp add: applied_mutation_def Let_def)
  have "same_identity r updated" "run_revision updated = run_revision r + 1"
    using transition_contract [OF step] by simp_all
  then show ?thesis using applied
    by (auto simp: store_le_def applied_mutation_def mutated_store_def Let_def same_identity_refl)
qed

lemma create_store_le:
  assumes inv: "store_inv s" and ex: "workflow_create sha fmt s now fid c = Inr (m, s')"
  shows "store_le s s'"
proof -
  from ex obtain r where "store_create sha fmt s r c = Inr (m, s')"
    by (auto simp: workflow_create_def bindr_eq_Inr)
  then show ?thesis
  proof (cases rule: store_create_cases)
    case replayed
    then show ?thesis by (simp add: store_le_refl)
  next
    case (created h ob)
    have "\<not> (\<exists>n. log_event s (run_organisation_id r) (run_id r) n (create_id c))"
      using created(5) by (simp add: log_event_def)
    then have "st_steps s (run_organisation_id r, run_id r, create_id c) = None"
      using inv unfolding store_inv_def steps_ok_def by blast
    then show ?thesis using created(2,4)
      by (auto simp: created(15) store_le_def created_store_def Let_def same_identity_refl)
  qed
qed

lemma workflow_step_le: "workflow_step sha fmt policy s s' \<Longrightarrow> store_inv s \<Longrightarrow> store_le s s'"
  by (cases rule: workflow_step.cases) (auto intro: mutate_store_le create_store_le)

lemma workflow_steps_le: "workflow_steps sha fmt policy s s' \<Longrightarrow> store_inv s \<Longrightarrow> store_le s s'"
proof (induction rule: workflow_steps.induct)
  case (wss_refl s)
  show ?case by (rule store_le_refl)
next
  case (wss_step s s' s'')
  then show ?case by (blast intro: store_le_trans workflow_step_le workflow_steps_inv)
qed

text \<open>Of two commands that expect the same revision at most one is applied.\<close>

lemma revision_spent:
  assumes inv: "store_inv s" and ex: "execute_command sha fmt policy s now c = Inr (m, s1)" "mr_applied m"
    and later: "workflow_steps sha fmt policy s1 s2"
    and c': "cmd_organisation_id c' = cmd_organisation_id c" "cmd_run_id c' = cmd_run_id c"
    "cmd_expected_revision c' \<le> cmd_expected_revision c"
    and ex': "execute_command sha fmt policy s2 now' c' = Inr (m', s3)"
  shows "\<not> mr_applied m' \<and> s3 = s2"
proof -
  let ?k = "(cmd_organisation_id c, cmd_run_id c)"
  from ex(1) have "\<exists>r1. st_runs s1 ?k = Some r1 \<and> cmd_expected_revision c < run_revision r1"
    unfolding execute_command_def
  proof (cases rule: store_mutate_cases)
    case replayed
    then show ?thesis using ex(2) by simp
  next
    case (applied r updated ob)
    then show ?thesis by (auto simp: applied_mutation_def mutated_store_def Let_def)
  qed
  then obtain r1 where r1: "st_runs s1 ?k = Some r1" "cmd_expected_revision c < run_revision r1" by blast
  have "store_le s1 s2" by (rule workflow_steps_le [OF later execute_keeps_inv [OF inv ex(1)]])
  then obtain r2 where r2: "st_runs s2 ?k = Some r2" "run_revision r1 \<le> run_revision r2"
    using r1(1) unfolding store_le_def by blast
  show ?thesis using ex' unfolding execute_command_def
  proof (cases rule: store_mutate_cases)
    case replayed
    then show ?thesis by simp
  next
    case (applied r updated ob)
    then show ?thesis using r1(2) r2 c' by (simp add: applied_mutation_def Let_def)
  qed
qed

text \<open>A source event creates one run, however often it is delivered.\<close>

lemma created_records:
  assumes "workflow_create sha fmt s now fid c = Inr (m, s1)" "mr_applied m"
  shows "\<exists>h. creation_hash sha fmt c = Inr h
    \<and> st_dedupe s1 (create_organisation_id c, dedupe_key sha (trigger_source (create_trigger c))
         (trigger_event_id (create_trigger c)))
       = Some \<lparr>dd_organisation_id = create_organisation_id c, dd_run_id = run_id (mr_run m),
           dd_step_id = create_id c, dd_request_hash = h, dd_created_at = now\<rparr>
    \<and> st_runs s1 (create_organisation_id c, run_id (mr_run m)) = Some (mr_run m)
    \<and> st_steps s1 (create_organisation_id c, run_id (mr_run m), create_id c) = Some (mr_step m)
    \<and> make_step (mr_step m) = Inr (mr_step m)
    \<and> list_all identifier_ok [create_organisation_id c, run_id (mr_run m), create_id c]"
proof -
  from assms(1) obtain r rid where r: "build_run c rid now = Inr r" "store_create sha fmt s r c = Inr (m, s1)"
    by (auto simp: workflow_create_def bindr_eq_Inr)
  note f = build_run_fields [OF r(1)]
  from r(2) show ?thesis
  proof (cases rule: store_create_cases)
    case replayed
    then show ?thesis using assms(2) by simp
  next
    case (created h ob)
    have "make_step (created_step r c h) = Inr (created_step r c h)
      \<and> list_all identifier_ok [run_organisation_id r, run_id r, create_id c]"
      using r(2) created(1-5)
      by (auto simp: store_create_def Let_def bindr_eq_Inr require_eq_Inr segments_ok make_step_eq)
    then show ?thesis using f created(1,13,14)
      by (auto simp: created(15) created_store_def Let_def created_step_def)
  qed
qed

lemma create_replayed:
  assumes inv: "store_inv s" and ex: "workflow_create sha fmt s now fid c = Inr (m, s1)" "mr_applied m"
    and later: "workflow_steps sha fmt policy s1 s2"
    and again: "workflow_create sha fmt s2 now' fid' c = Inr (m', s3)"
  shows "s3 = s2 \<and> \<not> mr_applied m' \<and> run_id (mr_run m') = run_id (mr_run m)"
proof -
  from created_records [OF ex] have "\<exists>dd. st_dedupe s1 (create_organisation_id c,
       dedupe_key sha (trigger_source (create_trigger c)) (trigger_event_id (create_trigger c))) = Some dd
       \<and> dd_run_id dd = run_id (mr_run m)" by fastforce
  then obtain dd where dd: "dd_run_id dd = run_id (mr_run m)"
    "st_dedupe s1 (create_organisation_id c, dedupe_key sha (trigger_source (create_trigger c))
       (trigger_event_id (create_trigger c))) = Some dd" by blast
  have inv1: "store_inv s1" by (rule workflow_create_keeps_inv [OF inv ex(1)])
  have inv2: "store_inv s2" by (rule workflow_steps_inv [OF later inv1])
  have "store_le s1 s2" by (rule workflow_steps_le [OF later inv1])
  then have dd2: "st_dedupe s2 (create_organisation_id c, dedupe_key sha (trigger_source (create_trigger c))
       (trigger_event_id (create_trigger c))) = Some dd"
    using dd(2) unfolding store_le_def by blast
  from again obtain r rid where r: "build_run c rid now' = Inr r" "store_create sha fmt s2 r c = Inr (m', s3)"
    by (auto simp: workflow_create_def bindr_eq_Inr)
  note f = build_run_fields [OF r(1)]
  from r(2) show ?thesis
  proof (cases rule: store_create_cases)
    case (replayed dd')
    then have "dd' = dd" "st_runs s2 (create_organisation_id c, run_id (mr_run m)) = Some (mr_run m')"
      using dd dd2 f by auto
    then show ?thesis using replayed(1,2) inv2 by (auto simp: store_inv_def runs_ok_def)
  next
    case (created h ob)
    then show ?thesis using dd2 f by simp
  qed
qed

lemma create_replay_succeeds:
  assumes inv: "store_inv s" and ex: "workflow_create sha fmt s now fid c = Inr (m, s1)" "mr_applied m"
    and later: "workflow_steps sha fmt policy s1 s2"
    and c: "create_command_fields_ok c" "create_run_id c = None" "identifier_ok fid'"
  shows "is_ok (workflow_create sha fmt s2 now' fid' c)"
proof -
  obtain r where r: "build_run c fid' now' = Inr r" using build_run_total [OF c(1,3)] by (auto simp: is_ok_iff)
  note f = build_run_fields [OF r]
  from created_records [OF ex] obtain h where rec: "creation_hash sha fmt c = Inr h"
    "st_dedupe s1 (create_organisation_id c, dedupe_key sha (trigger_source (create_trigger c))
         (trigger_event_id (create_trigger c)))
       = Some \<lparr>dd_organisation_id = create_organisation_id c, dd_run_id = run_id (mr_run m),
           dd_step_id = create_id c, dd_request_hash = h, dd_created_at = now\<rparr>"
    "st_runs s1 (create_organisation_id c, run_id (mr_run m)) = Some (mr_run m)"
    "st_steps s1 (create_organisation_id c, run_id (mr_run m), create_id c) = Some (mr_step m)"
    "make_step (mr_step m) = Inr (mr_step m)"
    "list_all identifier_ok [create_organisation_id c, run_id (mr_run m), create_id c]" by blast
  have inv1: "store_inv s1" by (rule workflow_create_keeps_inv [OF inv ex(1)])
  have inv2: "store_inv s2" by (rule workflow_steps_inv [OF later inv1])
  have le: "store_le s1 s2" by (rule workflow_steps_le [OF later inv1])
  then obtain r2 where r2: "st_runs s2 (create_organisation_id c, run_id (mr_run m)) = Some r2"
    using rec(3) unfolding store_le_def by blast
  have v2: "run_valid r2" "run_organisation_id r2 = create_organisation_id c"
    using inv2 r2 by (auto simp: store_inv_def runs_ok_def machine_inv_def)
  have dd: "st_dedupe s2 (create_organisation_id c, dedupe_key sha (trigger_source (create_trigger c))
         (trigger_event_id (create_trigger c)))
       = Some \<lparr>dd_organisation_id = create_organisation_id c, dd_run_id = run_id (mr_run m),
           dd_step_id = create_id c, dd_request_hash = h, dd_created_at = now\<rparr>"
    and st: "st_steps s2 (create_organisation_id c, run_id (mr_run m), create_id c) = Some (mr_step m)"
    using le rec(2,4) unfolding store_le_def by blast+
  have vc: "validate_create r c = Inr ()" using f c(2) by (auto simp: validate_create_def)
  have ten: "tenant r2 (create_organisation_id c) = Inr ()" using v2 by (simp add: tenant_def)
  have val: "validate_run r2 = Inr r2" using v2(1) by (simp add: run_valid_def)
  have ids: "identifier_ok (create_credential_id c)" "identifier_ok (create_control_version c)"
    using c(1) by (auto simp: create_command_fields_ok_def)
  show ?thesis
    using vc f c dd st r2 ten val rec ids r
    by (simp add: workflow_create_def store_create_def Let_def segments_def existing_create_def)
qed

end
