(* ===== verification/Examples.thy ===== *)
theory Examples imports Store_History begin

text \<open>
  One concrete rotation, used to instantiate the theorems: the run a create command builds, the
  evidence of every stage and the thirteen commands that complete it, and a worker that is
  replaced half way.
\<close>

definition ex_trigger :: trigger where
  "ex_trigger =
     \<lparr>trigger_source = ''app'', trigger_kind = ''manual'', trigger_event_id = ''e1'',
      trigger_actor_id = ''user'', trigger_reason = ''expiry'', trigger_urgency = ''high'',
      trigger_received_at = 1\<rparr>"

definition ex_create :: create_command where
  "ex_create =
     \<lparr>create_id = ''cmd_new'', create_organisation_id = ''org'', create_credential_id = ''key'',
      create_control_version = ''ctl'', create_trigger = ex_trigger, create_run_id = Some ''run''\<rparr>"

definition ex_run :: rotation_run where
  "ex_run =
     \<lparr>run_id = ''run'', run_organisation_id = ''org'', run_credential_id = ''key'',
      run_trigger = ex_trigger, run_control_version = ''ctl'', run_stage = TRIGGER,
      run_status = PENDING, run_lease = None, run_fencing_token = 0,
      run_browser_playbook_version = None, run_plan_id = None, run_plan_hash = None,
      run_current_generation_id = None, run_target_generation_id = None, run_deployments = [],
      run_failure = None, run_recovery_id = None, run_recovery_stage = None,
      run_recovery_mode = None, run_recovery_failure = None, run_recovery_evidence_ids = [],
      run_created_at = 1, run_updated_at = 1, run_revision = 0\<rparr>"

definition ex_proof :: "stage \<Rightarrow> stage_proof" where
  "ex_proof st =
     \<lparr>proof_run_id = ''run'', proof_organisation_id = ''org'', proof_stage = st,
      proof_checks = REQUIRED_CHECKS st, proof_evidence_ids = [''evd''], proof_actor_id = ''agent'',
      proof_recorded_at = 2\<rparr>"

definition ex_deployment :: runtime_deployment where
  "ex_deployment =
     \<lparr>dep_binding_id = ''bnd'', dep_connection_id = ''con'', dep_service = ''svc'',
      dep_candidate_revision = ''r2'', dep_rollback_revision = ''r1''\<rparr>"

definition ex_hash :: string where
  "ex_hash = replicate 64 (CHR ''a'')"

fun ex_bindings :: "stage \<Rightarrow> stage_bindings" where
  "ex_bindings PREFLIGHT = empty_bindings\<lparr>bind_current_generation_id := Some ''gen_old''\<rparr>"
| "ex_bindings PLAN = empty_bindings\<lparr>bind_plan_id := Some ''plan'', bind_plan_hash := Some ex_hash\<rparr>"
| "ex_bindings CREATE = empty_bindings\<lparr>bind_target_generation_id := Some ''gen_new''\<rparr>"
| "ex_bindings DEPLOY = empty_bindings\<lparr>bind_deployments := [ex_deployment]\<rparr>"
| "ex_bindings _ = empty_bindings"

definition ex_complete :: "int \<Rightarrow> int \<Rightarrow> stage \<Rightarrow> timed_command" where
  "ex_complete token e st = (3, e, CompleteStage token (ex_proof st) (ex_bindings st))"

definition ex_history :: "timed_command list" where
  "ex_history =
     [(2, 0, StartRun ''worker'' 100),
      ex_complete 1 1 TRIGGER, ex_complete 1 2 PREFLIGHT, ex_complete 1 3 PLAN, ex_complete 1 4 CREATE,
      ex_complete 1 5 STORE, ex_complete 1 6 DEPLOY, ex_complete 1 7 VERIFY, ex_complete 1 8 ROLLOUT,
      ex_complete 1 9 OBSERVE, ex_complete 1 10 APPROVAL, ex_complete 1 11 REVOKE, ex_complete 1 12 COMPLETE]"

definition ex_failure :: failure where
  "ex_failure = \<lparr>failure_code = ''bad'', failure_message = ''it broke'', failure_retryable = True,
     failure_evidence_ids = []\<rparr>"

text \<open>The worker loses its lease, the run is paused and resumed by another one.\<close>

definition ex_takeover :: "timed_command list" where
  "ex_takeover =
     [(2, 0, StartRun ''worker'' 100), ex_complete 1 1 TRIGGER, (4, 2, PauseRun 1),
      (200, 3, ResumeRun ''other'' 300)]"

definition ex_recovery :: "timed_command list" where
  "ex_recovery =
     [(2, 0, StartRun ''worker'' 100), ex_complete 1 1 TRIGGER, (4, 2, FailRun 1 ex_failure),
      (5, 3, RecoverRun ''worker'' 300)]"

section \<open>A store with pinned controls\<close>

definition ex_definition :: control_definition where
  "ex_definition =
     \<lparr>cd_required_checks = default_policy, cd_allowed_tools = [''verification.run''],
      cd_protected_tools = [], cd_allowed_recovery_modes = [RETRY],
      cd_maximum_observation_seconds = 60, cd_require_revoke_approval = True,
      cd_preserve_old_generation = True, cd_require_generation_telemetry = True,
      cd_rotate_before_expiry_seconds = 300, cd_maximum_metadata_age_seconds = 300,
      cd_require_runtime_alignment = True, cd_automatic_triggers = [''expiry''],
      cd_emergency_triggers = [], cd_exposure_sources = [],
      cd_minimum_automatic_confidence = ConfHigh, cd_probe_versions = [], cd_recovery = []\<rparr>"

text \<open>A constant stands in for SHA-256 and for the rendering of a time stamp.\<close>

definition ex_sha :: "string \<Rightarrow> string" where
  "ex_sha s = ex_hash"

definition ex_fmt :: "int \<Rightarrow> string" where
  "ex_fmt t = int_text t"

definition ex_version :: control_version where
  "ex_version =
     \<lparr>cv_id = ''ctl'', cv_organisation_id = ''org'', cv_credential_id = ''key'', cv_number = 1,
      cv_definition = ex_definition, cv_digest = ex_hash, cv_created_by = ''user'', cv_created_at = 0\<rparr>"

definition ex_store :: run_store where
  "ex_store = empty_store (Map.empty((''org'', ''key'', ''ctl'') \<mapsto> ex_version))"

definition ex_command :: "string \<Rightarrow> int \<Rightarrow> command_body \<Rightarrow> run_command" where
  "ex_command i e body =
     \<lparr>cmd_id = i, cmd_organisation_id = ''org'', cmd_run_id = ''run'', cmd_actor_id = ''agent'',
      cmd_expected_revision = e, cmd_body = body\<rparr>"

definition ex_start :: run_command where
  "ex_start = ex_command ''cmd_start'' 0 (StartRun ''worker'' 100)"

section \<open>The run is created and started\<close>

lemma ex_sha_hex: "hex64 (ex_sha t)"
  by code_simp

lemma ex_canonical: "canonical_ok (dump_control_definition ex_definition)"
  unfolding dump_control_definition_def
proof (rule canonical_ok_fields, simp)
  have "canonical_ok (PyDict (map (\<lambda>(st, v). (KeyEnum (stage_value st), PySet (map PyStr v))) default_policy))"
    by (rule canonical_ok_dict) (simp_all add: default_policy_def STAGES_def)
  then show "list_all (\<lambda>kv. opt_ok canonical_ok (snd kv))
     [(''required_checks'', dump_stage_dict (\<lambda>cs. PySet (map PyStr cs)) (cd_required_checks ex_definition)),
      (''allowed_tools'', dump_strings (cd_allowed_tools ex_definition)),
      (''protected_tools'', dump_strings (cd_protected_tools ex_definition)),
      (''allowed_recovery_modes'',
        Some (PySet (map (\<lambda>m. PyEnum (recovery_mode_value m)) (cd_allowed_recovery_modes ex_definition)))),
      (''maximum_observation_seconds'', Some (PyInt (cd_maximum_observation_seconds ex_definition))),
      (''require_revoke_approval'', Some (PyBool (cd_require_revoke_approval ex_definition))),
      (''preserve_old_generation'', Some (PyBool (cd_preserve_old_generation ex_definition))),
      (''require_generation_telemetry'', Some (PyBool (cd_require_generation_telemetry ex_definition))),
      (''rotate_before_expiry_seconds'', Some (PyInt (cd_rotate_before_expiry_seconds ex_definition))),
      (''maximum_metadata_age_seconds'', Some (PyInt (cd_maximum_metadata_age_seconds ex_definition))),
      (''require_runtime_alignment'', Some (PyBool (cd_require_runtime_alignment ex_definition))),
      (''automatic_triggers'', dump_strings (cd_automatic_triggers ex_definition)),
      (''emergency_triggers'', dump_strings (cd_emergency_triggers ex_definition)),
      (''exposure_sources'', Some (PyList (map dump_exposure_source (cd_exposure_sources ex_definition)))),
      (''minimum_automatic_confidence'',
        Some (PyEnum (confidence_value (cd_minimum_automatic_confidence ex_definition)))),
      (''probe_versions'', dump_stage_dict (\<lambda>ids. PyList (map PyStr ids)) (cd_probe_versions ex_definition)),
      (''recovery'', dump_stage_dict dump_recovery_branch (cd_recovery ex_definition))]"
    by (simp add: ex_definition_def dump_stage_dict_def dump_strings_def canonical_ok_dict)
qed

lemma ex_digest: "digest ex_sha ex_fmt (dump_control_definition ex_definition) = Inr ex_hash"
  using digest_ok [OF ex_canonical, of ex_sha ex_fmt] by (simp add: ex_sha_def)

lemma ex_version_valid: "validate_control_version ex_version = Inr ex_version"
proof -
  have "is_ok (validate_control_version ex_version)" by code_simp
  then show ?thesis by (auto simp: is_ok_iff validate_control_version_ok)
qed

lemma ex_pinned:
  assumes "st_controls s (''org'', ''key'', ''ctl'') = Some ex_version" "run_organisation_id r = ''org''"
    "run_credential_id r = ''key''" "run_control_version r = ''ctl''"
  shows "pinned_controls ex_sha ex_fmt s r e1 e2 = Inr ex_version"
proof -
  have "segments [''org'', ''key'', ''ctl''] = Inr ()" by code_simp
  then show ?thesis using assms ex_version_valid ex_digest
    by (simp add: pinned_controls_def ex_version_def)
qed

lemma ex_build_run: "build_run ex_create ''run'' 1 = Inr ex_run"
  by code_simp

lemma ex_created:
  "\<exists>m s. workflow_create ex_sha ex_fmt ex_store 1 ''run'' ex_create = Inr (m, s)
     \<and> mr_applied m \<and> mr_run m = ex_run"
proof -
  have "create_command_fields_ok ex_create" "identifier_ok ''run''" by code_simp+
  from create_applies [of ex_create "''run''" ex_sha ex_store ex_fmt 1, OF this _ ex_sha_hex] ex_pinned
  show ?thesis
    using ex_build_run by (fastforce simp: ex_create_def ex_store_def empty_store_def is_ok_iff)
qed

lemma ex_started:
  assumes "workflow_create ex_sha ex_fmt ex_store 1 ''run'' ex_create = Inr (m, s)" "mr_applied m"
  shows "\<exists>m' s'. execute_command ex_sha ex_fmt None s 2 ex_start = Inr (m', s') \<and> mr_applied m'
     \<and> st_runs s' (''org'', ''run'') = Some (effect 2 (StartRun ''worker'' 100) ex_run)"
proof -
  from ex_build_run assms(1) have m: "mr_run m = ex_run"
    using ex_created assms(1) by auto
  from created_records [OF assms] have run: "st_runs s (''org'', ''run'') = Some ex_run"
    by (auto simp: m ex_create_def ex_run_def)
  have inv: "store_inv s"
    by (rule workflow_create_keeps_inv [OF _ assms(1)]) (simp add: ex_store_def store_inv_empty)
  have ok: "run_command_fields_ok ex_start" "enabled None 2 (StartRun ''worker'' 100) ex_run" by code_simp+
  have "log_event s ''org'' ''run'' n e \<Longrightarrow> n = 0" for n e
    using inv run unfolding store_inv_def log_ok_def by (fastforce simp: ex_run_def)
  have "st_outbox s (''org'', ''cmd_start'') = None"
    using assms by (auto simp: workflow_create_def bindr_eq_Inr created_store_def Let_def ex_create_def
        ex_store_def empty_store_def ex_build_run elim!: store_create_cases dest: build_run_fields)
  then have "\<exists>m' s'. execute_command ex_sha ex_fmt None s 2 ex_start = Inr (m', s') \<and> mr_applied m'
     \<and> mr_run m' = effect 2 (cmd_body ex_start) ex_run
     \<and> st_runs s' (cmd_organisation_id ex_start, cmd_run_id ex_start) = Some (effect 2 (cmd_body ex_start) ex_run)"
    by (intro execute_applies [where sha = ex_sha, OF inv ex_sha_hex])
      (use run ok in \<open>simp_all add: ex_start_def ex_command_def active_status_def check_proof_def ex_run_def\<close>)
  then show ?thesis by (auto simp: ex_start_def ex_command_def)
qed

lemma ex_outbox_after:
  assumes "execute_command sha fmt policy s now c = Inr (m, s')"
    and "st_outbox s (org, e) = None" "e \<noteq> cmd_id c"
  shows "st_outbox s' (org, e) = None"
  using assms(1) unfolding execute_command_def
  by (cases rule: store_mutate_cases) (use assms(2,3) in \<open>auto simp: applied_mutation_def mutated_store_def Let_def\<close>)

lemma ex_created_outbox:
  assumes "workflow_create ex_sha ex_fmt ex_store 1 ''run'' ex_create = Inr (m, s)" "e \<noteq> ''cmd_new''"
  shows "st_outbox s (''org'', e) = None"
  using assms by (auto simp: workflow_create_def bindr_eq_Inr created_store_def Let_def ex_create_def
        ex_store_def empty_store_def elim!: store_create_cases)

lemma ex_controls_kept:
  assumes "workflow_create ex_sha ex_fmt ex_store 1 ''run'' ex_create = Inr (m, s)"
    "execute_command ex_sha ex_fmt None s 2 ex_start = Inr (m', s')"
  shows "st_controls s' (''org'', ''key'', ''ctl'') = Some ex_version" "store_inv s'"
proof -
  have inv: "store_inv ex_store" by (simp add: ex_store_def store_inv_empty)
  note inv1 = workflow_create_keeps_inv [OF inv assms(1)]
  show "store_inv s'" by (rule execute_keeps_inv [OF inv1 assms(2)])
  have "st_controls s' = st_controls ex_store"
    using create_store_le [OF inv assms(1)] mutate_store_le [OF inv1 assms(2)] by (simp add: store_le_def)
  then show "st_controls s' (''org'', ''key'', ''ctl'') = Some ex_version"
    by (simp add: ex_store_def empty_store_def)
qed

text \<open>The run completes its first stage, and fails after it.\<close>

lemma ex_completed:
  "\<exists>s m s' r. execute_command ex_sha ex_fmt None s 3
       (ex_command ''cmd_done'' 1 (CompleteStage 1 (ex_proof TRIGGER) empty_bindings)) = Inr (m, s')
     \<and> mr_applied m \<and> st_runs s (''org'', ''run'') = Some r \<and> run_stage r = TRIGGER"
proof -
  let ?c = "ex_command ''cmd_done'' 1 (CompleteStage 1 (ex_proof TRIGGER) empty_bindings)"
  let ?r = "effect 2 (StartRun ''worker'' 100) ex_run"
  from ex_created obtain m s where c: "workflow_create ex_sha ex_fmt ex_store 1 ''run'' ex_create = Inr (m, s)"
    "mr_applied m" by blast
  from ex_started [OF c] obtain m' s' where e: "execute_command ex_sha ex_fmt None s 2 ex_start = Inr (m', s')"
    "st_runs s' (''org'', ''run'') = Some ?r" by blast
  note k = ex_controls_kept [OF c(1) e(1)]
  have ob: "st_outbox s' (''org'', ''cmd_done'') = None"
    by (rule ex_outbox_after [OF e(1) ex_created_outbox [OF c(1)]]) (simp_all add: ex_start_def ex_command_def)
  have ok: "run_command_fields_ok ?c" "enabled None 3 (cmd_body ?c) ?r"
    "policy_validate default_policy (ex_proof TRIGGER) = Inr ()" by code_simp+
  have "make_gate_policy (Some default_policy) = Inr default_policy"
    using make_gate_policy_controls [OF ex_version_valid] by (simp add: ex_version_def ex_definition_def)
  then have gate: "check_proof ex_sha ex_fmt s' ?r (Some (ex_proof TRIGGER)) = Inr ()"
    using ok(3) ex_pinned [OF k(1), of ?r]
    by (simp add: check_proof_def ex_run_def) (simp add: ex_version_def ex_definition_def)
  have "\<exists>m s''. execute_command ex_sha ex_fmt None s' 3 ?c = Inr (m, s'') \<and> mr_applied m
     \<and> mr_run m = effect 3 (cmd_body ?c) ?r
     \<and> st_runs s'' (cmd_organisation_id ?c, cmd_run_id ?c) = Some (effect 3 (cmd_body ?c) ?r)"
    by (rule execute_applies [where sha = ex_sha, OF k(2) ex_sha_hex _ _ ok(1) _ _ ok(2)])
      (use e(2) ob gate in \<open>simp_all add: ex_command_def active_status_def ex_run_def\<close>)
  then show ?thesis using e(2) by (force simp: ex_run_def)
qed

text \<open>The started run after one more command of its worker.\<close>

lemma ex_next:
  assumes "body = FailRun 1 ex_failure \<or> body = CleanupRun 1 ex_failure"
  shows "\<exists>s. reachable ex_sha ex_fmt None (Map.empty((''org'', ''key'', ''ctl'') \<mapsto> ex_version)) s
     \<and> st_runs s (''org'', ''run'') = Some (effect 3 body (effect 2 (StartRun ''worker'' 100) ex_run))
     \<and> (\<forall>e. e \<notin> {''cmd_new'', ''cmd_start'', ''cmd_next''} \<longrightarrow> st_outbox s (''org'', e) = None
          \<and> st_steps s (''org'', ''run'', e) = None)"
proof -
  let ?c = "ex_command ''cmd_next'' 1 body"
  let ?r = "effect 2 (StartRun ''worker'' 100) ex_run"
  let ?ctl = "Map.empty((''org'', ''key'', ''ctl'') \<mapsto> ex_version)"
  from ex_created obtain m s where c: "workflow_create ex_sha ex_fmt ex_store 1 ''run'' ex_create = Inr (m, s)"
    "mr_applied m" by blast
  from ex_started [OF c] obtain m' s' where e: "execute_command ex_sha ex_fmt None s 2 ex_start = Inr (m', s')"
    "st_runs s' (''org'', ''run'') = Some ?r" by blast
  note k = ex_controls_kept [OF c(1) e(1)]
  have ob: "e' \<notin> {''cmd_new'', ''cmd_start''} \<Longrightarrow> st_outbox s' (''org'', e') = None" for e'
    by (rule ex_outbox_after [OF e(1) ex_created_outbox [OF c(1)]]) (simp_all add: ex_start_def ex_command_def)
  have ok: "run_command_fields_ok (ex_command ''cmd_next'' 1 (FailRun 1 ex_failure))"
    "enabled None 3 (FailRun 1 ex_failure) ?r"
    "run_command_fields_ok (ex_command ''cmd_next'' 1 (CleanupRun 1 ex_failure))"
    "enabled None 3 (CleanupRun 1 ex_failure) ?r" by code_simp+
  have "\<exists>m s''. execute_command ex_sha ex_fmt None s' 3 ?c = Inr (m, s'') \<and> mr_applied m
     \<and> mr_run m = effect 3 (cmd_body ?c) ?r
     \<and> st_runs s'' (cmd_organisation_id ?c, cmd_run_id ?c) = Some (effect 3 (cmd_body ?c) ?r)"
    by (rule execute_applies [where sha = ex_sha, OF k(2) ex_sha_hex])
      (use e(2) ob [of "''cmd_next''"] ok assms in
        \<open>auto simp: ex_command_def active_status_def ex_run_def check_proof_def simp del: enabled.simps\<close>)
  then obtain m2 s2 where x: "execute_command ex_sha ex_fmt None s' 3 ?c = Inr (m2, s2)"
    "st_runs s2 (''org'', ''run'') = Some (effect 3 body ?r)" by (auto simp: ex_command_def)
  have r1: "workflow_steps ex_sha ex_fmt None (empty_store ?ctl) s"
    by (rule wss_step [OF wss_refl ws_create]) (use c(1) in \<open>simp add: ex_store_def\<close>)
  have r: "reachable ex_sha ex_fmt None ?ctl s2"
    unfolding reachable_def by (rule wss_step [OF wss_step [OF r1 ws_execute [OF e(1)]] ws_execute [OF x(1)]])
  have out: "st_outbox s2 (''org'', e') = None" if "e' \<notin> {''cmd_new'', ''cmd_start'', ''cmd_next''}" for e'
    using ex_outbox_after [OF x(1) ob] that by (simp add: ex_command_def)
  moreover have "st_steps s2 (''org'', ''run'', e') = None" if "e' \<notin> {''cmd_new'', ''cmd_start'', ''cmd_next''}" for e'
  proof -
    have "\<not> (\<exists>n. log_event s2 ''org'' ''run'' n e')" using out [OF that] by (simp add: log_event_def)
    then show ?thesis using reachable_inv [OF r] unfolding store_inv_def steps_ok_def by blast
  qed
  ultimately show ?thesis using r x(2) by blast
qed

lemma ex_failed:
  "\<exists>s. reachable ex_sha ex_fmt None (Map.empty((''org'', ''key'', ''ctl'') \<mapsto> ex_version)) s
     \<and> st_runs s (''org'', ''run'') = Some (effect 3 (FailRun 1 ex_failure) (effect 2 (StartRun ''worker'' 100) ex_run))
     \<and> st_steps s (''org'', ''run'', ''cmd_again'') = None"
proof -
  obtain s where "reachable ex_sha ex_fmt None (Map.empty((''org'', ''key'', ''ctl'') \<mapsto> ex_version)) s"
    "st_runs s (''org'', ''run'') = Some (effect 3 (FailRun 1 ex_failure) (effect 2 (StartRun ''worker'' 100) ex_run))"
    and none: "\<forall>e. e \<notin> {''cmd_new'', ''cmd_start'', ''cmd_next''} \<longrightarrow> st_outbox s (''org'', e) = None
          \<and> st_steps s (''org'', ''run'', e) = None"
    using ex_next [OF disjI1 [OF refl]] by (elim exE conjE)
  moreover have "st_steps s (''org'', ''run'', ''cmd_again'') = None"
    using none [THEN spec, of "''cmd_again''"] by simp
  ultimately show ?thesis by (intro exI conjI)
qed

end
