(* ===== verification/Rotation_Theorems.thy ===== *)
theory Rotation_Theorems imports Examples begin

text \<open>
  The properties of the rotation machine (server/core/state/machine.py) over whole histories of
  commands: the evidence behind a completed run, refinement of the guarded specification, progress,
  the legal changes of status, fencing, leases, write-once bindings and absorbing terminal states,
  with the two transitions of a recovering run that never succeed.
\<close>

section \<open>Instances\<close>

lemma ex_build: "build_run ex_create ''run'' 1 = Inr ex_run"
  by code_simp

lemmas ex_inv = machine_inv_build(1) [OF ex_build]

lemma ex_history_completes:
  "\<exists>r. run_commands (Some default_policy) ex_run ex_history = Inr r \<and> run_status r = COMPLETED"
proof -
  have "case run_commands (Some default_policy) ex_run ex_history of
      Inr r \<Rightarrow> run_status r = COMPLETED | Inl _ \<Rightarrow> False"
    by code_simp
  then show ?thesis by (simp split: sum.splits)
qed

lemma ex_recovery_reached:
  "\<exists>r l. run_commands (Some default_policy) ex_run ex_recovery = Inr r \<and> run_status r = RECOVERING
     \<and> run_lease r = Some l \<and> lease_fencing_token l = 2 \<and> 10 < lease_expires_at l"
proof -
  have "case run_commands (Some default_policy) ex_run ex_recovery of
      Inr r \<Rightarrow> run_status r = RECOVERING \<and> (case run_lease r of None \<Rightarrow> False
         | Some l \<Rightarrow> lease_fencing_token l = 2 \<and> 10 < lease_expires_at l)
    | Inl _ \<Rightarrow> False"
    by code_simp
  then show ?thesis by (auto split: sum.splits option.splits)
qed

lemma ex_takeover_ok: "is_ok (run_commands (Some default_policy) ex_run ex_takeover)"
  by code_simp

section \<open>Evidence\<close>

text \<open>
  C1: Whenever a run created by \<open>build_run\<close> reaches COMPLETED through any sequence of accepted
  commands (with pauses, failures and recoveries in between), the accepted stage proofs are exactly
  one per stage, in the order of STAGES, each passing the checks the gate requires of its stage; and
  the plan, both generations and the deployments are bound (the version of a browser playbook is optional).
\<close>
theorem completed_run_evidence:
  assumes "build_run c rid t = Inr r" "run_commands (Some p) r cmds = Inr r'" "run_status r' = COMPLETED"
  shows "map proof_stage (stage_proofs cmds) = STAGES
    \<and> (\<forall>pr \<in> set (stage_proofs cmds).
         set (policy_checks p (proof_stage pr)) \<subseteq> set (proof_checks pr)
         \<and> proof_run_id pr = rid)
    \<and> run_plan_id r' \<noteq> None \<and> run_plan_hash r' \<noteq> None \<and> run_current_generation_id r' \<noteq> None
    \<and> run_target_generation_id r' \<noteq> None \<and> run_deployments r' \<noteq> []"
proof -
  have inv: "machine_inv r" and "progress r = 0" using machine_inv_build [OF assms(1)] by auto
  have "machine_inv r'" by (rule machine_inv_commands [OF assms(2) inv])
  then have "run_stage r' = COMPLETE" "bound_after r'" using assms(3)
    by (auto simp: machine_inv_def run_valid_completed)
  moreover have "progress r' = 12" using calculation(1) assms(3) by (simp add: progress_def)
  moreover note history_progress [OF assms(2) inv]
  moreover have "\<forall>pr \<in> set (stage_proofs cmds). proof_run_id pr = run_id r"
    using stage_proofs_of_run [OF assms(2)] by (simp add: list_all_iff)
  moreover have "run_id r = rid" using assms(1) by (auto simp: build_run_def validate_run_iff)
  ultimately show ?thesis using \<open>progress r = 0\<close>
    by (simp add: STAGES_def list_all_iff policy_validate_ok bound_after_def stage_index_def)
qed

theorem completed_run_evidence_witness:
  "map proof_stage (stage_proofs ex_history) = STAGES"
  using ex_history_completes completed_run_evidence [OF ex_build, of default_policy ex_history] by auto

section \<open>Progress\<close>

text \<open>
  C30: Progress: on every run the machine can reach, a well-formed command whose revision and guard
  hold is accepted, whatever it is, except pausing or cleaning up during a recovery; so the final
  validation of the updated run never rejects what the guards let through.
\<close>
theorem enabled_commands_succeed:
  assumes "build_run c rid t = Inr r0" "run_commands policy r0 cmds = Inr r" "body_fields_ok body"
    and "run_status r = RECOVERING \<longrightarrow> \<not> stops_recovery body"
  shows "is_ok (command_transition policy now expected body r)
    \<longleftrightarrow> run_revision r = expected \<and> enabled policy now body r"
  using transition_result_cases [OF machine_inv_commands [OF assms(2) machine_inv_build(1) [OF assms(1)]] assms(3,4)] .

theorem enabled_commands_succeed_witness:
  "is_ok (command_transition None 2 0 (StartRun ''worker'' 100) ex_run)"
  by (subst enabled_commands_succeed [OF ex_build, of None "[]"]) code_simp+

section \<open>Status, fences and leases\<close>

text \<open>
  Every accepted command moves a run along one of the 25 edges of \<open>status_steps\<close>; it leaves
  the stage alone unless it completes that stage, and then moves to the next one.
\<close>
theorem status_and_stage_steps:
  assumes "build_run c rid t = Inr r0" "run_commands policy r0 cmds = Inr r"
    and "command_transition policy now expected body r = Inr r'"
  shows "(run_status r, run_status r') \<in> set status_steps
    \<and> run_stage r' = (if (\<exists>tk p b. body = CompleteStage tk p b) \<and> run_stage r \<noteq> COMPLETE
                       then next_stage (run_stage r) else run_stage r)"
proof -
  have inv: "machine_inv r" using machine_inv_commands [OF assms(2)] machine_inv_build(1) [OF assms(1)] .
  have "run_stage r' = (if (\<exists>tk p b. body = CompleteStage tk p b) \<and> run_stage r \<noteq> COMPLETE
                       then next_stage (run_stage r) else run_stage r)"
    using assms(3) by (cases body) (auto simp: transition_iff)
  then show ?thesis using transition_status [OF inv assms(3)] by blast
qed

theorem status_and_stage_steps_witness:
  "\<exists>r. command_transition None 2 0 (StartRun ''worker'' 100) ex_run = Inr r
     \<and> (PENDING, run_status r) \<in> set status_steps"
proof -
  have "is_ok (command_transition None 2 0 (StartRun ''worker'' 100) ex_run)" by code_simp
  then obtain r where r: "command_transition None 2 0 (StartRun ''worker'' 100) ex_run = Inr r"
    by (auto simp: is_ok_iff)
  show ?thesis
    using status_and_stage_steps [OF ex_build, of None "[]" _ 2 0, OF _ r] r by (simp add: ex_run_def)
qed

text \<open>
  The revision counts the accepted commands, the fencing token counts the takeovers
  (\<open>start\<close>, \<open>resume\<close>, \<open>recover\<close> and \<open>cancel\<close>) among them, and nothing changes what a run is
  for: its identifiers, trigger, control version and creation time.
\<close>
theorem history_counters:
  assumes "run_commands policy r cmds = Inr r'"
  shows "run_revision r' = run_revision r + int (length cmds)
    \<and> run_fencing_token r' = run_fencing_token r + int (length (filter (\<lambda>(_, _, b). takes_fence b) cmds))
    \<and> same_identity r r'"
  using assms same_identity_commands [OF assms]
proof (induction cmds arbitrary: r)
  case Nil
  then show ?case by simp
next
  case (Cons c cmds)
  obtain now e body where c: "c = (now, e, body)" by (cases c)
  from Cons.prems(1) obtain r1 where step: "command_transition policy now e body r = Inr r1"
    and rest: "run_commands policy r1 cmds = Inr r'" by (auto simp: c bindr_eq_Inr)
  show ?case
    using Cons.IH [OF rest same_identity_commands [OF rest]] Cons.prems(2) transition_fence [OF step]
      transition_contract(1,2) [OF step] by (auto simp: c)
qed

theorem history_counters_witness:
  "\<exists>r. run_commands (Some default_policy) ex_run ex_takeover = Inr r \<and> run_fencing_token r = 2
     \<and> run_revision r = 4"
proof -
  from ex_takeover_ok obtain r where r: "run_commands (Some default_policy) ex_run ex_takeover = Inr r"
    by (auto simp: is_ok_iff)
  show ?thesis using history_counters [OF r] r by (simp add: ex_takeover_def ex_complete_def ex_run_def)
qed

text \<open>
  C4: Fencing: once a takeover has been accepted, a worker that still holds the token of before
  (or an older one) can neither renew its lease, nor complete a stage, nor pause, nor complete a
  recovery, whatever it sends and whatever happened since.
\<close>
theorem stale_worker_rejected:
  assumes "build_run c rid t = Inr r0" "run_commands policy r0 before = Inr r"
    and "run_commands policy r cmds = Inr r'" "\<exists>x \<in> set cmds. takes_fence (snd (snd x))"
    and "fenced body" "body_token body \<le> run_fencing_token r"
  shows "\<not> is_ok (command_transition policy now expected body r')"
proof
  assume "is_ok (command_transition policy now expected body r')"
  then have "holds_fence r' (body_token body) now"
    using fenced_holds_fence [OF assms(5)] by (auto simp: is_ok_iff)
  moreover have "run_valid r'"
    using machine_inv_commands [OF assms(3) machine_inv_commands [OF assms(2) machine_inv_build(1) [OF assms(1)]]]
    by (simp add: machine_inv_def)
  ultimately have "body_token body = run_fencing_token r'" by (rule holds_fence_token [rotated])
  moreover from assms(4) obtain n e b where "(n, e, b) \<in> set cmds" "takes_fence b" by auto
  ultimately show False using fence_grows [OF assms(3)] assms(6) by force
qed

theorem stale_worker_rejected_witness:
  "\<exists>r. run_commands (Some default_policy) ex_run ex_takeover = Inr r
     \<and> \<not> is_ok (command_transition (Some default_policy) 201 4 (snd (snd (ex_complete 1 4 PREFLIGHT))) r)"
proof -
  have "is_ok (run_commands (Some default_policy) ex_run (take 2 ex_takeover))
      \<and> (case run_commands (Some default_policy) ex_run (take 2 ex_takeover) of
           Inr r \<Rightarrow> run_fencing_token r = 1 | Inl _ \<Rightarrow> False)" by code_simp
  then obtain r where r: "run_commands (Some default_policy) ex_run (take 2 ex_takeover) = Inr r"
    "run_fencing_token r = 1" by (auto simp: is_ok_iff)
  from ex_takeover_ok obtain r' where r': "run_commands (Some default_policy) ex_run ex_takeover = Inr r'"
    by (auto simp: is_ok_iff)
  have split: "ex_takeover = take 2 ex_takeover @ drop 2 ex_takeover" by simp
  have "run_commands (Some default_policy) r (drop 2 ex_takeover) = Inr r'"
    using r' r(1) by (subst (asm) split) (simp only: run_commands_append bindr_simps)
  from stale_worker_rejected [OF ex_build r(1) this, of "snd (snd (ex_complete 1 4 PREFLIGHT))" 201 4]
  show ?thesis using r' r(2) by (simp add: ex_takeover_def ex_complete_def)
qed

text \<open>
  A lease is exclusive: while it has not expired no accepted command hands it to another owner;
  and the only commands that extend it are those of its owner.
\<close>
theorem lease_exclusive:
  assumes "build_run c rid t = Inr r0" "run_commands policy r0 cmds = Inr r"
    and "command_transition policy now expected body r = Inr r'"
    and "run_lease r = Some l" "now < lease_expires_at l" "run_lease r' = Some l'"
  shows "lease_owner_id l' = lease_owner_id l
    \<and> (lease_expires_at l' = lease_expires_at l
        \<or> (\<exists>ex tk. body = RenewLease (lease_owner_id l) ex tk)
        \<or> (\<exists>ex. body = ResumeRun (lease_owner_id l) ex \<or> body = RecoverRun (lease_owner_id l) ex))"
proof -
  have inv: "machine_inv r" using machine_inv_commands [OF assms(2)] machine_inv_build(1) [OF assms(1)] .
  then have "run_status r \<noteq> PENDING" using assms(4) by (auto simp: machine_inv_def holds_lease_status_def)
  then have "lease_expires_at l' = lease_expires_at l
      \<or> (\<exists>ex tk. body = RenewLease (lease_owner_id l) ex tk)
      \<or> (\<exists>ex. body = ResumeRun (lease_owner_id l) ex \<or> body = RecoverRun (lease_owner_id l) ex)"
    using assms(3-) by (cases body) (auto simp: transition_iff split: if_splits)
  then show ?thesis using lease_owner_step [OF inv assms(3-6)] by simp
qed

theorem lease_exclusive_witness:
  "\<exists>r r' l l'. run_commands None ex_run [(2, 0, StartRun ''worker'' 100)] = Inr r \<and> run_lease r = Some l
     \<and> command_transition None 3 1 (RenewLease ''worker'' 150 1) r = Inr r' \<and> run_lease r' = Some l'
     \<and> lease_owner_id l' = lease_owner_id l"
proof -
  have "case run_commands None ex_run [(2, 0, StartRun ''worker'' 100)] of Inl _ \<Rightarrow> False
    | Inr r \<Rightarrow> (case run_lease r of None \<Rightarrow> False | Some l \<Rightarrow> 3 < lease_expires_at l
        \<and> (case command_transition None 3 1 (RenewLease ''worker'' 150 1) r of Inl _ \<Rightarrow> False
           | Inr r' \<Rightarrow> run_lease r' \<noteq> None))" by code_simp
  then obtain r l r' l' where "run_commands None ex_run [(2, 0, StartRun ''worker'' 100)] = Inr r"
    "run_lease r = Some l" "3 < lease_expires_at l"
    "command_transition None 3 1 (RenewLease ''worker'' 150 1) r = Inr r'" "run_lease r' = Some l'"
    by (auto split: sum.splits option.splits)
  with lease_exclusive [OF ex_build] show ?thesis by blast
qed

section \<open>Bindings, recovery and terminal states\<close>

text \<open>
  Bindings are written once: a plan, plan hash, playbook version, generation or deployment list
  that a run carries is the same in every later state of the run.
\<close>
theorem bindings_written_once:
  assumes "run_commands policy r cmds = Inr r'"
  shows "(run_browser_playbook_version r \<noteq> None \<longrightarrow>
            run_browser_playbook_version r' = run_browser_playbook_version r)
    \<and> (run_plan_id r \<noteq> None \<longrightarrow> run_plan_id r' = run_plan_id r)
    \<and> (run_plan_hash r \<noteq> None \<longrightarrow> run_plan_hash r' = run_plan_hash r)
    \<and> (run_current_generation_id r \<noteq> None \<longrightarrow> run_current_generation_id r' = run_current_generation_id r)
    \<and> (run_target_generation_id r \<noteq> None \<longrightarrow> run_target_generation_id r' = run_target_generation_id r)
    \<and> (run_deployments r \<noteq> [] \<longrightarrow> run_deployments r' = run_deployments r)"
  using bindings_kept_commands [OF assms] by (auto simp: bindings_kept_def keeps_def)

theorem bindings_written_once_witness:
  "\<exists>r. run_commands None (ex_run\<lparr>run_plan_id := Some ''plan''\<rparr>) [(2, 0, StartRun ''worker'' 100)] = Inr r
     \<and> run_plan_id r = Some ''plan''"
proof -
  have "is_ok (run_commands None (ex_run\<lparr>run_plan_id := Some ''plan''\<rparr>) [(2, 0, StartRun ''worker'' 100)])"
    by code_simp
  then obtain r where r: "run_commands None (ex_run\<lparr>run_plan_id := Some ''plan''\<rparr>) [(2, 0, StartRun ''worker'' 100)] = Inr r"
    by (auto simp: is_ok_iff)
  from bindings_written_once [OF r] r show ?thesis by simp
qed

text \<open>
  Terminal states absorb: no command is accepted by a completed, cancelled or compensated run,
  and the only commands a failed run accepts are \<open>recover\<close>, by a worker with a lease that is
  its own to take, and \<open>cancel\<close>.
\<close>
theorem terminal_runs_absorb:
  assumes "build_run c rid t = Inr r0" "run_commands policy r0 cmds = Inr r"
  shows "(run_status r \<in> {COMPLETED, CANCELLED, COMPENSATED} \<longrightarrow>
            \<not> is_ok (command_transition policy now expected body r))
    \<and> (run_status r = FAILED \<longrightarrow> is_ok (command_transition policy now expected body r) \<longrightarrow>
         body = CancelRun \<or> (\<exists>owner ex. body = RecoverRun owner ex \<and> now < ex))"
proof -
  have inv: "machine_inv r" using machine_inv_commands [OF assms(2)] machine_inv_build(1) [OF assms(1)] .
  have "run_status r = FAILED \<Longrightarrow> run_lease r = None"
    using inv by (auto simp: machine_inv_def holds_lease_status_def)
  then have "run_status r = FAILED \<Longrightarrow> is_ok (command_transition policy now expected body r) \<Longrightarrow>
      body = CancelRun \<or> (\<exists>owner ex. body = RecoverRun owner ex \<and> now < ex)"
    by (cases body) (auto simp: is_ok_iff transition_iff dest!: holds_fence_lease may_interrupt_lease)
  then show ?thesis using terminal_rejects [OF inv] by blast
qed

theorem terminal_runs_absorb_witness:
  "\<exists>r. run_commands (Some default_policy) ex_run ex_history = Inr r
     \<and> \<not> is_ok (command_transition (Some default_policy) 9 13 CancelRun r)"
proof -
  from ex_history_completes obtain r where "run_commands (Some default_policy) ex_run ex_history = Inr r"
    "run_status r = COMPLETED" by auto
  with terminal_runs_absorb [OF ex_build, of "Some default_policy" ex_history r 9 13 CancelRun] show ?thesis by simp
qed

text \<open>
  A recovery ends where it began: a failed (or cleaned-up) run that recovers and then completes
  a retry runs again in the stage it failed in, with the same bindings, no failure and no trace of
  the recovery, under a new fencing token; and that requires the failure to be retryable.
\<close>
theorem retry_resumes_failed_stage:
  assumes "command_transition policy now expected (RecoverRun owner ex) r = Inr r1"
    and "command_transition policy now' expected' (CompleteRecovery token rid RETRY ev) r1 = Inr r2"
  shows "(\<exists>f. run_failure r = Some f \<and> failure_retryable f)
    \<and> token = run_fencing_token r + 1 \<and> run_status r2 = RUNNING
    \<and> r2 = (clear_recovery r)\<lparr>run_status := RUNNING, run_failure := None,
           run_lease := Some \<lparr>lease_owner_id = owner, lease_fencing_token = run_fencing_token r + 1,
                               lease_expires_at = ex\<rparr>,
           run_fencing_token := run_fencing_token r + 1, run_updated_at := now',
           run_revision := run_revision r + 2\<rparr>"
  using assms
  by (auto simp: transition_iff holds_fence_def touch_def take_lease_def clear_recovery_def)

theorem retry_resumes_failed_stage_witness:
  "\<exists>r1 r2. command_transition None 5 3 (RecoverRun ''worker'' 300)
       (ex_run\<lparr>run_status := FAILED, run_failure := Some ex_failure, run_revision := 3\<rparr>) = Inr r1
     \<and> command_transition None 6 4 (CompleteRecovery 1 ''rec'' RETRY [''evd'']) r1 = Inr r2
     \<and> run_stage r2 = TRIGGER \<and> run_status r2 = RUNNING"
proof -
  have "case command_transition None 5 3 (RecoverRun ''worker'' 300)
       (ex_run\<lparr>run_status := FAILED, run_failure := Some ex_failure, run_revision := 3\<rparr>) of Inl _ \<Rightarrow> False
    | Inr r1 \<Rightarrow> is_ok (command_transition None 6 4 (CompleteRecovery 1 ''rec'' RETRY [''evd'']) r1)"
    by code_simp
  then obtain r1 r2 where r: "command_transition None 5 3 (RecoverRun ''worker'' 300)
       (ex_run\<lparr>run_status := FAILED, run_failure := Some ex_failure, run_revision := 3\<rparr>) = Inr r1"
    "command_transition None 6 4 (CompleteRecovery 1 ''rec'' RETRY [''evd'']) r1 = Inr r2"
    by (auto simp: is_ok_iff split: sum.splits)
  from retry_resumes_failed_stage [OF r] r show ?thesis by (auto simp: ex_run_def clear_recovery_def)
qed

text \<open>
  The guards of \<open>pause\<close> and \<open>cleanup\<close> admit a recovering run, but neither ever succeeds on
  one: the run keeps the stage binding of its recovery, and the validator raises its error.
\<close>
theorem recovering_runs_cannot_pause:
  assumes "build_run c rid t = Inr r0" "run_commands policy r0 cmds = Inr r" "run_status r = RECOVERING"
  shows "(holds_fence r token now \<longrightarrow> machine_pause r token (run_revision r) now
           = Inl (ValidationError ''recovery states require the failed stage binding''))
    \<and> (may_interrupt r token now \<longrightarrow> failure_fields_ok f \<longrightarrow> 0 < token \<longrightarrow>
         machine_cleanup r f token (run_revision r) now
           = Inl (ValidationError ''recovery states require the failed stage binding''))"
proof -
  have inv: "machine_inv r" using machine_inv_commands [OF assms(2)] machine_inv_build(1) [OF assms(1)] .
  show ?thesis using pause_recovering [OF inv assms(3)] cleanup_recovering [OF inv assms(3)] by simp
qed

theorem recovering_runs_cannot_pause_witness:
  "\<exists>r. run_commands (Some default_policy) ex_run ex_recovery = Inr r
     \<and> machine_pause r 2 (run_revision r) 10
         = Inl (ValidationError ''recovery states require the failed stage binding'')"
proof -
  from ex_recovery_reached obtain r l where r: "run_commands (Some default_policy) ex_run ex_recovery = Inr r"
    "run_status r = RECOVERING" and l: "run_lease r = Some l" "lease_fencing_token l = 2" "10 < lease_expires_at l"
    by auto
  then have "holds_fence r 2 10" by (simp add: holds_fence_def)
  with recovering_runs_cannot_pause [OF ex_build r] r(1) show ?thesis by blast
qed

end
