(* ===== verification/Controls_Theorems.thy ===== *)
theory Controls_Theorems imports Examples begin

text \<open>
  The properties of the policy package and of the control contracts: digests depend on the value
  of a contract only, and valid controls keep every mandatory check of every stage.
\<close>

text \<open>
  C33: The digest of a contract does not depend on the order in which a frozenset is enumerated or
  the keys of a mapping were inserted, at any depth of nesting; so a control version, a plan or a
  command re-read from the store has the digest it was pinned with.
\<close>
theorem digest_independent_of_order:
  assumes "same_value v w" "digest sha fmt v = Inr h"
  shows "digest sha fmt w = Inr h"
  using assms by (rule digest_same)

theorem digest_independent_of_order_witness:
  "digest ex_sha ex_fmt (PySet [PyStr ''b'', PyStr ''a'']) = Inr ex_hash"
proof (rule digest_independent_of_order)
  show "same_value (PySet [PyStr ''a'', PyStr ''b'']) (PySet [PyStr ''b'', PyStr ''a''])"
    by (rule sv_set [of _ "[PyStr ''a'', PyStr ''b'']"]) (simp_all add: sv_refl)
  show "digest ex_sha ex_fmt (PySet [PyStr ''a'', PyStr ''b'']) = Inr ex_hash" by code_simp
qed

text \<open>
  C34: Controls that validate cover every stage: the gate built from their table is defined, and a
  proof it accepts carries every mandatory check of its stage (the default checks of rules.py,
  relaxed only by the two switches of the definition); protected tools are allowed tools.
\<close>
theorem valid_controls_gate_every_stage:
  assumes "validate_control_version v = Inr v"
  shows "make_gate_policy (Some (cd_required_checks (cv_definition v))) = Inr (cd_required_checks (cv_definition v))
    \<and> (policy_validate (cd_required_checks (cv_definition v)) pr = Inr () \<longrightarrow>
         set (mandatory_checks (cv_definition v) (proof_stage pr)) \<subseteq> set (proof_checks pr))
    \<and> set (cd_protected_tools (cv_definition v)) \<subseteq> set (cd_allowed_tools (cv_definition v))"
proof (intro conjI impI)
  show "set (mandatory_checks (cv_definition v) (proof_stage pr)) \<subseteq> set (proof_checks pr)"
    if "policy_validate (cd_required_checks (cv_definition v)) pr = Inr ()"
    using valid_controls_mandatory [OF assms, of "proof_stage pr"] that
    unfolding policy_validate_ok by (rule subset_trans)
qed (use make_gate_policy_controls [OF assms] assms in
    \<open>simp_all add: validate_control_version_ok validate_coverage_ok\<close>)

theorem valid_controls_gate_every_stage_witness:
  "make_gate_policy (Some (cd_required_checks (cv_definition ex_version))) = Inr default_policy"
proof -
  have "is_ok (validate_control_version ex_version)" by code_simp
  then have "validate_control_version ex_version = Inr ex_version"
    by (auto simp: is_ok_iff validate_control_version_ok)
  from valid_controls_gate_every_stage [OF this] show ?thesis
    by (simp add: ex_version_def ex_definition_def)
qed

end
