(* ===== verification/Workflow_Theorems.thy ===== *)
theory Workflow_Theorems imports Examples begin

text \<open>
  The properties of the run store and of the workflow over it (server/core/storage/firestore.py,
  server/core/workflow/steps.py): one active run per credential, a gap-free event log, idempotent
  commands and creations, optimistic concurrency, evidence gated by the pinned controls, progress,
  and the reaper.
\<close>

section \<open>Instances\<close>

lemma ex_reachable:
  "\<exists>m s m' s'. workflow_create ex_sha ex_fmt ex_store 1 ''run'' ex_create = Inr (m, s) \<and> mr_applied m
     \<and> execute_command ex_sha ex_fmt None s 2 ex_start = Inr (m', s') \<and> mr_applied m'
     \<and> st_runs s' (''org'', ''run'') = Some (effect 2 (StartRun ''worker'' 100) ex_run)
     \<and> reachable ex_sha ex_fmt None (Map.empty((''org'', ''key'', ''ctl'') \<mapsto> ex_version)) s
     \<and> reachable ex_sha ex_fmt None (Map.empty((''org'', ''key'', ''ctl'') \<mapsto> ex_version)) s'"
proof -
  from ex_created obtain m s where c: "workflow_create ex_sha ex_fmt ex_store 1 ''run'' ex_create = Inr (m, s)"
    "mr_applied m" by blast
  from ex_started [OF this] obtain m' s' where e: "execute_command ex_sha ex_fmt None s 2 ex_start = Inr (m', s')"
    "mr_applied m'" "st_runs s' (''org'', ''run'') = Some (effect 2 (StartRun ''worker'' 100) ex_run)" by blast
  have r: "reachable ex_sha ex_fmt None (Map.empty((''org'', ''key'', ''ctl'') \<mapsto> ex_version)) s"
    unfolding reachable_def using c(1) by (intro wss_step [OF wss_refl ws_create]) (simp add: ex_store_def)
  then have "reachable ex_sha ex_fmt None (Map.empty((''org'', ''key'', ''ctl'') \<mapsto> ex_version)) s'"
    unfolding reachable_def by (rule wss_step) (rule ws_execute [OF e(1)])
  with c e r show ?thesis by blast
qed

lemma ex_store_inv: "store_inv ex_store"
  by (simp add: ex_store_def store_inv_empty)

section \<open>The store\<close>

text \<open>
  C2: In every store that the workflow can reach, whatever commands were sent and in whatever order,
  a credential has at most one active run.
\<close>
theorem one_active_run_per_credential:
  assumes "reachable sha fmt policy controls s"
    and "st_runs s (org, i) = Some r" "st_runs s (org, j) = Some q"
    and "run_credential_id r = run_credential_id q"
    and "active_status (run_status r)" "active_status (run_status q)"
  shows "i = j"
  using one_active_run [OF reachable_inv [OF assms(1)] assms(2-)] .

theorem one_active_run_per_credential_witness:
  "\<exists>s :: run_store. st_runs s (''org'', ''run'') \<noteq> None
     \<and> \<not> (\<exists>j q. j \<noteq> ''run'' \<and> st_runs s (''org'', j) = Some q \<and> run_credential_id q = ''key''
          \<and> active_status (run_status q))"
proof -
  let ?r = "effect 2 (StartRun ''worker'' 100) ex_run"
  from ex_reachable obtain s' where s: "st_runs s' (''org'', ''run'') = Some ?r"
    "reachable ex_sha ex_fmt None (Map.empty((''org'', ''key'', ''ctl'') \<mapsto> ex_version)) s'" by blast
  have "run_credential_id ?r = ''key''" "active_status (run_status ?r)"
    by (simp_all add: ex_run_def active_status_def)
  then have "j = ''run''" if "st_runs s' (''org'', j) = Some q" "run_credential_id q = ''key''"
    "active_status (run_status q)" for j q
    using one_active_run_per_credential [OF s(2) that(1) s(1)] that(2,3) by simp
  then show ?thesis using s(1) by (auto intro!: exI [of _ s'] simp del: effect.simps)
qed

text \<open>
  C31: The outbox is the history of every run: in a reachable store each revision from 0 to the
  current one of a run has exactly one event of that run, no event is ahead of its run, and a step
  is recorded under the same identifier as each event and under no other.
\<close>
theorem event_log_complete:
  assumes "reachable sha fmt policy controls s" "st_runs s (org, i) = Some r"
  shows "(\<forall>n. 0 \<le> n \<and> n \<le> run_revision r \<longleftrightarrow> (\<exists>e. log_event s org i n e))
    \<and> (\<forall>n e e'. log_event s org i n e \<and> log_event s org i n e' \<longrightarrow> e = e')
    \<and> (\<forall>e. st_steps s (org, i, e) \<noteq> None \<longleftrightarrow> (\<exists>n. log_event s org i n e))"
proof -
  have inv: "log_ok s" "steps_ok s" using reachable_inv [OF assms(1)] by (simp_all add: store_inv_def)
  have "\<exists>e. log_event s org i n e" if "0 \<le> n" "n \<le> run_revision r" for n
    using inv(1) assms(2) that unfolding log_ok_def by blast
  moreover have "0 \<le> n \<and> n \<le> run_revision r" if "log_event s org i n e" for n e
  proof -
    from inv(1) that obtain q where "st_runs s (org, i) = Some q" "0 \<le> n \<and> n \<le> run_revision q"
      unfolding log_ok_def by blast
    then show ?thesis using assms(2) by simp
  qed
  moreover have "e = e'" if "log_event s org i n e" "log_event s org i n e'" for n e e'
    using inv(1) that unfolding log_ok_def by blast
  moreover have "st_steps s (org, i, e) \<noteq> None \<longleftrightarrow> (\<exists>n. log_event s org i n e)" for e
    using inv(2) unfolding steps_ok_def by blast
  ultimately show ?thesis by blast
qed

theorem event_log_complete_witness:
  "\<exists>s e. log_event s ''org'' ''run'' 1 e \<and> st_runs s (''org'', ''run'') \<noteq> None"
proof -
  from ex_reachable obtain s' where s: "st_runs s' (''org'', ''run'') = Some (effect 2 (StartRun ''worker'' 100) ex_run)"
    "reachable ex_sha ex_fmt None (Map.empty((''org'', ''key'', ''ctl'') \<mapsto> ex_version)) s'" by blast
  have "0 \<le> (1::int) \<and> 1 \<le> run_revision (effect 2 (StartRun ''worker'' 100) ex_run)"
    by (simp add: ex_run_def)
  then have "\<exists>e. log_event s' ''org'' ''run'' 1 e" using event_log_complete [OF s(2,1)] by blast
  then show ?thesis using s(1) by blast
qed

text \<open>
  Commands are idempotent: once a command has been accepted, sending it again, at any later time
  and after any other commands, returns the step recorded the first time with the run as it is now,
  and changes nothing.
\<close>
theorem commands_idempotent:
  assumes "reachable sha fmt policy controls s" "execute_command sha fmt policy s now c = Inr (m, s1)"
    and "workflow_steps sha fmt policy s1 s2"
  shows "\<exists>r. st_runs s2 (cmd_organisation_id c, cmd_run_id c) = Some r
     \<and> execute_command sha fmt policy s2 later c
         = Inr (\<lparr>mr_run = r, mr_step = mr_step m, mr_applied = False\<rparr>, s2)"
  by (rule replay [OF reachable_inv [OF assms(1)] assms(2,3)])

theorem commands_idempotent_witness:
  "\<exists>s m. execute_command ex_sha ex_fmt None s 99 ex_start = Inr (m, s) \<and> \<not> mr_applied m"
proof -
  from ex_reachable obtain s m' s' where
    s: "reachable ex_sha ex_fmt None (Map.empty((''org'', ''key'', ''ctl'') \<mapsto> ex_version)) s"
    and e: "execute_command ex_sha ex_fmt None s 2 ex_start = Inr (m', s')" by blast
  from commands_idempotent [OF s e wss_refl, of 99] show ?thesis by fastforce
qed

text \<open>
  Optimistic concurrency: after a command was applied at a revision, no other command that
  expects that revision or an older one is ever applied to the run; it is an error or the replay of
  a recorded step, and in both cases the store is unchanged.
\<close>
theorem revisions_are_spent:
  assumes "reachable sha fmt policy controls s"
    and "execute_command sha fmt policy s now c = Inr (m, s1)" "mr_applied m"
    and "workflow_steps sha fmt policy s1 s2"
    and "cmd_organisation_id d = cmd_organisation_id c" "cmd_run_id d = cmd_run_id c"
    "cmd_expected_revision d \<le> cmd_expected_revision c"
  shows "case execute_command sha fmt policy s2 later d of
      Inl e \<Rightarrow> True | Inr (m', s3) \<Rightarrow> \<not> mr_applied m' \<and> s3 = s2"
  using revision_spent [OF reachable_inv [OF assms(1)] assms(2-7)]
  by (auto split: sum.splits)

theorem revisions_are_spent_witness:
  "\<exists>s. case execute_command ex_sha ex_fmt None s 3 (ex_command ''cmd_rival'' 0 CancelRun) of
      Inl e \<Rightarrow> True | Inr (m', s3) \<Rightarrow> \<not> mr_applied m' \<and> s3 = s"
proof -
  from ex_reachable obtain s m' s' where
    s: "reachable ex_sha ex_fmt None (Map.empty((''org'', ''key'', ''ctl'') \<mapsto> ex_version)) s"
    and e: "execute_command ex_sha ex_fmt None s 2 ex_start = Inr (m', s')" "mr_applied m'" by blast
  have "case execute_command ex_sha ex_fmt None s' 3 (ex_command ''cmd_rival'' 0 CancelRun) of
      Inl e \<Rightarrow> True | Inr (m', s3) \<Rightarrow> \<not> mr_applied m' \<and> s3 = s'"
    by (rule revisions_are_spent [OF s e wss_refl]) (simp_all add: ex_start_def ex_command_def)
  then show ?thesis by blast
qed

text \<open>
  A source event creates one run: delivering the same create command again, at any later time,
  succeeds (with whatever fresh identifier), creates nothing, and returns the first run.
\<close>
theorem creation_deduplicated:
  assumes "reachable sha fmt policy controls s"
    and "workflow_create sha fmt s now fid c = Inr (m, s1)" "mr_applied m"
    and "workflow_steps sha fmt policy s1 s2"
    and "create_command_fields_ok c" "create_run_id c = None" "identifier_ok fid'"
  shows "\<exists>m'. workflow_create sha fmt s2 later fid' c = Inr (m', s2)
     \<and> \<not> mr_applied m' \<and> run_id (mr_run m') = run_id (mr_run m)"
proof -
  note inv = reachable_inv [OF assms(1)]
  from create_replay_succeeds [OF inv assms(2-7), of later] obtain m' s3
    where w: "workflow_create sha fmt s2 later fid' c = Inr (m', s3)" by (auto simp: is_ok_iff)
  from create_replayed [OF inv assms(2-4) w] w show ?thesis by auto
qed

theorem creation_deduplicated_witness:
  "\<exists>s m. workflow_create ex_sha ex_fmt s 7 ''run_again'' (ex_create\<lparr>create_run_id := None\<rparr>) = Inr (m, s)
     \<and> \<not> mr_applied m"
proof -
  let ?c = "ex_create\<lparr>create_run_id := None\<rparr>"
  have ok: "create_command_fields_ok ?c" "identifier_ok ''run''" "identifier_ok ''run_again''" by code_simp+
  from create_applies [of ?c "''run''" ex_sha ex_store ex_fmt 1, OF ok(1,2) _ ex_sha_hex] ex_pinned
  obtain m s where c: "workflow_create ex_sha ex_fmt ex_store 1 ''run'' ?c = Inr (m, s)" "mr_applied m"
    by (fastforce simp: ex_create_def ex_store_def empty_store_def is_ok_iff)
  have "reachable ex_sha ex_fmt None (Map.empty((''org'', ''key'', ''ctl'') \<mapsto> ex_version)) ex_store"
    by (simp add: reachable_def ex_store_def wss_refl)
  from creation_deduplicated [OF this c wss_refl ok(1) _ ok(3), of 7] show ?thesis by auto
qed

section \<open>Evidence, progress and failed runs\<close>

text \<open>
  C8: The store gates evidence itself: whenever completing a stage is applied, the control version
  that the run was pinned to at its creation is stored, valid and matches its digest, and the proof
  carries every mandatory check of its stage.
\<close>
theorem evidence_gated_by_pinned_controls:
  assumes "execute_command sha fmt policy s now c = Inr (m, s')" "mr_applied m"
    and "cmd_body c = CompleteStage token pr b"
  shows "\<exists>r v. st_runs s (cmd_organisation_id c, cmd_run_id c) = Some r
     \<and> st_controls s (run_organisation_id r, run_credential_id r, run_control_version r) = Some v
     \<and> digest sha fmt (dump_control_definition (cv_definition v)) = Inr (cv_digest v)
     \<and> proof_stage pr = run_stage r
     \<and> set (mandatory_checks (cv_definition v) (run_stage r)) \<subseteq> set (proof_checks pr)"
proof -
  have ex: "store_mutate sha fmt s c STAGE_COMPLETED
      (command_transition policy now (cmd_expected_revision c) (CompleteStage token pr b)) (Some pr) = Inr (m, s')"
    using assms(1,3) by (simp add: execute_command_def)
  from applied_gate [OF ex assms(2)] obtain r v where v: "st_runs s (cmd_organisation_id c, cmd_run_id c) = Some r"
    "st_controls s (run_organisation_id r, run_credential_id r, run_control_version r) = Some v"
    "validate_control_version v = Inr v" "digest sha fmt (dump_control_definition (cv_definition v)) = Inr (cv_digest v)"
    "set (policy_checks (cd_required_checks (cv_definition v)) (proof_stage pr)) \<subseteq> set (proof_checks pr)" by blast
  from ex have "proof_stage pr = run_stage r"
    by (cases rule: store_mutate_cases)
      (use assms(2) v(1) in \<open>auto simp: applied_mutation_def Let_def transition_iff\<close>)
  moreover have "set (mandatory_checks (cv_definition v) (run_stage r)) \<subseteq> set (proof_checks pr)"
    using valid_controls_mandatory [OF v(3), of "run_stage r"] v(5) calculation by (simp add: subset_trans)
  ultimately show ?thesis using v by blast
qed

theorem evidence_gated_by_pinned_controls_witness:
  "\<exists>s c m s' r v. execute_command ex_sha ex_fmt None s 3 c = Inr (m, s') \<and> mr_applied m
     \<and> st_runs s (''org'', ''run'') = Some r
     \<and> st_controls s (run_organisation_id r, run_credential_id r, run_control_version r) = Some v
     \<and> set (mandatory_checks (cv_definition v) TRIGGER) \<subseteq> set (REQUIRED_CHECKS TRIGGER)"
proof -
  let ?c = "ex_command ''cmd_done'' 1 (CompleteStage 1 (ex_proof TRIGGER) empty_bindings)"
  from ex_completed obtain s m s' r where s: "execute_command ex_sha ex_fmt None s 3 ?c = Inr (m, s')" "mr_applied m"
    "st_runs s (''org'', ''run'') = Some r" "run_stage r = TRIGGER" by blast
  have "cmd_body ?c = CompleteStage 1 (ex_proof TRIGGER) empty_bindings" by (simp add: ex_command_def)
  from evidence_gated_by_pinned_controls [OF s(1,2) this] s show ?thesis
    by (fastforce simp: ex_command_def ex_proof_def)
qed

text \<open>
  C32: The store makes progress: a well-formed command with a fresh identifier, for a stored active
  run at the revision it expects, whose guard holds and whose proof, if it carries one, passes the gate of
  the store, is applied and stores exactly the effect of the command; except a command that pauses or
  cleans up a run that is recovering, which the machine refuses.
\<close>
theorem enabled_commands_applied:
  assumes "reachable sha fmt policy controls s" "\<And>t. hex64 (sha t)"
    and "st_runs s (cmd_organisation_id c, cmd_run_id c) = Some r" "active_status (run_status r)"
    and "run_command_fields_ok c" "run_revision r = cmd_expected_revision c"
    and "st_outbox s (cmd_organisation_id c, cmd_id c) = None"
    and "enabled policy now (cmd_body c) r" "run_status r = RECOVERING \<longrightarrow> \<not> stops_recovery (cmd_body c)"
    and "check_proof sha fmt s r (command_proof (cmd_body c)) = Inr ()"
  shows "\<exists>m s'. execute_command sha fmt policy s now c = Inr (m, s') \<and> mr_applied m
     \<and> st_runs s' (cmd_organisation_id c, cmd_run_id c) = Some (effect now (cmd_body c) r)"
  using execute_applies [OF reachable_inv [OF assms(1)] assms(2-)] by blast

theorem enabled_commands_applied_witness:
  "\<exists>s m s'. execute_command ex_sha ex_fmt None s 3 (ex_command ''cmd_fail'' 1 (FailRun 1 ex_failure)) = Inr (m, s')
     \<and> mr_applied m"
proof -
  let ?c = "ex_command ''cmd_fail'' 1 (FailRun 1 ex_failure)"
  let ?r = "effect 2 (StartRun ''worker'' 100) ex_run"
  from ex_reachable obtain m s m' s' where c: "workflow_create ex_sha ex_fmt ex_store 1 ''run'' ex_create = Inr (m, s)"
    and e: "execute_command ex_sha ex_fmt None s 2 ex_start = Inr (m', s')"
    and s: "st_runs s' (''org'', ''run'') = Some ?r"
    "reachable ex_sha ex_fmt None (Map.empty((''org'', ''key'', ''ctl'') \<mapsto> ex_version)) s'" by blast
  have ob: "st_outbox s' (''org'', ''cmd_fail'') = None"
    by (rule ex_outbox_after [OF e ex_created_outbox [OF c]]) (simp_all add: ex_start_def ex_command_def)
  have ok: "run_command_fields_ok ?c" "enabled None 3 (cmd_body ?c) ?r" by code_simp+
  have "\<exists>m s''. execute_command ex_sha ex_fmt None s' 3 ?c = Inr (m, s'') \<and> mr_applied m
     \<and> st_runs s'' (cmd_organisation_id ?c, cmd_run_id ?c) = Some (effect 3 (cmd_body ?c) ?r)"
    by (rule enabled_commands_applied [where sha = ex_sha, OF s(2) ex_sha_hex _ _ ok(1) _ _ ok(2)])
      (use s ob in \<open>simp_all add: ex_command_def active_status_def ex_run_def check_proof_def\<close>)
  then show ?thesis by blast
qed

text \<open>
  A failed run can only be cancelled: the machine lets it recover, but the store has released
  its credential lock and applies nothing but \<open>cancel\<close> without it. The same holds for every other
  command on a run that is no longer active.
\<close>
theorem failed_runs_never_recover:
  assumes "reachable sha fmt policy controls s"
    and "st_runs s (cmd_organisation_id c, cmd_run_id c) = Some r" "\<not> active_status (run_status r)"
    and "\<not> (cmd_body c = CancelRun \<and> run_status r = FAILED)"
    and "st_steps s (cmd_organisation_id c, cmd_run_id c, cmd_id c) = None"
  shows "\<not> is_ok (execute_command sha fmt policy s now c)"
  by (rule inactive_run_frozen [OF reachable_inv [OF assms(1)] assms(2-)])

theorem failed_runs_never_recover_witness:
  "\<exists>s r. st_runs s (''org'', ''run'') = Some r \<and> enabled None 4 (RecoverRun ''worker'' 300) r
     \<and> \<not> is_ok (execute_command ex_sha ex_fmt None s 4 (ex_command ''cmd_again'' 2 (RecoverRun ''worker'' 300)))"
proof -
  let ?c = "ex_command ''cmd_again'' 2 (RecoverRun ''worker'' 300)"
  let ?r = "effect 3 (FailRun 1 ex_failure) (effect 2 (StartRun ''worker'' 100) ex_run)"
  from ex_failed obtain s where s: "reachable ex_sha ex_fmt None (Map.empty((''org'', ''key'', ''ctl'') \<mapsto> ex_version)) s"
    "st_runs s (''org'', ''run'') = Some ?r" "st_steps s (''org'', ''run'', ''cmd_again'') = None" by blast
  have en: "enabled None 4 (RecoverRun ''worker'' 300) ?r" by code_simp
  have "\<not> is_ok (execute_command ex_sha ex_fmt None s 4 ?c)"
    by (rule failed_runs_never_recover [where r = ?r, OF s(1)])
      (use s(2,3) in \<open>simp_all add: ex_command_def active_status_def\<close>)
  then show ?thesis using s(2) en by blast
qed

section \<open>The reaper\<close>

text \<open>
  The reaper frees what a lost worker holds: every candidate (a running or recovering run whose
  lease has expired, or a cleanup-required run whose lease the reaper may take) is handled without
  an error, by a recovery under a new fencing token bound to the run's stage, or by failing the run
  and releasing its lease. The fresh identifiers are those the reaper derives from the run and its
  revision.
\<close>
theorem reaper_handles_expired_runs:
  assumes "reachable sha fmt policy controls s" "\<And>t. hex64 (sha t)" "identifier_ok actor"
    and "st_runs s (org, run_id r) = Some r" "reap_candidate now r"
    and "\<And>op. st_outbox s (org, reap_id sha r op) = None"
      "st_outbox s (org, reap_id sha (r\<lparr>run_revision := run_revision r + 1\<rparr>) ''recover'') = None"
      "run_plan_id r \<noteq> None \<longrightarrow>
         reap_id sha (r\<lparr>run_revision := run_revision r + 1\<rparr>) ''recover'' \<noteq> reap_id sha r ''cleanup''"
    and "now \<le> t2" "t1 < now + thirty_minutes" "t2 < now + thirty_minutes"
    and "run_status r = CLEANUP \<longrightarrow>
       opt_ok (\<lambda>l. t1 < lease_expires_at l \<longrightarrow> lease_owner_id l = actor) (run_lease r)"
  shows "\<exists>r' out s'. reap_one sha fmt policy org actor now t1 t2 s r = (Inr (r', out), s')
     \<and> (out = Restarted \<and> run_status r' = RECOVERING \<and> run_recovery_stage r' = Some (run_stage r)
          \<and> run_fencing_token r' = run_fencing_token r + 1
        \<or> out = Failed_by_reaper \<and> run_status r' = FAILED \<and> run_lease r' = None)"
proof -
  from reap_one_progress [OF reachable_inv [OF assms(1)] assms(2-)] obtain r' out s' where
    "reap_one sha fmt policy org actor now t1 t2 s r = (Inr (r', out), s')"
    "out = Restarted \<longrightarrow> run_status r' = RECOVERING \<and> run_recovery_stage r' = Some (run_stage r)
          \<and> run_fencing_token r' = run_fencing_token r + 1"
    "out = Failed_by_reaper \<longrightarrow> run_status r' = FAILED \<and> run_lease r' = None" by blast
  then show ?thesis by (cases out) auto
qed

theorem reaper_handles_expired_runs_witness:
  "\<exists>s r' out s'. reap_one ex_sha ex_fmt None ''org'' ''reaper'' 200 200 200 s
       (effect 2 (StartRun ''worker'' 100) ex_run) = (Inr (r', out), s')"
proof -
  let ?r = "effect 2 (StartRun ''worker'' 100) ex_run"
  from ex_reachable obtain m s m' s' where c: "workflow_create ex_sha ex_fmt ex_store 1 ''run'' ex_create = Inr (m, s)"
    and e: "execute_command ex_sha ex_fmt None s 2 ex_start = Inr (m', s')"
    and s: "st_runs s' (''org'', ''run'') = Some ?r"
    "reachable ex_sha ex_fmt None (Map.empty((''org'', ''key'', ''ctl'') \<mapsto> ex_version)) s'" by blast
  have ob: "st_outbox s' (''org'', reap_id ex_sha r op) = None" for r op
    by (rule ex_outbox_after [OF e ex_created_outbox [OF c]]) (simp_all add: reap_id_def ex_start_def ex_command_def)
  have ok: "identifier_ok ''reaper''" "reap_candidate 200 ?r" "run_id ?r = ''run''" "run_plan_id ?r = None"
    "run_status ?r = RUNNING" "(200::int) < 200 + thirty_minutes" by code_simp+
  have "\<exists>r' out s''. reap_one ex_sha ex_fmt None ''org'' ''reaper'' 200 200 200 s' ?r = (Inr (r', out), s'')
     \<and> (out = Restarted \<and> run_status r' = RECOVERING \<and> run_recovery_stage r' = Some (run_stage ?r)
          \<and> run_fencing_token r' = run_fencing_token ?r + 1
        \<or> out = Failed_by_reaper \<and> run_status r' = FAILED \<and> run_lease r' = None)"
    by (rule reaper_handles_expired_runs [where sha = ex_sha, OF s(2) ex_sha_hex ok(1)])
      (use s(1) ok ob in \<open>simp_all del: effect.simps\<close>)
  then show ?thesis by blast
qed

text \<open>
  The reaper stops at the first run it may not touch: a cleanup-required run is a candidate
  even while another worker holds its lease, its recovery is then refused, and the whole loop ends
  with that error, leaving every later candidate as it was.
\<close>
theorem reaper_blocked_by_live_lease:
  assumes "reachable sha fmt policy controls s" "\<And>t. hex64 (sha t)" "identifier_ok actor"
    and "st_runs s (org, run_id r) = Some r" "run_status r = CLEANUP"
    and "run_lease r = Some l" "clock k < lease_expires_at l" "lease_owner_id l \<noteq> actor"
    and "st_steps s (org, run_id r, reap_id sha r ''recover'') = None"
  shows "reap_candidate now r
    \<and> (\<exists>e. reap_loop sha fmt policy org actor now clock k s (r # rs) = (Inl e, s))"
proof -
  have "\<not> is_ok (restart_recovery sha fmt policy s r actor now (clock k))"
    by (rule reap_blocked [OF reachable_inv [OF assms(1)] assms(2-)])
  then obtain e where "restart_recovery sha fmt policy s r actor now (clock k) = Inl e"
    by (cases "restart_recovery sha fmt policy s r actor now (clock k)") auto
  then show ?thesis using assms(5) by (simp add: reap_candidate_def reap_one_def Let_def)
qed

theorem reaper_blocked_by_live_lease_witness:
  "\<exists>(s :: run_store) r e. st_runs s (''org'', ''run'') = Some r
     \<and> reap_loop ex_sha ex_fmt None ''org'' ''reaper'' 10 (\<lambda>k. 10) 1 s [r] = (Inl e, s)"
proof -
  let ?r = "effect 3 (CleanupRun 1 ex_failure) (effect 2 (StartRun ''worker'' 100) ex_run)"
  obtain s where s: "reachable ex_sha ex_fmt None (Map.empty((''org'', ''key'', ''ctl'') \<mapsto> ex_version)) s"
    "st_runs s (''org'', ''run'') = Some ?r"
    and none: "\<forall>e. e \<notin> {''cmd_new'', ''cmd_start'', ''cmd_next''} \<longrightarrow> st_outbox s (''org'', e) = None
          \<and> st_steps s (''org'', ''run'', e) = None"
    using ex_next [OF disjI2 [OF refl]] by (elim exE conjE)
  have "st_steps s (''org'', ''run'', reap_id ex_sha ?r ''recover'') = None"
    using none [THEN spec, of "reap_id ex_sha ?r ''recover''"] by (simp add: reap_id_def)
  moreover have ok: "identifier_ok ''reaper''" "run_id ?r = ''run''" "run_status ?r = CLEANUP"
    "run_lease ?r = Some \<lparr>lease_owner_id = ''worker'', lease_fencing_token = 1, lease_expires_at = 100\<rparr>"
    by code_simp+
  ultimately have "reap_candidate 10 ?r
    \<and> (\<exists>e. reap_loop ex_sha ex_fmt None ''org'' ''reaper'' 10 (\<lambda>k. 10) 1 s (?r # []) = (Inl e, s))"
    by (intro reaper_blocked_by_live_lease [where sha = ex_sha
        and l = "\<lparr>lease_owner_id = ''worker'', lease_fencing_token = 1, lease_expires_at = 100\<rparr>", OF s(1) ex_sha_hex ok(1)])
      (use s(2) in \<open>simp_all del: effect.simps\<close>)
  then show ?thesis using s(2) by blast
qed

end
