(* ===== verification/Outbox.thy ===== *)
theory Outbox imports Store_History begin

text \<open>
  server/core/storage/outbox.py: \<open>FirestoreOutboxRepository\<close>, which leases due events to
  publishers and records their delivery, over the outbox and the delivery cursors of the run store.
  A document path stands as the pair of its identifiers. \<open>model_copy\<close> writes without validation,
  every read validates. The repository runs several transactions in a row and may raise after some
  of them, so \<open>claim\<close> returns the store with an error too.
\<close>

section \<open>Reads\<close>

record outbox_claim =
  claim_path :: "string \<times> string"
  claim_outbox :: outbox_event

definition published_revision :: "cursor_doc option \<Rightarrow> int" where
  "published_revision cursor = (case cursor of None \<Rightarrow> -1 | Some c \<Rightarrow> cur_published_revision c)"

definition owned :: "outbox_event \<Rightarrow> string \<Rightarrow> unit result" where
  "owned ob owner =
     require (ob_lease_owner ob = Some owner)
       (OutboxLeaseError (''event '' @ event_id (ob_event ob) @ '' is not leased by '' @ owner))"

definition read_outbox :: "run_store \<Rightarrow> string \<times> string \<Rightarrow> outbox_event result" where
  "read_outbox s path =
     (case st_outbox s path of
        None \<Rightarrow> Inl (StorageIntegrityError (''document '' @ snd path @ '' has no data''))
      | Some doc \<Rightarrow> validate_outbox_event doc)"

text \<open>The delivery cursor of the run of an event.\<close>

definition cursor_key :: "run_event \<Rightarrow> string \<times> string" where
  "cursor_key e = (event_organisation_id e, event_run_id e)"

definition cursor_of :: "run_store \<Rightarrow> run_event \<Rightarrow> int" where
  "cursor_of s e = published_revision (st_cursors s (cursor_key e))"

section \<open>Claims\<close>

definition claim_one ::
  "run_store \<Rightarrow> string \<times> string \<Rightarrow> string \<Rightarrow> int \<Rightarrow> int \<Rightarrow> (outbox_claim option \<times> run_store) result" where
  "claim_one s path owner now duration =
     bindr (read_outbox s path) (\<lambda>current.
     bindr (segments [event_organisation_id (ob_event current), event_run_id (ob_event current)]) (\<lambda>_.
     if ob_published_at current \<noteq> None \<or> ob_dead_lettered_at current \<noteq> None \<or> now < ob_available_at current
     then Inr (None, s)
     else if (case ob_lease_expires_at current of None \<Rightarrow> False | Some t \<Rightarrow> now < t) then Inr (None, s)
     else if cursor_of s (ob_event current) \<noteq> event_revision (ob_event current) - 1 then Inr (None, s)
     else let claimed = current\<lparr>ob_attempts := ob_attempts current + 1, ob_lease_owner := Some owner,
                                ob_lease_expires_at := Some (now + duration)\<rparr>
          in Inr (Some \<lparr>claim_path = path, claim_outbox = claimed\<rparr>,
                  s\<lparr>st_outbox := (st_outbox s)(path \<mapsto> claimed)\<rparr>)))"

text \<open>
  The query of \<open>claim\<close> over the collection group, whose documents \<open>keys\<close> enumerates by name:
  unpublished and due, oldest first, at most \<open>min(max(limit * 8, 64), 500)\<close> of them. The stream is a
  snapshot: the loop validates what it streamed and re-reads the document in each transaction.
\<close>

definition query_limit :: "nat \<Rightarrow> nat" where
  "query_limit limit = min (max (limit * 8) 64) 500"

definition due :: "int \<Rightarrow> outbox_event \<Rightarrow> bool" where
  "due now ob \<longleftrightarrow> ob_published_at ob = None \<and> ob_available_at ob \<le> now"

definition claim_query :: "run_store \<Rightarrow> (string \<times> string) list \<Rightarrow> int \<Rightarrow> nat \<Rightarrow> ((string \<times> string) \<times> outbox_event) list"
where
  "claim_query s keys now limit =
     take (query_limit limit)
       (sort_key (\<lambda>x. ob_available_at (snd x))
         (filter (\<lambda>x. due now (snd x))
           (map (\<lambda>k. (k, the (st_outbox s k))) (filter (\<lambda>k. st_outbox s k \<noteq> None) keys))))"

fun claim_loop ::
  "string \<Rightarrow> int \<Rightarrow> int \<Rightarrow> nat \<Rightarrow> ((string \<times> string) \<times> outbox_event) list \<Rightarrow> outbox_claim list \<Rightarrow> string list
     \<Rightarrow> run_store \<Rightarrow> outbox_claim list result \<times> run_store" where
  "claim_loop owner now duration limit [] claims seen s = (Inr claims, s)"
| "claim_loop owner now duration limit ((path, doc) # snapshots) claims seen s =
     (case validate_outbox_event doc of
        Inl e \<Rightarrow> (Inl e, s)
      | Inr candidate \<Rightarrow>
          if event_run_id (ob_event candidate) \<in> set seen
          then claim_loop owner now duration limit snapshots claims seen s
          else (case claim_one s path owner now duration of
                  Inl e \<Rightarrow> (Inl e, s)
                | Inr (None, s1) \<Rightarrow>
                    if length claims = limit then (Inr claims, s1)
                    else claim_loop owner now duration limit snapshots claims seen s1
                | Inr (Some c, s1) \<Rightarrow>
                    if length (claims @ [c]) = limit then (Inr (claims @ [c]), s1)
                    else claim_loop owner now duration limit snapshots (claims @ [c])
                           (event_run_id (ob_event (claim_outbox c)) # seen) s1))"

definition outbox_claims ::
  "(string \<times> string) list \<Rightarrow> string \<Rightarrow> int \<Rightarrow> int \<Rightarrow> nat \<Rightarrow> run_store \<Rightarrow> outbox_claim list result \<times> run_store" where
  "outbox_claims keys owner now duration limit s =
     claim_loop owner now duration limit (claim_query s keys now limit) [] [] s"

section \<open>Settling a claim\<close>

text \<open>The transactions read the document of the claim and the cursor of the claim's run.\<close>

definition claim_cursor :: "outbox_claim \<Rightarrow> string \<times> string" where
  "claim_cursor claim = cursor_key (ob_event (claim_outbox claim))"

definition claim_segments :: "outbox_claim \<Rightarrow> unit result" where
  "claim_segments claim = segments [fst (claim_cursor claim), snd (claim_cursor claim)]"

definition require_next :: "run_store \<Rightarrow> outbox_claim \<Rightarrow> outbox_event \<Rightarrow> unit result" where
  "require_next s claim current =
     require (published_revision (st_cursors s (claim_cursor claim)) = event_revision (ob_event current) - 1)
       (OutboxLeaseError (''event '' @ event_id (ob_event current) @ '' is not next for its run''))"

text \<open>The copies of the document and the cursors that the transactions write.\<close>

definition published_doc :: "outbox_event \<Rightarrow> string \<Rightarrow> int \<Rightarrow> outbox_event" where
  "published_doc current message_id published_at =
     current\<lparr>ob_lease_owner := None, ob_lease_expires_at := None, ob_published_at := Some published_at,
       ob_publisher_message_id := Some message_id, ob_last_error := None\<rparr>"

definition dead_letter_doc :: "outbox_event \<Rightarrow> string \<Rightarrow> int \<Rightarrow> outbox_event" where
  "dead_letter_doc current reason dead_lettered_at =
     current\<lparr>ob_lease_owner := None, ob_lease_expires_at := None, ob_dead_lettered_at := Some dead_lettered_at,
       ob_dead_letter_reason := Some reason, ob_last_error := Some reason\<rparr>"

definition failed_doc :: "outbox_event \<Rightarrow> string \<Rightarrow> int \<Rightarrow> outbox_event" where
  "failed_doc current reason available_at =
     current\<lparr>ob_available_at := available_at, ob_lease_owner := None, ob_lease_expires_at := None,
       ob_last_error := Some reason\<rparr>"

definition delivered_cursor :: "run_event \<Rightarrow> string option \<Rightarrow> int option \<Rightarrow> int option \<Rightarrow> string option \<Rightarrow> cursor_doc"
where
  "delivered_cursor e message_id published_at dead_lettered_at reason =
     \<lparr>cur_organisation_id = event_organisation_id e, cur_run_id = event_run_id e,
      cur_published_revision = event_revision e, cur_event_id = event_id e, cur_message_id = message_id,
      cur_published_at = published_at, cur_dead_lettered_at = dead_lettered_at, cur_last_error = reason\<rparr>"

definition settle_store :: "run_store \<Rightarrow> outbox_claim \<Rightarrow> outbox_event \<Rightarrow> cursor_doc \<Rightarrow> run_store" where
  "settle_store s claim doc cursor =
     s\<lparr>st_outbox := (st_outbox s)(claim_path claim \<mapsto> doc),
       st_cursors := (st_cursors s)(claim_cursor claim \<mapsto> cursor)\<rparr>"

definition mark_published ::
  "outbox_claim \<Rightarrow> string \<Rightarrow> string \<Rightarrow> int \<Rightarrow> run_store \<Rightarrow> run_store result" where
  "mark_published claim owner message_id published_at s =
     bindr (claim_segments claim) (\<lambda>_.
     bindr (read_outbox s (claim_path claim)) (\<lambda>current.
     bindr (require (ob_dead_lettered_at current = None)
       (OutboxLeaseError (''event '' @ event_id (ob_event current) @ '' is dead-lettered''))) (\<lambda>_.
     if ob_published_at current \<noteq> None
     then (if ob_publisher_message_id current = Some message_id then Inr s
           else Inl (OutboxLeaseError (''event '' @ event_id (ob_event current) @ '' is already published'')))
     else
       bindr (owned current owner) (\<lambda>_.
       bindr (require_next s claim current) (\<lambda>_.
       Inr (settle_store s claim (published_doc current message_id published_at)
              (delivered_cursor (ob_event current) (Some message_id) (Some published_at) None None)))))))"

definition mark_dead_letter ::
  "outbox_claim \<Rightarrow> string \<Rightarrow> string \<Rightarrow> int \<Rightarrow> run_store \<Rightarrow> run_store result" where
  "mark_dead_letter claim owner reason dead_lettered_at s =
     bindr (claim_segments claim) (\<lambda>_.
     bindr (read_outbox s (claim_path claim)) (\<lambda>current.
     if ob_dead_lettered_at current \<noteq> None then Inr s
     else
       bindr (require (ob_published_at current = None)
         (OutboxLeaseError (''event '' @ event_id (ob_event current) @ '' is already published''))) (\<lambda>_.
       bindr (owned current owner) (\<lambda>_.
       bindr (require_next s claim current) (\<lambda>_.
       Inr (settle_store s claim (dead_letter_doc current reason dead_lettered_at)
              (delivered_cursor (ob_event current) None None (Some dead_lettered_at) (Some reason))))))))"

definition mark_failed :: "outbox_claim \<Rightarrow> string \<Rightarrow> string \<Rightarrow> int \<Rightarrow> run_store \<Rightarrow> run_store result" where
  "mark_failed claim owner reason available_at s =
     bindr (read_outbox s (claim_path claim)) (\<lambda>current.
     if ob_published_at current \<noteq> None \<or> ob_dead_lettered_at current \<noteq> None then Inr s
     else
       bindr (owned current owner) (\<lambda>_.
       Inr (s\<lparr>st_outbox := (st_outbox s)(claim_path claim \<mapsto> failed_doc current reason available_at)\<rparr>)))"

end
