(* ===== verification/Outbox_Facts.thy ===== *)
theory Outbox_Facts imports Outbox begin

text \<open>
  Delivery over the run store: the system steps are those of the workflow and the transactions of
  the outbox, run by publishers that hold claims. The invariant says that the settled events of a
  run (published or dead-lettered) are exactly those up to its delivery cursor.
\<close>

section \<open>The system\<close>

type_synonym system = "run_store \<times> outbox_claim set"

inductive system_step ::
  "(string \<Rightarrow> string) \<Rightarrow> (int \<Rightarrow> string) \<Rightarrow> gate_policy option \<Rightarrow> system \<Rightarrow> system \<Rightarrow> bool"
  for sha fmt policy where
  sys_workflow: "workflow_step sha fmt policy s s' \<Longrightarrow> system_step sha fmt policy (s, C) (s', C)"
| sys_claim: "claim_one s path owner now duration = Inr (Some c, s') \<Longrightarrow> identifier_ok owner \<Longrightarrow>
     system_step sha fmt policy (s, C) (s', insert c C)"
| sys_published: "c \<in> C \<Longrightarrow> mark_published c owner mid t s = Inr s' \<Longrightarrow> text_between 1 256 mid \<Longrightarrow>
     system_step sha fmt policy (s, C) (s', C)"
| sys_dead: "c \<in> C \<Longrightarrow> mark_dead_letter c owner reason t s = Inr s' \<Longrightarrow> text_between 1 1024 reason \<Longrightarrow>
     system_step sha fmt policy (s, C) (s', C)"
| sys_failed: "c \<in> C \<Longrightarrow> mark_failed c owner reason t s = Inr s' \<Longrightarrow> text_between 0 1024 reason \<Longrightarrow>
     system_step sha fmt policy (s, C) (s', C)"

inductive system_steps ::
  "(string \<Rightarrow> string) \<Rightarrow> (int \<Rightarrow> string) \<Rightarrow> gate_policy option \<Rightarrow> system \<Rightarrow> system \<Rightarrow> bool"
  for sha fmt policy where
  sys_refl: "system_steps sha fmt policy x x"
| sys_step: "system_steps sha fmt policy x y \<Longrightarrow> system_step sha fmt policy y z \<Longrightarrow> system_steps sha fmt policy x z"

definition system_reachable ::
  "(string \<Rightarrow> string) \<Rightarrow> (int \<Rightarrow> string) \<Rightarrow> gate_policy option
     \<Rightarrow> (string \<times> string \<times> string \<rightharpoonup> control_version) \<Rightarrow> system \<Rightarrow> bool" where
  "system_reachable sha fmt policy controls x \<longleftrightarrow> system_steps sha fmt policy (empty_store controls, {}) x"

section \<open>The invariant\<close>

definition settled :: "outbox_event \<Rightarrow> bool" where
  "settled ob \<longleftrightarrow> ob_published_at ob \<noteq> None \<or> ob_dead_lettered_at ob \<noteq> None"

definition docs_ok :: "run_store \<Rightarrow> bool" where
  "docs_ok s \<longleftrightarrow>
     (\<forall>org e ob. st_outbox s (org, e) = Some ob \<longrightarrow>
        event_organisation_id (ob_event ob) = org \<and> event_id (ob_event ob) = e
        \<and> outbox_event_fields_ok ob \<and> delivery_ok ob)"

definition cursors_ok :: "run_store \<Rightarrow> bool" where
  "cursors_ok s \<longleftrightarrow>
     (\<forall>org i c. st_cursors s (org, i) = Some c \<longrightarrow>
        (\<exists>r. st_runs s (org, i) = Some r \<and> 0 \<le> cur_published_revision c \<and> cur_published_revision c \<le> run_revision r))"

definition settled_ok :: "run_store \<Rightarrow> bool" where
  "settled_ok s \<longleftrightarrow>
     (\<forall>k ob. st_outbox s k = Some ob \<longrightarrow>
        (settled ob \<longleftrightarrow> event_revision (ob_event ob) \<le> cursor_of s (ob_event ob)))"

definition claim_ok :: "run_store \<Rightarrow> outbox_claim \<Rightarrow> bool" where
  "claim_ok s c \<longleftrightarrow>
     (\<exists>ob. st_outbox s (claim_path c) = Some ob \<and> ob_event ob = ob_event (claim_outbox c))"

definition system_inv :: "system \<Rightarrow> bool" where
  "system_inv x \<longleftrightarrow>
     store_inv (fst x) \<and> docs_ok (fst x) \<and> cursors_ok (fst x) \<and> settled_ok (fst x)
     \<and> (\<forall>c \<in> snd x. claim_ok (fst x) c)"

section \<open>Inversion of the operations\<close>

lemma read_outbox_ok [result_iff]:
  "read_outbox s path = Inr ob \<longleftrightarrow>
     st_outbox s path = Some ob \<and> outbox_event_fields_ok ob \<and> delivery_ok ob"
  by (auto simp: read_outbox_def validate_outbox_event_iff split: option.splits)

lemma owned_ok [result_iff]: "owned ob owner = Inr u \<longleftrightarrow> ob_lease_owner ob = Some owner"
  by (simp add: owned_def require_eq_Inr)

lemma require_next_ok [result_iff]:
  "require_next s c ob = Inr u \<longleftrightarrow> published_revision (st_cursors s (claim_cursor c)) = event_revision (ob_event ob) - 1"
  by (simp add: require_next_def require_eq_Inr)

text \<open>What a successful claim saw and wrote.\<close>

definition claimable :: "run_store \<Rightarrow> string \<times> string \<Rightarrow> int \<Rightarrow> outbox_event \<Rightarrow> bool" where
  "claimable s path now ob \<longleftrightarrow>
     st_outbox s path = Some ob \<and> \<not> settled ob \<and> ob_available_at ob \<le> now
     \<and> (\<forall>t. ob_lease_expires_at ob = Some t \<longrightarrow> t \<le> now)
     \<and> cursor_of s (ob_event ob) = event_revision (ob_event ob) - 1"

definition leased :: "outbox_event \<Rightarrow> string \<Rightarrow> int \<Rightarrow> outbox_event" where
  "leased ob owner expires =
     ob\<lparr>ob_attempts := ob_attempts ob + 1, ob_lease_owner := Some owner, ob_lease_expires_at := Some expires\<rparr>"

lemma claim_one_Some:
  assumes "claim_one s path owner now duration = Inr (Some c, s')"
  obtains ob where "claimable s path now ob" "outbox_event_fields_ok ob" "delivery_ok ob"
    "c = \<lparr>claim_path = path, claim_outbox = leased ob owner (now + duration)\<rparr>"
    "s' = s\<lparr>st_outbox := (st_outbox s)(path \<mapsto> leased ob owner (now + duration))\<rparr>"
  using assms
  by (auto simp: claim_one_def bindr_eq_Inr read_outbox_ok claimable_def settled_def leased_def Let_def
      split: if_splits option.splits)

lemma claim_one_None: "claim_one s path owner now duration = Inr (None, s') \<Longrightarrow> s' = s"
  by (auto simp: claim_one_def bindr_eq_Inr Let_def split: if_splits)

text \<open>What a successful settlement wrote: nothing, or the event and the cursor of its run.\<close>

definition settles :: "run_store \<Rightarrow> outbox_claim \<Rightarrow> string \<Rightarrow> outbox_event \<Rightarrow> outbox_event \<Rightarrow> run_store \<Rightarrow> bool" where
  "settles s c owner ob ob' s' \<longleftrightarrow>
     st_outbox s (claim_path c) = Some ob \<and> outbox_event_fields_ok ob \<and> delivery_ok ob
     \<and> \<not> settled ob \<and> ob_lease_owner ob = Some owner
     \<and> published_revision (st_cursors s (claim_cursor c)) = event_revision (ob_event ob) - 1
     \<and> ob_event ob' = ob_event ob \<and> settled ob' \<and> outbox_event_fields_ok ob' \<and> delivery_ok ob'
     \<and> (\<exists>cur. cur_published_revision cur = event_revision (ob_event ob) \<and> s' = settle_store s c ob' cur)"

lemma delivered_cursor_revision [simp]:
  "cur_published_revision (delivered_cursor e m p d r) = event_revision e"
  by (simp add: delivered_cursor_def)

lemma published_doc_facts:
  assumes "outbox_event_fields_ok ob" "delivery_ok ob" "\<not> settled ob" "text_between 1 256 mid"
  shows "ob_event (published_doc ob mid t) = ob_event ob" "settled (published_doc ob mid t)"
    "outbox_event_fields_ok (published_doc ob mid t)" "delivery_ok (published_doc ob mid t)"
    "ob_published_at (published_doc ob mid t) = Some t"
    "ob_publisher_message_id (published_doc ob mid t) = Some mid"
  using assms by (auto simp: published_doc_def settled_def outbox_event_fields_ok_def delivery_ok_def)

lemma dead_letter_doc_facts:
  assumes "outbox_event_fields_ok ob" "delivery_ok ob" "\<not> settled ob" "text_between 1 1024 reason"
  shows "ob_event (dead_letter_doc ob reason t) = ob_event ob" "settled (dead_letter_doc ob reason t)"
    "outbox_event_fields_ok (dead_letter_doc ob reason t)" "delivery_ok (dead_letter_doc ob reason t)"
    "ob_dead_lettered_at (dead_letter_doc ob reason t) = Some t"
  using assms
  by (auto simp: dead_letter_doc_def settled_def outbox_event_fields_ok_def delivery_ok_def text_between_def)

lemma failed_doc_facts:
  assumes "outbox_event_fields_ok ob" "delivery_ok ob" "\<not> settled ob" "text_between 0 1024 reason"
  shows "ob_event (failed_doc ob reason t) = ob_event ob" "settled (failed_doc ob reason t) \<longleftrightarrow> settled ob"
    "outbox_event_fields_ok (failed_doc ob reason t)" "delivery_ok (failed_doc ob reason t)"
    "ob_lease_owner (failed_doc ob reason t) = None"
  using assms by (auto simp: failed_doc_def settled_def outbox_event_fields_ok_def delivery_ok_def)

lemma mark_published_iff:
  "mark_published c owner mid t s = Inr s' \<longleftrightarrow>
     claim_segments c = Inr () \<and>
     (\<exists>ob. st_outbox s (claim_path c) = Some ob \<and> outbox_event_fields_ok ob \<and> delivery_ok ob
        \<and> ob_dead_lettered_at ob = None
        \<and> (if ob_published_at ob \<noteq> None then ob_publisher_message_id ob = Some mid \<and> s' = s
           else ob_lease_owner ob = Some owner
             \<and> published_revision (st_cursors s (claim_cursor c)) = event_revision (ob_event ob) - 1
             \<and> s' = settle_store s c (published_doc ob mid t)
                      (delivered_cursor (ob_event ob) (Some mid) (Some t) None None)))"
  by (auto simp: mark_published_def bindr_eq_Inr require_eq_Inr read_outbox_ok owned_ok require_next_ok
      split: if_splits)

lemma mark_dead_letter_iff:
  "mark_dead_letter c owner reason t s = Inr s' \<longleftrightarrow>
     claim_segments c = Inr () \<and>
     (\<exists>ob. st_outbox s (claim_path c) = Some ob \<and> outbox_event_fields_ok ob \<and> delivery_ok ob
        \<and> (if ob_dead_lettered_at ob \<noteq> None then s' = s
           else ob_published_at ob = None \<and> ob_lease_owner ob = Some owner
             \<and> published_revision (st_cursors s (claim_cursor c)) = event_revision (ob_event ob) - 1
             \<and> s' = settle_store s c (dead_letter_doc ob reason t)
                      (delivered_cursor (ob_event ob) None None (Some t) (Some reason))))"
  by (auto simp: mark_dead_letter_def bindr_eq_Inr require_eq_Inr read_outbox_ok owned_ok require_next_ok
      split: if_splits)

lemma mark_failed_iff:
  "mark_failed c owner reason t s = Inr s' \<longleftrightarrow>
     (\<exists>ob. st_outbox s (claim_path c) = Some ob \<and> outbox_event_fields_ok ob \<and> delivery_ok ob
        \<and> (if settled ob then s' = s
           else ob_lease_owner ob = Some owner
             \<and> s' = s\<lparr>st_outbox := (st_outbox s)(claim_path c \<mapsto> failed_doc ob reason t)\<rparr>))"
  by (auto simp: mark_failed_def bindr_eq_Inr read_outbox_ok owned_ok settled_def split: if_splits)

lemma mark_published_cases:
  assumes "mark_published c owner mid t s = Inr s'" "text_between 1 256 mid"
  obtains "s' = s" | ob ob' where "settles s c owner ob ob' s'" "ob_published_at ob' = Some t"
proof -
  from assms(1) obtain ob where ob: "st_outbox s (claim_path c) = Some ob" "outbox_event_fields_ok ob"
    "delivery_ok ob" "ob_dead_lettered_at ob = None"
    and w: "if ob_published_at ob \<noteq> None then ob_publisher_message_id ob = Some mid \<and> s' = s
           else ob_lease_owner ob = Some owner
             \<and> published_revision (st_cursors s (claim_cursor c)) = event_revision (ob_event ob) - 1
             \<and> s' = settle_store s c (published_doc ob mid t)
                      (delivered_cursor (ob_event ob) (Some mid) (Some t) None None)"
    unfolding mark_published_iff by blast
  show thesis
  proof (cases "ob_published_at ob = None")
    case True
    then have ns: "\<not> settled ob" using ob(4) by (simp add: settled_def)
    note pf = published_doc_facts [OF ob(2,3) ns assms(2), of t]
    have "\<exists>cur. cur_published_revision cur = event_revision (ob_event ob)
        \<and> s' = settle_store s c (published_doc ob mid t) cur"
      using w True by (auto intro: exI [of _ "delivered_cursor (ob_event ob) (Some mid) (Some t) None None"])
    then have "settles s c owner ob (published_doc ob mid t) s'"
      unfolding settles_def using ob ns w True pf by simp
    then show thesis using that(2) pf(5) by blast
  qed (use that(1) w in simp)
qed

lemma mark_dead_letter_cases:
  assumes "mark_dead_letter c owner reason t s = Inr s'" "text_between 1 1024 reason"
  obtains "s' = s" | ob ob' where "settles s c owner ob ob' s'" "ob_dead_lettered_at ob' = Some t"
proof -
  from assms(1) obtain ob where ob: "st_outbox s (claim_path c) = Some ob" "outbox_event_fields_ok ob"
    "delivery_ok ob"
    and w: "if ob_dead_lettered_at ob \<noteq> None then s' = s
           else ob_published_at ob = None \<and> ob_lease_owner ob = Some owner
             \<and> published_revision (st_cursors s (claim_cursor c)) = event_revision (ob_event ob) - 1
             \<and> s' = settle_store s c (dead_letter_doc ob reason t)
                      (delivered_cursor (ob_event ob) None None (Some t) (Some reason))"
    unfolding mark_dead_letter_iff by blast
  show thesis
  proof (cases "ob_dead_lettered_at ob = None")
    case True
    then have ns: "\<not> settled ob" using w by (simp add: settled_def)
    note pf = dead_letter_doc_facts [OF ob(2,3) ns assms(2), of t]
    have "\<exists>cur. cur_published_revision cur = event_revision (ob_event ob)
        \<and> s' = settle_store s c (dead_letter_doc ob reason t) cur"
      using w True by (auto intro: exI [of _ "delivered_cursor (ob_event ob) None None (Some t) (Some reason)"])
    then have "settles s c owner ob (dead_letter_doc ob reason t) s'"
      unfolding settles_def using ob ns w True pf by simp
    then show thesis using that(2) pf(5) by blast
  qed (use that(1) w in simp)
qed

lemma mark_failed_cases:
  assumes "mark_failed c owner reason t s = Inr s'"
  obtains "s' = s" | ob where "st_outbox s (claim_path c) = Some ob" "outbox_event_fields_ok ob"
    "delivery_ok ob" "\<not> settled ob" "ob_lease_owner ob = Some owner"
    "s' = s\<lparr>st_outbox := (st_outbox s)(claim_path c \<mapsto> failed_doc ob reason t)\<rparr>"
  using assms unfolding mark_failed_iff by (metis (no_types, lifting))

section \<open>Preservation by the outbox\<close>

text \<open>Replacing a document by one of the same event changes nothing of the log.\<close>

lemma outbox_replace_log:
  assumes "st_outbox s k = Some ob" "ob_event ob' = ob_event ob"
  shows "log_event (s\<lparr>st_outbox := (st_outbox s)(k \<mapsto> ob')\<rparr>) = log_event s"
  using assms by (auto simp: log_event_def fun_eq_iff)

lemma store_inv_outbox:
  assumes "store_inv s" "st_outbox s k = Some ob" "ob_event ob' = ob_event ob"
  shows "store_inv (s\<lparr>st_outbox := (st_outbox s)(k \<mapsto> ob')\<rparr>)"
  using assms(1) outbox_replace_log [OF assms(2,3)]
  by (simp add: store_inv_def runs_ok_def locks_ok_def log_ok_def steps_ok_def)

lemma store_inv_cursors [simp]: "store_inv (s\<lparr>st_cursors := cs\<rparr>) \<longleftrightarrow> store_inv s"
  by (simp add: store_inv_def runs_ok_def locks_ok_def log_ok_def steps_ok_def log_event_def)

lemma docs_ok_outbox:
  assumes "docs_ok s" "st_outbox s k = Some ob" "ob_event ob' = ob_event ob"
    "outbox_event_fields_ok ob'" "delivery_ok ob'"
  shows "docs_ok (s\<lparr>st_outbox := (st_outbox s)(k \<mapsto> ob')\<rparr>)"
  using assms by (cases k) (auto simp: docs_ok_def)

lemma claim_ok_outbox:
  assumes "claim_ok s c" "st_outbox s k = Some ob" "ob_event ob' = ob_event ob"
  shows "claim_ok (s\<lparr>st_outbox := (st_outbox s)(k \<mapsto> ob')\<rparr>) c"
  using assms by (auto simp: claim_ok_def)

lemma claim_ok_cursors [simp]: "claim_ok (s\<lparr>st_cursors := cs\<rparr>) c \<longleftrightarrow> claim_ok s c"
  by (simp add: claim_ok_def)

lemma settled_ok_outbox:
  assumes "settled_ok s" "st_outbox s k = Some ob" "ob_event ob' = ob_event ob" "settled ob' \<longleftrightarrow> settled ob"
  shows "settled_ok (s\<lparr>st_outbox := (st_outbox s)(k \<mapsto> ob')\<rparr>)"
  using assms by (auto simp: settled_ok_def cursor_of_def)

lemma outbox_step_inv:
  assumes "system_inv (s, C)" "st_outbox s k = Some ob" "ob_event ob' = ob_event ob"
    "settled ob' \<longleftrightarrow> settled ob" "outbox_event_fields_ok ob'" "delivery_ok ob'"
  shows "system_inv (s\<lparr>st_outbox := (st_outbox s)(k \<mapsto> ob')\<rparr>, C)"
  using assms store_inv_outbox docs_ok_outbox settled_ok_outbox claim_ok_outbox
  by (auto simp: system_inv_def cursors_ok_def)

lemma leased_facts:
  assumes "outbox_event_fields_ok ob" "delivery_ok ob" "\<not> settled ob" "identifier_ok owner"
  shows "ob_event (leased ob owner t) = ob_event ob" "settled (leased ob owner t) \<longleftrightarrow> settled ob"
    "outbox_event_fields_ok (leased ob owner t)" "delivery_ok (leased ob owner t)"
  using assms by (auto simp: leased_def settled_def outbox_event_fields_ok_def delivery_ok_def)

lemma claim_keeps_inv:
  assumes inv: "system_inv (s, C)" and cl: "claim_one s path owner now duration = Inr (Some c, s')"
    and o: "identifier_ok owner"
  shows "system_inv (s', insert c C)"
  using cl
proof (cases rule: claim_one_Some)
  case (1 ob)
  then have ns: "\<not> settled ob" and k: "st_outbox s path = Some ob" by (simp_all add: claimable_def)
  note lf = leased_facts [OF 1(2,3) ns o]
  have "system_inv (s', C)" unfolding 1(5) by (rule outbox_step_inv [OF inv k lf])
  moreover have "claim_ok s' c" by (simp add: claim_ok_def 1(4,5))
  ultimately show ?thesis by (simp add: system_inv_def)
qed

text \<open>The event of a claim and its run.\<close>

lemma settles_keeps_inv:
  assumes inv: "system_inv (s, C)" and c: "c \<in> C" and st: "settles s c owner ob ob' s'"
  shows "system_inv (s', C)"
proof -
  let ?k = "claim_path c" and ?e = "ob_event ob"
  have S: "store_inv s" "docs_ok s" "cursors_ok s" "settled_ok s" "claim_ok s c"
    using inv c by (auto simp: system_inv_def)
  from st obtain cur where ob: "st_outbox s ?k = Some ob" and ob': "ob_event ob' = ?e" "settled ob'"
    "outbox_event_fields_ok ob'" "delivery_ok ob'"
    and cur: "cur_published_revision cur = event_revision ?e"
    and prev: "published_revision (st_cursors s (claim_cursor c)) = event_revision ?e - 1"
    and s': "s' = s\<lparr>st_outbox := (st_outbox s)(?k \<mapsto> ob'), st_cursors := (st_cursors s)(claim_cursor c \<mapsto> cur)\<rparr>"
    unfolding settles_def settle_store_def by blast
  have ev: "claim_cursor c = cursor_key ?e"
    using S(5) ob by (auto simp: claim_ok_def claim_cursor_def)
  obtain org e where k: "?k = (org, e)" by (cases ?k)
  have ids: "event_organisation_id ?e = org" "event_id ?e = e"
    using S(2) ob k by (auto simp: docs_ok_def)
  have log: "log_event s org (event_run_id ?e) (event_revision ?e) e"
    using ob k by (auto simp: log_event_def)
  have L: "log_ok s" using S(1) by (simp add: store_inv_def)
  obtain r where r: "st_runs s (org, event_run_id ?e) = Some r" "0 \<le> event_revision ?e" "event_revision ?e \<le> run_revision r"
    using L log unfolding log_ok_def by blast
  have uniq: "q = ?k" if "st_outbox s q = Some p" "cursor_key (ob_event p) = cursor_key ?e"
    "event_revision (ob_event p) = event_revision ?e" for q p
  proof -
    obtain o2 e2 where q: "q = (o2, e2)" by (cases q)
    have o2: "event_organisation_id (ob_event p) = o2" using S(2) that(1) q by (auto simp: docs_ok_def)
    then have "log_event s org (event_run_id ?e) (event_revision ?e) e2"
      using that q ids(1) by (auto simp: log_event_def cursor_key_def)
    then have "e2 = e" using L log unfolding log_ok_def by blast
    then show ?thesis using q k o2 that(2) ids(1) by (simp add: cursor_key_def)
  qed
  have "cursors_ok s'" using S(3) r cur ids ev by (auto simp: cursors_ok_def s' cursor_key_def)
  moreover have "settled_ok s'"
  proof -
    have "settled p \<longleftrightarrow> event_revision (ob_event p) \<le> cursor_of s' (ob_event p)"
      if p: "st_outbox s' q = Some p" for q p
    proof (cases "cursor_key (ob_event p) = cursor_key ?e")
      case False
      then have "q \<noteq> ?k" using p ob'(1) by (auto simp: s')
      then have "st_outbox s q = Some p" using p by (simp add: s')
      from S(4) this have "settled p \<longleftrightarrow> event_revision (ob_event p) \<le> cursor_of s (ob_event p)"
        unfolding settled_ok_def by blast
      then show ?thesis using False by (simp add: cursor_of_def s' ev)
    next
      case True
      then have cof: "cursor_of s' (ob_event p) = event_revision ?e"
        using cur ev by (simp add: cursor_of_def s' published_revision_def)
      show ?thesis
      proof (cases "q = ?k")
        case True
        then have "p = ob'" using p by (simp add: s')
        then show ?thesis using ob' cof by simp
      next
        case False
        then have q: "st_outbox s q = Some p" using p by (simp add: s')
        then have "settled p \<longleftrightarrow> event_revision (ob_event p) \<le> event_revision ?e - 1"
          using S(4) True prev ev unfolding settled_ok_def cursor_of_def by metis
        moreover have "event_revision (ob_event p) \<noteq> event_revision ?e" using uniq [OF q True] False by blast
        ultimately show ?thesis using cof by auto
      qed
    qed
    then show ?thesis by (simp add: settled_ok_def)
  qed
  moreover have "store_inv s'"
    using store_inv_outbox [OF S(1) ob ob'(1)] by (simp add: s')
  moreover have "docs_ok s'"
    using docs_ok_outbox [OF S(2) ob ob'(1,3,4)] by (simp add: s' docs_ok_def)
  moreover have "claim_ok s' d" if "d \<in> C" for d
  proof -
    have "claim_ok s d" using inv that by (simp add: system_inv_def)
    from claim_ok_outbox [OF this ob ob'(1)] show ?thesis by (simp add: s' claim_ok_def)
  qed
  ultimately show ?thesis by (simp add: system_inv_def)
qed

section \<open>Preservation by the workflow\<close>

lemma applied_keeps_delivery:
  assumes inv: "system_inv (s, C)" and app: "applied_mutation s c step_run m s' r updated ob"
    and id: "run_id r = cmd_run_id c" and ok: "outbox_event_fields_ok ob" "delivery_ok ob"
  shows "docs_ok s'" "cursors_ok s'" "settled_ok s'" "\<forall>c \<in> C. claim_ok s' c"
proof -
  let ?org = "cmd_organisation_id c" and ?i = "cmd_run_id c"
  have S: "docs_ok s" "cursors_ok s" "settled_ok s" "\<forall>c \<in> C. claim_ok s c"
    using inv by (auto simp: system_inv_def)
  have a: "st_runs s (?org, ?i) = Some r" "st_outbox s (?org, cmd_id c) = None"
    "run_revision updated = run_revision r + 1" "event_run_id (ob_event ob) = ?i"
    "event_revision (ob_event ob) = run_revision updated" "event_id (ob_event ob) = cmd_id c"
    "event_organisation_id (ob_event ob) = ?org" "ob_published_at ob = None" "ob_dead_lettered_at ob = None"
    and s': "st_runs s' = (st_runs s)((?org, ?i) \<mapsto> updated)"
    "st_outbox s' = (st_outbox s)((?org, cmd_id c) \<mapsto> ob)" "st_cursors s' = st_cursors s"
    using app id by (auto simp: applied_mutation_def mutated_store_def Let_def)
  show "docs_ok s'" using S(1) a ok by (auto simp: docs_ok_def s')
  show "\<forall>c \<in> C. claim_ok s' c" using S(4) a(2) by (auto simp: claim_ok_def s')
  have cur: "\<exists>r. st_runs s (org, i) = Some r \<and> 0 \<le> cur_published_revision q \<and> cur_published_revision q \<le> run_revision r"
    if "st_cursors s (org, i) = Some q" for org i q
    using S(2) that unfolding cursors_ok_def by blast
  show "cursors_ok s'" unfolding cursors_ok_def s'
    using cur a(1,3) by (fastforce split: if_splits)
  have rev: "0 \<le> run_revision r"
    using inv a(1) by (auto simp: system_inv_def store_inv_def runs_ok_def machine_inv_def run_valid_iff rotation_run_fields_ok_def)
  have "cursor_of s (ob_event ob) \<le> run_revision r"
    using cur [of ?org ?i] a(1,4,7) rev
    by (fastforce simp: cursor_of_def cursor_key_def published_revision_def split: option.splits)
  then show "settled_ok s'"
    using S(3) a(3,5,8,9) by (auto simp: settled_ok_def s' settled_def cursor_of_def)
qed

lemma created_keeps_delivery:
  assumes inv: "system_inv (s, C)" and s': "s' = created_store sha s r c h st ob"
    and fresh: "st_runs s (run_organisation_id r, run_id r) = None"
      "st_outbox s (run_organisation_id r, create_id c) = None"
    and ev: "event_run_id (ob_event ob) = run_id r" "event_revision (ob_event ob) = 0"
      "event_id (ob_event ob) = create_id c" "event_organisation_id (ob_event ob) = run_organisation_id r"
      "ob_published_at ob = None" "ob_dead_lettered_at ob = None"
    and ok: "outbox_event_fields_ok ob" "delivery_ok ob"
  shows "docs_ok s'" "cursors_ok s'" "settled_ok s'" "\<forall>c \<in> C. claim_ok s' c"
proof -
  let ?org = "run_organisation_id r" and ?i = "run_id r"
  have S: "docs_ok s" "cursors_ok s" "settled_ok s" "\<forall>c \<in> C. claim_ok s c"
    using inv by (auto simp: system_inv_def)
  have s'': "st_runs s' = (st_runs s)((?org, ?i) \<mapsto> r)"
    "st_outbox s' = (st_outbox s)((?org, create_id c) \<mapsto> ob)" "st_cursors s' = st_cursors s"
    by (simp_all add: s' created_store_def Let_def)
  show "docs_ok s'" using S(1) ev ok by (auto simp: docs_ok_def s'')
  show "\<forall>c \<in> C. claim_ok s' c" using S(4) fresh(2) by (auto simp: claim_ok_def s'')
  have cur: "\<exists>r. st_runs s (org, i) = Some r \<and> 0 \<le> cur_published_revision q \<and> cur_published_revision q \<le> run_revision r"
    if "st_cursors s (org, i) = Some q" for org i q
    using S(2) that unfolding cursors_ok_def by blast
  show "cursors_ok s'" unfolding cursors_ok_def s'' using cur fresh(1) by (fastforce split: if_splits)
  have "st_cursors s (?org, ?i) = None" using cur [of ?org ?i] fresh(1) by (cases "st_cursors s (?org, ?i)") auto
  then have "cursor_of s (ob_event ob) = -1"
    using ev by (simp add: cursor_of_def cursor_key_def published_revision_def)
  then show "settled_ok s'"
    using S(3) ev(2,5,6) by (auto simp: settled_ok_def s'' settled_def cursor_of_def)
qed

lemma execute_keeps_system:
  assumes inv: "system_inv (s, C)" and ex: "execute_command sha fmt policy s now c = Inr (m, s')"
  shows "system_inv (s', C)"
proof -
  have st: "store_inv s" using inv by (simp add: system_inv_def)
  have st': "store_inv s'" by (rule execute_keeps_inv [OF st ex])
  from ex show ?thesis unfolding execute_command_def
  proof (cases rule: store_mutate_cases)
    case replayed
    then show ?thesis using inv by simp
  next
    case (applied r updated ob)
    then have "run_id r = cmd_run_id c" "outbox_event_fields_ok ob" "delivery_ok ob"
      using st by (auto simp: store_inv_def runs_ok_def applied_mutation_def Let_def)
    from applied_keeps_delivery [OF inv applied this] st' show ?thesis by (simp add: system_inv_def)
  qed
qed

lemma create_keeps_system:
  assumes inv: "system_inv (s, C)" and ex: "workflow_create sha fmt s now fid c = Inr (m, s')"
  shows "system_inv (s', C)"
proof -
  have st: "store_inv s" using inv by (simp add: system_inv_def)
  have st': "store_inv s'" by (rule workflow_create_keeps_inv [OF st ex])
  from ex obtain rid r where r: "build_run c rid now = Inr r" "store_create sha fmt s r c = Inr (m, s')"
    by (auto simp: workflow_create_def bindr_eq_Inr)
  from r(2) show ?thesis
  proof (cases rule: store_create_cases)
    case replayed
    then show ?thesis using inv by simp
  next
    case (created h ob)
    have "event_revision (ob_event ob) = 0" using created(7) build_run_fields(8) [OF r(1)] by simp
    from created_keeps_delivery [OF inv created(15) created(4,5,6) this created(8,9,10,11,16,17)] st'
    show ?thesis by (simp add: system_inv_def)
  qed
qed

lemma system_step_inv:
  assumes "system_step sha fmt policy x y" "system_inv x"
  shows "system_inv y"
  using assms
proof (cases rule: system_step.cases)
  case (sys_workflow s s' C)
  then show ?thesis using assms(2)
    by (auto elim!: workflow_step.cases intro: execute_keeps_system create_keeps_system)
next
  case (sys_claim s path owner now duration c s' C)
  then show ?thesis using assms(2) claim_keeps_inv by blast
next
  case (sys_published c C owner mid t s s')
  have inv: "system_inv (s, C)" using assms(2) sys_published(1) by simp
  from sys_published(4,5) show ?thesis
  proof (cases rule: mark_published_cases)
    case 1
    then show ?thesis using inv sys_published(2) by simp
  next
    case (2 ob ob')
    then show ?thesis using settles_keeps_inv [OF inv sys_published(3)] sys_published(2) by blast
  qed
next
  case (sys_dead c C owner reason t s s')
  have inv: "system_inv (s, C)" using assms(2) sys_dead(1) by simp
  from sys_dead(4,5) show ?thesis
  proof (cases rule: mark_dead_letter_cases)
    case 1
    then show ?thesis using inv sys_dead(2) by simp
  next
    case (2 ob ob')
    then show ?thesis using settles_keeps_inv [OF inv sys_dead(3)] sys_dead(2) by blast
  qed
next
  case (sys_failed c C owner reason t s s')
  have inv: "system_inv (s, C)" using assms(2) sys_failed(1) by simp
  from sys_failed(4) show ?thesis
  proof (cases rule: mark_failed_cases)
    case 1
    then show ?thesis using inv sys_failed(2) by simp
  next
    case (2 ob)
    note ff = failed_doc_facts [OF 2(2,3,4) sys_failed(5), of t]
    show ?thesis unfolding sys_failed(2) 2(6) by (rule outbox_step_inv [OF inv 2(1) ff(1,2,3,4)])
  qed
qed

lemma system_inv_empty: "system_inv (empty_store controls, {})"
  by (simp add: system_inv_def store_inv_empty)
    (simp add: empty_store_def docs_ok_def cursors_ok_def settled_ok_def)

lemma system_reachable_inv:
  assumes "system_reachable sha fmt policy controls x"
  shows "system_inv x"
proof -
  have "system_steps sha fmt policy y x \<Longrightarrow> system_inv y \<Longrightarrow> system_inv x" for y
    by (induction rule: system_steps.induct) (auto intro: system_step_inv)
  then show ?thesis using assms system_inv_empty unfolding system_reachable_def by blast
qed

section \<open>Delivery in order\<close>

lemma in_order:
  assumes inv: "system_inv (s, C)" and r: "st_runs s (org, i) = Some r"
  shows "-1 \<le> published_revision (st_cursors s (org, i)) \<and> published_revision (st_cursors s (org, i)) \<le> run_revision r
    \<and> (\<forall>e ob. st_outbox s (org, e) = Some ob \<and> event_run_id (ob_event ob) = i \<longrightarrow>
         (settled ob \<longleftrightarrow> event_revision (ob_event ob) \<le> published_revision (st_cursors s (org, i))))"
proof -
  have S: "docs_ok s" "cursors_ok s" "settled_ok s" "store_inv s" using inv by (auto simp: system_inv_def)
  have "0 \<le> run_revision r"
    using S(4) r by (auto simp: store_inv_def runs_ok_def machine_inv_def run_valid_iff rotation_run_fields_ok_def)
  then have "-1 \<le> published_revision (st_cursors s (org, i)) \<and> published_revision (st_cursors s (org, i)) \<le> run_revision r"
    using S(2) r by (fastforce simp: cursors_ok_def published_revision_def split: option.splits)
  moreover have "settled ob \<longleftrightarrow> event_revision (ob_event ob) \<le> published_revision (st_cursors s (org, i))"
    if "st_outbox s (org, e) = Some ob" "event_run_id (ob_event ob) = i" for e ob
  proof -
    have "cursor_key (ob_event ob) = (org, i)" using S(1) that by (auto simp: docs_ok_def cursor_key_def)
    moreover have "settled ob \<longleftrightarrow> event_revision (ob_event ob) \<le> cursor_of s (ob_event ob)"
      using S(3) that(1) unfolding settled_ok_def by blast
    ultimately show ?thesis by (simp add: cursor_of_def)
  qed
  ultimately show ?thesis by blast
qed

section \<open>Leases of events\<close>

lemma stale_publisher:
  assumes cl: "claim_one s path owner now duration = Inr (Some c, s')" and o: "owner' \<noteq> owner"
    and d: "claim_path d = path"
  shows "\<not> is_ok (mark_published d owner' mid t s')" "\<not> is_ok (mark_dead_letter d owner' reason t s')"
    "\<not> is_ok (mark_failed d owner' reason t s')"
proof -
  from cl obtain ob where ob: "\<not> settled ob" "st_outbox s' (claim_path d) = Some (leased ob owner (now + duration))"
    by (cases rule: claim_one_Some) (auto simp: claimable_def d)
  then have "ob_published_at ob = None" "ob_dead_lettered_at ob = None" by (auto simp: settled_def)
  then show "\<not> is_ok (mark_published d owner' mid t s')" "\<not> is_ok (mark_dead_letter d owner' reason t s')"
    "\<not> is_ok (mark_failed d owner' reason t s')"
    using ob o
    by (auto simp: is_ok_iff mark_published_iff mark_dead_letter_iff mark_failed_iff leased_def settled_def)
qed

section \<open>Claims of a batch\<close>

text \<open>Every claim of a batch is a claim of \<open>claim_one\<close>, at most \<open>limit\<close> of them, for distinct runs.\<close>

lemma claim_loop_steps:
  assumes "claim_loop owner now duration limit docs claims seen s = (res, s')" "identifier_ok owner"
    and "system_steps sha fmt policy x (s, set claims \<union> C)"
  shows "\<exists>D. system_steps sha fmt policy x (s', D \<union> C) \<and> set claims \<subseteq> D \<and> (\<forall>cs. res = Inr cs \<longrightarrow> set cs = D)"
  using assms
proof (induction docs arbitrary: claims seen s)
  case Nil
  then show ?case by auto
next
  case (Cons d docs)
  obtain path doc where d: "d = (path, doc)" by (cases d)
  show ?case
  proof (cases "validate_outbox_event doc")
    case (Inl e)
    then show ?thesis using Cons.prems by (auto simp: d)
  next
    case (Inr cand)
    show ?thesis
    proof (cases "event_run_id (ob_event cand) \<in> set seen")
      case True
      then show ?thesis using Cons.prems Cons.IH Inr by (simp add: d)
    next
      case False
      note F = False
      show ?thesis
      proof (cases "claim_one s path owner now duration")
        case (Inl e)
        then show ?thesis using Cons.prems Inr F \<open>validate_outbox_event doc = Inr cand\<close> by (auto simp: d)
      next
        case (Inr p)
        obtain oc s1 where p: "p = (oc, s1)" by (cases p)
        show ?thesis
        proof (cases oc)
          case None
          then have "s1 = s" using claim_one_None Inr p by blast
          then show ?thesis
            using Cons.prems Cons.IH [of claims seen s] Inr F \<open>validate_outbox_event doc = Inr cand\<close> None p
            by (auto simp: d split: if_splits)
        next
          case (Some c)
          have "system_step sha fmt policy (s, set claims \<union> C) (s1, insert c (set claims \<union> C))"
            using Inr p Some Cons.prems(2) by (auto intro: sys_claim)
          then have st: "system_steps sha fmt policy x (s1, set (claims @ [c]) \<union> C)"
            using sys_step [OF Cons.prems(3)] by simp
          show ?thesis
          proof (cases "length (claims @ [c]) = limit")
            case True
            then have "s' = s1" "res = Inr (claims @ [c])"
              using Cons.prems(1) Inr F \<open>validate_outbox_event doc = Inr cand\<close> Some p by (simp_all add: d)
            then show ?thesis using st by (intro exI [of _ "set (claims @ [c])"]) auto
          next
            case False
            then have "claim_loop owner now duration limit docs (claims @ [c])
                (event_run_id (ob_event (claim_outbox c)) # seen) s1 = (res, s')"
              using Cons.prems(1) Inr F \<open>validate_outbox_event doc = Inr cand\<close> Some p by (simp add: d)
            from Cons.IH [OF this Cons.prems(2) st] show ?thesis by auto
          qed
        qed
      qed
    qed
  qed
qed

lemma claim_loop_length:
  "claim_loop owner now duration limit docs claims seen s = (Inr cs, s') \<Longrightarrow> length claims < limit \<Longrightarrow>
     length cs \<le> limit"
proof (induction docs arbitrary: claims seen s)
  case Nil
  then show ?case by simp
next
  case (Cons d docs)
  then show ?case
    by (cases d) (auto split: sum.splits if_splits option.splits prod.splits)
qed

end
