(* ===== verification/Publisher.thy ===== *)
theory Publisher imports Outbox_Facts begin

text \<open>
  server/core/events/publish.py: \<open>EventPublisher\<close>, which drains the outbox in batches. The
  repository is the protocol \<open>OutboxRepository\<close>: a record of operations over a state. The
  transport and the clock are functions of the number of readings made so far. \<open>asyncio.gather\<close>
  runs the deliveries of a batch, which touch different runs, to the end; they are modelled in
  batch order, and an error among them ends \<open>drain\<close> after the batch.
\<close>

section \<open>Contract of the repository\<close>

record 's outbox_ops =
  repo_claim :: "string \<Rightarrow> int \<Rightarrow> int \<Rightarrow> nat \<Rightarrow> 's \<Rightarrow> outbox_claim list result \<times> 's"
  repo_published :: "outbox_claim \<Rightarrow> string \<Rightarrow> string \<Rightarrow> int \<Rightarrow> 's \<Rightarrow> 's result"
  repo_failed :: "outbox_claim \<Rightarrow> string \<Rightarrow> string \<Rightarrow> int \<Rightarrow> 's \<Rightarrow> 's result"
  repo_dead_letter :: "outbox_claim \<Rightarrow> string \<Rightarrow> string \<Rightarrow> int \<Rightarrow> 's \<Rightarrow> 's result"

section \<open>The publisher\<close>

record publisher =
  pub_owner :: string
  pub_lease_duration :: int
  pub_batch_size :: int
  pub_retry_base :: int
  pub_retry_max :: int
  pub_maximum_attempts :: int

definition make_publisher :: "publisher \<Rightarrow> publisher result" where
  "make_publisher p =
     bindr (require (1 \<le> pub_batch_size p) (ValueError ''batch_size must be positive'')) (\<lambda>_.
     bindr (require (0 < pub_lease_duration p) (ValueError ''lease_duration must be positive'')) (\<lambda>_.
     bindr (require (\<not> (pub_retry_base p \<le> 0 \<or> pub_retry_max p < pub_retry_base p))
       (ValueError ''retry delays are invalid'')) (\<lambda>_.
     bindr (require (1 \<le> pub_maximum_attempts p) (ValueError ''maximum attempts must be positive'')) (\<lambda>_.
     Inr p))))"

text \<open>\<open>2 ** min(max(attempts - 1, 0), 16)\<close>, capped; durations are microseconds.\<close>

definition backoff :: "publisher \<Rightarrow> int \<Rightarrow> int" where
  "backoff p attempts = min (pub_retry_base p * 2 ^ nat (min (max (attempts - 1) 0) 16)) (pub_retry_max p)"

text \<open>\<open>_safe_error\<close> of an exception, given as its type name and its text.\<close>

definition is_space :: "char \<Rightarrow> bool" where
  "is_space c \<longleftrightarrow>
     char_code c \<in> {9, 10, 11, 12, 13, 28, 29, 30, 31, 32, 133, 160}"

definition strip :: "string \<Rightarrow> string" where
  "strip s = rev (dropWhile is_space (rev (dropWhile is_space s)))"

definition safe_error :: "string \<times> string \<Rightarrow> string" where
  "safe_error err =
     (let message = strip (map (\<lambda>c. if c = CHR 0x0A then CHR 0x20 else c) (fst err @ '': '' @ snd err))
      in take 1024 (if message = [] then fst err else message))"

datatype delivery_outcome = Published | Delivery_failed | Dead_lettered

definition deliver ::
  "'s outbox_ops \<Rightarrow> publisher \<Rightarrow> (run_event \<Rightarrow> (string \<times> string) + string) \<Rightarrow> int \<Rightarrow> outbox_claim \<Rightarrow> 's
     \<Rightarrow> delivery_outcome result \<times> 's" where
  "deliver ops p transport now claim s =
     (let done = (\<lambda>outcome r. case r of Inl e \<Rightarrow> (Inl e, s) | Inr s' \<Rightarrow> (Inr outcome, s')) in
      case transport (ob_event (claim_outbox claim)) of
        Inl err \<Rightarrow>
          if pub_maximum_attempts p \<le> ob_attempts (claim_outbox claim)
          then done Dead_lettered (repo_dead_letter ops claim (pub_owner p) (safe_error err) now s)
          else done Delivery_failed (repo_failed ops claim (pub_owner p) (safe_error err)
                 (now + backoff p (ob_attempts (claim_outbox claim))) s)
      | Inr message_id \<Rightarrow> done Published (repo_published ops claim (pub_owner p) message_id now s))"

fun deliver_all ::
  "'s outbox_ops \<Rightarrow> publisher \<Rightarrow> (nat \<Rightarrow> run_event \<Rightarrow> (string \<times> string) + string) \<Rightarrow> (nat \<Rightarrow> int) \<Rightarrow> nat
     \<Rightarrow> outbox_claim list \<Rightarrow> 's \<Rightarrow> delivery_outcome list result \<times> 's" where
  "deliver_all ops p transport clock k [] s = (Inr [], s)"
| "deliver_all ops p transport clock k (c # cs) s =
     (case deliver ops p (transport k) (clock k) c s of
        (r, s1) \<Rightarrow>
          (case deliver_all ops p transport clock (k + 1) cs s1 of
             (rs, s2) \<Rightarrow> (bindr r (\<lambda>x. bindr rs (\<lambda>xs. Inr (x # xs))), s2)))"

record publish_summary =
  sum_claimed :: nat
  sum_published :: nat
  sum_failed :: nat
  sum_dead_lettered :: nat

definition count :: "delivery_outcome \<Rightarrow> delivery_outcome list \<Rightarrow> nat" where
  "count x xs = length (filter (\<lambda>y. y = x) xs)"

function drain_loop ::
  "'s outbox_ops \<Rightarrow> publisher \<Rightarrow> (nat \<Rightarrow> run_event \<Rightarrow> (string \<times> string) + string) \<Rightarrow> (nat \<Rightarrow> int) \<Rightarrow> nat
     \<Rightarrow> nat \<Rightarrow> publish_summary \<Rightarrow> 's \<Rightarrow> publish_summary result \<times> 's" where
  "drain_loop ops p transport clock k max_events acc s =
     (if sum_claimed acc < max_events
      then case repo_claim ops (pub_owner p) (clock k) (pub_lease_duration p)
                  (min (nat (pub_batch_size p)) (max_events - sum_claimed acc)) s of
             (Inl e, s1) \<Rightarrow> (Inl e, s1)
           | (Inr batch, s1) \<Rightarrow>
               if batch = [] then (Inr acc, s1)
               else case deliver_all ops p transport clock (k + 1) batch s1 of
                      (Inl e, s2) \<Rightarrow> (Inl e, s2)
                    | (Inr results, s2) \<Rightarrow>
                        drain_loop ops p transport clock (k + 1 + length batch) max_events
                          \<lparr>sum_claimed = sum_claimed acc + length batch,
                           sum_published = sum_published acc + count Published results,
                           sum_failed = sum_failed acc + count Delivery_failed results,
                           sum_dead_lettered = sum_dead_lettered acc + count Dead_lettered results\<rparr> s2
      else (Inr acc, s))"
  by pat_completeness auto
termination
  by (relation "measure (\<lambda>(ops, p, transport, clock, k, max_events, acc, s). max_events - sum_claimed acc)")
    (auto simp: neq_Nil_conv)

declare drain_loop.simps [simp del]

definition drain ::
  "'s outbox_ops \<Rightarrow> publisher \<Rightarrow> (nat \<Rightarrow> run_event \<Rightarrow> (string \<times> string) + string) \<Rightarrow> (nat \<Rightarrow> int) \<Rightarrow> nat \<Rightarrow> 's
     \<Rightarrow> publish_summary result \<times> 's" where
  "drain ops p transport clock max_events s =
     (if max_events < 1 then (Inl (ValueError ''max_events must be positive''), s)
      else drain_loop ops p transport clock 0 max_events
             \<lparr>sum_claimed = 0, sum_published = 0, sum_failed = 0, sum_dead_lettered = 0\<rparr> s)"

section \<open>What the publisher keeps\<close>

text \<open>
  The contract: the operations keep an invariant, claims are issued, and only issued claims are
  settled, with texts the documents admit.
\<close>

locale outbox_contract =
  fixes ops :: "'s outbox_ops" and inv :: "'s \<Rightarrow> bool" and issued :: "'s \<Rightarrow> outbox_claim set" and owner :: string
  assumes claim_law: "inv s \<Longrightarrow> repo_claim ops owner now d n s = (res, s') \<Longrightarrow>
      inv s' \<and> issued s \<subseteq> issued s' \<and> (\<forall>cs. res = Inr cs \<longrightarrow> set cs \<subseteq> issued s')"
    and claim_bound: "0 < n \<Longrightarrow> repo_claim ops owner now d n s = (Inr cs, s') \<Longrightarrow> length cs \<le> n"
    and published_law: "inv s \<Longrightarrow> c \<in> issued s \<Longrightarrow> repo_published ops c owner mid t s = Inr s' \<Longrightarrow>
      text_between 1 256 mid \<Longrightarrow> inv s' \<and> issued s \<subseteq> issued s'"
    and failed_law: "inv s \<Longrightarrow> c \<in> issued s \<Longrightarrow> repo_failed ops c owner reason t s = Inr s' \<Longrightarrow>
      text_between 0 1024 reason \<Longrightarrow> inv s' \<and> issued s \<subseteq> issued s'"
    and dead_letter_law: "inv s \<Longrightarrow> c \<in> issued s \<Longrightarrow> repo_dead_letter ops c owner reason t s = Inr s' \<Longrightarrow>
      text_between 1 1024 reason \<Longrightarrow> inv s' \<and> issued s \<subseteq> issued s'"

lemma is_space_cases: "is_space (CHR 0x20)" "\<not> is_space (CHR '':'')"
  by (simp_all add: is_space_def char_code_def)

lemma dropWhile_keeps: "x \<in> set xs \<Longrightarrow> \<not> P x \<Longrightarrow> x \<in> set (dropWhile P xs)"
  by (induction xs) auto

lemma strip_keeps: "x \<in> set s \<Longrightarrow> \<not> is_space x \<Longrightarrow> x \<in> set (strip s)"
  unfolding strip_def by (simp add: dropWhile_keeps)

lemma safe_error_text: "text_between 1 1024 (safe_error err)"
proof -
  let ?m = "map (\<lambda>c. if c = CHR 0x0A then CHR 0x20 else c) (fst err @ '': '' @ snd err)"
  have "CHR '':'' \<in> set ?m" by simp
  then have "CHR '':'' \<in> set (strip ?m)" by (rule strip_keeps) (rule is_space_cases(2))
  then have ne: "strip ?m \<noteq> []" by auto
  then have "safe_error err = take 1024 (strip ?m)" unfolding safe_error_def Let_def by simp
  then show ?thesis using ne by (cases "strip ?m") (simp_all add: text_between_def)
qed

lemma safe_error_text0: "text_between 0 1024 (safe_error err)"
  using safe_error_text [of err] by (simp add: text_between_def)

context outbox_contract begin

lemma deliver_keeps:
  assumes "inv s" "c \<in> issued s" "pub_owner p = owner"
    and "\<And>e mid. transport e = Inr mid \<Longrightarrow> text_between 1 256 mid"
    and "deliver ops p transport now c s = (r, s')"
  shows "inv s' \<and> issued s \<subseteq> issued s'"
proof (cases "transport (ob_event (claim_outbox c))")
  case (Inr mid)
  then show ?thesis
    using assms(1,3,5) published_law [OF assms(1,2) _ assms(4) [OF Inr], of now]
    by (auto simp: deliver_def split: sum.splits)
next
  case (Inl err)
  show ?thesis
  proof (cases "pub_maximum_attempts p \<le> ob_attempts (claim_outbox c)")
    case True
    then show ?thesis
      using Inl assms(1,3,5) dead_letter_law [OF assms(1,2) _ safe_error_text [of err], of now]
      by (auto simp: deliver_def split: sum.splits)
  next
    case False
    then show ?thesis
      using Inl assms(1,3,5)
        failed_law [OF assms(1,2) _ safe_error_text0 [of err], of "now + backoff p (ob_attempts (claim_outbox c))"]
      by (auto simp: deliver_def split: sum.splits)
  qed
qed

lemma deliver_all_keeps:
  assumes "inv s" "set cs \<subseteq> issued s" "pub_owner p = owner"
    and tr: "\<And>k e mid. transport k e = Inr mid \<Longrightarrow> text_between 1 256 mid"
    and "deliver_all ops p transport clock k cs s = (r, s')"
  shows "inv s' \<and> issued s \<subseteq> issued s' \<and> (\<forall>xs. r = Inr xs \<longrightarrow> length xs = length cs)"
  using assms(1,2,5)
proof (induction cs arbitrary: s k r)
  case Nil
  then show ?case by auto
next
  case (Cons c cs)
  obtain r1 s1 where 1: "deliver ops p (transport k) (clock k) c s = (r1, s1)"
    by (cases "deliver ops p (transport k) (clock k) c s")
  obtain rs s2 where 2: "deliver_all ops p transport clock (k + 1) cs s1 = (rs, s2)"
    by (cases "deliver_all ops p transport clock (k + 1) cs s1")
  have "s' = s2" using Cons.prems(3) 1 2 by simp
  have "inv s1 \<and> issued s \<subseteq> issued s1"
    by (rule deliver_keeps [OF Cons.prems(1) _ assms(3) tr 1]) (use Cons.prems(2) in auto)
  moreover from this have "set cs \<subseteq> issued s1" using Cons.prems(2) by auto
  ultimately have "inv s2 \<and> issued s1 \<subseteq> issued s2 \<and> (\<forall>xs. rs = Inr xs \<longrightarrow> length xs = length cs)"
    using Cons.IH [OF _ _ 2 [folded \<open>s' = s2\<close>]] \<open>s' = s2\<close> by simp
  then show ?case using \<open>inv s1 \<and> issued s \<subseteq> issued s1\<close> Cons.prems(3) 1 2
    by (auto simp: bindr_eq_Inr)
qed

lemma count_all: "count Published xs + count Delivery_failed xs + count Dead_lettered xs = length xs"
proof (induction xs)
  case (Cons x xs)
  then show ?case by (cases x) (simp_all add: count_def)
qed (simp add: count_def)

lemma drain_loop_keeps:
  assumes "inv s" "pub_owner p = owner" "1 \<le> pub_batch_size p"
    and tr: "\<And>k e mid. transport k e = Inr mid \<Longrightarrow> text_between 1 256 mid"
    and "drain_loop ops p transport clock k max_events acc s = (res, s')"
    and "sum_claimed acc = sum_published acc + sum_failed acc + sum_dead_lettered acc"
      "sum_claimed acc \<le> max_events"
  shows "inv s' \<and> (\<forall>out. res = Inr out \<longrightarrow> sum_claimed out \<le> max_events
     \<and> sum_claimed out = sum_published out + sum_failed out + sum_dead_lettered out)"
  using assms(1,5,6,7)
proof (induction "max_events - sum_claimed acc" arbitrary: k acc s rule: less_induct)
  case less
  show ?case
  proof (cases "sum_claimed acc < max_events")
    case False
    then show ?thesis using less.prems by (auto simp: drain_loop.simps [of ops p])
  next
    case True
    let ?n = "min (nat (pub_batch_size p)) (max_events - sum_claimed acc)"
    obtain cres s1 where c: "repo_claim ops (pub_owner p) (clock k) (pub_lease_duration p) ?n s = (cres, s1)"
      by (cases "repo_claim ops (pub_owner p) (clock k) (pub_lease_duration p) ?n s")
    then have cl: "inv s1" "\<forall>cs. cres = Inr cs \<longrightarrow> set cs \<subseteq> issued s1"
      using claim_law [OF less.prems(1)] assms(2) by blast+
    show ?thesis
    proof (cases cres)
      case (Inl e)
      then show ?thesis using less.prems(2) c cl True by (auto simp: drain_loop.simps [of ops p])
    next
      case (Inr batch)
      have n: "0 < ?n" using True assms(3) by simp
      have len: "length batch \<le> ?n" using claim_bound [OF n] c Inr assms(2) by blast
      obtain dres s2 where d: "deliver_all ops p transport clock (k + 1) batch s1 = (dres, s2)"
        by (cases "deliver_all ops p transport clock (k + 1) batch s1")
      have iss: "set batch \<subseteq> issued s1" using cl(2) Inr by simp
      have "inv s2 \<and> issued s1 \<subseteq> issued s2 \<and> (\<forall>xs. dres = Inr xs \<longrightarrow> length xs = length batch)"
        by (rule deliver_all_keeps [OF cl(1) iss assms(2) _ d]) (rule tr)
      then have da: "inv s2 \<and> (\<forall>xs. dres = Inr xs \<longrightarrow> length xs = length batch)" by simp
      show ?thesis
      proof (cases "batch = []")
        case True
        then show ?thesis using less.prems(2-4) c cl Inr \<open>sum_claimed acc < max_events\<close>
          by (auto simp: drain_loop.simps [of ops p])
      next
        case False
        show ?thesis
        proof (cases dres)
          case (Inl e)
          then show ?thesis using less.prems(2) c d da \<open>cres = Inr batch\<close> True False
            by (auto simp: drain_loop.simps [of ops p])
        next
          case (Inr xs)
          let ?acc = "\<lparr>sum_claimed = sum_claimed acc + length batch,
                           sum_published = sum_published acc + count Published xs,
                           sum_failed = sum_failed acc + count Delivery_failed xs,
                           sum_dead_lettered = sum_dead_lettered acc + count Dead_lettered xs\<rparr>"
          have rec: "drain_loop ops p transport clock (k + 1 + length batch) max_events ?acc s2 = (res, s')"
            using less.prems(2) c d Inr \<open>cres = Inr batch\<close> True False
            by (simp add: drain_loop.simps [of ops p transport clock k])
          have dec: "max_events - sum_claimed ?acc < max_events - sum_claimed acc"
            using True False by (cases batch) auto
          have adds: "sum_claimed ?acc = sum_published ?acc + sum_failed ?acc + sum_dead_lettered ?acc"
            using less.prems(3) count_all [of xs] da Inr by simp
          have le: "sum_claimed ?acc \<le> max_events" using len True by auto
          have "inv s2" using da by blast
          then show ?thesis by (rule less.hyps [OF dec _ rec adds le])
        qed
      qed
    qed
  qed
qed

end

section \<open>The Firestore repository meets the contract\<close>

text \<open>
  The repository over a system state: the store and the claims that were handed out. \<open>keys\<close>
  enumerates the documents of the collection group.
\<close>

definition firestore_outbox :: "(string \<times> string) list \<Rightarrow> system outbox_ops" where
  "firestore_outbox keys =
     \<lparr>repo_claim = (\<lambda>owner now duration limit (s, C).
        case outbox_claims keys owner now duration limit s of
          (Inl e, s') \<Rightarrow> (Inl e, (s', C))
        | (Inr cs, s') \<Rightarrow> (Inr cs, (s', set cs \<union> C))),
      repo_published = (\<lambda>c owner mid t (s, C). bindr (mark_published c owner mid t s) (\<lambda>s'. Inr (s', C))),
      repo_failed = (\<lambda>c owner reason t (s, C). bindr (mark_failed c owner reason t s) (\<lambda>s'. Inr (s', C))),
      repo_dead_letter = (\<lambda>c owner reason t (s, C). bindr (mark_dead_letter c owner reason t s) (\<lambda>s'. Inr (s', C)))\<rparr>"

lemma system_inv_subset: "system_inv (s, C) \<Longrightarrow> D \<subseteq> C \<Longrightarrow> system_inv (s, D)"
  by (auto simp: system_inv_def)

lemma system_steps_inv: "system_steps sha fmt policy x y \<Longrightarrow> system_inv x \<Longrightarrow> system_inv y"
  by (induction rule: system_steps.induct) (auto intro: system_step_inv)

lemma outbox_claims_inv:
  assumes "system_inv (s, C)" "identifier_ok owner" "outbox_claims keys owner now d n s = (res, s')"
  shows "\<exists>D. system_inv (s', D \<union> C) \<and> (\<forall>cs. res = Inr cs \<longrightarrow> set cs = D)"
proof -
  fix sha fmt policy
  have "system_steps sha fmt policy (s, C) (s, set [] \<union> C)" by (simp add: sys_refl)
  from claim_loop_steps [OF assms(3) [unfolded outbox_claims_def] assms(2) this]
  show ?thesis using system_steps_inv assms(1) by blast
qed

interpretation firestore: outbox_contract "firestore_outbox keys" "\<lambda>x. system_inv x \<and> identifier_ok owner" snd owner
  for keys owner
proof
  fix x x' d n now res
  assume i: "system_inv x \<and> identifier_ok owner"
    and r: "repo_claim (firestore_outbox keys) owner now d n x = (res, x')"
  obtain s C where x: "x = (s, C)" by (cases x)
  obtain cres s' where c: "outbox_claims keys owner now d n s = (cres, s')"
    by (cases "outbox_claims keys owner now d n s")
  from outbox_claims_inv [OF _ _ c] i x obtain D where
    D: "system_inv (s', D \<union> C)" "\<forall>cs. cres = Inr cs \<longrightarrow> set cs = D" by blast
  show "(system_inv x' \<and> identifier_ok owner) \<and> snd x \<subseteq> snd x' \<and> (\<forall>cs. res = Inr cs \<longrightarrow> set cs \<subseteq> snd x')"
    using r c x D i system_inv_subset [OF D(1), of C]
    by (auto simp: firestore_outbox_def split: sum.splits)
next
  fix x x' d n now cs
  assume n: "0 < n" and r: "repo_claim (firestore_outbox keys) owner now d n x = (Inr cs, x')"
  then show "length cs \<le> n"
    using claim_loop_length [of owner now d n _ "[]" "[]"]
    by (auto simp: firestore_outbox_def outbox_claims_def split: sum.splits prod.splits)
next
  fix x x' c mid t
  assume "system_inv x \<and> identifier_ok owner" "c \<in> snd x"
    "repo_published (firestore_outbox keys) c owner mid t x = Inr x'" "text_between 1 256 mid"
  then show "(system_inv x' \<and> identifier_ok owner) \<and> snd x \<subseteq> snd x'"
    by (cases x) (auto simp: firestore_outbox_def bindr_eq_Inr intro: system_step_inv [OF sys_published])
next
  fix x x' c reason t
  assume "system_inv x \<and> identifier_ok owner" "c \<in> snd x"
    "repo_failed (firestore_outbox keys) c owner reason t x = Inr x'" "text_between 0 1024 reason"
  then show "(system_inv x' \<and> identifier_ok owner) \<and> snd x \<subseteq> snd x'"
    by (cases x) (auto simp: firestore_outbox_def bindr_eq_Inr intro: system_step_inv [OF sys_failed])
next
  fix x x' c reason t
  assume "system_inv x \<and> identifier_ok owner" "c \<in> snd x"
    "repo_dead_letter (firestore_outbox keys) c owner reason t x = Inr x'" "text_between 1 1024 reason"
  then show "(system_inv x' \<and> identifier_ok owner) \<and> snd x \<subseteq> snd x'"
    by (cases x) (auto simp: firestore_outbox_def bindr_eq_Inr intro: system_step_inv [OF sys_dead])
qed

section \<open>Dead letters fill the query\<close>

lemma claim_loop_dead:
  assumes "\<forall>x \<in> set docs. st_outbox s (fst x) = Some (snd x) \<and> outbox_event_fields_ok (snd x) \<and> delivery_ok (snd x)
      \<and> ob_dead_lettered_at (snd x) \<noteq> None" "0 < limit"
  shows "claim_loop owner now d limit docs [] seen s = (Inr [], s)"
  using assms(1)
proof (induction docs)
  case Nil
  then show ?case by simp
next
  case (Cons x docs)
  obtain path doc where x: "x = (path, doc)" by (cases x)
  have doc: "st_outbox s path = Some doc" "outbox_event_fields_ok doc" "delivery_ok doc"
    "ob_dead_lettered_at doc \<noteq> None" using Cons.prems x by auto
  then have "validate_outbox_event doc = Inr doc" "read_outbox s path = Inr doc"
    by (simp_all add: validate_outbox_event_iff read_outbox_ok)
  moreover have "claim_one s path owner now d = Inr (None, s)"
    using calculation(2) doc
    by (auto simp: claim_one_def segments_def outbox_event_fields_ok_def run_event_fields_ok_def)
  ultimately show ?case using Cons assms(2) by (simp add: x)
qed

lemma starved:
  assumes "docs_ok s" "0 < limit"
    and "\<forall>x \<in> set (claim_query s keys now limit). ob_dead_lettered_at (snd x) \<noteq> None"
  shows "outbox_claims keys owner now d limit s = (Inr [], s)"
  unfolding outbox_claims_def
proof (rule claim_loop_dead [OF _ assms(2)], rule ballI)
  fix x
  assume x: "x \<in> set (claim_query s keys now limit)"
  then have "st_outbox s (fst x) = Some (snd x)"
    by (auto simp: claim_query_def dest!: in_set_takeD)
  then show "st_outbox s (fst x) = Some (snd x) \<and> outbox_event_fields_ok (snd x) \<and> delivery_ok (snd x)
      \<and> ob_dead_lettered_at (snd x) \<noteq> None"
    using assms(1,3) x by (cases "fst x") (auto simp: docs_ok_def)
qed

end
