(* ===== verification/Delivery_Theorems.thy ===== *)
theory Delivery_Theorems imports Publisher Examples begin

text \<open>
  The properties of the outbox and of the publisher (server/core/storage/outbox.py,
  server/core/events/publish.py): delivery in order, exclusive leases, the accounts of a drain, the
  bounds of the retry delay, and the starvation by dead letters.
\<close>

section \<open>Instances\<close>

lemma workflow_steps_system:
  "workflow_steps sha fmt policy s s' \<Longrightarrow> system_steps sha fmt policy (s, C) (s', C)"
  by (induction rule: workflow_steps.induct) (auto intro: sys_refl sys_step sys_workflow)

lemma claim_one_intro:
  assumes "docs_ok s" "claimable s path now ob"
  shows "claim_one s path owner now d
    = Inr (Some \<lparr>claim_path = path, claim_outbox = leased ob owner (now + d)\<rparr>,
           s\<lparr>st_outbox := (st_outbox s)(path \<mapsto> leased ob owner (now + d))\<rparr>)"
proof -
  have ob: "st_outbox s path = Some ob" "outbox_event_fields_ok ob" "delivery_ok ob"
    using assms by (cases path; auto simp: docs_ok_def claimable_def)+
  then have "read_outbox s path = Inr ob" by (simp add: read_outbox_ok)
  then show ?thesis using assms(2) ob(2)
    by (auto simp: claim_one_def segments_def outbox_event_fields_ok_def run_event_fields_ok_def
        claimable_def settled_def leased_def Let_def split: option.splits)
qed

lemma ex_cursors:
  assumes "workflow_create ex_sha ex_fmt ex_store 1 ''run'' ex_create = Inr (m, s)"
  shows "st_cursors s = Map.empty"
  using assms
  by (auto simp: workflow_create_def bindr_eq_Inr created_store_def Let_def ex_store_def empty_store_def
      elim!: store_create_cases)

lemma ex_claimable:
  "\<exists>s ob. system_reachable ex_sha ex_fmt None (Map.empty((''org'', ''key'', ''ctl'') \<mapsto> ex_version)) (s, {})
     \<and> st_runs s (''org'', ''run'') = Some ex_run \<and> claimable s (''org'', event_id (ob_event ob)) (ob_available_at ob) ob
     \<and> event_run_id (ob_event ob) = ''run'' \<and> event_revision (ob_event ob) = 0"
proof -
  from ex_created obtain m s where c: "workflow_create ex_sha ex_fmt ex_store 1 ''run'' ex_create = Inr (m, s)"
    "mr_applied m" "mr_run m = ex_run" by blast
  have "workflow_steps ex_sha ex_fmt None ex_store s" by (rule wss_step [OF wss_refl ws_create [OF c(1)]])
  then have sys: "system_reachable ex_sha ex_fmt None (Map.empty((''org'', ''key'', ''ctl'') \<mapsto> ex_version)) (s, {})"
    unfolding system_reachable_def ex_store_def by (rule workflow_steps_system)
  note inv = system_reachable_inv [OF sys]
  from created_records [OF c(1,2)] have run: "st_runs s (''org'', ''run'') = Some ex_run"
    by (auto simp: c(3) ex_create_def ex_run_def)
  have "log_ok s" using inv by (simp add: system_inv_def store_inv_def)
  moreover have "0 \<le> run_revision ex_run" by (simp add: ex_run_def)
  ultimately obtain e where "log_event s ''org'' ''run'' 0 e" using run unfolding log_ok_def by (metis order_refl)
  then obtain ob where ob: "st_outbox s (''org'', e) = Some ob" "event_run_id (ob_event ob) = ''run''"
    "event_revision (ob_event ob) = 0" by (auto simp: log_event_def)
  have docs: "event_id (ob_event ob) = e" "delivery_ok ob"
    using inv ob(1) by (auto simp: system_inv_def docs_ok_def)
  have cur: "published_revision (st_cursors s k) = -1" for k
    using ex_cursors [OF c(1)] by (simp add: published_revision_def)
  then have ns: "\<not> settled ob" using in_order [OF inv run] ob by auto
  have "ob_lease_expires_at ob = None"
    using c(1) ob(1) by (auto simp: workflow_create_def bindr_eq_Inr created_store_def Let_def ex_store_def
        empty_store_def build_outbox_def store_create_def validate_outbox_event_iff require_eq_Inr
        split: if_splits option.splits)
  then have "claimable s (''org'', event_id (ob_event ob)) (ob_available_at ob) ob"
    using ob docs ns cur by (simp add: claimable_def cursor_of_def)
  then show ?thesis using sys run ob by blast
qed

section \<open>Delivery\<close>

text \<open>
  C11: Events of a run are delivered in order and without gaps: in every reachable state of the
  workflow and any number of publishers, the published or dead-lettered events of a run are exactly
  those with a revision up to its delivery cursor, which lies between -1 and the run's revision.
\<close>
theorem delivery_in_order:
  assumes "system_reachable sha fmt policy controls (s, C)" "st_runs s (org, i) = Some r"
  shows "-1 \<le> published_revision (st_cursors s (org, i)) \<and> published_revision (st_cursors s (org, i)) \<le> run_revision r
    \<and> (\<forall>e ob. st_outbox s (org, e) = Some ob \<and> event_run_id (ob_event ob) = i \<longrightarrow>
         (settled ob \<longleftrightarrow> event_revision (ob_event ob) \<le> published_revision (st_cursors s (org, i))))"
  by (rule in_order [OF system_reachable_inv [OF assms(1)] assms(2)])

theorem delivery_in_order_witness:
  "\<exists>(s :: run_store) e ob. st_outbox s (''org'', e) = Some ob \<and> settled ob
     \<and> published_revision (st_cursors s (''org'', ''run'')) = 0"
proof -
  from ex_claimable obtain s ob where
    s: "system_reachable ex_sha ex_fmt None (Map.empty((''org'', ''key'', ''ctl'') \<mapsto> ex_version)) (s, {})"
    "st_runs s (''org'', ''run'') = Some ex_run" "claimable s (''org'', event_id (ob_event ob)) (ob_available_at ob) ob"
    "event_run_id (ob_event ob) = ''run''" "event_revision (ob_event ob) = 0" by blast
  note inv = system_reachable_inv [OF s(1)]
  let ?path = "(''org'', event_id (ob_event ob))" and ?t = "ob_available_at ob"
  let ?l = "leased ob ''pub'' (?t + 60)"
  let ?c = "\<lparr>claim_path = ?path, claim_outbox = ?l\<rparr>"
  let ?s1 = "s\<lparr>st_outbox := (st_outbox s)(?path \<mapsto> ?l)\<rparr>"
  have docs: "docs_ok s" using inv by (simp add: system_inv_def)
  have own: "identifier_ok ''pub''" by code_simp
  have cl: "claim_one s ?path ''pub'' ?t 60 = Inr (Some ?c, ?s1)"
    using claim_one_intro [OF docs s(3)] by simp
  have ob: "outbox_event_fields_ok ob" "delivery_ok ob" "\<not> settled ob" "event_organisation_id (ob_event ob) = ''org''"
    using docs s(3) by (auto simp: claimable_def docs_ok_def)
  note lf = leased_facts [OF ob(1,2,3) own, of "?t + 60"]
  have cur: "published_revision (st_cursors s (''org'', ''run'')) = -1"
    using s(3,4,5) ob(4) by (simp add: claimable_def cursor_of_def cursor_key_def)
  have mp: "mark_published ?c ''pub'' ''m1'' ?t ?s1
      = Inr (settle_store ?s1 ?c (published_doc ?l ''m1'' ?t)
          (delivered_cursor (ob_event ?l) (Some ''m1'') (Some ?t) None None))" (is "_ = Inr ?s2")
    unfolding mark_published_iff
    using lf ob s(4,5) cur
    by (auto simp: claim_segments_def claim_cursor_def segments_def cursor_key_def settled_def
        outbox_event_fields_ok_def run_event_fields_ok_def leased_def)
  have "system_step ex_sha ex_fmt None (s, {}) (?s1, insert ?c {})" by (rule sys_claim [OF cl own])
  moreover have "system_step ex_sha ex_fmt None (?s1, insert ?c {}) (?s2, insert ?c {})"
    by (rule sys_published [OF _ mp]) (simp_all add: text_between_def)
  ultimately have r2: "system_reachable ex_sha ex_fmt None (Map.empty((''org'', ''key'', ''ctl'') \<mapsto> ex_version)) (?s2, insert ?c {})"
    using s(1) unfolding system_reachable_def by (blast intro: sys_step)
  have doc2: "st_outbox ?s2 ?path = Some (published_doc ?l ''m1'' ?t)" by (simp add: settle_store_def)
  have ev2: "event_run_id (ob_event (published_doc ?l ''m1'' ?t)) = ''run''"
    "event_revision (ob_event (published_doc ?l ''m1'' ?t)) = 0"
    using s(4,5) by (simp_all add: published_doc_def leased_def)
  have cur2: "published_revision (st_cursors ?s2 (''org'', ''run'')) = 0"
    using s(4,5) ob(4) lf(1)
    by (simp add: settle_store_def claim_cursor_def cursor_key_def published_revision_def)
  have run2: "st_runs ?s2 (''org'', ''run'') = Some ex_run" using s(2) by (simp add: settle_store_def)
  from delivery_in_order [OF r2 run2] doc2 ev2 cur2 have "settled (published_doc ?l ''m1'' ?t)" by auto
  then show ?thesis using doc2 cur2 by blast
qed

text \<open>
  An event is leased to one publisher at a time: a claim succeeds only on the next unsettled
  event of its run whose lease is absent or expired, and from then on every attempt of another
  owner to publish it, dead-letter it or put it back fails.
\<close>
theorem claims_are_exclusive:
  assumes "claim_one s path owner now duration = Inr (Some c, s')" "owner' \<noteq> owner" "claim_path d = path"
  shows "(\<exists>ob. claimable s path now ob)
    \<and> \<not> is_ok (mark_published d owner' mid t s') \<and> \<not> is_ok (mark_dead_letter d owner' reason t s')
    \<and> \<not> is_ok (mark_failed d owner' reason t s')"
  using stale_publisher [OF assms(1-3)] assms(1) by (auto elim: claim_one_Some)

theorem claims_are_exclusive_witness:
  "\<exists>s c. \<not> is_ok (mark_published c ''late'' ''m1'' 5 s)"
proof -
  from ex_claimable obtain s ob where
    s: "system_reachable ex_sha ex_fmt None (Map.empty((''org'', ''key'', ''ctl'') \<mapsto> ex_version)) (s, {})"
    "claimable s (''org'', event_id (ob_event ob)) (ob_available_at ob) ob" by blast
  have "docs_ok s" using system_reachable_inv [OF s(1)] by (simp add: system_inv_def)
  note cl = claim_one_intro [OF this s(2), of "''pub''" 60]
  have "''late'' \<noteq> ''pub''" by simp
  from claims_are_exclusive [OF cl this] show ?thesis by (metis outbox_claim.select_convs(1))
qed

section \<open>The publisher\<close>

text \<open>
  C35: Draining keeps the delivery invariant whatever the transport does, processes at most
  \<open>max_events\<close> events, and accounts for each claimed event exactly once: published, failed or
  dead-lettered.
\<close>
theorem drain_accounts_for_every_claim:
  assumes "system_reachable sha fmt policy controls (s, C)"
    and "make_publisher p = Inr p" "identifier_ok (pub_owner p)"
    and "\<And>k e mid. transport k e = Inr mid \<Longrightarrow> text_between 1 256 mid"
    and "drain (firestore_outbox keys) p transport clock max_events (s, C) = (res, x)"
  shows "system_inv x \<and> (case res of Inl e \<Rightarrow> True | Inr out \<Rightarrow> sum_claimed out \<le> max_events
     \<and> sum_claimed out = sum_published out + sum_failed out + sum_dead_lettered out)"
proof (cases "max_events < 1")
  case True
  then show ?thesis using assms(5) system_reachable_inv [OF assms(1)] by (auto simp: drain_def)
next
  case False
  have inv: "system_inv (s, C) \<and> identifier_ok (pub_owner p)"
    using system_reachable_inv [OF assms(1)] assms(3) by simp
  have b: "1 \<le> pub_batch_size p" using assms(2) by (auto simp: make_publisher_def result_iff)
  have d: "drain_loop (firestore_outbox keys) p transport clock 0 max_events
             \<lparr>sum_claimed = 0, sum_published = 0, sum_failed = 0, sum_dead_lettered = 0\<rparr> (s, C) = (res, x)"
    using assms(5) False by (simp add: drain_def)
  have "(system_inv x \<and> identifier_ok (pub_owner p)) \<and> (\<forall>out. res = Inr out \<longrightarrow> sum_claimed out \<le> max_events
     \<and> sum_claimed out = sum_published out + sum_failed out + sum_dead_lettered out)"
    by (rule firestore.drain_loop_keeps [OF inv refl b _ d]) (use assms(4) in simp_all)
  then show ?thesis by (cases res) auto
qed

definition ex_publisher :: publisher where
  "ex_publisher =
     \<lparr>pub_owner = ''pub'', pub_lease_duration = 60, pub_batch_size = 20, pub_retry_base = 5,
      pub_retry_max = 900, pub_maximum_attempts = 10\<rparr>"

lemma ex_publisher_ok: "make_publisher ex_publisher = Inr ex_publisher" "identifier_ok (pub_owner ex_publisher)"
  by code_simp+

theorem drain_accounts_for_every_claim_witness:
  "\<exists>s keys res x. drain (firestore_outbox keys) ex_publisher (\<lambda>k e. Inr ''m1'') (\<lambda>k. 5) 7 (s, {}) = (res, x)
     \<and> system_inv x \<and> (case res of Inl e \<Rightarrow> True | Inr out \<Rightarrow> sum_claimed out \<le> 7)"
proof -
  from ex_claimable obtain s ob where
    s: "system_reachable ex_sha ex_fmt None (Map.empty((''org'', ''key'', ''ctl'') \<mapsto> ex_version)) (s, {})"
    "claimable s (''org'', event_id (ob_event ob)) (ob_available_at ob) ob" by blast
  obtain res x where d: "drain (firestore_outbox [(''org'', event_id (ob_event ob))]) ex_publisher
      (\<lambda>k e. Inr ''m1'') (\<lambda>k. 5) 7 (s, {}) = (res, x)"
    by (cases "drain (firestore_outbox [(''org'', event_id (ob_event ob))]) ex_publisher
      (\<lambda>k e. Inr ''m1'') (\<lambda>k. 5) 7 (s, {})")
  have "system_inv x \<and> (case res of Inl e \<Rightarrow> True | Inr out \<Rightarrow> sum_claimed out \<le> 7
     \<and> sum_claimed out = sum_published out + sum_failed out + sum_dead_lettered out)"
    by (rule drain_accounts_for_every_claim [OF s(1) ex_publisher_ok _ d]) (auto simp: text_between_def)
  then show ?thesis using d by (intro exI conjI) (auto split: sum.splits)
qed

text \<open>
  The delay before a retry stays between the base and the maximum the publisher was built with,
  for any number of attempts, and never shrinks from one attempt to the next.
\<close>
theorem backoff_bounded:
  assumes "make_publisher p = Inr q"
  shows "pub_retry_base p \<le> backoff p attempts \<and> backoff p attempts \<le> pub_retry_max p
    \<and> 0 < backoff p attempts \<and> backoff p attempts \<le> backoff p (attempts + 1)"
proof -
  have b: "0 < pub_retry_base p" "pub_retry_base p \<le> pub_retry_max p"
    using assms by (auto simp: make_publisher_def result_iff)
  have one: "(1::int) \<le> 2 ^ n" for n by simp
  have ge: "pub_retry_base p \<le> pub_retry_base p * 2 ^ n" for n
    using mult_left_mono [OF one [of n], of "pub_retry_base p"] b(1) by simp
  have "(2::int) ^ nat (min (max (attempts - 1) 0) 16) \<le> 2 ^ nat (min (max (attempts + 1 - 1) 0) 16)"
    by (intro power_increasing) auto
  then have "pub_retry_base p * 2 ^ nat (min (max (attempts - 1) 0) 16)
      \<le> pub_retry_base p * 2 ^ nat (min (max (attempts + 1 - 1) 0) 16)"
    using b(1) by (intro mult_left_mono) auto
  then have "backoff p attempts \<le> backoff p (attempts + 1)" unfolding backoff_def by (intro min.mono) auto
  moreover have "pub_retry_base p \<le> backoff p attempts" using ge b by (simp add: backoff_def)
  moreover have "backoff p attempts \<le> pub_retry_max p" by (simp add: backoff_def)
  ultimately show ?thesis using b by linarith
qed

theorem backoff_bounded_witness: "5 \<le> backoff ex_publisher 3 \<and> backoff ex_publisher 3 \<le> 900"
  using backoff_bounded [OF ex_publisher_ok(1), of 3] by (simp add: ex_publisher_def)

section \<open>Starvation\<close>

text \<open>
  Dead letters starve the outbox: they stay unpublished and due for ever, so they keep their
  place at the head of the query; once they fill its window, a claim returns nothing and changes
  nothing, however many deliverable events wait behind them.
\<close>
theorem dead_letters_starve_delivery:
  assumes "docs_ok s" "0 < limit"
    and "\<forall>x \<in> set (claim_query s keys now limit). ob_dead_lettered_at (snd x) \<noteq> None"
  shows "outbox_claims keys owner now duration limit s = (Inr [], s)"
  by (rule starved [OF assms])

text \<open>Sixty-four dead letters and one event that is next for its run.\<close>

definition ex_event :: "string \<Rightarrow> string \<Rightarrow> run_event" where
  "ex_event e i =
     \<lparr>event_id = e, event_organisation_id = ''org'', event_run_id = i, event_credential_id = ''key'',
      event_kind_of = RUN_CREATED, event_revision = 0, event_stage = TRIGGER, event_status = PENDING,
      event_actor_id = ''user'', event_occurred_at = 1, event_payload = []\<rparr>"

definition ex_outbox :: "string \<Rightarrow> string \<Rightarrow> int \<Rightarrow> int option \<Rightarrow> outbox_event" where
  "ex_outbox e i t dead =
     \<lparr>ob_event = ex_event e i, ob_available_at = t, ob_attempts = 10, ob_lease_owner = None,
      ob_lease_expires_at = None, ob_published_at = None, ob_publisher_message_id = None,
      ob_dead_lettered_at = dead, ob_dead_letter_reason = map_option (\<lambda>_. ''rejected'') dead,
      ob_last_error = None\<rparr>"

definition ex_dead_key :: "nat \<Rightarrow> string" where
  "ex_dead_key n = ''evt'' @ replicate n (CHR ''a'')"

definition ex_starved :: run_store where
  "ex_starved = (empty_store Map.empty)\<lparr>st_outbox := (\<lambda>(org, e).
     if org \<noteq> ''org'' then None
     else if e = ''live'' then Some (ex_outbox ''live'' ''run_live'' 2 None)
     else if e \<in> ex_dead_key ` {..<64} then Some (ex_outbox e ''run_dead'' 1 (Some 1))
     else None)\<rparr>"

definition ex_keys :: "(string \<times> string) list" where
  "ex_keys = map (\<lambda>n. (''org'', ex_dead_key n)) [0..<64] @ [(''org'', ''live'')]"

lemma ex_dead_key_ok: "n < 64 \<Longrightarrow> identifier_ok (ex_dead_key n)" "ex_dead_key n \<noteq> ''live''"
proof -
  have "is_lower (CHR ''e'')" "is_lower (CHR ''v'')" "is_lower (CHR ''t'')" "is_lower (CHR ''a'')" by code_simp+
  then show "n < 64 \<Longrightarrow> identifier_ok (ex_dead_key n)"
    by (simp add: ex_dead_key_def identifier_ok_def list_all_iff)
  show "ex_dead_key n \<noteq> ''live''" by (simp add: ex_dead_key_def)
qed

lemma ex_starved_docs: "docs_ok ex_starved"
proof -
  have ids: "identifier_ok ''org''" "identifier_ok ''key''" "identifier_ok ''user''" "identifier_ok ''live''"
    "identifier_ok ''run_live''" "identifier_ok ''run_dead''" by code_simp+
  show ?thesis using ids ex_dead_key_ok
    by (auto simp: docs_ok_def ex_starved_def ex_outbox_def ex_event_def outbox_event_fields_ok_def
        run_event_fields_ok_def delivery_ok_def text_between_def split: if_splits)
qed

lemma ex_starved_query: "claim_query ex_starved ex_keys 5 1
    = map (\<lambda>n. ((''org'', ex_dead_key n), ex_outbox (ex_dead_key n) ''run_dead'' 1 (Some 1))) [0..<64]"
proof -
  let ?d = "\<lambda>n. ((''org'', ex_dead_key n), ex_outbox (ex_dead_key n) ''run_dead'' 1 (Some 1))"
  let ?l = "((''org'', ''live''), ex_outbox ''live'' ''run_live'' 2 None)"
  have look: "st_outbox ex_starved (''org'', ex_dead_key n) = Some (ex_outbox (ex_dead_key n) ''run_dead'' 1 (Some 1))"
    if "n < 64" for n using that ex_dead_key_ok(2) [of n] by (auto simp: ex_starved_def)
  have live: "st_outbox ex_starved (''org'', ''live'') = Some (ex_outbox ''live'' ''run_live'' 2 None)"
    by (simp add: ex_starved_def)
  have "map (\<lambda>k. (k, the (st_outbox ex_starved k))) (filter (\<lambda>k. st_outbox ex_starved k \<noteq> None) ex_keys)
      = map ?d [0..<64] @ [?l]"
    using look live by (simp add: ex_keys_def filter_map comp_def)
  moreover have "filter (\<lambda>x. due 5 (snd x)) (map ?d [0..<64] @ [?l]) = map ?d [0..<64] @ [?l]"
    by (simp add: filter_map comp_def due_def ex_outbox_def)
  moreover have "sort_key (\<lambda>x. ob_available_at (snd x)) (map ?d [0..<64] @ [?l]) = map ?d [0..<64] @ [?l]"
    by (rule sort_key_id_if_sorted) (simp add: sorted_append comp_def ex_outbox_def sorted_map)
  ultimately show ?thesis unfolding claim_query_def by (simp add: query_limit_def)
qed

theorem dead_letters_starve_delivery_witness:
  "claimable ex_starved (''org'', ''live'') 5 (ex_outbox ''live'' ''run_live'' 2 None)
   \<and> (''org'', ''live'') \<in> set ex_keys \<and> outbox_claims ex_keys ''pub'' 5 60 1 ex_starved = (Inr [], ex_starved)"
proof (intro conjI)
  show "outbox_claims ex_keys ''pub'' 5 60 1 ex_starved = (Inr [], ex_starved)"
  proof (rule dead_letters_starve_delivery [OF ex_starved_docs])
    show "\<forall>x \<in> set (claim_query ex_starved ex_keys 5 1). ob_dead_lettered_at (snd x) \<noteq> None"
      unfolding ex_starved_query by (auto simp: ex_outbox_def)
  qed simp
  show "claimable ex_starved (''org'', ''live'') 5 (ex_outbox ''live'' ''run_live'' 2 None)"
    by (simp add: claimable_def ex_starved_def ex_outbox_def ex_event_def settled_def cursor_of_def
        empty_store_def published_revision_def)
qed (simp add: ex_keys_def)

end
