(* ===== verification/Json_Facts.thy ===== *)
theory Json_Facts imports Digest begin

text \<open>
  The rendering of \<open>json.dumps\<close> loses nothing: two JSON values with the same text are the same
  value, up to the order in which the entries of their mappings were inserted. The digests of
  packages/policy and the hash chain of server/core/audit both rest on it.
\<close>

section \<open>Numbers\<close>

lemma digit_char_code: "n < 10 \<Longrightarrow> char_code (digit_char n) = 48 + n"
  by (simp add: digit_char_def char_code_def)

lemma nat_text_digits: "list_all is_digit (nat_text n) \<and> nat_text n \<noteq> []"
proof (induction n rule: nat_text.induct)
  case (1 n)
  have "is_digit (digit_char (n mod 10))" "n < 10 \<Longrightarrow> is_digit (digit_char n)"
    by (simp_all add: is_digit_def digit_char_code)
  then show ?case using 1 by (subst (1 2) nat_text.simps) auto
qed

definition digits_value :: "string \<Rightarrow> nat" where
  "digits_value s = foldl (\<lambda>v c. 10 * v + (char_code c - 48)) 0 s"

lemma digits_value_text: "digits_value (nat_text n) = n"
proof (induction n rule: nat_text.induct)
  case (1 n)
  show ?case
  proof (cases "n < 10")
    case True
    then show ?thesis by (subst nat_text.simps) (simp add: digits_value_def digit_char_code)
  next
    case False
    have "digits_value (nat_text (n div 10) @ [digit_char (n mod 10)]) = 10 * (n div 10) + n mod 10"
      using 1 [OF False] by (simp add: digits_value_def digit_char_code)
    then show ?thesis using False by (subst nat_text.simps) simp
  qed
qed

lemma nat_text_inject: "nat_text m = nat_text n \<Longrightarrow> m = n"
  using digits_value_text by metis

definition number_char :: "char \<Rightarrow> bool" where
  "number_char c \<longleftrightarrow> is_digit c \<or> c = CHR ''-''"

lemma minus_no_digit: "\<not> is_digit (CHR ''-'')"
  by (simp add: is_digit_def char_code_def)

lemma int_text_chars: "list_all number_char (int_text i)" "int_text i \<noteq> []"
  using nat_text_digits by (auto simp: int_text_def number_char_def list_all_iff)

lemma int_text_inject:
  assumes eq: "int_text i = int_text j"
  shows "i = j"
proof -
  have hd_nat: "hd (nat_text n) \<noteq> CHR ''-''" for n
    using nat_text_digits [of n] minus_no_digit by (cases "nat_text n") auto
  have no: "CHR ''-'' # xs \<noteq> nat_text n" for xs n using hd_nat [of n] by (metis list.sel(1))
  show ?thesis
  proof (cases "i < 0"; cases "j < 0")
    assume "i < 0" "j < 0"
    then show ?thesis using eq nat_text_inject [of "nat (- i)" "nat (- j)"] by (simp add: int_text_def)
  next
    assume "\<not> i < 0" "\<not> j < 0"
    then show ?thesis using eq nat_text_inject [of "nat i" "nat j"] by (simp add: int_text_def)
  qed (use eq no in \<open>auto simp: int_text_def dest: sym\<close>)
qed

section \<open>What may follow a value\<close>

definition stops :: "string \<Rightarrow> bool" where
  "stops r \<longleftrightarrow> r = [] \<or> hd r \<in> {CHR '','', CHR '']'', CHR ''}''}"

lemma stops_Cons [simp]: "stops (CHR '','' # r)" "stops (CHR '']'' # r)" "stops (CHR ''}'' # r)" "stops []"
  by (simp_all add: stops_def)

lemma stops_no_number: "stops (c # r) \<Longrightarrow> \<not> number_char c"
  by (auto simp: stops_def number_char_def is_digit_def char_code_def)

lemma number_prefix: "stops r \<Longrightarrow> takeWhile number_char (int_text i @ r) = int_text i"
  using int_text_chars(1) [of i] stops_no_number
  by (cases r) (auto simp: takeWhile_append list_all_iff takeWhile_eq_all_conv)

lemma int_text_prefix:
  assumes "int_text i @ r = int_text j @ s" "stops r" "stops s"
  shows "i = j \<and> r = s"
proof -
  have "int_text i = int_text j" using number_prefix assms by metis
  then show ?thesis using assms(1) int_text_inject by simp
qed

section \<open>Strings\<close>

definition hex_value :: "char \<Rightarrow> nat" where
  "hex_value c = (if char_code c < 58 then char_code c - 48 else char_code c - 87)"

text \<open>Reading back one escaped character.\<close>

fun unescape :: "string \<Rightarrow> char \<times> string" where
  "unescape [] = (CHR 0x00, [])"
| "unescape (c # r) =
     (if c \<noteq> char_of (92::nat) then (c, r)
      else case r of [] \<Rightarrow> (c, r)
        | d # r1 \<Rightarrow>
            if d = CHR ''u''
            then (char_of (16 * hex_value (r1 ! 2) + hex_value (r1 ! 3)), drop 4 r1)
            else (if d = CHR ''n'' then CHR 0x0A else if d = CHR ''r'' then CHR 0x0D
                  else if d = CHR ''t'' then CHR 0x09 else if d = CHR ''f'' then CHR 0x0C
                  else if d = CHR ''b'' then CHR 0x08 else d, r1))"

lemma char_code_less: "char_code c < 256"
  by (simp add: char_code_def)

lemma char_of_code: "char_of (char_code c) = c"
  by (simp add: char_code_def)

lemma unescape_plain:
  assumes "32 \<le> char_code c" "char_code c \<noteq> 34" "char_code c \<noteq> 92"
  shows "unescape (escape_char c @ r) = (c, r)"
  using assms by (auto simp: escape_char_def char_code_def)

lemma hex_value_digit: "n < 16 \<Longrightarrow> hex_value (hex_digit n) = n"
  by (simp add: hex_value_def hex_digit_def char_code_def)

lemma char_code_iff: "char_code c = n \<longleftrightarrow> c = char_of n" if "n < 256" for c :: char and n :: nat
  using that by (auto simp: char_code_def)

lemma short_chars:
  "char_of (34::nat) = CHR 0x22" "char_of (92::nat) = CHR 0x5C" "char_of (10::nat) = CHR 0x0A"
  "char_of (13::nat) = CHR 0x0D" "char_of (9::nat) = CHR 0x09" "char_of (12::nat) = CHR 0x0C"
  "char_of (8::nat) = CHR 0x08"
  by code_simp+

lemma unescape_short:
  assumes "char_code c \<in> {34, 92, 10, 13, 9, 12, 8}"
  shows "unescape (escape_char c @ r) = (c, r)"
proof -
  have "c \<in> {char_of (34::nat), char_of (92::nat), char_of (10::nat), char_of (13::nat), char_of (9::nat),
      char_of (12::nat), char_of (8::nat)}"
    using assms by (simp add: char_code_iff)
  then show ?thesis by (elim insertE) (simp_all add: escape_char_def char_code_def short_chars)
qed

lemma unescape_control:
  assumes "char_code c < 32" "char_code c \<notin> {34, 92, 10, 13, 9, 12, 8}"
  shows "unescape (escape_char c @ r) = (c, r)"
proof -
  have "escape_char c = char_of (92::nat) # ''u00'' @ [hex_digit (char_code c div 16), hex_digit (char_code c mod 16)]"
    using assms by (simp add: escape_char_def)
  moreover have "char_of (16 * (char_code c div 16) + char_code c mod 16) = c"
    by (simp add: char_of_code)
  moreover have "char_code c div 16 < 16" "char_code c mod 16 < 16" using assms(1) by auto
  ultimately show ?thesis by (simp add: hex_value_digit numeral_2_eq_2 numeral_3_eq_3)
qed

lemma unescape_escape: "unescape (escape_char c @ r) = (c, r)"
  using unescape_plain [of c r] unescape_short [of c r] unescape_control [of c r]
  by (cases "char_code c < 32"; cases "char_code c \<in> {34, 92, 10, 13, 9, 12, 8}") auto

lemma escape_head: "escape_char c \<noteq> [] \<and> hd (escape_char c) \<noteq> CHR 0x22"
  by (auto simp: escape_char_def short_chars char_code_def)

lemma escape_head_Cons: "escape_char c @ r \<noteq> CHR 0x22 # s"
  using escape_head [of c] by (cases "escape_char c") auto

lemma escaped_prefix:
  "concat (map escape_char s) @ CHR 0x22 # r = concat (map escape_char t) @ CHR 0x22 # u \<Longrightarrow> s = t \<and> r = u"
proof (induction s arbitrary: t)
  case Nil
  then show ?case
  proof (cases t)
    case (Cons d t')
    then show ?thesis using Nil escape_head_Cons [of d "concat (map escape_char t') @ CHR 0x22 # u" r] by simp
  qed simp
next
  case (Cons c s)
  show ?case
  proof (cases t)
    case Nil
    then show ?thesis using Cons.prems escape_head_Cons by force
  next
    case (Cons d t')
    with Cons.prems have eq: "escape_char c @ (concat (map escape_char s) @ CHR 0x22 # r)
        = escape_char d @ (concat (map escape_char t') @ CHR 0x22 # u)" by simp
    then have "c = d \<and> concat (map escape_char s) @ CHR 0x22 # r = concat (map escape_char t') @ CHR 0x22 # u"
      using unescape_escape by (metis prod.inject)
    then show ?thesis using Cons.IH [of t'] Cons by simp
  qed
qed

lemma quote_text_prefix: "quote_text s @ r = quote_text t @ u \<Longrightarrow> s = t \<and> r = u"
  using escaped_prefix [of s r t u] by (simp add: quote_text_def short_chars)

lemma quote_text_head: "quote_text s = CHR 0x22 # tl (quote_text s)"
  by (simp add: quote_text_def short_chars)

section \<open>Sequences\<close>

lemma join_Cons: "join sep (x # xs) = x @ (if xs = [] then [] else sep @ join sep xs)"
  by (cases xs) simp_all

text \<open>A sequence closed by a bracket is read back if its elements are.\<close>

lemma join_prefix:
  assumes "\<And>x y r s. x \<in> set xs \<Longrightarrow> y \<in> set ys \<Longrightarrow> stops r \<Longrightarrow> stops s \<Longrightarrow> f x @ r = f y @ s \<Longrightarrow> x = y \<and> r = s"
    and "c \<in> {CHR '']'', CHR ''}''}"
    and "join '','' (map f xs) @ c # r = join '','' (map f ys) @ c # s"
    and heads: "\<And>x r s. f x @ r \<noteq> c # s"
  shows "xs = ys \<and> r = s"
  using assms(1,3)
proof (induction xs arbitrary: ys)
  case Nil
  then show ?case using heads by (cases ys) (force simp: join_Cons eq_commute)+
next
  case (Cons x xs)
  show ?case
  proof (cases ys)
    case Nil
    then show ?thesis using Cons.prems(2) heads by (force simp: join_Cons)
  next
    case ys: (Cons y ys')
    let ?r = "if xs = [] then c # r else CHR '','' # join '','' (map f xs) @ c # r"
    let ?s = "if ys' = [] then c # s else CHR '','' # join '','' (map f ys') @ c # s"
    have "f x @ ?r = f y @ ?s" using Cons.prems(2) ys by (auto simp: join_Cons)
    moreover have "stops ?r" "stops ?s" using assms(2) by auto
    ultimately have xy: "x = y" "?r = ?s" using Cons.prems(1) [of x y ?r ?s] ys by auto
    have c: "c \<noteq> CHR '',''" using assms(2) by auto
    have "join '','' (map f xs) @ c # r = join '','' (map f ys') @ c # s"
      using xy(2) c by (auto split: if_splits)
    moreover have "\<And>x y r s. x \<in> set xs \<Longrightarrow> y \<in> set ys' \<Longrightarrow> stops r \<Longrightarrow> stops s \<Longrightarrow> f x @ r = f y @ s \<Longrightarrow> x = y \<and> r = s"
      using Cons.prems(1) ys by (meson list.set_intros(2))
    ultimately have "xs = ys' \<and> r = s" by (rule Cons.IH [rotated])
    then show ?thesis using xy(1) ys by simp
  qed
qed

section \<open>Values\<close>

text \<open>JSON values whose mappings are sorted by key, and the sorted form of a value.\<close>

fun sorted_json :: "json \<Rightarrow> bool" where
  "sorted_json (JList xs) = list_all sorted_json xs"
| "sorted_json (JDict kvs) = (sorted (map fst kvs) \<and> list_all (\<lambda>kv. sorted_json (snd kv)) kvs)"
| "sorted_json j = True"

fun sort_json :: "json \<Rightarrow> json" where
  "sort_json (JList xs) = JList (map sort_json xs)"
| "sort_json (JDict kvs) = JDict (sort_key fst (map (\<lambda>kv. (fst kv, sort_json (snd kv))) kvs))"
| "sort_json j = j"

definition entry_text :: "string \<times> json \<Rightarrow> string" where
  "entry_text kv = quote_text (fst kv) @ '':'' @ json_text (snd kv)"

lemma sort_key_map: "sort_key f (map g xs) = map g (sort_key (f \<circ> g) xs)"
proof -
  have ins: "insort_key f (g x) (map g ys) = map g (insort_key (\<lambda>a. f (g a)) x ys)" for x ys
    by (induction ys) auto
  show ?thesis unfolding comp_def by (induction xs) (simp_all add: ins)
qed

lemma json_text_entries: "json_text (JDict kvs) = ''{'' @ join '','' (map entry_text (sort_key fst kvs)) @ ''}''"
proof -
  have "sort_key fst (map (\<lambda>(k, v). (k, json_text v)) kvs) = map (\<lambda>(k, v). (k, json_text v)) (sort_key fst kvs)"
    by (simp add: sort_key_map comp_def case_prod_beta)
  then show ?thesis by (simp add: entry_text_def [abs_def] case_prod_beta comp_def)
qed

lemma json_text_sorted: "json_text (JDict kvs) = ''{'' @ join '','' (map entry_text kvs) @ ''}''"
  if "sorted (map fst kvs)"
  using that unfolding json_text_entries by (simp add: sort_key_id_if_sorted)

lemma json_text_sort: "json_text (sort_json j) = json_text j"
proof (induction j rule: sort_json.induct)
  case (2 kvs)
  let ?g = "\<lambda>kv. (fst kv, sort_json (snd kv))"
  have s: "sort_key fst (map ?g kvs) = map ?g (sort_key fst kvs)"
    by (simp add: sort_key_map comp_def)
  have "entry_text (?g kv) = entry_text kv" if "kv \<in> set kvs" for kv
    using 2 [OF that] by (simp add: entry_text_def)
  then have m: "map entry_text (map ?g (sort_key fst kvs)) = map entry_text (sort_key fst kvs)" by simp
  have "sort_key fst (map ?g (sort_key fst kvs)) = map ?g (sort_key fst kvs)"
    by (rule sort_key_id_if_sorted) (simp add: comp_def)
  then show ?case unfolding sort_json.simps json_text_entries s by (simp only: m)
qed (simp_all add: comp_def cong: map_cong)

lemma sorted_json_sort: "sorted_json (sort_json j)"
  by (induction j rule: sort_json.induct) (auto simp: list_all_iff)

text \<open>The first character of a rendered value tells its kind.\<close>

definition head_class :: "json \<Rightarrow> char set" where
  "head_class j = (case j of JNull \<Rightarrow> {CHR ''n''} | JBool b \<Rightarrow> {CHR ''t'', CHR ''f''} | JInt i \<Rightarrow> Collect number_char
     | JStr s \<Rightarrow> {CHR 0x22} | JList xs \<Rightarrow> {CHR ''[''} | JDict kvs \<Rightarrow> {CHR ''{''})"

lemma json_text_head: "json_text j \<noteq> [] \<and> hd (json_text j) \<in> head_class j"
proof (cases j)
  case (JInt i)
  have "hd (int_text i) \<in> set (int_text i)" using int_text_chars(2) by simp
  then show ?thesis using JInt int_text_chars [of i] by (simp add: head_class_def list_all_iff)
qed (simp_all add: head_class_def quote_text_def short_chars)

lemma json_text_no_close: "json_text j @ r \<noteq> CHR '']'' # s" "json_text j @ r \<noteq> CHR ''}'' # s"
  using json_text_head [of j]
  by (cases "json_text j"; cases j; auto simp: head_class_def number_char_def is_digit_def char_code_def)+

lemma json_text_same_kind:
  assumes "json_text i @ r = json_text j @ s"
  shows "\<exists>c. c \<in> head_class i \<and> c \<in> head_class j"
  using json_text_head [of i] json_text_head [of j] assms
  by (metis hd_append2)

text \<open>Values of the same kind, one constructor at a time.\<close>

lemma same_kind_cases:
  assumes "json_text i @ r = json_text j @ s"
  shows "i = JNull \<Longrightarrow> j = JNull" "i = JBool b \<Longrightarrow> \<exists>b. j = JBool b" "i = JInt n \<Longrightarrow> \<exists>n. j = JInt n"
    "i = JStr t \<Longrightarrow> \<exists>t. j = JStr t" "i = JList xs \<Longrightarrow> \<exists>xs. j = JList xs" "i = JDict kvs \<Longrightarrow> \<exists>kvs. j = JDict kvs"
  using json_text_same_kind [OF assms]
  by (cases j; auto simp: head_class_def number_char_def is_digit_def char_code_def)+

lemma json_text_prefix:
  "sorted_json j \<Longrightarrow> sorted_json j' \<Longrightarrow> stops r \<Longrightarrow> stops s \<Longrightarrow> json_text j @ r = json_text j' @ s
     \<Longrightarrow> j = j' \<and> r = s"
proof (induction j arbitrary: j' r s rule: sorted_json.induct [case_names list_value dict_value none_value bool_value int_value str_value])
  case (list_value xs j' r s)
  from same_kind_cases(5) [OF list_value.prems(5)] obtain ys where j': "j' = JList ys" by blast
  have "xs = ys \<and> r = s"
  proof (rule join_prefix [where f = json_text and c = "CHR '']''"])
    show "join '','' (map json_text xs) @ CHR '']'' # r = join '','' (map json_text ys) @ CHR '']'' # s"
      using list_value.prems(5) j' by simp
  qed (use list_value.IH list_value.prems(1,2) j' json_text_no_close in \<open>auto simp: list_all_iff\<close>)
  then show ?case using j' by simp
next
  case (dict_value kvs j' r s)
  from same_kind_cases(6) [OF dict_value.prems(5)] obtain lws where j': "j' = JDict lws" by blast
  have quoted: "entry_text kv @ r \<noteq> CHR ''}'' # s" for kv r s
    unfolding entry_text_def by (subst quote_text_head) simp
  have "kvs = lws \<and> r = s"
  proof (rule join_prefix [where f = entry_text and c = "CHR ''}''"])
    show "join '','' (map entry_text kvs) @ CHR ''}'' # r = join '','' (map entry_text lws) @ CHR ''}'' # s"
      using dict_value.prems(1,2,5) j' json_text_sorted by simp
    fix x y r' s'
    assume xy: "x \<in> set kvs" "y \<in> set lws" "stops r'" "stops s'" "entry_text x @ r' = entry_text y @ s'"
    from xy(5) have "fst x = fst y \<and> '':'' @ json_text (snd x) @ r' = '':'' @ json_text (snd y) @ s'"
      using quote_text_prefix [of "fst x" "'':'' @ json_text (snd x) @ r'" "fst y"] by (simp add: entry_text_def)
    then show "x = y \<and> r' = s'"
      using dict_value.IH [OF xy(1), of "snd y" r' s'] dict_value.prems(1,2) j' xy by (auto simp: list_all_iff prod_eq_iff)
  qed (use quoted in auto)
  then show ?case using j' by simp
next
  case (none_value j' r s)
  with same_kind_cases(1) [OF none_value(5)] show ?case by simp
next
  case (bool_value b j' r s)
  from same_kind_cases(2) [OF bool_value(5)] obtain b' where "j' = JBool b'" by blast
  with bool_value(5) show ?case by (cases b; cases b') simp_all
next
  case (int_value i j' r s)
  from same_kind_cases(3) [OF int_value(5)] obtain n where "j' = JInt n" by blast
  then show ?case using int_value(5) int_text_prefix [OF _ int_value(3,4)] by simp
next
  case (str_value t j' r s)
  from same_kind_cases(4) [OF str_value(5)] obtain u where "j' = JStr u" by blast
  then show ?case using str_value(5) quote_text_prefix [of t r u s] by simp
qed

text \<open>Equal texts come from values that differ at most in the order of their mappings.\<close>

lemma json_text_inject: "json_text i = json_text j \<longleftrightarrow> sort_json i = sort_json j"
proof
  assume "json_text i = json_text j"
  then have "json_text (sort_json i) @ [] = json_text (sort_json j) @ []" by (simp only: json_text_sort)
  from json_text_prefix [OF sorted_json_sort sorted_json_sort _ _ this]
  show "sort_json i = sort_json j" by simp
next
  assume "sort_json i = sort_json j"
  then have "json_text (sort_json i) = json_text (sort_json j)" by simp
  then show "json_text i = json_text j" by (simp only: json_text_sort)
qed

end
