(* ===== verification/Redact.thy ===== *)
theory Redact imports Publisher Json_Facts "HOL-Library.AList" begin

text \<open>
  packages/telemetry/src/telemetry/redact.py: what audit payloads and logs are passed through. The
  patterns of \<open>_SENSITIVE_VALUES\<close> are terms of a small regular-expression type with an
  executable matcher; a character is one of the first 256 code points, for which \<open>\s\<close>,
  \<open>\w\<close> and the case folding of the \<open>re\<close> module are written out.
\<close>

section \<open>Regular expressions\<close>

text \<open>
  One character of a class, a run of at least so many of them, sequence, alternative, and the
  anchors. A position is the text before it, reversed, and the text after it.
\<close>

datatype regex =
    Class "char \<Rightarrow> bool"
  | Many nat "char \<Rightarrow> bool"
  | Then regex regex
  | Or regex regex
  | Empty
  | Boundary
  | At_start
  | At_end

type_synonym position = "string \<times> string"

text \<open>\<open>\w\<close> of a text pattern: letters, digits, the underscore and the Latin-1 letters and numerals.\<close>

definition is_word :: "char \<Rightarrow> bool" where
  "is_word c \<longleftrightarrow> is_lower c \<or> is_upper c \<or> is_digit c \<or> c = CHR ''_''
     \<or> (let n = char_code c in n \<in> {170, 178, 179, 181, 185, 186, 188, 189, 190}
          \<or> 192 \<le> n \<and> n \<noteq> 215 \<and> n \<noteq> 247)"

definition word_before :: "string \<Rightarrow> bool" where
  "word_before s = (case s of [] \<Rightarrow> False | c # _ \<Rightarrow> is_word c)"

fun many :: "(char \<Rightarrow> bool) \<Rightarrow> nat \<Rightarrow> string \<Rightarrow> string \<Rightarrow> position list" where
  "many P n before [] = (if n = 0 then [(before, [])] else [])"
| "many P n before (c # rest) =
     (if n = 0 then [(before, c # rest)] else [])
     @ (if P c then many P (n - 1) (c # before) rest else [])"

fun matches :: "regex \<Rightarrow> position \<Rightarrow> position list" where
  "matches (Class P) (before, rest) =
     (case rest of [] \<Rightarrow> [] | c # r \<Rightarrow> if P c then [(c # before, r)] else [])"
| "matches (Many n P) (before, rest) = many P n before rest"
| "matches (Then r1 r2) p = concat (map (matches r2) (matches r1 p))"
| "matches (Or r1 r2) p = matches r1 p @ matches r2 p"
| "matches Empty p = [p]"
| "matches Boundary (before, rest) =
     (if word_before before \<noteq> word_before rest then [(before, rest)] else [])"
| "matches At_start (before, rest) = (if before = [] then [(before, rest)] else [])"
| "matches At_end (before, rest) = (if rest = [] \<or> rest = [CHR 0x0A] then [(before, rest)] else [])"

text \<open>\<open>pattern.search\<close>: a match from some position.\<close>

definition search :: "regex \<Rightarrow> string \<Rightarrow> bool" where
  "search r s \<longleftrightarrow> list_ex (\<lambda>i. matches r (rev (take i s), drop i s) \<noteq> []) [0..<Suc (length s)]"

text \<open>Literals, as written and with the i flag, and sequences.\<close>

definition lower_char :: "char \<Rightarrow> char" where
  "lower_char c = (if is_upper c then char_of (char_code c + 32) else c)"

fun seq :: "regex list \<Rightarrow> regex" where
  "seq [] = Empty"
| "seq [r] = r"
| "seq (r # s # rs) = Then r (seq (s # rs))"

fun alt :: "regex list \<Rightarrow> regex" where
  "alt [] = Class (\<lambda>_. False)"
| "alt [r] = r"
| "alt (r # s # rs) = Or r (alt (s # rs))"

definition lit :: "string \<Rightarrow> regex" where
  "lit s = seq (map (\<lambda>c. Class (\<lambda>d. d = c)) s)"

definition ilit :: "string \<Rightarrow> regex" where
  "ilit s = seq (map (\<lambda>c. Class (\<lambda>d. lower_char d = c)) s)"

definition alnum_or :: "string \<Rightarrow> char \<Rightarrow> bool" where
  "alnum_or extra c \<longleftrightarrow> is_lower c \<or> is_upper c \<or> is_digit c \<or> c \<in> set extra"

text \<open>\<open>n\<close> characters of a class, and one character outside a set.\<close>

definition exactly :: "nat \<Rightarrow> (char \<Rightarrow> bool) \<Rightarrow> regex" where
  "exactly n P = seq (replicate n (Class P))"

definition SENSITIVE_VALUES :: "regex list" where
  "SENSITIVE_VALUES =
     [seq [At_start, Many 0 is_space, alt [ilit ''bearer'', ilit ''basic''], Many 1 is_space,
        Many 8 (alnum_or ''._~+/=-''), Many 0 is_space, At_end],
      seq [lit ''-----BEGIN '', alt [lit ''RSA '', lit ''EC '', lit ''OPENSSH '', Empty], lit ''PRIVATE KEY-----''],
      seq [Boundary, alt [lit ''AKIA'', lit ''ASIA''], exactly 16 (\<lambda>c. is_digit c \<or> is_upper c), Boundary],
      seq [Boundary, alt [seq [lit ''github_pat_'', Many 40 (alnum_or ''_'')],
        seq [lit ''gh'', Class (\<lambda>c. c \<in> set ''pousr''), lit ''_'', Many 36 (alnum_or '''')]], Boundary],
      seq [Boundary, lit ''sk_live_'', Many 16 (alnum_or ''''), Boundary],
      seq [Boundary, lit ''SG.'', Many 16 (alnum_or ''_-''), lit ''.'', Many 16 (alnum_or ''_-''), Boundary],
      seq [Boundary, Many 16 (alnum_or ''_-''), lit ''.'', Many 16 (alnum_or ''_-''), lit ''.'',
        Many 16 (alnum_or ''_-''), Boundary],
      seq [At_start, Class (\<lambda>c. is_lower (lower_char c)), Many 0 (alnum_or ''+.-''), lit ''://'',
        Many 1 (\<lambda>c. c \<notin> set ''/@:'' \<and> \<not> is_space c), lit '':'', Many 1 (\<lambda>c. c \<notin> set ''/@'' \<and> \<not> is_space c), lit ''@''],
      seq [Class (\<lambda>c. c \<in> set ''?&#''),
        alt (map ilit [''access_token'', ''api_key'', ''authorization'', ''code'', ''password'', ''secret'', ''signature'', ''token'']),
        lit ''='']]"

definition sensitive_value :: "string \<Rightarrow> bool" where
  "sensitive_value s \<longleftrightarrow> list_ex (\<lambda>r. search r s) SENSITIVE_VALUES"

section \<open>Keys\<close>

definition SAFE_KEYS :: "string list" where
  "SAFE_KEYS = [''credential-id'', ''generation-id'', ''secret-reference'']"

definition SENSITIVE_KEYS :: "string list" where
  "SENSITIVE_KEYS = [''authorization'', ''code'', ''cookie'', ''credential'', ''password'', ''private'', ''secret'',
     ''session'', ''state'', ''token'', ''verifier'']"

definition key_char :: "char \<Rightarrow> bool" where
  "key_char c \<longleftrightarrow> is_lower c \<or> is_digit c"

text \<open>The two substitutions of \<open>_sensitive\<close>: a dash before an inner capital, then dashes for the rest.\<close>

fun camel :: "string \<Rightarrow> string" where
  "camel (c # d # r) = c # (if key_char c \<and> is_upper d then CHR ''-'' # camel (d # r) else camel (d # r))"
| "camel s = s"

fun collapse :: "bool \<Rightarrow> string \<Rightarrow> string" where
  "collapse inside [] = []"
| "collapse inside (c # r) =
     (if key_char c then c # collapse False r
      else if inside then collapse True r else CHR ''-'' # collapse True r)"

definition strip_dash :: "string \<Rightarrow> string" where
  "strip_dash s = rev (dropWhile (\<lambda>c. c = CHR ''-'') (rev (dropWhile (\<lambda>c. c = CHR ''-'') s)))"

fun split_dash :: "string \<Rightarrow> string list" where
  "split_dash [] = [[]]"
| "split_dash (c # r) =
     (if c = CHR ''-'' then [] # split_dash r
      else (case split_dash r of [] \<Rightarrow> [[c]] | w # ws \<Rightarrow> (c # w) # ws))"

definition normalised :: "string \<Rightarrow> string" where
  "normalised key = strip_dash (collapse False (map lower_char (camel key)))"

definition sensitive :: "string \<Rightarrow> bool" where
  "sensitive key \<longleftrightarrow>
     (let n = normalised key in
      n \<notin> set SAFE_KEYS \<and> (n = ''api-key'' \<or> list_ex (\<lambda>w. w \<in> set SENSITIVE_KEYS) (split_dash n)))"

section \<open>Redaction\<close>

definition REDACTED :: string where
  "REDACTED = ''[REDACTED]''"

text \<open>A dict display: a later entry replaces an earlier one with its key.\<close>

definition dict_of :: "('k \<times> 'v) list \<Rightarrow> ('k \<times> 'v) list" where
  "dict_of kvs = foldl (\<lambda>d kv. AList.update (fst kv) (snd kv) d) [] kvs"

fun redact :: "pyval \<Rightarrow> pyval" where
  "redact (PyBytes b) = PyStr REDACTED"
| "redact (PyDict kvs) =
     PyDict (dict_of (map (\<lambda>kv. (KeyStr (key_text (fst kv)),
       if sensitive (key_text (fst kv)) then PyStr REDACTED else redact (snd kv))) kvs))"
| "redact (PyList xs) = PyList (map redact xs)"
| "redact (PyStr s) = (if sensitive_value s then PyStr REDACTED else PyStr s)"
| "redact (PyEnum s) = (if sensitive_value s then PyStr REDACTED else PyEnum s)"
| "redact v = v"

section \<open>What redaction leaves\<close>

text \<open>
  \<open>clean v\<close>: no byte string, no text that matches a pattern, and nothing but the mark under a
  sensitive key; sets and time stamps are not looked into.
\<close>

fun clean :: "pyval \<Rightarrow> bool" where
  "clean (PyBytes b) = False"
| "clean (PyDict kvs) =
     (distinct (map fst kvs)
      \<and> list_all (\<lambda>kv. fst kv = KeyStr (key_text (fst kv))
          \<and> (if sensitive (key_text (fst kv)) then snd kv = PyStr REDACTED else clean (snd kv))) kvs)"
| "clean (PyList xs) = list_all clean xs"
| "clean (PyStr s) = (\<not> sensitive_value s)"
| "clean (PyEnum s) = (\<not> sensitive_value s)"
| "clean v = True"

lemma REDACTED_clean: "\<not> sensitive_value REDACTED"
  by code_simp

lemma dict_of_append: "dict_of (kvs @ [kv]) = AList.update (fst kv) (snd kv) (dict_of kvs)"
  by (simp add: dict_of_def)

lemma distinct_dict_of: "distinct (map fst (dict_of kvs))"
  by (induction kvs rule: rev_induct) (simp_all add: dict_of_append distinct_update, simp add: dict_of_def)

lemma set_update: "set (AList.update k v d) \<subseteq> insert (k, v) (set d)"
  by (induction d) auto

lemma set_dict_of: "set (dict_of kvs) \<subseteq> set kvs"
proof (induction kvs rule: rev_induct)
  case Nil
  then show ?case by (simp add: dict_of_def)
next
  case (snoc kv kvs)
  then show ?case using set_update [of "fst kv" "snd kv" "dict_of kvs"] by (auto simp: dict_of_append)
qed

lemma update_new: "k \<notin> fst ` set d \<Longrightarrow> AList.update k v d = d @ [(k, v)]"
  by (induction d) auto

lemma dict_of_distinct: "distinct (map fst kvs) \<Longrightarrow> dict_of kvs = kvs"
proof (induction kvs rule: rev_induct)
  case Nil
  then show ?case by (simp add: dict_of_def)
next
  case (snoc kv kvs)
  then show ?case by (simp add: dict_of_append update_new image_iff)
qed

lemma redact_clean: "clean (redact v)"
proof (induction v rule: redact.induct)
  case (2 kvs)
  let ?g = "\<lambda>kv. (KeyStr (key_text (fst kv)),
       if sensitive (key_text (fst kv)) then PyStr REDACTED else redact (snd kv))"
  have "fst x = KeyStr (key_text (fst x))
      \<and> (if sensitive (key_text (fst x)) then snd x = PyStr REDACTED else clean (snd x))"
    if "x \<in> set (dict_of (map ?g kvs))" for x
  proof -
    from that set_dict_of [of "map ?g kvs"] obtain kv where "kv \<in> set kvs" "x = ?g kv" by auto
    then show ?thesis using 2 [of kv] by auto
  qed
  then show ?case using distinct_dict_of [of "map ?g kvs"] by (simp add: list_all_iff)
qed (simp_all add: REDACTED_clean list_all_iff)

lemma clean_redact: "clean v \<Longrightarrow> redact v = v"
proof (induction v rule: redact.induct)
  case (2 kvs)
  have "map (\<lambda>kv. (KeyStr (key_text (fst kv)),
       if sensitive (key_text (fst kv)) then PyStr REDACTED else redact (snd kv))) kvs = kvs"
  proof (rule map_idI)
    fix kv assume kv: "kv \<in> set kvs"
    then have c: "fst kv = KeyStr (key_text (fst kv))"
      "if sensitive (key_text (fst kv)) then snd kv = PyStr REDACTED else clean (snd kv)"
      using 2(2) by (simp_all add: list_all_iff)
    show "(KeyStr (key_text (fst kv)), if sensitive (key_text (fst kv)) then PyStr REDACTED else redact (snd kv)) = kv"
    proof (cases "sensitive (key_text (fst kv))")
      case True
      then show ?thesis using c by (simp add: prod_eq_iff)
    next
      case False
      then show ?thesis using c 2(1) [OF kv False] by (simp add: prod_eq_iff)
    qed
  qed
  then show ?case using 2(2) by (simp add: dict_of_distinct)
qed (simp_all add: list_all_iff map_idI)

end
