(* ===== verification/Audit_Log.thy ===== *)
theory Audit_Log imports Redact begin

text \<open>
  The audit log: packages/contracts/src/contracts/audit.py, server/core/audit/chain.py (the hash of
  an event), server/core/storage/audit.py (\<open>FirestoreAuditRepository\<close>) and
  server/core/audit/writer.py (\<open>AuditWriter\<close>), with the verification of the chain that
  server/coordinator/service.py runs. Contracts strip the texts they are given; the hash is taken
  from the texts before, so the stripping is written out here. No caller puts a float in a payload,
  and the model has none. \<open>sha\<close> is SHA-256 and \<open>fmt\<close> the \<open>isoformat\<close> of a time.
\<close>

section \<open>Contracts (audit.py)\<close>

datatype scalar = SNone | SBool bool | SInt int | SStr string

type_synonym payload = "(string \<times> scalar) list"

record audit_event =
  aud_id :: string
  aud_organisation_id :: string
  aud_sequence :: int
  aud_kind :: string
  aud_actor_id :: string
  aud_resource :: string
  aud_run_id :: "string option"
  aud_payload :: payload
  aud_evidence_ids :: "string list"
  aud_previous_hash :: string
  aud_event_hash :: string
  aud_occurred_at :: int
  aud_region :: string

definition GENESIS :: string where
  "GENESIS = replicate 64 (CHR ''0'')"

text \<open>\<open>str_strip_whitespace\<close>, which strips the white space of Unicode.\<close>

definition white_space :: "char \<Rightarrow> bool" where
  "white_space c \<longleftrightarrow> char_code c \<in> {9, 10, 11, 12, 13, 32, 133, 160}"

definition trim :: "string \<Rightarrow> string" where
  "trim s = rev (dropWhile white_space (rev (dropWhile white_space s)))"

definition trim_scalar :: "scalar \<Rightarrow> scalar" where
  "trim_scalar v = (case v of SStr s \<Rightarrow> SStr (trim s) | _ \<Rightarrow> v)"

definition trim_payload :: "payload \<Rightarrow> payload" where
  "trim_payload p = dict_of (map (\<lambda>kv. (trim (fst kv), trim_scalar (snd kv))) p)"

definition trim_event :: "audit_event \<Rightarrow> audit_event" where
  "trim_event e =
     e\<lparr>aud_id := trim (aud_id e), aud_organisation_id := trim (aud_organisation_id e), aud_kind := trim (aud_kind e),
       aud_actor_id := trim (aud_actor_id e), aud_resource := trim (aud_resource e),
       aud_run_id := map_option trim (aud_run_id e), aud_payload := trim_payload (aud_payload e),
       aud_evidence_ids := map trim (aud_evidence_ids e), aud_previous_hash := trim (aud_previous_hash e),
       aud_event_hash := trim (aud_event_hash e), aud_region := trim (aud_region e)\<rparr>"

definition audit_event_fields_ok :: "audit_event \<Rightarrow> bool" where
  "audit_event_fields_ok e \<longleftrightarrow>
     identifier_ok (aud_id e) \<and> identifier_ok (aud_organisation_id e) \<and> 0 \<le> aud_sequence e
     \<and> text_between 1 128 (aud_kind e) \<and> identifier_ok (aud_actor_id e) \<and> text_between 1 1024 (aud_resource e)
     \<and> opt_ok identifier_ok (aud_run_id e) \<and> list_all identifier_ok (aud_evidence_ids e)
     \<and> hex64 (aud_previous_hash e) \<and> hex64 (aud_event_hash e) \<and> text_between 3 32 (aud_region e)"

definition validate_genesis :: "audit_event \<Rightarrow> unit result" where
  "validate_genesis e =
     require (\<not> (aud_sequence e = 0 \<and> aud_previous_hash e \<noteq> GENESIS))
       (ValidationError ''the first audit event must reference the genesis hash'')"

definition validate_audit_event :: "audit_event \<Rightarrow> audit_event result" where
  "validate_audit_event e =
     (let e' = trim_event e in
      if audit_event_fields_ok e' then bindr (validate_genesis e') (\<lambda>_. Inr e') else Inl (FieldError ''AuditEvent''))"

record audit_outbox =
  aob_event :: audit_event
  aob_available_at :: int
  aob_attempts :: int
  aob_lease_owner :: "string option"
  aob_lease_expires_at :: "int option"
  aob_logged_at :: "int option"
  aob_provider_receipt :: "string option"
  aob_dead_lettered_at :: "int option"
  aob_dead_letter_reason :: "string option"
  aob_last_error :: "string option"

definition validate_audit_delivery :: "audit_outbox \<Rightarrow> unit result" where
  "validate_audit_delivery ob =
     bindr (require ((aob_lease_owner ob = None) = (aob_lease_expires_at ob = None))
       (ValidationError ''audit lease owner and expiry must be set together'')) (\<lambda>_.
     bindr (require (\<not> (aob_logged_at ob \<noteq> None \<and> aob_lease_owner ob \<noteq> None))
       (ValidationError ''a logged audit event cannot remain leased'')) (\<lambda>_.
     bindr (require ((aob_logged_at ob = None) = (aob_provider_receipt ob = None))
       (ValidationError ''audit log time and provider receipt must be set together'')) (\<lambda>_.
     bindr (require ((aob_dead_lettered_at ob = None) = (aob_dead_letter_reason ob = None))
       (ValidationError ''audit dead-letter time and reason must be set together'')) (\<lambda>_.
     bindr (require (\<not> (aob_logged_at ob \<noteq> None \<and> aob_dead_lettered_at ob \<noteq> None))
       (ValidationError ''an audit event cannot be logged and dead-lettered'')) (\<lambda>_.
     require (\<not> (aob_dead_lettered_at ob \<noteq> None \<and> aob_lease_owner ob \<noteq> None))
       (ValidationError ''a dead-lettered audit event cannot remain leased''))))))"

definition audit_outbox_fields_ok :: "audit_outbox \<Rightarrow> bool" where
  "audit_outbox_fields_ok ob \<longleftrightarrow>
     0 \<le> aob_attempts ob \<and> opt_ok identifier_ok (aob_lease_owner ob)
     \<and> opt_ok (text_between 1 512) (aob_provider_receipt ob)
     \<and> opt_ok (text_between 1 1024) (aob_dead_letter_reason ob) \<and> opt_ok (text_between 0 1024) (aob_last_error ob)"

definition trim_outbox :: "audit_outbox \<Rightarrow> audit_outbox" where
  "trim_outbox ob =
     ob\<lparr>aob_lease_owner := map_option trim (aob_lease_owner ob),
       aob_provider_receipt := map_option trim (aob_provider_receipt ob),
       aob_dead_letter_reason := map_option trim (aob_dead_letter_reason ob),
       aob_last_error := map_option trim (aob_last_error ob)\<rparr>"

definition validate_audit_outbox :: "audit_outbox \<Rightarrow> audit_outbox result" where
  "validate_audit_outbox ob =
     bindr (validate_audit_event (aob_event ob)) (\<lambda>e.
     let ob' = trim_outbox (ob\<lparr>aob_event := e\<rparr>) in
     if audit_outbox_fields_ok ob' then bindr (validate_audit_delivery ob') (\<lambda>_. Inr ob')
     else Inl (FieldError ''AuditOutbox''))"

section \<open>The hash of an event (chain.py)\<close>

fun scalar_json :: "scalar \<Rightarrow> json" where
  "scalar_json SNone = JNull"
| "scalar_json (SBool b) = JBool b"
| "scalar_json (SInt i) = JInt i"
| "scalar_json (SStr s) = JStr s"

definition payload_json :: "payload \<Rightarrow> json" where
  "payload_json p = JDict (map (\<lambda>kv. (fst kv, scalar_json (snd kv))) p)"

text \<open>The dict that \<open>event_hash\<close> renders.\<close>

definition event_json ::
  "(int \<Rightarrow> string) \<Rightarrow> string \<Rightarrow> int \<Rightarrow> string \<Rightarrow> string \<Rightarrow> string \<Rightarrow> string option \<Rightarrow> payload \<Rightarrow> string list
     \<Rightarrow> string \<Rightarrow> int \<Rightarrow> string \<Rightarrow> json" where
  "event_json fmt organisation_id sequence kind actor_id resource run p evidence_ids previous_hash occurred_at region =
     JDict [(''actor_id'', JStr actor_id), (''evidence_ids'', JList (map JStr evidence_ids)), (''kind'', JStr kind),
       (''occurred_at'', JStr (fmt occurred_at)), (''organisation_id'', JStr organisation_id),
       (''payload'', payload_json p), (''previous_hash'', JStr previous_hash), (''region'', JStr region),
       (''resource'', JStr resource), (''run_id'', case run of None \<Rightarrow> JNull | Some r \<Rightarrow> JStr r),
       (''sequence'', JInt sequence)]"

definition event_hash ::
  "(string \<Rightarrow> string) \<Rightarrow> (int \<Rightarrow> string) \<Rightarrow> string \<Rightarrow> int \<Rightarrow> string \<Rightarrow> string \<Rightarrow> string \<Rightarrow> string option \<Rightarrow> payload
     \<Rightarrow> string list \<Rightarrow> string \<Rightarrow> int \<Rightarrow> string \<Rightarrow> string" where
  "event_hash sha fmt organisation_id sequence kind actor_id resource run p evidence_ids previous_hash occurred_at region =
     sha (json_text (event_json fmt organisation_id sequence kind actor_id resource run p evidence_ids
       previous_hash occurred_at region))"

section \<open>The repository (storage/audit.py)\<close>

record audit_head =
  head_organisation_id :: string
  head_sequence :: int
  head_event_id :: string
  head_event_hash :: string
  head_occurred_at :: int

text \<open>The delivery cursor of an organisation, written by the audit outbox.\<close>

record audit_cursor =
  acur_logged_sequence :: int
  acur_event_id :: string
  acur_event_hash :: string
  acur_provider_receipt :: "string option"
  acur_logged_at :: "int option"
  acur_dead_lettered_at :: "int option"
  acur_last_error :: "string option"

text \<open>The audit collection of an organisation lists its documents by their identifiers.\<close>

record audit_store =
  au_events :: "string \<Rightarrow> (string \<times> audit_event) list"
  au_outbox :: "string \<times> string \<rightharpoonup> audit_outbox"
  au_heads :: "string \<rightharpoonup> audit_head"
  au_cursors :: "string \<rightharpoonup> audit_cursor"

definition empty_audit :: audit_store where
  "empty_audit = \<lparr>au_events = (\<lambda>_. []), au_outbox = Map.empty, au_heads = Map.empty, au_cursors = Map.empty\<rparr>"

text \<open>Python's equality of scalars, where \<open>True == 1\<close>, and of dicts.\<close>

definition scalar_eq :: "scalar \<Rightarrow> scalar \<Rightarrow> bool" where
  "scalar_eq v w =
     (case (v, w) of
        (SBool b, SInt i) \<Rightarrow> i = of_bool b
      | (SInt i, SBool b) \<Rightarrow> i = of_bool b
      | _ \<Rightarrow> v = w)"

definition payload_eq :: "payload \<Rightarrow> payload \<Rightarrow> bool" where
  "payload_eq p q \<longleftrightarrow>
     length p = length q
     \<and> list_all (\<lambda>kv. case map_of q (fst kv) of None \<Rightarrow> False | Some w \<Rightarrow> scalar_eq (snd kv) w) p"

definition new_outbox :: "audit_event \<Rightarrow> int \<Rightarrow> audit_outbox" where
  "new_outbox e available_at =
     \<lparr>aob_event = e, aob_available_at = available_at, aob_attempts = 0, aob_lease_owner = None,
      aob_lease_expires_at = None, aob_logged_at = None, aob_provider_receipt = None,
      aob_dead_lettered_at = None, aob_dead_letter_reason = None, aob_last_error = None\<rparr>"

text \<open>The sequence and the hash a new event continues from.\<close>

definition chain_end :: "audit_store \<Rightarrow> string \<Rightarrow> (int \<times> string) result" where
  "chain_end s org =
     (case au_heads s org of
        Some h \<Rightarrow> Inr (head_sequence h + 1, head_event_hash h)
      | None \<Rightarrow>
          bindr (require (au_events s org = [])
            (StorageIntegrityError ''audit chain head is missing while audit events still exist'')) (\<lambda>_.
          Inr (0, GENESIS)))"

text \<open>The existing event, when the data of the append are those it was written with.\<close>

definition same_append ::
  "audit_event \<Rightarrow> string \<Rightarrow> string \<Rightarrow> string \<Rightarrow> string option \<Rightarrow> payload \<Rightarrow> string list \<Rightarrow> string \<Rightarrow> bool" where
  "same_append current kind actor_id resource run p evidence_ids region \<longleftrightarrow>
     (aud_kind current, aud_actor_id current, aud_resource current, aud_run_id current, aud_evidence_ids current, aud_region current)
       = (kind, actor_id, resource, run, evidence_ids, region)
     \<and> payload_eq (aud_payload current) p"

definition append_existing ::
  "audit_store \<Rightarrow> string \<Rightarrow> string \<Rightarrow> audit_event \<Rightarrow> (audit_event \<times> audit_store) result" where
  "append_existing s org eid current =
     (case au_outbox s (org, eid) of
        Some doc \<Rightarrow>
          bindr (validate_audit_outbox doc) (\<lambda>ob.
          bindr (require (aob_event ob = current)
            (StorageIntegrityError ''audit outbox event does not match its index'')) (\<lambda>_. Inr (current, s)))
      | None \<Rightarrow>
          bindr (validate_audit_outbox (new_outbox current (aud_occurred_at current))) (\<lambda>ob.
          Inr (current, s\<lparr>au_outbox := (au_outbox s)((org, eid) \<mapsto> ob)\<rparr>)))"

text \<open>The head holds the checksum, which as a hexadecimal digest is the hash of the event.\<close>

definition appended_store :: "audit_store \<Rightarrow> string \<Rightarrow> string \<Rightarrow> audit_event \<Rightarrow> audit_outbox \<Rightarrow> audit_store" where
  "appended_store s org eid e ob =
     s\<lparr>au_events := (au_events s)(org := au_events s org @ [(eid, e)]),
       au_outbox := (au_outbox s)((org, eid) \<mapsto> ob),
       au_heads := (au_heads s)(org \<mapsto> \<lparr>head_organisation_id = org, head_sequence = aud_sequence e,
         head_event_id = eid, head_event_hash = aud_event_hash e, head_occurred_at = aud_occurred_at e\<rparr>)\<rparr>"

definition audit_append ::
  "(string \<Rightarrow> string) \<Rightarrow> (int \<Rightarrow> string) \<Rightarrow> string \<Rightarrow> string \<Rightarrow> string \<Rightarrow> string \<Rightarrow> string \<Rightarrow> string option \<Rightarrow> payload
     \<Rightarrow> string list \<Rightarrow> int \<Rightarrow> string \<Rightarrow> audit_store \<Rightarrow> (audit_event \<times> audit_store) result" where
  "audit_append sha fmt eid org kind actor_id resource run p evidence_ids occurred_at region s =
     bindr (segments [org, eid]) (\<lambda>_.
     case map_of (au_events s org) eid of
       Some doc \<Rightarrow>
         bindr (validate_audit_event doc) (\<lambda>current.
         if same_append current kind actor_id resource run p evidence_ids region
         then append_existing s org eid current
         else Inl (ResourceConflictError (''audit event '' @ eid @ '' already exists'')))
     | None \<Rightarrow>
         bindr (chain_end s org) (\<lambda>(sequence, previous).
         let checksum = event_hash sha fmt org sequence kind actor_id resource run p evidence_ids previous occurred_at region
         in bindr (validate_audit_event
              \<lparr>aud_id = eid, aud_organisation_id = org, aud_sequence = sequence, aud_kind = kind,
               aud_actor_id = actor_id, aud_resource = resource, aud_run_id = run, aud_payload = p,
               aud_evidence_ids = evidence_ids, aud_previous_hash = previous, aud_event_hash = checksum,
               aud_occurred_at = occurred_at, aud_region = region\<rparr>) (\<lambda>e.
            bindr (validate_audit_outbox (new_outbox e occurred_at)) (\<lambda>ob.
            Inr (e, appended_store s org eid e ob)))))"

text \<open>
  A stream of the collection goes by document name; the model keeps the documents in the order in
  which they were created.
\<close>

definition list_events :: "audit_store \<Rightarrow> string \<Rightarrow> nat \<Rightarrow> audit_event list result" where
  "list_events s org limit =
     bindr (segments [org]) (\<lambda>_.
     mapr (\<lambda>(name, doc). bindr (validate_audit_event doc) (\<lambda>e.
       bindr (require (aud_organisation_id e = org)
         (StorageIntegrityError (''audit event '' @ aud_id e @ '' crosses tenant boundary''))) (\<lambda>_. Inr e)))
       (take limit (sort_key fst (au_events s org))))"

section \<open>The writer (writer.py)\<close>

fun scalar_value :: "scalar \<Rightarrow> pyval" where
  "scalar_value SNone = PyNone"
| "scalar_value (SBool b) = PyBool b"
| "scalar_value (SInt i) = PyInt i"
| "scalar_value (SStr s) = PyStr s"

fun value_scalar :: "pyval \<Rightarrow> scalar option" where
  "value_scalar PyNone = Some SNone"
| "value_scalar (PyBool b) = Some (SBool b)"
| "value_scalar (PyInt i) = Some (SInt i)"
| "value_scalar (PyStr s) = Some (SStr s)"
| "value_scalar _ = None"

definition payload_value :: "payload \<Rightarrow> pyval" where
  "payload_value p = PyDict (map (\<lambda>kv. (KeyStr (fst kv), scalar_value (snd kv))) p)"

fun value_payload :: "pyval \<Rightarrow> payload option" where
  "value_payload (PyDict kvs) =
     (if list_all (\<lambda>kv. value_scalar (snd kv) \<noteq> None) kvs
      then Some (map (\<lambda>kv. (key_text (fst kv), the (value_scalar (snd kv)))) kvs) else None)"
| "value_payload _ = None"

definition writer_append ::
  "(string \<Rightarrow> string) \<Rightarrow> (int \<Rightarrow> string) \<Rightarrow> string \<Rightarrow> int \<Rightarrow> string \<Rightarrow> string \<Rightarrow> string \<Rightarrow> string \<Rightarrow> string \<Rightarrow> payload
     \<Rightarrow> string option \<Rightarrow> string list \<Rightarrow> int option \<Rightarrow> audit_store \<Rightarrow> (audit_event \<times> audit_store) result" where
  "writer_append sha fmt region now eid org kind actor_id resource p run evidence_ids occurred_at s =
     (case value_payload (redact (payload_value p)) of
        None \<Rightarrow> Inl (TypeError ''audit payload redaction must preserve its mapping'')
      | Some safe \<Rightarrow>
          audit_append sha fmt eid org kind actor_id resource run safe evidence_ids
            (case occurred_at of None \<Rightarrow> now | Some t \<Rightarrow> t) region s)"

definition LIST_SCAN_LIMIT :: nat where
  "LIST_SCAN_LIMIT = 500"

definition writer_search ::
  "string \<Rightarrow> string option \<Rightarrow> string option \<Rightarrow> nat \<Rightarrow> audit_store \<Rightarrow> audit_event list result" where
  "writer_search org run kind limit s =
     bindr (list_events s org LIST_SCAN_LIMIT) (\<lambda>events.
     let by_run = (case run of None \<Rightarrow> events | Some r \<Rightarrow> filter (\<lambda>e. aud_run_id e = Some r) events);
         by_kind = (case kind of None \<Rightarrow> by_run | Some k \<Rightarrow> filter (\<lambda>e. aud_kind e = k) by_run)
     in Inr (take limit (sort_key (\<lambda>e. - aud_sequence e) by_kind)))"

section \<open>Verification of the chain (coordinator/service.py)\<close>

fun check_chain ::
  "(string \<Rightarrow> string) \<Rightarrow> (int \<Rightarrow> string) \<Rightarrow> int \<Rightarrow> string \<Rightarrow> audit_event list \<Rightarrow> unit result" where
  "check_chain sha fmt sequence previous [] = Inr ()"
| "check_chain sha fmt sequence previous (e # es) =
     (let expected = event_hash sha fmt (aud_organisation_id e) sequence (aud_kind e) (aud_actor_id e) (aud_resource e)
        (aud_run_id e) (aud_payload e) (aud_evidence_ids e) previous (aud_occurred_at e) (aud_region e)
      in bindr (require (\<not> (aud_sequence e \<noteq> sequence \<or> aud_previous_hash e \<noteq> previous \<or> aud_event_hash e \<noteq> expected))
           (ValueError ''audit hash chain validation failed'')) (\<lambda>_.
         check_chain sha fmt (sequence + 1) (aud_event_hash e) es))"

text \<open>The validated events in the order of their sequence.\<close>

definition audit_trail :: "audit_store \<Rightarrow> string \<Rightarrow> audit_event list result" where
  "audit_trail s org =
     bindr (segments [org]) (\<lambda>_. mapr validate_audit_event (sort_key aud_sequence (map snd (au_events s org))))"

definition verify_audit :: "(string \<Rightarrow> string) \<Rightarrow> (int \<Rightarrow> string) \<Rightarrow> audit_store \<Rightarrow> string \<Rightarrow> unit result" where
  "verify_audit sha fmt s org =
     bindr (audit_trail s org) (\<lambda>events.
     bindr (check_chain sha fmt 0 GENESIS events) (\<lambda>_.
     require (events \<noteq> []) (ValueError ''audit chain is empty'')))"

end
