(* ===== verification/Audit_Outbox.thy ===== *)
theory Audit_Outbox imports Audit_Log begin

text \<open>
  server/core/storage/auditoutbox.py: \<open>FirestoreAuditOutboxRepository\<close>, which leases audit events
  to deliverers, in the order of the chain of each organisation, and server/core/audit/delivery.py:
  \<open>AuditPublisher\<close>, which drains it. The transport and the clock are functions of the number of
  calls made so far.
\<close>

section \<open>Reads\<close>

record audit_claim =
  acl_path :: "string \<times> string"
  acl_outbox :: audit_outbox

definition logged_sequence :: "audit_cursor option \<Rightarrow> int" where
  "logged_sequence cursor = (case cursor of None \<Rightarrow> -1 | Some c \<Rightarrow> acur_logged_sequence c)"

definition audit_owned :: "audit_outbox \<Rightarrow> string \<Rightarrow> unit result" where
  "audit_owned ob owner =
     require (aob_lease_owner ob = Some owner) (ResourceConflictError ''audit delivery lease is not owned'')"

definition read_audit_outbox :: "audit_store \<Rightarrow> string \<times> string \<Rightarrow> audit_outbox result" where
  "read_audit_outbox s path =
     (case au_outbox s path of
        None \<Rightarrow> Inl (StorageIntegrityError (''audit outbox document '' @ snd path @ '' has no data''))
      | Some doc \<Rightarrow> validate_audit_outbox doc)"

definition audit_require_next :: "audit_store \<Rightarrow> string \<Rightarrow> audit_outbox \<Rightarrow> unit result" where
  "audit_require_next s org current =
     require (logged_sequence (au_cursors s org) = aud_sequence (aob_event current) - 1)
       (ResourceConflictError ''audit event is not next for its organisation'')"

section \<open>Claims\<close>

definition claimed_doc :: "audit_outbox \<Rightarrow> string \<Rightarrow> int \<Rightarrow> audit_outbox" where
  "claimed_doc current owner expires_at =
     current\<lparr>aob_attempts := aob_attempts current + 1, aob_lease_owner := Some owner,
       aob_lease_expires_at := Some expires_at\<rparr>"

definition audit_claim_one ::
  "audit_store \<Rightarrow> string \<times> string \<Rightarrow> string \<Rightarrow> int \<Rightarrow> int \<Rightarrow> (audit_claim option \<times> audit_store) result" where
  "audit_claim_one s path owner now duration =
     bindr (read_audit_outbox s path) (\<lambda>current.
     bindr (segments [aud_organisation_id (aob_event current)]) (\<lambda>_.
     if aob_logged_at current \<noteq> None \<or> aob_dead_lettered_at current \<noteq> None \<or> now < aob_available_at current
     then Inr (None, s)
     else if (case aob_lease_expires_at current of None \<Rightarrow> False | Some t \<Rightarrow> now < t) then Inr (None, s)
     else if logged_sequence (au_cursors s (aud_organisation_id (aob_event current)))
               \<noteq> aud_sequence (aob_event current) - 1
     then Inr (None, s)
     else let claimed = claimed_doc current owner (now + duration)
          in Inr (Some \<lparr>acl_path = path, acl_outbox = claimed\<rparr>,
                  s\<lparr>au_outbox := (au_outbox s)(path \<mapsto> claimed)\<rparr>)))"

definition audit_query :: "audit_store \<Rightarrow> (string \<times> string) list \<Rightarrow> int \<Rightarrow> nat \<Rightarrow> ((string \<times> string) \<times> audit_outbox) list"
where
  "audit_query s keys now limit =
     take (min (max (limit * 8) 64) 500)
       (sort_key (\<lambda>x. aob_available_at (snd x))
         (filter (\<lambda>x. aob_logged_at (snd x) = None \<and> aob_available_at (snd x) \<le> now)
           (map (\<lambda>k. (k, the (au_outbox s k))) (filter (\<lambda>k. au_outbox s k \<noteq> None) keys))))"

fun audit_claim_loop ::
  "string \<Rightarrow> int \<Rightarrow> int \<Rightarrow> nat \<Rightarrow> ((string \<times> string) \<times> audit_outbox) list \<Rightarrow> audit_claim list \<Rightarrow> string list
     \<Rightarrow> audit_store \<Rightarrow> audit_claim list result \<times> audit_store" where
  "audit_claim_loop owner now duration limit [] claims seen s = (Inr claims, s)"
| "audit_claim_loop owner now duration limit ((path, doc) # snapshots) claims seen s =
     (case validate_audit_outbox doc of
        Inl e \<Rightarrow> (Inl e, s)
      | Inr candidate \<Rightarrow>
          if aud_organisation_id (aob_event candidate) \<in> set seen
          then audit_claim_loop owner now duration limit snapshots claims seen s
          else (case audit_claim_one s path owner now duration of
                  Inl e \<Rightarrow> (Inl e, s)
                | Inr (None, s1) \<Rightarrow>
                    if length claims = limit then (Inr claims, s1)
                    else audit_claim_loop owner now duration limit snapshots claims seen s1
                | Inr (Some c, s1) \<Rightarrow>
                    if length (claims @ [c]) = limit then (Inr (claims @ [c]), s1)
                    else audit_claim_loop owner now duration limit snapshots (claims @ [c])
                           (aud_organisation_id (aob_event candidate) # seen) s1))"

definition audit_claims ::
  "(string \<times> string) list \<Rightarrow> string \<Rightarrow> int \<Rightarrow> int \<Rightarrow> nat \<Rightarrow> audit_store \<Rightarrow> audit_claim list result \<times> audit_store" where
  "audit_claims keys owner now duration limit s =
     audit_claim_loop owner now duration limit (audit_query s keys now limit) [] [] s"

section \<open>Settling a claim\<close>

definition logged_doc :: "audit_outbox \<Rightarrow> string \<Rightarrow> int \<Rightarrow> audit_outbox" where
  "logged_doc current receipt logged_at =
     current\<lparr>aob_lease_owner := None, aob_lease_expires_at := None, aob_logged_at := Some logged_at,
       aob_provider_receipt := Some receipt, aob_last_error := None\<rparr>"

definition audit_dead_doc :: "audit_outbox \<Rightarrow> string \<Rightarrow> int \<Rightarrow> audit_outbox" where
  "audit_dead_doc current reason dead_lettered_at =
     current\<lparr>aob_lease_owner := None, aob_lease_expires_at := None, aob_dead_lettered_at := Some dead_lettered_at,
       aob_dead_letter_reason := Some reason, aob_last_error := Some reason\<rparr>"

definition audit_failed_doc :: "audit_outbox \<Rightarrow> string \<Rightarrow> int \<Rightarrow> audit_outbox" where
  "audit_failed_doc current reason available_at =
     current\<lparr>aob_available_at := available_at, aob_lease_owner := None, aob_lease_expires_at := None,
       aob_last_error := Some reason\<rparr>"

text \<open>The transaction writes the document of the claim and the cursor of the claim's organisation.\<close>

definition audit_settle ::
  "audit_store \<Rightarrow> audit_claim \<Rightarrow> audit_outbox \<Rightarrow> string option \<Rightarrow> int option \<Rightarrow> int option \<Rightarrow> string option \<Rightarrow> audit_store"
where
  "audit_settle s claim doc receipt logged_at dead_lettered_at reason =
     (let e = aob_event (acl_outbox claim) in
      s\<lparr>au_outbox := (au_outbox s)(acl_path claim \<mapsto> doc),
        au_cursors := (au_cursors s)(aud_organisation_id e \<mapsto>
          \<lparr>acur_logged_sequence = aud_sequence e, acur_event_id = aud_id e, acur_event_hash = aud_event_hash e,
           acur_provider_receipt = receipt, acur_logged_at = logged_at, acur_dead_lettered_at = dead_lettered_at,
           acur_last_error = reason\<rparr>)\<rparr>)"

definition mark_logged :: "audit_claim \<Rightarrow> string \<Rightarrow> string \<Rightarrow> int \<Rightarrow> audit_store \<Rightarrow> audit_store result" where
  "mark_logged claim owner receipt logged_at s =
     (let org = aud_organisation_id (aob_event (acl_outbox claim)) in
      bindr (segments [org]) (\<lambda>_.
      bindr (read_audit_outbox s (acl_path claim)) (\<lambda>current.
      bindr (require (aob_dead_lettered_at current = None)
        (ResourceConflictError ''audit event is dead-lettered'')) (\<lambda>_.
      if aob_logged_at current \<noteq> None
      then (if aob_provider_receipt current = Some receipt then Inr s
            else Inl (ResourceConflictError ''audit event already has another log receipt''))
      else
        bindr (audit_owned current owner) (\<lambda>_.
        bindr (audit_require_next s org current) (\<lambda>_.
        Inr (audit_settle s claim (logged_doc current receipt logged_at) (Some receipt) (Some logged_at) None None)))))))"

definition audit_dead_letter :: "audit_claim \<Rightarrow> string \<Rightarrow> string \<Rightarrow> int \<Rightarrow> audit_store \<Rightarrow> audit_store result" where
  "audit_dead_letter claim owner reason dead_lettered_at s =
     (let org = aud_organisation_id (aob_event (acl_outbox claim)) in
      bindr (segments [org]) (\<lambda>_.
      bindr (read_audit_outbox s (acl_path claim)) (\<lambda>current.
      if aob_dead_lettered_at current \<noteq> None then Inr s
      else
        bindr (require (aob_logged_at current = None)
          (ResourceConflictError ''audit event is already logged'')) (\<lambda>_.
        bindr (audit_owned current owner) (\<lambda>_.
        bindr (audit_require_next s org current) (\<lambda>_.
        Inr (audit_settle s claim (audit_dead_doc current reason dead_lettered_at) None None
               (Some dead_lettered_at) (Some reason))))))))"

definition audit_failed :: "audit_claim \<Rightarrow> string \<Rightarrow> string \<Rightarrow> int \<Rightarrow> audit_store \<Rightarrow> audit_store result" where
  "audit_failed claim owner reason available_at s =
     bindr (read_audit_outbox s (acl_path claim)) (\<lambda>current.
     if aob_logged_at current \<noteq> None \<or> aob_dead_lettered_at current \<noteq> None then Inr s
     else
       bindr (audit_owned current owner) (\<lambda>_.
       Inr (s\<lparr>au_outbox := (au_outbox s)(acl_path claim \<mapsto> audit_failed_doc current reason available_at)\<rparr>)))"

section \<open>The deliverer (delivery.py)\<close>

record audit_publisher =
  ap_owner :: string
  ap_lease_duration :: int
  ap_batch_size :: nat
  ap_maximum_attempts :: int

text \<open>\<open>_backoff\<close> in microseconds, and the type name of an exception.\<close>

definition audit_backoff :: "int \<Rightarrow> int" where
  "audit_backoff attempts = 1000000 * min (5 * 2 ^ nat (min (max (attempts - 1) 0) 10)) 900"

definition audit_safe_error :: "string \<Rightarrow> string" where
  "audit_safe_error type_name = take 1024 type_name"

definition write_audit ::
  "audit_publisher \<Rightarrow> (audit_event \<Rightarrow> string + string) \<Rightarrow> int \<Rightarrow> audit_claim \<Rightarrow> audit_store
     \<Rightarrow> delivery_outcome result \<times> audit_store" where
  "write_audit p transport now claim s =
     (let done = (\<lambda>outcome r. case r of Inl e \<Rightarrow> (Inl e, s) | Inr s' \<Rightarrow> (Inr outcome, s')) in
      case transport (aob_event (acl_outbox claim)) of
        Inl type_name \<Rightarrow>
          if ap_maximum_attempts p \<le> aob_attempts (acl_outbox claim)
          then done Dead_lettered (audit_dead_letter claim (ap_owner p) (audit_safe_error type_name) now s)
          else done Delivery_failed (audit_failed claim (ap_owner p) (audit_safe_error type_name)
                 (now + audit_backoff (aob_attempts (acl_outbox claim))) s)
      | Inr receipt \<Rightarrow> done Published (mark_logged claim (ap_owner p) receipt now s))"

fun write_all ::
  "audit_publisher \<Rightarrow> (nat \<Rightarrow> audit_event \<Rightarrow> string + string) \<Rightarrow> (nat \<Rightarrow> int) \<Rightarrow> nat
     \<Rightarrow> audit_claim list \<Rightarrow> audit_store \<Rightarrow> delivery_outcome list result \<times> audit_store" where
  "write_all p transport clock k [] s = (Inr [], s)"
| "write_all p transport clock k (c # cs) s =
     (case write_audit p (transport k) (clock k) c s of
        (r, s1) \<Rightarrow>
          (case write_all p transport clock (k + 1) cs s1 of
             (rs, s2) \<Rightarrow> (bindr r (\<lambda>x. bindr rs (\<lambda>xs. Inr (x # xs))), s2)))"

function audit_drain_loop ::
  "(string \<times> string) list \<Rightarrow> audit_publisher \<Rightarrow> (nat \<Rightarrow> audit_event \<Rightarrow> string + string) \<Rightarrow> (nat \<Rightarrow> int) \<Rightarrow> nat
     \<Rightarrow> nat \<Rightarrow> publish_summary \<Rightarrow> audit_store \<Rightarrow> publish_summary result \<times> audit_store" where
  "audit_drain_loop keys p transport clock k maximum acc s =
     (if sum_claimed acc < maximum
      then case audit_claims keys (ap_owner p) (clock k) (ap_lease_duration p)
                  (min (ap_batch_size p) (maximum - sum_claimed acc)) s of
             (Inl e, s1) \<Rightarrow> (Inl e, s1)
           | (Inr batch, s1) \<Rightarrow>
               if batch = [] then (Inr acc, s1)
               else case write_all p transport clock (k + 1) batch s1 of
                      (Inl e, s2) \<Rightarrow> (Inl e, s2)
                    | (Inr results, s2) \<Rightarrow>
                        audit_drain_loop keys p transport clock (k + 1 + length batch) maximum
                          \<lparr>sum_claimed = sum_claimed acc + length batch,
                           sum_published = sum_published acc + count Published results,
                           sum_failed = sum_failed acc + count Delivery_failed results,
                           sum_dead_lettered = sum_dead_lettered acc + count Dead_lettered results\<rparr> s2
      else (Inr acc, s))"
  by pat_completeness auto
termination
  by (relation "measure (\<lambda>(keys, p, transport, clock, k, maximum, acc, s). maximum - sum_claimed acc)")
    (auto simp: neq_Nil_conv)

declare audit_drain_loop.simps [simp del]

definition audit_drain ::
  "(string \<times> string) list \<Rightarrow> audit_publisher \<Rightarrow> (nat \<Rightarrow> audit_event \<Rightarrow> string + string) \<Rightarrow> (nat \<Rightarrow> int) \<Rightarrow> nat
     \<Rightarrow> audit_store \<Rightarrow> publish_summary result \<times> audit_store" where
  "audit_drain keys p transport clock maximum s =
     audit_drain_loop keys p transport clock 0 maximum
       \<lparr>sum_claimed = 0, sum_published = 0, sum_failed = 0, sum_dead_lettered = 0\<rparr> s"

end
