(* ===== verification/Audit_Facts.thy ===== *)
theory Audit_Facts imports Audit_Outbox begin

text \<open>
  The audit log as a system: appends and the transactions of its delivery, run by deliverers that
  hold claims. The invariant says that the events of an organisation are numbered from zero without
  a gap, that the head is the last of them, that every event has one delivery document and that the
  settled events are those up to the cursor; when the appended texts are stripped ones, the chain of
  hashes verifies.
\<close>

section \<open>Stripping\<close>

lemma trim_ends: "trim s = [] \<or> \<not> white_space (hd (trim s)) \<and> \<not> white_space (last (trim s))"
proof -
  define u where "u = dropWhile white_space s"
  define v where "v = dropWhile white_space (rev u)"
  have t: "trim s = rev v" by (simp add: trim_def u_def v_def)
  show ?thesis
  proof (cases "v = []")
    case False
    have "rev u = takeWhile white_space (rev u) @ v" by (simp add: v_def)
    then have "last v = last (rev u)" using False by (metis last_appendR)
    moreover have "u \<noteq> []" using False v_def by auto
    ultimately have "last v = hd u" by (simp add: last_rev)
    moreover have "\<not> white_space (hd u)" using \<open>u \<noteq> []\<close> unfolding u_def by (rule hd_dropWhile)
    moreover have "\<not> white_space (hd v)" using False unfolding v_def by (rule hd_dropWhile)
    ultimately show ?thesis using False t by (simp add: hd_rev last_rev)
  qed (simp add: t)
qed

lemma dropWhile_fixed: "\<not> P (hd s) \<Longrightarrow> dropWhile P s = s"
  by (cases s) simp_all

lemma trim_fixed: "s = [] \<or> \<not> white_space (hd s) \<and> \<not> white_space (last s) \<Longrightarrow> trim s = s"
  by (auto simp: trim_def dropWhile_fixed hd_rev)

lemma trim_trim [simp]: "trim (trim s) = trim s"
  using trim_ends by (rule trim_fixed)

lemma trim_no_space: "list_all (\<lambda>c. \<not> white_space c) s \<Longrightarrow> trim s = s"
  by (rule trim_fixed) (cases "s = []"; simp add: list_all_iff)

lemma no_white_space:
  "is_lower c \<Longrightarrow> \<not> white_space c" "is_digit c \<Longrightarrow> \<not> white_space c" "\<not> white_space (CHR ''_'')"
  "\<not> white_space (CHR ''-'')" "97 \<le> char_code c \<and> char_code c \<le> 102 \<Longrightarrow> \<not> white_space c"
  by (auto simp: white_space_def is_lower_def is_digit_def char_code_def)

lemma trim_identifier: "identifier_ok s \<Longrightarrow> trim s = s"
  by (rule trim_no_space) (cases s; auto simp: identifier_ok_def list_all_iff no_white_space)

lemma trim_hex64: "hex64 s \<Longrightarrow> trim s = s"
  by (rule trim_no_space) (auto simp: hex64_def list_all_iff no_white_space)

lemma trim_scalar_trim [simp]: "trim_scalar (trim_scalar v) = trim_scalar v"
  by (cases v) (simp_all add: trim_scalar_def)

definition trimmed_payload :: "payload \<Rightarrow> bool" where
  "trimmed_payload p \<longleftrightarrow> distinct (map fst p) \<and> (\<forall>kv \<in> set p. trim (fst kv) = fst kv \<and> trim_scalar (snd kv) = snd kv)"

lemma trimmed_payload_trim: "trimmed_payload (trim_payload p)"
  using set_dict_of [of "map (\<lambda>kv. (trim (fst kv), trim_scalar (snd kv))) p"] distinct_dict_of
  by (fastforce simp: trimmed_payload_def trim_payload_def)

lemma trim_payload_trimmed: "trimmed_payload p \<Longrightarrow> trim_payload p = p"
proof -
  assume t: "trimmed_payload p"
  then have "map (\<lambda>kv. (trim (fst kv), trim_scalar (snd kv))) p = p"
    by (intro map_idI) (simp add: trimmed_payload_def)
  then show ?thesis using t by (simp add: trim_payload_def trimmed_payload_def dict_of_distinct)
qed

lemma trim_event_trim [simp]: "trim_event (trim_event e) = trim_event e"
  by (simp add: trim_event_def option.map_comp comp_def trim_payload_trimmed [OF trimmed_payload_trim])

lemma trim_outbox_trim [simp]: "trim_outbox (trim_outbox ob) = trim_outbox ob"
  by (simp add: trim_outbox_def option.map_comp comp_def)

section \<open>Valid documents\<close>

definition audit_ok :: "audit_event \<Rightarrow> bool" where
  "audit_ok e \<longleftrightarrow> trim_event e = e \<and> audit_event_fields_ok e \<and> (aud_sequence e = 0 \<longrightarrow> aud_previous_hash e = GENESIS)"

lemma validate_audit_event_iff [result_iff]:
  "validate_audit_event e = Inr e' \<longleftrightarrow> e' = trim_event e \<and> audit_ok e'"
  by (auto simp: validate_audit_event_def audit_ok_def validate_genesis_def Let_def require_def)

lemma validate_ok: "audit_ok e \<Longrightarrow> validate_audit_event e = Inr e"
  by (simp add: validate_audit_event_iff) (simp add: audit_ok_def)

definition audit_outbox_ok :: "audit_outbox \<Rightarrow> bool" where
  "audit_outbox_ok ob \<longleftrightarrow>
     trim_outbox ob = ob \<and> audit_ok (aob_event ob) \<and> audit_outbox_fields_ok ob \<and> validate_audit_delivery ob = Inr ()"

lemma validate_audit_outbox_iff [result_iff]:
  "validate_audit_outbox ob = Inr ob' \<longleftrightarrow>
     ob' = trim_outbox (ob\<lparr>aob_event := trim_event (aob_event ob)\<rparr>) \<and> audit_outbox_ok ob'"
proof -
  have ev: "aob_event (trim_outbox (ob\<lparr>aob_event := e\<rparr>)) = e" for e by (simp add: trim_outbox_def)
  show ?thesis
    unfolding validate_audit_outbox_def audit_outbox_ok_def Let_def
    by (auto simp: bindr_eq_Inr validate_audit_event_iff ev split: if_splits)
qed

lemma outbox_ok_same: "audit_outbox_ok ob \<Longrightarrow> trim_outbox (ob\<lparr>aob_event := trim_event (aob_event ob)\<rparr>) = ob"
  by (simp add: audit_outbox_ok_def audit_ok_def)

lemma validate_outbox_ok: "audit_outbox_ok ob \<Longrightarrow> validate_audit_outbox ob = Inr ob"
  by (simp add: validate_audit_outbox_iff outbox_ok_same)

lemma new_outbox_ok: "audit_ok e \<Longrightarrow> audit_outbox_ok (new_outbox e t)"
  by (simp add: audit_outbox_ok_def new_outbox_def trim_outbox_def audit_outbox_fields_ok_def validate_audit_delivery_def)

section \<open>The system\<close>

type_synonym audit_system = "audit_store \<times> audit_claim set"

text \<open>The texts of an append are those its event will hold.\<close>

definition stripped ::
  "string \<Rightarrow> string \<Rightarrow> string \<Rightarrow> string option \<Rightarrow> payload \<Rightarrow> string list \<Rightarrow> string \<Rightarrow> bool" where
  "stripped kind actor resource run p evidence region \<longleftrightarrow>
     trim kind = kind \<and> trim actor = actor \<and> trim resource = resource \<and> map_option trim run = run
     \<and> trim_payload p = p \<and> map trim evidence = evidence \<and> trim region = region"

inductive audit_step ::
  "(string \<Rightarrow> string) \<Rightarrow> (int \<Rightarrow> string) \<Rightarrow> bool \<Rightarrow> audit_system \<Rightarrow> audit_system \<Rightarrow> bool"
  for sha fmt strict where
  as_append: "audit_append sha fmt eid org kind actor resource run p evidence t region s = Inr (e, s') \<Longrightarrow>
     strict \<longrightarrow> stripped kind actor resource run p evidence region \<Longrightarrow> audit_step sha fmt strict (s, C) (s', C)"
| as_claim: "audit_claim_one s path owner now duration = Inr (Some c, s') \<Longrightarrow> identifier_ok owner \<Longrightarrow>
     audit_step sha fmt strict (s, C) (s', insert c C)"
| as_logged: "c \<in> C \<Longrightarrow> mark_logged c owner receipt t s = Inr s' \<Longrightarrow> text_between 1 512 receipt \<Longrightarrow> trim receipt = receipt \<Longrightarrow>
     audit_step sha fmt strict (s, C) (s', C)"
| as_dead: "c \<in> C \<Longrightarrow> audit_dead_letter c owner reason t s = Inr s' \<Longrightarrow> text_between 1 1024 reason \<Longrightarrow> trim reason = reason \<Longrightarrow>
     audit_step sha fmt strict (s, C) (s', C)"
| as_failed: "c \<in> C \<Longrightarrow> audit_failed c owner reason t s = Inr s' \<Longrightarrow> text_between 0 1024 reason \<Longrightarrow> trim reason = reason \<Longrightarrow>
     audit_step sha fmt strict (s, C) (s', C)"

inductive audit_steps ::
  "(string \<Rightarrow> string) \<Rightarrow> (int \<Rightarrow> string) \<Rightarrow> bool \<Rightarrow> audit_system \<Rightarrow> audit_system \<Rightarrow> bool"
  for sha fmt strict where
  as_refl: "audit_steps sha fmt strict x x"
| as_step: "audit_steps sha fmt strict x y \<Longrightarrow> audit_step sha fmt strict y z \<Longrightarrow> audit_steps sha fmt strict x z"

definition audit_reachable :: "(string \<Rightarrow> string) \<Rightarrow> (int \<Rightarrow> string) \<Rightarrow> bool \<Rightarrow> audit_system \<Rightarrow> bool" where
  "audit_reachable sha fmt strict x \<longleftrightarrow> audit_steps sha fmt strict (empty_audit, {}) x"

section \<open>The invariant\<close>

definition audit_settled :: "audit_outbox \<Rightarrow> bool" where
  "audit_settled ob \<longleftrightarrow> aob_logged_at ob \<noteq> None \<or> aob_dead_lettered_at ob \<noteq> None"

definition events_ok :: "string \<Rightarrow> (string \<times> audit_event) list \<Rightarrow> bool" where
  "events_ok org es \<longleftrightarrow> distinct (map fst es)
     \<and> (\<forall>i < length es. aud_id (snd (es ! i)) = fst (es ! i) \<and> aud_organisation_id (snd (es ! i)) = org
          \<and> audit_ok (snd (es ! i)) \<and> aud_sequence (snd (es ! i)) = int i)"

definition head_ok :: "(string \<times> audit_event) list \<Rightarrow> audit_head option \<Rightarrow> bool" where
  "head_ok es h \<longleftrightarrow> (case h of None \<Rightarrow> es = []
     | Some d \<Rightarrow> es \<noteq> [] \<and> head_sequence d + 1 = int (length es) \<and> head_event_hash d = aud_event_hash (snd (last es)))"

definition delivery_doc_ok :: "audit_store \<Rightarrow> string \<Rightarrow> string \<Rightarrow> audit_outbox \<Rightarrow> bool" where
  "delivery_doc_ok s org i ob \<longleftrightarrow> audit_outbox_ok ob \<and> map_of (au_events s org) i = Some (aob_event ob)
     \<and> (audit_settled ob \<longleftrightarrow> aud_sequence (aob_event ob) \<le> logged_sequence (au_cursors s org))"

definition audit_inv :: "audit_system \<Rightarrow> bool" where
  "audit_inv x \<longleftrightarrow>
     (\<forall>org. events_ok org (au_events (fst x) org) \<and> head_ok (au_events (fst x) org) (au_heads (fst x) org)
        \<and> -1 \<le> logged_sequence (au_cursors (fst x) org)
        \<and> logged_sequence (au_cursors (fst x) org) < int (length (au_events (fst x) org)))
     \<and> (\<forall>org i ob. au_outbox (fst x) (org, i) = Some ob \<longrightarrow> delivery_doc_ok (fst x) org i ob)
     \<and> (\<forall>org i. map_of (au_events (fst x) org) i \<noteq> None \<longrightarrow> au_outbox (fst x) (org, i) \<noteq> None)
     \<and> (\<forall>c \<in> snd x. \<exists>ob. au_outbox (fst x) (acl_path c) = Some ob \<and> aob_event ob = aob_event (acl_outbox c))"


section \<open>Inversion of the operations\<close>

lemma read_audit_outbox_ok [result_iff]:
  "read_audit_outbox s path = Inr ob \<longleftrightarrow>
     (\<exists>doc. au_outbox s path = Some doc \<and> validate_audit_outbox doc = Inr ob)"
  by (auto simp: read_audit_outbox_def split: option.splits)

lemma audit_owned_ok [result_iff]: "audit_owned ob owner = Inr u \<longleftrightarrow> aob_lease_owner ob = Some owner"
  by (simp add: audit_owned_def require_eq_Inr)

lemma audit_require_next_ok [result_iff]:
  "audit_require_next s org ob = Inr u \<longleftrightarrow> logged_sequence (au_cursors s org) = aud_sequence (aob_event ob) - 1"
  by (simp add: audit_require_next_def require_eq_Inr)

lemma inv_doc: "audit_inv (s, C) \<Longrightarrow> au_outbox s (org, i) = Some ob \<Longrightarrow> delivery_doc_ok s org i ob"
  unfolding audit_inv_def by simp

lemma inv_events: "audit_inv (s, C) \<Longrightarrow> events_ok org (au_events s org)"
  unfolding audit_inv_def by simp

lemma inv_head: "audit_inv (s, C) \<Longrightarrow> head_ok (au_events s org) (au_heads s org)"
  unfolding audit_inv_def by simp

lemma inv_cursor:
  "audit_inv (s, C) \<Longrightarrow> -1 \<le> logged_sequence (au_cursors s org) \<and> logged_sequence (au_cursors s org) < int (length (au_events s org))"
  unfolding audit_inv_def by simp

lemma inv_outbox: "audit_inv (s, C) \<Longrightarrow> map_of (au_events s org) i \<noteq> None \<Longrightarrow> au_outbox s (org, i) \<noteq> None"
  unfolding audit_inv_def by simp

lemma inv_claim:
  "audit_inv (s, C) \<Longrightarrow> c \<in> C \<Longrightarrow> \<exists>ob. au_outbox s (acl_path c) = Some ob \<and> aob_event ob = aob_event (acl_outbox c)"
  unfolding audit_inv_def by simp

lemma inv_read: "audit_inv (s, C) \<Longrightarrow> read_audit_outbox s (org, i) = Inr ob \<longleftrightarrow> au_outbox s (org, i) = Some ob"
  using inv_doc [of s C org i] by (auto simp: read_audit_outbox_ok delivery_doc_ok_def validate_outbox_ok)

lemma read_known:
  assumes "audit_inv (s, C)" "read_audit_outbox s path = Inr ob"
  shows "au_outbox s path = Some ob" "audit_outbox_ok ob"
proof -
  obtain org i where path: "path = (org, i)" by fastforce
  show o: "au_outbox s path = Some ob" using assms inv_read path by simp
  show "audit_outbox_ok ob" using inv_doc [OF assms(1)] o path by (simp add: delivery_doc_ok_def)
qed

text \<open>The event of a name, in the numbered list.\<close>

lemma events_ok_map_of:
  assumes "events_ok org es" "map_of es i = Some e"
  shows "audit_ok e \<and> aud_id e = i \<and> aud_organisation_id e = org \<and> 0 \<le> aud_sequence e
    \<and> aud_sequence e < int (length es) \<and> es ! nat (aud_sequence e) = (i, e)"
proof -
  from assms(2) have "(i, e) \<in> set es" by (rule map_of_SomeD)
  then obtain k where k: "k < length es" "es ! k = (i, e)" by (auto simp: in_set_conv_nth)
  then have "aud_id e = i \<and> aud_organisation_id e = org \<and> audit_ok e \<and> aud_sequence e = int k"
    using assms(1) unfolding events_ok_def by force
  then show ?thesis using k by simp
qed

lemma doc_event:
  assumes "audit_inv (s, C)" "au_outbox s (org, i) = Some ob"
  shows "aud_id (aob_event ob) = i \<and> aud_organisation_id (aob_event ob) = org \<and> 0 \<le> aud_sequence (aob_event ob)
    \<and> aud_sequence (aob_event ob) < int (length (au_events s org))"
proof -
  have "map_of (au_events s org) i = Some (aob_event ob)" using inv_doc [OF assms] by (simp add: delivery_doc_ok_def)
  from events_ok_map_of [OF inv_events [OF assms(1)] this] show ?thesis by simp
qed

text \<open>An append either finds its event and changes nothing, or adds the next one.\<close>

lemma append_cases:
  assumes "audit_append sha fmt eid org kind actor resource run p evidence t region s = Inr (e, s')" "audit_inv (s, C)"
  obtains (existing) "map_of (au_events s org) eid = Some e" "same_append e kind actor resource run p evidence region" "s' = s"
  | (created) n prev where "map_of (au_events s org) eid = None" "chain_end s org = Inr (n, prev)"
      "e = trim_event \<lparr>aud_id = eid, aud_organisation_id = org, aud_sequence = n, aud_kind = kind,
               aud_actor_id = actor, aud_resource = resource, aud_run_id = run, aud_payload = p,
               aud_evidence_ids = evidence, aud_previous_hash = prev,
               aud_event_hash = event_hash sha fmt org n kind actor resource run p evidence prev t region,
               aud_occurred_at = t, aud_region = region\<rparr>"
      "audit_ok e" "identifier_ok org" "identifier_ok eid" "s' = appended_store s org eid e (new_outbox e t)"
proof (cases "map_of (au_events s org) eid")
  case None
  have o: "validate_audit_outbox (new_outbox x t) = Inr ob \<longleftrightarrow> ob = new_outbox x t" if "audit_ok x" for x ob
    using validate_outbox_ok [OF new_outbox_ok [OF that]] by auto
  show ?thesis
    using assms(1) None
    by (auto simp: audit_append_def bindr_eq_Inr validate_audit_event_iff Let_def segments_def require_eq_Inr o
        split: prod.splits intro!: created)
next
  case (Some doc)
  note ok = events_ok_map_of [OF inv_events [OF assms(2)] Some]
  have v: "validate_audit_event doc = Inr doc" using ok by (intro validate_ok) simp
  from inv_outbox [OF assms(2), of org eid] Some obtain ob where ob: "au_outbox s (org, eid) = Some ob" by auto
  from inv_doc [OF assms(2) ob] have d: "validate_audit_outbox ob = Inr ob" "aob_event ob = doc"
    using Some by (simp_all add: delivery_doc_ok_def validate_outbox_ok)
  show ?thesis
    using assms(1) Some v ob d
    by (auto simp: audit_append_def bindr_eq_Inr append_existing_def require_eq_Inr split: if_splits intro!: existing)
qed

lemma chain_end_inv:
  assumes "audit_inv (s, C)" "chain_end s org = Inr (n, prev)"
  shows "n = int (length (au_events s org))
    \<and> prev = (if au_events s org = [] then GENESIS else aud_event_hash (snd (last (au_events s org))))"
  using inv_head [OF assms(1), of org] assms(2)
  by (auto simp: chain_end_def head_ok_def require_eq_Inr bindr_eq_Inr split: option.splits)

lemma audit_claim_cases:
  assumes "audit_claim_one s path owner now duration = Inr (Some c, s')"
  obtains ob where "read_audit_outbox s path = Inr ob" "\<not> audit_settled ob" "aob_available_at ob \<le> now"
    "\<And>t. aob_lease_expires_at ob = Some t \<Longrightarrow> t \<le> now"
    "logged_sequence (au_cursors s (aud_organisation_id (aob_event ob))) = aud_sequence (aob_event ob) - 1"
    "c = \<lparr>acl_path = path, acl_outbox = claimed_doc ob owner (now + duration)\<rparr>"
    "s' = s\<lparr>au_outbox := (au_outbox s)(path \<mapsto> claimed_doc ob owner (now + duration))\<rparr>"
  using assms
  by (auto simp: audit_claim_one_def bindr_eq_Inr audit_settled_def Let_def split: if_splits option.splits)

section \<open>Documents that are written\<close>

lemma trim_outbox_fixed:
  "trim_outbox ob = ob \<longleftrightarrow>
     map_option trim (aob_lease_owner ob) = aob_lease_owner ob
     \<and> map_option trim (aob_provider_receipt ob) = aob_provider_receipt ob
     \<and> map_option trim (aob_dead_letter_reason ob) = aob_dead_letter_reason ob
     \<and> map_option trim (aob_last_error ob) = aob_last_error ob"
  by (cases ob) (auto simp: trim_outbox_def)

lemmas outbox_doc_defs = audit_outbox_ok_def trim_outbox_fixed audit_outbox_fields_ok_def
  validate_audit_delivery_def bindr_eq_Inr require_eq_Inr audit_settled_def

lemma claimed_doc_ok:
  assumes "audit_outbox_ok ob" "\<not> audit_settled ob" "identifier_ok owner"
  shows "audit_outbox_ok (claimed_doc ob owner x)" "\<not> audit_settled (claimed_doc ob owner x)"
  using assms trim_identifier [OF assms(3)]
  by (auto simp: outbox_doc_defs claimed_doc_def)

lemma logged_doc_ok:
  assumes "audit_outbox_ok ob" "\<not> audit_settled ob" "text_between 1 512 receipt" "trim receipt = receipt"
  shows "audit_outbox_ok (logged_doc ob receipt x)" "audit_settled (logged_doc ob receipt x)"
  using assms
  by (auto simp: outbox_doc_defs logged_doc_def)

lemma audit_dead_doc_ok:
  assumes "audit_outbox_ok ob" "\<not> audit_settled ob" "text_between 1 1024 reason" "trim reason = reason"
  shows "audit_outbox_ok (audit_dead_doc ob reason x)" "audit_settled (audit_dead_doc ob reason x)"
  using assms
  by (auto simp: outbox_doc_defs audit_dead_doc_def text_between_def)

lemma audit_failed_doc_ok:
  assumes "audit_outbox_ok ob" "\<not> audit_settled ob" "text_between 0 1024 reason" "trim reason = reason"
  shows "audit_outbox_ok (audit_failed_doc ob reason x)" "\<not> audit_settled (audit_failed_doc ob reason x)"
  using assms
  by (auto simp: outbox_doc_defs audit_failed_doc_def)

lemma written_docs_event [simp]:
  "aob_event (claimed_doc ob owner x) = aob_event ob" "aob_event (logged_doc ob receipt x) = aob_event ob"
  "aob_event (audit_dead_doc ob reason x) = aob_event ob" "aob_event (audit_failed_doc ob reason x) = aob_event ob"
  "aob_event (new_outbox e x) = e"
  by (simp_all add: claimed_doc_def logged_doc_def audit_dead_doc_def audit_failed_doc_def new_outbox_def)

section \<open>The steps keep the invariant\<close>

text \<open>Rewriting a document that stays unsettled.\<close>

lemma rewrite_keeps:
  assumes inv: "audit_inv (s, C)" and old: "au_outbox s path = Some ob" "\<not> audit_settled ob"
    and new: "audit_outbox_ok ob'" "aob_event ob' = aob_event ob" "\<not> audit_settled ob'"
  shows "audit_inv (s\<lparr>au_outbox := (au_outbox s)(path \<mapsto> ob')\<rparr>, C)"
proof -
  obtain org i where path: "path = (org, i)" by fastforce
  have "delivery_doc_ok s org i ob'"
    using inv_doc [OF inv old(1) [unfolded path]] old(2) new by (simp add: delivery_doc_ok_def)
  moreover have "\<exists>x. ((au_outbox s)(path \<mapsto> ob')) (acl_path c) = Some x \<and> aob_event x = aob_event (acl_outbox c)"
    if "c \<in> C" for c
    using inv_claim [OF inv that] old(1) new(2) by auto
  ultimately show ?thesis
    using inv unfolding audit_inv_def delivery_doc_ok_def by (auto simp: path)
qed

lemma claim_known:
  assumes "audit_inv (s, C)" "au_outbox s path = Some ob" "aob_event ob = aob_event (acl_outbox c)" "acl_path c = path"
  shows "audit_inv (s, insert c C)"
  using assms unfolding audit_inv_def by auto

text \<open>Settling the next event of an organisation.\<close>

lemma settle_keeps:
  assumes inv: "audit_inv (s, C)" and c: "c \<in> C" and old: "au_outbox s (acl_path c) = Some ob" "\<not> audit_settled ob"
    and new: "audit_outbox_ok ob'" "aob_event ob' = aob_event ob" "audit_settled ob'"
    and nxt: "logged_sequence (au_cursors s (aud_organisation_id (aob_event (acl_outbox c)))) = aud_sequence (aob_event ob) - 1"
  shows "audit_inv (audit_settle s c ob' a b d r, C)"
proof -
  obtain org i where path: "acl_path c = (org, i)" by fastforce
  have ev: "aob_event (acl_outbox c) = aob_event ob" using inv_claim [OF inv c] old(1) by auto
  note de = doc_event [OF inv old(1) [unfolded path]]
  let ?s = "audit_settle s c ob' a b d r"
  have f [simp]: "au_events ?s = au_events s" "au_heads ?s = au_heads s"
    "au_outbox ?s = (au_outbox s)((org, i) \<mapsto> ob')"
    "logged_sequence (au_cursors ?s o') = (if o' = org then aud_sequence (aob_event ob) else logged_sequence (au_cursors s o'))"
    for o'
    using de ev path by (simp_all add: audit_settle_def Let_def logged_sequence_def)
  have cur: "logged_sequence (au_cursors s org) = aud_sequence (aob_event ob) - 1" using nxt ev de by simp
  have docs: "delivery_doc_ok ?s o' j x" if x: "au_outbox ?s (o', j) = Some x" for o' j x
  proof (cases "(o', j) = (org, i)")
    case True
    then have "x = ob'" "o' = org" "j = i" using x by auto
    then show ?thesis using new inv_doc [OF inv old(1) [unfolded path]] unfolding delivery_doc_ok_def f by simp
  next
    case False
    then have ox: "au_outbox s (o', j) = Some x" using x by auto
    note dx = inv_doc [OF inv ox]
    have "aud_sequence (aob_event x) \<noteq> aud_sequence (aob_event ob)" if "o' = org"
    proof
      assume eq: "aud_sequence (aob_event x) = aud_sequence (aob_event ob)"
      have "map_of (au_events s org) j = Some (aob_event x)" "map_of (au_events s org) i = Some (aob_event ob)"
        using dx inv_doc [OF inv old(1) [unfolded path]] that by (simp_all add: delivery_doc_ok_def)
      then have "j = i" using events_ok_map_of [OF inv_events [OF inv]] eq by (metis prod.inject)
      then show False using False that by simp
    qed
    then show ?thesis using dx cur by (auto simp: delivery_doc_ok_def)
  qed
  have claims: "\<exists>x. au_outbox ?s (acl_path k) = Some x \<and> aob_event x = aob_event (acl_outbox k)" if "k \<in> C" for k
    using inv_claim [OF inv that] old(1) new(2) path by auto
  have curs: "-1 \<le> logged_sequence (au_cursors ?s o') \<and> logged_sequence (au_cursors ?s o') < int (length (au_events s o'))" for o'
    using inv_cursor [OF inv, of o'] de by simp
  have "\<forall>o' j. map_of (au_events s o') j \<noteq> None \<longrightarrow> au_outbox ?s (o', j) \<noteq> None"
    using inv_outbox [OF inv] by auto
  then show ?thesis
    unfolding audit_inv_def fst_conv snd_conv using inv_events [OF inv] inv_head [OF inv] curs docs claims by simp
qed

lemma events_ok_append:
  assumes "events_ok org es" "map_of es i = None" "audit_ok e" "aud_id e = i" "aud_organisation_id e = org"
    "aud_sequence e = int (length es)"
  shows "events_ok org (es @ [(i, e)])"
  using assms by (auto simp: events_ok_def nth_append less_Suc_eq map_of_eq_None_iff)

lemma append_keeps:
  assumes inv: "audit_inv (s, C)" and new: "map_of (au_events s org) i = None"
    and e: "audit_ok e" "aud_id e = i" "aud_organisation_id e = org" "aud_sequence e = int (length (au_events s org))"
  shows "audit_inv (appended_store s org i e (new_outbox e t), C)"
proof -
  let ?s = "appended_store s org i e (new_outbox e t)"
  have f [simp]: "au_events ?s = (au_events s)(org := au_events s org @ [(i, e)])"
    "au_outbox ?s = (au_outbox s)((org, i) \<mapsto> new_outbox e t)" "au_cursors ?s = au_cursors s"
    by (simp_all add: appended_store_def)
  have none: "au_outbox s (org, i) = None"
  proof (rule ccontr)
    assume "au_outbox s (org, i) \<noteq> None"
    then obtain ob where "au_outbox s (org, i) = Some ob" by auto
    from inv_doc [OF inv this] new show False by (simp add: delivery_doc_ok_def)
  qed
  have docs: "delivery_doc_ok ?s o' j x" if x: "au_outbox ?s (o', j) = Some x" for o' j x
  proof (cases "(o', j) = (org, i)")
    case True
    then have "x = new_outbox e t" using x by simp
    moreover have "map_of (au_events s org @ [(i, e)]) i = Some e"
      using new by (simp add: map_add_def)
    moreover have "\<not> audit_settled (new_outbox e t)" by (simp add: audit_settled_def new_outbox_def)
    ultimately show ?thesis using True new_outbox_ok [OF e(1)] inv_cursor [OF inv, of org] e(4)
      by (simp add: delivery_doc_ok_def)
  next
    case False
    then have "au_outbox s (o', j) = Some x" using x by auto
    then show ?thesis using inv_doc [OF inv, of o' j x] False by (auto simp: delivery_doc_ok_def map_add_def split: option.splits)
  qed
  have claims: "\<exists>x. au_outbox ?s (acl_path k) = Some x \<and> aob_event x = aob_event (acl_outbox k)" if "k \<in> C" for k
    using inv_claim [OF inv that] none by (cases "acl_path k = (org, i)") auto
  have evs: "events_ok o' (au_events ?s o')" for o'
    using inv_events [OF inv] events_ok_append [OF inv_events [OF inv] new e] by simp
  have hds: "head_ok (au_events ?s o') (au_heads ?s o')" for o'
    using inv_head [OF inv, of o'] e(4) by (simp add: appended_store_def head_ok_def)
  have curs: "-1 \<le> logged_sequence (au_cursors s o') \<and> logged_sequence (au_cursors s o') < int (length (au_events ?s o'))" for o'
    using inv_cursor [OF inv, of o'] by auto
  have "\<forall>o' j. map_of (au_events ?s o') j \<noteq> None \<longrightarrow> au_outbox ?s (o', j) \<noteq> None"
    using inv_outbox [OF inv] by (auto simp: map_add_def split: option.splits)
  then show ?thesis
    unfolding audit_inv_def fst_conv snd_conv using evs hds curs docs claims by simp
qed

section \<open>Reachable states\<close>

lemma empty_audit_inv: "audit_inv (empty_audit, {})"
  by (simp add: audit_inv_def empty_audit_def events_ok_def head_ok_def logged_sequence_def)

lemma created_event:
  assumes "e = trim_event x" "audit_ok e" "identifier_ok org" "identifier_ok eid" "aud_id x = eid" "aud_organisation_id x = org"
  shows "aud_id e = eid" "aud_organisation_id e = org" "aud_sequence e = aud_sequence x"
  using assms trim_identifier by (simp_all add: trim_event_def)

lemma audit_step_inv: "audit_step sha fmt strict x y \<Longrightarrow> audit_inv x \<Longrightarrow> audit_inv y"
proof (induction rule: audit_step.induct)
  case (as_append eid org kind actor resource run p evidence t region s e s' C)
  from as_append.hyps(1) as_append.prems show ?case
  proof (cases rule: append_cases)
    case existing
    then show ?thesis using as_append.prems by simp
  next
    case (created n prev)
    note ev = created_event [OF created(3-6) audit_event.select_convs(1,2)]
    have "aud_sequence e = int (length (au_events s org))"
      using ev(3) chain_end_inv [OF as_append.prems created(2)] by simp
    from append_keeps [OF as_append.prems created(1,4) ev(1,2) this] created(7) show ?thesis by simp
  qed
next
  case (as_claim s path owner now duration c s' C)
  from as_claim.hyps(1) show ?case
  proof (cases rule: audit_claim_cases)
    case (1 ob)
    note ob = read_known [OF as_claim.prems 1(1)]
    note new = claimed_doc_ok [OF ob(2) 1(2) as_claim.hyps(2), of "now + duration"]
    have "audit_inv (s', C)"
      unfolding 1(7) by (rule rewrite_keeps [OF as_claim.prems ob(1) 1(2) new(1) _ new(2)]) simp
    then show ?thesis by (rule claim_known [where path = path and ob = "claimed_doc ob owner (now + duration)"]) (simp_all add: 1)
  qed
next
  case (as_logged c C owner receipt t s s')
  then obtain ob where ob: "read_audit_outbox s (acl_path c) = Inr ob"
    and settle: "s' = s \<or> (\<not> audit_settled ob \<and> s' = audit_settle s c (logged_doc ob receipt t) (Some receipt) (Some t) None None
      \<and> logged_sequence (au_cursors s (aud_organisation_id (aob_event (acl_outbox c)))) = aud_sequence (aob_event ob) - 1)"
    by (auto simp: mark_logged_def Let_def bindr_eq_Inr require_eq_Inr audit_require_next_ok audit_settled_def split: if_splits)
  note old = read_known [OF as_logged.prems ob]
  from settle show ?case
  proof
    assume d: "\<not> audit_settled ob \<and> s' = audit_settle s c (logged_doc ob receipt t) (Some receipt) (Some t) None None
      \<and> logged_sequence (au_cursors s (aud_organisation_id (aob_event (acl_outbox c)))) = aud_sequence (aob_event ob) - 1"
    then have u: "\<not> audit_settled ob" by simp
    note new = logged_doc_ok [OF old(2) u as_logged.hyps(3,4)]
    show ?thesis using settle_keeps [OF as_logged.prems as_logged.hyps(1) old(1) u new(1) _ new(2)] d by simp
  qed (use as_logged.prems in simp)
next
  case (as_dead c C owner reason t s s')
  then obtain ob where ob: "read_audit_outbox s (acl_path c) = Inr ob"
    and settle: "s' = s \<or> (\<not> audit_settled ob \<and> s' = audit_settle s c (audit_dead_doc ob reason t) None None (Some t) (Some reason)
      \<and> logged_sequence (au_cursors s (aud_organisation_id (aob_event (acl_outbox c)))) = aud_sequence (aob_event ob) - 1)"
    by (auto simp: audit_dead_letter_def Let_def bindr_eq_Inr require_eq_Inr audit_require_next_ok audit_settled_def split: if_splits)
  note old = read_known [OF as_dead.prems ob]
  from settle show ?case
  proof
    assume d: "\<not> audit_settled ob \<and> s' = audit_settle s c (audit_dead_doc ob reason t) None None (Some t) (Some reason)
      \<and> logged_sequence (au_cursors s (aud_organisation_id (aob_event (acl_outbox c)))) = aud_sequence (aob_event ob) - 1"
    then have u: "\<not> audit_settled ob" by simp
    note new = audit_dead_doc_ok [OF old(2) u as_dead.hyps(3,4)]
    show ?thesis using settle_keeps [OF as_dead.prems as_dead.hyps(1) old(1) u new(1) _ new(2)] d by simp
  qed (use as_dead.prems in simp)
next
  case (as_failed c C owner reason t s s')
  then obtain ob where ob: "read_audit_outbox s (acl_path c) = Inr ob"
    and fail: "s' = s \<or> (\<not> audit_settled ob \<and> s' = s\<lparr>au_outbox := (au_outbox s)(acl_path c \<mapsto> audit_failed_doc ob reason t)\<rparr>)"
    by (auto simp: audit_failed_def bindr_eq_Inr audit_settled_def split: if_splits)
  note old = read_known [OF as_failed.prems ob]
  from fail show ?case
  proof
    assume d: "\<not> audit_settled ob \<and> s' = s\<lparr>au_outbox := (au_outbox s)(acl_path c \<mapsto> audit_failed_doc ob reason t)\<rparr>"
    then have u: "\<not> audit_settled ob" by simp
    note new = audit_failed_doc_ok [OF old(2) u as_failed.hyps(3,4)]
    show ?thesis using rewrite_keeps [OF as_failed.prems old(1) u new(1) _ new(2)] d by simp
  qed (use as_failed.prems in simp)
qed

lemma audit_steps_inv: "audit_steps sha fmt strict x y \<Longrightarrow> audit_inv x \<Longrightarrow> audit_inv y"
  by (induction rule: audit_steps.induct) (auto dest: audit_step_inv)

lemma audit_reachable_inv: "audit_reachable sha fmt strict x \<Longrightarrow> audit_inv x"
  unfolding audit_reachable_def by (rule audit_steps_inv [OF _ empty_audit_inv])

end
