(* ===== verification/Audit_Chain.thy ===== *)
theory Audit_Chain imports Audit_Facts begin

text \<open>
  The chain of hashes: what the check accepts, that the texts under the hashes determine the events,
  and that events are never changed or removed.
\<close>

section \<open>What the check accepts\<close>

text \<open>The text under the hash of a stored event.\<close>

definition event_text :: "(int \<Rightarrow> string) \<Rightarrow> audit_event \<Rightarrow> string" where
  "event_text fmt e =
     json_text (event_json fmt (aud_organisation_id e) (aud_sequence e) (aud_kind e) (aud_actor_id e) (aud_resource e)
       (aud_run_id e) (aud_payload e) (aud_evidence_ids e) (aud_previous_hash e) (aud_occurred_at e) (aud_region e))"

lemma check_chain_Cons:
  "check_chain sha fmt n prev (e # es) = Inr () \<longleftrightarrow>
     aud_sequence e = n \<and> aud_previous_hash e = prev \<and> aud_event_hash e = sha (event_text fmt e)
     \<and> check_chain sha fmt (n + 1) (aud_event_hash e) es = Inr ()"
  by (auto simp: Let_def bindr_eq_Inr require_eq_Inr event_hash_def event_text_def)

declare check_chain.simps(2) [simp del]

lemma check_chain_append:
  "check_chain sha fmt n prev (xs @ ys) = Inr () \<longleftrightarrow>
     check_chain sha fmt n prev xs = Inr ()
     \<and> check_chain sha fmt (n + int (length xs)) (if xs = [] then prev else aud_event_hash (last xs)) ys = Inr ()"
  by (induction xs arbitrary: n prev) (auto simp: check_chain_Cons algebra_simps)

lemma check_chain_error:
  "check_chain sha fmt n prev es = Inl x \<Longrightarrow> x = ValueError ''audit hash chain validation failed''"
  by (induction es arbitrary: n prev) (auto simp: check_chain.simps(2) Let_def bindr_eq_Inl require_eq_Inl)

lemma check_chain_hash:
  "check_chain sha fmt n prev es = Inr () \<Longrightarrow> e \<in> set es \<Longrightarrow> aud_event_hash e = sha (event_text fmt e)"
  by (induction es arbitrary: n prev) (auto simp: check_chain_Cons)

lemma check_chain_snoc:
  "check_chain sha fmt n prev (es @ [e]) = Inr () \<longleftrightarrow>
     check_chain sha fmt n prev es = Inr () \<and> aud_sequence e = n + int (length es)
     \<and> aud_previous_hash e = (if es = [] then prev else aud_event_hash (last es))
     \<and> aud_event_hash e = sha (event_text fmt e)"
  by (auto simp: check_chain_append check_chain_Cons)

section \<open>The text determines the event\<close>

lemma event_keys_sorted:
  "sorted [''actor_id'', ''evidence_ids'', ''kind'', ''occurred_at'', ''organisation_id'', ''payload'', ''previous_hash'',
     ''region'', ''resource'', ''run_id'', ''sequence'']"
  by code_simp

lemma sort_event_json:
  "sort_json (event_json fmt org n kind actor resource run p evidence prev t region) =
     JDict [(''actor_id'', JStr actor), (''evidence_ids'', JList (map JStr evidence)), (''kind'', JStr kind),
       (''occurred_at'', JStr (fmt t)), (''organisation_id'', JStr org),
       (''payload'', sort_json (payload_json p)), (''previous_hash'', JStr prev), (''region'', JStr region),
       (''resource'', JStr resource), (''run_id'', case run of None \<Rightarrow> JNull | Some r \<Rightarrow> JStr r),
       (''sequence'', JInt n)]"
proof -
  have "sort_json (case run of None \<Rightarrow> JNull | Some r \<Rightarrow> JStr r) = (case run of None \<Rightarrow> JNull | Some r \<Rightarrow> JStr r)"
    by (cases run) simp_all
  then show ?thesis
    unfolding event_json_def sort_json.simps
    by (subst sort_key_id_if_sorted) (use event_keys_sorted in \<open>simp_all add: comp_def\<close>)
qed

lemma sorted_payload_set:
  "sort_json (payload_json p) = JDict kvs \<Longrightarrow> set kvs = (\<lambda>kv. (fst kv, scalar_json (snd kv))) ` set p"
proof -
  have s: "sort_json (scalar_json v) = scalar_json v" for v by (cases v) simp_all
  assume "sort_json (payload_json p) = JDict kvs"
  then have "kvs = sort_key fst (map (\<lambda>kv. (fst kv, scalar_json (snd kv))) p)"
    by (simp add: payload_json_def comp_def s)
  then show ?thesis by simp
qed

lemma scalar_json_inject: "scalar_json v = scalar_json w \<longleftrightarrow> v = w"
  by (cases v; cases w) simp_all

lemma payload_text_set:
  assumes "sort_json (payload_json p) = sort_json (payload_json q)"
  shows "set p = set q"
proof -
  obtain kvs where k: "sort_json (payload_json p) = JDict kvs" by (simp add: payload_json_def)
  have "(\<lambda>kv. (fst kv, scalar_json (snd kv))) ` set p = (\<lambda>kv. (fst kv, scalar_json (snd kv))) ` set q"
    using sorted_payload_set [OF k] sorted_payload_set [of q kvs] k assms by simp
  moreover have "inj (\<lambda>kv :: string \<times> scalar. (fst kv, scalar_json (snd kv)))"
    by (auto simp: inj_def scalar_json_inject prod_eq_iff)
  ultimately show ?thesis by (metis inj_image_eq_iff)
qed

text \<open>Everything that is hashed; the payload as a set of entries.\<close>

definition same_contents :: "(int \<Rightarrow> string) \<Rightarrow> audit_event \<Rightarrow> audit_event \<Rightarrow> bool" where
  "same_contents fmt e f \<longleftrightarrow>
     aud_organisation_id e = aud_organisation_id f \<and> aud_sequence e = aud_sequence f \<and> aud_kind e = aud_kind f
     \<and> aud_actor_id e = aud_actor_id f \<and> aud_resource e = aud_resource f \<and> aud_run_id e = aud_run_id f
     \<and> set (aud_payload e) = set (aud_payload f) \<and> aud_evidence_ids e = aud_evidence_ids f
     \<and> aud_previous_hash e = aud_previous_hash f \<and> fmt (aud_occurred_at e) = fmt (aud_occurred_at f)
     \<and> aud_region e = aud_region f"

lemma event_json_inject:
  assumes "json_text (event_json fmt org n kind actor resource run p evidence prev t region)
    = json_text (event_json fmt org' n' kind' actor' resource' run' p' evidence' prev' t' region')"
  shows "org = org' \<and> n = n' \<and> kind = kind' \<and> actor = actor' \<and> resource = resource' \<and> run = run' \<and> set p = set p'
    \<and> evidence = evidence' \<and> prev = prev' \<and> fmt t = fmt t' \<and> region = region'"
proof -
  have s: "sort_json (event_json fmt org n kind actor resource run p evidence prev t region)
    = sort_json (event_json fmt org' n' kind' actor' resource' run' p' evidence' prev' t' region')"
    using assms by (simp add: json_text_inject)
  have "map JStr evidence = map JStr evidence' \<Longrightarrow> evidence = evidence'"
    by (rule map_injective) (auto simp: inj_def)
  moreover have "(case run of None \<Rightarrow> JNull | Some r \<Rightarrow> JStr r) = (case run' of None \<Rightarrow> JNull | Some r \<Rightarrow> JStr r) \<Longrightarrow> run = run'"
    by (cases run; cases run') simp_all
  moreover have "set p = set p'"
    by (rule payload_text_set) (use s in \<open>simp add: sort_event_json\<close>)
  ultimately show ?thesis using s unfolding sort_event_json json.inject list.inject prod.inject by blast
qed

lemma event_text_same: "event_text fmt e = event_text fmt f \<Longrightarrow> same_contents fmt e f"
  unfolding event_text_def same_contents_def by (drule event_json_inject) simp

text \<open>Two accepted chains that end in the same hash, under a hash without a collision among them.\<close>

lemma chains_agree:
  assumes "check_chain sha fmt 0 GENESIS xs = Inr ()" "check_chain sha fmt 0 GENESIS ys = Inr ()"
    and "xs \<noteq> []" "ys \<noteq> []" "aud_event_hash (last xs) = aud_event_hash (last ys)"
    and "inj_on sha (event_text fmt ` (set xs \<union> set ys))"
  shows "list_all2 (same_contents fmt) xs ys"
  using assms
proof (induction xs arbitrary: ys rule: rev_induct)
  case Nil
  then show ?case by simp
next
  case (snoc e xs)
  from snoc.prems(4) obtain ys' f where ys: "ys = ys' @ [f]" by (metis rev_exhaust)
  have e: "check_chain sha fmt 0 GENESIS xs = Inr ()" "aud_sequence e = int (length xs)" "aud_event_hash e = sha (event_text fmt e)"
    "aud_previous_hash e = (if xs = [] then GENESIS else aud_event_hash (last xs))"
    using snoc.prems(1) by (simp_all add: check_chain_snoc)
  have f: "check_chain sha fmt 0 GENESIS ys' = Inr ()" "aud_sequence f = int (length ys')" "aud_event_hash f = sha (event_text fmt f)"
    "aud_previous_hash f = (if ys' = [] then GENESIS else aud_event_hash (last ys'))"
    using snoc.prems(2) ys by (simp_all add: check_chain_snoc)
  have "event_text fmt e = event_text fmt f"
    by (rule inj_onD [OF snoc.prems(6)]) (use snoc.prems(5) e(3) f(3) ys in simp_all)
  then have same: "same_contents fmt e f" by (rule event_text_same)
  then have len: "length xs = length ys'" using e(2) f(2) by (simp add: same_contents_def)
  show ?case
  proof (cases "xs = []")
    case True
    then show ?thesis using len same ys by simp
  next
    case False
    then have ne: "ys' \<noteq> []" using len by auto
    have inj: "inj_on sha (event_text fmt ` (set xs \<union> set ys'))"
      by (rule inj_on_subset [OF snoc.prems(6)]) (auto simp: ys)
    have "aud_event_hash (last xs) = aud_event_hash (last ys')"
      using same False ne e(4) f(4) by (simp add: same_contents_def)
    from snoc.IH [OF e(1) f(1) False ne this inj] show ?thesis using same ys by (simp add: list_all2_appendI)
  qed
qed

section \<open>Verification in reachable stores\<close>

lemma events_sorted: "events_ok org es \<Longrightarrow> sort_key aud_sequence (map snd es) = map snd es"
  by (rule sort_key_id_if_sorted) (auto simp: sorted_iff_nth_mono events_ok_def)

lemma events_validate: "events_ok org es \<Longrightarrow> mapr validate_audit_event (map snd es) = Inr (map snd es)"
proof -
  assume ok: "events_ok org es"
  have "validate_audit_event x = Inr x" if "x \<in> set (map snd es)" for x
  proof -
    from that obtain i where "i < length es" "x = snd (es ! i)" by (auto simp: in_set_conv_nth)
    then show ?thesis using ok by (simp add: events_ok_def validate_ok)
  qed
  then show ?thesis using mapr_total [of "map snd es" validate_audit_event "\<lambda>x. x"] by simp
qed

lemma events_organisation: "events_ok org es \<Longrightarrow> es \<noteq> [] \<Longrightarrow> identifier_ok org"
  unfolding events_ok_def audit_ok_def audit_event_fields_ok_def by force

lemma audit_trail_events:
  assumes "audit_inv (s, C)" "identifier_ok org"
  shows "audit_trail s org = Inr (map snd (au_events s org))"
  using events_sorted [OF inv_events [OF assms(1)]] events_validate [OF inv_events [OF assms(1)]] assms(2)
  by (simp add: audit_trail_def segments_def)

lemma verify_audit_iff:
  assumes "audit_inv (s, C)" "au_events s org \<noteq> []"
  shows "verify_audit sha fmt s org = check_chain sha fmt 0 GENESIS (map snd (au_events s org))"
  using audit_trail_events [OF assms(1) events_organisation [OF inv_events [OF assms(1)] assms(2)]] assms(2)
  by (cases "check_chain sha fmt 0 GENESIS (map snd (au_events s org))") (simp_all add: verify_audit_def)

definition chained :: "(string \<Rightarrow> string) \<Rightarrow> (int \<Rightarrow> string) \<Rightarrow> audit_store \<Rightarrow> bool" where
  "chained sha fmt s \<longleftrightarrow> (\<forall>org. check_chain sha fmt 0 GENESIS (map snd (au_events s org)) = Inr ())"

lemma last_map_snd: "es \<noteq> [] \<Longrightarrow> last (map snd es) = snd (last es)"
  by (simp add: last_map)

text \<open>The transactions of the delivery leave the events alone.\<close>

lemma delivery_keeps_events:
  "audit_claim_one s path owner now d = Inr (x, s') \<Longrightarrow> au_events s' = au_events s"
  "mark_logged c owner receipt t s = Inr s' \<Longrightarrow> au_events s' = au_events s"
  "audit_dead_letter c owner receipt t s = Inr s' \<Longrightarrow> au_events s' = au_events s"
  "audit_failed c owner receipt t s = Inr s' \<Longrightarrow> au_events s' = au_events s"
  by (auto simp: audit_claim_one_def mark_logged_def audit_dead_letter_def audit_failed_def audit_settle_def
      bindr_eq_Inr Let_def split: if_splits option.splits)

lemma step_extends:
  assumes "audit_step sha fmt strict x y" "audit_inv x"
  shows "\<exists>es. au_events (fst y) org = au_events (fst x) org @ es"
  using assms
proof (induction rule: audit_step.induct)
  case (as_append eid o' kind actor resource run p evidence t region s e s' C)
  from as_append.hyps(1) as_append.prems show ?case
    by (cases rule: append_cases) (auto simp: appended_store_def)
qed (auto dest: delivery_keeps_events)

lemma steps_extend:
  "audit_steps sha fmt strict x y \<Longrightarrow> audit_inv x \<Longrightarrow> \<exists>es. au_events (fst y) org = au_events (fst x) org @ es"
proof (induction rule: audit_steps.induct)
  case (as_step x y z)
  from as_step obtain es where "au_events (fst y) org = au_events (fst x) org @ es" by blast
  moreover from step_extends [OF as_step.hyps(2) audit_steps_inv [OF as_step.hyps(1) as_step.prems]]
  obtain fs where "au_events (fst z) org = au_events (fst y) org @ fs" by blast
  ultimately show ?case by auto
qed simp

lemma step_chained:
  assumes "audit_step sha fmt True x y" "audit_inv x" "chained sha fmt (fst x)" "\<And>t. hex64 (sha t)"
  shows "chained sha fmt (fst y)"
  using assms
proof (induction rule: audit_step.induct)
  case (as_append eid org kind actor resource run p evidence t region s e s' C)
  from as_append.hyps(1) as_append.prems(1) show ?case
  proof (cases rule: append_cases)
    case (created n prev)
    note end' = chain_end_inv [OF as_append.prems(1) created(2)]
    have st: "stripped kind actor resource run p evidence region" using as_append.hyps(2) by simp
    have "trim prev = prev" using end' inv_events [OF as_append.prems(1), of org]
      by (cases "au_events s org" rule: rev_cases)
        (auto simp: events_ok_def nth_append audit_ok_def audit_event_fields_ok_def GENESIS_def hex64_def list_all_iff
          is_digit_def char_code_def intro!: trim_hex64)
    then have e: "e = \<lparr>aud_id = eid, aud_organisation_id = org, aud_sequence = n, aud_kind = kind,
               aud_actor_id = actor, aud_resource = resource, aud_run_id = run, aud_payload = p,
               aud_evidence_ids = evidence, aud_previous_hash = prev,
               aud_event_hash = event_hash sha fmt org n kind actor resource run p evidence prev t region,
               aud_occurred_at = t, aud_region = region\<rparr>"
      using created(3) st trim_identifier [OF created(5)] trim_identifier [OF created(6)]
        trim_hex64 [OF as_append.prems(3)]
      by (simp add: trim_event_def stripped_def event_hash_def)
    have h: "aud_event_hash e = sha (event_text fmt e)" by (simp add: e event_text_def event_hash_def)
    have "aud_sequence e = n" "aud_previous_hash e = prev" by (simp_all add: e)
    then have "check_chain sha fmt 0 GENESIS (map snd (au_events s org) @ [e]) = Inr ()"
      unfolding check_chain_snoc using as_append.prems(2) end' h by (simp add: chained_def last_map_snd)
    then show ?thesis using as_append.prems(2) created(7) by (simp add: chained_def appended_store_def)
  qed (use as_append.prems in simp)
qed (auto simp: chained_def dest: delivery_keeps_events)

lemma reachable_chained:
  assumes "audit_reachable sha fmt True x" "\<And>t. hex64 (sha t)"
  shows "chained sha fmt (fst x)"
proof -
  have "audit_steps sha fmt True x y \<Longrightarrow> audit_inv x \<Longrightarrow> chained sha fmt (fst x) \<Longrightarrow> chained sha fmt (fst y)" for x y
  proof (induction rule: audit_steps.induct)
    case (as_step x y z)
    show ?case
      by (rule step_chained [OF as_step.hyps(2) audit_steps_inv [OF as_step.hyps(1) as_step.prems(1)]
            as_step.IH [OF as_step.prems] assms(2)])
  qed
  moreover have "chained sha fmt empty_audit" by (simp add: chained_def empty_audit_def)
  ultimately show ?thesis using assms(1) empty_audit_inv unfolding audit_reachable_def by fastforce
qed

end
