(* ===== verification/Audit_Theorems.thy ===== *)
theory Audit_Theorems imports Audit_Chain Examples begin

text \<open>
  The properties of the audit log: its chain of hashes, its appends, its delivery and the redaction
  of what is put into it.
\<close>

section \<open>The chain\<close>

definition raw_event ::
  "(string \<Rightarrow> string) \<Rightarrow> (int \<Rightarrow> string) \<Rightarrow> string \<Rightarrow> string \<Rightarrow> string \<Rightarrow> string \<Rightarrow> string \<Rightarrow> string option \<Rightarrow> payload
     \<Rightarrow> string list \<Rightarrow> int \<Rightarrow> string \<Rightarrow> int \<Rightarrow> string \<Rightarrow> audit_event" where
  "raw_event sha fmt eid org kind actor resource run p evidence t region n prev =
     \<lparr>aud_id = eid, aud_organisation_id = org, aud_sequence = n, aud_kind = kind, aud_actor_id = actor,
      aud_resource = resource, aud_run_id = run, aud_payload = p, aud_evidence_ids = evidence,
      aud_previous_hash = prev,
      aud_event_hash = event_hash sha fmt org n kind actor resource run p evidence prev t region,
      aud_occurred_at = t, aud_region = region\<rparr>"

text \<open>A fresh append of valid texts succeeds.\<close>

lemma append_fresh:
  assumes "segments [org, eid] = Inr ()" "map_of (au_events s org) eid = None" "chain_end s org = Inr (n, prev)"
    and "e = trim_event (raw_event sha fmt eid org kind actor resource run p evidence t region n prev)" "audit_ok e"
  shows "audit_append sha fmt eid org kind actor resource run p evidence t region s
    = Inr (e, appended_store s org eid e (new_outbox e t))"
proof -
  have v: "validate_audit_event (raw_event sha fmt eid org kind actor resource run p evidence t region n prev) = Inr e"
    using assms(4,5) by (simp add: validate_audit_event_iff)
  show ?thesis
    using assms(1-3) v validate_outbox_ok [OF new_outbox_ok [OF assms(5)], of t]
    by (simp add: audit_append_def raw_event_def Let_def)
qed

text \<open>
  The examples: the first event of an organisation, under a hash that tells texts with a space from
  texts without one.
\<close>

definition ex_space_sha :: "string \<Rightarrow> string" where
  "ex_space_sha t = replicate 64 (if CHR '' '' \<in> set t then CHR ''a'' else CHR ''b'')"

lemma ex_space_sha_hex: "hex64 (ex_space_sha t)"
  by (simp add: hex64_def ex_space_sha_def list_all_iff char_code_def)

definition ex_first :: "string \<Rightarrow> payload \<Rightarrow> audit_event" where
  "ex_first kind p = trim_event (raw_event ex_space_sha ex_fmt ''evt'' ''org'' kind ''user'' ''runs'' None p [] 1 ''eu1'' 0 GENESIS)"

definition ex_log :: "string \<Rightarrow> payload \<Rightarrow> audit_store" where
  "ex_log kind p = appended_store empty_audit ''org'' ''evt'' (ex_first kind p) (new_outbox (ex_first kind p) 1)"

lemma ex_texts: "trim ''user'' = ''user''" "trim ''runs'' = ''runs''" "trim ''org'' = ''org''" "trim ''evt'' = ''evt''" "trim ''eu1'' = ''eu1''"
  "identifier_ok ''user''" "identifier_ok ''org''" "identifier_ok ''evt''" "text_between 1 1024 ''runs''" "text_between 3 32 ''eu1''"
  by code_simp+

lemma ex_genesis: "hex64 GENESIS" "trim GENESIS = GENESIS"
proof -
  show h: "hex64 GENESIS" by (simp add: hex64_def GENESIS_def list_all_iff is_digit_def char_code_def)
  then show "trim GENESIS = GENESIS" by (rule trim_hex64)
qed

lemma ex_first_ok: "text_between 1 128 (trim kind) \<Longrightarrow> audit_ok (ex_first kind p)"
  using ex_space_sha_hex trim_hex64 [OF ex_space_sha_hex] ex_genesis ex_texts
  by (simp add: audit_ok_def ex_first_def audit_event_fields_ok_def)
     (simp add: trim_event_def raw_event_def event_hash_def)

lemma ex_append:
  assumes "text_between 1 128 (trim kind)"
  shows "audit_append ex_space_sha ex_fmt ''evt'' ''org'' kind ''user'' ''runs'' None p [] 1 ''eu1'' empty_audit
    = Inr (ex_first kind p, ex_log kind p)"
  unfolding ex_log_def
  by (rule append_fresh [where n = 0 and prev = GENESIS])
    (simp_all add: segments_def ex_texts empty_audit_def chain_end_def ex_first_ok [OF assms], simp add: ex_first_def)

lemma ex_log_events: "au_events (ex_log kind p) ''org'' = [(''evt'', ex_first kind p)]"
  by (simp add: ex_log_def appended_store_def empty_audit_def)

lemma ex_audit_reachable:
  assumes "text_between 1 128 (trim kind)"
    and "strict \<longrightarrow> stripped kind ''user'' ''runs'' None p [] ''eu1''"
  shows "audit_reachable ex_space_sha ex_fmt strict (ex_log kind p, {})"
  unfolding audit_reachable_def
  by (rule audit_steps.as_step [OF audit_steps.as_refl audit_step.as_append [OF ex_append [OF assms(1)] assms(2)]])

lemma ex_stripped: "stripped ''kind'' ''user'' ''runs'' None [] [] ''eu1''" "text_between 1 128 (trim ''kind'')"
  by code_simp+

text \<open>
  C36: The audit log of an organisation is an unbroken chain: in every store that deliveries and appends of
  texts without surrounding white space lead to, its events are numbered from zero without a gap, the next append
  continues from the last of them, and the verification of the chain succeeds.
\<close>

theorem audit_chain_verifies:
  assumes "\<And>t. hex64 (sha t)" "audit_reachable sha fmt True (s, C)" "au_events s org \<noteq> []"
  shows "verify_audit sha fmt s org = Inr ()
    \<and> map (aud_sequence \<circ> snd) (au_events s org) = map int [0..<length (au_events s org)]
    \<and> chain_end s org = Inr (int (length (au_events s org)), aud_event_hash (snd (last (au_events s org))))"
proof (intro conjI)
  note inv = audit_reachable_inv [OF assms(2)]
  show "verify_audit sha fmt s org = Inr ()"
    using reachable_chained [OF assms(2,1)] by (simp add: verify_audit_iff [OF inv assms(3)] chained_def)
  show "map (aud_sequence \<circ> snd) (au_events s org) = map int [0..<length (au_events s org)]"
    using inv_events [OF inv, of org] by (intro nth_equalityI) (simp_all add: events_ok_def)
  show "chain_end s org = Inr (int (length (au_events s org)), aud_event_hash (snd (last (au_events s org))))"
    using inv_head [OF inv, of org] assms(3) by (auto simp: chain_end_def head_ok_def split: option.splits)
qed

theorem audit_chain_verifies_witness:
  "verify_audit ex_space_sha ex_fmt (ex_log ''kind'' []) ''org'' = Inr ()"
proof -
  have "au_events (ex_log ''kind'' []) ''org'' \<noteq> []" by (simp add: ex_log_events)
  from audit_chain_verifies [where sha = ex_space_sha, OF ex_space_sha_hex ex_audit_reachable [OF ex_stripped(2)] this] ex_stripped(1)
  show ?thesis by simp
qed

text \<open>
  C10: Tampering is detected: if the logs of two stores both verify, end in the same hash and contain
  no collision of the hash function, they agree event by event in everything that is hashed - which
  is every field but the event's own identifier - and so have the same length.
\<close>

theorem tampering_detected:
  assumes "verify_audit sha fmt s org = Inr ()" "verify_audit sha fmt s' org' = Inr ()"
    and "audit_trail s org = Inr xs" "audit_trail s' org' = Inr ys"
    and "aud_event_hash (last xs) = aud_event_hash (last ys)"
    and "inj_on sha (event_text fmt ` (set xs \<union> set ys))"
  shows "list_all2 (same_contents fmt) xs ys"
proof (rule chains_agree)
  show "check_chain sha fmt 0 GENESIS xs = Inr ()" "check_chain sha fmt 0 GENESIS ys = Inr ()" "xs \<noteq> []" "ys \<noteq> []"
    using assms(1-4) by (auto simp: verify_audit_def bindr_eq_Inr require_eq_Inr)
qed (use assms(5,6) in simp_all)

theorem tampering_detected_witness:
  "list_all2 (same_contents ex_fmt) [ex_first ''kind'' []] [ex_first ''kind'' []]"
proof -
  have r: "audit_reachable ex_space_sha ex_fmt True (ex_log ''kind'' [], {})"
    using ex_audit_reachable [OF ex_stripped(2)] ex_stripped(1) by simp
  have ne: "au_events (ex_log ''kind'' []) ''org'' \<noteq> []" by (simp add: ex_log_events)
  have v: "verify_audit ex_space_sha ex_fmt (ex_log ''kind'' []) ''org'' = Inr ()"
    using verify_audit_iff [OF audit_reachable_inv [OF r] ne] reachable_chained [OF r ex_space_sha_hex]
    by (simp add: chained_def)
  have t: "audit_trail (ex_log ''kind'' []) ''org'' = Inr [ex_first ''kind'' []]"
    using audit_trail_events [OF audit_reachable_inv [OF r] ex_texts(7)] by (simp add: ex_log_events)
  show ?thesis by (rule tampering_detected [OF v v t t refl]) simp
qed

section \<open>Appends\<close>

lemma payload_eq_refl: "distinct (map fst p) \<Longrightarrow> payload_eq p p"
proof -
  have s: "scalar_eq v v" for v by (cases v) (simp_all add: scalar_eq_def)
  assume "distinct (map fst p)"
  then show ?thesis by (auto simp: payload_eq_def list_all_iff s)
qed

lemma stripped_same_append:
  assumes "stripped kind actor resource run p evidence region"
    and "e = trim_event (raw_event sha fmt eid org kind actor resource run p evidence t region n prev)"
  shows "same_append e kind actor resource run p evidence region"
proof -
  have "trimmed_payload p" using assms(1) trimmed_payload_trim [of p] by (simp add: stripped_def)
  then have "payload_eq p p" by (simp add: payload_eq_refl trimmed_payload_def)
  then show ?thesis using assms by (simp add: same_append_def trim_event_def raw_event_def stripped_def)
qed

text \<open>An event stays where it is.\<close>

lemma event_stays:
  assumes "audit_steps sha fmt strict x y" "audit_inv x" "map_of (au_events (fst x) org) i = Some e"
  shows "map_of (au_events (fst y) org) i = Some e"
  using steps_extend [OF assms(1,2), of org] assms(3) by (auto simp: map_add_def split: option.splits)

lemma append_again:
  assumes "audit_inv (s, C)" "map_of (au_events s org) eid = Some e"
  shows "audit_append sha fmt eid org kind actor resource run p evidence t region s =
    (if same_append e kind actor resource run p evidence region then Inr (e, s)
     else Inl (ResourceConflictError (''audit event '' @ eid @ '' already exists'')))"
proof -
  note ok = events_ok_map_of [OF inv_events [OF assms(1)] assms(2)]
  then have seg: "segments [org, eid] = Inr ()"
    by (auto simp: segments_def audit_ok_def audit_event_fields_ok_def)
  from inv_outbox [OF assms(1), of org eid] assms(2) obtain ob where ob: "au_outbox s (org, eid) = Some ob" by auto
  then have "validate_audit_outbox ob = Inr ob" "aob_event ob = e"
    using inv_doc [OF assms(1) ob] assms(2) by (simp_all add: delivery_doc_ok_def validate_outbox_ok)
  moreover have "validate_audit_event e = Inr e" using ok by (intro validate_ok) simp
  ultimately show ?thesis
    using assms(2) seg ob by (simp add: audit_append_def append_existing_def)
qed

lemma appended_present:
  assumes "audit_append sha fmt eid org kind actor resource run p evidence t region s = Inr (e, s')" "audit_inv (s, C)"
  shows "map_of (au_events s' org) eid = Some e"
  using assms
proof (cases rule: append_cases)
  case (created n prev)
  then show ?thesis by (simp add: appended_store_def map_add_def)
qed simp

text \<open>
  Appends are idempotent: after any later appends and deliveries, appending the same event again
  - whatever its time - returns the stored event and changes nothing, and appending another kind
  under its identifier is a conflict.
\<close>

theorem append_idempotent:
  assumes "audit_reachable sha fmt strict (s, C)" "stripped kind actor resource run p evidence region"
    and "audit_append sha fmt eid org kind actor resource run p evidence t region s = Inr (e, s1)"
    and "audit_steps sha fmt strict (s1, C) (s2, C2)" "other \<noteq> kind"
  shows "audit_append sha fmt eid org kind actor resource run p evidence t' region s2 = Inr (e, s2)
    \<and> audit_append sha fmt eid org other actor resource run p evidence t' region s2
        = Inl (ResourceConflictError (''audit event '' @ eid @ '' already exists''))"
proof -
  note inv = audit_reachable_inv [OF assms(1)]
  have inv1: "audit_inv (s1, C)"
    by (rule audit_step_inv [OF audit_step.as_append [OF assms(3)] inv]) (simp add: assms(2))
  have same: "same_append e kind actor resource run p evidence region"
    using assms(3) inv
  proof (cases rule: append_cases)
    case (created n prev)
    then show ?thesis using stripped_same_append [OF assms(2)] by (simp add: raw_event_def)
  qed
  then have "\<not> same_append e other actor resource run p evidence region" using assms(5) by (simp add: same_append_def)
  then show ?thesis
    using append_again [OF audit_steps_inv [OF assms(4) inv1]
        event_stays [OF assms(4) inv1, unfolded fst_conv, OF appended_present [OF assms(3) inv]]] same by simp
qed

theorem append_idempotent_witness:
  "audit_append ex_space_sha ex_fmt ''evt'' ''org'' ''kind'' ''user'' ''runs'' None [] [] 9 ''eu1'' (ex_log ''kind'' [])
     = Inr (ex_first ''kind'' [], ex_log ''kind'' [])
   \<and> audit_append ex_space_sha ex_fmt ''evt'' ''org'' ''other'' ''user'' ''runs'' None [] [] 9 ''eu1'' (ex_log ''kind'' [])
     = Inl (ResourceConflictError (''audit event '' @ ''evt'' @ '' already exists''))"
proof -
  have "audit_reachable ex_space_sha ex_fmt True (empty_audit, {})"
    unfolding audit_reachable_def by (rule audit_steps.as_refl)
  from append_idempotent [OF this ex_stripped(1) ex_append [OF ex_stripped(2)] audit_steps.as_refl, of "''other''" 9]
  show ?thesis by simp
qed

section \<open>Texts that are not stripped\<close>

text \<open>An append whose text the event does not hold.\<close>

definition padded :: "string \<Rightarrow> string \<Rightarrow> payload \<Rightarrow> bool" where
  "padded kind resource p \<longleftrightarrow> trim kind \<noteq> kind \<or> trim resource \<noteq> resource \<or> (\<exists>k v. (k, SStr v) \<in> set p \<and> trim v \<noteq> v)"

lemma trimmed_values: "(k, SStr v) \<in> set (trim_payload p) \<Longrightarrow> trim v = v"
  using trimmed_payload_trim [of p] by (fastforce simp: trimmed_payload_def trim_scalar_def)

lemma payload_eq_padded:
  assumes "payload_eq (trim_payload p) p" "distinct (map fst p)" "(k, SStr v) \<in> set p"
  shows "trim v = v"
proof -
  let ?q = "trim_payload p"
  have dq: "distinct (map fst ?q)" using trimmed_payload_trim [of p] by (simp add: trimmed_payload_def)
  have all: "\<And>kv. kv \<in> set ?q \<Longrightarrow> \<exists>w. map_of p (fst kv) = Some w \<and> scalar_eq (snd kv) w"
    using assms(1) by (auto simp: payload_eq_def list_all_iff split: option.splits)
  have "fst ` set ?q \<subseteq> fst ` set p" using all by (force dest: map_of_SomeD)
  moreover have "card (fst ` set ?q) = card (fst ` set p)"
    using assms(1) distinct_card [OF dq] distinct_card [OF assms(2)] by (simp add: payload_eq_def)
  ultimately have "fst ` set ?q = fst ` set p" by (simp add: card_subset_eq)
  then obtain w where w: "(k, w) \<in> set ?q" using assms(3) by (metis (no_types, lifting) fst_conv imageE imageI prod.collapse)
  have "map_of p k = Some (SStr v)" using assms(2,3) by simp
  with all [OF w] have "scalar_eq w (SStr v)" by simp
  then have "w = SStr v" by (cases w) (simp_all add: scalar_eq_def)
  with w trimmed_values show ?thesis by simp
qed

lemma padded_differs:
  assumes "padded kind resource p" "distinct (map fst p)"
    and "e = trim_event (raw_event sha fmt eid org kind actor resource run p evidence t region n prev)"
  shows "\<not> same_append e kind actor resource run p evidence region"
    "event_text fmt e \<noteq> json_text (event_json fmt org n kind actor resource run p evidence prev t region)"
proof -
  have f: "aud_kind e = trim kind" "aud_resource e = trim resource" "aud_payload e = trim_payload p"
    by (simp_all add: assms(3) trim_event_def raw_event_def)
  show "\<not> same_append e kind actor resource run p evidence region"
    using assms(1,2) payload_eq_padded by (auto simp: same_append_def f padded_def)
  show "event_text fmt e \<noteq> json_text (event_json fmt org n kind actor resource run p evidence prev t region)"
  proof
    assume eq: "event_text fmt e = json_text (event_json fmt org n kind actor resource run p evidence prev t region)"
    then have "trim kind = kind \<and> trim resource = resource \<and> set (trim_payload p) = set p"
      using event_json_inject [OF eq [unfolded event_text_def]] by (simp add: f)
    then show False using assms(1) trimmed_values by (auto simp: padded_def)
  qed
qed

text \<open>
  An event that was appended with a text the contract strips - a kind, a resource or a payload
  value with white space around it - breaks the log: the hash was taken from the text before it was
  stripped, so from then on the verification of the organisation's chain fails, after any further
  appends and deliveries (unless the two texts collide), and sending the same append again is a
  conflict instead of a replay.
\<close>

theorem padded_text_breaks_chain:
  assumes "\<And>t. hex64 (sha t)" "audit_reachable sha fmt False (s, C)" "map_of (au_events s org) eid = None"
    and "audit_append sha fmt eid org kind actor resource run p evidence t region s = Inr (e, s1)"
    and "padded kind resource p" "distinct (map fst p)" "audit_steps sha fmt False (s1, C) (s2, C2)"
    and "chain_end s org = Inr (n, prev)"
    and "sha (event_text fmt e) \<noteq> sha (json_text (event_json fmt org n kind actor resource run p evidence prev t region))"
  shows "verify_audit sha fmt s2 org = Inl (ValueError ''audit hash chain validation failed'')
    \<and> audit_append sha fmt eid org kind actor resource run p evidence t region s2
        = Inl (ResourceConflictError (''audit event '' @ eid @ '' already exists''))"
proof -
  note inv = audit_reachable_inv [OF assms(2)]
  have inv1: "audit_inv (s1, C)"
    by (rule audit_step_inv [OF audit_step.as_append [where strict = False, OF assms(4)] inv]) simp
  note inv2 = audit_steps_inv [OF assms(7) inv1]
  note there = event_stays [OF assms(7) inv1, unfolded fst_conv, OF appended_present [OF assms(4) inv]]
  have e: "e = trim_event (raw_event sha fmt eid org kind actor resource run p evidence t region n prev)"
    using assms(4) inv
  proof (cases rule: append_cases)
    case existing
    then show ?thesis using assms(3) by simp
  next
    case (created n' prev')
    then show ?thesis using assms(8) by (simp add: raw_event_def)
  qed
  have "aud_event_hash e = sha (json_text (event_json fmt org n kind actor resource run p evidence prev t region))"
    using trim_hex64 [OF assms(1)] by (simp add: e trim_event_def raw_event_def event_hash_def)
  then have "aud_event_hash e \<noteq> sha (event_text fmt e)" using assms(9) by metis
  moreover have "e \<in> set (map snd (au_events s2 org))" using map_of_SomeD [OF there] by force
  ultimately have "check_chain sha fmt 0 GENESIS (map snd (au_events s2 org)) \<noteq> Inr ()"
    using check_chain_hash by blast
  then have "check_chain sha fmt 0 GENESIS (map snd (au_events s2 org)) = Inl (ValueError ''audit hash chain validation failed'')"
    using check_chain_error by (cases "check_chain sha fmt 0 GENESIS (map snd (au_events s2 org))") auto
  moreover have "au_events s2 org \<noteq> []" using there by auto
  ultimately show ?thesis
    using append_again [OF inv2 there] padded_differs(1) [OF assms(5,6) e] verify_audit_iff [OF inv2] by simp
qed

definition ex_note :: payload where
  "ex_note = [(''note'', SStr '' late'')]"

lemma ex_note_trimmed: "trim ''kind'' = ''kind''" "trim_payload ex_note = [(''note'', SStr ''late'')]" "trim '' late'' \<noteq> '' late''"
  by code_simp+

lemma ex_note_text:
  "event_text ex_fmt (ex_first ''kind'' ex_note) =
     json_text (event_json ex_fmt ''org'' 0 ''kind'' ''user'' ''runs'' None [(''note'', SStr ''late'')] [] GENESIS 1 ''eu1'')"
  using ex_texts ex_genesis ex_note_trimmed
  by (simp add: event_text_def ex_first_def trim_event_def raw_event_def)

lemma ex_note_space:
  "CHR '' '' \<notin> set (json_text (event_json ex_fmt ''org'' 0 ''kind'' ''user'' ''runs'' None [(''note'', SStr ''late'')] [] GENESIS 1 ''eu1''))"
  "CHR '' '' \<in> set (json_text (event_json ex_fmt ''org'' 0 ''kind'' ''user'' ''runs'' None ex_note [] GENESIS 1 ''eu1''))"
  by code_simp+

theorem padded_text_breaks_chain_witness:
  "verify_audit ex_space_sha ex_fmt (ex_log ''kind'' ex_note) ''org'' = Inl (ValueError ''audit hash chain validation failed'')"
proof -
  have r: "audit_reachable ex_space_sha ex_fmt False (empty_audit, {})"
    unfolding audit_reachable_def by (rule audit_steps.as_refl)
  have none: "map_of (au_events empty_audit ''org'') ''evt'' = None" "chain_end empty_audit ''org'' = Inr (0, GENESIS)"
    by (simp_all add: empty_audit_def chain_end_def)
  have pad: "padded ''kind'' ''runs'' ex_note" "distinct (map fst ex_note)"
    using ex_note_trimmed(3) by (auto simp: padded_def ex_note_def)
  have hash: "ex_space_sha (event_text ex_fmt (ex_first ''kind'' ex_note))
      \<noteq> ex_space_sha (json_text (event_json ex_fmt ''org'' 0 ''kind'' ''user'' ''runs'' None ex_note [] GENESIS 1 ''eu1''))"
    unfolding ex_note_text ex_space_sha_def using ex_note_space by simp
  from padded_text_breaks_chain [where sha = ex_space_sha, OF ex_space_sha_hex r none(1) ex_append [OF ex_stripped(2)] pad
      audit_steps.as_refl none(2) hash]
  show ?thesis by simp
qed

section \<open>Truncation\<close>

text \<open>
  The verification does not compare the chain with its head: a log that has lost its newest events
  still verifies.
\<close>

lemma truncation_undetected:
  assumes "audit_inv (s, C)" "verify_audit sha fmt s org = Inr ()" "0 < n" "au_events s org \<noteq> []"
  shows "verify_audit sha fmt (s\<lparr>au_events := (au_events s)(org := take n (au_events s org))\<rparr>) org = Inr ()"
proof -
  let ?es = "take n (au_events s org)" and ?s = "s\<lparr>au_events := (au_events s)(org := take n (au_events s org))\<rparr>"
  have ok: "events_ok org ?es"
    using inv_events [OF assms(1), of org] distinct_take [of "map fst (au_events s org)" n]
    by (auto simp: events_ok_def take_map)
  have ne: "?es \<noteq> []" using assms(3,4) by simp
  have "check_chain sha fmt 0 GENESIS (map snd (au_events s org)) = Inr ()"
    using assms(2) verify_audit_iff [OF assms(1,4)] by simp
  moreover have "map snd (au_events s org) = map snd ?es @ map snd (drop n (au_events s org))"
    by (metis append_take_drop_id map_append)
  ultimately have "check_chain sha fmt 0 GENESIS (map snd ?es) = Inr ()" by (simp add: check_chain_append)
  moreover have "audit_trail ?s org = Inr (map snd ?es)"
    using events_sorted [OF ok] events_validate [OF ok] events_organisation [OF ok ne]
    by (simp add: audit_trail_def segments_def)
  ultimately show ?thesis using ne by (simp add: verify_audit_def)
qed

section \<open>Delivery\<close>

text \<open>
  C37: Audit events are delivered in the order of the chain: whatever deliverers do, every event has
  one delivery document, the settled ones (logged or dead-lettered) are exactly the events up to the
  organisation's cursor, and the cursor never passes the end of the chain.
\<close>

theorem audit_delivered_in_order:
  assumes "audit_reachable sha fmt strict (s, C)" "i < length (au_events s org)"
  shows "logged_sequence (au_cursors s org) < int (length (au_events s org))
    \<and> (\<exists>ob. au_outbox s (org, fst (au_events s org ! i)) = Some ob \<and> aob_event ob = snd (au_events s org ! i)
         \<and> (audit_settled ob \<longleftrightarrow> int i \<le> logged_sequence (au_cursors s org)))"
proof -
  note inv = audit_reachable_inv [OF assms(1)]
  have es: "events_ok org (au_events s org)" by (rule inv_events [OF inv])
  have m: "map_of (au_events s org) (fst (au_events s org ! i)) = Some (snd (au_events s org ! i))"
    using es assms(2) by (intro map_of_is_SomeI) (simp_all add: events_ok_def)
  with inv_outbox [OF inv] obtain ob where ob: "au_outbox s (org, fst (au_events s org ! i)) = Some ob" by fastforce
  have "aob_event ob = snd (au_events s org ! i)" "audit_settled ob \<longleftrightarrow> aud_sequence (aob_event ob) \<le> logged_sequence (au_cursors s org)"
    using inv_doc [OF inv ob] m by (simp_all add: delivery_doc_ok_def)
  moreover have "aud_sequence (snd (au_events s org ! i)) = int i" using es assms(2) by (simp add: events_ok_def)
  ultimately show ?thesis using inv_cursor [OF inv] ob by auto
qed

lemma read_doc: "audit_inv (s, C) \<Longrightarrow> au_outbox s path = Some ob \<Longrightarrow> read_audit_outbox s path = Inr ob"
  using inv_read [of s C "fst path" "snd path"] by simp

lemma claim_intro:
  assumes "audit_inv (s, C)" "au_outbox s (org, i) = Some ob" "identifier_ok org" "\<not> audit_settled ob"
    "aob_available_at ob \<le> now" "aob_lease_expires_at ob = None"
    "logged_sequence (au_cursors s org) = aud_sequence (aob_event ob) - 1"
  shows "audit_claim_one s (org, i) owner now duration =
    Inr (Some \<lparr>acl_path = (org, i), acl_outbox = claimed_doc ob owner (now + duration)\<rparr>,
         s\<lparr>au_outbox := (au_outbox s)((org, i) \<mapsto> claimed_doc ob owner (now + duration))\<rparr>)"
proof -
  have "aud_organisation_id (aob_event ob) = org" using doc_event [OF assms(1,2)] by simp
  then show ?thesis
    unfolding audit_claim_one_def read_doc [OF assms(1,2)] bindr_simps
    using assms(3-7) by (simp add: audit_settled_def segments_def Let_def)
qed

lemma log_intro:
  assumes "audit_inv (s, C)" "c \<in> C" "au_outbox s (acl_path c) = Some ob" "\<not> audit_settled ob" "aob_lease_owner ob = Some owner"
    "logged_sequence (au_cursors s (aud_organisation_id (aob_event ob))) = aud_sequence (aob_event ob) - 1"
  shows "mark_logged c owner receipt t s = Inr (audit_settle s c (logged_doc ob receipt t) (Some receipt) (Some t) None None)"
proof -
  obtain org i where path: "acl_path c = (org, i)" by fastforce
  have ev: "aob_event (acl_outbox c) = aob_event ob" using inv_claim [OF assms(1,2)] assms(3) by auto
  have "audit_ok (aob_event ob)" using inv_doc [OF assms(1)] assms(3) path by (simp add: delivery_doc_ok_def audit_outbox_ok_def)
  then have "segments [aud_organisation_id (aob_event ob)] = Inr ()"
    by (simp add: segments_def audit_ok_def audit_event_fields_ok_def)
  then show ?thesis
    unfolding mark_logged_def Let_def ev read_doc [OF assms(1,3)] bindr_simps
    using assms(4-6) by (simp add: audit_owned_def audit_require_next_def audit_settled_def)
qed

theorem audit_delivered_in_order_witness:
  "\<exists>(s :: audit_store) (ob :: audit_outbox). au_outbox s (''org'', ''evt'') = Some ob \<and> audit_settled ob \<and> logged_sequence (au_cursors s ''org'') = 0"
proof -
  let ?s = "ex_log ''kind'' []" and ?e = "ex_first ''kind'' []"
  let ?ob = "new_outbox ?e 1"
  let ?c = "\<lparr>acl_path = (''org'', ''evt''), acl_outbox = claimed_doc ?ob ''pub'' (5 + 60)\<rparr>"
  let ?s1 = "?s\<lparr>au_outbox := (au_outbox ?s)((''org'', ''evt'') \<mapsto> claimed_doc ?ob ''pub'' (5 + 60))\<rparr>"
  let ?s2 = "audit_settle ?s1 ?c (logged_doc (claimed_doc ?ob ''pub'' (5 + 60)) ''r1'' 6) (Some ''r1'') (Some 6) None None"
  have r: "audit_reachable ex_space_sha ex_fmt True (?s, {})" using ex_audit_reachable [OF ex_stripped(2)] ex_stripped(1) by simp
  note inv = audit_reachable_inv [OF r]
  have e: "aud_organisation_id ?e = ''org''" "aud_sequence ?e = 0" "aud_id ?e = ''evt''"
    using ex_texts by (simp_all add: ex_first_def trim_event_def raw_event_def)
  have o: "au_outbox ?s (''org'', ''evt'') = Some ?ob" "au_cursors ?s ''org'' = None"
    by (simp_all add: ex_log_def appended_store_def empty_audit_def)
  have pub: "identifier_ok ''pub''" "trim ''r1'' = ''r1''" by code_simp+
  have u: "\<not> audit_settled ?ob" "\<not> audit_settled (claimed_doc ?ob ''pub'' (5 + 60))"
    by (simp_all add: new_outbox_def audit_settled_def claimed_doc_def)
  have cl: "audit_claim_one ?s (''org'', ''evt'') ''pub'' 5 60 = Inr (Some ?c, ?s1)"
    by (rule claim_intro [OF inv o(1) ex_texts(7) u(1)]) (simp_all add: new_outbox_def logged_sequence_def o(2) e)
  have r1: "audit_reachable ex_space_sha ex_fmt True (?s1, {?c})"
    using audit_steps.as_step [OF r [unfolded audit_reachable_def] audit_step.as_claim [OF cl pub(1)]]
    by (simp add: audit_reachable_def)
  have lg: "mark_logged ?c ''pub'' ''r1'' 6 ?s1 = Inr ?s2"
    by (rule log_intro [OF audit_reachable_inv [OF r1] _ _ u(2)])
      (simp_all add: new_outbox_def claimed_doc_def logged_sequence_def o(2) e)
  have r2: "audit_reachable ex_space_sha ex_fmt True (?s2, {?c})"
    using audit_steps.as_step [OF r1 [unfolded audit_reachable_def] audit_step.as_logged [OF _ lg _ pub(2)]]
    by (simp add: audit_reachable_def text_between_def)
  have ev: "au_events ?s2 ''org'' = [(''evt'', ?e)]" by (simp add: audit_settle_def Let_def ex_log_events)
  have cur: "logged_sequence (au_cursors ?s2 ''org'') = 0"
    by (simp add: audit_settle_def Let_def logged_sequence_def e)
  from audit_delivered_in_order [OF r2, of 0 "''org''"] obtain ob where
    "au_outbox ?s2 (''org'', ''evt'') = Some ob" "audit_settled ob" unfolding ev cur by auto
  with cur show ?thesis by blast
qed

text \<open>
  Dead letters starve the delivery of audit events as they starve the outbox of the runs: they stay
  in the window of the query.
\<close>

lemma audit_dead_letters_starve:
  assumes "audit_inv (s, C)" "0 < limit"
    and "\<forall>x \<in> set (audit_query s keys now limit). aob_dead_lettered_at (snd x) \<noteq> None"
  shows "audit_claims keys owner now duration limit s = (Inr [], s)"
proof -
  have loop: "audit_claim_loop owner now duration limit docs [] [] s = (Inr [], s)"
    if "\<forall>x \<in> set docs. au_outbox s (fst x) = Some (snd x) \<and> aob_dead_lettered_at (snd x) \<noteq> None" for docs
    using that
  proof (induction docs)
    case (Cons x docs)
    obtain org i ob where x: "x = ((org, i), ob)" by (metis prod.collapse)
    with Cons.prems have ob: "au_outbox s (org, i) = Some ob" "aob_dead_lettered_at ob \<noteq> None" by auto
    note ok = inv_doc [OF assms(1) ob(1), unfolded delivery_doc_ok_def]
    then have v: "validate_audit_outbox ob = Inr ob" "segments [aud_organisation_id (aob_event ob)] = Inr ()"
      by (simp_all add: validate_outbox_ok segments_def audit_outbox_ok_def audit_ok_def audit_event_fields_ok_def)
    have "audit_claim_one s (org, i) owner now duration = Inr (None, s)"
      unfolding audit_claim_one_def read_doc [OF assms(1) ob(1)] bindr_simps v(2) using ob(2) by simp
    then show ?case using Cons v(1) assms(2) x by simp
  qed simp
  have "\<forall>x \<in> set (audit_query s keys now limit). au_outbox s (fst x) = Some (snd x)"
    by (auto simp: audit_query_def dest!: in_set_takeD)
  then show ?thesis unfolding audit_claims_def using loop assms(3) by blast
qed

section \<open>Redaction\<close>

lemma redact_payload:
  "value_payload (redact (payload_value p)) = Some q \<Longrightarrow> payload_value q = redact (payload_value p)"
proof -
  assume a: "value_payload (redact (payload_value p)) = Some q"
  obtain kvs where k: "redact (payload_value p) = PyDict kvs" by (simp add: payload_value_def)
  have keys: "\<forall>kv \<in> set kvs. fst kv = KeyStr (key_text (fst kv))"
    using redact_clean [of "payload_value p"] k by (simp add: list_all_iff)
  have vals: "value_scalar v \<noteq> None \<Longrightarrow> scalar_value (the (value_scalar v)) = v" for v by (cases v) simp_all
  have q: "q = map (\<lambda>kv. (key_text (fst kv), the (value_scalar (snd kv)))) kvs"
    "\<forall>kv \<in> set kvs. value_scalar (snd kv) \<noteq> None"
    using a k by (auto simp: list_all_iff split: if_splits)
  have "map (\<lambda>kv. (KeyStr (key_text (fst kv)), scalar_value (the (value_scalar (snd kv))))) kvs = kvs"
    by (rule map_idI) (use keys q(2) vals in \<open>auto simp: prod_eq_iff\<close>)
  then show ?thesis unfolding k by (simp add: payload_value_def q(1) comp_def)
qed

lemma redacted_trimmed:
  assumes "value_payload (redact (payload_value p)) = Some q" "trimmed_payload p"
  shows "trimmed_payload q"
proof -
  note v = redact_payload [OF assms(1)]
  have c: "clean (payload_value q)" using redact_clean [of "payload_value p"] v by simp
  have d: "distinct (map fst q)" using c by (simp add: payload_value_def comp_def distinct_map inj_on_def)
  have red: "trim REDACTED = REDACTED" by code_simp
  have "trim (fst kv) = fst kv \<and> trim_scalar (snd kv) = snd kv" if kv: "kv \<in> set q" for kv
  proof -
    have "(KeyStr (fst kv), scalar_value (snd kv)) \<in> set (dict_of (map (\<lambda>kv. (KeyStr (key_text (fst kv)),
       if sensitive (key_text (fst kv)) then PyStr REDACTED else redact (snd kv))) (map (\<lambda>kv. (KeyStr (fst kv), scalar_value (snd kv))) p)))"
      using v [unfolded payload_value_def redact.simps pyval.inject, symmetric] kv by force
    then obtain x where x: "x \<in> set p" "fst kv = fst x"
      "scalar_value (snd kv) = (if sensitive (fst x) then PyStr REDACTED else redact (scalar_value (snd x)))"
      using set_dict_of by force
    have "snd kv = snd x \<or> snd kv = SStr REDACTED"
      using x(3) by (cases "snd x"; cases "snd kv") (auto split: if_splits)
    moreover have "trim_scalar (SStr REDACTED) = SStr REDACTED" by (simp add: trim_scalar_def red)
    ultimately show ?thesis using assms(2) x(1,2) unfolding trimmed_payload_def by metis
  qed
  then show ?thesis using d by (simp add: trimmed_payload_def)
qed

text \<open>
  C38: What the writer puts into the audit log for a payload whose texts carry no surrounding white space
  is redacted: in the stored event no payload value is a text that one of the secret patterns matches and
  nothing but the mark stands under a sensitive key; redacting it again would change nothing. With
  surrounding white space this can fail: the patterns are tried before the store strips it.
\<close>

theorem audit_payload_redacted:
  assumes "audit_reachable sha fmt strict (s, C)" "map_of (au_events s org) eid = None" "trim_payload p = p"
    and "writer_append sha fmt region now eid org kind actor resource p run evidence at s = Inr (e, s')"
  shows "clean (payload_value (aud_payload e)) \<and> redact (payload_value (aud_payload e)) = payload_value (aud_payload e)
    \<and> payload_value (aud_payload e) = redact (payload_value p)"
proof -
  obtain q t where q: "value_payload (redact (payload_value p)) = Some q"
    "audit_append sha fmt eid org kind actor resource run q evidence t region s = Inr (e, s')"
    using assms(4) by (auto simp: writer_append_def split: option.splits)
  have "trimmed_payload p" using assms(3) trimmed_payload_trim [of p] by simp
  then have "trim_payload q = q" by (intro trim_payload_trimmed redacted_trimmed [OF q(1)])
  moreover from q(2) audit_reachable_inv [OF assms(1)] have "aud_payload e = trim_payload q"
  proof (cases rule: append_cases)
    case existing
    then show ?thesis using assms(2) by simp
  qed (simp add: trim_event_def)
  ultimately have "payload_value (aud_payload e) = redact (payload_value p)" using redact_payload [OF q(1)] by simp
  then show ?thesis using redact_clean clean_redact by metis
qed

definition ex_secret :: payload where
  "ex_secret = [(''password'', SStr ''hunter2''), (''via'', SStr ''AKIA0123456789ABCDEF'')]"

definition ex_secret_redacted :: payload where
  "ex_secret_redacted = [(''password'', SStr ''[REDACTED]''), (''via'', SStr ''[REDACTED]'')]"

theorem audit_payload_redacted_witness:
  "clean (payload_value ex_secret_redacted) \<and> redact (payload_value ex_secret) = payload_value ex_secret_redacted"
proof -
  have r: "audit_reachable ex_space_sha ex_fmt False (empty_audit, {})"
    unfolding audit_reachable_def by (rule audit_steps.as_refl)
  have none: "map_of (au_events empty_audit ''org'') ''evt'' = None" by (simp add: empty_audit_def)
  have t: "trim_payload ex_secret = ex_secret" "trim_payload ex_secret_redacted = ex_secret_redacted"
    "value_payload (redact (payload_value ex_secret)) = Some ex_secret_redacted" by code_simp+
  have w: "writer_append ex_space_sha ex_fmt ''eu1'' 1 ''evt'' ''org'' ''kind'' ''user'' ''runs'' ex_secret None [] None empty_audit
    = Inr (ex_first ''kind'' ex_secret_redacted, ex_log ''kind'' ex_secret_redacted)"
    using ex_append [OF ex_stripped(2), of ex_secret_redacted] t(3) by (simp add: writer_append_def)
  have "aud_payload (ex_first ''kind'' ex_secret_redacted) = ex_secret_redacted"
    by (simp add: ex_first_def trim_event_def raw_event_def t(2))
  with audit_payload_redacted [OF r none t(1) w] show ?thesis by metis
qed

text \<open>
  Two gaps of the patterns: an URL with credentials is only recognised at the very start of a value,
  so white space before it hides it, and the stripping of the contract then stores it bare; the
  header name x-api-key is not a sensitive key.
\<close>

lemma redaction_gaps:
  "redact (PyStr '' a://u:p@h'') = PyStr '' a://u:p@h'' \<and> sensitive_value (trim '' a://u:p@h'')
   \<and> sensitive ''api-key'' \<and> \<not> sensitive ''x-api-key''"
proof (intro conjI)
  have "\<not> sensitive_value '' a://u:p@h''" by code_simp
  then show "redact (PyStr '' a://u:p@h'') = PyStr '' a://u:p@h''" by simp
  show "sensitive_value (trim '' a://u:p@h'')" by code_simp
  show "sensitive ''api-key''" "\<not> sensitive ''x-api-key''" by code_simp+
qed

end
