(* ===== verification/Approvals.thy ===== *)
theory Approvals imports Audit_Chain begin

text \<open>
  Human approval of protected actions: the contracts (packages/contracts/src/contracts/approval.py,
  action.py), server/core/storage/approval.py (\<open>FirestoreApprovalRepository\<close>) and
  server/core/approval/service.py (\<open>ApprovalService\<close>), which stores only the hash of the capability
  token, binds the approval to the digest of the action and writes what happens to the audit log.
  \<open>isoformat\<close> of a time stamp is the argument \<open>fmt\<close> of the audit log; the notifier is an argument.
\<close>

section \<open>Contracts\<close>

datatype approval_decision = AP_PENDING | AP_APPROVED | AP_REJECTED | AP_CANCELLED | AP_MORE_EVIDENCE | AP_EXTEND

fun approval_decision_value :: "approval_decision \<Rightarrow> string" where
  "approval_decision_value AP_PENDING = ''pending''"
| "approval_decision_value AP_APPROVED = ''approved''"
| "approval_decision_value AP_REJECTED = ''rejected''"
| "approval_decision_value AP_CANCELLED = ''cancelled''"
| "approval_decision_value AP_MORE_EVIDENCE = ''more-evidence''"
| "approval_decision_value AP_EXTEND = ''extend-observation''"

record approval =
  appr_id :: string
  appr_organisation_id :: string
  appr_run_id :: string
  appr_action_id :: string
  appr_action_digest :: string
  appr_plan_hash :: string
  appr_evidence_hash :: string
  appr_generation_id :: string
  appr_requested_by :: string
  appr_capability_hash :: string
  appr_decision :: approval_decision
  appr_approver_id :: "string option"
  appr_expires_at :: int
  appr_created_at :: int
  appr_decided_at :: "int option"
  appr_consumed_at :: "int option"
  appr_revision :: int

definition approval_fields_ok :: "approval \<Rightarrow> bool" where
  "approval_fields_ok a \<longleftrightarrow>
     identifier_ok (appr_id a) \<and> identifier_ok (appr_organisation_id a) \<and> identifier_ok (appr_run_id a)
     \<and> identifier_ok (appr_action_id a) \<and> hex64 (appr_action_digest a) \<and> hex64 (appr_plan_hash a)
     \<and> hex64 (appr_evidence_hash a) \<and> identifier_ok (appr_generation_id a) \<and> identifier_ok (appr_requested_by a)
     \<and> hex64 (appr_capability_hash a) \<and> opt_ok identifier_ok (appr_approver_id a) \<and> 0 \<le> appr_revision a"

definition validate_decision :: "approval \<Rightarrow> unit result" where
  "validate_decision a =
     bindr (require ((appr_decision a \<noteq> AP_PENDING) = (appr_decided_at a \<noteq> None \<and> appr_approver_id a \<noteq> None))
       (ValidationError ''a decision requires an approver and decision time'')) (\<lambda>_.
     bindr (require (\<not> (appr_consumed_at a \<noteq> None \<and> appr_decision a \<noteq> AP_APPROVED))
       (ValidationError ''only an approved action can be consumed'')) (\<lambda>_.
     require (\<not> (appr_decision a \<noteq> AP_CANCELLED
         \<and> (case appr_decided_at a of None \<Rightarrow> False | Some t \<Rightarrow> appr_expires_at a < t)))
       (ValidationError ''an approval decision cannot be recorded after expiry'')))"

definition validate_approval :: "approval \<Rightarrow> approval result" where
  "validate_approval a =
     (if approval_fields_ok a then bindr (validate_decision a) (\<lambda>_. Inr a) else Inl (FieldError ''Approval''))"

record protected_action =
  pa_id :: string
  pa_organisation_id :: string
  pa_run_id :: string
  pa_kind :: string
  pa_resource :: string
  pa_credential_id :: string
  pa_generation_id :: string
  pa_provider_id :: string
  pa_control_version :: string
  pa_playbook_version :: "string option"
  pa_plan_hash :: string
  pa_evidence_hash :: string
  pa_preconditions :: payload
  pa_parameters :: "(string \<times> pyval) list"

definition protected_action_fields_ok :: "protected_action \<Rightarrow> bool" where
  "protected_action_fields_ok a \<longleftrightarrow>
     identifier_ok (pa_id a) \<and> identifier_ok (pa_organisation_id a) \<and> identifier_ok (pa_run_id a)
     \<and> text_between 1 96 (pa_kind a) \<and> text_between 1 512 (pa_resource a) \<and> identifier_ok (pa_credential_id a)
     \<and> identifier_ok (pa_generation_id a) \<and> text_between 1 256 (pa_provider_id a)
     \<and> identifier_ok (pa_control_version a) \<and> opt_ok identifier_ok (pa_playbook_version a)
     \<and> hex64 (pa_plan_hash a) \<and> hex64 (pa_evidence_hash a)"

definition validate_action :: "protected_action \<Rightarrow> protected_action result" where
  "validate_action a = (if protected_action_fields_ok a then Inr a else Inl (FieldError ''ProtectedAction''))"

definition dump_action :: "protected_action \<Rightarrow> pyval" where
  "dump_action a = dump_fields
     [(''id'', Some (PyStr (pa_id a))),
      (''organisation_id'', Some (PyStr (pa_organisation_id a))),
      (''run_id'', Some (PyStr (pa_run_id a))),
      (''kind'', Some (PyStr (pa_kind a))),
      (''resource'', Some (PyStr (pa_resource a))),
      (''credential_id'', Some (PyStr (pa_credential_id a))),
      (''generation_id'', Some (PyStr (pa_generation_id a))),
      (''provider_id'', Some (PyStr (pa_provider_id a))),
      (''control_version'', Some (PyStr (pa_control_version a))),
      (''playbook_version'', map_option PyStr (pa_playbook_version a)),
      (''plan_hash'', Some (PyStr (pa_plan_hash a))),
      (''evidence_hash'', Some (PyStr (pa_evidence_hash a))),
      (''preconditions'', Some (payload_value (pa_preconditions a))),
      (''parameters'', Some (PyDict (map (\<lambda>kv. (KeyStr (fst kv), snd kv)) (pa_parameters a))))]"

section \<open>The repository (storage/approval.py)\<close>

text \<open>The approvals of an organisation by name in the order of their creation, and the actions by path.\<close>

record approval_store =
  as_approvals :: "string \<Rightarrow> (string \<times> approval) list"
  as_actions :: "string \<times> string \<rightharpoonup> protected_action"

definition empty_approvals :: approval_store where
  "empty_approvals = \<lparr>as_approvals = (\<lambda>_. []), as_actions = Map.empty\<rparr>"

definition set_approval :: "approval_store \<Rightarrow> string \<Rightarrow> string \<Rightarrow> approval \<Rightarrow> approval_store" where
  "set_approval s org i a = s\<lparr>as_approvals := (as_approvals s)(org := AList.update i a (as_approvals s org))\<rparr>"

definition approval_create :: "approval \<Rightarrow> protected_action \<Rightarrow> approval_store \<Rightarrow> (approval \<times> approval_store) result" where
  "approval_create approval action s =
     (let org = appr_organisation_id approval in
      bindr (segments [org, appr_id approval, pa_id action]) (\<lambda>_.
      case map_of (as_approvals s org) (appr_id approval) of
        Some doc \<Rightarrow>
          bindr (validate_approval doc) (\<lambda>current.
          bindr (case as_actions s (org, pa_id action) of
                   None \<Rightarrow> Inr None
                 | Some d \<Rightarrow> bindr (validate_action d) (\<lambda>a. Inr (Some a))) (\<lambda>stored_action.
          let replay = approval\<lparr>appr_created_at := appr_created_at current, appr_revision := appr_revision current\<rparr> in
          if current = replay \<and> stored_action = Some action then Inr (current, s)
          else Inl (ResourceConflictError (''approval '' @ appr_id approval @ '' already exists''))))
      | None \<Rightarrow>
          bindr (require (as_actions s (org, pa_id action) = None)
            (ResourceConflictError (''action '' @ pa_id action @ '' is already awaiting approval''))) (\<lambda>_.
          Inr (approval, s\<lparr>as_approvals := (as_approvals s)(org := as_approvals s org @ [(appr_id approval, approval)]),
                           as_actions := (as_actions s)((org, pa_id action) \<mapsto> action)\<rparr>))))"

text \<open>The stream of \<open>list_approvals\<close> goes by document name.\<close>

definition approval_list :: "approval_store \<Rightarrow> string \<Rightarrow> nat \<Rightarrow> approval list result" where
  "approval_list s org limit =
     bindr (segments [org]) (\<lambda>_.
     mapr (\<lambda>(name, doc). bindr (validate_approval doc) (\<lambda>a.
       bindr (require (appr_organisation_id a = org)
         (StorageIntegrityError (''approval '' @ appr_id a @ '' crosses tenant boundary''))) (\<lambda>_. Inr a)))
       (take limit (sort_key fst (as_approvals s org))))"

definition get_approval :: "approval_store \<Rightarrow> string \<Rightarrow> string \<Rightarrow> approval result" where
  "get_approval s org i =
     bindr (segments [org, i]) (\<lambda>_.
     case map_of (as_approvals s org) i of
       None \<Rightarrow> Inl (ResourceNotFoundError (''approval '' @ i @ '' was not found''))
     | Some doc \<Rightarrow> validate_approval doc)"

definition decided_approval :: "approval \<Rightarrow> approval_decision \<Rightarrow> string \<Rightarrow> int \<Rightarrow> approval" where
  "decided_approval current decision actor decided_at =
     current\<lparr>appr_decision := decision, appr_approver_id := Some actor, appr_decided_at := Some decided_at,
       appr_revision := appr_revision current + 1\<rparr>"

definition approval_decide ::
  "string \<Rightarrow> string \<Rightarrow> int \<Rightarrow> approval_decision \<Rightarrow> string \<Rightarrow> int \<Rightarrow> approval_store \<Rightarrow> (approval \<times> approval_store) result" where
  "approval_decide org i expected_revision decision actor decided_at s =
     bindr (get_approval s org i) (\<lambda>current.
     bindr (require (appr_revision current = expected_revision)
       (ResourceConflictError (''approval expected revision '' @ int_text expected_revision @ '', found ''
          @ int_text (appr_revision current)))) (\<lambda>_.
     if appr_decision current \<noteq> AP_PENDING
     then (if appr_decision current = decision \<and> appr_approver_id current = Some actor then Inr (current, s)
           else Inl (ApprovalError ''approval already has a decision''))
     else
       bindr (require (\<not> (decision \<noteq> AP_CANCELLED \<and> appr_expires_at current \<le> decided_at))
         (ApprovalError ''approval has expired'')) (\<lambda>_.
       let changed = decided_approval current decision actor decided_at in
       Inr (changed, set_approval s org i changed))))"

definition consume_bindings :: "approval \<Rightarrow> string \<Rightarrow> string \<Rightarrow> string \<Rightarrow> string \<Rightarrow> (string \<times> string \<times> string) list" where
  "consume_bindings current capability_hash action_digest plan_hash evidence_hash =
     [(capability_hash, appr_capability_hash current, ''capability''),
      (action_digest, appr_action_digest current, ''action''),
      (plan_hash, appr_plan_hash current, ''plan''),
      (evidence_hash, appr_evidence_hash current, ''evidence'')]"

fun check_unchanged :: "(string \<times> string \<times> string) list \<Rightarrow> unit result" where
  "check_unchanged [] = Inr ()"
| "check_unchanged ((actual, expected, label) # vs) =
     bindr (require (actual = expected) (ApprovalError (''approval '' @ label @ '' binding changed''))) (\<lambda>_.
     check_unchanged vs)"

definition consumed_approval :: "approval \<Rightarrow> int \<Rightarrow> approval" where
  "consumed_approval current consumed_at =
     current\<lparr>appr_consumed_at := Some consumed_at, appr_revision := appr_revision current + 1\<rparr>"

definition approval_consume ::
  "string \<Rightarrow> string \<Rightarrow> string \<Rightarrow> string \<Rightarrow> string \<Rightarrow> string \<Rightarrow> int \<Rightarrow> approval_store \<Rightarrow> (approval \<times> approval_store) result" where
  "approval_consume org i capability_hash action_digest plan_hash evidence_hash consumed_at s =
     bindr (get_approval s org i) (\<lambda>current.
     let values = consume_bindings current capability_hash action_digest plan_hash evidence_hash in
     if appr_consumed_at current \<noteq> None
     then (if list_all (\<lambda>(actual, expected, _). actual = expected) values then Inr (current, s)
           else Inl (ApprovalError ''approval capability was consumed with different bindings''))
     else
       bindr (require (appr_decision current = AP_APPROVED) (ApprovalError ''approval was not granted'')) (\<lambda>_.
       bindr (require (consumed_at < appr_expires_at current) (ApprovalError ''approval has expired'')) (\<lambda>_.
       bindr (check_unchanged values) (\<lambda>_.
       let changed = consumed_approval current consumed_at in
       Inr (changed, set_approval s org i changed)))))"

section \<open>The service (approval/service.py)\<close>

text \<open>What the service is built with, and the state of its repositories.\<close>

record approval_service =
  svc_sha :: "string \<Rightarrow> string"
  svc_time :: "int \<Rightarrow> string"
  svc_fmt :: "int \<Rightarrow> string"
  svc_region :: "string option"
  svc_notifier :: "(approval \<Rightarrow> error option) option"

record approval_state =
  sv_approvals :: approval_store
  sv_audit :: audit_store

definition audit_id :: "(string \<Rightarrow> string) \<Rightarrow> string list \<Rightarrow> string" where
  "audit_id sha values = ''audit_'' @ take 40 (sha (join [CHR 0x00] values))"

text \<open>The append to the audit log, when the service has a writer; its error is the operation's.\<close>

definition record_audit ::
  "approval_service \<Rightarrow> int \<Rightarrow> string list \<Rightarrow> approval \<Rightarrow> string \<Rightarrow> string \<Rightarrow> payload \<Rightarrow> 'a \<Rightarrow> approval_state
     \<Rightarrow> 'a result \<times> approval_state" where
  "record_audit svc now values a kind actor p out s =
     (case svc_region svc of
        None \<Rightarrow> (Inr out, s)
      | Some region \<Rightarrow>
          (case writer_append (svc_sha svc) (svc_fmt svc) region now (audit_id (svc_sha svc) values)
                  (appr_organisation_id a) kind actor (''approvals/'' @ appr_id a) p (Some (appr_run_id a)) [] None (sv_audit s) of
             Inl e \<Rightarrow> (Inl e, s)
           | Inr (_, audit) \<Rightarrow> (Inr out, s\<lparr>sv_audit := audit\<rparr>)))"

text \<open>\<open>len(token) >= 43\<close> and \<open>isalnum\<close> after dashes and underscores are taken out.\<close>

definition token_char :: "char \<Rightarrow> bool" where
  "token_char c \<longleftrightarrow> is_word c \<and> c \<noteq> CHR ''_''"

definition token_ok :: "string \<Rightarrow> bool" where
  "token_ok token \<longleftrightarrow>
     (let rest = filter (\<lambda>c. c \<noteq> CHR ''-'' \<and> c \<noteq> CHR ''_'') token
      in 43 \<le> length token \<and> rest \<noteq> [] \<and> list_all token_char rest)"

definition new_approval ::
  "approval_service \<Rightarrow> int \<Rightarrow> string \<Rightarrow> protected_action \<Rightarrow> string \<Rightarrow> string \<Rightarrow> string \<Rightarrow> string \<Rightarrow> int \<Rightarrow> string \<Rightarrow> approval" where
  "new_approval svc now approval_id action action_digest plan_hash evidence_hash requester expires_at token =
     \<lparr>appr_id = approval_id, appr_organisation_id = pa_organisation_id action, appr_run_id = pa_run_id action,
      appr_action_id = pa_id action, appr_action_digest = action_digest, appr_plan_hash = plan_hash,
      appr_evidence_hash = evidence_hash, appr_generation_id = pa_generation_id action,
      appr_requested_by = requester, appr_capability_hash = svc_sha svc token, appr_decision = AP_PENDING,
      appr_approver_id = None, appr_expires_at = expires_at, appr_created_at = now, appr_decided_at = None,
      appr_consumed_at = None, appr_revision = 0\<rparr>"

text \<open>The checks and the transaction of \<open>request\<close>, then the notification and the audit event.\<close>

definition request_stored ::
  "approval_service \<Rightarrow> int \<Rightarrow> string \<Rightarrow> protected_action \<Rightarrow> string \<Rightarrow> string \<Rightarrow> string \<Rightarrow> int \<Rightarrow> string \<Rightarrow> approval_store
     \<Rightarrow> (approval \<times> approval_store) result" where
  "request_stored svc now approval_id action plan_hash evidence_hash requester expires_at token s =
     bindr (require (pa_plan_hash action = plan_hash \<and> pa_evidence_hash action = evidence_hash)
       (ApprovalError ''approval hashes do not match the protected action'')) (\<lambda>_.
     bindr (require (now < expires_at) (ApprovalError ''approval expiry must be in the future'')) (\<lambda>_.
     bindr (require (token_ok token) (ApprovalError ''approval capability must be a URL-safe 256-bit value'')) (\<lambda>_.
     bindr (digest (svc_sha svc) (svc_time svc) (dump_action action)) (\<lambda>action_digest.
     bindr (validate_approval
       (new_approval svc now approval_id action action_digest plan_hash evidence_hash requester expires_at token)) (\<lambda>approval.
     approval_create approval action s)))))"

definition request_approval ::
  "approval_service \<Rightarrow> int \<Rightarrow> string \<Rightarrow> protected_action \<Rightarrow> string \<Rightarrow> string \<Rightarrow> string \<Rightarrow> int \<Rightarrow> string \<Rightarrow> approval_state
     \<Rightarrow> (approval \<times> string) result \<times> approval_state" where
  "request_approval svc now approval_id action plan_hash evidence_hash requester expires_at token s =
     (case request_stored svc now approval_id action plan_hash evidence_hash requester expires_at token (sv_approvals s) of
        Inl e \<Rightarrow> (Inl e, s)
      | Inr (stored, approvals) \<Rightarrow>
          let s1 = s\<lparr>sv_approvals := approvals\<rparr> in
          (case (case svc_notifier svc of None \<Rightarrow> None | Some emit \<Rightarrow> emit stored) of
             Some e \<Rightarrow> (Inl e, s1)
           | None \<Rightarrow>
               record_audit svc now [appr_id stored, ''requested''] stored ''approval.requested'' requester
                 [(''action_id'', SStr (appr_action_id stored)), (''action_digest'', SStr (appr_action_digest stored)),
                  (''expires_at'', SStr (svc_fmt svc (appr_expires_at stored)))] (stored, token) s1))"

definition LIST_APPROVALS_LIMIT :: nat where
  "LIST_APPROVALS_LIMIT = 500"

definition list_approvals ::
  "string \<Rightarrow> approval_decision list option \<Rightarrow> nat \<Rightarrow> approval_state \<Rightarrow> approval list result" where
  "list_approvals org decisions limit s =
     bindr (approval_list (sv_approvals s) org LIST_APPROVALS_LIMIT) (\<lambda>approvals.
     let chosen = (case decisions of None \<Rightarrow> approvals | Some ds \<Rightarrow> filter (\<lambda>a. appr_decision a \<in> set ds) approvals)
     in Inr (take limit (rev (sort_key appr_created_at (sort_key appr_id chosen)))))"

definition decide_approval ::
  "approval_service \<Rightarrow> int \<Rightarrow> string \<Rightarrow> string \<Rightarrow> int \<Rightarrow> approval_decision \<Rightarrow> string \<Rightarrow> approval_state
     \<Rightarrow> approval result \<times> approval_state" where
  "decide_approval svc now org approval_id expected_revision decision actor s =
     (if decision = AP_PENDING then (Inl (ApprovalError ''a pending decision cannot be submitted''), s)
      else
        case approval_decide org approval_id expected_revision decision actor now (sv_approvals s) of
          Inl e \<Rightarrow> (Inl e, s)
        | Inr (decided, approvals) \<Rightarrow>
            record_audit svc now [appr_id decided, int_text (appr_revision decided)] decided
              (''approval.'' @ approval_decision_value (appr_decision decided)) actor
              [(''action_id'', SStr (appr_action_id decided)), (''revision'', SInt (appr_revision decided))]
              decided (s\<lparr>sv_approvals := approvals\<rparr>))"

definition consume_approval ::
  "approval_service \<Rightarrow> int \<Rightarrow> string \<Rightarrow> string \<Rightarrow> string \<Rightarrow> protected_action \<Rightarrow> string \<Rightarrow> string \<Rightarrow> string \<Rightarrow> approval_state
     \<Rightarrow> approval result \<times> approval_state" where
  "consume_approval svc now org approval_id capability action plan_hash evidence_hash actor s =
     (case
        bindr (require (pa_plan_hash action = plan_hash \<and> pa_evidence_hash action = evidence_hash)
          (ApprovalError ''approval hashes do not match the protected action'')) (\<lambda>_.
        bindr (digest (svc_sha svc) (svc_time svc) (dump_action action)) (\<lambda>action_digest.
        approval_consume org approval_id (svc_sha svc capability) action_digest plan_hash evidence_hash now (sv_approvals s))) of
        Inl e \<Rightarrow> (Inl e, s)
      | Inr (consumed, approvals) \<Rightarrow>
          record_audit svc now [appr_id consumed, int_text (appr_revision consumed)] consumed ''approval.consumed'' actor
            [(''action_id'', SStr (appr_action_id consumed)), (''revision'', SInt (appr_revision consumed))]
            consumed (s\<lparr>sv_approvals := approvals\<rparr>))"

definition verify_capability :: "(string \<Rightarrow> string) \<Rightarrow> string \<Rightarrow> string \<Rightarrow> bool" where
  "verify_capability sha token expected_hash \<longleftrightarrow> sha token = expected_hash"

end
