(* ===== verification/Approval_Facts.thy ===== *)
theory Approval_Facts imports Approvals begin

text \<open>
  The life of an approval: requested, decided once, consumed once. Every operation of the service
  moves the stored approvals along this life and never touches what they are bound to.
\<close>

section \<open>Valid stores\<close>

definition approval_valid :: "approval \<Rightarrow> bool" where
  "approval_valid a \<longleftrightarrow> approval_fields_ok a \<and> validate_decision a = Inr ()"

lemma validate_approval_iff [result_iff]: "validate_approval a = Inr b \<longleftrightarrow> b = a \<and> approval_valid a"
  by (auto simp: validate_approval_def approval_valid_def bindr_eq_Inr split: if_splits)

text \<open>A consumed approval was consumed before its expiry.\<close>

definition timely :: "approval \<Rightarrow> bool" where
  "timely a \<longleftrightarrow> (\<forall>t. appr_consumed_at a = Some t \<longrightarrow> t < appr_expires_at a)"

definition approvals_ok :: "approval_store \<Rightarrow> bool" where
  "approvals_ok s \<longleftrightarrow>
     (\<forall>org i a. map_of (as_approvals s org) i = Some a \<longrightarrow>
        approval_valid a \<and> timely a \<and> appr_id a = i \<and> appr_organisation_id a = org)"

lemma empty_approvals_ok: "approvals_ok empty_approvals"
  by (simp add: approvals_ok_def empty_approvals_def)

lemma approvals_ok_id: "approvals_ok s \<Longrightarrow> map_of (as_approvals s org) i = Some a \<Longrightarrow> identifier_ok org \<and> identifier_ok i"
  unfolding approvals_ok_def approval_valid_def approval_fields_ok_def by metis

lemma get_approval_iff:
  assumes "approvals_ok s"
  shows "get_approval s org i = Inr a \<longleftrightarrow> map_of (as_approvals s org) i = Some a"
  using assms approvals_ok_id [OF assms, of org i]
  by (auto simp: get_approval_def approvals_ok_def segments_def require_eq_Inr bindr_eq_Inr validate_approval_iff
      split: option.splits)

section \<open>Steps of a life\<close>

definition same_bindings :: "approval \<Rightarrow> approval \<Rightarrow> bool" where
  "same_bindings a b \<longleftrightarrow>
     appr_id a = appr_id b \<and> appr_organisation_id a = appr_organisation_id b \<and> appr_run_id a = appr_run_id b
     \<and> appr_action_id a = appr_action_id b \<and> appr_action_digest a = appr_action_digest b
     \<and> appr_plan_hash a = appr_plan_hash b \<and> appr_evidence_hash a = appr_evidence_hash b
     \<and> appr_generation_id a = appr_generation_id b \<and> appr_requested_by a = appr_requested_by b
     \<and> appr_capability_hash a = appr_capability_hash b \<and> appr_expires_at a = appr_expires_at b
     \<and> appr_created_at a = appr_created_at b"

text \<open>A decision before the expiry - or a cancellation - and the consumption of a granted approval.\<close>

definition decides :: "approval \<Rightarrow> approval \<Rightarrow> bool" where
  "decides a b \<longleftrightarrow> appr_decision a = AP_PENDING
     \<and> (\<exists>d actor t. d \<noteq> AP_PENDING \<and> (d = AP_CANCELLED \<or> t < appr_expires_at a) \<and> b = decided_approval a d actor t)"

definition consumes :: "approval \<Rightarrow> approval \<Rightarrow> bool" where
  "consumes a b \<longleftrightarrow> appr_decision a = AP_APPROVED \<and> appr_consumed_at a = None
     \<and> (\<exists>t. t < appr_expires_at a \<and> b = consumed_approval a t)"

lemma decided_approval_fields [simp]:
  "appr_decision (decided_approval a d actor t) = d" "appr_approver_id (decided_approval a d actor t) = Some actor"
  "appr_decided_at (decided_approval a d actor t) = Some t" "appr_revision (decided_approval a d actor t) = appr_revision a + 1"
  "appr_consumed_at (decided_approval a d actor t) = appr_consumed_at a"
  "appr_expires_at (decided_approval a d actor t) = appr_expires_at a"
  by (simp_all add: decided_approval_def)

lemma consumed_approval_fields [simp]:
  "appr_decision (consumed_approval a t) = appr_decision a" "appr_approver_id (consumed_approval a t) = appr_approver_id a"
  "appr_decided_at (consumed_approval a t) = appr_decided_at a" "appr_revision (consumed_approval a t) = appr_revision a + 1"
  "appr_consumed_at (consumed_approval a t) = Some t" "appr_expires_at (consumed_approval a t) = appr_expires_at a"
  "appr_capability_hash (consumed_approval a t) = appr_capability_hash a"
  "appr_action_digest (consumed_approval a t) = appr_action_digest a"
  "appr_plan_hash (consumed_approval a t) = appr_plan_hash a" "appr_evidence_hash (consumed_approval a t) = appr_evidence_hash a"
  by (simp_all add: consumed_approval_def)

text \<open>What any number of steps leaves: a decision is kept, a consumed approval is final.\<close>

definition follows :: "approval \<Rightarrow> approval \<Rightarrow> bool" where
  "follows a b \<longleftrightarrow> same_bindings a b \<and> appr_revision a \<le> appr_revision b
     \<and> (appr_decision a \<noteq> AP_PENDING \<longrightarrow> appr_decision b = appr_decision a
          \<and> appr_approver_id b = appr_approver_id a \<and> appr_decided_at b = appr_decided_at a)
     \<and> (appr_consumed_at a \<noteq> None \<longrightarrow> b = a)"

lemma same_bindings_written [simp]:
  "same_bindings a (decided_approval a d actor t)" "same_bindings a (consumed_approval a t)"
  by (simp_all add: same_bindings_def decided_approval_def consumed_approval_def)

lemma fields_ok_written [simp]:
  "approval_fields_ok a \<Longrightarrow> identifier_ok actor \<Longrightarrow> approval_fields_ok (decided_approval a d actor t)"
  "approval_fields_ok a \<Longrightarrow> approval_fields_ok (consumed_approval a t)"
  by (simp_all add: approval_fields_ok_def decided_approval_def consumed_approval_def)

lemma follows_refl: "follows a a"
  by (simp add: follows_def same_bindings_def)

lemma follows_trans: "follows a b \<Longrightarrow> follows b c \<Longrightarrow> follows a c"
  by (auto simp: follows_def same_bindings_def)

lemma valid_pending: "approval_valid a \<Longrightarrow> appr_decision a = AP_PENDING \<Longrightarrow> appr_consumed_at a = None"
  by (auto simp: approval_valid_def validate_decision_def bindr_eq_Inr require_eq_Inr)

lemma decides_follows: "decides a b \<Longrightarrow> approval_valid a \<Longrightarrow> follows a b"
  using valid_pending [of a] by (auto simp: decides_def follows_def)

lemma consumes_follows: "consumes a b \<Longrightarrow> follows a b"
  by (auto simp: consumes_def follows_def)

lemma decides_valid:
  assumes "decides a b" "approval_valid a" "opt_ok identifier_ok (appr_approver_id b)"
  shows "approval_valid b"
  using assms valid_pending [OF assms(2)]
  by (auto simp: decides_def approval_valid_def validate_decision_def bindr_eq_Inr require_eq_Inr)

lemma consumes_valid: "consumes a b \<Longrightarrow> approval_valid a \<Longrightarrow> approval_valid b"
  by (auto simp: consumes_def approval_valid_def validate_decision_def bindr_eq_Inr require_eq_Inr)

section \<open>The operations of the repository\<close>

lemma map_of_update: "map_of (AList.update k v xs) = (map_of xs)(k \<mapsto> v)"
  by (simp add: update_conv')

lemma decide_cases:
  assumes "approval_decide org i rv d actor t s = Inr (b, s')" "approvals_ok s" "d \<noteq> AP_PENDING"
  obtains (replay) "map_of (as_approvals s org) i = Some b" "s' = s" "appr_decision b = d" "appr_approver_id b = Some actor"
      "appr_revision b = rv"
  | (decided) a where "map_of (as_approvals s org) i = Some a" "decides a b" "s' = set_approval s org i b"
      "appr_revision a = rv" "appr_decision b = d" "appr_approver_id b = Some actor" "appr_revision b = rv + 1"
proof -
  from assms(1) obtain a where g: "get_approval s org i = Inr a" by (auto simp: approval_decide_def bindr_eq_Inr)
  then have m: "map_of (as_approvals s org) i = Some a" using get_approval_iff [OF assms(2)] by simp
  have r: "appr_revision a = rv" using assms(1) g by (simp add: approval_decide_def bindr_eq_Inr require_eq_Inr)
  show ?thesis
  proof (cases "appr_decision a = AP_PENDING")
    case True
    then have "decides a b" "b = decided_approval a d actor t" "s' = set_approval s org i b"
      using assms(1,3) g unfolding decides_def
      by (auto simp: approval_decide_def require_eq_Inr bindr_eq_Inr Let_def intro!: exI [of _ d] exI [of _ actor] exI [of _ t])
    then show ?thesis using m r by (intro decided) simp_all
  next
    case False
    then have "a = b" "s' = s" "appr_decision b = d" "appr_approver_id b = Some actor"
      using assms(1) g r by (simp_all add: approval_decide_def split: if_splits)
    then show ?thesis using m r by (intro replay) simp_all
  qed
qed

lemma check_unchanged_iff: "check_unchanged vs = Inr () \<longleftrightarrow> list_all (\<lambda>(actual, expected, _). actual = expected) vs"
  by (induction vs) (auto simp: bindr_eq_Inr require_eq_Inr)

lemma consume_cases:
  assumes "approval_consume org i cap dig plan evd t s = Inr (b, s')" "approvals_ok s"
  obtains (replay) "map_of (as_approvals s org) i = Some b" "s' = s" "appr_consumed_at b \<noteq> None"
      "cap = appr_capability_hash b" "dig = appr_action_digest b" "plan = appr_plan_hash b" "evd = appr_evidence_hash b"
  | (consumed) a where "map_of (as_approvals s org) i = Some a" "consumes a b" "s' = set_approval s org i b"
      "cap = appr_capability_hash b" "dig = appr_action_digest b" "plan = appr_plan_hash b" "evd = appr_evidence_hash b"
proof -
  from assms(1) obtain a where g: "get_approval s org i = Inr a" by (auto simp: approval_consume_def bindr_eq_Inr)
  then have m: "map_of (as_approvals s org) i = Some a" using get_approval_iff [OF assms(2)] by simp
  show ?thesis
  proof (cases "appr_consumed_at a = None")
    case True
    then have "consumes a b" "b = consumed_approval a t" "s' = set_approval s org i b"
      "cap = appr_capability_hash a" "dig = appr_action_digest a" "plan = appr_plan_hash a" "evd = appr_evidence_hash a"
      using assms(1) g by (auto simp: approval_consume_def require_eq_Inr bindr_eq_Inr Let_def consumes_def
          check_unchanged_iff consume_bindings_def)
    then show ?thesis using m by (intro consumed) simp_all
  next
    case False
    then have "a = b" "s' = s" "cap = appr_capability_hash a" "dig = appr_action_digest a" "plan = appr_plan_hash a"
      "evd = appr_evidence_hash a"
      using assms(1) g by (simp_all add: approval_consume_def Let_def consume_bindings_def split: if_splits)
    then show ?thesis using m False by (intro replay) simp_all
  qed
qed

lemma create_cases:
  assumes "approval_create a act s = Inr (b, s')" "approvals_ok s"
  obtains (replay) "map_of (as_approvals s (appr_organisation_id a)) (appr_id a) = Some b" "s' = s"
      "b = a\<lparr>appr_created_at := appr_created_at b, appr_revision := appr_revision b\<rparr>"
  | (created) "map_of (as_approvals s (appr_organisation_id a)) (appr_id a) = None" "b = a"
      "s' = s\<lparr>as_approvals := (as_approvals s)(appr_organisation_id a :=
                as_approvals s (appr_organisation_id a) @ [(appr_id a, a)]),
              as_actions := (as_actions s)((appr_organisation_id a, pa_id act) \<mapsto> act)\<rparr>"
proof (cases "map_of (as_approvals s (appr_organisation_id a)) (appr_id a)")
  case None
  then show ?thesis using assms(1)
    by (auto simp: approval_create_def bindr_eq_Inr require_eq_Inr Let_def intro: created)
next
  case (Some c)
  then have v: "validate_approval c = Inr c" using assms(2) by (simp add: approvals_ok_def validate_approval_iff)
  show ?thesis using assms(1) Some v
    by (auto simp: approval_create_def bindr_eq_Inr Let_def split: if_splits intro: replay)
qed

text \<open>How the stored approvals move: each stays or follows, and new ones may appear.\<close>

definition store_follows :: "approval_store \<Rightarrow> approval_store \<Rightarrow> bool" where
  "store_follows s s' \<longleftrightarrow>
     (\<forall>org i a. map_of (as_approvals s org) i = Some a \<longrightarrow> (\<exists>b. map_of (as_approvals s' org) i = Some b \<and> follows a b))"

lemma store_follows_refl: "store_follows s s"
  using follows_refl by (auto simp: store_follows_def)

lemma store_follows_trans: "store_follows s t \<Longrightarrow> store_follows t u \<Longrightarrow> store_follows s u"
  unfolding store_follows_def using follows_trans by meson

lemma set_approval_map:
  "map_of (as_approvals (set_approval s org i b) o') j =
     (if o' = org \<and> j = i then Some b else map_of (as_approvals s o') j)"
  by (simp add: set_approval_def map_of_update)

lemma set_approval_keeps:
  assumes "approvals_ok s" "map_of (as_approvals s org) i = Some a" "follows a b" "approval_valid b" "timely b"
  shows "approvals_ok (set_approval s org i b) \<and> store_follows s (set_approval s org i b)"
proof
  have "appr_id b = i \<and> appr_organisation_id b = org"
    using assms(1-3) by (simp add: approvals_ok_def follows_def same_bindings_def)
  then show "approvals_ok (set_approval s org i b)"
    using assms(1,4,5) by (simp add: approvals_ok_def set_approval_map)
  show "store_follows s (set_approval s org i b)"
    using assms(2,3) follows_refl by (auto simp: store_follows_def set_approval_map)
qed

lemma decide_keeps:
  assumes "approval_decide org i rv d actor t s = Inr (b, s')" "approvals_ok s" "d \<noteq> AP_PENDING" "identifier_ok actor"
  shows "approvals_ok s' \<and> store_follows s s'"
  using assms(1-3)
proof (cases rule: decide_cases)
  case (decided a)
  have v: "approval_valid a" using assms(2) decided(1) by (simp add: approvals_ok_def)
  from decides_valid [OF decided(2) v] decided(6) assms(4) have "approval_valid b" by simp
  moreover have "timely b" using decided(2) valid_pending [OF v] by (auto simp: decides_def timely_def)
  ultimately show ?thesis using set_approval_keeps [OF assms(2) decided(1) decides_follows [OF decided(2) v]] decided(3) by simp
qed (use assms(2) store_follows_refl in simp)

lemma consume_keeps:
  assumes "approval_consume org i cap dig plan evd t s = Inr (b, s')" "approvals_ok s"
  shows "approvals_ok s' \<and> store_follows s s'"
  using assms
proof (cases rule: consume_cases)
  case (consumed a)
  have "approval_valid a" using assms(2) consumed(1) by (simp add: approvals_ok_def)
  moreover have "timely b" using consumed(2) by (auto simp: consumes_def timely_def)
  ultimately show ?thesis using set_approval_keeps [OF assms(2) consumed(1) consumes_follows [OF consumed(2)]] consumes_valid [OF consumed(2)] consumed(3)
    by simp
qed (use assms(2) store_follows_refl in simp)

lemma create_keeps:
  assumes "approval_create a act s = Inr (b, s')" "approvals_ok s" "approval_valid a" "timely a"
  shows "approvals_ok s' \<and> store_follows s s'"
  using assms(1,2)
proof (cases rule: create_cases)
  case created
  have "approvals_ok s'"
    using assms(2-4) created by (auto simp: approvals_ok_def map_add_def split: option.splits if_splits)
  moreover have "store_follows s s'"
    using created follows_refl by (auto simp: store_follows_def map_add_def split: option.splits if_splits)
  ultimately show ?thesis by simp
qed (use assms(2) store_follows_refl in simp)

section \<open>The service as a system\<close>

text \<open>Its three operations, whatever they return, and anything else that is written to the audit log.\<close>

inductive approval_step :: "approval_service \<Rightarrow> approval_state \<Rightarrow> approval_state \<Rightarrow> bool" for svc where
  ap_request: "request_approval svc now i action plan evd requester expires token s = (res, s') \<Longrightarrow> approval_step svc s s'"
| ap_decide: "decide_approval svc now org i rv d actor s = (res', s') \<Longrightarrow> identifier_ok actor \<Longrightarrow> approval_step svc s s'"
| ap_consume: "consume_approval svc now org i capability action plan evd actor s = (res', s') \<Longrightarrow> approval_step svc s s'"
| ap_audit: "approval_step svc s (s\<lparr>sv_audit := au\<rparr>)"

inductive approval_steps :: "approval_service \<Rightarrow> approval_state \<Rightarrow> approval_state \<Rightarrow> bool" for svc where
  ap_refl: "approval_steps svc s s"
| ap_step: "approval_steps svc s t \<Longrightarrow> approval_step svc t u \<Longrightarrow> approval_steps svc s u"

lemma record_audit_result:
  assumes "record_audit svc now vs a kind actor p out s = (res, s')"
  shows "sv_approvals s' = sv_approvals s \<and> (\<forall>x. res = Inr x \<longrightarrow> x = out)"
proof (cases "svc_region svc")
  case None
  then show ?thesis using assms by (auto simp: record_audit_def)
next
  case (Some region)
  then show ?thesis using assms
    by (cases "writer_append (svc_sha svc) (svc_fmt svc) region now (audit_id (svc_sha svc) vs)
          (appr_organisation_id a) kind actor (''approvals/'' @ appr_id a) p (Some (appr_run_id a)) [] None (sv_audit s)")
      (auto simp: record_audit_def split: prod.splits)
qed

lemma new_approval_timely: "timely (new_approval svc now i action dig plan evd requester expires token)"
  by (simp add: timely_def new_approval_def)

lemma request_stored_cases:
  assumes "request_stored svc now i action plan evd requester expires token s = Inr (b, s')"
  obtains dig where "digest (svc_sha svc) (svc_time svc) (dump_action action) = Inr dig"
      "approval_valid (new_approval svc now i action dig plan evd requester expires token)"
      "approval_create (new_approval svc now i action dig plan evd requester expires token) action s = Inr (b, s')"
      "pa_plan_hash action = plan" "pa_evidence_hash action = evd"
  using assms unfolding request_stored_def
  by (auto simp: bindr_eq_Inr require_eq_Inr validate_approval_iff)

lemma request_cases:
  assumes "request_approval svc now i action plan evd requester expires token s = (res, s')"
  obtains "s' = s" "\<exists>e. res = Inl e"
  | b where "request_stored svc now i action plan evd requester expires token (sv_approvals s) = Inr (b, sv_approvals s')"
      "\<And>x. res = Inr x \<Longrightarrow> x = (b, token)"
proof (cases "request_stored svc now i action plan evd requester expires token (sv_approvals s)")
  case (Inl e)
  then show ?thesis using assms by (auto simp: request_approval_def intro: that(1))
next
  case (Inr x)
  obtain b ap where x: "x = (b, ap)" by fastforce
  have "sv_approvals s' = ap \<and> (\<forall>y. res = Inr y \<longrightarrow> y = (b, token))"
  proof (cases "case svc_notifier svc of None \<Rightarrow> None | Some emit \<Rightarrow> emit b")
    case None
    then have "record_audit svc now [appr_id b, ''requested''] b ''approval.requested'' requester
                 [(''action_id'', SStr (appr_action_id b)), (''action_digest'', SStr (appr_action_digest b)),
                  (''expires_at'', SStr (svc_fmt svc (appr_expires_at b)))] (b, token) (s\<lparr>sv_approvals := ap\<rparr>) = (res, s')"
      using assms Inr x by (simp add: request_approval_def Let_def)
    from record_audit_result [OF this] show ?thesis by simp
  next
    case (Some e)
    then show ?thesis using assms Inr x by (auto simp: request_approval_def Let_def)
  qed
  then show ?thesis using Inr x by (auto intro: that(2))
qed

lemma decide_service_cases:
  assumes "decide_approval svc now org i rv d actor s = (res, s')"
  obtains "s' = s" "\<exists>e. res = Inl e"
  | b where "d \<noteq> AP_PENDING" "approval_decide org i rv d actor now (sv_approvals s) = Inr (b, sv_approvals s')"
      "\<And>x. res = Inr x \<Longrightarrow> x = b"
proof (cases "d = AP_PENDING \<or> (\<exists>e. approval_decide org i rv d actor now (sv_approvals s) = Inl e)")
  case True
  then have "s' = s \<and> (\<exists>e. res = Inl e)" using assms by (auto simp: decide_approval_def split: if_splits)
  then show ?thesis by (intro that(1)) simp_all
next
  case False
  then obtain b ap where d: "d \<noteq> AP_PENDING" "approval_decide org i rv d actor now (sv_approvals s) = Inr (b, ap)"
    by (cases "approval_decide org i rv d actor now (sv_approvals s)") auto
  then have "record_audit svc now [appr_id b, int_text (appr_revision b)] b
      (''approval.'' @ approval_decision_value (appr_decision b)) actor
      [(''action_id'', SStr (appr_action_id b)), (''revision'', SInt (appr_revision b))] b (s\<lparr>sv_approvals := ap\<rparr>) = (res, s')"
    using assms by (simp add: decide_approval_def)
  from record_audit_result [OF this] d show ?thesis by (intro that(2)) simp_all
qed

lemma consume_service_cases:
  assumes "consume_approval svc now org i capability action plan evd actor s = (res, s')"
  obtains "s' = s" "\<exists>e. res = Inl e"
  | dig b where "digest (svc_sha svc) (svc_time svc) (dump_action action) = Inr dig"
      "approval_consume org i (svc_sha svc capability) dig plan evd now (sv_approvals s) = Inr (b, sv_approvals s')"
      "pa_plan_hash action = plan" "pa_evidence_hash action = evd" "\<And>x. res = Inr x \<Longrightarrow> x = b"
proof -
  let ?r = "bindr (require (pa_plan_hash action = plan \<and> pa_evidence_hash action = evd)
          (ApprovalError ''approval hashes do not match the protected action'')) (\<lambda>_.
        bindr (digest (svc_sha svc) (svc_time svc) (dump_action action)) (\<lambda>action_digest.
        approval_consume org i (svc_sha svc capability) action_digest plan evd now (sv_approvals s)))"
  show ?thesis
  proof (cases ?r)
    case (Inl e)
    then show ?thesis using assms by (auto simp: consume_approval_def intro: that(1))
  next
    case (Inr x)
    obtain b ap where x: "x = (b, ap)" by fastforce
    have "record_audit svc now [appr_id b, int_text (appr_revision b)] b ''approval.consumed'' actor
      [(''action_id'', SStr (appr_action_id b)), (''revision'', SInt (appr_revision b))] b (s\<lparr>sv_approvals := ap\<rparr>) = (res, s')"
      using assms unfolding consume_approval_def Inr x by simp
    note r = record_audit_result [OF this]
    from Inr x obtain dig where "pa_plan_hash action = plan \<and> pa_evidence_hash action = evd"
      "digest (svc_sha svc) (svc_time svc) (dump_action action) = Inr dig"
      "approval_consume org i (svc_sha svc capability) dig plan evd now (sv_approvals s) = Inr (b, ap)"
      by (auto simp: bindr_eq_Inr require_eq_Inr)
    with r show ?thesis by (intro that(2) [of dig b]) simp_all
  qed
qed

lemma approval_step_keeps:
  assumes "approval_step svc s s'" "approvals_ok (sv_approvals s)"
  shows "approvals_ok (sv_approvals s') \<and> store_follows (sv_approvals s) (sv_approvals s')"
  using assms
proof (induction rule: approval_step.induct)
  case (ap_request now i action plan evd requester expires token s res s')
  from ap_request.hyps show ?case
  proof (cases rule: request_cases)
    case (2 b)
    from 2(1) show ?thesis
      by (cases rule: request_stored_cases) (use ap_request.prems create_keeps new_approval_timely in blast)
  qed (use ap_request.prems store_follows_refl in simp)
next
  case (ap_decide now org i rv d actor s res' s')
  from ap_decide.hyps(1) show ?case
  proof (cases rule: decide_service_cases)
    case (2 b)
    then show ?thesis using decide_keeps [OF 2(2) ap_decide.prems 2(1) ap_decide.hyps(2)] by simp
  qed (use ap_decide.prems store_follows_refl in simp)
next
  case (ap_consume now org i capability action plan evd actor s res' s')
  from ap_consume.hyps show ?case
  proof (cases rule: consume_service_cases)
    case (2 dig b)
    then show ?thesis using consume_keeps [OF 2(2) ap_consume.prems] by simp
  qed (use ap_consume.prems store_follows_refl in simp)
qed (simp add: store_follows_refl)

lemma approval_steps_keep:
  assumes "approval_steps svc s s'" "approvals_ok (sv_approvals s)"
  shows "approvals_ok (sv_approvals s') \<and> store_follows (sv_approvals s) (sv_approvals s')"
  using assms
proof (induction rule: approval_steps.induct)
  case (ap_step s t u)
  then show ?case using approval_step_keeps [OF ap_step.hyps(2)] store_follows_trans by blast
qed (simp add: store_follows_refl)

end
