(* ===== verification/Digest_Binding.thy ===== *)
theory Digest_Binding imports Json_Facts begin

text \<open>
  What a digest binds: two contracts whose digests come from the same text have the same fields.
\<close>

section \<open>What the digest fixes\<close>

lemma canonical_dump:
  assumes "canonical fmt (dump_fields fs) = Inr j"
  obtains out where "j = JDict out" "distinct (map fst out)"
    "list_all2 (\<lambda>f o'. fst o' = fst f \<and> canonical fmt (the (snd f)) = Inr (snd o')) (filter (\<lambda>f. snd f \<noteq> None) fs) out"
proof -
  let ?kvs = "map (\<lambda>(k, v). (KeyStr k, the v)) (filter (\<lambda>(k, v). v \<noteq> None) fs)"
  let ?f = "\<lambda>kv. bindr (canonical fmt (snd kv)) (\<lambda>j. Inr (fst kv, j))"
  from assms obtain items out where i: "mapr ?f ?kvs = Inr items" and o: "canonical_items items [] = Inr out" "j = JDict out"
    by (auto simp: dump_fields_def bindr_eq_Inr)
  from o(1) have out: "out = keyed_text items" "distinct (map fst out)" by (auto simp: canonical_items_Nil)
  have flt: "filter (\<lambda>(k, v). v \<noteq> None) fs = filter (\<lambda>f. snd f \<noteq> None) fs" by (rule filter_cong) auto
  have "list_all2 (\<lambda>f o'. fst o' = fst f \<and> canonical fmt (the (snd f)) = Inr (snd o')) (filter (\<lambda>f. snd f \<noteq> None) fs) out"
    using i unfolding mapr_eq_Inr out(1) keyed_text_def flt
    by (auto simp: list_all2_map1 list_all2_map2 bindr_eq_Inr elim!: list_all2_mono split: prod.splits)
  with o(2) out(2) show ?thesis by (rule that)
qed

lemma sort_dict_entries: "sort_json (JDict xs) = sort_json (JDict ys) \<Longrightarrow>
    (\<lambda>kv. (fst kv, sort_json (snd kv))) ` set xs = (\<lambda>kv. (fst kv, sort_json (snd kv))) ` set ys"
proof -
  assume "sort_json (JDict xs) = sort_json (JDict ys)"
  then have "sort_key fst (map (\<lambda>kv. (fst kv, sort_json (snd kv))) xs) = sort_key fst (map (\<lambda>kv. (fst kv, sort_json (snd kv))) ys)"
    by simp
  from arg_cong [where f = set, OF this] show ?thesis by simp
qed

text \<open>Two values with the same canonical form, up to the order of their mappings.\<close>

definition same_canonical :: "(int \<Rightarrow> string) \<Rightarrow> pyval \<Rightarrow> pyval \<Rightarrow> bool" where
  "same_canonical fmt v w \<longleftrightarrow>
     (\<exists>i j. canonical fmt v = Inr i \<and> canonical fmt w = Inr j \<and> sort_json i = sort_json j)"

lemma same_canonical_str: "same_canonical fmt (PyStr s) (PyStr t) \<Longrightarrow> s = t"
  by (simp add: same_canonical_def)

text \<open>Two dumps with the same text have the same fields.\<close>

lemma dump_text_fields:
  assumes "digest_text fmt (dump_fields fs) = Inr x" "digest_text fmt (dump_fields gs) = Inr x"
    and "distinct (map fst fs)" "distinct (map fst gs)"
  shows "(k, Some v) \<in> set fs \<Longrightarrow> (k, w) \<in> set gs \<Longrightarrow> \<exists>u. w = Some u \<and> same_canonical fmt v u"
    and "(k, None) \<in> set fs \<Longrightarrow> (k, w) \<in> set gs \<Longrightarrow> w = None"
proof -
  from assms(1) obtain i where i: "canonical fmt (dump_fields fs) = Inr i" "x = json_text i"
    by (auto simp: digest_text_def bindr_eq_Inr)
  from assms(2) obtain j where j: "canonical fmt (dump_fields gs) = Inr j" "x = json_text j"
    by (auto simp: digest_text_def bindr_eq_Inr)
  obtain xs where xs: "i = JDict xs" "distinct (map fst xs)"
    "list_all2 (\<lambda>f o'. fst o' = fst f \<and> canonical fmt (the (snd f)) = Inr (snd o')) (filter (\<lambda>f. snd f \<noteq> None) fs) xs"
    by (rule canonical_dump [OF i(1)])
  obtain ys where ys: "j = JDict ys" "distinct (map fst ys)"
    "list_all2 (\<lambda>f o'. fst o' = fst f \<and> canonical fmt (the (snd f)) = Inr (snd o')) (filter (\<lambda>f. snd f \<noteq> None) gs) ys"
    by (rule canonical_dump [OF j(1)])
  have "sort_json (JDict xs) = sort_json (JDict ys)" using i(2) j(2) xs(1) ys(1) json_text_inject by metis
  note entries = sort_dict_entries [OF this]
  have field: "\<exists>jv. (k, jv) \<in> set os \<and> canonical fmt v = Inr jv"
    if "list_all2 (\<lambda>f o'. fst o' = fst f \<and> canonical fmt (the (snd f)) = Inr (snd o')) (filter (\<lambda>f. snd f \<noteq> None) hs) os"
      "(k, Some v) \<in> set hs" for hs os k v
  proof -
    from that(2) have "(k, Some v) \<in> set (filter (\<lambda>f. snd f \<noteq> None) hs)" by simp
    then obtain n where n: "n < length (filter (\<lambda>f. snd f \<noteq> None) hs)" "filter (\<lambda>f. snd f \<noteq> None) hs ! n = (k, Some v)"
      unfolding in_set_conv_nth by blast
    from list_all2_nthD [OF that(1) n(1)] n(2) have "fst (os ! n) = k" "canonical fmt v = Inr (snd (os ! n))" by simp_all
    moreover have "os ! n \<in> set os" using n(1) list_all2_lengthD [OF that(1)] by simp
    ultimately show ?thesis by (metis prod.collapse)
  qed
  have keys: "k \<in> fst ` set os \<longleftrightarrow> (\<exists>v. (k, Some v) \<in> set hs)"
    if "list_all2 (\<lambda>f o'. fst o' = fst f \<and> canonical fmt (the (snd f)) = Inr (snd o')) (filter (\<lambda>f. snd f \<noteq> None) hs) os"
    for hs os k
  proof -
    have "map fst os = map fst (filter (\<lambda>f. snd f \<noteq> None) hs)"
      using that by (induction rule: list_all2_induct) simp_all
    then have "fst ` set os = fst ` set (filter (\<lambda>f. snd f \<noteq> None) hs)" by (metis list.set_map)
    then show ?thesis by force
  qed
  have same_keys: "fst ` set xs = fst ` set ys"
    using entries by (metis (no_types, lifting) fst_conv image_cong image_image)
  show "\<exists>u. w = Some u \<and> same_canonical fmt v u" if f: "(k, Some v) \<in> set fs" "(k, w) \<in> set gs"
  proof -
    from field [OF xs(3) f(1)] obtain jv where jv: "(k, jv) \<in> set xs" "canonical fmt v = Inr jv" by blast
    then have "k \<in> fst ` set ys" using same_keys by force
    with keys [OF ys(3)] obtain u where u: "(k, Some u) \<in> set gs" by blast
    with f(2) assms(4) have w: "w = Some u" by (metis eq_key_imp_eq_value)
    from field [OF ys(3) u] obtain ju where ju: "(k, ju) \<in> set ys" "canonical fmt u = Inr ju" by blast
    from jv(1) have "(k, sort_json jv) \<in> (\<lambda>kv. (fst kv, sort_json (snd kv))) ` set xs" by force
    then obtain j' where j': "(k, j') \<in> set ys" "sort_json jv = sort_json j'" using entries by auto
    with ju(1) ys(2) have "j' = ju" by (metis eq_key_imp_eq_value)
    then show ?thesis using w jv(2) ju(2) j'(2) by (auto simp: same_canonical_def)
  qed
  show "w = None" if f: "(k, None) \<in> set fs" "(k, w) \<in> set gs"
  proof (cases w)
    case (Some u)
    then have "k \<in> fst ` set xs" using keys [OF ys(3), of k] f(2) same_keys by blast
    with keys [OF xs(3)] f(1) assms(3) show ?thesis by (metis eq_key_imp_eq_value option.distinct(1))
  qed
qed

text \<open>Dumps of one contract type list the same fields in the same order.\<close>

lemma dump_text_same:
  assumes "digest_text fmt (dump_fields fs) = Inr x" "digest_text fmt (dump_fields gs) = Inr x"
    and "map fst fs = map fst gs" "distinct (map fst fs)"
  shows "list_all2 (\<lambda>f g. rel_option (same_canonical fmt) (snd f) (snd g)) fs gs"
proof (rule list_all2_all_nthI)
  show len: "length fs = length gs" using assms(3) by (metis length_map)
  fix n assume n: "n < length fs"
  have d: "distinct (map fst gs)" using assms(3,4) by simp
  obtain k v where f: "fs ! n = (k, v)" by fastforce
  obtain w where g: "gs ! n = (k, w)" using assms(3) f n len by (metis fst_conv nth_map prod.collapse)
  have m: "(k, v) \<in> set fs" "(k, w) \<in> set gs" using f g n len by (metis nth_mem)+
  show "rel_option (same_canonical fmt) (snd (fs ! n)) (snd (gs ! n))"
  proof (cases v)
    case None
    with dump_text_fields(2) [OF assms(1,2,4) d] m have "w = None" by blast
    then show ?thesis using None f g by simp
  next
    case (Some u)
    with dump_text_fields(1) [OF assms(1,2,4) d] m obtain y where "w = Some y" "same_canonical fmt u y" by blast
    then show ?thesis using Some f g by simp
  qed
qed

end
