(* ===== verification/Approval_Theorems.thy ===== *)
theory Approval_Theorems imports Approval_Facts Digest_Binding Examples begin

text \<open>
  The properties of approvals: what must hold when an approval is consumed, and that decisions and
  consumption are final.
\<close>

section \<open>Bound to the action\<close>

definition same_action :: "(int \<Rightarrow> string) \<Rightarrow> protected_action \<Rightarrow> protected_action \<Rightarrow> bool" where
  "same_action fmt a b \<longleftrightarrow>
     pa_id a = pa_id b \<and> pa_organisation_id a = pa_organisation_id b \<and> pa_run_id a = pa_run_id b
     \<and> pa_kind a = pa_kind b \<and> pa_resource a = pa_resource b \<and> pa_credential_id a = pa_credential_id b
     \<and> pa_generation_id a = pa_generation_id b \<and> pa_provider_id a = pa_provider_id b
     \<and> pa_control_version a = pa_control_version b \<and> pa_playbook_version a = pa_playbook_version b
     \<and> pa_plan_hash a = pa_plan_hash b \<and> pa_evidence_hash a = pa_evidence_hash b
     \<and> same_canonical fmt (payload_value (pa_preconditions a)) (payload_value (pa_preconditions b))
     \<and> same_canonical fmt (PyDict (map (\<lambda>kv. (KeyStr (fst kv), snd kv)) (pa_parameters a)))
          (PyDict (map (\<lambda>kv. (KeyStr (fst kv), snd kv)) (pa_parameters b)))"

lemma same_canonical_texts:
  "same_canonical fmt (PyStr s) (PyStr u) \<longleftrightarrow> s = u"
  "rel_option (same_canonical fmt) (map_option PyStr x) (map_option PyStr y) \<longleftrightarrow> x = y"
proof -
  show str: "same_canonical fmt (PyStr s) (PyStr u) \<longleftrightarrow> s = u" for s u by (simp add: same_canonical_def)
  show "rel_option (same_canonical fmt) (map_option PyStr x) (map_option PyStr y) \<longleftrightarrow> x = y"
    by (cases x; cases y) (simp_all add: str)
qed

lemma action_text_same:
  assumes "digest_text fmt (dump_action a) = Inr x" "digest_text fmt (dump_action b) = Inr x"
  shows "same_action fmt a b"
  using dump_text_same [OF assms [unfolded dump_action_def]]
  by (simp add: same_action_def same_canonical_texts)

text \<open>A stored request holds what it was requested with.\<close>

lemma request_binds:
  assumes "request_approval svc now i action plan evd requester expires token s = (Inr (a, tok), s')" "approvals_ok (sv_approvals s)"
  obtains dig where "digest (svc_sha svc) (svc_time svc) (dump_action action) = Inr dig"
    "map_of (as_approvals (sv_approvals s') (pa_organisation_id action)) i = Some a"
    "appr_action_digest a = dig" "appr_capability_hash a = svc_sha svc token" "appr_plan_hash a = plan"
    "appr_evidence_hash a = evd" "appr_expires_at a = expires" "approvals_ok (sv_approvals s')"
proof -
  from assms(1) show ?thesis
  proof (cases rule: request_cases)
    case (2 b)
    then have b: "b = a" by auto
    from 2(1) show ?thesis
    proof (cases rule: request_stored_cases)
      case (1 dig)
      have ok: "approvals_ok (sv_approvals s')"
        using create_keeps [OF 1(3) assms(2) 1(2) new_approval_timely] by simp
      have f: "appr_organisation_id (new_approval svc now i action dig plan evd requester expires token) = pa_organisation_id action"
        "appr_id (new_approval svc now i action dig plan evd requester expires token) = i"
        by (simp_all add: new_approval_def)
      from 1(3) assms(2) show ?thesis
      proof (cases rule: create_cases)
        case replay
        have e: "appr_action_digest a = dig" "appr_capability_hash a = svc_sha svc token" "appr_plan_hash a = plan"
          "appr_evidence_hash a = evd" "appr_expires_at a = expires"
          by (subst replay(3) [unfolded b], simp add: new_approval_def)+
        show ?thesis using that [OF 1(1) _ e ok] replay(1,2) f b by simp
      next
        case created
        have e: "appr_action_digest a = dig" "appr_capability_hash a = svc_sha svc token" "appr_plan_hash a = plan"
          "appr_evidence_hash a = evd" "appr_expires_at a = expires"
          using created(2) b by (simp_all add: new_approval_def)
        have "map_of (as_approvals (sv_approvals s') (pa_organisation_id action)) i = Some a"
          using created f b by (simp add: map_add_def)
        then show ?thesis using that [OF 1(1) _ e ok] by simp
      qed
    qed
  qed simp
qed

text \<open>A consumption leaves a consumed approval that follows from every earlier state of it.\<close>

lemma consumed_follows:
  assumes "approval_consume org i cap dig plan evd t s = Inr (a, s')" "approvals_ok s"
    and "map_of (as_approvals s org) i = Some c" "follows a0 c"
  shows "map_of (as_approvals s' org) i = Some a \<and> follows a0 a \<and> appr_consumed_at a \<noteq> None
    \<and> cap = appr_capability_hash a \<and> dig = appr_action_digest a \<and> plan = appr_plan_hash a \<and> evd = appr_evidence_hash a"
  using assms(1,2)
proof (cases rule: consume_cases)
  case (consumed x)
  then have "follows a0 a" using assms(3,4) follows_trans consumes_follows by auto
  then show ?thesis using consumed by (auto simp: set_approval_map consumes_def)
qed (use assms(3,4) in simp)

lemma digest_text_exists: "digest sha fmt v = Inr h \<Longrightarrow> \<exists>x. digest_text fmt v = Inr x \<and> h = sha x"
  by (auto simp: digest_def bindr_eq_Inr)

text \<open>
  C12: An approval authorises exactly what was requested: whatever happens between the request and the
  consumption, a consumption that succeeds presents the token of the request (up to a collision of
  its hash), the same plan and evidence hashes and - when the hash function does not collide on the
  two texts - the same action; a person has approved it no later than its expiry, and it was consumed
  before its expiry.
\<close>

theorem consumption_authorised:
  assumes "approvals_ok (sv_approvals s0)"
    and "request_approval svc t0 i action plan evd requester expires token s0 = (Inr (a0, tok), s1)"
    and "approval_steps svc s1 s2"
    and "consume_approval svc t (pa_organisation_id action) i capability action' plan' evd' actor s2 = (Inr a, s3)"
    and "inj_on (svc_sha svc) {x. digest_text (svc_time svc) (dump_action action) = Inr x
           \<or> digest_text (svc_time svc) (dump_action action') = Inr x}"
  shows "same_action (svc_time svc) action action' \<and> svc_sha svc capability = svc_sha svc token \<and> plan' = plan \<and> evd' = evd
    \<and> appr_decision a = AP_APPROVED \<and> (\<exists>approver. appr_approver_id a = Some approver)
    \<and> (\<exists>d c. appr_decided_at a = Some d \<and> d \<le> expires \<and> appr_consumed_at a = Some c \<and> c < expires)"
proof -
  obtain dig where b: "digest (svc_sha svc) (svc_time svc) (dump_action action) = Inr dig"
    "map_of (as_approvals (sv_approvals s1) (pa_organisation_id action)) i = Some a0"
    "appr_action_digest a0 = dig" "appr_capability_hash a0 = svc_sha svc token" "appr_plan_hash a0 = plan"
    "appr_evidence_hash a0 = evd" "appr_expires_at a0 = expires" "approvals_ok (sv_approvals s1)"
    by (rule request_binds [OF assms(2,1)])
  note keep = approval_steps_keep [OF assms(3) b(8)]
  then obtain c where c: "map_of (as_approvals (sv_approvals s2) (pa_organisation_id action)) i = Some c" "follows a0 c"
    using b(2) unfolding store_follows_def by blast
  from assms(4) obtain dig' where d: "digest (svc_sha svc) (svc_time svc) (dump_action action') = Inr dig'"
    "approval_consume (pa_organisation_id action) i (svc_sha svc capability) dig' plan' evd' t (sv_approvals s2) = Inr (a, sv_approvals s3)"
    by (cases rule: consume_service_cases) auto
  note ok3 = consume_keeps [OF d(2) conjunct1 [OF keep]]
  note a = consumed_follows [OF d(2) conjunct1 [OF keep] c]
  have same: "same_bindings a0 a" using a by (simp add: follows_def)
  then have hashes: "dig' = dig" "svc_sha svc capability = svc_sha svc token" "plan' = plan" "evd' = evd" "appr_expires_at a = expires"
    using a b by (simp_all add: same_bindings_def)
  have act: "same_action (svc_time svc) action action'"
  proof -
    from digest_text_exists [OF b(1)] obtain x where x: "digest_text (svc_time svc) (dump_action action) = Inr x" "dig = svc_sha svc x" by blast
    from digest_text_exists [OF d(1)] obtain y where y: "digest_text (svc_time svc) (dump_action action') = Inr y" "dig' = svc_sha svc y" by blast
    have "x = y" by (rule inj_onD [OF assms(5)]) (use x y hashes(1) in simp_all)
    then show ?thesis using action_text_same x(1) y(1) by simp
  qed
  have v: "approval_valid a" "timely a" using ok3 a unfolding approvals_ok_def by blast+
  then show ?thesis
    using act hashes a
    by (auto simp: approval_valid_def validate_decision_def bindr_eq_Inr require_eq_Inr timely_def split: option.splits)
qed

text \<open>An example: a request, its approval and its consumption.\<close>

definition ex_action :: protected_action where
  "ex_action =
     \<lparr>pa_id = ''act'', pa_organisation_id = ''org'', pa_run_id = ''run'', pa_kind = ''revoke'', pa_resource = ''key/1'',
      pa_credential_id = ''key'', pa_generation_id = ''gen'', pa_provider_id = ''p1'', pa_control_version = ''ctl'',
      pa_playbook_version = None, pa_plan_hash = ex_hash, pa_evidence_hash = ex_hash,
      pa_preconditions = [(''enabled'', SBool True)], pa_parameters = []\<rparr>"

definition ex_token :: string where
  "ex_token = replicate 43 (CHR ''x'')"

definition ex_service :: approval_service where
  "ex_service = \<lparr>svc_sha = ex_sha, svc_time = ex_fmt, svc_fmt = ex_fmt, svc_region = None, svc_notifier = None\<rparr>"

definition ex_idle :: approval_state where
  "ex_idle = \<lparr>sv_approvals = empty_approvals, sv_audit = empty_audit\<rparr>"

definition ex_approval :: approval where
  "ex_approval = new_approval ex_service 1 ''apr'' ex_action ex_hash ex_hash ex_hash ''user'' 100 ex_token"

definition ex_waiting :: approval_state where
  "ex_waiting = ex_idle\<lparr>sv_approvals := \<lparr>as_approvals = (\<lambda>_. [])(''org'' := [(''apr'', ex_approval)]),
     as_actions = Map.empty((''org'', ''act'') \<mapsto> ex_action)\<rparr>\<rparr>"

definition ex_granted :: approval where
  "ex_granted = decided_approval ex_approval AP_APPROVED ''boss'' 5"

definition ex_used :: approval where
  "ex_used = consumed_approval ex_granted 9"

definition ex_with :: "approval \<Rightarrow> approval_state" where
  "ex_with a = ex_waiting\<lparr>sv_approvals := set_approval (sv_approvals ex_waiting) ''org'' ''apr'' a\<rparr>"

lemma ex_names: "identifier_ok ''apr''" "identifier_ok ''act''" "identifier_ok ''org''" "identifier_ok ''run''" "identifier_ok ''gen''"
  "identifier_ok ''user''" "identifier_ok ''boss''" "token_ok ex_token"
  by code_simp+

lemma ex_hash_hex: "hex64 ex_hash"
  using ex_sha_hex by (simp add: ex_sha_def)

lemma ex_action_text: "\<exists>x. digest_text ex_fmt (dump_action ex_action) = Inr x"
proof -
  have "is_ok (canonical ex_fmt (dump_action ex_action))" by code_simp
  then show ?thesis by (auto simp: is_ok_iff digest_text_def)
qed

lemma ex_action_digest: "digest ex_sha ex_fmt (dump_action ex_action) = Inr ex_hash"
  using ex_action_text by (auto simp: digest_def ex_sha_def)

lemma ex_fields:
  "approval_fields_ok ex_approval" "appr_id ex_approval = ''apr''" "appr_organisation_id ex_approval = ''org''"
  "appr_capability_hash ex_approval = ex_hash" "appr_action_digest ex_approval = ex_hash" "appr_plan_hash ex_approval = ex_hash"
  "appr_evidence_hash ex_approval = ex_hash" "appr_decision ex_approval = AP_PENDING" "appr_expires_at ex_approval = 100"
  "appr_revision ex_approval = 0" "appr_consumed_at ex_approval = None" "appr_decided_at ex_approval = None"
  "appr_approver_id ex_approval = None"
  by (simp_all add: ex_approval_def new_approval_def ex_action_def approval_fields_ok_def ex_names ex_hash_hex ex_service_def ex_sha_def)

lemma ex_valid: "approval_valid ex_approval" "approval_valid ex_granted" "approval_valid ex_used"
  by (simp_all add: approval_valid_def validate_decision_def ex_fields ex_granted_def ex_used_def ex_names)

lemma ex_requested:
  "request_approval ex_service 1 ''apr'' ex_action ex_hash ex_hash ''user'' 100 ex_token ex_idle = (Inr (ex_approval, ex_token), ex_waiting)"
proof -
  have "approval_create ex_approval ex_action empty_approvals = Inr (ex_approval, sv_approvals ex_waiting)"
    unfolding approval_create_def Let_def
    by (simp add: ex_fields segments_def ex_names ex_waiting_def empty_approvals_def)
      (simp add: ex_action_def ex_names)
  then have "request_stored ex_service 1 ''apr'' ex_action ex_hash ex_hash ''user'' 100 ex_token (sv_approvals ex_idle)
      = Inr (ex_approval, sv_approvals ex_waiting)"
    using ex_valid(1) ex_action_digest
    by (simp add: request_stored_def ex_names validate_approval_def approval_valid_def ex_approval_def ex_service_def ex_idle_def)
      (simp add: ex_action_def)
  then show ?thesis
    by (simp add: request_approval_def Let_def record_audit_def ex_service_def) (simp add: ex_waiting_def)
qed

lemma ex_get: "get_approval (sv_approvals ex_waiting) ''org'' ''apr'' = Inr ex_approval"
  "approval_valid a \<Longrightarrow> get_approval (sv_approvals (ex_with a)) ''org'' ''apr'' = Inr a"
  using ex_valid(1)
  by (simp_all add: get_approval_def segments_def ex_names ex_with_def ex_waiting_def set_approval_def map_of_update
      validate_approval_def approval_valid_def)

lemma ex_with_set: "set_approval (sv_approvals (ex_with a)) ''org'' ''apr'' b = sv_approvals (ex_with b)"
  by (simp add: ex_with_def set_approval_def ex_waiting_def)

lemma ex_decided:
  "decide_approval ex_service 5 ''org'' ''apr'' 0 AP_APPROVED ''boss'' ex_waiting = (Inr ex_granted, ex_with ex_granted)"
  by (simp add: decide_approval_def approval_decide_def ex_get ex_fields ex_granted_def Let_def record_audit_def ex_service_def ex_with_def)

lemma ex_consumed:
  "consume_approval ex_service 9 ''org'' ''apr'' ex_token ex_action ex_hash ex_hash ''run_agent'' (ex_with ex_granted) = (Inr ex_used, ex_with ex_used)"
proof -
  have "pa_plan_hash ex_action = ex_hash" "pa_evidence_hash ex_action = ex_hash" by (simp_all add: ex_action_def)
  moreover have "appr_consumed_at ex_granted = None" "appr_decision ex_granted = AP_APPROVED" "appr_expires_at ex_granted = 100"
    "appr_capability_hash ex_granted = ex_hash" "appr_action_digest ex_granted = ex_hash" "appr_plan_hash ex_granted = ex_hash"
    "appr_evidence_hash ex_granted = ex_hash"
    by (simp_all add: ex_granted_def ex_fields) (simp_all add: decided_approval_def ex_fields)
  ultimately have "approval_consume ''org'' ''apr'' ex_hash ex_hash ex_hash ex_hash 9 (sv_approvals (ex_with ex_granted))
      = Inr (ex_used, sv_approvals (ex_with ex_used))"
    by (simp add: approval_consume_def ex_get ex_valid consume_bindings_def Let_def ex_used_def ex_with_set)
  then show ?thesis
    using ex_action_digest \<open>pa_plan_hash ex_action = ex_hash\<close> \<open>pa_evidence_hash ex_action = ex_hash\<close>
    by (simp add: consume_approval_def ex_service_def ex_sha_def record_audit_def) (simp add: ex_with_def)
qed

lemma ex_idle_ok: "approvals_ok (sv_approvals ex_idle)"
  by (simp add: ex_idle_def empty_approvals_ok)

theorem consumption_authorised_witness:
  "appr_decision ex_used = AP_APPROVED \<and> same_action ex_fmt ex_action ex_action
   \<and> (\<exists>d c. appr_decided_at ex_used = Some d \<and> d \<le> 100 \<and> appr_consumed_at ex_used = Some c \<and> c < 100)"
proof -
  have st: "approval_steps ex_service ex_waiting (ex_with ex_granted)"
    by (rule approval_steps.ap_step [OF approval_steps.ap_refl approval_step.ap_decide [OF ex_decided ex_names(7)]])
  have org: "pa_organisation_id ex_action = ''org''" by (simp add: ex_action_def)
  have inj: "inj_on (svc_sha ex_service) {x. digest_text (svc_time ex_service) (dump_action ex_action) = Inr x
           \<or> digest_text (svc_time ex_service) (dump_action ex_action) = Inr x}"
    by (auto simp: inj_on_def)
  show ?thesis
    using consumption_authorised [OF ex_idle_ok ex_requested st _ inj, unfolded org, OF ex_consumed]
    by (simp add: ex_service_def)
qed

section \<open>Finality\<close>

text \<open>
  A consumption is final and can only be replayed: after it, whatever the service is asked, the
  stored approval stays as it is; a further consumption changes no approval and, if it returns one,
  returns the same, to the same token (up to a collision), plan and evidence.
\<close>

theorem consumed_once:
  assumes "approvals_ok (sv_approvals s)"
    and "consume_approval svc t org i capability action plan evd actor s = (Inr a, s1)"
    and "approval_steps svc s1 s2"
    and "consume_approval svc t' org i capability' action' plan' evd' actor' s2 = (res, s3)"
  shows "map_of (as_approvals (sv_approvals s2) org) i = Some a \<and> sv_approvals s3 = sv_approvals s2
    \<and> (case res of Inl e \<Rightarrow> True
       | Inr b \<Rightarrow> b = a \<and> svc_sha svc capability' = svc_sha svc capability \<and> plan' = plan \<and> evd' = evd)"
proof -
  from assms(2) obtain dig where d: "approval_consume org i (svc_sha svc capability) dig plan evd t (sv_approvals s) = Inr (a, sv_approvals s1)"
    by (cases rule: consume_service_cases) auto
  from d assms(1) obtain c where "map_of (as_approvals (sv_approvals s) org) i = Some c" by (cases rule: consume_cases) auto
  note a = consumed_follows [OF d assms(1) this follows_refl]
  note keep = approval_steps_keep [OF assms(3) conjunct1 [OF consume_keeps [OF d assms(1)]]]
  from a obtain b where b: "map_of (as_approvals (sv_approvals s2) org) i = Some b" "follows a b"
    using keep unfolding store_follows_def by blast
  then have ba: "b = a" using a by (simp add: follows_def)
  from assms(4) show ?thesis
  proof (cases rule: consume_service_cases)
    case (2 dig' b')
    from 2(2) conjunct1 [OF keep] show ?thesis
    proof (cases rule: consume_cases)
      case replay
      then show ?thesis using 2 a b ba by (auto split: sum.splits)
    next
      case (consumed x)
      then show ?thesis using a b ba by (simp add: consumes_def)
    qed
  qed (use b ba in \<open>auto split: sum.splits\<close>)
qed

theorem consumed_once_witness:
  "map_of (as_approvals (sv_approvals (ex_with ex_used)) ''org'') ''apr'' = Some ex_used"
proof -
  have ok: "approvals_ok (sv_approvals (ex_with ex_granted))"
    using approval_step_keeps [OF approval_step.ap_decide [OF ex_decided ex_names(7)]]
      approval_step_keeps [OF approval_step.ap_request [OF ex_requested] ex_idle_ok] by blast
  obtain res s3 where again: "consume_approval ex_service 12 ''org'' ''apr'' ex_token ex_action ex_hash ex_hash ''user'' (ex_with ex_used) = (res, s3)"
    by fastforce
  from consumed_once [OF ok ex_consumed approval_steps.ap_refl again] show ?thesis by blast
qed

text \<open>
  A decision is made once: after it, whatever the service is asked, the stored approval keeps the
  decision and who made it, and another decision, or the same by somebody else, is refused without
  changing any approval.
\<close>

theorem decided_once:
  assumes "approvals_ok (sv_approvals s)" "identifier_ok actor"
    and "decide_approval svc t org i rv d actor s = (Inr a, s1)"
    and "approval_steps svc s1 s2" "(d', actor') \<noteq> (d, actor)"
    and "decide_approval svc t' org i rv' d' actor' s2 = (res, s3)"
  shows "(\<exists>b. map_of (as_approvals (sv_approvals s2) org) i = Some b \<and> appr_decision b = d \<and> appr_approver_id b = Some actor)
    \<and> \<not> is_ok res \<and> sv_approvals s3 = sv_approvals s2"
proof -
  from assms(3) have d: "d \<noteq> AP_PENDING" "approval_decide org i rv d actor t (sv_approvals s) = Inr (a, sv_approvals s1)"
    by (cases rule: decide_service_cases; auto)+
  have a: "map_of (as_approvals (sv_approvals s1) org) i = Some a \<and> appr_decision a = d \<and> appr_approver_id a = Some actor"
    using d(2) assms(1) d(1) by (cases rule: decide_cases) (auto simp: set_approval_map)
  note keep = approval_steps_keep [OF assms(4) conjunct1 [OF decide_keeps [OF d(2) assms(1) d(1) assms(2)]]]
  from a obtain b where b: "map_of (as_approvals (sv_approvals s2) org) i = Some b" "follows a b"
    using keep unfolding store_follows_def by blast
  then have bd: "appr_decision b = d" "appr_approver_id b = Some actor" using a d(1) by (auto simp: follows_def)
  from assms(6) have "\<not> is_ok res \<and> sv_approvals s3 = sv_approvals s2"
  proof (cases rule: decide_service_cases)
    case (2 x)
    from 2(2) conjunct1 [OF keep] 2(1) have False
    proof (cases rule: decide_cases)
      case (decided y)
      then show ?thesis using b(1) bd d(1) by (simp add: decides_def)
    qed (use b(1) bd assms(5) in auto)
    then show ?thesis ..
  qed auto
  then show ?thesis using b bd by blast
qed

theorem decided_once_witness:
  "\<not> is_ok (fst (decide_approval ex_service 7 ''org'' ''apr'' 1 AP_REJECTED ''user'' (ex_with ex_granted)))"
proof -
  have ok: "approvals_ok (sv_approvals ex_waiting)"
    using approval_step_keeps [OF approval_step.ap_request [OF ex_requested] ex_idle_ok] by blast
  obtain res s3 where again: "decide_approval ex_service 7 ''org'' ''apr'' 1 AP_REJECTED ''user'' (ex_with ex_granted) = (res, s3)"
    by fastforce
  have "(AP_REJECTED, ''user'') \<noteq> (AP_APPROVED, ''boss'')" by simp
  from decided_once [OF ok ex_names(7) ex_decided approval_steps.ap_refl this again] again show ?thesis by simp
qed

text \<open>
  A decision that took effect cannot be repeated: sending the same request again - because the
  answer was lost, or because the audit event after it could not be written - is a revision conflict,
  and writes no audit event either.
\<close>

theorem decision_retry_conflicts:
  assumes "approvals_ok (sv_approvals s)" "identifier_ok actor"
    and "decide_approval svc t org i rv d actor s = (res, s1)" "sv_approvals s1 \<noteq> sv_approvals s"
  shows "decide_approval svc t' org i rv d actor s1 =
    (Inl (ResourceConflictError (''approval expected revision '' @ int_text rv @ '', found '' @ int_text (rv + 1))), s1)"
proof -
  from assms(3,4) obtain b where d: "d \<noteq> AP_PENDING" "approval_decide org i rv d actor t (sv_approvals s) = Inr (b, sv_approvals s1)"
    by (cases rule: decide_service_cases) auto
  have b: "map_of (as_approvals (sv_approvals s1) org) i = Some b \<and> appr_revision b = rv + 1"
    using d(2) assms(1) d(1) by (cases rule: decide_cases) (use assms(4) in \<open>auto simp: set_approval_map\<close>)
  have "get_approval (sv_approvals s1) org i = Inr b"
    using b get_approval_iff [OF conjunct1 [OF decide_keeps [OF d(2) assms(1) d(1) assms(2)]]] by simp
  then show ?thesis using b d(1) by (simp add: decide_approval_def approval_decide_def)
qed

theorem decision_retry_conflicts_witness:
  "\<not> is_ok (fst (decide_approval ex_service 6 ''org'' ''apr'' 0 AP_APPROVED ''boss'' (ex_with ex_granted)))"
proof -
  have ok: "approvals_ok (sv_approvals ex_waiting)"
    using approval_step_keeps [OF approval_step.ap_request [OF ex_requested] ex_idle_ok] by blast
  have "ex_granted \<noteq> ex_approval" by (metis approval_decision.distinct(1) decided_approval_fields(1) ex_fields(8) ex_granted_def)
  then have "sv_approvals (ex_with ex_granted) \<noteq> sv_approvals ex_waiting"
    using ex_get ex_valid(2) by (metis sum.inject(2))
  from decision_retry_conflicts [OF ok ex_names(7) ex_decided this] show ?thesis by simp
qed

end
