(* ===== verification/Paths.thy ===== *)
theory Paths imports Digest begin

text \<open>
  The document paths of server/core/storage/paths.py (\<open>FirestorePaths\<close>): every document of the store
  is named by one of these functions, and the stores of the other theories are maps from the
  identifiers in these names. Every identifier is validated when the path is built, except the
  name of a principal. The inverse \<open>parse_path\<close> is part of the verification, not of the program.
\<close>

section \<open>The paths\<close>

definition segment :: "string \<Rightarrow> string result" where
  "segment value = (if identifier_ok value then Inr value else Inl (FieldError ''Identifier''))"

definition organisation_path :: "string \<Rightarrow> string result" where
  "organisation_path org = bindr (segment org) (\<lambda>s. Inr (''organisations/'' @ s))"

text \<open>
  The shapes of the f-strings: a fixed tail below a root, a validated name within a collection and
  a validated name in a collection under a root.
\<close>

definition below :: "string result \<Rightarrow> string \<Rightarrow> string result" where
  "below root rest = bindr root (\<lambda>r. Inr (r @ ''/'' @ rest))"

definition within :: "string result \<Rightarrow> string \<Rightarrow> string result" where
  "within root value = bindr root (\<lambda>r. bindr (segment value) (\<lambda>s. Inr (r @ ''/'' @ s)))"

definition under :: "string result \<Rightarrow> string \<Rightarrow> string \<Rightarrow> string result" where
  "under root collection value =
     bindr root (\<lambda>r. bindr (segment value) (\<lambda>s. Inr (r @ ''/'' @ collection @ ''/'' @ s)))"

definition run_path :: "string \<Rightarrow> string \<Rightarrow> string result" where
  "run_path org run_id = under (organisation_path org) ''runs'' run_id"

definition step_path :: "string \<Rightarrow> string \<Rightarrow> string \<Rightarrow> string result" where
  "step_path org run_id command_id = under (run_path org run_id) ''steps'' command_id"

definition outbox_path :: "string \<Rightarrow> string \<Rightarrow> string result" where
  "outbox_path org event_id = under (organisation_path org) ''outbox'' event_id"

definition delivery_path :: "string \<Rightarrow> string \<Rightarrow> string result" where
  "delivery_path org run_id = under (organisation_path org) ''deliveries'' run_id"

definition connection_path :: "string \<Rightarrow> string \<Rightarrow> string result" where
  "connection_path org connection_id = under (organisation_path org) ''connections'' connection_id"

definition application_path :: "string \<Rightarrow> string \<Rightarrow> string result" where
  "application_path org application_id = under (organisation_path org) ''applications'' application_id"

definition environment_path :: "string \<Rightarrow> string \<Rightarrow> string result" where
  "environment_path org environment_id = under (organisation_path org) ''environments'' environment_id"

definition service_path :: "string \<Rightarrow> string \<Rightarrow> string result" where
  "service_path org service_id = under (organisation_path org) ''services'' service_id"

definition credential_path :: "string \<Rightarrow> string \<Rightarrow> string result" where
  "credential_path org credential_id = under (organisation_path org) ''credentials'' credential_id"

definition binding_path :: "string \<Rightarrow> string \<Rightarrow> string result" where
  "binding_path org binding_id = under (organisation_path org) ''bindings'' binding_id"

definition generation_path :: "string \<Rightarrow> string \<Rightarrow> string result" where
  "generation_path org generation_id = under (organisation_path org) ''generations'' generation_id"

definition playbook_path :: "string \<Rightarrow> string \<Rightarrow> string result" where
  "playbook_path org playbook_id = under (organisation_path org) ''playbooks'' playbook_id"

definition playbook_version_path :: "string \<Rightarrow> string \<Rightarrow> string \<Rightarrow> string result" where
  "playbook_version_path org playbook_id version_id = under (playbook_path org playbook_id) ''versions'' version_id"

definition walkthrough_path :: "string \<Rightarrow> string \<Rightarrow> string \<Rightarrow> string result" where
  "walkthrough_path org playbook_id source_id = under (playbook_path org playbook_id) ''walkthroughs'' source_id"

definition incident_path :: "string \<Rightarrow> string \<Rightarrow> string result" where
  "incident_path org incident_id = under (organisation_path org) ''incidents'' incident_id"

definition ingestion_path :: "(string \<Rightarrow> string) \<Rightarrow> string \<Rightarrow> string \<Rightarrow> string \<Rightarrow> string \<Rightarrow> string result" where
  "ingestion_path sha org source event_id kind = 
     below (organisation_path org) (''ingestion/event_'' @ sha (join [CHR 0x00] [source, event_id, kind]))"

definition approval_path :: "string \<Rightarrow> string \<Rightarrow> string result" where
  "approval_path org approval_id = under (organisation_path org) ''approvals'' approval_id"

definition notification_collection_path :: "string \<Rightarrow> string result" where
  "notification_collection_path org = below (organisation_path org) ''notifications''"

definition notification_path :: "string \<Rightarrow> string \<Rightarrow> string result" where
  "notification_path org notification_id = within (notification_collection_path org) notification_id"

definition notification_endpoint_collection_path :: "string \<Rightarrow> string result" where
  "notification_endpoint_collection_path org = below (organisation_path org) ''notification-endpoints''"

definition notification_endpoint_path :: "string \<Rightarrow> string \<Rightarrow> string result" where
  "notification_endpoint_path org endpoint_id = within (notification_endpoint_collection_path org) endpoint_id"

definition notification_delivery_path :: "string \<Rightarrow> string \<Rightarrow> string \<Rightarrow> string result" where
  "notification_delivery_path org notification_id delivery_id = under (notification_path org notification_id) ''notification-deliveries'' delivery_id"

definition action_path :: "string \<Rightarrow> string \<Rightarrow> string result" where
  "action_path org action_id = under (organisation_path org) ''actions'' action_id"

definition audit_path :: "string \<Rightarrow> string \<Rightarrow> string result" where
  "audit_path org event_id = under (organisation_path org) ''audit'' event_id"

definition audit_outbox_path :: "string \<Rightarrow> string \<Rightarrow> string result" where
  "audit_outbox_path org event_id = under (organisation_path org) ''audit-outbox'' event_id"

definition audit_delivery_path :: "string \<Rightarrow> string result" where
  "audit_delivery_path org = below (organisation_path org) ''audit-state/delivery''"

definition audit_head_path :: "string \<Rightarrow> string result" where
  "audit_head_path org = below (organisation_path org) ''audit-state/head''"

definition evidence_path :: "string \<Rightarrow> string \<Rightarrow> string result" where
  "evidence_path org evidence_id = under (organisation_path org) ''evidence'' evidence_id"

definition browser_path :: "string \<Rightarrow> string \<Rightarrow> string result" where
  "browser_path org session_id = under (organisation_path org) ''browsers'' session_id"

definition browser_egress_path :: "string \<Rightarrow> string result" where
  "browser_egress_path region = bindr (segment region) (\<lambda>s. Inr (''browser-egress/'' @ s))"

definition setup_path :: "string \<Rightarrow> string \<Rightarrow> string result" where
  "setup_path org setup_id = under (organisation_path org) ''setups'' setup_id"

definition connection_waiter_path :: "string \<Rightarrow> string \<Rightarrow> string result" where
  "connection_waiter_path org connection_id = under (organisation_path org) ''connection-waiters'' connection_id"

definition github_onboarding_path :: "string \<Rightarrow> string \<Rightarrow> string result" where
  "github_onboarding_path org onboarding_id = under (organisation_path org) ''github-onboarding'' onboarding_id"

definition google_cloud_onboarding_path :: "string \<Rightarrow> string \<Rightarrow> string result" where
  "google_cloud_onboarding_path org onboarding_id = under (organisation_path org) ''google-cloud-onboarding'' onboarding_id"

definition github_installation_path :: "string \<Rightarrow> int \<Rightarrow> string result" where
  "github_installation_path org installation_id = below (organisation_path org) (''github-installations/'' @ int_text installation_id)"

definition github_repository_path :: "string \<Rightarrow> int \<Rightarrow> string result" where
  "github_repository_path org repository_id = below (organisation_path org) (''github-repositories/'' @ int_text repository_id)"

definition github_installation_index_path :: "int \<Rightarrow> string result" where
  "github_installation_index_path installation_id = Inr (''github-installation-index/'' @ int_text installation_id)"

definition github_webhook_receipt_path :: "int \<Rightarrow> string result" where
  "github_webhook_receipt_path installation_id = Inr (''github-webhook-receipts/'' @ int_text installation_id)"

definition capture_path :: "string \<Rightarrow> string \<Rightarrow> string \<Rightarrow> string result" where
  "capture_path org session_id capture_id = under (browser_path org session_id) ''captures'' capture_id"

definition browser_action_path :: "string \<Rightarrow> string \<Rightarrow> string \<Rightarrow> string result" where
  "browser_action_path org session_id action_id = under (browser_path org session_id) ''actions'' action_id"

definition computer_use_activity_path :: "string \<Rightarrow> string \<Rightarrow> string \<Rightarrow> string result" where
  "computer_use_activity_path org session_id activity_id = under (browser_path org session_id) ''activity'' activity_id"

definition probe_path :: "string \<Rightarrow> string \<Rightarrow> string result" where
  "probe_path org probe_id = under (organisation_path org) ''probes'' probe_id"

definition probe_version_path :: "string \<Rightarrow> string \<Rightarrow> string result" where
  "probe_version_path org version_id = under (organisation_path org) ''probe-versions'' version_id"

definition report_path :: "string \<Rightarrow> string \<Rightarrow> string result" where
  "report_path org report_id = under (organisation_path org) ''reports'' report_id"

definition plan_path :: "string \<Rightarrow> string \<Rightarrow> string result" where
  "plan_path org plan_id = under (organisation_path org) ''plans'' plan_id"

definition control_version_path :: "string \<Rightarrow> string \<Rightarrow> string \<Rightarrow> string result" where
  "control_version_path org credential_id version_id = under (credential_path org credential_id) ''control-versions'' version_id"

definition recovery_path :: "string \<Rightarrow> string \<Rightarrow> string result" where
  "recovery_path org recovery_id = under (organisation_path org) ''recovery'' recovery_id"

definition recovery_result_path :: "string \<Rightarrow> string \<Rightarrow> string \<Rightarrow> string result" where
  "recovery_result_path org recovery_id result_id = under (recovery_path org recovery_id) ''results'' result_id"

definition stage_path :: "string \<Rightarrow> string \<Rightarrow> string result" where
  "stage_path org execution_id = under (organisation_path org) ''stages'' execution_id"

definition tool_path :: "string \<Rightarrow> string \<Rightarrow> string result" where
  "tool_path org request_id = under (organisation_path org) ''tools'' request_id"

definition agent_path :: "string \<Rightarrow> string \<Rightarrow> string result" where
  "agent_path org agent_id = under (organisation_path org) ''agents'' agent_id"

definition agent_session_path :: "string \<Rightarrow> string \<Rightarrow> string result" where
  "agent_session_path org session_id = under (organisation_path org) ''agent-sessions'' session_id"

definition agent_memory_path :: "string \<Rightarrow> string \<Rightarrow> string result" where
  "agent_memory_path org memory_id = under (organisation_path org) ''agent-memory'' memory_id"

definition lock_path :: "string \<Rightarrow> string \<Rightarrow> string result" where
  "lock_path org credential_id = 
     bindr (organisation_path org) (\<lambda>r. bindr (segment credential_id) (\<lambda>c. Inr (r @ ''/credentials/'' @ c @ ''/locks/rotation'')))"

definition dedupe_path :: "(string \<Rightarrow> string) \<Rightarrow> string \<Rightarrow> string \<Rightarrow> string \<Rightarrow> string result" where
  "dedupe_path sha org source event_id = 
     below (organisation_path org) (''dedupe/event_'' @ sha (join [CHR 0x00] [source, event_id]))"

definition principal_collection_path :: "string \<Rightarrow> string result" where
  "principal_collection_path org = below (organisation_path org) ''principals''"

definition principal_path :: "string \<Rightarrow> string \<Rightarrow> string result" where
  "principal_path org principal_id = below (principal_collection_path org) principal_id"

definition invitation_collection_path :: "string \<Rightarrow> string result" where
  "invitation_collection_path org = below (organisation_path org) ''team-invitations''"

definition invitation_path :: "string \<Rightarrow> string \<Rightarrow> string result" where
  "invitation_path org invitation_id = within (invitation_collection_path org) invitation_id"

section \<open>The documents and the inverse\<close>

text \<open>
  One constructor per document the functions name; ingestion and deduplication records are left
  out, since their names hold a hash of what identifies them.
\<close>

datatype (plugins only: size) document =
    Doc_organisation string
  | Doc_run string string
  | Doc_step string string string
  | Doc_outbox string string
  | Doc_delivery string string
  | Doc_connection string string
  | Doc_application string string
  | Doc_environment string string
  | Doc_service string string
  | Doc_credential string string
  | Doc_binding string string
  | Doc_generation string string
  | Doc_playbook string string
  | Doc_playbook_version string string string
  | Doc_walkthrough string string string
  | Doc_incident string string
  | Doc_approval string string
  | Doc_notification string string
  | Doc_notification_endpoint string string
  | Doc_notification_delivery string string string
  | Doc_action string string
  | Doc_audit string string
  | Doc_audit_outbox string string
  | Doc_audit_delivery string
  | Doc_audit_head string
  | Doc_evidence string string
  | Doc_browser string string
  | Doc_browser_egress string
  | Doc_setup string string
  | Doc_connection_waiter string string
  | Doc_github_onboarding string string
  | Doc_google_cloud_onboarding string string
  | Doc_github_installation string int
  | Doc_github_repository string int
  | Doc_github_installation_index int
  | Doc_github_webhook_receipt int
  | Doc_capture string string string
  | Doc_browser_action string string string
  | Doc_computer_use_activity string string string
  | Doc_probe string string
  | Doc_probe_version string string
  | Doc_report string string
  | Doc_plan string string
  | Doc_control_version string string string
  | Doc_recovery string string
  | Doc_recovery_result string string string
  | Doc_stage string string
  | Doc_tool string string
  | Doc_agent string string
  | Doc_agent_session string string
  | Doc_agent_memory string string
  | Doc_lock string string
  | Doc_principal string string
  | Doc_invitation string string

primrec document_path :: "document \<Rightarrow> string result" where
  "document_path (Doc_organisation org) = organisation_path org"
| "document_path (Doc_run org run_id) = run_path org run_id"
| "document_path (Doc_step org run_id command_id) = step_path org run_id command_id"
| "document_path (Doc_outbox org event_id) = outbox_path org event_id"
| "document_path (Doc_delivery org run_id) = delivery_path org run_id"
| "document_path (Doc_connection org connection_id) = connection_path org connection_id"
| "document_path (Doc_application org application_id) = application_path org application_id"
| "document_path (Doc_environment org environment_id) = environment_path org environment_id"
| "document_path (Doc_service org service_id) = service_path org service_id"
| "document_path (Doc_credential org credential_id) = credential_path org credential_id"
| "document_path (Doc_binding org binding_id) = binding_path org binding_id"
| "document_path (Doc_generation org generation_id) = generation_path org generation_id"
| "document_path (Doc_playbook org playbook_id) = playbook_path org playbook_id"
| "document_path (Doc_playbook_version org playbook_id version_id) = playbook_version_path org playbook_id version_id"
| "document_path (Doc_walkthrough org playbook_id source_id) = walkthrough_path org playbook_id source_id"
| "document_path (Doc_incident org incident_id) = incident_path org incident_id"
| "document_path (Doc_approval org approval_id) = approval_path org approval_id"
| "document_path (Doc_notification org notification_id) = notification_path org notification_id"
| "document_path (Doc_notification_endpoint org endpoint_id) = notification_endpoint_path org endpoint_id"
| "document_path (Doc_notification_delivery org notification_id delivery_id) = notification_delivery_path org notification_id delivery_id"
| "document_path (Doc_action org action_id) = action_path org action_id"
| "document_path (Doc_audit org event_id) = audit_path org event_id"
| "document_path (Doc_audit_outbox org event_id) = audit_outbox_path org event_id"
| "document_path (Doc_audit_delivery org) = audit_delivery_path org"
| "document_path (Doc_audit_head org) = audit_head_path org"
| "document_path (Doc_evidence org evidence_id) = evidence_path org evidence_id"
| "document_path (Doc_browser org session_id) = browser_path org session_id"
| "document_path (Doc_browser_egress region) = browser_egress_path region"
| "document_path (Doc_setup org setup_id) = setup_path org setup_id"
| "document_path (Doc_connection_waiter org connection_id) = connection_waiter_path org connection_id"
| "document_path (Doc_github_onboarding org onboarding_id) = github_onboarding_path org onboarding_id"
| "document_path (Doc_google_cloud_onboarding org onboarding_id) = google_cloud_onboarding_path org onboarding_id"
| "document_path (Doc_github_installation org installation_id) = github_installation_path org installation_id"
| "document_path (Doc_github_repository org repository_id) = github_repository_path org repository_id"
| "document_path (Doc_github_installation_index installation_id) = github_installation_index_path installation_id"
| "document_path (Doc_github_webhook_receipt installation_id) = github_webhook_receipt_path installation_id"
| "document_path (Doc_capture org session_id capture_id) = capture_path org session_id capture_id"
| "document_path (Doc_browser_action org session_id action_id) = browser_action_path org session_id action_id"
| "document_path (Doc_computer_use_activity org session_id activity_id) = computer_use_activity_path org session_id activity_id"
| "document_path (Doc_probe org probe_id) = probe_path org probe_id"
| "document_path (Doc_probe_version org version_id) = probe_version_path org version_id"
| "document_path (Doc_report org report_id) = report_path org report_id"
| "document_path (Doc_plan org plan_id) = plan_path org plan_id"
| "document_path (Doc_control_version org credential_id version_id) = control_version_path org credential_id version_id"
| "document_path (Doc_recovery org recovery_id) = recovery_path org recovery_id"
| "document_path (Doc_recovery_result org recovery_id result_id) = recovery_result_path org recovery_id result_id"
| "document_path (Doc_stage org execution_id) = stage_path org execution_id"
| "document_path (Doc_tool org request_id) = tool_path org request_id"
| "document_path (Doc_agent org agent_id) = agent_path org agent_id"
| "document_path (Doc_agent_session org session_id) = agent_session_path org session_id"
| "document_path (Doc_agent_memory org memory_id) = agent_memory_path org memory_id"
| "document_path (Doc_lock org credential_id) = lock_path org credential_id"
| "document_path (Doc_principal org principal_id) = principal_path org principal_id"
| "document_path (Doc_invitation org invitation_id) = invitation_path org invitation_id"

fun split_path :: "string \<Rightarrow> string list" where
  "split_path [] = [[]]"
| "split_path (c # r) =
     (if c = CHR ''/'' then [] # split_path r
      else (case split_path r of [] \<Rightarrow> [[c]] | w # ws \<Rightarrow> (c # w) # ws))"

definition parse_nat :: "string \<Rightarrow> nat" where
  "parse_nat s = foldl (\<lambda>n c. 10 * n + (char_code c - 48)) 0 s"

definition parse_int :: "string \<Rightarrow> int" where
  "parse_int s =
     (case s of [] \<Rightarrow> 0 | c # r \<Rightarrow> if c = CHR ''-'' then - int (parse_nat r) else int (parse_nat s))"

definition resources :: "(string \<times> (string \<Rightarrow> string \<Rightarrow> document)) list" where
  "resources =
    [(''runs'', Doc_run),
     (''outbox'', Doc_outbox),
     (''deliveries'', Doc_delivery),
     (''connections'', Doc_connection),
     (''applications'', Doc_application),
     (''environments'', Doc_environment),
     (''services'', Doc_service),
     (''credentials'', Doc_credential),
     (''bindings'', Doc_binding),
     (''generations'', Doc_generation),
     (''playbooks'', Doc_playbook),
     (''incidents'', Doc_incident),
     (''approvals'', Doc_approval),
     (''notifications'', Doc_notification),
     (''notification-endpoints'', Doc_notification_endpoint),
     (''actions'', Doc_action),
     (''audit'', Doc_audit),
     (''audit-outbox'', Doc_audit_outbox),
     (''evidence'', Doc_evidence),
     (''browsers'', Doc_browser),
     (''setups'', Doc_setup),
     (''connection-waiters'', Doc_connection_waiter),
     (''github-onboarding'', Doc_github_onboarding),
     (''google-cloud-onboarding'', Doc_google_cloud_onboarding),
     (''probes'', Doc_probe),
     (''probe-versions'', Doc_probe_version),
     (''reports'', Doc_report),
     (''plans'', Doc_plan),
     (''recovery'', Doc_recovery),
     (''stages'', Doc_stage),
     (''tools'', Doc_tool),
     (''agents'', Doc_agent),
     (''agent-sessions'', Doc_agent_session),
     (''agent-memory'', Doc_agent_memory),
     (''team-invitations'', Doc_invitation),
     (''principals'', Doc_principal)]"

definition subresources :: "((string \<times> string) \<times> (string \<Rightarrow> string \<Rightarrow> string \<Rightarrow> document)) list" where
  "subresources =
    [((''runs'', ''steps''), Doc_step),
     ((''playbooks'', ''versions''), Doc_playbook_version),
     ((''playbooks'', ''walkthroughs''), Doc_walkthrough),
     ((''notifications'', ''notification-deliveries''), Doc_notification_delivery),
     ((''browsers'', ''captures''), Doc_capture),
     ((''browsers'', ''actions''), Doc_browser_action),
     ((''browsers'', ''activity''), Doc_computer_use_activity),
     ((''credentials'', ''control-versions''), Doc_control_version),
     ((''recovery'', ''results''), Doc_recovery_result)]"

definition parse_segments :: "string list \<Rightarrow> document option" where
  "parse_segments xs =
     (case xs of
        [a, x] \<Rightarrow>
          if a = ''organisations'' then Some (Doc_organisation x)
          else if a = ''browser-egress'' then Some (Doc_browser_egress x)
          else if a = ''github-installation-index'' then Some (Doc_github_installation_index (parse_int x))
          else if a = ''github-webhook-receipts'' then Some (Doc_github_webhook_receipt (parse_int x))
          else None
      | [a, org, c, x] \<Rightarrow>
          if c = ''audit-state''
          then (if x = ''head'' then Some (Doc_audit_head org) else Some (Doc_audit_delivery org))
          else if c = ''github-installations'' then Some (Doc_github_installation org (parse_int x))
          else if c = ''github-repositories'' then Some (Doc_github_repository org (parse_int x))
          else map_option (\<lambda>f. f org x) (map_of resources c)
      | [a, org, c, x, d, y] \<Rightarrow>
          if d = ''locks'' then Some (Doc_lock org x)
          else map_option (\<lambda>f. f org x y) (map_of subresources (c, d))
      | _ \<Rightarrow> None)"

definition parse_path :: "string \<Rightarrow> document option" where
  "parse_path p = parse_segments (split_path p)"

text \<open>The name of a principal is the only one that is not validated.\<close>

definition principal_plain :: "document \<Rightarrow> bool" where
  "principal_plain d = (case d of Doc_principal org i \<Rightarrow> CHR ''/'' \<notin> set i | _ \<Rightarrow> True)"

section \<open>Splitting and numbers\<close>

lemma split_path_plain: "CHR ''/'' \<notin> set a \<Longrightarrow> split_path a = [a]"
  by (induction a) auto

lemma split_path_append: "CHR ''/'' \<notin> set a \<Longrightarrow> split_path (a @ CHR ''/'' # r) = a # split_path r"
  by (induction a) auto

lemma segment_eq_Inr [result_iff]: "segment v = Inr s \<longleftrightarrow> identifier_ok v \<and> s = v"
  by (auto simp: segment_def)

lemma nat_text_chars: "c \<in> set (nat_text n) \<Longrightarrow> is_digit c"
proof (induction n arbitrary: c rule: nat_text.induct)
  case (1 n)
  have d: "is_digit (digit_char k)" if "k < 10" for k
    using that by (simp add: is_digit_def digit_char_def char_code_def of_char_of)
  show ?case
  proof (cases "n < 10")
    case True
    then show ?thesis using "1.prems" d by (simp add: nat_text.simps)
  next
    case False
    then have "c \<in> set (nat_text (n div 10)) \<or> c = digit_char (n mod 10)"
      using "1.prems" by (auto simp: nat_text.simps [of n])
    then show ?thesis using "1.IH" False d [of "n mod 10"] by auto
  qed
qed

lemma nat_text_nonempty: "nat_text n \<noteq> []"
  by (simp add: nat_text.simps [of n])

lemma nat_text_plain: "CHR ''/'' \<notin> set (nat_text n)" "CHR ''-'' \<notin> set (nat_text n)"
  using nat_text_chars by (fastforce simp: is_digit_def char_code_def)+

lemma parse_nat_text: "parse_nat (nat_text n) = n"
proof (induction n rule: nat_text.induct)
  case (1 n)
  show ?case
  proof (cases "n < 10")
    case True
    then show ?thesis by (simp add: nat_text.simps parse_nat_def digit_char_def char_code_def of_char_of)
  next
    case False
    then show ?thesis
      using "1.IH" by (simp add: nat_text.simps [of n] parse_nat_def digit_char_def char_code_def of_char_of)
  qed
qed

lemma int_text_plain: "CHR ''/'' \<notin> set (int_text i)"
  by (simp add: int_text_def nat_text_plain)

lemma parse_int_text: "parse_int (int_text i) = i"
proof (cases "i < 0")
  case True
  then show ?thesis by (simp add: int_text_def parse_int_def parse_nat_text)
next
  case False
  then obtain c r where t: "int_text i = c # r" "c \<noteq> CHR ''-''"
    using nat_text_plain(2) [of "nat i"] nat_text_nonempty [of "nat i"]
    by (cases "nat_text (nat i)") (auto simp: int_text_def)
  moreover have "parse_nat (int_text i) = nat i"
    using False by (simp add: int_text_def parse_nat_text)
  ultimately show ?thesis using False by (simp add: parse_int_def)
qed

lemmas path_defs = organisation_path_def below_def within_def under_def
  run_path_def step_path_def outbox_path_def delivery_path_def
  connection_path_def application_path_def environment_path_def service_path_def
  credential_path_def binding_path_def generation_path_def playbook_path_def
  playbook_version_path_def walkthrough_path_def incident_path_def ingestion_path_def
  approval_path_def notification_collection_path_def notification_path_def notification_endpoint_collection_path_def
  notification_endpoint_path_def notification_delivery_path_def action_path_def audit_path_def
  audit_outbox_path_def audit_delivery_path_def audit_head_path_def evidence_path_def
  browser_path_def browser_egress_path_def setup_path_def connection_waiter_path_def
  github_onboarding_path_def google_cloud_onboarding_path_def github_installation_path_def github_repository_path_def
  github_installation_index_path_def github_webhook_receipt_path_def capture_path_def browser_action_path_def
  computer_use_activity_path_def probe_path_def probe_version_path_def report_path_def
  plan_path_def control_version_path_def recovery_path_def recovery_result_path_def
  stage_path_def tool_path_def agent_path_def agent_session_path_def
  agent_memory_path_def lock_path_def dedupe_path_def principal_collection_path_def
  principal_path_def invitation_collection_path_def invitation_path_def

lemma parse_document_path:
  assumes "document_path d = Inr p" "principal_plain d"
  shows "parse_path p = Some d"
  using assms
  by (cases d)
     (simp_all add: path_defs result_iff, auto simp: principal_plain_def parse_path_def parse_segments_def
       resources_def subresources_def split_path_append split_path_plain identifier_no_slash int_text_plain parse_int_text)

lemma document_path_inject:
  "document_path d = Inr p \<Longrightarrow> document_path e = Inr p \<Longrightarrow> principal_plain d \<Longrightarrow> principal_plain e \<Longrightarrow> d = e"
  using parse_document_path [of d p] parse_document_path [of e p] by simp

text \<open>
  C39: the documents that identifiers name never share a path: these are the constructors of \<open>document\<close>,
  all functions of \<open>FirestorePaths\<close> but those of the collections and of the ingestion and dedupe
  documents, whose last part is a hash. From the path such a function builds, the function and every
  argument can be read back, so documents of two organisations, of two kinds or with two identifiers have
  different paths. The name of a principal, which is not validated, must hold no slash.
\<close>

theorem path_roundtrip:
  assumes "document_path d = Inr p" "principal_plain d"
  shows "parse_path p = Some d \<and> (\<forall>e. principal_plain e \<and> document_path e = Inr p \<longrightarrow> e = d)"
  using assms parse_document_path document_path_inject by metis

theorem path_roundtrip_witness:
  "parse_path ''organisations/acme/runs/run-1/steps/cmd_7'' = Some (Doc_step ''acme'' ''run-1'' ''cmd_7'')
   \<and> parse_path ''organisations/acme/github-installations/-40'' = Some (Doc_github_installation ''acme'' (-40))"
proof
  have "document_path (Doc_step ''acme'' ''run-1'' ''cmd_7'') = Inr ''organisations/acme/runs/run-1/steps/cmd_7''"
    by (simp add: path_defs segment_def identifier_ok_def is_lower_def is_digit_def char_code_def int_text_def nat_text.simps)
  then show "parse_path ''organisations/acme/runs/run-1/steps/cmd_7'' = Some (Doc_step ''acme'' ''run-1'' ''cmd_7'')"
    using path_roundtrip [of "Doc_step ''acme'' ''run-1'' ''cmd_7''"] by (simp add: principal_plain_def)
  have "digit_char 4 = CHR ''4'' \<and> digit_char 0 = CHR ''0''"
    by code_simp
  then have "document_path (Doc_github_installation ''acme'' (-40)) = Inr ''organisations/acme/github-installations/-40''"
    by (simp add: path_defs segment_def identifier_ok_def is_lower_def is_digit_def char_code_def int_text_def nat_text.simps)
  then show "parse_path ''organisations/acme/github-installations/-40'' = Some (Doc_github_installation ''acme'' (-40))"
    using path_roundtrip [of "Doc_github_installation ''acme'' (-40)"] by (simp add: principal_plain_def)
qed

end
