(* ===== verification/Generations.thy ===== *)
theory Generations imports Run_Store_Facts begin

text \<open>
  Credential generations and their consumers: the contracts (packages/contracts/src/contracts/
  credential.py, generation.py, binding.py and the reports of verification.py),
  server/core/storage/generation.py (\<open>FirestoreGenerationRepository\<close>) with the service in front of it
  (server/core/generation/service.py), the monitoring update of server/core/storage/inventory.py
  (\<open>record_observation\<close>), the report store of server/verifier/storage.py, and the two stages of
  server/coordinator/service.py that verify the bindings and promote the new generation, as far as
  they use these. A transaction is a function of the store: it commits as a whole or returns its
  error. The strings handed to the operations carry no surrounding white space.
\<close>

section \<open>Contracts\<close>

text \<open>\<open>scopes\<close> is a frozenset; \<open>text.partition(separator)[0]\<close> is \<open>partition_head\<close>.\<close>

fun starts_with :: "string \<Rightarrow> string \<Rightarrow> bool" where
  "starts_with [] s = True"
| "starts_with (p # ps) [] = False"
| "starts_with (p # ps) (c # cs) = (p = c \<and> starts_with ps cs)"

fun partition_head :: "string \<Rightarrow> string \<Rightarrow> string" where
  "partition_head sep [] = []"
| "partition_head sep (c # cs) = (if starts_with sep (c # cs) then [] else c # partition_head sep cs)"

record managed_credential =
  mc_id :: string
  mc_organisation_id :: string
  mc_connection_id :: string
  mc_secret_store_connection_id :: string
  mc_secret_resource :: string
  mc_secret_reference :: string
  mc_provider :: string
  mc_kind :: string
  mc_display_name :: string
  mc_provider_id :: "string option"
  mc_provider_display_name :: "string option"
  mc_scopes :: "string set"
  mc_consumer_ids :: "string list"
  mc_active_generation_id :: "string option"
  mc_control_version :: string
  mc_expires_at :: "int option"
  mc_rotation_due_at :: "int option"
  mc_last_observed_at :: "int option"
  mc_metadata_digest :: "string option"
  mc_created_at :: int
  mc_updated_at :: int
  mc_archived_at :: "int option"
  mc_revision :: int

definition managed_credential_fields_ok :: "managed_credential \<Rightarrow> bool" where
  "managed_credential_fields_ok c \<longleftrightarrow>
     identifier_ok (mc_id c) \<and> identifier_ok (mc_organisation_id c) \<and> identifier_ok (mc_connection_id c)
     \<and> identifier_ok (mc_secret_store_connection_id c) \<and> text_between 1 1024 (mc_secret_resource c)
     \<and> text_between 1 1024 (mc_secret_reference c) \<and> text_between 1 64 (mc_provider c) \<and> text_between 1 64 (mc_kind c)
     \<and> text_between 1 160 (mc_display_name c) \<and> opt_ok (text_between 0 256) (mc_provider_id c)
     \<and> opt_ok (text_between 0 256) (mc_provider_display_name c) \<and> list_all identifier_ok (mc_consumer_ids c)
     \<and> opt_ok identifier_ok (mc_active_generation_id c) \<and> identifier_ok (mc_control_version c)
     \<and> opt_ok hex64 (mc_metadata_digest c) \<and> 0 \<le> mc_revision c"

definition validate_rotation_due :: "managed_credential \<Rightarrow> unit result" where
  "validate_rotation_due c =
     bindr (require (partition_head ''/versions/'' (mc_secret_reference c) = mc_secret_resource c)
       (ValidationError ''credential secret reference must belong to its secret resource'')) (\<lambda>_.
     bindr (require (distinct (mc_consumer_ids c))
       (ValidationError ''credential consumer IDs must be unique'')) (\<lambda>_.
     case mc_rotation_due_at c of
       None \<Rightarrow> Inr ()
     | Some due \<Rightarrow>
         (case mc_expires_at c of
            None \<Rightarrow> Inl (ValidationError ''a credential rotation due time requires an expiry'')
          | Some expiry \<Rightarrow> require (due \<le> expiry)
              (ValidationError ''credential rotation must be due no later than expiry''))))"

definition validate_credential :: "managed_credential \<Rightarrow> managed_credential result" where
  "validate_credential c =
     (if managed_credential_fields_ok c then bindr (validate_rotation_due c) (\<lambda>_. Inr c)
      else Inl (FieldError ''ManagedCredential''))"

record credential_generation =
  cg_id :: string
  cg_organisation_id :: string
  cg_credential_id :: string
  cg_provider_id :: "string option"
  cg_provider_display_name :: "string option"
  cg_fingerprint :: "string option"
  cg_scopes :: "string set"
  cg_state :: generation_state
  cg_attempt_id :: string
  cg_secret_reference :: "string option"
  cg_predecessor_id :: "string option"
  cg_successor_id :: "string option"
  cg_expires_at :: "int option"
  cg_last_observed_at :: "int option"
  cg_metadata_digest :: "string option"
  cg_created_at :: int
  cg_revoked_at :: "int option"

definition credential_generation_fields_ok :: "credential_generation \<Rightarrow> bool" where
  "credential_generation_fields_ok g \<longleftrightarrow>
     identifier_ok (cg_id g) \<and> identifier_ok (cg_organisation_id g) \<and> identifier_ok (cg_credential_id g)
     \<and> opt_ok (text_between 0 256) (cg_provider_id g) \<and> opt_ok (text_between 0 256) (cg_provider_display_name g)
     \<and> opt_ok (text_between 8 256) (cg_fingerprint g) \<and> identifier_ok (cg_attempt_id g)
     \<and> opt_ok (text_between 0 1024) (cg_secret_reference g) \<and> opt_ok identifier_ok (cg_predecessor_id g)
     \<and> opt_ok identifier_ok (cg_successor_id g) \<and> opt_ok hex64 (cg_metadata_digest g)"

definition validate_generation :: "credential_generation \<Rightarrow> credential_generation result" where
  "validate_generation g =
     (if credential_generation_fields_ok g then Inr g else Inl (FieldError ''CredentialGeneration''))"

record consumer_binding =
  cb_id :: string
  cb_organisation_id :: string
  cb_credential_id :: string
  cb_service_id :: string
  cb_environment_id :: string
  cb_runtime_connection_id :: string
  cb_runtime_resource :: string
  cb_runtime_secret_name :: string
  cb_runtime_container_name :: "string option"
  cb_secret_reference :: string
  cb_current_generation_id :: string
  cb_target_generation_id :: "string option"
  cb_verification_report_id :: "string option"
  cb_required :: bool
  cb_revision :: int

definition consumer_binding_fields_ok :: "consumer_binding \<Rightarrow> bool" where
  "consumer_binding_fields_ok b \<longleftrightarrow>
     identifier_ok (cb_id b) \<and> identifier_ok (cb_organisation_id b) \<and> identifier_ok (cb_credential_id b)
     \<and> identifier_ok (cb_service_id b) \<and> identifier_ok (cb_environment_id b)
     \<and> identifier_ok (cb_runtime_connection_id b) \<and> text_between 1 512 (cb_runtime_resource b)
     \<and> text_between 1 256 (cb_runtime_secret_name b) \<and> opt_ok (text_between 1 63) (cb_runtime_container_name b)
     \<and> text_between 1 1024 (cb_secret_reference b) \<and> identifier_ok (cb_current_generation_id b)
     \<and> opt_ok identifier_ok (cb_target_generation_id b) \<and> opt_ok identifier_ok (cb_verification_report_id b)
     \<and> 0 \<le> cb_revision b"

definition validate_binding :: "consumer_binding \<Rightarrow> consumer_binding result" where
  "validate_binding b =
     (if consumer_binding_fields_ok b then Inr b else Inl (FieldError ''ConsumerBinding''))"

datatype verification_status = Ver_Passed | Ver_Failed | Ver_Inconclusive

text \<open>The observations of a probe are the items of its mapping in the order of their keys.\<close>

record probe_result =
  pr_probe_id :: string
  pr_status :: verification_status
  pr_observed_status :: "int option"
  pr_generation_id :: "string option"
  pr_checks :: "string set"
  pr_evidence_ids :: "string list"
  pr_observations :: "(string \<times> pyval) list"
  pr_error :: "string option"
  pr_started_at :: int
  pr_completed_at :: int

definition probe_result_fields_ok :: "probe_result \<Rightarrow> bool" where
  "probe_result_fields_ok r \<longleftrightarrow>
     identifier_ok (pr_probe_id r) \<and> opt_ok identifier_ok (pr_generation_id r) \<and> pr_checks r \<noteq> {}
     \<and> pr_evidence_ids r \<noteq> [] \<and> list_all identifier_ok (pr_evidence_ids r) \<and> opt_ok (text_between 0 1024) (pr_error r)"

definition validate_error :: "probe_result \<Rightarrow> unit result" where
  "validate_error r =
     require (\<not> (pr_status r = Ver_Failed \<and> (pr_error r = None \<or> pr_error r = Some [])))
       (ValidationError ''failed probes require an error'')"

definition validate_probe_result :: "probe_result \<Rightarrow> probe_result result" where
  "validate_probe_result r =
     (if probe_result_fields_ok r then bindr (validate_error r) (\<lambda>_. Inr r) else Inl (FieldError ''ProbeResult''))"

record verification_report =
  vr_id :: string
  vr_organisation_id :: string
  vr_run_id :: string
  vr_generation_id :: string
  vr_status :: verification_status
  vr_results :: "probe_result list"
  vr_checks :: "string set"
  vr_evidence_ids :: "string list"
  vr_started_at :: int
  vr_completed_at :: int

definition verification_report_fields_ok :: "verification_report \<Rightarrow> bool" where
  "verification_report_fields_ok r \<longleftrightarrow>
     identifier_ok (vr_id r) \<and> identifier_ok (vr_organisation_id r) \<and> identifier_ok (vr_run_id r)
     \<and> identifier_ok (vr_generation_id r) \<and> vr_results r \<noteq> [] \<and> vr_checks r \<noteq> {} \<and> vr_evidence_ids r \<noteq> []
     \<and> list_all identifier_ok (vr_evidence_ids r)"

definition validate_summary :: "verification_report \<Rightarrow> unit result" where
  "validate_summary r =
     require (\<not> (vr_status r = Ver_Passed \<and> \<not> list_all (\<lambda>p. pr_status p = Ver_Passed) (vr_results r)))
       (ValidationError ''a passed report cannot contain non-passing probes'')"

definition validate_report :: "verification_report \<Rightarrow> verification_report result" where
  "validate_report r =
     (if verification_report_fields_ok r
      then bindr (mapr validate_probe_result (vr_results r)) (\<lambda>_. bindr (validate_summary r) (\<lambda>_. Inr r))
      else Inl (FieldError ''VerificationReport''))"

section \<open>The documents\<close>

text \<open>The documents of the store by organisation and name.\<close>

record generation_store =
  gs_credentials :: "string \<times> string \<rightharpoonup> managed_credential"
  gs_generations :: "string \<times> string \<rightharpoonup> credential_generation"
  gs_bindings :: "string \<times> string \<rightharpoonup> consumer_binding"
  gs_reports :: "string \<times> string \<rightharpoonup> verification_report"

definition put_generation :: "string \<Rightarrow> string \<Rightarrow> credential_generation \<Rightarrow> generation_store \<Rightarrow> generation_store" where
  "put_generation org i g s = s\<lparr>gs_generations := (gs_generations s)((org, i) \<mapsto> g)\<rparr>"

definition put_credential :: "string \<Rightarrow> string \<Rightarrow> managed_credential \<Rightarrow> generation_store \<Rightarrow> generation_store" where
  "put_credential org i c s = s\<lparr>gs_credentials := (gs_credentials s)((org, i) \<mapsto> c)\<rparr>"

fun put_bindings :: "string \<Rightarrow> (string \<times> consumer_binding) list \<Rightarrow> generation_store \<Rightarrow> generation_store" where
  "put_bindings org [] s = s"
| "put_bindings org ((i, b) # rest) s = put_bindings org rest (s\<lparr>gs_bindings := (gs_bindings s)((org, i) \<mapsto> b)\<rparr>)"

definition put_report :: "string \<Rightarrow> string \<Rightarrow> verification_report \<Rightarrow> generation_store \<Rightarrow> generation_store" where
  "put_report org i r s = s\<lparr>gs_reports := (gs_reports s)((org, i) \<mapsto> r)\<rparr>"

text \<open>The snapshots of the bindings, when all of them exist.\<close>

definition binding_docs :: "generation_store \<Rightarrow> string \<Rightarrow> string list \<Rightarrow> consumer_binding list option" where
  "binding_docs s org ids = those (map (\<lambda>i. gs_bindings s (org, i)) ids)"

section \<open>The repository (storage/generation.py)\<close>

definition generation_create :: "credential_generation \<Rightarrow> generation_store \<Rightarrow> (credential_generation \<times> generation_store) result" where
  "generation_create generation s =
     (let org = cg_organisation_id generation in
      bindr (segments [org, cg_id generation]) (\<lambda>_.
      case gs_generations s (org, cg_id generation) of
        Some doc \<Rightarrow>
          bindr (validate_generation doc) (\<lambda>current.
          if current = generation then Inr (current, s)
          else Inl (ResourceConflictError (''generation '' @ cg_id generation @ '' already exists'')))
      | None \<Rightarrow> Inr (generation, put_generation org (cg_id generation) generation s)))"

definition binding_verified :: "managed_credential \<Rightarrow> credential_generation \<Rightarrow> credential_generation \<Rightarrow> verification_report \<Rightarrow> consumer_binding \<Rightarrow> bool" where
  "binding_verified credential predecessor target report b \<longleftrightarrow>
     \<not> (cb_credential_id b \<noteq> mc_id credential
        \<or> cb_current_generation_id b \<noteq> cg_id predecessor
        \<or> cb_target_generation_id b \<noteq> Some (cg_id target)
        \<or> cb_verification_report_id b \<noteq> Some (vr_id report))"

definition check_promotion ::
  "managed_credential \<Rightarrow> credential_generation \<Rightarrow> credential_generation \<Rightarrow> verification_report \<Rightarrow> consumer_binding list
     \<Rightarrow> string \<Rightarrow> unit result" where
  "check_promotion credential target predecessor report bindings predecessor_id =
     bindr (require (mc_active_generation_id credential = Some predecessor_id)
       (ResourceConflictError ''credential predecessor changed before promotion'')) (\<lambda>_.
     bindr (require (cg_state target = GenCreating)
       (ResourceConflictError ''target generation is not awaiting promotion'')) (\<lambda>_.
     bindr (require (cg_state predecessor = GenActive)
       (ResourceConflictError ''predecessor generation is not active'')) (\<lambda>_.
     bindr (require (\<not> (cg_credential_id target \<noteq> mc_id credential \<or> cg_credential_id predecessor \<noteq> mc_id credential
         \<or> vr_generation_id report \<noteq> cg_id target \<or> vr_status report \<noteq> Ver_Passed))
       (ResourceConflictError ''generation lineage or verification is inconsistent'')) (\<lambda>_.
     bindr (require (set (map cb_service_id bindings) = set (mc_consumer_ids credential))
       (ResourceConflictError ''not every credential consumer is included in promotion'')) (\<lambda>_.
     require (list_all (binding_verified credential predecessor target report) bindings)
       (ResourceConflictError ''consumer binding has not verified the target''))))))"

definition activated :: "credential_generation \<Rightarrow> credential_generation \<Rightarrow> credential_generation" where
  "activated target predecessor = target\<lparr>cg_state := GenActive, cg_predecessor_id := Some (cg_id predecessor)\<rparr>"

definition superseded :: "credential_generation \<Rightarrow> credential_generation \<Rightarrow> credential_generation" where
  "superseded predecessor target = predecessor\<lparr>cg_state := GenSuperseded, cg_successor_id := Some (cg_id target)\<rparr>"

text \<open>
  \<open>secret_reference\<close> is a required text of a credential and an optional one of a generation; a
  credential whose reference is \<open>None\<close> cannot be read again, which the empty text stands for.
\<close>

definition promoted_credential :: "managed_credential \<Rightarrow> credential_generation \<Rightarrow> verification_report \<Rightarrow> managed_credential" where
  "promoted_credential credential target report =
     credential\<lparr>mc_active_generation_id := Some (cg_id target), mc_provider_id := cg_provider_id target,
       mc_provider_display_name := cg_provider_display_name target,
       mc_secret_reference := (case cg_secret_reference target of None \<Rightarrow> [] | Some r \<Rightarrow> r),
       mc_scopes := cg_scopes target, mc_expires_at := cg_expires_at target,
       mc_last_observed_at := cg_last_observed_at target, mc_metadata_digest := cg_metadata_digest target,
       mc_updated_at := vr_completed_at report, mc_revision := mc_revision credential + 1\<rparr>"

definition promoted_binding :: "credential_generation \<Rightarrow> consumer_binding \<Rightarrow> consumer_binding" where
  "promoted_binding target b =
     b\<lparr>cb_current_generation_id := cg_id target, cb_target_generation_id := None, cb_revision := cb_revision b + 1\<rparr>"

definition promoted_store ::
  "string \<Rightarrow> string \<Rightarrow> string \<Rightarrow> string \<Rightarrow> string list \<Rightarrow> managed_credential \<Rightarrow> credential_generation \<Rightarrow> credential_generation
     \<Rightarrow> verification_report \<Rightarrow> consumer_binding list \<Rightarrow> generation_store \<Rightarrow> generation_store" where
  "promoted_store org credential_id target_id predecessor_id binding_ids credential target predecessor report bindings s =
     put_bindings org (zip binding_ids (map (promoted_binding target) bindings))
       (put_credential org credential_id (promoted_credential credential target report)
         (put_generation org predecessor_id (superseded predecessor target)
           (put_generation org target_id (activated target predecessor) s)))"

definition generation_promote ::
  "string \<Rightarrow> string \<Rightarrow> string \<Rightarrow> string \<Rightarrow> string \<Rightarrow> string list \<Rightarrow> generation_store
     \<Rightarrow> (credential_generation \<times> generation_store) result" where
  "generation_promote org credential_id target_id predecessor_id report_id binding_ids s =
     bindr (segments ([org, credential_id, target_id, predecessor_id, report_id] @ binding_ids)) (\<lambda>_.
     case (gs_credentials s (org, credential_id), gs_generations s (org, target_id),
           gs_generations s (org, predecessor_id), gs_reports s (org, report_id), binding_docs s org binding_ids) of
       (Some credential_doc, Some target_doc, Some predecessor_doc, Some report_doc, Some docs) \<Rightarrow>
         bindr (validate_credential credential_doc) (\<lambda>credential.
         bindr (validate_generation target_doc) (\<lambda>target.
         bindr (validate_generation predecessor_doc) (\<lambda>predecessor.
         bindr (validate_report report_doc) (\<lambda>report.
         bindr (mapr validate_binding docs) (\<lambda>bindings.
         if mc_active_generation_id credential = Some target_id \<and> cg_state target = GenActive then Inr (target, s)
         else
           bindr (check_promotion credential target predecessor report bindings predecessor_id) (\<lambda>_.
           Inr (activated target predecessor,
                promoted_store org credential_id target_id predecessor_id binding_ids credential target predecessor
                  report bindings s)))))))
     | _ \<Rightarrow> Inl (ResourceNotFoundError ''generation promotion inputs are incomplete''))"

definition revoked :: "credential_generation \<Rightarrow> int \<Rightarrow> credential_generation" where
  "revoked g revoked_at = g\<lparr>cg_state := GenRevoked, cg_revoked_at := Some revoked_at\<rparr>"

definition generation_revoke ::
  "string \<Rightarrow> string \<Rightarrow> string \<Rightarrow> int \<Rightarrow> generation_store \<Rightarrow> (credential_generation \<times> generation_store) result" where
  "generation_revoke org generation_id verification_report_id revoked_at s =
     bindr (segments [org, generation_id, verification_report_id]) (\<lambda>_.
     case (gs_generations s (org, generation_id), gs_reports s (org, verification_report_id)) of
       (Some generation_doc, Some report_doc) \<Rightarrow>
         bindr (validate_generation generation_doc) (\<lambda>generation.
         bindr (validate_report report_doc) (\<lambda>report.
         if cg_state generation = GenRevoked then Inr (generation, s)
         else
           bindr (require (cg_state generation = GenSuperseded)
             (ResourceConflictError ''only a superseded generation can be revoked'')) (\<lambda>_.
           bindr (require (\<not> (vr_status report \<noteq> Ver_Passed \<or> vr_organisation_id report \<noteq> org
               \<or> vr_generation_id report \<noteq> cg_id generation))
             (ResourceConflictError ''revocation verification did not pass'')) (\<lambda>_.
           Inr (revoked generation revoked_at, put_generation org generation_id (revoked generation revoked_at) s)))))
     | _ \<Rightarrow> Inl (ResourceNotFoundError ''generation revocation evidence is incomplete''))"

definition staged_binding :: "string \<Rightarrow> string \<Rightarrow> consumer_binding \<Rightarrow> consumer_binding" where
  "staged_binding target_id secret_reference b =
     b\<lparr>cb_target_generation_id := Some target_id, cb_secret_reference := secret_reference, cb_revision := cb_revision b + 1\<rparr>"

definition generation_stage_bindings ::
  "string \<Rightarrow> string \<Rightarrow> string \<Rightarrow> string \<Rightarrow> string list \<Rightarrow> generation_store \<Rightarrow> (string list \<times> generation_store) result" where
  "generation_stage_bindings org credential_id target_id secret_reference binding_ids s =
     bindr (segments (org # binding_ids)) (\<lambda>_.
     case binding_docs s org binding_ids of
       None \<Rightarrow> Inl (ResourceNotFoundError ''consumer deployment bindings are incomplete'')
     | Some docs \<Rightarrow>
         bindr (mapr validate_binding docs) (\<lambda>bindings.
         bindr (require (\<not> list_ex (\<lambda>b. cb_credential_id b \<noteq> credential_id) bindings)
           (ResourceConflictError ''consumer binding belongs to another credential'')) (\<lambda>_.
         bindr (require (list_all (\<lambda>b. cb_target_generation_id b \<in> {None, Some target_id}) bindings)
           (ResourceConflictError ''consumer binding targets another generation'')) (\<lambda>_.
         Inr (map cb_id bindings,
              put_bindings org (zip binding_ids (map (staged_binding target_id secret_reference) bindings)) s)))))"

definition verified_binding :: "string \<Rightarrow> consumer_binding \<Rightarrow> consumer_binding" where
  "verified_binding report_id b =
     b\<lparr>cb_verification_report_id := Some report_id, cb_revision := cb_revision b + 1\<rparr>"

definition generation_verify_bindings ::
  "string \<Rightarrow> string \<Rightarrow> string \<Rightarrow> string list \<Rightarrow> generation_store \<Rightarrow> (string list \<times> generation_store) result" where
  "generation_verify_bindings org target_id report_id binding_ids s =
     bindr (segments (org # report_id # binding_ids)) (\<lambda>_.
     case (gs_reports s (org, report_id), binding_docs s org binding_ids) of
       (Some report_doc, Some docs) \<Rightarrow>
         bindr (validate_report report_doc) (\<lambda>report.
         bindr (require (\<not> (vr_status report \<noteq> Ver_Passed \<or> vr_generation_id report \<noteq> target_id))
           (ResourceConflictError ''consumer verification report did not pass'')) (\<lambda>_.
         bindr (mapr validate_binding docs) (\<lambda>bindings.
         bindr (require (list_all (\<lambda>b. cb_target_generation_id b = Some target_id) bindings)
           (ResourceConflictError ''consumer binding does not target the generation'')) (\<lambda>_.
         Inr (map cb_id bindings,
              put_bindings org (zip binding_ids (map (verified_binding report_id) bindings)) s)))))
     | _ \<Rightarrow> Inl (ResourceNotFoundError ''consumer verification evidence is incomplete''))"

definition generation_orphan :: "string \<Rightarrow> string \<Rightarrow> generation_store \<Rightarrow> (credential_generation \<times> generation_store) result" where
  "generation_orphan org generation_id s =
     bindr (segments [org, generation_id]) (\<lambda>_.
     case gs_generations s (org, generation_id) of
       None \<Rightarrow> Inl (ResourceNotFoundError (''generation '' @ generation_id @ '' was not found''))
     | Some doc \<Rightarrow>
         bindr (validate_generation doc) (\<lambda>generation.
         bindr (require (cg_state generation \<in> {GenCreating, GenUnknown})
           (ResourceConflictError ''only unactivated generations can be orphaned'')) (\<lambda>_.
         let changed = generation\<lparr>cg_state := GenOrphaned\<rparr> in
         Inr (changed, put_generation org generation_id changed s))))"

section \<open>The service (generation/service.py)\<close>

definition create_generation :: "credential_generation \<Rightarrow> generation_store \<Rightarrow> (credential_generation \<times> generation_store) result" where
  "create_generation generation s =
     bindr (require (cg_state generation = GenCreating)
       (ResourceConflictError ''new rotation generations must start in creating state'')) (\<lambda>_.
     bindr (require (cg_provider_id generation \<noteq> None \<and> cg_secret_reference generation \<noteq> None)
       (ResourceConflictError ''a stored rotation generation requires provider and secret references'')) (\<lambda>_.
     generation_create generation s))"

definition promote_generation ::
  "string \<Rightarrow> string \<Rightarrow> string \<Rightarrow> string \<Rightarrow> string \<Rightarrow> string list \<Rightarrow> generation_store
     \<Rightarrow> (credential_generation \<times> generation_store) result" where
  "promote_generation org credential_id target_id predecessor_id report_id binding_ids s =
     bindr (require (binding_ids \<noteq> [])
       (ResourceConflictError ''generation promotion requires verified consumer bindings'')) (\<lambda>_.
     generation_promote org credential_id target_id predecessor_id report_id binding_ids s)"

definition revoke_generation ::
  "int \<Rightarrow> string \<Rightarrow> string \<Rightarrow> string \<Rightarrow> generation_store \<Rightarrow> (credential_generation \<times> generation_store) result" where
  "revoke_generation now org generation_id verification_report_id s =
     generation_revoke org generation_id verification_report_id now s"

definition orphan_generation :: "string \<Rightarrow> string \<Rightarrow> generation_store \<Rightarrow> (credential_generation \<times> generation_store) result" where
  "orphan_generation org generation_id s = generation_orphan org generation_id s"

definition stage_consumer_bindings ::
  "string \<Rightarrow> string \<Rightarrow> string \<Rightarrow> string \<Rightarrow> string list \<Rightarrow> generation_store \<Rightarrow> (string list \<times> generation_store) result" where
  "stage_consumer_bindings org credential_id target_id secret_reference binding_ids s =
     bindr (require (binding_ids \<noteq> [])
       (ResourceConflictError ''deployment requires every consumer binding'')) (\<lambda>_.
     generation_stage_bindings org credential_id target_id secret_reference binding_ids s)"

definition verify_consumer_bindings ::
  "string \<Rightarrow> string \<Rightarrow> string \<Rightarrow> string list \<Rightarrow> generation_store \<Rightarrow> (string list \<times> generation_store) result" where
  "verify_consumer_bindings org target_id report_id binding_ids s =
     bindr (require (binding_ids \<noteq> [])
       (ResourceConflictError ''verification requires every consumer binding'')) (\<lambda>_.
     generation_verify_bindings org target_id report_id binding_ids s)"

section \<open>Reports, monitoring and the coordinator's calls\<close>

text \<open>\<open>save_report\<close> of server/verifier/storage.py: a create, and on conflict a read and a comparison.\<close>

definition save_report :: "verification_report \<Rightarrow> generation_store \<Rightarrow> (verification_report \<times> generation_store) result" where
  "save_report report s =
     (let org = vr_organisation_id report in
      bindr (segments [org, vr_id report]) (\<lambda>_.
      case gs_reports s (org, vr_id report) of
        None \<Rightarrow> Inr (report, put_report org (vr_id report) report s)
      | Some doc \<Rightarrow>
          bindr (validate_report doc) (\<lambda>existing.
          bindr (require (existing = report) (ResourceConflictError
            (''verification report '' @ vr_id report @ '' already has a different result''))) (\<lambda>_.
          Inr (existing, s)))))"

text \<open>\<open>record_observation\<close> of server/core/storage/inventory.py.\<close>

definition observed_generation :: "credential_generation \<Rightarrow> int \<Rightarrow> int option \<Rightarrow> string \<Rightarrow> credential_generation" where
  "observed_generation g observed_at expires_at metadata_digest =
     g\<lparr>cg_expires_at := expires_at, cg_last_observed_at := Some observed_at, cg_metadata_digest := Some metadata_digest\<rparr>"

definition observed_credential :: "managed_credential \<Rightarrow> int \<Rightarrow> int option \<Rightarrow> int option \<Rightarrow> string \<Rightarrow> managed_credential" where
  "observed_credential c observed_at expires_at rotation_due_at metadata_digest =
     c\<lparr>mc_expires_at := expires_at, mc_rotation_due_at := rotation_due_at, mc_last_observed_at := Some observed_at,
       mc_metadata_digest := Some metadata_digest, mc_updated_at := observed_at\<rparr>"

definition record_observation ::
  "string \<Rightarrow> string \<Rightarrow> string \<Rightarrow> int \<Rightarrow> int \<Rightarrow> int option \<Rightarrow> int option \<Rightarrow> string \<Rightarrow> generation_store
     \<Rightarrow> (managed_credential \<times> generation_store) result" where
  "record_observation org credential_id generation_id expected_revision observed_at expires_at rotation_due_at metadata_digest s =
     bindr (segments [org, credential_id, generation_id]) (\<lambda>_.
     case (gs_credentials s (org, credential_id), gs_generations s (org, generation_id)) of
       (Some credential_doc, Some generation_doc) \<Rightarrow>
         bindr (validate_credential credential_doc) (\<lambda>credential.
         bindr (validate_generation generation_doc) (\<lambda>generation.
         bindr (require (mc_revision credential = expected_revision)
           (ResourceConflictError (''credential expected revision '' @ int_text expected_revision @ '', found ''
              @ int_text (mc_revision credential)))) (\<lambda>_.
         bindr (require (\<not> (mc_active_generation_id credential \<noteq> Some (cg_id generation)
             \<or> cg_credential_id generation \<noteq> mc_id credential))
           (ResourceConflictError ''credential observation generation changed'')) (\<lambda>_.
         let changed = observed_credential credential observed_at expires_at rotation_due_at metadata_digest in
         Inr (changed, put_credential org credential_id changed
           (put_generation org generation_id (observed_generation generation observed_at expires_at metadata_digest) s))))))
     | _ \<Rightarrow> Inl (ResourceNotFoundError ''credential observation target is missing''))"

definition get_credential :: "string \<Rightarrow> string \<Rightarrow> generation_store \<Rightarrow> managed_credential result" where
  "get_credential org credential_id s =
     bindr (segments [org, credential_id]) (\<lambda>_.
     case gs_credentials s (org, credential_id) of
       None \<Rightarrow> Inl (ResourceNotFoundError (''resource organisations/'' @ org @ ''/credentials/'' @ credential_id @ '' was not found''))
     | Some doc \<Rightarrow> validate_credential doc)"

text \<open>The generation the create stage of the coordinator records (\<open>_create\<close> of server/coordinator/service.py).\<close>

definition coordinator_id :: "(string \<Rightarrow> string) \<Rightarrow> string \<Rightarrow> string list \<Rightarrow> string" where
  "coordinator_id sha prefix values = prefix @ ''_'' @ take 40 (sha (join [CHR 0x00] values))"

definition replacement_generation ::
  "(string \<Rightarrow> string) \<Rightarrow> rotation_run \<Rightarrow> managed_credential \<Rightarrow> string \<Rightarrow> string option \<Rightarrow> string option \<Rightarrow> string option
     \<Rightarrow> string option \<Rightarrow> int \<Rightarrow> credential_generation" where
  "replacement_generation sha run credential generation_id provider_id provider_display_name fingerprint secret_reference now =
     \<lparr>cg_id = generation_id, cg_organisation_id = run_organisation_id run, cg_credential_id = mc_id credential,
      cg_provider_id = provider_id, cg_provider_display_name = provider_display_name, cg_fingerprint = fingerprint,
      cg_scopes = mc_scopes credential, cg_state = GenCreating,
      cg_attempt_id = coordinator_id sha ''attempt'' [run_id run, ''create''], cg_secret_reference = secret_reference,
      cg_predecessor_id = run_current_generation_id run, cg_successor_id = None, cg_expires_at = None,
      cg_last_observed_at = None, cg_metadata_digest = None, cg_created_at = now, cg_revoked_at = None\<rparr>"

text \<open>
  The identifier the coordinator gives the report of a verification: \<open>_id("report", run.id,
  run.stage.value, verification_scope, str(run.revision))\<close>, where the scope is the suffix it passes
  or the stage.
\<close>

definition coordinator_report_id :: "(string \<Rightarrow> string) \<Rightarrow> string \<Rightarrow> stage \<Rightarrow> string option \<Rightarrow> int \<Rightarrow> string" where
  "coordinator_report_id sha run stg suffix revision =
     coordinator_id sha ''report''
       [run, stage_value stg, (case suffix of None \<Rightarrow> stage_value stg | Some t \<Rightarrow> t), int_text revision]"

end
