(* ===== verification/Generation_Facts.thy ===== *)
theory Generation_Facts imports Generations begin

text \<open>
  Facts about the generation store: how each successful operation changes it (\<open>generation_effect\<close>), the
  consistency of credentials, generations and bindings that every effect keeps (\<open>lineage_ok\<close>), and the
  life cycle of a generation.
\<close>

section \<open>Lookups\<close>

lemma put_fields [simp]:
  "gs_credentials (put_generation org i g s) = gs_credentials s"
  "gs_generations (put_generation org i g s) = (gs_generations s)((org, i) \<mapsto> g)"
  "gs_bindings (put_generation org i g s) = gs_bindings s"
  "gs_reports (put_generation org i g s) = gs_reports s"
  "gs_credentials (put_credential org i c s) = (gs_credentials s)((org, i) \<mapsto> c)"
  "gs_generations (put_credential org i c s) = gs_generations s"
  "gs_bindings (put_credential org i c s) = gs_bindings s"
  "gs_reports (put_credential org i c s) = gs_reports s"
  "gs_credentials (put_report org i r s) = gs_credentials s"
  "gs_generations (put_report org i r s) = gs_generations s"
  "gs_bindings (put_report org i r s) = gs_bindings s"
  "gs_reports (put_report org i r s) = (gs_reports s)((org, i) \<mapsto> r)"
  by (simp_all add: put_generation_def put_credential_def put_report_def)

lemma put_bindings_fields [simp]:
  "gs_credentials (put_bindings org bs s) = gs_credentials s"
  "gs_generations (put_bindings org bs s) = gs_generations s"
  "gs_reports (put_bindings org bs s) = gs_reports s"
  by (induction org bs s rule: put_bindings.induct) simp_all

lemma put_bindings_lookup:
  "gs_bindings (put_bindings org (map (\<lambda>i. (i, h i)) ids) s) (o', i) =
     (if o' = org \<and> i \<in> set ids then Some (h i) else gs_bindings s (o', i))"
  by (induction ids arbitrary: s) auto

lemma zip_map_self: "zip xs (map f xs) = map (\<lambda>x. (x, f x)) xs"
  by (induction xs) simp_all

lemma binding_docs_eq:
  "binding_docs s org ids = Some docs \<Longrightarrow>
     docs = map (\<lambda>i. the (gs_bindings s (org, i))) ids \<and> (\<forall>i\<in>set ids. gs_bindings s (org, i) \<noteq> None)"
  unfolding binding_docs_def
  by (induction ids arbitrary: docs) (auto split: option.splits)

lemma validate_inverts [result_iff]:
  "validate_credential c = Inr c' \<longleftrightarrow> managed_credential_fields_ok c \<and> validate_rotation_due c = Inr () \<and> c' = c"
  "validate_generation g = Inr g' \<longleftrightarrow> credential_generation_fields_ok g \<and> g' = g"
  "validate_binding b = Inr b' \<longleftrightarrow> consumer_binding_fields_ok b \<and> b' = b"
  by (auto simp: validate_credential_def validate_generation_def validate_binding_def bindr_eq_Inr)

lemma validate_report_inverts: "validate_report r = Inr r' \<Longrightarrow> r' = r"
  by (auto simp: validate_report_def bindr_eq_Inr split: if_splits)

lemma mapr_validate_binding: "mapr validate_binding docs = Inr bs \<longleftrightarrow> list_all consumer_binding_fields_ok docs \<and> bs = docs"
  by (induction docs arbitrary: bs) (auto simp: bindr_eq_Inr result_iff)

section \<open>What the operations do\<close>

datatype generation_call =
    CallCreate credential_generation
  | CallPromote string string string string "string list"
  | CallRevoke int string string
  | CallOrphan string
  | CallStage string string string "string list"
  | CallVerify string string "string list"
  | CallObserve string string int int "int option" "int option" string
  | CallReport verification_report

text \<open>The store after a call of the organisation, or the error of the call.\<close>

fun perform :: "string \<Rightarrow> generation_call \<Rightarrow> generation_store \<Rightarrow> generation_store result" where
  "perform org (CallCreate g) s = bindr (create_generation g s) (\<lambda>(_, s'). Inr s')"
| "perform org (CallPromote c t p r bs) s = bindr (promote_generation org c t p r bs s) (\<lambda>(_, s'). Inr s')"
| "perform org (CallRevoke now g r) s = bindr (revoke_generation now org g r s) (\<lambda>(_, s'). Inr s')"
| "perform org (CallOrphan g) s = bindr (orphan_generation org g s) (\<lambda>(_, s'). Inr s')"
| "perform org (CallStage c t ref bs) s = bindr (stage_consumer_bindings org c t ref bs s) (\<lambda>(_, s'). Inr s')"
| "perform org (CallVerify t r bs) s = bindr (verify_consumer_bindings org t r bs s) (\<lambda>(_, s'). Inr s')"
| "perform org (CallObserve c g rv at expiry due md) s =
     bindr (record_observation org c g rv at expiry due md s) (\<lambda>(_, s'). Inr s')"
| "perform org (CallReport r) s = bindr (save_report r s) (\<lambda>(_, s'). Inr s')"

text \<open>Calls in any order from any organisation; a failed call leaves the store alone.\<close>

fun perform_all :: "(string \<times> generation_call) list \<Rightarrow> generation_store \<Rightarrow> generation_store" where
  "perform_all [] s = s"
| "perform_all ((org, call) # calls) s =
     perform_all calls (case perform org call s of Inl _ \<Rightarrow> s | Inr s' \<Rightarrow> s')"

definition promotable ::
  "generation_store \<Rightarrow> string \<Rightarrow> string \<Rightarrow> string \<Rightarrow> string \<Rightarrow> string \<Rightarrow> string list \<Rightarrow> managed_credential \<Rightarrow>
     credential_generation \<Rightarrow> credential_generation \<Rightarrow> verification_report \<Rightarrow> bool" where
  "promotable s org cid tid pid rid bids c t p r \<longleftrightarrow> validate_credential c = Inr c \<and>
     gs_credentials s (org, cid) = Some c \<and> gs_generations s (org, tid) = Some t
     \<and> gs_generations s (org, pid) = Some p \<and> gs_reports s (org, rid) = Some r
     \<and> mc_active_generation_id c = Some pid \<and> cg_state t = GenCreating \<and> cg_state p = GenActive
     \<and> cg_credential_id t = mc_id c \<and> cg_credential_id p = mc_id c
     \<and> vr_generation_id r = cg_id t \<and> vr_status r = Ver_Passed
     \<and> (\<lambda>i. cb_service_id (the (gs_bindings s (org, i)))) ` set bids = set (mc_consumer_ids c)
     \<and> (\<forall>i\<in>set bids. gs_bindings s (org, i) \<noteq> None \<and> binding_verified c p t r (the (gs_bindings s (org, i))))"

definition promotion ::
  "string \<Rightarrow> string \<Rightarrow> string \<Rightarrow> string \<Rightarrow> string list \<Rightarrow> managed_credential \<Rightarrow> credential_generation \<Rightarrow>
     credential_generation \<Rightarrow> verification_report \<Rightarrow> generation_store \<Rightarrow> generation_store" where
  "promotion org cid tid pid bids c t p r s =
     put_bindings org (map (\<lambda>i. (i, promoted_binding t (the (gs_bindings s (org, i))))) bids)
       (put_credential org cid (promoted_credential c t r)
         (put_generation org pid (superseded p t) (put_generation org tid (activated t p) s)))"

text \<open>The states a generation may take one after the other.\<close>

fun next_state :: "generation_state \<Rightarrow> generation_state \<Rightarrow> bool" where
  "next_state GenCreating s = (s = GenActive \<or> s = GenOrphaned)"
| "next_state GenUnknown s = (s = GenOrphaned)"
| "next_state GenActive s = (s = GenSuperseded)"
| "next_state GenSuperseded s = (s = GenRevoked)"
| "next_state _ s = False"

inductive generation_effect :: "generation_store \<Rightarrow> generation_store \<Rightarrow> bool" where
  idle: "generation_effect s s"
| created: "gs_generations s (cg_organisation_id g, cg_id g) = None \<Longrightarrow> cg_state g = GenCreating \<Longrightarrow>
     generation_effect s (put_generation (cg_organisation_id g) (cg_id g) g s)"
| promoted: "promotable s org cid tid pid rid bids c t p r \<Longrightarrow>
     generation_effect s (promotion org cid tid pid bids c t p r s)"
| revoked: "gs_generations s (org, i) = Some g \<Longrightarrow> cg_state g = GenSuperseded \<Longrightarrow>
     gs_reports s (org, rid) = Some r \<Longrightarrow> vr_status r = Ver_Passed \<Longrightarrow> vr_generation_id r = cg_id g \<Longrightarrow>
     generation_effect s (put_generation org i (revoked g now) s)"
| orphaned: "gs_generations s (org, i) = Some g \<Longrightarrow> cg_state g \<in> {GenCreating, GenUnknown} \<Longrightarrow>
     generation_effect s (put_generation org i (g\<lparr>cg_state := GenOrphaned\<rparr>) s)"
| rebound: "(\<And>i. i \<in> set ids \<Longrightarrow> \<exists>b. gs_bindings s (org, i) = Some b \<and> cb_id (h i) = cb_id b
       \<and> cb_credential_id (h i) = cb_credential_id b \<and> cb_service_id (h i) = cb_service_id b
       \<and> cb_current_generation_id (h i) = cb_current_generation_id b) \<Longrightarrow>
     generation_effect s (put_bindings org (map (\<lambda>i. (i, h i)) ids) s)"
| observed: "gs_credentials s (org, cid) = Some c \<Longrightarrow> validate_credential c = Inr c \<Longrightarrow> gs_generations s (org, gid) = Some g \<Longrightarrow>
     generation_effect s (put_credential org cid (observed_credential c at expiry due md)
       (put_generation org gid (observed_generation g at expiry md) s))"
| reported: "gs_reports s (vr_organisation_id r, vr_id r) = None \<Longrightarrow>
     generation_effect s (put_report (vr_organisation_id r) (vr_id r) r s)"

lemma create_effect: "create_generation g s = Inr (g', s') \<Longrightarrow> generation_effect s s'"
  by (auto simp: create_generation_def generation_create_def Let_def result_iff bindr_eq_Inr
      intro: generation_effect.intros split: option.splits if_splits)

lemma promote_cases:
  assumes "generation_promote org cid tid pid rid bids s = Inr (g, s')"
  shows "s' = s \<and> gs_generations s (org, tid) = Some g \<and> cg_state g = GenActive
           \<and> (\<exists>c. gs_credentials s (org, cid) = Some c \<and> mc_active_generation_id c = Some tid)
         \<or> (\<exists>c t p r. promotable s org cid tid pid rid bids c t p r \<and> g = activated t p
             \<and> s' = promotion org cid tid pid bids c t p r s)"
proof -
  from assms obtain c t p r r' docs where d: "gs_credentials s (org, cid) = Some c"
      "gs_generations s (org, tid) = Some t" "gs_generations s (org, pid) = Some p"
      "gs_reports s (org, rid) = Some r'" "binding_docs s org bids = Some docs"
      "validate_report r' = Inr r" "list_all consumer_binding_fields_ok docs" "validate_credential c = Inr c"
    and e: "(if mc_active_generation_id c = Some tid \<and> cg_state t = GenActive then Inr (t, s)
       else bindr (check_promotion c t p r docs pid) (\<lambda>_. Inr (activated t p,
         promoted_store org cid tid pid bids c t p r docs s))) = Inr (g, s')"
    by (auto simp: generation_promote_def bindr_eq_Inr validate_inverts mapr_validate_binding split: option.splits prod.splits)
  have r: "r' = r" using validate_report_inverts [OF d(6)] by simp
  note docs = binding_docs_eq [OF d(5)]
  show ?thesis
  proof (cases "mc_active_generation_id c = Some tid \<and> cg_state t = GenActive")
    case True
    then show ?thesis using e d by auto
  next
    case False
    then have k: "check_promotion c t p r docs pid = Inr ()" "g = activated t p"
        "s' = promoted_store org cid tid pid bids c t p r docs s"
      using e by (auto simp: bindr_eq_Inr)
    have "promotable s org cid tid pid rid bids c t p r"
      using k(1) d r docs by (auto simp: promotable_def check_promotion_def result_iff list_all_iff image_image)
    moreover have "s' = promotion org cid tid pid bids c t p r s"
      using docs by (simp add: k(3) promoted_store_def promotion_def zip_map_self)
    ultimately show ?thesis using k(2) by blast
  qed
qed

lemma promote_effect: "promote_generation org cid tid pid rid bids s = Inr (g, s') \<Longrightarrow> generation_effect s s'"
  using promote_cases [of org cid tid pid rid bids s g s']
  by (auto simp: promote_generation_def bindr_eq_Inr intro: generation_effect.intros)

lemma revoke_effect: "revoke_generation now org gid rid s = Inr (g, s') \<Longrightarrow> generation_effect s s'"
  by (auto simp: revoke_generation_def generation_revoke_def bindr_eq_Inr validate_inverts require_eq_Inr
      dest!: validate_report_inverts intro: generation_effect.intros split: option.splits if_splits)

lemma orphan_effect: "orphan_generation org gid s = Inr (g, s') \<Longrightarrow> generation_effect s s'"
  unfolding orphan_generation_def generation_orphan_def Let_def
  by (auto simp: bindr_eq_Inr validate_inverts require_eq_Inr split: option.splits intro!: generation_effect.orphaned)

lemma rebind_effect:
  assumes "binding_docs s org ids = Some docs"
    and "\<And>b. cb_id (f b) = cb_id b \<and> cb_credential_id (f b) = cb_credential_id b
      \<and> cb_service_id (f b) = cb_service_id b \<and> cb_current_generation_id (f b) = cb_current_generation_id b"
  shows "generation_effect s (put_bindings org (zip ids (map f docs)) s)"
proof -
  note docs = binding_docs_eq [OF assms(1)]
  have "zip ids (map f docs) = map (\<lambda>i. (i, f (the (gs_bindings s (org, i))))) ids"
    using docs by (simp add: zip_map_self)
  moreover have "generation_effect s (put_bindings org (map (\<lambda>i. (i, f (the (gs_bindings s (org, i))))) ids) s)"
    using docs assms(2) by (intro generation_effect.rebound) auto
  ultimately show ?thesis by simp
qed

lemma stage_effect: "stage_consumer_bindings org c t ref ids s = Inr (x, s') \<Longrightarrow> generation_effect s s'"
  by (auto simp: stage_consumer_bindings_def generation_stage_bindings_def bindr_eq_Inr mapr_validate_binding
      staged_binding_def split: option.splits intro!: rebind_effect)

lemma verify_effect: "verify_consumer_bindings org t r ids s = Inr (x, s') \<Longrightarrow> generation_effect s s'"
  by (auto simp: verify_consumer_bindings_def generation_verify_bindings_def bindr_eq_Inr mapr_validate_binding
      verified_binding_def split: option.splits intro!: rebind_effect)

lemma observe_effect: "record_observation org c g rv at expiry due md s = Inr (x, s') \<Longrightarrow> generation_effect s s'"
  by (auto simp: record_observation_def Let_def bindr_eq_Inr validate_inverts split: option.splits
      intro!: generation_effect.observed)

lemma report_effect: "save_report r s = Inr (x, s') \<Longrightarrow> generation_effect s s'"
  by (auto simp: save_report_def Let_def bindr_eq_Inr split: option.splits intro: generation_effect.intros)

lemma perform_effect: "perform org call s = Inr s' \<Longrightarrow> generation_effect s s'"
  by (cases call) (auto simp: bindr_eq_Inr intro: create_effect promote_effect revoke_effect orphan_effect
      stage_effect verify_effect observe_effect report_effect)

lemma perform_all_induct:
  assumes "\<And>s s'. generation_effect s s' \<Longrightarrow> P s \<Longrightarrow> P s'" "P s"
  shows "P (perform_all calls s)"
  using assms(2)
proof (induction calls s rule: perform_all.induct)
  case (2 org call calls s)
  then show ?case using assms(1) perform_effect [of org call s] by (cases "perform org call s") auto
qed simp

lemma perform_all_append: "perform_all (xs @ ys) s = perform_all ys (perform_all xs s)"
  by (induction xs s rule: perform_all.induct) auto

section \<open>Credentials, generations and bindings agree\<close>

definition credentials_ok :: "generation_store \<Rightarrow> bool" where
  "credentials_ok s \<longleftrightarrow> (\<forall>org i c. gs_credentials s (org, i) = Some c \<longrightarrow>
     mc_id c = i \<and> (\<forall>a. mc_active_generation_id c = Some a \<longrightarrow>
       (\<exists>g. gs_generations s (org, a) = Some g \<and> cg_state g = GenActive \<and> cg_credential_id g = i)))"

definition generations_ok :: "generation_store \<Rightarrow> bool" where
  "generations_ok s \<longleftrightarrow> (\<forall>org i g. gs_generations s (org, i) = Some g \<longrightarrow>
     cg_id g = i \<and> (cg_state g = GenActive \<longrightarrow>
       (\<exists>c. gs_credentials s (org, cg_credential_id g) = Some c \<and> mc_active_generation_id c = Some i)))"

definition consumers_ok :: "generation_store \<Rightarrow> bool" where
  "consumers_ok s \<longleftrightarrow> (\<forall>org i b. gs_bindings s (org, i) = Some b \<longrightarrow>
     cb_id b = i \<and> (\<exists>c. gs_credentials s (org, cb_credential_id b) = Some c
       \<and> cb_service_id b \<in> set (mc_consumer_ids c) \<and> mc_active_generation_id c = Some (cb_current_generation_id b))
     \<and> (\<forall>j d. gs_bindings s (org, j) = Some d \<and> cb_credential_id d = cb_credential_id b
          \<and> cb_service_id d = cb_service_id b \<longrightarrow> j = i))"

definition lineage_ok :: "generation_store \<Rightarrow> bool" where
  "lineage_ok s \<longleftrightarrow> credentials_ok s \<and> generations_ok s \<and> consumers_ok s"

lemma record_updates [simp]:
  "cg_id (activated t p) = cg_id t" "cg_state (activated t p) = GenActive"
  "cg_credential_id (activated t p) = cg_credential_id t"
  "cg_id (superseded p t) = cg_id p" "cg_state (superseded p t) = GenSuperseded"
  "cg_credential_id (superseded p t) = cg_credential_id p"
  "cg_id (revoked p now) = cg_id p" "cg_state (revoked p now) = GenRevoked"
  "cg_credential_id (revoked p now) = cg_credential_id p"
  "cg_id (observed_generation p at expiry md) = cg_id p" "cg_state (observed_generation p at expiry md) = cg_state p"
  "cg_credential_id (observed_generation p at expiry md) = cg_credential_id p"
  "mc_id (promoted_credential c t r) = mc_id c" "mc_consumer_ids (promoted_credential c t r) = mc_consumer_ids c"
  "mc_active_generation_id (promoted_credential c t r) = Some (cg_id t)"
  "mc_id (observed_credential c at expiry due md) = mc_id c"
  "mc_consumer_ids (observed_credential c at expiry due md) = mc_consumer_ids c"
  "mc_active_generation_id (observed_credential c at expiry due md) = mc_active_generation_id c"
  "cb_id (promoted_binding t b) = cb_id b" "cb_credential_id (promoted_binding t b) = cb_credential_id b"
  "cb_service_id (promoted_binding t b) = cb_service_id b"
  "cb_current_generation_id (promoted_binding t b) = cg_id t"
  by (simp_all add: activated_def superseded_def revoked_def observed_generation_def promoted_credential_def
      observed_credential_def promoted_binding_def)

lemma promotion_fields [simp]:
  "gs_credentials (promotion org cid tid pid bids c t p r s) = (gs_credentials s)((org, cid) \<mapsto> promoted_credential c t r)"
  "gs_generations (promotion org cid tid pid bids c t p r s) =
     (gs_generations s)((org, tid) \<mapsto> activated t p, (org, pid) \<mapsto> superseded p t)"
  "gs_reports (promotion org cid tid pid bids c t p r s) = gs_reports s"
  "gs_bindings (promotion org cid tid pid bids c t p r s) (o', i) =
     (if o' = org \<and> i \<in> set bids then Some (promoted_binding t (the (gs_bindings s (org, i)))) else gs_bindings s (o', i))"
  by (simp_all add: promotion_def put_bindings_lookup)

lemma lineage_ids:
  "lineage_ok s \<Longrightarrow> gs_credentials s (org, i) = Some c \<Longrightarrow> mc_id c = i"
  "lineage_ok s \<Longrightarrow> gs_generations s (org, i) = Some g \<Longrightarrow> cg_id g = i"
  "lineage_ok s \<Longrightarrow> gs_bindings s (org, i) = Some b \<Longrightarrow> cb_id b = i"
  by (auto simp: lineage_ok_def credentials_ok_def generations_ok_def consumers_ok_def)

lemma active_generation:
  assumes "lineage_ok s" "gs_credentials s (org, i) = Some c" "mc_active_generation_id c = Some a"
  obtains g where "gs_generations s (org, a) = Some g" "cg_state g = GenActive" "cg_credential_id g = i"
  using assms unfolding lineage_ok_def credentials_ok_def by blast

lemma active_credential:
  assumes "lineage_ok s" "gs_generations s (org, i) = Some g" "cg_state g = GenActive"
  obtains c where "gs_credentials s (org, cg_credential_id g) = Some c" "mc_active_generation_id c = Some i"
  using assms unfolding lineage_ok_def generations_ok_def by blast

lemma binding_credential:
  assumes "lineage_ok s" "gs_bindings s (org, i) = Some b"
  obtains c where "gs_credentials s (org, cb_credential_id b) = Some c" "cb_service_id b \<in> set (mc_consumer_ids c)"
    "mc_active_generation_id c = Some (cb_current_generation_id b)"
  using assms unfolding lineage_ok_def consumers_ok_def by blast

lemma binding_unique:
  "lineage_ok s \<Longrightarrow> gs_bindings s (org, i) = Some b \<Longrightarrow> gs_bindings s (org, j) = Some d \<Longrightarrow>
     cb_credential_id d = cb_credential_id b \<Longrightarrow> cb_service_id d = cb_service_id b \<Longrightarrow> j = i"
  by (auto simp: lineage_ok_def consumers_ok_def)

text \<open>A promotion takes along every binding of its credential.\<close>

lemma promotion_covers:
  assumes "lineage_ok s" "promotable s org cid tid pid rid bids c t p r"
    and "gs_bindings s (org, i) = Some b" "cb_credential_id b = cid"
  shows "i \<in> set bids"
proof -
  have c: "gs_credentials s (org, cid) = Some c" and bs: "\<forall>j\<in>set bids. gs_bindings s (org, j) \<noteq> None
      \<and> binding_verified c p t r (the (gs_bindings s (org, j)))"
    and sv: "(\<lambda>i. cb_service_id (the (gs_bindings s (org, i)))) ` set bids = set (mc_consumer_ids c)"
    using assms(2) by (auto simp: promotable_def)
  have "cb_service_id b \<in> set (mc_consumer_ids c)"
    using binding_credential [OF assms(1,3)] c assms(4) by auto
  then have "cb_service_id b \<in> (\<lambda>i. cb_service_id (the (gs_bindings s (org, i)))) ` set bids"
    by (simp only: sv)
  then obtain j where j: "j \<in> set bids" "cb_service_id (the (gs_bindings s (org, j))) = cb_service_id b"
    by (elim imageE) simp
  then obtain d where d: "gs_bindings s (org, j) = Some d" "cb_credential_id d = mc_id c"
    using bs by (auto simp: binding_verified_def)
  have "j = i"
    using binding_unique [OF assms(1,3) d(1)] d j(2) lineage_ids(1) [OF assms(1) c] assms(4) by simp
  then show ?thesis using j(1) by simp
qed

lemma lineage_promoted:
  assumes ok: "lineage_ok s" and pr: "promotable s org cid tid pid rid bids c t p r"
  shows "lineage_ok (promotion org cid tid pid bids c t p r s)"
proof -
  have c: "gs_credentials s (org, cid) = Some c" "mc_active_generation_id c = Some pid"
    and t: "gs_generations s (org, tid) = Some t" "cg_state t = GenCreating" "cg_credential_id t = mc_id c"
    and p: "gs_generations s (org, pid) = Some p" "cg_state p = GenActive" "cg_credential_id p = mc_id c"
    and bs: "\<forall>j\<in>set bids. gs_bindings s (org, j) \<noteq> None
      \<and> binding_verified c p t r (the (gs_bindings s (org, j)))"
    using pr by (auto simp: promotable_def)
  have ids: "mc_id c = cid" "cg_id t = tid" "cg_id p = pid" and ne: "tid \<noteq> pid"
    using lineage_ids [OF ok] c t p by auto
  let ?s = "promotion org cid tid pid bids c t p r s"
  have "credentials_ok ?s"
    unfolding credentials_ok_def
  proof (intro allI impI conjI)
    fix o' i d assume d: "gs_credentials ?s (o', i) = Some d"
    show "mc_id d = i"
      using d ids lineage_ids(1) [OF ok] by (auto split: if_splits)
    fix a assume a: "mc_active_generation_id d = Some a"
    show "\<exists>g. gs_generations ?s (o', a) = Some g \<and> cg_state g = GenActive \<and> cg_credential_id g = i"
    proof (cases "(o', i) = (org, cid)")
      case True
      then show ?thesis using d a ids ne t by auto
    next
      case False
      then have "gs_credentials s (o', i) = Some d" using d by (auto split: if_splits)
      then obtain g where "gs_generations s (o', a) = Some g" "cg_state g = GenActive" "cg_credential_id g = i"
        using active_generation [OF ok _ a] by metis
      then show ?thesis using False t p ids by auto
    qed
  qed
  moreover have "generations_ok ?s"
    unfolding generations_ok_def
  proof (intro allI impI conjI)
    fix o' i g assume g: "gs_generations ?s (o', i) = Some g"
    show "cg_id g = i"
      using g ids lineage_ids(2) [OF ok] by (auto split: if_splits)
    assume a: "cg_state g = GenActive"
    show "\<exists>d. gs_credentials ?s (o', cg_credential_id g) = Some d \<and> mc_active_generation_id d = Some i"
    proof (cases "(o', i) = (org, tid)")
      case True
      then show ?thesis using g t ids ne by auto
    next
      case False
      then have g': "gs_generations s (o', i) = Some g" "(o', i) \<noteq> (org, pid)" using g a by (auto split: if_splits)
      then obtain d where d: "gs_credentials s (o', cg_credential_id g) = Some d" "mc_active_generation_id d = Some i"
        using active_credential [OF ok _ a] by metis
      then have "(o', cg_credential_id g) \<noteq> (org, cid)" using c g'(2) by auto
      then show ?thesis using d by auto
    qed
  qed
  moreover have "consumers_ok ?s"
    unfolding consumers_ok_def
  proof (intro allI impI)
    fix o' i b assume b: "gs_bindings ?s (o', i) = Some b"
    have old: "\<exists>b'. gs_bindings s (o', i) = Some b' \<and> cb_id b = cb_id b' \<and> cb_credential_id b = cb_credential_id b'
        \<and> cb_service_id b = cb_service_id b'" if "gs_bindings ?s (o', i) = Some b" for o' i b
      using that bs by (auto split: if_splits)
    obtain b' where b': "gs_bindings s (o', i) = Some b'" "cb_id b = cb_id b'" "cb_credential_id b = cb_credential_id b'"
        "cb_service_id b = cb_service_id b'"
      using old [OF b] by auto
    obtain d where d: "gs_credentials s (o', cb_credential_id b) = Some d" "cb_service_id b \<in> set (mc_consumer_ids d)"
        "mc_active_generation_id d = Some (cb_current_generation_id b')"
      using binding_credential [OF ok b'(1)] b' by metis
    have "\<exists>d. gs_credentials ?s (o', cb_credential_id b) = Some d \<and> cb_service_id b \<in> set (mc_consumer_ids d)
        \<and> mc_active_generation_id d = Some (cb_current_generation_id b)"
    proof (cases "(o', cb_credential_id b) = (org, cid)")
      case True
      then have "i \<in> set bids" using promotion_covers [OF ok pr] b' by auto
      then show ?thesis using True b d c ids by auto
    next
      case False
      then have "\<not> (o' = org \<and> i \<in> set bids)" using bs b' ids by (auto simp: binding_verified_def)
      then show ?thesis using False b b' d by auto
    qed
    moreover have "j = i" if "gs_bindings ?s (o', j) = Some d" "cb_credential_id d = cb_credential_id b"
        "cb_service_id d = cb_service_id b" for j d
      using old [OF that(1)] that(2,3) b' binding_unique [OF ok b'(1)] by metis
    ultimately show "cb_id b = i \<and> (\<exists>c. gs_credentials ?s (o', cb_credential_id b) = Some c
       \<and> cb_service_id b \<in> set (mc_consumer_ids c) \<and> mc_active_generation_id c = Some (cb_current_generation_id b))
     \<and> (\<forall>j d. gs_bindings ?s (o', j) = Some d \<and> cb_credential_id d = cb_credential_id b
          \<and> cb_service_id d = cb_service_id b \<longrightarrow> j = i)"
      using b' lineage_ids(3) [OF ok] by blast
  qed
  ultimately show ?thesis by (simp add: lineage_ok_def)
qed

text \<open>A change of a generation that is not active, and stays so.\<close>

lemma lineage_inactive:
  assumes ok: "lineage_ok s" and g: "\<forall>d. gs_generations s (org, i) = Some d \<longrightarrow> cg_state d \<noteq> GenActive"
    and h: "cg_state h \<noteq> GenActive" "cg_id h = i"
  shows "lineage_ok (put_generation org i h s)"
proof -
  have "credentials_ok (put_generation org i h s)"
    using ok g unfolding lineage_ok_def credentials_ok_def by (simp, metis)
  moreover have "generations_ok (put_generation org i h s)"
    using ok h by (auto simp: lineage_ok_def generations_ok_def)
  moreover have "consumers_ok (put_generation org i h s)"
    using ok by (simp add: lineage_ok_def consumers_ok_def)
  ultimately show ?thesis by (simp add: lineage_ok_def)
qed

lemma lineage_put_generation_same:
  assumes ok: "lineage_ok s" and g: "gs_generations s (org, i) = Some g"
    and h: "cg_state h = cg_state g" "cg_id h = cg_id g" "cg_credential_id h = cg_credential_id g"
  shows "lineage_ok (put_generation org i h s)"
proof -
  have "credentials_ok (put_generation org i h s)"
    using ok g h unfolding lineage_ok_def credentials_ok_def by (simp, metis option.inject)
  moreover have "generations_ok (put_generation org i h s)"
    using ok g h by (auto simp: lineage_ok_def generations_ok_def)
  moreover have "consumers_ok (put_generation org i h s)"
    using ok by (simp add: lineage_ok_def consumers_ok_def)
  ultimately show ?thesis by (simp add: lineage_ok_def)
qed

lemma lineage_put_credential_same:
  assumes ok: "lineage_ok s" and c: "gs_credentials s (org, i) = Some c"
    and h: "mc_id d = mc_id c" "mc_active_generation_id d = mc_active_generation_id c" "mc_consumer_ids d = mc_consumer_ids c"
  shows "lineage_ok (put_credential org i d s)"
proof -
  have "credentials_ok (put_credential org i d s)"
    using ok c h by (auto simp: lineage_ok_def credentials_ok_def)
  moreover have "generations_ok (put_credential org i d s)"
    using ok c h unfolding lineage_ok_def generations_ok_def by (simp, metis option.inject)
  moreover have "consumers_ok (put_credential org i d s)"
    using ok c h unfolding lineage_ok_def consumers_ok_def by (simp, metis option.inject)
  ultimately show ?thesis by (simp add: lineage_ok_def)
qed

lemma lineage_rebound:
  assumes ok: "lineage_ok s"
    and h: "\<And>i. i \<in> set ids \<Longrightarrow> \<exists>b. gs_bindings s (org, i) = Some b \<and> cb_id (h i) = cb_id b
       \<and> cb_credential_id (h i) = cb_credential_id b \<and> cb_service_id (h i) = cb_service_id b
       \<and> cb_current_generation_id (h i) = cb_current_generation_id b"
  shows "lineage_ok (put_bindings org (map (\<lambda>i. (i, h i)) ids) s)"
proof -
  let ?s = "put_bindings org (map (\<lambda>i. (i, h i)) ids) s"
  have old: "\<exists>b'. gs_bindings s (o', i) = Some b' \<and> cb_id b = cb_id b' \<and> cb_credential_id b = cb_credential_id b'
      \<and> cb_service_id b = cb_service_id b' \<and> cb_current_generation_id b = cb_current_generation_id b'"
    if "gs_bindings ?s (o', i) = Some b" for o' i b
    using that h by (auto simp: put_bindings_lookup split: if_splits)
  have "consumers_ok ?s"
    unfolding consumers_ok_def
  proof (intro allI impI)
    fix o' i b assume b: "gs_bindings ?s (o', i) = Some b"
    obtain b' where b': "gs_bindings s (o', i) = Some b'" "cb_id b = cb_id b'" "cb_credential_id b = cb_credential_id b'"
        "cb_service_id b = cb_service_id b'" "cb_current_generation_id b = cb_current_generation_id b'"
      using old [OF b] by auto
    have "j = i" if "gs_bindings ?s (o', j) = Some d" "cb_credential_id d = cb_credential_id b"
        "cb_service_id d = cb_service_id b" for j d
      using old [OF that(1)] that(2,3) b' binding_unique [OF ok b'(1)] by metis
    then show "cb_id b = i \<and> (\<exists>c. gs_credentials ?s (o', cb_credential_id b) = Some c
       \<and> cb_service_id b \<in> set (mc_consumer_ids c) \<and> mc_active_generation_id c = Some (cb_current_generation_id b))
     \<and> (\<forall>j d. gs_bindings ?s (o', j) = Some d \<and> cb_credential_id d = cb_credential_id b
          \<and> cb_service_id d = cb_service_id b \<longrightarrow> j = i)"
      using b' lineage_ids(3) [OF ok b'(1)] binding_credential [OF ok b'(1)] by (simp, metis)
  qed
  then show ?thesis using ok by (simp add: lineage_ok_def credentials_ok_def generations_ok_def)
qed

lemma lineage_effect: "generation_effect s s' \<Longrightarrow> lineage_ok s \<Longrightarrow> lineage_ok s'"
proof (induction rule: generation_effect.induct)
  case (created s g)
  then show ?case by (intro lineage_inactive) auto
next
  case (promoted s org cid tid pid rid bids c t p r)
  then show ?case by (intro lineage_promoted)
next
  case (revoked s org i g rid r now)
  then show ?case using lineage_ids(2) by (intro lineage_inactive) auto
next
  case (orphaned s org i g)
  then show ?case using lineage_ids(2) by (intro lineage_inactive) auto
next
  case (rebound ids s org h)
  then show ?case by (intro lineage_rebound)
next
  case (observed s org cid c gid g at expiry due md)
  have "lineage_ok (put_generation org gid (observed_generation g at expiry md) s)"
    using observed by (intro lineage_put_generation_same [of s org gid g]) auto
  then show ?case using observed(1) by (elim lineage_put_credential_same) auto
next
  case (reported s r)
  then show ?case by (simp add: lineage_ok_def credentials_ok_def generations_ok_def consumers_ok_def)
qed simp

section \<open>The life of a generation\<close>

definition passed_report :: "generation_store \<Rightarrow> string \<Rightarrow> string \<Rightarrow> bool" where
  "passed_report s org gid \<longleftrightarrow>
     (\<exists>rid r. gs_reports s (org, rid) = Some r \<and> vr_status r = Ver_Passed \<and> vr_generation_id r = gid)"

definition same_generation :: "credential_generation \<Rightarrow> credential_generation \<Rightarrow> bool" where
  "same_generation g h \<longleftrightarrow> cg_id h = cg_id g \<and> cg_organisation_id h = cg_organisation_id g
     \<and> cg_credential_id h = cg_credential_id g \<and> cg_attempt_id h = cg_attempt_id g
     \<and> cg_provider_id h = cg_provider_id g \<and> cg_fingerprint h = cg_fingerprint g \<and> cg_scopes h = cg_scopes g
     \<and> cg_secret_reference h = cg_secret_reference g \<and> cg_created_at h = cg_created_at g"

lemma reports_kept:
  "generation_effect s s' \<Longrightarrow> gs_reports s (org, i) = Some r \<Longrightarrow> gs_reports s' (org, i) = Some r"
  by (induction rule: generation_effect.induct) (auto simp: promotion_def)

lemma generation_kept:
  assumes "generation_effect s s'" "gs_generations s (org, i) = Some g"
  shows "\<exists>h. gs_generations s' (org, i) = Some h \<and> same_generation g h
    \<and> (cg_state h = cg_state g \<or> next_state (cg_state g) (cg_state h)
         \<and> (cg_state h = GenActive \<or> cg_state h = GenRevoked \<longrightarrow> passed_report s' org (cg_id g)))"
  using assms
  by (induction rule: generation_effect.induct)
     (auto simp: same_generation_def promotable_def passed_report_def activated_def superseded_def revoked_def
        observed_generation_def, blast+)

lemma unreadable_kept:
  "generation_effect s s' \<Longrightarrow> gs_credentials s (org, i) = Some c \<Longrightarrow> validate_credential c \<noteq> Inr c \<Longrightarrow>
     gs_credentials s' (org, i) = Some c"
  by (induction rule: generation_effect.induct) (auto simp: promotable_def)

definition reports_ok :: "generation_store \<Rightarrow> bool" where
  "reports_ok s \<longleftrightarrow> (\<forall>org i r. gs_reports s (org, i) = Some r \<longrightarrow> vr_id r = i)"

lemma reports_ok_effect: "generation_effect s s' \<Longrightarrow> reports_ok s \<Longrightarrow> reports_ok s'"
  by (induction rule: generation_effect.induct) (auto simp: reports_ok_def promotion_def)

lemma reports_ok_history: "reports_ok s \<Longrightarrow> reports_ok (perform_all calls s)"
  by (rule perform_all_induct [where P = reports_ok]) (rule reports_ok_effect)

lemma lineage_history: "lineage_ok s \<Longrightarrow> lineage_ok (perform_all calls s)"
  by (rule perform_all_induct [where P = lineage_ok]) (rule lineage_effect)

section \<open>Between the verification of bindings and their promotion\<close>

text \<open>The calls that neither promote a generation nor record a verification.\<close>

fun between_stages :: "generation_call \<Rightarrow> bool" where
  "between_stages (CallPromote _ _ _ _ _) = False"
| "between_stages (CallVerify _ _ _) = False"
| "between_stages _ = True"

text \<open>The generation of the promotion is not active, and its bindings hold the report.\<close>

definition awaiting :: "string \<Rightarrow> string \<Rightarrow> string \<Rightarrow> string list \<Rightarrow> generation_store \<Rightarrow> bool" where
  "awaiting org tid rid ids s \<longleftrightarrow> (\<exists>t. gs_generations s (org, tid) = Some t \<and> cg_state t \<noteq> GenActive)
     \<and> (\<forall>i\<in>set ids. \<exists>b. gs_bindings s (org, i) = Some b \<and> cb_verification_report_id b = Some rid)"

lemma staged_bindings_store:
  "stage_consumer_bindings org c t ref ids s = Inr (x, s') \<Longrightarrow>
     s' = put_bindings org (map (\<lambda>i. (i, staged_binding t ref (the (gs_bindings s (org, i))))) ids) s
     \<and> (\<forall>i\<in>set ids. gs_bindings s (org, i) \<noteq> None)"
  by (auto simp: stage_consumer_bindings_def generation_stage_bindings_def bindr_eq_Inr mapr_validate_binding
      zip_map_self dest!: binding_docs_eq split: option.splits)

lemma verified_bindings_store:
  "verify_consumer_bindings org t rid ids s = Inr (x, s') \<Longrightarrow>
     s' = put_bindings org (map (\<lambda>i. (i, verified_binding rid (the (gs_bindings s (org, i))))) ids) s \<and> ids \<noteq> []"
  by (auto simp: verify_consumer_bindings_def generation_verify_bindings_def bindr_eq_Inr mapr_validate_binding
      require_eq_Inr zip_map_self dest!: binding_docs_eq split: option.splits)

lemma awaiting_after_verify:
  assumes "verify_consumer_bindings org tid rid ids s = Inr (x, s')"
    and "gs_generations s (org, tid) = Some t" "cg_state t \<noteq> GenActive"
  shows "awaiting org tid rid ids s'"
  using verified_bindings_store [OF assms(1)] assms(2,3)
  by (simp add: awaiting_def put_bindings_lookup verified_binding_def)

lemma awaiting_perform:
  assumes "perform o' call s = Inr s'" "between_stages call" "awaiting org tid rid ids s"
  shows "awaiting org tid rid ids s'"
proof -
  have quiet: "awaiting org tid rid ids u"
    if "gs_bindings u = gs_bindings s"
      "\<And>g. gs_generations s (org, tid) = Some g \<Longrightarrow> cg_state g \<noteq> GenActive \<Longrightarrow>
         \<exists>h. gs_generations u (org, tid) = Some h \<and> cg_state h \<noteq> GenActive" for u
    using that assms(3) by (auto simp: awaiting_def)
  show ?thesis
  proof (cases call)
    case (CallCreate g)
    then show ?thesis using assms(1)
      by (intro quiet) (auto simp: create_generation_def generation_create_def Let_def bindr_eq_Inr require_eq_Inr
          split: option.splits if_splits)
  next
    case (CallRevoke now g r)
    then show ?thesis using assms(1)
      by (intro quiet) (auto simp: revoke_generation_def generation_revoke_def bindr_eq_Inr validate_inverts
          split: option.splits if_splits)
  next
    case (CallOrphan g)
    then show ?thesis using assms(1)
      by (intro quiet) (auto simp: orphan_generation_def generation_orphan_def Let_def bindr_eq_Inr validate_inverts
          split: option.splits)
  next
    case (CallStage c t ref bs)
    then obtain x where "stage_consumer_bindings o' c t ref bs s = Inr (x, s')"
      using assms(1) by (auto simp: bindr_eq_Inr)
    from staged_bindings_store [OF this] show ?thesis
      using assms(3) by (auto simp: awaiting_def put_bindings_lookup staged_binding_def)
  next
    case (CallObserve c g rv at expiry due md)
    then show ?thesis using assms(1)
      by (intro quiet) (auto simp: record_observation_def Let_def bindr_eq_Inr validate_inverts split: option.splits)
  next
    case (CallReport r)
    then show ?thesis using assms(1)
      by (intro quiet) (auto simp: save_report_def Let_def bindr_eq_Inr split: option.splits)
  qed (use assms(2) in simp_all)
qed

lemma awaiting_perform_all:
  "list_all (\<lambda>(_, call). between_stages call) calls \<Longrightarrow> awaiting org tid rid ids s \<Longrightarrow>
     awaiting org tid rid ids (perform_all calls s)"
proof (induction calls s rule: perform_all.induct)
  case (2 o' call calls s)
  then show ?case using awaiting_perform [of o' call s] by (cases "perform o' call s") auto
qed simp

lemma awaiting_conflict:
  assumes "awaiting org tid rid ids s" "reports_ok s" "rid' \<noteq> rid" "ids \<noteq> []"
  shows "\<exists>e. promote_generation org cid tid pid rid' ids s = Inl e"
proof (cases "generation_promote org cid tid pid rid' ids s")
  case (Inr gs')
  then obtain g s' where g: "generation_promote org cid tid pid rid' ids s = Inr (g, s')" by (cases gs') auto
  from promote_cases [OF g] assms(1) obtain c t p r where r: "promotable s org cid tid pid rid' ids c t p r"
    by (auto simp: awaiting_def)
  then have v: "vr_id r = rid'" "\<forall>i\<in>set ids. cb_verification_report_id (the (gs_bindings s (org, i))) = Some (vr_id r)"
    using assms(2) by (auto simp: promotable_def reports_ok_def binding_verified_def)
  then show ?thesis using assms(1,3,4) by (cases ids) (auto simp: awaiting_def)
qed (use assms(4) in \<open>simp add: promote_generation_def\<close>)

end
