(* ===== verification/Generation_Theorems.thy ===== *)
theory Generation_Theorems imports Generation_Facts begin

text \<open>
  What the generation store guarantees its consumers, and two ways in which the coordinator's use of it
  goes wrong.
\<close>

section \<open>An example store\<close>

definition ex_hex :: "char \<Rightarrow> string" where
  "ex_hex c = replicate 64 c"

definition ex_credential :: managed_credential where
  "ex_credential =
     \<lparr>mc_id = ''key'', mc_organisation_id = ''org'', mc_connection_id = ''conn'', mc_secret_store_connection_id = ''vault'',
      mc_secret_resource = ''sec'', mc_secret_reference = ''sec/versions/1'', mc_provider = ''p'', mc_kind = ''k'',
      mc_display_name = ''d'', mc_provider_id = Some ''one'', mc_provider_display_name = None, mc_scopes = {},
      mc_consumer_ids = [''svc''], mc_active_generation_id = Some ''old'', mc_control_version = ''ctl'',
      mc_expires_at = Some 90, mc_rotation_due_at = Some 60, mc_last_observed_at = None, mc_metadata_digest = None,
      mc_created_at = 0, mc_updated_at = 0, mc_archived_at = None, mc_revision = 0\<rparr>"

definition ex_generation :: "string \<Rightarrow> generation_state \<Rightarrow> credential_generation" where
  "ex_generation i st =
     \<lparr>cg_id = i, cg_organisation_id = ''org'', cg_credential_id = ''key'', cg_provider_id = Some i,
      cg_provider_display_name = None, cg_fingerprint = None, cg_scopes = {}, cg_state = st, cg_attempt_id = ''att'',
      cg_secret_reference = Some ''sec/versions/2'', cg_predecessor_id = None, cg_successor_id = None,
      cg_expires_at = None, cg_last_observed_at = None, cg_metadata_digest = None, cg_created_at = 1, cg_revoked_at = None\<rparr>"

definition ex_binding :: consumer_binding where
  "ex_binding =
     \<lparr>cb_id = ''web'', cb_organisation_id = ''org'', cb_credential_id = ''key'', cb_service_id = ''svc'',
      cb_environment_id = ''env'', cb_runtime_connection_id = ''run'', cb_runtime_resource = ''r'',
      cb_runtime_secret_name = ''n'', cb_runtime_container_name = None, cb_secret_reference = ''sec/versions/1'',
      cb_current_generation_id = ''old'', cb_target_generation_id = None, cb_verification_report_id = None,
      cb_required = True, cb_revision = 0\<rparr>"

definition ex_report :: "string \<Rightarrow> string \<Rightarrow> verification_report" where
  "ex_report i gen =
     \<lparr>vr_id = i, vr_organisation_id = ''org'', vr_run_id = ''run'', vr_generation_id = gen, vr_status = Ver_Passed,
      vr_results = [\<lparr>pr_probe_id = ''probe'', pr_status = Ver_Passed, pr_observed_status = None, pr_generation_id = None,
        pr_checks = {''check''}, pr_evidence_ids = [''evi''], pr_observations = [], pr_error = None, pr_started_at = 1,
        pr_completed_at = 2\<rparr>],
      vr_checks = {''check''}, vr_evidence_ids = [''evi''], vr_started_at = 1, vr_completed_at = 2\<rparr>"

definition ex_lineage :: generation_store where
  "ex_lineage =
     \<lparr>gs_credentials = [(''org'', ''key'') \<mapsto> ex_credential],
      gs_generations = [(''org'', ''old'') \<mapsto> ex_generation ''old'' GenActive],
      gs_bindings = [(''org'', ''web'') \<mapsto> ex_binding], gs_reports = Map.empty\<rparr>"

definition ex_staged :: "(string \<times> generation_call) list" where
  "ex_staged =
     [(''org'', CallCreate (ex_generation ''new'' GenCreating)),
      (''org'', CallStage ''key'' ''new'' ''sec/versions/2'' [''web'']),
      (''org'', CallReport (ex_report ''rep'' ''new''))]"

definition ex_rotation :: "(string \<times> generation_call) list" where
  "ex_rotation = ex_staged @
     [(''org'', CallVerify ''new'' ''rep'' [''web'']),
      (''org'', CallPromote ''key'' ''new'' ''old'' ''rep'' [''web''])]"

lemma ex_lineage_ok: "lineage_ok ex_lineage" "reports_ok ex_lineage"
  by (simp_all add: lineage_ok_def credentials_ok_def generations_ok_def consumers_ok_def reports_ok_def ex_lineage_def
      ex_credential_def ex_generation_def ex_binding_def)

section \<open>Consumers and the active generation\<close>

text \<open>
  C3: whatever calls reach the generation store, in any order and from any organisation, each consumer
  binding stays on the active generation of its credential: that generation exists, is ACTIVE, belongs
  to the credential, is the one the credential names, and is the credential's only ACTIVE generation. So
  no consumer is ever left on a superseded, revoked or orphaned generation. The store the calls start
  from must be consistent, as an import leaves it (\<open>lineage_ok\<close>).
\<close>

theorem consumers_follow_promotion:
  assumes "lineage_ok s" "s' = perform_all calls s" "gs_bindings s' (org, i) = Some b"
  shows "\<exists>c g. gs_credentials s' (org, cb_credential_id b) = Some c
    \<and> mc_active_generation_id c = Some (cb_current_generation_id b)
    \<and> gs_generations s' (org, cb_current_generation_id b) = Some g
    \<and> cg_state g = GenActive \<and> cg_credential_id g = cb_credential_id b
    \<and> (\<forall>j h. gs_generations s' (org, j) = Some h \<and> cg_credential_id h = cb_credential_id b \<and> cg_state h = GenActive
         \<longrightarrow> j = cb_current_generation_id b)"
proof -
  have ok: "lineage_ok s'"
    unfolding assms(2) using assms(1) by (rule lineage_history)
  obtain c where c: "gs_credentials s' (org, cb_credential_id b) = Some c"
      "mc_active_generation_id c = Some (cb_current_generation_id b)"
    using binding_credential [OF ok assms(3)] by metis
  obtain g where "gs_generations s' (org, cb_current_generation_id b) = Some g" "cg_state g = GenActive"
      "cg_credential_id g = cb_credential_id b"
    using active_generation [OF ok c] by metis
  moreover have "j = cb_current_generation_id b"
    if "gs_generations s' (org, j) = Some h" "cg_credential_id h = cb_credential_id b" "cg_state h = GenActive" for j h
    using active_credential [OF ok that(1,3)] that(2) c by auto
  ultimately show ?thesis using c by blast
qed

theorem consumers_follow_promotion_witness:
  "\<exists>b. gs_bindings (perform_all ex_rotation ex_lineage) (''org'', ''web'') = Some b \<and> cb_current_generation_id b = ''new''
     \<and> (\<exists>g. gs_generations (perform_all ex_rotation ex_lineage) (''org'', ''new'') = Some g \<and> cg_state g = GenActive)"
proof -
  have "map_option cb_current_generation_id (gs_bindings (perform_all ex_rotation ex_lineage) (''org'', ''web'')) = Some ''new''"
    by code_simp
  then obtain b where b: "gs_bindings (perform_all ex_rotation ex_lineage) (''org'', ''web'') = Some b"
      "cb_current_generation_id b = ''new''" by auto
  show ?thesis
    using consumers_follow_promotion [OF ex_lineage_ok(1) refl b(1)] b by auto
qed

section \<open>The life of a generation\<close>

text \<open>
  C13: a recorded generation is never lost or rewritten: whatever calls follow, its document keeps its
  identity, credential, provider key and secret, and its state only moves along CREATING, ACTIVE,
  SUPERSEDED, REVOKED, or from CREATING or UNKNOWN to ORPHANED. It becomes active or revoked only when a
  passed verification report about it is stored.
\<close>

theorem generation_lifecycle:
  assumes "gs_generations s (org, i) = Some g" "s' = perform_all calls s"
  shows "\<exists>h. gs_generations s' (org, i) = Some h \<and> same_generation g h
    \<and> next_state\<^sup>*\<^sup>* (cg_state g) (cg_state h)
    \<and> (cg_state h \<noteq> cg_state g \<and> (cg_state h = GenActive \<or> cg_state h = GenRevoked)
         \<longrightarrow> passed_report s' org (cg_id g))"
  unfolding assms(2)
proof (rule perform_all_induct [of _ s])
  fix u u' assume e: "generation_effect u u'"
    and "\<exists>h. gs_generations u (org, i) = Some h \<and> same_generation g h \<and> next_state\<^sup>*\<^sup>* (cg_state g) (cg_state h)
      \<and> (cg_state h \<noteq> cg_state g \<and> (cg_state h = GenActive \<or> cg_state h = GenRevoked) \<longrightarrow> passed_report u org (cg_id g))"
  then obtain h where h: "gs_generations u (org, i) = Some h" "same_generation g h" "next_state\<^sup>*\<^sup>* (cg_state g) (cg_state h)"
      "cg_state h \<noteq> cg_state g \<and> (cg_state h = GenActive \<or> cg_state h = GenRevoked) \<longrightarrow> passed_report u org (cg_id g)"
    by blast
  obtain k where k: "gs_generations u' (org, i) = Some k" "same_generation h k"
      "cg_state k = cg_state h \<or> next_state (cg_state h) (cg_state k)
         \<and> (cg_state k = GenActive \<or> cg_state k = GenRevoked \<longrightarrow> passed_report u' org (cg_id h))"
    using generation_kept [OF e h(1)] by blast
  have id: "same_generation g k" "cg_id h = cg_id g" using h(2) k(2) by (simp_all add: same_generation_def)
  have "next_state\<^sup>*\<^sup>* (cg_state g) (cg_state k)" using h(3) k(3) by (auto intro: rtranclp.rtrancl_into_rtrancl)
  moreover have "passed_report u org (cg_id g) \<longrightarrow> passed_report u' org (cg_id g)"
    using reports_kept [OF e] unfolding passed_report_def by blast
  ultimately show "\<exists>k. gs_generations u' (org, i) = Some k \<and> same_generation g k \<and> next_state\<^sup>*\<^sup>* (cg_state g) (cg_state k)
      \<and> (cg_state k \<noteq> cg_state g \<and> (cg_state k = GenActive \<or> cg_state k = GenRevoked) \<longrightarrow> passed_report u' org (cg_id g))"
    using k(1,3) h(4) id by auto
qed (use assms(1) in \<open>simp add: same_generation_def\<close>)

theorem generation_lifecycle_witness:
  "\<exists>h. gs_generations (perform_all (tl ex_rotation) (perform_all [hd ex_rotation] ex_lineage)) (''org'', ''new'') = Some h
     \<and> cg_state h = GenActive
     \<and> passed_report (perform_all (tl ex_rotation) (perform_all [hd ex_rotation] ex_lineage)) ''org'' ''new''"
proof -
  let ?s = "perform_all [hd ex_rotation] ex_lineage"
  let ?u = "perform_all (tl ex_rotation) ?s"
  have "map_option cg_state (gs_generations ?u (''org'', ''new'')) = Some GenActive"
       "map_option cg_state (gs_generations ?s (''org'', ''new'')) = Some GenCreating"
       "map_option cg_id (gs_generations ?s (''org'', ''new'')) = Some ''new''"
    by code_simp+
  then obtain g h where "gs_generations ?s (''org'', ''new'') = Some g" "cg_state g = GenCreating" "cg_id g = ''new''"
      "gs_generations ?u (''org'', ''new'') = Some h" "cg_state h = GenActive"
    by auto
  then show ?thesis using generation_lifecycle [of ?s "''org''" "''new''" g ?u "tl ex_rotation"] by auto
qed

section \<open>The rollout stage cannot promote\<close>

text \<open>
  the verify stage of the coordinator marks the bindings with the identifier of its own report; the
  rollout stage then asks for the promotion with the report of its own last verification, whose
  identifier is another one (unless the two identifiers collide). Whatever happens in between other than
  another verification, the promotion is refused, so the rollout stage always fails.
\<close>

theorem rollout_promotion_conflicts:
  assumes "rid = coordinator_report_id sha run VERIFY None revision"
    and "rid' = coordinator_report_id sha run ROLLOUT (Some suffix) revision'"
    and "rid' \<noteq> rid" "reports_ok s"
    and "gs_generations s (org, tid) = Some t" "cg_state t = GenCreating"
    and "verify_consumer_bindings org tid rid ids s = Inr (out, s1)"
    and "list_all (\<lambda>(_, call). between_stages call) calls"
  shows "\<exists>e. promote_generation org cid tid pid rid' ids (perform_all calls s1) = Inl e"
proof (rule awaiting_conflict)
  show "awaiting org tid rid ids (perform_all calls s1)"
    using awaiting_after_verify [OF assms(7,5)] assms(6,8) by (intro awaiting_perform_all) auto
  have "reports_ok s1" using verify_effect [OF assms(7)] reports_ok_effect assms(4) by blast
  then show "reports_ok (perform_all calls s1)" by (rule reports_ok_history)
  show "ids \<noteq> []" using verified_bindings_store [OF assms(7)] by simp
qed (rule assms(3))

definition ex_ids :: "string \<Rightarrow> string" where
  "ex_ids text = ex_hex (if length text < 20 then CHR ''a'' else CHR ''b'')"

definition ex_verify_report :: string where
  "ex_verify_report = coordinator_report_id ex_ids ''run'' VERIFY None 3"

definition ex_rollout_report :: string where
  "ex_rollout_report = coordinator_report_id ex_ids ''run'' ROLLOUT (Some ''rollout-50'') 4"

definition ex_before_verify :: generation_store where
  "ex_before_verify = perform_all (ex_staged @ [(''org'', CallReport (ex_report ex_verify_report ''new''))]) ex_lineage"

theorem rollout_promotion_conflicts_witness:
  "\<exists>out s1. verify_consumer_bindings ''org'' ''new'' ex_verify_report [''web''] ex_before_verify = Inr (out, s1)
     \<and> (\<exists>e. promote_generation ''org'' ''key'' ''new'' ''old'' ex_rollout_report [''web'']
           (perform_all [(''org'', CallReport (ex_report ex_rollout_report ''new''))] s1) = Inl e)"
proof -
  have ok: "reports_ok ex_before_verify"
    unfolding ex_before_verify_def using ex_lineage_ok(2) by (rule reports_ok_history)
  have "map_option cg_state (gs_generations ex_before_verify (''org'', ''new'')) = Some GenCreating"
    by code_simp
  then obtain t where t: "gs_generations ex_before_verify (''org'', ''new'') = Some t" "cg_state t = GenCreating"
    by auto
  have "is_ok (verify_consumer_bindings ''org'' ''new'' ex_verify_report [''web''] ex_before_verify)"
    by code_simp
  then obtain out s1 where v: "verify_consumer_bindings ''org'' ''new'' ex_verify_report [''web''] ex_before_verify = Inr (out, s1)"
    by (auto simp: is_ok_iff)
  have "ex_rollout_report \<noteq> ex_verify_report" by code_simp
  then have "\<exists>e. promote_generation ''org'' ''key'' ''new'' ''old'' ex_rollout_report [''web'']
      (perform_all [(''org'', CallReport (ex_report ex_rollout_report ''new''))] s1) = Inl e"
    using rollout_promotion_conflicts [OF ex_verify_report_def ex_rollout_report_def _ ok t v,
      of "[(''org'', CallReport (ex_report ex_rollout_report ''new''))]" "''key''" "''old''"] by simp
  then show ?thesis using v by blast
qed

text \<open>With the report of the verify stage the same promotion goes through.\<close>

lemma promotion_with_verify_report:
  "is_ok (promote_generation ''org'' ''key'' ''new'' ''old'' ex_verify_report [''web'']
     (perform_all [(''org'', CallVerify ''new'' ex_verify_report [''web''])] ex_before_verify))"
  by code_simp

section \<open>Promotion of a credential with a due time\<close>

text \<open>
  a promotion copies the expiry of the new generation, which the coordinator never sets, but keeps the
  rotation due time of the credential. The contract does not admit a due time without an expiry, so the
  promoted credential, which no transaction validates when it writes it, can never be read again: every
  later operation that reads it ends in the validator error, and no sequence of calls repairs it.
\<close>

theorem due_credential_unreadable:
  assumes "promote_generation org cid tid pid rid ids s = Inr (g, s')"
    and "gs_generations s (org, tid) = Some t" "cg_state t = GenCreating" "cg_expires_at t = None"
    and "gs_credentials s (org, cid) = Some c" "mc_rotation_due_at c = Some due"
  shows "\<exists>e. \<forall>calls. get_credential org cid (perform_all calls s') = Inl e"
proof -
  obtain c' p r where pr: "promotable s org cid tid pid rid ids c' t p r" "s' = promotion org cid tid pid ids c' t p r s"
    using promote_cases [of org cid tid pid rid ids s g s'] assms(1-3)
    by (auto simp: promote_generation_def bindr_eq_Inr promotable_def)
  define d where "d = promoted_credential c t r"
  have "c' = c" using pr(1) assms(5) by (simp add: promotable_def)
  then have s': "gs_credentials s' (org, cid) = Some d" by (simp add: pr(2) d_def)
  have "validate_rotation_due d \<noteq> Inr ()"
    using assms(4,6) by (simp add: d_def promoted_credential_def validate_rotation_due_def bindr_eq_Inr)
  then have bad: "validate_credential d \<noteq> Inr d" by (simp add: validate_inverts)
  have "gs_credentials (perform_all calls s') (org, cid) = Some d" for calls
    by (rule perform_all_induct [where P = "\<lambda>u. gs_credentials u (org, cid) = Some d"])
      (use s' unreadable_kept bad in blast)+
  then have g: "get_credential org cid (perform_all calls s') = bindr (segments [org, cid]) (\<lambda>_. validate_credential d)" for calls
    by (simp add: get_credential_def)
  obtain e where "bindr (segments [org, cid]) (\<lambda>_. validate_credential d) = Inl e"
    using bad by (cases "bindr (segments [org, cid]) (\<lambda>_. validate_credential d)") (auto simp: bindr_eq_Inr validate_inverts)
  then show ?thesis using g by auto
qed

theorem due_credential_unreadable_witness:
  "\<exists>e. get_credential ''org'' ''key'' (perform_all ex_rotation ex_lineage) = Inl e"
proof -
  let ?s = "perform_all (butlast ex_rotation) ex_lineage"
  have "map_option cg_state (gs_generations ?s (''org'', ''new'')) = Some GenCreating"
      "map_option cg_expires_at (gs_generations ?s (''org'', ''new'')) = Some None"
      "map_option mc_rotation_due_at (gs_credentials ?s (''org'', ''key'')) = Some (Some 60)"
    by code_simp+
  then obtain t c where t: "gs_generations ?s (''org'', ''new'') = Some t" "cg_state t = GenCreating" "cg_expires_at t = None"
      and c: "gs_credentials ?s (''org'', ''key'') = Some c" "mc_rotation_due_at c = Some 60"
    by auto
  have "is_ok (promote_generation ''org'' ''key'' ''new'' ''old'' ''rep'' [''web''] ?s)"
    by code_simp
  then obtain g s' where p: "promote_generation ''org'' ''key'' ''new'' ''old'' ''rep'' [''web''] ?s = Inr (g, s')"
    by (auto simp: is_ok_iff)
  have "ex_rotation = butlast ex_rotation @ [(''org'', CallPromote ''key'' ''new'' ''old'' ''rep'' [''web''])]"
    by (simp add: ex_rotation_def butlast_append)
  then have "perform_all ex_rotation ex_lineage = perform_all [(''org'', CallPromote ''key'' ''new'' ''old'' ''rep'' [''web''])] ?s"
    by (metis perform_all_append)
  then have "perform_all ex_rotation ex_lineage = s'"
    using p by simp
  then show ?thesis
    using due_credential_unreadable [OF p t c] perform_all.simps(1) [of s'] by metis
qed

end
