(* ===== verification/Incidents.thy ===== *)
theory Incidents imports Audit_Chain Generations begin

text \<open>
  Security incidents: the contracts (packages/contracts/src/contracts/incident.py) and their store
  (server/core/storage/incident.py, \<open>FirestoreIncidentRepository\<close>). Each function of the repository is
  one transaction, except \<open>advance_run\<close>, which updates the incidents of a run one after the other. The
  texts handed to the operations carry no surrounding white space.
\<close>

section \<open>Contracts\<close>

datatype severity = Sev_Low | Sev_Medium | Sev_High | Sev_Critical

fun severity_value :: "severity \<Rightarrow> string" where
  "severity_value Sev_Low = ''low''"
| "severity_value Sev_Medium = ''medium''"
| "severity_value Sev_High = ''high''"
| "severity_value Sev_Critical = ''critical''"

datatype incident_status = Inc_New | Inc_Correlating | Inc_Action | Inc_Rotating | Inc_Contained | Inc_Resolved | Inc_Dismissed

fun incident_status_value :: "incident_status \<Rightarrow> string" where
  "incident_status_value Inc_New = ''new''"
| "incident_status_value Inc_Correlating = ''correlating''"
| "incident_status_value Inc_Action = ''action-required''"
| "incident_status_value Inc_Rotating = ''rotation-started''"
| "incident_status_value Inc_Contained = ''contained''"
| "incident_status_value Inc_Resolved = ''resolved''"
| "incident_status_value Inc_Dismissed = ''dismissed''"

record source_resource =
  src_connection_id :: "string option"
  src_credential_id :: "string option"
  src_repository :: "string option"
  src_project :: "string option"
  src_service :: "string option"
  src_environment :: "string option"
  src_provider :: "string option"
  src_provider_id :: "string option"

definition source_resource_fields_ok :: "source_resource \<Rightarrow> bool" where
  "source_resource_fields_ok r \<longleftrightarrow>
     opt_ok identifier_ok (src_connection_id r) \<and> opt_ok identifier_ok (src_credential_id r)
     \<and> opt_ok (text_between 0 256) (src_repository r) \<and> opt_ok (text_between 0 256) (src_project r)
     \<and> opt_ok (text_between 0 256) (src_service r) \<and> opt_ok (text_between 0 128) (src_environment r)
     \<and> opt_ok (text_between 0 64) (src_provider r) \<and> opt_ok (text_between 0 256) (src_provider_id r)"

record ingestion_event =
  ing_id :: string
  ing_organisation_id :: string
  ing_source :: string
  ing_source_event_id :: string
  ing_kind :: string
  ing_observed_at :: int
  ing_severity :: severity
  ing_confidence :: confidence
  ing_resource :: source_resource
  ing_source_reference :: string
  ing_received_at :: int

definition ingestion_event_fields_ok :: "ingestion_event \<Rightarrow> bool" where
  "ingestion_event_fields_ok e \<longleftrightarrow>
     identifier_ok (ing_id e) \<and> identifier_ok (ing_organisation_id e) \<and> text_between 1 64 (ing_source e)
     \<and> text_between 1 256 (ing_source_event_id e) \<and> text_between 1 96 (ing_kind e)
     \<and> source_resource_fields_ok (ing_resource e) \<and> text_between 1 1024 (ing_source_reference e)"

text \<open>\<open>stable_payload\<close> leaves out \<open>received_at\<close>: two payloads are equal when all other fields are.\<close>

definition stable_payload :: "ingestion_event \<Rightarrow> ingestion_event" where
  "stable_payload e = e\<lparr>ing_received_at := 0\<rparr>"

record correlation_candidate =
  cand_credential_id :: string
  cand_confidence :: confidence
  cand_reasons :: "string list"
  cand_consumer_ids :: "string list"

definition correlation_candidate_fields_ok :: "correlation_candidate \<Rightarrow> bool" where
  "correlation_candidate_fields_ok c \<longleftrightarrow>
     identifier_ok (cand_credential_id c) \<and> cand_reasons c \<noteq> [] \<and> list_all identifier_ok (cand_consumer_ids c)"

record incident =
  inc_id :: string
  inc_organisation_id :: string
  inc_event_id :: string
  inc_source :: string
  inc_kind :: string
  inc_source_event_id :: string
  inc_severity :: severity
  inc_confidence :: confidence
  inc_status :: incident_status
  inc_resource :: source_resource
  inc_candidates :: "correlation_candidate list"
  inc_credential_id :: "string option"
  inc_run_id :: "string option"
  inc_dismissal_reason :: "string option"
  inc_created_at :: int
  inc_updated_at :: int
  inc_revision :: int

definition incident_fields_ok :: "incident \<Rightarrow> bool" where
  "incident_fields_ok i \<longleftrightarrow>
     identifier_ok (inc_id i) \<and> identifier_ok (inc_organisation_id i) \<and> identifier_ok (inc_event_id i)
     \<and> text_between 1 64 (inc_source i) \<and> text_between 1 96 (inc_kind i) \<and> text_between 1 256 (inc_source_event_id i)
     \<and> source_resource_fields_ok (inc_resource i) \<and> list_all correlation_candidate_fields_ok (inc_candidates i)
     \<and> opt_ok identifier_ok (inc_credential_id i) \<and> opt_ok identifier_ok (inc_run_id i)
     \<and> opt_ok (text_between 0 1024) (inc_dismissal_reason i) \<and> 0 \<le> inc_revision i"

definition validate_resolution :: "incident \<Rightarrow> unit result" where
  "validate_resolution i =
     bindr (require (\<not> (inc_status i = Inc_Dismissed \<and> (inc_dismissal_reason i = None \<or> inc_dismissal_reason i = Some [])))
       (ValidationError ''a dismissed incident requires a reason'')) (\<lambda>_.
     require (\<not> (inc_status i \<in> {Inc_Contained, Inc_Resolved} \<and> (inc_run_id i = None \<or> inc_run_id i = Some [])))
       (ValidationError ''a contained or resolved incident requires a run''))"

definition validate_incident :: "incident \<Rightarrow> incident result" where
  "validate_incident i =
     (if incident_fields_ok i then bindr (validate_resolution i) (\<lambda>_. Inr i) else Inl (FieldError ''Incident''))"

section \<open>The repository (storage/incident.py)\<close>

text \<open>
  The document of an ingested event holds the fields of the event and one more, the incident it made.
  The contract forbids fields of other names (\<open>extra="forbid"\<close>), so an event with that field in its
  document does not validate.
\<close>

record ingestion_doc =
  idoc_event :: ingestion_event
  idoc_incident_id :: "string option"

definition validate_ingestion_doc :: "ingestion_doc \<Rightarrow> ingestion_event result" where
  "validate_ingestion_doc d =
     (if idoc_incident_id d = None \<and> ingestion_event_fields_ok (idoc_event d) then Inr (idoc_event d)
      else Inl (FieldError ''IngestionEvent''))"

text \<open>The incidents of an organisation by name, and the ingested events by organisation and identity.\<close>

record incident_store =
  is_incidents :: "string \<Rightarrow> (string \<times> incident) list"
  is_events :: "string \<times> string \<rightharpoonup> ingestion_doc"

definition empty_incidents :: incident_store where
  "empty_incidents = \<lparr>is_incidents = (\<lambda>_. []), is_events = Map.empty\<rparr>"

definition event_key :: "(string \<Rightarrow> string) \<Rightarrow> ingestion_event \<Rightarrow> string \<times> string" where
  "event_key sha e = (ing_organisation_id e, sha (join [CHR 0x00] [ing_source e, ing_source_event_id e, ing_kind e]))"

definition ingested_store :: "(string \<Rightarrow> string) \<Rightarrow> incident \<Rightarrow> ingestion_event \<Rightarrow> incident_store \<Rightarrow> incident_store" where
  "ingested_store sha i e s =
     s\<lparr>is_incidents := (is_incidents s)(inc_organisation_id i := is_incidents s (inc_organisation_id i) @ [(inc_id i, i)]),
       is_events := (is_events s)(event_key sha e \<mapsto> \<lparr>idoc_event = e, idoc_incident_id = Some (inc_id i)\<rparr>)\<rparr>"

definition incident_ingest ::
  "(string \<Rightarrow> string) \<Rightarrow> incident \<Rightarrow> ingestion_event \<Rightarrow> incident_store \<Rightarrow> ((incident \<times> bool) \<times> incident_store) result" where
  "incident_ingest sha i e s =
     bindr (segments [inc_organisation_id i, inc_id i, ing_organisation_id e]) (\<lambda>_.
     case is_events s (event_key sha e) of
       Some existing_event \<Rightarrow>
         (case idoc_incident_id existing_event of
            None \<Rightarrow> Inl (StorageIntegrityError ''ingestion dedupe record has no incident'')
          | Some incident_id \<Rightarrow>
              bindr (validate_ingestion_doc existing_event) (\<lambda>stored_event.
              bindr (require (stable_payload stored_event = stable_payload e)
                (ResourceConflictError ''ingestion event identity was replayed with changes'')) (\<lambda>_.
              bindr (segments [ing_organisation_id e, incident_id]) (\<lambda>_.
              case map_of (is_incidents s (ing_organisation_id e)) incident_id of
                None \<Rightarrow> Inl (StorageIntegrityError ''deduplicated incident is missing'')
              | Some existing \<Rightarrow> bindr (validate_incident existing) (\<lambda>found. Inr ((found, False), s))))))
     | None \<Rightarrow>
         bindr (require (map_of (is_incidents s (inc_organisation_id i)) (inc_id i) = None)
           (ResourceConflictError (''incident ID '' @ inc_id i @ '' already exists''))) (\<lambda>_.
         Inr ((i, True), ingested_store sha i e s)))"

definition incident_get :: "string \<Rightarrow> string \<Rightarrow> incident_store \<Rightarrow> incident result" where
  "incident_get org i s =
     bindr (segments [org, i]) (\<lambda>_.
     case map_of (is_incidents s org) i of
       None \<Rightarrow> Inl (ResourceNotFoundError (''incident '' @ i @ '' was not found''))
     | Some doc \<Rightarrow> validate_incident doc)"

definition incident_list :: "string \<Rightarrow> nat \<Rightarrow> incident_store \<Rightarrow> incident list result" where
  "incident_list org limit s =
     bindr (segments [org]) (\<lambda>_.
     mapr (\<lambda>(name, doc). validate_incident doc) (take limit (sort_key fst (is_incidents s org))))"

definition set_incident :: "string \<Rightarrow> string \<Rightarrow> incident \<Rightarrow> incident_store \<Rightarrow> incident_store" where
  "set_incident org i d s = s\<lparr>is_incidents := (is_incidents s)(org := AList.update i d (is_incidents s org))\<rparr>"

definition bumped :: "(incident \<Rightarrow> incident) \<Rightarrow> incident \<Rightarrow> incident" where
  "bumped values current = (values current)\<lparr>inc_revision := inc_revision current + 1\<rparr>"

definition incident_update ::
  "string \<Rightarrow> string \<Rightarrow> int \<Rightarrow> (incident \<Rightarrow> incident) \<Rightarrow> incident_store \<Rightarrow> (incident \<times> incident_store) result" where
  "incident_update org i expected_revision values s =
     bindr (incident_get org i s) (\<lambda>current.
     bindr (require (inc_revision current = expected_revision)
       (ResourceConflictError (''incident expected revision '' @ int_text expected_revision @ '', found ''
          @ int_text (inc_revision current)))) (\<lambda>_.
     Inr (bumped values current, set_incident org i (bumped values current) s)))"

definition correlated :: "correlation_candidate list \<Rightarrow> string option \<Rightarrow> int \<Rightarrow> incident \<Rightarrow> incident" where
  "correlated candidates credential_id updated_at i =
     i\<lparr>inc_candidates := candidates, inc_credential_id := credential_id,
       inc_status := (if credential_id = None \<or> credential_id = Some [] then Inc_Correlating else Inc_Action),
       inc_updated_at := updated_at\<rparr>"

definition incident_correlate ::
  "string \<Rightarrow> string \<Rightarrow> int \<Rightarrow> correlation_candidate list \<Rightarrow> string option \<Rightarrow> int \<Rightarrow> incident_store
     \<Rightarrow> (incident \<times> incident_store) result" where
  "incident_correlate org i expected_revision candidates credential_id updated_at s =
     incident_update org i expected_revision (correlated candidates credential_id updated_at) s"

definition linked :: "string \<Rightarrow> string \<Rightarrow> int \<Rightarrow> incident \<Rightarrow> incident" where
  "linked credential_id run updated_at i =
     i\<lparr>inc_credential_id := Some credential_id, inc_run_id := Some run, inc_status := Inc_Rotating,
       inc_updated_at := updated_at\<rparr>"

definition incident_link_run ::
  "string \<Rightarrow> string \<Rightarrow> int \<Rightarrow> string \<Rightarrow> string \<Rightarrow> int \<Rightarrow> incident_store \<Rightarrow> (incident \<times> incident_store) result" where
  "incident_link_run org i expected_revision credential_id run updated_at s =
     incident_update org i expected_revision (linked credential_id run updated_at) s"

definition advanced :: "incident_status \<Rightarrow> int \<Rightarrow> incident \<Rightarrow> incident" where
  "advanced status updated_at i = i\<lparr>inc_status := status, inc_updated_at := updated_at\<rparr>"

definition advance_allowed :: "incident \<Rightarrow> incident_status \<Rightarrow> bool" where
  "advance_allowed current status =
     (if status = Inc_Contained then inc_status current = Inc_Rotating
      else inc_status current \<in> {Inc_Rotating, Inc_Contained})"

text \<open>The incidents updated before an error stay updated.\<close>

fun advance_loop ::
  "string \<Rightarrow> incident_status \<Rightarrow> int \<Rightarrow> incident list \<Rightarrow> incident_store \<Rightarrow> incident list result \<times> incident_store" where
  "advance_loop org status updated_at [] s = (Inr [], s)"
| "advance_loop org status updated_at (doc # docs) s =
     (case validate_incident doc of
        Inl e \<Rightarrow> (Inl e, s)
      | Inr current \<Rightarrow>
          if inc_status current = status \<or> inc_status current = Inc_Resolved \<and> status = Inc_Contained
          then (case advance_loop org status updated_at docs s of
                  (r, s') \<Rightarrow> (bindr r (\<lambda>is. Inr (current # is)), s'))
          else if \<not> advance_allowed current status
          then (Inl (ResourceConflictError (''incident '' @ inc_id current @ '' cannot advance from ''
                  @ incident_status_value (inc_status current))), s)
          else
            (case incident_update org (inc_id current) (inc_revision current) (advanced status updated_at) s of
               Inl e \<Rightarrow> (Inl e, s)
             | Inr (changed, s1) \<Rightarrow>
                 (case advance_loop org status updated_at docs s1 of
                    (r, s') \<Rightarrow> (bindr r (\<lambda>is. Inr (changed # is)), s'))))"

definition incident_advance_run ::
  "string \<Rightarrow> string \<Rightarrow> incident_status \<Rightarrow> int \<Rightarrow> incident_store \<Rightarrow> incident list result \<times> incident_store" where
  "incident_advance_run org run status updated_at s =
     (case segments [org] of
        Inl e \<Rightarrow> (Inl e, s)
      | Inr _ \<Rightarrow>
          advance_loop org status updated_at
            (filter (\<lambda>d. inc_run_id d = Some run) (map snd (sort_key fst (is_incidents s org)))) s)"

definition dismissed :: "string \<Rightarrow> int \<Rightarrow> incident \<Rightarrow> incident" where
  "dismissed reason updated_at i =
     i\<lparr>inc_status := Inc_Dismissed, inc_dismissal_reason := Some reason, inc_updated_at := updated_at\<rparr>"

definition incident_dismiss ::
  "string \<Rightarrow> string \<Rightarrow> int \<Rightarrow> string \<Rightarrow> int \<Rightarrow> incident_store \<Rightarrow> (incident \<times> incident_store) result" where
  "incident_dismiss org i expected_revision reason updated_at s =
     bindr (incident_get org i s) (\<lambda>current.
     if inc_status current = Inc_Dismissed then Inr (current, s)
     else
       bindr (require (inc_status current \<in> {Inc_New, Inc_Correlating, Inc_Action})
         (ResourceConflictError (''incident '' @ i @ '' cannot be dismissed from ''
            @ incident_status_value (inc_status current)))) (\<lambda>_.
       incident_update org i expected_revision (dismissed reason updated_at) s))"

end
