(* ===== verification/Incident_Service.thy ===== *)
theory Incident_Service imports Incidents begin

text \<open>
  The incident service (server/core/incident/service.py) with what it reads of the inventory
  (server/core/storage/inventory.py) and the automation in front of it
  (server/ingestion/automation.py), which turns an ingested event into a rotation. The service writes
  to the incident store, to the audit log and, through the run workflow, to the run store; a step that
  fails keeps what the steps before it wrote. The notifier is an argument that may fail; the readings of
  the clock are arguments.
\<close>

section \<open>What the service reads of the inventory\<close>

record consumer_service =
  csv_id :: string
  csv_organisation_id :: string
  csv_application_id :: string
  csv_environment_id :: string
  csv_runtime_connection_id :: string
  csv_telemetry_connection_ids :: "string list"
  csv_runtime_resource :: string
  csv_display_name :: string
  csv_endpoint :: "string option"
  csv_repository :: "string option"
  csv_identity :: "string option"
  csv_created_at :: int
  csv_updated_at :: int
  csv_archived_at :: "int option"
  csv_revision :: int

definition consumer_service_fields_ok :: "consumer_service \<Rightarrow> bool" where
  "consumer_service_fields_ok v \<longleftrightarrow>
     identifier_ok (csv_id v) \<and> identifier_ok (csv_organisation_id v) \<and> identifier_ok (csv_application_id v)
     \<and> identifier_ok (csv_environment_id v) \<and> identifier_ok (csv_runtime_connection_id v)
     \<and> list_all identifier_ok (csv_telemetry_connection_ids v) \<and> text_between 1 512 (csv_runtime_resource v)
     \<and> text_between 1 160 (csv_display_name v) \<and> opt_ok (text_between 0 2048) (csv_endpoint v)
     \<and> opt_ok (text_between 0 256) (csv_repository v) \<and> opt_ok (text_between 1 512) (csv_identity v) \<and> 0 \<le> csv_revision v"

definition validate_connections :: "consumer_service \<Rightarrow> unit result" where
  "validate_connections v =
     bindr (require (distinct (csv_telemetry_connection_ids v))
       (ValidationError ''service telemetry connection IDs must be unique'')) (\<lambda>_.
     require (csv_runtime_connection_id v \<notin> set (csv_telemetry_connection_ids v))
       (ValidationError ''service runtime and telemetry connections must be distinct''))"

definition validate_service :: "consumer_service \<Rightarrow> consumer_service result" where
  "validate_service v =
     (if consumer_service_fields_ok v then bindr (validate_connections v) (\<lambda>_. Inr v)
      else Inl (FieldError ''ConsumerService''))"

text \<open>The collections of an organisation in the order of their stream, and the control versions.\<close>

record inventory =
  inv_credentials :: "string \<Rightarrow> managed_credential list"
  inv_services :: "string \<Rightarrow> consumer_service list"
  inv_bindings :: "string \<Rightarrow> consumer_binding list"
  inv_controls :: "string \<times> string \<times> string \<rightharpoonup> control_version"

definition inventory_list :: "('a \<Rightarrow> 'a result) \<Rightarrow> 'a list \<Rightarrow> 'a list result" where
  "inventory_list validate docs = mapr validate (take 1000 docs)"

definition inventory_credentials :: "inventory \<Rightarrow> string \<Rightarrow> managed_credential list result" where
  "inventory_credentials iv org = inventory_list validate_credential (inv_credentials iv org)"

definition inventory_services :: "inventory \<Rightarrow> string \<Rightarrow> consumer_service list result" where
  "inventory_services iv org = inventory_list validate_service (inv_services iv org)"

definition inventory_bindings :: "inventory \<Rightarrow> string \<Rightarrow> consumer_binding list result" where
  "inventory_bindings iv org = inventory_list validate_binding (inv_bindings iv org)"

definition get_control_version :: "inventory \<Rightarrow> string \<Rightarrow> string \<Rightarrow> string \<Rightarrow> control_version result" where
  "get_control_version iv org credential_id version_id =
     bindr (segments [org, credential_id, version_id]) (\<lambda>_.
     case inv_controls iv (org, credential_id, version_id) of
       None \<Rightarrow> Inl (ResourceNotFoundError (''resource organisations/'' @ org @ ''/credentials/'' @ credential_id
                 @ ''/control-versions/'' @ version_id @ '' was not found''))
     | Some doc \<Rightarrow> validate_control_version doc)"

section \<open>The service\<close>

text \<open>A notification as the service emits it.\<close>

record notice =
  nt_event_id :: string
  nt_organisation_id :: string
  nt_kind :: string
  nt_severity :: severity
  nt_title :: string
  nt_body :: string
  nt_link_path :: string
  nt_resource_id :: string
  nt_run_id :: "string option"
  nt_incident_id :: string

record incident_service =
  isv_sha :: "string \<Rightarrow> string"
  isv_time :: "int \<Rightarrow> string"
  isv_fmt :: "int \<Rightarrow> string"
  isv_inventory :: "inventory option"
  isv_workflow :: bool
  isv_notifier :: "(notice \<Rightarrow> error option) option"
  isv_region :: "string option"

record incident_state =
  ic_incidents :: incident_store
  ic_runs :: run_store
  ic_audit :: audit_store

definition with_incidents :: "incident_store \<Rightarrow> incident_state \<Rightarrow> incident_state" where
  "with_incidents i s = s\<lparr>ic_incidents := i\<rparr>"

definition incident_audit_id :: "(string \<Rightarrow> string) \<Rightarrow> string list \<Rightarrow> string" where
  "incident_audit_id sha values = ''audit_'' @ take 40 (sha (join [CHR 0x00] values))"

text \<open>The audit event of an updated incident, when the service has a writer.\<close>

definition audit_incident ::
  "incident_service \<Rightarrow> incident \<Rightarrow> string \<Rightarrow> string \<Rightarrow> payload \<Rightarrow> string option \<Rightarrow> 'a \<Rightarrow> incident_state
     \<Rightarrow> 'a result \<times> incident_state" where
  "audit_incident svc i kind actor p run out s =
     (case isv_region svc of
        None \<Rightarrow> (Inr out, s)
      | Some region \<Rightarrow>
          (case writer_append (isv_sha svc) (isv_fmt svc) region (inc_updated_at i)
                  (incident_audit_id (isv_sha svc) [inc_id i, int_text (inc_revision i)]) (inc_organisation_id i) kind actor
                  (''incidents/'' @ inc_id i) p run [] (Some (inc_updated_at i)) (ic_audit s) of
             Inl e \<Rightarrow> (Inl e, s)
           | Inr (_, audit) \<Rightarrow> (Inr out, s\<lparr>ic_audit := audit\<rparr>)))"

definition incident_notice :: "incident \<Rightarrow> ingestion_event \<Rightarrow> notice option" where
  "incident_notice i e =
     map_option (\<lambda>(kind, title, body).
       \<lparr>nt_event_id = ing_id e, nt_organisation_id = inc_organisation_id i, nt_kind = kind, nt_severity = inc_severity i,
        nt_title = title, nt_body = ''Uumi incident '' @ inc_id i @ body,
        nt_link_path = ''/organisations/'' @ inc_organisation_id i @ ''/incidents/'' @ inc_id i,
        nt_resource_id = inc_id i, nt_run_id = inc_run_id i, nt_incident_id = inc_id i\<rparr>)
     (if ing_source e = ''schedule''
      then Some (''rotation-due'', ''Scheduled credential rotation is due'', '' is ready for its scheduled rotation.'')
      else if inc_status i = Inc_Correlating
      then Some (''incident-confirmation'', ''Credential incident needs confirmation'',
                 '' has ambiguous credential matches.'')
      else if inc_severity i \<in> {Sev_Critical, Sev_High} \<and> inc_confidence i \<in> {ConfHigh, ConfVerified}
      then Some (''incident'', ''Credential incident detected'', '' requires review and containment.'')
      else None)"

definition notify_incident :: "incident_service \<Rightarrow> incident \<Rightarrow> ingestion_event \<Rightarrow> unit result" where
  "notify_incident svc i e =
     (case isv_notifier svc of
        None \<Rightarrow> Inr ()
      | Some emit \<Rightarrow>
          (case incident_notice i e of
             None \<Rightarrow> Inr ()
           | Some n \<Rightarrow> (case emit n of None \<Rightarrow> Inr () | Some err \<Rightarrow> Inl err)))"

definition correlate_incident ::
  "string \<Rightarrow> string \<Rightarrow> int \<Rightarrow> correlation_candidate list \<Rightarrow> int \<Rightarrow> incident_store \<Rightarrow> (incident \<times> incident_store) result" where
  "correlate_incident org i expected_revision candidates now s =
     (let verified = filter (\<lambda>c. cand_confidence c = ConfVerified) candidates in
      bindr (require (\<not> 1 < length verified)
        (ResourceConflictError ''an incident cannot have multiple verified credentials'')) (\<lambda>_.
      incident_correlate org i expected_revision candidates
        (case verified of [] \<Rightarrow> None | c # _ \<Rightarrow> Some (cand_credential_id c)) now s))"

subsection \<open>Candidates\<close>

fun contains :: "string \<Rightarrow> string \<Rightarrow> bool" where
  "contains sub [] = (sub = [])"
| "contains sub (c # cs) = (starts_with sub (c # cs) \<or> contains sub cs)"

definition secret_resource :: "string \<Rightarrow> string" where
  "secret_resource reference =
     (if contains ''/versions/'' reference then partition_head ''/versions/'' reference else reference)"

text \<open>
  A check of the scoring that holds adds its points and its reason, and makes the match exact or not.
\<close>

type_synonym points = "nat \<times> bool \<times> string"

definition exposure_matches :: "ingestion_event \<Rightarrow> control_version \<Rightarrow> bool" where
  "exposure_matches e controls \<longleftrightarrow>
     list_ex (\<lambda>source. Some (exp_connection_id source) = src_connection_id (ing_resource e)
        \<and> Some (exp_resource source) = src_repository (ing_resource e)) (cd_exposure_sources (cv_definition controls))"

definition truthy :: "string option \<Rightarrow> bool" where
  "truthy x \<longleftrightarrow> x \<noteq> None \<and> x \<noteq> Some []"

definition resource_terms :: "source_resource \<Rightarrow> string list" where
  "resource_terms r =
     (case src_project r of None \<Rightarrow> [] | Some v \<Rightarrow> [v]) @ (case src_service r of None \<Rightarrow> [] | Some v \<Rightarrow> [v])"

text \<open>Every check with the points it adds when it holds.\<close>

definition credential_checks ::
  "ingestion_event \<Rightarrow> control_version option \<Rightarrow> consumer_binding list \<Rightarrow> consumer_service list \<Rightarrow> managed_credential
     \<Rightarrow> (bool \<times> points) list" where
  "credential_checks e controls bound consumers c =
     (let r = ing_resource e in
      [((case controls of None \<Rightarrow> False | Some v \<Rightarrow> exposure_matches e v),
          200, True, ''configured exposure source matches exactly''),
       (src_credential_id r = Some (mc_id c), 200, True, ''managed credential identifier matches exactly''),
       (src_provider r = Some (mc_provider c), 20, False, ''provider matches inventory''),
       (src_provider_id r \<noteq> None \<and> src_provider_id r = mc_provider_id c,
          100, True, ''provider identifier matches exactly''),
       (src_provider_id r \<noteq> None
          \<and> list_ex (\<lambda>b. Some (secret_resource (cb_secret_reference b)) = src_provider_id r) bound,
          100, True, ''secret resource matches consumer binding exactly''),
       (truthy (src_repository r) \<and> list_ex (\<lambda>v. csv_repository v = src_repository r) consumers,
          50, False, ''repository consumes credential''),
       (resource_terms r \<noteq> []
          \<and> list_ex (\<lambda>v. list_ex (\<lambda>term. contains term (csv_runtime_resource v)) (resource_terms r)) consumers,
          30, False, ''runtime resource matches incident'')])"

record scored =
  sc_score :: nat
  sc_exact :: bool
  sc_credential :: managed_credential
  sc_reasons :: "string list"

definition score_credential ::
  "ingestion_event \<Rightarrow> control_version option \<Rightarrow> consumer_binding list \<Rightarrow> consumer_service list \<Rightarrow> managed_credential
     \<Rightarrow> scored" where
  "score_credential e controls bindings services c =
     (let bound = filter (\<lambda>b. cb_credential_id b = mc_id c) bindings;
          by_id = map_of (rev (map (\<lambda>v. (csv_id v, v)) services));
          consumers = List.map_filter (\<lambda>b. by_id (cb_service_id b)) bound;
          held = map snd (filter fst (credential_checks e controls bound consumers c))
      in \<lparr>sc_score = sum_list (map fst held), sc_exact = list_ex (\<lambda>p. fst (snd p)) held, sc_credential = c,
          sc_reasons = map (\<lambda>p. snd (snd p)) held\<rparr>)"

definition credential_controls :: "inventory \<Rightarrow> ingestion_event \<Rightarrow> managed_credential \<Rightarrow> control_version option result" where
  "credential_controls iv e c =
     (if src_connection_id (ing_resource e) \<noteq> None \<and> src_repository (ing_resource e) \<noteq> None
      then bindr (get_control_version iv (ing_organisation_id e) (mc_id c) (mc_control_version c)) (\<lambda>v. Inr (Some v))
      else Inr None)"

definition make_candidate :: "scored list \<Rightarrow> scored \<Rightarrow> correlation_candidate result" where
  "make_candidate scored item =
     (let exact_ids = remdups (map (\<lambda>x. mc_id (sc_credential x)) (filter sc_exact scored));
          c = \<lparr>cand_credential_id = mc_id (sc_credential item),
               cand_confidence = (if sc_exact item \<and> length exact_ids = 1 then ConfVerified
                                  else if 50 \<le> sc_score item then ConfHigh else ConfMedium),
               cand_reasons = sc_reasons item, cand_consumer_ids = mc_consumer_ids (sc_credential item)\<rparr>
      in if correlation_candidate_fields_ok c then Inr c else Inl (FieldError ''CorrelationCandidate''))"

definition incident_candidates :: "inventory \<Rightarrow> ingestion_event \<Rightarrow> correlation_candidate list result" where
  "incident_candidates iv e =
     bindr (inventory_credentials iv (ing_organisation_id e)) (\<lambda>credentials.
     bindr (inventory_services iv (ing_organisation_id e)) (\<lambda>services.
     bindr (inventory_bindings iv (ing_organisation_id e)) (\<lambda>bindings.
     bindr (mapr (\<lambda>c. bindr (credential_controls iv e c) (\<lambda>controls.
              Inr (score_credential e controls bindings services c))) credentials) (\<lambda>all.
     let scored = filter (\<lambda>x. 0 < sc_score x) all
     in mapr (make_candidate scored) (sort_key (\<lambda>x. - int (sc_score x)) scored)))))"

subsection \<open>Operations\<close>

definition new_incident :: "string \<Rightarrow> ingestion_event \<Rightarrow> int \<Rightarrow> int \<Rightarrow> incident" where
  "new_incident incident_id e created_at updated_at =
     \<lparr>inc_id = incident_id, inc_organisation_id = ing_organisation_id e, inc_event_id = ing_id e,
      inc_source = ing_source e, inc_kind = ing_kind e, inc_source_event_id = ing_source_event_id e,
      inc_severity = ing_severity e, inc_confidence = ing_confidence e, inc_status = Inc_New,
      inc_resource = ing_resource e, inc_candidates = [], inc_credential_id = None, inc_run_id = None,
      inc_dismissal_reason = None, inc_created_at = created_at, inc_updated_at = updated_at, inc_revision = 0\<rparr>"

text \<open>The clock is read for the two times of the incident and again for the correlation.\<close>

definition service_ingest ::
  "incident_service \<Rightarrow> int \<Rightarrow> int \<Rightarrow> int \<Rightarrow> string \<Rightarrow> ingestion_event \<Rightarrow> incident_state
     \<Rightarrow> (incident \<times> bool) result \<times> incident_state" where
  "service_ingest svc created_at updated_at correlated_at incident_id e s =
     (case bindr (validate_incident (new_incident incident_id e created_at updated_at))
             (\<lambda>i. incident_ingest (isv_sha svc) i e (ic_incidents s)) of
        Inl err \<Rightarrow> (Inl err, s)
      | Inr ((stored, applied), incidents) \<Rightarrow>
          let s1 = with_incidents incidents s in
          (case (applied, isv_inventory svc) of
             (True, Some iv) \<Rightarrow>
               (case bindr (incident_candidates iv e) (\<lambda>candidates.
                       correlate_incident (ing_organisation_id e) (inc_id stored) (inc_revision stored) candidates
                         correlated_at incidents) of
                  Inl err \<Rightarrow> (Inl err, s1)
                | Inr (i, incidents') \<Rightarrow>
                    let s2 = with_incidents incidents' s1 in
                    (case notify_incident svc i e of
                       Inl err \<Rightarrow> (Inl err, s2)
                     | Inr _ \<Rightarrow>
                         audit_incident svc i ''incident.ingested'' ''ingestion_one''
                           [(''source'', SStr (inc_source i)), (''severity'', SStr (severity_value (inc_severity i))),
                            (''confidence'', SStr (confidence_value (inc_confidence i))),
                            (''status'', SStr (incident_status_value (inc_status i))),
                            (''credential_id'', case inc_credential_id i of None \<Rightarrow> SNone | Some c \<Rightarrow> SStr c)]
                           None (i, applied) s2))
           | _ \<Rightarrow> (bindr (notify_incident svc stored e) (\<lambda>_. Inr (stored, applied)), s1)))"

definition service_get :: "string \<Rightarrow> string \<Rightarrow> incident_state \<Rightarrow> incident result" where
  "service_get org i s = incident_get org i (ic_incidents s)"

definition incidents_newest :: "incident list \<Rightarrow> incident list" where
  "incidents_newest is = rev (sort_key (\<lambda>i. (inc_created_at i, inc_id i)) (rev is))"

definition LIST_INCIDENTS_LIMIT :: nat where
  "LIST_INCIDENTS_LIMIT = 500"

definition service_list_incidents ::
  "string \<Rightarrow> incident_status list option \<Rightarrow> nat \<Rightarrow> incident_state \<Rightarrow> incident list result" where
  "service_list_incidents org statuses limit s =
     bindr (incident_list org LIST_INCIDENTS_LIMIT (ic_incidents s)) (\<lambda>is.
     let chosen = (case statuses of None \<Rightarrow> is | Some ss \<Rightarrow> filter (\<lambda>i. inc_status i \<in> set ss) is)
     in Inr (take limit (incidents_newest chosen)))"

definition confirmed_candidates :: "string \<Rightarrow> correlation_candidate list \<Rightarrow> correlation_candidate list" where
  "confirmed_candidates credential_id candidates =
     map (\<lambda>c. c\<lparr>cand_confidence :=
            (if cand_credential_id c = credential_id then ConfVerified
             else if cand_confidence c = ConfVerified then ConfHigh else cand_confidence c)\<rparr>) candidates"

definition check_incident_revision :: "incident \<Rightarrow> int \<Rightarrow> unit result" where
  "check_incident_revision i expected_revision =
     require (inc_revision i = expected_revision)
       (ResourceConflictError (''incident expected revision '' @ int_text expected_revision @ '', found ''
          @ int_text (inc_revision i)))"

definition service_confirm ::
  "incident_service \<Rightarrow> int \<Rightarrow> string \<Rightarrow> string \<Rightarrow> int \<Rightarrow> string \<Rightarrow> string \<Rightarrow> incident_state
     \<Rightarrow> incident result \<times> incident_state" where
  "service_confirm svc now org i expected_revision credential_id actor s =
     (case bindr (incident_get org i (ic_incidents s)) (\<lambda>incident.
             bindr (check_incident_revision incident expected_revision) (\<lambda>_.
             bindr (require (inc_status incident \<in> {Inc_Correlating, Inc_Action})
               (ResourceConflictError ''incident cannot be confirmed in its current state'')) (\<lambda>_.
             bindr (require (credential_id \<in> set (map cand_credential_id (inc_candidates incident)))
               (ResourceConflictError ''credential is not a correlated incident candidate'')) (\<lambda>_.
             correlate_incident org i expected_revision (confirmed_candidates credential_id (inc_candidates incident))
               now (ic_incidents s))))) of
        Inl err \<Rightarrow> (Inl err, s)
      | Inr (confirmed, incidents) \<Rightarrow>
          audit_incident svc confirmed ''incident.confirmed'' actor
            [(''credential_id'', SStr credential_id), (''revision'', SInt (inc_revision confirmed))] None confirmed
            (with_incidents incidents s))"

definition rotation_run_id :: "(string \<Rightarrow> string) \<Rightarrow> string \<Rightarrow> string" where
  "rotation_run_id sha command_id = ''run_'' @ take 40 (sha command_id)"

definition rotation_command ::
  "(string \<Rightarrow> string) \<Rightarrow> string \<Rightarrow> incident \<Rightarrow> string \<Rightarrow> string \<Rightarrow> string \<Rightarrow> string \<Rightarrow> string \<Rightarrow> string \<Rightarrow> int
     \<Rightarrow> create_command" where
  "rotation_command sha org incident credential_id command_id actor control_version reason urgency received_at =
     \<lparr>create_id = command_id, create_organisation_id = org, create_credential_id = credential_id,
      create_control_version = control_version,
      create_trigger = \<lparr>trigger_source = inc_source incident, trigger_kind = inc_kind incident,
        trigger_event_id = inc_event_id incident, trigger_actor_id = actor, trigger_reason = reason,
        trigger_urgency = urgency, trigger_received_at = received_at\<rparr>,
      create_run_id = Some (rotation_run_id sha command_id)\<rparr>"

text \<open>The incident that may be rotated, and its credential.\<close>

definition rotatable :: "(string \<Rightarrow> string) \<Rightarrow> string \<Rightarrow> incident \<Rightarrow> string result" where
  "rotatable sha command_id incident =
     (case inc_credential_id incident of
        None \<Rightarrow> Inl (ResourceConflictError ''incident has no verified credential for rotation'')
      | Some credential_id \<Rightarrow>
          bindr (require (inc_status incident \<in> {Inc_Action, Inc_Rotating})
            (ResourceConflictError ''incident has no verified credential for rotation'')) (\<lambda>_.
          bindr (require (\<not> (inc_run_id incident \<noteq> None \<and> inc_run_id incident \<noteq> Some (rotation_run_id sha command_id)))
            (ResourceConflictError ''incident is already linked to another rotation'')) (\<lambda>_.
          Inr credential_id)))"

definition service_start_rotation ::
  "incident_service \<Rightarrow> int \<Rightarrow> int \<Rightarrow> string \<Rightarrow> string \<Rightarrow> string \<Rightarrow> string \<Rightarrow> string \<Rightarrow> string \<Rightarrow> string \<Rightarrow> int
     \<Rightarrow> incident_state \<Rightarrow> (incident \<times> rotation_run \<times> bool) result \<times> incident_state" where
  "service_start_rotation svc created_at linked_at org i command_id actor control_version reason urgency received_at s =
     (if \<not> isv_workflow svc then (Inl (RuntimeError ''incident rotation workflow is not configured''), s)
      else
       (case bindr (incident_get org i (ic_incidents s)) (\<lambda>incident.
               bindr (rotatable (isv_sha svc) command_id incident) (\<lambda>credential_id.
               let c = rotation_command (isv_sha svc) org incident credential_id command_id actor control_version reason
                         urgency received_at in
               bindr (if create_command_fields_ok c then Inr c else Inl (FieldError ''CreateRunCommand'')) (\<lambda>c.
               bindr (workflow_create (isv_sha svc) (isv_time svc) (ic_runs s) created_at [] c) (\<lambda>(m, runs).
               Inr (incident, credential_id, m, runs))))) of
          Inl err \<Rightarrow> (Inl err, s)
        | Inr (incident, credential_id, m, runs) \<Rightarrow>
            let s1 = s\<lparr>ic_runs := runs\<rparr> in
            if inc_status incident = Inc_Rotating then (Inr (incident, mr_run m, False), s1)
            else
             (case incident_link_run org (inc_id incident) (inc_revision incident) credential_id (run_id (mr_run m))
                     linked_at (ic_incidents s1) of
                Inl err \<Rightarrow> (Inl err, s1)
              | Inr (attached, incidents) \<Rightarrow>
                  audit_incident svc attached ''incident.rotation-started'' actor
                    [(''credential_id'', case inc_credential_id attached of None \<Rightarrow> SNone | Some c \<Rightarrow> SStr c),
                     (''run_id'', SStr (run_id (mr_run m)))]
                    (Some (run_id (mr_run m))) (attached, mr_run m, mr_applied m) (with_incidents incidents s1))))"

definition service_advance_run ::
  "int \<Rightarrow> string \<Rightarrow> string \<Rightarrow> incident_status \<Rightarrow> incident_state \<Rightarrow> incident list result \<times> incident_state" where
  "service_advance_run now org run status s =
     (if status \<notin> {Inc_Contained, Inc_Resolved}
      then (Inl (ValueError ''run-linked incidents only advance to contained or resolved''), s)
      else (case incident_advance_run org run status now (ic_incidents s) of
              (r, incidents) \<Rightarrow> (r, with_incidents incidents s)))"

definition service_dismiss ::
  "incident_service \<Rightarrow> int \<Rightarrow> string \<Rightarrow> string \<Rightarrow> int \<Rightarrow> string \<Rightarrow> string \<Rightarrow> incident_state
     \<Rightarrow> incident result \<times> incident_state" where
  "service_dismiss svc now org i expected_revision reason actor s =
     (case bindr (incident_get org i (ic_incidents s)) (\<lambda>incident.
             bindr (check_incident_revision incident expected_revision) (\<lambda>_. Inr incident)) of
        Inl err \<Rightarrow> (Inl err, s)
      | Inr incident \<Rightarrow>
          if inc_status incident = Inc_Dismissed then (Inr incident, s)
          else if inc_status incident \<notin> {Inc_New, Inc_Correlating, Inc_Action}
          then (Inl (ResourceConflictError ''incident cannot be dismissed after rotation starts''), s)
          else
           (case incident_dismiss org i expected_revision reason now (ic_incidents s) of
              Inl err \<Rightarrow> (Inl err, s)
            | Inr (closed, incidents) \<Rightarrow>
                audit_incident svc closed ''incident.dismissed'' actor
                  [(''reason'', SStr reason), (''revision'', SInt (inc_revision closed))] (inc_run_id closed) closed
                  (with_incidents incidents s)))"

section \<open>The automation (ingestion/automation.py)\<close>

fun confidence_level :: "confidence \<Rightarrow> nat" where
  "confidence_level ConfLow = 0"
| "confidence_level ConfMedium = 1"
| "confidence_level ConfHigh = 2"
| "confidence_level ConfVerified = 3"

definition automatic :: "control_version \<Rightarrow> ingestion_event \<Rightarrow> confidence \<Rightarrow> bool" where
  "automatic controls e c \<longleftrightarrow>
     ing_kind e \<in> set (cd_automatic_triggers (cv_definition controls))
     \<and> confidence_level (cd_minimum_automatic_confidence (cv_definition controls)) \<le> confidence_level c"

definition event_identifier :: "(string \<Rightarrow> string) \<Rightarrow> string \<Rightarrow> string \<Rightarrow> string" where
  "event_identifier sha prefix i = prefix @ ''_'' @ take 40 (sha i)"

definition rotation_reason :: "string \<Rightarrow> string" where
  "rotation_reason kind =
     (case map_of
        [(''credential-rotation-due'', ''The configured rotation time was reached.''),
         (''credential-expiring'', ''The credential reached its configured rotation window.''),
         (''credential-exposure-detected'', ''A verified credential exposure was detected.''),
         (''credential-provider-drift'', ''The provider credential no longer matches inventory.''),
         (''credential-inventory-drift'', ''The credential inventory mapping changed.''),
         (''credential-runtime-drift'', ''A runtime credential binding changed.'')] kind of
        Some reason \<Rightarrow> reason
      | None \<Rightarrow> ''A configured credential control started the rotation.'')"

text \<open>The credential of the inventory and its controls.\<close>

definition automation_credential :: "inventory \<Rightarrow> string \<Rightarrow> string \<Rightarrow> managed_credential result" where
  "automation_credential iv org credential_id =
     bindr (inventory_credentials iv org) (\<lambda>cs.
     case filter (\<lambda>c. mc_id c = credential_id) cs of
       [c] \<Rightarrow> Inr c
     | _ \<Rightarrow> Inl (ResourceConflictError ''correlated credential disappeared from inventory''))"

definition automation_controls :: "inventory \<Rightarrow> string \<Rightarrow> string \<Rightarrow> (managed_credential \<times> control_version) result" where
  "automation_controls iv org credential_id =
     bindr (automation_credential iv org credential_id) (\<lambda>c.
     bindr (get_control_version iv org (mc_id c) (mc_control_version c)) (\<lambda>v. Inr (c, v)))"

text \<open>A single candidate that the controls admit is confirmed without a person.\<close>

definition automation_confirm ::
  "incident_service \<Rightarrow> inventory \<Rightarrow> int \<Rightarrow> ingestion_event \<Rightarrow> incident \<Rightarrow> incident_state
     \<Rightarrow> incident result \<times> incident_state" where
  "automation_confirm svc iv now e i s =
     (case inc_candidates i of
        [candidate] \<Rightarrow>
          if inc_status i = Inc_Correlating
          then (case automation_controls iv (ing_organisation_id e) (cand_credential_id candidate) of
                  Inl err \<Rightarrow> (Inl err, s)
                | Inr (c, controls) \<Rightarrow>
                    if automatic controls e (cand_confidence candidate)
                    then service_confirm svc now (ing_organisation_id e) (inc_id i) (inc_revision i) (mc_id c)
                           ''ingestion_one'' s
                    else (Inr i, s))
          else (Inr i, s)
      | _ \<Rightarrow> (Inr i, s))"

definition automation_rotate ::
  "incident_service \<Rightarrow> int \<Rightarrow> int \<Rightarrow> ingestion_event \<Rightarrow> incident \<Rightarrow> control_version \<Rightarrow> incident_state
     \<Rightarrow> incident result \<times> incident_state" where
  "automation_rotate svc created_at linked_at e i controls s =
     (let urgency = (if ing_kind e \<in> set (cd_emergency_triggers (cv_definition controls)) then ''emergency'' else ''routine'');
          org = ing_organisation_id e
      in case service_start_rotation svc created_at linked_at org (inc_id i) (event_identifier (isv_sha svc) ''command'' (ing_id e))
                ''uumi_ingestion'' (cv_id controls) (rotation_reason (ing_kind e)) urgency (ing_observed_at e) s of
           (Inr (attached, _, _), s') \<Rightarrow> (Inr attached, s')
         | (Inl (ResourceConflictError m), s') \<Rightarrow>
             (bindr (service_get org (inc_id i) s') (\<lambda>current.
              if inc_status current = Inc_Rotating then Inr current else Inl (ResourceConflictError m)), s')
         | (Inl err, s') \<Rightarrow> (Inl err, s'))"

record clocks =
  clk_created :: int
  clk_updated :: int
  clk_correlated :: int
  clk_confirmed :: int
  clk_run :: int
  clk_linked :: int

definition automation_ingest ::
  "incident_service \<Rightarrow> inventory \<Rightarrow> clocks \<Rightarrow> ingestion_event \<Rightarrow> incident_state
     \<Rightarrow> (incident \<times> bool) result \<times> incident_state" where
  "automation_ingest svc iv clk e s =
     (let org = ing_organisation_id e in
      case service_ingest svc (clk_created clk) (clk_updated clk) (clk_correlated clk)
             (event_identifier (isv_sha svc) ''incident'' (ing_id e)) e s of
        (Inl err, s1) \<Rightarrow> (Inl err, s1)
      | (Inr (i, applied), s1) \<Rightarrow>
          if inc_status i = Inc_Rotating then (Inr (i, applied), s1)
          else
           (case automation_confirm svc iv (clk_confirmed clk) e i s1 of
              (Inl err, s2) \<Rightarrow> (Inl err, s2)
            | (Inr i', s2) \<Rightarrow>
                (case (inc_status i', inc_credential_id i') of
                   (Inc_Action, Some credential_id) \<Rightarrow>
                     (case automation_controls iv org credential_id of
                        Inl err \<Rightarrow> (Inl err, s2)
                      | Inr (c, controls) \<Rightarrow>
                          if \<not> automatic controls e ConfVerified then (Inr (i', applied), s2)
                          else (case automation_rotate svc (clk_run clk) (clk_linked clk) e i' controls s2 of
                                  (r, s3) \<Rightarrow> (bindr r (\<lambda>attached. Inr (attached, applied)), s3)))
                 | _ \<Rightarrow> (Inr (i', applied), s2))))"

end
