(* ===== verification/Incident_Facts.thy ===== *)
theory Incident_Facts imports Incident_Service begin

text \<open>
  Facts about the incident store: every operation of the service changes it by creating an incident or
  by one of four changes of an incident (\<open>incident_change\<close>), each of which bumps the revision; what
  these changes keep.
\<close>

section \<open>Lookups and reads\<close>

definition incident_of :: "incident_store \<Rightarrow> string \<Rightarrow> string \<Rightarrow> incident option" where
  "incident_of s org i = map_of (is_incidents s org) i"

definition incidents_ok :: "incident_store \<Rightarrow> bool" where
  "incidents_ok s \<longleftrightarrow> (\<forall>org. distinct (map fst (is_incidents s org)) \<and> (\<forall>(i, d)\<in>set (is_incidents s org). inc_id d = i))"

lemma incidents_okD: "incidents_ok s \<Longrightarrow> incident_of s org i = Some d \<Longrightarrow> inc_id d = i"
  by (auto simp: incidents_ok_def incident_of_def dest!: map_of_SomeD)

lemma validate_incident_iff [result_iff]:
  "validate_incident d = Inr d' \<longleftrightarrow> incident_fields_ok d \<and> validate_resolution d = Inr () \<and> d' = d"
  by (auto simp: validate_incident_def bindr_eq_Inr)

lemma incident_get_iff:
  "incident_get org i s = Inr d \<longleftrightarrow>
     identifier_ok org \<and> identifier_ok i \<and> incident_of s org i = Some d \<and> validate_incident d = Inr d"
  by (auto simp: incident_get_def incident_of_def bindr_eq_Inr segments_ok validate_incident_iff split: option.splits)

lemma incident_of_set [simp]:
  "incident_of (set_incident org i d s) o' j = (if o' = org \<and> j = i then Some d else incident_of s o' j)"
  by (simp add: incident_of_def set_incident_def update_conv')

lemma events_of_set [simp]: "is_events (set_incident org i d s) = is_events s"
  by (simp add: set_incident_def)

lemma incident_of_ingested:
  assumes "incident_of s (inc_organisation_id d) (inc_id d) = None"
  shows "incident_of (ingested_store sha d e s) o' j =
     (if o' = inc_organisation_id d \<and> j = inc_id d then Some d else incident_of s o' j)"
  using assms by (auto simp: incident_of_def ingested_store_def map_add_def split: option.splits)

lemma incidents_ok_set:
  assumes "incidents_ok s" "inc_id d = i"
  shows "incidents_ok (set_incident org i d s)"
proof -
  have "distinct (map fst (AList.update i d (is_incidents s org)))"
    using assms(1) by (simp add: incidents_ok_def distinct_update)
  moreover have "inc_id e = j" if "(j, e) \<in> set (AList.update i d (is_incidents s org))" for j e
  proof -
    have "map_of (AList.update i d (is_incidents s org)) j = Some e"
      using calculation that by (simp add: map_of_is_SomeI)
    then show ?thesis
      using assms incidents_okD [OF assms(1), of org j e] by (auto simp: update_conv' incident_of_def split: if_splits)
  qed
  ultimately show ?thesis
    using assms(1) by (auto simp: incidents_ok_def set_incident_def)
qed

lemma incidents_ok_ingested:
  assumes "incidents_ok s" "incident_of s (inc_organisation_id d) (inc_id d) = None"
  shows "incidents_ok (ingested_store sha d e s)"
proof -
  have "inc_id d \<notin> fst ` set (is_incidents s (inc_organisation_id d))"
    using assms(2) by (simp add: incident_of_def map_of_eq_None_iff)
  then show ?thesis
    using assms(1) by (auto simp: incidents_ok_def ingested_store_def)
qed

section \<open>Changes\<close>

text \<open>The changes of an incident, with what the service checks before it makes them.\<close>

inductive incident_change :: "incident \<Rightarrow> incident \<Rightarrow> bool" where
  correlates: "inc_status d \<in> {Inc_New, Inc_Correlating, Inc_Action} \<Longrightarrow>
     map cand_credential_id (filter (\<lambda>c. cand_confidence c = ConfVerified) cs) = (case cred of None \<Rightarrow> [] | Some c \<Rightarrow> [c]) \<Longrightarrow>
     (inc_status d = Inc_Action \<Longrightarrow> truthy cred) \<Longrightarrow>
     incident_change d (bumped (correlated cs cred now) d)"
| links: "inc_status d = Inc_Action \<Longrightarrow> inc_credential_id d = Some cred \<Longrightarrow>
     incident_change d (bumped (linked cred run now) d)"
| advances: "status \<in> {Inc_Contained, Inc_Resolved} \<Longrightarrow> advance_allowed d status \<Longrightarrow>
     incident_change d (bumped (advanced status now) d)"
| dismisses: "inc_status d \<in> {Inc_New, Inc_Correlating, Inc_Action} \<Longrightarrow>
     incident_change d (bumped (dismissed reason now) d)"

inductive incident_effect :: "incident_store \<Rightarrow> incident_store \<Rightarrow> bool" where
  created: "incident_of s (inc_organisation_id d) (inc_id d) = None \<Longrightarrow> is_events s (event_key sha e) = None \<Longrightarrow>
     inc_status d = Inc_New \<Longrightarrow> incident_effect s (ingested_store sha d e s)"
| changed: "incident_of s org i = Some d \<Longrightarrow> incident_change d d' \<Longrightarrow> incident_effect s (set_incident org i d' s)"

lemma change_fields:
  "incident_change d d' \<Longrightarrow> inc_id d' = inc_id d \<and> inc_organisation_id d' = inc_organisation_id d
     \<and> inc_event_id d' = inc_event_id d \<and> inc_source d' = inc_source d \<and> inc_kind d' = inc_kind d
     \<and> inc_source_event_id d' = inc_source_event_id d \<and> inc_severity d' = inc_severity d
     \<and> inc_confidence d' = inc_confidence d \<and> inc_resource d' = inc_resource d
     \<and> inc_created_at d' = inc_created_at d \<and> inc_revision d' = inc_revision d + 1"
  by (induction rule: incident_change.induct)
    (simp_all add: bumped_def correlated_def linked_def advanced_def dismissed_def)

lemma update_effect:
  assumes "incident_update org i rv f s = Inr (d', s')" "\<And>d. incident_of s org i = Some d \<Longrightarrow> incident_change d (bumped f d)"
  shows "incident_effect s s'"
  using assms by (auto simp: incident_update_def bindr_eq_Inr incident_get_iff intro: incident_effect.changed)

lemma effect_ok: "incident_effect s s' \<Longrightarrow> incidents_ok s \<Longrightarrow> incidents_ok s'"
proof (induction rule: incident_effect.induct)
  case (changed s org i d d')
  then show ?case using change_fields incidents_okD by (intro incidents_ok_set) auto
qed (rule incidents_ok_ingested)

lemma effects_ok: "incident_effect\<^sup>*\<^sup>* s s' \<Longrightarrow> incidents_ok s \<Longrightarrow> incidents_ok s'"
  by (induction rule: rtranclp_induct) (auto intro: effect_ok)

section \<open>The operations\<close>

lemma audit_incident_keeps:
  "audit_incident svc d kind actor p run out s = (r, s') \<Longrightarrow> ic_incidents s' = ic_incidents s \<and> ic_runs s' = ic_runs s"
  by (auto simp: audit_incident_def split: option.splits sum.splits)

lemma audit_incident_result:
  "audit_incident svc d kind actor p run out s = (r, s') \<Longrightarrow> r = Inr out \<or> (\<exists>err. r = Inl err)"
  by (auto simp: audit_incident_def split: option.splits sum.splits)

lemma with_incidents_fields [simp]:
  "ic_incidents (with_incidents i s) = i" "ic_runs (with_incidents i s) = ic_runs s" "ic_audit (with_incidents i s) = ic_audit s"
  by (simp_all add: with_incidents_def)

lemma correlate_effect:
  assumes "correlate_incident org i rv cs now s = Inr (d', s')"
    and "\<And>d. incident_of s org i = Some d \<Longrightarrow> inc_revision d = rv \<Longrightarrow> inc_status d \<in> {Inc_New, Inc_Correlating, Inc_Action}"
    and "\<And>d. incident_of s org i = Some d \<Longrightarrow> inc_revision d = rv \<Longrightarrow> inc_status d = Inc_Action \<Longrightarrow>
      \<exists>c\<in>set cs. cand_confidence c = ConfVerified \<and> cand_credential_id c \<noteq> []"
  shows "incident_effect s s' \<and> incident_of s' org i = Some d'"
proof -
  let ?v = "filter (\<lambda>c. cand_confidence c = ConfVerified) cs"
  let ?c = "case ?v of [] \<Rightarrow> None | c # _ \<Rightarrow> Some (cand_credential_id c)"
  have v: "map cand_credential_id ?v = (case ?c of None \<Rightarrow> [] | Some c \<Rightarrow> [c])"
    and u: "incident_update org i rv (correlated cs ?c now) s = Inr (d', s')"
    using assms(1) by (auto simp: correlate_incident_def Let_def bindr_eq_Inr require_eq_Inr incident_correlate_def
        split: list.splits)
  from u obtain d where d: "incident_of s org i = Some d" "inc_revision d = rv"
      "s' = set_incident org i (bumped (correlated cs ?c now) d) s"
    by (auto simp: incident_update_def bindr_eq_Inr incident_get_iff require_eq_Inr)
  have "truthy ?c" if act: "inc_status d = Inc_Action"
  proof -
    obtain c where "c \<in> set ?v" "cand_credential_id c \<noteq> []"
      using assms(3) [OF d(1,2) act] by auto
    moreover have "length ?v \<le> 1"
      using assms(1) by (auto simp: correlate_incident_def Let_def bindr_eq_Inr require_eq_Inr)
    ultimately have "?v = [c]" by (cases ?v) auto
    then show ?thesis using \<open>cand_credential_id c \<noteq> []\<close> by (simp add: truthy_def)
  qed
  then have "incident_change d (bumped (correlated cs ?c now) d)"
    using incident_change.correlates [OF assms(2) [OF d(1,2)] v] by blast
  moreover have "d' = bumped (correlated cs ?c now) d"
    using u d(1) by (auto simp: incident_update_def bindr_eq_Inr incident_get_iff)
  ultimately show ?thesis
    using incident_effect.changed [OF d(1)] d(3) by simp
qed

lemma ingest_effect:
  assumes "incident_ingest sha d e s = Inr ((stored, applied), s')" "inc_status d = Inc_New"
  shows "applied \<and> stored = d \<and> incident_effect s s' \<and> incident_of s (inc_organisation_id d) (inc_id d) = None
     \<and> s' = ingested_store sha d e s"
  using assms by (auto simp: incident_ingest_def bindr_eq_Inr validate_ingestion_doc_def incident_of_def
      require_eq_Inr intro: incident_effect.created split: option.splits if_splits)

lemma service_ingest_cases:
  assumes "service_ingest svc t1 t2 t3 i e s = (r, s')"
  obtains (failed) err where "r = Inl err" "s' = s"
    | (ingested) d where "d = new_incident i e t1 t2" "incident_of (ic_incidents s) (inc_organisation_id d) (inc_id d) = None"
        "is_events (ic_incidents s) (event_key (isv_sha svc) e) = None"
        "ic_incidents s' = ingested_store (isv_sha svc) d e (ic_incidents s)" "ic_runs s' = ic_runs s"
        "r = Inr (d, True) \<or> (\<exists>err. r = Inl err)"
    | (correlated) d cs d' where "d = new_incident i e t1 t2"
        "incident_of (ic_incidents s) (inc_organisation_id d) (inc_id d) = None"
        "is_events (ic_incidents s) (event_key (isv_sha svc) e) = None"
        "correlate_incident (ing_organisation_id e) i 0 cs t3 (ingested_store (isv_sha svc) d e (ic_incidents s))
           = Inr (d', ic_incidents s')" "ic_runs s' = ic_runs s" "r = Inr (d', True) \<or> (\<exists>err. r = Inl err)"
proof (cases "bindr (validate_incident (new_incident i e t1 t2)) (\<lambda>i. incident_ingest (isv_sha svc) i e (ic_incidents s))")
  case (Inl err)
  then have "r = Inl err" "s' = s" using assms by (simp_all add: service_ingest_def)
  then show thesis by (rule failed)
next
  case (Inr x)
  then obtain stored applied incidents where x: "x = ((stored, applied), incidents)" by (cases x) auto
  let ?d = "new_incident i e t1 t2"
  have ing: "incident_ingest (isv_sha svc) ?d e (ic_incidents s) = Inr ((stored, applied), incidents)"
    using Inr x by (auto simp: bindr_eq_Inr validate_incident_iff)
  have st: "inc_status ?d = Inc_New" "inc_organisation_id ?d = ing_organisation_id e" "inc_id ?d = i" "inc_revision ?d = 0"
    by (simp_all add: new_incident_def)
  have f: "applied" "stored = ?d" "incident_of (ic_incidents s) (inc_organisation_id ?d) (inc_id ?d) = None"
      "incidents = ingested_store (isv_sha svc) ?d e (ic_incidents s)"
    using ingest_effect [OF ing st(1)] by auto
  have ev: "is_events (ic_incidents s) (event_key (isv_sha svc) e) = None"
    using ing st by (auto simp: incident_ingest_def bindr_eq_Inr validate_ingestion_doc_def split: option.splits if_splits)
  have run: "service_ingest svc t1 t2 t3 i e s = (case isv_inventory svc of
      None \<Rightarrow> (bindr (notify_incident svc ?d e) (\<lambda>_. Inr (?d, True)), with_incidents incidents s)
    | Some iv \<Rightarrow> (case bindr (incident_candidates iv e) (\<lambda>cs. correlate_incident (ing_organisation_id e) i 0 cs t3 incidents) of
         Inl err \<Rightarrow> (Inl err, with_incidents incidents s)
       | Inr (d', incidents') \<Rightarrow>
           (case notify_incident svc d' e of
              Inl err \<Rightarrow> (Inl err, with_incidents incidents' (with_incidents incidents s))
            | Inr _ \<Rightarrow> audit_incident svc d' ''incident.ingested'' ''ingestion_one''
                [(''source'', SStr (inc_source d')), (''severity'', SStr (severity_value (inc_severity d'))),
                 (''confidence'', SStr (confidence_value (inc_confidence d'))),
                 (''status'', SStr (incident_status_value (inc_status d'))),
                 (''credential_id'', case inc_credential_id d' of None \<Rightarrow> SNone | Some c \<Rightarrow> SStr c)]
                None (d', True) (with_incidents incidents' (with_incidents incidents s)))))"
    unfolding service_ingest_def Let_def using Inr x f(1,2) st by (simp split: option.split)
  show thesis
  proof (cases "isv_inventory svc")
    case None
    then show thesis
      using run assms f(3,4) ev by (intro ingested [OF refl]) (auto simp: bindr_def split: sum.splits)
  next
    case (Some iv)
    show thesis
    proof (cases "bindr (incident_candidates iv e) (\<lambda>cs. correlate_incident (ing_organisation_id e) i 0 cs t3 incidents)")
      case (Inl err)
      then show thesis using run assms Some f(3,4) ev by (intro ingested [OF refl]) auto
    next
      case found: (Inr y)
      then obtain cs d' incidents' where y: "y = (d', incidents')"
          "correlate_incident (ing_organisation_id e) i 0 cs t3 incidents = Inr (d', incidents')"
        by (cases y) (auto simp: bindr_eq_Inr)
      have "ic_incidents s' = incidents' \<and> ic_runs s' = ic_runs s \<and> (r = Inr (d', True) \<or> (\<exists>err. r = Inl err))"
      proof (cases "notify_incident svc d' e")
        case (Inl err)
        then show ?thesis using run assms Some found y(1) by auto
      next
        case (Inr u)
        then have "audit_incident svc d' ''incident.ingested'' ''ingestion_one''
            [(''source'', SStr (inc_source d')), (''severity'', SStr (severity_value (inc_severity d'))),
             (''confidence'', SStr (confidence_value (inc_confidence d'))),
             (''status'', SStr (incident_status_value (inc_status d'))),
             (''credential_id'', case inc_credential_id d' of None \<Rightarrow> SNone | Some c \<Rightarrow> SStr c)]
            None (d', True) (with_incidents incidents' (with_incidents incidents s)) = (r, s')"
          using run assms Some y found by simp
        from audit_incident_keeps [OF this] audit_incident_result [OF this] show ?thesis by simp
      qed
      then show thesis using y(2) f(3,4) ev by (intro correlated [OF refl]) auto
    qed
  qed
qed

lemma service_ingest_effects:
  assumes "service_ingest svc t1 t2 t3 i e s = (r, s')"
  shows "incident_effect\<^sup>*\<^sup>* (ic_incidents s) (ic_incidents s')"
  using assms
proof (cases rule: service_ingest_cases)
  case (ingested d)
  then have "incident_effect (ic_incidents s) (ic_incidents s')"
    by (auto simp: new_incident_def intro: incident_effect.created)
  then show ?thesis by blast
next
  case (correlated d cs d')
  have "incident_effect (ic_incidents s) (ingested_store (isv_sha svc) d e (ic_incidents s))"
    using correlated(1-3) by (auto simp: new_incident_def intro: incident_effect.created)
  moreover have "incident_effect (ingested_store (isv_sha svc) d e (ic_incidents s)) (ic_incidents s')"
    using correlated(1,2) by (intro correlate_effect [OF correlated(4), THEN conjunct1])
      (auto simp: incident_of_ingested new_incident_def)
  ultimately show ?thesis by (meson converse_rtranclp_into_rtranclp r_into_rtranclp)
qed simp

lemma confirm_effects:
  assumes "service_confirm svc now org i rv cred actor s = (r, s')"
  shows "incident_effect\<^sup>*\<^sup>* (ic_incidents s) (ic_incidents s') \<and> ic_runs s' = ic_runs s
    \<and> (\<forall>d. r = Inr d \<longrightarrow> incident_of (ic_incidents s') org i = Some d)"
proof (cases "bindr (incident_get org i (ic_incidents s)) (\<lambda>incident.
             bindr (check_incident_revision incident rv) (\<lambda>_.
             bindr (require (inc_status incident \<in> {Inc_Correlating, Inc_Action})
               (ResourceConflictError ''incident cannot be confirmed in its current state'')) (\<lambda>_.
             bindr (require (cred \<in> set (map cand_credential_id (inc_candidates incident)))
               (ResourceConflictError ''credential is not a correlated incident candidate'')) (\<lambda>_.
             correlate_incident org i rv (confirmed_candidates cred (inc_candidates incident))
               now (ic_incidents s)))))")
  case (Inl err)
  then have "r = Inl err" "s' = s" using assms by (simp_all add: service_confirm_def)
  then show ?thesis by simp
next
  case (Inr x)
  then obtain d' incidents where x: "x = (d', incidents)" by (cases x)
  obtain d where d: "incident_of (ic_incidents s) org i = Some d" "inc_status d \<in> {Inc_Correlating, Inc_Action}"
      "cred \<in> set (map cand_credential_id (inc_candidates d))" "incident_fields_ok d"
      "correlate_incident org i rv (confirmed_candidates cred (inc_candidates d)) now (ic_incidents s) = Inr (d', incidents)"
    using Inr x by (auto simp: bindr_eq_Inr incident_get_iff validate_incident_iff require_eq_Inr)
  obtain c where c: "c \<in> set (inc_candidates d)" "cand_credential_id c = cred" using d(3) by auto
  then have "cred \<noteq> []"
    using d(4) by (auto simp: incident_fields_ok_def list_all_iff correlation_candidate_fields_ok_def identifier_nonempty)
  moreover have "c\<lparr>cand_confidence := ConfVerified\<rparr> \<in> set (confirmed_candidates cred (inc_candidates d))"
    using c by (force simp: confirmed_candidates_def)
  ultimately have ver: "\<exists>k\<in>set (confirmed_candidates cred (inc_candidates d)).
      cand_confidence k = ConfVerified \<and> cand_credential_id k \<noteq> []"
    using c(2) by (intro bexI [of _ "c\<lparr>cand_confidence := ConfVerified\<rparr>"]) simp_all
  have ef: "incident_effect (ic_incidents s) incidents \<and> incident_of incidents org i = Some d'"
    using d(1,2) ver by (intro correlate_effect [OF d(5)]) auto
  have "audit_incident svc d' ''incident.confirmed'' actor
      [(''credential_id'', SStr cred), (''revision'', SInt (inc_revision d'))] None d' (with_incidents incidents s) = (r, s')"
    using assms Inr x by (simp add: service_confirm_def)
  from audit_incident_keeps [OF this] audit_incident_result [OF this] show ?thesis using ef by auto
qed

lemma dismiss_effects:
  assumes "service_dismiss svc now org i rv reason actor s = (r, s')"
  shows "incident_effect\<^sup>*\<^sup>* (ic_incidents s) (ic_incidents s') \<and> ic_runs s' = ic_runs s"
proof (cases "incident_dismiss org i rv reason now (ic_incidents s)")
  case (Inl err)
  then show ?thesis using assms by (auto simp: service_dismiss_def split: sum.splits if_splits)
next
  case (Inr x)
  then obtain d' incidents where x: "x = (d', incidents)" by (cases x)
  have "incident_effect\<^sup>*\<^sup>* (ic_incidents s) incidents"
  proof -
    obtain d where d: "incident_of (ic_incidents s) org i = Some d"
        "incidents = ic_incidents s \<or> inc_status d \<in> {Inc_New, Inc_Correlating, Inc_Action}
           \<and> incident_update org i rv (dismissed reason now) (ic_incidents s) = Inr (d', incidents)"
      using Inr x by (auto simp: incident_dismiss_def bindr_eq_Inr incident_get_iff require_eq_Inr split: if_splits)
    then show ?thesis
      using update_effect [of org i rv "dismissed reason now" "ic_incidents s" d' incidents]
      by (auto intro: incident_change.dismisses)
  qed
  then show ?thesis
    using assms Inr x by (auto simp: service_dismiss_def dest!: audit_incident_keeps split: sum.splits if_splits)
qed

text \<open>
  A rotation is started for an incident that names its credential; the run is the one of the command, and
  an incident that needs action is linked to it.
\<close>

lemma start_rotation_cases:
  assumes "service_start_rotation svc t1 t2 org i cmd actor version reason urgency received s = (r, s')"
    and "incidents_ok (ic_incidents s)"
  obtains (failed) err where "r = Inl err" "s' = s"
    | (started) d cred m where "incident_of (ic_incidents s) org i = Some d" "inc_credential_id d = Some cred"
        "inc_status d \<in> {Inc_Action, Inc_Rotating}"
        "workflow_create (isv_sha svc) (isv_time svc) (ic_runs s) t1 []
           (rotation_command (isv_sha svc) org d cred cmd actor version reason urgency received) = Inr (m, ic_runs s')"
        "inc_status d = Inc_Rotating \<and> ic_incidents s' = ic_incidents s
         \<or> inc_status d = Inc_Action \<and> ic_incidents s'
             = set_incident org i (bumped (linked cred (run_id (mr_run m)) t2) d) (ic_incidents s)"
proof (cases "bindr (incident_get org i (ic_incidents s)) (\<lambda>incident.
               bindr (rotatable (isv_sha svc) cmd incident) (\<lambda>credential_id.
               let c = rotation_command (isv_sha svc) org incident credential_id cmd actor version reason
                         urgency received in
               bindr (if create_command_fields_ok c then Inr c else Inl (FieldError ''CreateRunCommand'')) (\<lambda>c.
               bindr (workflow_create (isv_sha svc) (isv_time svc) (ic_runs s) t1 [] c) (\<lambda>(m, runs).
               Inr (incident, credential_id, m, runs)))))")
  case (Inl err)
  then have "r = Inl err \<and> s' = s \<or> r = Inl (RuntimeError ''incident rotation workflow is not configured'') \<and> s' = s"
    using assms(1) by (auto simp: service_start_rotation_def split: if_splits)
  then show thesis using failed by blast
next
  case (Inr x)
  then obtain d cred m runs where x: "x = (d, cred, m, runs)" by (cases x)
  have d: "incident_of (ic_incidents s) org i = Some d" "inc_credential_id d = Some cred"
      "inc_status d \<in> {Inc_Action, Inc_Rotating}"
      "workflow_create (isv_sha svc) (isv_time svc) (ic_runs s) t1 []
         (rotation_command (isv_sha svc) org d cred cmd actor version reason urgency received) = Inr (m, runs)"
    using Inr x by (auto simp: Let_def bindr_eq_Inr incident_get_iff rotatable_def require_eq_Inr
        split: option.splits if_splits)
  have i: "inc_id d = i" using incidents_okD [OF assms(2) d(1)] .
  let ?s1 = "s\<lparr>ic_runs := runs\<rparr>"
  show thesis
  proof (cases "isv_workflow svc")
    case False
    then have "r = Inl (RuntimeError ''incident rotation workflow is not configured'')" "s' = s"
      using assms(1) by (simp_all add: service_start_rotation_def)
    then show thesis by (rule failed)
  next
    case wf: True
    show thesis
    proof (cases "inc_status d = Inc_Rotating")
      case True
      then show thesis using assms(1) wf Inr x d by (intro started) (auto simp: service_start_rotation_def Let_def)
    next
      case False
      then have act: "inc_status d = Inc_Action" using d(3) by simp
      show thesis
      proof -
        let ?l = "bumped (linked cred (run_id (mr_run m)) t2) d"
        have g: "incident_get org i (ic_incidents s) = Inr d" using Inr x by (auto simp: bindr_eq_Inr Let_def)
        have "incident_link_run org i (inc_revision d) cred (run_id (mr_run m)) t2 (ic_incidents s)
            = Inr (?l, set_incident org i ?l (ic_incidents s))"
          by (simp add: incident_link_run_def incident_update_def g require_def)
        then have "audit_incident svc ?l ''incident.rotation-started'' actor
            [(''credential_id'', case inc_credential_id ?l of None \<Rightarrow> SNone | Some c \<Rightarrow> SStr c),
             (''run_id'', SStr (run_id (mr_run m)))]
            (Some (run_id (mr_run m))) (?l, mr_run m, mr_applied m)
            (with_incidents (set_incident org i ?l (ic_incidents s)) ?s1) = (r, s')"
          using assms(1) wf Inr x act i by (simp add: service_start_rotation_def Let_def)
        from audit_incident_keeps [OF this] show thesis
          using d act by (intro started) auto
      qed
    qed
  qed
qed

lemma advance_loop_effects:
  assumes "advance_loop org status now docs s = (r, s')" "status \<in> {Inc_Contained, Inc_Resolved}"
    and "distinct (map inc_id docs)" "\<forall>d\<in>set docs. incident_of s org (inc_id d) = Some d"
  shows "incident_effect\<^sup>*\<^sup>* s s'"
  using assms
proof (induction docs arbitrary: s r s')
  case (Cons d docs)
  show ?case
  proof (cases "validate_incident d")
    case (Inl err)
    then show ?thesis using Cons.prems(1) by simp
  next
    case (Inr d')
    then have v: "validate_incident d = Inr d" by (simp add: validate_incident_iff)
    let ?same = "inc_status d = status \<or> inc_status d = Inc_Resolved \<and> status = Inc_Contained"
    show ?thesis
    proof (cases "?same \<or> \<not> advance_allowed d status")
      case True
      then show ?thesis
        using Cons.prems v Cons.IH [of s] by (auto split: prod.splits if_splits)
    next
      case False
      then have allowed: "advance_allowed d status" by simp
      show ?thesis
      proof (cases "incident_update org (inc_id d) (inc_revision d) (advanced status now) s")
        case (Inl err)
        then show ?thesis using Cons.prems(1) v False by (auto split: if_splits)
      next
        case updated: (Inr x)
        obtain c s1 where x: "x = (c, s1)" by (cases x)
        have d: "incident_of s org (inc_id d) = Some d" using Cons.prems(4) by simp
        have s1: "s1 = set_incident org (inc_id d) (bumped (advanced status now) d) s"
          using updated x d by (auto simp: incident_update_def bindr_eq_Inr incident_get_iff)
        have e: "incident_effect s s1"
          unfolding s1 using d incident_change.advances [OF Cons.prems(2) allowed] by (rule incident_effect.changed)
        obtain q s2 where loop: "advance_loop org status now docs s1 = (q, s2)" by (cases "advance_loop org status now docs s1")
        have "incident_of s1 org (inc_id k) = Some k" if "k \<in> set docs" for k
        proof -
          have "inc_id d \<notin> inc_id ` set docs" using Cons.prems(3) by simp
          then have "inc_id k \<noteq> inc_id d" using that by (metis imageI)
          then show ?thesis using Cons.prems(4) that by (simp add: s1)
        qed
        then have "incident_effect\<^sup>*\<^sup>* s1 s2"
          using Cons.IH [OF loop Cons.prems(2)] Cons.prems(3) by simp
        moreover have "s' = s2"
        proof -
          have ns: "inc_status d \<noteq> status" "\<not> (inc_status d = Inc_Resolved \<and> status = Inc_Contained)"
            using False by simp_all
          have "advance_loop org status now (d # docs) s = (bindr q (\<lambda>is. Inr (c # is)), s2)"
            unfolding advance_loop.simps v updated x sum.case prod.case loop using ns allowed by auto
          then show ?thesis using Cons.prems(1) by simp
        qed
        ultimately show ?thesis using e by (meson converse_rtranclp_into_rtranclp)
      qed
    qed
  qed
qed simp

lemma advance_run_effects:
  assumes "service_advance_run now org run status s = (r, s')" "incidents_ok (ic_incidents s)"
  shows "incident_effect\<^sup>*\<^sup>* (ic_incidents s) (ic_incidents s') \<and> ic_runs s' = ic_runs s"
proof -
  let ?xs = "sort_key fst (is_incidents (ic_incidents s) org)"
  let ?docs = "filter (\<lambda>d. inc_run_id d = Some run) (map snd ?xs)"
  have ok: "distinct (map fst (is_incidents (ic_incidents s) org))"
      "\<forall>x\<in>set (is_incidents (ic_incidents s) org). inc_id (snd x) = fst x"
    using assms(2) by (simp_all add: incidents_ok_def split_beta)
  have "map inc_id (map snd ?xs) = map fst ?xs" using ok(2) by simp
  moreover have "distinct (map fst ?xs)"
    using ok(1) by (simp add: distinct_map inj_on_def)
  ultimately have "distinct (map inc_id ?docs)"
    by (metis distinct_map_filter)
  moreover have "\<forall>d\<in>set ?docs. incident_of (ic_incidents s) org (inc_id d) = Some d"
    using ok by (auto simp: incident_of_def)
  ultimately show ?thesis
    using assms(1) advance_loop_effects [of org status now ?docs "ic_incidents s"]
    by (auto simp: service_advance_run_def incident_advance_run_def split: if_splits sum.splits prod.splits)
qed

end
