(* ===== verification/Incident_History.thy ===== *)
theory Incident_History imports Incident_Facts begin

text \<open>
  Histories of the incident service: calls of the service and of the automation in any order, what they
  keep of the incidents, and which runs the automation creates.
\<close>

section \<open>The automation\<close>

lemma ingest_result:
  assumes "service_ingest svc t1 t2 t3 i e s = (Inr (d, applied), s')" "incidents_ok (ic_incidents s)"
  shows "applied \<and> incident_of (ic_incidents s') (ing_organisation_id e) i = Some d \<and> ic_runs s' = ic_runs s"
  using assms(1)
proof (cases rule: service_ingest_cases)
  case (ingested k)
  then show ?thesis by (auto simp: incident_of_ingested) (simp_all add: new_incident_def)
next
  case (correlated k cs d')
  have "incident_effect (ingested_store (isv_sha svc) k e (ic_incidents s)) (ic_incidents s')
      \<and> incident_of (ic_incidents s') (ing_organisation_id e) i = Some d'"
    using correlated(1,2) by (intro correlate_effect [OF correlated(4)]) (auto simp: incident_of_ingested new_incident_def)
  then show ?thesis using correlated by auto
qed simp

lemma automation_confirm_result:
  assumes "automation_confirm svc iv now e d s = (r, s')" "incident_of (ic_incidents s) (ing_organisation_id e) (inc_id d) = Some d"
  shows "incident_effect\<^sup>*\<^sup>* (ic_incidents s) (ic_incidents s') \<and> ic_runs s' = ic_runs s
    \<and> (\<forall>k. r = Inr k \<longrightarrow> incident_of (ic_incidents s') (ing_organisation_id e) (inc_id d) = Some k)"
proof -
  have idle: ?thesis if "(r, s') = (Inr d, s) \<or> (\<exists>err. (r, s') = (Inl err, s))"
    using that assms(2) by auto
  show ?thesis
  proof (cases "\<exists>cand. inc_candidates d = [cand] \<and> inc_status d = Inc_Correlating")
    case False
    then show ?thesis using assms(1) by (intro idle) (auto simp: automation_confirm_def split: list.splits)
  next
    case True
    then obtain cand where cand: "inc_candidates d = [cand]" "inc_status d = Inc_Correlating" by blast
    show ?thesis
    proof (cases "automation_controls iv (ing_organisation_id e) (cand_credential_id cand)")
      case (Inl err)
      then show ?thesis using assms(1) cand by (intro idle) (auto simp: automation_confirm_def)
    next
      case (Inr x)
      obtain c controls where x: "x = (c, controls)" by (cases x)
      show ?thesis
      proof (cases "automatic controls e (cand_confidence cand)")
        case False
        then show ?thesis using assms(1) cand Inr x by (intro idle) (auto simp: automation_confirm_def)
      next
        case True
        then have "service_confirm svc now (ing_organisation_id e) (inc_id d) (inc_revision d) (mc_id c)
            ''ingestion_one'' s = (r, s')"
          using assms(1) cand Inr x by (simp add: automation_confirm_def)
        then show ?thesis by (rule confirm_effects)
      qed
    qed
  qed
qed

lemma rotate_state:
  "automation_rotate svc t1 t2 e d controls s = (r, s') \<Longrightarrow>
     \<exists>q. service_start_rotation svc t1 t2 (ing_organisation_id e) (inc_id d)
       (event_identifier (isv_sha svc) ''command'' (ing_id e)) ''uumi_ingestion'' (cv_id controls)
       (rotation_reason (ing_kind e))
       (if ing_kind e \<in> set (cd_emergency_triggers (cv_definition controls)) then ''emergency'' else ''routine'')
       (ing_observed_at e) s = (q, s')"
  by (auto simp: automation_rotate_def Let_def split: prod.splits sum.splits error.splits)

text \<open>A rotation is the last thing the automation does.\<close>

lemma automation_cases:
  assumes "automation_ingest svc iv clk e s = (r, s')" "incidents_ok (ic_incidents s)"
  obtains (quiet) "incident_effect\<^sup>*\<^sup>* (ic_incidents s) (ic_incidents s')" "ic_runs s' = ic_runs s"
    | (rotated) s2 d cred c controls q where "incident_effect\<^sup>*\<^sup>* (ic_incidents s) (ic_incidents s2)" "ic_runs s2 = ic_runs s"
        "incident_of (ic_incidents s2) (ing_organisation_id e) (inc_id d) = Some d"
        "inc_id d = event_identifier (isv_sha svc) ''incident'' (ing_id e)"
        "inc_status d = Inc_Action" "inc_credential_id d = Some cred"
        "automation_controls iv (ing_organisation_id e) cred = Inr (c, controls)" "automatic controls e ConfVerified"
        "service_start_rotation svc (clk_run clk) (clk_linked clk) (ing_organisation_id e) (inc_id d)
           (event_identifier (isv_sha svc) ''command'' (ing_id e)) ''uumi_ingestion'' (cv_id controls)
           (rotation_reason (ing_kind e))
           (if ing_kind e \<in> set (cd_emergency_triggers (cv_definition controls)) then ''emergency'' else ''routine'')
           (ing_observed_at e) s2 = (q, s')"
proof -
  let ?i = "event_identifier (isv_sha svc) ''incident'' (ing_id e)"
  obtain q s1 where ing: "service_ingest svc (clk_created clk) (clk_updated clk) (clk_correlated clk) ?i e s = (q, s1)"
    by (cases "service_ingest svc (clk_created clk) (clk_updated clk) (clk_correlated clk) ?i e s")
  have e1: "incident_effect\<^sup>*\<^sup>* (ic_incidents s) (ic_incidents s1)" using service_ingest_effects [OF ing] .
  have r1: "ic_runs s1 = ic_runs s" using ing by (cases rule: service_ingest_cases) auto
  show thesis
  proof (cases q)
    case (Inl err)
    then have "s' = s1" using assms(1) ing by (simp add: automation_ingest_def)
    then show thesis using e1 r1 by (intro quiet) auto
  next
    case (Inr x)
    then obtain d applied where x: "q = Inr (d, applied)" by (cases x) auto
    have d: "incident_of (ic_incidents s1) (ing_organisation_id e) ?i = Some d"
      using ingest_result [OF ing [unfolded x] assms(2)] by simp
    have id: "inc_id d = ?i" using incidents_okD [OF effects_ok [OF e1 assms(2)] d] .
    show thesis
    proof (cases "inc_status d = Inc_Rotating")
      case True
      then have "s' = s1" using assms(1) ing x by (simp add: automation_ingest_def)
      then show thesis using e1 r1 by (intro quiet) auto
    next
      case False
      obtain q2 s2 where conf: "automation_confirm svc iv (clk_confirmed clk) e d s1 = (q2, s2)"
        by (cases "automation_confirm svc iv (clk_confirmed clk) e d s1")
      have c2: "incident_effect\<^sup>*\<^sup>* (ic_incidents s1) (ic_incidents s2)" "ic_runs s2 = ic_runs s1"
          "\<And>k. q2 = Inr k \<Longrightarrow> incident_of (ic_incidents s2) (ing_organisation_id e) ?i = Some k"
        using automation_confirm_result [OF conf] d id by auto
      have e2: "incident_effect\<^sup>*\<^sup>* (ic_incidents s) (ic_incidents s2)" using e1 c2(1) by simp
      have rest: "(r, s') = (case q2 of Inl err \<Rightarrow> (Inl err, s2) | Inr k \<Rightarrow>
          (case (inc_status k, inc_credential_id k) of
             (Inc_Action, Some credential_id) \<Rightarrow>
               (case automation_controls iv (ing_organisation_id e) credential_id of
                  Inl err \<Rightarrow> (Inl err, s2)
                | Inr (c, controls) \<Rightarrow>
                    if \<not> automatic controls e ConfVerified then (Inr (k, applied), s2)
                    else (case automation_rotate svc (clk_run clk) (clk_linked clk) e k controls s2 of
                            (r, s3) \<Rightarrow> (bindr r (\<lambda>linked. Inr (linked, applied)), s3)))
           | _ \<Rightarrow> (Inr (k, applied), s2)))"
        using assms(1) ing x False conf by (simp add: automation_ingest_def Let_def)
      show thesis
      proof (cases "\<exists>k cred c controls. q2 = Inr k \<and> inc_status k = Inc_Action \<and> inc_credential_id k = Some cred
          \<and> automation_controls iv (ing_organisation_id e) cred = Inr (c, controls) \<and> automatic controls e ConfVerified")
        case True
        then obtain k cred c controls where k: "q2 = Inr k" "inc_status k = Inc_Action" "inc_credential_id k = Some cred"
            "automation_controls iv (ing_organisation_id e) cred = Inr (c, controls)" "automatic controls e ConfVerified"
          by blast
        have kd: "incident_of (ic_incidents s2) (ing_organisation_id e) ?i = Some k" using c2(3) k(1) by simp
        have kid: "inc_id k = ?i" using incidents_okD [OF effects_ok [OF e2 assms(2)] kd] .
        obtain q3 where "automation_rotate svc (clk_run clk) (clk_linked clk) e k controls s2 = (q3, s')"
          using rest k by (auto split: prod.splits)
        from rotate_state [OF this] show thesis
          using rotated [OF e2 _ _ kid k(2-5)] kd kid c2(2) r1 by auto
      next
        case False
        then have "s' = s2"
          using rest by (auto split: sum.splits incident_status.splits option.splits prod.splits if_splits)
        then show thesis using e2 c2(2) r1 by (intro quiet) auto
      qed
    qed
  qed
qed

section \<open>Histories\<close>

datatype incident_call =
    IngestCall int int int string ingestion_event
  | ConfirmCall int string string int string string
  | StartCall int int string string string string string string string int
  | AdvanceCall int string string incident_status
  | DismissCall int string string int string string
  | AutomationCall inventory clocks ingestion_event

fun call_incidents :: "incident_service \<Rightarrow> incident_call \<Rightarrow> incident_state \<Rightarrow> incident_state" where
  "call_incidents svc (IngestCall t1 t2 t3 i e) s = snd (service_ingest svc t1 t2 t3 i e s)"
| "call_incidents svc (ConfirmCall now org i rv cred actor) s = snd (service_confirm svc now org i rv cred actor s)"
| "call_incidents svc (StartCall t1 t2 org i cmd actor version reason urgency received) s =
     snd (service_start_rotation svc t1 t2 org i cmd actor version reason urgency received s)"
| "call_incidents svc (AdvanceCall now org run status) s = snd (service_advance_run now org run status s)"
| "call_incidents svc (DismissCall now org i rv reason actor) s = snd (service_dismiss svc now org i rv reason actor s)"
| "call_incidents svc (AutomationCall iv clk e) s = snd (automation_ingest svc iv clk e s)"

text \<open>Calls of services with any inventory, notifier or workflow, one after the other.\<close>

fun incident_history :: "(incident_service \<times> incident_call) list \<Rightarrow> incident_state \<Rightarrow> incident_state" where
  "incident_history [] s = s"
| "incident_history ((svc, call) # calls) s = incident_history calls (call_incidents svc call s)"

lemma start_rotation_effects:
  assumes "service_start_rotation svc t1 t2 org i cmd actor version reason urgency received s = (r, s')"
    and "incidents_ok (ic_incidents s)"
  shows "incident_effect\<^sup>*\<^sup>* (ic_incidents s) (ic_incidents s')"
  using assms
proof (cases rule: start_rotation_cases)
  case (started d cred m)
  then show ?thesis by (auto intro!: incident_effect.changed incident_change.links)
qed simp

lemma automation_effects:
  assumes "automation_ingest svc iv clk e s = (r, s')" "incidents_ok (ic_incidents s)"
  shows "incident_effect\<^sup>*\<^sup>* (ic_incidents s) (ic_incidents s')"
  using assms
proof (cases rule: automation_cases)
  case (rotated s2 d cred c controls q)
  show ?thesis
    using start_rotation_effects [OF rotated(9) effects_ok [OF rotated(1) assms(2)]] rotated(1) by simp
qed

lemma call_effects:
  assumes "incidents_ok (ic_incidents s)"
  shows "incident_effect\<^sup>*\<^sup>* (ic_incidents s) (ic_incidents (call_incidents svc call s))"
proof (cases call)
  case (IngestCall t1 t2 t3 i e)
  then show ?thesis using service_ingest_effects [OF surjective_pairing] by simp
next
  case (ConfirmCall now org i rv cred actor)
  then show ?thesis using confirm_effects [OF surjective_pairing] by simp
next
  case (StartCall t1 t2 org i cmd actor version reason urgency received)
  then show ?thesis
    using start_rotation_effects [OF surjective_pairing assms] by simp
next
  case (AdvanceCall now org run status)
  then show ?thesis using advance_run_effects [OF surjective_pairing assms] by simp
next
  case (DismissCall now org i rv reason actor)
  then show ?thesis using dismiss_effects [OF surjective_pairing] by simp
next
  case (AutomationCall iv clk e)
  then show ?thesis using automation_effects [OF surjective_pairing assms] by simp
qed

lemma history_effects:
  "incidents_ok (ic_incidents s) \<Longrightarrow> incident_effect\<^sup>*\<^sup>* (ic_incidents s) (ic_incidents (incident_history calls s))"
proof (induction calls s rule: incident_history.induct)
  case (2 svc call calls s)
  have e: "incident_effect\<^sup>*\<^sup>* (ic_incidents s) (ic_incidents (call_incidents svc call s))"
    using call_effects "2.prems" by blast
  show ?case using rtranclp_trans [OF e "2.IH" [OF effects_ok [OF e "2.prems"]]] by simp
qed simp

section \<open>What histories keep\<close>

text \<open>The statuses an incident may take one after the other.\<close>

fun incident_next :: "incident_status \<Rightarrow> incident_status \<Rightarrow> bool" where
  "incident_next Inc_New st = (st \<in> {Inc_Correlating, Inc_Action, Inc_Dismissed})"
| "incident_next Inc_Correlating st = (st \<in> {Inc_Correlating, Inc_Action, Inc_Dismissed})"
| "incident_next Inc_Action st = (st \<in> {Inc_Action, Inc_Rotating, Inc_Dismissed})"
| "incident_next Inc_Rotating st = (st \<in> {Inc_Contained, Inc_Resolved})"
| "incident_next Inc_Contained st = (st = Inc_Resolved)"
| "incident_next Inc_Resolved st = False"
| "incident_next Inc_Dismissed st = False"

lemma change_next: "incident_change d d' \<Longrightarrow> incident_next (inc_status d) (inc_status d')"
  by (induction rule: incident_change.induct)
    (auto simp: bumped_def correlated_def linked_def advanced_def dismissed_def advance_allowed_def truthy_def
      split: if_splits)

lemma change_not_closed: "incident_change d d' \<Longrightarrow> inc_status d \<notin> {Inc_Resolved, Inc_Dismissed}"
  by (induction rule: incident_change.induct) (auto simp: advance_allowed_def split: if_splits)

definition same_incident :: "incident \<Rightarrow> incident \<Rightarrow> bool" where
  "same_incident d d' \<longleftrightarrow> inc_id d' = inc_id d \<and> inc_organisation_id d' = inc_organisation_id d
     \<and> inc_event_id d' = inc_event_id d \<and> inc_source d' = inc_source d \<and> inc_kind d' = inc_kind d
     \<and> inc_source_event_id d' = inc_source_event_id d \<and> inc_severity d' = inc_severity d
     \<and> inc_confidence d' = inc_confidence d \<and> inc_resource d' = inc_resource d \<and> inc_created_at d' = inc_created_at d
     \<and> inc_revision d \<le> inc_revision d'"

lemma incident_kept:
  assumes "incident_effect s s'" "incident_of s org i = Some d"
  shows "\<exists>d'. incident_of s' org i = Some d' \<and> (d' = d \<or> incident_change d d')"
  using assms by (induction rule: incident_effect.induct) (auto simp: incident_of_ingested)

lemma incident_history_kept:
  assumes "incident_effect\<^sup>*\<^sup>* s s'" "incident_of s org i = Some d"
  shows "\<exists>d'. incident_of s' org i = Some d' \<and> same_incident d d' \<and> incident_next\<^sup>*\<^sup>* (inc_status d) (inc_status d')
    \<and> (inc_status d \<in> {Inc_Resolved, Inc_Dismissed} \<longrightarrow> d' = d)"
  using assms(1)
proof (induction rule: rtranclp_induct)
  case base
  then show ?case using assms(2) by (auto simp: same_incident_def)
next
  case (step u v)
  then obtain k where k: "incident_of u org i = Some k" "same_incident d k" "incident_next\<^sup>*\<^sup>* (inc_status d) (inc_status k)"
      "inc_status d \<in> {Inc_Resolved, Inc_Dismissed} \<longrightarrow> k = d"
    by blast
  obtain k' where k': "incident_of v org i = Some k'" "k' = k \<or> incident_change k k'"
    using incident_kept [OF step.hyps(2) k(1)] by blast
  have "same_incident d k'"
    using k(2) k'(2) by (auto simp: same_incident_def dest!: change_fields)
  moreover have "incident_next\<^sup>*\<^sup>* (inc_status d) (inc_status k')"
    using k(3) k'(2) by (auto dest: change_next intro: rtranclp.rtrancl_into_rtrancl)
  moreover have "inc_status d \<in> {Inc_Resolved, Inc_Dismissed} \<longrightarrow> k' = d"
    using k(4) k'(2) change_not_closed by blast
  ultimately show ?case using k'(1) by blast
qed

text \<open>An incident with a rotation names the one credential among its candidates that is verified.\<close>

definition verified_ids :: "incident \<Rightarrow> string list" where
  "verified_ids d = map cand_credential_id (filter (\<lambda>c. cand_confidence c = ConfVerified) (inc_candidates d))"

definition verified_ok :: "incident \<Rightarrow> bool" where
  "verified_ok d \<longleftrightarrow>
     (inc_status d \<in> {Inc_Action, Inc_Rotating, Inc_Contained, Inc_Resolved}
        \<longrightarrow> (\<exists>c. inc_credential_id d = Some c \<and> verified_ids d = [c]))
     \<and> (inc_status d \<in> {Inc_Rotating, Inc_Contained, Inc_Resolved} \<longrightarrow> inc_run_id d \<noteq> None)"

lemma verified_change: "incident_change d d' \<Longrightarrow> verified_ok d \<Longrightarrow> verified_ok d'"
  by (induction rule: incident_change.induct)
    (auto simp: verified_ok_def verified_ids_def bumped_def correlated_def linked_def advanced_def dismissed_def
      advance_allowed_def split: if_splits option.splits)

definition verified_store :: "incident_store \<Rightarrow> bool" where
  "verified_store s \<longleftrightarrow> (\<forall>org i d. incident_of s org i = Some d \<longrightarrow> verified_ok d)"

lemma verified_effect: "incident_effect s s' \<Longrightarrow> verified_store s \<Longrightarrow> verified_store s'"
proof (induction rule: incident_effect.induct)
  case (created s k sha e)
  then show ?case by (auto simp: verified_store_def incident_of_ingested verified_ok_def split: if_splits)
next
  case (changed s o' j k k')
  then show ?case using verified_change by (auto simp: verified_store_def split: if_splits)
qed

lemma verified_effects: "incident_effect\<^sup>*\<^sup>* s s' \<Longrightarrow> verified_store s \<Longrightarrow> verified_store s'"
  by (induction rule: rtranclp_induct) (auto intro: verified_effect)

text \<open>The record of an ingested event stays, with the incident it made.\<close>

lemma event_kept: "incident_effect s s' \<Longrightarrow> is_events s k = Some doc \<Longrightarrow> is_events s' k = Some doc"
  by (induction rule: incident_effect.induct) (auto simp: ingested_store_def)

lemma event_kept_effects: "incident_effect\<^sup>*\<^sup>* s s' \<Longrightarrow> is_events s k = Some doc \<Longrightarrow> is_events s' k = Some doc"
  by (induction rule: rtranclp_induct) (auto intro: event_kept)

lemma ingest_records_event:
  assumes "service_ingest svc t1 t2 t3 i e s = (Inr x, s')"
  shows "\<exists>doc. is_events (ic_incidents s') (event_key (isv_sha svc) e) = Some doc \<and> idoc_incident_id doc \<noteq> None"
  using assms
proof (cases rule: service_ingest_cases)
  case (ingested d)
  then show ?thesis by (simp add: ingested_store_def)
next
  case (correlated d cs d')
  have "incident_effect (ingested_store (isv_sha svc) d e (ic_incidents s)) (ic_incidents s')"
    using correlated(1,2) by (intro correlate_effect [OF correlated(4), THEN conjunct1])
      (auto simp: incident_of_ingested new_incident_def)
  moreover have "is_events (ingested_store (isv_sha svc) d e (ic_incidents s)) (event_key (isv_sha svc) e)
      = Some \<lparr>idoc_event = e, idoc_incident_id = Some (inc_id d)\<rparr>"
    by (simp add: ingested_store_def)
  ultimately show ?thesis using event_kept by fastforce
qed simp

lemma ingest_known_event:
  assumes "is_events (ic_incidents s) (event_key (isv_sha svc) e) = Some doc" "idoc_incident_id doc \<noteq> None"
  shows "\<exists>n. service_ingest svc t1 t2 t3 i e s = (Inl (FieldError n), s)"
proof -
  let ?d = "new_incident i e t1 t2"
  have res: "validate_resolution ?d = Inr ()" by (simp add: validate_resolution_def new_incident_def)
  have "\<exists>n. bindr (validate_incident ?d) (\<lambda>d. incident_ingest (isv_sha svc) d e (ic_incidents s)) = Inl (FieldError n)"
    using assms res by (auto simp: validate_incident_def incident_ingest_def segments_def require_def bindr_def
        validate_ingestion_doc_def)
  then show ?thesis by (auto simp: service_ingest_def)
qed

end
