(* ===== verification/Incident_Theorems.thy ===== *)
theory Incident_Theorems imports Incident_History Examples begin

text \<open>
  The properties of incidents: the statuses an incident runs through, the credential a rotation needs,
  the rotations that start without a person, and the replay of an event.
\<close>

section \<open>Example states\<close>

definition ex_resource :: source_resource where
  "ex_resource =
     \<lparr>src_connection_id = None, src_credential_id = Some ''key'', src_repository = None, src_project = None,
      src_service = None, src_environment = None, src_provider = None, src_provider_id = None\<rparr>"

definition ex_event :: ingestion_event where
  "ex_event =
     \<lparr>ing_id = ''event'', ing_organisation_id = ''org'', ing_source = ''schedule'', ing_source_event_id = ''e1'',
      ing_kind = ''expiry'', ing_observed_at = 1, ing_severity = Sev_High, ing_confidence = ConfHigh,
      ing_resource = ex_resource, ing_source_reference = ''ref'', ing_received_at = 2\<rparr>"

definition ex_managed :: managed_credential where
  "ex_managed =
     \<lparr>mc_id = ''key'', mc_organisation_id = ''org'', mc_connection_id = ''con'', mc_secret_store_connection_id = ''vault'',
      mc_secret_resource = ''secret'', mc_secret_reference = ''secret/versions/1'', mc_provider = ''google'',
      mc_kind = ''api-key'', mc_display_name = ''Key'', mc_provider_id = None, mc_provider_display_name = None,
      mc_scopes = {}, mc_consumer_ids = [], mc_active_generation_id = None, mc_control_version = ''ctl'',
      mc_expires_at = None, mc_rotation_due_at = None, mc_last_observed_at = None, mc_metadata_digest = None,
      mc_created_at = 0, mc_updated_at = 0, mc_archived_at = None, mc_revision = 0\<rparr>"

definition ex_inventory :: inventory where
  "ex_inventory =
     \<lparr>inv_credentials = (\<lambda>_. [ex_managed]), inv_services = (\<lambda>_. []), inv_bindings = (\<lambda>_. []),
      inv_controls = Map.empty((''org'', ''key'', ''ctl'') \<mapsto> ex_version)\<rparr>"

definition ex_service :: incident_service where
  "ex_service =
     \<lparr>isv_sha = ex_sha, isv_time = ex_fmt, isv_fmt = ex_fmt, isv_inventory = Some ex_inventory, isv_workflow = True,
      isv_notifier = None, isv_region = None\<rparr>"

definition ex_incidents :: incident_state where
  "ex_incidents =
     \<lparr>ic_incidents = empty_incidents, ic_runs = ex_store, ic_audit = empty_audit\<rparr>"

definition ex_clocks :: clocks where
  "ex_clocks = \<lparr>clk_created = 1, clk_updated = 2, clk_correlated = 3, clk_confirmed = 4, clk_run = 5, clk_linked = 6\<rparr>"

lemma empty_incidents_ok [simp]: "incidents_ok empty_incidents" "verified_store empty_incidents"
  by (simp_all add: incidents_ok_def empty_incidents_def verified_store_def incident_of_def)


lemma ex_ingested:
  obtains d s where "service_ingest ex_service 1 2 3 (event_identifier ex_sha ''incident'' ''event'') ex_event ex_incidents = (Inr (d, True), s)"
    "inc_status d = Inc_Action" "inc_credential_id d = Some ''key''" "inc_run_id d = None" "inc_source d = ''schedule''"
    "inc_kind d = ''expiry''" "inc_event_id d = ''event''" "ic_runs s = ex_store"
    "incident_get ''org'' (inc_id d) (ic_incidents s) = Inr d"
proof -
  let ?i = "event_identifier ex_sha ''incident'' ''event''"
  let ?x = "service_ingest ex_service 1 2 3 ?i ex_event ex_incidents"
  have c: "case ?x of (Inr (d, a), s) \<Rightarrow> a \<and> inc_status d = Inc_Action \<and> inc_credential_id d = Some ''key''
      \<and> inc_run_id d = None \<and> inc_source d = ''schedule'' \<and> inc_kind d = ''expiry'' \<and> inc_event_id d = ''event''
      \<and> is_ok (validate_incident d) | _ \<Rightarrow> False"
    by code_simp
  then obtain d s where x: "?x = (Inr (d, True), s)" by (auto split: prod.splits sum.splits)
  have o: "ing_organisation_id ex_event = ''org''" by (simp add: ex_event_def)
  have "incidents_ok (ic_incidents ex_incidents)" by (simp add: ex_incidents_def)
  from ingest_result [OF x this] have k: "incident_of (ic_incidents s) ''org'' ?i = Some d" "ic_runs s = ex_store"
    by (simp_all add: o) (simp add: ex_incidents_def)
  have "incidents_ok (ic_incidents s)"
    using effects_ok [OF service_ingest_effects [OF x]] by (simp add: ex_incidents_def)
  then have i: "inc_id d = ?i" using incidents_okD k(1) by blast
  have "identifier_ok ''org''" "identifier_ok ?i" by code_simp+
  then have "incident_get ''org'' (inc_id d) (ic_incidents s) = Inr d"
    using k(1) c by (simp add: incident_get_iff i x is_ok_iff) (auto simp: validate_incident_iff)
  with x c k(2) show thesis by (intro that [of d s]) auto
qed

text \<open>The automation starts a rotation for the event.\<close>

lemma ex_rotation_created:
  assumes "inc_source d = ''schedule''" "inc_kind d = ''expiry''" "inc_event_id d = ''event''"
  shows "\<exists>m runs. workflow_create ex_sha ex_fmt ex_store 5 []
      (rotation_command ex_sha ''org'' d ''key'' (event_identifier ex_sha ''command'' ''event'') ''uumi_ingestion'' ''ctl''
        (rotation_reason ''expiry'') ''routine'' 1) = Inr (m, runs) \<and> st_runs runs (''org'', run_id (mr_run m)) \<noteq> None
    \<and> create_command_fields_ok (rotation_command ex_sha ''org'' d ''key'' (event_identifier ex_sha ''command'' ''event'')
        ''uumi_ingestion'' ''ctl'' (rotation_reason ''expiry'') ''routine'' 1)"
proof -
  let ?c = "rotation_command ex_sha ''org'' d ''key'' (event_identifier ex_sha ''command'' ''event'') ''uumi_ingestion'' ''ctl''
        (rotation_reason ''expiry'') ''routine'' 1"
  let ?r = "rotation_run_id ex_sha (event_identifier ex_sha ''command'' ''event'')"
  have r: "create_run_id ?c = Some ?r" "?r \<noteq> []" by (simp_all add: rotation_command_def rotation_run_id_def)
  have "create_command_fields_ok (\<lparr>create_id = event_identifier ex_sha ''command'' ''event'', create_organisation_id = ''org'',
      create_credential_id = ''key'', create_control_version = ''ctl'',
      create_trigger = \<lparr>trigger_source = ''schedule'', trigger_kind = ''expiry'', trigger_event_id = ''event'',
        trigger_actor_id = ''uumi_ingestion'', trigger_reason = rotation_reason ''expiry'', trigger_urgency = ''routine'',
        trigger_received_at = 1\<rparr>, create_run_id = Some ?r\<rparr>)" "identifier_ok ?r"
    by code_simp+
  then have ok: "create_command_fields_ok ?c" "identifier_ok ?r" using assms by (simp_all add: rotation_command_def)
  have "\<exists>m s'. workflow_create ex_sha ex_fmt ex_store 5 ?r ?c = Inr (m, s') \<and> mr_applied m \<and> build_run ?c ?r 5 = Inr (mr_run m)"
    by (rule create_applies [OF ok _ ex_sha_hex])
      (use ex_pinned in \<open>auto simp: rotation_command_def ex_store_def empty_store_def is_ok_iff\<close>)
  then obtain m runs where m: "workflow_create ex_sha ex_fmt ex_store 5 ?r ?c = Inr (m, runs)" "mr_applied m" by blast
  have "workflow_create ex_sha ex_fmt ex_store 5 [] ?c = Inr (m, runs)"
    using m(1) by (simp add: workflow_create_def r)
  moreover have "create_organisation_id ?c = ''org''" by (simp add: rotation_command_def)
  ultimately show ?thesis using created_records [OF m] ok(1) by auto
qed

lemma ex_controls: "automation_controls ex_inventory ''org'' ''key'' = Inr (ex_managed, ex_version)"
proof -
  have "is_ok (inventory_credentials ex_inventory ''org'')" "segments [''org'', ''key'', ''ctl''] = Inr ()" by code_simp+
  then have "automation_credential ex_inventory ''org'' ''key'' = Inr ex_managed"
    by (auto simp: is_ok_iff automation_credential_def inventory_credentials_def inventory_list_def ex_inventory_def
        bindr_eq_Inr validate_credential_def split: if_splits) (simp_all add: ex_managed_def)
  moreover have "mc_id ex_managed = ''key''" "mc_control_version ex_managed = ''ctl''" by (simp_all add: ex_managed_def)
  ultimately show ?thesis
    using \<open>segments [''org'', ''key'', ''ctl''] = Inr ()\<close> ex_version_valid
    by (simp add: automation_controls_def get_control_version_def ex_inventory_def)
qed

lemma ex_automatic:
  obtains r s' k where "automation_ingest ex_service ex_inventory ex_clocks ex_event ex_incidents = (r, s')"
    "st_runs (ic_runs s') k \<noteq> st_runs (ic_runs ex_incidents) k"
proof (cases rule: ex_ingested)
  case (1 d s)
  obtain m runs where m: "workflow_create ex_sha ex_fmt ex_store 5 []
      (rotation_command ex_sha ''org'' d ''key'' (event_identifier ex_sha ''command'' ''event'') ''uumi_ingestion'' ''ctl''
        (rotation_reason ''expiry'') ''routine'' 1) = Inr (m, runs)" "st_runs runs (''org'', run_id (mr_run m)) \<noteq> None"
      "create_command_fields_ok (rotation_command ex_sha ''org'' d ''key'' (event_identifier ex_sha ''command'' ''event'')
        ''uumi_ingestion'' ''ctl'' (rotation_reason ''expiry'') ''routine'' 1)"
    using ex_rotation_created 1(5-7) by blast
  note svc = ex_service_def ex_event_def ex_clocks_def
  have confirm: "automation_confirm ex_service ex_inventory 4 ex_event d s = (Inr d, s)"
    using 1(2) by (simp add: automation_confirm_def split: list.split)
  have auto: "automatic ex_version ex_event ConfVerified" by code_simp
  have fields: "ing_organisation_id ex_event = ''org''" "ing_id ex_event = ''event''" "ing_kind ex_event = ''expiry''"
      "ing_observed_at ex_event = 1" "isv_sha ex_service = ex_sha" "isv_time ex_service = ex_fmt" "isv_workflow ex_service"
      "isv_region ex_service = None" "cv_id ex_version = ''ctl''" "cd_emergency_triggers (cv_definition ex_version) = []"
      "clk_created ex_clocks = 1" "clk_updated ex_clocks = 2" "clk_correlated ex_clocks = 3" "clk_confirmed ex_clocks = 4"
      "clk_run ex_clocks = 5" "clk_linked ex_clocks = 6"
    by (simp_all add: svc ex_version_def ex_definition_def)
  have rot: "rotatable ex_sha (event_identifier ex_sha ''command'' ''event'') d = Inr ''key''"
    using 1(2-4) by (simp add: rotatable_def require_def)
  have "ic_runs (snd (service_start_rotation ex_service 5 6 ''org'' (inc_id d) (event_identifier ex_sha ''command'' ''event'')
      ''uumi_ingestion'' ''ctl'' (rotation_reason ''expiry'') ''routine'' 1 s)) = runs"
    by (simp add: service_start_rotation_def fields 1(2,8,9) rot m(1,3) Let_def audit_incident_def split: sum.split prod.split)
  then have "ic_runs (snd (automation_ingest ex_service ex_inventory ex_clocks ex_event ex_incidents)) = runs"
    by (auto simp: automation_ingest_def automation_rotate_def fields 1(1,2,3) confirm ex_controls auto Let_def
        split: prod.splits sum.splits error.splits)
  then show thesis
    using m(2) by (intro that [OF surjective_pairing, of "(''org'', run_id (mr_run m))"])
      (simp add: ex_incidents_def ex_store_def empty_store_def)
qed

section \<open>Properties\<close>

text \<open>
  C16: An incident is never lost. Whatever calls of the service, of the automation and of the run workflow
  follow, it keeps the event, the source and the organisation it was made for, its revision never
  decreases, its status moves along the life cycle (\<open>incident_next\<close>), and a resolved or dismissed
  incident never changes again.
\<close>
theorem incident_lifecycle:
  assumes "incidents_ok (ic_incidents s)" "incident_of (ic_incidents s) org i = Some d"
  shows "\<exists>d'. incident_of (ic_incidents (incident_history calls s)) org i = Some d'
    \<and> same_incident d d' \<and> incident_next\<^sup>*\<^sup>* (inc_status d) (inc_status d')
    \<and> (inc_status d \<in> {Inc_Resolved, Inc_Dismissed} \<longrightarrow> d' = d)"
  using incident_history_kept [OF history_effects [OF assms(1)] assms(2)] .

theorem incident_lifecycle_witness:
  "\<exists>d d' s. incident_of (ic_incidents s) ''org'' (inc_id d) = Some d \<and> inc_status d = Inc_Action
    \<and> incident_of (ic_incidents (incident_history [(ex_service, DismissCall 5 ''org'' (inc_id d) 1 ''noise'' ''user'')] s))
        ''org'' (inc_id d) = Some d' \<and> same_incident d d'"
proof (cases rule: ex_ingested)
  case (1 d s)
  have "incidents_ok (ic_incidents s)"
    using effects_ok [OF service_ingest_effects [OF 1(1)]] by (simp add: ex_incidents_def)
  moreover have d: "incident_of (ic_incidents s) ''org'' (inc_id d) = Some d" using 1(9) by (simp add: incident_get_iff)
  ultimately show ?thesis
    using incident_lifecycle [of s "''org''" "inc_id d" d "[(ex_service, DismissCall 5 ''org'' (inc_id d) 1 ''noise'' ''user'')]"]
      1(2) by blast
qed

text \<open>
  C15: An incident whose rotation is due, running or over names a credential, and that credential is the only
  one of its candidates whose match is verified, by an exact match or by the confirmation of a person; an
  incident whose rotation started is linked to a run.
\<close>
theorem rotation_needs_verified_candidate:
  assumes "ic_incidents s = empty_incidents"
    and "incident_of (ic_incidents (incident_history calls s)) org i = Some d"
    and "inc_status d \<in> {Inc_Action, Inc_Rotating, Inc_Contained, Inc_Resolved}"
  shows "\<exists>c. inc_credential_id d = Some c \<and> verified_ids d = [c] \<and> (inc_status d = Inc_Action \<or> inc_run_id d \<noteq> None)"
proof -
  have "verified_store (ic_incidents (incident_history calls s))"
    by (rule verified_effects [OF history_effects]) (simp_all add: assms(1))
  then have "verified_ok d" using assms(2) by (auto simp: verified_store_def)
  then show ?thesis using assms(3) by (auto simp: verified_ok_def)
qed

theorem rotation_needs_verified_candidate_witness:
  "\<exists>d i. incident_of (ic_incidents (incident_history [(ex_service, IngestCall 1 2 3 i ex_event)] ex_incidents)) ''org'' i
      = Some d \<and> inc_status d = Inc_Action \<and> verified_ids d = [''key'']"
proof (cases rule: ex_ingested)
  case (1 d s)
  let ?i = "event_identifier ex_sha ''incident'' ''event''"
  let ?h = "[(ex_service, IngestCall 1 2 3 ?i ex_event)]"
  have "incidents_ok (ic_incidents ex_incidents)" by (simp add: ex_incidents_def)
  from ingest_result [OF 1(1) this]
  have d: "incident_of (ic_incidents (incident_history ?h ex_incidents)) ''org'' ?i = Some d"
    by (simp add: 1(1)) (simp add: ex_event_def)
  have "ic_incidents ex_incidents = empty_incidents" by (simp add: ex_incidents_def)
  from rotation_needs_verified_candidate [OF this d] 1(2,3) d show ?thesis by auto
qed

text \<open>
  The second delivery of an event fails. The record of an ingested event carries the field
  \<open>incident_id\<close>, which the contract of the event forbids, so reading the record back is a validation
  error, whatever happened in between: the deduplication never returns the incident.
\<close>
theorem ingestion_replay_fails:
  assumes "incidents_ok (ic_incidents s)" "service_ingest svc t1 t2 t3 i e s = (Inr x, s1)"
    and "isv_sha svc' = isv_sha svc" "event_key (isv_sha svc) e' = event_key (isv_sha svc) e"
  shows "\<exists>n. service_ingest svc' t4 t5 t6 j e' (incident_history calls s1)
    = (Inl (FieldError n), incident_history calls s1)"
proof -
  obtain doc where doc: "is_events (ic_incidents s1) (event_key (isv_sha svc) e) = Some doc" "idoc_incident_id doc \<noteq> None"
    using ingest_records_event [OF assms(2)] by blast
  have "incidents_ok (ic_incidents s1)" using effects_ok [OF service_ingest_effects [OF assms(2)] assms(1)] .
  from event_kept_effects [OF history_effects [OF this] doc(1)]
  have "is_events (ic_incidents (incident_history calls s1)) (event_key (isv_sha svc') e') = Some doc"
    by (simp add: assms(3,4))
  from ingest_known_event [OF this doc(2)] show ?thesis .
qed

theorem ingestion_replay_fails_witness:
  "\<exists>x s n. service_ingest ex_service 1 2 3 (event_identifier ex_sha ''incident'' ''event'') ex_event ex_incidents = (Inr x, s)
    \<and> fst (service_ingest ex_service 4 5 6 ''other'' ex_event s) = Inl (FieldError n)"
proof (cases rule: ex_ingested)
  case (1 d s)
  have "incidents_ok (ic_incidents ex_incidents)" by (simp add: ex_incidents_def)
  from ingestion_replay_fails [OF this 1(1) refl refl, of 4 5 6 "''other''" "[]"] 1(1) show ?thesis by auto
qed

text \<open>
  C14: A run that the automation creates was asked for by the controls: the credential of the run is the only
  verified candidate of the incident of the event, its pinned controls list the kind of the event among
  the automatic triggers, the run is pinned to these controls and named after the event, and the incident
  is linked to it.
\<close>
theorem automatic_rotation_authorised:
  assumes "automation_ingest svc iv clk e s = (r, s')"
    and "incidents_ok (ic_incidents s)" "verified_store (ic_incidents s)"
    and "st_runs (ic_runs s') k \<noteq> st_runs (ic_runs s) k"
  shows "\<exists>run d c controls. k = (ing_organisation_id e, run_id run)
    \<and> st_runs (ic_runs s) k = None \<and> st_runs (ic_runs s') k = Some run
    \<and> run_id run = rotation_run_id (isv_sha svc) (event_identifier (isv_sha svc) ''command'' (ing_id e))
    \<and> automation_controls iv (ing_organisation_id e) (run_credential_id run) = Inr (c, controls)
    \<and> ing_kind e \<in> set (cd_automatic_triggers (cv_definition controls)) \<and> run_control_version run = cv_id controls
    \<and> incident_of (ic_incidents s') (ing_organisation_id e) (event_identifier (isv_sha svc) ''incident'' (ing_id e)) = Some d
    \<and> inc_run_id d = Some (run_id run) \<and> verified_ids d = [run_credential_id run]"
  using assms(1,2)
proof (cases rule: automation_cases)
  case quiet
  then show ?thesis using assms(4) by simp
next
  case (rotated s2 d cred c controls q)
  have ok: "incidents_ok (ic_incidents s2)" "verified_store (ic_incidents s2)"
    using effects_ok [OF rotated(1) assms(2)] verified_effects [OF rotated(1) assms(3)] .
  have one: "verified_ids d = [cred]"
  proof -
    have "verified_ok d" using ok(2) rotated(3) unfolding verified_store_def by blast
    then show ?thesis using rotated(5,6) by (auto simp: verified_ok_def)
  qed
  from rotated(9) ok(1) show ?thesis
  proof (cases rule: start_rotation_cases)
    case (failed err)
    then show ?thesis using assms(4) rotated(2) by simp
  next
    case (started d' cred' m)
    have d': "d' = d" "cred' = cred" using started(1,2) rotated(3,6) by simp_all
    let ?cmd = "event_identifier (isv_sha svc) ''command'' (ing_id e)"
    obtain run where run: "build_run (rotation_command (isv_sha svc) (ing_organisation_id e) d cred ?cmd ''uumi_ingestion''
          (cv_id controls) (rotation_reason (ing_kind e))
          (if ing_kind e \<in> set (cd_emergency_triggers (cv_definition controls)) then ''emergency'' else ''routine'')
          (ing_observed_at e)) (rotation_run_id (isv_sha svc) ?cmd) (clk_run clk) = Inr run"
        "store_create (isv_sha svc) (isv_time svc) (ic_runs s2) run (rotation_command (isv_sha svc) (ing_organisation_id e) d cred
          ?cmd ''uumi_ingestion'' (cv_id controls) (rotation_reason (ing_kind e))
          (if ing_kind e \<in> set (cd_emergency_triggers (cv_definition controls)) then ''emergency'' else ''routine'')
          (ing_observed_at e)) = Inr (m, ic_runs s')"
      using started(4) by (auto simp: d' workflow_create_def bindr_eq_Inr rotation_command_def rotation_run_id_def)
    note f = build_run_fields [OF run(1), unfolded rotation_command_def, simplified]
    from run(2) show ?thesis
    proof (cases rule: store_create_cases)
      case replayed
      then show ?thesis using assms(4) rotated(2) by simp
    next
      case (created h ob)
      have k: "k = (ing_organisation_id e, run_id run)"
        using assms(4) created(15) rotated(2) f by (auto simp: created_store_def Let_def split: if_splits)
      have "st_runs (ic_runs s') k = Some run" "st_runs (ic_runs s) k = None"
        using created(4,15) rotated(2) f by (auto simp: created_store_def Let_def k)
      moreover have "incident_of (ic_incidents s') (ing_organisation_id e) (inc_id d)
          = Some (bumped (linked cred (run_id run) (clk_linked clk)) d)"
        using started(5) rotated(5) created(13) by (auto simp: d')
      moreover have "verified_ids (bumped (linked cred (run_id run) (clk_linked clk)) d) = [cred]"
        using one by (simp add: verified_ids_def bumped_def linked_def)
      ultimately show ?thesis
        using rotated(4,7,8) f k by (intro exI conjI) (auto simp: automatic_def bumped_def linked_def)
    qed
  qed
qed

theorem automatic_rotation_authorised_witness:
  "\<exists>r s' run d. automation_ingest ex_service ex_inventory ex_clocks ex_event ex_incidents = (r, s')
    \<and> st_runs (ic_runs s') (''org'', run_id run) = Some run
    \<and> incident_of (ic_incidents s') ''org'' (event_identifier ex_sha ''incident'' ''event'') = Some d
    \<and> inc_run_id d = Some (run_id run) \<and> verified_ids d = [run_credential_id run]"
proof (cases rule: ex_automatic)
  case (1 r s' k)
  have "incidents_ok (ic_incidents ex_incidents)" "verified_store (ic_incidents ex_incidents)"
    by (simp_all add: ex_incidents_def)
  from automatic_rotation_authorised [OF 1(1) this 1(2)] 1(1) show ?thesis
    by (auto simp: ex_event_def ex_service_def)
qed

end
