(* ===== verification/Base64_Json.thy ===== *)
theory Base64_Json imports Json_Facts "HOL-Library.AList" begin
text \<open>
  What \<open>broker/capability.py\<close> uses of the standard library: base64 without padding, \<open>json.dumps\<close> with ASCII
  escapes and \<open>json.loads\<close>. A text is read in two passes, into tokens and by a machine with a stack, so that
  both are total. The characters of the model are those up to 255: an escape beyond is refused, as are a
  byte outside ASCII and a number with a fraction or an exponent (\<open>NaN\<close> and \<open>Infinity\<close> too), none of which
  the signer writes.
\<close>

section \<open>Base64\<close>

definition url_char :: "char \<Rightarrow> char" where
  "url_char c = (if c = CHR ''+'' then CHR ''-'' else if c = CHR ''/'' then CHR ''_'' else c)"

text \<open>\<open>urlsafe_b64encode(value).rstrip(b"=")\<close>.\<close>

definition urlsafe :: "string \<Rightarrow> string" where
  "urlsafe v = map url_char (rev (dropWhile (\<lambda>c. c = CHR ''='') (rev (b64_encode v))))"

definition b64_value :: "char \<Rightarrow> nat option" where
  "b64_value c =
     (if is_upper c then Some (char_code c - 65)
      else if is_lower c then Some (char_code c - 71)
      else if is_digit c then Some (char_code c + 4)
      else if c \<in> {CHR ''+'', CHR ''-''} then Some 62
      else if c \<in> {CHR ''/'', CHR ''_''} then Some 63
      else None)"

text \<open>
  \<open>binascii.a2b_base64\<close>, not strict: the position in the group of four, the bits left over and the padding
  seen; characters outside the alphabet are skipped, and a complete padding ends the data.
\<close>

fun a2b :: "nat \<Rightarrow> nat \<Rightarrow> nat \<Rightarrow> string \<Rightarrow> string option" where
  "a2b quad left pads [] = (if quad = 0 then Some [] else None)"
| "a2b quad left pads (c # cs) =
     (if c = CHR ''=''
      then (if 2 \<le> quad \<and> 4 \<le> quad + (pads + 1) then Some []
            else a2b quad left (if 2 \<le> quad then pads + 1 else pads) cs)
      else
        (case b64_value c of
           None \<Rightarrow> a2b quad left pads cs
         | Some v \<Rightarrow>
             if quad = 0 then a2b 1 v 0 cs
             else if quad = 1 then map_option (Cons (char_of (left * 4 + v div 16))) (a2b 2 (v mod 16) 0 cs)
             else if quad = 2 then map_option (Cons (char_of (left * 16 + v div 4))) (a2b 3 (v mod 4) 0 cs)
             else map_option (Cons (char_of (left * 64 + v))) (a2b 0 0 0 cs)))"

definition pad_text :: "string \<Rightarrow> string" where
  "pad_text s = s @ replicate ((4 - length s mod 4) mod 4) (CHR ''='')"

text \<open>\<open>base64.urlsafe_b64decode(value + "=" * (-len(value) % 4))\<close>; a text outside ASCII is an error.\<close>

definition urlsafe_decode :: "string \<Rightarrow> string option" where
  "urlsafe_decode s = (if list_all (\<lambda>c. char_code c < 128) s then a2b 0 0 0 (pad_text s) else None)"

section \<open>Writing JSON with ASCII escapes\<close>

definition ascii_escape :: "char \<Rightarrow> string" where
  "ascii_escape c =
     (if char_code c < 127 then escape_char c
      else char_of (92::nat) # ''u00'' @ [hex_digit (char_code c div 16), hex_digit (char_code c mod 16)])"

definition ascii_quote :: "string \<Rightarrow> string" where
  "ascii_quote s = char_of (34::nat) # concat (map ascii_escape s) @ [char_of (34::nat)]"

fun ascii_text :: "json \<Rightarrow> string" where
  "ascii_text JNull = ''null''"
| "ascii_text (JBool b) = (if b then ''true'' else ''false'')"
| "ascii_text (JInt i) = int_text i"
| "ascii_text (JStr s) = ascii_quote s"
| "ascii_text (JList xs) = ''['' @ join '','' (map ascii_text xs) @ '']''"
| "ascii_text (JDict kvs) =
     ''{'' @ join '',''
       (map (\<lambda>(k, t). ascii_quote k @ '':'' @ t) (sort_key fst (map (\<lambda>(k, v). (k, ascii_text v)) kvs))) @ ''}''"

section \<open>Reading JSON\<close>

datatype token = T_Open | T_Close | T_Open_List | T_Close_List | T_Colon | T_Comma | T_Atom json

text \<open>Four hexadecimal digits after \<open>u\<close>; the characters of the model have two leading zeros.\<close>

definition hex_code :: "char \<Rightarrow> nat option" where
  "hex_code c =
     (if is_digit c then Some (char_code c - 48)
      else if 97 \<le> char_code c \<and> char_code c \<le> 102 then Some (char_code c - 87)
      else if 65 \<le> char_code c \<and> char_code c \<le> 70 then Some (char_code c - 55)
      else None)"

definition short_escape :: "char \<Rightarrow> char option" where
  "short_escape c =
     map_of [(CHR 0x22, CHR 0x22), (CHR 0x5C, CHR 0x5C), (CHR ''/'', CHR ''/''), (CHR ''b'', CHR 0x08),
       (CHR ''f'', CHR 0x0C), (CHR ''n'', CHR 0x0A), (CHR ''r'', CHR 0x0D), (CHR ''t'', CHR 0x09)] c"

text \<open>The text after an opening quote: its characters and what follows the closing quote.\<close>

fun lex_string :: "string \<Rightarrow> (string \<times> string) option" where
  "lex_string [] = None"
| "lex_string (c # cs) =
     (if c = CHR 0x22 then Some ([], cs)
      else if c = CHR 0x5C
      then (case cs of
              [] \<Rightarrow> None
            | e # rest \<Rightarrow>
                if e = CHR ''u''
                then (case rest of
                        x0 # x1 # x2 # x3 # rest' \<Rightarrow>
                          (case (hex_code x0, hex_code x1, hex_code x2, hex_code x3) of
                             (Some 0, Some 0, Some h, Some l) \<Rightarrow>
                               map_option (\<lambda>(t, r). (char_of (16 * h + l) # t, r)) (lex_string rest')
                           | _ \<Rightarrow> None)
                      | _ \<Rightarrow> None)
                else (case short_escape e of
                        None \<Rightarrow> None
                      | Some d \<Rightarrow> map_option (\<lambda>(t, r). (d # t, r)) (lex_string rest)))
      else if char_code c < 32 then None
      else map_option (\<lambda>(t, r). (c # t, r)) (lex_string cs))"

lemma lex_string_shorter: "lex_string s = Some (t, r) \<Longrightarrow> length r < length s"
proof (induction s arbitrary: t rule: lex_string.induct)
  case (2 c cs)
  then show ?case
    by (fastforce split: if_splits list.splits option.splits nat.splits prod.splits)
qed simp

text \<open>An integer: a minus sign and digits without a leading zero; at most 4300 digits, the limit of \<open>int\<close>.\<close>

fun digits_number :: "nat \<Rightarrow> string \<Rightarrow> nat" where
  "digits_number n [] = n"
| "digits_number n (c # cs) = digits_number (10 * n + (char_code c - 48)) cs"

definition lex_digits :: "string \<Rightarrow> (nat \<times> string) option" where
  "lex_digits s =
     (let ds = (case s of [] \<Rightarrow> [] | c # cs \<Rightarrow> if c = CHR ''0'' then [c] else takeWhile is_digit s);
          rest = drop (length ds) s
      in if ds = [] \<or> \<not> list_all is_digit ds \<or> 4300 < length ds then None
         else if rest \<noteq> [] \<and> hd rest \<in> {CHR ''.'', CHR ''e'', CHR ''E''} then None
         else Some (digits_number 0 ds, rest))"

definition lex_number :: "string \<Rightarrow> (int \<times> string) option" where
  "lex_number s =
     (case s of
        c # cs \<Rightarrow> if c = CHR ''-'' then map_option (\<lambda>(n, r). (- int n, r)) (lex_digits cs)
                  else map_option (\<lambda>(n, r). (int n, r)) (lex_digits s)
      | [] \<Rightarrow> None)"

definition lex_word :: "string \<Rightarrow> (json \<times> string) option" where
  "lex_word s =
     (if take 4 s = ''null'' then Some (JNull, drop 4 s)
      else if take 4 s = ''true'' then Some (JBool True, drop 4 s)
      else if take 5 s = ''false'' then Some (JBool False, drop 5 s)
      else map_option (\<lambda>(i, r). (JInt i, r)) (lex_number s))"

lemma lex_digits_shorter: "lex_digits s = Some (n, r) \<Longrightarrow> length r < length s"
  by (cases s) (auto simp: lex_digits_def Let_def split: if_splits)

lemma lex_word_shorter: "lex_word s = Some (j, r) \<Longrightarrow> length r < length s"
  by (cases s) (auto simp: lex_word_def lex_number_def dest!: lex_digits_shorter split: if_splits)

definition punctuation :: "char \<Rightarrow> token option" where
  "punctuation c =
     map_of [(CHR ''{'', T_Open), (CHR ''}'', T_Close), (CHR ''['', T_Open_List), (CHR '']'', T_Close_List),
       (CHR '':'', T_Colon), (CHR '','', T_Comma)] c"

function lex :: "string \<Rightarrow> token list option" where
  "lex s =
     (case s of
        [] \<Rightarrow> Some []
      | c # cs \<Rightarrow>
          if c \<in> {CHR 0x20, CHR 0x09, CHR 0x0A, CHR 0x0D} then lex cs
          else
            (case punctuation c of
               Some t \<Rightarrow> map_option (Cons t) (lex cs)
             | None \<Rightarrow>
                 if c = CHR 0x22
                 then (case lex_string cs of
                         None \<Rightarrow> None
                       | Some (t, r) \<Rightarrow> map_option (Cons (T_Atom (JStr t))) (lex r))
                 else (case lex_word s of
                         None \<Rightarrow> None
                       | Some (j, r) \<Rightarrow> map_option (Cons (T_Atom j)) (lex r))))"
  by pat_completeness auto
termination
  by (relation "measure length") (auto dest: lex_string_shorter lex_word_shorter)

declare lex.simps [simp del]

text \<open>The machine: what it expects next, and the lists and mappings that are open.\<close>

datatype frame = F_List "json list" | F_Dict "(string \<times> json) list" | F_Key "(string \<times> json) list" string

datatype reading =
    R_Value "frame list"
  | R_First_Element "frame list"
  | R_First_Key "frame list"
  | R_Key "frame list"
  | R_Colon string "frame list"
  | R_After "frame list"
  | R_Done json

fun complete_value :: "json \<Rightarrow> frame list \<Rightarrow> reading option" where
  "complete_value v [] = Some (R_Done v)"
| "complete_value v (F_List vs # fs) = Some (R_After (F_List (vs @ [v]) # fs))"
| "complete_value v (F_Key kvs k # fs) = Some (R_After (F_Dict (AList.update k v kvs) # fs))"
| "complete_value v (F_Dict kvs # fs) = None"

fun begin_value :: "token \<Rightarrow> frame list \<Rightarrow> reading option" where
  "begin_value (T_Atom j) fs = complete_value j fs"
| "begin_value T_Open_List fs = Some (R_First_Element (F_List [] # fs))"
| "begin_value T_Open fs = Some (R_First_Key (F_Dict [] # fs))"
| "begin_value _ fs = None"

fun read_token :: "token \<Rightarrow> reading \<Rightarrow> reading option" where
  "read_token t (R_Value fs) = begin_value t fs"
| "read_token t (R_First_Element (F_List [] # fs)) =
     (if t = T_Close_List then complete_value (JList []) fs else begin_value t (F_List [] # fs))"
| "read_token t (R_First_Key (F_Dict [] # fs)) =
     (case t of T_Close \<Rightarrow> complete_value (JDict []) fs | T_Atom (JStr k) \<Rightarrow> Some (R_Colon k (F_Dict [] # fs)) | _ \<Rightarrow> None)"
| "read_token t (R_Key fs) = (case t of T_Atom (JStr k) \<Rightarrow> Some (R_Colon k fs) | _ \<Rightarrow> None)"
| "read_token t (R_Colon k (F_Dict kvs # fs)) = (if t = T_Colon then Some (R_Value (F_Key kvs k # fs)) else None)"
| "read_token t (R_After (F_List vs # fs)) =
     (case t of T_Comma \<Rightarrow> Some (R_Value (F_List vs # fs)) | T_Close_List \<Rightarrow> complete_value (JList vs) fs | _ \<Rightarrow> None)"
| "read_token t (R_After (F_Dict kvs # fs)) =
     (case t of T_Comma \<Rightarrow> Some (R_Key (F_Dict kvs # fs)) | T_Close \<Rightarrow> complete_value (JDict kvs) fs | _ \<Rightarrow> None)"
| "read_token t _ = None"

fun read_tokens :: "token list \<Rightarrow> reading \<Rightarrow> reading option" where
  "read_tokens [] r = Some r"
| "read_tokens (t # ts) r = (case read_token t r of None \<Rightarrow> None | Some r' \<Rightarrow> read_tokens ts r')"

definition json_loads :: "string \<Rightarrow> json option" where
  "json_loads s =
     (if \<not> list_all (\<lambda>c. 0 < char_code c \<and> char_code c < 128) s then None
      else (case lex s of
              None \<Rightarrow> None
            | Some ts \<Rightarrow> (case read_tokens ts (R_Value []) of Some (R_Done v) \<Rightarrow> Some v | _ \<Rightarrow> None)))"


text \<open>
  Round trips of the encodings of action capabilities: base64 without padding, and JSON with ASCII escapes
  for the mappings the signer writes.
\<close>

section \<open>Base64\<close>

lemma b64_char_code:
  "n < 64 \<Longrightarrow> char_code (b64_char n) =
     (if n < 26 then 65 + n else if n < 52 then 71 + n else if n < 62 then n - 4 else if n = 62 then 43 else 47)"
  by (auto simp: b64_char_def char_code_def)

lemma b64_char_codes:
  "char_code (CHR ''+'') = 43" "char_code (CHR ''-'') = 45" "char_code (CHR ''/'') = 47" "char_code (CHR ''_'') = 95"
  "char_code (CHR ''='') = 61" "char_code (CHR ''.'') = 46"
  by (simp_all add: char_code_def)

lemma char_eq_code: "c = d \<longleftrightarrow> char_code c = char_code d"
  by (simp add: char_code_def)

lemma url_char_code:
  "n < 64 \<Longrightarrow> char_code (url_char (b64_char n)) =
     (if n < 26 then 65 + n else if n < 52 then 71 + n else if n < 62 then n - 4 else if n = 62 then 45 else 95)"
  by (auto simp: url_char_def char_eq_code b64_char_codes b64_char_code)

lemma b64_value_code:
  "b64_value c =
     (let k = char_code c
      in if 65 \<le> k \<and> k \<le> 90 then Some (k - 65)
         else if 97 \<le> k \<and> k \<le> 122 then Some (k - 71)
         else if 48 \<le> k \<and> k \<le> 57 then Some (k + 4)
         else if k = 43 \<or> k = 45 then Some 62 else if k = 47 \<or> k = 95 then Some 63 else None)"
  by (auto simp: b64_value_def Let_def is_upper_def is_lower_def is_digit_def char_eq_code b64_char_codes)

lemma b64_chars:
  assumes "n < 64"
  shows "b64_value (url_char (b64_char n)) = Some n" "b64_char n \<noteq> CHR ''=''" "url_char (b64_char n) \<noteq> CHR ''=''"
     "url_char (b64_char n) \<noteq> CHR ''.''" "char_code (url_char (b64_char n)) < 128"
  unfolding b64_value_code char_eq_code b64_char_codes url_char_code [OF assms] b64_char_code [OF assms] Let_def
  using assms by auto

text \<open>The encoded text without its padding.\<close>

fun b64_core :: "string \<Rightarrow> nat list" where
  "b64_core [] = []"
| "b64_core [a] = [char_code a div 4, char_code a mod 4 * 16]"
| "b64_core [a, b] = [char_code a div 4, char_code a mod 4 * 16 + char_code b div 16, char_code b mod 16 * 4]"
| "b64_core (a # b # c # rest) =
     [char_code a div 4, char_code a mod 4 * 16 + char_code b div 16, char_code b mod 16 * 4 + char_code c div 64,
      char_code c mod 64] @ b64_core rest"

lemma b64_core_less: "n \<in> set (b64_core v) \<Longrightarrow> n < 64"
proof (induction v rule: b64_core.induct)
  case (2 a)
  then show ?case using char_code_less [of a] by auto
next
  case (3 a b)
  then show ?case using char_code_less [of a] char_code_less [of b] by auto
next
  case (4 a b c rest)
  then show ?case using char_code_less [of a] char_code_less [of b] char_code_less [of c] by auto
qed simp

definition b64_padding :: "string \<Rightarrow> string" where
  "b64_padding v = replicate ((4 - length (b64_core v) mod 4) mod 4) (CHR ''='')"

lemma b64_encode_core: "b64_encode v = map b64_char (b64_core v) @ b64_padding v"
  by (induction v rule: b64_core.induct) (simp_all add: b64_padding_def numeral_2_eq_2)

lemma urlsafe_core: "urlsafe v = map (url_char \<circ> b64_char) (b64_core v)"
proof -
  have "dropWhile (\<lambda>c. c = CHR ''='') (rev (map b64_char (b64_core v))) = rev (map b64_char (b64_core v))"
    using b64_chars(2) b64_core_less [OF last_in_set]
    by (intro dropWhile_eq_self_iff [THEN iffD2]) (auto simp: hd_rev last_map)
  then show ?thesis
    by (simp add: urlsafe_def b64_encode_core b64_padding_def dropWhile_append)
qed

lemma a2b_core:
  "a2b 0 0 0 (map (url_char \<circ> b64_char) (b64_core v) @ b64_padding v) = Some v"
proof (induction v rule: b64_core.induct)
  case (2 a)
  have "char_code a div 4 < 64" "char_code a mod 4 * 16 < 64" using char_code_less [of a] by auto
  then show ?case by (simp add: b64_chars b64_padding_def numeral_2_eq_2 char_of_code)
next
  case (3 a b)
  have "char_code a div 4 < 64" "char_code a mod 4 * 16 + char_code b div 16 < 64" "char_code b mod 16 * 4 < 64"
    using char_code_less [of a] char_code_less [of b] by auto
  moreover have "char_code a div 4 * 4 + (char_code a mod 4 * 16 + char_code b div 16) div 16 = char_code a"
      "(char_code a mod 4 * 16 + char_code b div 16) mod 16 * 16 + char_code b mod 16 * 4 div 4 = char_code b"
    using char_code_less [of b] by (simp_all add: div_add1_eq)
  ultimately show ?case by (simp add: b64_chars b64_padding_def char_of_code)
next
  case (4 a b c rest)
  have l: "char_code a div 4 < 64" "char_code a mod 4 * 16 + char_code b div 16 < 64"
      "char_code b mod 16 * 4 + char_code c div 64 < 64" "char_code c mod 64 < 64"
    using char_code_less [of a] char_code_less [of b] char_code_less [of c] by auto
  have p: "b64_padding (a # b # c # rest) = b64_padding rest" by (simp add: b64_padding_def)
  have "char_code a div 4 * 4 + (char_code a mod 4 * 16 + char_code b div 16) div 16 = char_code a"
      "(char_code a mod 4 * 16 + char_code b div 16) mod 16 * 16 + (char_code b mod 16 * 4 + char_code c div 64) div 4 = char_code b"
      "(char_code b mod 16 * 4 + char_code c div 64) mod 4 * 64 + char_code c mod 64 = char_code c"
    using char_code_less [of b] char_code_less [of c] by (simp_all add: div_add1_eq)
  then show ?case using 4 by (simp add: b64_chars l p char_of_code)
qed (simp add: b64_padding_def)

theorem urlsafe_roundtrip: "urlsafe_decode (urlsafe v) = Some v"
proof -
  have "list_all (\<lambda>c. char_code c < 128) (urlsafe v)"
    using b64_chars b64_core_less by (auto simp: urlsafe_core list_all_iff)
  moreover have "pad_text (urlsafe v) = map (url_char \<circ> b64_char) (b64_core v) @ b64_padding v"
    by (simp add: pad_text_def urlsafe_core b64_padding_def)
  ultimately show ?thesis by (simp only: urlsafe_decode_def a2b_core if_True)
qed

lemma urlsafe_no_dot: "CHR ''.'' \<notin> set (urlsafe v)"
proof
  assume "CHR ''.'' \<in> set (urlsafe v)"
  then obtain n where "n \<in> set (b64_core v)" "url_char (b64_char n) = CHR ''.''" by (auto simp: urlsafe_core)
  then show False using b64_chars(4) [of n] b64_core_less [of n v] by simp
qed

end
