(* ===== verification/Json_Read.thy ===== *)
theory Json_Read imports Base64_Json begin
text \<open>
  The round trip of JSON with ASCII escapes: \<open>json.loads\<close> reads what \<open>json.dumps\<close> wrote, with the entries of
  every mapping sorted by key.
\<close>

section \<open>Tokens\<close>

fun commas :: "token list list \<Rightarrow> token list" where
  "commas [] = []"
| "commas [x] = x"
| "commas (x # y # ys) = x @ T_Comma # commas (y # ys)"

fun json_tokens :: "json \<Rightarrow> token list" where
  "json_tokens (JList xs) = T_Open_List # commas (map json_tokens xs) @ [T_Close_List]"
| "json_tokens (JDict kvs) =
     T_Open # commas (map (\<lambda>kv. T_Atom (JStr (fst kv)) # T_Colon # json_tokens (snd kv)) kvs) @ [T_Close]"
| "json_tokens j = [T_Atom j]"

text \<open>Integers that Python prints and reads: at most 4300 digits. And mappings without repeated keys.\<close>

fun readable :: "json \<Rightarrow> bool" where
  "readable (JInt i) = (length (nat_text (nat (abs i))) \<le> 4300)"
| "readable (JList xs) = list_all readable xs"
| "readable (JDict kvs) = (distinct (map fst kvs) \<and> list_all (\<lambda>kv. readable (snd kv)) kvs)"
| "readable j = True"

lemma commas_Cons: "commas (x # xs) = x @ (if xs = [] then [] else T_Comma # commas xs)"
  by (cases xs) simp_all

lemma punctuation_simps:
  "punctuation (CHR ''{'') = Some T_Open" "punctuation (CHR ''}'') = Some T_Close"
  "punctuation (CHR ''['') = Some T_Open_List" "punctuation (CHR '']'') = Some T_Close_List"
  "punctuation (CHR '':'') = Some T_Colon" "punctuation (CHR '','') = Some T_Comma" "punctuation (CHR 0x22) = None"
  "punctuation (CHR ''n'') = None" "punctuation (CHR ''t'') = None" "punctuation (CHR ''f'') = None"
  by (simp_all add: punctuation_def)

lemma lex_punctuation:
  "lex (CHR ''{'' # s) = map_option (Cons T_Open) (lex s)" "lex (CHR ''}'' # s) = map_option (Cons T_Close) (lex s)"
  "lex (CHR ''['' # s) = map_option (Cons T_Open_List) (lex s)" "lex (CHR '']'' # s) = map_option (Cons T_Close_List) (lex s)"
  "lex (CHR '':'' # s) = map_option (Cons T_Colon) (lex s)" "lex (CHR '','' # s) = map_option (Cons T_Comma) (lex s)"
  by (subst lex.simps, simp add: punctuation_simps)+

section \<open>Strings\<close>

lemma hex_code_digit: "n < 16 \<Longrightarrow> hex_code (hex_digit n) = Some n"
  by (simp add: hex_code_def hex_digit_def is_digit_def char_code_def)

lemma hex_code_zero: "hex_code (CHR ''0'') = Some 0"
  by (simp add: hex_code_def is_digit_def char_code_def)

lemma lex_string_unicode:
  assumes "char_code c < 256"
  shows "lex_string (CHR 0x5C # ''u00'' @ [hex_digit (char_code c div 16), hex_digit (char_code c mod 16)] @ r)
    = map_option (\<lambda>(t, u). (c # t, u)) (lex_string r)"
proof -
  have "char_code c div 16 < 16" "char_code c mod 16 < 16" using assms by auto
  moreover have "char_of (16 * (char_code c div 16) + char_code c mod 16) = c" by (simp add: char_of_code)
  ultimately show ?thesis by (simp add: hex_code_digit hex_code_zero)
qed

lemma lex_string_plain:
  assumes "32 \<le> char_code c" "char_code c \<noteq> 34" "char_code c \<noteq> 92"
  shows "lex_string (c # r) = map_option (\<lambda>(t, u). (c # t, u)) (lex_string r)"
proof -
  have "c \<noteq> CHR 0x22" "c \<noteq> CHR 0x5C" using assms by (auto simp: char_code_def)
  then show ?thesis using assms(1) by simp
qed

lemma lex_string_short:
  assumes "char_code c \<in> {34, 92, 10, 13, 9, 12, 8}"
  shows "lex_string (escape_char c @ r) = map_option (\<lambda>(t, u). (c # t, u)) (lex_string r)"
proof -
  have "c \<in> {char_of (34::nat), char_of (92::nat), char_of (10::nat), char_of (13::nat), char_of (9::nat),
      char_of (12::nat), char_of (8::nat)}"
    using assms by (simp add: char_code_iff)
  then show ?thesis by (elim insertE) (simp_all add: escape_char_def char_code_def short_chars short_escape_def)
qed

lemma lex_string_escape: "lex_string (ascii_escape c @ r) = map_option (\<lambda>(t, u). (c # t, u)) (lex_string r)"
proof (cases "127 \<le> char_code c \<or> char_code c < 32 \<and> char_code c \<notin> {34, 92, 10, 13, 9, 12, 8}")
  case True
  then have "ascii_escape c = CHR 0x5C # ''u00'' @ [hex_digit (char_code c div 16), hex_digit (char_code c mod 16)]"
    by (auto simp: ascii_escape_def escape_char_def short_chars)
  then show ?thesis using lex_string_unicode [OF char_code_less, of c r] by simp
next
  case False
  then have e: "ascii_escape c = escape_char c" by (simp add: ascii_escape_def)
  show ?thesis
  proof (cases "char_code c \<in> {34, 92, 10, 13, 9, 12, 8}")
    case True
    then show ?thesis unfolding e by (rule lex_string_short)
  next
    case no: False
    then have "escape_char c = [c]" using False by (auto simp: escape_char_def)
    then show ?thesis using e no False lex_string_plain [of c r] by simp
  qed
qed

lemma lex_string_text: "lex_string (concat (map ascii_escape s) @ CHR 0x22 # r) = Some (s, r)"
  by (induction s) (simp_all add: lex_string_escape)

lemma lex_quote: "lex (ascii_quote s @ r) = map_option (Cons (T_Atom (JStr s))) (lex r)"
proof -
  have q: "ascii_quote s @ r = CHR 0x22 # concat (map ascii_escape s) @ CHR 0x22 # r"
    by (simp add: ascii_quote_def short_chars)
  show ?thesis unfolding q by (subst lex.simps) (simp add: punctuation_simps lex_string_text)
qed

section \<open>Numbers\<close>

lemma digits_number_value: "digits_number n s = foldl (\<lambda>v c. 10 * v + (char_code c - 48)) n s"
  by (induction s arbitrary: n) simp_all

lemma nat_text_leading: "nat_text n = CHR ''0'' # cs \<Longrightarrow> cs = []"
proof (induction n arbitrary: cs rule: nat_text.induct)
  case (1 n)
  show ?case
  proof (cases "n < 10")
    case True
    then show ?thesis using 1(2) by (subst (asm) nat_text.simps) simp
  next
    case False
    then have t: "nat_text n = nat_text (n div 10) @ [digit_char (n mod 10)]" by (subst nat_text.simps) simp
    obtain c ds where ds: "nat_text (n div 10) = c # ds" using nat_text_digits [of "n div 10"] by (cases "nat_text (n div 10)") auto
    then have "c = CHR ''0''" using 1(2) t by simp
    then have "ds = []" using 1(1) [OF False] ds by simp
    then have "digits_value (nat_text (n div 10)) = 0" using ds \<open>c = CHR ''0''\<close> by (simp add: digits_value_def char_code_def)
    then show ?thesis using False by (simp add: digits_value_text)
  qed
qed

lemma stops_no_digit: "stops r \<Longrightarrow> r \<noteq> [] \<Longrightarrow> \<not> is_digit (hd r) \<and> hd r \<notin> {CHR ''.'', CHR ''e'', CHR ''E''}"
  by (auto simp: stops_def is_digit_def char_code_def)

lemma lex_digits_text:
  assumes "stops r" "length (nat_text n) \<le> 4300"
  shows "lex_digits (nat_text n @ r) = Some (n, r)"
proof -
  obtain c cs where t: "nat_text n = c # cs" using nat_text_digits [of n] by (cases "nat_text n") auto
  have "takeWhile is_digit (nat_text n @ r) = nat_text n"
    using nat_text_digits [of n] stops_no_digit [OF assms(1)]
    by (cases r) (auto simp: takeWhile_append list_all_iff takeWhile_eq_all_conv)
  then have "(case nat_text n @ r of [] \<Rightarrow> [] | c # cs \<Rightarrow> if c = CHR ''0'' then [c] else takeWhile is_digit (nat_text n @ r))
      = nat_text n"
    using t nat_text_leading [of n] by auto
  moreover have "digits_number 0 (nat_text n) = n"
    using digits_value_text [of n] by (simp add: digits_value_def digits_number_value)
  ultimately show ?thesis
    using assms(2) nat_text_digits [of n] stops_no_digit [OF assms(1)] by (auto simp: lex_digits_def Let_def)
qed

lemma lex_number_text:
  assumes "stops r" "readable (JInt i)"
  shows "lex_number (int_text i @ r) = Some (i, r)"
proof (cases "i < 0")
  case True
  then show ?thesis using assms lex_digits_text [of r "nat (- i)"] by (simp add: lex_number_def int_text_def)
next
  case False
  obtain c cs where t: "nat_text (nat i) = c # cs" "c \<noteq> CHR ''-''"
    using nat_text_digits [of "nat i"] minus_no_digit by (cases "nat_text (nat i)") auto
  then show ?thesis using False assms lex_digits_text [of r "nat i"] by (simp add: lex_number_def int_text_def)
qed

lemma number_char_code: "number_char c \<longleftrightarrow> char_code c = 45 \<or> 48 \<le> char_code c \<and> char_code c \<le> 57"
  by (auto simp: number_char_def is_digit_def char_eq_code b64_char_codes)

lemma lex_number_head:
  assumes "number_char c" 
  shows "c \<notin> {CHR 0x20, CHR 0x09, CHR 0x0A, CHR 0x0D}" "punctuation c = None" "c \<noteq> CHR 0x22"
    "c \<noteq> CHR ''n''" "c \<noteq> CHR ''t''" "c \<noteq> CHR ''f''"
  using assms by (auto simp: punctuation_def number_char_def is_digit_def char_code_def)

lemma lex_int:
  assumes "stops r" "readable (JInt i)"
  shows "lex (int_text i @ r) = map_option (Cons (T_Atom (JInt i))) (lex r)"
proof -
  obtain c cs where t: "int_text i = c # cs" "number_char c"
    using int_text_chars [of i] by (cases "int_text i") auto
  note h = lex_number_head [OF t(2)]
  have "lex_word (int_text i @ r) = Some (JInt i, r)"
    using lex_number_text [OF assms] t(1) h(4-6) by (simp add: lex_word_def take_Cons')
  then show ?thesis using t(1) h(1-3) by (subst lex.simps) simp
qed

lemma lex_words:
  "lex (''null'' @ r) = map_option (Cons (T_Atom JNull)) (lex r)"
  "lex (''true'' @ r) = map_option (Cons (T_Atom (JBool True))) (lex r)"
  "lex (''false'' @ r) = map_option (Cons (T_Atom (JBool False))) (lex r)"
  by (subst lex.simps, simp add: punctuation_simps lex_word_def)+

section \<open>Values\<close>

definition ascii_entry :: "string \<times> json \<Rightarrow> string" where
  "ascii_entry kv = ascii_quote (fst kv) @ '':'' @ ascii_text (snd kv)"

lemma ascii_text_entries: "ascii_text (JDict kvs) = ''{'' @ join '','' (map ascii_entry (sort_key fst kvs)) @ ''}''"
proof -
  have "sort_key fst (map (\<lambda>(k, v). (k, ascii_text v)) kvs) = map (\<lambda>(k, v). (k, ascii_text v)) (sort_key fst kvs)"
    by (simp add: sort_key_map comp_def case_prod_beta)
  then show ?thesis by (simp add: ascii_entry_def [abs_def] case_prod_beta comp_def)
qed

lemma ascii_text_sorted: "ascii_text (JDict kvs) = ''{'' @ join '','' (map ascii_entry kvs) @ ''}''"
  if "sorted (map fst kvs)"
  using that unfolding ascii_text_entries by (simp add: sort_key_id_if_sorted)

lemma ascii_text_sort: "ascii_text (sort_json j) = ascii_text j"
proof (induction j rule: sort_json.induct)
  case (2 kvs)
  let ?g = "\<lambda>kv. (fst kv, sort_json (snd kv))"
  have s: "sort_key fst (map ?g kvs) = map ?g (sort_key fst kvs)"
    by (simp add: sort_key_map comp_def)
  have "ascii_entry (?g kv) = ascii_entry kv" if "kv \<in> set kvs" for kv
    using 2 [OF that] by (simp add: ascii_entry_def)
  then have m: "map ascii_entry (map ?g (sort_key fst kvs)) = map ascii_entry (sort_key fst kvs)" by simp
  have "sort_key fst (map ?g (sort_key fst kvs)) = map ?g (sort_key fst kvs)"
    by (rule sort_key_id_if_sorted) (simp add: comp_def)
  then show ?case unfolding sort_json.simps ascii_text_entries s by (simp only: m)
qed (simp_all add: comp_def cong: map_cong)

lemma readable_sort: "readable (sort_json j) = readable j"
proof (induction j rule: sort_json.induct)
  case (2 kvs)
  let ?ks = "map (\<lambda>kv. (fst kv, sort_json (snd kv))) kvs"
  have "mset (map fst (sort_key fst ?ks)) = mset (map fst kvs)"
    by (simp add: multiset.map_comp comp_def)
  then have "distinct (map fst (sort_key fst ?ks)) = distinct (map fst kvs)"
    using mset_eq_imp_distinct_iff by blast
  then show ?case using 2 by (auto simp: list_all_iff)
qed (auto simp: list_all_iff)

lemma lex_join:
  assumes "\<And>x r. x \<in> set xs \<Longrightarrow> stops r \<Longrightarrow> lex (f x @ r) = map_option ((@) (g x)) (lex r)" "c \<in> {CHR '']'', CHR ''}''}"
  shows "lex (join '','' (map f xs) @ c # r) = map_option ((@) (commas (map g xs))) (lex (c # r))"
  using assms(1)
proof (induction xs)
  case (Cons x xs)
  have "stops (c # r)" using assms(2) by auto
  then show ?case using Cons
    by (simp add: join_Cons commas_Cons lex_punctuation option.map_comp comp_def)
qed (cases "lex (c # r)"; simp)

lemma lex_text:
  "sorted_json j \<Longrightarrow> readable j \<Longrightarrow> stops r \<Longrightarrow> lex (ascii_text j @ r) = map_option ((@) (json_tokens j)) (lex r)"
proof (induction j arbitrary: r rule: sorted_json.induct [case_names list_value dict_value none_value bool_value int_value str_value])
  case (list_value xs)
  have "lex (join '','' (map ascii_text xs) @ CHR '']'' # r)
      = map_option ((@) (commas (map json_tokens xs))) (lex (CHR '']'' # r))"
    using list_value by (intro lex_join) (auto simp: list_all_iff)
  then show ?case by (simp add: lex_punctuation option.map_comp comp_def)
next
  case (dict_value kvs)
  let ?g = "\<lambda>kv. T_Atom (JStr (fst kv)) # T_Colon # json_tokens (snd kv)"
  have "lex (ascii_entry kv @ s) = map_option ((@) (?g kv)) (lex s)" if "kv \<in> set kvs" "stops s" for kv s
    using dict_value.IH [OF that(1) _ _ that(2)] dict_value.prems that
    by (cases "lex s") (simp_all add: ascii_entry_def lex_quote lex_punctuation list_all_iff)
  then have "lex (join '','' (map ascii_entry kvs) @ CHR ''}'' # r)
      = map_option ((@) (commas (map ?g kvs))) (lex (CHR ''}'' # r))"
    by (intro lex_join) auto
  then show ?case using dict_value.prems(1)
    by (simp add: ascii_text_sorted lex_punctuation option.map_comp comp_def del: ascii_text.simps)
next
  case none_value
  then show ?case using lex_words(1) [of r] by (simp add: comp_def)
next
  case (bool_value b)
  then show ?case using lex_words(2,3) [of r] by simp
next
  case (int_value i)
  then show ?case using lex_int [of r i] by simp
next
  case (str_value s)
  then show ?case using lex_quote [of s r] by simp
qed

section \<open>The machine\<close>

lemma json_tokens_head: "\<exists>t ts. json_tokens j = t # ts \<and> t \<noteq> T_Close_List"
  by (cases j) simp_all

lemma first_element: "read_tokens (json_tokens j @ ts) (R_First_Element (F_List [] # fs)) = read_tokens (json_tokens j @ ts) (R_Value (F_List [] # fs))"
  using json_tokens_head [of j] by auto

lemma AList_update_new: "k \<notin> fst ` set kvs \<Longrightarrow> AList.update k v kvs = kvs @ [(k, v)]"
  by (induction kvs) auto

definition reads :: "json \<Rightarrow> bool" where
  "reads j \<longleftrightarrow> (\<forall>ts fs. read_tokens (json_tokens j @ ts) (R_Value fs) = Option.bind (complete_value j fs) (read_tokens ts))"

lemma read_list:
  assumes "\<And>x. x \<in> set xs \<Longrightarrow> reads x" "xs \<noteq> []"
  shows "read_tokens (commas (map json_tokens xs) @ T_Close_List # ts) (R_Value (F_List vs # fs))
    = Option.bind (complete_value (JList (vs @ xs)) fs) (read_tokens ts)"
  using assms
proof (induction xs arbitrary: vs)
  case (Cons x xs)
  have x: "read_tokens (json_tokens x @ us) (R_Value (F_List vs # fs)) = read_tokens us (R_After (F_List (vs @ [x]) # fs))" for us
    using Cons.prems(1) [of x] by (simp add: reads_def)
  show ?case
  proof (cases xs)
    case Nil
    then show ?thesis by (simp add: x split: option.split)
  next
    case (Cons y ys)
    then show ?thesis using x Cons.IH [of "vs @ [x]"] Cons.prems by (simp add: commas_Cons)
  qed
qed simp

lemma read_dict:
  assumes "\<And>kv. kv \<in> set kvs \<Longrightarrow> reads (snd kv)" "kvs \<noteq> []" "distinct (map fst (before @ kvs))"
  shows "read_tokens (commas (map (\<lambda>kv. T_Atom (JStr (fst kv)) # T_Colon # json_tokens (snd kv)) kvs) @ T_Close # ts)
      (R_Key (F_Dict before # fs))
    = Option.bind (complete_value (JDict (before @ kvs)) fs) (read_tokens ts)"
  using assms
proof (induction kvs arbitrary: before)
  case (Cons kv kvs)
  have x: "read_tokens (json_tokens (snd kv) @ us) (R_Value (F_Key before (fst kv) # fs))
      = read_tokens us (R_After (F_Dict (before @ [kv]) # fs))" for us
    using Cons.prems(1) [of kv] Cons.prems(3) by (simp add: reads_def AList_update_new)
  show ?case
  proof (cases kvs)
    case Nil
    then show ?thesis by (simp add: x split: option.split)
  next
    case (Cons y ys)
    then show ?thesis using x Cons.IH [of "before @ [kv]"] Cons.prems by (simp add: commas_Cons)
  qed
qed simp

lemma reads_readable: "readable j \<Longrightarrow> reads j"
proof (induction j rule: readable.induct)
  case (2 xs)
  then have xs: "\<And>x. x \<in> set xs \<Longrightarrow> reads x" by (auto simp: list_all_iff)
  show ?case
  proof (cases xs)
    case (Cons y ys)
    have "read_tokens (commas (map json_tokens xs) @ T_Close_List # ts) (R_First_Element (F_List [] # fs))
        = read_tokens (commas (map json_tokens xs) @ T_Close_List # ts) (R_Value (F_List [] # fs))" for ts fs
      using first_element [of y] Cons by (simp add: commas_Cons)
    then show ?thesis using read_list [of xs _ "[]"] xs Cons by (simp add: reads_def)
  qed (simp add: reads_def split: option.split)
next
  case (3 kvs)
  then have kvs: "\<And>kv. kv \<in> set kvs \<Longrightarrow> reads (snd kv)" by (auto simp: list_all_iff)
  show ?case
  proof (cases kvs)
    case (Cons y ys)
    have "read_tokens (commas (map (\<lambda>kv. T_Atom (JStr (fst kv)) # T_Colon # json_tokens (snd kv)) kvs) @ T_Close # ts)
          (R_First_Key (F_Dict [] # fs))
        = read_tokens (commas (map (\<lambda>kv. T_Atom (JStr (fst kv)) # T_Colon # json_tokens (snd kv)) kvs) @ T_Close # ts)
          (R_Key (F_Dict [] # fs))" for ts fs
      using Cons by (simp add: commas_Cons)
    then show ?thesis using read_dict [of kvs "[]"] kvs Cons 3(2) by (simp add: reads_def)
  qed (simp add: reads_def split: option.split)
qed (auto simp: reads_def split: option.split)

section \<open>Reading back\<close>

definition ascii_char :: "char \<Rightarrow> bool" where
  "ascii_char c \<longleftrightarrow> 0 < char_code c \<and> char_code c < 128"

lemma ascii_char_escape: "list_all ascii_char (ascii_escape c)"
proof (cases "char_code c < 127")
  case True
  have "ascii_char (hex_digit n)" if "n < 16" for n
    using that by (simp add: ascii_char_def hex_digit_def char_code_def)
  then have "list_all ascii_char [hex_digit (char_code c div 16), hex_digit (char_code c mod 16)]" if "char_code c < 32"
    using that by simp
  then show ?thesis using True by (simp add: ascii_escape_def escape_char_def ascii_char_def char_code_def)
next
  case False
  have "ascii_char (hex_digit n)" if "n < 16" for n
    using that by (simp add: ascii_char_def hex_digit_def char_code_def)
  moreover have "char_code c div 16 < 16" using char_code_less [of c] by auto
  ultimately show ?thesis using False by (simp add: ascii_escape_def) (simp add: ascii_char_def char_code_def)
qed

lemma ascii_char_quote: "list_all ascii_char (ascii_quote s)"
proof -
  have "list_all ascii_char (concat (map ascii_escape s))"
    using ascii_char_escape by (auto simp: list_all_iff)
  moreover have "ascii_char (char_of (34::nat))" by (simp add: ascii_char_def char_code_def)
  ultimately show ?thesis by (simp add: ascii_quote_def)
qed

lemma ascii_char_join:
  "(\<And>x. x \<in> set xs \<Longrightarrow> list_all ascii_char (f x)) \<Longrightarrow> list_all ascii_char (join '','' (map f xs))"
  by (induction xs) (simp_all add: join_Cons ascii_char_def char_code_def)

lemma ascii_chars: "list_all ascii_char (ascii_text j)"
proof (induction j rule: sort_json.induct [case_names list_value dict_value none_value bool_value int_value str_value])
  case (list_value xs)
  have "list_all ascii_char ''[]''" by (simp add: ascii_char_def char_code_def)
  then show ?case using list_value ascii_char_join [of xs ascii_text] by simp
next
  case (dict_value kvs)
  have colon: "list_all ascii_char ''{}:''" by (simp add: ascii_char_def char_code_def)
  then have "list_all ascii_char (ascii_entry kv)" if "kv \<in> set kvs" for kv
    using dict_value [OF that] ascii_char_quote by (simp add: ascii_entry_def)
  then show ?case using ascii_char_join [of "sort_key fst kvs" ascii_entry] colon
    by (simp add: ascii_text_entries del: ascii_text.simps)
next
  case (int_value i)
  have "ascii_char c" if "number_char c" for c
    using that by (auto simp: ascii_char_def number_char_code)
  then show ?case using int_text_chars(1) [of i] by (auto simp: list_all_iff)
next
  case (str_value s)
  then show ?case using ascii_char_quote by simp
qed (simp_all add: ascii_char_def char_code_def)

theorem json_roundtrip: "readable j \<Longrightarrow> json_loads (ascii_text j) = Some (sort_json j)"
proof -
  assume r: "readable j"
  let ?j = "sort_json j"
  have "lex (ascii_text ?j @ []) = map_option ((@) (json_tokens ?j)) (lex [])"
    using r by (intro lex_text) (simp_all add: sorted_json_sort readable_sort)
  then have l: "lex (ascii_text j) = Some (json_tokens ?j)" by (simp add: ascii_text_sort lex.simps)
  have "reads ?j" using r by (intro reads_readable) (simp add: readable_sort)
  then have "read_tokens (json_tokens ?j @ []) (R_Value []) = Option.bind (complete_value ?j []) (read_tokens [])"
    unfolding reads_def by blast
  then show ?thesis using l ascii_chars [of j] by (simp add: json_loads_def ascii_char_def [abs_def])
qed

end
