(* ===== verification/Connections.thy ===== *)
theory Connections imports Incident_Service begin
text \<open>
  \<open>urllib.parse.urlsplit\<close> of the standard library (Python 3.12) and the host, user and port of its
  result, as the contracts and the broker use them. The characters of the model are those up to 255, for
  which the check of the normalised network location never fails. The check of an address in brackets is
  the argument \<open>ip\<close>.
\<close>

section \<open>Splitting\<close>

record url =
  url_scheme :: string
  url_netloc :: string
  url_path :: string
  url_query :: string
  url_fragment :: string

definition is_letter :: "char \<Rightarrow> bool" where
  "is_letter c \<longleftrightarrow> is_lower c \<or> is_upper c"

definition lower_text :: "string \<Rightarrow> string" where
  "lower_text = map (\<lambda>c. if is_upper c \<or> (192 \<le> char_code c \<and> char_code c \<le> 222 \<and> char_code c \<noteq> 215)
                        then char_of (char_code c + 32) else c)"

definition scheme_char :: "char \<Rightarrow> bool" where
  "scheme_char c \<longleftrightarrow> is_letter c \<or> is_digit c \<or> c \<in> {CHR ''+'', CHR ''-'', CHR ''.''}"

definition split_scheme :: "string \<Rightarrow> string \<times> string" where
  "split_scheme u =
     (let i = takeWhile (\<lambda>c. c \<noteq> CHR '':'') u in
      if i \<noteq> u \<and> i \<noteq> [] \<and> is_letter (hd i) \<and> list_all scheme_char i
      then (lower_text i, drop (length i + 1) u) else ([], u))"

definition split_netloc :: "string \<Rightarrow> string \<times> string" where
  "split_netloc u =
     (if starts_with ''//'' u
      then (let delimiter = (\<lambda>c. c \<in> {CHR ''/'', CHR ''?'', CHR ''#''})
            in (takeWhile (\<lambda>c. \<not> delimiter c) (drop 2 u), dropWhile (\<lambda>c. \<not> delimiter c) (drop 2 u)))
      else ([], u))"

text \<open>\<open>partition\<close> and \<open>rpartition\<close> by one character: what is before it, whether it occurs, what is after it.\<close>

definition partition_char :: "char \<Rightarrow> string \<Rightarrow> string \<times> bool \<times> string" where
  "partition_char c s =
     (let h = takeWhile (\<lambda>d. d \<noteq> c) s in if h = s then (s, False, []) else (h, True, drop (length h + 1) s))"

definition rpartition_char :: "char \<Rightarrow> string \<Rightarrow> string \<times> bool \<times> string" where
  "rpartition_char c s =
     (let t = rev (takeWhile (\<lambda>d. d \<noteq> c) (rev s))
      in if t = s then ([], False, s) else (take (length s - length t - 1) s, True, t))"

definition urlsplit :: "(string \<Rightarrow> bool) \<Rightarrow> string \<Rightarrow> url result" where
  "urlsplit ip text =
     (let u = filter (\<lambda>c. c \<notin> {CHR 0x09, CHR 0x0D, CHR 0x0A}) (dropWhile (\<lambda>c. char_code c \<le> 32) text);
          (scheme, u1) = split_scheme u;
          (netloc, u2) = split_netloc u1;
          opened = CHR ''['' \<in> set netloc;
          closed = CHR '']'' \<in> set netloc
      in bindr (require (opened = closed) (ValueError ''Invalid IPv6 URL'')) (\<lambda>_.
         bindr (require (opened \<longrightarrow> ip netloc) (ValueError ''Invalid IPv6 URL'')) (\<lambda>_.
         let (u3, _, fragment) = partition_char (CHR ''#'') u2;
             (path, _, query) = partition_char (CHR ''?'') u3
         in Inr \<lparr>url_scheme = scheme, url_netloc = netloc, url_path = path, url_query = query, url_fragment = fragment\<rparr>)))"

section \<open>Host, user and port\<close>

text \<open>The network location: user information, the host, which may be in brackets, and the port.\<close>

definition hostinfo :: "url \<Rightarrow> string \<times> string" where
  "hostinfo u =
     (let (_, _, host) = rpartition_char (CHR ''@'') (url_netloc u);
          (_, opened, bracketed) = partition_char (CHR ''['') host
      in if opened
         then (let (name, _, after) = partition_char (CHR '']'') bracketed; (_, _, port) = partition_char (CHR '':'') after
               in (name, port))
         else (let (name, _, port) = partition_char (CHR '':'') host in (name, port)))"

definition url_hostname :: "url \<Rightarrow> string option" where
  "url_hostname u =
     (let name = fst (hostinfo u) in
      if name = [] then None
      else (let (host, percent, zone) = partition_char (CHR ''%'') name
            in Some (lower_text host @ (if percent then [CHR ''%''] else []) @ zone)))"

definition url_username :: "url \<Rightarrow> string option" where
  "url_username u =
     (let (userinfo, given, _) = rpartition_char (CHR ''@'') (url_netloc u)
      in if given then Some (fst (partition_char (CHR '':'') userinfo)) else None)"

definition url_password :: "url \<Rightarrow> string option" where
  "url_password u =
     (let (userinfo, given, _) = rpartition_char (CHR ''@'') (url_netloc u);
          (_, secret, password) = partition_char (CHR '':'') userinfo
      in if given \<and> secret then Some password else None)"

fun decimal :: "nat \<Rightarrow> string \<Rightarrow> nat" where
  "decimal n [] = n"
| "decimal n (c # cs) = decimal (10 * n + (char_code c - 48)) cs"

definition url_port :: "url \<Rightarrow> nat option result" where
  "url_port u =
     (let port = snd (hostinfo u) in
      if port = [] then Inr None
      else bindr (require (list_all is_digit port) (ValueError ''Port could not be cast to integer value'')) (\<lambda>_.
           bindr (require (decimal 0 port \<le> 65535) (ValueError ''Port out of range 0-65535'')) (\<lambda>_.
           Inr (Some (decimal 0 port)))))"


text \<open>
  Connections to the platforms that hold credentials and run their consumers:
  packages/contracts/src/contracts/http.py, the declared API of an HTTP provider, and \<open>Connection\<close> of
  packages/contracts/src/contracts/inventory.py. The migration of documents of the former layout
  (\<open>migrate_legacy_connection\<close>) is not modelled: documents are those the present program writes.
\<close>

section \<open>HTTP provider APIs\<close>

datatype http_scheme = Http_Bearer | Http_Header | Http_Basic

record http_auth =
  ha_scheme :: http_scheme
  ha_header :: string
  ha_prefix :: "string option"

definition http_auth_fields_ok :: "http_auth \<Rightarrow> bool" where
  "http_auth_fields_ok a \<longleftrightarrow> text_between 1 128 (ha_header a) \<and> opt_ok (text_between 0 64) (ha_prefix a)"

definition validate_header :: "http_auth \<Rightarrow> unit result" where
  "validate_header a =
     require (\<not> (ha_scheme a = Http_Header \<and> lower_text (ha_header a) = ''authorization''))
       (ValidationError ''header authentication requires an explicit API header name'')"

definition validate_http_auth :: "http_auth \<Rightarrow> http_auth result" where
  "validate_http_auth a =
     (if http_auth_fields_ok a then bindr (validate_header a) (\<lambda>_. Inr a) else Inl (FieldError ''HttpAuth''))"

record http_operation =
  ho_method :: string
  ho_path :: string
  ho_success_statuses :: "int list"
  ho_query :: "(string \<times> string) list"
  ho_body :: "(string \<times> json) list"
  ho_list_items :: "string option"
  ho_provider_id_field :: "string option"
  ho_secret_field :: "string option"
  ho_name_field :: "string option"
  ho_metadata_fields :: "(string \<times> string) list"

definition http_operation_fields_ok :: "http_operation \<Rightarrow> bool" where
  "http_operation_fields_ok o' \<longleftrightarrow>
     ho_method o' \<in> {''GET'', ''POST'', ''PUT'', ''PATCH'', ''DELETE''}
     \<and> text_between 1 1024 (ho_path o') \<and> starts_with ''/'' (ho_path o') \<and> ho_success_statuses o' \<noteq> []
     \<and> opt_ok (text_between 0 256) (ho_list_items o') \<and> opt_ok (text_between 0 128) (ho_provider_id_field o')
     \<and> opt_ok (text_between 0 128) (ho_secret_field o') \<and> opt_ok (text_between 0 128) (ho_name_field o')
     \<and> length (ho_metadata_fields o') \<le> 16"

definition METADATA_FIELDS :: "string list" where
  "METADATA_FIELDS = [''created_at'', ''disabled'', ''expires_at'', ''last_used_at'', ''kind'', ''scopes'', ''status'']"

text \<open>A \<open>ValueError\<close> inside a validator is a validation error.\<close>

definition inside_validator :: "'a result \<Rightarrow> 'a result" where
  "inside_validator r = (case r of Inl (ValueError m) \<Rightarrow> Inl (ValidationError m) | _ \<Rightarrow> r)"

text \<open>
  The placeholders of a path (\<open>re.findall\<close>) and the path without them (\<open>re.sub\<close>): a name in braces, a
  letter followed by letters, digits and underscores.
\<close>

definition name_char :: "char \<Rightarrow> bool" where
  "name_char c \<longleftrightarrow> is_letter c \<or> is_digit c \<or> c = CHR ''_''"

definition placeholder_at :: "string \<Rightarrow> string option" where
  "placeholder_at s =
     (case s of
        CHR ''{'' # c # cs \<Rightarrow>
          (let name = c # takeWhile name_char cs; after = dropWhile name_char cs
           in if is_letter c \<and> after \<noteq> [] \<and> hd after = CHR ''}'' then Some name else None)
      | _ \<Rightarrow> None)"

function placeholders :: "string \<Rightarrow> string list \<times> string" where
  "placeholders s =
     (case s of
        [] \<Rightarrow> ([], [])
      | c # cs \<Rightarrow>
          (case placeholder_at s of
             Some name \<Rightarrow> (case placeholders (drop (length name + 2) s) of (names, other) \<Rightarrow> (name # names, other))
           | None \<Rightarrow> (case placeholders cs of (names, other) \<Rightarrow> (names, c # other))))"
  by pat_completeness auto
termination by (relation "measure length") auto

declare placeholders.simps [simp del]

definition no_control :: "string \<Rightarrow> bool" where
  "no_control s \<longleftrightarrow> list_all (\<lambda>c. \<not> is_space c \<and> 32 \<le> char_code c) s"

definition validate_statuses :: "(string \<Rightarrow> bool) \<Rightarrow> http_operation \<Rightarrow> unit result" where
  "validate_statuses ip o' =
     bindr (require (list_all (\<lambda>s. 100 \<le> s \<and> s \<le> 599) (ho_success_statuses o'))
       (ValidationError ''HTTP success statuses must be valid status codes'')) (\<lambda>_.
     bindr (inside_validator (urlsplit ip (ho_path o'))) (\<lambda>parsed.
     bindr (require (url_scheme parsed = [] \<and> url_netloc parsed = [] \<and> url_query parsed = [] \<and> url_fragment parsed = [])
       (ValidationError ''provider operation paths must be origin-relative paths without queries'')) (\<lambda>_.
     bindr (require (no_control (ho_path o'))
       (ValidationError ''provider operation paths must not contain control characters'')) (\<lambda>_.
     let (names, other) = placeholders (ho_path o') in
     bindr (require (CHR ''{'' \<notin> set other \<and> CHR ''}'' \<notin> set other)
       (ValidationError ''provider operation paths contain an invalid placeholder'')) (\<lambda>_.
     bindr (require (distinct names)
       (ValidationError ''provider operation paths must not repeat placeholders'')) (\<lambda>_.
     let unsupported = filter (\<lambda>k. k \<notin> set METADATA_FIELDS) (map fst (ho_metadata_fields o')) in
     bindr (require (unsupported = [])
       (ValidationError (''provider metadata contains unsupported fields: '' @ join '', '' (sort unsupported)))) (\<lambda>_.
     require (list_all (\<lambda>(k, v). v \<noteq> [] \<and> length v \<le> 128) (ho_metadata_fields o'))
       (ValidationError ''provider metadata paths must be between 1 and 128 characters''))))))))"

definition validate_http_operation :: "(string \<Rightarrow> bool) \<Rightarrow> http_operation \<Rightarrow> http_operation result" where
  "validate_http_operation ip o' =
     (if http_operation_fields_ok o' then bindr (validate_statuses ip o') (\<lambda>_. Inr o') else Inl (FieldError ''HttpOperation''))"

record http_api =
  hp_base_url :: string
  hp_auth :: http_auth
  hp_list_credentials :: http_operation
  hp_create_credential :: http_operation
  hp_revoke_credential :: http_operation
  hp_test_credential :: "http_operation option"
  hp_credential_auth :: "http_auth option"

definition validate_api :: "(string \<Rightarrow> bool) \<Rightarrow> http_api \<Rightarrow> unit result" where
  "validate_api ip p =
     bindr (inside_validator (urlsplit ip (hp_base_url p))) (\<lambda>parsed.
     bindr (require (url_scheme parsed = ''https'' \<and> url_hostname parsed \<noteq> None \<and> url_username parsed = None
         \<and> url_password parsed = None \<and> url_query parsed = [] \<and> url_fragment parsed = [])
       (ValidationError ''provider API must be an HTTPS origin without credentials or query data'')) (\<lambda>_.
     bindr (require (no_control (hp_base_url p))
       (ValidationError ''provider API URL must not contain control characters'')) (\<lambda>_.
     bindr (require (is_ok (url_port parsed)) (ValidationError ''provider API URL has an invalid port'')) (\<lambda>_.
     bindr (require (ho_provider_id_field (hp_create_credential p) \<noteq> None)
       (ValidationError ''create must declare the provider ID field'')) (\<lambda>_.
     bindr (require (ho_secret_field (hp_create_credential p) \<noteq> None)
       (ValidationError ''create must declare the secret field'')) (\<lambda>_.
     bindr (require (ho_provider_id_field (hp_list_credentials p) \<noteq> None)
       (ValidationError ''list must declare the provider ID field'')) (\<lambda>_.
     bindr (require (contains ''{provider_id}'' (ho_path (hp_revoke_credential p)))
       (ValidationError ''revoke path must include {provider_id}'')) (\<lambda>_.
     require ((hp_test_credential p = None) = (hp_credential_auth p = None))
       (ValidationError ''credential authentication requires both a test operation and auth scheme'')))))))))"

text \<open>Validation goes through the fields first, in the order of their declaration.\<close>

definition validate_opt :: "('a \<Rightarrow> 'a result) \<Rightarrow> 'a option \<Rightarrow> unit result" where
  "validate_opt f x = (case x of None \<Rightarrow> Inr () | Some v \<Rightarrow> bindr (f v) (\<lambda>_. Inr ()))"

definition validate_http_api :: "(string \<Rightarrow> bool) \<Rightarrow> http_api \<Rightarrow> http_api result" where
  "validate_http_api ip p =
     bindr (require (text_between 12 1024 (hp_base_url p)) (FieldError ''HttpProviderApi'')) (\<lambda>_.
     bindr (validate_http_auth (hp_auth p)) (\<lambda>_.
     bindr (validate_http_operation ip (hp_list_credentials p)) (\<lambda>_.
     bindr (validate_http_operation ip (hp_create_credential p)) (\<lambda>_.
     bindr (validate_http_operation ip (hp_revoke_credential p)) (\<lambda>_.
     bindr (validate_opt (validate_http_operation ip) (hp_test_credential p)) (\<lambda>_.
     bindr (validate_opt validate_http_auth (hp_credential_auth p)) (\<lambda>_.
     bindr (validate_api ip p) (\<lambda>_. Inr p))))))))"

section \<open>Connections\<close>

datatype connection_role = Role_Provider | Role_Secret_Store | Role_Runtime | Role_Telemetry | Role_Incident

fun connection_role_value :: "connection_role \<Rightarrow> string" where
  "connection_role_value Role_Provider = ''provider''"
| "connection_role_value Role_Secret_Store = ''secret-store''"
| "connection_role_value Role_Runtime = ''runtime''"
| "connection_role_value Role_Telemetry = ''telemetry''"
| "connection_role_value Role_Incident = ''incident''"

datatype connection_interface = If_Api | If_Browser

fun connection_interface_value :: "connection_interface \<Rightarrow> string" where
  "connection_interface_value If_Api = ''api''"
| "connection_interface_value If_Browser = ''browser''"

datatype connection_authorization = Auth_Oauth | Auth_Workload | Auth_Api_Key | Auth_Browser_Session

datatype connection_status = Con_Setup | Con_Ready | Con_Reauthentication | Con_Degraded | Con_Disabled

text \<open>The frozensets of roles and capabilities are lists in the order of their enumeration.\<close>

record connection =
  con_id :: string
  con_organisation_id :: string
  con_platform :: string
  con_display_name :: string
  con_roles :: "connection_role list"
  con_interface :: connection_interface
  con_authorization :: connection_authorization
  con_authorization_reference :: "string option"
  con_capabilities :: "string list"
  con_allowed_resources :: "string list"
  con_http :: "http_api option"
  con_playbook_id :: "string option"
  con_playbook_version_id :: "string option"
  con_status :: connection_status
  con_authenticated_at :: "int option"
  con_authorization_expires_at :: "int option"
  con_last_validated_at :: "int option"
  con_region :: string
  con_created_at :: int
  con_updated_at :: int
  con_archived_at :: "int option"
  con_revision :: int

definition connection_fields_ok :: "connection \<Rightarrow> bool" where
  "connection_fields_ok c \<longleftrightarrow>
     identifier_ok (con_id c) \<and> identifier_ok (con_organisation_id c) \<and> text_between 1 64 (con_platform c)
     \<and> text_between 1 160 (con_display_name c) \<and> con_roles c \<noteq> []
     \<and> opt_ok (text_between 0 1024) (con_authorization_reference c) \<and> con_capabilities c \<noteq> []
     \<and> con_allowed_resources c \<noteq> [] \<and> opt_ok identifier_ok (con_playbook_id c)
     \<and> opt_ok identifier_ok (con_playbook_version_id c) \<and> text_between 3 32 (con_region c) \<and> 0 \<le> con_revision c"

definition api_provider :: "connection \<Rightarrow> bool" where
  "api_provider c \<longleftrightarrow> con_interface c = If_Api \<and> Role_Provider \<in> set (con_roles c)"

definition validate_authentication :: "connection \<Rightarrow> unit result" where
  "validate_authentication c =
     (let browser = (con_interface c = If_Browser);
          browser_session = (con_authorization c = Auth_Browser_Session);
          playbook_attached = (con_playbook_id c \<noteq> None \<and> con_playbook_version_id c \<noteq> None) in
      bindr (require (\<not> (con_status c = Con_Ready \<and> \<not> truthy (con_authorization_reference c)))
        (ValidationError ''a ready connection requires an authorization reference'')) (\<lambda>_.
      bindr (require ((con_playbook_id c = None) = (con_playbook_version_id c = None))
        (ValidationError ''connection playbook identity and version must be set together'')) (\<lambda>_.
      bindr (require (browser = browser_session)
        (ValidationError ''browser connections require browser-session authorization'')) (\<lambda>_.
      bindr (require (\<not> (browser \<and> set (con_roles c) \<noteq> {Role_Provider}))
        (ValidationError ''browser connections provide only the provider role'')) (\<lambda>_.
      bindr (require (\<not> (\<not> browser \<and> playbook_attached))
        (ValidationError ''only browser connections can attach a playbook'')) (\<lambda>_.
      bindr (require (\<not> (browser \<and> con_status c = Con_Ready \<and> \<not> playbook_attached))
        (ValidationError ''a ready browser connection requires a published playbook'')) (\<lambda>_.
      bindr (require (\<not> (con_http c \<noteq> None \<and> \<not> api_provider c))
        (ValidationError ''HTTP provider configuration requires an API provider role'')) (\<lambda>_.
      bindr (require (\<not> (api_provider c \<and> con_http c = None))
        (ValidationError ''API provider connections require an HTTP API declaration'')) (\<lambda>_.
      bindr (require (\<not> (api_provider c \<and> con_authorization c \<notin> {Auth_Oauth, Auth_Api_Key}))
        (ValidationError ''HTTP provider connections require OAuth or API-key authorization'')) (\<lambda>_.
      bindr (require (\<not> (con_authorization c = Auth_Oauth
           \<and> (case con_http c of None \<Rightarrow> False | Some h \<Rightarrow> ha_scheme (hp_auth h) \<noteq> Http_Bearer)))
        (ValidationError ''OAuth provider connections require bearer request authentication'')) (\<lambda>_.
      require (\<not> (case (con_authorization_expires_at c, con_authenticated_at c) of
                     (Some expires, Some authenticated) \<Rightarrow> expires \<le> authenticated | _ \<Rightarrow> False))
        (ValidationError ''authorization expiry must follow authentication''))))))))))))"

definition validate_connection :: "(string \<Rightarrow> bool) \<Rightarrow> connection \<Rightarrow> connection result" where
  "validate_connection ip c =
     bindr (require (connection_fields_ok c) (FieldError ''Connection'')) (\<lambda>_.
     bindr (validate_opt (validate_http_api ip) (con_http c)) (\<lambda>_.
     bindr (validate_authentication c) (\<lambda>_. Inr c)))"

end
