(* ===== verification/Tools.thy ===== *)
theory Tools imports Connections begin
text \<open>
  Tool requests of the broker: packages/contracts/src/contracts/tool.py, the claims of an action
  capability and the digest of a request (server/broker/capability.py), and the checks every request has
  to pass (server/broker/validate.py).
\<close>

section \<open>Contracts (tool.py)\<close>

record tool_request =
  tr_id :: string
  tr_organisation_id :: string
  tr_run_id :: string
  tr_agent_id :: string
  tr_tool :: string
  tr_connection_id :: string
  tr_payload :: "(string \<times> json) list"
  tr_fencing_token :: int

definition tool_request_fields_ok :: "tool_request \<Rightarrow> bool" where
  "tool_request_fields_ok r \<longleftrightarrow>
     identifier_ok (tr_id r) \<and> identifier_ok (tr_organisation_id r) \<and> identifier_ok (tr_run_id r)
     \<and> identifier_ok (tr_agent_id r) \<and> text_between 1 128 (tr_tool r) \<and> identifier_ok (tr_connection_id r)
     \<and> 0 < tr_fencing_token r"

record tool_result =
  tres_request_id :: string
  tres_succeeded :: bool
  tres_result :: "(string \<times> json) list"
  tres_error_code :: "string option"
  tres_evidence_ids :: "string list"

definition tool_result_fields_ok :: "tool_result \<Rightarrow> bool" where
  "tool_result_fields_ok r \<longleftrightarrow>
     identifier_ok (tres_request_id r) \<and> opt_ok (text_between 0 96) (tres_error_code r)
     \<and> list_all identifier_ok (tres_evidence_ids r)"

datatype attempt_status = Att_Running | Att_Succeeded | Att_Failed

datatype recon_value = RText string | RNumber int | RFlag bool | RTexts "string list"

record tool_attempt =
  ta_id :: string
  ta_organisation_id :: string
  ta_run_id :: string
  ta_request_digest :: string
  ta_tool :: string
  ta_status :: attempt_status
  ta_result :: "tool_result option"
  ta_checkpoint :: "tool_result option"
  ta_reconciliation :: "(string \<times> recon_value) list"
  ta_started_at :: int
  ta_lease_expires_at :: int
  ta_completed_at :: "int option"

definition tool_attempt_fields_ok :: "tool_attempt \<Rightarrow> bool" where
  "tool_attempt_fields_ok a \<longleftrightarrow>
     identifier_ok (ta_id a) \<and> identifier_ok (ta_organisation_id a) \<and> identifier_ok (ta_run_id a)
     \<and> hex64 (ta_request_digest a) \<and> text_between 1 128 (ta_tool a) \<and> opt_ok tool_result_fields_ok (ta_result a)
     \<and> opt_ok tool_result_fields_ok (ta_checkpoint a)"

definition validate_terminal_result :: "tool_attempt \<Rightarrow> unit result" where
  "validate_terminal_result a =
     (let terminal = (ta_status a \<noteq> Att_Running) in
      bindr (require (terminal = (ta_result a \<noteq> None \<and> ta_completed_at a \<noteq> None))
        (ValidationError ''terminal tool attempts require a result and completion time'')) (\<lambda>_.
      require (\<not> (terminal \<and> ta_checkpoint a \<noteq> None))
        (ValidationError ''terminal tool attempts cannot retain a checkpoint'')))"

definition validate_attempt :: "tool_attempt \<Rightarrow> tool_attempt result" where
  "validate_attempt a =
     (if tool_attempt_fields_ok a then bindr (validate_terminal_result a) (\<lambda>_. Inr a)
      else Inl (FieldError ''ToolAttempt''))"

section \<open>Claims and digests (capability.py)\<close>

record capability_claims =
  cl_organisation_id :: string
  cl_run_id :: string
  cl_agent_id :: string
  cl_tool :: string
  cl_connection_id :: string
  cl_stage :: stage
  cl_fencing_token :: int
  cl_request_digest :: string
  cl_action_digest :: string
  cl_expires_at :: int
  cl_nonce :: string
  cl_approval_id :: "string option"

text \<open>\<open>json.dumps\<close> without ASCII escapes and with sorted keys is \<open>json_text\<close>.\<close>

definition request_digest :: "(string \<Rightarrow> string) \<Rightarrow> string \<Rightarrow> (string \<times> json) list \<Rightarrow> string" where
  "request_digest sha tool payload = sha (json_text (JDict [(''payload'', JDict payload), (''tool'', JStr tool)]))"

section \<open>The checks (validate.py)\<close>

definition READ_TOOLS :: "string list" where
  "READ_TOOLS =
     [''provider.listCredentialMetadata'', ''provider.getCredentialStatus'', ''secretStore.getVersion'',
      ''secretStore.testConsumerAccess'', ''runtime.inspectSecretBindings'', ''telemetry.queryHealth'',
      ''telemetry.queryCredentialUsage'']"

fun STAGE_TOOLS :: "stage \<Rightarrow> string list" where
  "STAGE_TOOLS TRIGGER = []"
| "STAGE_TOOLS PREFLIGHT =
     [''provider.listCredentialMetadata'', ''provider.getCredentialStatus'', ''runtime.inspectSecretBindings'']"
| "STAGE_TOOLS PLAN = [''provider.listCredentialMetadata'', ''runtime.inspectSecretBindings'']"
| "STAGE_TOOLS CREATE = [''provider.createCredential'', ''provider.getCredentialStatus'']"
| "STAGE_TOOLS STORE =
     [''secretStore.getVersion'', ''secretStore.testConsumerAccess'', ''runtime.inspectSecretBindings'']"
| "STAGE_TOOLS DEPLOY = [''runtime.deployCandidate'', ''runtime.rollback'']"
| "STAGE_TOOLS VERIFY =
     [''provider.getCredentialStatus'', ''secretStore.getVersion'', ''runtime.inspectSecretBindings'', ''verification.run'']"
| "STAGE_TOOLS ROLLOUT = [''runtime.shiftTraffic'', ''runtime.rollback'']"
| "STAGE_TOOLS OBSERVE = [''telemetry.queryHealth'', ''telemetry.queryCredentialUsage'', ''runtime.rollback'']"
| "STAGE_TOOLS APPROVAL = []"
| "STAGE_TOOLS REVOKE =
     [''provider.revokeCredential'', ''provider.getCredentialStatus'', ''secretStore.disableVersion'',
      ''secretStore.destroyVersion'', ''verification.run'']"
| "STAGE_TOOLS COMPLETE = []"

definition tool_role :: "string \<Rightarrow> connection_role result" where
  "tool_role tool =
     (case map_of
        [(''provider'', Role_Provider), (''runtime'', Role_Runtime), (''secretStore'', Role_Secret_Store),
         (''telemetry'', Role_Telemetry), (''incident'', Role_Incident)] (partition_head ''.'' tool) of
        Some role \<Rightarrow> Inr role
      | None \<Rightarrow> Inl (CapabilityError (''tool '' @ tool @ '' has no connection role'')))"

definition json_texts :: "(string \<times> json) list \<Rightarrow> (string \<times> string) list" where
  "json_texts payload = List.map_filter (\<lambda>(k, v). case v of JStr s \<Rightarrow> Some (k, s) | _ \<Rightarrow> None) payload"

definition tool_resources :: "string \<Rightarrow> (string \<times> json) list \<Rightarrow> connection \<Rightarrow> string list" where
  "tool_resources tool payload c =
     (if starts_with ''provider.'' tool
      then (case map_of payload ''provider_id'' of
              Some (JStr provider_id) \<Rightarrow> [con_platform c @ '':credentials:'' @ provider_id]
            | _ \<Rightarrow> [])
      else (let keys = [''provider_id'', ''service'', ''version'', ''target'', ''resource'']
              @ (if starts_with ''secretStore.'' tool then [''secret_resource''] else [])
            in map snd (filter (\<lambda>(k, v). k \<in> set keys) (json_texts payload))))"

definition rstrip_char :: "char \<Rightarrow> string \<Rightarrow> string" where
  "rstrip_char c s = rev (dropWhile (\<lambda>d. d = c) (rev s))"

definition ends_with :: "string \<Rightarrow> string \<Rightarrow> bool" where
  "ends_with suffix s \<longleftrightarrow> starts_with (rev suffix) (rev s)"

definition resource_matches :: "string \<Rightarrow> string \<Rightarrow> bool" where
  "resource_matches comparable pattern \<longleftrightarrow>
     comparable = pattern
     \<or> starts_with (rstrip_char (CHR ''/'') pattern @ ''/'') comparable
     \<or> (1 < length pattern \<and> ends_with ''*'' pattern \<and> starts_with (butlast pattern) comparable)
     \<or> (starts_with ''*.'' pattern \<and> ends_with (tl pattern) comparable)"

definition resource_allowed :: "(string \<Rightarrow> bool) \<Rightarrow> string \<Rightarrow> string list \<Rightarrow> bool result" where
  "resource_allowed ip resource patterns =
     bindr (urlsplit ip resource) (\<lambda>parsed.
     let comparable = (case url_hostname parsed of None \<Rightarrow> resource | Some h \<Rightarrow> if h = [] then resource else h)
     in Inr (list_ex (resource_matches comparable) patterns))"

text \<open>\<open>all\<close> stops at the first resource that is not allowed.\<close>

fun all_allowed :: "(string \<Rightarrow> bool) \<Rightarrow> string list \<Rightarrow> string list \<Rightarrow> bool result" where
  "all_allowed ip [] patterns = Inr True"
| "all_allowed ip (r # rs) patterns =
     bindr (resource_allowed ip r patterns) (\<lambda>ok. if ok then all_allowed ip rs patterns else Inr False)"

definition holds_run_fence :: "tool_request \<Rightarrow> rotation_run \<Rightarrow> int \<Rightarrow> bool" where
  "holds_run_fence request run now \<longleftrightarrow>
     run_status run = RUNNING \<and> tr_fencing_token request = run_fencing_token run
     \<and> (case run_lease run of None \<Rightarrow> False
        | Some l \<Rightarrow> lease_fencing_token l = run_fencing_token run \<and> now < lease_expires_at l)"

text \<open>The connection is the one the inventory assigns to the role of the tool.\<close>

definition check_role ::
  "connection_role \<Rightarrow> connection \<Rightarrow> managed_credential \<Rightarrow> consumer_binding list \<Rightarrow> unit result" where
  "check_role role c credential bindings =
     bindr (require (\<not> (role = Role_Provider \<and> con_id c \<noteq> mc_connection_id credential))
       (CapabilityError ''provider tool is not using the credential management connection'')) (\<lambda>_.
     bindr (require (\<not> (role = Role_Secret_Store \<and> con_id c \<noteq> mc_secret_store_connection_id credential))
       (CapabilityError ''secret-store tool is not using the credential secret store'')) (\<lambda>_.
     require (\<not> (role = Role_Runtime \<and> con_id c \<notin> set (map cb_runtime_connection_id bindings)))
       (CapabilityError ''runtime tool is not using a declared consumer binding'')))"

definition validate_request ::
  "(string \<Rightarrow> bool) \<Rightarrow> tool_request \<Rightarrow> rotation_run \<Rightarrow> connection \<Rightarrow> managed_credential \<Rightarrow> consumer_binding list
     \<Rightarrow> control_version \<Rightarrow> int \<Rightarrow> unit result" where
  "validate_request ip request run c credential bindings controls now =
     bindr (require (tr_organisation_id request = run_organisation_id run \<and> tr_run_id request = run_id run)
       (CapabilityError ''tool request does not belong to its run'')) (\<lambda>_.
     bindr (require (cv_organisation_id controls = run_organisation_id run
         \<and> cv_credential_id controls = run_credential_id run \<and> cv_id controls = run_control_version run)
       (CapabilityError ''credential controls do not belong to the run'')) (\<lambda>_.
     bindr (require (holds_run_fence request run now)
       (CapabilityError ''tool request does not hold the current run fence'')) (\<lambda>_.
     bindr (require (tr_connection_id request = con_id c \<and> con_organisation_id c = run_organisation_id run)
       (CapabilityError ''tool connection does not belong to the run organisation'')) (\<lambda>_.
     bindr (tool_role (tr_tool request)) (\<lambda>role.
     bindr (check_role role c credential bindings) (\<lambda>_.
     bindr (require (tr_tool request \<in> set (cd_allowed_tools (cv_definition controls)))
       (CapabilityError ''tool is not allowed by the credential controls'')) (\<lambda>_.
     bindr (require (tr_tool request \<in> set (con_capabilities c))
       (CapabilityError ''connection does not declare the requested capability'')) (\<lambda>_.
     bindr (require (tr_tool request \<in> set (STAGE_TOOLS (run_stage run)))
       (CapabilityError (''tool '' @ tr_tool request @ '' is not eligible in stage '' @ stage_value (run_stage run)))) (\<lambda>_.
     let resources = tool_resources (tr_tool request) (tr_payload request) c in
     bindr (all_allowed ip resources (con_allowed_resources c)) (\<lambda>within.
     require (\<not> (resources \<noteq> [] \<and> \<not> within))
       (CapabilityError ''tool parameters escape the connection resource boundary'')))))))))))"

definition validate_capability ::
  "(string \<Rightarrow> string) \<Rightarrow> tool_request \<Rightarrow> rotation_run \<Rightarrow> capability_claims \<Rightarrow> unit result" where
  "validate_capability sha request run claims =
     require
       ((cl_organisation_id claims, cl_run_id claims, cl_agent_id claims, cl_tool claims, cl_connection_id claims,
         cl_stage claims, cl_fencing_token claims, cl_request_digest claims)
        = (tr_organisation_id request, tr_run_id request, tr_agent_id request, tr_tool request, tr_connection_id request,
           run_stage run, tr_fencing_token request, request_digest sha (tr_tool request) (tr_payload request)))
       (CapabilityError ''action capability does not bind the exact tool request'')"

end
