(* ===== verification/Capability.thy ===== *)
theory Capability imports Json_Read Tools begin

text \<open>
  Action capabilities: server/broker/capability.py. A token is two base64 texts, the header and the claims, and
  a signature over both. Ed25519 is the parameter: \<open>sign\<close> gives the signature of a message under the key of a
  signer and \<open>vrf\<close> tells whether the public key accepts a signature. Times are microseconds.
\<close>

section \<open>Encoding\<close>

definition encode_body :: "json \<Rightarrow> string" where
  "encode_body value = urlsafe (ascii_text value)"

definition decode_body :: "string \<Rightarrow> (string \<times> json) list result" where
  "decode_body s =
     (case Option.bind (urlsafe_decode s) json_loads of
        None \<Rightarrow> Inl (CapabilityError ''action capability encoding is invalid'')
      | Some (JDict kvs) \<Rightarrow> Inr kvs
      | Some _ \<Rightarrow> Inl (CapabilityError ''action capability body is invalid''))"

definition capability_header :: "(string \<times> json) list" where
  "capability_header = [(''alg'', JStr ''EdDSA''), (''typ'', JStr ''FKC''), (''v'', JInt 2)]"

text \<open>Equality of mappings does not depend on the order of their entries.\<close>

definition same_entries :: "(string \<times> json) list \<Rightarrow> (string \<times> json) list \<Rightarrow> bool" where
  "same_entries kvs lws \<longleftrightarrow> list_all (\<lambda>k. map_of kvs k = map_of lws k) (map fst kvs @ map fst lws)"

definition optional_text :: "string option \<Rightarrow> json" where
  "optional_text v = (case v of None \<Rightarrow> JNull | Some s \<Rightarrow> JStr s)"

text \<open>\<open>{**asdict(claims), "stage": claims.stage.value}\<close>.\<close>

definition claims_entries :: "capability_claims \<Rightarrow> (string \<times> json) list" where
  "claims_entries c =
     [(''organisation_id'', JStr (cl_organisation_id c)), (''run_id'', JStr (cl_run_id c)),
      (''agent_id'', JStr (cl_agent_id c)), (''tool'', JStr (cl_tool c)), (''connection_id'', JStr (cl_connection_id c)),
      (''stage'', JStr (stage_value (cl_stage c))), (''fencing_token'', JInt (cl_fencing_token c)),
      (''request_digest'', JStr (cl_request_digest c)), (''action_digest'', JStr (cl_action_digest c)),
      (''expires_at'', JInt (cl_expires_at c)), (''nonce'', JStr (cl_nonce c)),
      (''approval_id'', optional_text (cl_approval_id c))]"

definition claims_json :: "capability_claims \<Rightarrow> json" where
  "claims_json c = JDict (claims_entries c)"

section \<open>The signer\<close>

definition capability_message :: "capability_claims \<Rightarrow> string" where
  "capability_message c = encode_body (JDict capability_header) @ ''.'' @ encode_body (claims_json c)"

definition mint :: "(string \<Rightarrow> string) \<Rightarrow> capability_claims \<Rightarrow> string" where
  "mint sign c = capability_message c @ ''.'' @ urlsafe (sign (capability_message c))"

section \<open>The verifier\<close>

text \<open>The constructors check the length of a key; \<open>CapabilityVerifier.decode\<close> reads it from base64.\<close>

definition verifier_key :: "string \<Rightarrow> string result" where
  "verifier_key key =
     bindr (require (length key = 32) (ValueError ''capability verification key must be a 32-byte Ed25519 public key''))
       (\<lambda>_. Inr key)"

definition decode_verifier :: "string \<Rightarrow> string result" where
  "decode_verifier value =
     (case urlsafe_decode value of
        None \<Rightarrow> Inl (ValueError ''capability public key is not valid base64url'')
      | Some key \<Rightarrow> verifier_key key)"

definition text_claim :: "(string \<times> json) list \<Rightarrow> string \<Rightarrow> string result" where
  "text_claim kvs key =
     (case map_of kvs key of Some (JStr s) \<Rightarrow> Inr s | _ \<Rightarrow> Inl (TypeError (''claim '' @ key @ '' is invalid'')))"

definition int_claim :: "(string \<times> json) list \<Rightarrow> string \<Rightarrow> int result" where
  "int_claim kvs key =
     (case map_of kvs key of Some (JInt i) \<Rightarrow> Inr i | _ \<Rightarrow> Inl (TypeError (''claim '' @ key @ '' is invalid'')))"

definition optional_claim :: "(string \<times> json) list \<Rightarrow> string \<Rightarrow> string option result" where
  "optional_claim kvs key =
     (case map_of kvs key of
        None \<Rightarrow> Inr None
      | Some JNull \<Rightarrow> Inr None
      | Some (JStr s) \<Rightarrow> Inr (Some s)
      | _ \<Rightarrow> Inl (TypeError (''claim '' @ key @ '' is invalid'')))"

definition read_claims :: "(string \<times> json) list \<Rightarrow> capability_claims result" where
  "read_claims kvs =
     bindr (text_claim kvs ''organisation_id'') (\<lambda>organisation.
     bindr (text_claim kvs ''run_id'') (\<lambda>run.
     bindr (text_claim kvs ''agent_id'') (\<lambda>agent.
     bindr (text_claim kvs ''tool'') (\<lambda>tool.
     bindr (text_claim kvs ''connection_id'') (\<lambda>c.
     bindr (bindr (text_claim kvs ''stage'') stage_of_text) (\<lambda>stg.
     bindr (int_claim kvs ''fencing_token'') (\<lambda>fence.
     bindr (text_claim kvs ''request_digest'') (\<lambda>request_hash.
     bindr (text_claim kvs ''action_digest'') (\<lambda>action_hash.
     bindr (int_claim kvs ''expires_at'') (\<lambda>expires.
     bindr (text_claim kvs ''nonce'') (\<lambda>nonce.
     bindr (optional_claim kvs ''approval_id'') (\<lambda>approval.
     Inr \<lparr>cl_organisation_id = organisation, cl_run_id = run, cl_agent_id = agent, cl_tool = tool,
       cl_connection_id = c, cl_stage = stg, cl_fencing_token = fence, cl_request_digest = request_hash,
       cl_action_digest = action_hash, cl_expires_at = expires, cl_nonce = nonce, cl_approval_id = approval\<rparr>))))))))))))"

text \<open>\<open>token.split(".")\<close>.\<close>

fun split_dots :: "string \<Rightarrow> string list" where
  "split_dots [] = [[]]"
| "split_dots (c # cs) =
     (if c = CHR ''.'' then [] # split_dots cs
      else (case split_dots cs of [] \<Rightarrow> [[c]] | p # ps \<Rightarrow> (c # p) # ps))"

definition verify_parts ::
  "(string \<Rightarrow> string \<Rightarrow> bool) \<Rightarrow> string \<Rightarrow> string \<Rightarrow> string \<Rightarrow> int \<Rightarrow> capability_claims result" where
  "verify_parts vrf header payload signature now =
     (case urlsafe_decode signature of
        None \<Rightarrow> Inl (CapabilityError ''action capability signature is invalid'')
      | Some raw_signature \<Rightarrow>
          if \<not> vrf raw_signature (header @ ''.'' @ payload)
          then Inl (CapabilityError ''action capability signature is invalid'')
          else
            bindr (decode_body header) (\<lambda>header_value.
            bindr (require (same_entries header_value capability_header)
              (CapabilityError ''action capability header is unsupported'')) (\<lambda>_.
            bindr (decode_body payload) (\<lambda>value.
            bindr (case read_claims value of
                     Inl e \<Rightarrow> Inl (CapabilityError ''action capability claims are invalid'')
                   | Inr claims \<Rightarrow> Inr claims) (\<lambda>claims.
            if cl_expires_at claims \<le> now div 1000000 then Inl (CapabilityError ''action capability has expired'')
            else Inr claims)))))"

definition verify :: "(string \<Rightarrow> string \<Rightarrow> bool) \<Rightarrow> string \<Rightarrow> int \<Rightarrow> capability_claims result" where
  "verify vrf token now =
     (case split_dots token of
        [header, payload, signature] \<Rightarrow> verify_parts vrf header payload signature now
      | _ \<Rightarrow> Inl (CapabilityError ''action capability is malformed''))"

section \<open>Splitting\<close>

lemma split_dots_none: "CHR ''.'' \<notin> set s \<Longrightarrow> split_dots s = [s]"
  by (induction s) auto

lemma split_dots_append: "CHR ''.'' \<notin> set s \<Longrightarrow> split_dots (s @ CHR ''.'' # r) = s # split_dots r"
  by (induction s) auto

lemma split_dots_parts: "p \<in> set (split_dots s) \<Longrightarrow> CHR ''.'' \<notin> set p"
  by (induction s arbitrary: p) (force split: if_splits list.splits)+

lemma encode_no_dot: "CHR ''.'' \<notin> set (encode_body v)"
  using urlsafe_no_dot by (simp add: encode_body_def)

lemma split_mint:
  "split_dots (mint sign c) =
     [encode_body (JDict capability_header), encode_body (claims_json c), urlsafe (sign (capability_message c))]"
  using encode_no_dot urlsafe_no_dot
  by (simp add: mint_def capability_message_def [of c] split_dots_append split_dots_none)

section \<open>Reading what was written\<close>

definition printable :: "capability_claims \<Rightarrow> bool" where
  "printable c \<longleftrightarrow> readable (JInt (cl_fencing_token c)) \<and> readable (JInt (cl_expires_at c))"

lemma decode_encode:
  assumes "readable (JDict kvs)"
  shows "decode_body (encode_body (JDict kvs)) = Inr (sort_key fst (map (\<lambda>kv. (fst kv, sort_json (snd kv))) kvs))"
  using json_roundtrip [OF assms] by (simp add: decode_body_def encode_body_def urlsafe_roundtrip del: ascii_text.simps)

lemma decode_header: "\<exists>kvs. decode_body (encode_body (JDict capability_header)) = Inr kvs \<and> same_entries kvs capability_header"
proof -
  have "readable (JDict capability_header)" by code_simp
  moreover have "same_entries (sort_key fst (map (\<lambda>kv. (fst kv, sort_json (snd kv))) capability_header)) capability_header"
    by code_simp
  ultimately show ?thesis using decode_encode by blast
qed

lemma map_of_sort_key: "distinct (map fst kvs) \<Longrightarrow> map_of (sort_key fst kvs) = map_of kvs"
proof (intro map_of_eqI)
  show "set (map fst (sort_key fst kvs)) = set (map fst kvs)" by simp
next
  assume d: "distinct (map fst kvs)"
  have "mset (map fst (sort_key fst kvs)) = mset (map fst kvs)" by simp
  then have "distinct (map fst (sort_key fst kvs))" using d mset_eq_imp_distinct_iff by blast
  then show "\<forall>k\<in>set (map fst (sort_key fst kvs)). map_of (sort_key fst kvs) k = map_of kvs k"
    using d by (auto simp: map_of_eq_Some_iff)
qed

lemma stage_of_value: "stage_of_text (stage_value st) = Inr st"
  by (cases st) (simp_all add: stage_of_text_def STAGES_def)

lemma claims_entries_keys: "distinct (map fst (claims_entries c))"
  by (simp add: claims_entries_def)

lemma claims_entries_sorted: "map (\<lambda>kv. (fst kv, sort_json (snd kv))) (claims_entries c) = claims_entries c"
  by (simp add: claims_entries_def optional_text_def split: option.split)

lemma claims_entries_readable: "printable c \<Longrightarrow> readable (claims_json c)"
  by (simp add: claims_json_def claims_entries_def printable_def optional_text_def split: option.split)

lemma claims_lookup:
  "map_of (claims_entries c) ''organisation_id'' = Some (JStr (cl_organisation_id c))"
  "map_of (claims_entries c) ''run_id'' = Some (JStr (cl_run_id c))"
  "map_of (claims_entries c) ''agent_id'' = Some (JStr (cl_agent_id c))"
  "map_of (claims_entries c) ''tool'' = Some (JStr (cl_tool c))"
  "map_of (claims_entries c) ''connection_id'' = Some (JStr (cl_connection_id c))"
  "map_of (claims_entries c) ''stage'' = Some (JStr (stage_value (cl_stage c)))"
  "map_of (claims_entries c) ''fencing_token'' = Some (JInt (cl_fencing_token c))"
  "map_of (claims_entries c) ''request_digest'' = Some (JStr (cl_request_digest c))"
  "map_of (claims_entries c) ''action_digest'' = Some (JStr (cl_action_digest c))"
  "map_of (claims_entries c) ''expires_at'' = Some (JInt (cl_expires_at c))"
  "map_of (claims_entries c) ''nonce'' = Some (JStr (cl_nonce c))"
  "map_of (claims_entries c) ''approval_id'' = Some (optional_text (cl_approval_id c))"
  by (simp_all add: claims_entries_def)

lemma read_claims_entries: "read_claims (claims_entries c) = Inr c"
  by (simp add: read_claims_def text_claim_def int_claim_def optional_claim_def claims_lookup stage_of_value
      optional_text_def split: option.split)

lemma read_claims_order: "map_of kvs = map_of lws \<Longrightarrow> read_claims kvs = read_claims lws"
  by (simp add: read_claims_def text_claim_def int_claim_def optional_claim_def)

lemma read_written_claims:
  assumes "printable c"
  shows "\<exists>kvs. decode_body (encode_body (claims_json c)) = Inr kvs \<and> read_claims kvs = Inr c"
proof -
  have "decode_body (encode_body (claims_json c)) = Inr (sort_key fst (claims_entries c))"
    using decode_encode claims_entries_readable [OF assms] claims_entries_sorted by (simp add: claims_json_def)
  moreover have "read_claims (sort_key fst (claims_entries c)) = Inr c"
    using read_claims_order [OF map_of_sort_key [OF claims_entries_keys]] read_claims_entries by simp
  ultimately show ?thesis by blast
qed

lemma verify_minted_parts:
  assumes "printable c" "vrf raw (capability_message c)" "urlsafe_decode signature = Some raw"
  shows "verify_parts vrf (encode_body (JDict capability_header)) (encode_body (claims_json c)) signature now =
    (if cl_expires_at c \<le> now div 1000000 then Inl (CapabilityError ''action capability has expired'') else Inr c)"
  using decode_header read_written_claims [OF assms(1)] assms(2,3)
  by (auto simp: verify_parts_def capability_message_def)

section \<open>Only what was minted\<close>

lemma message_parts:
  assumes "h @ ''.'' @ p = h' @ ''.'' @ p'" "CHR ''.'' \<notin> set h" "CHR ''.'' \<notin> set h'"
  shows "h = h' \<and> p = p'"
  using assms by (auto simp: append_eq_append_conv2 append_eq_Cons_conv Cons_eq_append_conv)

text \<open>
  A token is forged when it carries a signature that the public key accepts for the message of the token, although
  the message is none of those that were signed for the claims \<open>minted\<close>.
\<close>

definition forged :: "(string \<Rightarrow> string \<Rightarrow> bool) \<Rightarrow> capability_claims set \<Rightarrow> string \<Rightarrow> bool" where
  "forged vrf minted token \<longleftrightarrow>
     (\<exists>header payload signature raw. split_dots token = [header, payload, signature] \<and> urlsafe_decode signature = Some raw
        \<and> vrf raw (header @ ''.'' @ payload) \<and> header @ ''.'' @ payload \<notin> capability_message ` minted)"

lemma verified_minted:
  assumes "\<not> forged vrf minted token" "\<forall>c\<in>minted. printable c" "verify vrf token now = Inr claims"
  shows "claims \<in> minted \<and> now div 1000000 < cl_expires_at claims"
proof -
  obtain header payload signature where p: "split_dots token = [header, payload, signature]"
      "verify_parts vrf header payload signature now = Inr claims"
    using assms(3) by (auto simp: verify_def split: list.splits)
  then obtain raw where raw: "urlsafe_decode signature = Some raw" "vrf raw (header @ ''.'' @ payload)"
    by (auto simp: verify_parts_def split: option.splits if_splits)
  then obtain c where c: "c \<in> minted" "header @ ''.'' @ payload = capability_message c"
    using assms(1) p(1) unfolding forged_def by blast
  have "CHR ''.'' \<notin> set header" using split_dots_parts [of header token] p(1) by simp
  then have "header = encode_body (JDict capability_header)" "payload = encode_body (claims_json c)"
    using message_parts c(2) encode_no_dot unfolding capability_message_def by metis+
  then show ?thesis
    using p(2) verify_minted_parts [of c vrf raw signature now] assms(2) c raw by (auto split: if_splits)
qed

text \<open>A token that was minted is not forged.\<close>

lemma minted_not_forged: "c \<in> minted \<Longrightarrow> \<not> forged vrf minted (mint sign c)"
  by (auto simp: forged_def split_mint capability_message_def)

lemma decode_encoded_key: "length key = 32 \<Longrightarrow> decode_verifier (urlsafe key) = Inr key"
  by (simp add: decode_verifier_def verifier_key_def urlsafe_roundtrip)

end
