(* ===== verification/Tool_Attempts.thy ===== *)
theory Tool_Attempts imports Tools Approvals begin

text \<open>
  The repository of the broker (server/broker/storage.py, \<open>FirestoreBrokerRepository\<close>): the attempts to
  execute a tool request, each operation one transaction, and the documents the broker reads.
\<close>

section \<open>Attempts\<close>

type_synonym attempts = "string \<times> string \<rightharpoonup> tool_attempt"

definition same_attempt :: "tool_attempt \<Rightarrow> tool_request \<Rightarrow> string \<Rightarrow> unit result" where
  "same_attempt attempt request request_hash =
     require (ta_organisation_id attempt = tr_organisation_id request \<and> ta_run_id attempt = tr_run_id request
         \<and> ta_tool attempt = tr_tool request \<and> ta_request_digest attempt = request_hash)
       (ResourceConflictError (''tool request ID '' @ tr_id request @ '' is bound to different parameters''))"

definition find_attempt :: "tool_request \<Rightarrow> string \<Rightarrow> attempts \<Rightarrow> tool_attempt option result" where
  "find_attempt request request_hash s =
     bindr (segments [tr_organisation_id request, tr_id request]) (\<lambda>_.
     case s (tr_organisation_id request, tr_id request) of
       None \<Rightarrow> Inr None
     | Some doc \<Rightarrow>
         bindr (validate_attempt doc) (\<lambda>attempt.
         bindr (same_attempt attempt request request_hash) (\<lambda>_. Inr (Some attempt))))"

definition new_attempt :: "tool_request \<Rightarrow> string \<Rightarrow> (string \<times> recon_value) list \<Rightarrow> int \<Rightarrow> int \<Rightarrow> tool_attempt" where
  "new_attempt request request_hash reconciliation now expires =
     \<lparr>ta_id = tr_id request, ta_organisation_id = tr_organisation_id request, ta_run_id = tr_run_id request,
      ta_request_digest = request_hash, ta_tool = tr_tool request, ta_status = Att_Running, ta_result = None,
      ta_checkpoint = None, ta_reconciliation = reconciliation, ta_started_at = now,
      ta_lease_expires_at = expires, ta_completed_at = None\<rparr>"

definition put_attempt :: "tool_request \<Rightarrow> tool_attempt \<Rightarrow> attempts \<Rightarrow> attempts" where
  "put_attempt request attempt s = s((tr_organisation_id request, tr_id request) \<mapsto> attempt)"

definition begin_attempt ::
  "tool_request \<Rightarrow> string \<Rightarrow> (string \<times> recon_value) list \<Rightarrow> int \<Rightarrow> int \<Rightarrow> attempts \<Rightarrow> attempts result" where
  "begin_attempt request request_hash reconciliation now expires s =
     bindr (segments [tr_organisation_id request, tr_id request]) (\<lambda>_.
     bindr (validate_attempt (new_attempt request request_hash reconciliation now expires)) (\<lambda>attempt.
     case s (tr_organisation_id request, tr_id request) of
       Some doc \<Rightarrow>
         bindr (validate_attempt doc) (\<lambda>stored.
         bindr (same_attempt stored request request_hash) (\<lambda>_.
         Inl (ResourceConflictError (''tool request '' @ tr_id request @ '' is already running''))))
     | None \<Rightarrow> Inr (put_attempt request attempt s)))"

text \<open>What the transactions of an attempt that exists begin with.\<close>

definition read_attempt :: "tool_request \<Rightarrow> string \<Rightarrow> string \<Rightarrow> attempts \<Rightarrow> tool_attempt result" where
  "read_attempt request request_hash missing s =
     bindr (segments [tr_organisation_id request, tr_id request]) (\<lambda>_.
     case s (tr_organisation_id request, tr_id request) of
       None \<Rightarrow> Inl (StorageIntegrityError (''tool request '' @ tr_id request @ missing))
     | Some doc \<Rightarrow>
         bindr (validate_attempt doc) (\<lambda>current.
         bindr (same_attempt current request request_hash) (\<lambda>_. Inr current)))"

definition reclaim_attempt ::
  "tool_request \<Rightarrow> string \<Rightarrow> int \<Rightarrow> int \<Rightarrow> int \<Rightarrow> attempts \<Rightarrow> attempts result" where
  "reclaim_attempt request request_hash expected_expiry now expires s =
     bindr (read_attempt request request_hash '' disappeared'' s) (\<lambda>current.
     bindr (require (\<not> (ta_status current \<noteq> Att_Running \<or> ta_lease_expires_at current \<noteq> expected_expiry
         \<or> now < ta_lease_expires_at current \<or> ta_checkpoint current \<noteq> None))
       (ResourceConflictError (''tool request '' @ tr_id request @ '' cannot be reclaimed''))) (\<lambda>_.
     Inr (put_attempt request (current\<lparr>ta_lease_expires_at := expires\<rparr>) s)))"

definition checkpoint_attempt :: "tool_request \<Rightarrow> string \<Rightarrow> tool_result \<Rightarrow> attempts \<Rightarrow> attempts result" where
  "checkpoint_attempt request request_hash res s =
     bindr (read_attempt request request_hash '' was not started'' s) (\<lambda>current.
     if ta_status current \<noteq> Att_Running
     then (if ta_result current = Some res then Inr s
           else Inl (ResourceConflictError (''tool request '' @ tr_id request @ '' already completed'')))
     else
       bindr (require (\<not> (ta_checkpoint current \<noteq> None \<and> ta_checkpoint current \<noteq> Some res))
         (ResourceConflictError (''tool request '' @ tr_id request @ '' checkpoint changed''))) (\<lambda>_.
       Inr (put_attempt request (current\<lparr>ta_checkpoint := Some res\<rparr>) s)))"

definition finished_attempt :: "tool_attempt \<Rightarrow> tool_result \<Rightarrow> int \<Rightarrow> tool_attempt" where
  "finished_attempt current res now =
     current\<lparr>ta_status := (if tres_succeeded res then Att_Succeeded else Att_Failed), ta_result := Some res,
       ta_checkpoint := None, ta_completed_at := Some now\<rparr>"

definition finish_attempt :: "tool_request \<Rightarrow> string \<Rightarrow> tool_result \<Rightarrow> int \<Rightarrow> attempts \<Rightarrow> attempts result" where
  "finish_attempt request request_hash res now s =
     bindr (read_attempt request request_hash '' was not started'' s) (\<lambda>current.
     if ta_status current \<noteq> Att_Running
     then (if ta_result current = Some res then Inr s
           else Inl (ResourceConflictError (''tool request '' @ tr_id request @ '' already completed'')))
     else Inr (put_attempt request (finished_attempt current res now) s))"

section \<open>The documents the broker reads\<close>

record tool_sources =
  ts_runs :: "string \<times> string \<rightharpoonup> rotation_run"
  ts_connections :: "string \<times> string \<rightharpoonup> connection"
  ts_credentials :: "string \<times> string \<rightharpoonup> managed_credential"
  ts_bindings :: "string \<Rightarrow> consumer_binding list"
  ts_controls :: "string \<times> string \<times> string \<rightharpoonup> control_version"
  ts_approvals :: approval_store

text \<open>\<open>FirestoreCatalog.get\<close> of a document below an organisation, named by the collection and its name.\<close>

definition catalog_get ::
  "(string \<times> string \<rightharpoonup> 'a) \<Rightarrow> ('a \<Rightarrow> 'a result) \<Rightarrow> string \<Rightarrow> string \<Rightarrow> string \<Rightarrow> 'a result" where
  "catalog_get docs validate collection org i =
     bindr (segments [org, i]) (\<lambda>_.
     case docs (org, i) of
       None \<Rightarrow> Inl (ResourceNotFoundError (''resource organisations/'' @ org @ ''/'' @ collection @ ''/'' @ i
                 @ '' was not found''))
     | Some doc \<Rightarrow> validate doc)"

definition source_run :: "tool_sources \<Rightarrow> string \<Rightarrow> string \<Rightarrow> rotation_run result" where
  "source_run ts = catalog_get (ts_runs ts) validate_run ''runs''"

definition source_connection :: "(string \<Rightarrow> bool) \<Rightarrow> tool_sources \<Rightarrow> string \<Rightarrow> string \<Rightarrow> connection result" where
  "source_connection ip ts = catalog_get (ts_connections ts) (validate_connection ip) ''connections''"

definition source_credential :: "tool_sources \<Rightarrow> string \<Rightarrow> string \<Rightarrow> managed_credential result" where
  "source_credential ts = catalog_get (ts_credentials ts) validate_credential ''credentials''"

definition source_bindings :: "tool_sources \<Rightarrow> string \<Rightarrow> string \<Rightarrow> consumer_binding list result" where
  "source_bindings ts org credential_id =
     bindr (segments [org]) (\<lambda>_.
     mapr validate_binding (filter (\<lambda>b. cb_credential_id b = credential_id) (ts_bindings ts org)))"

definition source_controls :: "tool_sources \<Rightarrow> string \<Rightarrow> string \<Rightarrow> string \<Rightarrow> control_version result" where
  "source_controls ts org credential_id version_id =
     bindr (segments [org, credential_id, version_id]) (\<lambda>_.
     case ts_controls ts (org, credential_id, version_id) of
       None \<Rightarrow> Inl (ResourceNotFoundError (''resource organisations/'' @ org @ ''/credentials/'' @ credential_id
                 @ ''/control-versions/'' @ version_id @ '' was not found''))
     | Some doc \<Rightarrow> validate_control_version doc)"

definition source_approval :: "tool_sources \<Rightarrow> string \<Rightarrow> string \<Rightarrow> approval result" where
  "source_approval ts org = catalog_get (\<lambda>(o', i). map_of (as_approvals (ts_approvals ts) o') i) validate_approval ''approvals'' org"

definition source_action :: "tool_sources \<Rightarrow> string \<Rightarrow> string \<Rightarrow> protected_action result" where
  "source_action ts = catalog_get (as_actions (ts_approvals ts)) validate_action ''actions''"

end
