(* ===== verification/Effects.thy ===== *)
theory Effects imports Prelude begin

text \<open>
  Operations that act on a state and may raise: a function from the state to an exception or a value, with the
  state it leaves. An exception does not undo what was done before it. Shared by the broker and the coordinator.
\<close>

section \<open>Operations\<close>

type_synonym ('s, 'e, 'a) effect = "'s \<Rightarrow> ('e + 'a) \<times> 's"

definition yields :: "'a \<Rightarrow> ('s, 'e, 'a) effect" where
  "yields x s = (Inr x, s)"

definition raises :: "'e \<Rightarrow> ('s, 'e, 'a) effect" where
  "raises e s = (Inl e, s)"

definition bindx :: "('s, 'e, 'a) effect \<Rightarrow> ('a \<Rightarrow> ('s, 'e, 'b) effect) \<Rightarrow> ('s, 'e, 'b) effect" where
  "bindx f g s = (case f s of (Inl e, s') \<Rightarrow> (Inl e, s') | (Inr x, s') \<Rightarrow> g x s')"

definition requires :: "bool \<Rightarrow> 'e \<Rightarrow> ('s, 'e, unit) effect" where
  "requires b e s = (if b then (Inr (), s) else (Inl e, s))"

definition given :: "('e + 'a) \<Rightarrow> ('s, 'e, 'a) effect" where
  "given r s = (r, s)"

text \<open>\<open>try\<close> with one handler: it gets the exception and runs in the state the body left.\<close>

definition catches :: "('s, 'e, 'a) effect \<Rightarrow> ('e \<Rightarrow> ('s, 'e, 'a) effect) \<Rightarrow> ('s, 'e, 'a) effect" where
  "catches f h s = (case f s of (Inl e, s') \<Rightarrow> h e s' | (Inr x, s') \<Rightarrow> (Inr x, s'))"

text \<open>\<open>contextlib.suppress(Exception)\<close>.\<close>

definition suppressed :: "('s, 'e, unit) effect \<Rightarrow> ('s, 'e, unit) effect" where
  "suppressed f s = (Inr (), snd (f s))"

text \<open>A loop over a list: the values in order, up to the first exception.\<close>

fun mapx :: "('a \<Rightarrow> ('s, 'e, 'b) effect) \<Rightarrow> 'a list \<Rightarrow> ('s, 'e, 'b list) effect" where
  "mapx f [] = yields []"
| "mapx f (x # xs) = bindx (f x) (\<lambda>y. bindx (mapx f xs) (\<lambda>ys. yields (y # ys)))"

lemma bindx_eq:
  "bindx f g s = (r, s') \<longleftrightarrow> (\<exists>e. f s = (Inl e, s') \<and> r = Inl e) \<or> (\<exists>x s1. f s = (Inr x, s1) \<and> g x s1 = (r, s'))"
  by (auto simp: bindx_def split: prod.splits sum.splits)

lemma bindx_Inr: "bindx f g s = (Inr y, s') \<longleftrightarrow> (\<exists>x s1. f s = (Inr x, s1) \<and> g x s1 = (Inr y, s'))"
  by (auto simp: bindx_eq)

lemma yields_eq: "yields x s = (r, s') \<longleftrightarrow> r = Inr x \<and> s' = s"
  by (auto simp: yields_def)

lemma raises_eq: "raises e s = (r, s') \<longleftrightarrow> r = Inl e \<and> s' = s"
  by (auto simp: raises_def)

lemma requires_Inr: "requires b e s = (Inr u, s') \<longleftrightarrow> b \<and> s' = s"
  by (auto simp: requires_def)

lemma given_eq: "given q s = (r, s') \<longleftrightarrow> r = q \<and> s' = s"
  by (auto simp: given_def)

section \<open>What operations keep\<close>

text \<open>
  What every step of an operation keeps, the operation keeps: a relation between the states before and
  after that is reflexive and transitive.
\<close>

definition keeps :: "('s \<Rightarrow> 's \<Rightarrow> bool) \<Rightarrow> ('s, 'e, 'a) effect \<Rightarrow> bool" where
  "keeps R f \<longleftrightarrow> (\<forall>s. R s (snd (f s)))"

lemma keepsD: "keeps R f \<Longrightarrow> f s = (r, s') \<Longrightarrow> R s s'"
  by (auto simp: keeps_def dest: spec [of _ s])

locale kept =
  fixes R :: "'s \<Rightarrow> 's \<Rightarrow> bool"
  assumes kept_refl: "R s s"
    and kept_trans: "R s t \<Longrightarrow> R t u \<Longrightarrow> R s u"
begin

lemma keeps_idle: "keeps R (yields x)" "keeps R (raises e)" "keeps R (requires b e)" "keeps R (given q)"
  by (simp_all add: keeps_def yields_def raises_def requires_def given_def kept_refl)

lemma keeps_bindx: "keeps R f \<Longrightarrow> (\<And>x. keeps R (g x)) \<Longrightarrow> keeps R (bindx f g)"
  unfolding keeps_def bindx_def
  by (auto split: prod.splits sum.splits) (metis snd_conv kept_trans)+

lemma keeps_catches: "keeps R f \<Longrightarrow> (\<And>e. keeps R (h e)) \<Longrightarrow> keeps R (catches f h)"
  unfolding keeps_def catches_def
  by (auto split: prod.splits sum.splits) (metis snd_conv kept_trans)+

lemma keeps_suppressed: "keeps R f \<Longrightarrow> keeps R (suppressed f)"
  by (simp add: keeps_def suppressed_def)

lemma keeps_mapx: "(\<And>x. x \<in> set xs \<Longrightarrow> keeps R (f x)) \<Longrightarrow> keeps R (mapx f xs)"
  by (induction xs) (simp_all add: keeps_idle keeps_bindx)

end

text \<open>An invariant is such a relation.\<close>

definition invariant :: "('s \<Rightarrow> bool) \<Rightarrow> 's \<Rightarrow> 's \<Rightarrow> bool" where
  "invariant P s t \<longleftrightarrow> (P s \<longrightarrow> P t)"

interpretation invariant: kept "invariant P" for P :: "'s \<Rightarrow> bool"
  by unfold_locales (auto simp: invariant_def)

end
