(* ===== verification/Broker.thy ===== *)
theory Broker imports Tool_Attempts Effects begin

text \<open>
  The broker that executes tools on behalf of a run (server/broker/service.py). Connectors, the secret
  store and the evidence sink act on the outside world, a value of any type that their functions take and
  give back; they may raise. An operation is a function from the state to an exception or a value with the
  state it leaves. The clearing of secret buffers is not modelled.
\<close>

section \<open>Exceptions and operations\<close>

text \<open>
  \<open>Ambiguous\<close> is \<open>AmbiguousMutationError\<close>, a subclass of \<open>ConnectorError\<close>; \<open>Raised\<close> is any other exception.
\<close>

datatype tool_exception = Connector_Error string string bool | Ambiguous string | Raised error

fun exception_code :: "tool_exception \<Rightarrow> string" where
  "exception_code (Connector_Error code m retryable) = code"
| "exception_code (Ambiguous m) = ''ambiguous-mutation''"
| "exception_code (Raised e) = ''''"

record 'w broker_state =
  bk_world :: 'w
  bk_attempts :: attempts
  bk_audit :: audit_store

type_synonym ('w, 'a) tool_op = "('w broker_state, tool_exception, 'a) effect"

definition lift :: "'a result \<Rightarrow> ('w, 'a) tool_op" where
  "lift r s = (case r of Inl e \<Rightarrow> (Inl (Raised e), s) | Inr x \<Rightarrow> (Inr x, s))"

definition outside :: "('w \<Rightarrow> (tool_exception + 'a) \<times> 'w) \<Rightarrow> ('w, 'a) tool_op" where
  "outside f s = (case f (bk_world s) of (r, w) \<Rightarrow> (r, s\<lparr>bk_world := w\<rparr>))"

definition on_attempts :: "(attempts \<Rightarrow> attempts result) \<Rightarrow> ('w, unit) tool_op" where
  "on_attempts f s = (case f (bk_attempts s) of Inl e \<Rightarrow> (Inl (Raised e), s) | Inr a \<Rightarrow> (Inr (), s\<lparr>bk_attempts := a\<rparr>))"

section \<open>Connectors\<close>

record connector_context =
  ctx_request_id :: string
  ctx_agent_id :: string
  ctx_connection :: connection
  ctx_run :: rotation_run
  ctx_now :: int
  ctx_idempotency_key :: string

record connector_response =
  cr_result :: "(string \<times> json) list"
  cr_evidence :: "(string \<times> string \<times> string) list"
  cr_secret :: "string option"

record 'w secret_manager =
  sm_versions_for :: "connection \<Rightarrow> string \<Rightarrow> 'w \<Rightarrow> (tool_exception + (string \<times> json) list list) \<times> 'w"
  sm_add_version_for :: "connection \<Rightarrow> string \<Rightarrow> string \<Rightarrow> 'w \<Rightarrow> (tool_exception + (string \<times> json) list) \<times> 'w"
  sm_disable_for :: "connection \<Rightarrow> string \<Rightarrow> 'w \<Rightarrow> (tool_exception + unit) \<times> 'w"

text \<open>
  A connector reconciles mutations when it implements \<open>ReconcilesMutations\<close>, and is a secret store when
  it is a \<open>SecretManagerConnector\<close>.
\<close>

record 'w reconciler =
  rc_prepare :: "string \<Rightarrow> (string \<times> json) list \<Rightarrow> connector_context \<Rightarrow> 'w
    \<Rightarrow> (tool_exception + (string \<times> recon_value) list) \<times> 'w"
  rc_reconcile :: "string \<Rightarrow> (string \<times> json) list \<Rightarrow> (string \<times> recon_value) list \<Rightarrow> connector_context \<Rightarrow> 'w
    \<Rightarrow> (tool_exception + connector_response option) \<times> 'w"

record 'w connector =
  cn_tools :: "string list"
  cn_execute :: "string \<Rightarrow> (string \<times> json) list \<Rightarrow> connector_context \<Rightarrow> 'w \<Rightarrow> (tool_exception + connector_response) \<times> 'w"
  cn_reconciler :: "'w reconciler option"
  cn_secrets :: "'w secret_manager option"

type_synonym 'w registry = "((connection_role \<times> connection_interface \<times> string) \<times> 'w connector) list"

definition register_connector ::
  "connection_role \<Rightarrow> connection_interface \<Rightarrow> string \<Rightarrow> 'w connector \<Rightarrow> 'w registry \<Rightarrow> 'w registry result" where
  "register_connector role interface platform connector reg =
     bindr (require (map_of reg (role, interface, platform) = None)
       (ValueError (''connector '' @ connection_role_value role @ ''/'' @ connection_interface_value interface @ ''/''
          @ platform @ '' is already registered''))) (\<lambda>_.
     Inr (reg @ [((role, interface, platform), connector)]))"

definition resolve_connector :: "'w registry \<Rightarrow> connection \<Rightarrow> string \<Rightarrow> 'w connector result" where
  "resolve_connector reg c tool =
     bindr (tool_role tool) (\<lambda>role.
     bindr (require (role \<in> set (con_roles c))
       (CapabilityError (''connection '' @ con_id c @ '' does not provide the '' @ connection_role_value role @ '' role''))) (\<lambda>_.
     let found = map_of reg (role, con_interface c, con_platform c);
         chosen = (if found = None \<and> role = Role_Provider then map_of reg (role, con_interface c, ''*'') else found)
     in case chosen of
          Some connector \<Rightarrow>
            if tool \<in> set (cn_tools connector) then Inr connector
            else Inl (CapabilityError (''no connector provides '' @ tool @ '' for '' @ connection_role_value role @ ''/''
                   @ connection_interface_value (con_interface c) @ ''/'' @ con_platform c))
        | None \<Rightarrow> Inl (CapabilityError (''no connector provides '' @ tool @ '' for '' @ connection_role_value role @ ''/''
                   @ connection_interface_value (con_interface c) @ ''/'' @ con_platform c))))"

section \<open>The service\<close>

text \<open>
  \<open>brk_verify\<close> is the verifier of action capabilities; the evidence sink gives the name of the evidence it
  stored. \<open>brk_ip\<close> is the address check of \<open>urlsplit\<close>.
\<close>

record 'w broker =
  brk_sha :: "string \<Rightarrow> string"
  brk_time :: "int \<Rightarrow> string"
  brk_fmt :: "int \<Rightarrow> string"
  brk_ip :: "string \<Rightarrow> bool"
  brk_registry :: "'w registry"
  brk_verify :: "string \<Rightarrow> int \<Rightarrow> capability_claims result"
  brk_evidence :: "string \<Rightarrow> string \<Rightarrow> string \<Rightarrow> string \<Rightarrow> string \<Rightarrow> int \<Rightarrow> 'w \<Rightarrow> (tool_exception + string) \<times> 'w"
  brk_region :: string
  brk_attempt_lease :: int

definition payload_text :: "(string \<times> json) list \<Rightarrow> string \<Rightarrow> (tool_exception + string)" where
  "payload_text payload key =
     (case map_of payload key of
        Some (JStr v) \<Rightarrow> if v = [] then Inl (Connector_Error ''invalid-parameter'' (key @ '' is required'') False) else Inr v
      | _ \<Rightarrow> Inl (Connector_Error ''invalid-parameter'' (key @ '' is required'') False))"

subsection \<open>Authority\<close>

definition validate_tool_approval ::
  "'w broker \<Rightarrow> tool_sources \<Rightarrow> tool_request \<Rightarrow> capability_claims \<Rightarrow> string \<Rightarrow> unit result" where
  "validate_tool_approval b ts request claims approval_id =
     bindr (source_approval ts (tr_organisation_id request) approval_id) (\<lambda>approval.
     bindr (source_action ts (tr_organisation_id request) (appr_action_id approval)) (\<lambda>action.
     bindr (require (appr_decision approval = AP_APPROVED \<and> appr_consumed_at approval \<noteq> None)
       (ApprovalError ''protected action approval has not been consumed'')) (\<lambda>_.
     bindr (require (appr_run_id approval = tr_run_id request \<and> pa_run_id action = tr_run_id request)
       (ApprovalError ''protected action belongs to another run'')) (\<lambda>_.
     bindr (require (pa_kind action = tr_tool request)
       (ApprovalError ''protected action does not match the requested tool'')) (\<lambda>_.
     bindr (digest (brk_sha b) (brk_time b) (dump_action action)) (\<lambda>action_hash.
     require (cl_action_digest claims = action_hash \<and> appr_action_digest approval = action_hash)
       (ApprovalError ''protected action digest changed after approval'')))))))"

definition authorize_mutation ::
  "'w broker \<Rightarrow> tool_sources \<Rightarrow> int \<Rightarrow> tool_request \<Rightarrow> rotation_run \<Rightarrow> string \<Rightarrow> string option \<Rightarrow> unit result" where
  "authorize_mutation b ts checked request run request_hash token =
     (case token of
        None \<Rightarrow> Inl (CapabilityError ''mutating tools require an action capability'')
      | Some t \<Rightarrow>
          bindr (brk_verify b t checked) (\<lambda>claims.
          bindr (validate_capability (brk_sha b) request run claims) (\<lambda>_.
          case cl_approval_id claims of
            None \<Rightarrow> require (cl_action_digest claims = request_hash)
                      (CapabilityError ''automatic capability action digest changed'')
          | Some approval_id \<Rightarrow> validate_tool_approval b ts request claims approval_id)))"

subsection \<open>The secret of a created credential\<close>

definition validate_secret_sink :: "connection \<Rightarrow> managed_credential \<Rightarrow> string \<Rightarrow> (tool_exception + unit)" where
  "validate_secret_sink sink credential secret =
     (if con_id sink \<noteq> mc_secret_store_connection_id credential \<or> Role_Secret_Store \<notin> set (con_roles sink)
         \<or> con_interface sink \<noteq> If_Api
      then Inl (Connector_Error ''secret-sink-not-assigned'' ''secret sink is not assigned to the credential'' False)
      else if secret \<noteq> mc_secret_resource credential
      then Inl (Connector_Error ''secret-sink-mismatch'' ''secret resource differs from the credential mapping'' False)
      else if \<not> list_ex (\<lambda>boundary. secret = boundary \<or> starts_with (rstrip_char (CHR ''/'') boundary @ ''/'') secret)
                  (con_allowed_resources sink)
      then Inl (Connector_Error ''secret-sink-boundary'' ''secret resource escapes the assigned sink'' False)
      else Inr ())"

definition secret_sink ::
  "'w broker \<Rightarrow> tool_sources \<Rightarrow> tool_request \<Rightarrow> managed_credential
     \<Rightarrow> (tool_exception + connection \<times> 'w secret_manager \<times> string)" where
  "secret_sink b ts request credential =
     (case payload_text (tr_payload request) ''sink_connection_id'' of
        Inl e \<Rightarrow> Inl e
      | Inr sink_id \<Rightarrow>
          (case payload_text (tr_payload request) ''secret_resource'' of
             Inl e \<Rightarrow> Inl e
           | Inr secret \<Rightarrow>
               (case source_connection (brk_ip b) ts (tr_organisation_id request) sink_id of
                  Inl e \<Rightarrow> Inl (Raised e)
                | Inr sink \<Rightarrow>
                    (case validate_secret_sink sink credential secret of
                       Inl e \<Rightarrow> Inl e
                     | Inr _ \<Rightarrow>
                         (case resolve_connector (brk_registry b) sink ''secretStore.getVersion'' of
                            Inl e \<Rightarrow> Inl (Raised e)
                          | Inr connector \<Rightarrow>
                              (case cn_secrets connector of
                                 None \<Rightarrow> Inl (Connector_Error ''unsupported-secret-sink''
                                           ''secret sink cannot accept direct secret transfer'' False)
                               | Some secrets \<Rightarrow> Inr (sink, secrets, secret)))))))"

definition cleanup_error :: "string \<Rightarrow> tool_exception" where
  "cleanup_error m = Connector_Error ''secret-transfer-cleanup'' m False"

definition compensate_created ::
  "'w broker \<Rightarrow> connector_response \<Rightarrow> connector_context \<Rightarrow> ('w, unit) tool_op" where
  "compensate_created b response context =
     (case map_of (cr_result response) ''provider_id'' of
        Some (JStr provider_id) \<Rightarrow>
          bindx (lift (resolve_connector (brk_registry b) (ctx_connection context) ''provider.revokeCredential'')) (\<lambda>connector.
          bindx (catches
            (outside (cn_execute connector ''provider.revokeCredential'' [(''provider_id'', JStr provider_id)] context))
            (\<lambda>e. case e of
                   Raised _ \<Rightarrow> raises e
                 | _ \<Rightarrow> raises (cleanup_error ''secret transfer failed and provider credential cleanup also failed''))) (\<lambda>_.
          yields ()))
      | _ \<Rightarrow> raises (cleanup_error ''created credential has no provider ID for cleanup''))"

definition dict_merge :: "('k \<times> 'v) list \<Rightarrow> ('k \<times> 'v) list \<Rightarrow> ('k \<times> 'v) list" where
  "dict_merge d e = foldl (\<lambda>d kv. AList.update (fst kv) (snd kv) d) d e"

definition add_secret ::
  "'w broker \<Rightarrow> tool_sources \<Rightarrow> tool_request \<Rightarrow> managed_credential \<Rightarrow> connector_response \<Rightarrow> string \<Rightarrow> connector_context
     \<Rightarrow> ('w, connector_response) tool_op" where
  "add_secret b ts request credential response secret context =
     bindx (given (secret_sink b ts request credential)) (\<lambda>(sink, secrets, secret_name).
     bindx (catches (outside (sm_add_version_for secrets sink secret_name secret))
       (\<lambda>_. bindx (catches (compensate_created b response context) (\<lambda>_. yields ())) (\<lambda>_.
            raises (Ambiguous ''secret version write outcome requires reconciliation'')))) (\<lambda>stored.
     yields \<lparr>cr_result = dict_merge (cr_result response) stored, cr_evidence = cr_evidence response, cr_secret = None\<rparr>))"

definition store_provider_secret ::
  "'w broker \<Rightarrow> tool_sources \<Rightarrow> tool_request \<Rightarrow> managed_credential \<Rightarrow> connector_response \<Rightarrow> connector_context
     \<Rightarrow> ('w, connector_response) tool_op" where
  "store_provider_secret b ts request credential response context =
     (if tr_tool request \<noteq> ''provider.createCredential''
      then (if cr_secret response \<noteq> None
            then raises (Connector_Error ''unexpected-secret'' ''connector returned a secret for a non-creation tool'' False)
            else yields response)
      else
        (case cr_secret response of
           None \<Rightarrow> raises (Connector_Error ''provider-secret-missing'' ''provider returned no one-time credential secret'' False)
         | Some secret \<Rightarrow>
             catches (add_secret b ts request credential response secret context)
               (\<lambda>e. case e of
                      Ambiguous m \<Rightarrow> raises e
                    | Connector_Error code m retryable \<Rightarrow> bindx (compensate_created b response context) (\<lambda>_. raises e)
                    | Raised _ \<Rightarrow> bindx (compensate_created b response context) (\<lambda>_.
                        raises (Connector_Error ''secret-transfer-failed'' ''created credential could not be stored'' False)))))"

subsection \<open>Preparing and reconciling a mutation\<close>

definition version_names :: "(string \<times> json) list list \<Rightarrow> string list" where
  "version_names items =
     List.map_filter (\<lambda>item. case map_of item ''name'' of Some (JStr name) \<Rightarrow> Some name | _ \<Rightarrow> None) items"

definition contains_sensitive :: "(string \<times> recon_value) list \<Rightarrow> bool" where
  "contains_sensitive state =
     list_ex (\<lambda>(key, v). lower_text key \<in> {''secret'', ''api_key'', ''password'', ''token'', ''value''}) state"

definition prepare_mutation ::
  "'w broker \<Rightarrow> tool_sources \<Rightarrow> 'w connector \<Rightarrow> tool_request \<Rightarrow> connector_context \<Rightarrow> managed_credential
     \<Rightarrow> ('w, (string \<times> recon_value) list) tool_op" where
  "prepare_mutation b ts connector request context credential =
     (case cn_reconciler connector of
        None \<Rightarrow> yields []
      | Some rc \<Rightarrow>
          bindx (outside (rc_prepare rc (tr_tool request) (tr_payload request) context)) (\<lambda>prepared.
          bindx (if tr_tool request = ''provider.createCredential''
                 then bindx (given (secret_sink b ts request credential)) (\<lambda>(sink, secrets, secret_name).
                      bindx (outside (sm_versions_for secrets sink secret_name)) (\<lambda>versions.
                      yields (dict_merge prepared
                        [(''secret_resource'', RText secret_name),
                         (''before_secret_versions'', RTexts (sort (version_names versions)))])))
                 else yields prepared) (\<lambda>state.
          bindx (requires (\<not> contains_sensitive state)
            (Connector_Error ''invalid-reconciliation-state''
               ''connector reconciliation state is invalid or contains sensitive material'' False)) (\<lambda>_.
          yields state))))"

definition enabled_new :: "string list \<Rightarrow> (string \<times> json) list \<Rightarrow> bool" where
  "enabled_new earlier item =
     ((case map_of item ''name'' of Some (JStr name) \<Rightarrow> name \<notin> set earlier | _ \<Rightarrow> False)
      \<and> map_of item ''state'' = Some (JStr ''ENABLED''))"

definition reconcile_secret_sink ::
  "'w broker \<Rightarrow> tool_sources \<Rightarrow> tool_request \<Rightarrow> managed_credential \<Rightarrow> (string \<times> recon_value) list \<Rightarrow> ('w, unit) tool_op" where
  "reconcile_secret_sink b ts request credential state =
     bindx (given (secret_sink b ts request credential)) (\<lambda>(sink, secrets, secret_name).
     case map_of state ''before_secret_versions'' of
       Some (RTexts earlier) \<Rightarrow>
         if map_of state ''secret_resource'' \<noteq> Some (RText secret_name)
         then raises (Ambiguous ''secret sink reconciliation checkpoint is invalid'')
         else
           bindx (outside (sm_versions_for secrets sink secret_name)) (\<lambda>versions.
           case version_names (filter (enabled_new earlier) versions) of
             [] \<Rightarrow> yields ()
           | [name] \<Rightarrow> outside (sm_disable_for secrets sink name)
           | _ \<Rightarrow> raises (Ambiguous ''stale secret write has multiple attributable cleanup candidates''))
     | _ \<Rightarrow> raises (Ambiguous ''secret sink reconciliation checkpoint is invalid''))"

definition reconcile_mutation ::
  "'w broker \<Rightarrow> tool_sources \<Rightarrow> 'w connector \<Rightarrow> tool_request \<Rightarrow> connector_context \<Rightarrow> managed_credential
     \<Rightarrow> (string \<times> recon_value) list \<Rightarrow> ('w, connector_response option) tool_op" where
  "reconcile_mutation b ts connector request context credential state =
     (case cn_reconciler connector of
        None \<Rightarrow> raises (Connector_Error ''stale-mutation-unrecoverable''
                  ''connector cannot reconcile an expired mutation attempt'' False)
      | Some rc \<Rightarrow>
          bindx (outside (rc_reconcile rc (tr_tool request) (tr_payload request) state context)) (\<lambda>found.
          bindx (if tr_tool request = ''provider.createCredential''
                 then reconcile_secret_sink b ts request credential state else yields ()) (\<lambda>_.
          yields found)))"

subsection \<open>Execution\<close>

fun write_evidence ::
  "'w broker \<Rightarrow> tool_request \<Rightarrow> int \<Rightarrow> (string \<times> string \<times> string) list \<Rightarrow> ('w, string list) tool_op" where
  "write_evidence b request now [] = yields []"
| "write_evidence b request now ((kind, content, content_type) # rest) =
     bindx (outside (brk_evidence b (tr_organisation_id request) (tr_run_id request) kind content content_type now)) (\<lambda>i.
     bindx (write_evidence b request now rest) (\<lambda>is. yields (i # is)))"

definition make_result :: "tool_result \<Rightarrow> ('w, tool_result) tool_op" where
  "make_result r = lift (if tool_result_fields_ok r then Inr r else Inl (FieldError ''ToolResult''))"

definition succeeded_result :: "tool_request \<Rightarrow> connector_response \<Rightarrow> string list \<Rightarrow> tool_result" where
  "succeeded_result request response evidence_ids =
     \<lparr>tres_request_id = tr_id request, tres_succeeded = True, tres_result = cr_result response, tres_error_code = None,
      tres_evidence_ids = evidence_ids\<rparr>"

definition failed_result :: "tool_request \<Rightarrow> string \<Rightarrow> bool \<Rightarrow> tool_result" where
  "failed_result request code retryable =
     \<lparr>tres_request_id = tr_id request, tres_succeeded = False, tres_result = [(''retryable'', JBool retryable)],
      tres_error_code = Some code, tres_evidence_ids = []\<rparr>"

text \<open>What follows a response: the secret is stored, the evidence is written, the result is checkpointed.\<close>

definition settle_response ::
  "'w broker \<Rightarrow> tool_sources \<Rightarrow> tool_request \<Rightarrow> string \<Rightarrow> int \<Rightarrow> managed_credential \<Rightarrow> connector_context
     \<Rightarrow> connector_response \<Rightarrow> ('w, tool_result) tool_op" where
  "settle_response b ts request request_hash now credential context response =
     bindx (store_provider_secret b ts request credential response context) (\<lambda>stored.
     bindx (write_evidence b request now (cr_evidence stored)) (\<lambda>evidence_ids.
     bindx (make_result (succeeded_result request stored evidence_ids)) (\<lambda>res.
     bindx (on_attempts (checkpoint_attempt request request_hash res)) (\<lambda>_.
     yields res))))"

definition finish_tool :: "tool_request \<Rightarrow> string \<Rightarrow> tool_result \<Rightarrow> int \<Rightarrow> ('w, tool_result) tool_op" where
  "finish_tool request request_hash res finished =
     bindx (on_attempts (finish_attempt request request_hash res finished)) (\<lambda>_. yields res)"

text \<open>The call of the connector, with its three handlers.\<close>

definition call_connector ::
  "'w broker \<Rightarrow> tool_sources \<Rightarrow> 'w connector \<Rightarrow> tool_request \<Rightarrow> string \<Rightarrow> int \<Rightarrow> int \<Rightarrow> managed_credential
     \<Rightarrow> connector_context \<Rightarrow> ('w, tool_result) tool_op" where
  "call_connector b ts connector request request_hash now finished credential context =
     catches
       (bindx (outside (cn_execute connector (tr_tool request) (tr_payload request) context)) (\<lambda>response.
        settle_response b ts request request_hash now credential context response))
       (\<lambda>e. case e of
              Ambiguous m \<Rightarrow> raises e
            | Connector_Error code m retryable \<Rightarrow> make_result (failed_result request code retryable)
            | Raised err \<Rightarrow>
                bindx (make_result (failed_result request ''broker-internal-error'' False)) (\<lambda>res.
                bindx (finish_tool request request_hash res finished) (\<lambda>_. raises e)))"

definition audit_tool ::
  "'w broker \<Rightarrow> tool_request \<Rightarrow> string \<Rightarrow> int \<Rightarrow> tool_result \<Rightarrow> ('w, tool_result) tool_op" where
  "audit_tool b request request_hash audited res s =
     (case writer_append (brk_sha b) (brk_fmt b) (brk_region b) audited (tr_id request) (tr_organisation_id request)
             (if tres_succeeded res then ''tool.succeeded'' else ''tool.failed'') (tr_agent_id request)
             (''connections/'' @ tr_connection_id request)
             [(''tool'', SStr (tr_tool request)), (''request_digest'', SStr request_hash),
              (''error_code'', case tres_error_code res of None \<Rightarrow> SNone | Some code \<Rightarrow> SStr code)]
             (Some (tr_run_id request)) (tres_evidence_ids res) None (bk_audit s) of
        Inl e \<Rightarrow> (Inl (Raised e), s)
      | Inr (_, audit) \<Rightarrow> (Inr res, s\<lparr>bk_audit := audit\<rparr>))"

definition call_and_finish ::
  "'w broker \<Rightarrow> tool_sources \<Rightarrow> 'w connector \<Rightarrow> tool_request \<Rightarrow> string \<Rightarrow> int \<Rightarrow> int \<Rightarrow> int \<Rightarrow> managed_credential
     \<Rightarrow> connector_context \<Rightarrow> ('w, tool_result) tool_op" where
  "call_and_finish b ts connector request request_hash now finished audited credential context =
     bindx (call_connector b ts connector request request_hash now finished credential context) (\<lambda>res.
     bindx (finish_tool request request_hash res finished) (\<lambda>_.
     audit_tool b request request_hash audited res))"

text \<open>
  What is read and checked before anything is done: the run, the connection, the credential and whether the
  request may be executed.
\<close>

definition admit_request ::
  "'w broker \<Rightarrow> tool_sources \<Rightarrow> int \<Rightarrow> int \<Rightarrow> tool_request \<Rightarrow> string \<Rightarrow> string option
     \<Rightarrow> (rotation_run \<times> connection \<times> managed_credential) result" where
  "admit_request b ts now checked request request_hash token =
     bindr (source_run ts (tr_organisation_id request) (tr_run_id request)) (\<lambda>run.
     bindr (source_connection (brk_ip b) ts (tr_organisation_id request) (tr_connection_id request)) (\<lambda>c.
     bindr (source_credential ts (tr_organisation_id request) (run_credential_id run)) (\<lambda>credential.
     bindr (source_bindings ts (tr_organisation_id request) (run_credential_id run)) (\<lambda>bindings.
     bindr (source_controls ts (tr_organisation_id request) (run_credential_id run) (run_control_version run)) (\<lambda>controls.
     bindr (validate_request (brk_ip b) request run c credential bindings controls now) (\<lambda>_.
     bindr (if tr_tool request \<in> set READ_TOOLS then Inr ()
            else authorize_mutation b ts checked request run request_hash token) (\<lambda>_.
     Inr (run, c, credential))))))))"

text \<open>An attempt that is running: its checkpoint, its lease, its reconciliation.\<close>

definition resume_attempt ::
  "'w broker \<Rightarrow> tool_sources \<Rightarrow> 'w connector \<Rightarrow> tool_request \<Rightarrow> string \<Rightarrow> int \<Rightarrow> int \<Rightarrow> int \<Rightarrow> managed_credential
     \<Rightarrow> connector_context \<Rightarrow> tool_attempt \<Rightarrow> ('w, tool_result) tool_op" where
  "resume_attempt b ts connector request request_hash now finished audited credential context previous =
     (case ta_checkpoint previous of
        Some res \<Rightarrow> finish_tool request request_hash res finished
      | None \<Rightarrow>
          bindx (requires (\<not> now < ta_lease_expires_at previous)
            (Raised (ResourceConflictError (''tool request '' @ tr_id request @ '' is already running'')))) (\<lambda>_.
          bindx (on_attempts (reclaim_attempt request request_hash (ta_lease_expires_at previous) now
                    (now + brk_attempt_lease b))) (\<lambda>_.
          bindx (reconcile_mutation b ts connector request context credential (ta_reconciliation previous)) (\<lambda>found.
          case found of
            Some response \<Rightarrow>
              bindx (settle_response b ts request request_hash now credential context response) (\<lambda>res.
              finish_tool request request_hash res finished)
          | None \<Rightarrow>
              call_and_finish b ts connector request request_hash now finished audited credential context))))"

definition broker_execute ::
  "'w broker \<Rightarrow> tool_sources \<Rightarrow> int \<Rightarrow> int \<Rightarrow> int \<Rightarrow> int \<Rightarrow> tool_request \<Rightarrow> string option \<Rightarrow> ('w, tool_result) tool_op" where
  "broker_execute b ts now checked finished audited request token s =
     (let request_hash = request_digest (brk_sha b) (tr_tool request) (tr_payload request) in
      case bindr (find_attempt request request_hash (bk_attempts s)) (\<lambda>previous.
           bindr (admit_request b ts now checked request request_hash token) (\<lambda>admitted.
           Inr (previous, admitted))) of
        Inl e \<Rightarrow> (Inl (Raised e), s)
      | Inr (previous, run, c, credential) \<Rightarrow>
          (let context = \<lparr>ctx_request_id = tr_id request, ctx_agent_id = tr_agent_id request, ctx_connection = c,
                 ctx_run = run, ctx_now = now, ctx_idempotency_key = tr_id request\<rparr> in
           case previous of
             Some attempt \<Rightarrow>
               if ta_status attempt \<noteq> Att_Running
               then (case ta_result attempt of
                       None \<Rightarrow> (Inl (Raised (RuntimeError ''terminal tool attempt has no result'')), s)
                     | Some res \<Rightarrow> (Inr res, s))
               else bindx (lift (resolve_connector (brk_registry b) c (tr_tool request))) (\<lambda>connector.
                    resume_attempt b ts connector request request_hash now finished audited credential context attempt) s
           | None \<Rightarrow>
               bindx (lift (resolve_connector (brk_registry b) c (tr_tool request))) (\<lambda>connector.
               bindx (prepare_mutation b ts connector request context credential) (\<lambda>reconciliation.
               bindx (on_attempts (begin_attempt request request_hash reconciliation now (now + brk_attempt_lease b))) (\<lambda>_.
               call_and_finish b ts connector request request_hash now finished audited credential context))) s))"

end
