(* ===== verification/Broker_Facts.thy ===== *)
theory Broker_Facts imports Broker begin

text \<open>
  Facts about the broker: what a request that is admitted satisfies, what the operations keep of the attempts
  and of the outside world, and that an execution that returns leaves its result in the attempt.
\<close>

section \<open>Operations\<close>

lemma lift_eq: "lift r s = (q, s') \<longleftrightarrow> s' = s \<and> q = (case r of Inl e \<Rightarrow> Inl (Raised e) | Inr x \<Rightarrow> Inr x)"
  by (auto simp: lift_def split: sum.splits)

lemma resolve_in_registry:
  assumes "resolve_connector reg c tool = Inr connector"
  shows "connector \<in> snd ` set reg"
proof -
  have "\<exists>k. map_of reg k = Some connector"
    using assms
    by (cases "tool_role tool") (auto simp: resolve_connector_def Let_def bindr_eq_Inr split: option.splits if_splits)
  then show ?thesis by (force dest: map_of_SomeD)
qed

definition credential_of_run :: "tool_sources \<Rightarrow> tool_request \<Rightarrow> managed_credential \<Rightarrow> bool" where
  "credential_of_run ts request credential \<longleftrightarrow>
     (\<exists>run. source_run ts (tr_organisation_id request) (tr_run_id request) = Inr run
        \<and> source_credential ts (tr_organisation_id request) (run_credential_id run) = Inr credential)"

text \<open>
  The steps of one request: the calls of the connectors of the registry and of the evidence sink, the writing of
  a secret to the sink of the request, the transactions of its attempt and its audit event.
\<close>

locale broker_kept = kept R for R :: "'w broker_state \<Rightarrow> 'w broker_state \<Rightarrow> bool" +
  fixes b :: "'w broker" and ts :: tool_sources and request :: tool_request
  assumes on_execute: "connector \<in> snd ` set (brk_registry b) \<Longrightarrow> keeps R (outside (cn_execute connector tool payload ctx))"
    and on_prepare: "connector \<in> snd ` set (brk_registry b) \<Longrightarrow> cn_reconciler connector = Some rc \<Longrightarrow>
      keeps R (outside (rc_prepare rc tool payload ctx))"
    and on_reconcile: "connector \<in> snd ` set (brk_registry b) \<Longrightarrow> cn_reconciler connector = Some rc \<Longrightarrow>
      keeps R (outside (rc_reconcile rc tool payload st ctx))"
    and on_versions: "secret_sink b ts request credential = Inr (sink, secrets, name) \<Longrightarrow>
      keeps R (outside (sm_versions_for secrets sink name))"
    and on_disable: "secret_sink b ts request credential = Inr (sink, secrets, name) \<Longrightarrow>
      keeps R (outside (sm_disable_for secrets sink version))"
    and on_add: "credential_of_run ts request credential \<Longrightarrow>
      secret_sink b ts request credential = Inr (sink, secrets, name) \<Longrightarrow>
      keeps R (outside (sm_add_version_for secrets sink name secret))"
    and on_evidence: "keeps R (outside (brk_evidence b org rid kind content ctype now))"
    and on_begin: "keeps R (on_attempts (begin_attempt request hash recon now expiry))"
    and on_reclaim: "keeps R (on_attempts (reclaim_attempt request hash expected now expiry))"
    and on_checkpoint: "keeps R (on_attempts (checkpoint_attempt request hash res))"
    and on_finish: "keeps R (on_attempts (finish_attempt request hash res now))"
    and on_audit: "keeps R (audit_tool b request hash audited res)"
begin

lemma keeps_lift: "keeps R (lift q)"
  by (simp add: keeps_def lift_def kept_refl split: sum.splits)

lemmas idle = keeps_idle keeps_lift keeps_bindx keeps_catches

lemma resolved: "resolve_connector (brk_registry b) c tool = Inr connector \<Longrightarrow> connector \<in> snd ` set (brk_registry b)"
  by (rule resolve_in_registry)

lemma keeps_lift_bindx: "(\<And>x. q = Inr x \<Longrightarrow> keeps R (g x)) \<Longrightarrow> keeps R (bindx (lift q) g)"
  by (cases q) (auto simp: keeps_def bindx_def lift_def kept_refl)

lemma keeps_given_bindx: "(\<And>x. q = Inr x \<Longrightarrow> keeps R (g x)) \<Longrightarrow> keeps R (bindx (given q) g)"
  by (cases q) (auto simp: keeps_def bindx_def given_def kept_refl)

lemma compensate_kept: "keeps R (compensate_created b response ctx)"
  unfolding compensate_created_def
  by (auto split: option.splits json.splits tool_exception.splits
      intro!: idle keeps_lift_bindx on_execute resolved)

lemma add_secret_kept:
  assumes "credential_of_run ts request credential"
  shows "keeps R (add_secret b ts request credential response secret ctx)"
  unfolding add_secret_def
  by (auto intro!: idle keeps_given_bindx on_add [OF assms] compensate_kept)

lemma store_secret_kept:
  assumes "credential_of_run ts request credential"
  shows "keeps R (store_provider_secret b ts request credential response ctx)"
  unfolding store_provider_secret_def
  by (auto split: option.splits tool_exception.splits intro!: idle add_secret_kept [OF assms] compensate_kept)

lemma evidence_kept: "keeps R (write_evidence b request now items)"
  by (induction items) (auto intro!: idle on_evidence)

lemma settle_kept:
  assumes "credential_of_run ts request credential"
  shows "keeps R (settle_response b ts request hash now credential ctx response)"
  unfolding settle_response_def make_result_def
  by (intro idle store_secret_kept [OF assms] evidence_kept on_checkpoint)

lemma finish_kept: "keeps R (finish_tool request hash res now)"
  unfolding finish_tool_def by (intro idle on_finish)

lemma call_kept:
  assumes "connector \<in> snd ` set (brk_registry b)"
    and "credential_of_run ts request credential"
  shows "keeps R (call_and_finish b ts connector request hash now finished audited credential ctx)"
  unfolding call_and_finish_def call_connector_def make_result_def
  by (auto split: tool_exception.splits
      intro!: idle on_execute [OF assms(1)] settle_kept [OF assms(2)] finish_kept on_audit)

lemma prepare_kept:
  assumes "connector \<in> snd ` set (brk_registry b)"
  shows "keeps R (prepare_mutation b ts connector request ctx credential)"
  unfolding prepare_mutation_def
  by (auto split: option.splits intro!: idle keeps_given_bindx on_prepare [OF assms] on_versions)

lemma reconcile_kept:
  assumes "connector \<in> snd ` set (brk_registry b)"
  shows "keeps R (reconcile_mutation b ts connector request ctx credential st)"
  unfolding reconcile_mutation_def reconcile_secret_sink_def
  by (auto split: option.splits recon_value.splits list.splits
      intro!: idle keeps_given_bindx on_reconcile [OF assms] on_versions on_disable)

lemma resume_kept:
  assumes "connector \<in> snd ` set (brk_registry b)"
    and "credential_of_run ts request credential"
  shows "keeps R (resume_attempt b ts connector request hash now finished audited credential ctx previous)"
  unfolding resume_attempt_def
  by (auto split: option.splits
      intro!: idle finish_kept on_reclaim reconcile_kept [OF assms(1)] settle_kept [OF assms(2)] call_kept [OF assms])

lemma execute_kept: "R s (snd (broker_execute b ts now checked finished audited request token s))"
proof -
  let ?hash = "request_digest (brk_sha b) (tr_tool request) (tr_payload request)"
  show ?thesis
  proof (cases "bindr (find_attempt request ?hash (bk_attempts s)) (\<lambda>previous.
           bindr (admit_request b ts now checked request ?hash token) (\<lambda>admitted. Inr (previous, admitted)))")
    case (Inl e)
    then show ?thesis by (simp add: broker_execute_def Let_def kept_refl)
  next
    case (Inr x)
    then obtain previous run c credential where x: "x = (previous, run, c, credential)" by (cases x) auto
    have cred: "credential_of_run ts request credential"
      using Inr x by (auto simp: bindr_eq_Inr admit_request_def credential_of_run_def)
    let ?ctx = "\<lparr>ctx_request_id = tr_id request, ctx_agent_id = tr_agent_id request, ctx_connection = c,
                 ctx_run = run, ctx_now = now, ctx_idempotency_key = tr_id request\<rparr>"
    show ?thesis
    proof (cases previous)
      case None
      have "keeps R (bindx (lift (resolve_connector (brk_registry b) c (tr_tool request))) (\<lambda>connector.
               bindx (prepare_mutation b ts connector request ?ctx credential) (\<lambda>reconciliation.
               bindx (on_attempts (begin_attempt request ?hash reconciliation now (now + brk_attempt_lease b))) (\<lambda>_.
               call_and_finish b ts connector request ?hash now finished audited credential ?ctx))))"
        by (intro keeps_lift_bindx idle prepare_kept resolved on_begin call_kept [OF _ cred]) auto
      then show ?thesis using Inr x None by (simp add: broker_execute_def Let_def keeps_def)
    next
      case (Some attempt)
      have "keeps R (bindx (lift (resolve_connector (brk_registry b) c (tr_tool request))) (\<lambda>connector.
               resume_attempt b ts connector request ?hash now finished audited credential ?ctx attempt))"
        by (intro keeps_lift_bindx idle resume_kept [OF resolved cred]) auto
      then show ?thesis using Inr x Some by (auto simp: broker_execute_def Let_def keeps_def kept_refl split: option.split)
    qed
  qed
qed

end

end
