(* ===== verification/Broker_History.thy ===== *)
theory Broker_History imports Broker_Facts begin

text \<open>
  What happens to the attempts of a tool request: an attempt keeps its identity, a terminal attempt never
  changes, and an execution that returns a result leaves it in a terminal attempt.
\<close>

section \<open>Attempts\<close>

definition attempt_follows :: "tool_attempt \<Rightarrow> tool_attempt \<Rightarrow> bool" where
  "attempt_follows a a' \<longleftrightarrow>
     ta_id a' = ta_id a \<and> ta_organisation_id a' = ta_organisation_id a \<and> ta_run_id a' = ta_run_id a
     \<and> ta_request_digest a' = ta_request_digest a \<and> ta_tool a' = ta_tool a \<and> ta_started_at a' = ta_started_at a
     \<and> ta_reconciliation a' = ta_reconciliation a \<and> (ta_status a \<noteq> Att_Running \<longrightarrow> a' = a)"

lemma attempt_follows_refl: "attempt_follows a a"
  by (simp add: attempt_follows_def)

lemma attempt_follows_trans: "attempt_follows a a' \<Longrightarrow> attempt_follows a' a'' \<Longrightarrow> attempt_follows a a''"
  by (auto simp: attempt_follows_def)

definition attempts_follow :: "attempts \<Rightarrow> attempts \<Rightarrow> bool" where
  "attempts_follow s s' \<longleftrightarrow> (\<forall>k a. s k = Some a \<longrightarrow> (\<exists>a'. s' k = Some a' \<and> attempt_follows a a'))"

lemma attempts_follow_refl: "attempts_follow s s"
  by (auto simp: attempts_follow_def attempt_follows_refl)

lemma attempts_follow_trans: "attempts_follow s s' \<Longrightarrow> attempts_follow s' s'' \<Longrightarrow> attempts_follow s s''"
  unfolding attempts_follow_def using attempt_follows_trans by blast

lemma attempts_follow_put:
  "(\<And>a. s (tr_organisation_id request, tr_id request) = Some a \<Longrightarrow> attempt_follows a a') \<Longrightarrow>
     attempts_follow s (put_attempt request a' s)"
  by (auto simp: attempts_follow_def put_attempt_def attempt_follows_refl)

lemma validate_attempt_eq:
  "validate_attempt a = Inr a' \<longleftrightarrow> a' = a \<and> tool_attempt_fields_ok a \<and> validate_terminal_result a = Inr ()"
  by (auto simp: validate_attempt_def bindr_eq_Inr)

lemma read_attempt_eq:
  "read_attempt request hash m s = Inr a \<Longrightarrow>
     s (tr_organisation_id request, tr_id request) = Some a \<and> validate_attempt a = Inr a \<and> same_attempt a request hash = Inr ()
       \<and> identifier_ok (tr_organisation_id request) \<and> identifier_ok (tr_id request)"
  by (auto simp: read_attempt_def bindr_eq_Inr validate_attempt_eq segments_ok split: option.splits)

lemma begin_follows: "begin_attempt request hash recon now expiry s = Inr s' \<Longrightarrow> attempts_follow s s'"
  by (auto simp: begin_attempt_def bindr_eq_Inr intro!: attempts_follow_put split: option.splits)

lemma reclaim_follows: "reclaim_attempt request hash expected now expiry s = Inr s' \<Longrightarrow> attempts_follow s s'"
  by (auto simp: reclaim_attempt_def bindr_eq_Inr require_eq_Inr attempt_follows_def
      intro!: attempts_follow_put dest!: read_attempt_eq)

lemma checkpoint_follows: "checkpoint_attempt request hash res s = Inr s' \<Longrightarrow> attempts_follow s s'"
  by (auto simp: checkpoint_attempt_def bindr_eq_Inr require_eq_Inr attempt_follows_def attempts_follow_refl
      intro!: attempts_follow_put dest!: read_attempt_eq split: if_splits)

lemma finish_follows: "finish_attempt request hash res now s = Inr s' \<Longrightarrow> attempts_follow s s'"
  by (auto simp: finish_attempt_def bindr_eq_Inr attempt_follows_def attempts_follow_refl finished_attempt_def
      intro!: attempts_follow_put dest!: read_attempt_eq split: if_splits)

lemmas transactions_follow = begin_follows reclaim_follows checkpoint_follows finish_follows

abbreviation followed :: "'w broker_state \<Rightarrow> 'w broker_state \<Rightarrow> bool" where
  "followed s s' \<equiv> attempts_follow (bk_attempts s) (bk_attempts s')"

lemma outside_follows: "keeps followed (outside f)"
  by (simp add: keeps_def outside_def attempts_follow_refl split: prod.split)

lemma on_attempts_follows: "(\<And>a a'. f a = Inr a' \<Longrightarrow> attempts_follow a a') \<Longrightarrow> keeps followed (on_attempts f)"
  by (auto simp: keeps_def on_attempts_def attempts_follow_refl split: sum.split)

lemma audit_tool_attempts: "audit_tool b request hash audited res s = (r, s') \<Longrightarrow> bk_attempts s' = bk_attempts s \<and> bk_world s' = bk_world s"
  by (auto simp: audit_tool_def split: sum.splits)

interpretation lifecycle: broker_kept followed b ts request for b :: "'w broker" and ts request
proof
  show "keeps followed (audit_tool b request hash audited res)" for hash audited res
    unfolding keeps_def using audit_tool_attempts [of b request hash audited res]
    by (metis attempts_follow_refl prod.collapse)
qed (auto intro: attempts_follow_refl attempts_follow_trans outside_follows on_attempts_follows transactions_follow)

section \<open>Histories\<close>

text \<open>
  Executions of any requests by brokers of any configuration, what concurrent executors do to the
  attempts in between, and what happens in the outside world and in the audit log.
\<close>

inductive broker_step :: "'w broker_state \<Rightarrow> 'w broker_state \<Rightarrow> bool" where
  executed: "broker_step s (snd (broker_execute b ts now checked finished audited request token s))"
| begun: "broker_step s (snd (on_attempts (begin_attempt request hash recon now expiry) s))"
| reclaimed: "broker_step s (snd (on_attempts (reclaim_attempt request hash expected now expiry) s))"
| checkpointed: "broker_step s (snd (on_attempts (checkpoint_attempt request hash res) s))"
| finished: "broker_step s (snd (on_attempts (finish_attempt request hash res now) s))"
| elsewhere: "broker_step s (s\<lparr>bk_world := w, bk_audit := a\<rparr>)"

lemma broker_step_follows: "broker_step s s' \<Longrightarrow> followed s s'"
  by (induction rule: broker_step.induct)
    (auto simp: lifecycle.execute_kept attempts_follow_refl
      intro!: on_attempts_follows [unfolded keeps_def, rule_format] intro: transactions_follow)

lemma broker_steps_follow: "broker_step\<^sup>*\<^sup>* s s' \<Longrightarrow> followed s s'"
  by (induction rule: rtranclp_induct) (auto intro: attempts_follow_refl attempts_follow_trans broker_step_follows)

section \<open>The recorded result\<close>

definition recorded :: "tool_request \<Rightarrow> string \<Rightarrow> tool_result \<Rightarrow> attempts \<Rightarrow> bool" where
  "recorded request hash res s \<longleftrightarrow>
     (\<exists>a. s (tr_organisation_id request, tr_id request) = Some a \<and> ta_status a \<noteq> Att_Running \<and> ta_result a = Some res
        \<and> validate_attempt a = Inr a \<and> same_attempt a request hash = Inr ())"

lemma recorded_follows: "recorded request hash res s \<Longrightarrow> attempts_follow s s' \<Longrightarrow> recorded request hash res s'"
  unfolding recorded_def attempts_follow_def attempt_follows_def by fast

lemma finish_records:
  assumes "finish_attempt request hash res now s = Inr s'" "tool_result_fields_ok res"
  shows "recorded request hash res s'"
proof -
  obtain a where a: "read_attempt request hash '' was not started'' s = Inr a"
      "ta_status a \<noteq> Att_Running \<and> ta_result a = Some res \<and> s' = s
        \<or> ta_status a = Att_Running \<and> s' = put_attempt request (finished_attempt a res now) s"
    using assms(1) by (auto simp: finish_attempt_def bindr_eq_Inr split: if_splits)
  note doc = read_attempt_eq [OF a(1)]
  have "validate_attempt (finished_attempt a res now) = Inr (finished_attempt a res now)"
    using doc assms(2) by (simp add: validate_attempt_eq finished_attempt_def tool_attempt_fields_ok_def
        validate_terminal_result_def)
  then show ?thesis
    using a(2) doc by (auto simp: recorded_def put_attempt_def same_attempt_def finished_attempt_def)
qed

lemma finish_tool_records:
  "finish_tool request hash res now s = (Inr q, s') \<Longrightarrow> tool_result_fields_ok res \<Longrightarrow>
     q = res \<and> recorded request hash res (bk_attempts s')"
  by (auto simp: finish_tool_def bindx_eq on_attempts_def yields_def finish_records split: sum.splits)

lemma make_result_ok: "make_result r s = (Inr q, s') \<Longrightarrow> q = r \<and> tool_result_fields_ok r \<and> s' = s"
  by (auto simp: make_result_def lift_def split: if_splits)

lemma settle_ok:
  "settle_response b ts request hash now credential ctx response s = (Inr res, s') \<Longrightarrow> tool_result_fields_ok res"
  by (auto simp: settle_response_def bindx_eq yields_def dest!: make_result_ok)

lemma call_ok:
  "call_connector b ts connector request hash now finished credential ctx s = (Inr res, s') \<Longrightarrow> tool_result_fields_ok res"
  unfolding call_connector_def catches_def
  by (auto simp: bindx_eq raises_def split: prod.splits sum.splits tool_exception.splits dest!: make_result_ok dest: settle_ok)

lemma call_and_finish_records:
  assumes "call_and_finish b ts connector request hash now finished audited credential ctx s = (Inr res, s')"
  shows "recorded request hash res (bk_attempts s')"
proof -
  obtain q s1 s2 where q: "call_connector b ts connector request hash now finished credential ctx s = (Inr q, s1)"
      "finish_tool request hash q finished s1 = (Inr q, s2)" "audit_tool b request hash audited q s2 = (Inr res, s')"
    using assms by (auto simp: call_and_finish_def bindx_eq finish_tool_def yields_def)
  have "res = q" using q(3) by (auto simp: audit_tool_def split: sum.splits)
  then show ?thesis
    using finish_tool_records [OF q(2) call_ok [OF q(1)]] audit_tool_attempts [OF q(3)] by simp
qed

lemma resume_records:
  assumes "resume_attempt b ts connector request hash now finished audited credential ctx a s = (Inr res, s')"
    and "validate_attempt a = Inr a"
  shows "recorded request hash res (bk_attempts s')"
proof (cases "ta_checkpoint a")
  case (Some q)
  then have "tool_result_fields_ok q" using assms(2) by (auto simp: validate_attempt_eq tool_attempt_fields_ok_def)
  then show ?thesis using finish_tool_records [of request hash q finished s res s'] assms(1) Some
    by (simp add: resume_attempt_def)
next
  case None
  from assms(1) None obtain found s1 where f: "(case found of
            Some response \<Rightarrow>
              bindx (settle_response b ts request hash now credential ctx response) (\<lambda>res.
              finish_tool request hash res finished)
          | None \<Rightarrow> call_and_finish b ts connector request hash now finished audited credential ctx) s1 = (Inr res, s')"
    by (auto simp: resume_attempt_def bindx_eq)
  show ?thesis
  proof (cases found)
    case None
    then show ?thesis using f call_and_finish_records by fastforce
  next
    case (Some response)
    then obtain q s2 where "settle_response b ts request hash now credential ctx response s1 = (Inr q, s2)"
        "finish_tool request hash q finished s2 = (Inr res, s')"
      using f by (auto simp: bindx_eq)
    then show ?thesis using finish_tool_records settle_ok by blast
  qed
qed

lemma find_attempt_eq:
  "find_attempt request hash s = Inr (Some a) \<Longrightarrow>
     s (tr_organisation_id request, tr_id request) = Some a \<and> validate_attempt a = Inr a \<and> same_attempt a request hash = Inr ()"
  by (auto simp: find_attempt_def bindr_eq_Inr validate_attempt_eq split: option.splits)

lemma execute_records:
  assumes "broker_execute b ts now checked finished audited request token s = (Inr res, s')"
  shows "recorded request (request_digest (brk_sha b) (tr_tool request) (tr_payload request)) res (bk_attempts s')"
proof -
  let ?hash = "request_digest (brk_sha b) (tr_tool request) (tr_payload request)"
  obtain previous run c credential where x: "find_attempt request ?hash (bk_attempts s) = Inr previous"
      "admit_request b ts now checked request ?hash token = Inr (run, c, credential)"
    using assms by (auto simp: broker_execute_def Let_def bindr_def split: sum.splits)
  show ?thesis
  proof (cases previous)
    case None
    then show ?thesis
      using assms x by (auto simp: broker_execute_def Let_def bindx_eq dest: call_and_finish_records)
  next
    case (Some a)
    note doc = find_attempt_eq [OF x(1) [unfolded Some]]
    show ?thesis
    proof (cases "ta_status a = Att_Running")
      case True
      then show ?thesis
        using assms x Some doc by (auto simp: broker_execute_def Let_def bindx_eq dest: resume_records)
    next
      case False
      then show ?thesis
        using assms x Some doc by (auto simp: broker_execute_def Let_def recorded_def split: option.splits)
    qed
  qed
qed

lemma execute_recorded:
  assumes "recorded request (request_digest (brk_sha b) (tr_tool request) (tr_payload request)) res (bk_attempts s)"
    and "identifier_ok (tr_organisation_id request)" "identifier_ok (tr_id request)"
  shows "broker_execute b ts now checked finished audited request token s =
    (case admit_request b ts now checked request (request_digest (brk_sha b) (tr_tool request) (tr_payload request)) token of
       Inl e \<Rightarrow> Inl (Raised e) | Inr _ \<Rightarrow> Inr res, s)"
proof -
  let ?hash = "request_digest (brk_sha b) (tr_tool request) (tr_payload request)"
  obtain a where a: "bk_attempts s (tr_organisation_id request, tr_id request) = Some a" "ta_status a \<noteq> Att_Running"
      "ta_result a = Some res" "validate_attempt a = Inr a" "same_attempt a request ?hash = Inr ()"
    using assms(1) by (auto simp: recorded_def)
  have "segments [tr_organisation_id request, tr_id request] = Inr ()" using assms(2,3) by (simp add: segments_ok)
  then have "find_attempt request ?hash (bk_attempts s) = Inr (Some a)" using a by (simp add: find_attempt_def)
  then show ?thesis using a by (auto simp: broker_execute_def Let_def split: sum.split)
qed

text \<open>A first execution begins an attempt before it calls the connector.\<close>

lemma execute_begins:
  assumes "find_attempt request (request_digest (brk_sha b) (tr_tool request) (tr_payload request)) (bk_attempts s) = Inr None"
    and "admit_request b ts now checked request (request_digest (brk_sha b) (tr_tool request) (tr_payload request)) token
      = Inr (run, c, credential)"
    and "resolve_connector (brk_registry b) c (tr_tool request) = Inr connector" "cn_reconciler connector = None"
    and "begin_attempt request (request_digest (brk_sha b) (tr_tool request) (tr_payload request)) [] now
      (now + brk_attempt_lease b) (bk_attempts s) = Inr a"
  shows "attempts_follow a (bk_attempts (snd (broker_execute b ts now checked finished audited request token s)))"
proof -
  let ?hash = "request_digest (brk_sha b) (tr_tool request) (tr_payload request)"
  let ?ctx = "\<lparr>ctx_request_id = tr_id request, ctx_agent_id = tr_agent_id request, ctx_connection = c,
                 ctx_run = run, ctx_now = now, ctx_idempotency_key = tr_id request\<rparr>"
  have "credential_of_run ts request credential"
    using assms(2) by (auto simp: admit_request_def bindr_eq_Inr credential_of_run_def)
  from lifecycle.call_kept [OF resolve_in_registry [OF assms(3)] this, unfolded keeps_def, rule_format,
      of "s\<lparr>bk_attempts := a\<rparr>" ?hash now finished audited ?ctx]
  show ?thesis
    using assms by (simp add: broker_execute_def Let_def bindx_def lift_def prepare_mutation_def yields_def on_attempts_def)
qed

end
