(* ===== verification/Broker_Examples.thy ===== *)
theory Broker_Examples imports Broker_History Examples begin

text \<open>
  A broker with one provider, reached through a browser, and one secret store, whose outside world is the list
  of the secrets written; a run in its create stage and a request for a new credential.
\<close>

definition ex_tool_run :: rotation_run where
  "ex_tool_run = ex_run\<lparr>run_stage := CREATE, run_status := RUNNING, run_fencing_token := 1,
     run_lease := Some \<lparr>lease_owner_id = ''worker'', lease_fencing_token = 1, lease_expires_at = 100\<rparr>\<rparr>"

definition ex_tool_version :: control_version where
  "ex_tool_version = ex_version\<lparr>cv_definition := ex_definition\<lparr>cd_allowed_tools := [''provider.createCredential'', ''verification.run'']\<rparr>\<rparr>"

definition ex_provider :: connection where
  "ex_provider =
     \<lparr>con_id = ''con'', con_organisation_id = ''org'', con_platform = ''github'', con_display_name = ''Provider'',
      con_roles = [Role_Provider], con_interface = If_Browser, con_authorization = Auth_Browser_Session,
      con_authorization_reference = None, con_capabilities = [''provider.createCredential''],
      con_allowed_resources = [''github:credentials''], con_http = None, con_playbook_id = None,
      con_playbook_version_id = None, con_status = Con_Setup, con_authenticated_at = None,
      con_authorization_expires_at = None, con_last_validated_at = None, con_region = ''europe'', con_created_at = 0,
      con_updated_at = 0, con_archived_at = None, con_revision = 0\<rparr>"

definition ex_vault :: connection where
  "ex_vault = ex_provider\<lparr>con_id := ''vault'', con_roles := [Role_Secret_Store], con_interface := If_Api,
     con_authorization := Auth_Workload, con_capabilities := [''secretStore.getVersion''],
     con_allowed_resources := [''secrets'']\<rparr>"

definition ex_tool_credential :: managed_credential where
  "ex_tool_credential =
     \<lparr>mc_id = ''key'', mc_organisation_id = ''org'', mc_connection_id = ''con'', mc_secret_store_connection_id = ''vault'',
      mc_secret_resource = ''secrets/key'', mc_secret_reference = ''secrets/key/versions/1'', mc_provider = ''github'',
      mc_kind = ''token'', mc_display_name = ''Key'', mc_provider_id = None, mc_provider_display_name = None,
      mc_scopes = {}, mc_consumer_ids = [], mc_active_generation_id = None, mc_control_version = ''ctl'',
      mc_expires_at = None, mc_rotation_due_at = None, mc_last_observed_at = None, mc_metadata_digest = None,
      mc_created_at = 0, mc_updated_at = 0, mc_archived_at = None, mc_revision = 0\<rparr>"

definition ex_sources :: tool_sources where
  "ex_sources =
     \<lparr>ts_runs = Map.empty((''org'', ''run'') \<mapsto> ex_tool_run),
      ts_connections = Map.empty((''org'', ''con'') \<mapsto> ex_provider, (''org'', ''vault'') \<mapsto> ex_vault),
      ts_credentials = Map.empty((''org'', ''key'') \<mapsto> ex_tool_credential), ts_bindings = (\<lambda>_. []),
      ts_controls = Map.empty((''org'', ''key'', ''ctl'') \<mapsto> ex_tool_version), ts_approvals = empty_approvals\<rparr>"

definition ex_request :: tool_request where
  "ex_request =
     \<lparr>tr_id = ''request'', tr_organisation_id = ''org'', tr_run_id = ''run'', tr_agent_id = ''agent'',
      tr_tool = ''provider.createCredential'', tr_connection_id = ''con'',
      tr_payload = [(''sink_connection_id'', JStr ''vault''), (''secret_resource'', JStr ''secrets/key'')],
      tr_fencing_token = 1\<rparr>"

definition ex_claims :: capability_claims where
  "ex_claims =
     \<lparr>cl_organisation_id = ''org'', cl_run_id = ''run'', cl_agent_id = ''agent'', cl_tool = ''provider.createCredential'',
      cl_connection_id = ''con'', cl_stage = CREATE, cl_fencing_token = 1, cl_request_digest = ex_hash,
      cl_action_digest = ex_hash, cl_expires_at = 50, cl_nonce = ''request'', cl_approval_id = None\<rparr>"

type_synonym ex_world = "(string \<times> string) list"

definition ex_secrets :: "ex_world secret_manager" where
  "ex_secrets =
     \<lparr>sm_versions_for = (\<lambda>sink name w. (Inr [], w)),
      sm_add_version_for = (\<lambda>sink name secret w. (Inr [(''version'', JStr ''2'')], w @ [(con_id sink, name)])),
      sm_disable_for = (\<lambda>sink version w. (Inr (), w))\<rparr>"

definition ex_creator :: "ex_world connector" where
  "ex_creator =
     \<lparr>cn_tools = [''provider.createCredential''],
      cn_execute = (\<lambda>tool payload ctx w.
        (Inr \<lparr>cr_result = [(''provider_id'', JStr ''p2'')], cr_evidence = [], cr_secret = Some ''s3cret''\<rparr>, w)),
      cn_reconciler = None, cn_secrets = None\<rparr>"

definition ex_store_connector :: "ex_world connector" where
  "ex_store_connector =
     \<lparr>cn_tools = [''secretStore.getVersion''],
      cn_execute = (\<lambda>tool payload ctx w. (Inr \<lparr>cr_result = [], cr_evidence = [], cr_secret = None\<rparr>, w)),
      cn_reconciler = None, cn_secrets = Some ex_secrets\<rparr>"

definition ex_broker :: "ex_world broker" where
  "ex_broker =
     \<lparr>brk_sha = ex_sha, brk_time = ex_fmt, brk_fmt = ex_fmt, brk_ip = (\<lambda>_. True),
      brk_registry = [((Role_Provider, If_Browser, ''github''), ex_creator),
                      ((Role_Secret_Store, If_Api, ''github''), ex_store_connector)],
      brk_verify = (\<lambda>t now. Inr ex_claims),
      brk_evidence = (\<lambda>org rid kind content ctype now w. (Inr ''evidence'', w)), brk_region = ''europe'',
      brk_attempt_lease = 120\<rparr>"

definition ex_tool_state :: "ex_world broker_state" where
  "ex_tool_state = \<lparr>bk_world = [], bk_attempts = Map.empty, bk_audit = empty_audit\<rparr>"

lemma ex_admitted: "is_ok (admit_request ex_broker ex_sources 3 3 ex_request ex_hash (Some ''token''))"
  by code_simp

lemma ex_request_hash: "request_digest (brk_sha ex_broker) (tr_tool ex_request) (tr_payload ex_request) = ex_hash"
  by (simp add: request_digest_def ex_broker_def ex_sha_def)

text \<open>A first execution changes the attempts, whatever verifier admitted it.\<close>

lemma ex_executed_by:
  assumes "is_ok (admit_request (ex_broker\<lparr>brk_verify := v\<rparr>) ex_sources 3 3 ex_request ex_hash (Some token))"
  shows "snd (broker_execute (ex_broker\<lparr>brk_verify := v\<rparr>) ex_sources 3 3 4 5 ex_request (Some token) ex_tool_state) \<noteq> ex_tool_state"
proof -
  let ?b = "ex_broker\<lparr>brk_verify := v\<rparr>"
  obtain run c credential where a: "admit_request ?b ex_sources 3 3 ex_request ex_hash (Some token) = Inr (run, c, credential)"
    using assms by (auto simp: is_ok_iff)
  then have "source_connection (brk_ip ?b) ex_sources ''org'' ''con'' = Inr c"
    by (auto simp: admit_request_def bindr_eq_Inr) (simp add: ex_request_def)
  then have c: "c = ex_provider"
    by (auto simp: source_connection_def catalog_get_def bindr_eq_Inr validate_connection_def ex_sources_def)
  have r: "resolve_connector (brk_registry ?b) c (tr_tool ex_request) = Inr ex_creator"
  proof -
    have "tool_role ''provider.createCredential'' = Inr Role_Provider" by code_simp
    then show ?thesis
      by (simp add: c resolve_connector_def ex_broker_def ex_request_def ex_provider_def ex_creator_def require_def)
  qed
  have "is_ok (begin_attempt ex_request ex_hash [] 3 123 Map.empty)" by code_simp
  then obtain s where s: "begin_attempt ex_request ex_hash [] 3 123 Map.empty = Inr s" by (auto simp: is_ok_iff)
  then have put: "s (''org'', ''request'') \<noteq> None"
    by (auto simp: begin_attempt_def bindr_eq_Inr put_attempt_def ex_request_def)
  have "segments [''org'', ''request''] = Inr ()" by code_simp
  then have f: "find_attempt ex_request ex_hash (bk_attempts ex_tool_state) = Inr None"
    by (simp add: find_attempt_def ex_tool_state_def ex_request_def)
  have h: "request_digest (brk_sha ?b) (tr_tool ex_request) (tr_payload ex_request) = ex_hash"
    using ex_request_hash by simp
  have "attempts_follow s (bk_attempts (snd (broker_execute ?b ex_sources 3 3 4 5 ex_request (Some token) ex_tool_state)))"
    by (rule execute_begins [of ex_request ?b ex_tool_state ex_sources 3 3 "Some token" run c credential ex_creator,
          unfolded h, OF f a r])
      (simp_all add: ex_creator_def ex_broker_def ex_tool_state_def s)
  then have "bk_attempts (snd (broker_execute ?b ex_sources 3 3 4 5 ex_request (Some token) ex_tool_state)) (''org'', ''request'')
      \<noteq> None"
    using put unfolding attempts_follow_def by blast
  then show ?thesis by (auto simp: ex_tool_state_def)
qed

lemma ex_executed:
  "snd (broker_execute ex_broker ex_sources 3 3 4 5 ex_request (Some ''token'') ex_tool_state) \<noteq> ex_tool_state"
  using ex_executed_by [of "brk_verify ex_broker" "''token''"] ex_admitted by simp

text \<open>The state after a crash between the checkpoint and the end of an execution.\<close>

definition ex_checkpoint :: tool_result where
  "ex_checkpoint =
     \<lparr>tres_request_id = ''request'', tres_succeeded = True, tres_result = [], tres_error_code = None, tres_evidence_ids = []\<rparr>"

definition ex_crashed :: "ex_world broker_state" where
  "ex_crashed = ex_tool_state\<lparr>bk_attempts := Map.empty((''org'', ''request'') \<mapsto>
     (new_attempt ex_request ex_hash [] 3 123)\<lparr>ta_checkpoint := Some ex_checkpoint\<rparr>)\<rparr>"

lemma ex_crash_finished:
  "fst (broker_execute ex_broker ex_sources 3 3 4 5 ex_request (Some ''token'') ex_crashed) = Inr ex_checkpoint"
  by code_simp

text \<open>A request that reads, and the result of a slow execution of it.\<close>

definition ex_read :: tool_request where
  "ex_read = ex_request\<lparr>tr_tool := ''secretStore.getVersion''\<rparr>"

definition ex_slow :: tool_result where
  "ex_slow = ex_checkpoint\<lparr>tres_result := [(''version'', JStr ''2'')]\<rparr>"

end
