(* ===== verification/Broker_Theorems.thy ===== *)
theory Broker_Theorems imports Broker_Examples begin

text \<open>
  The properties of the broker: nothing happens without authority, a request is executed once, a created
  secret is written to the assigned store only, and two defects: a tool that is listed for a stage but
  never admitted, and a late executor that replaces a checkpointed success by a failure.
\<close>

section \<open>Authority\<close>

lemma all_allowed_eq:
  "all_allowed ip rs patterns = Inr True \<longleftrightarrow> (\<forall>r\<in>set rs. resource_allowed ip r patterns = Inr True)"
  by (induction rs) (auto simp: bindr_eq_Inr)

lemma validate_request_ok:
  assumes "validate_request ip request run c credential bindings controls now = Inr ()"
  shows "tr_organisation_id request = run_organisation_id run \<and> tr_run_id request = run_id run
    \<and> cv_id controls = run_control_version run \<and> holds_run_fence request run now
    \<and> tr_tool request \<in> set (cd_allowed_tools (cv_definition controls))
    \<and> tr_tool request \<in> set (con_capabilities c) \<and> tr_tool request \<in> set (STAGE_TOOLS (run_stage run))
    \<and> (\<forall>resource\<in>set (tool_resources (tr_tool request) (tr_payload request) c).
         resource_allowed ip resource (con_allowed_resources c) = Inr True)
    \<and> (\<exists>role. tool_role (tr_tool request) = Inr role \<and> check_role role c credential bindings = Inr ())"
  using assms
  by (auto simp: validate_request_def Let_def bindr_eq_Inr require_eq_Inr all_allowed_eq [symmetric])

text \<open>What makes a mutation authorised: claims bound to the request, and to the digest of it or of a consumed approval.\<close>

definition mutation_authorised ::
  "'w broker \<Rightarrow> tool_sources \<Rightarrow> int \<Rightarrow> tool_request \<Rightarrow> rotation_run \<Rightarrow> string option \<Rightarrow> bool" where
  "mutation_authorised b ts checked request run token \<longleftrightarrow>
     (\<exists>t claims. token = Some t \<and> brk_verify b t checked = Inr claims
        \<and> cl_run_id claims = tr_run_id request \<and> cl_agent_id claims = tr_agent_id request \<and> cl_tool claims = tr_tool request
        \<and> cl_connection_id claims = tr_connection_id request \<and> cl_stage claims = run_stage run
        \<and> cl_fencing_token claims = run_fencing_token run
        \<and> cl_request_digest claims = request_digest (brk_sha b) (tr_tool request) (tr_payload request)
        \<and> (case cl_approval_id claims of
             None \<Rightarrow> cl_action_digest claims = request_digest (brk_sha b) (tr_tool request) (tr_payload request)
           | Some i \<Rightarrow>
               (\<exists>approval action. source_approval ts (tr_organisation_id request) i = Inr approval
                  \<and> source_action ts (tr_organisation_id request) (appr_action_id approval) = Inr action
                  \<and> appr_decision approval = AP_APPROVED \<and> appr_consumed_at approval \<noteq> None
                  \<and> appr_run_id approval = tr_run_id request \<and> pa_kind action = tr_tool request
                  \<and> digest (brk_sha b) (brk_time b) (dump_action action) = Inr (appr_action_digest approval)
                  \<and> cl_action_digest claims = appr_action_digest approval)))"

lemma authorize_ok:
  assumes "authorize_mutation b ts checked request run (request_digest (brk_sha b) (tr_tool request) (tr_payload request)) token
      = Inr ()" "tr_fencing_token request = run_fencing_token run"
  shows "mutation_authorised b ts checked request run token"
proof -
  obtain t claims where c: "token = Some t" "brk_verify b t checked = Inr claims"
      "validate_capability (brk_sha b) request run claims = Inr ()"
      "(case cl_approval_id claims of
          None \<Rightarrow> require (cl_action_digest claims = request_digest (brk_sha b) (tr_tool request) (tr_payload request))
                    (CapabilityError ''automatic capability action digest changed'')
        | Some approval_id \<Rightarrow> validate_tool_approval b ts request claims approval_id) = Inr ()"
    using assms(1) by (auto simp: authorize_mutation_def bindr_eq_Inr split: option.splits)
  then show ?thesis
    using assms(2)
    by (auto simp: mutation_authorised_def validate_capability_def validate_tool_approval_def require_eq_Inr bindr_eq_Inr
        split: option.splits)
qed

text \<open>Nothing changes before a request was admitted.\<close>

lemma effects_admitted:
  assumes "broker_execute b ts now checked finished audited request token s = (r, s')" "s' \<noteq> s"
  shows "\<exists>run c credential bindings controls. source_run ts (tr_organisation_id request) (tr_run_id request) = Inr run
    \<and> source_connection (brk_ip b) ts (tr_organisation_id request) (tr_connection_id request) = Inr c
    \<and> source_credential ts (tr_organisation_id request) (run_credential_id run) = Inr credential
    \<and> source_bindings ts (tr_organisation_id request) (run_credential_id run) = Inr bindings
    \<and> source_controls ts (tr_organisation_id request) (run_credential_id run) (run_control_version run) = Inr controls
    \<and> validate_request (brk_ip b) request run c credential bindings controls now = Inr ()
    \<and> (tr_tool request \<in> set READ_TOOLS \<or> mutation_authorised b ts checked request run token)"
proof -
  let ?hash = "request_digest (brk_sha b) (tr_tool request) (tr_payload request)"
  obtain run c credential where "admit_request b ts now checked request ?hash token = Inr (run, c, credential)"
    using assms by (auto simp: broker_execute_def Let_def bindr_def split: sum.splits)
  then obtain bindings controls where a: "source_run ts (tr_organisation_id request) (tr_run_id request) = Inr run"
      "source_connection (brk_ip b) ts (tr_organisation_id request) (tr_connection_id request) = Inr c"
      "source_credential ts (tr_organisation_id request) (run_credential_id run) = Inr credential"
      "source_bindings ts (tr_organisation_id request) (run_credential_id run) = Inr bindings"
      "source_controls ts (tr_organisation_id request) (run_credential_id run) (run_control_version run) = Inr controls"
      "validate_request (brk_ip b) request run c credential bindings controls now = Inr ()"
      "tr_tool request \<notin> set READ_TOOLS \<Longrightarrow> authorize_mutation b ts checked request run ?hash token = Inr ()"
    by (auto simp: admit_request_def bindr_eq_Inr split: if_splits)
  have "tr_fencing_token request = run_fencing_token run"
    using validate_request_ok [OF a(6)] by (auto simp: holds_run_fence_def)
  then show ?thesis using a authorize_ok by blast
qed

text \<open>
  C17: Whatever an execution of a tool changes, in the outside world, in the attempts or in the audit log, it was
  authorised: the run was running and the request held its unexpired fence, the tool was allowed by the pinned
  controls, in the stage of the run and by the connection, whose role fits the credential, all named
  resources lie in the boundary of the connection, and a mutation came with claims bound to exactly this
  request, for an action that was approved and consumed where the claims name an approval.
\<close>
theorem tool_effects_authorised:
  assumes "broker_execute b ts now checked finished audited request token s = (r, s')" "s' \<noteq> s"
  shows "\<exists>run c credential controls bindings role.
      source_run ts (tr_organisation_id request) (tr_run_id request) = Inr run
    \<and> source_connection (brk_ip b) ts (tr_organisation_id request) (tr_connection_id request) = Inr c
    \<and> source_credential ts (tr_organisation_id request) (run_credential_id run) = Inr credential
    \<and> source_bindings ts (tr_organisation_id request) (run_credential_id run) = Inr bindings
    \<and> source_controls ts (tr_organisation_id request) (run_credential_id run) (run_control_version run) = Inr controls
    \<and> holds_run_fence request run now
    \<and> tr_tool request \<in> set (cd_allowed_tools (cv_definition controls)) \<inter> set (STAGE_TOOLS (run_stage run)) \<inter> set (con_capabilities c)
    \<and> tool_role (tr_tool request) = Inr role \<and> check_role role c credential bindings = Inr ()
    \<and> (\<forall>resource\<in>set (tool_resources (tr_tool request) (tr_payload request) c).
         resource_allowed (brk_ip b) resource (con_allowed_resources c) = Inr True)
    \<and> (tr_tool request \<in> set READ_TOOLS \<or> mutation_authorised b ts checked request run token)"
proof -
  obtain run c credential bindings controls where a: "source_run ts (tr_organisation_id request) (tr_run_id request) = Inr run"
      "source_connection (brk_ip b) ts (tr_organisation_id request) (tr_connection_id request) = Inr c"
      "source_credential ts (tr_organisation_id request) (run_credential_id run) = Inr credential"
      "source_bindings ts (tr_organisation_id request) (run_credential_id run) = Inr bindings"
      "source_controls ts (tr_organisation_id request) (run_credential_id run) (run_control_version run) = Inr controls"
      "validate_request (brk_ip b) request run c credential bindings controls now = Inr ()"
      "tr_tool request \<in> set READ_TOOLS \<or> mutation_authorised b ts checked request run token"
    using effects_admitted [OF assms] by blast
  then show ?thesis using validate_request_ok [OF a(6)] by blast
qed

theorem tool_effects_authorised_witness:
  "\<exists>run. source_run ex_sources ''org'' ''run'' = Inr run \<and> holds_run_fence ex_request run 3
    \<and> mutation_authorised ex_broker ex_sources 3 ex_request run (Some ''token'')"
proof -
  have "tr_tool ex_request \<notin> set READ_TOOLS" "tr_organisation_id ex_request = ''org''" "tr_run_id ex_request = ''run''"
    by (simp_all add: ex_request_def READ_TOOLS_def)
  then show ?thesis
    using tool_effects_authorised [OF surjective_pairing ex_executed] by auto
qed

section \<open>Once\<close>

text \<open>
  C18: A request that was executed is never executed again. Once an execution returned a result, any later
  execution of the same request, by any broker, after whatever other executions, concurrent transactions on
  the attempts and events outside, changes nothing and returns that result if it is still admitted.
\<close>
theorem tools_executed_once:
  assumes "broker_execute b ts now checked finished audited request token s = (Inr res, s1)"
    and "broker_step\<^sup>*\<^sup>* s1 s2" "brk_sha b' = brk_sha b"
    and "identifier_ok (tr_organisation_id request)" "identifier_ok (tr_id request)"
  shows "broker_execute b' ts' now' checked' finished' audited' request token' s2 =
    (case admit_request b' ts' now' checked' request
            (request_digest (brk_sha b') (tr_tool request) (tr_payload request)) token' of
       Inl e \<Rightarrow> Inl (Raised e) | Inr _ \<Rightarrow> Inr res, s2)"
  using recorded_follows [OF execute_records [OF assms(1)] broker_steps_follow [OF assms(2)]] assms(3-5)
  by (intro execute_recorded) simp_all

theorem tools_executed_once_witness:
  "\<exists>s. fst (broker_execute ex_broker ex_sources 3 3 4 5 ex_request (Some ''token'') ex_crashed) = Inr ex_checkpoint
    \<and> broker_execute ex_broker ex_sources 6 6 7 8 ex_request (Some ''token'') s = (Inr ex_checkpoint, s)"
proof -
  let ?x = "broker_execute ex_broker ex_sources 3 3 4 5 ex_request (Some ''token'') ex_crashed"
  have x: "?x = (Inr ex_checkpoint, snd ?x)" using ex_crash_finished by (metis prod.collapse)
  have "identifier_ok ''org''" "identifier_ok ''request''" by code_simp+
  then have "identifier_ok (tr_organisation_id ex_request)" "identifier_ok (tr_id ex_request)"
    by (simp_all add: ex_request_def)
  from tools_executed_once [OF x rtranclp.rtrancl_refl refl this, of ex_sources 6 6 7 8 "Some ''token''"]
  have "broker_execute ex_broker ex_sources 6 6 7 8 ex_request (Some ''token'') (snd ?x) =
      (case admit_request ex_broker ex_sources 6 6 ex_request ex_hash (Some ''token'') of
         Inl e \<Rightarrow> Inl (Raised e) | Inr _ \<Rightarrow> Inr ex_checkpoint, snd ?x)"
    by (simp add: ex_request_hash)
  moreover have "is_ok (admit_request ex_broker ex_sources 6 6 ex_request ex_hash (Some ''token''))" by code_simp
  ultimately show ?thesis using ex_crash_finished by (auto simp: is_ok_iff)
qed

section \<open>Secrets\<close>

definition assigned_sink :: "tool_sources \<Rightarrow> tool_request \<Rightarrow> connection \<Rightarrow> string \<Rightarrow> bool" where
  "assigned_sink ts request sink name \<longleftrightarrow>
     (\<exists>credential. credential_of_run ts request credential \<and> con_id sink = mc_secret_store_connection_id credential
        \<and> Role_Secret_Store \<in> set (con_roles sink) \<and> con_interface sink = If_Api \<and> name = mc_secret_resource credential
        \<and> (\<exists>boundary\<in>set (con_allowed_resources sink).
             name = boundary \<or> starts_with (rstrip_char (CHR ''/'') boundary @ ''/'') name))"

lemma secret_sink_ok:
  assumes "secret_sink b ts request credential = Inr (sink, secrets, name)" "credential_of_run ts request credential"
  shows "assigned_sink ts request sink name"
  using assms
  by (auto simp: secret_sink_def assigned_sink_def validate_secret_sink_def list_ex_iff split: sum.splits option.splits if_splits)

lemma secret_sink_registry:
  assumes "secret_sink b ts request credential = Inr (sink, secrets, name)"
  shows "\<exists>connector\<in>snd ` set (brk_registry b). cn_secrets connector = Some secrets"
  using assms resolve_in_registry
  by (auto simp: secret_sink_def split: sum.splits option.splits) blast

text \<open>
  What the functions of a registry keep of the outside world, the writing of secrets apart.
\<close>

definition registry_keeps :: "('w \<Rightarrow> bool) \<Rightarrow> 'w registry \<Rightarrow> bool" where
  "registry_keeps P reg \<longleftrightarrow> (\<forall>connector\<in>snd ` set reg. \<forall>w. P w \<longrightarrow>
     (\<forall>tool payload ctx. P (snd (cn_execute connector tool payload ctx w)))
     \<and> (\<forall>rc tool payload st ctx. cn_reconciler connector = Some rc \<longrightarrow>
          P (snd (rc_prepare rc tool payload ctx w)) \<and> P (snd (rc_reconcile rc tool payload st ctx w)))
     \<and> (\<forall>secrets sink name version. cn_secrets connector = Some secrets \<longrightarrow>
          P (snd (sm_versions_for secrets sink name w)) \<and> P (snd (sm_disable_for secrets sink version w))))"

lemma outside_keeps: "keeps (\<lambda>s s'. P (bk_world s) \<longrightarrow> P (bk_world s')) (outside f) \<longleftrightarrow> (\<forall>w. P w \<longrightarrow> P (snd (f w)))"
proof
  assume k: "keeps (\<lambda>s s'. P (bk_world s) \<longrightarrow> P (bk_world s')) (outside f)"
  show "\<forall>w. P w \<longrightarrow> P (snd (f w))"
  proof (intro allI impI)
    fix w assume "P w"
    then show "P (snd (f w))"
      using k [unfolded keeps_def, rule_format, of "\<lparr>bk_world = w, bk_attempts = Map.empty, bk_audit = undefined\<rparr>"]
      by (simp add: outside_def split: prod.splits)
  qed
qed (auto simp: keeps_def outside_def split: prod.split) 

lemma on_attempts_world: "keeps (\<lambda>s s'. P (bk_world s) \<longrightarrow> P (bk_world s')) (on_attempts f)"
  by (auto simp: keeps_def on_attempts_def split: sum.split)

text \<open>
  C19: A created secret leaves the broker only for the store and the resource the inventory assigns to the
  credential of the run. Any property of the outside world that the connectors and the evidence sink keep,
  and that the writing of a secret keeps when it goes to the assigned store, under the resource of the
  credential and within the boundary of the store, is kept by every execution.
\<close>
theorem secrets_reach_assigned_store:
  assumes "broker_execute b ts now checked finished audited request token s = (r, s')" "P (bk_world s)"
    and "registry_keeps P (brk_registry b)"
    and "\<And>org rid kind content ctype t w. P w \<Longrightarrow> P (snd (brk_evidence b org rid kind content ctype t w))"
    and "\<And>connector secrets sink name secret w. connector \<in> snd ` set (brk_registry b) \<Longrightarrow>
      cn_secrets connector = Some secrets \<Longrightarrow> assigned_sink ts request sink name \<Longrightarrow> P w \<Longrightarrow>
      P (snd (sm_add_version_for secrets sink name secret w))"
  shows "P (bk_world s')"
proof -
  let ?R = "\<lambda>s s'. P (bk_world s) \<longrightarrow> P (bk_world s')"
  have "broker_kept ?R b ts request"
  proof
    show "keeps ?R (audit_tool b request hash audited res)" for hash audited res
      unfolding keeps_def using audit_tool_attempts [of b request hash audited res]
      by (metis prod.collapse)
    show "keeps ?R (outside (sm_add_version_for secrets sink name secret))"
      if "credential_of_run ts request credential" "secret_sink b ts request credential = Inr (sink, secrets, name)"
      for credential sink secrets name secret
      using secret_sink_ok [OF that(2,1)] secret_sink_registry [OF that(2)] assms(5) unfolding outside_keeps by blast
    show "keeps ?R (outside (sm_versions_for secrets sink name))" "keeps ?R (outside (sm_disable_for secrets sink version))"
      if "secret_sink b ts request credential = Inr (sink, secrets, name)" for credential sink secrets name version
      using secret_sink_registry [OF that] assms(3) unfolding outside_keeps registry_keeps_def by blast+
  qed (use assms(3,4) in \<open>auto simp: outside_keeps registry_keeps_def on_attempts_world\<close>)
  from broker_kept.execute_kept [OF this, of s now checked finished audited token] assms(1,2) show ?thesis by simp
qed

theorem secrets_reach_assigned_store_witness:
  "set (bk_world (snd (broker_execute ex_broker ex_sources 3 3 4 5 ex_request (Some ''token'') ex_tool_state)))
    \<subseteq> {(''vault'', ''secrets/key'')}"
proof (rule secrets_reach_assigned_store [OF surjective_pairing, where P = "\<lambda>w. set w \<subseteq> {(''vault'', ''secrets/key'')}"])
  show "registry_keeps (\<lambda>w. set w \<subseteq> {(''vault'', ''secrets/key'')}) (brk_registry ex_broker)"
    by (simp add: registry_keeps_def ex_broker_def ex_creator_def ex_store_connector_def ex_secrets_def)
  show "set (bk_world ex_tool_state) \<subseteq> {(''vault'', ''secrets/key'')}" by (simp add: ex_tool_state_def)
  fix connector secrets sink name secret w
  assume c: "connector \<in> snd ` set (brk_registry ex_broker)" "cn_secrets connector = Some secrets"
    and a: "assigned_sink ex_sources ex_request sink name" and w: "set w \<subseteq> {(''vault'', ''secrets/key'')}"
  have "con_id sink = ''vault'' \<and> name = ''secrets/key''"
    using a by (auto simp: assigned_sink_def credential_of_run_def source_credential_def catalog_get_def bindr_eq_Inr
        ex_sources_def ex_request_def validate_credential_def split: if_splits option.splits) (simp_all add: ex_tool_credential_def)
  moreover have "secrets = ex_secrets"
    using c by (auto simp: ex_broker_def ex_creator_def ex_store_connector_def)
  ultimately show "set (snd (sm_add_version_for secrets sink name secret w)) \<subseteq> {(''vault'', ''secrets/key'')}"
    using w by (simp add: ex_secrets_def)
qed (simp add: ex_broker_def)

section \<open>Defects\<close>

text \<open>
  The execution of a request whose result was checkpointed before a crash records the result and returns it,
  but writes no audit event: the effect of the tool is never audited.
\<close>

lemma checkpointed_result_unaudited:
  assumes "find_attempt request (request_digest (brk_sha b) (tr_tool request) (tr_payload request)) (bk_attempts s) = Inr (Some a)"
    and "ta_status a = Att_Running" "ta_checkpoint a = Some done"
    and "broker_execute b ts now checked finished audited request token s = (Inr res, s')"
  shows "res = done \<and> bk_audit s' = bk_audit s \<and> bk_world s' = bk_world s"
proof -
  obtain connector ctx where "resume_attempt b ts connector request
      (request_digest (brk_sha b) (tr_tool request) (tr_payload request)) now finished audited credential ctx a s = (Inr res, s')"
    for credential
    using assms(1,2,3,4) by (auto simp: broker_execute_def Let_def bindx_eq lift_eq bindr_def resume_attempt_def split: sum.splits)
  then show ?thesis
    using assms(3) by (auto simp: resume_attempt_def finish_tool_def bindx_eq on_attempts_def yields_def split: sum.splits)
qed

text \<open>
  The tool \<open>verification.run\<close> is listed for the stages VERIFY and REVOKE, but no request for it is ever
  admitted, in no state and with no capability: its name space has no connection role.
\<close>
theorem verification_tool_refused:
  assumes "tr_tool request = ''verification.run''"
  shows "tr_tool request \<in> set (STAGE_TOOLS VERIFY) \<inter> set (STAGE_TOOLS REVOKE)
    \<and> (\<exists>e. broker_execute b ts now checked finished audited request token s = (Inl (Raised e), s))"
proof -
  have "tool_role ''verification.run'' = Inl (CapabilityError (''tool '' @ ''verification.run'' @ '' has no connection role''))"
    by code_simp
  then have "admit_request b ts now checked request hash token \<noteq> Inr x" for hash x
    using validate_request_ok [of "brk_ip b" request] assms
    by (cases x) (fastforce simp: admit_request_def bindr_eq_Inr)
  then have "\<exists>e. admit_request b ts now checked request hash token = Inl e" for hash
    by (cases "admit_request b ts now checked request hash token") auto
  then obtain e where "admit_request b ts now checked request
      (request_digest (brk_sha b) (tr_tool request) (tr_payload request)) token = Inl e" by blast
  then show ?thesis
    using assms by (auto simp: broker_execute_def Let_def bindr_def split: sum.splits)
qed

theorem verification_tool_refused_witness:
  "\<exists>e. broker_execute ex_broker ex_sources 3 3 4 5 (ex_request\<lparr>tr_tool := ''verification.run''\<rparr>) (Some ''token'') ex_tool_state
    = (Inl (Raised e), ex_tool_state)"
  using verification_tool_refused [of "ex_request\<lparr>tr_tool := ''verification.run''\<rparr>" ex_broker ex_sources 3 3 4 5 "Some ''token''"
      ex_tool_state] by auto

text \<open>
  C40: A slow executor loses its result. When a second executor reclaimed the expired attempt before the first
  one checkpointed its success, and the second one then gets another result, its checkpoint conflicts, and
  the handler of that conflict records the request as failed: the checkpointed success is dropped and the
  first executor cannot finish any more.
\<close>
theorem late_executor_overwrites:
  assumes "begin_attempt request hash recon t expiry (bk_attempts s) = Inr a1"
    and "reclaim_attempt request hash expiry t' expiry' a1 = Inr a2"
    and "checkpoint_attempt request hash done a2 = Inr a3" "tres_succeeded done" "tool_result_fields_ok done"
    and "cn_execute connector (tr_tool request) (tr_payload request) context (bk_world s) = (Inr response, w)"
    and "tr_tool request \<noteq> ''provider.createCredential''" "cr_secret response = None" "cr_evidence response = []"
    and "succeeded_result request response [] \<noteq> done"
  shows "\<exists>m s'. call_connector b ts connector request hash now finished credential context (s\<lparr>bk_attempts := a3\<rparr>)
        = (Inl (Raised (ResourceConflictError m)), s')
    \<and> recorded request hash (failed_result request ''broker-internal-error'' False) (bk_attempts s')
    \<and> (\<exists>m'. finish_attempt request hash done t'' (bk_attempts s') = Inl (ResourceConflictError m'))"
proof -
  let ?k = "(tr_organisation_id request, tr_id request)"
  let ?a = "new_attempt request hash recon t expiry"
  let ?b = "?a\<lparr>ta_lease_expires_at := expiry', ta_checkpoint := Some done\<rparr>"
  let ?f = "failed_result request ''broker-internal-error'' False"
  have a1: "a1 ?k = Some ?a" "validate_attempt ?a = Inr ?a" "segments [tr_organisation_id request, tr_id request] = Inr ()"
    using assms(1) by (auto simp: begin_attempt_def bindr_eq_Inr put_attempt_def validate_attempt_eq split: option.splits)
  have a2: "a2 ?k = Some (?a\<lparr>ta_lease_expires_at := expiry'\<rparr>)"
    using assms(2) a1 by (auto simp: reclaim_attempt_def bindr_eq_Inr put_attempt_def dest!: read_attempt_eq)
  have a3: "a3 ?k = Some ?b"
    using assms(3) a2 by (auto simp: checkpoint_attempt_def bindr_eq_Inr put_attempt_def new_attempt_def
        dest!: read_attempt_eq split: if_splits)
  let ?r = "succeeded_result request response []"
  let ?s = "s\<lparr>bk_attempts := a3, bk_world := w\<rparr>"
  have ids: "identifier_ok (tr_organisation_id request)" "identifier_ok (tr_id request)"
    using a1(3) by (simp_all add: segments_ok)
  have "validate_attempt ?b = Inr ?b" "same_attempt ?b request hash = Inr ()"
    using a1(2) assms(5) by (simp_all add: validate_attempt_eq tool_attempt_fields_ok_def validate_terminal_result_def
        new_attempt_def same_attempt_def)
  then have read: "read_attempt request hash m a3 = Inr ?b" for m
    using a3 a1(3) by (simp add: read_attempt_def)
  have running: "ta_status ?b = Att_Running" "ta_checkpoint ?b = Some done" by (simp_all add: new_attempt_def)
  have ok: "tool_result_fields_ok ?r" "tool_result_fields_ok ?f"
    using ids by (simp_all add: tool_result_fields_ok_def succeeded_result_def failed_result_def text_between_def)
  obtain m where m: "checkpoint_attempt request hash ?r a3 = Inl (ResourceConflictError m)"
    using read running assms(10) by (auto simp: checkpoint_attempt_def require_def)
  have settle: "settle_response b ts request hash now credential context response ?s
      = (Inl (Raised (ResourceConflictError m)), ?s)"
    using assms(7-9) ok m
    by (simp add: settle_response_def store_provider_secret_def bindx_def yields_def make_result_def lift_def on_attempts_def)
  obtain a4 where a4: "finish_attempt request hash ?f finished a3 = Inr a4"
    using read running by (auto simp: finish_attempt_def)
  have rec: "recorded request hash ?f a4" using finish_records [OF a4 ok(2)] .
  have call: "call_connector b ts connector request hash now finished credential context (s\<lparr>bk_attempts := a3\<rparr>)
      = (Inl (Raised (ResourceConflictError m)), ?s\<lparr>bk_attempts := a4\<rparr>)"
    using settle assms(6) ok a4
    by (simp add: call_connector_def catches_def bindx_def outside_def make_result_def lift_def finish_tool_def
        on_attempts_def yields_def raises_def)
  obtain d where d: "a4 ?k = Some d" "ta_status d \<noteq> Att_Running" "ta_result d = Some ?f" "validate_attempt d = Inr d"
      "same_attempt d request hash = Inr ()"
    using rec by (auto simp: recorded_def)
  have "?f \<noteq> done" using assms(4) by (auto simp: failed_result_def)
  then have "\<exists>m'. finish_attempt request hash done t'' a4 = Inl (ResourceConflictError m')"
    using d a1(3) by (auto simp: finish_attempt_def read_attempt_def)
  then show ?thesis using call rec by auto
qed

theorem late_executor_overwrites_witness:
  "\<forall>ctx. \<exists>m s'. call_connector ex_broker ex_sources ex_store_connector ex_read ex_hash 200 210 ex_tool_credential ctx
      (ex_tool_state\<lparr>bk_attempts := Map.empty((''org'', ''request'') \<mapsto>
         (new_attempt ex_read ex_hash [] 3 123)\<lparr>ta_lease_expires_at := 320, ta_checkpoint := Some ex_slow\<rparr>)\<rparr>)
    = (Inl (Raised (ResourceConflictError m)), s')" (is "\<forall>ctx. ?overwritten ctx")
proof
  fix ctx
  let ?a = "new_attempt ex_read ex_hash [] 3 123"
  have "segments [''org'', ''request''] = Inr ()" "is_ok (validate_attempt ?a)" "tool_result_fields_ok ex_slow" by code_simp+
  then have ok: "segments [''org'', ''request''] = Inr ()" "validate_attempt ?a = Inr ?a"
      "validate_attempt (?a\<lparr>ta_lease_expires_at := e\<rparr>) = Inr (?a\<lparr>ta_lease_expires_at := e\<rparr>)" for e
    by (auto simp: is_ok_iff validate_attempt_eq tool_attempt_fields_ok_def validate_terminal_result_def new_attempt_def)
  have k: "tr_organisation_id ex_read = ''org''" "tr_id ex_read = ''request''" by (simp_all add: ex_read_def ex_request_def)
  have same: "same_attempt (?a\<lparr>ta_lease_expires_at := e\<rparr>) ex_read ex_hash = Inr ()" "same_attempt ?a ex_read ex_hash = Inr ()" for e
    by (simp_all add: same_attempt_def new_attempt_def)
  let ?m1 = "Map.empty((''org'', ''request'') \<mapsto> ?a)"
  let ?m2 = "Map.empty((''org'', ''request'') \<mapsto> ?a\<lparr>ta_lease_expires_at := 320\<rparr>)"
  let ?m3 = "Map.empty((''org'', ''request'') \<mapsto> ?a\<lparr>ta_lease_expires_at := 320, ta_checkpoint := Some ex_slow\<rparr>)"
  have b: "begin_attempt ex_read ex_hash [] 3 123 (bk_attempts ex_tool_state) = Inr ?m1"
    using ok by (simp add: begin_attempt_def k put_attempt_def ex_tool_state_def)
  have r: "reclaim_attempt ex_read ex_hash 123 200 320 ?m1 = Inr ?m2"
    using ok same by (simp add: reclaim_attempt_def read_attempt_def k put_attempt_def require_def) (simp add: new_attempt_def)
  have c: "checkpoint_attempt ex_read ex_hash ex_slow ?m2 = Inr ?m3"
    using ok same by (simp add: checkpoint_attempt_def read_attempt_def k put_attempt_def require_def) (simp add: new_attempt_def)
  have x: "cn_execute ex_store_connector (tr_tool ex_read) (tr_payload ex_read) ctx (bk_world ex_tool_state)
      = (Inr \<lparr>cr_result = [], cr_evidence = [], cr_secret = None\<rparr>, bk_world ex_tool_state)"
    by (simp add: ex_store_connector_def)
  let ?r = "\<lparr>cr_result = [], cr_evidence = [], cr_secret = None\<rparr>"
  have h: "tres_succeeded ex_slow" "tr_tool ex_read \<noteq> ''provider.createCredential''" "cr_secret ?r = None" "cr_evidence ?r = []"
      "succeeded_result ex_read ?r [] \<noteq> ex_slow"
    by (simp_all add: ex_slow_def ex_checkpoint_def ex_read_def succeeded_result_def)
  from late_executor_overwrites [OF b r c h(1) \<open>tool_result_fields_ok ex_slow\<close> x h(2-5)] show "?overwritten ctx" by blast
qed

end
