(* ===== verification/Capability_Theorems.thy ===== *)
theory Capability_Theorems imports Capability Broker_Theorems begin

text \<open>
  The properties of action capabilities: what was minted is read back, and with the broker, a mutation
  needs claims that the signer minted for exactly that request.
\<close>

text \<open>
  C21: A minted capability is read back unchanged until it expires, and is refused from then on.
\<close>
theorem capability_roundtrip:
  assumes "\<forall>m. vrf (sign m) m" "printable c"
  shows "verify vrf (mint sign c) now =
    (if cl_expires_at c \<le> now div 1000000 then Inl (CapabilityError ''action capability has expired'') else Inr c)"
proof -
  have "vrf (sign (capability_message c)) (capability_message c)" using assms(1) by blast
  from verify_minted_parts [OF assms(2), of vrf, OF this urlsafe_roundtrip]
  show ?thesis by (simp add: verify_def split_mint)
qed

lemma ex_printable: "printable ex_claims"
  by (simp add: printable_def ex_claims_def nat_text.simps)

theorem capability_roundtrip_witness:
  "verify (\<lambda>signature m. signature = rev m) (mint rev ex_claims) 49999999 = Inr ex_claims
   \<and> verify (\<lambda>signature m. signature = rev m) (mint rev ex_claims) 50000000
     = Inl (CapabilityError ''action capability has expired'')"
proof -
  have "cl_expires_at ex_claims = 50" by (simp add: ex_claims_def)
  then show ?thesis
    using capability_roundtrip [of "\<lambda>signature m. signature = rev m" rev ex_claims] ex_printable by simp
qed

text \<open>
  C20: A mutation needs claims that were minted for it. Where the broker verifies capabilities with the public
  key of the signer, an execution of a mutating tool that changes anything was given a token which either is
  forged - it carries a signature that the key accepts for a message the signer never signed - or holds claims
  that were minted, unexpired, for this run, agent, tool, connection, stage and fence and for the digest of
  exactly this payload.
\<close>
theorem mutations_need_minted_claims:
  assumes "broker_execute b ts now checked finished audited request token s = (r, s')" "s' \<noteq> s"
    and "tr_tool request \<notin> set READ_TOOLS"
    and "brk_verify b = verify vrf" "\<forall>c\<in>minted. printable c"
  shows "\<exists>t run. token = Some t \<and> source_run ts (tr_organisation_id request) (tr_run_id request) = Inr run
    \<and> holds_run_fence request run now
    \<and> (forged vrf minted t
       \<or> (\<exists>c\<in>minted. verify vrf t checked = Inr c \<and> checked div 1000000 < cl_expires_at c
            \<and> cl_run_id c = tr_run_id request \<and> cl_agent_id c = tr_agent_id request \<and> cl_tool c = tr_tool request
            \<and> cl_connection_id c = tr_connection_id request \<and> cl_stage c = run_stage run
            \<and> cl_fencing_token c = run_fencing_token run
            \<and> cl_request_digest c = request_digest (brk_sha b) (tr_tool request) (tr_payload request)))"
proof -
  obtain run where run: "source_run ts (tr_organisation_id request) (tr_run_id request) = Inr run"
      "holds_run_fence request run now" "mutation_authorised b ts checked request run token"
    using effects_admitted [OF assms(1,2)] assms(3) validate_request_ok by blast
  then obtain t c where c: "token = Some t" "verify vrf t checked = Inr c"
      "cl_run_id c = tr_run_id request" "cl_agent_id c = tr_agent_id request" "cl_tool c = tr_tool request"
      "cl_connection_id c = tr_connection_id request" "cl_stage c = run_stage run"
      "cl_fencing_token c = run_fencing_token run"
      "cl_request_digest c = request_digest (brk_sha b) (tr_tool request) (tr_payload request)"
    unfolding mutation_authorised_def assms(4) by blast
  have "c \<in> minted \<and> checked div 1000000 < cl_expires_at c" if "\<not> forged vrf minted t"
    using verified_minted [OF that assms(5) c(2)] .
  with run(1,2) c show ?thesis by blast
qed

text \<open>A scheme whose key accepts a signature of every message, and a token of the claims that were minted.\<close>

definition ex_scheme :: "string \<Rightarrow> string \<Rightarrow> bool" where
  "ex_scheme signature m \<longleftrightarrow> signature = rev m"

lemma ex_scheme_verifies: "verify ex_scheme (mint rev ex_claims) 3 = Inr ex_claims"
proof -
  have "ex_scheme (rev (capability_message ex_claims)) (capability_message ex_claims)" by (simp add: ex_scheme_def)
  from verify_minted_parts [OF ex_printable, of ex_scheme, OF this urlsafe_roundtrip]
  have "verify ex_scheme (mint rev ex_claims) 3
      = (if cl_expires_at ex_claims \<le> 3 div 1000000 then Inl (CapabilityError ''action capability has expired'') else Inr ex_claims)"
    by (simp add: verify_def split_mint)
  moreover have "cl_expires_at ex_claims = 50" by (simp add: ex_claims_def)
  ultimately show ?thesis by simp
qed

lemma ex_scheme_executed:
  "snd (broker_execute (ex_broker\<lparr>brk_verify := verify ex_scheme\<rparr>) ex_sources 3 3 4 5 ex_request (Some (mint rev ex_claims))
     ex_tool_state) \<noteq> ex_tool_state"
proof (rule ex_executed_by)
  have v: "brk_verify ex_broker ''token'' 3 = Inr ex_claims" "cl_approval_id ex_claims = None"
    by (simp_all add: ex_broker_def ex_claims_def)
  then have "authorize_mutation (ex_broker\<lparr>brk_verify := verify ex_scheme\<rparr>) ex_sources 3 ex_request run ex_hash (Some (mint rev ex_claims))
      = authorize_mutation ex_broker ex_sources 3 ex_request run ex_hash (Some ''token'')" for run
    by (simp add: authorize_mutation_def ex_scheme_verifies)
  then have "admit_request (ex_broker\<lparr>brk_verify := verify ex_scheme\<rparr>) ex_sources 3 3 ex_request ex_hash (Some (mint rev ex_claims))
      = admit_request ex_broker ex_sources 3 3 ex_request ex_hash (Some ''token'')"
    by (simp add: admit_request_def cong: if_cong)
  then show "is_ok (admit_request (ex_broker\<lparr>brk_verify := verify ex_scheme\<rparr>) ex_sources 3 3 ex_request ex_hash
      (Some (mint rev ex_claims)))"
    using ex_admitted by simp
qed

theorem mutations_need_minted_claims_witness:
  "\<not> forged ex_scheme {ex_claims} (mint rev ex_claims)
   \<and> (\<exists>run. source_run ex_sources ''org'' (tr_run_id ex_request) = Inr run \<and> cl_stage ex_claims = run_stage run
        \<and> cl_fencing_token ex_claims = run_fencing_token run)
   \<and> 3 div 1000000 < cl_expires_at ex_claims \<and> cl_tool ex_claims = tr_tool ex_request
   \<and> cl_request_digest ex_claims = request_digest (brk_sha ex_broker) (tr_tool ex_request) (tr_payload ex_request)"
proof -
  have "tr_tool ex_request \<notin> set READ_TOOLS" "tr_organisation_id ex_request = ''org''"
    by (simp_all add: ex_request_def READ_TOOLS_def)
  moreover have "brk_verify (ex_broker\<lparr>brk_verify := verify ex_scheme\<rparr>) = verify ex_scheme" by simp
  moreover have "\<not> forged ex_scheme {ex_claims} (mint rev ex_claims)" by (simp add: minted_not_forged)
  moreover have "\<forall>c\<in>{ex_claims}. printable c" using ex_printable by simp
  ultimately show ?thesis
    using mutations_need_minted_claims [OF surjective_pairing ex_scheme_executed, of ex_scheme "{ex_claims}"] by auto
qed

end
