(* ===== verification/Probes.thy ===== *)
theory Probes imports Generations begin

text \<open>
  The probes of packages/contracts/src/contracts/verification.py: definitions and versions with their
  validators, and the dumps their digests and the digests of reports are computed from. The results and the
  reports of a verification are in theory Generations.
\<close>

section \<open>Probe definitions\<close>

datatype probe_kind =
    Probe_Http | Probe_Email | Probe_Provider | Probe_Secret | Probe_Runtime | Probe_Telemetry | Probe_Generation
  | Probe_Credential

fun probe_kind_value :: "probe_kind \<Rightarrow> string" where
  "probe_kind_value Probe_Http = ''http''"
| "probe_kind_value Probe_Email = ''email''"
| "probe_kind_value Probe_Provider = ''provider''"
| "probe_kind_value Probe_Secret = ''secret-store''"
| "probe_kind_value Probe_Runtime = ''runtime''"
| "probe_kind_value Probe_Telemetry = ''telemetry''"
| "probe_kind_value Probe_Generation = ''generation''"
| "probe_kind_value Probe_Credential = ''credential-authentication''"

datatype probe_state = Probe_Draft | Probe_Active | Probe_Superseded

datatype generation_binding = Bind_None | Bind_Target | Bind_Current

fun generation_binding_value :: "generation_binding \<Rightarrow> string" where
  "generation_binding_value Bind_None = ''none''"
| "generation_binding_value Bind_Target = ''target''"
| "generation_binding_value Bind_Current = ''current''"

datatype target_binding = Target_Static | Target_Provider_Id | Target_Secret_Reference

fun target_binding_value :: "target_binding \<Rightarrow> string" where
  "target_binding_value Target_Static = ''static''"
| "target_binding_value Target_Provider_Id = ''provider-id''"
| "target_binding_value Target_Secret_Reference = ''secret-reference''"

text \<open>The values of \<open>required_fields\<close> are texts, integers and booleans.\<close>

record downstream_confirmation =
  dc_target :: string
  dc_method :: string
  dc_headers :: "(string \<times> string) list"
  dc_expected_status :: "int list"
  dc_required_fields :: "(string \<times> pyval) list"
  dc_correlation_field :: string
  dc_interval_seconds :: int

definition downstream_confirmation_fields_ok :: "downstream_confirmation \<Rightarrow> bool" where
  "downstream_confirmation_fields_ok c \<longleftrightarrow>
     text_between 1 1024 (dc_target c) \<and> text_between 1 16 (dc_method c) \<and> dc_required_fields c \<noteq> []
     \<and> text_between 1 128 (dc_correlation_field c) \<and> 1 \<le> dc_interval_seconds c \<and> dc_interval_seconds c \<le> 30"

record telemetry_thresholds =
  tt_minimum_count :: int
  tt_maximum_error_count :: int
  tt_maximum_auth_failure_count :: int
  tt_window_seconds :: int

definition telemetry_thresholds_fields_ok :: "telemetry_thresholds \<Rightarrow> bool" where
  "telemetry_thresholds_fields_ok t \<longleftrightarrow>
     1 \<le> tt_minimum_count t \<and> tt_minimum_count t \<le> 1000
     \<and> 0 \<le> tt_maximum_error_count t \<and> tt_maximum_error_count t \<le> 1000
     \<and> 0 \<le> tt_maximum_auth_failure_count t \<and> tt_maximum_auth_failure_count t \<le> 1000
     \<and> 60 \<le> tt_window_seconds t \<and> tt_window_seconds t \<le> 86400"

record probe_definition =
  pd_id :: string
  pd_organisation_id :: string
  pd_kind :: probe_kind
  pd_connection_id :: string
  pd_target :: string
  pd_method :: string
  pd_headers :: "(string \<times> string) list"
  pd_body_reference :: "string option"
  pd_secret_reference :: "string option"
  pd_secret_connection_id :: "string option"
  pd_expected_status :: "int list"
  pd_expected_generation_id :: "string option"
  pd_generation_binding :: generation_binding
  pd_target_binding :: target_binding
  pd_required_fields :: "(string \<times> pyval) list"
  pd_confirmation :: "downstream_confirmation option"
  pd_telemetry :: "telemetry_thresholds option"
  pd_timeout_seconds :: int
  pd_negative :: bool

definition probe_definition_fields_ok :: "probe_definition \<Rightarrow> bool" where
  "probe_definition_fields_ok d \<longleftrightarrow>
     identifier_ok (pd_id d) \<and> identifier_ok (pd_organisation_id d) \<and> identifier_ok (pd_connection_id d)
     \<and> text_between 1 1024 (pd_target d) \<and> text_between 1 16 (pd_method d)
     \<and> opt_ok (text_between 0 1024) (pd_body_reference d) \<and> opt_ok (text_between 0 1024) (pd_secret_reference d)
     \<and> opt_ok identifier_ok (pd_secret_connection_id d) \<and> opt_ok identifier_ok (pd_expected_generation_id d)
     \<and> opt_ok downstream_confirmation_fields_ok (pd_confirmation d)
     \<and> opt_ok telemetry_thresholds_fields_ok (pd_telemetry d)
     \<and> 1 \<le> pd_timeout_seconds d \<and> pd_timeout_seconds d \<le> 300"

definition validate_probe :: "probe_definition \<Rightarrow> unit result" where
  "validate_probe d =
     bindr (require (\<not> (pd_kind d = Probe_Email \<and> pd_confirmation d = None))
       (ValidationError ''email probes require downstream confirmation'')) (\<lambda>_.
     bindr (require (\<not> (pd_kind d \<noteq> Probe_Email \<and> pd_confirmation d \<noteq> None))
       (ValidationError ''downstream confirmation is only valid for email probes'')) (\<lambda>_.
     bindr (require (\<not> (pd_kind d = Probe_Telemetry \<and> pd_telemetry d = None))
       (ValidationError ''telemetry probes require explicit thresholds'')) (\<lambda>_.
     bindr (require (\<not> (pd_kind d \<noteq> Probe_Telemetry \<and> pd_telemetry d \<noteq> None))
       (ValidationError ''telemetry thresholds are only valid for telemetry probes'')) (\<lambda>_.
     bindr (require (\<not> (pd_generation_binding d = Bind_None \<and> pd_expected_generation_id d \<noteq> None))
       (ValidationError ''an expected generation requires a generation binding'')) (\<lambda>_.
     bindr (require (\<not> (pd_target_binding d \<noteq> Target_Static
         \<and> pd_kind d \<notin> {Probe_Credential, Probe_Provider, Probe_Secret}))
       (ValidationError ''dynamic targets are only valid for provider and secret probes'')) (\<lambda>_.
     bindr (require ((pd_secret_reference d = None) = (pd_secret_connection_id d = None))
       (ValidationError ''probe secret reference and connection must be set together'')) (\<lambda>_.
     require ((pd_kind d = Probe_Credential) = (pd_secret_reference d \<noteq> None \<and> pd_secret_connection_id d \<noteq> None))
       (ValidationError ''credential authentication probes require one secret-store binding''))))))))"

definition validate_probe_definition :: "probe_definition \<Rightarrow> probe_definition result" where
  "validate_probe_definition d =
     (if probe_definition_fields_ok d then bindr (validate_probe d) (\<lambda>_. Inr d) else Inl (FieldError ''ProbeDefinition''))"

section \<open>Probe versions\<close>

record probe_version =
  pv_id :: string
  pv_organisation_id :: string
  pv_probe_id :: string
  pv_number :: int
  pv_definition :: probe_definition
  pv_digest :: string
  pv_state :: probe_state
  pv_created_by :: string
  pv_created_at :: int
  pv_approved_by :: "string option"
  pv_approved_at :: "int option"

definition probe_version_fields_ok :: "probe_version \<Rightarrow> bool" where
  "probe_version_fields_ok v \<longleftrightarrow>
     identifier_ok (pv_id v) \<and> identifier_ok (pv_organisation_id v) \<and> identifier_ok (pv_probe_id v) \<and> 0 < pv_number v
     \<and> hex64 (pv_digest v) \<and> identifier_ok (pv_created_by v) \<and> opt_ok identifier_ok (pv_approved_by v)"

definition validate_version :: "probe_version \<Rightarrow> unit result" where
  "validate_version v =
     bindr (require (\<not> (pd_id (pv_definition v) \<noteq> pv_id v \<or> pd_organisation_id (pv_definition v) \<noteq> pv_organisation_id v))
       (ValidationError ''probe definition identity must match its version'')) (\<lambda>_.
     bindr (require ((pv_approved_by v = None) = (pv_approved_at v = None))
       (ValidationError ''probe approval identity and time must be set together'')) (\<lambda>_.
     require (\<not> (pv_state v = Probe_Active \<and> \<not> (pv_approved_by v \<noteq> None \<and> pv_approved_at v \<noteq> None)))
       (ValidationError ''active probe versions require approval'')))"

definition validate_probe_version :: "probe_version \<Rightarrow> probe_version result" where
  "validate_probe_version v =
     (if probe_version_fields_ok v
      then bindr (validate_probe_definition (pv_definition v)) (\<lambda>_. bindr (validate_version v) (\<lambda>_. Inr v))
      else Inl (FieldError ''ProbeVersion''))"

section \<open>Dumps\<close>

definition dump_texts :: "(string \<times> string) list \<Rightarrow> pyval" where
  "dump_texts kvs = PyDict (map (\<lambda>(k, v). (KeyStr k, PyStr v)) kvs)"

definition dump_values :: "(string \<times> pyval) list \<Rightarrow> pyval" where
  "dump_values kvs = PyDict (map (\<lambda>(k, v). (KeyStr k, v)) kvs)"

definition dump_confirmation :: "downstream_confirmation \<Rightarrow> pyval" where
  "dump_confirmation c = dump_fields
     [(''target'', Some (PyStr (dc_target c))), (''method'', Some (PyStr (dc_method c))),
      (''headers'', Some (dump_texts (dc_headers c))), (''expected_status'', Some (PyList (map PyInt (dc_expected_status c)))),
      (''required_fields'', Some (dump_values (dc_required_fields c))),
      (''correlation_field'', Some (PyStr (dc_correlation_field c))),
      (''interval_seconds'', Some (PyInt (dc_interval_seconds c)))]"

definition dump_telemetry :: "telemetry_thresholds \<Rightarrow> pyval" where
  "dump_telemetry t = dump_fields
     [(''minimum_count'', Some (PyInt (tt_minimum_count t))), (''maximum_error_count'', Some (PyInt (tt_maximum_error_count t))),
      (''maximum_auth_failure_count'', Some (PyInt (tt_maximum_auth_failure_count t))),
      (''window_seconds'', Some (PyInt (tt_window_seconds t)))]"

definition dump_probe_definition :: "probe_definition \<Rightarrow> pyval" where
  "dump_probe_definition d = dump_fields
     [(''id'', Some (PyStr (pd_id d))), (''organisation_id'', Some (PyStr (pd_organisation_id d))),
      (''kind'', Some (PyEnum (probe_kind_value (pd_kind d)))), (''connection_id'', Some (PyStr (pd_connection_id d))),
      (''target'', Some (PyStr (pd_target d))), (''method'', Some (PyStr (pd_method d))),
      (''headers'', Some (dump_texts (pd_headers d))), (''body_reference'', map_option PyStr (pd_body_reference d)),
      (''secret_reference'', map_option PyStr (pd_secret_reference d)),
      (''secret_connection_id'', map_option PyStr (pd_secret_connection_id d)),
      (''expected_status'', Some (PyList (map PyInt (pd_expected_status d)))),
      (''expected_generation_id'', map_option PyStr (pd_expected_generation_id d)),
      (''generation_binding'', Some (PyEnum (generation_binding_value (pd_generation_binding d)))),
      (''target_binding'', Some (PyEnum (target_binding_value (pd_target_binding d)))),
      (''required_fields'', Some (dump_values (pd_required_fields d))),
      (''confirmation'', map_option dump_confirmation (pd_confirmation d)),
      (''telemetry'', map_option dump_telemetry (pd_telemetry d)),
      (''timeout_seconds'', Some (PyInt (pd_timeout_seconds d))), (''negative'', Some (PyBool (pd_negative d)))]"

fun verification_status_value :: "verification_status \<Rightarrow> string" where
  "verification_status_value Ver_Passed = ''passed''"
| "verification_status_value Ver_Failed = ''failed''"
| "verification_status_value Ver_Inconclusive = ''inconclusive''"

text \<open>
  \<open>checks\<close> are frozensets: the canonical form sorts them, so the dump may list them in any order; it lists
  them sorted, as a digest does.
\<close>

definition dump_checks :: "string set \<Rightarrow> pyval" where
  "dump_checks checks = PySet (map PyStr (sorted_list_of_set checks))"

definition dump_probe_result :: "probe_result \<Rightarrow> pyval" where
  "dump_probe_result r = dump_fields
     [(''probe_id'', Some (PyStr (pr_probe_id r))), (''status'', Some (PyEnum (verification_status_value (pr_status r)))),
      (''observed_status'', map_option PyInt (pr_observed_status r)), (''generation_id'', map_option PyStr (pr_generation_id r)),
      (''checks'', Some (dump_checks (pr_checks r))), (''evidence_ids'', Some (PyList (map PyStr (pr_evidence_ids r)))),
      (''observations'', Some (dump_values (pr_observations r))), (''error'', map_option PyStr (pr_error r)),
      (''started_at'', Some (PyTime (pr_started_at r))), (''completed_at'', Some (PyTime (pr_completed_at r)))]"

definition dump_verification_report :: "verification_report \<Rightarrow> pyval" where
  "dump_verification_report r = dump_fields
     [(''id'', Some (PyStr (vr_id r))), (''organisation_id'', Some (PyStr (vr_organisation_id r))),
      (''run_id'', Some (PyStr (vr_run_id r))), (''generation_id'', Some (PyStr (vr_generation_id r))),
      (''status'', Some (PyEnum (verification_status_value (vr_status r)))),
      (''results'', Some (PyList (map dump_probe_result (vr_results r)))),
      (''checks'', Some (dump_checks (vr_checks r))), (''evidence_ids'', Some (PyList (map PyStr (vr_evidence_ids r)))),
      (''started_at'', Some (PyTime (vr_started_at r))), (''completed_at'', Some (PyTime (vr_completed_at r)))]"

end
