(* ===== verification/Playbooks.thy ===== *)
theory Playbooks imports Connections Audit_Log begin
text \<open>
  Browser playbooks: packages/contracts/src/contracts/playbook.py and the resolution of their placeholders in
  server/browser/playbook.py. The migration of documents of the former layout is not modelled.
\<close>

section \<open>Contracts (playbook.py)\<close>

datatype playbook_state = Play_Draft | Play_Published | Play_Superseded | Play_Review

datatype playbook_effect = Eff_None | Eff_Create | Eff_Revoke

fun playbook_effect_value :: "playbook_effect \<Rightarrow> string" where
  "playbook_effect_value Eff_None = ''none''"
| "playbook_effect_value Eff_Create = ''create-credential''"
| "playbook_effect_value Eff_Revoke = ''revoke-credential''"

datatype selector_kind = Sel_Role | Sel_Label | Sel_Field | Sel_Text | Sel_Test_Id | Sel_Css

fun selector_kind_value :: "selector_kind \<Rightarrow> string" where
  "selector_kind_value Sel_Role = ''role''"
| "selector_kind_value Sel_Label = ''label''"
| "selector_kind_value Sel_Field = ''field''"
| "selector_kind_value Sel_Text = ''text''"
| "selector_kind_value Sel_Test_Id = ''test-id''"
| "selector_kind_value Sel_Css = ''css''"

record selector =
  sel_kind :: selector_kind
  sel_value :: string
  sel_name :: "string option"
  sel_exact :: bool

definition selector_fields_ok :: "selector \<Rightarrow> bool" where
  "selector_fields_ok s \<longleftrightarrow> text_between 1 512 (sel_value s) \<and> opt_ok (text_between 0 256) (sel_name s)"

record page_checkpoint =
  pc_url_pattern :: string
  pc_required_text :: "string list"
  pc_forbidden_text :: "string list"

definition page_checkpoint_fields_ok :: "page_checkpoint \<Rightarrow> bool" where
  "page_checkpoint_fields_ok c \<longleftrightarrow> text_between 1 1024 (pc_url_pattern c)"

record secure_field =
  sf_name :: string
  sf_selector :: selector
  sf_provider_id_selector :: selector
  sf_provider_id_attribute :: string
  sf_provider_display_name_selector :: "selector option"

definition secure_field_fields_ok :: "secure_field \<Rightarrow> bool" where
  "secure_field_fields_ok f \<longleftrightarrow>
     identifier_ok (sf_name f) \<and> selector_fields_ok (sf_selector f) \<and> selector_fields_ok (sf_provider_id_selector f)
     \<and> sf_provider_id_attribute f \<in> {''text'', ''value'', ''href''}
     \<and> opt_ok selector_fields_ok (sf_provider_display_name_selector f)"

record step_output =
  so_name :: string
  so_selector :: selector
  so_attribute :: string

definition step_output_fields_ok :: "step_output \<Rightarrow> bool" where
  "step_output_fields_ok out \<longleftrightarrow>
     identifier_ok (so_name out) \<and> selector_fields_ok (so_selector out) \<and> so_attribute out \<in> {''text'', ''value''}"

record playbook_step = operation_step +
  ps_effect :: playbook_effect
  ps_selectors :: "selector list"
  ps_checkpoint :: "page_checkpoint option"
  ps_secure_field :: "secure_field option"
  ps_outputs :: "step_output list"
  ps_timeout_seconds :: int
  ps_retry_limit :: int

definition playbook_step_fields_ok :: "playbook_step \<Rightarrow> bool" where
  "playbook_step_fields_ok s \<longleftrightarrow>
     operation_step_fields_ok s \<and> list_all selector_fields_ok (ps_selectors s)
     \<and> opt_ok page_checkpoint_fields_ok (ps_checkpoint s) \<and> opt_ok secure_field_fields_ok (ps_secure_field s)
     \<and> list_all step_output_fields_ok (ps_outputs s) \<and> 1 \<le> ps_timeout_seconds s \<and> ps_timeout_seconds s \<le> 600
     \<and> 0 \<le> ps_retry_limit s \<and> ps_retry_limit s \<le> 5"

text \<open>\<open>isinstance(self.parameters.get(key), str)\<close>.\<close>

definition text_parameter :: "playbook_step \<Rightarrow> string \<Rightarrow> bool" where
  "text_parameter s key = (case map_of (op_parameters s) key of Some (PyStr v) \<Rightarrow> True | _ \<Rightarrow> False)"

definition captures_output :: "playbook_step \<Rightarrow> bool" where
  "captures_output s =
     (case (ps_secure_field s, ps_selectors s) of
        (Some f, sel # _) \<Rightarrow> sel \<in> {sf_selector f, sf_provider_id_selector f}
      | _ \<Rightarrow> False)"

definition validate_capture :: "playbook_step \<Rightarrow> unit result" where
  "validate_capture s =
     (let navigation = (op_tool s = ''browser.navigate''); selection = (op_tool s = ''browser.select'');
          browser = starts_with ''browser.'' (op_tool s) in
      bindr (require (navigation = (op_operation s = ''navigate''))
        (ValidationError ''browser navigation must use the navigate tool and operation'')) (\<lambda>_.
      bindr (require (selection = (op_operation s = ''select''))
        (ValidationError ''browser selection must use the select tool and operation'')) (\<lambda>_.
      bindr (require (\<not> (navigation \<and> ps_selectors s \<noteq> []))
        (ValidationError ''browser navigation must not declare a selector'')) (\<lambda>_.
      bindr (require (\<not> (navigation \<and> \<not> text_parameter s ''url''))
        (ValidationError ''browser navigation requires a URL parameter'')) (\<lambda>_.
      bindr (require (\<not> (selection \<and> length (ps_selectors s) \<noteq> 1))
        (ValidationError ''browser selection requires exactly one selector'')) (\<lambda>_.
      bindr (require (\<not> (selection \<and> \<not> text_parameter s ''value''))
        (ValidationError ''browser selection requires an option label'')) (\<lambda>_.
      bindr (require (\<not> (ps_effect s = Eff_Create
          \<and> (op_stage s \<noteq> CREATE \<or> op_tool s \<noteq> ''browser.secure-capture'' \<or> ps_secure_field s = None)))
        (ValidationError ''credential creation must use secure capture in the create stage'')) (\<lambda>_.
      bindr (require (\<not> (ps_secure_field s \<noteq> None \<and> ps_effect s \<noteq> Eff_Create))
        (ValidationError ''secure fields require the create-credential effect'')) (\<lambda>_.
      bindr (require (\<not> (ps_effect s = Eff_Create \<and> captures_output s))
        (ValidationError ''secure capture must target the credential creation control, not captured output'')) (\<lambda>_.
      bindr (require (\<not> (ps_effect s = Eff_Revoke
          \<and> (op_stage s \<noteq> REVOKE \<or> op_tool s \<noteq> ''browser.revokeCredential'' \<or> ps_secure_field s \<noteq> None)))
        (ValidationError ''credential revocation must use the protected browser revoke tool'')) (\<lambda>_.
      bindr (require (\<not> (browser \<and> \<not> navigation \<and> ps_selectors s = []))
        (ValidationError ''browser actions require deterministic selectors'')) (\<lambda>_.
      bindr (require (\<not> (browser \<and> 1 < length (ps_selectors s)))
        (ValidationError ''each browser step must target exactly one control'')) (\<lambda>_.
      require (\<not> (browser \<and> ps_checkpoint s = None))
        (ValidationError ''browser actions require a deterministic page checkpoint''))))))))))))))"

definition validate_playbook_step :: "playbook_step \<Rightarrow> playbook_step result" where
  "validate_playbook_step s =
     (if playbook_step_fields_ok s then bindr (validate_capture s) (\<lambda>_. Inr s) else Inl (FieldError ''PlaybookStep''))"

record playbook_draft =
  pl_name :: string
  pl_platform :: string
  pl_allowed_domains :: "string list"
  pl_steps :: "playbook_step list"
  pl_login_url_pattern :: "string option"

definition playbook_draft_fields_ok :: "playbook_draft \<Rightarrow> bool" where
  "playbook_draft_fields_ok d \<longleftrightarrow>
     text_between 1 160 (pl_name d) \<and> text_between 1 64 (pl_platform d) \<and> pl_steps d \<noteq> []
     \<and> opt_ok (text_between 0 1024) (pl_login_url_pattern d)"

text \<open>The steps from the one that creates the credential on.\<close>

definition from_creation :: "playbook_draft \<Rightarrow> playbook_step list" where
  "from_creation d = dropWhile (\<lambda>s. ps_effect s \<noteq> Eff_Create) (pl_steps d)"

definition validate_secure_step :: "playbook_draft \<Rightarrow> playbook_step \<Rightarrow> unit result" where
  "validate_secure_step d creation =
     (case ps_secure_field creation of
        None \<Rightarrow> Inl (ValidationError ''browser playbooks require secure credential capture'')
      | Some secure \<Rightarrow>
          bindr (require (ps_outputs creation = [])
            (ValidationError ''secure credential creation cannot extract step outputs'')) (\<lambda>_.
          require (\<not> list_ex (\<lambda>s. list_ex (\<lambda>out. so_selector out = sf_selector secure) (ps_outputs s)) (pl_steps d))
            (ValidationError ''playbook outputs cannot target the secure credential field'')))"

definition validate_browser_procedure :: "playbook_draft \<Rightarrow> unit result" where
  "validate_browser_procedure d =
     bindr (require (pl_allowed_domains d \<noteq> [] \<and> truthy (pl_login_url_pattern d))
       (ValidationError ''browser playbooks require domains and a login URL pattern'')) (\<lambda>_.
     bindr (require (list_all (\<lambda>s. starts_with ''browser.'' (op_tool s)) (pl_steps d))
       (ValidationError ''playbooks contain browser steps only'')) (\<lambda>_.
     bindr (require (\<not> list_ex op_protected (pl_steps d))
       (ValidationError ''playbooks cannot declare approvals; credential controls protect operations'')) (\<lambda>_.
     bindr (require (length (filter (\<lambda>s. ps_effect s = Eff_Create) (pl_steps d)) = 1)
       (ValidationError ''browser playbooks require exactly one secure credential creation'')) (\<lambda>_.
     bindr (require (\<not> list_ex (\<lambda>s. op_stage s = CREATE) (tl (from_creation d)))
       (ValidationError ''secure credential creation must be the final create-stage step'')) (\<lambda>_.
     bindr (require (length (filter (\<lambda>s. ps_effect s = Eff_Revoke) (pl_steps d)) = 1)
       (ValidationError ''browser playbooks require exactly one credential revocation'')) (\<lambda>_.
     bindr (validate_secure_step d (hd (from_creation d))) (\<lambda>_.
     require (distinct (map op_id (pl_steps d)))
       (ValidationError ''playbook step IDs must be unique''))))))))"

definition validate_playbook_draft :: "playbook_draft \<Rightarrow> playbook_draft result" where
  "validate_playbook_draft d =
     (if playbook_draft_fields_ok d
      then bindr (mapr validate_playbook_step (pl_steps d)) (\<lambda>_. bindr (validate_browser_procedure d) (\<lambda>_. Inr d))
      else Inl (FieldError ''PlaybookDraft''))"

record playbook_version =
  plv_id :: string
  plv_organisation_id :: string
  plv_playbook_id :: string
  plv_number :: int
  plv_definition :: playbook_draft
  plv_digest :: string
  plv_state :: playbook_state
  plv_source_ids :: "string list"
  plv_published_by :: "string option"
  plv_published_at :: "int option"
  plv_created_by :: string
  plv_created_at :: int

definition playbook_version_fields_ok :: "playbook_version \<Rightarrow> bool" where
  "playbook_version_fields_ok v \<longleftrightarrow>
     identifier_ok (plv_id v) \<and> identifier_ok (plv_organisation_id v) \<and> identifier_ok (plv_playbook_id v)
     \<and> 0 < plv_number v \<and> hex64 (plv_digest v) \<and> list_all identifier_ok (plv_source_ids v)
     \<and> opt_ok identifier_ok (plv_published_by v) \<and> identifier_ok (plv_created_by v)"

definition validate_publication :: "playbook_version \<Rightarrow> unit result" where
  "validate_publication v =
     bindr (require ((plv_published_by v = None) = (plv_published_at v = None))
       (ValidationError ''playbook publisher identity and time must be set together'')) (\<lambda>_.
     require (\<not> (plv_state v = Play_Published \<and> \<not> (plv_published_by v \<noteq> None \<and> plv_published_at v \<noteq> None)))
       (ValidationError ''published playbooks require publisher identity and time''))"

definition validate_playbook_version :: "playbook_version \<Rightarrow> playbook_version result" where
  "validate_playbook_version v =
     (if playbook_version_fields_ok v
      then bindr (validate_playbook_draft (plv_definition v)) (\<lambda>_. bindr (validate_publication v) (\<lambda>_. Inr v))
      else Inl (FieldError ''PlaybookVersion''))"

section \<open>Dumps\<close>

definition dump_selector :: "selector \<Rightarrow> pyval" where
  "dump_selector s = dump_fields
     [(''kind'', Some (PyEnum (selector_kind_value (sel_kind s)))), (''value'', Some (PyStr (sel_value s))),
      (''name'', map_option PyStr (sel_name s)), (''exact'', Some (PyBool (sel_exact s)))]"

definition dump_checkpoint :: "page_checkpoint \<Rightarrow> pyval" where
  "dump_checkpoint c = dump_fields
     [(''url_pattern'', Some (PyStr (pc_url_pattern c))),
      (''required_text'', Some (PyList (map PyStr (pc_required_text c)))),
      (''forbidden_text'', Some (PyList (map PyStr (pc_forbidden_text c))))]"

definition dump_secure_field :: "secure_field \<Rightarrow> pyval" where
  "dump_secure_field f = dump_fields
     [(''name'', Some (PyStr (sf_name f))), (''selector'', Some (dump_selector (sf_selector f))),
      (''provider_id_selector'', Some (dump_selector (sf_provider_id_selector f))),
      (''provider_id_attribute'', Some (PyStr (sf_provider_id_attribute f))),
      (''provider_display_name_selector'', map_option dump_selector (sf_provider_display_name_selector f))]"

definition dump_step_output :: "step_output \<Rightarrow> pyval" where
  "dump_step_output out = dump_fields
     [(''name'', Some (PyStr (so_name out))), (''selector'', Some (dump_selector (so_selector out))),
      (''attribute'', Some (PyStr (so_attribute out)))]"

definition dump_playbook_step :: "playbook_step \<Rightarrow> pyval" where
  "dump_playbook_step s = dump_fields
     [(''id'', Some (PyStr (op_id s))), (''stage'', Some (PyEnum (stage_value (op_stage s)))),
      (''tool'', Some (PyStr (op_tool s))), (''operation'', Some (PyStr (op_operation s))),
      (''objective'', Some (PyStr (op_objective s))),
      (''parameters'', Some (PyDict (map (\<lambda>(k, v). (KeyStr k, v)) (op_parameters s)))),
      (''protected'', Some (PyBool (op_protected s))),
      (''evidence_checks'', Some (PyList (map PyStr (sort (op_evidence_checks s))))),
      (''effect'', Some (PyEnum (playbook_effect_value (ps_effect s)))),
      (''selectors'', Some (PyList (map dump_selector (ps_selectors s)))),
      (''checkpoint'', map_option dump_checkpoint (ps_checkpoint s)),
      (''secure_field'', map_option dump_secure_field (ps_secure_field s)),
      (''outputs'', Some (PyList (map dump_step_output (ps_outputs s)))),
      (''timeout_seconds'', Some (PyInt (ps_timeout_seconds s))), (''retry_limit'', Some (PyInt (ps_retry_limit s)))]"

definition dump_playbook_draft :: "playbook_draft \<Rightarrow> pyval" where
  "dump_playbook_draft d = dump_fields
     [(''name'', Some (PyStr (pl_name d))), (''platform'', Some (PyStr (pl_platform d))),
      (''allowed_domains'', Some (PyList (map PyStr (pl_allowed_domains d)))),
      (''steps'', Some (PyList (map dump_playbook_step (pl_steps d)))),
      (''login_url_pattern'', map_option PyStr (pl_login_url_pattern d))]"

section \<open>Variables (browser/playbook.py)\<close>

text \<open>The value of a variable is a text or None.\<close>

type_synonym step_context = "(string \<times> string option) list"

definition remove_prefix :: "string \<Rightarrow> string \<Rightarrow> string" where
  "remove_prefix p s = (if starts_with p s then drop (length p) s else s)"

text \<open>\<open>re.sub(r"[^a-z0-9]+", "-", text)\<close>: every run of other characters becomes one dash.\<close>

fun dashed :: "string \<Rightarrow> string" where
  "dashed [] = []"
| "dashed (c # cs) =
     (if is_lower c \<or> is_digit c then c # dashed cs
      else (case cs of
              [] \<Rightarrow> ''-''
            | d # _ \<Rightarrow> if is_lower d \<or> is_digit d then CHR ''-'' # dashed cs else dashed cs))"

definition strip_dashes :: "string \<Rightarrow> string" where
  "strip_dashes s = rev (dropWhile (\<lambda>c. c = CHR ''-'') (rev (dropWhile (\<lambda>c. c = CHR ''-'') s)))"

definition replacement_name :: "rotation_run \<Rightarrow> managed_credential \<Rightarrow> string" where
  "replacement_name run credential =
     (let provider = strip_dashes (dashed (lower_text (mc_provider credential)))
      in (if provider = [] then ''credential'' else provider) @ ''-'' @ take 24 (remove_prefix ''run_'' (run_id run)))"

definition browser_step_context ::
  "rotation_run \<Rightarrow> managed_credential \<Rightarrow> credential_generation option \<Rightarrow> credential_generation option \<Rightarrow> step_context" where
  "browser_step_context run credential old target =
     [(''run_id'', Some (run_id run)), (''credential_id'', Some (run_credential_id run)),
      (''replacement_provider_id'', Some (replacement_name run credential)),
      (''replacement_provider_display_name'', Some (replacement_name run credential)),
      (''target_generation_id'', run_target_generation_id run),
      (''target_provider_id'', Option.bind target cg_provider_id),
      (''target_secret_reference'', Option.bind target cg_secret_reference),
      (''old_generation_id'', run_current_generation_id run),
      (''old_provider_id'', Option.bind old cg_provider_id),
      (''old_provider_path'', case Option.bind old cg_provider_id of
         None \<Rightarrow> None
       | Some p \<Rightarrow> if p = [] then None else Some (dropWhile (\<lambda>c. c = CHR ''/'') p)),
      (''old_provider_display_name'', Option.bind old cg_provider_display_name),
      (''old_secret_reference'', Option.bind old cg_secret_reference)]"

definition required_variable :: "step_context \<Rightarrow> string \<Rightarrow> string result" where
  "required_variable context key =
     (case map_of context key of
        Some (Some v) \<Rightarrow> Inr v
      | _ \<Rightarrow> Inl (ValueError (''playbook variable '' @ key @ '' is unavailable'')))"

text \<open>\<open>_PLACEHOLDER\<close> at the start of a text: the name of the variable and what follows.\<close>

definition variable_char :: "char \<Rightarrow> bool" where
  "variable_char c \<longleftrightarrow> is_lower c \<or> is_digit c \<or> c = CHR ''_''"

definition placeholder_at_start :: "string \<Rightarrow> (string \<times> string) option" where
  "placeholder_at_start s =
     (if starts_with (CHR 0x24 # ''{'') s
      then (let name = takeWhile variable_char (drop 2 s); rest = drop (2 + length name) s
            in if name \<noteq> [] \<and> is_lower (hd name) \<and> starts_with ''}'' rest then Some (name, tl rest) else None)
      else None)"

lemma placeholder_shorter: "placeholder_at_start s = Some (name, rest) \<Longrightarrow> length rest < length s"
  by (cases s) (auto simp: placeholder_at_start_def Let_def split: if_splits)

function substitute :: "step_context \<Rightarrow> string \<Rightarrow> string result" where
  "substitute context [] = Inr []"
| "substitute context (c # cs) =
     (case placeholder_at_start (c # cs) of
        Some (name, rest) \<Rightarrow>
          bindr (required_variable context name) (\<lambda>v. bindr (substitute context rest) (\<lambda>r. Inr (v @ r)))
      | None \<Rightarrow> bindr (substitute context cs) (\<lambda>r. Inr (c # r)))"
  by pat_completeness auto
termination
  by (relation "measure (\<lambda>(context, s). length s)") (auto dest: placeholder_shorter)

text \<open>A text that is one placeholder becomes the value; the others have theirs replaced, with the same result.\<close>

definition resolve_text :: "step_context \<Rightarrow> string \<Rightarrow> string result" where
  "resolve_text context s =
     (case placeholder_at_start s of
        Some (name, []) \<Rightarrow> required_variable context name
      | _ \<Rightarrow> substitute context s)"

text \<open>The step that is built from the resolved values is validated again, which strips its texts.\<close>

definition resolved_text :: "step_context \<Rightarrow> string \<Rightarrow> string result" where
  "resolved_text context s = bindr (resolve_text context s) (\<lambda>t. Inr (trim t))"

fun resolve_value :: "step_context \<Rightarrow> pyval \<Rightarrow> pyval result" where
  "resolve_value context (PyStr s) = bindr (resolved_text context s) (\<lambda>t. Inr (PyStr t))"
| "resolve_value context (PyList vs) = bindr (mapr (resolve_value context) vs) (\<lambda>ws. Inr (PyList ws))"
| "resolve_value context v = Inr v"

definition resolve_opt :: "('a \<Rightarrow> 'a result) \<Rightarrow> 'a option \<Rightarrow> 'a option result" where
  "resolve_opt f v = (case v of None \<Rightarrow> Inr None | Some x \<Rightarrow> bindr (f x) (\<lambda>y. Inr (Some y)))"

definition resolve_selector :: "step_context \<Rightarrow> selector \<Rightarrow> selector result" where
  "resolve_selector context s =
     bindr (resolved_text context (sel_value s)) (\<lambda>v.
     bindr (resolve_opt (resolved_text context) (sel_name s)) (\<lambda>n.
     Inr (s\<lparr>sel_value := v, sel_name := n\<rparr>)))"

definition resolve_checkpoint :: "step_context \<Rightarrow> page_checkpoint \<Rightarrow> page_checkpoint result" where
  "resolve_checkpoint context c =
     bindr (resolved_text context (pc_url_pattern c)) (\<lambda>u.
     bindr (mapr (resolved_text context) (pc_required_text c)) (\<lambda>r.
     bindr (mapr (resolved_text context) (pc_forbidden_text c)) (\<lambda>f.
     Inr (c\<lparr>pc_url_pattern := u, pc_required_text := r, pc_forbidden_text := f\<rparr>))))"

definition resolve_secure_field :: "step_context \<Rightarrow> secure_field \<Rightarrow> secure_field result" where
  "resolve_secure_field context f =
     bindr (resolved_text context (sf_name f)) (\<lambda>n.
     bindr (resolve_selector context (sf_selector f)) (\<lambda>s.
     bindr (resolve_selector context (sf_provider_id_selector f)) (\<lambda>p.
     bindr (resolved_text context (sf_provider_id_attribute f)) (\<lambda>a.
     bindr (resolve_opt (resolve_selector context) (sf_provider_display_name_selector f)) (\<lambda>d.
     Inr (f\<lparr>sf_name := n, sf_selector := s, sf_provider_id_selector := p, sf_provider_id_attribute := a,
       sf_provider_display_name_selector := d\<rparr>))))))"

definition resolve_output :: "step_context \<Rightarrow> step_output \<Rightarrow> step_output result" where
  "resolve_output context out =
     bindr (resolved_text context (so_name out)) (\<lambda>n.
     bindr (resolve_selector context (so_selector out)) (\<lambda>s.
     bindr (resolved_text context (so_attribute out)) (\<lambda>a.
     Inr (out\<lparr>so_name := n, so_selector := s, so_attribute := a\<rparr>))))"

definition resolve_playbook_step :: "step_context \<Rightarrow> bool option \<Rightarrow> playbook_step \<Rightarrow> playbook_step result" where
  "resolve_playbook_step context protect s =
     bindr (resolved_text context (op_id s)) (\<lambda>i.
     bindr (resolved_text context (op_tool s)) (\<lambda>tool.
     bindr (resolved_text context (op_operation s)) (\<lambda>operation.
     bindr (resolved_text context (op_objective s)) (\<lambda>objective.
     bindr (mapr (\<lambda>(k, v). bindr (resolve_value context v) (\<lambda>w. Inr (k, w))) (op_parameters s)) (\<lambda>parameters.
     bindr (mapr (resolved_text context) (sort (op_evidence_checks s))) (\<lambda>checks.
     bindr (mapr (resolve_selector context) (ps_selectors s)) (\<lambda>selectors.
     bindr (resolve_opt (resolve_checkpoint context) (ps_checkpoint s)) (\<lambda>checkpoint.
     bindr (resolve_opt (resolve_secure_field context) (ps_secure_field s)) (\<lambda>secure.
     bindr (mapr (resolve_output context) (ps_outputs s)) (\<lambda>outputs.
     validate_playbook_step
       (s\<lparr>op_id := i, op_tool := tool, op_operation := operation, op_objective := objective,
         op_parameters := parameters,
         op_protected := (case protect of None \<Rightarrow> op_protected s | Some b \<Rightarrow> b), op_evidence_checks := checks, ps_selectors := selectors,
         ps_checkpoint := checkpoint, ps_secure_field := secure, ps_outputs := outputs\<rparr>)))))))))))"

end
