(* ===== verification/Stage_Services.thy ===== *)
theory Stage_Services imports Broker Incident_Service Probes Playbooks begin

text \<open>
  What the stage coordinator works with: the contracts of packages/contracts/src/contracts/coordinator.py and the
  ones of agent.py it uses, the documents of the catalog, the services it calls and the operations on them, and
  the verification service of server/verifier/service.py.

  The broker, the browser executor, the agents, the probes, the evidence sink and the notifier are given as
  functions on the whole state: whatever else happens while they run is part of what they do. Readings of the
  clock are numbered. The values that the source dumps into a context, an output or an evidence document are
  kept as they are.
\<close>

section \<open>Contracts (coordinator.py, agent.py)\<close>

datatype execution_status = Exec_Succeeded | Exec_Paused | Exec_Failed | Exec_Recovered

fun execution_status_value :: "execution_status \<Rightarrow> string" where
  "execution_status_value Exec_Succeeded = ''succeeded''"
| "execution_status_value Exec_Paused = ''paused''"
| "execution_status_value Exec_Failed = ''failed''"
| "execution_status_value Exec_Recovered = ''recovered''"

record stage_request =
  sq_organisation_id :: string
  sq_run_id :: string
  sq_stage :: stage
  sq_expected_revision :: int
  sq_fencing_token :: int

text \<open>The items of an output: JSON, and the dumps of contracts.\<close>

datatype output_item =
    Out json
  | Out_Generation credential_generation
  | Out_Plan rotation_plan
  | Out_Report verification_report
  | Out_Request protected_action string string

type_synonym stage_output = "(string \<times> output_item) list"

record stage_result =
  sr_id :: string
  sr_organisation_id :: string
  sr_run_id :: string
  sr_stage :: stage
  sr_status :: execution_status
  sr_checks :: "string list"
  sr_evidence_ids :: "string list"
  sr_bindings :: stage_bindings
  sr_recovery_mode :: "recovery_mode option"
  sr_output :: stage_output
  sr_reason :: "string option"
  sr_retryable :: bool
  sr_started_at :: int
  sr_completed_at :: int

definition stage_result_fields_ok :: "stage_result \<Rightarrow> bool" where
  "stage_result_fields_ok r \<longleftrightarrow>
     identifier_ok (sr_id r) \<and> identifier_ok (sr_organisation_id r) \<and> identifier_ok (sr_run_id r)
     \<and> list_all identifier_ok (sr_evidence_ids r) \<and> stage_bindings_fields_ok (sr_bindings r)
     \<and> opt_ok (text_between 0 1024) (sr_reason r)"

definition validate_stage_result :: "stage_result \<Rightarrow> unit result" where
  "validate_stage_result r =
     (let completed = (sr_status r \<in> {Exec_Succeeded, Exec_Recovered}) in
      bindr (require (\<not> (completed \<and> (sr_checks r = [] \<or> sr_evidence_ids r = [] \<or> sr_reason r \<noteq> None)))
        (ValidationError ''completed stage execution requires checks and evidence'')) (\<lambda>_.
      bindr (require (\<not> (\<not> completed \<and> \<not> truthy (sr_reason r)))
        (ValidationError ''paused and failed stage execution requires a reason'')) (\<lambda>_.
      require ((sr_status r = Exec_Recovered) = (sr_recovery_mode r \<noteq> None))
        (ValidationError ''recovered execution requires exactly one recovery mode''))))"

definition make_stage_result :: "stage_result \<Rightarrow> stage_result result" where
  "make_stage_result r =
     (if stage_result_fields_ok r then bindr (validate_stage_result r) (\<lambda>_. Inr r) else Inl (FieldError ''StageExecutionResult''))"

datatype agent_kind = Agent_Inventory | Agent_Planner | Agent_Playbook | Agent_Operator

datatype task_item =
    Item_Run rotation_run
  | Item_Credential managed_credential
  | Item_Connection connection
  | Item_Bindings "consumer_binding list"
  | Item_Controls control_version
  | Item_Playbook "playbook_version option"
  | Item_Generation "credential_generation option"
  | Item_Plan rotation_plan
  | Item_Recovery recovery_plan
  | Item_Text string
  | Item_Nothing

record agent_task =
  at_id :: string
  at_organisation_id :: string
  at_run_id :: string
  at_agent :: agent_kind
  at_skill :: string
  at_objective :: string
  at_context :: "(string \<times> task_item) list"
  at_requested_at :: int

definition make_agent_task :: "agent_task \<Rightarrow> agent_task result" where
  "make_agent_task t =
     (if identifier_ok (at_id t) \<and> identifier_ok (at_organisation_id t) \<and> identifier_ok (at_run_id t)
         \<and> text_between 1 96 (at_skill t) \<and> text_between 1 2048 (at_objective t)
      then Inr t else Inl (FieldError ''AgentTask''))"

record agent_result =
  ar_succeeded :: bool
  ar_output :: "(string \<times> json) list"
  ar_evidence_ids :: "string list"
  ar_error :: "string option"

text \<open>\<open>ConnectionWaiter\<close> of browser.py, and what the coordinator reads of a principal.\<close>

record connection_waiter =
  cw_organisation_id :: string
  cw_connection_id :: string
  cw_run_ids :: "string list"
  cw_revision :: int

definition make_waiter :: "connection_waiter \<Rightarrow> connection_waiter result" where
  "make_waiter w =
     (if identifier_ok (cw_organisation_id w) \<and> identifier_ok (cw_connection_id w) \<and> list_all identifier_ok (cw_run_ids w)
         \<and> 0 \<le> cw_revision w
      then Inr w else Inl (FieldError ''ConnectionWaiter''))"

record principal_doc =
  pri_enabled :: bool
  pri_roles :: "string list"

section \<open>Plans and recoveries\<close>

fun rotation_strategy_value :: "rotation_strategy \<Rightarrow> string" where
  "rotation_strategy_value PARALLEL = ''parallel''"
| "rotation_strategy_value DUAL = ''dual-slot''"
| "rotation_strategy_value IMMEDIATE = ''immediate''"
| "rotation_strategy_value MULTI = ''multi-consumer''"

definition make_plan :: "rotation_plan \<Rightarrow> rotation_plan result" where
  "make_plan p = (if rotation_plan_fields_ok p then validate_rollout p else Inl (FieldError ''RotationPlan''))"

definition dump_plan :: "rotation_plan \<Rightarrow> pyval" where
  "dump_plan p = dump_fields
     [(''id'', Some (PyStr (plan_id p))), (''organisation_id'', Some (PyStr (plan_organisation_id p))),
      (''run_id'', Some (PyStr (plan_run_id p))), (''credential_id'', Some (PyStr (plan_credential_id p))),
      (''control_version'', Some (PyStr (plan_control_version p))),
      (''browser_playbook_version'', map_option PyStr (plan_browser_playbook_version p)),
      (''strategy'', Some (PyEnum (rotation_strategy_value (plan_strategy p)))),
      (''target_scopes'', Some (PySet (map PyStr (plan_target_scopes p)))),
      (''consumer_ids'', Some (PyList (map PyStr (plan_consumer_ids p)))),
      (''rollout'', Some (PyList (map PyInt (plan_rollout p)))),
      (''observation_seconds'', Some (PyInt (plan_observation_seconds p))),
      (''recovery_ids'', Some (PyDict (map (\<lambda>(st, i). (KeyEnum (stage_value st), PyStr i)) (plan_recovery_ids p))))]"

definition make_recovery_plan :: "recovery_plan \<Rightarrow> recovery_plan result" where
  "make_recovery_plan p =
     (if identifier_ok (rp_id p) \<and> identifier_ok (rp_organisation_id p) \<and> identifier_ok (rp_run_id p)
         \<and> rp_steps p \<noteq> [] \<and> list_all recovery_action_fields_ok (rp_steps p)
      then Inr p else Inl (FieldError ''RecoveryPlan''))"

definition make_recovery_outcome :: "recovery_outcome \<Rightarrow> recovery_outcome result" where
  "make_recovery_outcome r =
     (if identifier_ok (ro_id r) \<and> identifier_ok (ro_organisation_id r) \<and> identifier_ok (ro_run_id r)
         \<and> identifier_ok (ro_recovery_id r) \<and> ro_checks r \<noteq> [] \<and> ro_evidence_ids r \<noteq> []
         \<and> list_all identifier_ok (ro_evidence_ids r)
      then Inr r else Inl (FieldError ''RecoveryResult''))"

section \<open>State and exceptions\<close>

record stage_documents =
  sd_connections :: "string \<times> string \<rightharpoonup> connection"
  sd_plans :: "string \<times> string \<rightharpoonup> rotation_plan"
  sd_recoveries :: "string \<times> string \<rightharpoonup> recovery_plan"
  sd_recovery_results :: "string \<times> string \<times> string \<rightharpoonup> recovery_outcome"
  sd_probe_versions :: "string \<times> string \<rightharpoonup> probe_version"
  sd_playbook_versions :: "string \<times> string \<times> string \<rightharpoonup> playbook_version"
  sd_principals :: "string \<Rightarrow> principal_doc list"
  sd_waiters :: "string \<times> string \<rightharpoonup> connection_waiter"
  sd_results :: "string \<times> string \<rightharpoonup> stage_result"

text \<open>
  The incidents, the runs with their controls, locks and dedupe documents, and the audit log are those of the
  incident service; \<open>sx_controls\<close> is the dictionary \<open>_controls\<close> of the coordinator.
\<close>

record 'w stage_state =
  sx_services :: incident_state
  sx_generations :: generation_store
  sx_approvals :: approval_store
  sx_documents :: stage_documents
  sx_controls :: "string \<times> string \<times> string \<rightharpoonup> control_version \<times> gate_policy"
  sx_ticks :: nat
  sx_world :: 'w

text \<open>
  \<open>StageExecutionError\<close>, \<open>BrowserPauseError\<close>, \<open>BrowserWorkerError\<close> and any other exception.
\<close>

datatype stage_exception =
    Stage_Failure string bool
  | Browser_Pause string stage_output
  | Browser_Failure string stage_output
  | Other_Error error

type_synonym ('w, 'a) stage_op = "('w stage_state, stage_exception, 'a) effect"

definition value_error :: "string \<Rightarrow> stage_exception" where
  "value_error m = Other_Error (ValueError m)"

definition checked :: "'a result \<Rightarrow> ('w, 'a) stage_op" where
  "checked r s = (case r of Inl e \<Rightarrow> (Inl (Other_Error e), s) | Inr x \<Rightarrow> (Inr x, s))"

definition fetch :: "('w stage_state \<Rightarrow> 'a result) \<Rightarrow> ('w, 'a) stage_op" where
  "fetch f s = checked (f s) s"

definition needs :: "bool \<Rightarrow> string \<Rightarrow> ('w, unit) stage_op" where
  "needs b m = requires b (value_error m)"

text \<open>\<open>_required\<close>.\<close>

definition required :: "'a option \<Rightarrow> string \<Rightarrow> ('w, 'a) stage_op" where
  "required v label = (case v of None \<Rightarrow> raises (value_error (label @ '' is missing'')) | Some x \<Rightarrow> yields x)"

definition on_generations :: "(generation_store \<Rightarrow> ('a \<times> generation_store) result) \<Rightarrow> ('w, 'a) stage_op" where
  "on_generations f s =
     (case f (sx_generations s) of
        Inl e \<Rightarrow> (Inl (Other_Error e), s)
      | Inr (x, g) \<Rightarrow> (Inr x, s\<lparr>sx_generations := g\<rparr>))"

section \<open>The services\<close>

datatype evidence_content =
    Stage_Evidence stage "string list" stage_output
  | Failure_Evidence stage string
  | Audit_Manifest "audit_event list"

text \<open>
  A session of the browser, as far as the executor reads it, and what it posts to the worker.
\<close>

datatype browser_status =
    Br_Provisioning | Br_Ready | Br_Running | Br_Paused | Br_Takeover | Br_Capturing | Br_Complete | Br_Failed
  | Br_Terminated

record browser_session =
  bs_id :: string
  bs_organisation_id :: string
  bs_status :: browser_status
  bs_max_steps :: nat
  bs_revision :: int

datatype browser_payload =
    Post_Step playbook_step
  | Post_Propose playbook_step string
  | Post_Execute string bool

text \<open>
  \<open>sv_text\<close> gives \<open>type(error).__name__: error\<close> of an exception, which the reason of a failed stage is made of.
  \<open>sv_keys\<close> are the names of documents in the order in which a query returns them, and \<open>sv_str\<close> is \<open>str\<close> of a
  value that is no text. Of the browser, the session and the posts to its worker are given, of the probes
  each single one.
\<close>

record 'w stage_services =
  sv_sha :: "string \<Rightarrow> string"
  sv_time :: "int \<Rightarrow> string"
  sv_fmt :: "int \<Rightarrow> string"
  sv_ip :: "string \<Rightarrow> bool"
  sv_region :: string
  sv_text :: "stage_exception \<Rightarrow> string"
  sv_keys :: "string list"
  sv_clock :: "nat \<Rightarrow> int"
  sv_broker :: "rotation_run \<Rightarrow> string \<Rightarrow> string \<Rightarrow> string \<Rightarrow> (string \<times> json) list \<Rightarrow> string option \<Rightarrow> ('w, tool_result) stage_op"
  sv_session :: "rotation_run \<Rightarrow> connection \<Rightarrow> playbook_version \<Rightarrow> managed_credential \<Rightarrow> string list
    \<Rightarrow> ('w, browser_session) stage_op"
  sv_post :: "rotation_run \<Rightarrow> browser_session \<Rightarrow> string \<Rightarrow> string \<Rightarrow> browser_payload \<Rightarrow> approval option
    \<Rightarrow> ('w, (string \<times> json) list) stage_op"
  sv_read_session :: "json option \<Rightarrow> browser_session result"
  sv_install :: "(rotation_run \<Rightarrow> browser_session \<Rightarrow> ('w, unit) stage_op) option"
  sv_freeze :: "string \<Rightarrow> string \<Rightarrow> int \<Rightarrow> ('w, unit) stage_op"
  sv_str :: "json \<Rightarrow> string"
  sv_terminate :: "rotation_run \<Rightarrow> ('w, unit) stage_op"
  sv_pause :: "rotation_run \<Rightarrow> ('w, unit) stage_op"
  sv_agents :: "agent_task \<Rightarrow> ('w, agent_result) stage_op"
  sv_probe :: "probe_definition \<Rightarrow> connection \<Rightarrow> connector_context \<Rightarrow> connection option \<Rightarrow> ('w, probe_result) stage_op"
  sv_evidence :: "string \<Rightarrow> string \<Rightarrow> string \<Rightarrow> evidence_content \<Rightarrow> int \<Rightarrow> ('w, string) stage_op"
  sv_notify :: "(string \<Rightarrow> string \<Rightarrow> string \<Rightarrow> string \<Rightarrow> ('w, unit) stage_op) option"

definition tick :: "'w stage_services \<Rightarrow> ('w, int) stage_op" where
  "tick sv s = (Inr (sv_clock sv (sx_ticks s)), s\<lparr>sx_ticks := sx_ticks s + 1\<rparr>)"

definition stage_digest :: "'w stage_services \<Rightarrow> pyval \<Rightarrow> ('w, string) stage_op" where
  "stage_digest sv v = checked (digest (sv_sha sv) (sv_time sv) v)"

section \<open>The catalog\<close>

definition get_run :: "string \<Rightarrow> string \<Rightarrow> ('w, rotation_run) stage_op" where
  "get_run org i = fetch (\<lambda>s. catalog_get (st_runs (ic_runs (sx_services s))) validate_run ''runs'' org i)"

definition get_managed :: "string \<Rightarrow> string \<Rightarrow> ('w, managed_credential) stage_op" where
  "get_managed org i = fetch (\<lambda>s. get_credential org i (sx_generations s))"

definition get_generation :: "string \<Rightarrow> string \<Rightarrow> ('w, credential_generation) stage_op" where
  "get_generation org i = fetch (\<lambda>s. catalog_get (gs_generations (sx_generations s)) validate_generation ''generations'' org i)"

definition get_connection :: "'w stage_services \<Rightarrow> string \<Rightarrow> string \<Rightarrow> ('w, connection) stage_op" where
  "get_connection sv org i =
     fetch (\<lambda>s. catalog_get (sd_connections (sx_documents s)) (validate_connection (sv_ip sv)) ''connections'' org i)"

definition get_plan :: "string \<Rightarrow> string \<Rightarrow> ('w, rotation_plan) stage_op" where
  "get_plan org i = fetch (\<lambda>s. catalog_get (sd_plans (sx_documents s)) make_plan ''plans'' org i)"

definition get_recovery :: "string \<Rightarrow> string \<Rightarrow> ('w, recovery_plan) stage_op" where
  "get_recovery org i = fetch (\<lambda>s. catalog_get (sd_recoveries (sx_documents s)) make_recovery_plan ''recovery'' org i)"

definition get_probe_version :: "string \<Rightarrow> string \<Rightarrow> ('w, probe_version) stage_op" where
  "get_probe_version org i =
     fetch (\<lambda>s. catalog_get (sd_probe_versions (sx_documents s)) validate_probe_version ''probe-versions'' org i)"

definition get_playbook_version :: "string \<Rightarrow> string \<Rightarrow> string \<Rightarrow> ('w, playbook_version) stage_op" where
  "get_playbook_version org i v =
     fetch (\<lambda>s. bindr (segments [org, i, v]) (\<lambda>_.
       case sd_playbook_versions (sx_documents s) (org, i, v) of
         None \<Rightarrow> Inl (ResourceNotFoundError (''resource organisations/'' @ org @ ''/playbooks/'' @ i @ ''/versions/'' @ v
                   @ '' was not found''))
       | Some doc \<Rightarrow> validate_playbook_version doc))"

definition get_action :: "string \<Rightarrow> string \<Rightarrow> ('w, protected_action) stage_op" where
  "get_action org i = fetch (\<lambda>s. catalog_get (as_actions (sx_approvals s)) validate_action ''actions'' org i)"

text \<open>A create, and \<open>_create_once\<close>, which accepts a document that is already there with the same value.\<close>

definition create_document ::
  "string list \<Rightarrow> string \<Rightarrow> (stage_documents \<Rightarrow> 'v option) \<Rightarrow> (stage_documents \<Rightarrow> stage_documents) \<Rightarrow> ('w, unit) stage_op" where
  "create_document segs path lookup put =
     bindx (checked (segments segs)) (\<lambda>_ s.
     if lookup (sx_documents s) \<noteq> None
     then (Inl (Other_Error (ResourceConflictError (''resource '' @ path @ '' already exists''))), s)
     else (Inr (), s\<lparr>sx_documents := put (sx_documents s)\<rparr>))"

definition create_once ::
  "string list \<Rightarrow> string \<Rightarrow> (stage_documents \<Rightarrow> 'v option) \<Rightarrow> ('v \<Rightarrow> 'v result) \<Rightarrow> 'v
     \<Rightarrow> (stage_documents \<Rightarrow> stage_documents) \<Rightarrow> ('w, unit) stage_op" where
  "create_once segs path lookup validate v put =
     catches (create_document segs path lookup put)
       (\<lambda>e. case e of
          Other_Error (ResourceConflictError m) \<Rightarrow>
            bindx (fetch (\<lambda>s. case lookup (sx_documents s) of
                       None \<Rightarrow> Inl (ResourceNotFoundError (''resource '' @ path @ '' was not found''))
                     | Some doc \<Rightarrow> validate doc)) (\<lambda>current.
            requires (current = v) e)
        | _ \<Rightarrow> raises e)"

definition create_plan :: "rotation_plan \<Rightarrow> ('w, unit) stage_op" where
  "create_plan p =
     (let k = (plan_organisation_id p, plan_id p) in
      create_once [fst k, snd k] (''organisations/'' @ fst k @ ''/plans/'' @ snd k) (\<lambda>d. sd_plans d k) make_plan p
        (\<lambda>d. d\<lparr>sd_plans := (sd_plans d)(k \<mapsto> p)\<rparr>))"

definition create_recovery :: "recovery_plan \<Rightarrow> ('w, unit) stage_op" where
  "create_recovery p =
     (let k = (rp_organisation_id p, rp_id p) in
      create_once [fst k, snd k] (''organisations/'' @ fst k @ ''/recovery/'' @ snd k) (\<lambda>d. sd_recoveries d k)
        make_recovery_plan p (\<lambda>d. d\<lparr>sd_recoveries := (sd_recoveries d)(k \<mapsto> p)\<rparr>))"

definition create_recovery_result :: "recovery_outcome \<Rightarrow> ('w, unit) stage_op" where
  "create_recovery_result r =
     (let k = (ro_organisation_id r, ro_recovery_id r, ro_id r) in
      create_once [fst k, fst (snd k), snd (snd k)]
        (''organisations/'' @ fst k @ ''/recovery/'' @ fst (snd k) @ ''/results/'' @ snd (snd k))
        (\<lambda>d. sd_recovery_results d k) make_recovery_outcome r
        (\<lambda>d. d\<lparr>sd_recovery_results := (sd_recovery_results d)(k \<mapsto> r)\<rparr>))"

definition create_result :: "string \<Rightarrow> string \<Rightarrow> stage_result \<Rightarrow> ('w, unit) stage_op" where
  "create_result org i r =
     create_document [org, i] (''organisations/'' @ org @ ''/stages/'' @ i) (\<lambda>d. sd_results d (org, i))
       (\<lambda>d. d\<lparr>sd_results := (sd_results d)((org, i) \<mapsto> r)\<rparr>)"

text \<open>The queries of \<open>_query\<close>: bindings and approvals.\<close>

definition query_bindings :: "'w stage_services \<Rightarrow> string \<Rightarrow> string \<Rightarrow> ('w, consumer_binding list) stage_op" where
  "query_bindings sv org credential_id =
     fetch (\<lambda>s. bindr (segments [org]) (\<lambda>_.
       mapr validate_binding
         (filter (\<lambda>b. cb_credential_id b = credential_id)
           (List.map_filter (\<lambda>i. gs_bindings (sx_generations s) (org, i)) (sv_keys sv)))))"

definition query_approvals :: "string \<Rightarrow> string \<Rightarrow> ('w, approval list) stage_op" where
  "query_approvals org run =
     fetch (\<lambda>s. bindr (segments [org]) (\<lambda>_.
       mapr validate_approval
         (filter (\<lambda>a. appr_run_id a = run) (map snd (sort_key fst (as_approvals (sx_approvals s) org))))))"

section \<open>The verification service (verifier/service.py)\<close>

definition run_probe :: "'w stage_services \<Rightarrow> string \<Rightarrow> connector_context \<Rightarrow> probe_definition \<Rightarrow> ('w, probe_result) stage_op" where
  "run_probe sv org context definition =
     bindx (get_connection sv org (pd_connection_id definition)) (\<lambda>c.
     bindx (case pd_secret_connection_id definition of
              None \<Rightarrow> yields None
            | Some i \<Rightarrow> bindx (get_connection sv org i) (\<lambda>c. yields (Some c))) (\<lambda>secret_connection.
     sv_probe sv definition c context secret_connection))"

definition built_report ::
  "string \<Rightarrow> string \<Rightarrow> string \<Rightarrow> string \<Rightarrow> probe_result list \<Rightarrow> int \<Rightarrow> int \<Rightarrow> verification_report" where
  "built_report report_id org run generation_id results started_at completed_at =
     \<lparr>vr_id = report_id, vr_organisation_id = org, vr_run_id = run, vr_generation_id = generation_id,
      vr_status = (if pr_status ` set results = {Ver_Passed} then Ver_Passed else Ver_Failed), vr_results = results,
      vr_checks = (\<Union>r\<in>set results. pr_checks r), vr_evidence_ids = concat (map pr_evidence_ids results),
      vr_started_at = started_at, vr_completed_at = completed_at\<rparr>"

definition verify_generation ::
  "'w stage_services \<Rightarrow> string \<Rightarrow> string \<Rightarrow> string \<Rightarrow> string \<Rightarrow> probe_definition list \<Rightarrow> connector_context
     \<Rightarrow> ('w, verification_report) stage_op" where
  "verify_generation sv report_id org run generation_id definitions context =
     bindx (requires (definitions \<noteq> [])
       (Other_Error (ResourceConflictError ''verification requires at least one deterministic probe''))) (\<lambda>_.
     bindx (requires (run_id (ctx_run context) = run \<and> run_organisation_id (ctx_run context) = org)
       (Other_Error (ResourceConflictError ''verification context belongs to another run''))) (\<lambda>_.
     bindx (requires (list_all (\<lambda>d. pd_organisation_id d = org) definitions)
       (Other_Error (ResourceConflictError ''verification probes cross organisation boundaries''))) (\<lambda>_.
     bindx (tick sv) (\<lambda>started_at.
     bindx (mapx (run_probe sv org context) definitions) (\<lambda>results.
     bindx (tick sv) (\<lambda>completed_at.
     bindx (checked (validate_report (built_report report_id org run generation_id results started_at completed_at))) (\<lambda>report.
     on_generations (save_report report))))))))"

end
