(* ===== verification/Stage_Checks.thy ===== *)
theory Stage_Checks imports Stage_Services begin

text \<open>
  What the stages of server/coordinator/service.py share: the pinned controls of a run, its rotation context, the
  probes of a stage and the verification of a generation, the checks a report proves, and the approval of a
  protected step.
\<close>

section \<open>Controls and context\<close>

definition get_run_controls :: "string \<Rightarrow> string \<Rightarrow> string \<Rightarrow> ('w, control_version) stage_op" where
  "get_run_controls org credential_id version_id =
     fetch (\<lambda>s. bindr (segments [org, credential_id, version_id]) (\<lambda>_.
       case st_controls (ic_runs (sx_services s)) (org, credential_id, version_id) of
         None \<Rightarrow> Inl (ResourceNotFoundError (''resource organisations/'' @ org @ ''/credentials/'' @ credential_id
                   @ ''/control-versions/'' @ version_id @ '' was not found''))
       | Some doc \<Rightarrow> validate_control_version doc))"

definition load_control :: "'w stage_services \<Rightarrow> rotation_run \<Rightarrow> ('w, control_version \<times> gate_policy) stage_op" where
  "load_control sv run =
     bindx (get_run_controls (run_organisation_id run) (run_credential_id run) (run_control_version run)) (\<lambda>version.
     bindx (stage_digest sv (dump_control_definition (cv_definition version))) (\<lambda>d.
     bindx (needs (cv_organisation_id version = run_organisation_id run \<and> cv_credential_id version = run_credential_id run
         \<and> cv_id version = run_control_version run \<and> cv_digest version = d)
       ''run control version is not immutable and authorised'') (\<lambda>_.
     bindx (checked (make_gate_policy (Some (cd_required_checks (cv_definition version))))) (\<lambda>gates s.
     (Inr (version, gates),
      s\<lparr>sx_controls := (sx_controls s)
         ((run_organisation_id run, run_credential_id run, run_control_version run) \<mapsto> (version, gates))\<rparr>)))))"

definition stage_control :: "'w stage_services \<Rightarrow> rotation_run \<Rightarrow> ('w, control_version \<times> gate_policy) stage_op" where
  "stage_control sv run s =
     (case sx_controls s (run_organisation_id run, run_credential_id run, run_control_version run) of
        Some current \<Rightarrow> (Inr current, s)
      | None \<Rightarrow> load_control sv run s)"

definition stage_definition :: "'w stage_services \<Rightarrow> rotation_run \<Rightarrow> ('w, control_definition) stage_op" where
  "stage_definition sv run = bindx (stage_control sv run) (\<lambda>(version, gates). yields (cv_definition version))"

definition run_credential :: "rotation_run \<Rightarrow> ('w, managed_credential) stage_op" where
  "run_credential run = get_managed (run_organisation_id run) (run_credential_id run)"

definition run_bindings :: "'w stage_services \<Rightarrow> rotation_run \<Rightarrow> managed_credential \<Rightarrow> ('w, consumer_binding list) stage_op" where
  "run_bindings sv run credential = query_bindings sv (run_organisation_id run) (mc_id credential)"

definition optional_generation :: "string \<Rightarrow> string option \<Rightarrow> ('w, credential_generation option) stage_op" where
  "optional_generation org generation_id =
     (case generation_id of
        None \<Rightarrow> yields None
      | Some i \<Rightarrow> bindx (get_generation org i) (\<lambda>g. yields (Some g)))"

definition run_target :: "rotation_run \<Rightarrow> ('w, credential_generation) stage_op" where
  "run_target run =
     bindx (optional_generation (run_organisation_id run) (run_target_generation_id run)) (\<lambda>value.
     case value of None \<Rightarrow> raises (value_error ''run has no target generation'') | Some g \<Rightarrow> yields g)"

definition run_old :: "rotation_run \<Rightarrow> ('w, credential_generation) stage_op" where
  "run_old run =
     bindx (required (run_current_generation_id run) ''old generation'') (\<lambda>i. get_generation (run_organisation_id run) i)"

record rotation_context =
  rx_credential :: managed_credential
  rx_provider :: connection
  rx_secret_store :: connection
  rx_bindings :: "consumer_binding list"
  rx_runtimes :: "(string \<times> connection) list"
  rx_playbook :: "playbook_version option"

text \<open>The property \<open>connections\<close>: one connection for every name.\<close>

definition by_id :: "connection list \<Rightarrow> (string \<times> connection) list" where
  "by_id cs = foldl (\<lambda>d c. AList.update (con_id c) c d) [] cs"

definition rx_connections :: "rotation_context \<Rightarrow> connection list" where
  "rx_connections x = map snd (by_id ([rx_provider x, rx_secret_store x] @ map snd (rx_runtimes x)))"

definition binding_runtime :: "'w stage_services \<Rightarrow> rotation_run \<Rightarrow> consumer_binding \<Rightarrow> ('w, connection) stage_op" where
  "binding_runtime sv run binding =
     bindx (get_connection sv (run_organisation_id run) (cb_runtime_connection_id binding)) (\<lambda>c.
     bindx (needs (Role_Runtime \<in> set (con_roles c) \<and> con_interface c = If_Api)
       ''consumer runtime connection changed'') (\<lambda>_. yields c))"

definition browser_playbook :: "'w stage_services \<Rightarrow> rotation_run \<Rightarrow> connection \<Rightarrow> ('w, playbook_version option) stage_op" where
  "browser_playbook sv run provider =
     (if con_interface provider = If_Browser
      then
        bindx (required (con_playbook_id provider) ''browser connection playbook'') (\<lambda>i.
        bindx (required (con_playbook_version_id provider) ''browser connection playbook version'') (\<lambda>v.
        bindx (get_playbook_version (run_organisation_id run) i v) (\<lambda>version.
        bindx (stage_digest sv (dump_playbook_draft (plv_definition version))) (\<lambda>d.
        bindx (needs (plv_state version = Play_Published \<and> plv_digest version = d
            \<and> pl_platform (plv_definition version) = con_platform provider)
          ''browser connection playbook is not published and immutable'') (\<lambda>_.
        bindx (needs (run_browser_playbook_version run \<in> {None, Some (plv_id version)})
          ''run browser playbook binding changed'') (\<lambda>_. yields (Some version)))))))
      else
        bindx (needs (run_browser_playbook_version run = None)
          ''API rotation cannot acquire a browser playbook'') (\<lambda>_. yields None))"

definition rotation_context_of :: "'w stage_services \<Rightarrow> rotation_run \<Rightarrow> ('w, rotation_context) stage_op" where
  "rotation_context_of sv run =
     bindx (run_credential run) (\<lambda>credential.
     bindx (get_connection sv (run_organisation_id run) (mc_connection_id credential)) (\<lambda>provider.
     bindx (get_connection sv (run_organisation_id run) (mc_secret_store_connection_id credential)) (\<lambda>secret_store.
     bindx (needs (Role_Provider \<in> set (con_roles provider) \<and> con_platform provider = mc_provider credential)
       ''credential provider connection changed'') (\<lambda>_.
     bindx (needs (Role_Secret_Store \<in> set (con_roles secret_store) \<and> con_interface secret_store = If_Api)
       ''credential secret-store connection changed'') (\<lambda>_.
     bindx (run_bindings sv run credential) (\<lambda>bindings.
     bindx (mapx (binding_runtime sv run) bindings) (\<lambda>runtimes.
     bindx (browser_playbook sv run provider) (\<lambda>version.
     yields \<lparr>rx_credential = credential, rx_provider = provider, rx_secret_store = secret_store,
       rx_bindings = bindings, rx_runtimes = by_id runtimes, rx_playbook = version\<rparr>))))))))"

definition step_context_of :: "rotation_run \<Rightarrow> ('w, step_context) stage_op" where
  "step_context_of run =
     bindx (optional_generation (run_organisation_id run) (run_target_generation_id run)) (\<lambda>target.
     bindx (optional_generation (run_organisation_id run) (run_current_generation_id run)) (\<lambda>old.
     bindx (run_credential run) (\<lambda>credential.
     yields (browser_step_context run credential old target))))"

section \<open>Probes\<close>

definition probe_ids :: "control_definition \<Rightarrow> stage \<Rightarrow> string list" where
  "probe_ids d st = (case map_of (cd_probe_versions d) st of None \<Rightarrow> [] | Some ids \<Rightarrow> ids)"

definition revocation_kind :: "probe_kind \<Rightarrow> bool" where
  "revocation_kind k \<longleftrightarrow> k \<in> {Probe_Provider, Probe_Credential}"

definition probe_generation :: "rotation_run \<Rightarrow> probe_definition \<Rightarrow> ('w, string option) stage_op" where
  "probe_generation run d =
     (case pd_generation_binding d of
        Bind_Target \<Rightarrow> bindx (required (run_target_generation_id run) ''target generation'') (\<lambda>i. yields (Some i))
      | Bind_Current \<Rightarrow> bindx (required (run_current_generation_id run) ''current generation'') (\<lambda>i. yields (Some i))
      | Bind_None \<Rightarrow> yields None)"

definition bound_target :: "probe_definition \<Rightarrow> credential_generation \<Rightarrow> ('w, string) stage_op" where
  "bound_target d bound =
     (case pd_target_binding d of
        Target_Provider_Id \<Rightarrow> required (cg_provider_id bound) ''provider generation ID''
      | Target_Secret_Reference \<Rightarrow> required (cg_secret_reference bound) ''generation secret reference''
      | Target_Static \<Rightarrow> yields (pd_target d))"

definition bind_probe :: "rotation_run \<Rightarrow> bool \<Rightarrow> probe_definition \<Rightarrow> ('w, probe_definition) stage_op" where
  "bind_probe run negative d =
     bindx (needs (\<not> (revocation_kind (pd_kind d) \<and> pd_negative d \<noteq> negative))
       ''probe polarity does not match the verification stage'') (\<lambda>_.
     bindx (probe_generation run d) (\<lambda>generation_id.
     bindx (needs (pd_expected_generation_id d \<in> {None, generation_id})
       ''probe generation binding changed after activation'') (\<lambda>_.
     if pd_target_binding d \<noteq> Target_Static \<or> pd_kind d = Probe_Credential
     then
       bindx (required generation_id ''probe generation'') (\<lambda>i.
       bindx (get_generation (run_organisation_id run) i) (\<lambda>bound.
       bindx (bound_target d bound) (\<lambda>target.
       bindx (if pd_kind d = Probe_Credential
              then bindx (required (cg_secret_reference bound) ''credential probe secret reference'') (\<lambda>r. yields (Some r))
              else yields (pd_secret_reference d)) (\<lambda>secret_reference.
       yields (d\<lparr>pd_target := target, pd_secret_reference := secret_reference, pd_expected_generation_id := generation_id\<rparr>)))))
     else yields (d\<lparr>pd_expected_generation_id := generation_id\<rparr>))))"

definition resolve_probe :: "'w stage_services \<Rightarrow> rotation_run \<Rightarrow> bool \<Rightarrow> string \<Rightarrow> ('w, probe_definition) stage_op" where
  "resolve_probe sv run negative item =
     bindx (get_probe_version (run_organisation_id run) item) (\<lambda>version.
     bindx (stage_digest sv (dump_probe_definition (pv_definition version))) (\<lambda>d.
     bindx (needs (pv_state version \<in> {Probe_Active, Probe_Superseded} \<and> pv_digest version = d)
       (''probe version '' @ item @ '' is not immutable and authorised'')) (\<lambda>_.
     bind_probe run negative (pv_definition version))))"

definition unbound_probes :: "probe_definition list \<Rightarrow> string list" where
  "unbound_probes values = map pd_id (filter (\<lambda>d. pd_expected_generation_id d = None) values)"

definition required_kinds :: "bool \<Rightarrow> bool \<Rightarrow> probe_kind list" where
  "required_kinds browser_managed telemetry =
     [Probe_Secret, Probe_Runtime] @ (if telemetry then [Probe_Telemetry] else [])
     @ (if browser_managed then [] else [Probe_Provider, Probe_Credential])"

definition run_probes ::
  "'w stage_services \<Rightarrow> rotation_run \<Rightarrow> bool \<Rightarrow> bool \<Rightarrow> stage \<Rightarrow> ('w, probe_definition list) stage_op" where
  "run_probes sv run negative observation probe_stage =
     bindx (stage_definition sv run) (\<lambda>controls.
     bindx (needs (probe_ids controls probe_stage \<noteq> [])
       (''controls declare no deterministic probes for '' @ stage_value probe_stage)) (\<lambda>_.
     bindx (mapx (resolve_probe sv run negative) (probe_ids controls probe_stage)) (\<lambda>values.
     bindx (needs (\<not> (probe_stage = VERIFY \<and> unbound_probes values \<noteq> []))
       (''verification probes are not generation-bound: '' @ join '', '' (unbound_probes values))) (\<lambda>_.
     let kinds = set (map pd_kind values);
         negatives = set (map pd_kind (filter pd_negative values));
         browser_managed = (\<not> list_ex (\<lambda>d. revocation_kind (pd_kind d)) values) in
     bindx (needs (\<not> (negative \<and> \<not> browser_managed \<and> \<not> {Probe_Provider, Probe_Credential} \<subseteq> negatives))
       ''revocation requires negative provider and credential probes'') (\<lambda>_.
     bindx (needs (\<not> (observation \<and> cd_require_generation_telemetry controls
         \<and> (\<not> list_ex (\<lambda>d. pd_kind d = Probe_Telemetry \<and> \<not> pd_negative d) values
            \<or> \<not> list_ex (\<lambda>d. pd_kind d = Probe_Telemetry \<and> pd_negative d) values)))
       ''observation requires target-health and old-use telemetry probes'') (\<lambda>_.
     bindx (needs (\<not> (probe_stage = VERIFY
         \<and> \<not> set (required_kinds browser_managed (cd_require_generation_telemetry controls)) \<subseteq> kinds))
       ''verification probe coverage is incomplete'') (\<lambda>_.
     yields values)))))))"

text \<open>The names of the stages without probes, sorted as in the message.\<close>

definition require_probes :: "'w stage_services \<Rightarrow> rotation_run \<Rightarrow> ('w, unit) stage_op" where
  "require_probes sv run =
     bindx (stage_definition sv run) (\<lambda>controls.
     let missing = filter (\<lambda>st. st \<notin> fst ` set (cd_probe_versions controls)) [OBSERVE, REVOKE, VERIFY] in
     bindx (needs (missing = [])
       (''controls have no deterministic probes for: '' @ join '', '' (map stage_value missing))) (\<lambda>_.
     bindx (mapx (\<lambda>probe_id.
         bindx (get_probe_version (run_organisation_id run) probe_id) (\<lambda>version.
         bindx (stage_digest sv (dump_probe_definition (pv_definition version))) (\<lambda>d.
         needs (pv_state version = Probe_Active \<and> pv_digest version = d)
           (''probe version '' @ probe_id @ '' is not active and immutable''))))
       (remdups (concat (map (probe_ids controls) [VERIFY, OBSERVE, REVOKE])))) (\<lambda>_.
     yields ())))"

section \<open>Verification\<close>

definition verification_scope :: "stage \<Rightarrow> string option \<Rightarrow> string" where
  "verification_scope selected suffix = (case suffix of None \<Rightarrow> stage_value selected | Some t \<Rightarrow> t)"

definition run_verification ::
  "'w stage_services \<Rightarrow> rotation_run \<Rightarrow> bool \<Rightarrow> bool \<Rightarrow> stage option \<Rightarrow> string option \<Rightarrow> ('w, verification_report) stage_op" where
  "run_verification sv run negative observation probe_stage suffix =
     (let selected = (case probe_stage of None \<Rightarrow> run_stage run | Some st \<Rightarrow> st);
          scope = verification_scope selected suffix;
          verify_id = coordinator_id (sv_sha sv) ''verify'' [run_id run, stage_value (run_stage run), scope] in
      bindx (run_credential run) (\<lambda>credential.
      bindx (run_probes sv run negative observation selected) (\<lambda>definitions.
      bindx (get_connection sv (run_organisation_id run) (mc_connection_id credential)) (\<lambda>c.
      bindx (tick sv) (\<lambda>now.
      bindx (required (if negative then run_current_generation_id run else run_target_generation_id run)
        ''verification generation'') (\<lambda>generation_id.
      verify_generation sv
        (coordinator_id (sv_sha sv) ''report'' [run_id run, stage_value (run_stage run), scope, int_text (run_revision run)])
        (run_organisation_id run) (run_id run) generation_id definitions
        \<lparr>ctx_request_id = verify_id, ctx_agent_id = ''coordinator_one'', ctx_connection = c, ctx_run = run, ctx_now = now,
         ctx_idempotency_key = verify_id\<rparr>))))))"

text \<open>\<open>max(passed, key=completed_at)\<close>: the first of the latest.\<close>

fun latest :: "verification_report \<Rightarrow> verification_report list \<Rightarrow> verification_report" where
  "latest best [] = best"
| "latest best (r # rs) = latest (if vr_completed_at best < vr_completed_at r then r else best) rs"

definition query_reports :: "'w stage_services \<Rightarrow> string \<Rightarrow> string \<Rightarrow> string option \<Rightarrow> ('w, verification_report list) stage_op" where
  "query_reports sv org run generation_id =
     fetch (\<lambda>s. bindr (segments [org]) (\<lambda>_.
       mapr validate_report
         (filter (\<lambda>r. vr_run_id r = run \<and> Some (vr_generation_id r) = generation_id)
           (List.map_filter (\<lambda>i. gs_reports (sx_generations s) (org, i)) (sv_keys sv)))))"

definition covers :: "verification_report \<Rightarrow> string list \<Rightarrow> bool" where
  "covers report ids \<longleftrightarrow> set (map pr_probe_id (vr_results report)) = set ids"

definition latest_report ::
  "'w stage_services \<Rightarrow> rotation_run \<Rightarrow> string option \<Rightarrow> stage option \<Rightarrow> ('w, verification_report) stage_op" where
  "latest_report sv run generation_id probe_stage =
     bindx (query_reports sv (run_organisation_id run) (run_id run) generation_id) (\<lambda>values.
     bindx (case probe_stage of
              None \<Rightarrow> yields None
            | Some st \<Rightarrow> bindx (stage_definition sv run) (\<lambda>controls. yields (Some (probe_ids controls st)))) (\<lambda>expected.
     case filter (\<lambda>r. vr_status r = Ver_Passed \<and> (case expected of None \<Rightarrow> True | Some ids \<Rightarrow> covers r ids)) values of
       [] \<Rightarrow> raises (value_error ''no passed verification report exists'')
     | r # rs \<Rightarrow> yields (latest r rs)))"

text \<open>
  The evidence of one kind of probe: every result of that kind, and there is one, has the checks. A version
  whose name has no result would be a \<open>KeyError\<close>.
\<close>

definition kind_evidence ::
  "probe_result list \<Rightarrow> stage \<Rightarrow> probe_version list \<Rightarrow> probe_kind \<Rightarrow> string list \<Rightarrow> bool option \<Rightarrow> unit result" where
  "kind_evidence results st versions kind checks negative =
     (let chosen = filter (\<lambda>v. pd_kind (pv_definition v) = kind
            \<and> (case negative of None \<Rightarrow> True | Some b \<Rightarrow> pd_negative (pv_definition v) = b)) versions;
          found = map (\<lambda>v. map_of (rev (map (\<lambda>r. (pr_probe_id r, r)) results)) (pv_id v)) chosen in
      bindr (require (None \<notin> set found) (RuntimeError ''KeyError'')) (\<lambda>_.
      require (found \<noteq> [] \<and> list_all (\<lambda>r. set checks \<subseteq> pr_checks (the r)) found)
        (ValueError (stage_value st @ '' lacks'' @ (if negative = Some True then '' negative'' else '''') @ '' ''
           @ probe_kind_value kind @ '' evidence''))))"

definition verify_checks ::
  "control_definition \<Rightarrow> rotation_run \<Rightarrow> (probe_kind \<Rightarrow> string list \<Rightarrow> bool option \<Rightarrow> unit result) \<Rightarrow> bool \<Rightarrow> string list result" where
  "verify_checks controls run evidence browser_managed =
     bindr (if browser_managed then Inr () else
              bindr (evidence Probe_Provider [''provider-credential-exists''] None) (\<lambda>_.
              evidence Probe_Credential [''credential-accepted''] None)) (\<lambda>_.
     bindr (evidence Probe_Secret [''secret-version-enabled''] None) (\<lambda>_.
     bindr (evidence Probe_Runtime [''runtime-ready'', ''runtime-binding-inspected'', ''generation-identified''] None) (\<lambda>_.
     bindr (require (run_deployments run \<noteq> [] \<and> list_all (\<lambda>d. dep_rollback_revision d \<noteq> []) (run_deployments run))
       (ValueError ''verification has no pinned rollback deployment'')) (\<lambda>_.
     bindr (if cd_require_generation_telemetry controls
            then evidence Probe_Telemetry
                   [''telemetry-query-executed'', ''telemetry-generation-bound'', ''telemetry-threshold-met''] (Some False)
            else Inr ()) (\<lambda>_.
     Inr ([''provider-valid'', ''store-valid'', ''deployment-valid'', ''coverage-complete'', ''rollback-ready'']
        @ (if cd_require_generation_telemetry controls then [''telemetry-healthy''] else [])))))))"

definition observe_checks ::
  "control_definition \<Rightarrow> (probe_kind \<Rightarrow> string list \<Rightarrow> bool option \<Rightarrow> unit result) \<Rightarrow> string list result" where
  "observe_checks controls evidence =
     bindr (evidence Probe_Runtime [''runtime-ready'', ''runtime-binding-inspected'', ''generation-identified''] None) (\<lambda>_.
     if cd_require_generation_telemetry controls
     then
       bindr (evidence Probe_Telemetry
         [''telemetry-query-executed'', ''telemetry-generation-bound'', ''telemetry-threshold-met''] (Some False)) (\<lambda>_.
       bindr (evidence Probe_Telemetry
         [''telemetry-query-executed'', ''telemetry-generation-bound'', ''telemetry-no-old-use''] (Some True)) (\<lambda>_.
       Inr [''consumers-current'', ''telemetry-healthy'', ''old-use-clear'']))
     else Inr [''consumers-current''])"

definition verification_checks ::
  "'w stage_services \<Rightarrow> rotation_run \<Rightarrow> verification_report \<Rightarrow> stage \<Rightarrow> ('w, string list) stage_op" where
  "verification_checks sv run report st =
     bindx (needs (vr_status report = Ver_Passed) ''verification report did not pass'') (\<lambda>_.
     bindx (stage_definition sv run) (\<lambda>controls.
     bindx (needs (covers report (probe_ids controls st)) ''verification report does not cover the pinned probe set'') (\<lambda>_.
     bindx (mapx (get_probe_version (run_organisation_id run)) (probe_ids controls st)) (\<lambda>versions.
     let evidence = kind_evidence (vr_results report) st versions;
         browser_managed = (\<not> list_ex (\<lambda>v. revocation_kind (pd_kind (pv_definition v))) versions) in
     checked (if st = VERIFY then verify_checks controls run evidence browser_managed
              else if st = OBSERVE then observe_checks controls evidence
              else Inl (ValueError (''stage '' @ stage_value st @ '' does not use verification report checks'')))))))"

definition revocation_checks :: "verification_report \<Rightarrow> verification_report \<Rightarrow> string option \<Rightarrow> bool \<Rightarrow> string list result" where
  "revocation_checks replacement rejection old_secret_reference browser_managed =
     bindr (require (\<not> (\<not> browser_managed \<and> ''credential-accepted'' \<notin> vr_checks replacement))
       (ValueError ''revocation has no replacement credential authentication proof'')) (\<lambda>_.
     bindr (require (set (''secret-version-enabled'' #
           (if browser_managed then [] else [''provider-credential-revoked'', ''credential-rejected''])) \<subseteq> vr_checks rejection)
       (ValueError ''revocation has incomplete old-credential rejection proof'')) (\<lambda>_.
     bindr (require (old_secret_reference \<noteq> None)
       (ValueError ''revocation has no old secret version to disable'')) (\<lambda>_.
     Inr [''old-revoked'', ''replacement-valid'', ''old-rejected'', ''old-secret-disabled''])))"

end
