(* ===== verification/Stage_Browser.thy ===== *)
theory Stage_Browser imports Stage_Checks begin

text \<open>
  \<open>BrowserStepExecutor.execute\<close> of server/coordinator/browser.py: a deterministic step is one post to the worker;
  any other step is a dialogue of proposals and actions, bounded by the action budget of the session. The
  session itself and the posts are given.
\<close>

definition json_truthy :: "json \<Rightarrow> bool" where
  "json_truthy v =
     (case v of JNull \<Rightarrow> False | JBool b \<Rightarrow> b | JInt i \<Rightarrow> i \<noteq> 0 | JStr s \<Rightarrow> s \<noteq> [] | JList xs \<Rightarrow> xs \<noteq> [] | JDict kvs \<Rightarrow> kvs \<noteq> [])"

definition deterministic_operations :: "((string \<times> string) \<times> string \<times> string) list" where
  "deterministic_operations =
     [((''browser.navigate'', ''navigate''), ''browser.navigate'', ''/v1/steps/navigate''),
      ((''browser.click'', ''click''), ''browser.click'', ''/v1/steps/click''),
      ((''browser.fill'', ''fill''), ''browser.fill'', ''/v1/steps/fill''),
      ((''browser.select'', ''select''), ''browser.select'', ''/v1/steps/select''),
      ((''browser.secure-capture'', ''click''), ''browser.secure-capture'', ''/v1/steps/capture''),
      ((''browser.revokeCredential'', ''click''), ''browser.revokeCredential'', ''/v1/steps/revoke'')]"

definition is_deterministic :: "playbook_step \<Rightarrow> bool" where
  "is_deterministic step \<longleftrightarrow> map_of deterministic_operations (op_tool step, op_operation step) \<noteq> None"

text \<open>The output of a step: the fields every output starts with, and what is merged into it.\<close>

definition step_output_of :: "browser_session \<Rightarrow> playbook_step \<Rightarrow> string \<Rightarrow> (string \<times> json) list \<Rightarrow> (string \<times> json) list" where
  "step_output_of session step outcome extra =
     dict_merge
       [(''session_id'', JStr (bs_id session)), (''step_id'', JStr (op_id step)), (''objective'', JStr (op_objective step)),
        (''operation'', JStr (op_operation step)), (''outcome'', JStr outcome)] extra"

definition captured_items :: "json \<Rightarrow> (string \<times> json) list" where
  "captured_items capture = (case capture of JDict kvs \<Rightarrow> kvs | v \<Rightarrow> [(''capture'', v)])"

text \<open>\<open>value.get(key)\<close>, where None is the absence of a value.\<close>

definition given_item :: "(string \<times> json) list \<Rightarrow> string \<Rightarrow> json option" where
  "given_item kvs key = (case map_of kvs key of Some JNull \<Rightarrow> None | v \<Rightarrow> v)"

text \<open>The outputs a worker declares: a mapping of texts.\<close>

definition declared_outputs :: "(string \<times> json) list \<Rightarrow> ('w, (string \<times> json) list) stage_op" where
  "declared_outputs reply =
     (case (case map_of reply ''outputs'' of None \<Rightarrow> JDict [] | Some v \<Rightarrow> v) of
        JDict kvs \<Rightarrow>
          if list_all (\<lambda>kv. case snd kv of JStr _ \<Rightarrow> True | _ \<Rightarrow> False) kvs then yields kvs
          else raises (Other_Error (RuntimeError ''browser worker returned invalid declared outputs''))
      | _ \<Rightarrow> raises (Other_Error (RuntimeError ''browser worker returned invalid declared outputs'')))"

definition completed_output ::
  "browser_session \<Rightarrow> playbook_step \<Rightarrow> (string \<times> json) list \<Rightarrow> ('w, (string \<times> json) list) stage_op" where
  "completed_output session step reply =
     bindx (declared_outputs reply) (\<lambda>outputs.
     yields (step_output_of session step ''Step completed'' (dict_merge [(''done'', JBool True)] outputs)))"

definition text_or :: "'w stage_services \<Rightarrow> json option \<Rightarrow> string \<Rightarrow> string" where
  "text_or sv v otherwise =
     (case v of
        None \<Rightarrow> otherwise
      | Some w \<Rightarrow> if \<not> json_truthy w then otherwise else (case w of JStr s \<Rightarrow> s | _ \<Rightarrow> sv_str sv w))"

definition install_access :: "'w stage_services \<Rightarrow> rotation_run \<Rightarrow> browser_session \<Rightarrow> playbook_step \<Rightarrow> ('w, unit) stage_op" where
  "install_access sv run session step =
     (if ps_secure_field step = None then yields ()
      else (case sv_install sv of
              None \<Rightarrow> raises (Other_Error (RuntimeError ''browser secure capture authorization is unavailable''))
            | Some install \<Rightarrow> install run session))"

definition execute_deterministic ::
  "'w stage_services \<Rightarrow> rotation_run \<Rightarrow> browser_session \<Rightarrow> playbook_step \<Rightarrow> approval option \<Rightarrow> string \<times> string
     \<Rightarrow> ('w, (string \<times> json) list) stage_op" where
  "execute_deterministic sv run session step approval route =
     bindx (install_access sv run session step) (\<lambda>_.
     bindx (sv_post sv run session (fst route) (snd route) (Post_Step step) approval) (\<lambda>reply.
     bindx (checked (sv_read_session sv (map_of reply ''session''))) (\<lambda>changed.
     case given_item reply ''capture'' of
       Some capture \<Rightarrow> yields (step_output_of changed step ''Secret captured and masked'' (captured_items capture))
     | None \<Rightarrow> yields (step_output_of changed step ''Approved browser control completed'' [(''done'', JBool True)]))))"

text \<open>What follows the execution of an action: None when the dialogue goes on with the changed session.\<close>

definition settle_action ::
  "'w stage_services \<Rightarrow> playbook_step \<Rightarrow> browser_session \<Rightarrow> (string \<times> json) list \<Rightarrow> ('w, (string \<times> json) list option) stage_op" where
  "settle_action sv step session reply =
     (case given_item reply ''capture'' of
        Some capture \<Rightarrow> yields (Some (step_output_of session step ''Secret captured and masked'' (captured_items capture)))
      | None \<Rightarrow>
          if bs_status session = Br_Running \<and> map_of reply ''completed'' = Some (JBool True)
          then bindx (completed_output session step reply) (\<lambda>out. yields (Some out))
          else if bs_status session = Br_Paused
          then raises (Browser_Pause (text_or sv (map_of reply ''paused_reason'') ''browser execution paused'')
                 [(''session_id'', Out (JStr (bs_id session))), (''step_id'', Out (JStr (op_id step))),
                  (''objective'', Out (JStr (op_objective step))), (''operation'', Out (JStr (op_operation step))),
                  (''outcome'', Out (JStr ''Step paused'')), (''takeover_required'', Out (JBool True)),
                  (''secure_field'', Out (case ps_secure_field step of None \<Rightarrow> JNull | Some f \<Rightarrow> JStr (sf_name f)))])
          else yields None)"

definition takeover_pause ::
  "'w stage_services \<Rightarrow> browser_session \<Rightarrow> playbook_step \<Rightarrow> (string \<times> json) list \<Rightarrow> string \<Rightarrow> ('w, unit) stage_op" where
  "takeover_pause sv session step proposal action_id =
     bindx (sv_freeze sv (bs_organisation_id session) (bs_id session) (bs_revision session)) (\<lambda>_.
     raises (Browser_Pause (text_or sv (map_of proposal ''safety_explanation'') ''browser action needs takeover'')
       [(''session_id'', Out (JStr (bs_id session))), (''action_id'', Out (JStr action_id)),
        (''step_id'', Out (JStr (op_id step))), (''objective'', Out (JStr (op_objective step))),
        (''operation'', Out (JStr (op_operation step))), (''outcome'', Out (JStr ''Confirmation required'')),
        (''takeover_required'', Out (JBool True))]))"

text \<open>The dialogue, bounded by the number of actions that are left.\<close>

fun browser_dialogue ::
  "'w stage_services \<Rightarrow> rotation_run \<Rightarrow> playbook_step \<Rightarrow> approval option \<Rightarrow> nat \<Rightarrow> browser_session
     \<Rightarrow> ('w, (string \<times> json) list) stage_op" where
  "browser_dialogue sv run step approval 0 session =
     raises (Other_Error (RuntimeError ''browser step exceeded the playbook action budget''))"
| "browser_dialogue sv run step approval (Suc left) session =
     bindx (sv_post sv run session ''browser.operate'' ''/v1/steps/propose'' (Post_Propose step (op_objective step)) None) (\<lambda>proposal.
     if map_of proposal ''done'' = Some (JBool True) then completed_output session step proposal
     else
       (case map_of proposal ''action'' of
          Some (JDict action) \<Rightarrow>
            (case map_of action ''id'' of
               Some (JStr action_id) \<Rightarrow>
                 bindx (if map_of proposal ''requires_confirmation'' = Some (JBool True) \<and> approval = None
                        then takeover_pause sv session step proposal action_id else yields ()) (\<lambda>_.
                 bindx (install_access sv run session step) (\<lambda>_.
                 bindx (sv_post sv run session ''browser.execute'' ''/v1/steps/execute''
                     (Post_Execute action_id (approval \<noteq> None)) approval) (\<lambda>reply.
                 bindx (checked (sv_read_session sv (map_of reply ''session''))) (\<lambda>changed.
                 bindx (settle_action sv step changed reply) (\<lambda>out.
                 case out of Some output \<Rightarrow> yields output
                 | None \<Rightarrow> browser_dialogue sv run step approval left changed)))))
             | _ \<Rightarrow> raises (Other_Error (RuntimeError ''browser worker returned no deterministic action'')))
        | _ \<Rightarrow> raises (Other_Error (RuntimeError ''browser worker returned no deterministic action''))))"

definition browser_execute ::
  "'w stage_services \<Rightarrow> rotation_run \<Rightarrow> connection \<Rightarrow> playbook_version \<Rightarrow> managed_credential \<Rightarrow> string list \<Rightarrow> playbook_step
     \<Rightarrow> approval option \<Rightarrow> ('w, (string \<times> json) list) stage_op" where
  "browser_execute sv run c version credential protected_tools step approval =
     bindx (sv_session sv run c version credential protected_tools) (\<lambda>session.
     case map_of deterministic_operations (op_tool step, op_operation step) of
       Some route \<Rightarrow> execute_deterministic sv run session step approval route
     | None \<Rightarrow> browser_dialogue sv run step approval (bs_max_steps session) session)"

end
