(* ===== verification/Stage_Steps.thy ===== *)
theory Stage_Steps imports Stage_Browser begin

text \<open>
  The steps of a stage in server/coordinator/service.py: the resolution of parameters, the approval of a protected
  step, the execution of an operation by the broker and of the provider steps, and the helpers on outputs.
\<close>

section \<open>Helpers\<close>

text \<open>\<open>tuple(dict.fromkeys(values))\<close>.\<close>

definition unique :: "'a list \<Rightarrow> 'a list" where
  "unique xs = rev (remdups (rev xs))"

definition same_dict :: "('k \<times> 'v) list \<Rightarrow> ('k \<times> 'v) list \<Rightarrow> bool" where
  "same_dict d e \<longleftrightarrow> list_all (\<lambda>k. map_of d k = map_of e k) (map fst d @ map fst e)"

text \<open>\<open>_resolve\<close>; parameters hold texts, integers, booleans and tuples of texts.\<close>

definition variable_name :: "string \<Rightarrow> string option" where
  "variable_name s = (if starts_with (CHR 0x24 # ''{'') s \<and> ends_with ''}'' s then Some (butlast (drop 2 s)) else None)"

fun resolve_parameter :: "step_context \<Rightarrow> pyval \<Rightarrow> json result" where
  "resolve_parameter context (PyStr s) =
     (case variable_name s of
        None \<Rightarrow> Inr (JStr s)
      | Some key \<Rightarrow> bindr (required_variable context key) (\<lambda>v. Inr (JStr v)))"
| "resolve_parameter context (PyList vs) = bindr (mapr (resolve_parameter context) vs) (\<lambda>js. Inr (JList js))"
| "resolve_parameter context (PyInt i) = Inr (JInt i)"
| "resolve_parameter context (PyBool b) = Inr (JBool b)"
| "resolve_parameter context v = Inr JNull"

definition resolve_parameters :: "step_context \<Rightarrow> (string \<times> pyval) list \<Rightarrow> (string \<times> json) list result" where
  "resolve_parameters context kvs = mapr (\<lambda>(k, v). bindr (resolve_parameter context v) (\<lambda>j. Inr (k, j))) kvs"

text \<open>The parameters of a resolved playbook step, as JSON.\<close>

definition step_payload :: "(string \<times> pyval) list \<Rightarrow> (string \<times> json) list result" where
  "step_payload kvs = mapr (\<lambda>(k, v). bindr (canonical (\<lambda>_. '''') v) (\<lambda>j. Inr (k, j))) kvs"

text \<open>\<open>payload.pop(key, None)\<close> of a text.\<close>

definition pop_text :: "(string \<times> json) list \<Rightarrow> string \<Rightarrow> string option \<times> (string \<times> json) list" where
  "pop_text kvs key =
     (case map_of kvs key of Some (JStr v) \<Rightarrow> Some v | _ \<Rightarrow> None, filter (\<lambda>kv. fst kv \<noteq> key) kvs)"

fun flatten :: "json \<Rightarrow> (string \<times> json) list list" where
  "flatten (JDict kvs) = kvs # concat (map (\<lambda>kv. flatten (snd kv)) kvs)"
| "flatten (JList vs) = concat (map flatten vs)"
| "flatten v = []"

definition flatten_outputs :: "(string \<times> json) list list \<Rightarrow> (string \<times> json) list list" where
  "flatten_outputs outputs = concat (map (flatten \<circ> JDict) outputs)"

fun find_item :: "(string \<times> json) list list \<Rightarrow> string \<Rightarrow> json option" where
  "find_item [] name = None"
| "find_item (v # vs) name = (case map_of v name of None \<Rightarrow> find_item vs name | Some JNull \<Rightarrow> None | Some w \<Rightarrow> Some w)"

definition find_text :: "(string \<times> json) list list \<Rightarrow> string \<Rightarrow> ('w, string) stage_op" where
  "find_text values name =
     (case find_item values name of
        Some (JStr v) \<Rightarrow> if v = [] then raises (value_error (''stage output has no '' @ name)) else yields v
      | _ \<Rightarrow> raises (value_error (''stage output has no '' @ name)))"

definition secret_keys :: "string list" where
  "secret_keys =
     [''api_key'', ''authorization'', ''credential_material'', ''password'', ''private_key'', ''secret'', ''token'', ''value'']"

fun contains_secret :: "json \<Rightarrow> bool" where
  "contains_secret (JDict kvs) = list_ex (\<lambda>kv. lower_text (fst kv) \<in> set secret_keys \<or> contains_secret (snd kv)) kvs"
| "contains_secret (JList vs) = list_ex contains_secret vs"
| "contains_secret v = False"

definition nonempty_text :: "(string \<times> json) list \<Rightarrow> string \<Rightarrow> bool" where
  "nonempty_text kvs key = (case map_of kvs key of Some (JStr v) \<Rightarrow> v \<noteq> [] | _ \<Rightarrow> False)"

definition activity_item :: "(string \<times> json) list \<Rightarrow> json" where
  "activity_item value =
     JDict (map (\<lambda>k. (k, the (map_of value k))) [''step_id'', ''objective'', ''operation'', ''outcome'']
       @ (case map_of value ''operator'' of
            Some (JDict operator) \<Rightarrow>
              [(''operator'', JDict (List.map_filter (\<lambda>k. map_option (Pair k) (map_of operator k))
                  [''ready'', ''expected_checkpoint'', ''drift_detected'']))]
          | _ \<Rightarrow> []))"

definition safe_browser_activity :: "(string \<times> json) list list \<Rightarrow> json" where
  "safe_browser_activity values =
     JList (map activity_item
       (filter (\<lambda>v. list_all (nonempty_text v) [''step_id'', ''objective'', ''operation'', ''outcome'']) values))"

text \<open>The last occurrence of a marker: what stands before it and after it.\<close>

definition rpartition :: "string \<Rightarrow> string \<Rightarrow> (string \<times> string) option" where
  "rpartition marker s =
     (case filter (\<lambda>i. starts_with marker (drop i s)) (rev [0..<length s]) of
        [] \<Rightarrow> None
      | i # _ \<Rightarrow> Some (take i s, drop (i + length marker) s))"

definition secret_parts :: "string \<Rightarrow> ('w, string \<times> string) stage_op" where
  "secret_parts reference =
     (case rpartition ''/versions/'' reference of
        Some (secret, version) \<Rightarrow>
          bindx (needs (secret \<noteq> [] \<and> version \<noteq> []) ''secret reference must identify one immutable version'') (\<lambda>_.
          yields (secret, version))
      | None \<Rightarrow> raises (value_error ''secret reference must identify one immutable version''))"

definition int_or :: "json option \<Rightarrow> int \<Rightarrow> int" where
  "int_or v otherwise =
     (case v of
        Some (JInt i) \<Rightarrow> if 0 < i then i else otherwise
      | Some (JBool True) \<Rightarrow> 1
      | _ \<Rightarrow> otherwise)"

definition stage_id :: "'w stage_services \<Rightarrow> string \<Rightarrow> string list \<Rightarrow> string" where
  "stage_id sv prefix values = coordinator_id (sv_sha sv) prefix values"

definition json_digest :: "'w stage_services \<Rightarrow> (string \<times> json) list \<Rightarrow> string" where
  "json_digest sv kvs = sv_sha sv (json_text (JDict kvs))"

definition make_operation :: "operation_step \<Rightarrow> operation_step result" where
  "make_operation step = (if operation_step_fields_ok step then Inr step else Inl (FieldError ''OperationStep''))"

section \<open>Approvals\<close>

definition approval_evidence_hash :: "'w stage_services \<Rightarrow> rotation_run \<Rightarrow> stage \<Rightarrow> ('w, string) stage_op" where
  "approval_evidence_hash sv run st =
     (if st = REVOKE
      then bindx (latest_report sv run (run_target_generation_id run) None) (\<lambda>report.
           stage_digest sv (dump_verification_report report))
      else bindx (required (run_plan_id run) ''rotation plan'') (\<lambda>i.
           bindx (get_plan (run_organisation_id run) i) (\<lambda>plan.
           bindx (stage_digest sv (dump_plan plan)) (\<lambda>d.
           bindx (needs (Some d = run_plan_hash run) ''rotation plan digest changed'') (\<lambda>_. yields d)))))"

definition resource_keys :: "string list" where
  "resource_keys = [''provider_id'', ''secret_resource'', ''version'', ''resource'', ''service'']"

fun action_resource :: "(string \<times> json) list \<Rightarrow> string \<Rightarrow> string" where
  "action_resource [] otherwise = otherwise"
| "action_resource ((k, v) # kvs) otherwise =
     (case v of JStr s \<Rightarrow> if k \<in> set resource_keys then s else action_resource kvs otherwise
      | _ \<Rightarrow> action_resource kvs otherwise)"

fun json_py :: "json \<Rightarrow> pyval" where
  "json_py JNull = PyNone"
| "json_py (JBool b) = PyBool b"
| "json_py (JInt i) = PyInt i"
| "json_py (JStr s) = PyStr s"
| "json_py (JList vs) = PyList (map json_py vs)"
| "json_py (JDict kvs) = PyDict (map (\<lambda>kv. (KeyStr (fst kv), json_py (snd kv))) kvs)"

text \<open>\<open>generation.provider_id or credential.provider_id\<close>.\<close>

definition action_provider :: "credential_generation \<Rightarrow> managed_credential \<Rightarrow> string option" where
  "action_provider g credential = (if truthy (cg_provider_id g) then cg_provider_id g else mc_provider_id credential)"

definition optional_scalar :: "string option \<Rightarrow> scalar" where
  "optional_scalar v = (case v of None \<Rightarrow> SNone | Some s \<Rightarrow> SStr s)"

definition step_action ::
  "'w stage_services \<Rightarrow> rotation_run \<Rightarrow> operation_step \<Rightarrow> (string \<times> json) list \<Rightarrow> string \<Rightarrow> managed_credential
     \<Rightarrow> credential_generation \<Rightarrow> string \<Rightarrow> string \<Rightarrow> string \<Rightarrow> int \<Rightarrow> ('w, protected_action) stage_op" where
  "step_action sv run step parameters connection_id credential g generation_id plan_hash evidence_hash fence =
     bindx (required (action_provider g credential) ''protected action provider ID'') (\<lambda>provider_id.
     checked (validate_action
       \<lparr>pa_id = stage_id sv ''action'' [run_id run, op_id step, int_text fence, json_digest sv parameters],
        pa_organisation_id = run_organisation_id run, pa_run_id = run_id run, pa_kind = op_tool step,
        pa_resource = action_resource parameters (op_operation step), pa_credential_id = mc_id credential,
        pa_generation_id = generation_id, pa_provider_id = provider_id, pa_control_version = run_control_version run,
        pa_playbook_version = run_browser_playbook_version run, pa_plan_hash = plan_hash, pa_evidence_hash = evidence_hash,
        pa_preconditions =
          [(''stage'', SStr (stage_value (op_stage step))), (''fencing_token'', SInt fence),
           (''connection_id'', SStr connection_id), (''current_generation_id'', optional_scalar (run_current_generation_id run)),
           (''target_generation_id'', optional_scalar (run_target_generation_id run))],
        pa_parameters = dict_merge [(''step_id'', PyStr (op_id step))] (map (\<lambda>(k, v). (k, json_py v)) parameters)\<rparr>))"

definition same_stored_action :: "protected_action \<Rightarrow> protected_action \<Rightarrow> bool" where
  "same_stored_action a b \<longleftrightarrow>
     a\<lparr>pa_preconditions := [], pa_parameters := []\<rparr> = b\<lparr>pa_preconditions := [], pa_parameters := []\<rparr>
     \<and> same_dict (pa_preconditions a) (pa_preconditions b) \<and> same_dict (pa_parameters a) (pa_parameters b)"

text \<open>The approvals of a candidate, whose stored actions must be the candidate.\<close>

fun candidate_approvals :: "rotation_run \<Rightarrow> protected_action \<Rightarrow> approval list \<Rightarrow> ('w, approval list) stage_op" where
  "candidate_approvals run candidate [] = yields []"
| "candidate_approvals run candidate (a # approvals) =
     (if appr_action_id a \<noteq> pa_id candidate then candidate_approvals run candidate approvals
      else bindx (get_action (run_organisation_id run) (appr_action_id a)) (\<lambda>stored.
           bindx (needs (same_stored_action stored candidate) ''protected action changed after approval request'') (\<lambda>_.
           bindx (candidate_approvals run candidate approvals) (\<lambda>rest. yields (a # rest)))))"

fun matching_approvals ::
  "rotation_run \<Rightarrow> approval list \<Rightarrow> protected_action \<Rightarrow> protected_action list
     \<Rightarrow> ('w, protected_action \<times> approval list) stage_op" where
  "matching_approvals run approvals requested [] = yields (requested, [])"
| "matching_approvals run approvals requested (candidate # candidates) =
     bindx (candidate_approvals run candidate approvals) (\<lambda>current.
     if current \<noteq> [] then yields (candidate, current) else matching_approvals run approvals requested candidates)"

definition granted_approval ::
  "'w stage_services \<Rightarrow> rotation_run \<Rightarrow> operation_step \<Rightarrow> protected_action \<Rightarrow> string \<Rightarrow> string \<Rightarrow> string \<Rightarrow> approval
     \<Rightarrow> ('w, approval) stage_op" where
  "granted_approval sv run step action plan_hash evidence_hash generation_id a =
     bindx (stage_digest sv (dump_action action)) (\<lambda>d.
     bindx (needs ((appr_action_digest a, appr_plan_hash a, appr_evidence_hash a, appr_generation_id a)
         = (d, plan_hash, evidence_hash, generation_id)) ''protected action approval bindings changed'') (\<lambda>_.
     bindx (needs (appr_decision a \<noteq> AP_REJECTED) ''protected action approval was rejected'') (\<lambda>_.
     bindx (requires (appr_decision a = AP_APPROVED \<and> appr_consumed_at a \<noteq> None)
       (Browser_Pause ''protected action approval must be granted and consumed''
         [(''run_id'', Out (JStr (run_id run))), (''step_id'', Out (JStr (op_id step))),
          (''approval_id'', Out (JStr (appr_id a))), (''approval_request'', Out_Request action plan_hash evidence_hash)])) (\<lambda>_.
     bindx (tick sv) (\<lambda>now.
     bindx (needs (now < appr_expires_at a) ''protected action approval expired'') (\<lambda>_.
     yields a))))))"

text \<open>The approval among those of the run: of the action of this fence, of the one before or, when there is none, the one asked for.\<close>

definition chosen_approval ::
  "'w stage_services \<Rightarrow> rotation_run \<Rightarrow> operation_step \<Rightarrow> (int \<Rightarrow> ('w, protected_action) stage_op) \<Rightarrow> string \<Rightarrow> string \<Rightarrow> string
     \<Rightarrow> bool \<Rightarrow> bool \<Rightarrow> approval list \<Rightarrow> ('w, approval) stage_op" where
  "chosen_approval sv run step action_for plan_hash evidence_hash generation_id allow_previous_fence allow_resume_fence approvals =
     bindx (action_for (run_fencing_token run)) (\<lambda>current.
     bindx (if allow_previous_fence \<and> 1 < run_fencing_token run
            then bindx (action_for (run_fencing_token run - 1)) (\<lambda>a. yields [a]) else yields []) (\<lambda>previous.
     bindx (if allow_resume_fence then action_for (run_fencing_token run + 1) else yields current) (\<lambda>requested.
     bindx (matching_approvals run approvals requested (current # previous)) (\<lambda>(action, matching).
     case matching of
       [] \<Rightarrow> raises (Browser_Pause ''protected action approval is pending''
               [(''run_id'', Out (JStr (run_id run))), (''step_id'', Out (JStr (op_id step))),
                (''approval_request'', Out_Request action plan_hash evidence_hash)])
     | [a] \<Rightarrow> granted_approval sv run step action plan_hash evidence_hash generation_id a
     | _ \<Rightarrow> raises (value_error ''protected action has multiple approval records'')))))"

definition approval_for_step ::
  "'w stage_services \<Rightarrow> rotation_run \<Rightarrow> operation_step \<Rightarrow> (string \<times> json) list \<Rightarrow> string \<Rightarrow> bool \<Rightarrow> bool
     \<Rightarrow> ('w, approval) stage_op" where
  "approval_for_step sv run step payload connection_id allow_previous_fence allow_resume_fence =
     bindx (needs (run_plan_id run \<noteq> None \<and> run_plan_hash run \<noteq> None)
       ''protected action has no immutable rotation plan'') (\<lambda>_.
     let plan_hash = the (run_plan_hash run) in
     bindx (run_credential run) (\<lambda>credential.
     bindx (required (run_current_generation_id run) ''current generation'') (\<lambda>generation_id.
     bindx (get_generation (run_organisation_id run) generation_id) (\<lambda>g.
     bindx (approval_evidence_hash sv run (op_stage step)) (\<lambda>evidence_hash.
     bindx (needs (\<not> contains_secret (JDict payload)) ''protected action parameters contain credential material'') (\<lambda>_.
     bindx (query_approvals (run_organisation_id run) (run_id run)) (\<lambda>approvals.
     chosen_approval sv run step
       (step_action sv run step payload connection_id credential g generation_id plan_hash evidence_hash)
       plan_hash evidence_hash generation_id allow_previous_fence allow_resume_fence approvals)))))))"

section \<open>Operations\<close>

definition execute_operation ::
  "'w stage_services \<Rightarrow> rotation_run \<Rightarrow> operation_step \<Rightarrow> ('w, (string \<times> json) list \<times> string list) stage_op" where
  "execute_operation sv run step =
     bindx (stage_definition sv run) (\<lambda>controls.
     bindx (needs (op_tool step \<in> set (cd_allowed_tools controls))
       (''operation '' @ op_tool step @ '' is forbidden by controls'')) (\<lambda>_.
     bindx (step_context_of run) (\<lambda>context.
     bindx (checked (resolve_parameters context (op_parameters step))) (\<lambda>resolved.
     case pop_text resolved ''connection_id'' of
       (None, _) \<Rightarrow> raises (value_error (''operation '' @ op_id step @ '' has no connection_id''))
     | (Some connection_id, payload) \<Rightarrow>
         bindx (if op_tool step \<in> set (cd_protected_tools controls)
                then bindx (approval_for_step sv run (step\<lparr>op_protected := True\<rparr>) payload connection_id False False)
                       (\<lambda>a. yields (Some (appr_id a)))
                else yields None) (\<lambda>approval.
         bindx (sv_broker sv run (stage_id sv ''tool'' [run_id run, op_id step, int_text (run_fencing_token run)])
           connection_id (op_tool step) payload approval) (\<lambda>res.
         bindx (requires (tres_succeeded res)
           (Stage_Failure (''operation '' @ op_tool step @ '' failed: ''
              @ (case tres_error_code res of None \<Rightarrow> ''None'' | Some code \<Rightarrow> code))
             (map_of (tres_result res) ''retryable'' = Some (JBool True)))) (\<lambda>_.
         yields (tres_result res, tres_evidence_ids res))))))))"

definition run_operation ::
  "'w stage_services \<Rightarrow> rotation_run \<Rightarrow> operation_step \<Rightarrow> ('w, (string \<times> json) list \<times> string list) stage_op" where
  "run_operation sv run step = bindx (checked (make_operation step)) (execute_operation sv run)"

section \<open>Provider steps\<close>

datatype provider_step = Api_Step operation_step | Browser_Step playbook_step

fun base_step :: "provider_step \<Rightarrow> operation_step" where
  "base_step (Api_Step s) = s"
| "base_step (Browser_Step s) = operation_step.truncate s"

definition revoke_step :: "rotation_context \<Rightarrow> bool \<Rightarrow> operation_step" where
  "revoke_step context protect =
     \<lparr>op_id = ''provider_revoke'', op_stage = REVOKE, op_tool = ''provider.revokeCredential'', op_operation = ''revoke'',
      op_objective = ''Revoke the superseded credential through the typed provider API.'',
      op_parameters = [(''connection_id'', PyStr (con_id (rx_provider context))),
        (''provider_id'', PyStr (CHR 0x24 # ''{old_provider_id}''))],
      op_protected = protect, op_evidence_checks = [''provider-revoked'']\<rparr>"

definition provider_steps ::
  "'w stage_services \<Rightarrow> rotation_run \<Rightarrow> rotation_context \<Rightarrow> stage \<Rightarrow> ('w, provider_step list) stage_op" where
  "provider_steps sv run context st =
     bindx (stage_definition sv run) (\<lambda>controls.
     case rx_playbook context of
       Some version \<Rightarrow>
         yields (map (\<lambda>s. Browser_Step (s\<lparr>op_protected := (op_tool s \<in> set (cd_protected_tools controls))\<rparr>))
           (filter (\<lambda>s. op_stage s = st) (pl_steps (plv_definition version))))
     | None \<Rightarrow>
         if st = REVOKE
         then bindx (checked (make_operation (revoke_step context (''provider.revokeCredential'' \<in> set (cd_protected_tools controls)))))
                (\<lambda>s. yields [Api_Step s])
         else yields [])"

text \<open>\<open>OperatorDecision.model_validate\<close> of an agent's output, with pydantic's readings of a boolean.\<close>

record operator_decision =
  od_step_id :: string
  od_ready :: bool
  od_expected_checkpoint :: string
  od_drift_detected :: bool
  od_pause_reason :: "string option"

definition lax_bool :: "json \<Rightarrow> bool option" where
  "lax_bool v =
     (case v of
        JBool b \<Rightarrow> Some b
      | JInt i \<Rightarrow> if i = 0 then Some False else if i = 1 then Some True else None
      | JStr s \<Rightarrow>
          if lower_text s \<in> set [''1'', ''true'', ''on'', ''t'', ''y'', ''yes''] then Some True
          else if lower_text s \<in> set [''0'', ''false'', ''off'', ''f'', ''n'', ''no''] then Some False else None
      | _ \<Rightarrow> None)"

definition read_decision :: "(string \<times> json) list \<Rightarrow> operator_decision option" where
  "read_decision output =
     (case (map_of output ''step_id'', Option.bind (map_of output ''ready'') lax_bool, map_of output ''expected_checkpoint'',
            Option.bind (map_of output ''drift_detected'') lax_bool, map_of output ''pause_reason'') of
        (Some (JStr sid), Some ready, Some (JStr checkpoint), Some drift, reason) \<Rightarrow>
          if fst ` set output \<subseteq> {''step_id'', ''ready'', ''expected_checkpoint'', ''drift_detected'', ''pause_reason''}
          then (case reason of
                  None \<Rightarrow> Some \<lparr>od_step_id = sid, od_ready = ready, od_expected_checkpoint = checkpoint,
                            od_drift_detected = drift, od_pause_reason = None\<rparr>
                | Some JNull \<Rightarrow> Some \<lparr>od_step_id = sid, od_ready = ready, od_expected_checkpoint = checkpoint,
                            od_drift_detected = drift, od_pause_reason = None\<rparr>
                | Some (JStr t) \<Rightarrow> Some \<lparr>od_step_id = sid, od_ready = ready, od_expected_checkpoint = checkpoint,
                            od_drift_detected = drift, od_pause_reason = Some t\<rparr>
                | _ \<Rightarrow> None)
          else None
      | _ \<Rightarrow> None)"

definition decision_items :: "operator_decision \<Rightarrow> json" where
  "decision_items d = JDict
     [(''step_id'', JStr (od_step_id d)), (''ready'', JBool (od_ready d)),
      (''expected_checkpoint'', JStr (od_expected_checkpoint d)), (''drift_detected'', JBool (od_drift_detected d)),
      (''pause_reason'', case od_pause_reason d of None \<Rightarrow> JNull | Some t \<Rightarrow> JStr t)]"

definition operator_pause :: "rotation_run \<Rightarrow> playbook_step \<Rightarrow> string \<Rightarrow> stage_output \<Rightarrow> stage_exception" where
  "operator_pause run step m extra =
     Browser_Pause m ([(''run_id'', Out (JStr (run_id run))), (''step_id'', Out (JStr (op_id step)))] @ extra)"

definition operator_task ::
  "'w stage_services \<Rightarrow> rotation_run \<Rightarrow> playbook_step \<Rightarrow> rotation_context \<Rightarrow> control_version \<Rightarrow> int \<Rightarrow> agent_task" where
  "operator_task sv run step context version now =
     \<lparr>at_id = stage_id sv ''task'' [run_id run, op_id step, ''operator'', int_text (run_fencing_token run)],
      at_organisation_id = run_organisation_id run, at_run_id = run_id run, at_agent = Agent_Operator,
      at_skill = ''execute_console_playbook'',
      at_objective = ''Review immutable browser step '' @ op_id step @ '' for isolated Computer Use readiness.'',
      at_context =
        [(''run'', Item_Run run), (''inventory_item'', Item_Credential (rx_credential context)),
         (''provider_connection'', Item_Connection (rx_provider context)), (''controls'', Item_Controls version),
         (''published_playbook'', Item_Playbook (rx_playbook context)), (''step_id'', Item_Text (op_id step)),
         (''stage'', Item_Text (stage_value (op_stage step)))],
      at_requested_at = now\<rparr>"

definition operator_decision_for ::
  "'w stage_services \<Rightarrow> rotation_run \<Rightarrow> playbook_step \<Rightarrow> rotation_context \<Rightarrow> control_version
     \<Rightarrow> ('w, operator_decision) stage_op" where
  "operator_decision_for sv run step context version =
     bindx (tick sv) (\<lambda>now.
     bindx (checked (make_agent_task (operator_task sv run step context version now))) (\<lambda>task.
     bindx (sv_agents sv task) (\<lambda>res.
     bindx (requires (ar_succeeded res)
       (operator_pause run step ''Console Operator Agent could not authorise the browser step''
         [(''agent_error'', Out (case ar_error res of None \<Rightarrow> JNull | Some e \<Rightarrow> JStr e))])) (\<lambda>_.
     case read_decision (ar_output res) of
       None \<Rightarrow> raises (operator_pause run step ''Console Operator Agent returned an invalid decision'' [])
     | Some d \<Rightarrow>
         bindx (requires (od_step_id d = op_id step)
           (operator_pause run step ''Console Operator Agent changed the immutable step binding'' [])) (\<lambda>_.
         bindx (case ps_checkpoint step of
                  None \<Rightarrow> yields ''checkpoint:none''
                | Some c \<Rightarrow> bindx (stage_digest sv (dump_checkpoint c)) (\<lambda>h. yields (''checkpoint:'' @ h))) (\<lambda>checkpoint.
         let decision = d\<lparr>od_expected_checkpoint := checkpoint\<rparr> in
         bindx (requires (od_ready decision \<and> \<not> od_drift_detected decision)
           (operator_pause run step
             (if truthy (od_pause_reason decision) then the (od_pause_reason decision)
              else ''Console Operator Agent detected interface drift'')
             [(''operator'', Out (decision_items decision))])) (\<lambda>_.
         yields decision)))))))"

definition run_browser_step ::
  "'w stage_services \<Rightarrow> rotation_run \<Rightarrow> rotation_context \<Rightarrow> stage \<Rightarrow> control_version \<Rightarrow> playbook_step
     \<Rightarrow> ('w, (string \<times> json) list) stage_op" where
  "run_browser_step sv run context st version step =
     bindx (step_context_of run) (\<lambda>variables.
     bindx (checked (resolve_playbook_step variables None step)) (\<lambda>resolved.
     bindx (checked (step_payload (op_parameters resolved))) (\<lambda>payload.
     bindx (if op_protected resolved
            then catches
                   (bindx (approval_for_step sv run (operation_step.truncate resolved) payload (con_id (rx_provider context))
                      (st = CREATE) False) (\<lambda>a. yields (Some a)))
                   (\<lambda>e. case e of Browser_Pause m out \<Rightarrow> bindx (sv_pause sv run) (\<lambda>_. raises e) | _ \<Rightarrow> raises e)
            else yields None) (\<lambda>approval.
     bindx (if is_deterministic resolved then yields None
            else bindx (operator_decision_for sv run resolved context version) (\<lambda>d. yields (Some d))) (\<lambda>decision.
     case rx_playbook context of
       None \<Rightarrow> raises (value_error ''browser playbook is missing'')
     | Some playbook \<Rightarrow>
         bindx (browser_execute sv run (rx_provider context) playbook (rx_credential context)
           (cd_protected_tools (cv_definition version)) resolved approval) (\<lambda>output.
         yields (case decision of
                   None \<Rightarrow> output
                 | Some d \<Rightarrow> AList.update ''operator'' (decision_items d) output)))))))"

definition run_provider_step ::
  "'w stage_services \<Rightarrow> rotation_run \<Rightarrow> rotation_context \<Rightarrow> stage \<Rightarrow> control_version \<Rightarrow> provider_step
     \<Rightarrow> ('w, (string \<times> json) list \<times> string list) stage_op" where
  "run_provider_step sv run context st version step =
     (case step of
        Browser_Step s \<Rightarrow> bindx (run_browser_step sv run context st version s) (\<lambda>output. yields (output, []))
      | Api_Step s \<Rightarrow> execute_operation sv run s)"

definition execute_provider_steps ::
  "'w stage_services \<Rightarrow> rotation_run \<Rightarrow> rotation_context \<Rightarrow> stage
     \<Rightarrow> ('w, (string \<times> json) list list \<times> string list) stage_op" where
  "execute_provider_steps sv run context st =
     bindx (provider_steps sv run context st) (\<lambda>steps.
     bindx (needs (steps \<noteq> []) (''provider execution has no '' @ stage_value st @ '' steps'')) (\<lambda>_.
     bindx (stage_control sv run) (\<lambda>(version, gates).
     bindx (mapx (run_provider_step sv run context st version) steps) (\<lambda>results.
     yields (map fst results, unique (concat (map snd results)))))))"

end
