(* ===== verification/Stages.thy ===== *)
theory Stages imports Stage_Steps begin

text \<open>
  The twelve handlers of server/coordinator/service.py, one for each stage, and \<open>_dispatch\<close>. A handler
  returns the checks it proves, the names of the evidence, the bindings of the run and its output.
\<close>

type_synonym stage_outcome = "string list \<times> string list \<times> stage_bindings \<times> stage_output"

definition on_incidents ::
  "'w stage_services \<Rightarrow> string \<Rightarrow> string \<Rightarrow> incident_status \<Rightarrow> ('w, unit) stage_op" where
  "on_incidents sv org run status =
     bindx (tick sv) (\<lambda>now s.
     case service_advance_run now org run status (sx_services s) of
       (Inl e, services) \<Rightarrow> (Inl (Other_Error e), s\<lparr>sx_services := services\<rparr>)
     | (Inr _, services) \<Rightarrow> (Inr (), s\<lparr>sx_services := services\<rparr>))"

definition make_stage_bindings :: "stage_bindings \<Rightarrow> ('w, stage_bindings) stage_op" where
  "make_stage_bindings b = checked (if stage_bindings_fields_ok b then Inr b else Inl (FieldError ''StageBindings''))"

definition operation ::
  "string \<Rightarrow> stage \<Rightarrow> string \<Rightarrow> string \<Rightarrow> string \<Rightarrow> (string \<times> pyval) list \<Rightarrow> string list \<Rightarrow> operation_step" where
  "operation i st tool name objective parameters checks =
     \<lparr>op_id = i, op_stage = st, op_tool = tool, op_operation = name, op_objective = objective, op_parameters = parameters,
      op_protected = False, op_evidence_checks = checks\<rparr>"

definition texts :: "string list \<Rightarrow> output_item" where
  "texts xs = Out (JList (map JStr xs))"

definition optional_json :: "string option \<Rightarrow> json" where
  "optional_json v = (case v of None \<Rightarrow> JNull | Some t \<Rightarrow> JStr t)"

section \<open>Trigger and preflight\<close>

definition stage_trigger :: "'w stage_services \<Rightarrow> rotation_run \<Rightarrow> ('w, stage_outcome) stage_op" where
  "stage_trigger sv run =
     bindx (fetch (\<lambda>s. bindr (segments [run_organisation_id run]) (\<lambda>_.
       Inr (st_dedupe (ic_runs (sx_services s)) (run_organisation_id run,
         dedupe_key (sv_sha sv) (trigger_source (run_trigger run)) (trigger_event_id (run_trigger run)))))))  (\<lambda>dedupe.
     bindx (needs (dedupe \<noteq> None \<and> run_lease run \<noteq> None) ''trigger dedupe or run lease is missing'') (\<lambda>_.
     yields ([''request-authenticated'', ''source-deduplicated'', ''lease-held''], [], empty_bindings,
       [(''source'', Out (JStr (trigger_source (run_trigger run)))),
        (''event_id'', Out (JStr (trigger_event_id (run_trigger run)))),
        (''actor_id'', Out (JStr (trigger_actor_id (run_trigger run))))])))"

definition required_connection_roles :: "connection_role list" where
  "required_connection_roles = [Role_Provider, Role_Runtime, Role_Secret_Store]"

text \<open>\<open>_approvers_known\<close>.\<close>

definition approvers_known :: "string \<Rightarrow> 'w stage_state \<Rightarrow> bool" where
  "approvers_known org s \<longleftrightarrow>
     list_ex (\<lambda>p. pri_enabled p \<and> ''administrator'' \<in> set (pri_roles p)) (sd_principals (sx_documents s) org)"

definition connections_ready :: "int \<Rightarrow> rotation_context \<Rightarrow> bool" where
  "connections_ready now context \<longleftrightarrow>
     list_all (\<lambda>c. con_status c = Con_Ready
        \<and> (case con_authorization_expires_at c of None \<Rightarrow> True | Some t \<Rightarrow> now < t)) (rx_connections context)"

definition browser_eligible :: "rotation_context \<Rightarrow> unit result" where
  "browser_eligible context =
     (case rx_playbook context of
        Some version \<Rightarrow>
          require (con_interface (rx_provider context) = If_Browser \<and> plv_state version = Play_Published)
            (ValueError ''browser execution requires the connection's published playbook'')
      | None \<Rightarrow>
          require (con_interface (rx_provider context) = If_Api)
            (ValueError ''provider execution requires an API or browser connection''))"

definition inventory_task :: "'w stage_services \<Rightarrow> rotation_run \<Rightarrow> rotation_context \<Rightarrow> int \<Rightarrow> agent_task" where
  "inventory_task sv run context now =
     \<lparr>at_id = stage_id sv ''task'' [run_id run, ''preflight''], at_organisation_id = run_organisation_id run,
      at_run_id = run_id run, at_agent = Agent_Inventory, at_skill = ''detect_stale_mapping'',
      at_objective = ''Use detect_stale_mapping for '' @ mc_id (rx_credential context)
        @ '' and confirm every observed credential consumer is represented in inventory.'',
      at_context =
        [(''run'', Item_Run run), (''inventory_item'', Item_Credential (rx_credential context)),
         (''bindings'', Item_Bindings (rx_bindings context)), (''services'', Item_Nothing)],
      at_requested_at = now\<rparr>"

definition missing_mappings :: "(string \<times> json) list \<Rightarrow> string option" where
  "missing_mappings output =
     (case map_of output ''missing_inventory'' of
        None \<Rightarrow> None
      | Some v \<Rightarrow>
          if \<not> json_truthy v then None
          else (case v of
                  JList vs \<Rightarrow> Some (join '', '' (List.map_filter (\<lambda>w. case w of JStr t \<Rightarrow> Some t | _ \<Rightarrow> None) vs))
                | _ \<Rightarrow> Some ''invalid structured result''))"

definition inventory_complete :: "rotation_context \<Rightarrow> bool" where
  "inventory_complete context \<longleftrightarrow>
     mc_active_generation_id (rx_credential context) \<noteq> None
     \<and> \<not> (con_interface (rx_provider context) = If_Api \<and> mc_scopes (rx_credential context) = {})
     \<and> mc_consumer_ids (rx_credential context) \<noteq> []"

text \<open>What \<open>_preflight\<close> requires before it asks the agent.\<close>

definition preflight_guards :: "'w stage_services \<Rightarrow> rotation_run \<Rightarrow> rotation_context \<Rightarrow> ('w, control_version) stage_op" where
  "preflight_guards sv run context =
     bindx (needs (inventory_complete context) ''credential inventory is incomplete'') (\<lambda>_.
     bindx (tick sv) (\<lambda>now.
     bindx (needs (connections_ready now context) ''one or more credential connections are not ready'') (\<lambda>_.
     bindx (needs (set required_connection_roles \<subseteq> set (concat (map con_roles (rx_connections context))))
       ''provider, runtime, secret-store connections are required'') (\<lambda>_.
     bindx (checked (browser_eligible context)) (\<lambda>_.
     bindx (needs (set (map cb_service_id (rx_bindings context)) = set (mc_consumer_ids (rx_credential context)))
       ''consumer bindings do not cover credential inventory'') (\<lambda>_.
     bindx (require_probes sv run) (\<lambda>_.
     bindx (fetch (\<lambda>s. bindr (segments [run_organisation_id run, mc_id (rx_credential context)]) (\<lambda>_.
         Inr (st_locks (ic_runs (sx_services s)) (run_organisation_id run, mc_id (rx_credential context)))))) (\<lambda>lock.
     bindx (needs (map_option lock_run_id lock = Some (run_id run)) ''credential rotation lock changed'') (\<lambda>_.
     bindx (stage_control sv run) (\<lambda>(version, gates).
     bindx (fetch (\<lambda>s. bindr (segments [run_organisation_id run]) (\<lambda>_. Inr (approvers_known (run_organisation_id run) s))))
       (\<lambda>known.
     bindx (needs (cd_require_revoke_approval (cv_definition version) \<longrightarrow> known)
       ''organisation has no active approver'') (\<lambda>_.
     yields version))))))))))))"

definition preflight_checks :: "bool \<Rightarrow> string list" where
  "preflight_checks approvers =
     [''provider-ready'', ''credential-known'', ''scopes-known'', ''playbook-eligible'', ''management-authenticated'',
      ''store-ready'', ''consumers-known'', ''runtime-ready'', ''verifier-ready'', ''overlap-supported'',
      ''mutation-declared'', ''no-conflict''] @ (if approvers then [''approvers-known''] else [])"

definition stage_preflight :: "'w stage_services \<Rightarrow> rotation_run \<Rightarrow> ('w, stage_outcome) stage_op" where
  "stage_preflight sv run =
     bindx (rotation_context_of sv run) (\<lambda>context.
     bindx (preflight_guards sv run context) (\<lambda>version.
     bindx (tick sv) (\<lambda>now.
     bindx (checked (make_agent_task (inventory_task sv run context now))) (\<lambda>task.
     bindx (sv_agents sv task) (\<lambda>agent.
     bindx (needs (ar_succeeded agent)
       (''inventory agent failed: ''
          @ (if truthy (ar_error agent) then the (ar_error agent) else ''unknown managed-agent failure''))) (\<lambda>_.
     bindx (needs (missing_mappings (ar_output agent) = None)
       (''inventory agent found unresolved consumer mappings: '' @ the (missing_mappings (ar_output agent)))) (\<lambda>_.
     bindx (make_stage_bindings (empty_bindings
       \<lparr>bind_browser_playbook_version := map_option plv_id (rx_playbook context),
        bind_current_generation_id := mc_active_generation_id (rx_credential context)\<rparr>)) (\<lambda>bindings.
     yields (preflight_checks (cd_require_revoke_approval (cv_definition version)), ar_evidence_ids agent, bindings,
       [(''credential_id'', Out (JStr (mc_id (rx_credential context)))),
        (''browser_playbook_version'', Out (optional_json (map_option plv_id (rx_playbook context)))),
        (''connections'', texts (map con_id (rx_connections context))),
        (''bindings'', texts (map cb_id (rx_bindings context))),
        (''agent'', Out (JDict (ar_output agent)))])))))))))"

section \<open>Plan\<close>

definition strategy_of :: "json option \<Rightarrow> rotation_strategy option" where
  "strategy_of v =
     (case v of
        Some (JStr t) \<Rightarrow> find (\<lambda>r. rotation_strategy_value r = t) [PARALLEL, DUAL, IMMEDIATE, MULTI]
      | _ \<Rightarrow> None)"

definition planner_task ::
  "'w stage_services \<Rightarrow> rotation_run \<Rightarrow> rotation_context \<Rightarrow> control_version \<Rightarrow> credential_generation option \<Rightarrow> int \<Rightarrow> agent_task" where
  "planner_task sv run context version current now =
     \<lparr>at_id = stage_id sv ''task'' [run_id run, ''plan''], at_organisation_id = run_organisation_id run,
      at_run_id = run_id run, at_agent = Agent_Planner, at_skill = ''plan_rotation'',
      at_objective = ''Select a rotation strategy from controls and confirmed inventory.'',
      at_context =
        [(''run'', Item_Run run), (''inventory_item'', Item_Credential (rx_credential context)),
         (''bindings'', Item_Bindings (rx_bindings context)), (''services'', Item_Nothing),
         (''provider_connection'', Item_Connection (rx_provider context)), (''controls'', Item_Controls version),
         (''published_playbook'', Item_Playbook (rx_playbook context)), (''current_generation'', Item_Generation current)],
      at_requested_at = now\<rparr>"

definition plan_key :: "rotation_context \<Rightarrow> string" where
  "plan_key context = (case rx_playbook context of Some version \<Rightarrow> plv_id version | None \<Rightarrow> con_id (rx_provider context))"

definition branch_recovery :: "'w stage_services \<Rightarrow> rotation_run \<Rightarrow> string \<Rightarrow> stage \<times> recovery_branch \<Rightarrow> recovery_plan" where
  "branch_recovery sv run key = (\<lambda>(failed_stage, branch).
     \<lparr>rp_id = stage_id sv ''recovery'' [run_id run, key, stage_value failed_stage],
      rp_organisation_id = run_organisation_id run, rp_run_id = run_id run, rp_failed_stage = failed_stage,
      rp_mode = rb_mode branch, rp_steps = rb_actions branch,
      rp_preserves_old_generation = rb_preserves_old_generation branch,
      rp_requires_approval = list_ex ra_protected (rb_actions branch)\<rparr>)"

definition stage_rotation_plan ::
  "'w stage_services \<Rightarrow> rotation_run \<Rightarrow> rotation_context \<Rightarrow> rotation_strategy \<Rightarrow> recovery_plan list \<Rightarrow> (string \<times> json) list
     \<Rightarrow> rotation_plan" where
  "stage_rotation_plan sv run context strategy recoveries output =
     \<lparr>plan_id = stage_id sv ''plan'' [run_id run, plan_key context], plan_organisation_id = run_organisation_id run,
      plan_run_id = run_id run, plan_credential_id = mc_id (rx_credential context),
      plan_control_version = run_control_version run,
      plan_browser_playbook_version = map_option plv_id (rx_playbook context), plan_strategy = strategy,
      plan_target_scopes = sorted_list_of_set (mc_scopes (rx_credential context)),
      plan_consumer_ids = mc_consumer_ids (rx_credential context), plan_rollout = [5, 25, 50, 100],
      plan_observation_seconds = int_or (map_of output ''observation_seconds'') 300,
      plan_recovery_ids = map (\<lambda>r. (rp_failed_stage r, rp_id r)) recoveries\<rparr>"

definition planner_strategy :: "managed_credential \<Rightarrow> agent_result \<Rightarrow> rotation_strategy result" where
  "planner_strategy credential agent =
     bindr (require (ar_succeeded agent) (ValueError ''rotation planner agent failed'')) (\<lambda>_.
     bindr (require (map_of (ar_output agent) ''decision'' = Some (JStr ''plan''))
       (ValueError ''rotation planner did not return a plan decision'')) (\<lambda>_.
     case strategy_of (map_of (ar_output agent) ''strategy'') of
       None \<Rightarrow> Inl (ValueError ''rotation planner returned no valid strategy'')
     | Some strategy \<Rightarrow>
         bindr (require (\<not> (strategy = IMMEDIATE \<and> 1 < length (mc_consumer_ids credential)))
           (ValueError ''immediate rotation is invalid for multiple consumers'')) (\<lambda>_. Inr strategy)))"

definition check_plan :: "control_definition \<Rightarrow> rotation_plan \<Rightarrow> recovery_plan list \<Rightarrow> unit result" where
  "check_plan controls plan recoveries =
     bindr (require (plan_observation_seconds plan \<le> cd_maximum_observation_seconds controls)
       (ValueError ''planned observation exceeds the bound controls maximum'')) (\<lambda>_.
     require (\<not> (cd_preserve_old_generation controls
         \<and> list_ex (\<lambda>r. rp_failed_stage r \<noteq> REVOKE \<and> \<not> rp_preserves_old_generation r) recoveries))
       (ValueError ''recovery plan violates old-generation preservation controls''))"

definition stage_plan :: "'w stage_services \<Rightarrow> rotation_run \<Rightarrow> ('w, stage_outcome) stage_op" where
  "stage_plan sv run =
     bindx (rotation_context_of sv run) (\<lambda>context.
     bindx (stage_control sv run) (\<lambda>(version, gates).
     bindx (optional_generation (run_organisation_id run) (run_current_generation_id run)) (\<lambda>current.
     bindx (tick sv) (\<lambda>now.
     bindx (checked (make_agent_task (planner_task sv run context version current now))) (\<lambda>task.
     bindx (sv_agents sv task) (\<lambda>agent.
     bindx (checked (planner_strategy (rx_credential context) agent)) (\<lambda>strategy.
     bindx (needs (cd_recovery (cv_definition version) \<noteq> []) ''rotation controls has no recovery branches'') (\<lambda>_.
     bindx (checked (mapr (\<lambda>b. make_recovery_plan (branch_recovery sv run (plan_key context) b))
       (cd_recovery (cv_definition version)))) (\<lambda>recoveries.
     bindx (checked (make_plan (stage_rotation_plan sv run context strategy recoveries (ar_output agent)))) (\<lambda>plan.
     bindx (checked (check_plan (cv_definition version) plan recoveries)) (\<lambda>_.
     bindx (mapx create_recovery recoveries) (\<lambda>_.
     bindx (create_plan plan) (\<lambda>_.
     bindx (stage_digest sv (dump_plan plan)) (\<lambda>checksum.
     bindx (make_stage_bindings (empty_bindings\<lparr>bind_plan_id := Some (plan_id plan), bind_plan_hash := Some checksum\<rparr>))
       (\<lambda>bindings.
     yields ([''plan-bound'', ''controls-pinned'', ''plan-hashed'', ''recovery-ready''], ar_evidence_ids agent, bindings,
       [(''plan'', Out_Plan plan), (''plan_hash'', Out (JStr checksum)),
        (''agent'', Out (JDict [(''decision'', JStr ''plan''), (''strategy'', JStr (rotation_strategy_value strategy)),
           (''rationale'', case map_of (ar_output agent) ''rationale'' of None \<Rightarrow> JNull | Some v \<Rightarrow> v)]))]))))))))))))))))"

section \<open>Create, store and deploy\<close>

definition create_step :: "rotation_context \<Rightarrow> operation_step" where
  "create_step context =
     operation ''provider_create'' CREATE ''provider.createCredential'' ''create''
       ''Create the replacement credential through the typed provider API.''
       [(''connection_id'', PyStr (con_id (rx_provider context))),
        (''name'', PyStr (mc_display_name (rx_credential context))),
        (''scopes'', PyList (map PyStr (sorted_list_of_set (mc_scopes (rx_credential context))))),
        (''sink_connection_id'', PyStr (con_id (rx_secret_store context))),
        (''secret_resource'', PyStr (mc_secret_resource (rx_credential context)))]
       [''provider-created'', ''secret-transferred'']"

definition display_name_item :: "(string \<times> json) list list \<Rightarrow> ('w, string option) stage_op" where
  "display_name_item flattened =
     (case find_item flattened ''provider_display_name'' of
        None \<Rightarrow> yields None
      | Some (JStr t) \<Rightarrow> yields (Some t)
      | _ \<Rightarrow> raises (value_error ''stage output has invalid provider_display_name''))"

definition stage_create :: "'w stage_services \<Rightarrow> rotation_run \<Rightarrow> ('w, stage_outcome) stage_op" where
  "stage_create sv run =
     bindx (rotation_context_of sv run) (\<lambda>context.
     bindx (if rx_playbook context \<noteq> None then execute_provider_steps sv run context CREATE
            else bindx (run_operation sv run (create_step context)) (\<lambda>(result, evidence). yields ([result], evidence)))
       (\<lambda>(outputs, evidence).
     let flattened = flatten_outputs outputs in
     bindx (find_text flattened ''provider_id'') (\<lambda>provider_id.
     bindx (display_name_item flattened) (\<lambda>provider_display_name.
     bindx (find_text flattened ''secret_reference'') (\<lambda>secret_reference.
     bindx (find_text flattened ''fingerprint'') (\<lambda>fingerprint.
     bindx (tick sv) (\<lambda>now.
     bindx (checked (validate_generation (replacement_generation (sv_sha sv) run (rx_credential context)
       (stage_id sv ''generation'' [run_id run, provider_id]) (Some provider_id) provider_display_name (Some fingerprint)
       (Some secret_reference) now))) (\<lambda>generation.
     bindx (on_generations (create_generation generation)) (\<lambda>_.
     bindx (make_stage_bindings (empty_bindings\<lparr>bind_target_generation_id := Some (cg_id generation)\<rparr>)) (\<lambda>bindings.
     yields ([''replacement-created'', ''mutation-resolved'', ''generation-recorded''], evidence, bindings,
       [(''generation'', Out_Generation generation), (''browser_activity'', Out (safe_browser_activity outputs))])))))))))))"

text \<open>The states of an output: a state that is a list or a mapping has no hash.\<close>

definition output_states :: "(string \<times> json) list list \<Rightarrow> json option list result" where
  "output_states flattened =
     mapr (\<lambda>v. case map_of v ''state'' of
         Some (JList _) \<Rightarrow> Inl (RuntimeError ''TypeError'')
       | Some (JDict _) \<Rightarrow> Inl (RuntimeError ''TypeError'')
       | st \<Rightarrow> Inr st) flattened"

definition secret_version_step :: "rotation_context \<Rightarrow> string \<Rightarrow> operation_step" where
  "secret_version_step context reference =
     operation ''secret_store_verify'' STORE ''secretStore.getVersion'' ''inspect''
       ''Verify the replacement secret version metadata.''
       [(''connection_id'', PyStr (con_id (rx_secret_store context))), (''version'', PyStr reference)]
       [''secret-version-enabled'']"

definition identity_step :: "consumer_binding \<Rightarrow> operation_step" where
  "identity_step binding =
     operation (''store_identity_'' @ cb_id binding) STORE ''runtime.inspectSecretBindings'' ''inspect''
       ''Resolve the declared consumer workload identity.''
       [(''connection_id'', PyStr (cb_runtime_connection_id binding)), (''service'', PyStr (cb_runtime_resource binding))]
       [''consumer-identity-resolved'']"

definition access_step :: "rotation_context \<Rightarrow> consumer_binding \<Rightarrow> string \<Rightarrow> string \<Rightarrow> operation_step" where
  "access_step context binding reference identity =
     operation (''store_access_'' @ cb_id binding) STORE ''secretStore.testConsumerAccess'' ''test-access''
       ''Prove the consumer identity can read the replacement version.''
       [(''connection_id'', PyStr (con_id (rx_secret_store context))), (''version'', PyStr reference),
        (''consumer_identity'', PyStr identity)]
       [''consumer-accessible'']"

definition consumer_access ::
  "'w stage_services \<Rightarrow> rotation_run \<Rightarrow> rotation_context \<Rightarrow> credential_generation \<Rightarrow> consumer_binding
     \<Rightarrow> ('w, json \<times> string list) stage_op" where
  "consumer_access sv run context target binding =
     bindx (run_operation sv run (identity_step binding)) (\<lambda>(runtime, runtime_evidence).
     bindx (find_text [runtime] ''service_account'') (\<lambda>identity.
     bindx (required (cg_secret_reference target) ''target secret reference'') (\<lambda>reference.
     bindx (run_operation sv run (access_step context binding reference identity)) (\<lambda>(access, access_evidence).
     bindx (needs (map_of access ''accessible'' = Some (JBool True))
       ''consumer identity cannot access the replacement secret'') (\<lambda>_.
     yields (JDict [(''binding_id'', JStr (cb_id binding)), (''consumer_identity'', JStr identity)],
       runtime_evidence @ access_evidence))))))"

definition stage_store :: "'w stage_services \<Rightarrow> rotation_run \<Rightarrow> ('w, stage_outcome) stage_op" where
  "stage_store sv run =
     bindx (rotation_context_of sv run) (\<lambda>context.
     bindx (run_target run) (\<lambda>target.
     bindx (required (cg_secret_reference target) ''target secret reference'') (\<lambda>reference.
     bindx (run_operation sv run (secret_version_step context reference)) (\<lambda>(result, evidence).
     bindx (checked (output_states (flatten (JDict result)))) (\<lambda>states.
     bindx (needs (Some (JStr ''ENABLED'') \<in> set states) ''stored secret version is not enabled'') (\<lambda>_.
     bindx (needs (\<not> contains_secret (JDict result)) ''secret value escaped into stage output'') (\<lambda>_.
     bindx (run_bindings sv run (rx_credential context)) (\<lambda>bindings.
     bindx (mapx (consumer_access sv run context target) bindings) (\<lambda>accesses.
     bindx (on_generations (stage_consumer_bindings (run_organisation_id run) (mc_id (rx_credential context)) (cg_id target)
       reference (map cb_id bindings))) (\<lambda>_.
     yields ([''secret-stored'', ''consumer-accessible'', ''plaintext-isolated''],
       (if bindings = [] then evidence else unique (evidence @ concat (map snd accesses))), empty_bindings,
       [(''secret_reference'', Out (optional_json (cg_secret_reference target))),
        (''secret_store'', Out (JStr (con_display_name (rx_secret_store context)))),
        (''bindings'', texts (map cb_id bindings)), (''consumer_access'', Out (JList (map fst accesses)))])))))))))))"

definition last_chars :: "nat \<Rightarrow> string \<Rightarrow> string" where
  "last_chars n s = drop (length s - n) s"

definition deploy_step :: "rotation_run \<Rightarrow> consumer_binding \<Rightarrow> string \<Rightarrow> string \<Rightarrow> string \<Rightarrow> operation_step" where
  "deploy_step run binding secret_name secret_version generation_id =
     operation (''deploy_'' @ cb_id binding) DEPLOY ''runtime.deployCandidate'' ''deploy-candidate''
       ''Deploy a zero-traffic consumer candidate using the replacement.''
       ([(''connection_id'', PyStr (cb_runtime_connection_id binding)), (''service'', PyStr (cb_runtime_resource binding)),
         (''secret_env'', PyStr (cb_runtime_secret_name binding)), (''secret_name'', PyStr secret_name),
         (''secret_version'', PyStr secret_version), (''generation_id'', PyStr generation_id),
         (''tag'', PyStr (''uumi-'' @ last_chars 12 (run_id run)))]
        @ (case cb_runtime_container_name binding of None \<Rightarrow> [] | Some name \<Rightarrow> [(''container_name'', PyStr name)]))
       [''candidate-deployed'', ''rollback-pinned'']"

definition deploy_binding ::
  "'w stage_services \<Rightarrow> rotation_run \<Rightarrow> string \<Rightarrow> string \<Rightarrow> consumer_binding
     \<Rightarrow> ('w, (string \<times> json) list \<times> string list \<times> runtime_deployment) stage_op" where
  "deploy_binding sv run secret_name secret_version binding =
     bindx (required (run_target_generation_id run) ''target generation'') (\<lambda>generation_id.
     bindx (run_operation sv run (deploy_step run binding secret_name secret_version generation_id)) (\<lambda>(result, ids).
     bindx (find_text [result] ''candidate_revision'') (\<lambda>candidate.
     bindx (find_text [result] ''rollback_revision'') (\<lambda>rollback.
     bindx (needs (find_item [result] ''generation_id'' = Some (JStr generation_id))
       ''runtime candidate does not carry the target generation'') (\<lambda>_.
     let d = \<lparr>dep_binding_id = cb_id binding, dep_connection_id = cb_runtime_connection_id binding,
              dep_service = cb_runtime_resource binding, dep_candidate_revision = candidate, dep_rollback_revision = rollback\<rparr> in
     bindx (checked (if runtime_deployment_fields_ok d then Inr () else Inl (FieldError ''RuntimeDeployment''))) (\<lambda>_.
     yields (result, ids, d)))))))"

definition stage_deploy :: "'w stage_services \<Rightarrow> rotation_run \<Rightarrow> ('w, stage_outcome) stage_op" where
  "stage_deploy sv run =
     bindx (rotation_context_of sv run) (\<lambda>context.
     bindx (run_target run) (\<lambda>target.
     bindx (required (cg_secret_reference target) ''target secret reference'') (\<lambda>reference.
     bindx (secret_parts reference) (\<lambda>(secret_name, secret_version).
     bindx (mapx (deploy_binding sv run secret_name secret_version) (rx_bindings context)) (\<lambda>deployed.
     bindx (make_stage_bindings (empty_bindings\<lparr>bind_deployments := map (snd \<circ> snd) deployed\<rparr>)) (\<lambda>bindings.
     yields ([''candidate-deployed'', ''version-bound'', ''generation-tagged'', ''rollback-ready''],
       unique (concat (map (fst \<circ> snd) deployed)), bindings,
       [(''steps'', Out (JList (map (JDict \<circ> fst) deployed)))])))))))"

section \<open>Verify, rollout and observe\<close>

definition stage_verify :: "'w stage_services \<Rightarrow> rotation_run \<Rightarrow> ('w, stage_outcome) stage_op" where
  "stage_verify sv run =
     bindx (run_verification sv run False False None None) (\<lambda>report.
     bindx (needs (vr_status report = Ver_Passed) ''deterministic verification failed'') (\<lambda>_.
     bindx (run_credential run) (\<lambda>credential.
     bindx (run_bindings sv run credential) (\<lambda>bindings.
     bindx (required (run_target_generation_id run) ''target generation'') (\<lambda>target_id.
     bindx (on_generations (verify_consumer_bindings (run_organisation_id run) target_id (vr_id report) (map cb_id bindings)))
       (\<lambda>_.
     bindx (verification_checks sv run report VERIFY) (\<lambda>checks.
     yields (checks, vr_evidence_ids report, empty_bindings, [(''report'', Out_Report report)]))))))))"

definition traffic_step :: "int \<Rightarrow> runtime_deployment \<Rightarrow> operation_step" where
  "traffic_step percent d =
     operation (''rollout_'' @ dep_binding_id d @ ''_'' @ int_text percent) ROLLOUT ''runtime.shiftTraffic'' ''shift-traffic''
       ''Promote the verified replacement candidate under controls.''
       [(''connection_id'', PyStr (dep_connection_id d)), (''service'', PyStr (dep_service d)),
        (''candidate_revision'', PyStr (dep_candidate_revision d)), (''rollback_revision'', PyStr (dep_rollback_revision d)),
        (''percent'', PyInt percent)]
       [''traffic-shifted'']"

text \<open>One percentage: the traffic of every deployment, then the verification of the replacement.\<close>

definition rollout_percent ::
  "'w stage_services \<Rightarrow> rotation_run \<Rightarrow> int
     \<Rightarrow> ('w, (string \<times> json) list list \<times> string list \<times> verification_report) stage_op" where
  "rollout_percent sv run percent =
     bindx (mapx (\<lambda>d. run_operation sv run (traffic_step percent d)) (run_deployments run)) (\<lambda>shifted.
     bindx (run_verification sv run False False (Some VERIFY) (Some (''rollout-'' @ int_text percent))) (\<lambda>report.
     bindx (needs (vr_status report = Ver_Passed) (''rollout verification failed at '' @ int_text percent @ '' percent'')) (\<lambda>_.
     bindx (verification_checks sv run report VERIFY) (\<lambda>_.
     yields (map fst shifted, concat (map snd shifted) @ vr_evidence_ids report, report)))))"

definition run_plan_of :: "'w stage_services \<Rightarrow> rotation_run \<Rightarrow> ('w, rotation_plan) stage_op" where
  "run_plan_of sv run =
     bindx (required (run_plan_id run) ''rotation plan'') (\<lambda>i. get_plan (run_organisation_id run) i)"

definition stage_rollout :: "'w stage_services \<Rightarrow> rotation_run \<Rightarrow> ('w, stage_outcome) stage_op" where
  "stage_rollout sv run =
     bindx (run_credential run) (\<lambda>credential.
     bindx (needs (run_deployments run \<noteq> []) ''runtime deployment identities are missing'') (\<lambda>_.
     bindx (run_plan_of sv run) (\<lambda>plan.
     bindx (stage_digest sv (dump_plan plan)) (\<lambda>d.
     bindx (needs (Some d = run_plan_hash run) ''rotation plan digest changed'') (\<lambda>_.
     bindx (mapx (rollout_percent sv run) (plan_rollout plan)) (\<lambda>rolled.
     bindx (needs (rolled \<noteq> []) ''rotation plan has no rollout percentages'') (\<lambda>_.
     let report = snd (snd (last rolled)) in
     bindx (run_bindings sv run credential) (\<lambda>bindings.
     bindx (required (run_target_generation_id run) ''target generation'') (\<lambda>target_id.
     bindx (required (run_current_generation_id run) ''current generation'') (\<lambda>current_id.
     bindx (on_generations (promote_generation (run_organisation_id run) (mc_id credential) target_id current_id (vr_id report)
       (map cb_id bindings))) (\<lambda>_.
     yields ([''production-promoted'', ''rollout-healthy''],
       unique (concat (map (fst \<circ> snd) rolled) @ vr_evidence_ids report), empty_bindings,
       [(''steps'', Out (JList (map JDict (concat (map fst rolled))))),
        (''milestones'', Out (JList (map JInt (plan_rollout plan)))),
        (''active_generation'', Out (optional_json (run_target_generation_id run))),
        (''observation_seconds'', Out (JInt (plan_observation_seconds plan)))]))))))))))))"

definition stage_observe :: "'w stage_services \<Rightarrow> rotation_run \<Rightarrow> ('w, stage_outcome) stage_op" where
  "stage_observe sv run =
     bindx (run_plan_of sv run) (\<lambda>plan.
     bindx (run_verification sv run False True None None) (\<lambda>report.
     bindx (needs (vr_status report = Ver_Passed) ''observation probes failed'') (\<lambda>_.
     bindx (verification_checks sv run report OBSERVE) (\<lambda>checks.
     yields (checks, vr_evidence_ids report, empty_bindings,
       [(''report'', Out_Report report), (''observation_seconds'', Out (JInt (plan_observation_seconds plan)))])))))"

section \<open>Approval, revoke and complete\<close>

definition disable_step :: "rotation_context \<Rightarrow> string \<Rightarrow> operation_step" where
  "disable_step context reference =
     operation ''secret_store_disable_old'' REVOKE ''secretStore.disableVersion'' ''disable''
       ''Disable the superseded secret-store version.''
       [(''connection_id'', PyStr (con_id (rx_secret_store context))), (''version'', PyStr reference)]
       [''old-secret-disabled'']"

text \<open>The steps of the revocation that an approval is asked for.\<close>

definition approval_steps ::
  "'w stage_services \<Rightarrow> rotation_run \<Rightarrow> rotation_context \<Rightarrow> ('w, operation_step list) stage_op" where
  "approval_steps sv run rotation =
     bindx (provider_steps sv run rotation REVOKE) (\<lambda>steps.
     bindx (run_old run) (\<lambda>old.
     case cg_secret_reference old of
       None \<Rightarrow> yields (map base_step steps)
     | Some reference \<Rightarrow>
         bindx (checked (make_operation (disable_step rotation reference))) (\<lambda>step. yields (map base_step steps @ [step]))))"

definition revocation_approval ::
  "'w stage_services \<Rightarrow> rotation_run \<Rightarrow> step_context \<Rightarrow> operation_step \<Rightarrow> ('w, approval) stage_op" where
  "revocation_approval sv run context step =
     bindx (checked (resolve_parameters context (op_parameters step))) (\<lambda>resolved.
     case pop_text resolved ''connection_id'' of
       (None, _) \<Rightarrow> raises (value_error (''protected operation '' @ op_id step @ '' has no connection_id''))
     | (Some connection_id, payload) \<Rightarrow>
         approval_for_step sv run (step\<lparr>op_protected := True\<rparr>) (snd (pop_text payload ''approval_id'')) connection_id False True)"

definition stage_approval :: "'w stage_services \<Rightarrow> rotation_run \<Rightarrow> ('w, stage_outcome) stage_op" where
  "stage_approval sv run =
     bindx (stage_definition sv run) (\<lambda>controls.
     if \<not> cd_require_revoke_approval controls
     then yields ([''approval-not-required'', ''evidence-current''], [], empty_bindings,
       [(''approval_required'', Out (JBool False))])
     else
       bindx (rotation_context_of sv run) (\<lambda>rotation.
       bindx (step_context_of run) (\<lambda>context.
       bindx (approval_steps sv run rotation) (\<lambda>steps.
       bindx (mapx (revocation_approval sv run context) (filter (\<lambda>s. op_tool s \<in> set (cd_protected_tools controls)) steps))
         (\<lambda>approvals.
       bindx (needs (approvals \<noteq> []) ''revocation controls declare no protected approval action'') (\<lambda>_.
       yields ([''approval-valid'', ''action-digest-valid'', ''evidence-current''], [], empty_bindings,
         [(''approvals'', Out (JList (map (\<lambda>a.
             JDict [(''approval_id'', JStr (appr_id a)), (''action_id'', JStr (appr_action_id a))]) approvals)))])))))))"

definition requires_provider_revocation :: "bool \<Rightarrow> string option \<Rightarrow> bool" where
  "requires_provider_revocation browser_managed provider_id \<longleftrightarrow> \<not> browser_managed \<or> provider_id \<noteq> None"

definition no_revocation :: "(string \<times> json) list" where
  "no_revocation =
     [(''outcome'', JStr ''Provider revocation not applicable''),
      (''reason'', JStr ''bootstrap generation has no provider credential'')]"

definition browser_proved :: "(string \<times> json) list list \<Rightarrow> bool" where
  "browser_proved outputs \<longleftrightarrow> list_ex (\<lambda>v. map_of v ''outcome'' = Some (JStr ''Step completed'')) outputs"

text \<open>The old version of the secret is disabled after both verifications.\<close>

definition disable_old ::
  "'w stage_services \<Rightarrow> rotation_run \<Rightarrow> rotation_context \<Rightarrow> string option \<Rightarrow> (string \<times> json) list list \<Rightarrow> string list
     \<Rightarrow> ('w, (string \<times> json) list list \<times> string list) stage_op" where
  "disable_old sv run context reference outputs evidence =
     (case reference of
        None \<Rightarrow> yields (outputs, evidence)
      | Some r \<Rightarrow>
          bindx (run_operation sv run (disable_step context r)) (\<lambda>(result, ids).
          bindx (needs (map_of result ''state'' = Some (JStr ''DISABLED'')) ''old secret version was not disabled'') (\<lambda>_.
          yields (outputs @ [result], unique (evidence @ ids)))))"

definition stage_revoke :: "'w stage_services \<Rightarrow> rotation_run \<Rightarrow> ('w, stage_outcome) stage_op" where
  "stage_revoke sv run =
     bindx (rotation_context_of sv run) (\<lambda>context.
     bindx (run_old run) (\<lambda>old.
     let browser_managed = (rx_playbook context \<noteq> None);
         provider_required = requires_provider_revocation browser_managed (cg_provider_id old) in
     bindx (if provider_required then execute_provider_steps sv run context REVOKE else yields ([no_revocation], []))
       (\<lambda>(outputs, evidence).
     bindx (run_verification sv run False False (Some VERIFY) (Some ''replacement'')) (\<lambda>replacement.
     bindx (needs (vr_status replacement = Ver_Passed) ''replacement credential failed verification before revocation'') (\<lambda>_.
     bindx (run_verification sv run True False (Some REVOKE) (Some ''old-rejected'')) (\<lambda>rejection.
     bindx (needs (vr_status rejection = Ver_Passed) ''old credential still works after provider revocation'') (\<lambda>_.
     bindx (needs (\<not> (browser_managed \<and> provider_required \<and> \<not> browser_proved outputs))
       ''browser playbook did not prove credential revocation'') (\<lambda>_.
     bindx (disable_old sv run context (cg_secret_reference old) outputs evidence) (\<lambda>(outputs, evidence).
     bindx (required (run_current_generation_id run) ''old generation'') (\<lambda>old_id.
     bindx (tick sv) (\<lambda>now.
     bindx (on_generations (revoke_generation now (run_organisation_id run) old_id (vr_id rejection))) (\<lambda>_.
     bindx (on_incidents sv (run_organisation_id run) (run_id run) Inc_Contained) (\<lambda>_.
     bindx (verification_checks sv run replacement VERIFY) (\<lambda>_.
     bindx (checked (revocation_checks replacement rejection (cg_secret_reference old) browser_managed)) (\<lambda>checks.
     yields (checks, unique (evidence @ vr_evidence_ids replacement @ vr_evidence_ids rejection), empty_bindings,
       [(''steps'', Out (JList (map JDict outputs))), (''browser_activity'', Out (safe_browser_activity outputs)),
        (''replacement_report'', Out_Report replacement), (''rejection_report'', Out_Report rejection)])))))))))))))))) "

text \<open>\<open>_verify_audit\<close>: the chain is checked, and its events are stored as evidence.\<close>

definition stage_verify_audit :: "'w stage_services \<Rightarrow> rotation_run \<Rightarrow> ('w, string) stage_op" where
  "stage_verify_audit sv run =
     bindx (fetch (\<lambda>s. bindr (verify_audit (sv_sha sv) (sv_fmt sv) (ic_audit (sx_services s)) (run_organisation_id run)) (\<lambda>_.
       audit_trail (ic_audit (sx_services s)) (run_organisation_id run)))) (\<lambda>events.
     bindx (tick sv) (\<lambda>now.
     sv_evidence sv (run_organisation_id run) (run_id run) ''audit-chain'' (Audit_Manifest events) now))"

definition stage_complete :: "'w stage_services \<Rightarrow> rotation_run \<Rightarrow> ('w, stage_outcome) stage_op" where
  "stage_complete sv run =
     bindx (run_credential run) (\<lambda>credential.
     bindx (needs (mc_active_generation_id credential = run_target_generation_id run)
       ''credential inventory does not identify the replacement'') (\<lambda>_.
     bindx (run_old run) (\<lambda>old.
     bindx (needs (cg_state old = GenRevoked) ''old generation is not revoked'') (\<lambda>_.
     bindx (stage_verify_audit sv run) (\<lambda>audit_evidence.
     bindx (sv_terminate sv run) (\<lambda>_.
     bindx (latest_report sv run (run_target_generation_id run) (Some VERIFY)) (\<lambda>replacement.
     bindx (latest_report sv run (run_current_generation_id run) (Some REVOKE)) (\<lambda>rejection.
     bindx (verification_checks sv run replacement VERIFY) (\<lambda>_.
     bindx (rotation_context_of sv run) (\<lambda>context.
     bindx (needs (con_interface (rx_provider context) = If_Browser \<or> ''credential-rejected'' \<in> vr_checks rejection)
       ''completion has no proof that the old credential is rejected'') (\<lambda>_.
     bindx (on_incidents sv (run_organisation_id run) (run_id run) Inc_Resolved) (\<lambda>_.
     yields ([''consumers-current'', ''replacement-valid'', ''old-rejected'', ''audit-complete''],
       unique (vr_evidence_ids replacement @ vr_evidence_ids rejection @ [audit_evidence]), empty_bindings,
       [(''active_generation'', Out (optional_json (mc_active_generation_id credential))),
        (''audit_valid'', Out (JBool True))])))))))))))))"

section \<open>Dispatch\<close>

fun dispatch_stage :: "'w stage_services \<Rightarrow> rotation_run \<Rightarrow> stage \<Rightarrow> ('w, stage_outcome) stage_op" where
  "dispatch_stage sv run TRIGGER = stage_trigger sv run"
| "dispatch_stage sv run PREFLIGHT = stage_preflight sv run"
| "dispatch_stage sv run PLAN = stage_plan sv run"
| "dispatch_stage sv run CREATE = stage_create sv run"
| "dispatch_stage sv run STORE = stage_store sv run"
| "dispatch_stage sv run DEPLOY = stage_deploy sv run"
| "dispatch_stage sv run VERIFY = stage_verify sv run"
| "dispatch_stage sv run ROLLOUT = stage_rollout sv run"
| "dispatch_stage sv run OBSERVE = stage_observe sv run"
| "dispatch_stage sv run APPROVAL = stage_approval sv run"
| "dispatch_stage sv run REVOKE = stage_revoke sv run"
| "dispatch_stage sv run COMPLETE = stage_complete sv run"

end
