(* ===== verification/Coordinator.thy ===== *)
theory Coordinator imports Stages begin

text \<open>
  \<open>StageCoordinator.execute\<close> of server/coordinator/service.py: the request is checked, a stored result is
  returned as it is, the stage is dispatched or recovered, and its result is audited and stored. A pause and a
  failure are results, too.
\<close>

section \<open>Recovery\<close>

text \<open>The recovery branch that the plan of the run binds to its stage.\<close>

definition bound_recovery ::
  "'w stage_services \<Rightarrow> rotation_run \<Rightarrow> ('w, rotation_plan \<times> recovery_plan \<times> control_definition) stage_op" where
  "bound_recovery sv run =
     bindx (needs (run_plan_id run \<noteq> None \<and> run_recovery_stage run = Some (run_stage run))
       ''recovery is not bound to a planned failed stage'') (\<lambda>_.
     bindx (get_plan (run_organisation_id run) (the (run_plan_id run))) (\<lambda>plan.
     bindx (stage_digest sv (dump_plan plan)) (\<lambda>d.
     bindx (needs (Some d = run_plan_hash run) ''rotation plan digest changed'') (\<lambda>_.
     case map_of (plan_recovery_ids plan) (run_stage run) of
       None \<Rightarrow> raises (value_error (''rotation plan has no recovery branch for '' @ stage_value (run_stage run)))
     | Some recovery_id \<Rightarrow>
         bindx (get_recovery (run_organisation_id run) recovery_id) (\<lambda>recovery.
         bindx (needs (rp_run_id recovery = run_id run \<and> rp_failed_stage recovery = run_stage run
             \<and> (rp_preserves_old_generation recovery \<longrightarrow> run_current_generation_id run \<noteq> None))
           ''recovery plan binding is invalid'') (\<lambda>_.
         bindx (stage_definition sv run) (\<lambda>controls.
         bindx (needs (rp_mode recovery \<in> set (cd_allowed_recovery_modes controls))
           ''recovery mode is forbidden by the bound controls'') (\<lambda>_.
         yields (plan, recovery, controls)))))))))"

definition recovery_task :: "'w stage_services \<Rightarrow> rotation_run \<Rightarrow> rotation_plan \<Rightarrow> recovery_plan \<Rightarrow> int \<Rightarrow> agent_task" where
  "recovery_task sv run plan recovery now =
     \<lparr>at_id = stage_id sv ''task'' [run_id run, stage_value (run_stage run), ''recovery''],
      at_organisation_id = run_organisation_id run, at_run_id = run_id run, at_agent = Agent_Planner,
      at_skill = ''recommend_authorised_recovery'',
      at_objective = ''Evaluate only the pre-authorised recovery branch and confirm whether its ''
        @ ''declared actions remain eligible. Do not propose new tools or mutations.'',
      at_context = [(''run'', Item_Run run), (''plan'', Item_Plan plan), (''recovery'', Item_Recovery recovery)],
      at_requested_at = now\<rparr>"

definition recommended :: "recovery_plan \<Rightarrow> agent_result \<Rightarrow> unit result" where
  "recommended recovery agent =
     bindr (require (ar_succeeded agent) (ValueError ''recovery agent could not evaluate the authorised branch'')) (\<lambda>_.
     require (map_of (ar_output agent) ''decision'' = Some (JStr ''recovery'')
         \<and> map_of (ar_output agent) ''recovery_id'' = Some (JStr (rp_id recovery))
         \<and> map_of (ar_output agent) ''recovery_mode'' = Some (JStr (recovery_mode_value (rp_mode recovery)))
         \<and> map_of (ar_output agent) ''eligible'' = Some (JBool True))
       (ValueError ''recovery agent changed or rejected the authorised branch''))"

text \<open>A rollback without a revision gets the one of the deployment it matches.\<close>

definition pinned_rollback :: "rotation_run \<Rightarrow> string \<Rightarrow> (string \<times> json) list \<Rightarrow> (string \<times> json) list result" where
  "pinned_rollback run tool payload =
     (if tool = ''runtime.rollback'' \<and> map_of payload ''rollback_revision'' = None
      then (case filter (\<lambda>d. map_of payload ''connection_id'' = Some (JStr (dep_connection_id d))
                     \<and> map_of payload ''service'' = Some (JStr (dep_service d))) (run_deployments run) of
              [d] \<Rightarrow> Inr (payload @ [(''rollback_revision'', JStr (dep_rollback_revision d))])
            | _ \<Rightarrow> Inl (ValueError ''runtime rollback does not match one pinned deployment''))
      else Inr payload)"

text \<open>The parameters of the step that is approved: JSON as parameters of a playbook step.\<close>

definition recovery_step ::
  "'w stage_services \<Rightarrow> rotation_run \<Rightarrow> recovery_plan \<Rightarrow> nat \<Rightarrow> recovery_action \<Rightarrow> (string \<times> json) list \<Rightarrow> operation_step" where
  "recovery_step sv run recovery i action payload =
     \<lparr>op_id = stage_id sv ''recovery-step'' [rp_id recovery, int_text (int i)], op_stage = run_stage run,
      op_tool = ra_tool action, op_operation = ra_operation action,
      op_objective = ''Execute authorised '' @ recovery_mode_value (rp_mode recovery) @ '' recovery'',
      op_parameters = map (\<lambda>(k, v). (k, json_py v)) payload, op_protected = True,
      op_evidence_checks = [''recovery-authorised'']\<rparr>"

definition recovery_approval ::
  "'w stage_services \<Rightarrow> rotation_run \<Rightarrow> recovery_plan \<Rightarrow> nat \<Rightarrow> recovery_action \<Rightarrow> string \<Rightarrow> (string \<times> json) list
     \<Rightarrow> ('w, string option) stage_op" where
  "recovery_approval sv run recovery i action connection_id payload =
     (if ra_protected action
      then bindx (checked (make_operation (recovery_step sv run recovery i action payload))) (\<lambda>step.
           bindx (approval_for_step sv run step payload connection_id False False) (\<lambda>a. yields (Some (appr_id a))))
      else yields None)"

definition recovery_action_step ::
  "'w stage_services \<Rightarrow> rotation_run \<Rightarrow> recovery_plan \<Rightarrow> control_definition \<Rightarrow> step_context \<Rightarrow> nat \<times> recovery_action
     \<Rightarrow> ('w, (string \<times> json) list \<times> string list) stage_op" where
  "recovery_action_step sv run recovery controls context = (\<lambda>(i, action).
     bindx (needs (ra_tool action \<in> set (cd_allowed_tools controls))
       (''recovery tool '' @ ra_tool action @ '' is forbidden by controls'')) (\<lambda>_.
     bindx (needs (ra_tool action \<in> set (cd_protected_tools controls) \<longrightarrow> ra_protected action)
       (''controls require protected recovery for '' @ ra_tool action)) (\<lambda>_.
     bindx (checked (resolve_parameters context (ra_parameters action))) (\<lambda>resolved.
     bindx (checked (pinned_rollback run (ra_tool action) resolved)) (\<lambda>full.
     case pop_text full ''connection_id'' of
       (None, _) \<Rightarrow> raises (value_error (''recovery action '' @ ra_tool action @ '' has no connection_id''))
     | (Some connection_id, payload) \<Rightarrow>
         bindx (recovery_approval sv run recovery i action connection_id payload) (\<lambda>approval.
         bindx (sv_broker sv run (stage_id sv ''recovery-tool'' [rp_id recovery, int_text (int i)]) connection_id
           (ra_tool action) payload approval) (\<lambda>res.
         bindx (needs (tres_succeeded res)
           (''recovery tool '' @ ra_tool action @ '' failed: ''
              @ (if truthy (tres_error_code res) then the (tres_error_code res) else ''unknown''))) (\<lambda>_.
         yields (tres_result res, tres_evidence_ids res)))))))))"

definition recovery_checks :: "string list" where
  "recovery_checks =
     [''recovery-plan-bound'', ''recovery-agent-approved'', ''recovery-actions-completed'', ''recovery-evidence-recorded'']"

definition recovery_record ::
  "'w stage_services \<Rightarrow> rotation_run \<Rightarrow> recovery_plan \<Rightarrow> string list \<Rightarrow> recovery_outcome" where
  "recovery_record sv run recovery evidence =
     \<lparr>ro_id = stage_id sv ''recovery-result'' [run_id run, int_text (run_revision run)],
      ro_organisation_id = run_organisation_id run, ro_run_id = run_id run, ro_recovery_id = rp_id recovery,
      ro_failed_stage = run_stage run, ro_mode = rp_mode recovery, ro_checks = recovery_checks,
      ro_evidence_ids = unique evidence\<rparr>"

definition recover_stage :: "'w stage_services \<Rightarrow> rotation_run \<Rightarrow> ('w, stage_outcome \<times> recovery_mode) stage_op" where
  "recover_stage sv run =
     bindx (bound_recovery sv run) (\<lambda>(plan, recovery, controls).
     bindx (tick sv) (\<lambda>now.
     bindx (checked (make_agent_task (recovery_task sv run plan recovery now))) (\<lambda>task.
     bindx (sv_agents sv task) (\<lambda>agent.
     bindx (checked (recommended recovery agent)) (\<lambda>_.
     bindx (step_context_of run) (\<lambda>context.
     bindx (mapx (recovery_action_step sv run recovery controls context) (enumerate 0 (rp_steps recovery))) (\<lambda>done.
     bindx (checked (make_recovery_outcome
       (recovery_record sv run recovery (ar_evidence_ids agent @ concat (map snd done))))) (\<lambda>stored.
     bindx (create_recovery_result stored) (\<lambda>_.
     yields ((recovery_checks, ro_evidence_ids stored, empty_bindings,
         [(''recovery_id'', Out (JStr (rp_id recovery))), (''mode'', Out (JStr (recovery_mode_value (rp_mode recovery)))),
          (''actions'', Out (JList (map (JDict \<circ> fst) done))), (''recommendation'', Out (JDict (ar_output agent)))]),
       rp_mode recovery))))))))))"

section \<open>A session that has to log in again\<close>

definition stage_replace_connection ::
  "'w stage_services \<Rightarrow> string \<Rightarrow> string \<Rightarrow> int \<Rightarrow> (connection \<Rightarrow> connection) \<Rightarrow> ('w, unit) stage_op" where
  "stage_replace_connection sv org i expected_revision update =
     bindx (get_connection sv org i) (\<lambda>current.
     bindx (requires (con_revision current = expected_revision)
       (Other_Error (ResourceConflictError (''resource organisations/'' @ org @ ''/connections/'' @ i @ '' expected revision ''
          @ int_text expected_revision @ '', found '' @ int_text (con_revision current))))) (\<lambda>_.
     bindx (requires (con_revision (update current) = expected_revision + 1)
       (Other_Error (StorageIntegrityError ''catalog updates must advance revision exactly once''))) (\<lambda>_ s.
     (Inr (), s\<lparr>sx_documents := (sx_documents s)
        \<lparr>sd_connections := (sd_connections (sx_documents s))((org, i) \<mapsto> update current)\<rparr>\<rparr>))))"

definition flag_connection :: "'w stage_services \<Rightarrow> string \<Rightarrow> string \<Rightarrow> int \<Rightarrow> ('w, unit) stage_op" where
  "flag_connection sv org i now =
     bindx (get_connection sv org i) (\<lambda>c.
     if con_status c = Con_Reauthentication then yields ()
     else stage_replace_connection sv org i (con_revision c) (\<lambda>current.
       current\<lparr>con_status := Con_Reauthentication, con_updated_at := now, con_revision := con_revision c + 1\<rparr>))"

definition put_waiter :: "string \<Rightarrow> string \<Rightarrow> connection_waiter \<Rightarrow> stage_documents \<Rightarrow> stage_documents" where
  "put_waiter org i w d = d\<lparr>sd_waiters := (sd_waiters d)((org, i) \<mapsto> w)\<rparr>"

text \<open>\<open>_remember_waiting_run\<close>, with the number of attempts that are left.\<close>

fun remember_waiting_run :: "nat \<Rightarrow> rotation_run \<Rightarrow> string \<Rightarrow> ('w, unit) stage_op" where
  "remember_waiting_run 0 run i =
     raises (Other_Error (ResourceConflictError ''could not record a paused run waiting for reauthentication''))"
| "remember_waiting_run (Suc attempts) run i =
     bindx (checked (segments [run_organisation_id run, i])) (\<lambda>_ s.
     case sd_waiters (sx_documents s) (run_organisation_id run, i) of
       None \<Rightarrow>
         bindx (checked (make_waiter \<lparr>cw_organisation_id = run_organisation_id run, cw_connection_id = i,
             cw_run_ids = [run_id run], cw_revision = 0\<rparr>)) (\<lambda>w s.
         (Inr (), s\<lparr>sx_documents := put_waiter (run_organisation_id run) i w (sx_documents s)\<rparr>)) s
     | Some doc \<Rightarrow>
         bindx (checked (make_waiter doc)) (\<lambda>waiter s.
         if run_id run \<in> set (cw_run_ids waiter) then (Inr (), s)
         else (Inr (), s\<lparr>sx_documents := put_waiter (run_organisation_id run) i
                (waiter\<lparr>cw_run_ids := cw_run_ids waiter @ [run_id run], cw_revision := cw_revision waiter + 1\<rparr>)
                (sx_documents s)\<rparr>)) s)"

definition flag_reauthentication ::
  "'w stage_services \<Rightarrow> int \<Rightarrow> rotation_run \<Rightarrow> stage_output \<Rightarrow> string \<Rightarrow> ('w, unit) stage_op" where
  "flag_reauthentication sv now run output execution_id =
     (case map_of output ''connection_id'' of
        Some (Out (JStr i)) \<Rightarrow>
          bindx (suppressed (flag_connection sv (run_organisation_id run) i now)) (\<lambda>_.
          bindx (suppressed (remember_waiting_run 3 run i)) (\<lambda>_.
          case sv_notify sv of
            None \<Rightarrow> yields ()
          | Some emit \<Rightarrow>
              suppressed (emit (stage_id sv ''reauthentication'' [execution_id]) (run_organisation_id run) i (run_id run))))
      | _ \<Rightarrow> yields ())"

section \<open>The execution of a stage\<close>

definition execution_id_of :: "'w stage_services \<Rightarrow> stage_request \<Rightarrow> string" where
  "execution_id_of sv request =
     stage_id sv ''stage'' [sq_run_id request, stage_value (sq_stage request), int_text (sq_expected_revision request)]"

definition check_request :: "'w stage_services \<Rightarrow> stage_request \<Rightarrow> rotation_run \<Rightarrow> ('w, unit) stage_op" where
  "check_request sv request run =
     bindx (needs (run_revision run = sq_expected_revision request \<and> run_stage run = sq_stage request)
       ''stage execution request is stale'') (\<lambda>_.
     bindx (needs (run_status run \<in> {RUNNING, RECOVERING}) ''stage execution requires an active run'') (\<lambda>_.
     bindx (needs (run_lease run \<noteq> None \<and> run_fencing_token run = sq_fencing_token request)
       ''stage execution does not hold the active fence'') (\<lambda>_.
     bindx (tick sv) (\<lambda>now.
     needs (now < lease_expires_at (the (run_lease run))) ''stage execution lease expired''))))"

definition stage_evidence :: "'w stage_services \<Rightarrow> rotation_run \<Rightarrow> string list \<Rightarrow> stage_output \<Rightarrow> ('w, string list) stage_op" where
  "stage_evidence sv run checks output =
     bindx (tick sv) (\<lambda>now.
     bindx (sv_evidence sv (run_organisation_id run) (run_id run) (''stage-'' @ stage_value (run_stage run))
       (Stage_Evidence (run_stage run) (sort (remdups checks)) output) now) (\<lambda>i. yields [i]))"

definition failure_evidence :: "'w stage_services \<Rightarrow> rotation_run \<Rightarrow> string \<Rightarrow> ('w, string list) stage_op" where
  "failure_evidence sv run reason =
     bindx (tick sv) (\<lambda>now.
     bindx (sv_evidence sv (run_organisation_id run) (run_id run) (''stage-'' @ stage_value (run_stage run) @ ''-failure'')
       (Failure_Evidence (run_stage run) reason) now) (\<lambda>i. yields [i]))"

text \<open>A result with the defaults of the contract.\<close>

definition plain_result :: "string \<Rightarrow> rotation_run \<Rightarrow> execution_status \<Rightarrow> int \<Rightarrow> int \<Rightarrow> stage_result" where
  "plain_result i run status started completed =
     \<lparr>sr_id = i, sr_organisation_id = run_organisation_id run, sr_run_id = run_id run, sr_stage = run_stage run,
      sr_status = status, sr_checks = [], sr_evidence_ids = [], sr_bindings = empty_bindings, sr_recovery_mode = None,
      sr_output = [], sr_reason = None, sr_retryable = False, sr_started_at = started, sr_completed_at = completed\<rparr>"

definition stage_proof_of :: "rotation_run \<Rightarrow> stage_result \<Rightarrow> stage_proof" where
  "stage_proof_of run r =
     \<lparr>proof_run_id = run_id run, proof_organisation_id = run_organisation_id run, proof_stage = run_stage run,
      proof_checks = sr_checks r, proof_evidence_ids = sr_evidence_ids r, proof_actor_id = ''coordinator_one'',
      proof_recorded_at = sr_completed_at r\<rparr>"

definition check_gates :: "gate_policy \<Rightarrow> stage_proof \<Rightarrow> unit result" where
  "check_gates gates p = (if stage_proof_fields_ok p then policy_validate gates p else Inl (FieldError ''StageProof''))"

text \<open>The outcome of the run: a recovery when it is recovering.\<close>

definition stage_outcome_of ::
  "'w stage_services \<Rightarrow> rotation_run \<Rightarrow> ('w, stage_outcome \<times> recovery_mode option) stage_op" where
  "stage_outcome_of sv run =
     (if run_status run = RECOVERING
      then bindx (recover_stage sv run) (\<lambda>(outcome, mode). yields (outcome, Some mode))
      else bindx (dispatch_stage sv run (run_stage run)) (\<lambda>outcome. yields (outcome, None)))"

definition attempt_stage :: "'w stage_services \<Rightarrow> rotation_run \<Rightarrow> string \<Rightarrow> int \<Rightarrow> ('w, stage_result) stage_op" where
  "attempt_stage sv run execution_id started =
     bindx (stage_control sv run) (\<lambda>(version, gates).
     bindx (stage_outcome_of sv run) (\<lambda>((checks, evidence_ids, bindings, output), mode).
     bindx (stage_evidence sv run checks output) (\<lambda>proof_evidence.
     bindx (tick sv) (\<lambda>completed.
     bindx (checked (make_stage_result
       ((plain_result execution_id run (if run_status run = RECOVERING then Exec_Recovered else Exec_Succeeded) started completed)
        \<lparr>sr_checks := checks, sr_evidence_ids := unique (evidence_ids @ proof_evidence), sr_bindings := bindings,
         sr_recovery_mode := mode, sr_output := output\<rparr>))) (\<lambda>r.
     bindx (if run_status run = RECOVERING then yields () else checked (check_gates gates (stage_proof_of run r))) (\<lambda>_.
     yields r))))))"

definition paused_stage_result ::
  "'w stage_services \<Rightarrow> rotation_run \<Rightarrow> string \<Rightarrow> int \<Rightarrow> string \<Rightarrow> stage_output \<Rightarrow> ('w, stage_result) stage_op" where
  "paused_stage_result sv run execution_id started reason output =
     bindx (if map_of output ''authentication_required'' = Some (Out (JBool True))
            then bindx (tick sv) (\<lambda>now.
                 bindx (flag_reauthentication sv now run output execution_id) (\<lambda>_. suppressed (sv_terminate sv run)))
            else yields ()) (\<lambda>_.
     bindx (tick sv) (\<lambda>completed.
     checked (make_stage_result
       ((plain_result execution_id run Exec_Paused started completed)\<lparr>sr_output := output, sr_reason := Some reason\<rparr>))))"

definition one_line :: "string \<Rightarrow> string" where
  "one_line s = take 1024 (map (\<lambda>c. if c = CHR 0x0A then CHR '' '' else c) s)"

definition failed_stage_result ::
  "'w stage_services \<Rightarrow> rotation_run \<Rightarrow> string \<Rightarrow> int \<Rightarrow> stage_exception \<Rightarrow> ('w, stage_result) stage_op" where
  "failed_stage_result sv run execution_id started e =
     bindx (suppressed (sv_terminate sv run)) (\<lambda>_.
     let reason = one_line (sv_text sv e) in
     bindx (failure_evidence sv run reason) (\<lambda>evidence_ids.
     bindx (tick sv) (\<lambda>completed.
     checked (make_stage_result
       ((plain_result execution_id run Exec_Failed started completed)
        \<lparr>sr_evidence_ids := evidence_ids, sr_reason := Some reason,
         sr_output := (case e of Browser_Failure m output \<Rightarrow> output | _ \<Rightarrow> []),
         sr_retryable := (case e of Stage_Failure m retryable \<Rightarrow> retryable | _ \<Rightarrow> False)\<rparr>)))))"

definition settled_stage :: "'w stage_services \<Rightarrow> rotation_run \<Rightarrow> string \<Rightarrow> int \<Rightarrow> ('w, stage_result) stage_op" where
  "settled_stage sv run execution_id started =
     catches (attempt_stage sv run execution_id started)
       (\<lambda>e. case e of
          Browser_Pause reason output \<Rightarrow> paused_stage_result sv run execution_id started reason output
        | _ \<Rightarrow> failed_stage_result sv run execution_id started e)"

definition stage_audit :: "'w stage_services \<Rightarrow> rotation_run \<Rightarrow> string \<Rightarrow> stage_result \<Rightarrow> ('w, unit) stage_op" where
  "stage_audit sv run execution_id r =
     bindx (tick sv) (\<lambda>now s.
     case writer_append (sv_sha sv) (sv_fmt sv) (sv_region sv) now (stage_id sv ''audit'' [execution_id])
            (run_organisation_id run) (''stage.'' @ execution_status_value (sr_status r)) ''coordinator_one''
            (''runs/'' @ run_id run @ ''/stages/'' @ stage_value (run_stage run))
            [(''stage'', SStr (stage_value (run_stage run))), (''status'', SStr (execution_status_value (sr_status r))),
             (''checks'', SInt (int (length (remdups (sr_checks r))))), (''reason'', optional_scalar (sr_reason r))]
            (Some (run_id run)) (sr_evidence_ids r) None (ic_audit (sx_services s)) of
       Inl e \<Rightarrow> (Inl (Other_Error e), s)
     | Inr (_, store) \<Rightarrow> (Inr (), s\<lparr>sx_services := (sx_services s)\<lparr>ic_audit := store\<rparr>\<rparr>))"

definition stored_result :: "string \<Rightarrow> string \<Rightarrow> ('w, stage_result option) stage_op" where
  "stored_result org i =
     fetch (\<lambda>s. bindr (segments [org, i]) (\<lambda>_.
       case sd_results (sx_documents s) (org, i) of
         None \<Rightarrow> Inr None
       | Some doc \<Rightarrow> bindr (make_stage_result doc) (\<lambda>r. Inr (Some r))))"

definition execute_stage :: "'w stage_services \<Rightarrow> stage_request \<Rightarrow> ('w, stage_result) stage_op" where
  "execute_stage sv request =
     bindx (tick sv) (\<lambda>started.
     let execution_id = execution_id_of sv request in
     bindx (checked (segments [sq_organisation_id request, execution_id])) (\<lambda>_.
     bindx (get_run (sq_organisation_id request) (sq_run_id request)) (\<lambda>run.
     bindx (check_request sv request run) (\<lambda>_.
     bindx (stored_result (sq_organisation_id request) execution_id) (\<lambda>current.
     case current of
       Some r \<Rightarrow> yields r
     | None \<Rightarrow>
         bindx (settled_stage sv run execution_id started) (\<lambda>r.
         bindx (stage_audit sv run execution_id r) (\<lambda>_.
         bindx (create_result (sq_organisation_id request) execution_id r) (\<lambda>_. yields r))))))))"

end
