(* ===== verification/Stage_Facts.thy ===== *)
theory Stage_Facts imports Coordinator begin

text \<open>
  What the operations of the coordinator keep. A relation between states that holds of every reading and every
  write of the coordinator itself, and of its services, holds of every stage. Two such relations are used:
  operations that only read the clock, and states whose cache of controls only grows and whose world keeps a
  property.
\<close>

section \<open>Rules\<close>

named_theorems keeping "operations that keep a relation"

lemma keeps_if: "keeps R f \<Longrightarrow> keeps R g \<Longrightarrow> keeps R (if b then f else g)"
  by simp

lemma keeps_option: "keeps R f \<Longrightarrow> (\<And>x. keeps R (g x)) \<Longrightarrow> keeps R (case v of None \<Rightarrow> f | Some x \<Rightarrow> g x)"
  by (simp split: option.split)

lemma keeps_prod: "(\<And>x y. keeps R (g x y)) \<Longrightarrow> keeps R (case v of (x, y) \<Rightarrow> g x y)"
  by (simp split: prod.split)

lemma keeps_list: "keeps R f \<Longrightarrow> (\<And>x xs. keeps R (g x xs)) \<Longrightarrow> keeps R (case v of [] \<Rightarrow> f | x # xs \<Rightarrow> g x xs)"
  by (simp split: list.split)

lemmas keeps_cases = keeps_if keeps_option keeps_prod keeps_list

locale kept_stage = kept R for R :: "'w stage_state \<Rightarrow> 'w stage_state \<Rightarrow> bool"
begin

lemma keeps_checked: "keeps R (checked r)"
  by (simp add: keeps_def checked_def kept_refl split: sum.split)

lemma keeps_fetch: "keeps R (fetch f)"
  using keeps_checked unfolding keeps_def fetch_def by blast

lemma keeps_needs: "keeps R (needs b m)"
  by (simp add: needs_def keeps_idle)

lemma keeps_required: "keeps R (required v label)"
  by (simp add: required_def keeps_idle split: option.split)

lemma keeps_stage_digest: "keeps R (stage_digest sv v)"
  by (simp add: stage_digest_def keeps_checked)

lemmas keeps_plain =
  keeps_idle keeps_checked keeps_fetch keeps_needs keeps_required keeps_stage_digest keeps_bindx keeps_mapx
  keeps_suppressed keeps_catches

end

text \<open>
  A relation that is kept from the states of a precondition, and what holds of a value and the state that come
  with it.
\<close>

definition guarded ::
  "('s \<Rightarrow> 's \<Rightarrow> bool) \<Rightarrow> ('s \<Rightarrow> bool) \<Rightarrow> ('s, 'e, 'a) effect \<Rightarrow> ('a \<Rightarrow> 's \<Rightarrow> bool) \<Rightarrow> bool" where
  "guarded R I f Q \<longleftrightarrow> (\<forall>s. I s \<longrightarrow> R s (snd (f s)) \<and> (\<forall>x t. f s = (Inr x, t) \<longrightarrow> Q x t))"

lemma guarded_keeps: "guarded R (\<lambda>_. True) f (\<lambda>_ _. True) \<Longrightarrow> keeps R f"
  by (simp add: guarded_def keeps_def)

lemma keeps_guarded: "keeps R f \<Longrightarrow> guarded R I f (\<lambda>_ _. True)"
  by (simp add: guarded_def keeps_def)

context kept
begin

lemma guarded_bindx: "guarded R I f Q \<Longrightarrow> (\<And>x. guarded R (Q x) (g x) S) \<Longrightarrow> guarded R I (bindx f g) S"
  unfolding guarded_def bindx_def
  by (auto split: prod.splits sum.splits) (metis kept_trans snd_conv)+

lemma guarded_idle:
  "guarded R (\<lambda>s. Q x s) (yields x) Q" "guarded R I (requires b e) (\<lambda>_ s. I s \<and> b)" "guarded R I (raises e) Q"
  by (auto simp: guarded_def yields_def requires_def raises_def kept_refl)

end

section \<open>Operations that only read\<close>

definition calm :: "'w stage_state \<Rightarrow> 'w stage_state \<Rightarrow> bool" where
  "calm s t \<longleftrightarrow> (\<exists>n. t = s\<lparr>sx_ticks := n\<rparr>)"

interpretation calm: kept_stage "calm :: 'w stage_state \<Rightarrow> 'w stage_state \<Rightarrow> bool"
proof unfold_locales
  fix s t u :: "'w stage_state"
  have "s = s\<lparr>sx_ticks := sx_ticks s\<rparr>" by simp
  then show "calm s s" unfolding calm_def by blast
  assume "calm s t" "calm t u"
  then show "calm s u" by (auto simp: calm_def)
qed

lemma calm_tick: "keeps calm (tick sv)"
  by (auto simp: keeps_def tick_def calm_def)

lemma get_reads:
  "keeps calm (get_run org i)" "keeps calm (get_managed org i)" "keeps calm (get_generation org i)"
  "keeps calm (get_connection sv org i)" "keeps calm (get_plan org i)" "keeps calm (get_recovery org i)"
  "keeps calm (get_probe_version org i)" "keeps calm (get_playbook_version org i v)" "keeps calm (get_action org i)"
  "keeps calm (query_bindings sv org c)" "keeps calm (query_approvals org r)" "keeps calm (get_run_controls org c v)"
  "keeps calm (query_reports sv org r g)" "keeps calm (stored_result org i)"
  by (simp_all add: get_run_def get_managed_def get_generation_def get_connection_def get_plan_def get_recovery_def
      get_probe_version_def get_playbook_version_def get_action_def query_bindings_def query_approvals_def
      get_run_controls_def query_reports_def stored_result_def calm.keeps_fetch)

lemmas calm_rules = calm.keeps_plain calm_tick get_reads keeps_cases

lemma calm_run_credential: "keeps calm (run_credential run)"
  by (simp add: run_credential_def get_reads)

lemma calm_optional_generation: "keeps calm (optional_generation org g)"
  unfolding optional_generation_def by (intro calm_rules)

lemma calm_run_target: "keeps calm (run_target run)"
  unfolding run_target_def by (intro calm_rules calm_optional_generation)

lemma calm_run_old: "keeps calm (run_old run)"
  unfolding run_old_def by (intro calm_rules)

lemma calm_run_bindings: "keeps calm (run_bindings sv run c)"
  by (simp add: run_bindings_def get_reads)

lemma calm_step_context: "keeps calm (step_context_of run)"
  unfolding step_context_of_def by (intro calm_rules calm_optional_generation calm_run_credential)

lemma calm_browser_playbook: "keeps calm (browser_playbook sv run c)"
  unfolding browser_playbook_def by (intro calm_rules)

lemma calm_rotation_context: "keeps calm (rotation_context_of sv run)"
  unfolding rotation_context_of_def binding_runtime_def
  by (intro calm_rules calm_run_credential calm_run_bindings calm_browser_playbook)

lemma calm_latest_report: "keeps calm (latest_report sv run g None)"
  unfolding latest_report_def by (simp, intro calm_rules)

lemma calm_candidates: "keeps calm (candidate_approvals run candidate approvals)"
  by (induction approvals) (auto intro!: calm_rules)

lemma calm_matching: "keeps calm (matching_approvals run approvals requested candidates)"
  by (induction candidates) (auto intro!: calm_rules calm_candidates)

lemma calm_evidence_hash: "keeps calm (approval_evidence_hash sv run st)"
  unfolding approval_evidence_hash_def by (intro calm_rules calm_latest_report)

lemma calm_granted: "keeps calm (granted_approval sv run step action p e g a)"
  unfolding granted_approval_def by (intro calm_rules)

lemma calm_step_action: "keeps calm (step_action sv run step ps c cr g i p e fence)"
  unfolding step_action_def by (intro calm_rules)

lemma calm_approval: "keeps calm (approval_for_step sv run step payload c previous resume)"
  unfolding approval_for_step_def chosen_approval_def Let_def
  by (intro calm_rules calm_run_credential calm_evidence_hash calm_step_action calm_matching calm_granted)

lemma calmD: "keeps calm f \<Longrightarrow> f s = (r, t) \<Longrightarrow> \<exists>n. t = s\<lparr>sx_ticks := n\<rparr>"
  by (drule (1) keepsD) (simp add: calm_def)

section \<open>Granted approvals\<close>

text \<open>
  The approval that a protected call carries: it is stored, of this run, approved and consumed, it has not
  expired at the last reading of the clock, and it is bound to the digest of an action of this very tool and
  to the plan of the run; the stored action is that action.
\<close>

definition granted :: "'w stage_services \<Rightarrow> rotation_run \<Rightarrow> string \<Rightarrow> approval \<Rightarrow> 'w stage_state \<Rightarrow> bool" where
  "granted sv run tool a s \<longleftrightarrow>
     a \<in> snd ` set (as_approvals (sx_approvals s) (run_organisation_id run)) \<and> appr_run_id a = run_id run
     \<and> appr_decision a = AP_APPROVED \<and> appr_consumed_at a \<noteq> None \<and> sv_clock sv (sx_ticks s - 1) < appr_expires_at a
     \<and> Some (appr_plan_hash a) = run_plan_hash run
     \<and> (\<exists>action stored. digest (sv_sha sv) (sv_time sv) (dump_action action) = Inr (appr_action_digest a)
          \<and> pa_kind action = tool \<and> pa_run_id action = run_id run \<and> pa_plan_hash action = appr_plan_hash a
          \<and> as_actions (sx_approvals s) (run_organisation_id run, appr_action_id a) = Some stored
          \<and> same_stored_action stored action)"

lemma checked_Inr: "checked q s = (Inr x, t) \<longleftrightarrow> q = Inr x \<and> t = s"
  by (auto simp: checked_def split: sum.splits)

lemma needs_Inr: "needs b m s = (Inr u, t) \<longleftrightarrow> b \<and> t = s"
  by (simp add: needs_def requires_Inr)

lemma fetch_Inr: "fetch f s = (Inr x, t) \<longleftrightarrow> f s = Inr x \<and> t = s"
  by (simp add: fetch_def checked_Inr)

lemma tick_eq: "tick sv s = (r, t) \<longleftrightarrow> r = Inr (sv_clock sv (sx_ticks s)) \<and> t = s\<lparr>sx_ticks := sx_ticks s + 1\<rparr>"
  by (auto simp: tick_def)

lemmas stage_inv = bindx_Inr checked_Inr needs_Inr requires_Inr fetch_Inr yields_eq raises_eq

lemma mapr_members: "mapr f xs = Inr ys \<Longrightarrow> (\<And>x y. f x = Inr y \<Longrightarrow> y = x) \<Longrightarrow> ys = xs"
  by (induction xs arbitrary: ys) (auto simp: bindr_eq_Inr)

lemma get_action_stored: "get_action org i s = (Inr x, t) \<Longrightarrow> t = s \<and> as_actions (sx_approvals s) (org, i) = Some x"
  by (auto simp: get_action_def fetch_Inr catalog_get_def bindr_eq_Inr validate_action_def split: option.splits if_splits)

lemma candidate_approvals_stored:
  assumes "candidate_approvals run candidate approvals s = (Inr xs, t)"
  shows "t = s \<and> (\<forall>a\<in>set xs. a \<in> set approvals
    \<and> (\<exists>stored. as_actions (sx_approvals s) (run_organisation_id run, appr_action_id a) = Some stored
         \<and> same_stored_action stored candidate))"
  using assms
proof (induction approvals arbitrary: xs)
  case Nil
  then show ?case by (simp add: yields_eq)
next
  case (Cons a approvals)
  show ?case
  proof (cases "appr_action_id a = pa_id candidate")
    case False
    then show ?thesis using Cons by fastforce
  next
    case True
    with Cons.prems obtain stored s1 where
      g: "get_action (run_organisation_id run) (appr_action_id a) s = (Inr stored, s1)" and
      n: "bindx (needs (same_stored_action stored candidate) ''protected action changed after approval request'') (\<lambda>_.
           bindx (candidate_approvals run candidate approvals) (\<lambda>rest. yields (a # rest))) s1 = (Inr xs, t)"
      by (auto simp: bindx_Inr)
    from get_action_stored [OF g] have s1: "s1 = s"
      and st: "as_actions (sx_approvals s) (run_organisation_id run, appr_action_id a) = Some stored" by auto
    from n obtain rest where r: "same_stored_action stored candidate" "candidate_approvals run candidate approvals s = (Inr rest, t)"
        "xs = a # rest"
      by (auto simp: stage_inv s1)
    with Cons.IH [OF r(2)] st show ?thesis by auto
  qed
qed

lemma matching_approvals_stored:
  assumes "matching_approvals run approvals requested candidates s = (Inr (action, xs), t)" "xs \<noteq> []"
  shows "action \<in> set candidates \<and> t = s \<and> (\<forall>a\<in>set xs. a \<in> set approvals
    \<and> (\<exists>stored. as_actions (sx_approvals s) (run_organisation_id run, appr_action_id a) = Some stored
         \<and> same_stored_action stored action))"
  using assms(1)
proof (induction candidates)
  case Nil
  then show ?case using assms(2) by (simp add: yields_eq)
next
  case (Cons c candidates)
  then obtain current where c: "candidate_approvals run c approvals s = (Inr current, s)"
    by (auto simp: stage_inv dest: candidate_approvals_stored)
  with Cons show ?case
    using candidate_approvals_stored [OF c] by (auto simp: stage_inv split: if_splits)
qed

lemma query_approvals_members:
  "query_approvals org r s = (Inr xs, t) \<Longrightarrow> t = s \<and> (\<forall>a\<in>set xs. a \<in> snd ` set (as_approvals (sx_approvals s) org) \<and> appr_run_id a = r)"
proof -
  assume q: "query_approvals org r s = (Inr xs, t)"
  then have m: "mapr validate_approval (filter (\<lambda>a. appr_run_id a = r) (map snd (sort_key fst (as_approvals (sx_approvals s) org)))) = Inr xs"
    and t: "t = s"
    by (auto simp: query_approvals_def fetch_Inr bindr_eq_Inr)
  have "xs = filter (\<lambda>a. appr_run_id a = r) (map snd (sort_key fst (as_approvals (sx_approvals s) org)))"
    by (rule mapr_members [OF m]) (auto simp: validate_approval_def bindr_eq_Inr split: if_splits)
  with t show ?thesis by auto
qed

lemma step_action_fields:
  assumes "step_action sv run step ps c credential g generation_id plan_hash e fence s = (Inr a, t)"
  shows "t = s \<and> pa_kind a = op_tool step \<and> pa_run_id a = run_id run \<and> pa_plan_hash a = plan_hash \<and> pa_evidence_hash a = e"
  using assms
  by (auto simp: step_action_def stage_inv required_def validate_action_def split: option.splits if_splits)

lemma granted_approval_facts:
  assumes "granted_approval sv run step action plan_hash evidence_hash generation_id a s = (Inr b, t)"
  shows "b = a \<and> digest (sv_sha sv) (sv_time sv) (dump_action action) = Inr (appr_action_digest a) \<and> appr_plan_hash a = plan_hash
    \<and> appr_evidence_hash a = evidence_hash \<and> appr_decision a = AP_APPROVED \<and> appr_consumed_at a \<noteq> None
    \<and> t = s\<lparr>sx_ticks := sx_ticks s + 1\<rparr> \<and> sv_clock sv (sx_ticks s) < appr_expires_at a"
  using assms by (auto simp: granted_approval_def stage_digest_def stage_inv tick_eq)

lemma chosen_approval_facts:
  assumes "chosen_approval sv run step action_for plan_hash evidence_hash generation_id False resume approvals s = (Inr a, t)"
    and idle: "\<forall>fence s x t. action_for fence s = (Inr x, t) \<longrightarrow> t = s"
  shows "a \<in> set approvals \<and> (\<exists>current stored. action_for (run_fencing_token run) s = (Inr current, s)
      \<and> digest (sv_sha sv) (sv_time sv) (dump_action current) = Inr (appr_action_digest a)
      \<and> as_actions (sx_approvals s) (run_organisation_id run, appr_action_id a) = Some stored \<and> same_stored_action stored current)
    \<and> appr_plan_hash a = plan_hash \<and> appr_evidence_hash a = evidence_hash \<and> appr_decision a = AP_APPROVED
    \<and> appr_consumed_at a \<noteq> None \<and> t = s\<lparr>sx_ticks := sx_ticks s + 1\<rparr> \<and> sv_clock sv (sx_ticks s) < appr_expires_at a"
proof -
  from assms(1) obtain current s1 where c: "action_for (run_fencing_token run) s = (Inr current, s1)" and
    n: "bindx (yields []) (\<lambda>previous.
     bindx (if resume then action_for (run_fencing_token run + 1) else yields current) (\<lambda>requested.
     bindx (matching_approvals run approvals requested (current # previous)) (\<lambda>(action, matching).
     case matching of
       [] \<Rightarrow> raises (Browser_Pause ''protected action approval is pending''
               [(''run_id'', Out (JStr (run_id run))), (''step_id'', Out (JStr (op_id step))),
                (''approval_request'', Out_Request action plan_hash evidence_hash)])
     | [a] \<Rightarrow> granted_approval sv run step action plan_hash evidence_hash generation_id a
     | _ \<Rightarrow> raises (value_error ''protected action has multiple approval records'')))) s1 = (Inr a, t)"
    by (auto simp: chosen_approval_def bindx_Inr [of "action_for _"])
  have s1: "s1 = s" using idle c by blast
  from n obtain requested s2 action matching s3 where
    r: "(if resume then action_for (run_fencing_token run + 1) else yields current) s = (Inr requested, s2)" and
    m: "matching_approvals run approvals requested [current] s2 = (Inr (action, matching), s3)" and
    e: "(case matching of
       [] \<Rightarrow> raises (Browser_Pause ''protected action approval is pending''
               [(''run_id'', Out (JStr (run_id run))), (''step_id'', Out (JStr (op_id step))),
                (''approval_request'', Out_Request action plan_hash evidence_hash)])
     | [a] \<Rightarrow> granted_approval sv run step action plan_hash evidence_hash generation_id a
     | _ \<Rightarrow> raises (value_error ''protected action has multiple approval records'')) s3 = (Inr a, t)"
    unfolding bindx_Inr yields_eq s1 split_paired_Ex prod.case by blast
  have s2: "s2 = s" using r idle by (auto simp: yields_eq split: if_splits)
  from e obtain b where b: "matching = [b]" "granted_approval sv run step action plan_hash evidence_hash generation_id b s3 = (Inr a, t)"
    by (auto simp: raises_eq split: list.splits)
  from matching_approvals_stored [OF m] b(1) s2 granted_approval_facts [OF b(2)] c s1 show ?thesis by auto
qed

text \<open>An approval that was found is a granted one, and looking for it changed nothing but the clock.\<close>

lemma approval_for_step_granted:
  assumes "approval_for_step sv run step payload c False resume s = (Inr a, t)"
  shows "granted sv run (op_tool step) a t"
proof -
  let ?org = "run_organisation_id run" and ?plan = "the (run_plan_hash run)"
  from assms have h: "run_plan_hash run \<noteq> None"
    unfolding approval_for_step_def bindx_Inr [of "needs _ _"] needs_Inr by blast
  from assms obtain credential generation_id g evidence_hash approvals s1 s2 where
    q: "query_approvals ?org (run_id run) s1 = (Inr approvals, s2)" and
    r: "chosen_approval sv run step (step_action sv run step payload c credential g generation_id ?plan evidence_hash)
          ?plan evidence_hash generation_id False resume approvals s2 = (Inr a, t)"
    unfolding approval_for_step_def Let_def bindx_Inr by blast
  have idle: "\<forall>fence s x t. step_action sv run step payload c credential g generation_id ?plan evidence_hash fence s = (Inr x, t)
      \<longrightarrow> t = s"
    using step_action_fields by blast
  obtain current stored where
    f: "step_action sv run step payload c credential g generation_id ?plan evidence_hash (run_fencing_token run) s2 = (Inr current, s2)"
      "digest (sv_sha sv) (sv_time sv) (dump_action current) = Inr (appr_action_digest a)"
      "as_actions (sx_approvals s2) (?org, appr_action_id a) = Some stored" "same_stored_action stored current"
    and g: "a \<in> set approvals" "appr_plan_hash a = ?plan" "appr_decision a = AP_APPROVED" "appr_consumed_at a \<noteq> None"
      "t = s2\<lparr>sx_ticks := sx_ticks s2 + 1\<rparr>" "sv_clock sv (sx_ticks s2) < appr_expires_at a"
    using chosen_approval_facts [OF r idle] by blast
  from step_action_fields [OF f(1)] query_approvals_members [OF q] f g h show ?thesis
    unfolding granted_def by auto
qed

section \<open>The cache of controls\<close>

definition control_key :: "rotation_run \<Rightarrow> string \<times> string \<times> string" where
  "control_key run = (run_organisation_id run, run_credential_id run, run_control_version run)"

lemma checked_eq: "checked q s = (r, t) \<longleftrightarrow> t = s \<and> r = (case q of Inl e \<Rightarrow> Inl (Other_Error e) | Inr x \<Rightarrow> Inr x)"
  by (auto simp: checked_def split: sum.splits)

lemma needs_eq: "needs b m s = (r, t) \<longleftrightarrow> t = s \<and> r = (if b then Inr () else Inl (value_error m))"
  by (auto simp: needs_def requires_def)

text \<open>Loading puts the controls of the run into the cache, and only when they are the pinned ones.\<close>

definition pinned_version :: "'w stage_services \<Rightarrow> rotation_run \<Rightarrow> control_version \<Rightarrow> gate_policy \<Rightarrow> bool" where
  "pinned_version sv run version gates \<longleftrightarrow>
     validate_control_version version = Inr version
     \<and> cv_organisation_id version = run_organisation_id run \<and> cv_credential_id version = run_credential_id run
     \<and> cv_id version = run_control_version run
     \<and> digest (sv_sha sv) (sv_time sv) (dump_control_definition (cv_definition version)) = Inr (cv_digest version)
     \<and> make_gate_policy (Some (cd_required_checks (cv_definition version))) = Inr gates"

lemma get_run_controls_eq:
  "get_run_controls org c v s = (r, t) \<Longrightarrow> t = s \<and> ((\<exists>e. r = Inl e) \<or> (\<exists>version. r = Inr version \<and> validate_control_version version = Inr version))"
  by (cases r) (auto simp: get_run_controls_def fetch_def checked_eq bindr_eq_Inr validate_control_version_ok
      split: sum.splits option.splits)

lemma load_control_eq:
  assumes "load_control sv run s = (r, t)"
  shows "(\<exists>e. r = Inl e) \<and> t = s
    \<or> (\<exists>version gates. r = Inr (version, gates) \<and> pinned_version sv run version gates
         \<and> t = s\<lparr>sx_controls := (sx_controls s)(control_key run \<mapsto> (version, gates))\<rparr>)"
  using assms
  by (auto simp: load_control_def bindx_eq [of "get_run_controls _ _ _"] dest!: get_run_controls_eq)
    (auto simp: bindx_eq stage_digest_def checked_eq needs_eq pinned_version_def control_key_def split: sum.splits if_splits)

lemma stage_control_eq:
  assumes "stage_control sv run s = (r, t)"
  shows "(\<exists>e. r = Inl e) \<and> t = s \<and> sx_controls s (control_key run) = None
    \<or> (\<exists>vg. r = Inr vg \<and> sx_controls s (control_key run) = Some vg \<and> t = s)
    \<or> (\<exists>version gates. r = Inr (version, gates) \<and> sx_controls s (control_key run) = None \<and> pinned_version sv run version gates
         \<and> t = s\<lparr>sx_controls := (sx_controls s)(control_key run \<mapsto> (version, gates))\<rparr>)"
  using assms load_control_eq
  by (fastforce simp: stage_control_def control_key_def split: option.splits)

lemma stage_control_cached: "stage_control sv run s = (Inr vg, t) \<Longrightarrow> sx_controls t (control_key run) = Some vg"
  using stage_control_eq by fastforce

lemma stage_definition_cached:
  assumes "stage_definition sv run s = (Inr controls, t)"
  obtains version gates where "sx_controls t (control_key run) = Some (version, gates)" "controls = cv_definition version"
proof -
  from assms obtain version gates where "stage_control sv run s = (Inr (version, gates), t)" "controls = cv_definition version"
    by (auto simp: stage_definition_def bindx_Inr yields_eq)
  then show ?thesis using that stage_control_cached by blast
qed

section \<open>Calls of the broker\<close>

text \<open>
  A call of the broker is admitted when the pinned controls of the run allow its tool and, when they protect
  it, the call carries a granted approval.
\<close>

definition admitted :: "'w stage_services \<Rightarrow> rotation_run \<Rightarrow> string \<Rightarrow> string option \<Rightarrow> 'w stage_state \<Rightarrow> bool" where
  "admitted sv run tool approval s \<longleftrightarrow>
     (\<exists>version gates. sx_controls s (control_key run) = Some (version, gates)
        \<and> tool \<in> set (cd_allowed_tools (cv_definition version))
        \<and> (tool \<in> set (cd_protected_tools (cv_definition version))
             \<longrightarrow> (\<exists>a. approval = Some (appr_id a) \<and> granted sv run tool a s)))"

text \<open>
  The cache of controls only grows, it holds pinned controls only if it did before, and the world keeps a
  property.
\<close>

definition controls_pinned :: "'w stage_services \<Rightarrow> 'w stage_state \<Rightarrow> bool" where
  "controls_pinned sv s \<longleftrightarrow>
     (\<forall>run version gates. sx_controls s (control_key run) = Some (version, gates) \<longrightarrow> pinned_version sv run version gates)"

definition steady :: "'w stage_services \<Rightarrow> ('w \<Rightarrow> bool) \<Rightarrow> 'w stage_state \<Rightarrow> 'w stage_state \<Rightarrow> bool" where
  "steady sv P s t \<longleftrightarrow>
     (\<forall>k v. sx_controls s k = Some v \<longrightarrow> sx_controls t k = Some v)
     \<and> (controls_pinned sv s \<longrightarrow> controls_pinned sv t) \<and> (P (sx_world s) \<longrightarrow> P (sx_world t))"

lemma steadyI: "sx_controls t = sx_controls s \<Longrightarrow> (P (sx_world s) \<Longrightarrow> P (sx_world t)) \<Longrightarrow> steady sv P s t"
  by (simp add: steady_def controls_pinned_def)

lemma pinned_key: "control_key r = control_key run \<Longrightarrow> pinned_version sv run version gates \<Longrightarrow> pinned_version sv r version gates"
  by (simp add: control_key_def pinned_version_def)

lemma load_keeps_pinned:
  assumes "controls_pinned sv s" "pinned_version sv run version gates"
  shows "controls_pinned sv (s\<lparr>sx_controls := (sx_controls s)(control_key run \<mapsto> (version, gates))\<rparr>)"
  using assms pinned_key by (fastforce simp: controls_pinned_def split: if_splits)

interpretation steady: kept_stage "steady sv P" for sv :: "'w stage_services" and P :: "'w \<Rightarrow> bool"
  by unfold_locales (auto simp: steady_def)

text \<open>
  The services leave the private cache of the coordinator alone, and keep the property of the world; of the
  broker this is asked for admitted calls only.
\<close>

definition services_steady :: "'w stage_services \<Rightarrow> ('w \<Rightarrow> bool) \<Rightarrow> bool" where
  "services_steady sv P \<longleftrightarrow>
     (\<forall>run i c tool payload approval s. admitted sv run tool approval s
        \<longrightarrow> steady sv P s (snd (sv_broker sv run i c tool payload approval s)))
     \<and> (\<forall>run c v k ts. keeps (steady sv P) (sv_session sv run c v k ts))
     \<and> (\<forall>run b tool route body a. keeps (steady sv P) (sv_post sv run b tool route body a))
     \<and> (\<forall>f run b. sv_install sv = Some f \<longrightarrow> keeps (steady sv P) (f run b))
     \<and> (\<forall>org i n. keeps (steady sv P) (sv_freeze sv org i n))
     \<and> (\<forall>run. keeps (steady sv P) (sv_terminate sv run)) \<and> (\<forall>run. keeps (steady sv P) (sv_pause sv run))
     \<and> (\<forall>task. keeps (steady sv P) (sv_agents sv task))
     \<and> (\<forall>d c ctx c'. keeps (steady sv P) (sv_probe sv d c ctx c'))
     \<and> (\<forall>org run name content now. keeps (steady sv P) (sv_evidence sv org run name content now))
     \<and> (\<forall>f i org c run. sv_notify sv = Some f \<longrightarrow> keeps (steady sv P) (f i org c run))"

lemma calm_steady: "calm s t \<Longrightarrow> steady sv P s t"
  by (auto simp: calm_def intro: steadyI)

lemma steady_calm: "keeps calm f \<Longrightarrow> keeps (steady sv P) f"
  unfolding keeps_def using calm_steady by blast

end
