(* ===== verification/Stage_Safety.thy ===== *)
theory Stage_Safety imports Stage_Facts begin
text \<open>
  Every call of the broker that an execution of a stage makes is admitted: what admitted calls and the other
  services keep of the world, every execution keeps.
\<close>

section \<open>The writes of the coordinator\<close>

lemma steady_writes [keeping]:
  "keeps (steady sv P) (tick sv)" "keeps (steady sv P) (on_generations f)" "keeps (steady sv P) (create_document segs path lookup put)"
  "keeps (steady sv P) (on_incidents sv org i status)" "keeps (steady sv P) (stage_control sv run)"
proof -
  show "keeps (steady sv P) (tick sv)" by (auto simp: keeps_def tick_def intro: steadyI)
  show "keeps (steady sv P) (on_generations f)"
    by (auto simp: keeps_def on_generations_def intro: steadyI split: sum.splits prod.splits)
  show "keeps (steady sv P) (create_document segs path lookup put)"
    by (auto simp: keeps_def create_document_def bindx_def checked_def intro: steadyI split: sum.splits)
  show "keeps (steady sv P) (on_incidents sv org i status)"
    by (auto simp: keeps_def on_incidents_def bindx_def tick_def intro: steadyI split: sum.splits prod.splits)
  show "keeps (steady sv P) (stage_control sv run)"
    unfolding keeps_def
  proof
    fix s
    obtain r t where rt: "stage_control sv run s = (r, t)" by fastforce
    show "steady sv P s (snd (stage_control sv run s))"
      using stage_control_eq [OF rt] load_keeps_pinned [of sv s run] by (auto simp: rt steady_def)
  qed
qed

lemmas steady_rules = steady.keeps_plain steady_writes keeps_cases

lemma steady_reads [keeping]:
  "keeps (steady sv P) (get_run org i)" "keeps (steady sv P) (get_managed org i)" "keeps (steady sv P) (get_generation org i)"
  "keeps (steady sv P) (get_connection sv org i)" "keeps (steady sv P) (get_plan org i)" "keeps (steady sv P) (get_recovery org i)"
  "keeps (steady sv P) (get_probe_version org i)" "keeps (steady sv P) (get_playbook_version org i v)"
  "keeps (steady sv P) (query_bindings sv org c)" "keeps (steady sv P) (query_reports sv org r g)"
  "keeps (steady sv P) (stored_result org i)" "keeps (steady sv P) (run_credential run)"
  "keeps (steady sv P) (optional_generation org g')" "keeps (steady sv P) (run_target run)" "keeps (steady sv P) (run_old run)"
  "keeps (steady sv P) (run_bindings sv run cr)" "keeps (steady sv P) (step_context_of run)"
  "keeps (steady sv P) (rotation_context_of sv run)" "keeps (steady sv P) (approval_for_step sv run step payload con b1 b2)"
  by (rule steady_calm, rule get_reads calm_run_credential calm_optional_generation calm_run_target calm_run_old
      calm_run_bindings calm_step_context calm_rotation_context calm_approval)+

lemma steady_definition [keeping]: "keeps (steady sv P) (stage_definition sv run)"
  unfolding stage_definition_def by (intro steady_rules)

lemma steady_created [keeping]:
  "keeps (steady sv P) (create_plan p)" "keeps (steady sv P) (create_recovery q)" "keeps (steady sv P) (create_recovery_result r)"
  "keeps (steady sv P) (create_result org i res)"
proof -
  have once: "keeps (steady sv P) (create_once segs path lookup validate v put)" for segs path lookup validate v put
    unfolding create_once_def
    by (intro steady.keeps_catches steady_writes) (auto split: stage_exception.split error.split intro!: steady_rules)
  show "keeps (steady sv P) (create_plan p)" "keeps (steady sv P) (create_recovery q)" "keeps (steady sv P) (create_recovery_result r)"
    by (auto simp: create_plan_def create_recovery_def create_recovery_result_def Let_def intro: once)
  show "keeps (steady sv P) (create_result org i res)" by (simp add: create_result_def steady_writes)
qed

section \<open>The call of an operation\<close>

text \<open>What calm operations leave alone: everything that does not depend on the clock.\<close>

definition cached :: "rotation_run \<Rightarrow> control_definition \<Rightarrow> 'w stage_state \<Rightarrow> bool" where
  "cached run controls s \<longleftrightarrow>
     (\<exists>version gates. sx_controls s (control_key run) = Some (version, gates) \<and> controls = cv_definition version)"

lemma guarded_calm:
  assumes "keeps calm f"
  shows "guarded (steady sv P) (cached run controls) f (\<lambda>_. cached run controls)"
  using steady_calm [OF assms] keepsD [OF assms] unfolding guarded_def keeps_def calm_def cached_def by fastforce

lemma guarded_calm_value:
  assumes "keeps calm f" "\<And>s x t. f s = (Inr x, t) \<Longrightarrow> Q x t"
  shows "guarded (steady sv P) (cached run controls) f (\<lambda>x s. cached run controls s \<and> Q x s)"
  using guarded_calm [OF assms(1), of sv P run controls] assms(2) unfolding guarded_def by blast

lemma guarded_definition: "guarded (steady sv P) (\<lambda>_. True) (stage_definition sv run) (cached run)"
  using steady_definition [of sv P run] unfolding guarded_def keeps_def cached_def
  by (auto elim: stage_definition_cached)

lemma guarded_needs: "guarded (steady sv P) I (needs b m) (\<lambda>_ s. I s \<and> b)"
  unfolding needs_def by (rule steady.guarded_idle)

text \<open>The approval of a step is granted, when its tool is protected.\<close>

definition approved :: "'w stage_services \<Rightarrow> rotation_run \<Rightarrow> bool \<Rightarrow> string \<Rightarrow> string option \<Rightarrow> 'w stage_state \<Rightarrow> bool" where
  "approved sv run protect tool approval s \<longleftrightarrow> (protect \<longrightarrow> (\<exists>a. approval = Some (appr_id a) \<and> granted sv run tool a s))"

lemma guarded_approval:
  "guarded (steady sv P) (cached run controls)
     (if b then bindx (approval_for_step sv run step payload c False False) (\<lambda>a. yields (Some (appr_id a))) else yields None)
     (\<lambda>approval s. cached run controls s \<and> approved sv run b (op_tool step) approval s)"
proof (rule guarded_calm_value)
  show "keeps calm (if b then bindx (approval_for_step sv run step payload c False False) (\<lambda>a. yields (Some (appr_id a)))
      else yields None)"
    by (intro calm_rules calm_approval)
qed (auto simp: approved_def bindx_Inr yields_eq split: if_splits dest: approval_for_step_granted)

lemma guarded_broker:
  assumes sv: "services_steady sv P" and tool: "tool \<in> set (cd_allowed_tools controls)" "tool \<in> set (cd_protected_tools controls) \<longrightarrow> b"
  shows "guarded (steady sv P) (\<lambda>s. cached run controls s \<and> approved sv run b tool approval s)
     (sv_broker sv run i c tool payload approval) (\<lambda>_ _. True)"
proof -
  have "admitted sv run tool approval s" if "cached run controls s" "approved sv run b tool approval s" for s
    using tool that by (auto simp: cached_def approved_def admitted_def)
  moreover have "admitted sv run tool approval s \<Longrightarrow> steady sv P s (snd (sv_broker sv run i c tool payload approval s))" for s
    using sv by (simp add: services_steady_def)
  ultimately show ?thesis by (simp add: guarded_def)
qed

text \<open>An approval when one is needed, the call, and what follows it.\<close>

lemma guarded_call:
  assumes "services_steady sv P" "op_tool step \<in> set (cd_allowed_tools controls)"
    "op_tool step \<in> set (cd_protected_tools controls) \<longrightarrow> b" "\<And>res. keeps (steady sv P) (k res)"
  shows "guarded (steady sv P) (cached run controls)
    (bindx (if b then bindx (approval_for_step sv run step payload c False False) (\<lambda>a. yields (Some (appr_id a))) else yields None)
      (\<lambda>approval. bindx (sv_broker sv run i c' (op_tool step) payload' approval) k)) (\<lambda>_ _. True)"
  by (rule steady.guarded_bindx [OF guarded_approval],
      rule steady.guarded_bindx [OF guarded_broker [OF assms(1-3)]], rule keeps_guarded [OF assms(4)])

lemma guarded_prod: "(\<And>x y. guarded R I (g x y) Q) \<Longrightarrow> guarded R I (case v of (x, y) \<Rightarrow> g x y) Q"
  by (simp split: prod.split)

lemma guarded_option: "guarded R I f Q \<Longrightarrow> (\<And>x. guarded R I (g x) Q) \<Longrightarrow> guarded R I (case v of None \<Rightarrow> f | Some x \<Rightarrow> g x) Q"
  by (simp split: option.split)

lemma guarded_weaken: "guarded R I f Q \<Longrightarrow> (\<And>s. J s \<Longrightarrow> I s) \<Longrightarrow> guarded R J f Q"
  by (auto simp: guarded_def)

lemma guarded_when: "(b \<Longrightarrow> guarded R I f Q) \<Longrightarrow> guarded R (\<lambda>s. I s \<and> b) f Q"
  by (auto simp: guarded_def)

lemma guarded_operation_call:
  assumes "services_steady sv P" "op_tool step \<in> set (cd_allowed_tools controls)" "\<And>res. keeps (steady sv P) (k res)"
  shows "guarded (steady sv P) (cached run controls)
    (bindx (if op_tool step \<in> set (cd_protected_tools controls)
            then bindx (approval_for_step sv run (step\<lparr>op_protected := True\<rparr>) payload c False False) (\<lambda>a. yields (Some (appr_id a)))
            else yields None)
      (\<lambda>approval. bindx (sv_broker sv run i c' (op_tool step) payload' approval) k)) (\<lambda>_ _. True)"
  using guarded_call [OF assms(1), of "step\<lparr>op_protected := True\<rparr>" controls "op_tool step \<in> set (cd_protected_tools controls)" k]
    assms(2,3) by simp

lemma execute_operation_steady [keeping]:
  assumes sv: "services_steady sv P"
  shows "keeps (steady sv P) (execute_operation sv run step)"
  unfolding execute_operation_def
  apply (rule guarded_keeps, rule steady.guarded_bindx, rule guarded_definition,
      rule steady.guarded_bindx, rule guarded_needs, rule guarded_when,
      rule steady.guarded_bindx, rule guarded_calm, rule calm_step_context,
      rule steady.guarded_bindx, rule guarded_calm, rule calm.keeps_checked)
  apply (rule guarded_prod, rule guarded_option, rule steady.guarded_idle, rule guarded_operation_call [OF sv], assumption)
  apply (intro steady_rules)
  done

lemma run_operation_steady [keeping]: "services_steady sv P \<Longrightarrow> keeps (steady sv P) (run_operation sv run step)"
  unfolding run_operation_def by (intro steady_rules execute_operation_steady)


text \<open>
  Every handler of a stage, the recovery and the whole execution keep what the services keep: the lemmas of
  Stage_Admission put together along the calls of the coordinator.
\<close>

lemma keeps_json:
  "keeps R a \<Longrightarrow> (\<And>x. keeps R (b x)) \<Longrightarrow> (\<And>x. keeps R (c x)) \<Longrightarrow> (\<And>x. keeps R (d x)) \<Longrightarrow> (\<And>x. keeps R (e x)) \<Longrightarrow> (\<And>x. keeps R (f x))
   \<Longrightarrow> keeps R (case v of JNull \<Rightarrow> a | JBool x \<Rightarrow> b x | JInt x \<Rightarrow> c x | JStr x \<Rightarrow> d x | JList x \<Rightarrow> e x | JDict x \<Rightarrow> f x)"
  by (simp split: json.split)

lemma keeps_exception:
  "(\<And>m out. keeps R (a m out)) \<Longrightarrow> (\<And>m out. keeps R (b m out)) \<Longrightarrow> (\<And>m r. keeps R (c m r)) \<Longrightarrow> (\<And>e. keeps R (d e))
   \<Longrightarrow> keeps R (case v of Browser_Pause m out \<Rightarrow> a m out | Browser_Failure m out \<Rightarrow> b m out | Stage_Failure m r \<Rightarrow> c m r
       | Other_Error e \<Rightarrow> d e)"
  by (simp split: stage_exception.split)

lemma keeps_provider_step:
  "(\<And>s. keeps R (a s)) \<Longrightarrow> (\<And>s. keeps R (b s)) \<Longrightarrow> keeps R (case v of Api_Step s \<Rightarrow> a s | Browser_Step s \<Rightarrow> b s)"
  by (simp split: provider_step.split)

section \<open>The services\<close>

lemma service_keeps:
  assumes "services_steady sv P"
  shows "keeps (steady sv P) (sv_session sv run c v k ts)" "keeps (steady sv P) (sv_post sv run b tool route body a)"
    "keeps (steady sv P) (sv_freeze sv org i n)"
    "keeps (steady sv P) (sv_terminate sv run)" "keeps (steady sv P) (sv_pause sv run)" "keeps (steady sv P) (sv_agents sv task)"
    "keeps (steady sv P) (sv_probe sv d c ctx c')" "keeps (steady sv P) (sv_evidence sv org i name content now)"
  using assms by (simp_all add: services_steady_def)

lemma optional_service_keeps:
  "services_steady sv P \<Longrightarrow> sv_install sv = Some f \<Longrightarrow> keeps (steady sv P) (f run b)"
  "services_steady sv P \<Longrightarrow> sv_notify sv = Some h \<Longrightarrow> keeps (steady sv P) (h i org i' r)"
  by (simp_all add: services_steady_def)

lemma install_steady: "services_steady sv P \<Longrightarrow> keeps (steady sv P) (install_access sv run session step)"
  by (simp add: install_access_def steady.keeps_idle optional_service_keeps split: option.split)

section \<open>Steps in the browser\<close>

lemma output_steady:
  "keeps (steady sv P) (completed_output session step reply)" "keeps (steady sv P) (settle_action sv step session reply)"
proof -
  have declared: "keeps (steady sv P) (declared_outputs reply)"
    by (simp add: declared_outputs_def steady.keeps_idle split: option.split json.split)
  show completed: "keeps (steady sv P) (completed_output session step reply)"
    unfolding completed_output_def by (intro steady_rules declared)
  show "keeps (steady sv P) (settle_action sv step session reply)"
    unfolding settle_action_def by (intro steady_rules completed)
qed

lemma dialogue_steady:
  assumes sv: "services_steady sv P"
  shows "keeps (steady sv P) (browser_dialogue sv run step approval n session)"
proof (induction n arbitrary: session)
  case 0
  then show ?case by (simp add: steady.keeps_idle)
next
  case (Suc n)
  show ?case
    unfolding browser_dialogue.simps takeover_pause_def
    by (intro steady_rules service_keeps [OF sv] install_steady [OF sv] output_steady keeps_json Suc)
qed

lemma browser_execute_steady:
  assumes sv: "services_steady sv P"
  shows "keeps (steady sv P) (browser_execute sv run c version credential tools step approval)"
  unfolding browser_execute_def execute_deterministic_def
  by (intro steady_rules service_keeps [OF sv] install_steady [OF sv] dialogue_steady [OF sv])

lemma operator_decision_steady:
  assumes sv: "services_steady sv P"
  shows "keeps (steady sv P) (operator_decision_for sv run step context version)"
  unfolding operator_decision_for_def Let_def by (intro steady_rules service_keeps [OF sv])

lemma browser_step_steady:
  assumes sv: "services_steady sv P"
  shows "keeps (steady sv P) (run_browser_step sv run context st version step)"
  unfolding run_browser_step_def
  by (intro steady_rules steady_reads keeps_exception service_keeps [OF sv] operator_decision_steady [OF sv]
      browser_execute_steady [OF sv])

lemma provider_steps_steady: "keeps (steady sv P) (provider_steps sv run context st)"
  unfolding provider_steps_def by (intro steady_rules steady_definition)

lemma execute_provider_steps_steady:
  assumes sv: "services_steady sv P"
  shows "keeps (steady sv P) (execute_provider_steps sv run context st)"
  unfolding execute_provider_steps_def run_provider_step_def
  by (intro steady_rules provider_steps_steady keeps_provider_step execute_operation_steady [OF sv] browser_step_steady [OF sv])

section \<open>Verification\<close>

lemma run_probes_steady: "keeps (steady sv P) (run_probes sv run negative observation st)"
proof -
  have "keeps (steady sv P) (probe_generation run d)" for d
    by (simp add: probe_generation_def steady_rules split: generation_binding.split)
  moreover have "keeps (steady sv P) (bound_target d g)" for d g
    by (simp add: bound_target_def steady_rules split: target_binding.split)
  ultimately have "keeps (steady sv P) (bind_probe run negative d)" for d
    unfolding bind_probe_def by (intro steady_rules steady_reads)
  then show ?thesis
    unfolding run_probes_def resolve_probe_def Let_def by (intro steady_rules steady_reads steady_definition)
qed

lemma verification_steady:
  assumes sv: "services_steady sv P"
  shows "keeps (steady sv P) (run_verification sv run negative observation st suffix)"
  unfolding run_verification_def verify_generation_def run_probe_def Let_def
  by (intro steady_rules steady_reads run_probes_steady service_keeps [OF sv])

lemma report_steady:
  "keeps (steady sv P) (latest_report sv run g st)" "keeps (steady sv P) (verification_checks sv run report st')"
  "keeps (steady sv P) (require_probes sv run)"
proof -
  show "keeps (steady sv P) (latest_report sv run g st)"
    unfolding latest_report_def by (intro steady_rules steady_reads steady_definition)
  show "keeps (steady sv P) (verification_checks sv run report st')"
    unfolding verification_checks_def Let_def by (intro steady_rules steady_reads steady_definition)
  show "keeps (steady sv P) (require_probes sv run)"
    unfolding require_probes_def Let_def by (intro steady_rules steady_reads steady_definition)
qed

lemmas stage_rules = steady_rules steady_reads steady_definition steady_created report_steady provider_steps_steady

section \<open>The handlers\<close>

lemma text_steady:
  "keeps (steady sv P) (find_text values name)" "keeps (steady sv P) (display_name_item values)"
  "keeps (steady sv P) (secret_parts reference)" "keeps (steady sv P) (make_stage_bindings b)"
  by (simp_all add: find_text_def display_name_item_def secret_parts_def make_stage_bindings_def steady_rules
      split: option.split json.split)

lemmas handler_rules = stage_rules text_steady

lemma dispatch_steady:
  assumes sv: "services_steady sv P"
  shows "keeps (steady sv P) (dispatch_stage sv run st)"
proof -
  note rules = handler_rules service_keeps [OF sv] run_operation_steady [OF sv] execute_provider_steps_steady [OF sv]
    verification_steady [OF sv]
  have planned: "keeps (steady sv P) (run_plan_of sv run)" unfolding run_plan_of_def by (intro rules)
  have approving: "keeps (steady sv P) (revocation_approval sv run cx step)" for cx step
    unfolding revocation_approval_def by (intro rules)
  have disabled: "keeps (steady sv P) (disable_old sv run cx r outputs evidence)" for cx r outputs evidence
    unfolding disable_old_def by (intro rules)
  have accessed: "keeps (steady sv P) (consumer_access sv run cx target binding)" for cx target binding
    unfolding consumer_access_def by (intro rules)
  have deployed: "keeps (steady sv P) (deploy_binding sv run n v binding)" for n v binding
    unfolding deploy_binding_def Let_def by (intro rules)
  have percent: "keeps (steady sv P) (rollout_percent sv run p)" for p
    unfolding rollout_percent_def by (intro rules)
  have "keeps (steady sv P) (stage_trigger sv run)" unfolding stage_trigger_def by (intro rules)
  moreover have "keeps (steady sv P) (stage_preflight sv run)" unfolding stage_preflight_def preflight_guards_def by (intro rules)
  moreover have "keeps (steady sv P) (stage_plan sv run)" unfolding stage_plan_def by (intro rules)
  moreover have "keeps (steady sv P) (stage_create sv run)" unfolding stage_create_def Let_def by (intro rules)
  moreover have "keeps (steady sv P) (stage_store sv run)" unfolding stage_store_def by (intro rules accessed)
  moreover have "keeps (steady sv P) (stage_deploy sv run)" unfolding stage_deploy_def by (intro rules deployed)
  moreover have "keeps (steady sv P) (stage_verify sv run)" unfolding stage_verify_def by (intro rules)
  moreover have "keeps (steady sv P) (stage_rollout sv run)" unfolding stage_rollout_def Let_def by (intro rules percent planned)
  moreover have "keeps (steady sv P) (stage_observe sv run)" unfolding stage_observe_def by (intro rules planned)
  moreover have "keeps (steady sv P) (stage_approval sv run)" unfolding stage_approval_def approval_steps_def by (intro rules approving)
  moreover have "keeps (steady sv P) (stage_revoke sv run)" unfolding stage_revoke_def Let_def by (intro rules disabled)
  moreover have "keeps (steady sv P) (stage_complete sv run)" unfolding stage_complete_def stage_verify_audit_def by (intro rules)
  ultimately show ?thesis by (cases st) simp_all
qed


text \<open>
  The recovery of a stage and the whole execution: every call of the broker that \<open>execute_stage\<close> makes is
  admitted.
\<close>

section \<open>Recovery\<close>

lemma steady_cached: "steady sv P s t \<Longrightarrow> cached run controls s \<Longrightarrow> cached run controls t"
  unfolding steady_def cached_def by blast

lemma guarded_steady: "keeps (steady sv P) f \<Longrightarrow> guarded (steady sv P) (cached run controls) f (\<lambda>_. cached run controls)"
  unfolding guarded_def keeps_def using steady_cached by (metis snd_conv)

lemma guarded_stays:
  "guarded (steady sv P) (cached run controls) f Q \<Longrightarrow> guarded (steady sv P) (cached run controls) f (\<lambda>_. cached run controls)"
  unfolding guarded_def using steady_cached by (metis snd_conv)

lemma guarded_mapx:
  assumes "\<And>x. guarded (steady sv P) (cached run controls) (f x) (\<lambda>_ _. True)"
  shows "guarded (steady sv P) (cached run controls) (mapx f xs) (\<lambda>_. cached run controls)"
proof (induction xs)
  case Nil
  show ?case unfolding mapx.simps by (rule guarded_steady, rule steady.keeps_idle)
next
  case (Cons x xs)
  show ?case unfolding mapx.simps
    by (rule steady.guarded_bindx, rule guarded_stays, rule assms, rule steady.guarded_bindx, rule Cons,
        rule guarded_steady, rule steady.keeps_idle)
qed

lemma guarded_recovery_approval:
  "guarded (steady sv P) (cached run controls) (recovery_approval sv run recovery i action c payload)
     (\<lambda>approval s. cached run controls s \<and> approved sv run (ra_protected action) (ra_tool action) approval s)"
proof (rule guarded_calm_value)
  show "keeps calm (recovery_approval sv run recovery i action c payload)"
    unfolding recovery_approval_def by (intro calm_rules calm_approval)
next
  fix s x t
  assume "recovery_approval sv run recovery i action c payload s = (Inr x, t)"
  then show "approved sv run (ra_protected action) (ra_tool action) x t"
    using approval_for_step_granted
    by (fastforce simp: recovery_approval_def approved_def stage_inv make_operation_def recovery_step_def split: if_splits)
qed

lemma guarded_recovery_action:
  assumes sv: "services_steady sv P"
  shows "guarded (steady sv P) (cached run controls) (recovery_action_step sv run recovery controls cx ia) (\<lambda>_ _. True)"
proof -
  obtain i action where ia: "ia = (i, action)" by fastforce
  have call: "guarded (steady sv P) (cached run controls)
      (bindx (recovery_approval sv run recovery i action c payload) (\<lambda>approval.
       bindx (sv_broker sv run key c' (ra_tool action) payload' approval) k)) (\<lambda>_ _. True)"
    if "ra_tool action \<in> set (cd_allowed_tools controls)"
      "ra_tool action \<in> set (cd_protected_tools controls) \<longrightarrow> ra_protected action" "\<And>res. keeps (steady sv P) (k res)"
    for c payload key c' payload' k
    by (rule steady.guarded_bindx [OF guarded_recovery_approval],
        rule steady.guarded_bindx [OF guarded_broker [OF sv that(1,2)]], rule keeps_guarded [OF that(3)])
  show ?thesis
    unfolding recovery_action_step_def ia prod.case
    apply (rule steady.guarded_bindx, rule guarded_needs, rule guarded_when)
    apply (rule steady.guarded_bindx, rule guarded_needs, rule guarded_when)
    apply (rule steady.guarded_bindx, rule guarded_calm, rule calm.keeps_checked)
    apply (rule steady.guarded_bindx, rule guarded_calm, rule calm.keeps_checked)
    apply (rule guarded_prod, rule guarded_option, rule steady.guarded_idle, rule call, assumption, assumption)
    apply (intro steady_rules)
    done
qed

lemma definition_cached: "stage_definition sv run s = (Inr controls, t) \<Longrightarrow> cached run controls t"
  unfolding cached_def by (elim stage_definition_cached) blast

lemma guarded_bound_recovery:
  "guarded (steady sv P) (\<lambda>_. True) (bound_recovery sv run) (\<lambda>(plan, recovery, controls). cached run controls)"
proof -
  have "keeps (steady sv P) (bound_recovery sv run)"
    unfolding bound_recovery_def by (intro stage_rules)
  moreover have "cached run controls t" if "bound_recovery sv run s = (Inr (plan, recovery, controls), t)"
    for s t plan recovery controls
    using that by (auto simp: bound_recovery_def stage_inv split: option.splits dest: definition_cached)
  ultimately show ?thesis unfolding guarded_def keeps_def by auto
qed

lemma recover_stage_steady:
  assumes sv: "services_steady sv P"
  shows "keeps (steady sv P) (recover_stage sv run)"
proof -
  note stays = guarded_steady [OF steady_writes(1)] guarded_steady [OF steady.keeps_checked]
    guarded_steady [OF service_keeps(6) [OF sv]] guarded_steady [OF steady_reads(17)]
  show ?thesis
    unfolding recover_stage_def
    apply (rule guarded_keeps, rule steady.guarded_bindx, rule guarded_bound_recovery)
    subgoal for x
      apply (cases x, simp only: prod.case)
      apply (rule steady.guarded_bindx, rule stays)
      apply (rule steady.guarded_bindx, rule stays)
      apply (rule steady.guarded_bindx, rule stays)
      apply (rule steady.guarded_bindx, rule stays)
      apply (rule steady.guarded_bindx, rule stays)
      apply (rule steady.guarded_bindx, rule guarded_mapx, rule guarded_recovery_action [OF sv])
      apply (rule keeps_guarded, intro stage_rules)
      done
    done
qed

section \<open>The execution\<close>

lemma keeps_output:
  "(\<And>x. keeps R (a x)) \<Longrightarrow> (\<And>x. keeps R (b x)) \<Longrightarrow> (\<And>x. keeps R (c x)) \<Longrightarrow> (\<And>x. keeps R (d x)) \<Longrightarrow> (\<And>x y z. keeps R (e x y z))
   \<Longrightarrow> keeps R (case v of Out x \<Rightarrow> a x | Out_Generation x \<Rightarrow> b x | Out_Plan x \<Rightarrow> c x | Out_Report x \<Rightarrow> d x
       | Out_Request x y z \<Rightarrow> e x y z)"
  by (simp split: output_item.split)

lemma keeps_outcome:
  "(\<And>a b c d. keeps R (g a b c d z)) \<Longrightarrow> keeps R ((case v of (a, b, c, d) \<Rightarrow> g a b c d) z)"
  by (simp split: prod.split)

lemma settled_steady:
  assumes sv: "services_steady sv P"
  shows "keeps (steady sv P) (settled_stage sv run i started)"
proof -
  note rules = stage_rules service_keeps [OF sv] recover_stage_steady [OF sv] dispatch_steady [OF sv]
  have outcome: "keeps (steady sv P) (stage_outcome_of sv run)"
    unfolding stage_outcome_of_def by (intro rules)
  have attempt: "keeps (steady sv P) (attempt_stage sv run i started)"
    unfolding attempt_stage_def stage_evidence_def by (intro rules outcome keeps_outcome)
  have replaced: "keeps (steady sv P) (stage_replace_connection sv org c r u)" for org c r u
    unfolding stage_replace_connection_def by (intro rules) (simp add: keeps_def steadyI)
  have flagged: "keeps (steady sv P) (flag_connection sv org c now)" for org c now
    unfolding flag_connection_def by (intro rules replaced)
  have remembered: "keeps (steady sv P) (remember_waiting_run n run c)" for n c
    by (cases n) (auto simp: keeps_def bindx_def checked_def raises_def intro: steadyI split: sum.splits option.splits)
  have notified: "keeps (steady sv P) (case sv_notify sv of None \<Rightarrow> yields () | Some emit \<Rightarrow> suppressed (emit a org c r))" for a org c r
    by (simp add: steady.keeps_idle steady.keeps_suppressed optional_service_keeps(2) [OF sv] split: option.split)
  have reauthentication: "keeps (steady sv P) (flag_reauthentication sv now run out i)" for now out
    unfolding flag_reauthentication_def
    by (intro keeps_option keeps_output keeps_json steady.keeps_idle)
      (intro steady.keeps_bindx steady.keeps_suppressed flagged remembered notified)
  have paused: "keeps (steady sv P) (paused_stage_result sv run i started reason out)" for reason out
    unfolding paused_stage_result_def by (intro rules reauthentication)
  have failed: "keeps (steady sv P) (failed_stage_result sv run i started e)" for e
    unfolding failed_stage_result_def failure_evidence_def Let_def by (intro rules)
  show ?thesis
    unfolding settled_stage_def
    by (rule steady.keeps_catches [OF attempt]) (intro keeps_exception paused failed)
qed

lemma execute_stage_steady:
  assumes sv: "services_steady sv P"
  shows "keeps (steady sv P) (execute_stage sv request)"
proof -
  have checked: "keeps (steady sv P) (check_request sv request run)" for run
    unfolding check_request_def by (intro stage_rules)
  have audited: "keeps (steady sv P) (stage_audit sv run i r)" for run i r
    unfolding stage_audit_def
    by (rule steady.keeps_bindx, rule steady_writes) (auto simp: keeps_def intro: steadyI split: sum.splits prod.splits)
  show ?thesis
    unfolding execute_stage_def Let_def by (intro stage_rules checked audited settled_steady [OF sv])
qed

end
