(* ===== verification/Stage_Records.thy ===== *)
theory Stage_Records imports Stage_Safety Audit_Theorems begin
text \<open>
  What an execution of a stage leaves: a stored result, which a later execution returns, an audit event, and for a
  success the evidence that the pinned controls require.
\<close>

section \<open>Results\<close>

lemma make_stage_result_same: "make_stage_result r = Inr q \<Longrightarrow> q = r \<and> make_stage_result q = Inr q"
  by (auto simp: make_stage_result_def bindr_eq_Inr split: if_splits)

lemma settled_result_ok:
  assumes "settled_stage sv run i started s = (Inr r, t)"
  shows "make_stage_result r = Inr r"
proof -
  have attempt: "make_stage_result r = Inr r" if "attempt_stage sv run i started s = (Inr r, t)"
    using that by (auto simp: attempt_stage_def bindx_Inr checked_Inr yields_eq split: prod.splits dest!: make_stage_result_same)
  have paused: "make_stage_result r = Inr r" if "paused_stage_result sv run i started reason out s1 = (Inr r, t)" for reason out s1
    using that by (auto simp: paused_stage_result_def bindx_Inr checked_Inr dest!: make_stage_result_same)
  have failed: "make_stage_result r = Inr r" if "failed_stage_result sv run i started e s1 = (Inr r, t)" for e s1
    using that by (auto simp: failed_stage_result_def Let_def bindx_Inr checked_Inr dest!: make_stage_result_same)
  from assms show ?thesis
    unfolding settled_stage_def catches_def
    by (auto split: prod.splits sum.splits stage_exception.splits intro: attempt paused failed)
qed

text \<open>The result an execution returns is stored under its name.\<close>

lemma stored_result_Inr:
  "stored_result org i s = (Inr q, t) \<longleftrightarrow> t = s \<and> segments [org, i] = Inr ()
     \<and> (case sd_results (sx_documents s) (org, i) of None \<Rightarrow> q = None
        | Some doc \<Rightarrow> make_stage_result doc = Inr doc \<and> q = Some doc)"
  by (auto simp: stored_result_def fetch_Inr bindr_eq_Inr split: option.splits dest: make_stage_result_same)

lemma create_result_Inr:
  "create_result org i r s = (Inr u, t) \<Longrightarrow> sd_results (sx_documents t) (org, i) = Some r"
  by (auto simp: create_result_def create_document_def bindx_Inr checked_Inr split: if_splits)

lemma executed_stored:
  assumes "execute_stage sv request s = (Inr r, t)"
  shows "sd_results (sx_documents t) (sq_organisation_id request, execution_id_of sv request) = Some r \<and> make_stage_result r = Inr r"
  using assms unfolding execute_stage_def Let_def bindx_Inr tick_eq checked_Inr stored_result_Inr
  apply (elim exE conjE)
  apply (simp split: option.splits)
  apply (auto simp: bindx_Inr yields_eq dest: settled_result_ok create_result_Inr)
  done

text \<open>With a stored result nothing is executed: an execution only reads, and returns it.\<close>

lemma guarded_documents:
  assumes "keeps calm f"
  shows "guarded calm (\<lambda>s. sd_results (sx_documents s) k = v) f (\<lambda>_ s. sd_results (sx_documents s) k = v)"
  unfolding guarded_def
proof (intro allI impI conjI)
  fix s x t
  assume "sd_results (sx_documents s) k = v" "f s = (Inr x, t)"
  with calmD [OF assms] show "sd_results (sx_documents t) k = v" by fastforce
qed (use assms in \<open>simp add: keeps_def\<close>)

lemma executed_again:
  "guarded calm (\<lambda>s. sd_results (sx_documents s) (sq_organisation_id request, execution_id_of sv request) = Some r)
     (execute_stage sv request) (\<lambda>x _. x = r)"
proof -
  let ?k = "(sq_organisation_id request, execution_id_of sv request)"
  have stored: "guarded calm (\<lambda>s. sd_results (sx_documents s) ?k = Some r) (stored_result (fst ?k) (snd ?k)) (\<lambda>x _. x = Some r)"
    using get_reads(14) by (auto simp: guarded_def keeps_def stored_result_Inr)
  have "keeps calm (check_request sv request run)" for run
    unfolding check_request_def by (intro calm_rules)
  note reads = calm_tick calm.keeps_checked get_reads(1) this
  have found: "guarded calm (\<lambda>_. x = Some r) (case x of Some r \<Rightarrow> yields r | None \<Rightarrow> f) (\<lambda>y _. y = r)" for x f
    by (cases x) (auto simp: guarded_def yields_def calm.kept_refl)
  show ?thesis
    unfolding execute_stage_def Let_def
    apply (rule calm.guarded_bindx, rule guarded_documents, rule reads)
    apply (rule calm.guarded_bindx, rule guarded_documents, rule reads)
    apply (rule calm.guarded_bindx, rule guarded_documents, rule reads)
    apply (rule calm.guarded_bindx, rule guarded_documents, rule reads)
    apply (rule calm.guarded_bindx, rule stored [simplified])
    apply (rule found)
    done
qed

section \<open>What a success proves\<close>

lemma make_stage_result_value: "make_stage_result r = Inr q \<Longrightarrow> q = r"
  using make_stage_result_same by blast

lemma failed_status:
  "paused_stage_result sv run i started reason out s = (Inr r, t) \<Longrightarrow> sr_status r = Exec_Paused"
  "failed_stage_result sv run i started e s = (Inr r, t) \<Longrightarrow> sr_status r = Exec_Failed"
  by (auto simp: paused_stage_result_def failed_stage_result_def Let_def plain_result_def bindx_Inr checked_Inr
      dest!: make_stage_result_value)

lemma completed_facts:
  assumes "make_stage_result ((plain_result i run status started completed)
      \<lparr>sr_checks := checks, sr_evidence_ids := evidence, sr_bindings := b, sr_recovery_mode := mode, sr_output := out\<rparr>) = Inr r"
  shows "sr_status r = status \<and> sr_stage r = run_stage run \<and> (status = Exec_Succeeded \<longrightarrow> sr_evidence_ids r \<noteq> [])"
proof -
  from assms have r: "r = (plain_result i run status started completed)
      \<lparr>sr_checks := checks, sr_evidence_ids := evidence, sr_bindings := b, sr_recovery_mode := mode, sr_output := out\<rparr>"
    "validate_stage_result r = Inr ()"
    by (auto simp: make_stage_result_def bindr_eq_Inr split: if_splits)
  from r(2) have "sr_status r = Exec_Succeeded \<longrightarrow> sr_evidence_ids r \<noteq> []"
    by (auto simp: validate_stage_result_def bindr_eq_Inr require_eq_Inr Let_def)
  with r(1) show ?thesis by (simp add: plain_result_def)
qed

lemma attempt_facts:
  assumes "attempt_stage sv run i started s = (Inr r, t)" "sr_status r = Exec_Succeeded" "controls_pinned sv s"
  shows "run_status run \<noteq> RECOVERING \<and> sr_stage r = run_stage run \<and> sr_evidence_ids r \<noteq> []
    \<and> (\<exists>version gates. pinned_version sv run version gates \<and> policy_validate gates (stage_proof_of run r) = Inr ())"
proof -
  from assms(1) obtain version gates s1 checks evidence b out mode s2 proofs s3 completed s4 u where
    c: "stage_control sv run s = (Inr (version, gates), s1)" and
    m: "make_stage_result ((plain_result i run (if run_status run = RECOVERING then Exec_Recovered else Exec_Succeeded) started completed)
        \<lparr>sr_checks := checks, sr_evidence_ids := unique (evidence @ proofs), sr_bindings := b,
         sr_recovery_mode := mode, sr_output := out\<rparr>) = Inr r" and
    g: "(if run_status run = RECOVERING then yields () else checked (check_gates gates (stage_proof_of run r))) s4 = (Inr u, t)"
    unfolding attempt_stage_def bindx_Inr split_paired_Ex prod.case checked_Inr yields_eq by blast
  note f = completed_facts [OF m]
  have active: "run_status run \<noteq> RECOVERING" using assms(2) f by (auto split: if_splits)
  moreover have "pinned_version sv run version gates"
    using stage_control_eq [OF c] assms(3) by (auto simp: controls_pinned_def)
  moreover have "policy_validate gates (stage_proof_of run r) = Inr ()"
    using g active by (auto simp: checked_Inr check_gates_def split: if_splits)
  ultimately show ?thesis using f assms(2) by auto
qed

lemma settled_facts:
  assumes "settled_stage sv run i started s = (Inr r, t)" "sr_status r = Exec_Succeeded"
  shows "\<exists>u. attempt_stage sv run i started s = (Inr r, u)"
  using assms failed_status unfolding settled_stage_def catches_def
  by (auto split: prod.splits sum.splits stage_exception.splits dest!: failed_status)

lemma pinned_mandatory:
  assumes "pinned_version sv run version gates" "policy_validate gates (stage_proof_of run r) = Inr ()"
  shows "set (mandatory_checks (cv_definition version) (run_stage run)) \<subseteq> set (sr_checks r)"
proof -
  have "gates = cd_required_checks (cv_definition version)" "validate_control_version version = Inr version"
    using assms(1) make_gate_policy_controls [of version] by (auto simp: pinned_version_def)
  with valid_controls_mandatory [of version "run_stage run"] assms(2) show ?thesis
    by (auto simp: policy_validate_ok stage_proof_of_def)
qed

text \<open>A fresh execution: the run is active and held, the stage is settled, audited and its result is stored.\<close>

definition held :: "'w stage_services \<Rightarrow> stage_request \<Rightarrow> rotation_run \<Rightarrow> nat \<Rightarrow> bool" where
  "held sv request run n \<longleftrightarrow>
     run_status run \<in> {RUNNING, RECOVERING} \<and> run_stage run = sq_stage request
     \<and> run_revision run = sq_expected_revision request \<and> run_fencing_token run = sq_fencing_token request
     \<and> (\<exists>lease. run_lease run = Some lease \<and> sv_clock sv n < lease_expires_at lease)"

lemma check_request_Inr:
  "check_request sv request run s = (Inr u, t) \<longleftrightarrow> held sv request run (sx_ticks s) \<and> t = s\<lparr>sx_ticks := sx_ticks s + 1\<rparr>"
  by (auto simp: check_request_def held_def stage_inv tick_eq)

lemma get_run_Inr:
  "get_run org i s = (Inr run, t) \<longleftrightarrow> t = s \<and> segments [org, i] = Inr () \<and> validate_run run = Inr run
     \<and> st_runs (ic_runs (sx_services s)) (org, i) = Some run"
  by (auto simp: get_run_def fetch_Inr catalog_get_def bindr_eq_Inr validate_run_iff split: option.splits)

lemma execute_fresh:
  assumes "execute_stage sv request s = (Inr r, t)"
    and "sd_results (sx_documents s) (sq_organisation_id request, execution_id_of sv request) = None"
  obtains run s1 s2 where
    "st_runs (ic_runs (sx_services s)) (sq_organisation_id request, sq_run_id request) = Some run" "validate_run run = Inr run"
    "held sv request run (sx_ticks s + 1)"
    "settled_stage sv run (execution_id_of sv request) (sv_clock sv (sx_ticks s)) (s\<lparr>sx_ticks := sx_ticks s + 1 + 1\<rparr>) = (Inr r, s1)"
    "stage_audit sv run (execution_id_of sv request) r s1 = (Inr (), s2)"
    "create_result (sq_organisation_id request) (execution_id_of sv request) r s2 = (Inr (), t)"
  using assms
  by (auto simp: execute_stage_def Let_def bindx_Inr tick_eq checked_Inr get_run_Inr check_request_Inr stored_result_Inr yields_eq)

section \<open>What is recorded\<close>

lemma append_present:
  assumes "audit_append sha fmt eid org kind actor resource run p evidence t region s = Inr (e, s')"
    and "trim kind = kind" "map_option trim run = run"
  shows "\<exists>doc. map_of (au_events s' org) eid = Some doc \<and> validate_audit_event doc = Inr e \<and> aud_kind e = kind \<and> aud_run_id e = run"
proof (cases "map_of (au_events s org) eid")
  case None
  with assms obtain n prev where
    e: "validate_audit_event (raw_event sha fmt eid org kind actor resource run p evidence t region n prev) = Inr e" and
    s': "s' = appended_store s org eid e (new_outbox e t) \<or> (\<exists>ob. s' = appended_store s org eid e ob)"
    by (auto simp: audit_append_def raw_event_def bindr_eq_Inr Let_def)
  have "map_of (au_events s' org) eid = Some e" using s' None by (auto simp: appended_store_def map_add_def)
  moreover have "validate_audit_event e = Inr e" using e by (auto simp: validate_audit_event_iff)
  moreover have "aud_kind e = kind \<and> aud_run_id e = run"
    using e assms(2,3) by (auto simp: validate_audit_event_iff trim_event_def raw_event_def)
  ultimately show ?thesis by blast
next
  case (Some doc)
  with assms obtain current where
    c: "validate_audit_event doc = Inr current" "same_append current kind actor resource run p evidence region"
      "append_existing s org eid current = Inr (e, s')"
    by (auto simp: audit_append_def bindr_eq_Inr split: if_splits)
  from c(3) have "e = current" "au_events s' = au_events s" by (auto simp: append_existing_def bindr_eq_Inr split: option.splits)
  with c Some show ?thesis by (auto simp: same_append_def)
qed

lemma status_trimmed: "trim (''stage.'' @ execution_status_value st) = ''stage.'' @ execution_status_value st"
  by (cases st; simp only: execution_status_value.simps; code_simp)

lemma stage_audit_present:
  assumes "stage_audit sv run i r s = (Inr u, t)" "identifier_ok (run_id run)"
  shows "\<exists>doc e. map_of (au_events (ic_audit (sx_services t)) (run_organisation_id run)) (stage_id sv ''audit'' [i]) = Some doc
    \<and> validate_audit_event doc = Inr e \<and> aud_kind e = ''stage.'' @ execution_status_value (sr_status r)
    \<and> aud_run_id e = Some (run_id run)"
  using assms append_present [OF _ status_trimmed, where run = "Some (run_id run)"] trim_identifier [OF assms(2)]
  by (fastforce simp: stage_audit_def bindx_Inr tick_eq writer_append_def split: sum.splits prod.splits option.splits)

lemma create_result_audit:
  "create_result org i r s = (Inr u, t) \<Longrightarrow> sx_services t = sx_services s"
  by (auto simp: create_result_def create_document_def bindx_Inr checked_Inr split: if_splits)

text \<open>
  An execution that was audited but not stored cannot be repeated with another outcome: the audit event of its
  name has another kind.
\<close>

lemma interrupted_execution_conflicts:
  assumes "map_of (au_events (ic_audit (sx_services s)) (run_organisation_id run)) (stage_id sv ''audit'' [i]) = Some e"
    and "validate_audit_event e = Inr e" "aud_kind e \<noteq> ''stage.'' @ execution_status_value (sr_status r)"
  shows "\<exists>x. fst (stage_audit sv run i r s) = Inl x"
  using assms
  by (auto simp: stage_audit_def bindx_def tick_def writer_append_def audit_append_def segments_def same_append_def bindr_eq_Inr
      split: option.splits sum.splits prod.splits if_splits)


text \<open>
  A run in its first stage, held by the coordinator, and services whose outside world counts the posts to the
  worker of the browser. The worker proposes the same action again and again.
\<close>

definition ex_session :: browser_session where
  "ex_session =
     \<lparr>bs_id = ''session'', bs_organisation_id = ''org'', bs_status = Br_Running, bs_max_steps = 3, bs_revision = 0\<rparr>"

definition ex_services :: "nat stage_services" where
  "ex_services =
     \<lparr>sv_sha = ex_sha, sv_time = ex_fmt, sv_fmt = ex_fmt, sv_ip = (\<lambda>_. False), sv_region = ''europe'',
      sv_text = (\<lambda>_. ''error''), sv_keys = [], sv_clock = int,
      sv_broker = (\<lambda>run i c tool payload approval. raises (value_error ''no broker'')),
      sv_session = (\<lambda>run c v k tools. yields ex_session),
      sv_post = (\<lambda>run b tool route body approval s.
        (Inr [(''action'', JDict [(''id'', JStr ''act'')])], s\<lparr>sx_world := sx_world s + 1\<rparr>)),
      sv_read_session = (\<lambda>_. Inr ex_session), sv_install = None, sv_freeze = (\<lambda>org i n. yields ()),
      sv_str = (\<lambda>_. ''''), sv_terminate = (\<lambda>run. yields ()), sv_pause = (\<lambda>run. yields ()),
      sv_agents = (\<lambda>task. raises (value_error ''no agent'')),
      sv_probe = (\<lambda>d c x c'. raises (value_error ''no probe'')),
      sv_evidence = (\<lambda>org run name content now. yields ''evd''), sv_notify = None\<rparr>"

definition ex_stage_run :: rotation_run where
  "ex_stage_run = ex_run\<lparr>run_status := RUNNING, run_fencing_token := 1, run_revision := 1,
     run_lease := Some \<lparr>lease_owner_id = ''worker'', lease_fencing_token = 1, lease_expires_at = 100\<rparr>\<rparr>"

definition ex_dedupe :: dedupe_doc where
  "ex_dedupe = \<lparr>dd_organisation_id = ''org'', dd_run_id = ''run'', dd_step_id = ''cmd_new'', dd_request_hash = ex_hash, dd_created_at = 1\<rparr>"

definition ex_stage_documents :: stage_documents where
  "ex_stage_documents =
     \<lparr>sd_connections = Map.empty, sd_plans = Map.empty, sd_recoveries = Map.empty, sd_recovery_results = Map.empty,
      sd_probe_versions = Map.empty, sd_playbook_versions = Map.empty, sd_principals = (\<lambda>_. []), sd_waiters = Map.empty,
      sd_results = Map.empty\<rparr>"

definition ex_stage_state :: "nat stage_state" where
  "ex_stage_state =
     \<lparr>sx_services = \<lparr>ic_incidents = empty_incidents,
        ic_runs = ex_store\<lparr>st_runs := Map.empty((''org'', ''run'') \<mapsto> ex_stage_run),
          st_dedupe := Map.empty((''org'', dedupe_key ex_sha ''app'' ''e1'') \<mapsto> ex_dedupe)\<rparr>, ic_audit = empty_audit\<rparr>,
      sx_generations = \<lparr>gs_credentials = Map.empty, gs_generations = Map.empty, gs_bindings = Map.empty, gs_reports = Map.empty\<rparr>,
      sx_approvals = empty_approvals, sx_documents = ex_stage_documents,
      sx_controls = Map.empty(control_key ex_stage_run \<mapsto> (ex_version, default_policy)), sx_ticks = 0, sx_world = 0\<rparr>"

definition ex_stage_request :: stage_request where
  "ex_stage_request =
     \<lparr>sq_organisation_id = ''org'', sq_run_id = ''run'', sq_stage = TRIGGER, sq_expected_revision = 1, sq_fencing_token = 1\<rparr>"

lemma ex_cache_pinned: "controls_pinned ex_services ex_stage_state"
proof -
  have "make_gate_policy (Some (cd_required_checks (cv_definition ex_version))) = Inr default_policy"
    using make_gate_policy_controls [OF ex_version_valid] by (simp add: ex_version_def ex_definition_def)
  then show ?thesis
    using ex_version_valid ex_digest
    by (auto simp: controls_pinned_def ex_stage_state_def pinned_version_def control_key_def ex_stage_run_def ex_run_def
        ex_version_def ex_services_def split: if_splits)
qed

text \<open>The stage is settled with a success.\<close>

lemma ex_settled:
  "case settled_stage ex_services ex_stage_run (execution_id_of ex_services ex_stage_request)
       (sv_clock ex_services (sx_ticks ex_stage_state)) (ex_stage_state\<lparr>sx_ticks := sx_ticks ex_stage_state + 1 + 1\<rparr>) of
     (Inr r, t) \<Rightarrow> sr_status r = Exec_Succeeded \<and> sr_evidence_ids r = [''evd''] \<and> sr_reason r = None
       \<and> length (remdups (sr_checks r)) = 3 \<and> au_events (ic_audit (sx_services t)) ''org'' = []
       \<and> au_heads (ic_audit (sx_services t)) ''org'' = None
       \<and> sd_results (sx_documents t) (''org'', execution_id_of ex_services ex_stage_request) = None
   | _ \<Rightarrow> False"
  by code_simp

definition ex_audit_id :: string where
  "ex_audit_id = stage_id ex_services ''audit'' [execution_id_of ex_services ex_stage_request]"

definition ex_stage_payload :: payload where
  "ex_stage_payload = [(''stage'', SStr ''trigger''), (''status'', SStr ''succeeded''), (''checks'', SInt 3), (''reason'', SNone)]"

lemma ex_redacted: "value_payload (redact (payload_value ex_stage_payload)) = Some ex_stage_payload"
  by code_simp

lemma ex_hashed: "event_hash ex_sha fmt org n kind actor resource run p evidence prev t region = ex_hash"
  by (simp add: event_hash_def ex_sha_def)

lemma ex_event_ok:
  "audit_ok (trim_event (raw_event ex_sha ex_fmt ex_audit_id ''org'' ''stage.succeeded'' ''coordinator_one'' ''runs/run/stages/trigger''
     (Some ''run'') ex_stage_payload [''evd''] t ''europe'' 0 GENESIS))"
  unfolding raw_event_def ex_hashed by (simp add: audit_ok_def) code_simp

lemma ex_stage_audited:
  assumes "sr_status r = Exec_Succeeded" "sr_evidence_ids r = [''evd'']" "sr_reason r = None" "length (remdups (sr_checks r)) = 3"
    "au_events (ic_audit (sx_services s)) ''org'' = []" "au_heads (ic_audit (sx_services s)) ''org'' = None"
  shows "\<exists>t. stage_audit ex_services ex_stage_run (execution_id_of ex_services ex_stage_request) r s = (Inr (), t)
    \<and> sx_documents t = sx_documents s"
proof -
  have seg: "segments [''org'', ex_audit_id] = Inr ()" by code_simp
  have chain: "chain_end (ic_audit (sx_services s)) ''org'' = Inr (0, GENESIS)"
    using assms(5,6) by (simp add: chain_end_def)
  have a: "writer_append ex_sha ex_fmt ''europe'' now ex_audit_id ''org'' ''stage.succeeded'' ''coordinator_one'' ''runs/run/stages/trigger''
      ex_stage_payload (Some ''run'') [''evd''] None (ic_audit (sx_services s))
    = Inr (e, appended_store (ic_audit (sx_services s)) ''org'' ex_audit_id e (new_outbox e now))"
    if "e = trim_event (raw_event ex_sha ex_fmt ex_audit_id ''org'' ''stage.succeeded'' ''coordinator_one'' ''runs/run/stages/trigger''
      (Some ''run'') ex_stage_payload [''evd''] now ''europe'' 0 GENESIS)" for e now
    using append_fresh [OF seg _ chain that] ex_event_ok [of now] assms(5) that
    by (simp add: writer_append_def ex_redacted)
  then show ?thesis
    using assms(1-4)
    by (simp add: stage_audit_def bindx_def tick_def ex_audit_id_def [symmetric] ex_stage_payload_def optional_scalar_def
        ex_stage_run_def ex_run_def) (simp add: ex_services_def)
qed

lemma ex_stage_executed:
  "\<exists>r t. execute_stage ex_services ex_stage_request ex_stage_state = (Inr r, t) \<and> sr_status r = Exec_Succeeded"
proof -
  let ?i = "execution_id_of ex_services ex_stage_request"
  from ex_settled obtain r s1 where r: "settled_stage ex_services ex_stage_run ?i (sv_clock ex_services (sx_ticks ex_stage_state))
      (ex_stage_state\<lparr>sx_ticks := sx_ticks ex_stage_state + 1 + 1\<rparr>) = (Inr r, s1)"
    "sr_status r = Exec_Succeeded" "sr_evidence_ids r = [''evd'']" "sr_reason r = None" "length (remdups (sr_checks r)) = 3"
    "au_events (ic_audit (sx_services s1)) ''org'' = []" "au_heads (ic_audit (sx_services s1)) ''org'' = None"
    "sd_results (sx_documents s1) (''org'', ?i) = None"
    by (auto split: prod.splits sum.splits)
  from ex_stage_audited [OF r(2-7)] obtain s2 where
    a: "stage_audit ex_services ex_stage_run ?i r s1 = (Inr (), s2)" "sx_documents s2 = sx_documents s1" by blast
  have seg: "segments [''org'', ?i] = Inr ()" "segments [''org'', ''run''] = Inr ()" by code_simp+
  obtain t where c: "create_result ''org'' ?i r s2 = (Inr (), t)"
    using r(8) a(2) seg(1) by (simp add: create_result_def create_document_def bindx_def checked_def)
  have "is_ok (validate_run ex_stage_run)" by code_simp
  then have v: "validate_run ex_stage_run = Inr ex_stage_run" by (auto simp: is_ok_iff validate_run_iff)
  have h: "held ex_services ex_stage_request ex_stage_run (Suc 0)"
    by (simp add: held_def ex_stage_request_def ex_stage_run_def ex_run_def ex_services_def)
  have q: "sq_organisation_id ex_stage_request = ''org''" "sq_run_id ex_stage_request = ''run''"
    by (simp_all add: ex_stage_request_def)
  have "st_runs (ic_runs (sx_services ex_stage_state)) (''org'', ''run'') = Some ex_stage_run"
    "sd_results (sx_documents ex_stage_state) (''org'', ?i) = None" "sx_ticks ex_stage_state = 0"
    by (simp_all add: ex_stage_state_def ex_stage_documents_def)
  then have "execute_stage ex_services ex_stage_request ex_stage_state = (Inr r, t)"
    using seg v h r(1) a(1) c
    by (simp add: execute_stage_def Let_def bindx_Inr tick_eq checked_Inr get_run_Inr check_request_Inr stored_result_Inr yields_eq q)
  with r(2) show ?thesis by blast
qed

lemma ex_stage_held:
  "st_runs (ic_runs (sx_services ex_stage_state)) (sq_organisation_id ex_stage_request, sq_run_id ex_stage_request) = Some ex_stage_run"
  "validate_run ex_stage_run = Inr ex_stage_run" "held ex_services ex_stage_request ex_stage_run (sx_ticks ex_stage_state + 1)"
proof -
  show "st_runs (ic_runs (sx_services ex_stage_state)) (sq_organisation_id ex_stage_request, sq_run_id ex_stage_request) = Some ex_stage_run"
    by (simp add: ex_stage_state_def ex_stage_request_def)
  have "is_ok (validate_run ex_stage_run)" by code_simp
  then show "validate_run ex_stage_run = Inr ex_stage_run" by (auto simp: is_ok_iff validate_run_iff)
  show "held ex_services ex_stage_request ex_stage_run (sx_ticks ex_stage_state + 1)"
    by (simp add: held_def ex_stage_request_def ex_stage_run_def ex_run_def ex_services_def ex_stage_state_def)
qed

end
