(* ===== verification/Stage_Theorems.thy ===== *)
theory Stage_Theorems imports Stage_Records begin
text \<open>
  The properties of the stage coordinator: no call of the broker without admission, a stage that returned is not
  executed again, what a success proves and what an execution records, and the bound of the dialogue with a browser.
\<close>

text \<open>
  C6: A stage is executed once: when an execution returned a result, an execution of the same request at any later
  time, as long as the stored result is there, only reads the clock; it returns that very result when the request
  still holds its run - the run is active, at the revision, stage and fence of the request, under an unexpired
  lease - and raises otherwise.
\<close>

theorem stage_executed_once:
  assumes "execute_stage sv request s = (Inr r, t)"
    and "sd_results (sx_documents s') (sq_organisation_id request, execution_id_of sv request)
      = sd_results (sx_documents t) (sq_organisation_id request, execution_id_of sv request)"
    and "execute_stage sv request s' = (x, t')"
  shows "(\<exists>n. t' = s'\<lparr>sx_ticks := n\<rparr>)
    \<and> (if \<exists>run. st_runs (ic_runs (sx_services s')) (sq_organisation_id request, sq_run_id request) = Some run
          \<and> validate_run run = Inr run \<and> held sv request run (sx_ticks s' + 1)
       then x = Inr r else \<exists>e. x = Inl e)"
proof -
  let ?k = "(sq_organisation_id request, execution_id_of sv request)"
  have d: "sd_results (sx_documents s') ?k = Some r" "make_stage_result r = Inr r"
    using executed_stored [OF assms(1)] assms(2) by simp_all
  have "calm s' t'" using executed_again [of request sv r] d(1) assms(3) unfolding guarded_def by auto
  moreover have seg: "segments [fst ?k, snd ?k] = Inr ()" "segments [fst ?k, sq_run_id request] = Inr ()"
    using assms(1) by (auto simp: execute_stage_def Let_def bindx_Inr tick_eq checked_Inr get_run_Inr)
  have "x = Inr y \<longleftrightarrow> y = r \<and> (\<exists>run. st_runs (ic_runs (sx_services s')) (fst ?k, sq_run_id request) = Some run
      \<and> validate_run run = Inr run \<and> held sv request run (sx_ticks s' + 1))" for y
  proof -
    have "x = Inr y \<longleftrightarrow> (\<exists>u. execute_stage sv request s' = (Inr y, u))" using assms(3) by auto
    also have "\<dots> \<longleftrightarrow> y = r \<and> (\<exists>run. st_runs (ic_runs (sx_services s')) (fst ?k, sq_run_id request) = Some run
      \<and> validate_run run = Inr run \<and> held sv request run (sx_ticks s' + 1))"
      using d seg
      by (auto simp: execute_stage_def Let_def bindx_Inr tick_eq checked_Inr get_run_Inr check_request_Inr stored_result_Inr yields_eq)
    finally show ?thesis .
  qed
  ultimately show ?thesis by (cases x) (auto simp: calm_def)
qed

text \<open>A retry of the request at the state of the first execution, with the result it stored.\<close>

theorem stage_executed_once_witness:
  "\<exists>r t. execute_stage ex_services ex_stage_request ex_stage_state = (Inr r, t) \<and> sr_status r = Exec_Succeeded
     \<and> fst (execute_stage ex_services ex_stage_request (ex_stage_state\<lparr>sx_documents := sx_documents t, sx_world := 7\<rparr>)) = Inr r"
proof -
  from ex_stage_executed obtain r t where e: "execute_stage ex_services ex_stage_request ex_stage_state = (Inr r, t)"
      "sr_status r = Exec_Succeeded" by blast
  let ?s = "ex_stage_state\<lparr>sx_documents := sx_documents t, sx_world := 7\<rparr>"
  obtain x u where x: "execute_stage ex_services ex_stage_request ?s = (x, u)" by fastforce
  from stage_executed_once [OF e(1) _ x] ex_stage_held e x show ?thesis by auto
qed

section \<open>Admission\<close>

text \<open>
  C5: No stage acts on the outside world without admission: what every admitted call of the broker and the other
  services keep of the world, every execution of every stage keeps, whatever it returns. A call is admitted when
  the controls of the run allow its tool and, when they protect it, it carries a granted approval.
\<close>

theorem protected_calls_approved:
  assumes "services_steady sv P" "P (sx_world s)"
  shows "P (sx_world (snd (execute_stage sv request s)))"
  using execute_stage_steady [OF assms(1), of request] assms(2) unfolding keeps_def steady_def by blast

text \<open>The services of the example with a broker that marks the world when a call is not admitted.\<close>

definition ex_watched :: "nat stage_services" where
  "ex_watched = ex_services\<lparr>
     sv_broker := (\<lambda>run i c tool payload approval s.
       (Inl (value_error ''no broker''), if admitted ex_services run tool approval s then s else s\<lparr>sx_world := 1\<rparr>)),
     sv_post := (\<lambda>run b tool route body approval. raises (value_error ''no worker''))\<rparr>"

lemma ex_watched_steady: "services_steady ex_watched (\<lambda>w. w = 0)"
proof -
  have "admitted ex_watched run tool approval s \<longleftrightarrow> admitted ex_services run tool approval s" for run tool approval s
    by (simp add: admitted_def granted_def ex_watched_def ex_services_def)
  then show ?thesis
    by (simp add: services_steady_def ex_watched_def ex_services_def keeps_def yields_def raises_def steadyI)
qed

theorem protected_calls_approved_witness:
  "\<forall>request. sx_world (snd (execute_stage ex_watched request ex_stage_state)) = 0"
proof
  fix request
  show "sx_world (snd (execute_stage ex_watched request ex_stage_state)) = 0"
    by (rule protected_calls_approved [OF ex_watched_steady]) (simp add: ex_stage_state_def)
qed

text \<open>What the cache holds, it holds of pinned controls, after any execution.\<close>

lemma cache_stays_pinned:
  assumes "services_steady sv (\<lambda>_. True)" "controls_pinned sv s"
  shows "controls_pinned sv (snd (execute_stage sv request s))"
  using execute_stage_steady [OF assms(1), of request] assms(2) unfolding keeps_def steady_def by blast

text \<open>
  C7: A fresh success is a success of the run as it was requested: active, unfenced and with an unexpired lease;
  it has evidence, and its checks contain every check that is mandatory under the pinned controls of the run.
\<close>

theorem succeeded_stage_meets_gates:
  assumes "execute_stage sv request s = (Inr r, t)" "sr_status r = Exec_Succeeded" "controls_pinned sv s"
    and "sd_results (sx_documents s) (sq_organisation_id request, execution_id_of sv request) = None"
  shows "\<exists>run version gates. st_runs (ic_runs (sx_services s)) (sq_organisation_id request, sq_run_id request) = Some run
    \<and> held sv request run (sx_ticks s + 1) \<and> run_status run = RUNNING \<and> sr_evidence_ids r \<noteq> []
    \<and> pinned_version sv run version gates
    \<and> set (mandatory_checks (cv_definition version) (sq_stage request)) \<subseteq> set (sr_checks r)"
proof -
  from execute_fresh [OF assms(1,4)] obtain run s1 where
    run: "st_runs (ic_runs (sx_services s)) (sq_organisation_id request, sq_run_id request) = Some run"
      "held sv request run (sx_ticks s + 1)" and
    a: "settled_stage sv run (execution_id_of sv request) (sv_clock sv (sx_ticks s)) (s\<lparr>sx_ticks := sx_ticks s + 1 + 1\<rparr>) = (Inr r, s1)"
    by blast
  have "controls_pinned sv (s\<lparr>sx_ticks := sx_ticks s + 1 + 1\<rparr>)" using assms(3) by (simp add: controls_pinned_def)
  with settled_facts [OF a assms(2)] attempt_facts [OF _ assms(2)] obtain version gates where
    f: "run_status run \<noteq> RECOVERING" "sr_evidence_ids r \<noteq> []" "pinned_version sv run version gates"
      "policy_validate gates (stage_proof_of run r) = Inr ()"
    by meson
  have "run_status run = RUNNING" "run_stage run = sq_stage request" using run(2) f(1) by (auto simp: held_def)
  with pinned_mandatory [OF f(3,4)] run f show ?thesis by metis
qed

theorem succeeded_stage_meets_gates_witness:
  "\<exists>r t (version :: control_version). execute_stage ex_services ex_stage_request ex_stage_state = (Inr r, t)
     \<and> sr_evidence_ids r \<noteq> [] \<and> set (mandatory_checks (cv_definition version) TRIGGER) \<subseteq> set (sr_checks r)"
proof -
  from ex_stage_executed obtain r t where e: "execute_stage ex_services ex_stage_request ex_stage_state = (Inr r, t)"
    "sr_status r = Exec_Succeeded" by blast
  have "sd_results (sx_documents ex_stage_state) k = None" for k by (simp add: ex_stage_state_def ex_stage_documents_def)
  from succeeded_stage_meets_gates [OF e ex_cache_pinned this] obtain version :: control_version where
    "sr_evidence_ids r \<noteq> []" "set (mandatory_checks (cv_definition version) (sq_stage ex_stage_request)) \<subseteq> set (sr_checks r)"
    by blast
  with e(1) show ?thesis by (auto simp: ex_stage_request_def)
qed

section \<open>What is recorded\<close>

text \<open>
  C22: Every fresh execution is recorded before it returns: its result is stored under the name of the execution,
  and the audit log of the organisation has the event that names the run and the status.
\<close>

theorem executions_recorded:
  assumes "execute_stage sv request s = (Inr r, t)"
    and "sd_results (sx_documents s) (sq_organisation_id request, execution_id_of sv request) = None"
  shows "sd_results (sx_documents t) (sq_organisation_id request, execution_id_of sv request) = Some r
    \<and> (\<exists>run doc e. st_runs (ic_runs (sx_services s)) (sq_organisation_id request, sq_run_id request) = Some run
        \<and> map_of (au_events (ic_audit (sx_services t)) (run_organisation_id run))
            (stage_id sv ''audit'' [execution_id_of sv request]) = Some doc
        \<and> validate_audit_event doc = Inr e \<and> aud_kind e = ''stage.'' @ execution_status_value (sr_status r)
        \<and> aud_run_id e = Some (run_id run))"
proof -
  from execute_fresh [OF assms] obtain run s1 s2 where
    run: "st_runs (ic_runs (sx_services s)) (sq_organisation_id request, sq_run_id request) = Some run" "validate_run run = Inr run"
    and a: "stage_audit sv run (execution_id_of sv request) r s1 = (Inr (), s2)"
      "create_result (sq_organisation_id request) (execution_id_of sv request) r s2 = (Inr (), t)"
    by blast
  have "identifier_ok (run_id run)" using run(2) by (simp add: validate_run_iff rotation_run_fields_ok_def)
  from stage_audit_present [OF a(1) this] create_result_audit [OF a(2)] run(1) executed_stored [OF assms(1)]
  show ?thesis by auto
qed

theorem executions_recorded_witness:
  "\<exists>r t. execute_stage ex_services ex_stage_request ex_stage_state = (Inr r, t)
     \<and> sd_results (sx_documents t) (''org'', execution_id_of ex_services ex_stage_request) = Some r"
proof -
  from ex_stage_executed obtain r t where e: "execute_stage ex_services ex_stage_request ex_stage_state = (Inr r, t)" by blast
  have "sd_results (sx_documents ex_stage_state) k = None" for k by (simp add: ex_stage_state_def ex_stage_documents_def)
  from executions_recorded [OF e this] e show ?thesis by (auto simp: ex_stage_request_def)
qed

section \<open>The dialogue with the worker\<close>

text \<open>What an operation spends of a measure of the outside world.\<close>

definition spends :: "('w \<Rightarrow> nat) \<Rightarrow> nat \<Rightarrow> 'w stage_state \<Rightarrow> 'w stage_state \<Rightarrow> bool" where
  "spends f k s t \<longleftrightarrow> f (sx_world t) \<le> f (sx_world s) + k"

interpretation spends: kept_stage "spends f 0" for f :: "'w \<Rightarrow> nat"
  by unfold_locales (auto simp: spends_def)

lemma spends_more: "keeps (spends f a) g \<Longrightarrow> a \<le> b \<Longrightarrow> keeps (spends f b) g"
  unfolding keeps_def spends_def by (meson add_left_mono le_trans)

lemma spends_bindx: "keeps (spends f a) g \<Longrightarrow> (\<And>x. keeps (spends f b) (h x)) \<Longrightarrow> keeps (spends f (a + b)) (bindx g h)"
  unfolding keeps_def spends_def bindx_def
  by (auto split: prod.splits sum.splits) (metis add.assoc dual_order.trans le_add1 add_le_mono1 snd_conv nat_add_left_cancel_le)+

lemma spends_first: "keeps (spends f 0) g \<Longrightarrow> (\<And>x. keeps (spends f b) (h x)) \<Longrightarrow> keeps (spends f b) (bindx g h)"
  using spends_bindx [of f 0 g b h] by simp

lemma spends_nothing: "keeps (spends f 0) g \<Longrightarrow> keeps (spends f b) g"
  by (erule spends_more) (rule le0)

text \<open>A measure of the posts to the worker: one for each, and nothing for the other services of a step.\<close>

definition counts_posts :: "'w stage_services \<Rightarrow> ('w \<Rightarrow> nat) \<Rightarrow> bool" where
  "counts_posts sv f \<longleftrightarrow>
     (\<forall>run b tool route body a. keeps (spends f 1) (sv_post sv run b tool route body a))
     \<and> (\<forall>h run b. sv_install sv = Some h \<longrightarrow> keeps (spends f 0) (h run b))
     \<and> (\<forall>org i n. keeps (spends f 0) (sv_freeze sv org i n))"

lemma idle_steps:
  assumes "counts_posts sv f"
  shows "keeps (spends f 0) (install_access sv run session step)" "keeps (spends f 0) (takeover_pause sv session step p i)"
    "keeps (spends f 0) (completed_output session step reply)" "keeps (spends f 0) (settle_action sv step session reply)"
proof -
  have declared: "keeps (spends f 0) (declared_outputs reply)"
    by (simp add: declared_outputs_def spends.keeps_idle split: option.split json.split)
  show completed: "keeps (spends f 0) (completed_output session step reply)"
    unfolding completed_output_def by (intro spends.keeps_plain declared)
  show "keeps (spends f 0) (settle_action sv step session reply)"
    unfolding settle_action_def by (intro spends.keeps_plain keeps_cases completed)
  show "keeps (spends f 0) (install_access sv run session step)"
    using assms by (simp add: install_access_def counts_posts_def spends.keeps_idle split: option.split)
  show "keeps (spends f 0) (takeover_pause sv session step p i)"
    unfolding takeover_pause_def using assms by (intro spends.keeps_bindx spends.keeps_idle) (simp add: counts_posts_def)
qed

lemma dialogue_spends:
  assumes "counts_posts sv f"
  shows "keeps (spends f (2 * n)) (browser_dialogue sv run step approval n session)"
proof (induction n arbitrary: session)
  case 0
  then show ?case by (simp add: spends.keeps_idle)
next
  case (Suc n)
  note post = assms [unfolded counts_posts_def, THEN conjunct1, rule_format]
  note idle = idle_steps [OF assms]
  have act: "keeps (spends f (1 + 2 * n))
     (bindx (if b then takeover_pause sv session step p i else yields ()) (\<lambda>_.
      bindx (install_access sv run session step) (\<lambda>_.
      bindx (sv_post sv run session tool route body a) (\<lambda>reply.
      bindx (checked (sv_read_session sv (map_of reply ''session''))) (\<lambda>changed.
      bindx (settle_action sv step changed reply) (\<lambda>out.
      case out of Some output \<Rightarrow> yields output | None \<Rightarrow> browser_dialogue sv run step approval n changed))))))" for b p i tool route body a
    by (rule spends_first, intro keeps_if idle spends.keeps_idle, rule spends_first, rule idle, rule spends_bindx, rule post,
        rule spends_first, rule spends.keeps_checked, rule spends_first, rule idle, intro keeps_option Suc,
        rule spends_nothing, rule spends.keeps_idle)
  have "keeps (spends f (1 + (1 + 2 * n))) (browser_dialogue sv run step approval (Suc n) session)"
    unfolding browser_dialogue.simps
    by (rule spends_bindx, rule post)
      (intro keeps_if keeps_option keeps_json act; rule spends_nothing; intro idle spends.keeps_idle)
  then show ?case by simp
qed

text \<open>
  C23: A step in the browser ends: whatever the worker of the browser answers, it is asked at most twice for each
  action of the budget of the session, and at most once for a deterministic step.
\<close>

theorem browser_step_ends:
  assumes "counts_posts sv f" "sv_session sv run c version credential tools s = (Inr session, t)"
  shows "f (sx_world (snd (browser_execute sv run c version credential tools step approval s)))
    \<le> f (sx_world t) + max 1 (2 * bs_max_steps session)"
proof -
  note post = assms(1) [unfolded counts_posts_def, THEN conjunct1, rule_format]
  have "keeps (spends f (1 + 0)) (execute_deterministic sv run session step approval route)" for route
    unfolding execute_deterministic_def
    by (rule spends_first, rule idle_steps [OF assms(1)], rule spends_bindx, rule post)
      (intro spends.keeps_plain keeps_cases)
  then have "keeps (spends f (max 1 (2 * bs_max_steps session))) (execute_deterministic sv run session step approval route)" for route
    by (rule spends_more) simp
  moreover have "keeps (spends f (max 1 (2 * bs_max_steps session)))
      (browser_dialogue sv run step approval (bs_max_steps session) session)"
    by (rule spends_more [OF dialogue_spends [OF assms(1)]]) simp
  ultimately have "keeps (spends f (max 1 (2 * bs_max_steps session)))
      (case map_of deterministic_operations (op_tool step, op_operation step) of
         Some route \<Rightarrow> execute_deterministic sv run session step approval route
       | None \<Rightarrow> browser_dialogue sv run step approval (bs_max_steps session) session)" (is "keeps _ ?rest")
    by (intro keeps_option)
  moreover have "browser_execute sv run c version credential tools step approval s = ?rest t"
    using assms(2) by (simp add: browser_execute_def bindx_def)
  ultimately show ?thesis by (simp add: keeps_def spends_def)
qed

theorem browser_step_ends_witness:
  "\<forall>run c version credential tools step approval s.
     sx_world (snd (browser_execute ex_services run c version credential tools step approval s)) \<le> sx_world s + 6"
proof (intro allI)
  fix run c version credential tools step approval and s :: "nat stage_state"
  have "counts_posts ex_services (\<lambda>w. w)"
    by (simp add: counts_posts_def ex_services_def keeps_def spends_def yields_def)
  from browser_step_ends [OF this, of run c version credential tools s ex_session s step approval]
  show "sx_world (snd (browser_execute ex_services run c version credential tools step approval s)) \<le> sx_world s + 6"
    by (simp add: ex_services_def ex_session_def yields_def)
qed

section \<open>Two defects of the revocation\<close>

text \<open>
  The provider revokes the old credential before the replacement is verified: when that verification raises, the
  stage fails in the state in which the credential is revoked already.
\<close>

lemma revocation_precedes_verification:
  assumes "rotation_context_of sv run s = (Inr cx, s1)" "run_old run s1 = (Inr old, s2)"
    and "requires_provider_revocation (rx_playbook cx \<noteq> None) (cg_provider_id old)"
    and "execute_provider_steps sv run cx REVOKE s2 = (Inr x, s3)"
    and "run_verification sv run False False (Some VERIFY) (Some ''replacement'') s3 = (Inl e, s4)"
  shows "stage_revoke sv run s = (Inl e, s4)"
  using assms by (cases x) (simp add: stage_revoke_def bindx_def Let_def)

text \<open>
  A deterministic step in the browser never has the outcome that the stage takes as the proof of a revocation,
  unless what was captured says so.
\<close>

lemma deterministic_step_unproved:
  assumes "execute_deterministic sv run session step approval route s = (Inr out, t)"
    and "\<And>b tool rt body a s reply u. sv_post sv run b tool rt body a s = (Inr reply, u) \<Longrightarrow> given_item reply ''capture'' = None"
  shows "\<not> browser_proved [out]"
  using assms
  by (auto simp: execute_deterministic_def bindx_Inr checked_Inr yields_eq browser_proved_def step_output_of_def dict_merge_def
      split: option.splits)

end
