(* ===== verification/Control_Compiler.thy ===== *)
theory Control_Compiler imports Stage_Services begin
text \<open>
  server/core/inventory/controls.py: the controls of a credential with the probes that check it, compiled from
  the preferences of an organisation, and their update. The identifiers of \<open>core/ids.py\<close> are drawn from \<open>hex\<close>,
  the n-th random token. A probe of the list below takes two of them, in the order of the list: one for its
  definition and one for the probe of its version.
\<close>

section \<open>Exposure sources and triggers\<close>

text \<open>A dictionary by name: the last one counts.\<close>

definition dict_by :: "('a \<Rightarrow> string) \<Rightarrow> 'a list \<Rightarrow> string \<Rightarrow> 'a option" where
  "dict_by key xs = map_of (rev (map (\<lambda>x. (key x, x)) xs))"

definition lookup_by :: "('a \<Rightarrow> string) \<Rightarrow> 'a list \<Rightarrow> string \<Rightarrow> 'a result" where
  "lookup_by key xs i = (case dict_by key xs i of None \<Rightarrow> Inl (RuntimeError ''KeyError'') | Some x \<Rightarrow> Inr x)"

definition exposure_available :: "connection list \<Rightarrow> exposure_source \<Rightarrow> bool" where
  "exposure_available connections source \<longleftrightarrow>
     (case dict_by con_id connections (exp_connection_id source) of
        None \<Rightarrow> False
      | Some c \<Rightarrow> Role_Incident \<in> set (con_roles c) \<and> con_interface c = If_Api \<and> con_status c = Con_Ready
          \<and> exp_resource source \<in> set (con_allowed_resources c))"

definition validate_exposure_sources :: "connection list \<Rightarrow> control_preferences \<Rightarrow> unit result" where
  "validate_exposure_sources connections preferences =
     require (list_all (exposure_available connections) (pref_exposure_sources preferences))
       (ResourceConflictError ''exposure source is not available to this organisation'')"

definition TRIGGER_EVENTS :: "(string \<times> string list) list" where
  "TRIGGER_EVENTS =
     [(''expiry'', [''credential-expiring'', ''credential-rotation-due'']),
      (''drift'', [''credential-inventory-drift'', ''credential-provider-drift'', ''credential-runtime-drift'']),
      (''verified-exposure'', [''credential-exposure-detected''])]"

definition trigger_events :: "control_preferences \<Rightarrow> string list" where
  "trigger_events preferences =
     concat (map (\<lambda>t. the (map_of TRIGGER_EVENTS t)) (pref_automatic_triggers preferences))"

definition emergency_events :: "control_preferences \<Rightarrow> string list" where
  "emergency_events preferences =
     (if ''verified-exposure'' \<in> set (pref_automatic_triggers preferences) then [''credential-exposure-detected''] else [])"

section \<open>Probes\<close>

definition new_id :: "(nat \<Rightarrow> string) \<Rightarrow> string \<Rightarrow> nat \<Rightarrow> string" where
  "new_id hex prefix n = prefix @ ''_'' @ hex n"

text \<open>\<open>_probe\<close>, before it gets its identifier, with the defaults of the contract.\<close>

definition probe_draft ::
  "managed_credential \<Rightarrow> probe_kind \<Rightarrow> string \<Rightarrow> string \<Rightarrow> generation_binding \<Rightarrow> target_binding \<Rightarrow> bool
     \<Rightarrow> telemetry_thresholds option \<Rightarrow> string option \<Rightarrow> string option \<Rightarrow> probe_definition" where
  "probe_draft credential kind connection_id target generation target_kind negative telemetry secret_reference secret_connection_id =
     \<lparr>pd_id = '''', pd_organisation_id = mc_organisation_id credential, pd_kind = kind, pd_connection_id = connection_id,
      pd_target = target, pd_method = ''GET'', pd_headers = [], pd_body_reference = None,
      pd_secret_reference = secret_reference, pd_secret_connection_id = secret_connection_id, pd_expected_status = [200],
      pd_expected_generation_id = None, pd_generation_binding = generation, pd_target_binding = target_kind,
      pd_required_fields = [], pd_confirmation = None, pd_telemetry = telemetry, pd_timeout_seconds = 30,
      pd_negative = negative\<rparr>"

definition provider_probes ::
  "managed_credential \<Rightarrow> connection \<Rightarrow> connection \<Rightarrow> connection \<Rightarrow> generation_binding \<Rightarrow> bool \<Rightarrow> probe_definition list" where
  "provider_probes credential management verification secret_store generation negative =
     (let target = (if truthy (mc_provider_id credential) then the (mc_provider_id credential) else mc_id credential) in
      [probe_draft credential Probe_Provider (con_id management) target generation Target_Provider_Id negative None None None,
       probe_draft credential Probe_Credential (con_id verification) target generation Target_Provider_Id negative None
         (Some (mc_secret_reference credential)) (Some (con_id secret_store))])"

definition secret_probe :: "managed_credential \<Rightarrow> connection \<Rightarrow> generation_binding \<Rightarrow> probe_definition" where
  "secret_probe credential secret_store generation =
     probe_draft credential Probe_Secret (con_id secret_store) (mc_secret_reference credential) generation
       Target_Secret_Reference False None None None"

text \<open>The probes of the credential; without a verifying connection it is managed in a browser.\<close>

definition credential_probes ::
  "managed_credential \<Rightarrow> connection \<Rightarrow> connection option \<Rightarrow> connection \<Rightarrow> (stage \<times> probe_definition) list" where
  "credential_probes credential management verification secret_store =
     (case verification of None \<Rightarrow> []
      | Some v \<Rightarrow> map (Pair VERIFY) (provider_probes credential management v secret_store Bind_Target False))
     @ [(VERIFY, secret_probe credential secret_store Bind_Target)]
     @ (case verification of None \<Rightarrow> []
      | Some v \<Rightarrow> map (Pair REVOKE) (provider_probes credential management v secret_store Bind_Current True))
     @ [(REVOKE, secret_probe credential secret_store Bind_Current)]"

definition runtime_probe :: "managed_credential \<Rightarrow> consumer_binding \<Rightarrow> probe_definition" where
  "runtime_probe credential binding =
     probe_draft credential Probe_Runtime (cb_runtime_connection_id binding) (cb_runtime_resource binding) Bind_Target
       Target_Static False None None None"

definition thresholds :: "control_preferences \<Rightarrow> telemetry_thresholds" where
  "thresholds preferences =
     \<lparr>tt_minimum_count = 1, tt_maximum_error_count = 0, tt_maximum_auth_failure_count = 0,
      tt_window_seconds = pref_maximum_observation_seconds preferences\<rparr>"

definition telemetry_probes ::
  "managed_credential \<Rightarrow> connection list \<Rightarrow> control_preferences \<Rightarrow> string \<Rightarrow> (stage \<times> probe_definition) list result" where
  "telemetry_probes credential connections preferences connection_id =
     bindr (lookup_by con_id connections connection_id) (\<lambda>c.
     case con_allowed_resources c of
       [] \<Rightarrow> Inl (RuntimeError ''IndexError'')
     | resource # _ \<Rightarrow>
         bindr (require (telemetry_thresholds_fields_ok (thresholds preferences)) (FieldError ''TelemetryThresholds'')) (\<lambda>_.
         let telemetry = probe_draft credential Probe_Telemetry (con_id c) resource Bind_Target Target_Static False
               (Some (thresholds preferences)) None None in
         Inr [(VERIFY, telemetry), (OBSERVE, telemetry),
              (OBSERVE, telemetry\<lparr>pd_generation_binding := Bind_Current, pd_negative := True\<rparr>)]))"

definition binding_probes ::
  "managed_credential \<Rightarrow> connection list \<Rightarrow> consumer_service list \<Rightarrow> control_preferences \<Rightarrow> consumer_binding
     \<Rightarrow> (stage \<times> probe_definition) list result" where
  "binding_probes credential connections services preferences binding =
     bindr (lookup_by csv_id services (cb_service_id binding)) (\<lambda>service.
     bindr (mapr (telemetry_probes credential connections preferences) (csv_telemetry_connection_ids service)) (\<lambda>telemetry.
     Inr ([(VERIFY, runtime_probe credential binding), (OBSERVE, runtime_probe credential binding)] @ concat telemetry)))"

text \<open>\<open>add\<close>: the version of the n-th probe, active and approved.\<close>

definition active_version ::
  "(string \<Rightarrow> string) \<Rightarrow> (int \<Rightarrow> string) \<Rightarrow> (nat \<Rightarrow> string) \<Rightarrow> managed_credential \<Rightarrow> string \<Rightarrow> int \<Rightarrow> nat \<times> stage \<times> probe_definition
     \<Rightarrow> (stage \<times> probe_version) result" where
  "active_version sha fmt hex credential actor_id now = (\<lambda>(n, st, draft).
     bindr (validate_probe_definition (draft\<lparr>pd_id := new_id hex ''probeversion'' (2 * n)\<rparr>)) (\<lambda>definition.
     bindr (digest sha fmt (dump_probe_definition definition)) (\<lambda>d.
     bindr (validate_probe_version
       \<lparr>pv_id = pd_id definition, pv_organisation_id = mc_organisation_id credential,
        pv_probe_id = new_id hex ''probe'' (2 * n + 1), pv_number = 1, pv_definition = definition, pv_digest = d,
        pv_state = Probe_Active, pv_created_by = actor_id, pv_created_at = now, pv_approved_by = Some actor_id,
        pv_approved_at = Some now\<rparr>) (\<lambda>version. Inr (st, version)))))"

section \<open>Compilation\<close>

text \<open>The first connection that can test the credential.\<close>

definition tests_credential :: "managed_credential \<Rightarrow> connection \<Rightarrow> bool" where
  "tests_credential credential c \<longleftrightarrow>
     con_platform c = mc_provider credential \<and> Role_Provider \<in> set (con_roles c) \<and> con_interface c = If_Api
     \<and> con_status c = Con_Ready
     \<and> (case con_http c of None \<Rightarrow> False
        | Some api \<Rightarrow> hp_test_credential api \<noteq> None \<and> hp_credential_auth api \<noteq> None)"

definition telemetry_enabled :: "consumer_service list \<Rightarrow> consumer_binding list \<Rightarrow> bool" where
  "telemetry_enabled services bindings \<longleftrightarrow>
     list_ex (\<lambda>b. case dict_by csv_id services (cb_service_id b) of
                None \<Rightarrow> False | Some service \<Rightarrow> csv_telemetry_connection_ids service \<noteq> []) bindings"

definition base_tools :: "string list" where
  "base_tools =
     [''secretStore.getVersion'', ''secretStore.testConsumerAccess'', ''secretStore.disableVersion'',
      ''secretStore.destroyVersion'', ''runtime.inspectSecretBindings'', ''runtime.deployCandidate'',
      ''runtime.shiftTraffic'', ''runtime.rollback'', ''verification.run'']"

definition compiled_tools :: "bool \<Rightarrow> bool \<Rightarrow> string list" where
  "compiled_tools browser_managed telemetry =
     base_tools
     @ (if browser_managed
        then [''browser.click'', ''browser.secure-capture'', ''browser.revokeCredential'', ''provider.testCredential'']
        else [''provider.listCredentialMetadata'', ''provider.getCredentialStatus'', ''provider.createCredential'',
              ''provider.revokeCredential'', ''provider.testCredential''])
     @ (if telemetry then [''telemetry.queryHealth'', ''telemetry.queryCredentialUsage''] else [])"

definition compiled_protected :: "bool \<Rightarrow> bool \<Rightarrow> string list" where
  "compiled_protected browser_managed approval =
     (if browser_managed
      then ''browser.secure-capture'' # (if approval then [''browser.revokeCredential''] else [])
      else if approval then [''provider.revokeCredential''] else [])
     @ (if approval then [''secretStore.disableVersion'', ''secretStore.destroyVersion''] else [])"

definition rollback_branch :: "consumer_binding list \<Rightarrow> recovery_branch" where
  "rollback_branch bindings =
     \<lparr>rb_mode = ROLLBACK,
      rb_actions = map (\<lambda>b. \<lparr>ra_tool = ''runtime.rollback'', ra_operation = ''rollback'',
          ra_parameters = [(''connection_id'', PyStr (cb_runtime_connection_id b)), (''service'', PyStr (cb_runtime_resource b))],
          ra_protected = False\<rparr>) bindings,
      rb_preserves_old_generation = True\<rparr>"

definition without :: "string list \<Rightarrow> string list \<Rightarrow> string list" where
  "without xs ys = filter (\<lambda>x. x \<notin> set ys) xs"

definition compiled_checks :: "bool \<Rightarrow> bool \<Rightarrow> stage \<Rightarrow> string list" where
  "compiled_checks approval telemetry st =
     (case st of
        PREFLIGHT \<Rightarrow> if approval then REQUIRED_CHECKS st else without (REQUIRED_CHECKS st) [''approvers-known'']
      | APPROVAL \<Rightarrow> if approval then REQUIRED_CHECKS st else [''approval-not-required'', ''evidence-current'']
      | VERIFY \<Rightarrow> if telemetry then REQUIRED_CHECKS st else without (REQUIRED_CHECKS st) [''telemetry-healthy'']
      | OBSERVE \<Rightarrow> if telemetry then REQUIRED_CHECKS st
                   else without (REQUIRED_CHECKS st) [''telemetry-healthy'', ''old-use-clear'']
      | _ \<Rightarrow> REQUIRED_CHECKS st)"

definition assigned :: "(stage \<times> probe_version) list \<Rightarrow> stage \<Rightarrow> stage \<times> string list" where
  "assigned versions st = (st, map (pv_id \<circ> snd) (filter (\<lambda>sv. fst sv = st) versions))"

definition compiled_definition ::
  "bool \<Rightarrow> bool \<Rightarrow> consumer_binding list \<Rightarrow> control_preferences \<Rightarrow> (stage \<times> probe_version) list \<Rightarrow> control_definition" where
  "compiled_definition browser_managed telemetry bindings preferences versions =
     (let approval = pref_require_revoke_approval preferences in
      \<lparr>cd_required_checks = map (\<lambda>st. (st, compiled_checks approval telemetry st)) STAGES,
       cd_allowed_tools = compiled_tools browser_managed telemetry,
       cd_protected_tools = compiled_protected browser_managed approval, cd_allowed_recovery_modes = [ROLLBACK],
       cd_maximum_observation_seconds = pref_maximum_observation_seconds preferences,
       cd_require_revoke_approval = approval, cd_preserve_old_generation = True,
       cd_require_generation_telemetry = telemetry,
       cd_rotate_before_expiry_seconds = pref_rotate_before_expiry_seconds preferences,
       cd_maximum_metadata_age_seconds = 86400, cd_require_runtime_alignment = True,
       cd_automatic_triggers = remdups (trigger_events preferences), cd_emergency_triggers = emergency_events preferences,
       cd_exposure_sources = pref_exposure_sources preferences, cd_minimum_automatic_confidence = ConfVerified,
       cd_probe_versions = map (assigned versions) [VERIFY, OBSERVE, REVOKE],
       cd_recovery = map (\<lambda>st. (st, rollback_branch bindings)) [DEPLOY, VERIFY, ROLLOUT, OBSERVE]\<rparr>)"

text \<open>The drafts of all probes, in the order in which they are added.\<close>

definition all_probes ::
  "managed_credential \<Rightarrow> consumer_binding list \<Rightarrow> consumer_service list \<Rightarrow> connection list \<Rightarrow> control_preferences
     \<Rightarrow> (bool \<times> (stage \<times> probe_definition) list) result" where
  "all_probes credential bindings services connections preferences =
     bindr (lookup_by con_id connections (mc_connection_id credential)) (\<lambda>management.
     bindr (lookup_by con_id connections (mc_secret_store_connection_id credential)) (\<lambda>secret_store.
     let browser_managed = (con_interface management = If_Browser);
         verification = (if browser_managed then None else find (tests_credential credential) connections) in
     bindr (require (\<not> (verification = None \<and> \<not> browser_managed))
       (ResourceConflictError ''credential automation requires a typed workload authentication test'')) (\<lambda>_.
     bindr (mapr (binding_probes credential connections services preferences) bindings) (\<lambda>bound.
     Inr (browser_managed, credential_probes credential management verification secret_store @ concat bound)))))"

definition compile_controls ::
  "(string \<Rightarrow> string) \<Rightarrow> (int \<Rightarrow> string) \<Rightarrow> (nat \<Rightarrow> string) \<Rightarrow> managed_credential \<Rightarrow> consumer_binding list \<Rightarrow> consumer_service list
     \<Rightarrow> connection list \<Rightarrow> control_preferences \<Rightarrow> string \<Rightarrow> int \<Rightarrow> (control_definition \<times> probe_version list) result" where
  "compile_controls sha fmt hex credential bindings services connections preferences actor_id now =
     bindr (validate_exposure_sources connections preferences) (\<lambda>_.
     bindr (all_probes credential bindings services connections preferences) (\<lambda>(browser_managed, drafts).
     bindr (mapr (active_version sha fmt hex credential actor_id now) (enumerate 0 drafts)) (\<lambda>versions.
     bindr (validate_control_definition
       (compiled_definition browser_managed (telemetry_enabled services bindings) bindings preferences versions)) (\<lambda>definition.
     Inr (definition, map snd versions)))))"

section \<open>Update\<close>

definition revoke_tools :: "bool \<Rightarrow> string list" where
  "revoke_tools browser_managed =
     [if browser_managed then ''browser.revokeCredential'' else ''provider.revokeCredential'',
      ''secretStore.disableVersion'', ''secretStore.destroyVersion'']"

definition put_checks :: "(stage \<times> string list) list \<Rightarrow> stage \<Rightarrow> string list \<Rightarrow> (stage \<times> string list) list" where
  "put_checks table st checks = AList.update st checks table"

definition updated_checks :: "(stage \<times> string list) list \<Rightarrow> bool \<Rightarrow> (stage \<times> string list) list" where
  "updated_checks table approval =
     (if approval
      then put_checks (put_checks table PREFLIGHT (List.union [''approvers-known''] (policy_checks table PREFLIGHT)))
             APPROVAL (REQUIRED_CHECKS APPROVAL)
      else put_checks (put_checks table PREFLIGHT (without (policy_checks table PREFLIGHT) [''approvers-known'']))
             APPROVAL [''approval-not-required'', ''evidence-current''])"

definition update_controls :: "control_definition \<Rightarrow> control_preferences \<Rightarrow> control_definition" where
  "update_controls current preferences =
     (let browser_managed = (''browser.secure-capture'' \<in> set (cd_allowed_tools current));
          captured = cd_protected_tools current @ (if browser_managed then [''browser.secure-capture''] else []);
          protected_tools = (if pref_require_revoke_approval preferences
                             then captured @ revoke_tools browser_managed
                             else without captured (revoke_tools browser_managed)) in
      current\<lparr>cd_automatic_triggers := remdups (trigger_events preferences),
        cd_emergency_triggers := emergency_events preferences,
        cd_exposure_sources := pref_exposure_sources preferences,
        cd_rotate_before_expiry_seconds := pref_rotate_before_expiry_seconds preferences,
        cd_maximum_observation_seconds := pref_maximum_observation_seconds preferences,
        cd_protected_tools := remdups protected_tools,
        cd_require_revoke_approval := pref_require_revoke_approval preferences,
        cd_required_checks := updated_checks (cd_required_checks current) (pref_require_revoke_approval preferences)\<rparr>)"


text \<open>
  Compiled controls: what an update changes and keeps of the validators of a definition, and which probes a
  compilation assigns to which stage.
\<close>

section \<open>Tables of checks\<close>

lemma length_update: "length xs \<le> length (AList.update k v xs)"
  by (induction xs) auto

lemma policy_checks_put: "policy_checks (put_checks t st cs) st' = (if st' = st then cs else policy_checks t st')"
  by (simp add: policy_checks_def put_checks_def update_conv)

lemma updated_checks_at:
  "policy_checks (updated_checks t a) st =
     (if st = APPROVAL then if a then REQUIRED_CHECKS APPROVAL else [''approval-not-required'', ''evidence-current'']
      else if st = PREFLIGHT then if a then List.union [''approvers-known''] (policy_checks t PREFLIGHT)
                                  else without (policy_checks t PREFLIGHT) [''approvers-known'']
      else policy_checks t st)"
  by (simp add: updated_checks_def policy_checks_put)

lemma length_updated: "length t \<le> length (updated_checks t a)"
  by (auto simp: updated_checks_def put_checks_def intro: le_trans [OF length_update length_update])

lemma set_without [simp]: "set (without xs ys) = set xs - set ys"
  by (auto simp: without_def)

lemma policy_checks_stages: "policy_checks (map (\<lambda>st. (st, f st)) STAGES) st = f st"
  by (cases st) (simp_all add: policy_checks_def STAGES_def)

section \<open>Updates keep controls valid\<close>

definition browser_controls :: "control_definition \<Rightarrow> bool" where
  "browser_controls d \<longleftrightarrow> ''browser.secure-capture'' \<in> set (cd_allowed_tools d)"

text \<open>A definition whose tools allow its own revocation.\<close>

definition revocable :: "control_definition \<Rightarrow> bool" where
  "revocable d \<longleftrightarrow> validate_control_definition d = Inr d \<and> set (revoke_tools (browser_controls d)) \<subseteq> set (cd_allowed_tools d)"

definition preferences_ok :: "control_preferences \<Rightarrow> bool" where
  "preferences_ok p \<longleftrightarrow> control_preferences_fields_ok p \<and> validate_triggers p = Inr p"

lemma validate_definition_iff:
  "validate_control_definition d = Inr d \<longleftrightarrow> control_definition_fields_ok d \<and> validate_coverage d = Inr d"
  by (simp add: validate_control_definition_def)

lemma emergency_automatic: "set (emergency_events p) \<subseteq> set (trigger_events p)"
  by (auto simp: emergency_events_def trigger_events_def TRIGGER_EVENTS_def image_iff)

lemma updated_mandatory:
  assumes "\<And>st. set (mandatory_checks d st) \<subseteq> set (policy_checks (cd_required_checks d) st)"
  shows "set (mandatory_checks (update_controls d p) st) \<subseteq> set (policy_checks (cd_required_checks (update_controls d p)) st)"
proof (cases "st \<in> {PREFLIGHT, APPROVAL}")
  case False
  then have "mandatory_checks (update_controls d p) st = mandatory_checks d st"
    by (simp add: mandatory_checks_def update_controls_def Let_def)
  with False assms [of st] show ?thesis by (simp add: update_controls_def Let_def updated_checks_at)
next
  case True
  then show ?thesis
    using assms [of PREFLIGHT]
    by (auto simp: mandatory_checks_def update_controls_def Let_def updated_checks_at split: if_splits)
qed

lemma update_revocable:
  assumes "revocable d" "preferences_ok p"
  shows "revocable (update_controls d p)"
proof -
  let ?u = "update_controls d p"
  from assms(1) have fields: "control_definition_fields_ok d" and cover: "validate_coverage d = Inr d"
    and tools: "set (revoke_tools (browser_controls d)) \<subseteq> set (cd_allowed_tools d)"
    by (simp_all add: revocable_def validate_definition_iff)
  have allowed: "cd_allowed_tools ?u = cd_allowed_tools d" by (simp add: update_controls_def Let_def)
  have "12 \<le> length (cd_required_checks ?u)"
    using fields length_updated [of "cd_required_checks d" "pref_require_revoke_approval p"]
    by (simp add: control_definition_fields_ok_def update_controls_def Let_def)
  then have "control_definition_fields_ok ?u"
    using fields assms(2)
    by (simp add: control_definition_fields_ok_def update_controls_def Let_def preferences_ok_def control_preferences_fields_ok_def)
  moreover have "fst ` set (cd_required_checks ?u) = set STAGES"
    using cover stage_in_STAGES
    by (auto simp: validate_coverage_ok update_controls_def Let_def updated_checks_def put_checks_def dom_update)
  moreover have "set (cd_protected_tools ?u) \<subseteq> set (cd_allowed_tools ?u)"
    using cover tools by (auto simp: validate_coverage_ok update_controls_def Let_def browser_controls_def)
  moreover have "set (mandatory_checks ?u st) \<subseteq> set (policy_checks (cd_required_checks ?u) st)" for st
    by (rule updated_mandatory) (use cover in \<open>simp add: validate_coverage_ok\<close>)
  moreover have "set (cd_emergency_triggers ?u) \<subseteq> set (cd_automatic_triggers ?u)"
    using emergency_automatic by (simp add: update_controls_def Let_def)
  moreover have "cd_require_generation_telemetry ?u \<longrightarrow> ''verification.run'' \<in> set (cd_allowed_tools ?u)"
    using cover by (simp add: validate_coverage_ok update_controls_def Let_def)
  ultimately have "validate_control_definition ?u = Inr ?u"
    by (simp add: validate_definition_iff validate_coverage_ok)
  with tools show ?thesis by (simp add: revocable_def browser_controls_def allowed)
qed

section \<open>What is compiled\<close>

lemma compiled_inverts:
  assumes "compile_controls sha fmt hex credential bindings services connections preferences actor now = Inr (d, versions)"
  obtains bm drafts staged where
    "all_probes credential bindings services connections preferences = Inr (bm, drafts)"
    "mapr (active_version sha fmt hex credential actor now) (enumerate 0 drafts) = Inr staged" "versions = map snd staged"
    "d = compiled_definition bm (telemetry_enabled services bindings) bindings preferences staged"
    "validate_control_definition d = Inr d"
  using assms
  by (auto simp: compile_controls_def bindr_eq_Inr validate_control_definition_def validate_coverage_ok split: prod.splits if_splits)

lemma compiled_browser: "browser_controls (compiled_definition bm telemetry bindings preferences staged) = bm"
  by (simp add: browser_controls_def compiled_definition_def Let_def compiled_tools_def base_tools_def)

lemma compiled_revocable:
  "compile_controls sha fmt hex credential bindings services connections preferences actor now = Inr (d, versions) \<Longrightarrow> revocable d"
proof (erule compiled_inverts)
  fix bm staged
  assume "d = compiled_definition bm (telemetry_enabled services bindings) bindings preferences staged"
    "validate_control_definition d = Inr d"
  then show "revocable d"
    using compiled_browser
    by (auto simp: revocable_def revoke_tools_def compiled_definition_def Let_def compiled_tools_def base_tools_def)
qed

section \<open>Identifiers\<close>

definition numbered :: "(nat \<Rightarrow> string) \<Rightarrow> stage list \<Rightarrow> (stage \<times> string) list" where
  "numbered hex stages = map (\<lambda>(n, st). (st, new_id hex ''probeversion'' (2 * n))) (enumerate 0 stages)"

lemma mapr_map:
  "mapr f xs = Inr ys \<Longrightarrow> (\<And>x y. x \<in> set xs \<Longrightarrow> f x = Inr y \<Longrightarrow> g y = h x) \<Longrightarrow> map g ys = map h xs"
  by (induction xs arbitrary: ys) (auto simp: bindr_eq_Inr)

lemma enumerate_map: "enumerate n (map f xs) = map (\<lambda>(i, x). (i, f x)) (enumerate n xs)"
  by (induction xs arbitrary: n) simp_all

lemma active_version_Inr:
  assumes "active_version sha fmt hex credential actor now (n, st, draft) = Inr sv"
  shows "fst sv = st \<and> pv_id (snd sv) = new_id hex ''probeversion'' (2 * n) \<and> pv_state (snd sv) = Probe_Active
    \<and> pv_definition (snd sv) = draft\<lparr>pd_id := new_id hex ''probeversion'' (2 * n)\<rparr>
    \<and> digest sha fmt (dump_probe_definition (pv_definition (snd sv))) = Inr (pv_digest (snd sv))
    \<and> validate_probe_version (snd sv) = Inr (snd sv)"
  using assms
  by (auto simp: active_version_def bindr_eq_Inr validate_probe_definition_def validate_probe_version_def split: if_splits)

lemma staged_numbered:
  assumes "mapr (active_version sha fmt hex credential actor now) (enumerate 0 drafts) = Inr staged"
  shows "map (\<lambda>(st, v). (st, pv_id v)) staged = numbered hex (map fst drafts)"
proof -
  have "map (\<lambda>(st, v). (st, pv_id v)) staged = map (\<lambda>(n, st, d). (st, new_id hex ''probeversion'' (2 * n))) (enumerate 0 drafts)"
    by (rule mapr_map [OF assms]) (auto dest: active_version_Inr split: prod.splits)
  then show ?thesis by (simp add: numbered_def enumerate_map comp_def split_def)
qed

lemma assigned_numbered:
  "assigned staged st = (st, map snd (filter (\<lambda>si. fst si = st) (map (\<lambda>(st, v). (st, pv_id v)) staged)))"
  by (simp add: assigned_def filter_map comp_def split_def)

text \<open>The stages of the probes do not depend on the preferences.\<close>

lemma mapr_same_stages:
  assumes "mapr f xs = Inr ys" "mapr g xs = Inr zs" "\<And>x y z. x \<in> set xs \<Longrightarrow> f x = Inr y \<Longrightarrow> g x = Inr z \<Longrightarrow> map fst y = map fst z"
  shows "map fst (concat ys) = map fst (concat zs)"
  using assms by (induction xs arbitrary: ys zs) (fastforce simp: bindr_eq_Inr)+

lemma same_stages:
  assumes "all_probes credential bindings services connections p = Inr (bm, drafts)"
    "all_probes credential bindings services connections q = Inr (bm', drafts')"
  shows "bm' = bm \<and> map fst drafts' = map fst drafts"
proof -
  have telemetry: "map fst y = map fst z"
    if "telemetry_probes credential connections p i = Inr y" "telemetry_probes credential connections q i = Inr z" for i y z
  proof -
    from that obtain c where c: "lookup_by con_id connections i = Inr c"
      by (auto simp: telemetry_probes_def bindr_eq_Inr)
    show ?thesis
      using that by (cases "con_allowed_resources c") (auto simp: telemetry_probes_def c bindr_eq_Inr Let_def)
  qed
  have binding: "map fst y = map fst z"
    if "binding_probes credential connections services p b = Inr y" "binding_probes credential connections services q b = Inr z" for b y z
    using that mapr_same_stages [OF _ _ telemetry] by (auto simp: binding_probes_def bindr_eq_Inr)
  have all: "map fst (concat y) = map fst (concat z)"
    if "mapr (binding_probes credential connections services p) bindings = Inr y"
      "mapr (binding_probes credential connections services q) bindings = Inr z" for y z
    using that(1) that(2) binding by (rule mapr_same_stages)
  from assms show ?thesis
    by (auto simp: all_probes_def bindr_eq_Inr Let_def dest: all)
qed

end
