(* ===== verification/Compiler_Theorems.thy ===== *)
theory Compiler_Theorems imports Control_Compiler Stage_Records Broker_Examples begin
text \<open>
  A credential that is managed in a browser and deployed to one service without telemetry, with the controls that
  are compiled for it, and a run of the coordinator over these controls.
\<close>

definition ex_site :: consumer_service where
  "ex_site =
     \<lparr>csv_id = ''svc'', csv_organisation_id = ''org'', csv_application_id = ''app'', csv_environment_id = ''env'',
      csv_runtime_connection_id = ''runtime'', csv_telemetry_connection_ids = [], csv_runtime_resource = ''web'',
      csv_display_name = ''Web'', csv_endpoint = None, csv_repository = None, csv_identity = None, csv_created_at = 0,
      csv_updated_at = 0, csv_archived_at = None, csv_revision = 0\<rparr>"

definition ex_consumer :: consumer_binding where
  "ex_consumer =
     \<lparr>cb_id = ''web'', cb_organisation_id = ''org'', cb_credential_id = ''key'', cb_service_id = ''svc'',
      cb_environment_id = ''env'', cb_runtime_connection_id = ''runtime'', cb_runtime_resource = ''web'',
      cb_runtime_secret_name = ''name'', cb_runtime_container_name = None, cb_secret_reference = ''secrets/key/versions/1'',
      cb_current_generation_id = ''old'', cb_target_generation_id = None, cb_verification_report_id = None,
      cb_required = True, cb_revision = 0\<rparr>"

definition ex_preferences :: "bool \<Rightarrow> control_preferences" where
  "ex_preferences approval =
     \<lparr>pref_automatic_triggers = [''expiry''], pref_rotate_before_expiry_seconds = 300,
      pref_maximum_observation_seconds = 60, pref_require_revoke_approval = approval, pref_exposure_sources = []\<rparr>"

definition ex_tokens :: "nat \<Rightarrow> string" where
  "ex_tokens n = int_text (int n)"

definition ex_drafts :: "(stage \<times> probe_definition) list" where
  "ex_drafts =
     [(VERIFY, secret_probe ex_tool_credential ex_vault Bind_Target),
      (REVOKE, secret_probe ex_tool_credential ex_vault Bind_Current),
      (VERIFY, runtime_probe ex_tool_credential ex_consumer), (OBSERVE, runtime_probe ex_tool_credential ex_consumer)]"

definition ex_probe_version :: "nat \<times> stage \<times> probe_definition \<Rightarrow> stage \<times> probe_version" where
  "ex_probe_version = (\<lambda>(n, st, d).
     (st, \<lparr>pv_id = new_id ex_tokens ''probeversion'' (2 * n), pv_organisation_id = ''org'',
       pv_probe_id = new_id ex_tokens ''probe'' (2 * n + 1), pv_number = 1,
       pv_definition = d\<lparr>pd_id := new_id ex_tokens ''probeversion'' (2 * n)\<rparr>, pv_digest = ex_hash, pv_state = Probe_Active,
       pv_created_by = ''user'', pv_created_at = 0, pv_approved_by = Some ''user'', pv_approved_at = Some 0\<rparr>))"

definition ex_active_versions :: "(stage \<times> probe_version) list" where
  "ex_active_versions = map ex_probe_version (enumerate 0 ex_drafts)"

definition ex_compiled :: "bool \<Rightarrow> control_definition" where
  "ex_compiled approval = compiled_definition True False [ex_consumer] (ex_preferences approval) ex_active_versions"

lemma ex_all_probes:
  "all_probes ex_tool_credential [ex_consumer] [ex_site] [ex_provider, ex_vault] (ex_preferences a) = Inr (True, ex_drafts)"
  by (simp add: all_probes_def lookup_by_def dict_by_def binding_probes_def ex_tool_credential_def ex_consumer_def ex_site_def
      ex_provider_def ex_vault_def credential_probes_def ex_drafts_def)

lemma draft_canonical:
  assumes "pd_headers d = []" "pd_required_fields d = []" "pd_confirmation d = None" "pd_telemetry d = None" "pd_expected_status d = [200]"
  shows "canonical_ok (dump_probe_definition d)"
  unfolding dump_probe_definition_def
  by (rule canonical_ok_fields) (simp_all add: assms dump_texts_def dump_values_def canonical_ok_dict opt_ok_def split: option.splits)

lemma ex_active_versions_valid: "list_all (\<lambda>sv. is_ok (validate_probe_version (snd sv))) ex_active_versions"
  by code_simp

lemma ex_active:
  assumes "x \<in> set (enumerate 0 ex_drafts)"
  shows "active_version ex_sha ex_fmt ex_tokens ex_tool_credential ''user'' 0 x = Inr (ex_probe_version x)"
proof -
  obtain n st d where x: "x = (n, st, d)" by (cases x) auto
  with assms have "(st, d) \<in> set ex_drafts" by (auto simp only: enumerate_eq_zip dest: set_zip_rightD)
  then have "canonical_ok (dump_probe_definition (d\<lparr>pd_id := new_id ex_tokens ''probeversion'' (2 * n)\<rparr>))"
    by (intro draft_canonical) (auto simp: ex_drafts_def secret_probe_def runtime_probe_def probe_draft_def)
  from digest_ok [OF this, of ex_sha ex_fmt]
  have digest: "digest ex_sha ex_fmt (dump_probe_definition (d\<lparr>pd_id := new_id ex_tokens ''probeversion'' (2 * n)\<rparr>)) = Inr ex_hash"
    by (simp add: ex_sha_def)
  have "is_ok (validate_probe_version (snd (ex_probe_version x)))"
    using ex_active_versions_valid assms by (auto simp: list_all_iff ex_active_versions_def)
  then show ?thesis
    by (auto simp: x active_version_def ex_probe_version_def is_ok_iff validate_probe_version_def validate_probe_definition_def
        ex_tool_credential_def bindr_eq_Inr digest split: if_splits)
qed

lemma ex_versions: "mapr (active_version ex_sha ex_fmt ex_tokens ex_tool_credential ''user'' 0) (enumerate 0 ex_drafts) = Inr ex_active_versions"
proof -
  have "mapr f xs = Inr (map g xs)" if "\<And>x. x \<in> set xs \<Longrightarrow> f x = Inr (g x)" for f :: "nat \<times> stage \<times> probe_definition \<Rightarrow> (stage \<times> probe_version) result" and g xs
    using that by (induction xs) simp_all
  with ex_active show ?thesis by (simp add: ex_active_versions_def)
qed

lemma ex_compiled_valid: "validate_control_definition (ex_compiled a) = Inr (ex_compiled a)"
proof -
  have "is_ok (validate_control_definition (ex_compiled True))" "is_ok (validate_control_definition (ex_compiled False))"
    by code_simp+
  then have "is_ok (validate_control_definition (ex_compiled a))" by (cases a) simp_all
  then show ?thesis by (auto simp: is_ok_iff validate_control_definition_def validate_coverage_ok split: if_splits)
qed

lemma ex_compiles:
  "compile_controls ex_sha ex_fmt ex_tokens ex_tool_credential [ex_consumer] [ex_site] [ex_provider, ex_vault] (ex_preferences a)
     ''user'' 0 = Inr (ex_compiled a, map snd ex_active_versions)"
proof -
  have "telemetry_enabled [ex_site] [ex_consumer] = False" by code_simp
  moreover have "validate_exposure_sources [ex_provider, ex_vault] (ex_preferences a) = Inr ()"
    by (simp add: validate_exposure_sources_def ex_preferences_def)
  ultimately show ?thesis
    using ex_compiled_valid [of a] by (simp add: compile_controls_def ex_all_probes ex_versions ex_compiled_def)
qed

lemma ex_preferences_ok: "preferences_ok (ex_preferences a)"
  by (simp add: preferences_ok_def control_preferences_fields_ok_def validate_triggers_def ex_preferences_def)


text \<open>
  The properties of compiled controls: updates keep them valid, an update is a compilation, and the coordinator's
  checks on the coverage of probes accept what was compiled.
\<close>

section \<open>Updates\<close>

text \<open>
  C24: Controls stay valid: whatever sequence of preferences an organisation sets, the controls that result from the
  compiled ones pass the validators of their contract, although an update validates nothing itself.
\<close>

theorem updated_controls_valid:
  assumes "compile_controls sha fmt hex credential bindings services connections p actor now = Inr (d, versions)"
    and "list_all preferences_ok ps"
  shows "validate_control_definition (foldl update_controls d ps) = Inr (foldl update_controls d ps)"
proof -
  have "revocable (foldl update_controls d ps)" if "revocable d" for d
    using that assms(2) by (induction ps arbitrary: d) (simp_all add: update_revocable)
  with compiled_revocable [OF assms(1)] show ?thesis by (simp add: revocable_def)
qed

lemma updated_controls_valid_witness:
  "validate_control_definition (foldl update_controls (ex_compiled True) [ex_preferences False, ex_preferences True])
     = Inr (foldl update_controls (ex_compiled True) [ex_preferences False, ex_preferences True])"
  by (rule updated_controls_valid [OF ex_compiles]) (simp add: ex_preferences_ok)

text \<open>Two definitions that differ in the order of their sets only.\<close>

definition same_controls :: "control_definition \<Rightarrow> control_definition \<Rightarrow> bool" where
  "same_controls d e \<longleftrightarrow>
     (\<forall>st. set (policy_checks (cd_required_checks d) st) = set (policy_checks (cd_required_checks e) st))
     \<and> set (cd_allowed_tools d) = set (cd_allowed_tools e) \<and> set (cd_protected_tools d) = set (cd_protected_tools e)
     \<and> d\<lparr>cd_required_checks := [], cd_allowed_tools := [], cd_protected_tools := []\<rparr>
       = e\<lparr>cd_required_checks := [], cd_allowed_tools := [], cd_protected_tools := []\<rparr>"

lemma updated_protected:
  assumes "set (cd_protected_tools d) = set (compiled_protected bm a)" "browser_controls d = bm"
  shows "set (cd_protected_tools (update_controls d q)) = set (compiled_protected bm (pref_require_revoke_approval q))"
  using assms
  by (cases a; cases bm; cases "pref_require_revoke_approval q")
    (auto simp: update_controls_def Let_def browser_controls_def compiled_protected_def revoke_tools_def)

lemma updated_required:
  assumes "\<And>st. set (policy_checks (cd_required_checks d) st) = set (compiled_checks a telemetry st)"
  shows "set (policy_checks (cd_required_checks (update_controls d q)) st)
    = set (compiled_checks (pref_require_revoke_approval q) telemetry st)"
  using assms [of st] by (cases st; cases a) (auto simp: update_controls_def Let_def updated_checks_at compiled_checks_def)

lemma compiled_parts:
  "policy_checks (cd_required_checks (compiled_definition bm telemetry bindings p staged)) st
     = compiled_checks (pref_require_revoke_approval p) telemetry st"
  "cd_allowed_tools (compiled_definition bm telemetry bindings p staged) = compiled_tools bm telemetry"
  "cd_protected_tools (compiled_definition bm telemetry bindings p staged) = compiled_protected bm (pref_require_revoke_approval p)"
  by (simp_all add: compiled_definition_def Let_def policy_checks_stages)

lemma update_same:
  assumes "same_controls d (compiled_definition bm telemetry bindings p staged)"
  shows "same_controls (update_controls d q) (compiled_definition bm telemetry bindings q staged)"
proof -
  from assms have checks: "set (policy_checks (cd_required_checks d) st) = set (compiled_checks (pref_require_revoke_approval p) telemetry st)"
    and allowed: "set (cd_allowed_tools d) = set (compiled_tools bm telemetry)"
    and protected: "set (cd_protected_tools d) = set (compiled_protected bm (pref_require_revoke_approval p))"
    and rest: "d\<lparr>cd_required_checks := [], cd_allowed_tools := [], cd_protected_tools := []\<rparr>
      = (compiled_definition bm telemetry bindings p staged)\<lparr>cd_required_checks := [], cd_allowed_tools := [], cd_protected_tools := []\<rparr>" for st
    unfolding same_controls_def compiled_parts by blast+
  have "browser_controls d = bm"
    using allowed compiled_browser [of bm telemetry bindings p staged] by (simp add: browser_controls_def compiled_parts)
  then have "set (cd_protected_tools (update_controls d q)) = set (compiled_protected bm (pref_require_revoke_approval q))"
    by (rule updated_protected [OF protected])
  moreover have "set (policy_checks (cd_required_checks (update_controls d q)) st)
      = set (compiled_checks (pref_require_revoke_approval q) telemetry st)" for st
    by (rule updated_required [OF checks])
  moreover have "cd_allowed_tools (update_controls d q) = cd_allowed_tools d"
    by (simp add: update_controls_def Let_def)
  moreover have "(update_controls d q)\<lparr>cd_required_checks := [], cd_allowed_tools := [], cd_protected_tools := []\<rparr>
      = (compiled_definition bm telemetry bindings q staged)\<lparr>cd_required_checks := [], cd_allowed_tools := [], cd_protected_tools := []\<rparr>"
    using rest by (cases d) (simp add: compiled_definition_def Let_def update_controls_def)
  ultimately show ?thesis by (simp only: same_controls_def compiled_parts allowed simp_thms)
qed

text \<open>
  C26: An update is a compilation: after any sequence of updates that ends with some preferences, the controls are
  those that compiling these preferences gives, but for the probes, which an update keeps.
\<close>

theorem updates_agree_with_compilation:
  assumes "compile_controls sha fmt hex credential bindings services connections p actor now = Inr (d, versions)"
    and "compile_controls sha fmt hex credential bindings services connections q actor' now' = Inr (e, versions')"
  shows "same_controls (foldl update_controls d (ps @ [q])) e"
proof -
  from assms(1) obtain bm drafts staged where
    p: "all_probes credential bindings services connections p = Inr (bm, drafts)"
      "mapr (active_version sha fmt hex credential actor now) (enumerate 0 drafts) = Inr staged"
      "d = compiled_definition bm (telemetry_enabled services bindings) bindings p staged"
    by (elim compiled_inverts) blast
  from assms(2) obtain bm' drafts' staged' where
    q: "all_probes credential bindings services connections q = Inr (bm', drafts')"
      "mapr (active_version sha fmt hex credential actor' now') (enumerate 0 drafts') = Inr staged'"
      "e = compiled_definition bm' (telemetry_enabled services bindings) bindings q staged'"
    by (elim compiled_inverts) blast
  have "assigned staged' = assigned staged"
    using same_stages [OF p(1) q(1)] staged_numbered [OF p(2)] staged_numbered [OF q(2)] by (auto simp: assigned_numbered)
  then have e: "e = compiled_definition bm (telemetry_enabled services bindings) bindings q staged"
    using same_stages [OF p(1) q(1)] by (simp add: q(3) compiled_definition_def)
  have "\<exists>r. same_controls (foldl update_controls d ps) (compiled_definition bm (telemetry_enabled services bindings) bindings r staged)"
    if "\<exists>r. same_controls d (compiled_definition bm (telemetry_enabled services bindings) bindings r staged)" for d
    using that by (induction ps arbitrary: d) (auto, blast intro: update_same)
  moreover have "same_controls d d" by (simp add: same_controls_def)
  ultimately show ?thesis unfolding e using p(3) by (auto intro: update_same)
qed

lemma updates_agree_with_compilation_witness:
  "same_controls (foldl update_controls (ex_compiled True) ([ex_preferences True] @ [ex_preferences False])) (ex_compiled False)"
  by (rule updates_agree_with_compilation [OF ex_compiles ex_compiles])

section \<open>Coverage\<close>

lemma staged_members:
  assumes "mapr (active_version sha fmt hex credential actor now) (enumerate n drafts) = Inr staged"
  shows "(st, v) \<in> set staged \<Longrightarrow> \<exists>draft. (st, draft) \<in> set drafts \<and> pv_definition v = draft\<lparr>pd_id := pv_id v\<rparr> \<and> pv_state v = Probe_Active
      \<and> digest sha fmt (dump_probe_definition (pv_definition v)) = Inr (pv_digest v) \<and> validate_probe_version v = Inr v"
    "(st, draft) \<in> set drafts \<Longrightarrow> \<exists>v. (st, v) \<in> set staged \<and> pv_definition v = draft\<lparr>pd_id := pv_id v\<rparr>"
  using assms
  by (induction drafts arbitrary: n staged) (fastforce simp: bindr_eq_Inr dest: active_version_Inr)+

definition credential_ready :: "rotation_run \<Rightarrow> 'w stage_state \<Rightarrow> bool" where
  "credential_ready run s \<longleftrightarrow>
     (\<exists>t c. run_target_generation_id run = Some t \<and> run_current_generation_id run = Some c
        \<and> (\<forall>i\<in>{t, c}. \<exists>g. get_generation (run_organisation_id run) i s = (Inr g, s)
             \<and> cg_provider_id g \<noteq> None \<and> cg_secret_reference g \<noteq> None))"

text \<open>What is compiled into every probe.\<close>

definition probe_shape :: "stage \<Rightarrow> probe_definition \<Rightarrow> bool" where
  "probe_shape st d \<longleftrightarrow>
     pd_generation_binding d \<noteq> Bind_None \<and> pd_expected_generation_id d = None
     \<and> (revocation_kind (pd_kind d) \<longrightarrow> pd_negative d = (st = REVOKE))"

lemma bind_compiled:
  assumes "credential_ready run s" "probe_shape st d" "negative = (st = REVOKE)"
  shows "\<exists>d'. bind_probe run negative d s = (Inr d', s) \<and> pd_kind d' = pd_kind d \<and> pd_negative d' = pd_negative d
    \<and> pd_expected_generation_id d' \<noteq> None"
proof -
  from assms(1) obtain t c where ids: "run_target_generation_id run = Some t" "run_current_generation_id run = Some c"
    and g: "\<And>i. i \<in> {t, c} \<Longrightarrow> \<exists>g. get_generation (run_organisation_id run) i s = (Inr g, s)
      \<and> cg_provider_id g \<noteq> None \<and> cg_secret_reference g \<noteq> None"
    unfolding credential_ready_def by blast
  from assms(2) ids obtain i where i: "probe_generation run d s = (Inr (Some i), s)" "i \<in> {t, c}"
    by (cases "pd_generation_binding d")
      (auto simp: probe_shape_def probe_generation_def bindx_def required_def yields_def)
  from g [OF i(2)] obtain b p r where b: "get_generation (run_organisation_id run) i s = (Inr b, s)"
    "cg_provider_id b = Some p" "cg_secret_reference b = Some r" by auto
  have polar: "\<not> (revocation_kind (pd_kind d) \<and> pd_negative d \<noteq> negative)" using assms(2,3) by (auto simp: probe_shape_def)
  obtain tt where tt: "bound_target d b s = (Inr tt, s)"
    using b by (cases "pd_target_binding d") (auto simp: bound_target_def required_def yields_def)
  show ?thesis
    using polar assms(2) i(1) b tt
    by (simp add: bind_probe_def bindx_def needs_def requires_def required_def yields_def probe_shape_def)
qed

text \<open>What the validators make of the drafts of one binding and of the credential.\<close>

lemma telemetry_members:
  assumes "telemetry_probes credential connections preferences i = Inr ys"
  shows "\<exists>d. pd_kind d = Probe_Telemetry \<and> \<not> pd_negative d \<and> probe_shape VERIFY d
    \<and> ys = [(VERIFY, d), (OBSERVE, d), (OBSERVE, d\<lparr>pd_generation_binding := Bind_Current, pd_negative := True\<rparr>)]"
proof -
  from assms obtain c where c: "lookup_by con_id connections i = Inr c" by (auto simp: telemetry_probes_def bindr_eq_Inr)
  show ?thesis
    using assms
    by (cases "con_allowed_resources c")
      (auto simp: telemetry_probes_def c bindr_eq_Inr Let_def probe_draft_def probe_shape_def revocation_kind_def)
qed

definition service_probe :: "stage \<times> probe_definition \<Rightarrow> bool" where
  "service_probe sd \<longleftrightarrow> fst sd \<in> {VERIFY, OBSERVE} \<and> pd_kind (snd sd) \<in> {Probe_Runtime, Probe_Telemetry} \<and> probe_shape (fst sd) (snd sd)"

definition watched :: "(stage \<times> probe_definition) list \<Rightarrow> bool" where
  "watched ps \<longleftrightarrow>
     (\<exists>d e f. {(VERIFY, d), (OBSERVE, e), (OBSERVE, f)} \<subseteq> set ps \<and> pd_kind d = Probe_Telemetry
        \<and> pd_kind e = Probe_Telemetry \<and> \<not> pd_negative e \<and> pd_kind f = Probe_Telemetry \<and> pd_negative f)"

lemma watched_mono: "watched ps \<Longrightarrow> set ps \<subseteq> set qs \<Longrightarrow> watched qs"
  unfolding watched_def by (meson subset_trans)

lemma service_shape: "service_probe sd \<Longrightarrow> \<not> revocation_kind (pd_kind (snd sd)) \<and> probe_shape (fst sd) (snd sd)"
  by (auto simp: service_probe_def revocation_kind_def)

lemma telemetry_service_probes:
  assumes "mapr (telemetry_probes credential connections preferences) is = Inr yss"
  shows "list_all service_probe (concat yss)"
    "is \<noteq> [] \<Longrightarrow> watched (concat yss)"
proof -
  show "list_all service_probe (concat yss)"
    using assms
    by (induction "is" arbitrary: yss)
      (auto simp: bindr_eq_Inr service_probe_def probe_shape_def revocation_kind_def dest!: telemetry_members)
  show "watched (concat yss)" if "is \<noteq> []"
  proof (cases "is")
    case (Cons i js)
    with assms obtain ys zss where "telemetry_probes credential connections preferences i = Inr ys" "yss = ys # zss"
      by (auto simp: bindr_eq_Inr)
    from telemetry_members [OF this(1)] obtain d where
      "pd_kind d = Probe_Telemetry" "\<not> pd_negative d"
      "ys = [(VERIFY, d), (OBSERVE, d), (OBSERVE, d\<lparr>pd_generation_binding := Bind_Current, pd_negative := True\<rparr>)]"
      by blast
    then have "watched ys"
      unfolding watched_def
      by (intro exI [of _ d] exI [of _ "d\<lparr>pd_generation_binding := Bind_Current, pd_negative := True\<rparr>"]) simp
    then show ?thesis by (rule watched_mono) (simp add: \<open>yss = ys # zss\<close>)
  qed (use that in simp)
qed

lemma binding_members:
  assumes "binding_probes credential connections services preferences b = Inr ys"
  shows "list_all service_probe ys" "{(VERIFY, runtime_probe credential b), (OBSERVE, runtime_probe credential b)} \<subseteq> set ys"
    "telemetry_enabled services [b] \<Longrightarrow> watched ys"
proof -
  from assms obtain service telemetry where
    service: "lookup_by csv_id services (cb_service_id b) = Inr service" and
    telemetry: "mapr (telemetry_probes credential connections preferences) (csv_telemetry_connection_ids service) = Inr telemetry" and
    ys: "ys = [(VERIFY, runtime_probe credential b), (OBSERVE, runtime_probe credential b)] @ concat telemetry"
    by (auto simp: binding_probes_def bindr_eq_Inr)
  show "list_all service_probe ys"
    using telemetry_service_probes(1) [OF telemetry]
    by (simp add: ys service_probe_def runtime_probe_def probe_draft_def probe_shape_def revocation_kind_def)
  show "{(VERIFY, runtime_probe credential b), (OBSERVE, runtime_probe credential b)} \<subseteq> set ys" by (simp add: ys)
  assume "telemetry_enabled services [b]"
  with service have "csv_telemetry_connection_ids service \<noteq> []"
    by (auto simp: telemetry_enabled_def lookup_by_def split: option.splits)
  then show "watched ys"
    by (rule watched_mono [OF telemetry_service_probes(2) [OF telemetry]]) (auto simp: ys)
qed

text \<open>The probes that the coordinator asks for at each stage.\<close>

definition has_probe :: "(stage \<times> probe_definition) list \<Rightarrow> stage \<Rightarrow> probe_kind \<Rightarrow> bool" where
  "has_probe ps st k \<longleftrightarrow> list_ex (\<lambda>sd. fst sd = st \<and> pd_kind (snd sd) = k) ps"

definition probes_cover :: "bool \<Rightarrow> bool \<Rightarrow> (stage \<times> probe_definition) list \<Rightarrow> bool" where
  "probes_cover browser_managed telemetry ps \<longleftrightarrow>
     has_probe ps VERIFY Probe_Secret \<and> has_probe ps VERIFY Probe_Runtime \<and> has_probe ps OBSERVE Probe_Runtime
     \<and> has_probe ps REVOKE Probe_Secret
     \<and> (browser_managed \<longrightarrow> (\<forall>sd\<in>set ps. \<not> revocation_kind (pd_kind (snd sd))))
     \<and> (\<not> browser_managed \<longrightarrow> (\<forall>k\<in>{Probe_Provider, Probe_Credential}. has_probe ps VERIFY k \<and> has_probe ps REVOKE k))
     \<and> (telemetry \<longrightarrow> watched ps)
     \<and> (\<forall>sd\<in>set ps. probe_shape (fst sd) (snd sd))"

lemmas draft_simps = probe_draft_def provider_probes_def secret_probe_def runtime_probe_def Let_def

lemma has_probe_append: "has_probe (ps @ qs) st k \<longleftrightarrow> has_probe ps st k \<or> has_probe qs st k"
  by (auto simp: has_probe_def)

lemma credential_has:
  "has_probe (credential_probes credential m v secret) VERIFY Probe_Secret"
  "has_probe (credential_probes credential m v secret) REVOKE Probe_Secret"
  by (simp_all add: has_probe_def credential_probes_def secret_probe_def probe_draft_def)

lemma credential_has_revocation:
  "k \<in> {Probe_Provider, Probe_Credential} \<Longrightarrow> st \<in> {VERIFY, REVOKE} \<Longrightarrow> has_probe (credential_probes credential m (Some v) secret) st k"
  by (elim insertE emptyE)
    (simp_all add: has_probe_def credential_probes_def provider_probes_def Let_def probe_draft_def)

lemma credential_shapes:
  "list_all (\<lambda>sd. probe_shape (fst sd) (snd sd)) (credential_probes credential m v secret)"
  "list_all (\<lambda>sd. \<not> revocation_kind (pd_kind (snd sd))) (credential_probes credential m None secret)"
  by (cases v)
    (simp_all add: credential_probes_def draft_simps probe_shape_def revocation_kind_def)

lemma compiled_cover:
  assumes "all_probes credential bindings services connections preferences = Inr (bm, drafts)" "bindings \<noteq> []"
  shows "probes_cover bm (telemetry_enabled services bindings) drafts"
proof -
  define v where "v = (if bm then None else find (tests_credential credential) connections)"
  from assms(1) obtain m secret bound where
    v: "v = None \<longleftrightarrow> bm" and
    bound: "mapr (binding_probes credential connections services preferences) bindings = Inr bound" and
    drafts: "drafts = credential_probes credential m v secret @ concat bound"
    by (auto simp: all_probes_def bindr_eq_Inr require_eq_Inr Let_def v_def)
  have service: "list_all service_probe (concat bound)"
    using bound by (induction bindings arbitrary: bound) (auto simp: bindr_eq_Inr dest: binding_members(1))
  obtain b bs where b: "bindings = b # bs" using assms(2) by (cases bindings) auto
  with bound obtain ys zs where ys: "binding_probes credential connections services preferences b = Inr ys" "bound = ys # zs"
    by (auto simp: bindr_eq_Inr)
  have runtime: "has_probe (concat bound) VERIFY Probe_Runtime" "has_probe (concat bound) OBSERVE Probe_Runtime"
    using binding_members(2) [OF ys(1)] unfolding has_probe_def ys(2)
    by (auto simp: list_ex_iff intro!: bexI [of _ "(_, runtime_probe credential b)"]) (simp_all add: draft_simps)
  have watch: "watched (concat bound)" if "telemetry_enabled services bindings"
    using that bound
  proof (induction bindings arbitrary: bound)
    case (Cons b bs)
    then obtain ys zs where ys: "binding_probes credential connections services preferences b = Inr ys"
      "mapr (binding_probes credential connections services preferences) bs = Inr zs" "bound = ys # zs"
      by (auto simp: bindr_eq_Inr)
    have "telemetry_enabled services [b] \<or> telemetry_enabled services bs"
      using Cons.prems(1) by (simp add: telemetry_enabled_def)
    then show ?case
    proof
      assume "telemetry_enabled services [b]"
      from binding_members(3) [OF ys(1) this] show ?thesis by (rule watched_mono) (simp add: ys(3))
    next
      assume "telemetry_enabled services bs"
      from Cons.IH [OF this ys(2)] show ?thesis by (rule watched_mono) (simp add: ys(3))
    qed
  qed (simp add: telemetry_enabled_def)
  have "watched drafts" if "telemetry_enabled services bindings"
    by (rule watched_mono [OF watch [OF that]]) (simp add: drafts)
  moreover have "\<forall>sd\<in>set (concat bound). \<not> revocation_kind (pd_kind (snd sd)) \<and> probe_shape (fst sd) (snd sd)"
    using service service_shape unfolding list_all_iff by blast
  ultimately show ?thesis
    using runtime v credential_shapes(1) [of credential m v secret] credential_shapes(2) [of credential m secret]
    by (cases bm; cases v)
      (simp_all add: probes_cover_def drafts has_probe_append credential_has credential_has_revocation list_all_iff ball_Un)
qed

section \<open>The coordinator takes what is compiled\<close>

lemma mapx_map: "mapx f (map g xs) = mapx (\<lambda>x. f (g x)) xs"
  by (induction xs) simp_all

lemma mapx_steady:
  assumes "\<And>x. x \<in> set xs \<Longrightarrow> \<exists>y. f x s = (Inr y, s) \<and> R x y"
  shows "\<exists>ys. mapx f xs s = (Inr ys, s) \<and> list_all2 R xs ys"
  using assms
proof (induction xs)
  case (Cons x xs)
  then obtain y ys where "f x s = (Inr y, s)" "R x y" "mapx f xs s = (Inr ys, s)" "list_all2 R xs ys" by fastforce
  then show ?case by (auto simp: bindx_def yields_def)
qed (simp add: yields_def)

text \<open>A version and the definition bound to the generations of the run.\<close>

definition bound_as :: "probe_definition \<Rightarrow> probe_definition \<Rightarrow> bool" where
  "bound_as d d' \<longleftrightarrow> pd_kind d' = pd_kind d \<and> pd_negative d' = pd_negative d \<and> pd_expected_generation_id d' \<noteq> None"

text \<open>The versions that were compiled are stored as they were compiled.\<close>

definition versions_stored :: "rotation_run \<Rightarrow> probe_version list \<Rightarrow> 'w stage_state \<Rightarrow> bool" where
  "versions_stored run versions s \<longleftrightarrow> (\<forall>v\<in>set versions. get_probe_version (run_organisation_id run) (pv_id v) s = (Inr v, s))"

lemma probes_resolved:
  assumes staged: "mapr (active_version (sv_sha sv) (sv_time sv) hex credential actor now) (enumerate 0 drafts) = Inr staged"
    and cover: "probes_cover bm telemetry drafts" and stored: "versions_stored run (map snd staged) s"
    and ready: "credential_ready run s"
  shows "\<exists>ds. mapx (resolve_probe sv run (st = REVOKE)) (snd (assigned staged st)) s = (Inr ds, s)
    \<and> list_all2 bound_as (map (pv_definition \<circ> snd) (filter (\<lambda>sv. fst sv = st) staged)) ds"
proof -
  let ?vs = "map snd (filter (\<lambda>sv. fst sv = st) staged)"
  have "\<exists>d. resolve_probe sv run (st = REVOKE) (pv_id v) s = (Inr d, s) \<and> bound_as (pv_definition v) d" if "v \<in> set ?vs" for v
  proof -
    from that have member: "(st, v) \<in> set staged" by auto
    from staged_members(1) [OF staged member] obtain draft where v: "(st, draft) \<in> set drafts"
      "pv_definition v = draft\<lparr>pd_id := pv_id v\<rparr>" "pv_state v = Probe_Active"
      "digest (sv_sha sv) (sv_time sv) (dump_probe_definition (pv_definition v)) = Inr (pv_digest v)" by blast
    have "probe_shape st (pv_definition v)" using cover v(1) by (auto simp: probes_cover_def v(2) probe_shape_def)
    from bind_compiled [OF ready this refl] obtain d where
      "bind_probe run (st = REVOKE) (pv_definition v) s = (Inr d, s)" "bound_as (pv_definition v) d"
      by (auto simp: bound_as_def)
    moreover have "get_probe_version (run_organisation_id run) (pv_id v) s = (Inr v, s)"
      using stored member by (force simp: versions_stored_def)
    ultimately show ?thesis
      using v(3,4)
      by (auto simp: resolve_probe_def bindx_def stage_digest_def checked_def needs_def requires_def given_def)
  qed
  then have "\<exists>ds. mapx (\<lambda>v. resolve_probe sv run (st = REVOKE) (pv_id v)) ?vs s = (Inr ds, s)
      \<and> list_all2 (\<lambda>v. bound_as (pv_definition v)) ?vs ds"
    by (rule mapx_steady)
  then show ?thesis
    by (simp add: assigned_def mapx_map list_all2_map1 comp_def)
qed

text \<open>What the coordinator looks at: the kinds of the probes of a stage, with their polarity.\<close>

definition signs :: "probe_definition set \<Rightarrow> (probe_kind \<times> bool) set" where
  "signs ds = (\<lambda>d. (pd_kind d, pd_negative d)) ` ds"

lemma bound_signs:
  assumes "list_all2 bound_as ds es"
  shows "signs (set es) = signs (set ds)" "unbound_probes es = []"
proof -
  have "map (\<lambda>d. (pd_kind d, pd_negative d)) es = map (\<lambda>d. (pd_kind d, pd_negative d)) ds"
    using assms by (induction rule: list_all2_induct) (simp_all add: bound_as_def)
  then show "signs (set es) = signs (set ds)" unfolding signs_def by (metis set_map)
  show "unbound_probes es = []"
    using assms by (induction rule: list_all2_induct) (simp_all add: bound_as_def unbound_probes_def)
qed

lemma staged_signs:
  assumes "mapr (active_version sha fmt hex credential actor now) (enumerate 0 drafts) = Inr staged"
  shows "signs (set (map (pv_definition \<circ> snd) (filter (\<lambda>sv. fst sv = st) staged))) = signs {d. (st, d) \<in> set drafts}"
    (is "?l = ?r")
proof
  show "?l \<subseteq> ?r"
  proof
    fix x
    assume "x \<in> ?l"
    then obtain v where v: "(st, v) \<in> set staged" "x = (pd_kind (pv_definition v), pd_negative (pv_definition v))"
      by (auto simp: signs_def)
    from staged_members(1) [OF assms v(1)] obtain draft where
      "(st, draft) \<in> set drafts" "pv_definition v = draft\<lparr>pd_id := pv_id v\<rparr>" by blast
    with v(2) show "x \<in> ?r" by (auto simp: signs_def)
  qed
  show "?r \<subseteq> ?l"
  proof
    fix x
    assume "x \<in> ?r"
    then obtain d where d: "(st, d) \<in> set drafts" "x = (pd_kind d, pd_negative d)" by (auto simp: signs_def)
    from staged_members(2) [OF assms d(1)] obtain v where
      "(st, v) \<in> set staged" "pv_definition v = d\<lparr>pd_id := pv_id v\<rparr>" by blast
    then show "x \<in> ?l"
      unfolding signs_def d(2) by (intro image_eqI [of _ _ "pv_definition v"]) (force simp: image_iff)+
  qed
qed

lemma signs_kinds: "pd_kind ` ds = fst ` signs ds" "pd_kind ` {d \<in> ds. pd_negative d} = {k. (k, True) \<in> signs ds}"
  by (force simp: signs_def)+

text \<open>The conditions of \<open>_probes\<close> on the kinds of a stage.\<close>

definition signs_cover :: "bool \<Rightarrow> bool \<Rightarrow> stage \<Rightarrow> (probe_kind \<times> bool) set \<Rightarrow> bool" where
  "signs_cover browser_managed telemetry st ks \<longleftrightarrow>
     ks \<noteq> {} \<and> (browser_managed \<longrightarrow> (\<forall>k\<in>fst ` ks. \<not> revocation_kind k))
     \<and> (st = REVOKE \<and> \<not> browser_managed \<longrightarrow> {(Probe_Provider, True), (Probe_Credential, True)} \<subseteq> ks)
     \<and> (st = OBSERVE \<and> telemetry \<longrightarrow> {(Probe_Telemetry, True), (Probe_Telemetry, False)} \<subseteq> ks)
     \<and> (st = VERIFY \<longrightarrow> set (required_kinds browser_managed telemetry) \<subseteq> fst ` ks)"

lemma has_sign: "has_probe ps st k \<Longrightarrow> k \<in> fst ` signs {d. (st, d) \<in> set ps}"
  by (force simp: has_probe_def list_ex_iff signs_def)

lemma watched_has: "watched ps \<Longrightarrow> has_probe ps VERIFY Probe_Telemetry"
  by (force simp: watched_def has_probe_def list_ex_iff)

lemma cover_signs:
  assumes "probes_cover bm telemetry drafts" "st \<in> {VERIFY, OBSERVE, REVOKE}"
  shows "signs_cover bm telemetry st (signs {d. (st, d) \<in> set drafts})"
proof -
  note c = assms(1) [unfolded probes_cover_def]
  let ?ks = "signs {d. (st, d) \<in> set drafts}"
  have "?ks \<noteq> {}" using assms(2) c has_sign by fastforce
  moreover have "\<forall>k\<in>fst ` ?ks. \<not> revocation_kind k" if bm
    using c that by (auto simp: signs_def)
  moreover have "{(Probe_Provider, True), (Probe_Credential, True)} \<subseteq> ?ks" if "st = REVOKE" "\<not> bm"
  proof -
    have "(k, True) \<in> ?ks" if k: "k \<in> {Probe_Provider, Probe_Credential}" for k
    proof -
      from c \<open>\<not> bm\<close> k have "has_probe drafts REVOKE k" by blast
      then obtain d where d: "(REVOKE, d) \<in> set drafts" "pd_kind d = k" by (auto simp: has_probe_def list_ex_iff)
      with c have "probe_shape REVOKE d" by fastforce
      with d(2) k have "pd_negative d" by (auto simp: probe_shape_def revocation_kind_def)
      with d \<open>st = REVOKE\<close> show ?thesis by (force simp: signs_def)
    qed
    then show ?thesis by blast
  qed
  moreover have "{(Probe_Telemetry, True), (Probe_Telemetry, False)} \<subseteq> ?ks" if "st = OBSERVE" telemetry
  proof -
    from c that obtain e f where "{(OBSERVE, e), (OBSERVE, f)} \<subseteq> set drafts" "pd_kind e = Probe_Telemetry" "\<not> pd_negative e"
      "pd_kind f = Probe_Telemetry" "pd_negative f" by (auto simp: watched_def)
    with that show ?thesis by (force simp: signs_def)
  qed
  moreover have "set (required_kinds bm telemetry) \<subseteq> fst ` ?ks" if "st = VERIFY"
  proof -
    have "has_probe drafts VERIFY k" if "k \<in> set (required_kinds bm telemetry)" for k
      using c that watched_has [of drafts] by (cases bm; cases telemetry) (auto simp: required_kinds_def)
    with has_sign that show ?thesis by blast
  qed
  ultimately show ?thesis by (simp add: signs_cover_def)
qed

lemma compiled_probe_ids:
  "st \<in> {VERIFY, OBSERVE, REVOKE} \<Longrightarrow>
     probe_ids (foldl update_controls (compiled_definition bm telemetry bindings p staged) ps) st = snd (assigned staged st)"
  "cd_require_generation_telemetry (foldl update_controls (compiled_definition bm telemetry bindings p staged) ps) = telemetry"
proof -
  have "cd_probe_versions (foldl update_controls d ps) = cd_probe_versions d
      \<and> cd_require_generation_telemetry (foldl update_controls d ps) = cd_require_generation_telemetry d" for d
    by (induction ps arbitrary: d) (simp_all add: update_controls_def Let_def)
  then show "st \<in> {VERIFY, OBSERVE, REVOKE} \<Longrightarrow>
      probe_ids (foldl update_controls (compiled_definition bm telemetry bindings p staged) ps) st = snd (assigned staged st)"
    "cd_require_generation_telemetry (foldl update_controls (compiled_definition bm telemetry bindings p staged) ps) = telemetry"
    by (auto simp: probe_ids_def compiled_definition_def Let_def assigned_def)
qed

lemma needs_True: "needs True m s = (Inr (), s)"
  by (simp add: needs_def requires_def)

lemma run_probes_accepts:
  assumes "stage_definition sv run s = (Inr controls, s)"
    and "mapx (resolve_probe sv run negative) (probe_ids controls st) s = (Inr ds, s)" "unbound_probes ds = []"
    and cover: "signs_cover bm (cd_require_generation_telemetry controls) st (signs (set ds))"
    and "negative = (st = REVOKE)" "observation = (st = OBSERVE)"
  shows "run_probes sv run negative observation st s = (Inr ds, s)"
proof -
  have ids: "probe_ids controls st \<noteq> []"
    using assms(2) cover by (auto simp: signs_cover_def signs_def yields_def)
  let ?bm = "\<not> list_ex (\<lambda>d. revocation_kind (pd_kind d)) ds"
  let ?telemetry = "cd_require_generation_telemetry controls"
  have kind: "list_ex (\<lambda>d. pd_kind d = k \<and> P (pd_negative d)) ds \<longleftrightarrow> (\<exists>n. P n \<and> (k, n) \<in> signs (set ds))" for k P
    by (force simp: list_ex_iff signs_def)
  have managed: "?bm \<longleftrightarrow> (\<forall>k\<in>fst ` signs (set ds). \<not> revocation_kind k)"
    by (force simp: list_ex_iff signs_def)
  have kinds: "set (map pd_kind ds) = fst ` signs (set ds)"
    "set (map pd_kind (filter pd_negative ds)) = {k. (k, True) \<in> signs (set ds)}"
    using signs_kinds(1,2) [of "set ds"] by simp_all
  have revocation: "\<not> (negative \<and> \<not> ?bm \<and> \<not> {Probe_Provider, Probe_Credential} \<subseteq> set (map pd_kind (filter pd_negative ds)))"
    unfolding managed kinds using cover assms(5) by (cases bm) (auto simp: signs_cover_def)
  have watching: "\<not> (observation \<and> ?telemetry
      \<and> (\<not> list_ex (\<lambda>d. pd_kind d = Probe_Telemetry \<and> \<not> pd_negative d) ds
        \<or> \<not> list_ex (\<lambda>d. pd_kind d = Probe_Telemetry \<and> pd_negative d) ds))"
    using cover assms(6) kind [of Probe_Telemetry Not] kind [of Probe_Telemetry "\<lambda>n. n"] by (auto simp: signs_cover_def)
  have "?bm = bm" if "st = VERIFY"
  proof -
    have "bm \<or> Probe_Provider \<in> fst ` signs (set ds)"
      using cover that by (auto simp: signs_cover_def required_kinds_def)
    moreover have "revocation_kind Probe_Provider" by (simp add: revocation_kind_def)
    ultimately show ?thesis unfolding managed using cover by (auto simp only: signs_cover_def)
  qed
  then have coverage: "\<not> (st = VERIFY \<and> \<not> set (required_kinds ?bm ?telemetry) \<subseteq> set (map pd_kind ds))"
    unfolding kinds using cover by (auto simp: signs_cover_def)
  show ?thesis
    unfolding run_probes_def bindx_def
    by (simp only: assms(1,2,3) prod.case sum.case needs_True ids revocation [unfolded not_not] watching coverage Let_def simp_thms yields_def)
qed

text \<open>
  C25: The coordinator can verify what was compiled: for a credential that is deployed somewhere, with both
  generations prepared by the run and the compiled versions stored, the checks on the probes of the stages VERIFY, OBSERVE and REVOKE accept the
  probes that were compiled, after any updates of the preferences.
\<close>

theorem compiled_controls_verifiable:
  assumes "compile_controls (sv_sha sv) (sv_time sv) hex credential bindings services connections p actor now = Inr (d, versions)"
    and "bindings \<noteq> []" and "credential_ready run s" and "versions_stored run versions s"
    and "stage_definition sv run s = (Inr (foldl update_controls d ps), s)"
    and "st \<in> {VERIFY, OBSERVE, REVOKE}"
  shows "\<exists>ds. run_probes sv run (st = REVOKE) (st = OBSERVE) st s = (Inr ds, s)"
proof -
  from assms(1) obtain bm drafts staged where
    all: "all_probes credential bindings services connections p = Inr (bm, drafts)" and
    staged: "mapr (active_version (sv_sha sv) (sv_time sv) hex credential actor now) (enumerate 0 drafts) = Inr staged" and
    versions: "versions = map snd staged" and
    d: "d = compiled_definition bm (telemetry_enabled services bindings) bindings p staged"
    by (elim compiled_inverts)
  from all assms(2) have cover: "probes_cover bm (telemetry_enabled services bindings) drafts" by (rule compiled_cover)
  from probes_resolved [OF staged cover _ assms(3)] assms(4) obtain ds where
    ds: "mapx (resolve_probe sv run (st = REVOKE)) (snd (assigned staged st)) s = (Inr ds, s)"
      "list_all2 bound_as (map (pv_definition \<circ> snd) (filter (\<lambda>sv. fst sv = st) staged)) ds"
    by (auto simp: versions)
  have "signs (set ds) = signs {d. (st, d) \<in> set drafts}"
    using bound_signs(1) [OF ds(2)] staged_signs [OF staged] by metis
  then have "signs_cover bm (cd_require_generation_telemetry (foldl update_controls d ps)) st (signs (set ds))"
    using cover_signs [OF cover assms(6)] by (simp add: d compiled_probe_ids)
  from run_probes_accepts [OF assms(5) _ bound_signs(2) [OF ds(2)] this refl refl] ds(1) assms(6)
  show ?thesis by (auto simp: d compiled_probe_ids)
qed

text \<open>A run between the generations ''old'' and ''new'', with the compiled versions in the store.\<close>

definition ex_verified_run :: rotation_run where
  "ex_verified_run = ex_stage_run\<lparr>run_target_generation_id := Some ''new'', run_current_generation_id := Some ''old''\<rparr>"

definition ex_prepared :: "string \<Rightarrow> credential_generation" where
  "ex_prepared i =
     \<lparr>cg_id = i, cg_organisation_id = ''org'', cg_credential_id = ''key'', cg_provider_id = Some i,
      cg_provider_display_name = None, cg_fingerprint = None, cg_scopes = {}, cg_state = GenActive, cg_attempt_id = ''att'',
      cg_secret_reference = Some ''secrets/key/versions/2'', cg_predecessor_id = None, cg_successor_id = None,
      cg_expires_at = None, cg_last_observed_at = None, cg_metadata_digest = None, cg_created_at = 1, cg_revoked_at = None\<rparr>"

definition ex_verified_state :: "nat stage_state" where
  "ex_verified_state = ex_stage_state\<lparr>
     sx_generations := (sx_generations ex_stage_state)\<lparr>gs_generations := \<lambda>(org, i).
       if org = ''org'' \<and> i \<in> {''old'', ''new''} then Some (ex_prepared i) else None\<rparr>,
     sx_documents := (sx_documents ex_stage_state)\<lparr>sd_probe_versions := \<lambda>(org, i).
       if org = ''org'' then map_of (map (\<lambda>(st, v). (pv_id v, v)) ex_active_versions) i else None\<rparr>,
     sx_controls := Map.empty(control_key ex_verified_run \<mapsto>
       (ex_version\<lparr>cv_definition := foldl update_controls (ex_compiled True) [ex_preferences False]\<rparr>, default_policy))\<rparr>"

lemma ex_prepared_ready: "credential_ready ex_verified_run ex_verified_state"
proof -
  have "validate_generation (ex_prepared i) = Inr (ex_prepared i) \<and> segments [''org'', i] = Inr ()" if "i \<in> {''old'', ''new''}" for i
    using that by (elim insertE emptyE) (hypsubst, code_simp)+
  then have "get_generation ''org'' i ex_verified_state = (Inr (ex_prepared i), ex_verified_state)" if "i \<in> {''old'', ''new''}" for i
    using that by (auto simp: get_generation_def fetch_def checked_def catalog_get_def ex_verified_state_def bindr_eq_Inr)
  then show ?thesis
    by (auto simp: credential_ready_def ex_verified_run_def ex_stage_run_def ex_run_def ex_prepared_def)
qed

lemma ex_versions_stored: "versions_stored ex_verified_run (map snd ex_active_versions) ex_verified_state"
proof -
  have "list_all (\<lambda>sv. is_ok (segments [''org'', pv_id (snd sv)])) ex_active_versions" "distinct (map (\<lambda>sv. pv_id (snd sv)) ex_active_versions)"
    by code_simp+
  moreover have "map_of (map (\<lambda>(st, v). (pv_id v, v)) ex_active_versions) (pv_id v) = Some v"
    if "(st, v) \<in> set ex_active_versions" "distinct (map (\<lambda>sv. pv_id (snd sv)) ex_active_versions)" for st v
    by (rule map_of_is_SomeI) (use that in \<open>auto simp: comp_def split_def image_iff intro!: bexI [of _ "(st, v)"]\<close>)
  moreover have "validate_probe_version v = Inr v" if "(st, v) \<in> set ex_active_versions" for st v
    using ex_active_versions_valid that
    by (auto simp: list_all_iff is_ok_iff validate_probe_version_def bindr_eq_Inr split: if_splits)
  ultimately show ?thesis
    by (auto simp: versions_stored_def get_probe_version_def fetch_def checked_def catalog_get_def ex_verified_state_def
        ex_verified_run_def ex_stage_run_def ex_run_def list_all_iff is_ok_iff)
qed

lemma compiled_controls_verifiable_witness:
  "\<exists>ds. run_probes ex_services ex_verified_run False False VERIFY ex_verified_state = (Inr ds, ex_verified_state)"
proof -
  have "stage_definition ex_services ex_verified_run ex_verified_state
      = (Inr (foldl update_controls (ex_compiled True) [ex_preferences False]), ex_verified_state)"
    by (simp add: stage_definition_def stage_control_def bindx_def yields_def ex_verified_state_def control_key_def)
  from compiled_controls_verifiable [OF _ _ ex_prepared_ready ex_versions_stored this, where st = VERIFY and hex = ex_tokens and credential = ex_tool_credential and bindings = "[ex_consumer]"]
  show ?thesis using ex_compiles [of True] by (simp add: ex_services_def)
qed

section \<open>Observation\<close>

text \<open>
  Preferences may ask for an observation of up to seven days, but the telemetry of a service is read over a window
  of one day at most: with such preferences nothing is compiled for a credential whose services have telemetry.
\<close>

lemma mapr_member: "mapr f xs = Inr ys \<Longrightarrow> x \<in> set xs \<Longrightarrow> \<exists>y. f x = Inr y"
  by (induction xs arbitrary: ys) (auto simp: bindr_eq_Inr)

lemma telemetry_window:
  assumes "telemetry_probes credential connections p i = Inr ys"
  shows "pref_maximum_observation_seconds p \<le> 86400"
proof -
  from assms obtain c where c: "lookup_by con_id connections i = Inr c" by (auto simp: telemetry_probes_def bindr_eq_Inr)
  show ?thesis
    using assms
    by (cases "con_allowed_resources c")
      (auto simp: telemetry_probes_def c bindr_eq_Inr require_eq_Inr Let_def telemetry_thresholds_fields_ok_def thresholds_def)
qed

lemma long_observation_uncompilable:
  assumes "86400 < pref_maximum_observation_seconds p" "telemetry_enabled services bindings"
  shows "compile_controls sha fmt hex credential bindings services connections p actor now \<noteq> Inr (d, versions)"
proof
  assume "compile_controls sha fmt hex credential bindings services connections p actor now = Inr (d, versions)"
  then obtain bm drafts where "all_probes credential bindings services connections p = Inr (bm, drafts)"
    by (elim compiled_inverts)
  then obtain bound where bound: "mapr (binding_probes credential connections services p) bindings = Inr bound"
    by (auto simp: all_probes_def bindr_eq_Inr Let_def)
  from assms(2) obtain b service i where b: "b \<in> set bindings" "dict_by csv_id services (cb_service_id b) = Some service"
    "i \<in> set (csv_telemetry_connection_ids service)"
    by (fastforce simp: telemetry_enabled_def list_ex_iff neq_Nil_conv split: option.splits)
  from mapr_member [OF bound b(1)] b(2) obtain telemetry where
    "mapr (telemetry_probes credential connections p) (csv_telemetry_connection_ids service) = Inr telemetry"
    by (auto simp: binding_probes_def bindr_eq_Inr lookup_by_def)
  from mapr_member [OF this b(3)] telemetry_window assms(1) show False by fastforce
qed

end
