(* ===== verification/Domains.thy ===== *)
theory Domains imports Approvals Tools Base64_Json begin
text \<open>
  The domains a browser may visit: server/browser/auth.py, with the reader of the secret store as the function
  \<open>access\<close>, and the two tests of server/core/inventory/service.py on domains and resources. \<open>urlparse\<close> agrees with
  \<open>urlsplit\<close> on scheme and host.
\<close>

section \<open>Patterns\<close>

definition is_domain_pattern :: "string \<Rightarrow> bool" where
  "is_domain_pattern value \<longleftrightarrow>
     value \<noteq> [] \<and> CHR ''.'' \<in> set value \<and> list_all (\<lambda>c. token_char c \<or> c \<in> {CHR ''.'', CHR ''-'', CHR ''*''}) value"

text \<open>\<open>value.lstrip(".")\<close>, and \<open>value.lower().rstrip(".")\<close> below.\<close>

definition lstrip_dots :: "string \<Rightarrow> string" where
  "lstrip_dots s = dropWhile (\<lambda>c. c = CHR ''.'') s"

definition normal_domain :: "string \<Rightarrow> string" where
  "normal_domain s = rstrip_char (CHR ''.'') (lower_text s)"

definition matches_pattern :: "string \<Rightarrow> string \<Rightarrow> bool" where
  "matches_pattern hostname pattern =
     (let expected = normal_domain pattern in
      if starts_with ''*.'' expected
      then ends_with (CHR ''.'' # drop 2 expected) hostname \<and> hostname \<noteq> drop 2 expected
      else hostname = expected)"

text \<open>\<open>_allowed_domain\<close>.\<close>

definition allowed_domain :: "string \<Rightarrow> string list \<Rightarrow> bool" where
  "allowed_domain hostname allowed \<longleftrightarrow> list_ex (matches_pattern hostname) allowed"

definition covers_suffix :: "string \<Rightarrow> string \<Rightarrow> bool" where
  "covers_suffix suffix pattern =
     (let parent = (if starts_with ''*.'' pattern then drop 2 pattern else pattern) in
      suffix = parent \<or> ends_with (CHR ''.'' # parent) suffix)"

definition domain_covered :: "string \<Rightarrow> string list \<Rightarrow> bool" where
  "domain_covered need allowed =
     (let needed = normal_domain need;
          allowed_norm = map normal_domain allowed;
          host = (if starts_with ''*.'' needed then drop 2 needed else needed) in
      if needed \<in> set allowed_norm then True
      else if allowed_domain host allowed then True
      else if \<not> starts_with ''*.'' needed then False
      else list_ex (covers_suffix (drop 2 needed)) allowed_norm)"

text \<open>\<open>_domain_covered\<close> and \<open>_resource_covered\<close> of the inventory.\<close>

definition inventory_domain_covered :: "string \<Rightarrow> string list \<Rightarrow> bool" where
  "inventory_domain_covered domain boundaries \<longleftrightarrow>
     list_ex (\<lambda>b. domain = b \<or> (starts_with ''*.'' b \<and> ends_with (drop 1 b) domain)) boundaries"

definition resource_covered :: "string \<Rightarrow> string list \<Rightarrow> bool" where
  "resource_covered resource boundaries \<longleftrightarrow>
     list_ex (\<lambda>b. resource = b \<or> starts_with (rstrip_char (CHR ''/'') b @ ''/'') resource) boundaries"

section \<open>The state of a browser session\<close>

definition text_item :: "(string \<times> json) list \<Rightarrow> string \<Rightarrow> string option" where
  "text_item kvs key = (case map_of kvs key of Some (JStr s) \<Rightarrow> if s = [] then None else Some s | _ \<Rightarrow> None)"

definition allowed_cookie :: "string list \<Rightarrow> (string \<times> json) list \<Rightarrow> bool" where
  "allowed_cookie allowed cookie =
     (case (text_item cookie ''domain'', text_item cookie ''name'', text_item cookie ''value'') of
        (Some domain, Some _, Some _) \<Rightarrow> allowed_domain (lower_text (lstrip_dots domain)) allowed
      | _ \<Rightarrow> False)"

definition allowed_origin :: "(string \<Rightarrow> bool) \<Rightarrow> string list \<Rightarrow> (string \<times> json) list \<Rightarrow> bool result" where
  "allowed_origin ip allowed origin =
     (case (map_of origin ''origin'', case map_of origin ''localStorage'' of None \<Rightarrow> JList [] | Some v \<Rightarrow> v) of
        (Some (JStr value), JList _) \<Rightarrow>
          bindr (urlsplit ip value) (\<lambda>parsed.
          Inr (url_scheme parsed = ''https''
            \<and> (case url_hostname parsed of None \<Rightarrow> False | Some h \<Rightarrow> h \<noteq> [] \<and> allowed_domain (lower_text h) allowed)))
      | _ \<Rightarrow> Inr False)"

definition list_items :: "(string \<times> json) list \<Rightarrow> string \<Rightarrow> json list option" where
  "list_items kvs key = (case map_of kvs key of None \<Rightarrow> Some [] | Some (JList vs) \<Rightarrow> Some vs | _ \<Rightarrow> None)"

text \<open>The two collections of a state.\<close>

definition state_collections :: "json \<Rightarrow> ((string \<times> json) list \<times> json list \<times> json list) result" where
  "state_collections state =
     (case state of
        JDict kvs \<Rightarrow>
          (case (list_items kvs ''cookies'', list_items kvs ''origins'') of
             (Some cookies, Some origins) \<Rightarrow> Inr (kvs, cookies, origins)
           | _ \<Rightarrow> Inl (ResourceConflictError ''browser authentication state has invalid collections''))
      | _ \<Rightarrow> Inl (ResourceConflictError ''browser authentication state must be an object''))"

definition cookie_ok :: "string list \<Rightarrow> json \<Rightarrow> bool" where
  "cookie_ok allowed v = (case v of JDict kvs \<Rightarrow> allowed_cookie allowed kvs | _ \<Rightarrow> False)"

definition origin_ok :: "(string \<Rightarrow> bool) \<Rightarrow> string list \<Rightarrow> json \<Rightarrow> bool result" where
  "origin_ok ip allowed v = (case v of JDict kvs \<Rightarrow> allowed_origin ip allowed kvs | _ \<Rightarrow> Inr False)"

definition validate_storage_state :: "(string \<Rightarrow> bool) \<Rightarrow> json \<Rightarrow> string list \<Rightarrow> json result" where
  "validate_storage_state ip state allowed =
     bindr (state_collections state) (\<lambda>(kvs, cookies, origins).
     bindr (require (list_all (cookie_ok allowed) cookies)
       (ResourceConflictError ''browser authentication cookie is outside the allowlist'')) (\<lambda>_.
     bindr (mapr (\<lambda>v. bindr (origin_ok ip allowed v) (\<lambda>ok.
         require ok (ResourceConflictError ''browser authentication origin is outside the allowlist''))) origins) (\<lambda>_.
     Inr state)))"

text \<open>A filter whose test may raise.\<close>

fun filter_result :: "('a \<Rightarrow> bool result) \<Rightarrow> 'a list \<Rightarrow> 'a list result" where
  "filter_result f [] = Inr []"
| "filter_result f (x # xs) = bindr (f x) (\<lambda>keep. bindr (filter_result f xs) (\<lambda>ys. Inr (if keep then x # ys else ys)))"

definition filter_storage_state :: "(string \<Rightarrow> bool) \<Rightarrow> json \<Rightarrow> string list \<Rightarrow> json result" where
  "filter_storage_state ip state allowed =
     bindr (state_collections state) (\<lambda>(kvs, cookies, origins).
     bindr (filter_result (origin_ok ip allowed) origins) (\<lambda>kept.
     Inr (JDict (AList.update ''origins'' (JList kept)
       (AList.update ''cookies'' (JList (filter (cookie_ok allowed) cookies)) kvs)))))"

text \<open>\<open>BrowserAuthBroker.storage_state\<close>: the session of a connection that is ready, at the time \<open>now\<close>.\<close>

definition storage_state ::
  "(string \<Rightarrow> bool) \<Rightarrow> (string \<Rightarrow> string result) \<Rightarrow> connection \<Rightarrow> string list \<Rightarrow> int \<Rightarrow> json result" where
  "storage_state ip access c allowed now =
     bindr (require (con_interface c = If_Browser \<and> con_authorization c = Auth_Browser_Session)
       (ResourceConflictError ''browser authentication requires a browser connection'')) (\<lambda>_.
     case con_authorization_reference c of
       None \<Rightarrow> Inl (ResourceConflictError ''provider browser authentication requires a ready connection'')
     | Some reference \<Rightarrow>
         bindr (require (con_status c = Con_Ready
             \<and> \<not> (case con_authorization_expires_at c of None \<Rightarrow> False | Some t \<Rightarrow> t \<le> now))
           (ResourceConflictError ''provider browser authentication requires a ready connection'')) (\<lambda>_.
         bindr (access reference) (\<lambda>text.
         case json_loads text of
           None \<Rightarrow> Inl (ResourceConflictError ''browser authentication state is invalid'')
         | Some state \<Rightarrow> validate_storage_state ip state allowed)))"

section \<open>Properties\<close>

text \<open>What a pattern reaches: itself, or everything below a wildcard.\<close>

lemma matches_exact: "\<not> starts_with ''*.'' (normal_domain p) \<Longrightarrow> matches_pattern h p \<longleftrightarrow> h = normal_domain p"
  by (simp add: matches_pattern_def)

lemma filter_result_kept: "filter_result f xs = Inr ys \<Longrightarrow> y \<in> set ys \<Longrightarrow> f y = Inr True"
  by (induction xs arbitrary: ys) (auto simp: bindr_eq_Inr split: if_splits)

lemma mapr_unit: "(\<And>x. x \<in> set xs \<Longrightarrow> f x = Inr ()) \<Longrightarrow> \<exists>us. mapr f xs = Inr us"
  by (induction xs) auto

text \<open>
  A session that was filtered when it was stored passes the check when it is loaded: for the same domains, the
  cookies and origins that are left are the allowed ones.
\<close>

lemma stored_session_accepted:
  assumes "filter_storage_state ip state allowed = Inr stored"
  shows "validate_storage_state ip stored allowed = Inr stored"
proof -
  from assms obtain kvs cookies origins kept where
    "state_collections state = Inr (kvs, cookies, origins)" and k: "filter_result (origin_ok ip allowed) origins = Inr kept" and
    s: "stored = JDict (AList.update ''origins'' (JList kept)
       (AList.update ''cookies'' (JList (filter (cookie_ok allowed) cookies)) kvs))"
    by (auto simp: filter_storage_state_def bindr_eq_Inr)
  have c: "state_collections stored = Inr (case stored of JDict kvs \<Rightarrow> kvs, filter (cookie_ok allowed) cookies, kept)"
    by (simp add: s state_collections_def list_items_def update_conv')
  have "\<exists>us. mapr (\<lambda>v. bindr (origin_ok ip allowed v) (\<lambda>ok.
         require ok (ResourceConflictError ''browser authentication origin is outside the allowlist''))) kept = Inr us"
    by (rule mapr_unit) (simp add: filter_result_kept [OF k])
  then show ?thesis unfolding validate_storage_state_def c by (auto simp: list_all_iff)
qed

lemma storage_state_ready:
  assumes "storage_state ip access c allowed now = Inr state"
  shows "con_interface c = If_Browser \<and> con_status c = Con_Ready \<and> (\<forall>t. con_authorization_expires_at c = Some t \<longrightarrow> now < t)
    \<and> validate_storage_state ip state allowed = Inr state"
  using assms
  by (auto simp: storage_state_def bindr_eq_Inr require_eq_Inr validate_storage_state_def split: option.splits)

text \<open>
  The playbook service counts a wildcard as covered by its bare domain, although the bare domain allows no host
  below it; the inventory does not.
\<close>

lemma wildcard_widens_domain:
  "domain_covered ''*.a.io'' [''a.io'']" "\<not> allowed_domain ''b.a.io'' [''a.io'']" "allowed_domain ''b.a.io'' [''*.a.io'']"
  "\<not> inventory_domain_covered ''*.a.io'' [''a.io'']"
  by code_simp+

end
