(* ===== verification/Playbook_Store.thy ===== *)
theory Playbook_Store imports Domains Playbooks Effects Tool_Attempts begin

text \<open>
  Playbooks and their versions: \<open>Playbook\<close> of packages/contracts/src/contracts/playbook.py, the repository of
  server/core/storage/playbook.py with the two operations of server/core/storage/inventory.py on the playbook of a
  connection, and the service of server/core/playbook/service.py. A transaction is a function on the store; a
  service call that runs several of them is an effect, which keeps what was written before an exception.
\<close>

section \<open>Documents\<close>

record playbook =
  pb_id :: string
  pb_organisation_id :: string
  pb_name :: string
  pb_platform :: string
  pb_latest_version :: int
  pb_latest_version_id :: "string option"
  pb_active_version_id :: "string option"
  pb_created_at :: int
  pb_updated_at :: int
  pb_archived_at :: "int option"
  pb_revision :: int

definition playbook_fields_ok :: "playbook \<Rightarrow> bool" where
  "playbook_fields_ok p \<longleftrightarrow>
     identifier_ok (pb_id p) \<and> identifier_ok (pb_organisation_id p) \<and> text_between 1 160 (pb_name p)
     \<and> text_between 1 64 (pb_platform p) \<and> 0 \<le> pb_latest_version p \<and> opt_ok identifier_ok (pb_latest_version_id p)
     \<and> opt_ok identifier_ok (pb_active_version_id p) \<and> 0 \<le> pb_revision p"

definition make_playbook :: "playbook \<Rightarrow> playbook result" where
  "make_playbook p = (if playbook_fields_ok p then Inr p else Inl (FieldError ''Playbook''))"

record playbook_store =
  pks_roots :: "string \<times> string \<rightharpoonup> playbook"
  pks_versions :: "string \<times> string \<times> string \<rightharpoonup> playbook_version"
  pks_connections :: "string \<times> string \<rightharpoonup> connection"

definition put_root :: "string \<Rightarrow> string \<Rightarrow> playbook \<Rightarrow> playbook_store \<Rightarrow> playbook_store" where
  "put_root org i p s = s\<lparr>pks_roots := (pks_roots s)((org, i) \<mapsto> p)\<rparr>"

definition put_version :: "string \<Rightarrow> string \<Rightarrow> string \<Rightarrow> playbook_version \<Rightarrow> playbook_store \<Rightarrow> playbook_store" where
  "put_version org i v doc s = s\<lparr>pks_versions := (pks_versions s)((org, i, v) \<mapsto> doc)\<rparr>"

definition put_attached :: "string \<Rightarrow> string \<Rightarrow> connection \<Rightarrow> playbook_store \<Rightarrow> playbook_store" where
  "put_attached org i c s = s\<lparr>pks_connections := (pks_connections s)((org, i) \<mapsto> c)\<rparr>"

fun playbook_state_value :: "playbook_state \<Rightarrow> string" where
  "playbook_state_value Play_Draft = ''draft''"
| "playbook_state_value Play_Published = ''published''"
| "playbook_state_value Play_Superseded = ''superseded''"
| "playbook_state_value Play_Review = ''review-required''"

section \<open>The repository\<close>

definition playbook_get :: "string \<Rightarrow> string \<Rightarrow> playbook_store \<Rightarrow> playbook result" where
  "playbook_get org i s = catalog_get (pks_roots s) make_playbook ''playbooks'' org i"

definition playbook_replace :: "playbook \<Rightarrow> int \<Rightarrow> playbook_store \<Rightarrow> (playbook \<times> playbook_store) result" where
  "playbook_replace value expected_revision s =
     (let org = pb_organisation_id value; i = pb_id value in
      bindr (catalog_get (pks_roots s) make_playbook ''playbooks'' org i) (\<lambda>current.
      bindr (require (pb_revision current = expected_revision)
        (ResourceConflictError (''resource organisations/'' @ org @ ''/playbooks/'' @ i @ '' expected revision ''
           @ int_text expected_revision @ '', found '' @ int_text (pb_revision current)))) (\<lambda>_.
      bindr (require (pb_id current = i \<and> pb_organisation_id current = org \<and> pb_created_at current = pb_created_at value)
        (PlaybookError ''playbook replacement changed immutable identity'')) (\<lambda>_.
      bindr (require (pb_revision value = expected_revision + 1)
        (StorageIntegrityError ''catalog updates must advance revision exactly once'')) (\<lambda>_.
      Inr (value, put_root org i value s))))))"

text \<open>\<open>keys\<close> are the names of the playbooks in the order of the query.\<close>

definition playbook_list :: "string list \<Rightarrow> string \<Rightarrow> nat \<Rightarrow> playbook_store \<Rightarrow> playbook list result" where
  "playbook_list keys org limit s =
     bindr (segments [org]) (\<lambda>_. mapr make_playbook (take limit (List.map_filter (\<lambda>i. pks_roots s (org, i)) keys)))"

text \<open>The root of a playbook with the new version, which creates a playbook that is not there.\<close>

definition versioned_root ::
  "string \<Rightarrow> string \<Rightarrow> string \<Rightarrow> playbook_draft \<Rightarrow> int \<Rightarrow> playbook option \<Rightarrow> playbook result" where
  "versioned_root org playbook_id version_id definition created_at doc =
     (case doc of
        None \<Rightarrow>
          make_playbook
            \<lparr>pb_id = playbook_id, pb_organisation_id = org, pb_name = pl_name definition, pb_platform = pl_platform definition,
             pb_latest_version = 1, pb_latest_version_id = Some version_id, pb_active_version_id = None,
             pb_created_at = created_at, pb_updated_at = created_at, pb_archived_at = None, pb_revision = 0\<rparr>
      | Some d \<Rightarrow>
          bindr (make_playbook d) (\<lambda>root.
          bindr (require (pb_archived_at root = None) (PlaybookError ''archived playbooks cannot receive new versions'')) (\<lambda>_.
          bindr (require (pb_platform root = pl_platform definition \<and> pb_name root = pl_name definition)
            (PlaybookError ''playbook identity cannot change across versions'')) (\<lambda>_.
          Inr (root\<lparr>pb_latest_version := pb_latest_version root + 1, pb_latest_version_id := Some version_id,
            pb_updated_at := created_at, pb_revision := pb_revision root + 1\<rparr>)))))"

definition draft_version ::
  "string \<Rightarrow> string \<Rightarrow> string \<Rightarrow> int \<Rightarrow> playbook_draft \<Rightarrow> string \<Rightarrow> string \<Rightarrow> int \<Rightarrow> string list \<Rightarrow> playbook_version" where
  "draft_version org playbook_id version_id number definition d actor_id created_at source_ids =
     \<lparr>plv_id = version_id, plv_organisation_id = org, plv_playbook_id = playbook_id, plv_number = number,
      plv_definition = definition, plv_digest = d, plv_state = Play_Draft, plv_source_ids = source_ids,
      plv_published_by = None, plv_published_at = None, plv_created_by = actor_id, plv_created_at = created_at\<rparr>"

definition playbook_add_version ::
  "string \<Rightarrow> string \<Rightarrow> string \<Rightarrow> playbook_draft \<Rightarrow> string \<Rightarrow> string \<Rightarrow> int \<Rightarrow> string list \<Rightarrow> playbook_store
     \<Rightarrow> ((playbook \<times> playbook_version) \<times> playbook_store) result" where
  "playbook_add_version playbook_id version_id org definition definition_digest actor_id created_at source_ids s =
     bindr (segments [org, playbook_id, version_id]) (\<lambda>_.
     bindr (require (pks_versions s (org, playbook_id, version_id) = None)
       (ResourceConflictError (''playbook version '' @ version_id @ '' already exists''))) (\<lambda>_.
     bindr (versioned_root org playbook_id version_id definition created_at (pks_roots s (org, playbook_id))) (\<lambda>changed.
     bindr (validate_playbook_version (draft_version org playbook_id version_id (pb_latest_version changed) definition
       definition_digest actor_id created_at source_ids)) (\<lambda>version.
     Inr ((changed, version), put_version org playbook_id version_id version (put_root org playbook_id changed s))))))"

definition playbook_get_version ::
  "string \<Rightarrow> string \<Rightarrow> string \<Rightarrow> playbook_store \<Rightarrow> playbook_version result" where
  "playbook_get_version org playbook_id version_id s =
     bindr (segments [org, playbook_id, version_id]) (\<lambda>_.
     case pks_versions s (org, playbook_id, version_id) of
       None \<Rightarrow> Inl (ResourceNotFoundError (''playbook version '' @ version_id @ '' was not found''))
     | Some doc \<Rightarrow> validate_playbook_version doc)"

text \<open>The version that was active is superseded; its document is updated in one field.\<close>

definition supersede ::
  "string \<Rightarrow> string \<Rightarrow> string option \<Rightarrow> string \<Rightarrow> playbook_store \<Rightarrow> playbook_store result" where
  "supersede org playbook_id active version_id s =
     (case active of
        None \<Rightarrow> Inr s
      | Some i \<Rightarrow>
          if i = version_id then Inr s
          else (case pks_versions s (org, playbook_id, i) of
                  None \<Rightarrow> Inl (PlaybookError ''published playbook version is missing'')
                | Some previous \<Rightarrow>
                    bindr (require (plv_id previous = i \<and> plv_organisation_id previous = org \<and> plv_playbook_id previous = playbook_id)
                      (PlaybookError ''published playbook version identity is invalid'')) (\<lambda>_.
                    Inr (put_version org playbook_id i (previous\<lparr>plv_state := Play_Superseded\<rparr>) s))))"

definition playbook_publish ::
  "string \<Rightarrow> string \<Rightarrow> string \<Rightarrow> string \<Rightarrow> int \<Rightarrow> playbook_store \<Rightarrow> (playbook_version \<times> playbook_store) result" where
  "playbook_publish org playbook_id version_id actor_id published_at s =
     bindr (segments [org, playbook_id, version_id]) (\<lambda>_.
     case (pks_roots s (org, playbook_id), pks_versions s (org, playbook_id, version_id)) of
       (Some root_doc, Some version_doc) \<Rightarrow>
         bindr (make_playbook root_doc) (\<lambda>root.
         bindr (validate_playbook_version version_doc) (\<lambda>version.
         bindr (require (pb_archived_at root = None) (PlaybookError ''archived playbooks cannot publish versions'')) (\<lambda>_.
         if plv_state version = Play_Published then Inr (version, s)
         else
           bindr (require (plv_state version = Play_Draft) (PlaybookError (''playbook version cannot publish from '' @ playbook_state_value (plv_state version)))) (\<lambda>_.
           let published = version\<lparr>plv_state := Play_Published, plv_published_by := Some actor_id,
                 plv_published_at := Some published_at\<rparr> in
           bindr (supersede org playbook_id (pb_active_version_id root) (plv_id version) s) (\<lambda>s'.
           Inr (published,
             put_root org playbook_id (root\<lparr>pb_active_version_id := Some (plv_id version), pb_updated_at := published_at,
               pb_revision := pb_revision root + 1\<rparr>) (put_version org playbook_id version_id published s')))))))
     | _ \<Rightarrow> Inl (ResourceNotFoundError ''playbook publication inputs are incomplete''))"

section \<open>The playbook of a connection (core/storage/inventory.py)\<close>

definition attach_playbook ::
  "(string \<Rightarrow> bool) \<Rightarrow> string \<Rightarrow> string \<Rightarrow> int \<Rightarrow> string \<Rightarrow> string \<Rightarrow> int \<Rightarrow> playbook_store
     \<Rightarrow> (connection \<times> playbook_store) result" where
  "attach_playbook ip org connection_id expected_revision playbook_id version_id updated_at s =
     bindr (segments [org, connection_id]) (\<lambda>_.
     case pks_connections s (org, connection_id) of
       None \<Rightarrow> Inl (ResourceNotFoundError (''connection '' @ connection_id @ '' was not found''))
     | Some doc \<Rightarrow>
         bindr (validate_connection ip doc) (\<lambda>current.
         bindr (require (con_revision current = expected_revision)
           (ResourceConflictError (''connection expected revision '' @ int_text expected_revision @ '', found ''
              @ int_text (con_revision current)))) (\<lambda>_.
         let changed = current\<lparr>con_playbook_id := Some playbook_id, con_playbook_version_id := Some version_id,
               con_status := (if con_authorization_reference current \<noteq> None then Con_Ready else Con_Setup),
               con_updated_at := updated_at, con_revision := con_revision current + 1\<rparr> in
         Inr (changed, put_attached org connection_id changed s))))"

definition detach_playbook ::
  "(string \<Rightarrow> bool) \<Rightarrow> string \<Rightarrow> string \<Rightarrow> int \<Rightarrow> int \<Rightarrow> playbook_store \<Rightarrow> (connection \<times> playbook_store) result" where
  "detach_playbook ip org connection_id expected_revision updated_at s =
     bindr (segments [org, connection_id]) (\<lambda>_.
     case pks_connections s (org, connection_id) of
       None \<Rightarrow> Inl (ResourceNotFoundError (''connection '' @ connection_id @ '' was not found''))
     | Some doc \<Rightarrow>
         bindr (validate_connection ip doc) (\<lambda>current.
         bindr (require (con_revision current = expected_revision \<and> con_playbook_id current \<noteq> None)
           (ResourceConflictError ''connection playbook changed before archive'')) (\<lambda>_.
         let changed = current\<lparr>con_playbook_id := None, con_playbook_version_id := None, con_status := Con_Setup,
               con_updated_at := updated_at, con_revision := expected_revision + 1\<rparr> in
         Inr (changed, put_attached org connection_id changed s))))"

text \<open>\<open>keys\<close> are the names of the connections in the order of the query.\<close>

definition list_connections ::
  "(string \<Rightarrow> bool) \<Rightarrow> string list \<Rightarrow> string \<Rightarrow> playbook_store \<Rightarrow> connection list result" where
  "list_connections ip keys org s =
     mapr (validate_connection ip) (take 1000 (List.map_filter (\<lambda>i. pks_connections s (org, i)) keys))"

section \<open>The definition of a playbook (core/playbook/service.py)\<close>

definition url_patterns :: "playbook_draft \<Rightarrow> string option list" where
  "url_patterns d =
     pl_login_url_pattern d
     # List.map_filter (\<lambda>s. map_option (\<lambda>c. Some (pc_url_pattern c)) (ps_checkpoint s)) (pl_steps d)
     @ List.map_filter (\<lambda>s. if op_tool s = ''browser.navigate''
          then (case map_of (op_parameters s) ''url'' of Some (PyStr u) \<Rightarrow> Some (Some u) | _ \<Rightarrow> None) else None) (pl_steps d)"

text \<open>\<open>urlparse(None)\<close> has no scheme.\<close>

definition pattern_inside :: "(string \<Rightarrow> bool) \<Rightarrow> string list \<Rightarrow> string option \<Rightarrow> unit result" where
  "pattern_inside ip domains pattern =
     (case pattern of
        None \<Rightarrow> Inl (PlaybookError ''browser checkpoint escapes the playbook domains'')
      | Some p \<Rightarrow>
          bindr (urlsplit ip p) (\<lambda>parsed.
          require (url_scheme parsed = ''https''
              \<and> (case url_hostname parsed of None \<Rightarrow> False | Some h \<Rightarrow> domain_covered h domains))
            (PlaybookError ''browser checkpoint escapes the playbook domains'')))"

definition validate_definition :: "(string \<Rightarrow> bool) \<Rightarrow> playbook_draft \<Rightarrow> unit result" where
  "validate_definition ip d =
     bindr (require (list_all (\<lambda>s. op_stage s \<in> {CREATE, REVOKE}) (pl_steps d))
       (PlaybookError (''browser playbook contains non-browser lifecycle stages: '' @ join '', ''
         (sort (remdups (map stage_value (filter (\<lambda>st. st \<notin> {CREATE, REVOKE}) (map op_stage (pl_steps d))))))))) (\<lambda>_.
     bindr (require (list_all (\<lambda>s. starts_with ''browser.'' (op_tool s)) (pl_steps d))
       (PlaybookError ''playbooks can contain browser tools only'')) (\<lambda>_.
     bindr (require (distinct (pl_allowed_domains d) \<and> list_all is_domain_pattern (pl_allowed_domains d))
       (PlaybookError ''browser playbook domains must be unique valid domain patterns'')) (\<lambda>_.
     bindr (mapr (pattern_inside ip (pl_allowed_domains d)) (url_patterns d)) (\<lambda>_.
     bindr (require (length (filter (\<lambda>s. ps_effect s = Eff_Create) (pl_steps d)) = 1)
       (PlaybookError ''browser playbook requires one secure credential creation'')) (\<lambda>_.
     bindr (require (\<not> list_ex (\<lambda>s. op_stage s = CREATE) (tl (from_creation d)))
       (PlaybookError ''secure credential creation must finish the create stage'')) (\<lambda>_.
     require (length (filter (\<lambda>s. ps_effect s = Eff_Revoke) (pl_steps d)) = 1)
       (PlaybookError ''browser playbook requires one credential revocation'')))))))"

section \<open>The service\<close>

record playbook_service =
  pbv_sha :: "string \<Rightarrow> string"
  pbv_fmt :: "int \<Rightarrow> string"
  pbv_ip :: "string \<Rightarrow> bool"
  pbv_keys :: "string list"
  pbv_inventory :: bool

type_synonym 'a playbook_op = "(playbook_store, error, 'a) effect"

definition playbook_tx :: "(playbook_store \<Rightarrow> ('a \<times> playbook_store) result) \<Rightarrow> 'a playbook_op" where
  "playbook_tx f s = (case f s of Inl e \<Rightarrow> (Inl e, s) | Inr (x, s') \<Rightarrow> (Inr x, s'))"

definition playbook_read :: "(playbook_store \<Rightarrow> 'a result) \<Rightarrow> 'a playbook_op" where
  "playbook_read f s = (f s, s)"

definition list_playbooks :: "playbook_service \<Rightarrow> string \<Rightarrow> nat \<Rightarrow> playbook list playbook_op" where
  "list_playbooks sv org limit =
     bindx (playbook_read (playbook_list (pbv_keys sv) org 500)) (\<lambda>playbooks.
     yields (take limit (rev (sort_key (\<lambda>p. (pb_created_at p, pb_id p))
       (rev (filter (\<lambda>p. pb_archived_at p = None) playbooks))))))"

definition editable_playbook :: "playbook \<Rightarrow> int \<Rightarrow> unit result" where
  "editable_playbook p expected_revision =
     bindr (require (pb_archived_at p = None) (PlaybookError ''archived playbooks cannot be changed'')) (\<lambda>_.
     require (pb_revision p = expected_revision)
       (PlaybookError (''playbook expected revision '' @ int_text expected_revision @ '', found '' @ int_text (pb_revision p))))"

definition rename_playbook :: "string \<Rightarrow> string \<Rightarrow> int \<Rightarrow> string \<Rightarrow> int \<Rightarrow> playbook playbook_op" where
  "rename_playbook org i expected_revision name now =
     bindx (playbook_read (playbook_get org i)) (\<lambda>current.
     bindx (given (editable_playbook current expected_revision)) (\<lambda>_.
     playbook_tx (playbook_replace
       (current\<lparr>pb_name := name, pb_updated_at := now, pb_revision := expected_revision + 1\<rparr>) expected_revision)))"

definition archive_playbook ::
  "playbook_service \<Rightarrow> string \<Rightarrow> string \<Rightarrow> int \<Rightarrow> bool \<Rightarrow> int \<Rightarrow> playbook playbook_op" where
  "archive_playbook sv org i expected_revision cascade now =
     bindx (playbook_read (playbook_get org i)) (\<lambda>current.
     bindx (given (editable_playbook current expected_revision)) (\<lambda>_.
     bindx (if pbv_inventory sv then playbook_read (list_connections (pbv_ip sv) (pbv_keys sv) org) else yields []) (\<lambda>connections.
     let attached = filter (\<lambda>c. con_archived_at c = None \<and> con_playbook_id c = Some i) connections in
     bindx (requires (attached = [] \<or> cascade) (PlaybookError ''playbook is still attached to an active connection'')) (\<lambda>_.
     bindx (mapx (\<lambda>c. playbook_tx (detach_playbook (pbv_ip sv) org (con_id c) (con_revision c) now)) attached) (\<lambda>_.
     playbook_tx (playbook_replace
       (current\<lparr>pb_archived_at := Some now, pb_updated_at := now, pb_revision := expected_revision + 1\<rparr>)
       expected_revision))))))"

definition create_playbook_version ::
  "playbook_service \<Rightarrow> string \<Rightarrow> string \<Rightarrow> string \<Rightarrow> playbook_draft \<Rightarrow> string \<Rightarrow> string list \<Rightarrow> int
     \<Rightarrow> (playbook \<times> playbook_version) playbook_op" where
  "create_playbook_version sv org playbook_id version_id definition actor_id source_ids now =
     bindx (given (validate_definition (pbv_ip sv) definition)) (\<lambda>_.
     bindx (given (digest (pbv_sha sv) (pbv_fmt sv) (dump_playbook_draft definition))) (\<lambda>d.
     playbook_tx (playbook_add_version playbook_id version_id org definition d actor_id now source_ids)))"

definition publish_playbook ::
  "playbook_service \<Rightarrow> string \<Rightarrow> string \<Rightarrow> string \<Rightarrow> string \<Rightarrow> int \<Rightarrow> playbook_version playbook_op" where
  "publish_playbook sv org playbook_id version_id actor_id now =
     bindx (playbook_read (playbook_get_version org playbook_id version_id)) (\<lambda>version.
     bindx (given (validate_definition (pbv_ip sv) (plv_definition version))) (\<lambda>_.
     bindx (given (digest (pbv_sha sv) (pbv_fmt sv) (dump_playbook_draft (plv_definition version)))) (\<lambda>d.
     bindx (requires (d = plv_digest version)
       (PlaybookError ''playbook definition digest does not match its immutable version'')) (\<lambda>_.
     playbook_tx (playbook_publish org playbook_id version_id actor_id now)))))"

definition attach_connection ::
  "playbook_service \<Rightarrow> string \<Rightarrow> string \<Rightarrow> int \<Rightarrow> string \<Rightarrow> string \<Rightarrow> int \<Rightarrow> connection playbook_op" where
  "attach_connection sv org connection_id expected_revision playbook_id version_id now =
     bindx (requires (pbv_inventory sv) (RuntimeError ''playbook connection catalog is not configured'')) (\<lambda>_.
     bindx (playbook_read (playbook_get_version org playbook_id version_id)) (\<lambda>version.
     bindx (playbook_read (\<lambda>s. catalog_get (pks_connections s) (validate_connection (pbv_ip sv)) ''connections'' org connection_id))
       (\<lambda>c.
     bindx (requires (plv_state version = Play_Published)
       (PlaybookError ''browser connections require a published playbook version'')) (\<lambda>_.
     bindx (requires (con_interface c = If_Browser \<and> set (con_roles c) = {Role_Provider})
       (PlaybookError ''playbooks can only attach to browser provider connections'')) (\<lambda>_.
     bindx (requires (con_platform c = pl_platform (plv_definition version))
       (PlaybookError ''connection platform does not match the playbook'')) (\<lambda>_.
     bindx (requires (list_all (\<lambda>d. domain_covered d (con_allowed_resources c)) (pl_allowed_domains (plv_definition version)))
       (PlaybookError ''playbook domains are not covered by the browser connection'')) (\<lambda>_.
     playbook_tx (attach_playbook (pbv_ip sv) org connection_id expected_revision playbook_id version_id now))))))))"

end
