(* ===== verification/Playbook_Theorems.thy ===== *)
theory Playbook_Theorems imports Playbook_Store Broker_Examples begin
text \<open>
  What every call of the playbook service keeps: the versions of a playbook are sound, numbered apart and only the
  active one is published; a connection is attached only to a version that was published.
\<close>

section \<open>Calls\<close>

text \<open>The calls of the service that change something, at any time and with any arguments.\<close>

inductive playbook_call :: "playbook_service \<Rightarrow> playbook_store \<Rightarrow> playbook_store \<Rightarrow> bool" for sv where
  rename: "rename_playbook org i revision name now s = (r, s') \<Longrightarrow> playbook_call sv s s'"
| archive: "archive_playbook sv org i revision cascade now s = (r, s') \<Longrightarrow> playbook_call sv s s'"
| create: "create_playbook_version sv org i v d actor sources now s = (r', s') \<Longrightarrow> playbook_call sv s s'"
| publish: "publish_playbook sv org i v actor now s = (r'', s') \<Longrightarrow> identifier_ok actor \<Longrightarrow> playbook_call sv s s'"
| attach: "attach_connection sv org c revision i v now s = (r''', s') \<Longrightarrow> playbook_call sv s s'"

section \<open>The invariant\<close>

definition version_sound :: "playbook_service \<Rightarrow> string \<Rightarrow> string \<Rightarrow> string \<Rightarrow> playbook_version \<Rightarrow> bool" where
  "version_sound sv org i v doc \<longleftrightarrow>
     plv_id doc = v \<and> plv_organisation_id doc = org \<and> plv_playbook_id doc = i \<and> validate_playbook_version doc = Inr doc
     \<and> validate_definition (pbv_ip sv) (plv_definition doc) = Inr ()
     \<and> digest (pbv_sha sv) (pbv_fmt sv) (dump_playbook_draft (plv_definition doc)) = Inr (plv_digest doc)"

definition root_sound :: "playbook_store \<Rightarrow> string \<Rightarrow> string \<Rightarrow> playbook \<Rightarrow> bool" where
  "root_sound s org i p \<longleftrightarrow>
     pb_id p = i \<and> pb_organisation_id p = org
     \<and> (\<forall>v. pb_active_version_id p = Some v \<longrightarrow> pks_versions s (org, i, v) \<noteq> None)"

text \<open>A version under its playbook: published exactly when the playbook names it as the active one.\<close>

definition version_placed :: "playbook_store \<Rightarrow> string \<Rightarrow> string \<Rightarrow> string \<Rightarrow> playbook_version \<Rightarrow> bool" where
  "version_placed s org i v doc \<longleftrightarrow>
     (\<exists>p. pks_roots s (org, i) = Some p \<and> plv_number doc \<le> pb_latest_version p
        \<and> (plv_state doc = Play_Published \<longleftrightarrow> pb_active_version_id p = Some v))"

definition playbooks_sound :: "playbook_service \<Rightarrow> playbook_store \<Rightarrow> bool" where
  "playbooks_sound sv s \<longleftrightarrow>
     (\<forall>org i p. pks_roots s (org, i) = Some p \<longrightarrow> root_sound s org i p)
     \<and> (\<forall>org i v doc. pks_versions s (org, i, v) = Some doc \<longrightarrow> version_sound sv org i v doc \<and> version_placed s org i v doc)
     \<and> (\<forall>org i v w d e. pks_versions s (org, i, v) = Some d \<longrightarrow> pks_versions s (org, i, w) = Some e
          \<longrightarrow> plv_number d = plv_number e \<longrightarrow> v = w)"

text \<open>A connection and the version it is attached to.\<close>

definition attached_to :: "playbook_store \<Rightarrow> string \<Rightarrow> connection \<Rightarrow> string \<Rightarrow> string \<Rightarrow> bool" where
  "attached_to s org c i v \<longleftrightarrow>
     (\<exists>doc. pks_versions s (org, i, v) = Some doc \<and> plv_state doc \<in> {Play_Published, Play_Superseded}
        \<and> con_platform c = pl_platform (plv_definition doc) \<and> con_interface c = If_Browser
        \<and> list_all (\<lambda>d. domain_covered d (con_allowed_resources c)) (pl_allowed_domains (plv_definition doc)))"

definition connections_sound :: "playbook_store \<Rightarrow> bool" where
  "connections_sound s \<longleftrightarrow>
     (\<forall>org j c. pks_connections s (org, j) = Some c \<longrightarrow>
        con_playbook_id c = None \<and> con_playbook_version_id c = None
        \<or> (\<exists>i v. con_playbook_id c = Some i \<and> con_playbook_version_id c = Some v \<and> attached_to s org c i v))"

text \<open>What happens to a version: it stays, and its state only moves on.\<close>

definition version_moves :: "playbook_version \<Rightarrow> playbook_version \<Rightarrow> bool" where
  "version_moves d e \<longleftrightarrow>
     e = d\<lparr>plv_state := plv_state e, plv_published_by := plv_published_by e, plv_published_at := plv_published_at e\<rparr>
     \<and> (plv_state e = plv_state d \<or> (plv_state d, plv_state e) \<in> {(Play_Draft, Play_Published), (Play_Published, Play_Superseded),
          (Play_Draft, Play_Superseded)})"

definition versions_move :: "playbook_store \<Rightarrow> playbook_store \<Rightarrow> bool" where
  "versions_move s t \<longleftrightarrow> (\<forall>k d. pks_versions s k = Some d \<longrightarrow> (\<exists>e. pks_versions t k = Some e \<and> version_moves d e))"

lemma version_moves_refl [simp]: "version_moves d d"
  by (simp add: version_moves_def)

lemma version_moves_trans: "version_moves d e \<Longrightarrow> version_moves e f \<Longrightarrow> version_moves d f"
  unfolding version_moves_def
  by (cases d; cases e; cases f) auto

lemma versions_move_refl: "versions_move s s"
  by (simp add: versions_move_def)

lemma versions_move_trans: "versions_move s t \<Longrightarrow> versions_move t u \<Longrightarrow> versions_move s u"
  unfolding versions_move_def by (meson version_moves_trans)

definition playbook_good :: "playbook_service \<Rightarrow> playbook_store \<Rightarrow> bool" where
  "playbook_good sv s \<longleftrightarrow> playbooks_sound sv s \<and> connections_sound s"

definition good_step :: "playbook_service \<Rightarrow> playbook_store \<Rightarrow> playbook_store \<Rightarrow> bool" where
  "good_step sv s t \<longleftrightarrow> (playbook_good sv s \<longrightarrow> playbook_good sv t \<and> versions_move s t)"

interpretation good_step: kept "good_step sv" for sv
  by unfold_locales (auto simp: good_step_def versions_move_refl intro: versions_move_trans)

section \<open>Transactions\<close>

lemma versions_move_put:
  "(\<And>d. pks_versions s (org, i, v) = Some d \<Longrightarrow> version_moves d doc) \<Longrightarrow> versions_move s (put_version org i v doc s)"
  by (auto simp: versions_move_def put_version_def)

lemma versions_move_root: "versions_move s t \<Longrightarrow> versions_move s (put_root org i p t)"
  by (simp add: versions_move_def put_root_def)

lemma connections_sound_moves:
  assumes "connections_sound s" "versions_move s t" "pks_connections t = pks_connections s"
  shows "connections_sound t"
proof -
  have "attached_to t org c i v" if a: "attached_to s org c i v" for org c i v
  proof -
    from a obtain doc where doc: "pks_versions s (org, i, v) = Some doc" "plv_state doc \<in> {Play_Published, Play_Superseded}"
      "con_platform c = pl_platform (plv_definition doc)" "con_interface c = If_Browser"
      "list_all (\<lambda>d. domain_covered d (con_allowed_resources c)) (pl_allowed_domains (plv_definition doc))"
      by (auto simp: attached_to_def)
    with assms(2) obtain e where e: "pks_versions t (org, i, v) = Some e" "version_moves doc e"
      unfolding versions_move_def by blast
    then have "plv_definition e = plv_definition doc" "plv_state e \<in> {Play_Published, Play_Superseded}"
      using doc(2) by (cases doc; cases e; auto simp: version_moves_def)+
    with e(1) doc show ?thesis by (auto simp: attached_to_def)
  qed
  with assms(1,3) show ?thesis unfolding connections_sound_def by metis
qed

lemma good_stepI:
  assumes "playbook_good sv s \<Longrightarrow> playbooks_sound sv t" "playbook_good sv s \<Longrightarrow> versions_move s t" "pks_connections t = pks_connections s"
  shows "good_step sv s t"
  using assms connections_sound_moves by (auto simp: good_step_def playbook_good_def)

text \<open>A new version.\<close>

lemma versioned_root_Inr:
  assumes "versioned_root org i v d now doc = Inr p"
  shows "pb_latest_version p = (case doc of None \<Rightarrow> 1 | Some q \<Rightarrow> pb_latest_version q + 1)"
    "pb_active_version_id p = (case doc of None \<Rightarrow> None | Some q \<Rightarrow> pb_active_version_id q)"
    "pb_id p = (case doc of None \<Rightarrow> i | Some q \<Rightarrow> pb_id q)"
    "pb_organisation_id p = (case doc of None \<Rightarrow> org | Some q \<Rightarrow> pb_organisation_id q)"
  using assms by (auto simp: versioned_root_def make_playbook_def bindr_eq_Inr split: option.splits if_splits)

lemma add_version_good:
  assumes "playbook_add_version i v org d dg actor now sources s = Inr (x, s')"
    and "validate_definition (pbv_ip sv) d = Inr ()" "digest (pbv_sha sv) (pbv_fmt sv) (dump_playbook_draft d) = Inr dg"
  shows "good_step sv s s'"
proof -
  from assms(1) obtain p doc where absent: "pks_versions s (org, i, v) = None" and
    p: "versioned_root org i v d now (pks_roots s (org, i)) = Inr p" and
    valid: "validate_playbook_version (draft_version org i v (pb_latest_version p) d dg actor now sources) = Inr doc" and
    s': "s' = put_version org i v doc (put_root org i p s)"
    by (auto simp: playbook_add_version_def bindr_eq_Inr require_eq_Inr)
  from valid have doc: "doc = draft_version org i v (pb_latest_version p) d dg actor now sources"
    by (auto simp: validate_playbook_version_def bindr_eq_Inr split: if_splits)
  note root = versioned_root_Inr [OF p]
  show ?thesis
  proof (rule good_stepI)
    assume "playbook_good sv s"
    then have sound: "playbooks_sound sv s" by (simp add: playbook_good_def)
    have placed: "version_sound sv org' i' w e" "version_placed s org' i' w e" if "pks_versions s (org', i', w) = Some e" for org' i' w e
      using sound that by (auto simp: playbooks_sound_def)
    have older: "plv_number e < pb_latest_version p" if "pks_versions s (org, i, w) = Some e" for w e
      using placed(2) [OF that] root(1) by (auto simp: version_placed_def)
    have active: "pb_active_version_id p \<noteq> Some v"
    proof
      assume "pb_active_version_id p = Some v"
      with root(2) obtain q where "pks_roots s (org, i) = Some q" "pb_active_version_id q = Some v" by (auto split: option.splits)
      with sound have "pks_versions s (org, i, v) \<noteq> None" unfolding playbooks_sound_def root_sound_def by blast
      with absent show False by simp
    qed
    have kept: "version_placed s' org' i' w e" if "pks_versions s (org', i', w) = Some e" for org' i' w e
      using placed(2) [OF that] root(1,2) by (auto simp: version_placed_def s' put_version_def put_root_def)
    have new: "version_sound sv org i v doc" "version_placed s' org i v doc"
      using valid assms(2,3) active
      by (auto simp: version_sound_def version_placed_def doc draft_version_def s' put_version_def put_root_def)
    have "root_sound s' org' i' q" if "pks_roots s' (org', i') = Some q" for org' i' q
      using that sound root(2-4) absent
      by (auto simp: playbooks_sound_def root_sound_def s' put_version_def put_root_def split: if_splits option.splits)
    moreover have "version_sound sv org' i' w e \<and> version_placed s' org' i' w e" if "pks_versions s' (org', i', w) = Some e" for org' i' w e
      using that new kept placed(1) by (auto simp: s' put_version_def put_root_def split: if_splits)
    moreover have "u = w" if "pks_versions s' (org', i', u) = Some e" "pks_versions s' (org', i', w) = Some f" "plv_number e = plv_number f"
      for org' i' u w e f
      using that sound older
      by (auto simp: playbooks_sound_def s' put_version_def put_root_def doc draft_version_def split: if_splits dest: older)
    ultimately show "playbooks_sound sv s'" unfolding playbooks_sound_def by blast
  next
    show "versions_move s s'"
      using absent by (auto simp: versions_move_def s' put_version_def put_root_def)
  qed (simp add: s' put_version_def put_root_def)
qed

text \<open>Publication: the active version is superseded and the draft takes its place.\<close>

lemma publish_inverts:
  assumes "playbook_publish org i v actor now s = Inr (x, s')" "s' \<noteq> s"
  obtains p doc s1 where "pks_roots s (org, i) = Some p" "pks_versions s (org, i, v) = Some doc" "plv_state doc = Play_Draft"
    "pb_archived_at p = None" "validate_playbook_version doc = Inr doc" "supersede org i (pb_active_version_id p) (plv_id doc) s = Inr s1"
    "x = doc\<lparr>plv_state := Play_Published, plv_published_by := Some actor, plv_published_at := Some now\<rparr>"
    "s' = put_root org i (p\<lparr>pb_active_version_id := Some (plv_id doc), pb_updated_at := now, pb_revision := pb_revision p + 1\<rparr>)
       (put_version org i v x s1)"
  using assms
  by (auto simp: playbook_publish_def bindr_eq_Inr require_eq_Inr make_playbook_def validate_playbook_version_def Let_def
      split: option.splits if_splits)

lemma publish_good:
  assumes "playbook_publish org i v actor now s = Inr (x, s')" "identifier_ok actor"
  shows "good_step sv s s'"
proof (cases "s' = s")
  case True
  then show ?thesis by (simp add: good_step.kept_refl)
next
  case False
  from publish_inverts [OF assms(1) False] obtain p doc s1 where
    p: "pks_roots s (org, i) = Some p" and doc: "pks_versions s (org, i, v) = Some doc" "plv_state doc = Play_Draft"
      "validate_playbook_version doc = Inr doc" and
    s1: "supersede org i (pb_active_version_id p) (plv_id doc) s = Inr s1" and
    x: "x = doc\<lparr>plv_state := Play_Published, plv_published_by := Some actor, plv_published_at := Some now\<rparr>" and
    s': "s' = put_root org i (p\<lparr>pb_active_version_id := Some (plv_id doc), pb_updated_at := now, pb_revision := pb_revision p + 1\<rparr>)
       (put_version org i v x s1)" by metis
  show ?thesis
  proof (rule good_stepI)
    assume "playbook_good sv s"
    then have sound: "playbooks_sound sv s" by (simp add: playbook_good_def)
    have placed: "version_sound sv org' i' w e" "version_placed s org' i' w e" if "pks_versions s (org', i', w) = Some e" for org' i' w e
      using sound that by (auto simp: playbooks_sound_def)
    have id: "plv_id doc = v" using placed(1) [OF doc(1)] by (simp add: version_sound_def)
    have active: "pb_active_version_id p \<noteq> Some v" using placed(2) [OF doc(1)] p doc(2) by (auto simp: version_placed_def)
    have versions: "pks_versions s1 k = (if \<exists>a. k = (org, i, a) \<and> pb_active_version_id p = Some a
        then map_option (\<lambda>e. e\<lparr>plv_state := Play_Superseded\<rparr>) (pks_versions s k) else pks_versions s k)" for k
      using s1 active id
      by (cases "pb_active_version_id p") (auto simp: supersede_def put_version_def bindr_eq_Inr require_eq_Inr split: option.splits if_splits)
    have roots: "pks_roots s1 = pks_roots s"
      using s1 by (auto simp: supersede_def put_version_def bindr_eq_Inr split: option.splits if_splits)
    have after: "pks_versions s' (org', i', w) = (if (org', i', w) = (org, i, v) then Some x else pks_versions s1 (org', i', w))" for org' i' w
      by (simp add: s' put_version_def put_root_def)
    have origin: "\<exists>e. pks_versions s (org', i', w) = Some e \<and> plv_number f = plv_number e" if "pks_versions s' (org', i', w) = Some f" for org' i' w f
      using that doc(1) by (auto simp: after versions x split: if_splits)
    have "root_sound s' org' i' q" if "pks_roots s' (org', i') = Some q" for org' i' q
    proof (cases "(org', i') = (org, i)")
      case True
      with that p sound show ?thesis by (auto simp: root_sound_def s' put_version_def put_root_def id playbooks_sound_def)
    next
      case False
      with that roots have q: "pks_roots s (org', i') = Some q" by (auto simp: s' put_version_def put_root_def)
      with sound have "root_sound s org' i' q" by (auto simp: playbooks_sound_def)
      with False show ?thesis by (auto simp: root_sound_def after versions)
    qed
    moreover have "version_sound sv org' i' w f \<and> version_placed s' org' i' w f" if f: "pks_versions s' (org', i', w) = Some f" for org' i' w f
    proof (cases "(org', i', w) = (org, i, v)")
      case True
      with f have "f = x" by (simp add: after)
      with True placed [OF doc(1)] p assms(2) doc(2) show ?thesis
        by (auto simp: x version_sound_def version_placed_def s' put_version_def put_root_def id validate_playbook_version_def
            playbook_version_fields_ok_def validate_publication_def bindr_eq_Inr require_eq_Inr split: if_splits)
    next
      case False
      with f obtain e where e: "pks_versions s (org', i', w) = Some e" and
        fe: "f = (if (org', i') = (org, i) \<and> pb_active_version_id p = Some w then e\<lparr>plv_state := Play_Superseded\<rparr> else e)"
        by (auto simp: after versions split: if_splits)
      from placed(1) [OF e] have "version_sound sv org' i' w f"
        by (auto simp: fe version_sound_def validate_playbook_version_def playbook_version_fields_ok_def validate_publication_def
            bindr_eq_Inr require_eq_Inr split: if_splits)
      moreover from placed(2) [OF e] False p have "version_placed s' org' i' w f"
        by (auto simp: fe version_placed_def s' put_version_def put_root_def id roots)
      ultimately show ?thesis ..
    qed
    moreover have "u = w" if "pks_versions s' (org', i', u) = Some e" "pks_versions s' (org', i', w) = Some f" "plv_number e = plv_number f"
      for org' i' u w e f
      using origin [OF that(1)] origin [OF that(2)] that(3) sound unfolding playbooks_sound_def by metis
    ultimately show "playbooks_sound sv s'" unfolding playbooks_sound_def by blast
    show "versions_move s s'"
      unfolding versions_move_def
    proof (intro allI impI)
      fix k e
      assume e: "pks_versions s k = Some e"
      obtain org' i' w where k: "k = (org', i', w)" by (cases k) auto
      have "plv_state e = Play_Published" if "(org', i') = (org, i)" "pb_active_version_id p = Some w"
        using placed(2) [of org' i' w e] e k that p by (auto simp: version_placed_def)
      then show "\<exists>f. pks_versions s' k = Some f \<and> version_moves e f"
        using e doc active by (auto simp: k after versions version_moves_def x)
    qed
  qed (use s1 in \<open>auto simp: s' put_version_def put_root_def supersede_def bindr_eq_Inr split: option.splits if_splits\<close>)
qed

text \<open>A playbook document may change in anything but its identity and its versions.\<close>

lemma put_root_good:
  assumes "pks_roots s (org, i) = Some p" "pb_id q = pb_id p" "pb_organisation_id q = pb_organisation_id p"
    "pb_active_version_id q = pb_active_version_id p" "pb_latest_version q = pb_latest_version p"
  shows "good_step sv s (put_root org i q s)"
proof (rule good_stepI)
  assume "playbook_good sv s"
  then have sound: "playbooks_sound sv s" by (simp add: playbook_good_def)
  have "root_sound (put_root org i q s) org' i' r" if "pks_roots (put_root org i q s) (org', i') = Some r" for org' i' r
    using that sound assms by (auto simp: playbooks_sound_def root_sound_def put_root_def split: if_splits)
  moreover have "version_placed (put_root org i q s) org' i' w e" if "version_placed s org' i' w e" for org' i' w e
    using that assms by (auto simp: version_placed_def put_root_def)
  ultimately show "playbooks_sound sv (put_root org i q s)"
    using sound by (auto simp: playbooks_sound_def put_root_def)
qed (simp_all add: put_root_def versions_move_def)

lemma replace_good:
  assumes "playbook_replace q e s = Inr (x, s')" "pks_roots s (pb_organisation_id p, pb_id p) = Some p"
    and "pb_id q = pb_id p" "pb_organisation_id q = pb_organisation_id p"
    "pb_active_version_id q = pb_active_version_id p" "pb_latest_version q = pb_latest_version p"
  shows "good_step sv s s'"
proof -
  from assms(1) have "s' = put_root (pb_organisation_id q) (pb_id q) q s"
    by (auto simp: playbook_replace_def Let_def bindr_eq_Inr)
  then show ?thesis using put_root_good [OF assms(2-6)] by (simp add: assms(3,4))
qed

text \<open>A connection that is attached or not at all.\<close>

lemma put_attached_good:
  assumes "con_playbook_id c = None \<and> con_playbook_version_id c = None
    \<or> (\<exists>i v. con_playbook_id c = Some i \<and> con_playbook_version_id c = Some v \<and> attached_to s org c i v)"
  shows "good_step sv s (put_attached org j c s)"
proof -
  have "attached_to (put_attached org j c s) = attached_to s" by (intro ext) (simp add: attached_to_def put_attached_def)
  then show ?thesis
    using assms
    by (auto simp: good_step_def playbook_good_def connections_sound_def playbooks_sound_def root_sound_def version_placed_def
        versions_move_def put_attached_def)
qed

lemma detach_good: "detach_playbook ip org j e now s = Inr (c, s') \<Longrightarrow> good_step sv s s'"
  by (auto simp: detach_playbook_def bindr_eq_Inr Let_def split: option.splits intro!: put_attached_good)

lemma detach_roots: "detach_playbook ip org j e now s = Inr (c, s') \<Longrightarrow> pks_roots s' = pks_roots s"
  by (auto simp: detach_playbook_def bindr_eq_Inr Let_def put_attached_def split: option.splits)

section \<open>Service calls\<close>

lemma playbook_tx_cases: "playbook_tx f s = (r, s') \<Longrightarrow> s' = s \<or> (\<exists>x. f s = Inr (x, s') \<and> r = Inr x)"
  by (auto simp: playbook_tx_def split: sum.splits prod.splits)

lemmas playbook_effects = bindx_eq playbook_read_def given_eq requires_Inr yields_eq

lemma playbook_get_stored:
  assumes "playbook_get org i s = Inr p"
  shows "pks_roots s (org, i) = Some p"
  using assms
  by (auto simp: playbook_get_def catalog_get_def make_playbook_def bindr_eq_Inr split: option.splits if_splits)

lemma good_root: "playbook_good sv s \<Longrightarrow> pks_roots s (org, i) = Some p \<Longrightarrow> pb_id p = i \<and> pb_organisation_id p = org"
  by (auto simp: playbook_good_def playbooks_sound_def root_sound_def)

lemma good_step_known: "(playbook_good sv s \<Longrightarrow> good_step sv s t) \<Longrightarrow> good_step sv s t"
  by (simp add: good_step_def)

lemma rename_good: "rename_playbook org i e name now s = (r, s') \<Longrightarrow> good_step sv s s'"
proof (rule good_step_known)
  assume step: "rename_playbook org i e name now s = (r, s')" and good: "playbook_good sv s"
  show "good_step sv s s'"
  proof (cases "s' = s")
    case False
    with step obtain p x where p: "playbook_get org i s = Inr p"
      "playbook_replace (p\<lparr>pb_name := name, pb_updated_at := now, pb_revision := e + 1\<rparr>) e s = Inr (x, s')"
      by (auto simp: rename_playbook_def playbook_effects dest!: playbook_tx_cases)
    with good_root [OF good playbook_get_stored] show ?thesis
      by (intro replace_good [OF p(2)]) (auto dest: playbook_get_stored)
  qed (simp add: good_step.kept_refl)
qed

lemma detach_all:
  assumes "mapx (\<lambda>c. playbook_tx (detach_playbook ip org (con_id c) (con_revision c) now)) cs s = (r, s')"
  shows "good_step sv s s' \<and> pks_roots s' = pks_roots s"
  using assms
proof (induction cs arbitrary: s r)
  case (Cons c cs)
  have first: "good_step sv s t \<and> pks_roots t = pks_roots s"
    if "playbook_tx (detach_playbook ip org (con_id c) (con_revision c) now) s = (q, t)" for q t
    using playbook_tx_cases [OF that] by (auto simp: good_step.kept_refl dest: detach_good detach_roots)
  from Cons.prems show ?case
    by (auto simp: bindx_eq yields_eq dest!: first Cons.IH intro: good_step.kept_trans)
qed (simp add: yields_eq good_step.kept_refl)

lemma archive_good: "archive_playbook sv' org i e cascade now s = (r, s') \<Longrightarrow> good_step sv s s'"
proof (rule good_step_known)
  assume step: "archive_playbook sv' org i e cascade now s = (r, s')" and good: "playbook_good sv s"
  show "good_step sv s s'"
  proof (cases "s' = s")
    case False
    from step False obtain p where get: "playbook_get org i s = Inr p"
      by (cases "playbook_get org i s") (auto simp: archive_playbook_def bindx_def playbook_read_def)
    from step False get have editable: "editable_playbook p e = Inr ()"
      by (cases "editable_playbook p e") (auto simp: archive_playbook_def bindx_def playbook_read_def given_def)
    from step False get editable obtain conns where
      conns: "(if pbv_inventory sv' then playbook_read (list_connections (pbv_ip sv') (pbv_keys sv') org) else yields []) s = (Inr conns, s)"
      by (cases "list_connections (pbv_ip sv') (pbv_keys sv') org s")
        (auto simp: archive_playbook_def bindx_def playbook_read_def given_def yields_def split: if_splits)
    let ?cs = "filter (\<lambda>c. con_archived_at c = None \<and> con_playbook_id c = Some i) conns"
    obtain q t where loop: "mapx (\<lambda>c. playbook_tx (detach_playbook (pbv_ip sv') org (con_id c) (con_revision c) now)) ?cs s = (q, t)"
      by fastforce
    from step False get editable conns loop
    have "s' = t \<or> (\<exists>x. playbook_replace (p\<lparr>pb_archived_at := Some now, pb_updated_at := now, pb_revision := e + 1\<rparr>) e t = Inr (x, s'))"
      by (cases q)
        (auto simp: archive_playbook_def bindx_def playbook_read_def given_def requires_def Let_def split: if_splits dest!: playbook_tx_cases)
    note p = get loop this
    from detach_all [OF p(2)] have t: "good_step sv s t" "pks_roots t = pks_roots s" by auto
    from p(3) show ?thesis
    proof
      assume "\<exists>x. playbook_replace (p\<lparr>pb_archived_at := Some now, pb_updated_at := now, pb_revision := e + 1\<rparr>) e t = Inr (x, s')"
      then obtain x where x: "playbook_replace (p\<lparr>pb_archived_at := Some now, pb_updated_at := now, pb_revision := e + 1\<rparr>) e t = Inr (x, s')" ..
      have "good_step sv t s'"
        using good_root [OF good playbook_get_stored [OF p(1)]] playbook_get_stored [OF p(1)]
        by (intro replace_good [OF x]) (auto simp: t(2))
      with t(1) show ?thesis by (rule good_step.kept_trans)
    qed (use t in simp)
  qed (simp add: good_step.kept_refl)
qed

lemma create_good: "create_playbook_version sv org i v d actor sources now s = (r, s') \<Longrightarrow> good_step sv s s'"
  by (auto simp: create_playbook_version_def playbook_effects good_step.kept_refl dest!: playbook_tx_cases intro: add_version_good)

lemma publish_call_good: "publish_playbook sv org i v actor now s = (r, s') \<Longrightarrow> identifier_ok actor \<Longrightarrow> good_step sv s s'"
  by (auto simp: publish_playbook_def playbook_effects requires_def good_step.kept_refl dest!: playbook_tx_cases intro: publish_good
      split: if_splits)

lemma attach_good: "attach_connection sv' org j e i v now s = (r, s') \<Longrightarrow> good_step sv s s'"
proof (cases "s' = s")
  case False
  assume step: "attach_connection sv' org j e i v now s = (r, s')"
  from step False obtain doc where version: "playbook_get_version org i v s = Inr doc"
    by (cases "playbook_get_version org i v s")
      (auto simp: attach_connection_def bindx_def playbook_read_def requires_def split: if_splits)
  from step False version obtain c where connection:
    "catalog_get (pks_connections s) (validate_connection (pbv_ip sv')) ''connections'' org j = Inr c"
    by (cases "catalog_get (pks_connections s) (validate_connection (pbv_ip sv')) ''connections'' org j")
      (auto simp: attach_connection_def bindx_def playbook_read_def requires_def split: if_splits)
  from step False version connection have guards: "plv_state doc = Play_Published" "con_interface c = If_Browser"
      "con_platform c = pl_platform (plv_definition doc)"
      "list_all (\<lambda>d. domain_covered d (con_allowed_resources c)) (pl_allowed_domains (plv_definition doc))"
    and "\<exists>x. attach_playbook (pbv_ip sv') org j e i v now s = Inr (x, s')"
    by (auto simp: attach_connection_def bindx_def playbook_read_def requires_def split: if_splits dest: playbook_tx_cases)
  then obtain c' status where changed: "s' = put_attached org j (c'\<lparr>con_playbook_id := Some i, con_playbook_version_id := Some v,
      con_status := status, con_updated_at := now, con_revision := con_revision c' + 1\<rparr>) s"
    and c': "pks_connections s (org, j) = Some c'" "validate_connection (pbv_ip sv') c' = Inr c'"
    by (auto simp: attach_playbook_def bindr_eq_Inr validate_connection_def Let_def split: option.splits)
  have "c' = c" using connection c' by (auto simp: catalog_get_def bindr_eq_Inr)
  moreover have "pks_versions s (org, i, v) = Some doc"
    using version by (auto simp: playbook_get_version_def validate_playbook_version_def bindr_eq_Inr split: option.splits if_splits)
  ultimately show ?thesis
    unfolding changed using guards by (intro put_attached_good) (auto simp: attached_to_def)
qed (simp add: good_step.kept_refl)

lemma playbook_call_good: "playbook_call sv s s' \<Longrightarrow> good_step sv s s'"
  by (cases rule: playbook_call.cases) (auto intro: rename_good archive_good create_good publish_call_good attach_good)

lemma playbook_calls_good: "(playbook_call sv)\<^sup>*\<^sup>* s s' \<Longrightarrow> good_step sv s s'"
  by (induction rule: rtranclp_induct) (auto intro: good_step.kept_refl good_step.kept_trans playbook_call_good)

text \<open>Before the first playbook.\<close>

definition no_playbooks :: "playbook_store \<Rightarrow> bool" where
  "no_playbooks s \<longleftrightarrow> pks_roots s = Map.empty \<and> pks_versions s = Map.empty
     \<and> (\<forall>k c. pks_connections s k = Some c \<longrightarrow> con_playbook_id c = None \<and> con_playbook_version_id c = None)"

lemma no_playbooks_good: "no_playbooks s \<Longrightarrow> playbook_good sv s"
  by (auto simp: no_playbooks_def playbook_good_def playbooks_sound_def connections_sound_def)


text \<open>
  The properties of the playbook service over any sequence of its calls, with a playbook that is drafted, published
  and attached to a connection.
\<close>

section \<open>An example\<close>

definition ex_control :: "string \<Rightarrow> selector" where
  "ex_control i = \<lparr>sel_kind = Sel_Text, sel_value = i, sel_name = None, sel_exact = True\<rparr>"

definition ex_click :: "string \<Rightarrow> stage \<Rightarrow> string \<Rightarrow> playbook_effect \<Rightarrow> secure_field option \<Rightarrow> playbook_step" where
  "ex_click i st tool kind secure =
     \<lparr>op_id = i, op_stage = st, op_tool = tool, op_operation = ''click'', op_objective = ''press the control'',
      op_parameters = [], op_protected = False, op_evidence_checks = [''done''], ps_effect = kind,
      ps_selectors = [ex_control i],
      ps_checkpoint = Some \<lparr>pc_url_pattern = ''https://a.io/keys'', pc_required_text = [], pc_forbidden_text = []\<rparr>,
      ps_secure_field = secure, ps_outputs = [], ps_timeout_seconds = 60, ps_retry_limit = 0\<rparr>"

definition ex_recording :: playbook_draft where
  "ex_recording =
     \<lparr>pl_name = ''Keys'', pl_platform = ''github'', pl_allowed_domains = [''a.io''],
      pl_steps =
        [ex_click ''make'' CREATE ''browser.secure-capture'' Eff_Create
           (Some \<lparr>sf_name = ''key'', sf_selector = ex_control ''secret'', sf_provider_id_selector = ex_control ''id'',
              sf_provider_id_attribute = ''text'', sf_provider_display_name_selector = None\<rparr>),
         ex_click ''drop'' REVOKE ''browser.revokeCredential'' Eff_Revoke None],
      pl_login_url_pattern = Some ''https://a.io/login''\<rparr>"

definition ex_playbooks :: playbook_service where
  "ex_playbooks = \<lparr>pbv_sha = ex_sha, pbv_fmt = ex_fmt, pbv_ip = (\<lambda>_. False), pbv_keys = [''con''], pbv_inventory = True\<rparr>"

definition ex_site_connection :: connection where
  "ex_site_connection = ex_provider\<lparr>con_allowed_resources := [''a.io''], con_authorization_reference := Some ''secrets/login/versions/1'',
     con_status := Con_Reauthentication\<rparr>"

definition ex_no_playbooks :: playbook_store where
  "ex_no_playbooks = \<lparr>pks_roots = Map.empty, pks_versions = Map.empty,
     pks_connections = Map.empty((''org'', ''con'') \<mapsto> ex_site_connection)\<rparr>"

definition ex_drafted :: playbook_store where
  "ex_drafted = snd (create_playbook_version ex_playbooks ''org'' ''play'' ''ver'' ex_recording ''user'' [] 1 ex_no_playbooks)"

definition ex_published :: playbook_store where
  "ex_published = snd (publish_playbook ex_playbooks ''org'' ''play'' ''ver'' ''user'' 2 ex_drafted)"

definition ex_attached :: playbook_store where
  "ex_attached = snd (attach_connection ex_playbooks ''org'' ''con'' 0 ''play'' ''ver'' 3 ex_published)"

lemma ex_reached:
  "(playbook_call ex_playbooks)\<^sup>*\<^sup>* ex_no_playbooks ex_published" "(playbook_call ex_playbooks)\<^sup>*\<^sup>* ex_no_playbooks ex_attached"
proof -
  have "playbook_call ex_playbooks ex_no_playbooks ex_drafted"
    unfolding ex_drafted_def by (rule playbook_call.create [OF surjective_pairing])
  moreover have "playbook_call ex_playbooks ex_drafted ex_published"
    unfolding ex_published_def by (rule playbook_call.publish [OF surjective_pairing]) code_simp
  moreover have "playbook_call ex_playbooks ex_published ex_attached"
    unfolding ex_attached_def by (rule playbook_call.attach [OF surjective_pairing])
  ultimately show "(playbook_call ex_playbooks)\<^sup>*\<^sup>* ex_no_playbooks ex_published" "(playbook_call ex_playbooks)\<^sup>*\<^sup>* ex_no_playbooks ex_attached"
    by (meson rtranclp.intros)+
qed

lemma ex_recording_valid: "is_ok (validate_playbook_draft ex_recording)" "validate_definition (\<lambda>_. False) ex_recording = Inr ()"
  by code_simp+

lemma canonical_selector [simp]: "canonical_ok (dump_selector sel)"
  unfolding dump_selector_def by (rule canonical_ok_fields) (simp_all add: opt_ok_def split: option.splits)

lemma canonical_step:
  assumes "op_parameters st = []" "ps_outputs st = []"
    "ps_secure_field st = None \<or> (\<exists>f. ps_secure_field st = Some f \<and> sf_provider_display_name_selector f = None)"
  shows "canonical_ok (dump_playbook_step st)"
proof -
  have checkpoint: "canonical_ok (dump_checkpoint c)" for c
    unfolding dump_checkpoint_def by (rule canonical_ok_fields) simp_all
  have secure: "canonical_ok (dump_secure_field f)" if "sf_provider_display_name_selector f = None" for f
    unfolding dump_secure_field_def by (rule canonical_ok_fields) (simp_all add: that)
  show ?thesis
    unfolding dump_playbook_step_def
    by (rule canonical_ok_fields) (use assms checkpoint secure in \<open>auto simp: opt_ok_def canonical_ok_dict list_all_iff split: option.splits\<close>)
qed

lemma ex_recording_digest: "digest ex_sha ex_fmt (dump_playbook_draft ex_recording) = Inr ex_hash"
proof -
  have "canonical_ok (dump_playbook_draft ex_recording)"
    unfolding dump_playbook_draft_def
    by (rule canonical_ok_fields) (simp_all add: ex_recording_def ex_click_def canonical_step)
  from digest_ok [OF this, of ex_sha ex_fmt] show ?thesis by (simp add: ex_sha_def)
qed

definition ex_play :: playbook where
  "ex_play =
     \<lparr>pb_id = ''play'', pb_organisation_id = ''org'', pb_name = ''Keys'', pb_platform = ''github'', pb_latest_version = 1,
      pb_latest_version_id = Some ''ver'', pb_active_version_id = None, pb_created_at = 1, pb_updated_at = 1,
      pb_archived_at = None, pb_revision = 0\<rparr>"

definition ex_play_draft :: playbook_version where
  "ex_play_draft = draft_version ''org'' ''play'' ''ver'' 1 ex_recording ex_hash ''user'' 1 []"

definition ex_play_version :: playbook_version where
  "ex_play_version = ex_play_draft\<lparr>plv_state := Play_Published, plv_published_by := Some ''user'', plv_published_at := Some 2\<rparr>"

lemma ex_play_ok: "segments [''org'', ''play'', ''ver''] = Inr ()" "make_playbook ex_play = Inr ex_play"
  "segments [''org'', ''con''] = Inr ()"
  by code_simp+

lemma ex_play_versions_ok: "validate_playbook_version ex_play_draft = Inr ex_play_draft" "validate_playbook_version ex_play_version = Inr ex_play_version"
proof -
  have "playbook_version_fields_ok ex_play_draft" "playbook_version_fields_ok ex_play_version" by code_simp+
  moreover have "validate_playbook_draft ex_recording = Inr ex_recording"
    using ex_recording_valid(1) by (auto simp: is_ok_iff validate_playbook_draft_def bindr_eq_Inr split: if_splits)
  ultimately show "validate_playbook_version ex_play_draft = Inr ex_play_draft" "validate_playbook_version ex_play_version = Inr ex_play_version"
    by (simp_all add: validate_playbook_version_def validate_publication_def ex_play_version_def ex_play_draft_def draft_version_def)
qed

lemma ex_drafted_is: "ex_drafted = put_version ''org'' ''play'' ''ver'' ex_play_draft (put_root ''org'' ''play'' ex_play ex_no_playbooks)"
proof -
  have "versioned_root ''org'' ''play'' ''ver'' ex_recording 1 None = Inr ex_play"
    using ex_play_ok(2) by (simp add: versioned_root_def ex_play_def ex_recording_def)
  then show ?thesis
    using ex_play_versions_ok(1)
    by (simp add: ex_drafted_def create_playbook_version_def bindx_def given_def ex_playbooks_def ex_recording_valid
        ex_recording_digest playbook_tx_def playbook_add_version_def ex_play_ok ex_no_playbooks_def ex_play_draft_def ex_play_def)
qed

lemma ex_play_fields: "pb_archived_at ex_play = None" "pb_active_version_id ex_play = None"
  by (simp_all add: ex_play_def)

lemma ex_published_is: "pks_versions ex_published (''org'', ''play'', ''ver'') = Some ex_play_version"
  "pks_connections ex_published = pks_connections ex_no_playbooks"
  using ex_play_versions_ok
  by (simp_all add: ex_published_def publish_playbook_def bindx_def given_def playbook_read_def playbook_get_version_def ex_playbooks_def
      ex_drafted_is put_version_def put_root_def ex_play_ok ex_recording_valid ex_recording_digest playbook_tx_def playbook_publish_def
      supersede_def requires_def ex_play_version_def ex_play_draft_def draft_version_def Let_def ex_play_fields)

lemma ex_no_playbooks_is: "no_playbooks ex_no_playbooks"
  by (simp add: no_playbooks_def ex_no_playbooks_def ex_site_connection_def ex_provider_def)

section \<open>Properties\<close>

text \<open>
  C27: Whatever calls the playbook service gets, a version of a playbook is published exactly when the playbook names it
  as its active version, so that at most one is; no two versions have the same number, and every version passed the
  checks of its definition and has the digest of it.
\<close>

theorem one_published_version:
  assumes "no_playbooks s" "(playbook_call sv)\<^sup>*\<^sup>* s s'" "pks_versions s' (org, i, v) = Some doc"
  shows "(\<exists>p. pks_roots s' (org, i) = Some p \<and> (plv_state doc = Play_Published \<longleftrightarrow> pb_active_version_id p = Some v))
    \<and> (\<forall>w e. pks_versions s' (org, i, w) = Some e \<longrightarrow> plv_number e = plv_number doc \<longrightarrow> w = v)
    \<and> validate_definition (pbv_ip sv) (plv_definition doc) = Inr ()
    \<and> digest (pbv_sha sv) (pbv_fmt sv) (dump_playbook_draft (plv_definition doc)) = Inr (plv_digest doc)"
proof -
  from playbook_calls_good [OF assms(2)] no_playbooks_good [OF assms(1)] have "playbook_good sv s'" by (auto simp: good_step_def)
  with assms(3) have sound: "playbooks_sound sv s'" "version_sound sv org i v doc" "version_placed s' org i v doc"
    by (auto simp: playbook_good_def playbooks_sound_def)
  then show ?thesis using assms(3) unfolding version_sound_def version_placed_def playbooks_sound_def by blast
qed

lemma one_published_version_witness:
  "\<exists>p. pks_roots ex_published (''org'', ''play'') = Some p \<and> pb_active_version_id p = Some ''ver''"
  using one_published_version [OF ex_no_playbooks_is ex_reached(1) ex_published_is(1)] by (simp add: ex_play_version_def)

text \<open>Versions are never lost, and only their state changes, from draft to published to superseded.\<close>

theorem playbook_versions_kept:
  assumes "no_playbooks s" "(playbook_call sv)\<^sup>*\<^sup>* s t" "(playbook_call sv)\<^sup>*\<^sup>* t u" "pks_versions t k = Some d"
  shows "\<exists>e. pks_versions u k = Some e \<and> version_moves d e"
proof -
  from playbook_calls_good [OF assms(2)] no_playbooks_good [OF assms(1)] have "playbook_good sv t" by (auto simp: good_step_def)
  with playbook_calls_good [OF assms(3)] have "versions_move t u" by (auto simp: good_step_def)
  with assms(4) show ?thesis unfolding versions_move_def by blast
qed

text \<open>
  C28: A connection is attached only to a version of a playbook that was published: the version is still there, it is
  for the platform of the connection, and the resources of the connection cover all its domains.
\<close>

theorem attached_playbooks_published:
  assumes "no_playbooks s" "(playbook_call sv)\<^sup>*\<^sup>* s s'" "pks_connections s' (org, j) = Some c" "con_playbook_version_id c = Some v"
  shows "\<exists>i doc. con_playbook_id c = Some i \<and> pks_versions s' (org, i, v) = Some doc
    \<and> plv_state doc \<in> {Play_Published, Play_Superseded} \<and> con_platform c = pl_platform (plv_definition doc)
    \<and> (\<forall>d\<in>set (pl_allowed_domains (plv_definition doc)). domain_covered d (con_allowed_resources c))"
proof -
  from playbook_calls_good [OF assms(2)] no_playbooks_good [OF assms(1)] have "connections_sound s'"
    by (auto simp: good_step_def playbook_good_def)
  with assms(3,4) show ?thesis by (fastforce simp: connections_sound_def attached_to_def list_all_iff)
qed

lemma ex_site_connection_valid: "validate_connection (\<lambda>_. False) ex_site_connection = Inr ex_site_connection"
proof -
  have "is_ok (validate_connection (\<lambda>_. False) ex_site_connection)" by code_simp
  then show ?thesis by (auto simp: is_ok_iff validate_connection_def bindr_eq_Inr)
qed

lemma ex_attached_is: "\<exists>c. pks_connections ex_attached (''org'', ''con'') = Some c \<and> con_playbook_version_id c = Some ''ver''
    \<and> con_status c = Con_Ready"
proof -
  have covered: "domain_covered ''a.io'' [''a.io'']" by code_simp
  have fields: "con_interface ex_site_connection = If_Browser" "con_roles ex_site_connection = [Role_Provider]"
    "con_platform ex_site_connection = ''github''" "con_allowed_resources ex_site_connection = [''a.io'']"
    "con_revision ex_site_connection = 0" "con_authorization_reference ex_site_connection = Some ''secrets/login/versions/1''"
    by (simp_all add: ex_site_connection_def ex_provider_def)
  have version: "plv_state ex_play_version = Play_Published" "pl_platform (plv_definition ex_play_version) = ''github''"
    "pl_allowed_domains (plv_definition ex_play_version) = [''a.io'']"
    by (simp_all add: ex_play_version_def ex_play_draft_def draft_version_def ex_recording_def)
  have stored: "pks_connections ex_published (''org'', ''con'') = Some ex_site_connection"
    by (simp add: ex_published_is ex_no_playbooks_def)
  show ?thesis
    by (simp add: ex_attached_def attach_connection_def bindx_def playbook_read_def requires_def playbook_get_version_def
        ex_playbooks_def ex_play_ok ex_published_is(1) ex_play_versions_ok(2) catalog_get_def stored ex_site_connection_valid
        playbook_tx_def attach_playbook_def Let_def put_attached_def fields version covered)
qed

lemma attached_playbooks_published_witness:
  "\<exists>c i doc. pks_connections ex_attached (''org'', ''con'') = Some c \<and> con_playbook_id c = Some i
    \<and> pks_versions ex_attached (''org'', i, ''ver'') = Some doc"
proof -
  from ex_attached_is obtain c where c: "pks_connections ex_attached (''org'', ''con'') = Some c" "con_playbook_version_id c = Some ''ver''"
    by blast
  from attached_playbooks_published [OF ex_no_playbooks_is ex_reached(2) c] c(1) show ?thesis by blast
qed

section \<open>What attaching does not ask\<close>

text \<open>
  A connection whose login has expired is ready again once a playbook is attached to it, although nobody has logged
  in: its status follows from the reference of the former login alone.
\<close>

lemma attaching_clears_reauthentication:
  "con_status ex_site_connection = Con_Reauthentication"
  "\<exists>c. pks_connections ex_attached (''org'', ''con'') = Some c \<and> con_status c = Con_Ready"
  using ex_attached_is by (auto simp: ex_site_connection_def)

text \<open>An archived playbook stays attachable: only its versions are looked at.\<close>

lemma archived_playbook_attaches:
  "fst (attach_connection sv org j e i v now (s\<lparr>pks_roots := (pks_roots s)((org, i) \<mapsto> p\<lparr>pb_archived_at := Some at\<rparr>)\<rparr>))
     = fst (attach_connection sv org j e i v now s)"
proof -
  let ?t = "s\<lparr>pks_roots := (pks_roots s)((org, i) \<mapsto> p\<lparr>pb_archived_at := Some at\<rparr>)\<rparr>"
  have version: "playbook_get_version org i v ?t = playbook_get_version org i v s"
    by (simp add: playbook_get_version_def)
  have attach: "fst (playbook_tx (attach_playbook ip org j e i v now) ?t) = fst (playbook_tx (attach_playbook ip org j e i v now) s)" for ip
  proof (cases "pks_connections s (org, j)")
    case (Some c)
    then show ?thesis
      by (cases "segments [org, j]"; cases "validate_connection ip c")
        (simp_all add: playbook_tx_def attach_playbook_def Let_def require_def)
  qed (cases "segments [org, j]"; simp add: playbook_tx_def attach_playbook_def)
  show ?thesis
    by (cases "playbook_get_version org i v s"; cases "catalog_get (pks_connections s) (validate_connection (pbv_ip sv)) ''connections'' org j")
      (simp_all add: attach_connection_def bindx_def playbook_read_def requires_def version attach)
qed

end
