(* ===== verification/Inventory_Store.thy ===== *)
theory Inventory_Store imports Control_Compiler Domains Generation_Facts begin

text \<open>
  The inventory of an organisation: \<open>Application\<close> and \<open>Environment\<close> of
  packages/contracts/src/contracts/inventory.py and the repository of server/core/storage/inventory.py, over the
  catalog of server/core/storage/catalog.py. Credentials, generations and bindings are the documents of Generations.
  A transaction is a function on the store. The playbook of a connection is in Playbook_Store and
  \<open>record_observation\<close> in Generations; \<open>complete_setup\<close>, a step of the browser setup, is not modelled.
\<close>

section \<open>Documents\<close>

record application =
  app_id :: string
  app_organisation_id :: string
  app_display_name :: string
  app_repository_ids :: "string list"
  app_created_at :: int
  app_updated_at :: int
  app_archived_at :: "int option"
  app_revision :: int

definition application_fields_ok :: "application \<Rightarrow> bool" where
  "application_fields_ok a \<longleftrightarrow>
     identifier_ok (app_id a) \<and> identifier_ok (app_organisation_id a) \<and> text_between 1 160 (app_display_name a)
     \<and> 0 \<le> app_revision a"

definition validate_application :: "application \<Rightarrow> application result" where
  "validate_application a = (if application_fields_ok a then Inr a else Inl (FieldError ''Application''))"

record environment =
  env_id :: string
  env_organisation_id :: string
  env_application_id :: string
  env_display_name :: string
  env_production :: bool
  env_region :: string
  env_created_at :: int
  env_updated_at :: int
  env_archived_at :: "int option"
  env_revision :: int

definition environment_fields_ok :: "environment \<Rightarrow> bool" where
  "environment_fields_ok e \<longleftrightarrow>
     identifier_ok (env_id e) \<and> identifier_ok (env_organisation_id e) \<and> identifier_ok (env_application_id e)
     \<and> text_between 1 160 (env_display_name e) \<and> text_between 3 32 (env_region e) \<and> 0 \<le> env_revision e"

definition validate_environment :: "environment \<Rightarrow> environment result" where
  "validate_environment e = (if environment_fields_ok e then Inr e else Inl (FieldError ''Environment''))"

record inventory_store =
  ivs_connections :: "string \<times> string \<rightharpoonup> connection"
  ivs_applications :: "string \<times> string \<rightharpoonup> application"
  ivs_environments :: "string \<times> string \<rightharpoonup> environment"
  ivs_services :: "string \<times> string \<rightharpoonup> consumer_service"
  ivs_lineage :: generation_store
  ivs_controls :: "string \<times> string \<times> string \<rightharpoonup> control_version"
  ivs_probes :: "string \<times> string \<rightharpoonup> probe_version"
  ivs_playbooks :: "string \<times> string \<times> string \<rightharpoonup> playbook_version"

section \<open>The catalog\<close>

text \<open>\<open>FirestoreCatalog.create\<close>, and \<open>_replace\<close> on \<open>FirestoreCatalog.replace\<close>.\<close>

definition catalog_path :: "string \<Rightarrow> string \<Rightarrow> string \<Rightarrow> string" where
  "catalog_path collection org i = ''organisations/'' @ org @ ''/'' @ collection @ ''/'' @ i"

definition catalog_create ::
  "(string \<times> string \<rightharpoonup> 'a) \<Rightarrow> string \<Rightarrow> string \<Rightarrow> string \<Rightarrow> 'a \<Rightarrow> (string \<times> string \<rightharpoonup> 'a) result" where
  "catalog_create docs collection org i value =
     bindr (segments [org, i]) (\<lambda>_.
     bindr (require (docs (org, i) = None)
       (ResourceConflictError (''resource '' @ catalog_path collection org i @ '' already exists''))) (\<lambda>_.
     Inr (docs((org, i) \<mapsto> value))))"

definition catalog_replace ::
  "(string \<times> string \<rightharpoonup> 'a) \<Rightarrow> ('a \<Rightarrow> 'a result) \<Rightarrow> ('a \<Rightarrow> string \<times> string \<times> int) \<Rightarrow> ('a \<Rightarrow> int) \<Rightarrow> string \<Rightarrow> string
     \<Rightarrow> string \<Rightarrow> int \<Rightarrow> 'a \<Rightarrow> (string \<times> string \<rightharpoonup> 'a) result" where
  "catalog_replace docs validate identity revision collection org i expected_revision value =
     bindr (catalog_get docs validate collection org i) (\<lambda>current.
     bindr (require (revision current = expected_revision)
       (ResourceConflictError (''resource '' @ catalog_path collection org i @ '' expected revision ''
          @ int_text expected_revision @ '', found '' @ int_text (revision current)))) (\<lambda>_.
     bindr (require (identity current = identity value)
       (StorageIntegrityError ''inventory replacement changed immutable identity'')) (\<lambda>_.
     bindr (require (revision value = expected_revision + 1)
       (StorageIntegrityError ''catalog updates must advance revision exactly once'')) (\<lambda>_.
     Inr (docs((org, i) \<mapsto> value))))))"

text \<open>
  A transaction on one collection of the store. \<open>keys\<close> are the names of the documents in the order of the query,
  of which a list sees the first 1000.
\<close>

definition catalog_list :: "string list \<Rightarrow> (string \<times> string \<rightharpoonup> 'a) \<Rightarrow> ('a \<Rightarrow> 'a result) \<Rightarrow> string \<Rightarrow> 'a list result" where
  "catalog_list keys docs validate org = mapr validate (take 1000 (List.map_filter (\<lambda>i. docs (org, i)) keys))"

section \<open>Single documents\<close>

definition put_connection :: "string \<Rightarrow> string \<Rightarrow> connection \<Rightarrow> inventory_store \<Rightarrow> inventory_store" where
  "put_connection org i c s = s\<lparr>ivs_connections := (ivs_connections s)((org, i) \<mapsto> c)\<rparr>"

definition put_application :: "string \<Rightarrow> string \<Rightarrow> application \<Rightarrow> inventory_store \<Rightarrow> inventory_store" where
  "put_application org i a s = s\<lparr>ivs_applications := (ivs_applications s)((org, i) \<mapsto> a)\<rparr>"

definition put_environment :: "string \<Rightarrow> string \<Rightarrow> environment \<Rightarrow> inventory_store \<Rightarrow> inventory_store" where
  "put_environment org i e s = s\<lparr>ivs_environments := (ivs_environments s)((org, i) \<mapsto> e)\<rparr>"

definition put_service :: "string \<Rightarrow> string \<Rightarrow> consumer_service \<Rightarrow> inventory_store \<Rightarrow> inventory_store" where
  "put_service org i v s = s\<lparr>ivs_services := (ivs_services s)((org, i) \<mapsto> v)\<rparr>"

definition put_managed :: "string \<Rightarrow> string \<Rightarrow> managed_credential \<Rightarrow> inventory_store \<Rightarrow> inventory_store" where
  "put_managed org i c s = s\<lparr>ivs_lineage := put_credential org i c (ivs_lineage s)\<rparr>"

definition repo_add_connection :: "connection \<Rightarrow> inventory_store \<Rightarrow> (connection \<times> inventory_store) result" where
  "repo_add_connection c s =
     bindr (catalog_create (ivs_connections s) ''connections'' (con_organisation_id c) (con_id c) c) (\<lambda>docs.
     Inr (c, s\<lparr>ivs_connections := docs\<rparr>))"

definition repo_add_application :: "application \<Rightarrow> inventory_store \<Rightarrow> (application \<times> inventory_store) result" where
  "repo_add_application a s =
     bindr (catalog_create (ivs_applications s) ''applications'' (app_organisation_id a) (app_id a) a) (\<lambda>docs.
     Inr (a, s\<lparr>ivs_applications := docs\<rparr>))"

definition repo_add_environment :: "environment \<Rightarrow> inventory_store \<Rightarrow> (environment \<times> inventory_store) result" where
  "repo_add_environment e s =
     bindr (catalog_create (ivs_environments s) ''environments'' (env_organisation_id e) (env_id e) e) (\<lambda>docs.
     Inr (e, s\<lparr>ivs_environments := docs\<rparr>))"

definition repo_add_service :: "consumer_service \<Rightarrow> inventory_store \<Rightarrow> (consumer_service \<times> inventory_store) result" where
  "repo_add_service v s =
     bindr (catalog_create (ivs_services s) ''services'' (csv_organisation_id v) (csv_id v) v) (\<lambda>docs.
     Inr (v, s\<lparr>ivs_services := docs\<rparr>))"

definition repo_add_application_setup ::
  "application \<Rightarrow> environment \<Rightarrow> consumer_service \<Rightarrow> inventory_store
     \<Rightarrow> ((application \<times> environment \<times> consumer_service) \<times> inventory_store) result" where
  "repo_add_application_setup a e v s =
     bindr (segments [app_organisation_id a, app_id a, env_organisation_id e, env_id e, csv_organisation_id v, csv_id v]) (\<lambda>_.
     bindr (require (ivs_applications s (app_organisation_id a, app_id a) = None
         \<and> ivs_environments s (env_organisation_id e, env_id e) = None \<and> ivs_services s (csv_organisation_id v, csv_id v) = None)
       (ResourceConflictError ''application setup resource already exists'')) (\<lambda>_.
     Inr ((a, e, v), put_service (csv_organisation_id v) (csv_id v) v
       (put_environment (env_organisation_id e) (env_id e) e (put_application (app_organisation_id a) (app_id a) a s)))))"

definition repo_get_connection :: "(string \<Rightarrow> bool) \<Rightarrow> string \<Rightarrow> string \<Rightarrow> inventory_store \<Rightarrow> connection result" where
  "repo_get_connection ip org i s = catalog_get (ivs_connections s) (validate_connection ip) ''connections'' org i"

definition repo_get_application :: "string \<Rightarrow> string \<Rightarrow> inventory_store \<Rightarrow> application result" where
  "repo_get_application org i s = catalog_get (ivs_applications s) validate_application ''applications'' org i"

definition repo_get_environment :: "string \<Rightarrow> string \<Rightarrow> inventory_store \<Rightarrow> environment result" where
  "repo_get_environment org i s = catalog_get (ivs_environments s) validate_environment ''environments'' org i"

definition repo_get_service :: "string \<Rightarrow> string \<Rightarrow> inventory_store \<Rightarrow> consumer_service result" where
  "repo_get_service org i s = catalog_get (ivs_services s) validate_service ''services'' org i"

definition repo_get_credential :: "string \<Rightarrow> string \<Rightarrow> inventory_store \<Rightarrow> managed_credential result" where
  "repo_get_credential org i s =
     catalog_get (gs_credentials (ivs_lineage s)) validate_credential ''credentials'' org i"

definition repo_get_control_version ::
  "string \<Rightarrow> string \<Rightarrow> string \<Rightarrow> inventory_store \<Rightarrow> control_version result" where
  "repo_get_control_version org credential_id version_id s =
     bindr (segments [org, credential_id, version_id]) (\<lambda>_.
     case ivs_controls s (org, credential_id, version_id) of
       None \<Rightarrow> Inl (ResourceNotFoundError (''resource '' @ catalog_path ''credentials'' org credential_id
                 @ ''/controls/'' @ version_id @ '' was not found''))
     | Some doc \<Rightarrow> validate_control_version doc)"

definition repo_get_playbook_version ::
  "string \<Rightarrow> string \<Rightarrow> string \<Rightarrow> inventory_store \<Rightarrow> playbook_version result" where
  "repo_get_playbook_version org playbook_id version_id s =
     bindr (segments [org, playbook_id, version_id]) (\<lambda>_.
     case ivs_playbooks s (org, playbook_id, version_id) of
       None \<Rightarrow> Inl (ResourceNotFoundError (''resource '' @ catalog_path ''playbooks'' org playbook_id
                 @ ''/versions/'' @ version_id @ '' was not found''))
     | Some doc \<Rightarrow> validate_playbook_version doc)"

definition repo_replace_connection ::
  "(string \<Rightarrow> bool) \<Rightarrow> connection \<Rightarrow> int \<Rightarrow> inventory_store \<Rightarrow> (connection \<times> inventory_store) result" where
  "repo_replace_connection ip c expected_revision s =
     bindr (catalog_replace (ivs_connections s) (validate_connection ip)
       (\<lambda>v. (con_id v, con_organisation_id v, con_created_at v)) con_revision ''connections'' (con_organisation_id c) (con_id c)
       expected_revision c) (\<lambda>docs. Inr (c, s\<lparr>ivs_connections := docs\<rparr>))"

definition repo_replace_application ::
  "application \<Rightarrow> int \<Rightarrow> inventory_store \<Rightarrow> (application \<times> inventory_store) result" where
  "repo_replace_application a expected_revision s =
     bindr (catalog_replace (ivs_applications s) validate_application
       (\<lambda>v. (app_id v, app_organisation_id v, app_created_at v)) app_revision ''applications'' (app_organisation_id a) (app_id a)
       expected_revision a) (\<lambda>docs. Inr (a, s\<lparr>ivs_applications := docs\<rparr>))"

definition repo_replace_environment ::
  "environment \<Rightarrow> int \<Rightarrow> inventory_store \<Rightarrow> (environment \<times> inventory_store) result" where
  "repo_replace_environment e expected_revision s =
     bindr (catalog_replace (ivs_environments s) validate_environment
       (\<lambda>v. (env_id v, env_organisation_id v, env_created_at v)) env_revision ''environments'' (env_organisation_id e) (env_id e)
       expected_revision e) (\<lambda>docs. Inr (e, s\<lparr>ivs_environments := docs\<rparr>))"

definition repo_replace_service ::
  "consumer_service \<Rightarrow> int \<Rightarrow> inventory_store \<Rightarrow> (consumer_service \<times> inventory_store) result" where
  "repo_replace_service v expected_revision s =
     bindr (catalog_replace (ivs_services s) validate_service
       (\<lambda>v. (csv_id v, csv_organisation_id v, csv_created_at v)) csv_revision ''services'' (csv_organisation_id v) (csv_id v)
       expected_revision v) (\<lambda>docs. Inr (v, s\<lparr>ivs_services := docs\<rparr>))"

definition repo_replace_credential ::
  "managed_credential \<Rightarrow> int \<Rightarrow> inventory_store \<Rightarrow> (managed_credential \<times> inventory_store) result" where
  "repo_replace_credential c expected_revision s =
     bindr (catalog_replace (gs_credentials (ivs_lineage s)) validate_credential
       (\<lambda>v. (mc_id v, mc_organisation_id v, mc_created_at v)) mc_revision ''credentials'' (mc_organisation_id c) (mc_id c)
       expected_revision c) (\<lambda>docs. Inr (c, s\<lparr>ivs_lineage := (ivs_lineage s)\<lparr>gs_credentials := docs\<rparr>\<rparr>))"

text \<open>The session of a connection.\<close>

definition update_authentication ::
  "(string \<Rightarrow> bool) \<Rightarrow> string \<Rightarrow> string \<Rightarrow> int \<Rightarrow> string option \<Rightarrow> connection_status \<Rightarrow> int \<Rightarrow> inventory_store
     \<Rightarrow> (connection \<times> inventory_store) result" where
  "update_authentication ip org connection_id expected_revision authorization_reference status updated_at s =
     bindr (segments [org, connection_id]) (\<lambda>_.
     case ivs_connections s (org, connection_id) of
       None \<Rightarrow> Inl (ResourceNotFoundError (''connection '' @ connection_id @ '' was not found''))
     | Some doc \<Rightarrow>
         bindr (validate_connection ip doc) (\<lambda>current.
         bindr (require (con_organisation_id current = org)
           (StorageIntegrityError (''connection '' @ connection_id @ '' crosses tenant boundary''))) (\<lambda>_.
         bindr (require (con_revision current = expected_revision)
           (ResourceConflictError (''connection expected revision '' @ int_text expected_revision @ '', found ''
              @ int_text (con_revision current)))) (\<lambda>_.
         let changed = current\<lparr>con_authorization_reference := authorization_reference, con_status := status,
               con_updated_at := updated_at, con_revision := con_revision current + 1\<rparr> in
         Inr (changed, put_connection org connection_id changed s)))))"

section \<open>The import of a credential\<close>

type_synonym service_setup = "application \<times> environment \<times> consumer_service"

definition setup_service :: "service_setup option \<Rightarrow> consumer_service option" where
  "setup_service setup = map_option (\<lambda>(_, _, v). v) setup"

definition is_setup_service :: "service_setup option \<Rightarrow> string \<Rightarrow> bool" where
  "is_setup_service setup i = (case setup_service setup of None \<Rightarrow> False | Some v \<Rightarrow> csv_id v = i)"

definition setup_segments :: "service_setup option \<Rightarrow> string list" where
  "setup_segments setup =
     (case setup of None \<Rightarrow> []
      | Some (a, e, v) \<Rightarrow>
          [app_organisation_id a, app_id a, env_organisation_id e, env_id e, csv_organisation_id v, csv_id v])"

definition binding_segments :: "consumer_binding \<Rightarrow> string list" where
  "binding_segments b = [cb_organisation_id b, cb_id b, cb_service_id b, cb_runtime_connection_id b]"

definition setup_absent :: "service_setup option \<Rightarrow> inventory_store \<Rightarrow> bool" where
  "setup_absent setup s =
     (case setup of None \<Rightarrow> True
      | Some (a, e, v) \<Rightarrow>
          ivs_applications s (app_organisation_id a, app_id a) = None
          \<and> ivs_environments s (env_organisation_id e, env_id e) = None
          \<and> ivs_services s (csv_organisation_id v, csv_id v) = None)"

text \<open>What must not be there yet, and what must.\<close>

definition check_import_absent ::
  "managed_credential \<Rightarrow> credential_generation \<Rightarrow> consumer_binding list \<Rightarrow> control_version \<Rightarrow> probe_version list
     \<Rightarrow> service_setup option \<Rightarrow> inventory_store \<Rightarrow> unit result" where
  "check_import_absent credential generation bindings controls probes setup s =
     (let org = mc_organisation_id credential; lineage = ivs_lineage s in
      bindr (require (gs_credentials lineage (org, mc_id credential) = None
          \<and> gs_generations lineage (cg_organisation_id generation, cg_id generation) = None
          \<and> ivs_controls s (cv_organisation_id controls, cv_credential_id controls, cv_id controls) = None)
        (ResourceConflictError (''credential '' @ mc_id credential @ '' is already imported''))) (\<lambda>_.
      bindr (require (list_all (\<lambda>p. ivs_probes s (pv_organisation_id p, pv_id p) = None) probes)
        (ResourceConflictError ''one or more control probe versions already exist'')) (\<lambda>_.
      bindr (require (list_all (\<lambda>b. gs_bindings lineage (cb_organisation_id b, cb_id b) = None) bindings)
        (ResourceConflictError ''one or more credential bindings already exist'')) (\<lambda>_.
      require (setup_absent setup s) (ResourceConflictError ''runtime service inventory already exists'')))))"

definition imported_service :: "service_setup option \<Rightarrow> inventory_store \<Rightarrow> consumer_binding \<Rightarrow> consumer_service result" where
  "imported_service setup s b =
     (case (is_setup_service setup (cb_service_id b), setup_service setup) of
        (True, Some v) \<Rightarrow> Inr v
      | _ \<Rightarrow> (case ivs_services s (cb_organisation_id b, cb_service_id b) of
                None \<Rightarrow> Inl (ResourceNotFoundError ''credential connection or consumer service is missing'')
              | Some doc \<Rightarrow> validate_service doc))"

definition services_present :: "service_setup option \<Rightarrow> inventory_store \<Rightarrow> consumer_binding list \<Rightarrow> bool" where
  "services_present setup s bindings \<longleftrightarrow>
     list_all (\<lambda>b. ivs_services s (cb_organisation_id b, cb_service_id b) \<noteq> None \<or> is_setup_service setup (cb_service_id b)) bindings
     \<and> list_all (\<lambda>b. ivs_connections s (cb_organisation_id b, cb_runtime_connection_id b) \<noteq> None) bindings"

definition playbook_missing :: "connection \<Rightarrow> bool" where
  "playbook_missing c \<longleftrightarrow> con_interface c = If_Browser \<and> (con_playbook_id c = None \<or> con_playbook_version_id c = None)"

definition provider_ready :: "string \<Rightarrow> connection \<Rightarrow> bool" where
  "provider_ready provider c \<longleftrightarrow>
     Role_Provider \<in> set (con_roles c) \<and> con_platform c = provider \<and> con_archived_at c = None \<and> con_status c = Con_Ready"

definition role_ready :: "connection_role \<Rightarrow> connection \<Rightarrow> bool" where
  "role_ready role c \<longleftrightarrow>
     role \<in> set (con_roles c) \<and> con_interface c = If_Api \<and> con_archived_at c = None \<and> con_status c = Con_Ready"

definition check_import_connections :: "managed_credential \<Rightarrow> connection \<Rightarrow> connection \<Rightarrow> unit result" where
  "check_import_connections credential management secret_store =
     bindr (require (con_organisation_id management = mc_organisation_id credential
         \<and> provider_ready (mc_provider credential) management \<and> \<not> playbook_missing management)
       (ResourceConflictError ''credential provider connection changed during import'')) (\<lambda>_.
     require (con_organisation_id secret_store = mc_organisation_id credential
         \<and> role_ready Role_Secret_Store secret_store
         \<and> resource_covered (mc_secret_resource credential) (con_allowed_resources secret_store))
       (ResourceConflictError ''credential secret-store connection changed during import''))"

definition controlled_probes :: "control_definition \<Rightarrow> string set" where
  "controlled_probes d = set (concat (map snd (cd_probe_versions d)))"

definition check_import_lineage ::
  "(string \<Rightarrow> string) \<Rightarrow> (int \<Rightarrow> string) \<Rightarrow> managed_credential \<Rightarrow> credential_generation \<Rightarrow> control_version \<Rightarrow> unit result" where
  "check_import_lineage sha fmt credential generation controls =
     bindr (require (cg_organisation_id generation = mc_organisation_id credential
         \<and> cg_credential_id generation = mc_id credential
         \<and> mc_active_generation_id credential = Some (cg_id generation)
         \<and> Some (mc_secret_reference credential) = cg_secret_reference generation
         \<and> cv_organisation_id controls = mc_organisation_id credential
         \<and> cv_credential_id controls = mc_id credential \<and> cv_id controls = mc_control_version credential
         \<and> cv_number controls = 1)
       (ResourceConflictError ''credential import lineage is inconsistent'')) (\<lambda>_.
     bindr (digest sha fmt (dump_control_definition (cv_definition controls))) (\<lambda>d.
     require (cv_digest controls = d) (ResourceConflictError ''credential import lineage is inconsistent'')))"

definition check_import_probe ::
  "(string \<Rightarrow> string) \<Rightarrow> (int \<Rightarrow> string) \<Rightarrow> managed_credential \<Rightarrow> control_version \<Rightarrow> probe_version \<Rightarrow> unit result" where
  "check_import_probe sha fmt credential controls p =
     bindr (require (pv_organisation_id p = mc_organisation_id credential
         \<and> pv_id p \<in> controlled_probes (cv_definition controls) \<and> pv_state p = Probe_Active)
       (ResourceConflictError ''credential control probes are inconsistent'')) (\<lambda>_.
     bindr (digest sha fmt (dump_probe_definition (pv_definition p))) (\<lambda>d.
     require (pv_digest p = d) (ResourceConflictError ''credential control probes are inconsistent'')))"

definition consumers_match :: "managed_credential \<Rightarrow> consumer_binding list \<Rightarrow> bool" where
  "consumers_match credential bindings \<longleftrightarrow>
     length bindings = length (mc_consumer_ids credential)
     \<and> set (mc_consumer_ids credential) = set (map cb_service_id bindings)"

definition check_import_setup :: "managed_credential \<Rightarrow> service_setup option \<Rightarrow> unit result" where
  "check_import_setup credential setup =
     (case setup of None \<Rightarrow> Inr ()
      | Some (a, e, v) \<Rightarrow>
          require (app_organisation_id a = mc_organisation_id credential
              \<and> env_organisation_id e = mc_organisation_id credential
              \<and> csv_organisation_id v = mc_organisation_id credential
              \<and> env_application_id e = app_id a \<and> csv_application_id v = app_id a \<and> csv_environment_id v = env_id e)
            (ResourceConflictError ''runtime service inventory is inconsistent''))"

definition check_import_binding ::
  "managed_credential \<Rightarrow> credential_generation \<Rightarrow> consumer_binding \<times> consumer_service \<times> connection \<Rightarrow> unit result" where
  "check_import_binding credential generation = (\<lambda>(b, service, runtime).
     require (cb_organisation_id b = mc_organisation_id credential
         \<and> cb_credential_id b = mc_id credential
         \<and> cb_current_generation_id b = cg_id generation
         \<and> Some (cb_secret_reference b) = cg_secret_reference generation
         \<and> cb_service_id b = csv_id service
         \<and> cb_environment_id b = csv_environment_id service
         \<and> cb_runtime_connection_id b = csv_runtime_connection_id service
         \<and> cb_runtime_resource b = csv_runtime_resource service
         \<and> con_id runtime = cb_runtime_connection_id b \<and> role_ready Role_Runtime runtime)
       (ResourceConflictError ''credential consumer binding changed during import''))"

definition put_setup :: "service_setup option \<Rightarrow> inventory_store \<Rightarrow> inventory_store" where
  "put_setup setup s =
     (case setup of None \<Rightarrow> s
      | Some (a, e, v) \<Rightarrow>
          put_service (csv_organisation_id v) (csv_id v) v
            (put_environment (env_organisation_id e) (env_id e) e (put_application (app_organisation_id a) (app_id a) a s)))"

definition put_binding :: "consumer_binding \<Rightarrow> generation_store \<Rightarrow> generation_store" where
  "put_binding b s = s\<lparr>gs_bindings := (gs_bindings s)((cb_organisation_id b, cb_id b) \<mapsto> b)\<rparr>"

definition put_probe_versions :: "probe_version list \<Rightarrow> inventory_store \<Rightarrow> inventory_store" where
  "put_probe_versions probes s =
     s\<lparr>ivs_probes := fold (\<lambda>p docs. docs((pv_organisation_id p, pv_id p) \<mapsto> p)) probes (ivs_probes s)\<rparr>"

definition imported_store ::
  "managed_credential \<Rightarrow> credential_generation \<Rightarrow> consumer_binding list \<Rightarrow> control_version \<Rightarrow> probe_version list
     \<Rightarrow> service_setup option \<Rightarrow> inventory_store \<Rightarrow> inventory_store" where
  "imported_store credential generation bindings controls probes setup s =
     (let s1 = put_setup setup s;
          lineage = fold put_binding bindings
            (put_generation (cg_organisation_id generation) (cg_id generation) generation
              (put_credential (mc_organisation_id credential) (mc_id credential) credential (ivs_lineage s1))) in
      put_probe_versions probes
        (s1\<lparr>ivs_lineage := lineage,
            ivs_controls := (ivs_controls s1)
              ((cv_organisation_id controls, cv_credential_id controls, cv_id controls) \<mapsto> controls)\<rparr>))"

definition present :: "'a option \<Rightarrow> 'a result" where
  "present doc =
     (case doc of None \<Rightarrow> Inl (ResourceNotFoundError ''credential connection or consumer service is missing'')
      | Some d \<Rightarrow> Inr d)"

text \<open>A transaction that creates a document twice fails when it commits.\<close>

definition repo_import_credential ::
  "(string \<Rightarrow> string) \<Rightarrow> (int \<Rightarrow> string) \<Rightarrow> (string \<Rightarrow> bool) \<Rightarrow> managed_credential \<Rightarrow> credential_generation
     \<Rightarrow> consumer_binding list \<Rightarrow> control_version \<Rightarrow> probe_version list \<Rightarrow> service_setup option \<Rightarrow> inventory_store
     \<Rightarrow> (managed_credential \<times> inventory_store) result" where
  "repo_import_credential sha fmt ip credential generation bindings controls probes setup s =
     (let org = mc_organisation_id credential in
      bindr (segments ([org, mc_id credential, cg_organisation_id generation, cg_id generation, cv_organisation_id controls,
        cv_credential_id controls, cv_id controls, mc_connection_id credential, mc_secret_store_connection_id credential]
        @ concat (map (\<lambda>p. [pv_organisation_id p, pv_id p]) probes) @ concat (map binding_segments bindings)
        @ setup_segments setup)) (\<lambda>_.
      bindr (check_import_absent credential generation bindings controls probes setup s) (\<lambda>_.
      bindr (present (ivs_connections s (org, mc_connection_id credential))) (\<lambda>management_doc.
      bindr (present (ivs_connections s (org, mc_secret_store_connection_id credential))) (\<lambda>secret_doc.
      bindr (require (services_present setup s bindings)
        (ResourceNotFoundError ''credential connection or consumer service is missing'')) (\<lambda>_.
      bindr (validate_connection ip management_doc) (\<lambda>management.
      bindr (validate_connection ip secret_doc) (\<lambda>secret_store.
      bindr (mapr (imported_service setup s) bindings) (\<lambda>services.
      bindr (mapr (\<lambda>b. bindr (present (ivs_connections s (cb_organisation_id b, cb_runtime_connection_id b)))
        (validate_connection ip)) bindings) (\<lambda>runtimes.
      bindr (check_import_connections credential management secret_store) (\<lambda>_.
      bindr (check_import_lineage sha fmt credential generation controls) (\<lambda>_.
      bindr (mapr (check_import_probe sha fmt credential controls) probes) (\<lambda>_.
      bindr (require (consumers_match credential bindings)
        (ResourceConflictError ''credential consumers changed during import'')) (\<lambda>_.
      bindr (check_import_setup credential setup) (\<lambda>_.
      bindr (mapr (check_import_binding credential generation) (zip bindings (zip services runtimes))) (\<lambda>_.
      bindr (require (distinct (map (\<lambda>p. (pv_organisation_id p, pv_id p)) probes)
          \<and> distinct (map (\<lambda>b. (cb_organisation_id b, cb_id b)) bindings)) (RuntimeError ''AlreadyExists'')) (\<lambda>_.
      Inr (credential, imported_store credential generation bindings controls probes setup s))))))))))))))))))"

section \<open>Controls and archives\<close>

definition repo_replace_controls ::
  "managed_credential \<Rightarrow> int \<Rightarrow> control_version \<Rightarrow> inventory_store
     \<Rightarrow> ((managed_credential \<times> control_version) \<times> inventory_store) result" where
  "repo_replace_controls credential expected_revision controls s =
     (let org = mc_organisation_id credential;
          key = (cv_organisation_id controls, cv_credential_id controls, cv_id controls) in
      bindr (segments [org, mc_id credential, cv_organisation_id controls, cv_credential_id controls, cv_id controls]) (\<lambda>_.
      case gs_credentials (ivs_lineage s) (org, mc_id credential) of
        None \<Rightarrow> Inl (ResourceNotFoundError (''credential '' @ mc_id credential @ '' was not found''))
      | Some doc \<Rightarrow>
          bindr (require (ivs_controls s key = None)
            (ResourceConflictError (''control version '' @ cv_id controls @ '' already exists''))) (\<lambda>_.
          bindr (validate_credential doc) (\<lambda>current.
          bindr (require (mc_revision current = expected_revision)
            (ResourceConflictError (''credential expected revision '' @ int_text expected_revision @ '', found ''
               @ int_text (mc_revision current)))) (\<lambda>_.
          bindr (require (mc_revision credential = expected_revision + 1 \<and> mc_control_version credential = cv_id controls
              \<and> cv_credential_id controls = mc_id credential \<and> cv_organisation_id controls = org)
            (StorageIntegrityError ''credential controls update is inconsistent'')) (\<lambda>_.
          Inr ((credential, controls),
            put_managed org (mc_id credential) credential (s\<lparr>ivs_controls := (ivs_controls s)(key \<mapsto> controls)\<rparr>))))))))"

datatype inventory_resource =
    Res_Connection connection
  | Res_Application application
  | Res_Environment environment
  | Res_Service consumer_service
  | Res_Credential managed_credential

fun resource_organisation :: "inventory_resource \<Rightarrow> string" where
  "resource_organisation (Res_Connection c) = con_organisation_id c"
| "resource_organisation (Res_Application a) = app_organisation_id a"
| "resource_organisation (Res_Environment e) = env_organisation_id e"
| "resource_organisation (Res_Service v) = csv_organisation_id v"
| "resource_organisation (Res_Credential c) = mc_organisation_id c"

fun resource_id :: "inventory_resource \<Rightarrow> string" where
  "resource_id (Res_Connection c) = con_id c"
| "resource_id (Res_Application a) = app_id a"
| "resource_id (Res_Environment e) = env_id e"
| "resource_id (Res_Service v) = csv_id v"
| "resource_id (Res_Credential c) = mc_id c"

fun resource_revision :: "inventory_resource \<Rightarrow> int" where
  "resource_revision (Res_Connection c) = con_revision c"
| "resource_revision (Res_Application a) = app_revision a"
| "resource_revision (Res_Environment e) = env_revision e"
| "resource_revision (Res_Service v) = csv_revision v"
| "resource_revision (Res_Credential c) = mc_revision c"

fun resource_archived_at :: "inventory_resource \<Rightarrow> int option" where
  "resource_archived_at (Res_Connection c) = con_archived_at c"
| "resource_archived_at (Res_Application a) = app_archived_at a"
| "resource_archived_at (Res_Environment e) = env_archived_at e"
| "resource_archived_at (Res_Service v) = csv_archived_at v"
| "resource_archived_at (Res_Credential c) = mc_archived_at c"

text \<open>The document of the type and at the path of a resource.\<close>

fun stored_resource :: "inventory_store \<Rightarrow> inventory_resource \<Rightarrow> inventory_resource option" where
  "stored_resource s (Res_Connection c) = map_option Res_Connection (ivs_connections s (con_organisation_id c, con_id c))"
| "stored_resource s (Res_Application a) = map_option Res_Application (ivs_applications s (app_organisation_id a, app_id a))"
| "stored_resource s (Res_Environment e) = map_option Res_Environment (ivs_environments s (env_organisation_id e, env_id e))"
| "stored_resource s (Res_Service v) = map_option Res_Service (ivs_services s (csv_organisation_id v, csv_id v))"
| "stored_resource s (Res_Credential c) =
     map_option Res_Credential (gs_credentials (ivs_lineage s) (mc_organisation_id c, mc_id c))"

fun validate_resource :: "(string \<Rightarrow> bool) \<Rightarrow> inventory_resource \<Rightarrow> inventory_resource result" where
  "validate_resource ip (Res_Connection c) = bindr (validate_connection ip c) (\<lambda>c. Inr (Res_Connection c))"
| "validate_resource ip (Res_Application a) = bindr (validate_application a) (\<lambda>a. Inr (Res_Application a))"
| "validate_resource ip (Res_Environment e) = bindr (validate_environment e) (\<lambda>e. Inr (Res_Environment e))"
| "validate_resource ip (Res_Service v) = bindr (validate_service v) (\<lambda>v. Inr (Res_Service v))"
| "validate_resource ip (Res_Credential c) = bindr (validate_credential c) (\<lambda>c. Inr (Res_Credential c))"

fun put_resource :: "inventory_resource \<Rightarrow> inventory_store \<Rightarrow> inventory_store" where
  "put_resource (Res_Connection c) s = put_connection (con_organisation_id c) (con_id c) c s"
| "put_resource (Res_Application a) s = put_application (app_organisation_id a) (app_id a) a s"
| "put_resource (Res_Environment e) s = put_environment (env_organisation_id e) (env_id e) e s"
| "put_resource (Res_Service v) s = put_service (csv_organisation_id v) (csv_id v) v s"
| "put_resource (Res_Credential c) s = put_managed (mc_organisation_id c) (mc_id c) c s"

definition archivable :: "inventory_resource \<Rightarrow> inventory_resource \<Rightarrow> bool" where
  "archivable current resource \<longleftrightarrow>
     resource_organisation current = resource_organisation resource \<and> resource_id current = resource_id resource
     \<and> resource_revision current + 1 = resource_revision resource
     \<and> resource_archived_at current = None \<and> resource_archived_at resource \<noteq> None"

definition remove_binding :: "consumer_binding \<Rightarrow> generation_store \<Rightarrow> generation_store" where
  "remove_binding b s = s\<lparr>gs_bindings := (gs_bindings s)((cb_organisation_id b, cb_id b) := None)\<rparr>"

definition archived_store ::
  "inventory_resource list \<Rightarrow> consumer_binding list \<Rightarrow> inventory_store \<Rightarrow> inventory_store" where
  "archived_store resources bindings s =
     (let s' = fold put_resource resources s in s'\<lparr>ivs_lineage := fold remove_binding bindings (ivs_lineage s')\<rparr>)"

definition repo_archive_inventory ::
  "(string \<Rightarrow> bool) \<Rightarrow> inventory_resource list \<Rightarrow> consumer_binding list \<Rightarrow> inventory_store \<Rightarrow> (unit \<times> inventory_store) result" where
  "repo_archive_inventory ip resources bindings s =
     bindr (segments (concat (map (\<lambda>r. [resource_organisation r, resource_id r]) resources)
       @ concat (map (\<lambda>b. [cb_organisation_id b, cb_id b]) bindings))) (\<lambda>_.
     case (those (map (stored_resource s) resources),
           those (map (\<lambda>b. gs_bindings (ivs_lineage s) (cb_organisation_id b, cb_id b)) bindings)) of
       (None, _) \<Rightarrow> Inl (ResourceNotFoundError ''archive target changed before confirmation'')
     | (_, None) \<Rightarrow> Inl (ResourceConflictError ''archive dependencies changed before confirmation'')
     | (Some docs, Some bound_docs) \<Rightarrow>
         bindr (mapr (\<lambda>(doc, resource). bindr (validate_resource ip doc) (\<lambda>current.
           require (archivable current resource)
             (ResourceConflictError ''archive target changed before confirmation''))) (zip docs resources)) (\<lambda>_.
         bindr (mapr (\<lambda>(doc, b). bindr (validate_binding doc) (\<lambda>current.
           require (current = b)
             (ResourceConflictError ''archive dependencies changed before confirmation''))) (zip bound_docs bindings)) (\<lambda>_.
         Inr ((), archived_store resources bindings s))))"

end
