(* ===== verification/Probe_Theorems.thy ===== *)
theory Probe_Theorems imports Compiler_Theorems Inventory_Store begin
text \<open>
  Probes and their versions: \<open>Probe\<close> of packages/contracts/src/contracts/verification.py, the repository of
  server/core/storage/probe.py and the service of server/core/verification/service.py, whose calls are single
  transactions: a function on the store that raises or gives a value and the new store. The import of a credential
  (theory Inventory_Store) writes probe versions of its own beside them, with no probe document: the histories below
  include it.
\<close>

section \<open>Documents\<close>

record probe =
  pro_id :: string
  pro_organisation_id :: string
  pro_name :: string
  pro_latest_version :: int
  pro_active_version_id :: "string option"
  pro_created_at :: int
  pro_updated_at :: int
  pro_revision :: int

definition probe_fields_ok :: "probe \<Rightarrow> bool" where
  "probe_fields_ok p \<longleftrightarrow>
     identifier_ok (pro_id p) \<and> identifier_ok (pro_organisation_id p) \<and> text_between 1 160 (pro_name p)
     \<and> 0 \<le> pro_latest_version p \<and> opt_ok identifier_ok (pro_active_version_id p) \<and> 0 \<le> pro_revision p"

definition make_probe :: "probe \<Rightarrow> probe result" where
  "make_probe p = (if probe_fields_ok p then Inr p else Inl (FieldError ''Probe''))"

record probe_store =
  prs_probes :: "string \<times> string \<rightharpoonup> probe"
  prs_versions :: "string \<times> string \<rightharpoonup> probe_version"

definition put_probe :: "string \<Rightarrow> string \<Rightarrow> probe \<Rightarrow> probe_store \<Rightarrow> probe_store" where
  "put_probe org i p s = s\<lparr>prs_probes := (prs_probes s)((org, i) \<mapsto> p)\<rparr>"

definition put_probe_version :: "string \<Rightarrow> string \<Rightarrow> probe_version \<Rightarrow> probe_store \<Rightarrow> probe_store" where
  "put_probe_version org v doc s = s\<lparr>prs_versions := (prs_versions s)((org, v) \<mapsto> doc)\<rparr>"

section \<open>The repository\<close>

definition probe_create :: "probe \<Rightarrow> probe_store \<Rightarrow> (probe \<times> probe_store) result" where
  "probe_create p s =
     (let org = pro_organisation_id p; i = pro_id p in
      bindr (segments [org, i]) (\<lambda>_.
      bindr (require (prs_probes s (org, i) = None)
        (ResourceConflictError (''probe '' @ i @ '' already exists''))) (\<lambda>_.
      Inr (p, put_probe org i p s))))"

definition probe_create_version ::
  "(string \<Rightarrow> string) \<Rightarrow> (int \<Rightarrow> string) \<Rightarrow> string \<Rightarrow> string \<Rightarrow> (int \<Rightarrow> probe_version result) \<Rightarrow> probe_store
     \<Rightarrow> (probe_version \<times> probe_store) result" where
  "probe_create_version sha fmt org probe_id factory s =
     bindr (segments [org, probe_id]) (\<lambda>_.
     case prs_probes s (org, probe_id) of
       None \<Rightarrow> Inl (ResourceNotFoundError (''probe '' @ probe_id @ '' was not found''))
     | Some doc \<Rightarrow>
         bindr (make_probe doc) (\<lambda>probe.
         bindr (factory (pro_latest_version probe + 1)) (\<lambda>version.
         bindr (digest sha fmt (dump_probe_definition (pv_definition version))) (\<lambda>d.
         bindr (require (\<not> (pv_probe_id version \<noteq> pro_id probe \<or> pv_number version \<noteq> pro_latest_version probe + 1
             \<or> pv_state version \<noteq> Probe_Draft \<or> pv_digest version \<noteq> d))
           (StorageIntegrityError ''probe version factory changed immutable inputs'')) (\<lambda>_.
         bindr (segments [org, pv_id version]) (\<lambda>_.
         bindr (require (prs_versions s (org, pv_id version) = None)
           (ResourceConflictError (''probe version '' @ pv_id version @ '' already exists''))) (\<lambda>_.
         Inr (version,
           put_probe org probe_id (probe\<lparr>pro_latest_version := pv_number version, pro_updated_at := pv_created_at version,
             pro_revision := pro_revision probe + 1\<rparr>)
           (put_probe_version org (pv_id version) version s)))))))))"

text \<open>The version that was active before is superseded.\<close>

definition supersede_probe :: "string \<Rightarrow> string option \<Rightarrow> probe_store \<Rightarrow> probe_store result" where
  "supersede_probe org active s =
     (case active of
        None \<Rightarrow> Inr s
      | Some i \<Rightarrow>
          bindr (segments [org, i]) (\<lambda>_.
          case prs_versions s (org, i) of
            None \<Rightarrow> Inl (StorageIntegrityError ''active probe version disappeared'')
          | Some doc \<Rightarrow>
              bindr (validate_probe_version doc) (\<lambda>old.
              Inr (put_probe_version org i (old\<lparr>pv_state := Probe_Superseded\<rparr>) s))))"

definition probe_activate ::
  "string \<Rightarrow> string \<Rightarrow> string \<Rightarrow> string \<Rightarrow> int \<Rightarrow> probe_store \<Rightarrow> (probe_version \<times> probe_store) result" where
  "probe_activate org probe_id version_id actor_id now s =
     bindr (segments [org, probe_id]) (\<lambda>_.
     bindr (segments [org, version_id]) (\<lambda>_.
     case (prs_probes s (org, probe_id), prs_versions s (org, version_id)) of
       (Some probe_doc, Some version_doc) \<Rightarrow>
         bindr (make_probe probe_doc) (\<lambda>probe.
         bindr (validate_probe_version version_doc) (\<lambda>version.
         bindr (require (\<not> (pv_probe_id version \<noteq> pro_id probe \<or> pv_state version \<noteq> Probe_Draft))
           (ResourceConflictError ''only a draft version of this probe can activate'')) (\<lambda>_.
         let active = version\<lparr>pv_state := Probe_Active, pv_approved_by := Some actor_id, pv_approved_at := Some now\<rparr> in
         bindr (supersede_probe org (pro_active_version_id probe) s) (\<lambda>s'.
         Inr (active,
           put_probe org probe_id (probe\<lparr>pro_active_version_id := Some (pv_id active), pro_updated_at := now,
             pro_revision := pro_revision probe + 1\<rparr>)
           (put_probe_version org version_id active s'))))))
     | _ \<Rightarrow> Inl (ResourceNotFoundError ''probe or probe version was not found'')))"

section \<open>The service\<close>

definition create_probe :: "string \<Rightarrow> string \<Rightarrow> string \<Rightarrow> int \<Rightarrow> probe_store \<Rightarrow> (probe \<times> probe_store) result" where
  "create_probe org probe_id name now s =
     bindr (make_probe
       \<lparr>pro_id = probe_id, pro_organisation_id = org, pro_name = name, pro_latest_version = 0, pro_active_version_id = None,
        pro_created_at = now, pro_updated_at = now, pro_revision = 0\<rparr>) (\<lambda>p. probe_create p s)"

text \<open>The factory of \<open>create_version\<close>.\<close>

definition probe_draft_version ::
  "(string \<Rightarrow> string) \<Rightarrow> (int \<Rightarrow> string) \<Rightarrow> string \<Rightarrow> string \<Rightarrow> probe_definition \<Rightarrow> string \<Rightarrow> int \<Rightarrow> int \<Rightarrow> probe_version result" where
  "probe_draft_version sha fmt org probe_id definition actor_id now number =
     bindr (digest sha fmt (dump_probe_definition definition)) (\<lambda>d.
     validate_probe_version
       \<lparr>pv_id = pd_id definition, pv_organisation_id = org, pv_probe_id = probe_id, pv_number = number,
        pv_definition = definition, pv_digest = d, pv_state = Probe_Draft, pv_created_by = actor_id, pv_created_at = now,
        pv_approved_by = None, pv_approved_at = None\<rparr>)"

definition create_probe_version ::
  "(string \<Rightarrow> string) \<Rightarrow> (int \<Rightarrow> string) \<Rightarrow> string \<Rightarrow> string \<Rightarrow> probe_definition \<Rightarrow> string \<Rightarrow> int \<Rightarrow> probe_store
     \<Rightarrow> (probe_version \<times> probe_store) result" where
  "create_probe_version sha fmt org probe_id definition actor_id now s =
     bindr (require (pd_organisation_id definition = org)
       (ValueError ''probe definition crosses organisation boundaries'')) (\<lambda>_.
     probe_create_version sha fmt org probe_id (probe_draft_version sha fmt org probe_id definition actor_id now) s)"

definition activate_probe :: "string \<Rightarrow> string \<Rightarrow> string \<Rightarrow> string \<Rightarrow> int \<Rightarrow> probe_store \<Rightarrow> (probe_version \<times> probe_store) result" where
  "activate_probe org probe_id version_id actor_id now s = probe_activate org probe_id version_id actor_id now s"

section \<open>Calls\<close>

inductive probe_step :: "(string \<Rightarrow> string) \<Rightarrow> (int \<Rightarrow> string) \<Rightarrow> probe_store \<Rightarrow> probe_store \<Rightarrow> bool" for sha fmt where
  create: "create_probe org i name now s = Inr (p, s') \<Longrightarrow> probe_step sha fmt s s'"
| version: "create_probe_version sha fmt org i d actor now s = Inr (v, s') \<Longrightarrow> probe_step sha fmt s s'"
| activate: "activate_probe org i v actor now s = Inr (w, s') \<Longrightarrow> identifier_ok actor \<Longrightarrow> probe_step sha fmt s s'"

section \<open>The invariant\<close>

definition probe_version_sound :: "(string \<Rightarrow> string) \<Rightarrow> (int \<Rightarrow> string) \<Rightarrow> probe_store \<Rightarrow> string \<Rightarrow> string \<Rightarrow> probe_version \<Rightarrow> bool" where
  "probe_version_sound sha fmt s org v doc \<longleftrightarrow>
     pv_id doc = v \<and> pv_organisation_id doc = org \<and> validate_probe_version doc = Inr doc
     \<and> digest sha fmt (dump_probe_definition (pv_definition doc)) = Inr (pv_digest doc)
     \<and> (\<exists>p. prs_probes s (org, pv_probe_id doc) = Some p \<and> pv_number doc \<le> pro_latest_version p
          \<and> (pv_state doc = Probe_Active \<longleftrightarrow> pro_active_version_id p = Some v))"

definition probes_sound :: "(string \<Rightarrow> string) \<Rightarrow> (int \<Rightarrow> string) \<Rightarrow> probe_store \<Rightarrow> bool" where
  "probes_sound sha fmt s \<longleftrightarrow>
     (\<forall>org i p. prs_probes s (org, i) = Some p \<longrightarrow> pro_id p = i \<and> pro_organisation_id p = org
        \<and> (\<forall>v. pro_active_version_id p = Some v \<longrightarrow> (\<exists>doc. prs_versions s (org, v) = Some doc \<and> pv_probe_id doc = i)))
     \<and> (\<forall>org v doc. prs_versions s (org, v) = Some doc \<longrightarrow> probe_version_sound sha fmt s org v doc)
     \<and> (\<forall>org v w d e. prs_versions s (org, v) = Some d \<longrightarrow> prs_versions s (org, w) = Some e \<longrightarrow> pv_probe_id d = pv_probe_id e
          \<longrightarrow> pv_number d = pv_number e \<longrightarrow> v = w)"


text \<open>
  What every call of the probe service keeps, and a probe whose first version is replaced by a second one.
\<close>

section \<open>Every call keeps probes sound\<close>

lemma create_probe_sound:
  assumes "create_probe org i name now s = Inr (p, s')" "probes_sound sha fmt s"
  shows "probes_sound sha fmt s'"
proof -
  from assms(1) have absent: "prs_probes s (org, i) = None" and p: "pro_id p = i" "pro_organisation_id p = org" "pro_active_version_id p = None"
    and s': "s' = put_probe org i p s"
    by (auto simp: create_probe_def probe_create_def make_probe_def Let_def bindr_eq_Inr require_eq_Inr split: if_splits)
  have "probe_version_sound sha fmt s' o' v doc" if "probe_version_sound sha fmt s o' v doc" for o' v doc
    using that absent by (auto simp: probe_version_sound_def s' put_probe_def)
  with assms(2) p show ?thesis by (auto simp: probes_sound_def s' put_probe_def)
qed

lemma create_version_sound:
  assumes "create_probe_version sha fmt org i d actor now s = Inr (doc, s')" "probes_sound sha fmt s"
  shows "probes_sound sha fmt s'"
proof -
  from assms(1) obtain p where p: "prs_probes s (org, i) = Some p" and absent: "prs_versions s (org, pv_id doc) = None"
    and doc: "pv_organisation_id doc = org" "pv_probe_id doc = i" "validate_probe_version doc = Inr doc" "pv_state doc = Probe_Draft"
      "pv_number doc = pro_latest_version p + 1" "digest sha fmt (dump_probe_definition (pv_definition doc)) = Inr (pv_digest doc)"
    and s': "s' = put_probe org i (p\<lparr>pro_latest_version := pv_number doc, pro_updated_at := pv_created_at doc,
        pro_revision := pro_revision p + 1\<rparr>) (put_probe_version org (pv_id doc) doc s)"
    by (auto simp: create_probe_version_def probe_create_version_def probe_draft_version_def make_probe_def validate_probe_version_def
        bindr_eq_Inr require_eq_Inr split: option.splits if_splits)
  have sound: "probe_version_sound sha fmt s o' v e" if "prs_versions s (o', v) = Some e" for o' v e
    using assms(2) that by (auto simp: probes_sound_def)
  have kept: "probe_version_sound sha fmt s' o' v e" if "probe_version_sound sha fmt s o' v e" for o' v e
    using that p doc(5) by (auto simp: probe_version_sound_def s' put_probe_def put_probe_version_def)
  have "pro_active_version_id p \<noteq> Some (pv_id doc)"
    using assms(2) p absent unfolding probes_sound_def by (metis option.distinct(1))
  then have new: "probe_version_sound sha fmt s' org (pv_id doc) doc"
    using doc by (auto simp: probe_version_sound_def s' put_probe_def put_probe_version_def)
  have older: "pv_number e \<noteq> pv_number doc" if "prs_versions s (org, v) = Some e" "pv_probe_id e = i" for v e
    using sound [OF that(1)] that(2) p doc(5) by (auto simp: probe_version_sound_def)
  have "pro_id q = j \<and> pro_organisation_id q = o' \<and> (\<forall>v. pro_active_version_id q = Some v \<longrightarrow>
      (\<exists>e. prs_versions s' (o', v) = Some e \<and> pv_probe_id e = j))" if "prs_probes s' (o', j) = Some q" for o' j q
  proof -
    from that p obtain q0 where q0: "prs_probes s (o', j) = Some q0" "pro_id q = pro_id q0"
      "pro_organisation_id q = pro_organisation_id q0" "pro_active_version_id q = pro_active_version_id q0"
      by (auto simp: s' put_probe_def put_probe_version_def split: if_splits)
    have "prs_versions s' (o', v) = Some e" if "prs_versions s (o', v) = Some e" for v e
      using that absent by (auto simp: s' put_probe_def put_probe_version_def)
    with q0 assms(2) show ?thesis unfolding probes_sound_def by metis
  qed
  moreover have "probe_version_sound sha fmt s' o' v e" if "prs_versions s' (o', v) = Some e" for o' v e
    using that new kept sound by (auto simp: s' put_probe_def put_probe_version_def split: if_splits)
  moreover have "v = w" if "prs_versions s' (o', v) = Some e" "prs_versions s' (o', w) = Some f" "pv_probe_id e = pv_probe_id f"
    "pv_number e = pv_number f" for o' v w e f
    using that older doc(2) assms(2)
    by (auto simp: probes_sound_def s' put_probe_def put_probe_version_def split: if_splits)
  ultimately show ?thesis unfolding probes_sound_def by blast
qed

lemma activate_sound:
  assumes "activate_probe org i v actor now s = Inr (x, s')" "identifier_ok actor" "probes_sound sha fmt s"
  shows "probes_sound sha fmt s'"
proof -
  from assms(1) obtain p doc s1 where p: "prs_probes s (org, i) = Some p" and doc: "prs_versions s (org, v) = Some doc"
      "pv_probe_id doc = pro_id p" "pv_state doc = Probe_Draft"
    and s1: "supersede_probe org (pro_active_version_id p) s = Inr s1"
    and x: "x = doc\<lparr>pv_state := Probe_Active, pv_approved_by := Some actor, pv_approved_at := Some now\<rparr>"
    and s': "s' = put_probe org i (p\<lparr>pro_active_version_id := Some (pv_id x), pro_updated_at := now, pro_revision := pro_revision p + 1\<rparr>)
        (put_probe_version org v x s1)"
    by (auto simp: activate_probe_def probe_activate_def make_probe_def validate_probe_version_def Let_def bindr_eq_Inr require_eq_Inr
        split: option.splits if_splits)
  have sound: "probe_version_sound sha fmt s o' w e" if "prs_versions s (o', w) = Some e" for o' w e
    using assms(3) that by (auto simp: probes_sound_def)
  from sound [OF doc(1)] have id: "pv_id doc = v" by (simp add: probe_version_sound_def)
  from assms(3) p have pi: "pro_id p = i" by (auto simp: probes_sound_def)
  have active: "pro_active_version_id p \<noteq> Some v"
    using sound [OF doc(1)] p doc(2,3) pi by (auto simp: probe_version_sound_def)
  have old: "\<exists>e. prs_versions s (org, a) = Some e \<and> pv_probe_id e = i" if "pro_active_version_id p = Some a" for a
    using assms(3) p that unfolding probes_sound_def by blast
  have versions: "prs_versions s1 k = (if \<exists>a. k = (org, a) \<and> pro_active_version_id p = Some a
      then map_option (\<lambda>e. e\<lparr>pv_state := Probe_Superseded\<rparr>) (prs_versions s k) else prs_versions s k)" for k
    using s1 by (cases "pro_active_version_id p")
      (auto simp: supersede_probe_def put_probe_version_def bindr_eq_Inr validate_probe_version_def split: option.splits if_splits)
  have roots: "prs_probes s1 = prs_probes s"
    using s1 by (auto simp: supersede_probe_def put_probe_version_def bindr_eq_Inr split: option.splits if_splits)
  have after: "prs_versions s' (o', w) = (if (o', w) = (org, v) then Some x else prs_versions s1 (o', w))" for o' w
    by (simp add: s' put_probe_def put_probe_version_def)
  have origin: "\<exists>e. prs_versions s (o', w) = Some e \<and> pv_number f = pv_number e \<and> pv_probe_id f = pv_probe_id e"
    if "prs_versions s' (o', w) = Some f" for o' w f
    using that doc(1) by (auto simp: after versions x split: if_splits)
  have later: "\<exists>f. prs_versions s' (o', w) = Some f \<and> pv_probe_id f = pv_probe_id e" if "prs_versions s (o', w) = Some e" for o' w e
    using that doc(1) by (auto simp: after versions x)
  have "pro_id q = j \<and> pro_organisation_id q = o' \<and> (\<forall>w. pro_active_version_id q = Some w \<longrightarrow>
      (\<exists>e. prs_versions s' (o', w) = Some e \<and> pv_probe_id e = j))" if q: "prs_probes s' (o', j) = Some q" for o' j q
  proof (cases "(o', j) = (org, i)")
    case True
    with q p assms(3) show ?thesis
      by (auto simp: s' put_probe_def put_probe_version_def probes_sound_def x id pi doc(2))
  next
    case False
    with q roots have "prs_probes s (o', j) = Some q" by (auto simp: s' put_probe_def put_probe_version_def)
    with assms(3) have "pro_id q = j" "pro_organisation_id q = o'"
      "\<And>w. pro_active_version_id q = Some w \<Longrightarrow> \<exists>e. prs_versions s (o', w) = Some e \<and> pv_probe_id e = j"
      unfolding probes_sound_def by blast+
    with later show ?thesis by metis
  qed
  moreover have "probe_version_sound sha fmt s' o' w f" if f: "prs_versions s' (o', w) = Some f" for o' w f
  proof (cases "(o', w) = (org, v)")
    case True
    with f have "f = x" by (simp add: after)
    with True sound [OF doc(1)] p assms(2) doc(2,3) pi show ?thesis
      by (auto simp: x probe_version_sound_def s' put_probe_def put_probe_version_def validate_probe_version_def
          probe_version_fields_ok_def validate_version_def bindr_eq_Inr require_eq_Inr split: if_splits)
  next
    case False
    with f obtain e where e: "prs_versions s (o', w) = Some e" and
      fe: "f = (if o' = org \<and> pro_active_version_id p = Some w then e\<lparr>pv_state := Probe_Superseded\<rparr> else e)"
      by (auto simp: after versions split: if_splits)
    from sound [OF e] False p old [of w] e show ?thesis
      by (auto simp: fe probe_version_sound_def s' put_probe_def put_probe_version_def x id roots validate_probe_version_def
          probe_version_fields_ok_def validate_version_def bindr_eq_Inr require_eq_Inr split: if_splits)
  qed
  moreover have "u = w" if "prs_versions s' (o', u) = Some e" "prs_versions s' (o', w) = Some f" "pv_probe_id e = pv_probe_id f"
    "pv_number e = pv_number f" for o' u w e f
    using origin [OF that(1)] origin [OF that(2)] that(3,4) assms(3) unfolding probes_sound_def by metis
  ultimately show ?thesis unfolding probes_sound_def by blast
qed

lemma probe_step_sound: "probe_step sha fmt s s' \<Longrightarrow> probes_sound sha fmt s \<Longrightarrow> probes_sound sha fmt s'"
  by (cases rule: probe_step.cases) (auto intro: create_probe_sound create_version_sound activate_sound)

definition no_probes :: probe_store where
  "no_probes = \<lparr>prs_probes = Map.empty, prs_versions = Map.empty\<rparr>"

section \<open>Imported versions\<close>

text \<open>
  The import of a credential writes versions of probes that have no document to the same collection. \<open>imported\<close>
  are the names of these versions; without them the service works as it does with them.
\<close>

definition own_versions :: "(string \<times> string) set \<Rightarrow> probe_store \<Rightarrow> probe_store" where
  "own_versions imported s = s\<lparr>prs_versions := prs_versions s |` (- imported)\<rparr>"

definition version_key :: "probe_version \<Rightarrow> string \<times> string" where
  "version_key v = (pv_organisation_id v, pv_id v)"

inductive probe_history ::
  "(string \<Rightarrow> string) \<Rightarrow> (int \<Rightarrow> string) \<Rightarrow> probe_store \<Rightarrow> (string \<times> string) set \<Rightarrow> bool" for sha fmt where
  empty: "probe_history sha fmt no_probes {}"
| call: "probe_history sha fmt s imported \<Longrightarrow> probe_step sha fmt s s' \<Longrightarrow> probe_history sha fmt s' imported"
| imported: "probe_history sha fmt s imported
    \<Longrightarrow> repo_import_credential sha fmt ip credential generation bindings controls versions setup iv = Inr (c, iv')
    \<Longrightarrow> ivs_probes iv = prs_versions s \<Longrightarrow> list_all (\<lambda>v. validate_probe_version v = Inr v) versions
    \<Longrightarrow> probe_history sha fmt (s\<lparr>prs_versions := ivs_probes iv'\<rparr>)
          (imported \<union> version_key ` set versions)"

definition imported_version :: "(string \<Rightarrow> string) \<Rightarrow> (int \<Rightarrow> string) \<Rightarrow> probe_store \<Rightarrow> string \<times> string \<Rightarrow> bool" where
  "imported_version sha fmt s k \<longleftrightarrow>
     (\<exists>doc. prs_versions s k = Some doc \<and> validate_probe_version doc = Inr doc \<and> pv_state doc = Probe_Active
        \<and> digest sha fmt (dump_probe_definition (pv_definition doc)) = Inr (pv_digest doc))"

lemma put_versions_lookup:
  "k \<notin> version_key ` set versions \<Longrightarrow> fold (\<lambda>p docs. docs((pv_organisation_id p, pv_id p) \<mapsto> p)) versions docs k = docs k"
  "k \<in> version_key ` set versions \<Longrightarrow>
     \<exists>p\<in>set versions. version_key p = k \<and> fold (\<lambda>p docs. docs((pv_organisation_id p, pv_id p) \<mapsto> p)) versions docs k = Some p"
  by (induction versions arbitrary: docs rule: rev_induct) (auto simp: version_key_def)

lemma put_setup_probes: "ivs_probes (put_setup setup s) = ivs_probes s"
  by (auto simp: put_setup_def put_service_def put_environment_def put_application_def split: option.splits)

lemma imported_probes:
  assumes "repo_import_credential sha fmt ip credential generation bindings controls versions setup iv = Inr (c, iv')"
  shows "ivs_probes iv' = fold (\<lambda>p docs. docs((pv_organisation_id p, pv_id p) \<mapsto> p)) versions (ivs_probes iv)"
    "p \<in> set versions \<Longrightarrow> ivs_probes iv (pv_organisation_id p, pv_id p) = None \<and> pv_state p = Probe_Active
       \<and> digest sha fmt (dump_probe_definition (pv_definition p)) = Inr (pv_digest p)"
proof -
  from assms obtain u us where absent: "check_import_absent credential generation bindings controls versions setup iv = Inr u"
    and probes: "mapr (check_import_probe sha fmt credential controls) versions = Inr us"
    and iv': "iv' = imported_store credential generation bindings controls versions setup iv"
    unfolding repo_import_credential_def Let_def bindr_eq_Inr sum.inject prod.inject by blast
  show "ivs_probes iv' = fold (\<lambda>p docs. docs((pv_organisation_id p, pv_id p) \<mapsto> p)) versions (ivs_probes iv)"
    by (simp add: iv' imported_store_def Let_def put_probe_versions_def put_setup_probes)
  assume p: "p \<in> set versions"
  from mapr_member [OF probes p] obtain u where "check_import_probe sha fmt credential controls p = Inr u" by blast
  then show "ivs_probes iv (pv_organisation_id p, pv_id p) = None \<and> pv_state p = Probe_Active
       \<and> digest sha fmt (dump_probe_definition (pv_definition p)) = Inr (pv_digest p)"
    using absent p by (auto simp: check_import_probe_def check_import_absent_def Let_def bindr_eq_Inr require_eq_Inr list_all_iff)
qed

lemma own_puts:
  "own_versions I (put_probe org i p s) = put_probe org i p (own_versions I s)"
  "(org, v) \<notin> I \<Longrightarrow> own_versions I (put_probe_version org v doc s) = put_probe_version org v doc (own_versions I s)"
  "prs_probes (own_versions I s) = prs_probes s"
  "(org, v) \<notin> I \<Longrightarrow> prs_versions (own_versions I s) (org, v) = prs_versions s (org, v)"
  by (auto simp: own_versions_def put_probe_def put_probe_version_def restrict_map_def fun_eq_iff)

text \<open>A call of the service changes no imported version, and is the same call without them.\<close>

lemma step_without_imports:
  assumes "probe_step sha fmt s s'" "probes_sound sha fmt (own_versions I s)" "\<forall>k\<in>I. imported_version sha fmt s k"
  shows "probe_step sha fmt (own_versions I s) (own_versions I s') \<and> (\<forall>k\<in>I. prs_versions s' k = prs_versions s k)"
  using assms(1)
proof cases
  case (create org i name now p)
  then have "prs_versions s' = prs_versions s" "create_probe org i name now (own_versions I s) = Inr (p, own_versions I s')"
    by (auto simp: create_probe_def probe_create_def make_probe_def Let_def bindr_eq_Inr require_eq_Inr own_puts put_probe_def own_versions_def
        split: if_splits)
  then show ?thesis using probe_step.create by metis
next
  case (version org i d actor now doc)
  then have "prs_versions s (org, pv_id doc) = None"
    by (auto simp: create_probe_version_def probe_create_version_def bindr_eq_Inr require_eq_Inr split: option.splits)
  then have new: "(org, pv_id doc) \<notin> I" using assms(3) by (auto simp: imported_version_def)
  from version obtain p where s': "s' = put_probe org i p (put_probe_version org (pv_id doc) doc s)"
    by (auto simp: create_probe_version_def probe_create_version_def bindr_eq_Inr require_eq_Inr split: option.splits)
  have "prs_versions s' k = prs_versions s k" if "k \<in> I" for k
    using that new by (auto simp: s' put_probe_def put_probe_version_def)
  moreover have "create_probe_version sha fmt org i d actor now (own_versions I s) = Inr (doc, own_versions I s')"
    using version new
    by (auto simp: create_probe_version_def probe_create_version_def bindr_eq_Inr require_eq_Inr own_puts split: option.splits)
  ultimately show ?thesis using probe_step.version by metis
next
  case (activate org i v actor now w)
  then obtain p doc s1 q x where p: "prs_probes s (org, i) = Some p" and doc: "prs_versions s (org, v) = Some doc" "pv_state doc = Probe_Draft"
    and s1: "supersede_probe org (pro_active_version_id p) s = Inr s1"
    and s': "s' = put_probe org i q (put_probe_version org v x s1)"
    by (auto simp: activate_probe_def probe_activate_def make_probe_def validate_probe_version_def Let_def bindr_eq_Inr require_eq_Inr
        split: option.splits if_splits)
  have own: "(org, v) \<notin> I" using assms(3) doc by (auto simp: imported_version_def)
  have named: "(org, a) \<notin> I" if "pro_active_version_id p = Some a" for a
    using assms(2) p that unfolding probes_sound_def own_puts(3)
    by (auto simp: own_versions_def restrict_map_def split: if_splits)
  have superseded: "supersede_probe org (pro_active_version_id p) (own_versions I s) = Inr (own_versions I s1)"
    using s1 named
    by (cases "pro_active_version_id p")
      (auto simp: supersede_probe_def bindr_eq_Inr own_puts split: option.splits)
  have "prs_versions s1 k = prs_versions s k" if "k \<in> I" for k
    using s1 named that
    by (cases "pro_active_version_id p") (auto simp: supersede_probe_def bindr_eq_Inr put_probe_version_def split: option.splits)
  with s' own have "prs_versions s' k = prs_versions s k" if "k \<in> I" for k
    using that by (auto simp: put_probe_def put_probe_version_def)
  moreover have "activate_probe org i v actor now (own_versions I s) = Inr (w, own_versions I s')"
    using activate(1) p doc own superseded s1
    by (auto simp: activate_probe_def probe_activate_def make_probe_def Let_def bindr_eq_Inr require_eq_Inr own_puts split: if_splits)
  ultimately show ?thesis using probe_step.activate activate(2) by metis
qed

lemma probe_history_sound:
  assumes "probe_history sha fmt s I"
  shows "probes_sound sha fmt (own_versions I s) \<and> (\<forall>k\<in>I. imported_version sha fmt s k)"
  using assms
proof induction
  case empty
  show ?case by (simp add: probes_sound_def no_probes_def own_versions_def)
next
  case (call s I s')
  with step_without_imports [OF call(2)] show ?case
    by (auto intro: probe_step_sound simp: imported_version_def)
next
  case (imported s I ip credential generation bindings ctl versions su iv c iv')
  let ?new = "version_key ` set versions"
  note iv' = imported_probes [OF imported(2)]
  have old: "ivs_probes iv' k = prs_versions s k" if "k \<notin> ?new" for k
    using that by (simp add: iv'(1) put_versions_lookup(1) imported(3))
  have fresh: "prs_versions s k = None" if "k \<in> ?new" for k
    using that iv'(2) imported(3) by (auto simp: version_key_def)
  have new: "\<exists>p\<in>set versions. ivs_probes iv' k = Some p" if "k \<in> ?new" for k
    using put_versions_lookup(2) [OF that] by (auto simp: iv'(1))
  have "own_versions (I \<union> ?new) (s\<lparr>prs_versions := ivs_probes iv'\<rparr>) = own_versions I s"
    using old fresh by (auto simp: own_versions_def restrict_map_def fun_eq_iff)
  moreover have "imported_version sha fmt (s\<lparr>prs_versions := ivs_probes iv'\<rparr>) k" if "k \<in> I \<union> ?new" for k
  proof (cases "k \<in> ?new")
    case True
    with new obtain p where "p \<in> set versions" "ivs_probes iv' k = Some p" by blast
    with iv'(2) imported(4) show ?thesis by (auto simp: imported_version_def list_all_iff)
  next
    case False
    with that imported.IH have "imported_version sha fmt s k" by blast
    with old [OF False] show ?thesis by (simp add: imported_version_def)
  qed
  ultimately show ?case using imported.IH by simp
qed

section \<open>Properties\<close>

text \<open>
  C29: Over any calls of the probe service and any imports of credentials, the versions that were created through the
  service stay apart: one of them is active exactly when its probe names it as the active one, so that of these a
  probe has at most one, and they are numbered apart. An imported version stays active. Every version, imported
  or not, has the digest of its definition and, when it is active, a person who approved it.
\<close>

theorem one_active_probe_version:
  assumes "probe_history sha fmt s imported" "prs_versions s (org, v) = Some doc"
  shows "((org, v) \<notin> imported \<longrightarrow>
      (\<exists>p. prs_probes s (org, pv_probe_id doc) = Some p \<and> (pv_state doc = Probe_Active \<longleftrightarrow> pro_active_version_id p = Some v))
      \<and> (\<forall>w e. prs_versions s (org, w) = Some e \<longrightarrow> (org, w) \<notin> imported \<longrightarrow> pv_probe_id e = pv_probe_id doc
          \<longrightarrow> pv_number e = pv_number doc \<longrightarrow> w = v))
    \<and> ((org, v) \<in> imported \<longrightarrow> pv_state doc = Probe_Active)
    \<and> digest sha fmt (dump_probe_definition (pv_definition doc)) = Inr (pv_digest doc)
    \<and> (pv_state doc = Probe_Active \<longrightarrow> pv_approved_by doc \<noteq> None)"
proof -
  from probe_history_sound [OF assms(1)] have sound: "probes_sound sha fmt (own_versions imported s)"
    and others: "\<forall>k\<in>imported. imported_version sha fmt s k" by auto
  have approved: "pv_state doc = Probe_Active \<longrightarrow> pv_approved_by doc \<noteq> None" if "validate_probe_version doc = Inr doc"
    using that by (auto simp: validate_probe_version_def validate_version_def bindr_eq_Inr require_eq_Inr split: if_splits)
  show ?thesis
  proof (cases "(org, v) \<in> imported")
    case True
    with others assms(2) approved show ?thesis by (auto simp: imported_version_def)
  next
    case False
    with sound assms(2) have doc: "probe_version_sound sha fmt (own_versions imported s) org v doc"
      by (auto simp: probes_sound_def own_puts)
    moreover have "w = v" if "prs_versions s (org, w) = Some e" "(org, w) \<notin> imported" "pv_probe_id e = pv_probe_id doc"
      "pv_number e = pv_number doc" for w e
      using sound that False assms(2) unfolding probes_sound_def by (metis own_puts(4))
    ultimately show ?thesis using False approved by (auto simp: probe_version_sound_def own_puts)
  qed
qed

section \<open>An example\<close>

definition ex_probe_definition :: probe_definition where
  "ex_probe_definition = (secret_probe ex_tool_credential ex_vault Bind_Target)\<lparr>pd_id := ''version''\<rparr>"

definition ex_probe :: probe where
  "ex_probe =
     \<lparr>pro_id = ''probe'', pro_organisation_id = ''org'', pro_name = ''Secret'', pro_latest_version = 0,
      pro_active_version_id = None, pro_created_at = 1, pro_updated_at = 1, pro_revision = 0\<rparr>"

definition ex_version_draft :: probe_version where
  "ex_version_draft =
     \<lparr>pv_id = ''version'', pv_organisation_id = ''org'', pv_probe_id = ''probe'', pv_number = 1,
      pv_definition = ex_probe_definition, pv_digest = ex_hash, pv_state = Probe_Draft, pv_created_by = ''user'',
      pv_created_at = 2, pv_approved_by = None, pv_approved_at = None\<rparr>"

definition ex_version_active :: probe_version where
  "ex_version_active = ex_version_draft\<lparr>pv_state := Probe_Active, pv_approved_by := Some ''user'', pv_approved_at := Some 3\<rparr>"

definition ex_probe_drafted :: "probe_store \<Rightarrow> probe_store" where
  "ex_probe_drafted b = put_probe ''org'' ''probe'' (ex_probe\<lparr>pro_latest_version := 1, pro_updated_at := 2, pro_revision := 1\<rparr>)
     (put_probe_version ''org'' ''version'' ex_version_draft (put_probe ''org'' ''probe'' ex_probe b))"

definition ex_probe_activated :: "probe_store \<Rightarrow> probe_store" where
  "ex_probe_activated b = put_probe ''org'' ''probe''
     (ex_probe\<lparr>pro_latest_version := 1, pro_updated_at := 3, pro_revision := 2, pro_active_version_id := Some ''version''\<rparr>)
     (put_probe_version ''org'' ''version'' ex_version_active (ex_probe_drafted b))"

lemma ex_probe_digest: "digest ex_sha ex_fmt (dump_probe_definition ex_probe_definition) = Inr ex_hash"
proof -
  have "canonical_ok (dump_probe_definition ex_probe_definition)"
    by (rule draft_canonical) (simp_all add: ex_probe_definition_def secret_probe_def probe_draft_def)
  from digest_ok [OF this, of ex_sha ex_fmt] show ?thesis by (simp add: ex_sha_def)
qed

lemma ex_probe_parts:
  "segments [''org'', ''probe''] = Inr ()" "segments [''org'', ''version''] = Inr ()" "probe_fields_ok ex_probe"
  "probe_fields_ok (ex_probe\<lparr>pro_latest_version := 1, pro_updated_at := 2, pro_revision := 1\<rparr>)" "identifier_ok ''user''"
  by code_simp+

lemma ex_version_draft_valid: "validate_probe_version ex_version_draft = Inr ex_version_draft"
proof -
  have "is_ok (validate_probe_version ex_version_draft)" by code_simp
  then show ?thesis by (auto simp: is_ok_iff validate_probe_version_def bindr_eq_Inr split: if_splits)
qed

lemma ex_probe_reached:
  assumes "prs_probes b (''org'', ''probe'') = None" "prs_versions b (''org'', ''version'') = None"
  shows "(probe_step ex_sha ex_fmt)\<^sup>*\<^sup>* b (ex_probe_activated b)"
proof -
  have "create_probe ''org'' ''probe'' ''Secret'' 1 b = Inr (ex_probe, put_probe ''org'' ''probe'' ex_probe b)"
    using ex_probe_parts(3) assms(1)
    by (simp add: create_probe_def probe_create_def make_probe_def ex_probe_def ex_probe_parts(1) Let_def)
  moreover have "create_probe_version ex_sha ex_fmt ''org'' ''probe'' ex_probe_definition ''user'' 2 (put_probe ''org'' ''probe'' ex_probe b)
      = Inr (ex_version_draft, ex_probe_drafted b)"
  proof -
    have "probe_draft_version ex_sha ex_fmt ''org'' ''probe'' ex_probe_definition ''user'' 2 1 = Inr ex_version_draft"
      using ex_version_draft_valid
      by (simp add: probe_draft_version_def ex_probe_digest ex_version_draft_def)
        (simp add: ex_probe_definition_def)
    moreover have "pd_organisation_id ex_probe_definition = ''org''"
      by (simp add: ex_probe_definition_def secret_probe_def probe_draft_def ex_tool_credential_def)
    ultimately show ?thesis
      using ex_probe_parts(3) assms(2)
      by (simp add: create_probe_version_def probe_create_version_def ex_probe_parts(1,2) put_probe_def make_probe_def
          ex_probe_def ex_version_draft_def ex_probe_digest ex_probe_drafted_def put_probe_version_def)
  qed
  moreover have "activate_probe ''org'' ''probe'' ''version'' ''user'' 3 (ex_probe_drafted b) = Inr (ex_version_active, ex_probe_activated b)"
    using ex_probe_parts(4) ex_version_draft_valid
    by (simp add: activate_probe_def probe_activate_def ex_probe_parts(1,2) ex_probe_drafted_def put_probe_def put_probe_version_def
        make_probe_def supersede_probe_def ex_version_active_def ex_probe_activated_def Let_def)
      (simp add: ex_version_draft_def ex_probe_def)
  ultimately show ?thesis
    using ex_probe_parts(5) by (meson probe_step.intros rtranclp.intros)
qed

lemma probe_history_calls:
  "(probe_step sha fmt)\<^sup>*\<^sup>* s s' \<Longrightarrow> probe_history sha fmt s imported \<Longrightarrow> probe_history sha fmt s' imported"
  by (induction rule: rtranclp_induct) (auto intro: probe_history.call)

lemma one_active_probe_version_witness:
  "\<exists>p. prs_probes (ex_probe_activated no_probes) (''org'', ''probe'') = Some p \<and> pro_active_version_id p = Some ''version''"
proof -
  have "probe_history ex_sha ex_fmt (ex_probe_activated no_probes) {}"
    by (rule probe_history_calls [OF ex_probe_reached probe_history.empty]) (simp_all add: no_probes_def)
  from one_active_probe_version [OF this, of "''org''" "''version''" ex_version_active] show ?thesis
    by (simp add: ex_probe_activated_def put_probe_def put_probe_version_def ex_version_active_def ex_version_draft_def)
qed

section \<open>A probe with the identifier of an import\<close>

text \<open>
  An import writes no document for its probes, so a probe can be created under the identifier of one of them; its
  first version gets the number of the imported one, and activating it leaves both active.
\<close>

lemma imported_probe_collides:
  assumes "prs_versions b (''org'', w) = Some e" "pv_probe_id e = ''probe''" "pv_state e = Probe_Active" "pv_number e = 1"
    and "prs_probes b (''org'', ''probe'') = None" "prs_versions b (''org'', ''version'') = None"
  shows "\<exists>s doc. (probe_step ex_sha ex_fmt)\<^sup>*\<^sup>* b s \<and> w \<noteq> ''version''
    \<and> prs_versions s (''org'', w) = Some e \<and> prs_versions s (''org'', ''version'') = Some doc
    \<and> pv_probe_id doc = pv_probe_id e \<and> pv_state doc = Probe_Active \<and> pv_number doc = pv_number e"
proof -
  have "w \<noteq> ''version''" using assms(1,6) by auto
  moreover have "prs_versions (ex_probe_activated b) (''org'', w) = Some e"
    using assms(1) calculation
    by (simp add: ex_probe_activated_def ex_probe_drafted_def put_probe_def put_probe_version_def)
  moreover have "prs_versions (ex_probe_activated b) (''org'', ''version'') = Some ex_version_active"
    by (simp add: ex_probe_activated_def put_probe_def put_probe_version_def)
  moreover have "pv_probe_id ex_version_active = ''probe''" "pv_state ex_version_active = Probe_Active" "pv_number ex_version_active = 1"
    by (simp_all add: ex_version_active_def ex_version_draft_def)
  ultimately show ?thesis using ex_probe_reached [OF assms(5,6)] assms(2-4) by metis
qed

end
