(* ===== verification/Inventory_Service.thy ===== *)
theory Inventory_Service imports Inventory_Store begin

text \<open>
  The inventory service, server/core/inventory/service.py, with the contracts of what it discovers
  (packages/contracts/src/contracts/inventory.py, credential.py, provider.py). Connectors are functions of their
  arguments and of an outside world, and may raise; so are the clock and the source of random tokens. An item that a
  connector returns is an \<open>'a result\<close>: the values under the keys of its contract, or the exception that validating it
  raises because its keys or types are others. The secrets of a store are dictionaries, as the service reads them.
\<close>

section \<open>What is discovered\<close>

record provider_metadata =
  pmd_provider_id :: string
  pmd_name :: "string option"
  pmd_kind :: "string option"
  pmd_scopes :: "string list"
  pmd_status :: "string option"
  pmd_disabled :: "bool option"
  pmd_created_at :: "int option"
  pmd_last_used_at :: "int option"
  pmd_expires_at :: "int option"

definition validate_provider_metadata :: "provider_metadata \<Rightarrow> provider_metadata result" where
  "validate_provider_metadata m =
     (if text_between 1 512 (pmd_provider_id m) \<and> opt_ok (text_between 1 512) (pmd_name m)
         \<and> opt_ok (text_between 1 128) (pmd_kind m) \<and> length (pmd_scopes m) \<le> 256
         \<and> opt_ok (text_between 1 128) (pmd_status m)
      then Inr m else Inl (FieldError ''ProviderCredentialMetadata''))"

record secret_binding_metadata =
  sbm_name :: string
  sbm_secret :: string
  sbm_version :: string
  sbm_container :: "string option"

record runtime_resource_metadata =
  rrm_reference :: string
  rrm_display_name :: string
  rrm_endpoint :: "string option"
  rrm_identity :: "string option"
  rrm_region :: "string option"
  rrm_environment_name :: "string option"
  rrm_production :: "bool option"
  rrm_secret_bindings :: "secret_binding_metadata list"

definition secret_binding_fields_ok :: "secret_binding_metadata \<Rightarrow> bool" where
  "secret_binding_fields_ok b \<longleftrightarrow>
     text_between 1 32768 (sbm_name b) \<and> text_between 1 512 (sbm_secret b) \<and> text_between 1 128 (sbm_version b)
     \<and> opt_ok (text_between 1 63) (sbm_container b)"

definition validate_runtime_resource :: "runtime_resource_metadata \<Rightarrow> runtime_resource_metadata result" where
  "validate_runtime_resource r =
     (if text_between 1 512 (rrm_reference r) \<and> text_between 1 160 (rrm_display_name r)
         \<and> opt_ok (text_between 0 2048) (rrm_endpoint r) \<and> opt_ok (text_between 1 512) (rrm_identity r)
         \<and> opt_ok (text_between 3 32) (rrm_region r) \<and> opt_ok (text_between 1 160) (rrm_environment_name r)
         \<and> list_all secret_binding_fields_ok (rrm_secret_bindings r)
      then Inr r else Inl (FieldError ''RuntimeResourceMetadata''))"

record runtime_consumer_setup =
  rcs_application_id :: string
  rcs_environment_id :: string
  rcs_service_id :: string
  rcs_binding_id :: string
  rcs_runtime_connection_id :: string
  rcs_runtime_resource :: string
  rcs_runtime_secret_name :: string
  rcs_runtime_container_name :: "string option"
  rcs_environment_name :: "string option"

text \<open>\<open>text.split("/")\<close>, and the patterns of the names of secrets and of their versions.\<close>

fun split_slash :: "string \<Rightarrow> string list" where
  "split_slash [] = [[]]"
| "split_slash (c # cs) =
     (case split_slash cs of
        [] \<Rightarrow> []
      | p # ps \<Rightarrow> if c = CHR ''/'' then [] # p # ps else (c # p) # ps)"

definition project_name :: "string \<Rightarrow> bool" where
  "project_name p \<longleftrightarrow> p \<noteq> [] \<and> list_all (\<lambda>c. is_lower c \<or> is_digit c \<or> c = CHR ''-'') p"

definition secret_name :: "string \<Rightarrow> bool" where
  "secret_name p \<longleftrightarrow> p \<noteq> [] \<and> list_all (\<lambda>c. is_letter c \<or> is_digit c \<or> c \<in> {CHR ''_'', CHR ''-''}) p"

definition secret_resource_name :: "string \<Rightarrow> bool" where
  "secret_resource_name s \<longleftrightarrow>
     (case split_slash s of
        [projects, p, secrets, i] \<Rightarrow> projects = ''projects'' \<and> project_name p \<and> secrets = ''secrets'' \<and> secret_name i
      | _ \<Rightarrow> False)"

definition secret_version_name :: "string \<Rightarrow> bool" where
  "secret_version_name s \<longleftrightarrow>
     (case split_slash s of
        [projects, p, secrets, i, versions, v] \<Rightarrow>
          projects = ''projects'' \<and> project_name p \<and> secrets = ''secrets'' \<and> secret_name i \<and> versions = ''versions'' \<and> secret_name v
      | _ \<Rightarrow> False)"

record secret_resource_metadata =
  srm_reference :: string
  srm_display_name :: string

definition validate_secret_resource :: "secret_resource_metadata \<Rightarrow> secret_resource_metadata result" where
  "validate_secret_resource r =
     (if secret_resource_name (srm_reference r) \<and> text_between 1 256 (srm_display_name r)
      then Inr r else Inl (FieldError ''SecretResourceMetadata''))"

record secret_version_metadata =
  svm_reference :: string
  svm_state :: string
  svm_created_at :: "int option"

definition validate_secret_version :: "secret_version_metadata \<Rightarrow> secret_version_metadata result" where
  "validate_secret_version v =
     (if secret_version_name (svm_reference v) \<and> text_between 1 32 (svm_state v)
      then Inr v else Inl (FieldError ''SecretVersionMetadata''))"

section \<open>The service and its operations\<close>

record 'w secret_lister =
  scl_resources :: "connection \<Rightarrow> 'w \<Rightarrow> (tool_exception + (string \<times> json) list list) \<times> 'w"
  scl_versions :: "connection \<Rightarrow> string \<Rightarrow> 'w \<Rightarrow> (tool_exception + (string \<times> json) list list) \<times> 'w"

record 'w inventory_service =
  ivn_sha :: "string \<Rightarrow> string"
  ivn_fmt :: "int \<Rightarrow> string"
  ivn_ip :: "string \<Rightarrow> bool"
  ivn_keys :: "string list"
  ivn_clock :: "'w \<Rightarrow> int \<times> 'w"
  ivn_tokens :: "'w \<Rightarrow> (nat \<Rightarrow> string) \<times> 'w"
  ivn_instant :: "json \<Rightarrow> int option"
  ivn_provider_metadata :: "(connection \<Rightarrow> 'w \<Rightarrow> (tool_exception + provider_metadata result list) \<times> 'w) option"
  ivn_credential_verifier :: "(connection \<Rightarrow> connection \<Rightarrow> string \<Rightarrow> 'w \<Rightarrow> (tool_exception + string) \<times> 'w) option"
  ivn_secret_metadata :: "'w secret_lister option"
  ivn_runtime_metadata :: "(connection \<Rightarrow> 'w \<Rightarrow> (tool_exception + runtime_resource_metadata result list) \<times> 'w) option"

record 'w inventory_state =
  ivx_store :: inventory_store
  ivx_world :: 'w

type_synonym ('w, 'a) inventory_op = "('w inventory_state, tool_exception, 'a) effect"

definition inventory_read :: "(inventory_store \<Rightarrow> 'a result) \<Rightarrow> ('w, 'a) inventory_op" where
  "inventory_read f s = (case f (ivx_store s) of Inl e \<Rightarrow> (Inl (Raised e), s) | Inr x \<Rightarrow> (Inr x, s))"

definition inventory_tx :: "(inventory_store \<Rightarrow> ('a \<times> inventory_store) result) \<Rightarrow> ('w, 'a) inventory_op" where
  "inventory_tx f s =
     (case f (ivx_store s) of Inl e \<Rightarrow> (Inl (Raised e), s) | Inr (x, store) \<Rightarrow> (Inr x, s\<lparr>ivx_store := store\<rparr>))"

definition external :: "('w \<Rightarrow> (tool_exception + 'a) \<times> 'w) \<Rightarrow> ('w, 'a) inventory_op" where
  "external f s = (case f (ivx_world s) of (r, w) \<Rightarrow> (r, s\<lparr>ivx_world := w\<rparr>))"

definition consulting :: "('w \<Rightarrow> 'a \<times> 'w) \<Rightarrow> ('w, 'a) inventory_op" where
  "consulting f s = (case f (ivx_world s) of (x, w) \<Rightarrow> (Inr x, s\<lparr>ivx_world := w\<rparr>))"

definition checked_value :: "'a result \<Rightarrow> ('w, 'a) inventory_op" where
  "checked_value r s = (case r of Inl e \<Rightarrow> (Inl (Raised e), s) | Inr x \<Rightarrow> (Inr x, s))"

definition demand :: "bool \<Rightarrow> string \<Rightarrow> ('w, unit) inventory_op" where
  "demand b m = requires b (Raised (ResourceConflictError m))"

definition conflict :: "string \<Rightarrow> ('w, 'a) inventory_op" where
  "conflict m = raises (Raised (ResourceConflictError m))"

text \<open>\<open>except ConnectorError\<close>.\<close>

definition discovering :: "string \<Rightarrow> ('w, 'a) inventory_op \<Rightarrow> ('w, 'a) inventory_op" where
  "discovering m f =
     catches f (\<lambda>e. case e of
       Connector_Error code text retryable \<Rightarrow> conflict (m @ text)
     | Ambiguous text \<Rightarrow> conflict (m @ text)
     | Raised x \<Rightarrow> raises (Raised x))"

definition actives :: "('a \<Rightarrow> int option) \<Rightarrow> 'a list \<Rightarrow> 'a list" where
  "actives archived_at xs = filter (\<lambda>x. archived_at x = None) xs"

subsection \<open>Lists\<close>

definition all_connections :: "'w inventory_service \<Rightarrow> string \<Rightarrow> ('w, connection list) inventory_op" where
  "all_connections sv org = inventory_read (\<lambda>s. catalog_list (ivn_keys sv) (ivs_connections s) (validate_connection (ivn_ip sv)) org)"

definition all_applications :: "'w inventory_service \<Rightarrow> string \<Rightarrow> ('w, application list) inventory_op" where
  "all_applications sv org = inventory_read (\<lambda>s. catalog_list (ivn_keys sv) (ivs_applications s) validate_application org)"

definition all_environments :: "'w inventory_service \<Rightarrow> string \<Rightarrow> ('w, environment list) inventory_op" where
  "all_environments sv org = inventory_read (\<lambda>s. catalog_list (ivn_keys sv) (ivs_environments s) validate_environment org)"

definition all_services :: "'w inventory_service \<Rightarrow> string \<Rightarrow> ('w, consumer_service list) inventory_op" where
  "all_services sv org = inventory_read (\<lambda>s. catalog_list (ivn_keys sv) (ivs_services s) validate_service org)"

definition all_credentials :: "'w inventory_service \<Rightarrow> string \<Rightarrow> ('w, managed_credential list) inventory_op" where
  "all_credentials sv org =
     inventory_read (\<lambda>s. catalog_list (ivn_keys sv) (gs_credentials (ivs_lineage s)) validate_credential org)"

definition all_bindings :: "'w inventory_service \<Rightarrow> string \<Rightarrow> ('w, consumer_binding list) inventory_op" where
  "all_bindings sv org =
     inventory_read (\<lambda>s. catalog_list (ivn_keys sv) (gs_bindings (ivs_lineage s)) validate_binding org)"

definition all_generations :: "'w inventory_service \<Rightarrow> string \<Rightarrow> ('w, credential_generation list) inventory_op" where
  "all_generations sv org =
     inventory_read (\<lambda>s. catalog_list (ivn_keys sv) (gs_generations (ivs_lineage s)) validate_generation org)"

definition list_active_connections :: "'w inventory_service \<Rightarrow> string \<Rightarrow> ('w, connection list) inventory_op" where
  "list_active_connections sv org = bindx (all_connections sv org) (\<lambda>xs. yields (actives con_archived_at xs))"

definition list_active_applications :: "'w inventory_service \<Rightarrow> string \<Rightarrow> ('w, application list) inventory_op" where
  "list_active_applications sv org = bindx (all_applications sv org) (\<lambda>xs. yields (actives app_archived_at xs))"

definition list_active_environments :: "'w inventory_service \<Rightarrow> string \<Rightarrow> ('w, environment list) inventory_op" where
  "list_active_environments sv org = bindx (all_environments sv org) (\<lambda>xs. yields (actives env_archived_at xs))"

definition list_active_services :: "'w inventory_service \<Rightarrow> string \<Rightarrow> ('w, consumer_service list) inventory_op" where
  "list_active_services sv org = bindx (all_services sv org) (\<lambda>xs. yields (actives csv_archived_at xs))"

definition list_active_credentials :: "'w inventory_service \<Rightarrow> string \<Rightarrow> ('w, managed_credential list) inventory_op" where
  "list_active_credentials sv org = bindx (all_credentials sv org) (\<lambda>xs. yields (actives mc_archived_at xs))"

definition count_credentials :: "'w inventory_service \<Rightarrow> string \<Rightarrow> ('w, nat) inventory_op" where
  "count_credentials sv org = bindx (all_credentials sv org) (\<lambda>xs. yields (length (actives mc_archived_at xs)))"

definition inventory_graph ::
  "'w inventory_service \<Rightarrow> string \<Rightarrow> ('w, managed_credential list \<times> consumer_service list \<times> consumer_binding list) inventory_op" where
  "inventory_graph sv org =
     bindx (list_active_credentials sv org) (\<lambda>credentials.
     bindx (list_active_services sv org) (\<lambda>services.
     bindx (all_bindings sv org) (\<lambda>bindings.
     yields (credentials, services,
       filter (\<lambda>b. cb_credential_id b \<in> set (map mc_id credentials) \<and> cb_service_id b \<in> set (map csv_id services)) bindings))))"

section \<open>Discovery\<close>

definition fetch_connection :: "'w inventory_service \<Rightarrow> string \<Rightarrow> string \<Rightarrow> ('w, connection) inventory_op" where
  "fetch_connection sv org i = inventory_read (repo_get_connection (ivn_ip sv) org i)"

definition secret_connection :: "'w inventory_service \<Rightarrow> string \<Rightarrow> string \<Rightarrow> ('w, connection) inventory_op" where
  "secret_connection sv org i =
     bindx (fetch_connection sv org i) (\<lambda>c.
     bindx (demand (role_ready Role_Secret_Store c) ''secret discovery requires a ready secret-store connection'') (\<lambda>_.
     yields c))"

definition list_provider_credentials :: "'w inventory_service \<Rightarrow> string \<Rightarrow> string \<Rightarrow> ('w, provider_metadata list) inventory_op" where
  "list_provider_credentials sv org connection_id =
     bindx (fetch_connection sv org connection_id) (\<lambda>c.
     bindx (demand (con_archived_at c = None) ''archived connection cannot discover credentials'') (\<lambda>_.
     bindx (demand (Role_Provider \<in> set (con_roles c)) ''credential discovery requires a provider connection'') (\<lambda>_.
     bindx (demand (con_interface c = If_Api) ''browser credential discovery must run through its playbook'') (\<lambda>_.
     bindx (demand (con_status c = Con_Ready) ''provider connection is not ready'') (\<lambda>_.
     bindx (demand (''provider.listCredentialMetadata'' \<in> set (con_capabilities c))
       ''provider connection cannot list credential metadata'') (\<lambda>_.
     case ivn_provider_metadata sv of
       None \<Rightarrow> conflict ''provider credential discovery is unavailable''
     | Some metadata \<Rightarrow>
         bindx (external (metadata c)) (\<lambda>items.
         checked_value (mapr (\<lambda>item. bindr item validate_provider_metadata) items))))))))"

definition required_text :: "json option \<Rightarrow> string \<Rightarrow> string result" where
  "required_text value label =
     (case value of
        Some (JStr t) \<Rightarrow> bindr (require (t \<noteq> []) (ResourceConflictError (''Secret Manager returned no '' @ label))) (\<lambda>_. Inr t)
      | _ \<Rightarrow> Inl (ResourceConflictError (''Secret Manager returned no '' @ label)))"

definition secret_resource_of :: "(string \<times> json) list \<Rightarrow> secret_resource_metadata result" where
  "secret_resource_of item =
     bindr (required_text (map_of item ''name'') ''secret resource'') (\<lambda>name.
     validate_secret_resource
       \<lparr>srm_reference = name, srm_display_name = snd (snd (rpartition_char (CHR ''/'') name))\<rparr>)"

definition list_secret_resources ::
  "'w inventory_service \<Rightarrow> string \<Rightarrow> string \<Rightarrow> ('w, secret_resource_metadata list) inventory_op" where
  "list_secret_resources sv org connection_id =
     bindx (secret_connection sv org connection_id) (\<lambda>c.
     case ivn_secret_metadata sv of
       None \<Rightarrow> conflict ''secret metadata discovery is unavailable''
     | Some lister \<Rightarrow>
         bindx (discovering ''Secret discovery unavailable: '' (external (scl_resources lister c))) (\<lambda>items.
         checked_value (mapr secret_resource_of items)))"

definition list_runtime_resources ::
  "'w inventory_service \<Rightarrow> string \<Rightarrow> string \<Rightarrow> ('w, runtime_resource_metadata list) inventory_op" where
  "list_runtime_resources sv org connection_id =
     bindx (fetch_connection sv org connection_id) (\<lambda>c.
     bindx (demand (role_ready Role_Runtime c) ''runtime discovery requires a ready API runtime connection'') (\<lambda>_.
     bindx (demand (''runtime.listServices'' \<in> set (con_capabilities c)) ''runtime connection cannot list services'') (\<lambda>_.
     case ivn_runtime_metadata sv of
       None \<Rightarrow> conflict ''runtime resource discovery is unavailable''
     | Some lister \<Rightarrow>
         bindx (discovering ''Runtime discovery unavailable: '' (external (lister c))) (\<lambda>items.
         bindx (checked_value (mapr (\<lambda>item. bindr item validate_runtime_resource) items)) (\<lambda>metadata.
         bindx (demand (list_all (\<lambda>r. resource_covered (rrm_reference r) (con_allowed_resources c)) metadata)
           ''runtime discovery escaped the connection boundary'') (\<lambda>_.
         yields (sort_key (\<lambda>r. lower_text (rrm_display_name r)) metadata)))))))"

definition secret_enabled :: "(string \<times> json) list \<Rightarrow> bool" where
  "secret_enabled item \<longleftrightarrow> map_of item ''state'' = Some (JStr ''ENABLED'')"

definition secret_version_of :: "(json \<Rightarrow> int option) \<Rightarrow> (string \<times> json) list \<Rightarrow> secret_version_metadata result" where
  "secret_version_of instant item =
     bindr (required_text (map_of item ''name'') ''secret version'') (\<lambda>name.
     bindr (required_text (map_of item ''state'') ''secret version state'') (\<lambda>state.
     bindr (case map_of item ''createTime'' of
              None \<Rightarrow> Inr None
            | Some JNull \<Rightarrow> Inr None
            | Some v \<Rightarrow> (case instant v of None \<Rightarrow> Inl (FieldError ''SecretVersionMetadata'') | Some t \<Rightarrow> Inr (Some t)))
       (\<lambda>created.
     validate_secret_version \<lparr>svm_reference = name, svm_state = state, svm_created_at = created\<rparr>)))"

definition list_secret_versions ::
  "'w inventory_service \<Rightarrow> string \<Rightarrow> string \<Rightarrow> string \<Rightarrow> ('w, secret_version_metadata list) inventory_op" where
  "list_secret_versions sv org connection_id secret =
     bindx (secret_connection sv org connection_id) (\<lambda>c.
     bindx (demand (resource_covered secret (con_allowed_resources c)) ''secret resource escapes the connection boundary'') (\<lambda>_.
     case ivn_secret_metadata sv of
       None \<Rightarrow> conflict ''secret metadata discovery is unavailable''
     | Some lister \<Rightarrow>
         bindx (discovering ''Secret discovery unavailable: '' (external (scl_versions lister c secret))) (\<lambda>items.
         checked_value (mapr (secret_version_of (ivn_instant sv)) (filter secret_enabled items)))))"

definition resolve_browser_credential ::
  "'w inventory_service \<Rightarrow> connection \<Rightarrow> connection \<Rightarrow> string \<Rightarrow> ('w, provider_metadata) inventory_op" where
  "resolve_browser_credential sv management secret_store secret_reference =
     bindx (demand (\<not> playbook_missing management) ''browser credential resolution requires a connection playbook'') (\<lambda>_.
     case ivn_secret_metadata sv of
       None \<Rightarrow> conflict ''browser credential verification is unavailable''
     | Some lister \<Rightarrow>
         bindx (external (scl_versions lister secret_store (partition_head ''/versions/'' secret_reference))) (\<lambda>versions.
         bindx (demand (length (filter (\<lambda>item. map_of item ''name'' = Some (JStr secret_reference) \<and> secret_enabled item) versions) = 1)
           ''selected credential secret version is not enabled'') (\<lambda>_.
         checked_value (validate_provider_metadata
           \<lparr>pmd_provider_id = ''browser-secret-'' @ take 48 (ivn_sha sv secret_reference), pmd_name = None,
            pmd_kind = Some ''api-key'', pmd_scopes = [], pmd_status = Some ''unknown'', pmd_disabled = Some False,
            pmd_created_at = None, pmd_last_used_at = None, pmd_expires_at = None\<rparr>))))"

definition find_credential ::
  "'w inventory_service \<Rightarrow> connection \<Rightarrow> connection \<Rightarrow> string \<Rightarrow> ('w, provider_metadata) inventory_op" where
  "find_credential sv management secret_store secret_reference =
     (if con_interface management = If_Browser
      then resolve_browser_credential sv management secret_store secret_reference
      else (case (ivn_provider_metadata sv, ivn_credential_verifier sv) of
        (Some metadata, Some verifier) \<Rightarrow>
          bindx (external (metadata management)) (\<lambda>items.
          bindx (checked_value (mapr (\<lambda>item. bindr item validate_provider_metadata) items)) (\<lambda>discovered.
          bindx (external (verifier management secret_store secret_reference)) (\<lambda>identity.
          case filter (\<lambda>m. pmd_provider_id m = identity) discovered of
            [m] \<Rightarrow>
              bindx (demand (pmd_disabled m \<noteq> Some True)
                ''This secret is not managed by the selected provider connection'') (\<lambda>_.
              bindx (demand (pmd_kind m \<noteq> None) ''provider credential type is unavailable'') (\<lambda>_. yields m))
          | _ \<Rightarrow> conflict ''This secret is not managed by the selected provider connection'')))
      | _ \<Rightarrow> conflict ''credential import verification is unavailable''))"

definition resolve_credential ::
  "'w inventory_service \<Rightarrow> string \<Rightarrow> string \<Rightarrow> string \<Rightarrow> string \<Rightarrow> ('w, provider_metadata) inventory_op" where
  "resolve_credential sv org connection_id secret_store_connection_id secret_reference =
     bindx (fetch_connection sv org connection_id) (\<lambda>management.
     bindx (secret_connection sv org secret_store_connection_id) (\<lambda>secret_store.
     bindx (demand (Role_Provider \<in> set (con_roles management) \<and> con_status management = Con_Ready
         \<and> con_archived_at management = None) ''credential resolution requires a ready provider connection'') (\<lambda>_.
     bindx (demand (\<not> playbook_missing management) ''browser credential resolution requires a connection playbook'') (\<lambda>_.
     bindx (demand (con_interface management \<in> {If_Api, If_Browser})
       ''credential resolution requires a supported provider connection'') (\<lambda>_.
     bindx (demand (resource_covered secret_reference (con_allowed_resources secret_store))
       ''credential secret reference escapes the secret store'') (\<lambda>_.
     bindx (demand (contains ''/versions/'' secret_reference)
       ''credential resolution requires one immutable secret version'') (\<lambda>_.
     find_credential sv management secret_store secret_reference)))))))"

end
