(* ===== verification/Inventory_Changes.thy ===== *)
theory Inventory_Changes imports Inventory_Service begin

text \<open>
  The changes of the inventory: the operations of server/core/inventory/service.py that add, import, edit and archive.
  Arguments that are \<open>None\<close> in an edit leave their field as it is.
\<close>

section \<open>Connections, applications, environments and services\<close>

text \<open>\<open>_domain_pattern\<close> is the test of server/browser/auth.py.\<close>

definition browser_declared :: "connection \<Rightarrow> unit result" where
  "browser_declared c =
     (if con_interface c = If_Browser
      then bindr (require (con_allowed_resources c \<noteq> [] \<and> list_all is_domain_pattern (con_allowed_resources c))
             (ResourceConflictError ''browser connection must declare allowed domains'')) (\<lambda>_.
           require (set (con_capabilities c) \<inter> {''browser.execute'', ''browser.authenticate''} \<noteq> {})
             (ResourceConflictError ''browser connection must declare a browser capability''))
      else Inr ())"

definition provider_declared :: "connection \<Rightarrow> bool" where
  "provider_declared c \<longleftrightarrow>
     (case con_http c of
        None \<Rightarrow> False
      | Some api \<Rightarrow>
          (case hp_test_credential api of
             None \<Rightarrow> False
           | Some test \<Rightarrow> hp_credential_auth api \<noteq> None \<and> ho_provider_id_field test \<noteq> None
               \<and> ''provider.testCredential'' \<in> set (con_capabilities c)))"

definition validated_connection :: "int \<Rightarrow> connection \<Rightarrow> connection" where
  "validated_connection now c =
     c\<lparr>con_status := Con_Ready, con_authenticated_at := Some now, con_last_validated_at := Some now, con_updated_at := now\<rparr>"

definition mark_ready :: "'w inventory_service \<Rightarrow> connection \<Rightarrow> ('w, connection) inventory_op" where
  "mark_ready sv c = bindx (consulting (ivn_clock sv)) (\<lambda>now. yields (validated_connection now c))"

text \<open>The connector of a role is asked when the connection has the role and is an API.\<close>

definition ask_provider :: "'w inventory_service \<Rightarrow> connection \<Rightarrow> ('w, connection) inventory_op" where
  "ask_provider sv c =
     (if Role_Provider \<in> set (con_roles c) \<and> con_interface c = If_Api
      then bindx (demand (provider_declared c)
             ''provider connection requires list, create, revoke, and credential identity operations'') (\<lambda>_.
           case ivn_provider_metadata sv of
             None \<Rightarrow> conflict ''provider connection validation is unavailable''
           | Some metadata \<Rightarrow> bindx (external (metadata c)) (\<lambda>_. mark_ready sv c))
      else yields c)"

definition ask_runtime :: "'w inventory_service \<Rightarrow> connection \<Rightarrow> ('w, connection) inventory_op" where
  "ask_runtime sv c =
     (if Role_Runtime \<in> set (con_roles c) \<and> con_interface c = If_Api
      then (case ivn_runtime_metadata sv of
              None \<Rightarrow> conflict ''runtime connection validation is unavailable''
            | Some lister \<Rightarrow> bindx (external (lister c)) (\<lambda>_. mark_ready sv c))
      else yields c)"

definition ask_secret_store :: "'w inventory_service \<Rightarrow> connection \<Rightarrow> ('w, connection) inventory_op" where
  "ask_secret_store sv c =
     (if Role_Secret_Store \<in> set (con_roles c) \<and> con_interface c = If_Api
      then (case ivn_secret_metadata sv of
              None \<Rightarrow> conflict ''secret-store connection validation is unavailable''
            | Some lister \<Rightarrow> bindx (external (scl_resources lister c)) (\<lambda>_. mark_ready sv c))
      else yields c)"

definition add_connection :: "'w inventory_service \<Rightarrow> connection \<Rightarrow> ('w, connection) inventory_op" where
  "add_connection sv c =
     bindx (demand (con_platform c \<noteq> ''google-cloud'')
       ''Google Cloud connections must use the verified onboarding journey'') (\<lambda>_.
     bindx (checked_value (browser_declared c)) (\<lambda>_.
     bindx (demand (con_interface c = If_Browser \<longrightarrow> con_authorization c = Auth_Browser_Session)
       ''browser connection requires browser-session authorization'') (\<lambda>_.
     bindx (ask_provider sv c) (\<lambda>c.
     bindx (ask_runtime sv c) (\<lambda>c.
     bindx (ask_secret_store sv c) (\<lambda>c.
     inventory_tx (repo_add_connection c)))))))"

definition same_tenant :: "string \<Rightarrow> string \<Rightarrow> ('w, unit) inventory_op" where
  "same_tenant actual expected = demand (actual = expected) ''inventory relationship crosses organisation boundaries''"

definition add_application :: "application \<Rightarrow> ('w, application) inventory_op" where
  "add_application a = inventory_tx (repo_add_application a)"

definition add_environment :: "environment \<Rightarrow> ('w, environment) inventory_op" where
  "add_environment e =
     bindx (inventory_read (repo_get_application (env_organisation_id e) (env_application_id e))) (\<lambda>a.
     bindx (same_tenant (app_organisation_id a) (env_organisation_id e)) (\<lambda>_.
     inventory_tx (repo_add_environment e)))"

definition validate_service_connections :: "'w inventory_service \<Rightarrow> consumer_service \<Rightarrow> ('w, unit) inventory_op" where
  "validate_service_connections sv v =
     bindx (fetch_connection sv (csv_organisation_id v) (csv_runtime_connection_id v)) (\<lambda>runtime.
     bindx (demand (Role_Runtime \<in> set (con_roles runtime) \<and> con_interface runtime = If_Api)
       ''service requires an API runtime connection'') (\<lambda>_.
     bindx (demand (resource_covered (csv_runtime_resource v) (con_allowed_resources runtime))
       ''service runtime resource escapes the connection boundary'') (\<lambda>_.
     bindx (mapx (\<lambda>i.
         bindx (fetch_connection sv (csv_organisation_id v) i) (\<lambda>telemetry.
         demand (Role_Telemetry \<in> set (con_roles telemetry) \<and> con_interface telemetry = If_Api)
           ''service requires API telemetry connections'')) (csv_telemetry_connection_ids v)) (\<lambda>_.
     yields ()))))"

definition add_service :: "'w inventory_service \<Rightarrow> consumer_service \<Rightarrow> ('w, consumer_service) inventory_op" where
  "add_service sv v =
     bindx (inventory_read (repo_get_environment (csv_organisation_id v) (csv_environment_id v))) (\<lambda>e.
     bindx (demand (env_application_id e = csv_application_id v) ''service application does not match its environment'') (\<lambda>_.
     bindx (validate_service_connections sv v) (\<lambda>_.
     inventory_tx (repo_add_service v))))"

definition add_application_setup ::
  "'w inventory_service \<Rightarrow> application \<Rightarrow> environment \<Rightarrow> consumer_service \<Rightarrow> ('w, service_setup) inventory_op" where
  "add_application_setup sv a e v =
     bindx (same_tenant (app_organisation_id a) (env_organisation_id e)) (\<lambda>_.
     bindx (same_tenant (app_organisation_id a) (csv_organisation_id v)) (\<lambda>_.
     bindx (demand (env_application_id e = app_id a) ''environment does not belong to the application'') (\<lambda>_.
     bindx (demand (csv_application_id v = app_id a \<and> csv_environment_id v = env_id e)
       ''service does not belong to the application environment'') (\<lambda>_.
     bindx (validate_service_connections sv v) (\<lambda>_.
     inventory_tx (repo_add_application_setup a e v))))))"

subsection \<open>Discovered services\<close>

definition runtime_region :: "string \<Rightarrow> string result" where
  "runtime_region resource =
     (case split_slash resource of
        [projects, p, locations, region, services, i] \<Rightarrow>
          bindr (require (projects = ''projects'' \<and> locations = ''locations'' \<and> services = ''services'')
            (ResourceConflictError ''runtime service resource is invalid'')) (\<lambda>_. Inr region)
      | _ \<Rightarrow> Inl (ResourceConflictError ''runtime service resource is invalid''))"

definition select_resource :: "string \<Rightarrow> runtime_resource_metadata list \<Rightarrow> ('w, runtime_resource_metadata) inventory_op" where
  "select_resource reference resources =
     (case filter (\<lambda>r. rrm_reference r = reference) resources of
        [r] \<Rightarrow> yields r
      | _ \<Rightarrow> conflict ''runtime service is no longer available'')"

definition discovered_service ::
  "string \<Rightarrow> string \<Rightarrow> string \<Rightarrow> string \<Rightarrow> string \<Rightarrow> runtime_resource_metadata \<Rightarrow> int \<Rightarrow> consumer_service result" where
  "discovered_service org service_id application_id environment_id runtime_connection_id resource now =
     validate_service
       \<lparr>csv_id = service_id, csv_organisation_id = org, csv_application_id = application_id,
        csv_environment_id = environment_id, csv_runtime_connection_id = runtime_connection_id,
        csv_telemetry_connection_ids = [], csv_runtime_resource = rrm_reference resource,
        csv_display_name = rrm_display_name resource, csv_endpoint = rrm_endpoint resource, csv_repository = None,
        csv_identity = rrm_identity resource, csv_created_at = now, csv_updated_at = now, csv_archived_at = None,
        csv_revision = 0\<rparr>"

definition add_discovered_service ::
  "'w inventory_service \<Rightarrow> string \<Rightarrow> string \<Rightarrow> string \<Rightarrow> string \<Rightarrow> string \<Rightarrow> string \<Rightarrow> ('w, consumer_service) inventory_op" where
  "add_discovered_service sv org service_id application_id environment_id runtime_connection_id runtime_resource =
     bindx (inventory_read (repo_get_environment org environment_id)) (\<lambda>e.
     bindx (demand (env_application_id e = application_id) ''service application does not match its environment'') (\<lambda>_.
     bindx (list_runtime_resources sv org runtime_connection_id) (\<lambda>resources.
     bindx (select_resource runtime_resource resources) (\<lambda>resource.
     bindx (consulting (ivn_clock sv)) (\<lambda>now.
     bindx (checked_value (discovered_service org service_id application_id environment_id runtime_connection_id resource now))
       (\<lambda>v. add_service sv v))))))"

text \<open>The environment of a discovered service: what the runtime tells, else what the caller does.\<close>

definition first_text :: "string option \<Rightarrow> string option \<Rightarrow> string option" where
  "first_text a b = (if truthy a then a else b)"

definition discovered_setup ::
  "string \<Rightarrow> string \<Rightarrow> string \<Rightarrow> string \<Rightarrow> string \<Rightarrow> runtime_resource_metadata \<Rightarrow> string \<Rightarrow> int \<Rightarrow> service_setup result" where
  "discovered_setup org application_id environment_id service_id runtime_connection_id resource environment_name now =
     bindr (validate_application
       \<lparr>app_id = application_id, app_organisation_id = org, app_display_name = rrm_display_name resource,
        app_repository_ids = [], app_created_at = now, app_updated_at = now, app_archived_at = None, app_revision = 0\<rparr>) (\<lambda>a.
     bindr (if truthy (rrm_region resource) then Inr (the (rrm_region resource)) else runtime_region (rrm_reference resource))
       (\<lambda>region.
     bindr (validate_environment
       \<lparr>env_id = environment_id, env_organisation_id = org, env_application_id = application_id,
        env_display_name = environment_name,
        env_production = (case rrm_production resource of Some p \<Rightarrow> p | None \<Rightarrow> lower_text environment_name = ''production''),
        env_region = region, env_created_at = now, env_updated_at = now, env_archived_at = None, env_revision = 0\<rparr>) (\<lambda>e.
     bindr (discovered_service org service_id application_id environment_id runtime_connection_id resource now) (\<lambda>v.
     Inr (a, e, v)))))"

definition add_discovered_application_setup ::
  "'w inventory_service \<Rightarrow> string \<Rightarrow> string \<Rightarrow> string \<Rightarrow> string \<Rightarrow> string \<Rightarrow> string \<Rightarrow> string option
     \<Rightarrow> ('w, service_setup) inventory_op" where
  "add_discovered_application_setup sv org application_id environment_id service_id runtime_connection_id runtime_resource
     environment_name =
     bindx (list_runtime_resources sv org runtime_connection_id) (\<lambda>resources.
     bindx (select_resource runtime_resource resources) (\<lambda>resource.
     let name = first_text (rrm_environment_name resource) environment_name in
     bindx (demand (truthy name) ''runtime service environment is unavailable'') (\<lambda>_.
     bindx (consulting (ivn_clock sv)) (\<lambda>now.
     bindx (checked_value (discovered_setup org application_id environment_id service_id runtime_connection_id resource
       (the name) now)) (\<lambda>(a, e, v). add_application_setup sv a e v)))))"

section \<open>The import of a credential\<close>

text \<open>\<open>text.rpartition(separator)[2]\<close>.\<close>

fun after_each :: "string \<Rightarrow> string \<Rightarrow> string list" where
  "after_each sep [] = []"
| "after_each sep (c # cs) = (if starts_with sep (c # cs) then [drop (length sep) (c # cs)] else []) @ after_each sep cs"

definition partition_tail :: "string \<Rightarrow> string \<Rightarrow> string" where
  "partition_tail sep s = (case rev (after_each sep s) of [] \<Rightarrow> s | t # _ \<Rightarrow> t)"

definition runtime_project :: "string \<Rightarrow> string" where
  "runtime_project reference =
     (if starts_with ''projects/'' reference then takeWhile (\<lambda>c. c \<noteq> CHR ''/'') (drop 9 reference) else [])"

definition binding_names_secret :: "string \<Rightarrow> string \<Rightarrow> secret_binding_metadata \<Rightarrow> bool" where
  "binding_names_secret project secret b \<longleftrightarrow>
     sbm_secret b = secret
     \<or> (project \<noteq> [] \<and> ''projects/'' @ project @ ''/secrets/'' @ sbm_secret b = secret)"

definition runtime_binding_matches ::
  "runtime_resource_metadata \<Rightarrow> string \<Rightarrow> string \<Rightarrow> string \<Rightarrow> string option \<Rightarrow> bool" where
  "runtime_binding_matches resource secret secret_reference variable_name container_name \<longleftrightarrow>
     length (filter (\<lambda>b. sbm_name b = variable_name \<and> sbm_container b = container_name
         \<and> sbm_version b = partition_tail ''/versions/'' secret_reference
         \<and> binding_names_secret (runtime_project (rrm_reference resource)) secret b)
       (rrm_secret_bindings resource)) = 1"

definition import_telemetry :: "'w inventory_service \<Rightarrow> string \<Rightarrow> string \<Rightarrow> ('w, connection) inventory_op" where
  "import_telemetry sv org i =
     bindx (fetch_connection sv org i) (\<lambda>telemetry.
     bindx (demand (role_ready Role_Telemetry telemetry) ''credential consumer requires ready API telemetry connections'') (\<lambda>_.
     yields telemetry))"

definition binding_service ::
  "service_setup option \<Rightarrow> string \<Rightarrow> consumer_binding \<Rightarrow> ('w, consumer_service) inventory_op" where
  "binding_service setup org b =
     (case (is_setup_service setup (cb_service_id b), setup_service setup) of
        (True, Some v) \<Rightarrow> yields v
      | _ \<Rightarrow> inventory_read (repo_get_service org (cb_service_id b)))"

text \<open>One round of the loop over the bindings: the service and the connections it adds.\<close>

definition import_binding ::
  "'w inventory_service \<Rightarrow> managed_credential \<Rightarrow> credential_generation \<Rightarrow> service_setup option \<Rightarrow> consumer_binding
     \<Rightarrow> ('w, consumer_service \<times> connection list) inventory_op" where
  "import_binding sv credential generation setup b =
     (let org = mc_organisation_id credential in
      bindx (binding_service setup org b) (\<lambda>service.
      bindx (demand (cb_environment_id b = csv_environment_id service
          \<and> cb_runtime_connection_id b = csv_runtime_connection_id service
          \<and> cb_runtime_resource b = csv_runtime_resource service)
        ''credential binding does not match its consumer service'') (\<lambda>_.
      bindx (fetch_connection sv org (cb_runtime_connection_id b)) (\<lambda>runtime.
      bindx (demand (role_ready Role_Runtime runtime) ''credential binding requires an API runtime connection'') (\<lambda>_.
      bindx (demand (Some (cb_secret_reference b) = cg_secret_reference generation)
        ''credential binding must use the imported generation'') (\<lambda>_.
      bindx (list_runtime_resources sv org (cb_runtime_connection_id b)) (\<lambda>resources.
      bindx (demand (case find (\<lambda>r. rrm_reference r = cb_runtime_resource b) resources of
            None \<Rightarrow> False
          | Some r \<Rightarrow> runtime_binding_matches r (mc_secret_resource credential) (mc_secret_reference credential)
              (cb_runtime_secret_name b) (cb_runtime_container_name b))
        ''runtime service does not use the selected secret version'') (\<lambda>_.
      bindx (mapx (import_telemetry sv org) (csv_telemetry_connection_ids service)) (\<lambda>telemetry.
      yields (service, runtime # telemetry))))))))))"

definition put_connections :: "connection list \<Rightarrow> (string \<times> connection) list \<Rightarrow> (string \<times> connection) list" where
  "put_connections cs table = fold (\<lambda>c. AList.update (con_id c) c) cs table"

definition verify_identity :: "managed_credential \<Rightarrow> connection \<Rightarrow> provider_metadata \<Rightarrow> ('w, unit) inventory_op" where
  "verify_identity credential management metadata =
     (if con_interface management = If_Browser
      then bindx (demand (mc_provider_id credential = None) ''browser credential identity is assigned by the first rotation'') (\<lambda>_.
           bindx (demand (pmd_kind metadata = Some (mc_kind credential)) ''credential type differs from browser metadata'') (\<lambda>_.
           demand (mc_scopes credential = {}) ''browser credential scopes are assigned by the provider during rotation''))
      else bindx (demand (mc_provider_id credential \<noteq> None) ''credential import requires a provider credential ID'') (\<lambda>_.
           bindx (demand (Some (pmd_provider_id metadata) = mc_provider_id credential)
             ''credential identity differs from provider metadata'') (\<lambda>_.
           bindx (demand (pmd_kind metadata = Some (mc_kind credential)) ''credential type differs from provider metadata'') (\<lambda>_.
           demand (set (pmd_scopes metadata) = mc_scopes credential) ''credential scopes differ from provider metadata''))))"

definition already_imported :: "managed_credential \<Rightarrow> connection \<Rightarrow> managed_credential \<Rightarrow> bool" where
  "already_imported credential management item \<longleftrightarrow>
     mc_archived_at item = None \<and> mc_connection_id item = mc_connection_id credential
     \<and> (if con_interface management = If_Browser then mc_secret_reference item = mc_secret_reference credential
        else mc_provider_id item = mc_provider_id credential)"

definition verify_import_binding ::
  "'w inventory_service \<Rightarrow> managed_credential \<Rightarrow> connection \<Rightarrow> connection \<Rightarrow> ('w, unit) inventory_op" where
  "verify_import_binding sv credential management secret_store =
     bindx (find_credential sv management secret_store (mc_secret_reference credential)) (\<lambda>metadata.
     bindx (verify_identity credential management metadata) (\<lambda>_.
     bindx (all_credentials sv (mc_organisation_id credential)) (\<lambda>existing.
     demand (\<not> list_ex (already_imported credential management) existing)
       (if con_interface management = If_Browser then ''secret version is already imported for this browser connection''
        else ''provider credential is already imported''))))"

definition check_imported_credential ::
  "managed_credential \<Rightarrow> credential_generation \<Rightarrow> consumer_binding list \<Rightarrow> ('w, unit) inventory_op" where
  "check_imported_credential credential generation bindings =
     bindx (demand (cg_credential_id generation = mc_id credential) ''generation does not belong to the credential'') (\<lambda>_.
     bindx (demand (mc_active_generation_id credential = Some (cg_id generation))
       ''imported generation must be the active generation'') (\<lambda>_.
     bindx (demand (Some (mc_secret_reference credential) = cg_secret_reference generation)
       ''credential and active generation secret references differ'') (\<lambda>_.
     bindx (demand (partition_head ''/versions/'' (mc_secret_reference credential) = mc_secret_resource credential)
       ''credential secret version does not belong to its resource'') (\<lambda>_.
     bindx (demand (contains ''/versions/'' (mc_secret_reference credential))
       ''credential secret reference must identify one immutable version'') (\<lambda>_.
     bindx (demand (consumers_match credential bindings) ''credential consumers and bindings must match exactly'') (\<lambda>_.
     demand (list_all (\<lambda>b. cb_credential_id b = mc_id credential \<and> cb_current_generation_id b = cg_id generation
         \<and> cb_organisation_id b = mc_organisation_id credential) bindings)
       ''credential binding lineage is inconsistent''))))))"

definition import_credential ::
  "'w inventory_service \<Rightarrow> managed_credential \<Rightarrow> credential_generation \<Rightarrow> consumer_binding list \<Rightarrow> control_preferences
     \<Rightarrow> string \<Rightarrow> service_setup option \<Rightarrow> ('w, managed_credential) inventory_op" where
  "import_credential sv credential generation bindings preferences actor_id setup =
     (let org = mc_organisation_id credential in
      bindx (fetch_connection sv org (mc_connection_id credential)) (\<lambda>management.
      bindx (demand (provider_ready (mc_provider credential) management)
        ''credential requires a provider connection for the same platform'') (\<lambda>_.
      bindx (demand (\<not> playbook_missing management) ''browser-managed credentials require a connection playbook'') (\<lambda>_.
      bindx (fetch_connection sv org (mc_secret_store_connection_id credential)) (\<lambda>secret_store.
      bindx (demand (role_ready Role_Secret_Store secret_store) ''credential requires an API secret-store connection'') (\<lambda>_.
      bindx (demand (resource_covered (mc_secret_resource credential) (con_allowed_resources secret_store))
        ''credential secret resource escapes the secret store'') (\<lambda>_.
      bindx (check_imported_credential credential generation bindings) (\<lambda>_.
      bindx (list_active_connections sv org) (\<lambda>active.
      bindx (mapx (import_binding sv credential generation setup) bindings) (\<lambda>bound.
      bindx (verify_import_binding sv credential management secret_store) (\<lambda>_.
      bindx (consulting (ivn_clock sv)) (\<lambda>now.
      bindx (consulting (ivn_tokens sv)) (\<lambda>hex.
      let connections = put_connections (concat (map snd bound)) (put_connections [management, secret_store] (put_connections active [])) in
      bindx (checked_value (compile_controls (ivn_sha sv) (ivn_fmt sv) hex credential bindings (map fst bound) (map snd connections)
        preferences actor_id now)) (\<lambda>(definition, probes).
      bindx (checked_value (digest (ivn_sha sv) (ivn_fmt sv) (dump_control_definition definition))) (\<lambda>d.
      bindx (checked_value (validate_control_version
        \<lparr>cv_id = mc_control_version credential, cv_organisation_id = org, cv_credential_id = mc_id credential, cv_number = 1,
         cv_definition = definition, cv_digest = d, cv_created_by = actor_id, cv_created_at = now\<rparr>)) (\<lambda>controls.
      inventory_tx (repo_import_credential (ivn_sha sv) (ivn_fmt sv) (ivn_ip sv) credential generation bindings controls probes
        setup)))))))))))))))))"

text \<open>The consumer of a credential found in a runtime: the service that is there, or a new one with its parents.\<close>

definition discovered_consumer ::
  "'w inventory_service \<Rightarrow> string \<Rightarrow> runtime_consumer_setup \<Rightarrow> runtime_resource_metadata \<Rightarrow> consumer_service list
     \<Rightarrow> ('w, consumer_service \<times> service_setup option) inventory_op" where
  "discovered_consumer sv org consumer resource existing =
     (case existing of
        service # others \<Rightarrow>
          bindx (demand (others = []) ''runtime service mapping is ambiguous'') (\<lambda>_.
          bindx (demand (rcs_service_id consumer = csv_id service \<and> rcs_application_id consumer = csv_application_id service
              \<and> rcs_environment_id consumer = csv_environment_id service)
            ''runtime service selection changed before import'') (\<lambda>_.
          yields (service, None)))
      | [] \<Rightarrow>
          (let name = first_text (rrm_environment_name resource) (rcs_environment_name consumer) in
           bindx (demand (truthy name) ''runtime service environment is unavailable'') (\<lambda>_.
           bindx (consulting (ivn_clock sv)) (\<lambda>now.
           bindx (checked_value (discovered_setup org (rcs_application_id consumer) (rcs_environment_id consumer)
             (rcs_service_id consumer) (rcs_runtime_connection_id consumer) resource (the name) now)) (\<lambda>(a, e, v).
           yields (v, Some (a, e, v)))))))"

definition import_discovered_credential ::
  "'w inventory_service \<Rightarrow> managed_credential \<Rightarrow> credential_generation \<Rightarrow> runtime_consumer_setup \<Rightarrow> control_preferences
     \<Rightarrow> string \<Rightarrow> ('w, managed_credential) inventory_op" where
  "import_discovered_credential sv credential generation consumer preferences actor_id =
     (let org = mc_organisation_id credential in
      bindx (list_runtime_resources sv org (rcs_runtime_connection_id consumer)) (\<lambda>resources.
      bindx (select_resource (rcs_runtime_resource consumer) resources) (\<lambda>resource.
      bindx (all_services sv org) (\<lambda>services.
      bindx (discovered_consumer sv org consumer resource
        (filter (\<lambda>v. csv_archived_at v = None \<and> csv_runtime_connection_id v = rcs_runtime_connection_id consumer
           \<and> csv_runtime_resource v = rcs_runtime_resource consumer) services)) (\<lambda>(service, setup).
      bindx (checked_value (validate_binding
        \<lparr>cb_id = rcs_binding_id consumer, cb_organisation_id = org, cb_credential_id = mc_id credential,
         cb_service_id = csv_id service, cb_environment_id = csv_environment_id service,
         cb_runtime_connection_id = csv_runtime_connection_id service, cb_runtime_resource = csv_runtime_resource service,
         cb_runtime_secret_name = rcs_runtime_secret_name consumer,
         cb_runtime_container_name = rcs_runtime_container_name consumer, cb_secret_reference = mc_secret_reference credential,
         cb_current_generation_id = cg_id generation, cb_target_generation_id = None, cb_verification_report_id = None,
         cb_required = True, cb_revision = 0\<rparr>)) (\<lambda>b.
      import_credential sv credential generation [b] preferences actor_id setup))))))"

section \<open>Edits\<close>

definition editable :: "int option \<Rightarrow> int \<Rightarrow> int \<Rightarrow> string \<Rightarrow> unit result" where
  "editable archived_at revision expected_revision label =
     bindr (require (archived_at = None) (ResourceConflictError (''archived '' @ label @ ''s cannot be edited''))) (\<lambda>_.
     require (revision = expected_revision)
       (ResourceConflictError (label @ '' expected revision '' @ int_text expected_revision @ '', found '' @ int_text revision)))"

definition override :: "'a option \<Rightarrow> 'a \<Rightarrow> 'a" where
  "override new old = (case new of None \<Rightarrow> old | Some v \<Rightarrow> v)"

definition overrides :: "'a option \<Rightarrow> 'a option \<Rightarrow> 'a option" where
  "overrides new old = (case new of None \<Rightarrow> old | Some v \<Rightarrow> Some v)"

definition some_change :: "bool list \<Rightarrow> unit result" where
  "some_change given_fields = require (list_ex (\<lambda>b. b) given_fields) (ResourceConflictError ''edit does not change any fields'')"

text \<open>\<open>_change\<close> on each type: the fields that are given, the time and the next revision, validated again.\<close>

definition change_connection ::
  "(string \<Rightarrow> bool) \<Rightarrow> connection \<Rightarrow> int \<Rightarrow> int \<Rightarrow> string option \<Rightarrow> string list option \<Rightarrow> string list option \<Rightarrow> string option
     \<Rightarrow> connection result" where
  "change_connection ip c expected_revision now display_name capabilities allowed_resources region =
     bindr (editable (con_archived_at c) (con_revision c) expected_revision ''connection'') (\<lambda>_.
     bindr (some_change [display_name \<noteq> None, capabilities \<noteq> None, allowed_resources \<noteq> None, region \<noteq> None]) (\<lambda>_.
     validate_connection ip
       (c\<lparr>con_display_name := override display_name (con_display_name c),
          con_capabilities := override capabilities (con_capabilities c),
          con_allowed_resources := override allowed_resources (con_allowed_resources c),
          con_region := override region (con_region c), con_updated_at := now, con_revision := expected_revision + 1\<rparr>)))"

definition change_application ::
  "application \<Rightarrow> int \<Rightarrow> int \<Rightarrow> string option \<Rightarrow> string list option \<Rightarrow> application result" where
  "change_application a expected_revision now display_name repository_ids =
     bindr (editable (app_archived_at a) (app_revision a) expected_revision ''application'') (\<lambda>_.
     bindr (some_change [display_name \<noteq> None, repository_ids \<noteq> None]) (\<lambda>_.
     validate_application
       (a\<lparr>app_display_name := override display_name (app_display_name a),
          app_repository_ids := override repository_ids (app_repository_ids a), app_updated_at := now,
          app_revision := expected_revision + 1\<rparr>)))"

definition change_environment ::
  "environment \<Rightarrow> int \<Rightarrow> int \<Rightarrow> string option \<Rightarrow> bool option \<Rightarrow> string option \<Rightarrow> environment result" where
  "change_environment e expected_revision now display_name production region =
     bindr (editable (env_archived_at e) (env_revision e) expected_revision ''environment'') (\<lambda>_.
     bindr (some_change [display_name \<noteq> None, production \<noteq> None, region \<noteq> None]) (\<lambda>_.
     validate_environment
       (e\<lparr>env_display_name := override display_name (env_display_name e),
          env_production := override production (env_production e), env_region := override region (env_region e),
          env_updated_at := now, env_revision := expected_revision + 1\<rparr>)))"

record service_edit =
  sed_display_name :: "string option"
  sed_runtime_connection_id :: "string option"
  sed_telemetry_connection_ids :: "string list option"
  sed_runtime_resource :: "string option"
  sed_endpoint :: "string option"
  sed_repository :: "string option"
  sed_identity :: "string option"

definition change_service :: "consumer_service \<Rightarrow> int \<Rightarrow> int \<Rightarrow> service_edit \<Rightarrow> consumer_service result" where
  "change_service v expected_revision now edit =
     bindr (editable (csv_archived_at v) (csv_revision v) expected_revision ''consumerservice'') (\<lambda>_.
     bindr (some_change [sed_display_name edit \<noteq> None, sed_runtime_connection_id edit \<noteq> None,
       sed_telemetry_connection_ids edit \<noteq> None, sed_runtime_resource edit \<noteq> None, sed_endpoint edit \<noteq> None,
       sed_repository edit \<noteq> None, sed_identity edit \<noteq> None]) (\<lambda>_.
     validate_service
       (v\<lparr>csv_display_name := override (sed_display_name edit) (csv_display_name v),
          csv_runtime_connection_id := override (sed_runtime_connection_id edit) (csv_runtime_connection_id v),
          csv_telemetry_connection_ids := override (sed_telemetry_connection_ids edit) (csv_telemetry_connection_ids v),
          csv_runtime_resource := override (sed_runtime_resource edit) (csv_runtime_resource v),
          csv_endpoint := overrides (sed_endpoint edit) (csv_endpoint v),
          csv_repository := overrides (sed_repository edit) (csv_repository v),
          csv_identity := overrides (sed_identity edit) (csv_identity v),
          csv_updated_at := now, csv_revision := expected_revision + 1\<rparr>)))"

definition change_credential :: "managed_credential \<Rightarrow> int \<Rightarrow> int \<Rightarrow> string option \<Rightarrow> string option \<Rightarrow> managed_credential result" where
  "change_credential c expected_revision now display_name control_version =
     bindr (editable (mc_archived_at c) (mc_revision c) expected_revision ''managedcredential'') (\<lambda>_.
     bindr (some_change [display_name \<noteq> None, control_version \<noteq> None]) (\<lambda>_.
     validate_credential
       (c\<lparr>mc_display_name := override display_name (mc_display_name c),
          mc_control_version := override control_version (mc_control_version c), mc_updated_at := now,
          mc_revision := expected_revision + 1\<rparr>)))"

definition validate_connection_usage :: "'w inventory_service \<Rightarrow> connection \<Rightarrow> ('w, unit) inventory_op" where
  "validate_connection_usage sv c =
     bindx (list_active_credentials sv (con_organisation_id c)) (\<lambda>credentials.
     bindx (list_active_services sv (con_organisation_id c)) (\<lambda>services.
     bindx (demand (\<not> (Role_Secret_Store \<in> set (con_roles c)
         \<and> list_ex (\<lambda>m. mc_secret_store_connection_id m = con_id c
              \<and> \<not> resource_covered (mc_secret_reference m) (con_allowed_resources c)) credentials))
       ''connection scope no longer covers an active secret'') (\<lambda>_.
     bindx (demand (\<not> (Role_Runtime \<in> set (con_roles c)
         \<and> list_ex (\<lambda>v. csv_runtime_connection_id v = con_id c
              \<and> \<not> resource_covered (csv_runtime_resource v) (con_allowed_resources c)) services))
       ''connection scope no longer covers an active runtime'') (\<lambda>_.
     if con_interface c = If_Browser
     then (case (con_playbook_id c, con_playbook_version_id c) of
             (Some playbook_id, Some version_id) \<Rightarrow>
               bindx (inventory_read (repo_get_playbook_version (con_organisation_id c) playbook_id version_id)) (\<lambda>version.
               demand (list_all (\<lambda>d. inventory_domain_covered d (con_allowed_resources c))
                   (pl_allowed_domains (plv_definition version)))
                 ''connection domains no longer cover its playbook'')
           | (Some playbook_id, None) \<Rightarrow> raises (Raised (RuntimeError ''AssertionError''))
           | (None, _) \<Rightarrow> yields ())
     else yields ()))))"

definition update_connection ::
  "'w inventory_service \<Rightarrow> string \<Rightarrow> string \<Rightarrow> int \<Rightarrow> string option \<Rightarrow> string list option \<Rightarrow> string list option \<Rightarrow> string option
     \<Rightarrow> ('w, connection) inventory_op" where
  "update_connection sv org i expected_revision display_name capabilities allowed_resources region =
     bindx (fetch_connection sv org i) (\<lambda>current.
     bindx (demand (con_archived_at current = None) ''archived connections cannot be edited'') (\<lambda>_.
     bindx (consulting (ivn_clock sv)) (\<lambda>now.
     bindx (checked_value (change_connection (ivn_ip sv) current expected_revision now display_name capabilities allowed_resources
       region)) (\<lambda>changed.
     bindx (checked_value (browser_declared changed)) (\<lambda>_.
     bindx (validate_connection_usage sv changed) (\<lambda>_.
     inventory_tx (repo_replace_connection (ivn_ip sv) changed expected_revision)))))))"

definition update_application ::
  "'w inventory_service \<Rightarrow> string \<Rightarrow> string \<Rightarrow> int \<Rightarrow> string option \<Rightarrow> string list option \<Rightarrow> ('w, application) inventory_op" where
  "update_application sv org i expected_revision display_name repository_ids =
     bindx (inventory_read (repo_get_application org i)) (\<lambda>current.
     bindx (checked_value (editable (app_archived_at current) (app_revision current) expected_revision ''application'')) (\<lambda>_.
     bindx (consulting (ivn_clock sv)) (\<lambda>now.
     bindx (checked_value (change_application current expected_revision now display_name repository_ids)) (\<lambda>changed.
     inventory_tx (repo_replace_application changed expected_revision)))))"

definition update_environment ::
  "'w inventory_service \<Rightarrow> string \<Rightarrow> string \<Rightarrow> int \<Rightarrow> string option \<Rightarrow> bool option \<Rightarrow> string option
     \<Rightarrow> ('w, environment) inventory_op" where
  "update_environment sv org i expected_revision display_name production region =
     bindx (inventory_read (repo_get_environment org i)) (\<lambda>current.
     bindx (checked_value (editable (env_archived_at current) (env_revision current) expected_revision ''environment'')) (\<lambda>_.
     bindx (consulting (ivn_clock sv)) (\<lambda>now.
     bindx (checked_value (change_environment current expected_revision now display_name production region)) (\<lambda>changed.
     inventory_tx (repo_replace_environment changed expected_revision)))))"

definition update_service ::
  "'w inventory_service \<Rightarrow> string \<Rightarrow> string \<Rightarrow> int \<Rightarrow> service_edit \<Rightarrow> ('w, consumer_service) inventory_op" where
  "update_service sv org i expected_revision edit =
     bindx (inventory_read (repo_get_service org i)) (\<lambda>current.
     bindx (checked_value (editable (csv_archived_at current) (csv_revision current) expected_revision ''service'')) (\<lambda>_.
     bindx (consulting (ivn_clock sv)) (\<lambda>now.
     bindx (checked_value (change_service current expected_revision now edit)) (\<lambda>changed.
     bindx (validate_service_connections sv changed) (\<lambda>_.
     inventory_tx (repo_replace_service changed expected_revision))))))"

definition update_credential ::
  "'w inventory_service \<Rightarrow> string \<Rightarrow> string \<Rightarrow> int \<Rightarrow> string option \<Rightarrow> ('w, managed_credential) inventory_op" where
  "update_credential sv org i expected_revision display_name =
     bindx (inventory_read (repo_get_credential org i)) (\<lambda>current.
     bindx (checked_value (editable (mc_archived_at current) (mc_revision current) expected_revision ''credential'')) (\<lambda>_.
     bindx (consulting (ivn_clock sv)) (\<lambda>now.
     bindx (checked_value (change_credential current expected_revision now display_name None)) (\<lambda>changed.
     inventory_tx (repo_replace_credential changed expected_revision)))))"

definition get_controls :: "string \<Rightarrow> string \<Rightarrow> string \<Rightarrow> ('w, control_version) inventory_op" where
  "get_controls org credential_id version_id =
     bindx (inventory_read (repo_get_credential org credential_id)) (\<lambda>credential.
     bindx (inventory_read (repo_get_control_version org credential_id version_id)) (\<lambda>controls.
     bindx (demand (cv_credential_id controls = mc_id credential \<and> cv_organisation_id controls = org)
       ''controls do not belong to the credential'') (\<lambda>_.
     yields controls)))"

definition replace_controls ::
  "'w inventory_service \<Rightarrow> string \<Rightarrow> string \<Rightarrow> int \<Rightarrow> string \<Rightarrow> control_preferences \<Rightarrow> string
     \<Rightarrow> ('w, managed_credential \<times> control_version) inventory_op" where
  "replace_controls sv org credential_id expected_revision version_id preferences actor_id =
     bindx (inventory_read (repo_get_credential org credential_id)) (\<lambda>current.
     bindx (checked_value (editable (mc_archived_at current) (mc_revision current) expected_revision ''credential'')) (\<lambda>_.
     bindx (list_active_connections sv org) (\<lambda>active.
     bindx (checked_value (validate_exposure_sources active preferences)) (\<lambda>_.
     bindx (get_controls org credential_id (mc_control_version current)) (\<lambda>previous.
     let definition' = update_controls (cv_definition previous) preferences in
     bindx (checked_value (digest (ivn_sha sv) (ivn_fmt sv) (dump_control_definition definition'))) (\<lambda>d.
     bindx (consulting (ivn_clock sv)) (\<lambda>created_at.
     bindx (checked_value (validate_control_version
       \<lparr>cv_id = version_id, cv_organisation_id = org, cv_credential_id = credential_id, cv_number = cv_number previous + 1,
        cv_definition = definition', cv_digest = d, cv_created_by = actor_id, cv_created_at = created_at\<rparr>)) (\<lambda>controls.
     bindx (consulting (ivn_clock sv)) (\<lambda>now.
     bindx (checked_value (change_credential current expected_revision now None (Some (cv_id controls)))) (\<lambda>changed.
     inventory_tx (repo_replace_controls changed expected_revision controls)))))))))))"

section \<open>Archives\<close>

text \<open>\<open>_archive\<close> on each type.\<close>

definition archive_connection_value :: "(string \<Rightarrow> bool) \<Rightarrow> connection \<Rightarrow> int \<Rightarrow> int \<Rightarrow> connection result" where
  "archive_connection_value ip c expected_revision now =
     bindr (editable (con_archived_at c) (con_revision c) expected_revision ''connection'') (\<lambda>_.
     validate_connection ip (c\<lparr>con_status := Con_Disabled, con_archived_at := Some now, con_updated_at := now,
       con_revision := expected_revision + 1\<rparr>))"

definition archive_application_value :: "application \<Rightarrow> int \<Rightarrow> int \<Rightarrow> application result" where
  "archive_application_value a expected_revision now =
     bindr (editable (app_archived_at a) (app_revision a) expected_revision ''application'') (\<lambda>_.
     validate_application (a\<lparr>app_archived_at := Some now, app_updated_at := now, app_revision := expected_revision + 1\<rparr>))"

definition archive_environment_value :: "environment \<Rightarrow> int \<Rightarrow> int \<Rightarrow> environment result" where
  "archive_environment_value e expected_revision now =
     bindr (editable (env_archived_at e) (env_revision e) expected_revision ''environment'') (\<lambda>_.
     validate_environment (e\<lparr>env_archived_at := Some now, env_updated_at := now, env_revision := expected_revision + 1\<rparr>))"

definition archive_service_value :: "consumer_service \<Rightarrow> int \<Rightarrow> int \<Rightarrow> consumer_service result" where
  "archive_service_value v expected_revision now =
     bindr (editable (csv_archived_at v) (csv_revision v) expected_revision ''consumerservice'') (\<lambda>_.
     validate_service (v\<lparr>csv_archived_at := Some now, csv_updated_at := now, csv_revision := expected_revision + 1\<rparr>))"

definition archive_credential_value :: "managed_credential \<Rightarrow> int \<Rightarrow> int \<Rightarrow> managed_credential result" where
  "archive_credential_value c expected_revision now =
     bindr (editable (mc_archived_at c) (mc_revision c) expected_revision ''managedcredential'') (\<lambda>_.
     validate_credential (c\<lparr>mc_archived_at := Some now, mc_updated_at := now, mc_revision := expected_revision + 1\<rparr>))"

text \<open>The dictionary of the resources, by type and name.\<close>

fun resource_kind :: "inventory_resource \<Rightarrow> string" where
  "resource_kind (Res_Connection c) = ''connection''"
| "resource_kind (Res_Application a) = ''application''"
| "resource_kind (Res_Environment e) = ''environment''"
| "resource_kind (Res_Service v) = ''consumerservice''"
| "resource_kind (Res_Credential c) = ''managedcredential''"

definition resource_table :: "inventory_resource list \<Rightarrow> inventory_resource list" where
  "resource_table rs = map snd (fold (\<lambda>r. AList.update (resource_kind r, resource_id r) r) rs [])"

definition related_credentials ::
  "inventory_resource \<Rightarrow> consumer_service list \<Rightarrow> managed_credential list \<Rightarrow> consumer_binding list \<Rightarrow> string set" where
  "related_credentials primary services credentials bindings =
     set (map mc_id credentials) \<union> (case primary of Res_Credential c \<Rightarrow> {mc_id c} | _ \<Rightarrow> {})
     \<union> set (map cb_credential_id (filter (\<lambda>b. cb_service_id b \<in> set (map csv_id services)) bindings))"

definition archive_resources ::
  "inventory_resource \<Rightarrow> environment list \<Rightarrow> consumer_service list \<Rightarrow> managed_credential list \<Rightarrow> int
     \<Rightarrow> inventory_resource list result" where
  "archive_resources primary environments services credentials now =
     bindr (mapr (\<lambda>e. bindr (archive_environment_value e (env_revision e) now) (\<lambda>x. Inr (Res_Environment x))) environments) (\<lambda>es.
     bindr (mapr (\<lambda>v. bindr (archive_service_value v (csv_revision v) now) (\<lambda>x. Inr (Res_Service x))) services) (\<lambda>vs.
     bindr (mapr (\<lambda>c. bindr (archive_credential_value c (mc_revision c) now) (\<lambda>x. Inr (Res_Credential x))) credentials) (\<lambda>cs.
     Inr (resource_table (primary # es @ vs @ cs)))))"

definition archive_all ::
  "'w inventory_service \<Rightarrow> inventory_resource \<Rightarrow> environment list \<Rightarrow> consumer_service list \<Rightarrow> managed_credential list
     \<Rightarrow> ('w, unit) inventory_op" where
  "archive_all sv primary environments services credentials =
     (let org = resource_organisation primary in
      bindx (all_bindings sv org) (\<lambda>bindings.
      let related = related_credentials primary services credentials bindings in
      bindx (list_active_credentials sv org) (\<lambda>active.
      bindx (consulting (ivn_clock sv)) (\<lambda>now.
      bindx (checked_value (archive_resources primary environments services (filter (\<lambda>c. mc_id c \<in> related) active) now)) (\<lambda>resources.
      inventory_tx (repo_archive_inventory (ivn_ip sv) resources (filter (\<lambda>b. cb_credential_id b \<in> related) bindings)))))))"

definition archive_connection ::
  "'w inventory_service \<Rightarrow> string \<Rightarrow> string \<Rightarrow> int \<Rightarrow> bool \<Rightarrow> ('w, connection) inventory_op" where
  "archive_connection sv org i expected_revision cascade =
     bindx (fetch_connection sv org i) (\<lambda>current.
     bindx (list_active_credentials sv org) (\<lambda>credentials.
     bindx (list_active_services sv org) (\<lambda>services.
     let dependent_services = filter (\<lambda>v. i = csv_runtime_connection_id v \<or> i \<in> set (csv_telemetry_connection_ids v)) services;
         dependent_credentials = filter (\<lambda>c. i \<in> {mc_connection_id c, mc_secret_store_connection_id c}) credentials in
     bindx (demand ((dependent_services = [] \<and> dependent_credentials = []) \<or> cascade)
       ''connection is still used by active inventory'') (\<lambda>_.
     bindx (consulting (ivn_clock sv)) (\<lambda>now.
     bindx (checked_value (archive_connection_value (ivn_ip sv) current expected_revision now)) (\<lambda>archived.
     bindx (archive_all sv (Res_Connection archived) [] dependent_services dependent_credentials) (\<lambda>_.
     yields archived)))))))"

definition archive_application ::
  "'w inventory_service \<Rightarrow> string \<Rightarrow> string \<Rightarrow> int \<Rightarrow> bool \<Rightarrow> ('w, application) inventory_op" where
  "archive_application sv org i expected_revision cascade =
     bindx (inventory_read (repo_get_application org i)) (\<lambda>current.
     bindx (list_active_environments sv org) (\<lambda>environments.
     bindx (list_active_services sv org) (\<lambda>services.
     let contained_environments = filter (\<lambda>e. env_application_id e = i) environments;
         contained_services = filter (\<lambda>v. csv_application_id v = i) services in
     bindx (demand ((contained_environments = [] \<and> contained_services = []) \<or> cascade)
       ''application still contains active environments or services'') (\<lambda>_.
     bindx (consulting (ivn_clock sv)) (\<lambda>now.
     bindx (checked_value (archive_application_value current expected_revision now)) (\<lambda>archived.
     bindx (archive_all sv (Res_Application archived) contained_environments contained_services []) (\<lambda>_.
     yields archived)))))))"

definition archive_environment ::
  "'w inventory_service \<Rightarrow> string \<Rightarrow> string \<Rightarrow> int \<Rightarrow> bool \<Rightarrow> ('w, environment) inventory_op" where
  "archive_environment sv org i expected_revision cascade =
     bindx (inventory_read (repo_get_environment org i)) (\<lambda>current.
     bindx (list_active_services sv org) (\<lambda>services.
     let contained = filter (\<lambda>v. csv_environment_id v = i) services in
     bindx (demand (contained = [] \<or> cascade) ''environment still contains active services'') (\<lambda>_.
     bindx (consulting (ivn_clock sv)) (\<lambda>now.
     bindx (checked_value (archive_environment_value current expected_revision now)) (\<lambda>archived.
     bindx (archive_all sv (Res_Environment archived) [] contained []) (\<lambda>_.
     yields archived))))))"

definition archive_service ::
  "'w inventory_service \<Rightarrow> string \<Rightarrow> string \<Rightarrow> int \<Rightarrow> bool \<Rightarrow> ('w, consumer_service) inventory_op" where
  "archive_service sv org i expected_revision cascade =
     bindx (inventory_read (repo_get_service org i)) (\<lambda>current.
     bindx (all_bindings sv org) (\<lambda>bindings.
     let bound = filter (\<lambda>b. cb_service_id b = i) bindings in
     bindx (demand (bound = [] \<or> cascade) ''service still has credential bindings'') (\<lambda>_.
     bindx (consulting (ivn_clock sv)) (\<lambda>now.
     bindx (checked_value (archive_service_value current expected_revision now)) (\<lambda>archived.
     bindx (list_active_credentials sv org) (\<lambda>credentials.
     bindx (archive_all sv (Res_Service archived) [] []
       (filter (\<lambda>c. mc_id c \<in> set (map cb_credential_id bound)) credentials)) (\<lambda>_.
     yields archived)))))))"

definition archive_credential ::
  "'w inventory_service \<Rightarrow> string \<Rightarrow> string \<Rightarrow> int \<Rightarrow> bool \<Rightarrow> ('w, managed_credential) inventory_op" where
  "archive_credential sv org i expected_revision cascade =
     bindx (inventory_read (repo_get_credential org i)) (\<lambda>current.
     bindx (demand (mc_consumer_ids current = [] \<or> cascade)
       ''credential must be disconnected before it can be archived'') (\<lambda>_.
     bindx (consulting (ivn_clock sv)) (\<lambda>now.
     bindx (checked_value (archive_credential_value current expected_revision now)) (\<lambda>archived.
     bindx (archive_all sv (Res_Credential archived) [] [] []) (\<lambda>_.
     yields archived)))))"

end
