(* ===== verification/Inventory_Facts.thy ===== *)
theory Inventory_Facts imports Inventory_Changes begin

text \<open>
  What the operations of the inventory do to credentials, their generations, bindings and controls: most of them leave
  these alone; the others have one of the effects of \<open>inventory_effect\<close>. Every effect keeps the controls sound
  (\<open>controls_sound\<close>) and, when imports bring active generations only, the lineage (\<open>lineage_ok\<close>).
\<close>

section \<open>Operations that only read\<close>

definition same_store :: "'w inventory_state \<Rightarrow> 'w inventory_state \<Rightarrow> bool" where
  "same_store s t \<longleftrightarrow> ivx_store t = ivx_store s"

interpretation same_store: kept same_store
  by unfold_locales (auto simp: same_store_def)

named_theorems quiet "operations that leave the inventory alone"

lemma quiet_basic [quiet]:
  "keeps same_store (inventory_read f)" "keeps same_store (external h)" "keeps same_store (consulting k)"
  "keeps same_store (checked_value r)" "keeps same_store (demand b m)" "keeps same_store (conflict m)"
  by (auto simp: keeps_def same_store_def inventory_read_def external_def consulting_def checked_value_def demand_def conflict_def
      requires_def raises_def split: sum.splits prod.splits)

lemmas quiet_steps = same_store.keeps_idle same_store.keeps_bindx same_store.keeps_mapx same_store.keeps_catches

lemma quiet_cases [quiet]:
  "(\<And>x. keeps same_store (g x)) \<Longrightarrow> keeps same_store h \<Longrightarrow> keeps same_store (case x of None \<Rightarrow> h | Some x \<Rightarrow> g x)"
  "keeps same_store f \<Longrightarrow> keeps same_store h \<Longrightarrow> keeps same_store (if b then f else h)"
  by (auto split: option.splits)

lemma quiet_discovering [quiet]: "keeps same_store f \<Longrightarrow> keeps same_store (discovering m f)"
  unfolding discovering_def
  by (intro same_store.keeps_catches) (auto split: tool_exception.splits intro: quiet_basic same_store.keeps_idle)

lemma quiet_lists [quiet]:
  "keeps same_store (all_connections sv org)" "keeps same_store (all_applications sv org)"
  "keeps same_store (all_environments sv org)" "keeps same_store (all_services sv org)"
  "keeps same_store (all_credentials sv org)" "keeps same_store (all_bindings sv org)"
  "keeps same_store (fetch_connection sv org i)"
  unfolding all_connections_def all_applications_def all_environments_def all_services_def all_credentials_def all_bindings_def
    fetch_connection_def by (rule quiet_basic)+

lemma quiet_active [quiet]:
  "keeps same_store (list_active_connections sv org)" "keeps same_store (list_active_environments sv org)"
  "keeps same_store (list_active_services sv org)" "keeps same_store (list_active_credentials sv org)"
  unfolding list_active_connections_def list_active_environments_def list_active_services_def list_active_credentials_def
  by (intro quiet quiet_steps)+

lemma quiet_discovery [quiet]:
  "keeps same_store (list_runtime_resources sv org i)"
  "keeps same_store (find_credential sv management secret_store reference)"
  "keeps same_store (select_resource reference resources)"
proof -
  show "keeps same_store (list_runtime_resources sv org i)"
    unfolding list_runtime_resources_def by (intro quiet quiet_steps quiet_discovering)
  show "keeps same_store (find_credential sv management secret_store reference)"
    unfolding find_credential_def resolve_browser_credential_def
    by (auto intro!: quiet quiet_steps split: option.splits list.splits)
  show "keeps same_store (select_resource reference resources)"
    unfolding select_resource_def by (auto intro!: quiet quiet_steps split: list.splits)
qed

lemma quiet_checks [quiet]:
  "keeps same_store (validate_service_connections sv v)" "keeps same_store (validate_connection_usage sv c)"
  "keeps same_store (mark_ready sv c)" "keeps same_store (ask_provider sv c)" "keeps same_store (ask_runtime sv c)"
  "keeps same_store (ask_secret_store sv c)" "keeps same_store (same_tenant a b)" "keeps same_store (get_controls org i w)"
  "keeps same_store (import_telemetry sv org i)" "keeps same_store (verify_identity credential management metadata)"
  "keeps same_store (check_imported_credential credential generation bindings)"
  unfolding validate_service_connections_def validate_connection_usage_def mark_ready_def ask_provider_def ask_runtime_def
    ask_secret_store_def same_tenant_def get_controls_def import_telemetry_def verify_identity_def check_imported_credential_def
  by (auto intro!: quiet quiet_steps split: option.splits)

lemma quiet_binding_service [quiet]: "keeps same_store (binding_service setup org b)"
  unfolding binding_service_def by (auto intro!: quiet quiet_steps split: option.splits bool.splits)

lemma quiet_import [quiet]:
  "keeps same_store (import_binding sv credential generation setup b)"
  "keeps same_store (verify_import_binding sv credential management secret_store)"
  "keeps same_store (discovered_consumer sv org consumer resource existing)"
proof -
  show "keeps same_store (import_binding sv credential generation setup b)"
    unfolding import_binding_def Let_def by (intro quiet quiet_steps)
  show "keeps same_store (verify_import_binding sv credential management secret_store)"
    unfolding verify_import_binding_def by (intro quiet quiet_steps)
  show "keeps same_store (discovered_consumer sv org consumer resource existing)"
    unfolding discovered_consumer_def Let_def by (auto intro!: quiet quiet_steps split: list.splits)
qed

section \<open>Steps after readings\<close>

text \<open>The change of an operation is that of its last step, in the inventory the readings found.\<close>

definition change :: "(inventory_store \<Rightarrow> inventory_store \<Rightarrow> bool) \<Rightarrow> ('w, 'a) inventory_op \<Rightarrow> 'w inventory_state \<Rightarrow> bool" where
  "change R f s \<longleftrightarrow> R (ivx_store s) (ivx_store (snd (f s)))"

lemma change_bindx:
  assumes "keeps same_store f" "\<And>s. R s s"
    and "\<And>x t. f s = (Inr x, t) \<Longrightarrow> ivx_store t = ivx_store s \<Longrightarrow> change R (g x) t"
  shows "change R (bindx f g) s"
proof (cases "f s")
  case (Pair r t)
  then have t: "ivx_store t = ivx_store s" using keepsD [OF assms(1)] by (auto simp: same_store_def)
  then show ?thesis using assms(2) assms(3) [of _ t] Pair by (cases r) (auto simp: change_def bindx_def)
qed

lemma change_quiet: "keeps same_store f \<Longrightarrow> (\<And>s. R s s) \<Longrightarrow> change R f s"
  using keepsD [of same_store f s] by (cases "f s") (auto simp: change_def same_store_def)

lemma change_tx:
  assumes "\<And>s. R s s" "\<And>x u. f (ivx_store s) = Inr (x, u) \<Longrightarrow> R (ivx_store s) u"
  shows "change R (inventory_tx f) s"
  using assms by (auto simp: change_def inventory_tx_def split: sum.splits prod.splits)

lemma change_tail:
  assumes "\<And>s. R s s" "change R f s"
  shows "change R (bindx f (\<lambda>_. yields y)) s"
  using assms by (cases "f s") (auto simp: change_def bindx_def yields_def split: sum.splits)

lemma inventory_read_Inr: "inventory_read f s = (Inr x, t) \<longleftrightarrow> f (ivx_store s) = Inr x \<and> t = s"
  by (auto simp: inventory_read_def split: sum.splits)

lemma checked_value_Inr: "checked_value r s = (Inr x, t) \<longleftrightarrow> r = Inr x \<and> t = s"
  by (auto simp: checked_value_def split: sum.splits)


section \<open>Operations that leave credentials and controls alone\<close>

definition untouched :: "'w inventory_state \<Rightarrow> 'w inventory_state \<Rightarrow> bool" where
  "untouched s t \<longleftrightarrow> ivs_lineage (ivx_store t) = ivs_lineage (ivx_store s)
     \<and> ivs_controls (ivx_store t) = ivs_controls (ivx_store s)"

interpretation untouched: kept untouched
  by unfold_locales (auto simp: untouched_def)

lemma quiet_untouched: "keeps same_store f \<Longrightarrow> keeps untouched f"
  by (auto simp: keeps_def same_store_def untouched_def)

lemma untouched_tx:
  assumes "\<And>s x u. f s = Inr (x, u) \<Longrightarrow> ivs_lineage u = ivs_lineage s \<and> ivs_controls u = ivs_controls s"
  shows "keeps untouched (inventory_tx f)"
  using assms by (auto simp: keeps_def untouched_def inventory_tx_def split: sum.splits)

lemma store_updates [simp]:
  "ivs_lineage (put_connection org i c s) = ivs_lineage s" "ivs_controls (put_connection org i c s) = ivs_controls s"
  "ivs_lineage (put_application org i a s) = ivs_lineage s" "ivs_controls (put_application org i a s) = ivs_controls s"
  "ivs_lineage (put_environment org i e s) = ivs_lineage s" "ivs_controls (put_environment org i e s) = ivs_controls s"
  "ivs_lineage (put_service org i v s) = ivs_lineage s" "ivs_controls (put_service org i v s) = ivs_controls s"
  "ivs_lineage (put_managed org i m s) = put_credential org i m (ivs_lineage s)"
  "ivs_controls (put_managed org i m s) = ivs_controls s"
  by (simp_all add: put_connection_def put_application_def put_environment_def put_service_def put_managed_def)

lemma untouched_repository:
  "keeps untouched (inventory_tx (repo_add_connection c))"
  "keeps untouched (inventory_tx (repo_add_application a))"
  "keeps untouched (inventory_tx (repo_add_environment e))"
  "keeps untouched (inventory_tx (repo_add_service v))"
  "keeps untouched (inventory_tx (repo_add_application_setup a e v))"
  "keeps untouched (inventory_tx (repo_replace_connection ip c n))"
  "keeps untouched (inventory_tx (repo_replace_application a n))"
  "keeps untouched (inventory_tx (repo_replace_environment e n))"
  "keeps untouched (inventory_tx (repo_replace_service v n))"
  "keeps untouched (inventory_tx (update_authentication ip org i n ref status at))"
  by (rule untouched_tx, auto simp: repo_add_connection_def repo_add_application_def repo_add_environment_def
      repo_add_service_def repo_add_application_setup_def repo_replace_connection_def repo_replace_application_def
      repo_replace_environment_def repo_replace_service_def update_authentication_def Let_def bindr_eq_Inr split: option.splits)+

lemma untouched_services:
  "keeps untouched (add_connection sv c)"
  "keeps untouched (add_application a)"
  "keeps untouched (add_environment e)"
  "keeps untouched (add_service sv v)"
  "keeps untouched (add_application_setup sv a e v)"
  "keeps untouched (add_discovered_service sv org i1 i2 i3 i4 r)"
  "keeps untouched (add_discovered_application_setup sv org i1 i2 i3 i4 r name)"
  "keeps untouched (update_connection sv org i n display capabilities resources region)"
  "keeps untouched (update_application sv org i n display repositories)"
  "keeps untouched (update_environment sv org i n display production region)"
  "keeps untouched (update_service sv org i n edit)"
proof -
  show add: "keeps untouched (add_service sv v)" for v
    unfolding add_service_def by (intro untouched.keeps_bindx untouched_repository; intro quiet_untouched quiet)
  show parts: "keeps untouched (add_application_setup sv a e v)" for a e v
    unfolding add_application_setup_def by (intro untouched.keeps_bindx untouched_repository; intro quiet_untouched quiet)
  show "keeps untouched (add_connection sv c)"
    unfolding add_connection_def by (intro untouched.keeps_bindx untouched_repository; intro quiet_untouched quiet)
  show "keeps untouched (add_application a)"
    unfolding add_application_def by (rule untouched_repository)
  show "keeps untouched (add_environment e)"
    unfolding add_environment_def by (intro untouched.keeps_bindx untouched_repository; intro quiet_untouched quiet)
  show "keeps untouched (add_discovered_service sv org i1 i2 i3 i4 r)"
    unfolding add_discovered_service_def by (intro untouched.keeps_bindx add; intro quiet_untouched quiet)
  show "keeps untouched (add_discovered_application_setup sv org i1 i2 i3 i4 r name)"
    unfolding add_discovered_application_setup_def Let_def
    by (auto intro!: untouched.keeps_bindx parts; intro quiet_untouched quiet)
  show "keeps untouched (update_connection sv org i n display capabilities resources region)"
    unfolding update_connection_def by (intro untouched.keeps_bindx untouched_repository; intro quiet_untouched quiet)
  show "keeps untouched (update_application sv org i n display repositories)"
    unfolding update_application_def by (intro untouched.keeps_bindx untouched_repository; intro quiet_untouched quiet)
  show "keeps untouched (update_environment sv org i n display production region)"
    unfolding update_environment_def by (intro untouched.keeps_bindx untouched_repository; intro quiet_untouched quiet)
  show "keeps untouched (update_service sv org i n edit)"
    unfolding update_service_def by (intro untouched.keeps_bindx untouched_repository; intro quiet_untouched quiet)
qed

section \<open>The effects on credentials and controls\<close>

definition credential_kept :: "managed_credential \<Rightarrow> managed_credential \<Rightarrow> bool" where
  "credential_kept c d \<longleftrightarrow> mc_id d = mc_id c \<and> mc_organisation_id d = mc_organisation_id c
     \<and> mc_consumer_ids d = mc_consumer_ids c \<and> mc_active_generation_id d = mc_active_generation_id c
     \<and> mc_control_version d = mc_control_version c"

lemma credential_kept_refl [simp]: "credential_kept c c"
  by (simp add: credential_kept_def)

definition lineage_kept :: "generation_store \<Rightarrow> generation_store \<Rightarrow> bool" where
  "lineage_kept s t \<longleftrightarrow> (\<forall>k. rel_option credential_kept (gs_credentials s k) (gs_credentials t k))
     \<and> gs_generations t = gs_generations s \<and> gs_bindings t \<subseteq>\<^sub>m gs_bindings s"

lemma lineage_kept_refl [simp]: "lineage_kept s s"
  by (simp add: lineage_kept_def option.rel_refl)

text \<open>A control version that fits its place and its digest.\<close>

definition intact :: "(string \<Rightarrow> string) \<Rightarrow> (int \<Rightarrow> string) \<Rightarrow> string \<Rightarrow> string \<Rightarrow> string \<Rightarrow> control_version \<Rightarrow> bool" where
  "intact sha fmt org i v d \<longleftrightarrow> cv_organisation_id d = org \<and> cv_credential_id d = i \<and> cv_id d = v
     \<and> validate_control_version d = Inr d \<and> digest sha fmt (dump_control_definition (cv_definition d)) = Inr (cv_digest d)"

text \<open>
  A binding of an import, and the import of a credential, whose generation is ACTIVE when \<open>active\<close> asks for it.
\<close>

definition imported_binding :: "managed_credential \<Rightarrow> credential_generation \<Rightarrow> consumer_binding \<Rightarrow> bool" where
  "imported_binding c g b \<longleftrightarrow> cb_organisation_id b = mc_organisation_id c \<and> cb_credential_id b = mc_id c
     \<and> cb_current_generation_id b = cg_id g"

inductive inventory_effect ::
  "(string \<Rightarrow> string) \<Rightarrow> (int \<Rightarrow> string) \<Rightarrow> bool \<Rightarrow> inventory_store \<Rightarrow> inventory_store \<Rightarrow> bool"
  for sha :: "string \<Rightarrow> string" and fmt :: "int \<Rightarrow> string" and active :: bool where
  retained: "lineage_kept (ivs_lineage s) (ivs_lineage t) \<Longrightarrow> ivs_controls t = ivs_controls s \<Longrightarrow>
     inventory_effect sha fmt active s t"
| generation: "generation_effect (ivs_lineage s) l \<Longrightarrow> inventory_effect sha fmt active s (s\<lparr>ivs_lineage := l\<rparr>)"
| imported: "gs_credentials (ivs_lineage s) (mc_organisation_id c, mc_id c) = None \<Longrightarrow>
     gs_generations (ivs_lineage s) (mc_organisation_id c, cg_id g) = None \<Longrightarrow>
     list_all (\<lambda>b. gs_bindings (ivs_lineage s) (cb_organisation_id b, cb_id b) = None) bindings \<Longrightarrow>
     distinct (mc_consumer_ids c) \<Longrightarrow> consumers_match c bindings \<Longrightarrow> list_all (imported_binding c g) bindings \<Longrightarrow>
     cg_organisation_id g = mc_organisation_id c \<Longrightarrow> cg_credential_id g = mc_id c \<Longrightarrow>
     mc_active_generation_id c = Some (cg_id g) \<Longrightarrow> (active \<Longrightarrow> cg_state g = GenActive) \<Longrightarrow>
     intact sha fmt (mc_organisation_id c) (mc_id c) (mc_control_version c) v \<Longrightarrow> revocable (cv_definition v) \<Longrightarrow> cv_number v = 1 \<Longrightarrow>
     ivs_lineage t = fold put_binding bindings (put_generation (mc_organisation_id c) (cg_id g) g
       (put_credential (mc_organisation_id c) (mc_id c) c (ivs_lineage s))) \<Longrightarrow>
     ivs_controls t = (ivs_controls s)((mc_organisation_id c, mc_id c, mc_control_version c) \<mapsto> v) \<Longrightarrow>
     inventory_effect sha fmt active s t"
| recontrolled: "gs_credentials (ivs_lineage s) (org, i) = Some c \<Longrightarrow>
     ivs_controls s (org, i, mc_control_version c) = Some u \<Longrightarrow> ivs_controls s (org, i, cv_id v) = None \<Longrightarrow>
     intact sha fmt org i (cv_id v) v \<Longrightarrow> preferences_ok p \<Longrightarrow> cv_definition v = update_controls (cv_definition u) p \<Longrightarrow>
     cv_number v = cv_number u + 1 \<Longrightarrow> credential_kept (c\<lparr>mc_control_version := cv_id v\<rparr>) d \<Longrightarrow>
     ivs_lineage t = put_credential org i d (ivs_lineage s) \<Longrightarrow>
     ivs_controls t = (ivs_controls s)((org, i, cv_id v) \<mapsto> v) \<Longrightarrow>
     inventory_effect sha fmt active s t"

lemma inventory_effect_refl [simp]: "inventory_effect sha fmt active s s"
  by (rule retained) simp_all

section \<open>What every effect keeps\<close>

text \<open>Every credential is at its place and pins a stored version, the last of its versions; all versions are intact.\<close>

definition controls_sound :: "(string \<Rightarrow> string) \<Rightarrow> (int \<Rightarrow> string) \<Rightarrow> inventory_store \<Rightarrow> bool" where
  "controls_sound sha fmt s \<longleftrightarrow>
     (\<forall>org i c. gs_credentials (ivs_lineage s) (org, i) = Some c \<longrightarrow> mc_organisation_id c = org \<and> mc_id c = i
        \<and> (\<exists>v. ivs_controls s (org, i, mc_control_version c) = Some v
            \<and> (\<forall>w d. ivs_controls s (org, i, w) = Some d \<longrightarrow> w \<noteq> mc_control_version c \<longrightarrow> cv_number d < cv_number v)))
     \<and> (\<forall>org i w d. ivs_controls s (org, i, w) = Some d \<longrightarrow> gs_credentials (ivs_lineage s) (org, i) \<noteq> None
        \<and> intact sha fmt org i w d \<and> revocable (cv_definition d))"

lemma soundD:
  assumes "controls_sound sha fmt s"
  shows "gs_credentials (ivs_lineage s) (org, i) = Some c \<Longrightarrow> mc_organisation_id c = org \<and> mc_id c = i
      \<and> (\<exists>v. ivs_controls s (org, i, mc_control_version c) = Some v
          \<and> (\<forall>w d. ivs_controls s (org, i, w) = Some d \<longrightarrow> w \<noteq> mc_control_version c \<longrightarrow> cv_number d < cv_number v))"
    and "ivs_controls s (org, i, w) = Some d \<Longrightarrow> gs_credentials (ivs_lineage s) (org, i) \<noteq> None
      \<and> intact sha fmt org i w d \<and> revocable (cv_definition d)"
  using assms unfolding controls_sound_def by blast+

text \<open>A change of credentials under the same controls.\<close>

lemma sound_credentials:
  assumes sound: "controls_sound sha fmt s" and controls: "ivs_controls t = ivs_controls s"
    and kept: "\<And>k. rel_option (\<lambda>c d. mc_id d = mc_id c \<and> mc_organisation_id d = mc_organisation_id c
        \<and> mc_control_version d = mc_control_version c) (gs_credentials (ivs_lineage s) k) (gs_credentials (ivs_lineage t) k)"
  shows "controls_sound sha fmt t"
  unfolding controls_sound_def controls
proof (intro conjI allI impI)
  fix org i d assume "gs_credentials (ivs_lineage t) (org, i) = Some d"
  with kept [of "(org, i)"] obtain c where c: "gs_credentials (ivs_lineage s) (org, i) = Some c" "mc_id d = mc_id c"
      "mc_organisation_id d = mc_organisation_id c" "mc_control_version d = mc_control_version c"
    by (auto simp: option_rel_Some2)
  then show "mc_organisation_id d = org" "mc_id d = i"
    "\<exists>v. ivs_controls s (org, i, mc_control_version d) = Some v
       \<and> (\<forall>w d'. ivs_controls s (org, i, w) = Some d' \<longrightarrow> w \<noteq> mc_control_version d \<longrightarrow> cv_number d' < cv_number v)"
    using soundD(1) [OF sound c(1)] by simp_all
next
  fix org i w d assume "ivs_controls s (org, i, w) = Some d"
  from soundD(2) [OF sound this] kept [of "(org, i)"]
  show "gs_credentials (ivs_lineage t) (org, i) \<noteq> None" "intact sha fmt org i w d" "revocable (cv_definition d)"
    by (auto simp: option_rel_Some1)
qed

lemma generation_effect_credentials:
  "generation_effect l l' \<Longrightarrow> rel_option (\<lambda>c d. mc_id d = mc_id c \<and> mc_organisation_id d = mc_organisation_id c
        \<and> mc_control_version d = mc_control_version c) (gs_credentials l k) (gs_credentials l' k)"
  by (induction rule: generation_effect.induct)
     (auto simp: option.rel_refl promotable_def promoted_credential_def observed_credential_def)

lemma fold_put_binding [simp]:
  "gs_credentials (fold put_binding bs l) = gs_credentials l" "gs_generations (fold put_binding bs l) = gs_generations l"
  "gs_reports (fold put_binding bs l) = gs_reports l"
  by (induction bs arbitrary: l) (simp_all add: put_binding_def)

lemma controls_effect:
  assumes "inventory_effect sha fmt active s t" "controls_sound sha fmt s"
  shows "controls_sound sha fmt t"
  using assms
proof (induction rule: inventory_effect.induct)
  case (retained s t)
  have "rel_option (\<lambda>c d. mc_id d = mc_id c \<and> mc_organisation_id d = mc_organisation_id c
        \<and> mc_control_version d = mc_control_version c) (gs_credentials (ivs_lineage s) k) (gs_credentials (ivs_lineage t) k)" for k
  proof -
    have "rel_option credential_kept (gs_credentials (ivs_lineage s) k) (gs_credentials (ivs_lineage t) k)"
      using retained(1) unfolding lineage_kept_def by blast
    then show ?thesis by (rule option.rel_mono_strong) (simp add: credential_kept_def)
  qed
  then show ?case by (rule sound_credentials [OF retained(3,2)])
next
  case (generation s l)
  show ?case
    by (rule sound_credentials [OF generation(2)]) (simp_all add: generation_effect_credentials [OF generation(1)])
next
  case (imported s c g bindings v t)
  note sound = soundD [OF \<open>controls_sound sha fmt s\<close>]
  have fresh: "ivs_controls s (mc_organisation_id c, mc_id c, w) = None" for w
    using sound(2) [of "mc_organisation_id c" "mc_id c" w] imported(1) by (cases "ivs_controls s (mc_organisation_id c, mc_id c, w)") auto
  show ?case
    unfolding controls_sound_def
  proof (intro conjI allI impI)
    fix org i d assume "gs_credentials (ivs_lineage t) (org, i) = Some d"
    then show "mc_organisation_id d = org" "mc_id d = i"
      "\<exists>v. ivs_controls t (org, i, mc_control_version d) = Some v
         \<and> (\<forall>w d'. ivs_controls t (org, i, w) = Some d' \<longrightarrow> w \<noteq> mc_control_version d \<longrightarrow> cv_number d' < cv_number v)"
      using sound(1) [of org i d] imported fresh by (auto split: if_splits)
  next
    fix org i w d assume "ivs_controls t (org, i, w) = Some d"
    then show "gs_credentials (ivs_lineage t) (org, i) \<noteq> None" "intact sha fmt org i w d" "revocable (cv_definition d)"
      using sound(2) [of org i w d] imported by (auto split: if_splits)
  qed
next
  case (recontrolled s org i c u v p d t)
  note sound = soundD [OF \<open>controls_sound sha fmt s\<close>]
  from sound(1) [OF recontrolled(1)] recontrolled(2)
  have newest: "\<forall>w d. ivs_controls s (org, i, w) = Some d \<longrightarrow> w \<noteq> mc_control_version c \<longrightarrow> cv_number d < cv_number u" by auto
  have older: "cv_number e < cv_number v" if "ivs_controls s (org, i, w) = Some e" for w e
    using newest that recontrolled(2,7) by (cases "w = mc_control_version c") fastforce+
  have d: "mc_organisation_id d = org" "mc_id d = i" "mc_control_version d = cv_id v"
    using sound(1) [OF recontrolled(1)] recontrolled(8) by (auto simp: credential_kept_def)
  have "revocable (cv_definition v)"
    using sound(2) [OF recontrolled(2)] recontrolled(5,6) by (simp add: update_revocable)
  then show ?case
    unfolding controls_sound_def
    using sound d older recontrolled(4,9,10) by (auto split: if_splits)
qed

text \<open>No control version is ever lost or rewritten.\<close>

lemma controls_kept:
  assumes "inventory_effect sha fmt active s t" "controls_sound sha fmt s" "ivs_controls s k = Some d"
  shows "ivs_controls t k = Some d"
  using assms
proof (induction rule: inventory_effect.induct)
  case (imported s c g bindings v t)
  have "ivs_controls s (mc_organisation_id c, mc_id c, w) = None" for w
    using soundD(2) [OF imported.prems(1), of "mc_organisation_id c" "mc_id c" w] imported(1)
    by (cases "ivs_controls s (mc_organisation_id c, mc_id c, w)") auto
  with imported show ?case by auto
qed auto


section \<open>The lineage of an import\<close>

lemma fold_put_binding_cases:
  "gs_bindings (fold put_binding bs l) k = Some b \<Longrightarrow>
     b \<in> set bs \<and> k = (cb_organisation_id b, cb_id b) \<or> gs_bindings l k = Some b"
proof (induction bs arbitrary: l)
  case (Cons x bs)
  from Cons.IH [of "put_binding x l"] Cons.prems show ?case by (auto simp: put_binding_def split: if_splits)
qed simp

lemma consumers_match_distinct:
  assumes "consumers_match c bs" "distinct (mc_consumer_ids c)"
  shows "distinct (map cb_service_id bs)"
proof -
  have "card (set (map cb_service_id bs)) = length (map cb_service_id bs)"
    using assms distinct_card [OF assms(2)] by (simp add: consumers_match_def)
  then show ?thesis by (rule card_distinct)
qed

lemma lineage_imported:
  assumes ok: "lineage_ok l" and fresh: "gs_credentials l (mc_organisation_id c, mc_id c) = None"
    and new: "gs_generations l (mc_organisation_id c, cg_id g) = None"
    and bs: "list_all (imported_binding c g) bs" "consumers_match c bs" "distinct (mc_consumer_ids c)"
    and g: "cg_credential_id g = mc_id c" "mc_active_generation_id c = Some (cg_id g)" "cg_state g = GenActive"
  shows "lineage_ok (fold put_binding bs (put_generation (mc_organisation_id c) (cg_id g) g
    (put_credential (mc_organisation_id c) (mc_id c) c l)))" (is "lineage_ok ?l")
proof -
  have l: "credentials_ok l" "generations_ok l" "consumers_ok l" using ok by (auto simp: lineage_ok_def)
  have "credentials_ok ?l"
    using l(1) new g by (auto simp: credentials_ok_def) (metis option.distinct(1))
  moreover have "generations_ok ?l"
    using l(2) fresh g by (auto simp: generations_ok_def) (metis option.distinct(1))
  moreover have "consumers_ok ?l"
    unfolding consumers_ok_def
  proof (intro allI impI)
    fix org i b assume b: "gs_bindings ?l (org, i) = Some b"
    have cases: "d \<in> set bs \<and> (org, j) = (mc_organisation_id c, cb_id d) \<and> cb_credential_id d = mc_id c
          \<and> cb_current_generation_id d = cg_id g
        \<or> gs_bindings l (org, j) = Some d \<and> \<not> (org = mc_organisation_id c \<and> cb_credential_id d = mc_id c)"
      if "gs_bindings ?l (org, j) = Some d" for j d
      using fold_put_binding_cases [OF that] bs(1) l(3) fresh
      by (auto simp: list_all_iff imported_binding_def consumers_ok_def) fastforce+
    have services: "cb_service_id d \<in> set (mc_consumer_ids c)" if "d \<in> set bs" for d
      using bs(2) that by (auto simp: consumers_match_def)
    have unique: "d = e" if "d \<in> set bs" "e \<in> set bs" "cb_service_id d = cb_service_id e" for d e
      using consumers_match_distinct [OF bs(2,3)] that by (auto simp: distinct_map inj_on_def)
    show "cb_id b = i \<and> (\<exists>e. gs_credentials ?l (org, cb_credential_id b) = Some e
       \<and> cb_service_id b \<in> set (mc_consumer_ids e) \<and> mc_active_generation_id e = Some (cb_current_generation_id b))
     \<and> (\<forall>j d. gs_bindings ?l (org, j) = Some d \<and> cb_credential_id d = cb_credential_id b
          \<and> cb_service_id d = cb_service_id b \<longrightarrow> j = i)"
    proof (cases "b \<in> set bs \<and> org = mc_organisation_id c \<and> i = cb_id b")
      case True
      then have "cb_credential_id b = mc_id c" "cb_current_generation_id b = cg_id g"
        using bs(1) by (auto simp: list_all_iff imported_binding_def)
      moreover have "j = i" if "gs_bindings ?l (org, j) = Some d" "cb_credential_id d = cb_credential_id b"
          "cb_service_id d = cb_service_id b" for j d
        using cases [OF that(1)] unique [of d b] that(2,3) True calculation by auto
      moreover have "gs_credentials ?l (org, cb_credential_id b) = Some c"
        using True calculation(1) by simp
      moreover have "mc_active_generation_id c = Some (cb_current_generation_id b)" "cb_service_id b \<in> set (mc_consumer_ids c)"
        using True calculation(2) g(2) services by simp_all
      ultimately show ?thesis using True by blast
    next
      case False
      with cases [OF b] have old: "gs_bindings l (org, i) = Some b" "\<not> (org = mc_organisation_id c \<and> cb_credential_id b = mc_id c)"
        by auto
      have "j = i" if "gs_bindings ?l (org, j) = Some d" "cb_credential_id d = cb_credential_id b"
          "cb_service_id d = cb_service_id b" for j d
      proof -
        have "gs_bindings l (org, j) = Some d" using cases [OF that(1)] that(2) old(2) by auto
        from binding_unique [OF ok old(1) this that(2,3)] show ?thesis .
      qed
      moreover obtain e where "gs_credentials l (org, cb_credential_id b) = Some e" "cb_service_id b \<in> set (mc_consumer_ids e)"
          "mc_active_generation_id e = Some (cb_current_generation_id b)"
        using binding_credential [OF ok old(1)] .
      moreover from this(1) old(2) have "gs_credentials ?l (org, cb_credential_id b) = Some e" by auto
      ultimately show ?thesis using lineage_ids(3) [OF ok old(1)] by blast
    qed
  qed
  ultimately show ?thesis by (simp add: lineage_ok_def)
qed

lemma lineage_kept_ok:
  assumes "lineage_kept s t" "lineage_ok s"
  shows "lineage_ok t"
proof -
  have cs: "\<And>k c. gs_credentials s k = Some c \<Longrightarrow> \<exists>d. gs_credentials t k = Some d \<and> credential_kept c d"
    and ct: "\<And>k d. gs_credentials t k = Some d \<Longrightarrow> \<exists>c. gs_credentials s k = Some c \<and> credential_kept c d"
    using assms(1) unfolding lineage_kept_def by (metis option_rel_Some1, metis option_rel_Some2)
  have gs: "gs_generations t = gs_generations s" and bs: "\<And>k b. gs_bindings t k = Some b \<Longrightarrow> gs_bindings s k = Some b"
    using assms(1) by (auto simp: lineage_kept_def map_le_def) (metis domI)
  have "credentials_ok t"
    unfolding credentials_ok_def gs
  proof (intro allI impI)
    fix org i d assume "gs_credentials t (org, i) = Some d"
    from ct [OF this] obtain c where "gs_credentials s (org, i) = Some c" "credential_kept c d" by auto
    then show "mc_id d = i \<and> (\<forall>a. mc_active_generation_id d = Some a \<longrightarrow>
       (\<exists>g. gs_generations s (org, a) = Some g \<and> cg_state g = GenActive \<and> cg_credential_id g = i))"
      using assms(2) by (auto simp: lineage_ok_def credentials_ok_def credential_kept_def)
  qed
  moreover have "generations_ok t"
    unfolding generations_ok_def gs
  proof (intro allI impI)
    fix org i g assume g: "gs_generations s (org, i) = Some g"
    have "\<exists>d. gs_credentials t (org, cg_credential_id g) = Some d \<and> mc_active_generation_id d = Some i"
      if active: "cg_state g = GenActive"
    proof -
      obtain c where c: "gs_credentials s (org, cg_credential_id g) = Some c" "mc_active_generation_id c = Some i"
        using active_credential [OF assms(2) g active] .
      then show ?thesis using cs [OF c(1)] by (auto simp: credential_kept_def)
    qed
    then show "cg_id g = i \<and> (cg_state g = GenActive \<longrightarrow>
       (\<exists>c. gs_credentials t (org, cg_credential_id g) = Some c \<and> mc_active_generation_id c = Some i))"
      using lineage_ids(2) [OF assms(2) g] by blast
  qed
  moreover have "consumers_ok t"
    unfolding consumers_ok_def
  proof (intro allI impI)
    fix org i b assume b: "gs_bindings t (org, i) = Some b"
    obtain c where c: "gs_credentials s (org, cb_credential_id b) = Some c" "cb_service_id b \<in> set (mc_consumer_ids c)"
        "mc_active_generation_id c = Some (cb_current_generation_id b)"
      using binding_credential [OF assms(2) bs [OF b]] .
    have "j = i" if "gs_bindings t (org, j) = Some d \<and> cb_credential_id d = cb_credential_id b
        \<and> cb_service_id d = cb_service_id b" for j d
      using binding_unique [OF assms(2) bs [OF b] bs [of "(org, j)" d]] that by auto
    then show "cb_id b = i \<and> (\<exists>c. gs_credentials t (org, cb_credential_id b) = Some c
       \<and> cb_service_id b \<in> set (mc_consumer_ids c) \<and> mc_active_generation_id c = Some (cb_current_generation_id b))
     \<and> (\<forall>j d. gs_bindings t (org, j) = Some d \<and> cb_credential_id d = cb_credential_id b
          \<and> cb_service_id d = cb_service_id b \<longrightarrow> j = i)"
      using cs [OF c(1)] c(2,3) lineage_ids(3) [OF assms(2) bs [OF b]] by (auto simp: credential_kept_def)
  qed
  ultimately show ?thesis by (simp add: lineage_ok_def)
qed

lemma lineage_inventory_effect:
  assumes "inventory_effect sha fmt True s t" "lineage_ok (ivs_lineage s)"
  shows "lineage_ok (ivs_lineage t)"
  using assms
proof (induction rule: inventory_effect.induct)
  case (retained s t)
  then show ?case by (auto intro: lineage_kept_ok)
next
  case (generation s l)
  then show ?case by (auto intro: lineage_effect)
next
  case (imported s c g bindings v t)
  then show ?case by (auto intro: lineage_imported)
next
  case (recontrolled s org i c u v p d t)
  then show ?case by (auto simp: credential_kept_def intro: lineage_put_credential_same)
qed


section \<open>The effects of the operations\<close>

lemma effect_untouched: "keeps untouched f \<Longrightarrow> change (inventory_effect sha fmt active) f s"
  using keepsD [of untouched f s] by (cases "f s") (auto simp: change_def untouched_def intro!: retained)

lemma catalog_get_Inr [result_iff]:
  "catalog_get docs validate collection org i = Inr x \<longleftrightarrow>
     segments [org, i] = Inr () \<and> (\<exists>doc. docs (org, i) = Some doc \<and> validate doc = Inr x)"
  by (auto simp: catalog_get_def bindr_eq_Inr split: option.splits)

lemma stored_credential: "repo_get_credential org i s = Inr c \<Longrightarrow> gs_credentials (ivs_lineage s) (org, i) = Some c"
  by (auto simp: repo_get_credential_def result_iff)

lemma put_credential_kept:
  assumes "gs_credentials l (mc_organisation_id c, mc_id c) = Some c" "credential_kept c d"
  shows "lineage_kept l (put_credential (mc_organisation_id d) (mc_id d) d l)"
  using assms by (auto simp: lineage_kept_def credential_kept_def option.rel_refl)

lemma changed_credential:
  "change_credential c n now display version = Inr d \<Longrightarrow>
     credential_kept (c\<lparr>mc_control_version := override version (mc_control_version c)\<rparr>) d"
  by (auto simp: change_credential_def validate_inverts bindr_eq_Inr credential_kept_def)

lemma replaced_credential:
  "repo_replace_credential d n s = Inr (x, u) \<Longrightarrow>
     u = put_managed (mc_organisation_id d) (mc_id d) d s"
  by (auto simp: repo_replace_credential_def catalog_replace_def put_managed_def put_credential_def bindr_eq_Inr)

lemma change_update_credential:
  assumes sound: "controls_sound sha fmt (ivx_store s)"
  shows "change (inventory_effect sha fmt active) (update_credential sv org i n display) s"
  unfolding update_credential_def
proof (intro change_bindx quiet; (rule inventory_effect_refl)?)
  fix c s1 u1 s2 now s3 d s4
  assume reads: "inventory_read (repo_get_credential org i) s = (Inr c, s1)" "ivx_store s1 = ivx_store s"
      "ivx_store s2 = ivx_store s1" "ivx_store s3 = ivx_store s2" "ivx_store s4 = ivx_store s3"
    and changed: "checked_value (change_credential c n now display None) s3 = (Inr d, s4)"
  from reads(1) have c: "gs_credentials (ivs_lineage (ivx_store s)) (org, i) = Some c"
    by (auto simp: inventory_read_Inr dest: stored_credential)
  with sound have key: "mc_organisation_id c = org" "mc_id c = i" by (auto dest: soundD(1))
  from changed have "credential_kept c d"
    by (auto simp: checked_value_Inr override_def dest!: changed_credential)
  with c key have "lineage_kept (ivs_lineage (ivx_store s)) (put_credential (mc_organisation_id d) (mc_id d) d (ivs_lineage (ivx_store s)))"
    by (intro put_credential_kept) auto
  with reads show "change (inventory_effect sha fmt active) (inventory_tx (repo_replace_credential d n)) s4"
    by (intro change_tx inventory_effect_refl) (auto intro!: retained dest!: replaced_credential)
qed


lemma get_controls_Inr:
  "get_controls org i v s = (Inr d, t) \<Longrightarrow> t = s \<and> ivs_controls (ivx_store s) (org, i, v) = Some d"
  by (auto simp: get_controls_def bindx_Inr inventory_read_Inr demand_def requires_Inr yields_eq repo_get_control_version_def
      bindr_eq_Inr validate_control_version_ok split: option.splits)

lemma replaced_controls:
  "repo_replace_controls d n v s = Inr (x, u) \<Longrightarrow>
     ivs_controls s (cv_organisation_id v, cv_credential_id v, cv_id v) = None \<and> mc_control_version d = cv_id v
     \<and> cv_credential_id v = mc_id d \<and> cv_organisation_id v = mc_organisation_id d
     \<and> u = put_managed (mc_organisation_id d) (mc_id d) d
         (s\<lparr>ivs_controls := (ivs_controls s)((cv_organisation_id v, cv_credential_id v, cv_id v) \<mapsto> v)\<rparr>)"
  by (auto simp: repo_replace_controls_def Let_def bindr_eq_Inr require_eq_Inr split: option.splits)

lemma change_replace_controls:
  assumes sound: "controls_sound (ivn_sha sv) (ivn_fmt sv) (ivx_store s)" and preferences: "preferences_ok preferences"
  shows "change (inventory_effect (ivn_sha sv) (ivn_fmt sv) active) (replace_controls sv org i n version_id preferences actor) s"
  unfolding replace_controls_def Let_def
proof (intro change_bindx quiet; (rule inventory_effect_refl)?)
  fix c s1 u1 s2 cs s3 u2 s4 prev s5 dg s6 at s7 v s8 now s9 d s10
  assume reads: "inventory_read (repo_get_credential org i) s = (Inr c, s1)" "ivx_store s1 = ivx_store s"
      "ivx_store s2 = ivx_store s1" "ivx_store s3 = ivx_store s2" "ivx_store s4 = ivx_store s3" "ivx_store s5 = ivx_store s4"
      "ivx_store s6 = ivx_store s5" "ivx_store s7 = ivx_store s6" "ivx_store s8 = ivx_store s7" "ivx_store s9 = ivx_store s8"
      "ivx_store s10 = ivx_store s9"
    and prev: "get_controls org i (mc_control_version c) s4 = (Inr prev, s5)"
    and dg: "checked_value (digest (ivn_sha sv) (ivn_fmt sv)
        (dump_control_definition (update_controls (cv_definition prev) preferences))) s5 = (Inr dg, s6)"
    and v: "checked_value (validate_control_version
        \<lparr>cv_id = version_id, cv_organisation_id = org, cv_credential_id = i, cv_number = cv_number prev + 1,
         cv_definition = update_controls (cv_definition prev) preferences, cv_digest = dg, cv_created_by = actor,
         cv_created_at = at\<rparr>) s7 = (Inr v, s8)"
    and d: "checked_value (change_credential c n now None (Some (cv_id v))) s9 = (Inr d, s10)"
  from reads(1) have c: "gs_credentials (ivs_lineage (ivx_store s)) (org, i) = Some c"
    by (auto simp: inventory_read_Inr dest: stored_credential)
  with sound have key: "mc_organisation_id c = org" "mc_id c = i" by (auto dest: soundD(1))
  from prev reads have prev: "ivs_controls (ivx_store s) (org, i, mc_control_version c) = Some prev"
    by (auto dest!: get_controls_Inr)
  from v dg have v: "intact (ivn_sha sv) (ivn_fmt sv) org i (cv_id v) v" "cv_number v = cv_number prev + 1"
      "cv_definition v = update_controls (cv_definition prev) preferences"
    by (auto simp: checked_value_Inr intact_def validate_control_version_ok)
  from d have kept: "credential_kept (c\<lparr>mc_control_version := cv_id v\<rparr>) d"
    by (auto simp: checked_value_Inr override_def dest!: changed_credential)
  show "change (inventory_effect (ivn_sha sv) (ivn_fmt sv) active) (inventory_tx (repo_replace_controls d n v)) s10"
  proof (intro change_tx inventory_effect_refl)
    fix x u assume "repo_replace_controls d n v (ivx_store s10) = Inr (x, u)"
    with reads key kept v(1) show "inventory_effect (ivn_sha sv) (ivn_fmt sv) active (ivx_store s10) u"
      by (intro recontrolled [OF _ _ _ v(1) preferences v(3,2) kept, of "ivx_store s10"])
         (auto simp: c prev intact_def credential_kept_def dest!: replaced_controls)
  qed
qed

section \<open>Archives\<close>

lemma resource_table_subset: "set (resource_table rs) \<subseteq> set rs"
proof -
  have "set (map snd (fold (\<lambda>r. AList.update (resource_kind r, resource_id r) r) rs table)) \<subseteq> set (map snd table) \<union> set rs" for table
  proof (induction rs arbitrary: table)
    case (Cons r rs)
    have "set (map snd (AList.update k r table)) \<subseteq> insert r (set (map snd table))" for k
      by (induction table) auto
    then have "set (map snd (AList.update (resource_kind r, resource_id r) r table)) \<union> set rs
        \<subseteq> set (map snd table) \<union> set (r # rs)" by fastforce
    from order_trans [OF Cons [of "AList.update (resource_kind r, resource_id r) r table"] this] show ?case by simp
  qed simp
  from this [of "[]"] show ?thesis by (simp add: resource_table_def)
qed

text \<open>The credentials among the resources are changes of the stored ones.\<close>

definition changes_stored :: "inventory_resource list \<Rightarrow> generation_store \<Rightarrow> bool" where
  "changes_stored rs l \<longleftrightarrow> (\<forall>d. Res_Credential d \<in> set rs \<longrightarrow>
     (\<exists>c. gs_credentials l (mc_organisation_id d, mc_id d) = Some c \<and> credential_kept c d))"

lemma lineage_kept_trans:
  assumes "lineage_kept s t" "lineage_kept t u"
  shows "lineage_kept s u"
proof -
  have "rel_option credential_kept (gs_credentials s k) (gs_credentials u k)" for k
  proof -
    have "rel_option credential_kept (gs_credentials s k) (gs_credentials t k)"
        "rel_option credential_kept (gs_credentials t k) (gs_credentials u k)"
      using assms unfolding lineage_kept_def by blast+
    then show ?thesis by (cases "gs_credentials t k") (auto simp: option_rel_Some1 option_rel_Some2 credential_kept_def)
  qed
  then show ?thesis using assms by (auto simp: lineage_kept_def intro: map_le_trans)
qed

lemma put_resource_kept:
  assumes "changes_stored [r] (ivs_lineage s)"
  shows "lineage_kept (ivs_lineage s) (ivs_lineage (put_resource r s)) \<and> ivs_controls (put_resource r s) = ivs_controls s"
  using assms by (cases r) (auto simp: changes_stored_def lineage_kept_def option.rel_refl)

lemma fold_put_resource:
  "changes_stored rs (ivs_lineage s) \<Longrightarrow>
     lineage_kept (ivs_lineage s) (ivs_lineage (fold put_resource rs s)) \<and> ivs_controls (fold put_resource rs s) = ivs_controls s"
proof (induction rs arbitrary: s)
  case (Cons r rs)
  have r: "lineage_kept (ivs_lineage s) (ivs_lineage (put_resource r s)) \<and> ivs_controls (put_resource r s) = ivs_controls s"
    using Cons.prems by (intro put_resource_kept) (auto simp: changes_stored_def)
  have "changes_stored rs (ivs_lineage (put_resource r s))"
    unfolding changes_stored_def
  proof (intro allI impI)
    fix d assume "Res_Credential d \<in> set rs"
    then obtain c where c: "gs_credentials (ivs_lineage s) (mc_organisation_id d, mc_id d) = Some c" "credential_kept c d"
      using Cons.prems by (auto simp: changes_stored_def)
    moreover obtain e where "gs_credentials (ivs_lineage (put_resource r s)) (mc_organisation_id d, mc_id d) = Some e" "credential_kept c e"
      using r c(1) unfolding lineage_kept_def by (metis option_rel_Some1)
    ultimately show "\<exists>c. gs_credentials (ivs_lineage (put_resource r s)) (mc_organisation_id d, mc_id d) = Some c \<and> credential_kept c d"
      by (auto simp: credential_kept_def)
  qed
  from Cons.IH [OF this] r show ?case by (auto intro: lineage_kept_trans)
qed simp

lemma fold_remove_binding: "lineage_kept l (fold remove_binding bs l)"
proof (induction bs arbitrary: l)
  case (Cons b bs)
  have "lineage_kept l (remove_binding b l)"
    by (auto simp: lineage_kept_def remove_binding_def option.rel_refl map_le_def)
  with Cons show ?case by (auto intro: lineage_kept_trans)
qed simp

lemma archived_resources:
  "repo_archive_inventory ip rs bs s = Inr (x, u) \<Longrightarrow> u = archived_store rs bs s"
  by (auto simp: repo_archive_inventory_def bindr_eq_Inr split: option.splits)

lemma archived_effect:
  assumes "changes_stored rs (ivs_lineage s)"
  shows "inventory_effect sha fmt active s (archived_store rs bs s)"
  using fold_put_resource [OF assms] fold_remove_binding
  by (auto simp: archived_store_def Let_def intro!: retained intro: lineage_kept_trans)

lemma archived_credential: "archive_credential_value c n now = Inr d \<Longrightarrow> credential_kept c d"
  by (auto simp: archive_credential_value_def validate_inverts bindr_eq_Inr credential_kept_def)

lemma catalog_list_stored:
  assumes "catalog_list keys docs validate org = Inr xs" "\<And>d y. validate d = Inr y \<Longrightarrow> y = d"
  shows "\<forall>x\<in>set xs. \<exists>i. docs (org, i) = Some x"
proof -
  have "mapr validate ds = Inr ys \<Longrightarrow> ys = ds" for ds ys
    using assms(2) by (induction ds arbitrary: ys) (auto simp: bindr_eq_Inr)
  with assms(1) have "xs = take 1000 (List.map_filter (\<lambda>i. docs (org, i)) keys)" by (simp add: catalog_list_def)
  then have "set xs \<subseteq> set (List.map_filter (\<lambda>i. docs (org, i)) keys)" by (simp add: set_take_subset)
  moreover have "\<forall>x\<in>set (List.map_filter (\<lambda>i. docs (org, i)) keys). \<exists>i. docs (org, i) = Some x"
    by (auto simp: map_filter_def)
  ultimately show ?thesis by blast
qed

lemma listed_credentials:
  assumes "list_active_credentials sv org s = (Inr cs, t)" "controls_sound sha fmt (ivx_store s)"
  shows "\<forall>c\<in>set cs. gs_credentials (ivs_lineage (ivx_store s)) (mc_organisation_id c, mc_id c) = Some c"
proof
  fix c assume "c \<in> set cs"
  with assms(1) obtain all where all: "catalog_list (ivn_keys sv) (gs_credentials (ivs_lineage (ivx_store s))) validate_credential org = Inr all"
      "c \<in> set all"
    by (auto simp: list_active_credentials_def all_credentials_def bindx_Inr inventory_read_Inr yields_eq actives_def)
  have "\<forall>x\<in>set all. \<exists>i. gs_credentials (ivs_lineage (ivx_store s)) (org, i) = Some x"
    by (rule catalog_list_stored [OF all(1)]) (simp add: validate_inverts)
  with all(2) obtain i where c: "gs_credentials (ivs_lineage (ivx_store s)) (org, i) = Some c" by blast
  with soundD(1) [OF assms(2) c] show "gs_credentials (ivs_lineage (ivx_store s)) (mc_organisation_id c, mc_id c) = Some c"
    by simp
qed

lemma mapr_source: "mapr f xs = Inr ys \<Longrightarrow> y \<in> set ys \<Longrightarrow> \<exists>x\<in>set xs. f x = Inr y"
  by (induction xs arbitrary: ys) (auto simp: bindr_eq_Inr)

lemma mapr_defined: "mapr f xs = Inr ys \<Longrightarrow> x \<in> set xs \<Longrightarrow> \<exists>y. f x = Inr y"
  by (induction xs arbitrary: ys) (auto simp: bindr_eq_Inr)

lemma archive_resources_stored:
  assumes "archive_resources primary es vs cs now = Inr rs" "changes_stored [primary] l"
    and "\<forall>c\<in>set cs. gs_credentials l (mc_organisation_id c, mc_id c) = Some c"
  shows "changes_stored rs l"
proof -
  from assms(1) obtain es' vs' cs' where rs: "rs = resource_table (primary # es' @ vs' @ cs')"
    and es: "mapr (\<lambda>e. bindr (archive_environment_value e (env_revision e) now) (\<lambda>x. Inr (Res_Environment x))) es = Inr es'"
    and vs: "mapr (\<lambda>v. bindr (archive_service_value v (csv_revision v) now) (\<lambda>x. Inr (Res_Service x))) vs = Inr vs'"
    and cs: "mapr (\<lambda>c. bindr (archive_credential_value c (mc_revision c) now) (\<lambda>x. Inr (Res_Credential x))) cs = Inr cs'"
    by (auto simp: archive_resources_def bindr_eq_Inr)
  show ?thesis
    unfolding changes_stored_def
  proof (intro allI impI)
    fix d assume "Res_Credential d \<in> set rs"
    then have "Res_Credential d \<in> set (primary # es' @ vs' @ cs')"
      using resource_table_subset rs by blast
    then consider "primary = Res_Credential d" | "Res_Credential d \<in> set cs'"
      using mapr_source [OF es, of "Res_Credential d"] mapr_source [OF vs, of "Res_Credential d"] by (auto simp: bindr_eq_Inr)
    then show "\<exists>c. gs_credentials l (mc_organisation_id d, mc_id d) = Some c \<and> credential_kept c d"
    proof cases
      case 1
      then show ?thesis using assms(2) by (auto simp: changes_stored_def)
    next
      case 2
      with mapr_source [OF cs, of "Res_Credential d"] obtain c where c: "c \<in> set cs"
          "archive_credential_value c (mc_revision c) now = Inr d"
        by (auto simp: bindr_eq_Inr)
      with archived_credential [OF c(2)] assms(3) show ?thesis by (auto simp: credential_kept_def)
    qed
  qed
qed

lemma change_archive_all:
  fixes sv :: "'w inventory_service" and s :: "'w inventory_state"
  assumes "controls_sound sha fmt (ivx_store s)" "changes_stored [primary] (ivs_lineage (ivx_store s))"
  shows "change (inventory_effect sha fmt active) (archive_all sv primary es vs cs) s"
  unfolding archive_all_def Let_def
proof (intro change_bindx quiet; (rule inventory_effect_refl)?)
  fix bs act now rs and s1 s2 s3 s4 :: "'w inventory_state"
  assume reads: "ivx_store s1 = ivx_store s" "ivx_store s2 = ivx_store s1" "ivx_store s3 = ivx_store s2" "ivx_store s4 = ivx_store s3"
    and act: "list_active_credentials sv (resource_organisation primary) s1 = (Inr act, s2)"
    and rs: "checked_value (archive_resources primary es vs
        (filter (\<lambda>c. mc_id c \<in> related_credentials primary vs cs bs) act) now) s3 = (Inr rs, s4)"
  have "\<forall>c\<in>set act. gs_credentials (ivs_lineage (ivx_store s)) (mc_organisation_id c, mc_id c) = Some c"
    using listed_credentials [OF act] assms(1) reads(1) by metis
  then have "\<forall>c\<in>set (filter (\<lambda>c. mc_id c \<in> related_credentials primary vs cs bs) act).
      gs_credentials (ivs_lineage (ivx_store s)) (mc_organisation_id c, mc_id c) = Some c" by simp
  moreover have "archive_resources primary es vs (filter (\<lambda>c. mc_id c \<in> related_credentials primary vs cs bs) act) now = Inr rs"
    using rs by (simp add: checked_value_Inr)
  ultimately have "changes_stored rs (ivs_lineage (ivx_store s))"
    using assms(2) archive_resources_stored by blast
  then have "changes_stored rs (ivs_lineage (ivx_store s4))" using reads by simp
  then show "change (inventory_effect sha fmt active)
      (inventory_tx (repo_archive_inventory (ivn_ip sv) rs
        (filter (\<lambda>b. cb_credential_id b \<in> related_credentials primary vs cs bs) bs))) s4"
    by (intro change_tx inventory_effect_refl) (blast dest: archived_resources intro: archived_effect)
qed

lemma change_archives:
  fixes sv :: "'w inventory_service" and s :: "'w inventory_state"
  assumes sound: "controls_sound sha fmt (ivx_store s)"
  shows "change (inventory_effect sha fmt active) (archive_connection sv org i n cascade) s"
    and "change (inventory_effect sha fmt active) (archive_application sv org i n cascade) s"
    and "change (inventory_effect sha fmt active) (archive_environment sv org i n cascade) s"
    and "change (inventory_effect sha fmt active) (archive_service sv org i n cascade) s"
    and "change (inventory_effect sha fmt active) (archive_credential sv org i n cascade) s"
proof -
  note rules = change_bindx change_tail change_archive_all quiet inventory_effect_refl
  have none: "changes_stored [Res_Connection c] l" "changes_stored [Res_Application a] l"
    "changes_stored [Res_Environment e] l" "changes_stored [Res_Service v] l" for c a e v l
    by (simp_all add: changes_stored_def)
  show "change (inventory_effect sha fmt active) (archive_connection sv org i n cascade) s"
    unfolding archive_connection_def Let_def by (intro rules) (simp_all add: sound none)
  show "change (inventory_effect sha fmt active) (archive_application sv org i n cascade) s"
    unfolding archive_application_def Let_def by (intro rules) (simp_all add: sound none)
  show "change (inventory_effect sha fmt active) (archive_environment sv org i n cascade) s"
    unfolding archive_environment_def Let_def by (intro rules) (simp_all add: sound none)
  show "change (inventory_effect sha fmt active) (archive_service sv org i n cascade) s"
    unfolding archive_service_def Let_def by (intro rules) (simp_all add: sound none)
  show "change (inventory_effect sha fmt active) (archive_credential sv org i n cascade) s"
    unfolding archive_credential_def
  proof ((rule change_tail inventory_effect_refl | rule change_bindx | rule quiet)+)
    fix c u now d and s1 s2 s3 s4 :: "'w inventory_state"
    assume reads: "inventory_read (repo_get_credential org i) s = (Inr c, s1)" "ivx_store s1 = ivx_store s"
        "ivx_store s2 = ivx_store s1" "ivx_store s3 = ivx_store s2" "ivx_store s4 = ivx_store s3"
      and d: "checked_value (archive_credential_value c n now) s3 = (Inr d, s4)"
    from reads(1) have c: "gs_credentials (ivs_lineage (ivx_store s)) (org, i) = Some c"
      by (auto simp: inventory_read_Inr dest: stored_credential)
    from d have "credential_kept c d" by (auto simp: checked_value_Inr dest: archived_credential)
    with c soundD(1) [OF sound c] reads have "changes_stored [Res_Credential d] (ivs_lineage (ivx_store s4))"
      by (auto simp: changes_stored_def credential_kept_def)
    moreover have "controls_sound sha fmt (ivx_store s4)" using sound reads by simp
    ultimately show "change (inventory_effect sha fmt active) (archive_all sv (Res_Credential d) [] [] []) s4"
      by (intro change_archive_all)
  qed
qed


section \<open>Imports\<close>

lemma imported_lineage:
  "check_import_lineage sha fmt c g v = Inr () \<Longrightarrow>
     cg_organisation_id g = mc_organisation_id c \<and> cg_credential_id g = mc_id c \<and> mc_active_generation_id c = Some (cg_id g)
     \<and> cv_organisation_id v = mc_organisation_id c \<and> cv_credential_id v = mc_id c \<and> cv_id v = mc_control_version c
     \<and> cv_number v = 1 \<and> digest sha fmt (dump_control_definition (cv_definition v)) = Inr (cv_digest v)"
  by (auto simp: check_import_lineage_def bindr_eq_Inr require_eq_Inr)

lemma imported_bindings:
  assumes "mapr (check_import_binding c g) (zip bs (zip vs rs)) = Inr us" "length vs = length bs" "length rs = length bs"
  shows "list_all (imported_binding c g) bs"
proof -
  have "imported_binding c g b" if "b \<in> set bs" for b
  proof -
    from that obtain n where n: "n < length bs" "b = bs ! n" by (auto simp: in_set_conv_nth)
    with assms(2,3) have "(b, vs ! n, rs ! n) \<in> set (zip bs (zip vs rs))"
      by (auto simp: set_zip)
    from mapr_defined [OF assms(1) this] n(2) show ?thesis
      by (auto simp: check_import_binding_def require_eq_Inr imported_binding_def)
  qed
  then show ?thesis by (simp add: list_all_iff)
qed

lemma imported_store_fields:
  "ivs_controls (imported_store c g bs v ps parts s) =
     (ivs_controls s)((cv_organisation_id v, cv_credential_id v, cv_id v) \<mapsto> v)"
  "ivs_lineage (imported_store c g bs v ps parts s) =
     fold put_binding bs (put_generation (cg_organisation_id g) (cg_id g) g
       (put_credential (mc_organisation_id c) (mc_id c) c (ivs_lineage s)))"
  by (auto simp: imported_store_def Let_def put_probe_versions_def put_setup_def split: option.splits)

lemma import_effect:
  assumes "repo_import_credential sha fmt ip c g bs v ps parts s = Inr (x, t)"
    and "validate_control_version v = Inr v" "revocable (cv_definition v)" "distinct (mc_consumer_ids c)"
    and "active \<longrightarrow> cg_state g = GenActive"
  shows "inventory_effect sha fmt active s t"
proof -
  from assms(1) obtain vs rs us where "check_import_absent c g bs v ps parts s = Inr ()" "check_import_lineage sha fmt c g v = Inr ()"
      "consumers_match c bs" "mapr (imported_service parts s) bs = Inr vs"
      "mapr (\<lambda>b. bindr (present (ivs_connections s (cb_organisation_id b, cb_runtime_connection_id b)))
        (validate_connection ip)) bs = Inr rs"
      "mapr (check_import_binding c g) (zip bs (zip vs rs)) = Inr us" "t = imported_store c g bs v ps parts s"
    by (auto simp: repo_import_credential_def Let_def bindr_eq_Inr require_eq_Inr)
  note found = this
  from found(1) have absent: "gs_credentials (ivs_lineage s) (mc_organisation_id c, mc_id c) = None"
      "gs_generations (ivs_lineage s) (cg_organisation_id g, cg_id g) = None"
      "list_all (\<lambda>b. gs_bindings (ivs_lineage s) (cb_organisation_id b, cb_id b) = None) bs"
    by (auto simp: check_import_absent_def Let_def bindr_eq_Inr require_eq_Inr)
  have "length vs = length bs" using found(4) unfolding mapr_eq_Inr by (simp add: list_all2_lengthD)
  moreover have "length rs = length bs" using list_all2_lengthD [OF found(5) [unfolded mapr_eq_Inr]] by simp
  ultimately have bound: "list_all (imported_binding c g) bs" by (rule imported_bindings [OF found(6)])
  note g = imported_lineage [OF found(2)]
  show ?thesis
  proof (rule imported [where c = c and g = g and bindings = bs and v = v])
    show "intact sha fmt (mc_organisation_id c) (mc_id c) (mc_control_version c) v"
      using g assms(2) by (simp add: intact_def)
    show "ivs_lineage t = fold put_binding bs (put_generation (mc_organisation_id c) (cg_id g) g
       (put_credential (mc_organisation_id c) (mc_id c) c (ivs_lineage s)))"
      using g by (simp add: found(7) imported_store_fields)
    show "ivs_controls t = (ivs_controls s)((mc_organisation_id c, mc_id c, mc_control_version c) \<mapsto> v)"
      using g by (simp add: found(7) imported_store_fields)
  qed (use g absent bound found(3) assms(3-5) in simp_all)
qed

lemma change_import:
  assumes "distinct (mc_consumer_ids credential)" "active \<longrightarrow> cg_state generation = GenActive"
  shows "change (inventory_effect (ivn_sha sv) (ivn_fmt sv) active)
    (import_credential sv credential generation bindings preferences actor parts) s"
  unfolding import_credential_def Let_def case_prod_beta
proof (intro change_bindx quiet quiet_steps; (rule inventory_effect_refl)?)
  fix hex s2 compiled s3 d s4 v s5 active_cs bound now management secret_store
  assume compiled: "checked_value (compile_controls (ivn_sha sv) (ivn_fmt sv) hex credential bindings (map fst bound)
      (map snd (put_connections (concat (map snd bound)) (put_connections [management, secret_store] (put_connections active_cs []))))
      preferences actor now) s2 = (Inr compiled, s3)"
    and v: "checked_value (validate_control_version
      \<lparr>cv_id = mc_control_version credential, cv_organisation_id = mc_organisation_id credential, cv_credential_id = mc_id credential,
       cv_number = 1, cv_definition = fst compiled, cv_digest = d, cv_created_by = actor, cv_created_at = now\<rparr>) s4 = (Inr v, s5)"
  from compiled have "revocable (fst compiled)"
    by (cases compiled) (auto simp: checked_value_Inr dest: compiled_revocable)
  with v have "validate_control_version v = Inr v" "revocable (cv_definition v)"
    by (auto simp: checked_value_Inr validate_control_version_ok)
  with assms show "change (inventory_effect (ivn_sha sv) (ivn_fmt sv) active)
      (inventory_tx (repo_import_credential (ivn_sha sv) (ivn_fmt sv) (ivn_ip sv) credential generation bindings v (snd compiled) parts)) s5"
    by (intro change_tx inventory_effect_refl import_effect)
qed

lemma change_import_discovered:
  assumes "distinct (mc_consumer_ids credential)" "active \<longrightarrow> cg_state generation = GenActive"
  shows "change (inventory_effect (ivn_sha sv) (ivn_fmt sv) active)
    (import_discovered_credential sv credential generation consumer preferences actor) s"
  unfolding import_discovered_credential_def Let_def case_prod_beta
  by (intro change_bindx quiet change_import assms; (rule inventory_effect_refl)?)


end
