(* ===== verification/Inventory_Theorems.thy ===== *)
theory Inventory_Theorems imports Inventory_Facts Compiler_Theorems begin

text \<open>
  What any history of the inventory keeps of the controls and of the generations of its credentials.
\<close>

section \<open>Histories\<close>

text \<open>
  The calls of the inventory service, the session of a connection, the calls of the generation repository, and what
  other services write: connections (playbooks that are attached), probe versions and playbook versions.
\<close>

datatype inventory_call =
    Inventory_Connection connection
  | Inventory_Application application
  | Inventory_Environment environment
  | Inventory_Service consumer_service
  | Inventory_Setup application environment consumer_service
  | Inventory_Discovered_Service string string string string string string
  | Inventory_Discovered_Setup string string string string string string "string option"
  | Inventory_Import managed_credential credential_generation "consumer_binding list" control_preferences string
      "service_setup option"
  | Inventory_Import_Discovered managed_credential credential_generation runtime_consumer_setup control_preferences string
  | Inventory_Edit_Connection string string int "string option" "string list option" "string list option" "string option"
  | Inventory_Edit_Application string string int "string option" "string list option"
  | Inventory_Edit_Environment string string int "string option" "bool option" "string option"
  | Inventory_Edit_Service string string int service_edit
  | Inventory_Edit_Credential string string int "string option"
  | Inventory_Controls string string int string control_preferences string
  | Inventory_Archive_Connection string string int bool
  | Inventory_Archive_Application string string int bool
  | Inventory_Archive_Environment string string int bool
  | Inventory_Archive_Service string string int bool
  | Inventory_Archive_Credential string string int bool
  | Inventory_Session string string int "string option" connection_status int
  | Inventory_Generation string generation_call
  | Inventory_Others "string \<times> string \<rightharpoonup> connection" "string \<times> string \<rightharpoonup> probe_version"
      "string \<times> string \<times> string \<rightharpoonup> playbook_version"

fun inventory_perform :: "'w inventory_service \<Rightarrow> inventory_call \<Rightarrow> 'w inventory_state \<Rightarrow> 'w inventory_state" where
  "inventory_perform sv (Inventory_Connection c) s = snd (add_connection sv c s)"
| "inventory_perform sv (Inventory_Application a) s = snd (add_application a s)"
| "inventory_perform sv (Inventory_Environment e) s = snd (add_environment e s)"
| "inventory_perform sv (Inventory_Service v) s = snd (add_service sv v s)"
| "inventory_perform sv (Inventory_Setup a e v) s = snd (add_application_setup sv a e v s)"
| "inventory_perform sv (Inventory_Discovered_Service org v a e c r) s = snd (add_discovered_service sv org v a e c r s)"
| "inventory_perform sv (Inventory_Discovered_Setup org a e v c r name) s =
     snd (add_discovered_application_setup sv org a e v c r name s)"
| "inventory_perform sv (Inventory_Import c g bs p actor parts) s = snd (import_credential sv c g bs p actor parts s)"
| "inventory_perform sv (Inventory_Import_Discovered c g consumer p actor) s =
     snd (import_discovered_credential sv c g consumer p actor s)"
| "inventory_perform sv (Inventory_Edit_Connection org i n name capabilities resources region) s =
     snd (update_connection sv org i n name capabilities resources region s)"
| "inventory_perform sv (Inventory_Edit_Application org i n name repositories) s =
     snd (update_application sv org i n name repositories s)"
| "inventory_perform sv (Inventory_Edit_Environment org i n name production region) s =
     snd (update_environment sv org i n name production region s)"
| "inventory_perform sv (Inventory_Edit_Service org i n edit) s = snd (update_service sv org i n edit s)"
| "inventory_perform sv (Inventory_Edit_Credential org i n name) s = snd (update_credential sv org i n name s)"
| "inventory_perform sv (Inventory_Controls org i n v p actor) s = snd (replace_controls sv org i n v p actor s)"
| "inventory_perform sv (Inventory_Archive_Connection org i n cascade) s = snd (archive_connection sv org i n cascade s)"
| "inventory_perform sv (Inventory_Archive_Application org i n cascade) s = snd (archive_application sv org i n cascade s)"
| "inventory_perform sv (Inventory_Archive_Environment org i n cascade) s = snd (archive_environment sv org i n cascade s)"
| "inventory_perform sv (Inventory_Archive_Service org i n cascade) s = snd (archive_service sv org i n cascade s)"
| "inventory_perform sv (Inventory_Archive_Credential org i n cascade) s = snd (archive_credential sv org i n cascade s)"
| "inventory_perform sv (Inventory_Session org i n reference status at) s =
     snd (inventory_tx (update_authentication (ivn_ip sv) org i n reference status at) s)"
| "inventory_perform sv (Inventory_Generation org call) s =
     snd (inventory_tx (\<lambda>store. bindr (perform org call (ivs_lineage store)) (\<lambda>l. Inr ((), store\<lparr>ivs_lineage := l\<rparr>))) s)"
| "inventory_perform sv (Inventory_Others connections probes playbooks) s =
     s\<lparr>ivx_store := (ivx_store s)\<lparr>ivs_connections := connections, ivs_probes := probes, ivs_playbooks := playbooks\<rparr>\<rparr>"

definition inventory_run :: "'w inventory_service \<Rightarrow> inventory_call list \<Rightarrow> 'w inventory_state \<Rightarrow> 'w inventory_state" where
  "inventory_run sv calls s = foldl (\<lambda>s call. inventory_perform sv call s) s calls"

definition no_inventory :: inventory_store where
  "no_inventory =
     \<lparr>ivs_connections = Map.empty, ivs_applications = Map.empty, ivs_environments = Map.empty, ivs_services = Map.empty,
      ivs_lineage = \<lparr>gs_credentials = Map.empty, gs_generations = Map.empty, gs_bindings = Map.empty, gs_reports = Map.empty\<rparr>,
      ivs_controls = Map.empty, ivs_probes = Map.empty, ivs_playbooks = Map.empty\<rparr>"

text \<open>What the contracts of the arguments check, and imports of active generations only.\<close>

fun call_checked :: "inventory_call \<Rightarrow> bool" where
  "call_checked (Inventory_Import c g bs p actor parts) \<longleftrightarrow> validate_credential c = Inr c"
| "call_checked (Inventory_Import_Discovered c g consumer p actor) \<longleftrightarrow> validate_credential c = Inr c"
| "call_checked (Inventory_Controls org i n v p actor) \<longleftrightarrow> preferences_ok p"
| "call_checked _ \<longleftrightarrow> True"

fun imports_active :: "inventory_call \<Rightarrow> bool" where
  "imports_active (Inventory_Import c g bs p actor parts) \<longleftrightarrow> cg_state g = GenActive"
| "imports_active (Inventory_Import_Discovered c g consumer p actor) \<longleftrightarrow> cg_state g = GenActive"
| "imports_active _ \<longleftrightarrow> True"

lemma valid_consumers: "validate_credential c = Inr c \<Longrightarrow> distinct (mc_consumer_ids c)"
  by (auto simp: validate_inverts validate_rotation_due_def bindr_eq_Inr require_eq_Inr)

lemma changeD:
  "change (inventory_effect sha fmt active) f s \<Longrightarrow> inventory_effect sha fmt active (ivx_store s) (ivx_store (snd (f s)))"
  by (simp add: change_def)

lemma perform_inventory_effect:
  assumes sound: "controls_sound (ivn_sha sv) (ivn_fmt sv) (ivx_store s)"
    and checked: "call_checked call" "active \<longrightarrow> imports_active call"
  shows "inventory_effect (ivn_sha sv) (ivn_fmt sv) active (ivx_store s) (ivx_store (inventory_perform sv call s))"
proof (cases call)
  case (Inventory_Import c g bs p actor parts)
  show ?thesis
    unfolding Inventory_Import inventory_perform.simps
    by (rule changeD, rule change_import) (use checked Inventory_Import valid_consumers in auto)
next
  case (Inventory_Import_Discovered c g consumer p actor)
  show ?thesis
    unfolding Inventory_Import_Discovered inventory_perform.simps
    by (rule changeD, rule change_import_discovered) (use checked Inventory_Import_Discovered valid_consumers in auto)
next
  case (Inventory_Controls org i n v p actor)
  show ?thesis
    unfolding Inventory_Controls inventory_perform.simps
    by (rule changeD, rule change_replace_controls [OF sound]) (use checked Inventory_Controls in simp)
next
  case (Inventory_Generation org call')
  then show ?thesis
    by (auto simp: inventory_tx_def bindr_def intro: generation perform_effect split: sum.splits)
next
  case (Inventory_Others connections probes playbooks)
  then show ?thesis by (auto intro: retained)
qed (simp, rule changeD, ((rule effect_untouched, rule untouched_services untouched_repository)
     | rule change_archives [OF sound] change_update_credential [OF sound]))+

lemma inventory_history:
  assumes "controls_sound (ivn_sha sv) (ivn_fmt sv) (ivx_store s)" "list_all call_checked calls"
  shows "controls_sound (ivn_sha sv) (ivn_fmt sv) (ivx_store (inventory_run sv calls s))"
    and "ivs_controls (ivx_store s) k = Some d \<Longrightarrow> ivs_controls (ivx_store (inventory_run sv calls s)) k = Some d"
    and "list_all imports_active calls \<Longrightarrow> lineage_ok (ivs_lineage (ivx_store s)) \<Longrightarrow>
      lineage_ok (ivs_lineage (ivx_store (inventory_run sv calls s)))"
proof -
  have "controls_sound (ivn_sha sv) (ivn_fmt sv) (ivx_store (inventory_run sv calls s))
    \<and> (\<forall>k d. ivs_controls (ivx_store s) k = Some d \<longrightarrow> ivs_controls (ivx_store (inventory_run sv calls s)) k = Some d)
    \<and> (list_all imports_active calls \<longrightarrow> lineage_ok (ivs_lineage (ivx_store s)) \<longrightarrow>
        lineage_ok (ivs_lineage (ivx_store (inventory_run sv calls s))))"
    using assms
  proof (induction calls arbitrary: s)
    case Nil
    then show ?case by (simp add: inventory_run_def)
  next
    case (Cons call calls)
    let ?t = "inventory_perform sv call s"
    have any: "inventory_effect (ivn_sha sv) (ivn_fmt sv) False (ivx_store s) (ivx_store ?t)"
      using Cons.prems by (intro perform_inventory_effect) simp_all
    note t = controls_effect [OF any Cons.prems(1)]
    have run: "inventory_run sv (call # calls) s = inventory_run sv calls ?t" by (simp add: inventory_run_def)
    have "lineage_ok (ivs_lineage (ivx_store ?t))" if "imports_active call" "lineage_ok (ivs_lineage (ivx_store s))"
      using Cons.prems that by (intro lineage_inventory_effect [OF perform_inventory_effect]) simp_all
    with Cons.IH [OF t] Cons.prems(2) controls_kept [OF any Cons.prems(1)] show ?case
      unfolding run by simp
  qed
  then show "controls_sound (ivn_sha sv) (ivn_fmt sv) (ivx_store (inventory_run sv calls s))"
    and "ivs_controls (ivx_store s) k = Some d \<Longrightarrow> ivs_controls (ivx_store (inventory_run sv calls s)) k = Some d"
    and "list_all imports_active calls \<Longrightarrow> lineage_ok (ivs_lineage (ivx_store s)) \<Longrightarrow>
      lineage_ok (ivs_lineage (ivx_store (inventory_run sv calls s)))"
    by blast+
qed

lemma no_inventory_sound: "controls_sound sha fmt no_inventory" "lineage_ok (ivs_lineage no_inventory)"
  by (simp_all add: controls_sound_def no_inventory_def lineage_ok_def credentials_ok_def generations_ok_def consumers_ok_def)

lemma intact_pinned:
  assumes "st_controls st (run_organisation_id r, run_credential_id r, run_control_version r) = Some v"
    and "intact sha fmt (run_organisation_id r) (run_credential_id r) (run_control_version r) v"
  shows "pinned_controls sha fmt st r missing changed = Inr v"
  using assms
  by (auto simp: pinned_controls_def intact_def validate_control_version_ok control_version_fields_ok_def segments_ok
      bindr_eq_Inr require_eq_Inr)


section \<open>Properties\<close>

text \<open>
  C9: Every credential pins controls that the workflow accepts. After any calls of the inventory service and of the
  generation repository, from an inventory without credentials, and whatever other services write to connections and
  probes, a credential pins a control version that is stored, whose tools allow its own revocation and which is the
  highest-numbered of its versions; and after any further calls the gate of the run store still reads that very version
  for a run that pinned it: it is never changed or lost, it belongs to the credential, is valid and matches its digest.
\<close>

theorem pinned_controls_intact:
  assumes "list_all call_checked calls" "list_all call_checked later"
    and "s = inventory_run sv calls \<lparr>ivx_store = no_inventory, ivx_world = w\<rparr>"
    and "gs_credentials (ivs_lineage (ivx_store s)) (org, i) = Some c"
    and "run_organisation_id r = org" "run_credential_id r = i" "run_control_version r = mc_control_version c"
    and "st_controls st = ivs_controls (ivx_store (inventory_run sv later s))"
  shows "\<exists>v. ivs_controls (ivx_store s) (org, i, mc_control_version c) = Some v \<and> revocable (cv_definition v)
    \<and> (\<forall>u d. ivs_controls (ivx_store s) (org, i, u) = Some d \<and> u \<noteq> mc_control_version c \<longrightarrow> cv_number d < cv_number v)
    \<and> pinned_controls (ivn_sha sv) (ivn_fmt sv) st r missing changed = Inr v"
proof -
  have sound: "controls_sound (ivn_sha sv) (ivn_fmt sv) (ivx_store s)"
    unfolding assms(3) by (rule inventory_history(1) [OF _ assms(1)]) (simp add: no_inventory_sound)
  from soundD(1) [OF sound assms(4)] obtain v where
    v: "ivs_controls (ivx_store s) (org, i, mc_control_version c) = Some v"
    and last: "\<forall>u d. ivs_controls (ivx_store s) (org, i, u) = Some d \<longrightarrow> u \<noteq> mc_control_version c \<longrightarrow> cv_number d < cv_number v"
    by blast
  have "pinned_controls (ivn_sha sv) (ivn_fmt sv) st r missing changed = Inr v"
    using inventory_history(2) [OF sound assms(2) v] soundD(2) [OF sound v] by (intro intact_pinned) (simp_all add: assms(5-8))
  with v last soundD(2) [OF sound v] show ?thesis by blast
qed

text \<open>
  From an empty inventory, imports of active generations and any other calls lead to the consistent lineage that
  \<open>consumers_follow_promotion\<close> starts from.
\<close>

lemma inventory_lineage:
  assumes "list_all call_checked calls" "list_all imports_active calls"
  shows "lineage_ok (ivs_lineage (ivx_store (inventory_run sv calls \<lparr>ivx_store = no_inventory, ivx_world = w\<rparr>)))"
  using inventory_history(3) [OF _ assms(1), of sv "\<lparr>ivx_store = no_inventory, ivx_world = w\<rparr>"] assms(2)
  by (simp add: no_inventory_sound)

text \<open>The state of the imported generation is never checked: with any other state the credential has no active generation.\<close>

lemma import_of_inactive_generation:
  assumes "repo_import_credential sha fmt ip c g bs v ps parts s = Inr (x, t)" "cg_state g \<noteq> GenActive"
  shows "\<not> lineage_ok (ivs_lineage t)"
proof
  assume ok: "lineage_ok (ivs_lineage t)"
  from assms(1) have lineage: "check_import_lineage sha fmt c g v = Inr ()" and t: "t = imported_store c g bs v ps parts s"
    by (auto simp: repo_import_credential_def Let_def bindr_eq_Inr require_eq_Inr)
  from imported_lineage [OF lineage]
  have "gs_credentials (ivs_lineage t) (mc_organisation_id c, mc_id c) = Some c"
      "gs_generations (ivs_lineage t) (mc_organisation_id c, cg_id g) = Some g" "mc_active_generation_id c = Some (cg_id g)"
    by (auto simp: t imported_store_fields)
  with active_generation [OF ok this(1,3)] assms(2) show False by auto
qed

section \<open>An example\<close>

definition ex_site_browser :: connection where
  "ex_site_browser = ex_provider\<lparr>con_status := Con_Ready, con_authorization_reference := Some ''session'',
     con_playbook_id := Some ''book'', con_playbook_version_id := Some ''version''\<rparr>"

definition ex_safe :: connection where
  "ex_safe = ex_vault\<lparr>con_status := Con_Ready, con_authorization_reference := Some ''workload''\<rparr>"

definition ex_host :: connection where
  "ex_host = ex_safe\<lparr>con_id := ''runtime'', con_roles := [Role_Runtime], con_capabilities := [''runtime.listServices''],
     con_allowed_resources := [''web'']\<rparr>"

definition ex_imported :: managed_credential where
  "ex_imported = ex_tool_credential\<lparr>mc_kind := ''api-key'', mc_consumer_ids := [''svc''], mc_active_generation_id := Some ''old''\<rparr>"

definition ex_first_generation :: credential_generation where
  "ex_first_generation = (ex_prepared ''old'')\<lparr>cg_secret_reference := Some ''secrets/key/versions/1''\<rparr>"

definition ex_parts :: service_setup where
  "ex_parts =
     (\<lparr>app_id = ''app'', app_organisation_id = ''org'', app_display_name = ''App'', app_repository_ids = [], app_created_at = 0,
       app_updated_at = 0, app_archived_at = None, app_revision = 0\<rparr>,
      \<lparr>env_id = ''env'', env_organisation_id = ''org'', env_application_id = ''app'', env_display_name = ''production'',
       env_production = True, env_region = ''europe'', env_created_at = 0, env_updated_at = 0, env_archived_at = None,
       env_revision = 0\<rparr>, ex_site)"

definition ex_running :: runtime_resource_metadata where
  "ex_running =
     \<lparr>rrm_reference = ''web'', rrm_display_name = ''Web'', rrm_endpoint = None, rrm_identity = None, rrm_region = None,
      rrm_environment_name = None, rrm_production = None,
      rrm_secret_bindings = [\<lparr>sbm_name = ''name'', sbm_secret = ''secrets/key'', sbm_version = ''1'', sbm_container = None\<rparr>]\<rparr>"

definition ex_inventory_service :: "unit inventory_service" where
  "ex_inventory_service =
     \<lparr>ivn_sha = ex_sha, ivn_fmt = ex_fmt, ivn_ip = (\<lambda>_. True), ivn_keys = [''con'', ''vault'', ''runtime''],
      ivn_clock = (\<lambda>w. (0, w)), ivn_tokens = (\<lambda>w. (ex_tokens, w)), ivn_instant = (\<lambda>_. None),
      ivn_provider_metadata = None, ivn_credential_verifier = None,
      ivn_secret_metadata = Some \<lparr>scl_resources = (\<lambda>_ w. (Inr [], w)),
        scl_versions = (\<lambda>_ _ w. (Inr [[(''name'', JStr ''secrets/key/versions/1''), (''state'', JStr ''ENABLED'')]], w))\<rparr>,
      ivn_runtime_metadata = Some (\<lambda>_ w. (Inr [Inr ex_running], w))\<rparr>"

definition ex_connected :: "unit inventory_state" where
  "ex_connected = \<lparr>ivx_store = no_inventory\<lparr>ivs_connections := Map.empty((''org'', ''con'') \<mapsto> ex_site_browser,
     (''org'', ''vault'') \<mapsto> ex_safe, (''org'', ''runtime'') \<mapsto> ex_host)\<rparr>, ivx_world = ()\<rparr>"

text \<open>An operation that reads leaves a state without an outside world as it is.\<close>

lemma quiet_result:
  fixes s :: "unit inventory_state"
  assumes "fst (f s) = Inr x" "keeps same_store f"
  shows "f s = (Inr x, s)"
  using keepsD [OF assms(2), of s "fst (f s)" "snd (f s)"] assms(1) by (cases "f s") (auto simp: same_store_def)


lemma ex_reads:
  "fetch_connection ex_inventory_service ''org'' ''con'' ex_connected = (Inr ex_site_browser, ex_connected)"
  "fetch_connection ex_inventory_service ''org'' ''vault'' ex_connected = (Inr ex_safe, ex_connected)"
  "fetch_connection ex_inventory_service ''org'' ''runtime'' ex_connected = (Inr ex_host, ex_connected)"
  by (rule quiet_result, code_simp, intro quiet quiet_steps)+

lemma ex_lists:
  "check_imported_credential ex_imported ex_first_generation [ex_consumer] ex_connected = (Inr (), ex_connected)"
  "list_active_connections ex_inventory_service ''org'' ex_connected = (Inr [ex_site_browser, ex_safe, ex_host], ex_connected)"
  "list_runtime_resources ex_inventory_service ''org'' ''runtime'' ex_connected = (Inr [ex_running], ex_connected)"
  "verify_import_binding ex_inventory_service ex_imported ex_site_browser ex_safe ex_connected = (Inr (), ex_connected)"
  by (rule quiet_result, code_simp, intro quiet quiet_steps)+

lemma ex_import_checks:
  "provider_ready (mc_provider ex_imported) ex_site_browser" "\<not> playbook_missing ex_site_browser"
  "role_ready Role_Secret_Store ex_safe" "resource_covered (mc_secret_resource ex_imported) (con_allowed_resources ex_safe)"
  "role_ready Role_Runtime ex_host" "is_setup_service (Some ex_parts) (cb_service_id ex_consumer)"
  "runtime_binding_matches ex_running (mc_secret_resource ex_imported) (mc_secret_reference ex_imported)
     (cb_runtime_secret_name ex_consumer) (cb_runtime_container_name ex_consumer)"
  by code_simp+

lemma ex_import_fields:
  "mc_organisation_id ex_imported = ''org''" "mc_connection_id ex_imported = ''con''"
  "mc_secret_store_connection_id ex_imported = ''vault''" "cb_runtime_connection_id ex_consumer = ''runtime''"
  "cb_runtime_resource ex_consumer = rrm_reference ex_running" "cb_environment_id ex_consumer = csv_environment_id ex_site"
  "csv_runtime_connection_id ex_site = ''runtime''" "csv_runtime_resource ex_site = rrm_reference ex_running"
  "Some (cb_secret_reference ex_consumer) = cg_secret_reference ex_first_generation"
  "csv_telemetry_connection_ids ex_site = []" "setup_service (Some ex_parts) = Some ex_site"
  by (simp_all add: ex_imported_def ex_tool_credential_def ex_consumer_def ex_running_def ex_site_def ex_first_generation_def
      setup_service_def ex_parts_def)

lemma ex_binding_imported:
  "import_binding ex_inventory_service ex_imported ex_first_generation (Some ex_parts) ex_consumer ex_connected =
     (Inr (ex_site, [ex_host]), ex_connected)"
  by (simp add: import_binding_def binding_service_def Let_def bindx_def yields_def demand_def requires_def ex_reads ex_lists
      ex_import_checks ex_import_fields)

section \<open>Its controls\<close>

lemma ex_imported_probes:
  "all_probes ex_imported [ex_consumer] [ex_site] [ex_site_browser, ex_safe, ex_host] (ex_preferences a) = Inr (True, ex_drafts)"
proof -
  have "secret_probe ex_imported ex_safe = secret_probe ex_tool_credential ex_vault"
      "runtime_probe ex_imported = runtime_probe ex_tool_credential"
    by (simp_all add: fun_eq_iff secret_probe_def runtime_probe_def probe_draft_def ex_imported_def ex_tool_credential_def ex_safe_def ex_vault_def)
  then show ?thesis
    by (simp add: all_probes_def lookup_by_def dict_by_def binding_probes_def ex_imported_def ex_tool_credential_def
        ex_consumer_def ex_site_def ex_site_browser_def ex_safe_def ex_host_def ex_provider_def ex_vault_def
        credential_probes_def ex_drafts_def)
qed

lemma ex_import_compiles:
  "compile_controls ex_sha ex_fmt ex_tokens ex_imported [ex_consumer] [ex_site] [ex_site_browser, ex_safe, ex_host]
     (ex_preferences a) ''user'' 0 = Inr (ex_compiled a, map snd ex_active_versions)"
proof -
  have "telemetry_enabled [ex_site] [ex_consumer] = False" by code_simp
  moreover have "validate_exposure_sources [ex_site_browser, ex_safe, ex_host] (ex_preferences a) = Inr ()"
    by (simp add: validate_exposure_sources_def ex_preferences_def)
  moreover have "active_version ex_sha ex_fmt ex_tokens ex_imported ''user'' 0 = active_version ex_sha ex_fmt ex_tokens ex_tool_credential ''user'' 0"
    by (simp add: fun_eq_iff active_version_def ex_imported_def)
  ultimately show ?thesis
    using ex_compiled_valid [of a] by (simp add: compile_controls_def ex_imported_probes ex_versions ex_compiled_def)
qed

lemma stage_value_inj: "inj stage_value"
  by (rule injI) (case_tac x; case_tac y; simp)

lemma stage_dict_canonical:
  assumes "distinct (map fst kvs)" "\<And>st v. (st, v) \<in> set kvs \<Longrightarrow> canonical_ok (f v)"
  shows "opt_ok canonical_ok (dump_stage_dict f kvs)"
proof -
  let ?kvs = "map (\<lambda>(st, v). (KeyEnum (stage_value st), f v)) kvs"
  have keys: "map (key_text \<circ> fst) ?kvs = map stage_value (map fst kvs)" by (induction kvs) auto
  have "distinct (map stage_value (map fst kvs))"
    using assms(1) stage_value_inj by (subst distinct_map) (auto intro: inj_on_subset)
  then have "distinct (map (key_text \<circ> fst) ?kvs)" unfolding keys .
  moreover have "list_all (\<lambda>kv. canonical_ok (snd kv)) ?kvs" using assms(2) by (auto simp: list_all_iff)
  ultimately have "canonical_ok (PyDict ?kvs)" by (rule canonical_ok_dict)
  then show ?thesis by (simp add: dump_stage_dict_def)
qed

lemma controls_canonical:
  assumes "distinct (map fst (cd_required_checks d))" "distinct (map fst (cd_probe_versions d))" "distinct (map fst (cd_recovery d))"
    and "\<And>st b. (st, b) \<in> set (cd_recovery d) \<Longrightarrow> canonical_ok (dump_recovery_branch b)"
  shows "canonical_ok (dump_control_definition d)"
proof -
  have "canonical_ok (dump_exposure_source e)" for e
    unfolding dump_exposure_source_def by (rule canonical_ok_fields; simp add: list_all_iff)
  then show ?thesis
    unfolding dump_control_definition_def
    by (intro canonical_ok_fields)
       (use assms in \<open>simp_all add: stage_dict_canonical dump_strings_def list_all_iff\<close>)
qed


lemma rollback_canonical: "canonical_ok (dump_recovery_branch (rollback_branch bindings))"
proof -
  have "canonical_ok (dump_recovery_action x)" if "x \<in> set (rb_actions (rollback_branch bindings))" for x
    using that unfolding dump_recovery_action_def rollback_branch_def
    by (intro canonical_ok_fields) (auto simp: list_all_iff canonical_ok_dict)
  then show ?thesis
    unfolding dump_recovery_branch_def by (intro canonical_ok_fields) (simp_all add: list_all_iff)
qed

lemma ex_digests:
  "digest ex_sha ex_fmt (dump_control_definition (ex_compiled a)) = Inr ex_hash"
  "p \<in> set (map snd ex_active_versions) \<Longrightarrow> digest ex_sha ex_fmt (dump_probe_definition (pv_definition p)) = Inr (pv_digest p)"
proof -
  have "distinct (map fst (cd_required_checks (ex_compiled True)))" "distinct (map fst (cd_required_checks (ex_compiled False)))"
    "distinct (map fst (cd_probe_versions (ex_compiled True)))" "distinct (map fst (cd_probe_versions (ex_compiled False)))"
    by code_simp+
  then have "distinct (map fst (cd_required_checks (ex_compiled a)))" "distinct (map fst (cd_probe_versions (ex_compiled a)))"
    by (cases a; simp)+
  moreover have "distinct (map fst (cd_recovery (ex_compiled a)))"
      "\<And>st b. (st, b) \<in> set (cd_recovery (ex_compiled a)) \<Longrightarrow> canonical_ok (dump_recovery_branch b)"
    using rollback_canonical by (auto simp: ex_compiled_def compiled_definition_def Let_def)
  ultimately have "canonical_ok (dump_control_definition (ex_compiled a))" by (rule controls_canonical)
  from digest_ok [OF this, of ex_sha ex_fmt]
  show "digest ex_sha ex_fmt (dump_control_definition (ex_compiled a)) = Inr ex_hash" by (simp add: ex_sha_def)
  show "digest ex_sha ex_fmt (dump_probe_definition (pv_definition p)) = Inr (pv_digest p)" if "p \<in> set (map snd ex_active_versions)"
  proof -
    from that obtain st where "(st, p) \<in> set ex_active_versions" by auto
    from mapr_source [OF ex_versions this] show ?thesis
      by (auto simp: active_version_def bindr_eq_Inr validate_probe_version_def validate_version_def require_eq_Inr split: if_splits)
  qed
qed

definition ex_first_controls :: control_version where
  "ex_first_controls =
     \<lparr>cv_id = ''ctl'', cv_organisation_id = ''org'', cv_credential_id = ''key'', cv_number = 1,
      cv_definition = ex_compiled True, cv_digest = ex_hash, cv_created_by = ''user'', cv_created_at = 0\<rparr>"

lemma ex_first_controls_valid: "validate_control_version ex_first_controls = Inr ex_first_controls"
proof -
  have "control_version_fields_ok ex_first_controls" by code_simp
  then show ?thesis
    using ex_compiled_valid [of True] by (simp add: validate_control_version_def ex_first_controls_def)
qed

lemma ex_repository:
  "is_ok (segments ([''org'', mc_id ex_imported, cg_organisation_id ex_first_generation, cg_id ex_first_generation,
     cv_organisation_id ex_first_controls, cv_credential_id ex_first_controls, cv_id ex_first_controls, ''con'', ''vault'']
     @ concat (map (\<lambda>p. [pv_organisation_id p, pv_id p]) (map snd ex_active_versions))
     @ concat (map binding_segments [ex_consumer]) @ setup_segments (Some ex_parts)))"
  "is_ok (check_import_absent ex_imported ex_first_generation [ex_consumer] ex_first_controls (map snd ex_active_versions)
     (Some ex_parts) (ivx_store ex_connected))"
  "services_present (Some ex_parts) (ivx_store ex_connected) [ex_consumer]"
  "is_ok (check_import_connections ex_imported ex_site_browser ex_safe)"
  "list_all (\<lambda>p. pv_organisation_id p = ''org'' \<and> pv_id p \<in> controlled_probes (ex_compiled True) \<and> pv_state p = Probe_Active)
     (map snd ex_active_versions)"
  "consumers_match ex_imported [ex_consumer]"
  "is_ok (check_import_setup ex_imported (Some ex_parts))"
  "is_ok (check_import_binding ex_imported ex_first_generation (ex_consumer, ex_site, ex_host))"
  "distinct (map (\<lambda>p. (pv_organisation_id p, pv_id p)) (map snd ex_active_versions))"
  by code_simp+


lemma ex_connections_valid:
  "validate_connection (\<lambda>_. True) ex_site_browser = Inr ex_site_browser"
  "validate_connection (\<lambda>_. True) ex_safe = Inr ex_safe" "validate_connection (\<lambda>_. True) ex_host = Inr ex_host"
  by code_simp+

lemma ex_connections_stored:
  "ivs_connections (ivx_store ex_connected) (''org'', ''con'') = Some ex_site_browser"
  "ivs_connections (ivx_store ex_connected) (''org'', ''vault'') = Some ex_safe"
  "ivs_connections (ivx_store ex_connected) (''org'', ''runtime'') = Some ex_host"
  by (simp_all add: ex_connected_def)

lemma is_ok_unit: "is_ok r \<longleftrightarrow> r = Inr ()" for r :: "unit result"
  by (auto simp: is_ok_iff)

lemma ex_imports_stored:
  "repo_import_credential ex_sha ex_fmt (\<lambda>_. True) ex_imported ex_first_generation [ex_consumer] ex_first_controls
     (map snd ex_active_versions) (Some ex_parts) (ivx_store ex_connected) =
   Inr (ex_imported, imported_store ex_imported ex_first_generation [ex_consumer] ex_first_controls (map snd ex_active_versions)
     (Some ex_parts) (ivx_store ex_connected))"
proof -
  have "check_import_lineage ex_sha ex_fmt ex_imported ex_first_generation ex_first_controls = Inr ()"
    using ex_digests(1) [of True]
    by (simp add: check_import_lineage_def ex_imported_def ex_tool_credential_def ex_first_generation_def ex_prepared_def
        ex_first_controls_def)
  moreover have "\<exists>us. mapr (check_import_probe ex_sha ex_fmt ex_imported ex_first_controls) (map snd ex_active_versions) = Inr us"
  proof -
    have "check_import_probe ex_sha ex_fmt ex_imported ex_first_controls p = Inr ()" if "p \<in> set (map snd ex_active_versions)" for p
      using that ex_digests(2) [OF that] ex_repository(5)
      by (auto simp: check_import_probe_def ex_import_fields list_all_iff ex_first_controls_def)
    then show ?thesis using mapr_total [of "map snd ex_active_versions" _ "\<lambda>_. ()"] by blast
  qed
  moreover have "imported_service (Some ex_parts) (ivx_store ex_connected) ex_consumer = Inr ex_site"
    using ex_import_checks(6) by (simp add: imported_service_def ex_import_fields)
  moreover have "cb_organisation_id ex_consumer = ''org''" by (simp add: ex_consumer_def)
  ultimately show ?thesis
    using ex_repository
    by (auto simp: repo_import_credential_def Let_def is_ok_unit ex_import_fields ex_connections_stored ex_connections_valid present_def)
qed

lemma ex_import:
  "import_credential ex_inventory_service ex_imported ex_first_generation [ex_consumer] (ex_preferences True) ''user''
     (Some ex_parts) ex_connected =
   (Inr ex_imported, ex_connected\<lparr>ivx_store := imported_store ex_imported ex_first_generation [ex_consumer] ex_first_controls
     (map snd ex_active_versions) (Some ex_parts) (ivx_store ex_connected)\<rparr>)"
proof -
  have table: "map snd (put_connections [ex_host] (put_connections [ex_site_browser, ex_safe]
      (put_connections [ex_site_browser, ex_safe, ex_host] []))) = [ex_site_browser, ex_safe, ex_host]"
    by (simp add: put_connections_def ex_site_browser_def ex_safe_def ex_host_def ex_provider_def ex_vault_def)
  have controls: "validate_control_version
      \<lparr>cv_id = mc_control_version ex_imported, cv_organisation_id = ''org'', cv_credential_id = mc_id ex_imported, cv_number = 1,
       cv_definition = ex_compiled True, cv_digest = ex_hash, cv_created_by = ''user'', cv_created_at = 0\<rparr> = Inr ex_first_controls"
    using ex_first_controls_valid by (simp add: ex_first_controls_def ex_imported_def ex_tool_credential_def)
  have service: "ivn_sha ex_inventory_service = ex_sha" "ivn_fmt ex_inventory_service = ex_fmt"
      "ivn_ip ex_inventory_service = (\<lambda>_. True)" "ivn_clock ex_inventory_service = (\<lambda>w. (0, w))"
      "ivn_tokens ex_inventory_service = (\<lambda>w. (ex_tokens, w))"
    by (simp_all add: ex_inventory_service_def)
  show ?thesis
    by (simp add: import_credential_def Let_def bindx_def yields_def demand_def requires_def consulting_def checked_value_def
        inventory_tx_def ex_reads ex_lists ex_import_checks ex_import_fields ex_binding_imported table controls service
        ex_import_compiles ex_digests(1) ex_imports_stored)
qed


text \<open>Connections that others set up, the import, then other controls and another name.\<close>

definition ex_imports :: "inventory_call list" where
  "ex_imports =
     [Inventory_Others (ivs_connections (ivx_store ex_connected)) Map.empty Map.empty,
      Inventory_Import ex_imported ex_first_generation [ex_consumer] (ex_preferences True) ''user'' (Some ex_parts)]"

definition ex_edits :: "inventory_call list" where
  "ex_edits =
     [Inventory_Controls ''org'' ''key'' 0 ''ctl2'' (ex_preferences False) ''user'',
      Inventory_Edit_Credential ''org'' ''key'' 1 (Some ''Renamed'')]"

abbreviation ex_first_state :: "unit inventory_state" where
  "ex_first_state \<equiv> inventory_run ex_inventory_service ex_imports \<lparr>ivx_store = no_inventory, ivx_world = ()\<rparr>"

lemma ex_first_credential: "gs_credentials (ivs_lineage (ivx_store ex_first_state)) (''org'', ''key'') = Some ex_imported"
proof -
  have "inventory_perform ex_inventory_service (Inventory_Others (ivs_connections (ivx_store ex_connected)) Map.empty Map.empty)
      \<lparr>ivx_store = no_inventory, ivx_world = ()\<rparr> = ex_connected"
    by (simp add: ex_connected_def no_inventory_def)
  then have "ex_first_state = snd (import_credential ex_inventory_service ex_imported ex_first_generation [ex_consumer]
      (ex_preferences True) ''user'' (Some ex_parts) ex_connected)"
    by (simp add: inventory_run_def ex_imports_def)
  moreover have "mc_organisation_id ex_imported = ''org''" "mc_id ex_imported = ''key''"
    by (simp_all add: ex_imported_def ex_tool_credential_def)
  ultimately show ?thesis by (simp add: ex_import imported_store_fields put_binding_def)
qed

theorem pinned_controls_intact_witness:
  "\<exists>v. ivs_controls (ivx_store ex_first_state) (''org'', ''key'', ''ctl'') = Some v
     \<and> pinned_controls ex_sha ex_fmt
         (ex_store\<lparr>st_controls := ivs_controls (ivx_store (inventory_run ex_inventory_service ex_edits ex_first_state))\<rparr>)
         ex_run ''missing'' ''changed'' = Inr v"
proof -
  have "validate_credential ex_imported = Inr ex_imported" by code_simp
  then have calls: "list_all call_checked ex_imports" "list_all call_checked ex_edits"
    by (simp_all add: ex_imports_def ex_edits_def ex_preferences_ok)
  have service: "ivn_sha ex_inventory_service = ex_sha" "ivn_fmt ex_inventory_service = ex_fmt"
    by (simp_all add: ex_inventory_service_def)
  show ?thesis
    using pinned_controls_intact [OF calls refl ex_first_credential, of ex_run
        "ex_store\<lparr>st_controls := ivs_controls (ivx_store (inventory_run ex_inventory_service ex_edits ex_first_state))\<rparr>"
        "''missing''" "''changed''"]
    by (auto simp: service ex_run_def ex_imported_def ex_tool_credential_def)
qed

end
