(* ===== verification/Spec2Isabelle.thy ===== *)
theory Spec2Isabelle imports Rotation_Theorems Controls_Theorems Workflow_Theorems Delivery_Theorems Audit_Theorems Approval_Theorems Paths Generation_Theorems Incident_Theorems Capability_Theorems Stage_Theorems Compiler_Theorems Playbook_Theorems Probe_Theorems Inventory_Theorems begin
text \<open>
  Verification of uumi, a service that rotates credentials: when a credential is due, leaked or revoked, it creates
  a replacement at the provider, stores it, deploys it to the consumers, verifies them, moves the traffic, and
  revokes the old credential after a person approved it. Paths below are those under src/.

  \<^bold>\<open>The program.\<close> A rotation is a \<open>RotationRun\<close> that passes twelve stages. Its only writer is the rotation machine
  (server/core/state/machine.py), a pure function from a run and a command to a transition; the run store
  (server/core/storage/firestore.py) applies transitions in transactions and writes an outbox event for each, which
  the publisher (server/core/events/publish.py) delivers in order; the workflow (server/core/workflow) builds the
  commands. A stage is completed with a proof, and the gate (packages/policy) lists the checks a proof needs; the
  controls of a credential may only add to them. The stage coordinator (server/coordinator/service.py) executes the
  current stage: it asks agents, calls tools through the broker (server/broker), drives a browser, runs the
  deterministic probes (server/verifier), moves the generations of the credential (server/core/generation) and
  returns a result that becomes the proof. Protected calls need an approval (server/core/approval) bound to the
  digest of the action. Incidents (server/core/incident) and the automation (server/ingestion/automation.py) start
  runs. Everything of note goes to the audit log, a chain of hashes (server/core/audit).

  \<^bold>\<open>How it is modelled.\<close> Contracts are records with a predicate for the validators of pydantic, documents are maps
  from organisation and name, a transaction is a function from a store to an error or a value with the new store.
  Exceptions are values of \<open>error\<close> in the sum type \<open>'a result\<close> (Prelude). Operations that act on several stores
  and are not undone by an exception are effects (Effects): functions from a state to a result and the state that is
  left, also after an exception. Texts are lists of characters below 256; integers of Python and instants of time are
  \<open>int\<close>, because the program has no machine integers; a random or hosted service is a parameter.

  \<^bold>\<open>Theories.\<close>
  \<^item> Prelude, Effects: the result monad, effects, string classes, shared lemmas.
  \<^item> Digest, Json_Facts, Digest_Binding, Controls_Theorems: policy/digest.py, the canonical JSON of a contract and its
    digest; that the text determines the fields, and that the digest does not depend on orders.
  \<^item> Runs, Policy, Commands, Controls: the contracts of runs, plans, evidence, commands, events and controls, and the
    gate with the compilation of a policy.
  \<^item> Machine, Machine_Facts, Machine_Properties, Rotation_Theorems: the machine; inversion of every
    operation, its specification by guard and effect, histories of commands and what they keep.
  \<^item> Run_Store, Run_Store_Facts, Workflow, Workflow_Facts, Store_Progress, Store_History, Workflow_Theorems: the store
    of runs with locks, deduplication, steps and outbox, the workflow and the reaper of expired leases. The store
    relies on the machine through the locale \<open>transition_contract\<close>, which the machine is shown to meet.
  \<^item> Outbox, Outbox_Facts, Publisher, Delivery_Theorems: claims, leases, cursors and dead letters of delivery.
  \<^item> Redact, Audit_Log, Audit_Outbox, Audit_Facts, Audit_Chain, Audit_Theorems: redaction with an executable regular
    expression type, the chain of hashes, its writer and its delivery.
  \<^item> Approvals, Approval_Facts, Approval_Theorems: approvals, their store and their service.
  \<^item> Generations, Generation_Facts, Generation_Theorems: the generations of a credential and its consumers.
  \<^item> Incidents, Incident_Service, Incident_Facts, Incident_History, Incident_Theorems: incidents, their service, the
    automation; histories of their calls in any order.
  \<^item> Connections, Tools, Tool_Attempts, Broker, Broker_Facts, Broker_History, Broker_Examples, Broker_Theorems:
    the URLs and contracts of connections, the requests of tools and every check on them, the attempts of a request
    and the broker, which executes a request once.
  \<^item> Base64_Json, Json_Read, Capability, Capability_Theorems: the signed claims a mutation needs, down to
    their base64 and JSON.
  \<^item> Probes, Playbooks: the contracts of probes and browser playbooks, and the substitution of placeholders.
  \<^item> Control_Compiler, Compiler_Theorems: the compiler of the controls of a credential, and their updates.
  \<^item> Domains, Playbook_Store, Playbook_Theorems, Probe_Theorems: the catalogues of playbooks and of probes, their
    versions and their life cycle.
  \<^item> Inventory_Store, Inventory_Service, Inventory_Changes, Inventory_Facts, Inventory_Theorems: the inventory, from its
    documents and transactions (server/core/storage/inventory.py) to discovery, import, edits and archives
    (server/core/inventory/service.py); the effects of its calls on credentials, generations and controls, and histories.
  \<^item> Stage_Services, Stage_Checks, Stage_Browser, Stage_Steps, Stages, Coordinator: the coordinator, from the
    documents it reads to the twelve handlers, recovery and \<open>execute\<close>.
  \<^item> Stage_Facts, Stage_Safety, Stage_Records, Stage_Theorems: what its operations keep, proved
    along its calls with the locale \<open>kept\<close> of Effects, and its properties.
  \<^item> Paths: the paths of documents. Examples: the concrete rotation the witnesses use.

  \<^bold>\<open>Interfaces.\<close> \<open>transition_contract\<close> (machine and store), \<open>kept\<close> and \<open>kept_stage\<close> (a reflexive, transitive relation and
  the operations that keep it), and the locales of the outboxes; each is interpreted on the definitions of the model.

  \<^bold>\<open>What is shown.\<close> A completed run has the checked evidence of every stage; one active run and one active generation
  per credential; workers that lost their lease change nothing; the store and the outboxes lose, reorder and duplicate
  nothing; so does the audit log, whose chain verifies as long as the appended texts carry no surrounding white space;
  approvals and digests bind what was approved; a mutation that takes effect had a token that was minted for it, or a
  forged one; a tool is executed once and only with authority; no stage makes a protected call without a granted
  approval, and a stage that returned is not executed again; the controls that a credential pins are the last of its
  versions and stay readable, unchanged, for the runs that pinned them. The other theorems show defects: behaviour of
  the code that its authors cannot have meant.

  \<^bold>\<open>Parameters.\<close> \<open>sha\<close> is SHA-256, any function from texts to texts; theorems that need more state a collision as the
  alternative. \<open>fmt\<close> and \<open>time\<close> render instants, \<open>clock\<close> gives the successive readings of the clock, \<open>sign\<close> and
  \<open>verify\<close> are Ed25519, \<open>ip\<close> tells addresses that are IP literals. Transports, notifiers, connectors, the evidence sink,
  agents, the browser worker and single probes are functions of their arguments and of an outside world of any type,
  and may raise. None is assumed to do more than a theorem states.

  \<^bold>\<open>Bounds and fuel.\<close> Loops are structural recursion over the lists or the budgets the code has (\<open>max_events\<close>,
  \<open>max_steps\<close>, attempts), so every operation is total and no fuel can run out; the three retries of the waiter
  document are the constant of the code.

  \<^bold>\<open>Not modelled.\<close> Routes and entry points (server/api, the app.py and config.py files) parse requests and call the
  modelled services. The agents (server/agents), the browser worker (server/browser, but for playbook.py), the clients in
  server/connectors and the probes of server/verifier/probes.py act on external services over the network; only what
  the modelled code relies on is a parameter. Accounts, GitHub and Google Cloud installations, notifications, history and
  overview are not part of the path of a rotation; of the inventory, the step that completes the setup of a browser is
  left out. Queries of Firestore are evaluated in the order of names; concurrency is the interleaving of transactions. A
  call of the inventory reads before its transaction and is one step of a history: other calls come before or after. The client, infra and evidence
  directories hold no code of the server.
\<close>

end
